(* ===== verification/Prelude.thy ===== *)
theory Prelude
  imports Main
begin

text \<open>
  What every component of the development shares: Python exceptions as values, the two effect
  types the services are written in, and tables of rows.

  \<^item> \<open>'a res\<close> is a Python call that returns or raises.
  \<^item> \<open>('s, 'a) sx\<close> is a call whose effects stay when it raises: the pipeline executor, whose
    callbacks open and commit a database session of their own.
  \<^item> \<open>('s, 'a) tx\<close> is a call inside one SQLAlchemy session: a raise leaves the session
    without a commit, so no effect of the call survives it. The new state exists only in the
    returning branch.
  \<^item> \<open>db_table\<close> is the interface of one table of the database, a list of rows with a primary
    key; the theory of the domain models interprets it for every table that is used.
\<close>

named_theorems sx_simps \<open>unfolding rules of the effects that survive an exception\<close>
named_theorems tx_simps \<open>unfolding rules of the transactional effects\<close>
named_theorems frame_simps \<open>what an operation leaves unchanged\<close>

section \<open>Exceptions as values\<close>

datatype pyexc =
    ValueError string
  | TypeError string
  | KeyError string
  | LookupError string
  | IndexError string
  | AttributeError string
  | RuntimeError string
  | PermissionError string
  | PipelineCancelled string
  | OtherError string

type_synonym 'a res = "pyexc + 'a"

text \<open>The text \<open>str(exc)\<close> gives; a \<open>KeyError\<close> shows its key quoted.\<close>

fun exc_str :: "pyexc \<Rightarrow> string" where
  "exc_str (ValueError m) = m"
| "exc_str (TypeError m) = m"
| "exc_str (KeyError k) = [CHR 0x27] @ k @ [CHR 0x27]"
| "exc_str (LookupError m) = m"
| "exc_str (IndexError m) = m"
| "exc_str (AttributeError m) = m"
| "exc_str (RuntimeError m) = m"
| "exc_str (PermissionError m) = m"
| "exc_str (PipelineCancelled m) = m"
| "exc_str (OtherError m) = m"

definition rbind :: "'a res \<Rightarrow> ('a \<Rightarrow> 'b res) \<Rightarrow> 'b res" where
  "rbind r f = (case r of Inl e \<Rightarrow> Inl e | Inr x \<Rightarrow> f x)"

lemma rbind_simps [simp]:
  "rbind (Inl e) f = Inl e"
  "rbind (Inr x) f = f x"
  by (simp_all add: rbind_def)

lemma rbind_Inr_iff: "rbind r f = Inr y \<longleftrightarrow> (\<exists>x. r = Inr x \<and> f x = Inr y)"
  by (cases r) auto

text \<open>A list comprehension whose body may raise: the first exception ends it.\<close>

fun rmap :: "('a \<Rightarrow> 'b res) \<Rightarrow> 'a list \<Rightarrow> 'b list res" where
  "rmap f [] = Inr []"
| "rmap f (x # xs) = rbind (f x) (\<lambda>y. rbind (rmap f xs) (\<lambda>ys. Inr (y # ys)))"

lemma rmap_Inr_length: "rmap f xs = Inr ys \<Longrightarrow> length ys = length xs"
  by (induction xs arbitrary: ys) (auto simp: rbind_Inr_iff)

lemma rmap_total: "rmap (\<lambda>x. Inr (f x)) xs = Inr (map f xs)"
  by (induction xs) simp_all

section \<open>Effects that survive an exception\<close>

type_synonym ('s, 'a) sx = "'s \<Rightarrow> 'a res \<times> 's"

definition sx_ret :: "'a \<Rightarrow> ('s, 'a) sx" where
  "sx_ret x s = (Inr x, s)"

definition sx_raise :: "pyexc \<Rightarrow> ('s, 'a) sx" where
  "sx_raise e s = (Inl e, s)"

definition sx_bind :: "('s, 'a) sx \<Rightarrow> ('a \<Rightarrow> ('s, 'b) sx) \<Rightarrow> ('s, 'b) sx" where
  "sx_bind m f s = (case m s of (Inl e, t) \<Rightarrow> (Inl e, t) | (Inr x, t) \<Rightarrow> f x t)"

definition sx_do :: "('s, 'a) sx \<Rightarrow> ('s, 'b) sx \<Rightarrow> ('s, 'b) sx" where
  "sx_do m k = sx_bind m (\<lambda>_. k)"

definition sx_lift :: "'a res \<Rightarrow> ('s, 'a) sx" where
  "sx_lift r s = (r, s)"

definition sx_modify :: "('s \<Rightarrow> 's) \<Rightarrow> ('s, unit) sx" where
  "sx_modify f s = (Inr (), f s)"

definition sx_gets :: "('s \<Rightarrow> 'a) \<Rightarrow> ('s, 'a) sx" where
  "sx_gets f s = (Inr (f s), s)"

text \<open>\<open>try: m except Exception as exc: h(exc)\<close>; the effects of \<open>m\<close> are kept.\<close>

definition sx_try :: "('s, 'a) sx \<Rightarrow> (pyexc \<Rightarrow> ('s, 'a) sx) \<Rightarrow> ('s, 'a) sx" where
  "sx_try m h s = (case m s of (Inl e, t) \<Rightarrow> h e t | (Inr x, t) \<Rightarrow> (Inr x, t))"

text \<open>The outcome of a call as a value, for code that goes on after an exception.\<close>

definition sx_attempt :: "('s, 'a) sx \<Rightarrow> ('s, 'a res) sx" where
  "sx_attempt m s = (case m s of (r, t) \<Rightarrow> (Inr r, t))"

fun sx_iter :: "('a \<Rightarrow> ('s, unit) sx) \<Rightarrow> 'a list \<Rightarrow> ('s, unit) sx" where
  "sx_iter f [] = sx_ret ()"
| "sx_iter f (x # xs) = sx_do (f x) (sx_iter f xs)"

lemmas sx_defs = sx_ret_def sx_raise_def sx_lift_def sx_modify_def sx_gets_def
lemmas [sx_simps] = sx_defs sx_bind_def sx_do_def sx_try_def sx_attempt_def

lemma sx_bind_ret [simp]: "sx_bind (sx_ret x) f = f x"
  by (rule ext) (simp add: sx_bind_def sx_ret_def)

lemma sx_bind_raise [simp]: "sx_bind (sx_raise e) f = sx_raise e"
  by (rule ext) (simp add: sx_bind_def sx_raise_def)

lemma sx_bind_assoc: "sx_bind (sx_bind m f) g = sx_bind m (\<lambda>x. sx_bind (f x) g)"
  by (rule ext) (simp add: sx_bind_def split: prod.splits sum.splits)

text \<open>
  Weakest preconditions: from \<open>s\<close>, a return of \<open>x\<close> ends in a state \<open>Q x\<close> and an exception
  \<open>e\<close> in a state \<open>E e\<close>. Calls are total functions, so this includes that the call ends.
\<close>

definition sx_wp :: "('s, 'a) sx \<Rightarrow> ('a \<Rightarrow> 's \<Rightarrow> bool) \<Rightarrow> (pyexc \<Rightarrow> 's \<Rightarrow> bool) \<Rightarrow> 's \<Rightarrow> bool" where
  "sx_wp m Q E s = (case m s of (Inl e, t) \<Rightarrow> E e t | (Inr x, t) \<Rightarrow> Q x t)"

lemma sx_wp_ret [simp]: "sx_wp (sx_ret x) Q E s = Q x s"
  by (simp add: sx_wp_def sx_defs sx_bind_def sx_do_def sx_try_def sx_attempt_def split: prod.splits sum.splits)

lemma sx_wp_raise [simp]: "sx_wp (sx_raise e) Q E s = E e s"
  by (simp add: sx_wp_def sx_defs sx_bind_def sx_do_def sx_try_def sx_attempt_def split: prod.splits sum.splits)

lemma sx_wp_modify [simp]: "sx_wp (sx_modify f) Q E s = Q () (f s)"
  by (simp add: sx_wp_def sx_defs sx_bind_def sx_do_def sx_try_def sx_attempt_def split: prod.splits sum.splits)

lemma sx_wp_gets [simp]: "sx_wp (sx_gets g) Q E s = Q (g s) s"
  by (simp add: sx_wp_def sx_defs sx_bind_def sx_do_def sx_try_def sx_attempt_def split: prod.splits sum.splits)

lemma sx_wp_bind [simp]: "sx_wp (sx_bind m f) Q E s = sx_wp m (\<lambda>x. sx_wp (f x) Q E) E s"
  by (simp add: sx_wp_def sx_defs sx_bind_def sx_do_def sx_try_def sx_attempt_def split: prod.splits sum.splits)

lemma sx_wp_do [simp]: "sx_wp (sx_do m k) Q E s = sx_wp m (\<lambda>_. sx_wp k Q E) E s"
  by (simp add: sx_wp_def sx_defs sx_bind_def sx_do_def sx_try_def sx_attempt_def split: prod.splits sum.splits)

lemma sx_wp_try [simp]: "sx_wp (sx_try m h) Q E s = sx_wp m Q (\<lambda>e. sx_wp (h e) Q E) s"
  by (simp add: sx_wp_def sx_defs sx_bind_def sx_do_def sx_try_def sx_attempt_def split: prod.splits sum.splits)

lemma sx_wp_attempt [simp]: "sx_wp (sx_attempt m) Q E s = sx_wp m (\<lambda>x. Q (Inr x)) (\<lambda>e. Q (Inl e)) s"
  by (simp add: sx_wp_def sx_defs sx_bind_def sx_do_def sx_try_def sx_attempt_def split: prod.splits sum.splits)

lemma sx_wp_lift: "sx_wp (sx_lift r) Q E s = (case r of Inl e \<Rightarrow> E e s | Inr x \<Rightarrow> Q x s)"
  by (simp add: sx_wp_def sx_lift_def)

lemma sx_wp_mono:
  "sx_wp m Q E s \<Longrightarrow> (\<And>x t. Q x t \<Longrightarrow> Q' x t) \<Longrightarrow> (\<And>e t. E e t \<Longrightarrow> E' e t) \<Longrightarrow> sx_wp m Q' E' s"
  by (auto simp: sx_wp_def split: prod.splits sum.splits)

lemma sx_wp_conj:
  "sx_wp m Q E s \<Longrightarrow> sx_wp m Q' E' s \<Longrightarrow> sx_wp m (\<lambda>x t. Q x t \<and> Q' x t) (\<lambda>e t. E e t \<and> E' e t) s"
  by (auto simp: sx_wp_def split: prod.splits sum.splits)

text \<open>An invariant of a call: whatever its outcome, \<open>P\<close> stays true.\<close>

definition keeps :: "('s \<Rightarrow> bool) \<Rightarrow> ('s, 'a) sx \<Rightarrow> bool" where
  "keeps P m = (\<forall>s. P s \<longrightarrow> P (snd (m s)))"

named_theorems keeps_intros \<open>invariants of composed calls\<close>

lemma keeps_wp: "keeps P m \<longleftrightarrow> (\<forall>s. P s \<longrightarrow> sx_wp m (\<lambda>_. P) (\<lambda>_. P) s)"
  unfolding keeps_def sx_wp_def by (auto split: prod.splits sum.splits) (metis prod.collapse)

lemma keeps_wpI: "keeps P m \<Longrightarrow> P s \<Longrightarrow> (\<And>x t. P t \<Longrightarrow> Q x t) \<Longrightarrow> (\<And>e t. P t \<Longrightarrow> E e t) \<Longrightarrow> sx_wp m Q E s"
  by (auto simp: keeps_def sx_wp_def split: prod.splits sum.splits dest!: spec [where x = s])

lemma keeps_ret [keeps_intros]: "keeps P (sx_ret x)"
  by (simp add: keeps_wp)

lemma keeps_raise [keeps_intros]: "keeps P (sx_raise e)"
  by (simp add: keeps_wp)

lemma keeps_lift [keeps_intros]: "keeps P (sx_lift r)"
  by (simp add: keeps_def sx_lift_def)

lemma keeps_gets [keeps_intros]: "keeps P (sx_gets g)"
  by (simp add: keeps_wp)

lemma keeps_bind [keeps_intros]: "keeps P m \<Longrightarrow> (\<And>x. keeps P (f x)) \<Longrightarrow> keeps P (sx_bind m f)"
  unfolding keeps_wp by (simp, metis (mono_tags, lifting) sx_wp_mono)

lemma keeps_do [keeps_intros]: "keeps P m \<Longrightarrow> keeps P k \<Longrightarrow> keeps P (sx_do m k)"
  unfolding sx_do_def by (rule keeps_bind)

lemma keeps_try [keeps_intros]: "keeps P m \<Longrightarrow> (\<And>e. keeps P (h e)) \<Longrightarrow> keeps P (sx_try m h)"
  unfolding keeps_wp by (simp, metis (mono_tags, lifting) sx_wp_mono)

lemma keeps_attempt [keeps_intros]: "keeps P m \<Longrightarrow> keeps P (sx_attempt m)"
  by (simp add: keeps_wp)

lemma keeps_if [keeps_intros]: "(b \<Longrightarrow> keeps P m) \<Longrightarrow> (\<not> b \<Longrightarrow> keeps P k) \<Longrightarrow> keeps P (if b then m else k)"
  by simp

lemma keeps_modify: "(\<And>s. P s \<Longrightarrow> P (f s)) \<Longrightarrow> keeps P (sx_modify f)"
  by (simp add: keeps_wp)

lemma keeps_case_option:
  "(v = None \<Longrightarrow> keeps P m) \<Longrightarrow> (\<And>x. v = Some x \<Longrightarrow> keeps P (k x)) \<Longrightarrow>
   keeps P (case v of None \<Rightarrow> m | Some x \<Rightarrow> k x)"
  by (cases v) auto

lemma keeps_case_sum [keeps_intros]:
  "(\<And>e. v = Inl e \<Longrightarrow> keeps P (m e)) \<Longrightarrow> (\<And>x. v = Inr x \<Longrightarrow> keeps P (k x)) \<Longrightarrow>
   keeps P (case v of Inl e \<Rightarrow> m e | Inr x \<Rightarrow> k x)"
  by (cases v) auto

lemma keeps_case_prod [keeps_intros]: "(\<And>a b. v = (a, b) \<Longrightarrow> keeps P (f a b)) \<Longrightarrow> keeps P (case v of (a, b) \<Rightarrow> f a b)"
  by (cases v) auto

section \<open>Transactional effects\<close>

type_synonym ('s, 'a) tx = "'s \<Rightarrow> ('a \<times> 's) res"

definition tx_ret :: "'a \<Rightarrow> ('s, 'a) tx" where
  "tx_ret x s = Inr (x, s)"

definition tx_raise :: "pyexc \<Rightarrow> ('s, 'a) tx" where
  "tx_raise e s = Inl e"

definition tx_bind :: "('s, 'a) tx \<Rightarrow> ('a \<Rightarrow> ('s, 'b) tx) \<Rightarrow> ('s, 'b) tx" where
  "tx_bind m f s = (case m s of Inl e \<Rightarrow> Inl e | Inr (x, t) \<Rightarrow> f x t)"

definition tx_do :: "('s, 'a) tx \<Rightarrow> ('s, 'b) tx \<Rightarrow> ('s, 'b) tx" where
  "tx_do m k = tx_bind m (\<lambda>_. k)"

definition tx_lift :: "'a res \<Rightarrow> ('s, 'a) tx" where
  "tx_lift r s = (case r of Inl e \<Rightarrow> Inl e | Inr x \<Rightarrow> Inr (x, s))"

definition tx_modify :: "('s \<Rightarrow> 's) \<Rightarrow> ('s, unit) tx" where
  "tx_modify f s = Inr ((), f s)"

definition tx_gets :: "('s \<Rightarrow> 'a) \<Rightarrow> ('s, 'a) tx" where
  "tx_gets f s = Inr (f s, s)"

definition tx_guard :: "bool \<Rightarrow> pyexc \<Rightarrow> ('s, unit) tx" where
  "tx_guard b e = (if b then tx_ret () else tx_raise e)"

fun tx_map :: "('a \<Rightarrow> ('s, 'b) tx) \<Rightarrow> 'a list \<Rightarrow> ('s, 'b list) tx" where
  "tx_map f [] = tx_ret []"
| "tx_map f (x # xs) = tx_bind (f x) (\<lambda>y. tx_bind (tx_map f xs) (\<lambda>ys. tx_ret (y # ys)))"

lemmas tx_defs = tx_ret_def tx_raise_def tx_lift_def tx_modify_def tx_gets_def tx_guard_def

lemma tx_bind_Inr_iff:
  "tx_bind m f s = Inr (y, u) \<longleftrightarrow> (\<exists>x t. m s = Inr (x, t) \<and> f x t = Inr (y, u))"
  by (auto simp: tx_bind_def split: sum.splits)

lemma tx_bind_Inl_iff:
  "tx_bind m f s = Inl e \<longleftrightarrow> m s = Inl e \<or> (\<exists>x t. m s = Inr (x, t) \<and> f x t = Inl e)"
  by (auto simp: tx_bind_def split: sum.splits)

lemma tx_do_Inr_iff:
  "tx_do m k s = Inr (y, u) \<longleftrightarrow> (\<exists>x t. m s = Inr (x, t) \<and> k t = Inr (y, u))"
  by (simp add: tx_do_def tx_bind_Inr_iff)

lemma tx_do_Inl_iff:
  "tx_do m k s = Inl e \<longleftrightarrow> m s = Inl e \<or> (\<exists>x t. m s = Inr (x, t) \<and> k t = Inl e)"
  by (simp add: tx_do_def tx_bind_Inl_iff)

lemma tx_guard_Inr_iff [simp]: "tx_guard b e s = Inr (u, t) \<longleftrightarrow> b \<and> t = s"
  by (auto simp: tx_defs)

lemma tx_guard_Inl_iff [simp]: "tx_guard b e s = Inl e' \<longleftrightarrow> \<not> b \<and> e' = e"
  by (auto simp: tx_defs)

lemma tx_ret_Inr_iff [simp]: "tx_ret x s = Inr (y, t) \<longleftrightarrow> y = x \<and> t = s"
  by (auto simp: tx_ret_def)

lemma tx_ret_Inl [simp]: "tx_ret x s \<noteq> Inl e"
  by (simp add: tx_ret_def)

lemma tx_raise_Inr [simp]: "tx_raise e s \<noteq> Inr r"
  by (simp add: tx_raise_def)

lemma tx_raise_Inl_iff [simp]: "tx_raise e s = Inl e' \<longleftrightarrow> e' = e"
  by (auto simp: tx_raise_def)

lemma tx_modify_Inr_iff [simp]: "tx_modify f s = Inr (u, t) \<longleftrightarrow> t = f s"
  by (auto simp: tx_modify_def)

lemma tx_modify_Inl [simp]: "tx_modify f s \<noteq> Inl e"
  by (simp add: tx_modify_def)

lemma tx_gets_Inr_iff [simp]: "tx_gets f s = Inr (y, t) \<longleftrightarrow> y = f s \<and> t = s"
  by (auto simp: tx_gets_def)

lemma tx_gets_Inl [simp]: "tx_gets f s \<noteq> Inl e"
  by (simp add: tx_gets_def)

lemma tx_lift_Inr_iff [simp]: "tx_lift r s = Inr (y, t) \<longleftrightarrow> r = Inr y \<and> t = s"
  by (auto simp: tx_lift_def split: sum.splits)

lemma tx_lift_Inl_iff [simp]: "tx_lift r s = Inl e \<longleftrightarrow> r = Inl e"
  by (auto simp: tx_lift_def split: sum.splits)

lemmas [tx_simps] = tx_bind_Inr_iff tx_bind_Inl_iff tx_do_Inr_iff tx_do_Inl_iff

text \<open>
  Weakest preconditions of a transaction: if it returns \<open>x\<close> in a state \<open>t\<close>, then \<open>Q x t\<close>;
  a raise leaves nothing to show.
\<close>

definition tx_wp :: "('s, 'a) tx \<Rightarrow> ('a \<Rightarrow> 's \<Rightarrow> bool) \<Rightarrow> 's \<Rightarrow> bool" where
  "tx_wp m Q s = (case m s of Inl e \<Rightarrow> True | Inr (x, t) \<Rightarrow> Q x t)"

lemma tx_wpD: "tx_wp m Q s \<Longrightarrow> m s = Inr (x, t) \<Longrightarrow> Q x t"
  by (simp add: tx_wp_def)

lemma tx_wpI: "(\<And>x t. m s = Inr (x, t) \<Longrightarrow> Q x t) \<Longrightarrow> tx_wp m Q s"
  by (auto simp: tx_wp_def split: sum.splits)

lemma tx_wp_ret [simp]: "tx_wp (tx_ret x) Q s = Q x s"
  by (simp add: tx_wp_def tx_defs)

lemma tx_wp_raise [simp]: "tx_wp (tx_raise e) Q s"
  by (simp add: tx_wp_def tx_defs)

lemma tx_wp_modify [simp]: "tx_wp (tx_modify f) Q s = Q () (f s)"
  by (simp add: tx_wp_def tx_defs)

lemma tx_wp_gets [simp]: "tx_wp (tx_gets g) Q s = Q (g s) s"
  by (simp add: tx_wp_def tx_defs)

lemma tx_wp_guard [simp]: "tx_wp (tx_guard b e) Q s = (b \<longrightarrow> Q () s)"
  by (simp add: tx_wp_def tx_defs)

lemma tx_wp_lift [simp]: "tx_wp (tx_lift r) Q s = (\<forall>x. r = Inr x \<longrightarrow> Q x s)"
  by (cases r) (simp_all add: tx_wp_def tx_defs)

lemma tx_wp_bind [simp]: "tx_wp (tx_bind m f) Q s = tx_wp m (\<lambda>x. tx_wp (f x) Q) s"
  by (simp add: tx_wp_def tx_bind_def split: sum.splits prod.splits)

lemma tx_wp_do [simp]: "tx_wp (tx_do m k) Q s = tx_wp m (\<lambda>_. tx_wp k Q) s"
  by (simp add: tx_do_def)

lemma tx_wp_mono: "tx_wp m Q s \<Longrightarrow> (\<And>x t. Q x t \<Longrightarrow> Q' x t) \<Longrightarrow> tx_wp m Q' s"
  by (auto simp: tx_wp_def split: sum.splits)

lemma tx_wp_map:
  assumes "\<And>x s. I s \<Longrightarrow> tx_wp (f x) (\<lambda>_. I) s" and "I s"
  shows "tx_wp (tx_map f xs) (\<lambda>_. I) s"
  using assms(2)
proof (induction xs arbitrary: s)
  case (Cons x xs)
  have "tx_wp (tx_map f xs) (\<lambda>ys. tx_wp (tx_ret (y # ys)) (\<lambda>_. I)) t" if "I t" for y t
    by (rule tx_wp_mono [OF Cons.IH [OF that]]) simp
  then show ?case using assms(1) [OF Cons.prems, of x] by (auto elim!: tx_wp_mono)
qed simp

text \<open>
  One session: what \<open>m\<close> did is committed when it returns and rolled back when it raises. Calls
  that do more than one transaction, or touch files beside the database, are sequences of these.
\<close>

definition commit :: "('s, 'a) tx \<Rightarrow> ('s, 'a) sx" where
  "commit m s = (case m s of Inl e \<Rightarrow> (Inl e, s) | Inr (x, t) \<Rightarrow> (Inr x, t))"

lemma commit_Inr: "commit m s = (Inr x, t) \<longleftrightarrow> m s = Inr (x, t)"
  by (auto simp: commit_def split: sum.splits)

lemma commit_Inl: "commit m s = (Inl e, t) \<longleftrightarrow> m s = Inl e \<and> t = s"
  by (auto simp: commit_def split: sum.splits)

lemma sx_wp_commit:
  "tx_wp m Q s \<Longrightarrow> (\<And>e. E e s) \<Longrightarrow> sx_wp (commit m) Q E s"
  by (auto simp: sx_wp_def commit_def tx_wp_def split: sum.splits prod.splits)

section \<open>Rows of a table\<close>

definition row_find :: "('r \<Rightarrow> 'k) \<Rightarrow> 'k \<Rightarrow> 'r list \<Rightarrow> 'r option" where
  "row_find key k rows = List.find (\<lambda>r. key r = k) rows"

definition row_upd :: "('r \<Rightarrow> 'k) \<Rightarrow> 'k \<Rightarrow> ('r \<Rightarrow> 'r) \<Rightarrow> 'r list \<Rightarrow> 'r list" where
  "row_upd key k f rows = map (\<lambda>r. if key r = k then f r else r) rows"

lemma row_find_simps [simp]:
  "row_find key k [] = None"
  "row_find key k (r # rows) = (if key r = k then Some r else row_find key k rows)"
  by (simp_all add: row_find_def)

lemma row_upd_simps [simp]:
  "row_upd key k f [] = []"
  "row_upd key k f (r # rows) = (if key r = k then f r else r) # row_upd key k f rows"
  by (simp_all add: row_upd_def)

lemma row_find_Some: "row_find key k rows = Some r \<Longrightarrow> r \<in> set rows \<and> key r = k"
  by (induction rows) (auto split: if_splits)

lemma row_find_None: "row_find key k rows = None \<longleftrightarrow> k \<notin> key ` set rows"
  by (induction rows) auto

lemma row_find_append:
  "row_find key k (xs @ ys) = (case row_find key k xs of None \<Rightarrow> row_find key k ys | Some r \<Rightarrow> Some r)"
  by (induction xs) auto

lemma row_find_upd_same:
  "(\<And>r. key (f r) = key r) \<Longrightarrow> row_find key k (row_upd key k f rows) = map_option f (row_find key k rows)"
  by (induction rows) auto

lemma row_find_upd_other:
  "(\<And>r. key (f r) = key r) \<Longrightarrow> k' \<noteq> k \<Longrightarrow> row_find key k' (row_upd key k f rows) = row_find key k' rows"
  by (induction rows) auto

lemma keys_row_upd: "(\<And>r. key (f r) = key r) \<Longrightarrow> map key (row_upd key k f rows) = map key rows"
  by (simp add: row_upd_def)

lemma row_find_distinct:
  "distinct (map key rows) \<Longrightarrow> r \<in> set rows \<Longrightarrow> row_find key (key r) rows = Some r"
  by (induction rows) (auto simp: image_iff)

lemma length_row_upd [simp]: "length (row_upd key k f rows) = length rows"
  by (simp add: row_upd_def)

text \<open>
  One table of a database: how its rows are read and written back, and the law of reading what
  was written. What \<open>SELECT\<close>, \<open>INSERT\<close> and \<open>UPDATE\<close> by primary key then do to each
  other follows once for every table.
\<close>

locale db_table =
  fixes key :: "'r \<Rightarrow> string"
    and rows :: "'d \<Rightarrow> 'r list"
    and with_rows :: "'r list \<Rightarrow> 'd \<Rightarrow> 'd"
  assumes rows_with_rows: "rows (with_rows rs d) = rs"
begin

lemma find_insert_same:
  "row_find key (key r) (rows d) = None \<Longrightarrow>
   row_find key (key r) (rows (with_rows (rows d @ [r]) d)) = Some r"
  by (simp add: rows_with_rows row_find_append)

lemma find_insert_other:
  "k \<noteq> key r \<Longrightarrow>
   row_find key k (rows (with_rows (rows d @ [r]) d)) = row_find key k (rows d)"
  by (simp add: rows_with_rows row_find_append split: option.splits)

lemma find_insert_old:
  "row_find key k (rows d) = Some r' \<Longrightarrow>
   row_find key k (rows (with_rows (rows d @ [r]) d)) = Some r'"
  by (simp add: rows_with_rows row_find_append)

lemma find_update_same:
  "(\<And>r. key (f r) = key r) \<Longrightarrow>
   row_find key k (rows (with_rows (row_upd key k f (rows d)) d)) = map_option f (row_find key k (rows d))"
  by (simp add: rows_with_rows row_find_upd_same)

lemma find_update_other:
  "(\<And>r. key (f r) = key r) \<Longrightarrow> k' \<noteq> k \<Longrightarrow>
   row_find key k' (rows (with_rows (row_upd key k f (rows d)) d)) = row_find key k' (rows d)"
  by (simp add: rows_with_rows row_find_upd_other)

lemma distinct_insert:
  "distinct (map key (rows d)) \<Longrightarrow> row_find key (key r) (rows d) = None \<Longrightarrow>
   distinct (map key (rows (with_rows (rows d @ [r]) d)))"
  by (simp add: rows_with_rows row_find_None)

lemma distinct_update:
  "(\<And>r. key (f r) = key r) \<Longrightarrow> distinct (map key (rows d)) \<Longrightarrow>
   distinct (map key (rows (with_rows (row_upd key k f (rows d)) d)))"
  by (simp add: rows_with_rows keys_row_upd)

end

end
