(* ===== verification/Py_Values.thy ===== *)
theory Py_Values
  imports Prelude "HOL-Library.Sublist"
begin

text \<open>
  The Python values the services pass around (JSON documents: configuration, event payloads,
  agent output) and the operations of the language on them: truth, \<open>str\<close>, \<open>repr\<close>, \<open>int\<close>,
  dictionaries in insertion order, and the string methods the code calls.

  Strings are ASCII (\<open>string\<close> is a list of \<open>char\<close>), integers are unbounded. Floating
  point numbers are not modelled: no branch of the modelled code depends on one.
\<close>

datatype pyval =
    PNone
  | PBool bool
  | PInt int
  | PStr string
  | PList "pyval list"
  | PDict "(string \<times> pyval) list"

type_synonym dict = "(string \<times> pyval) list"

section \<open>Truth and type tests\<close>

fun truthy :: "pyval \<Rightarrow> bool" where
  "truthy PNone = False"
| "truthy (PBool b) = b"
| "truthy (PInt i) = (i \<noteq> 0)"
| "truthy (PStr s) = (s \<noteq> [])"
| "truthy (PList xs) = (xs \<noteq> [])"
| "truthy (PDict d) = (d \<noteq> [])"

text \<open>\<open>a or b\<close>.\<close>

definition por :: "pyval \<Rightarrow> pyval \<Rightarrow> pyval" where
  "por a b = (if truthy a then a else b)"

fun is_dict :: "pyval \<Rightarrow> bool" where
  "is_dict (PDict d) = True"
| "is_dict _ = False"

fun is_list :: "pyval \<Rightarrow> bool" where
  "is_list (PList xs) = True"
| "is_list _ = False"

fun is_str :: "pyval \<Rightarrow> bool" where
  "is_str (PStr s) = True"
| "is_str _ = False"

text \<open>\<open>x if isinstance(x, dict) else {}\<close> and \<open>x if isinstance(x, list) else []\<close>.\<close>

fun dict_or_empty :: "pyval \<Rightarrow> dict" where
  "dict_or_empty (PDict d) = d"
| "dict_or_empty _ = []"

fun list_or_empty :: "pyval \<Rightarrow> pyval list" where
  "list_or_empty (PList xs) = xs"
| "list_or_empty _ = []"

lemma por_simps [simp]:
  "truthy a \<Longrightarrow> por a b = a"
  "\<not> truthy a \<Longrightarrow> por a b = b"
  by (simp_all add: por_def)

section \<open>Dictionaries\<close>

text \<open>An association list in insertion order; a key is stored once.\<close>

definition dlookup :: "dict \<Rightarrow> string \<Rightarrow> pyval option" where
  "dlookup d k = map_of d k"

text \<open>\<open>d.get(k)\<close> and \<open>d.get(k, default)\<close>.\<close>

definition dget :: "dict \<Rightarrow> string \<Rightarrow> pyval" where
  "dget d k = (case dlookup d k of None \<Rightarrow> PNone | Some v \<Rightarrow> v)"

definition dget_or :: "dict \<Rightarrow> string \<Rightarrow> pyval \<Rightarrow> pyval" where
  "dget_or d k v = (case dlookup d k of None \<Rightarrow> v | Some w \<Rightarrow> w)"

text \<open>\<open>d[k]\<close> and \<open>k in d\<close>.\<close>

definition dindex :: "dict \<Rightarrow> string \<Rightarrow> pyval res" where
  "dindex d k = (case dlookup d k of None \<Rightarrow> Inl (KeyError k) | Some v \<Rightarrow> Inr v)"

definition dmem :: "dict \<Rightarrow> string \<Rightarrow> bool" where
  "dmem d k = (dlookup d k \<noteq> None)"

text \<open>\<open>d[k] = v\<close>: in place when the key is there, at the end otherwise.\<close>

fun dset :: "dict \<Rightarrow> string \<Rightarrow> pyval \<Rightarrow> dict" where
  "dset [] k v = [(k, v)]"
| "dset ((k', v') # d) k v = (if k' = k then (k, v) # d else (k', v') # dset d k v)"

text \<open>\<open>d.pop(k, None)\<close>, \<open>{**a, **b}\<close> (also \<open>a.update(b)\<close>), \<open>d.setdefault(k, v)\<close>.\<close>

definition dpop :: "dict \<Rightarrow> string \<Rightarrow> dict" where
  "dpop d k = filter (\<lambda>(k', _). k' \<noteq> k) d"

fun dmerge :: "dict \<Rightarrow> dict \<Rightarrow> dict" where
  "dmerge a [] = a"
| "dmerge a ((k, v) # b) = dmerge (dset a k v) b"

definition dsetdefault :: "dict \<Rightarrow> string \<Rightarrow> pyval \<Rightarrow> dict" where
  "dsetdefault d k v = (if dmem d k then d else dset d k v)"

text \<open>\<open>x.get(k)\<close> on a value that may not be a dictionary.\<close>

fun vget :: "pyval \<Rightarrow> string \<Rightarrow> pyval res" where
  "vget (PDict d) k = Inr (dget d k)"
| "vget v k = Inl (AttributeError ''get'')"

lemma dlookup_Nil [simp]: "dlookup [] k = None"
  by (simp add: dlookup_def)

lemma dlookup_Cons [simp]: "dlookup ((k', v) # d) k = (if k = k' then Some v else dlookup d k)"
  by (simp add: dlookup_def)

lemma dlookup_None: "dlookup d k = None \<longleftrightarrow> k \<notin> fst ` set d"
  by (simp add: dlookup_def map_of_eq_None_iff)

lemma dlookup_dset [simp]:
  "dlookup (dset d k v) k' = (if k' = k then Some v else dlookup d k')"
  by (induction d k v rule: dset.induct) auto

lemma dget_dset [simp]: "dget (dset d k v) k' = (if k' = k then v else dget d k')"
  by (simp add: dget_def)

lemma dmem_dset [simp]: "dmem (dset d k v) k' = (k' = k \<or> dmem d k')"
  by (simp add: dmem_def)

lemma dlookup_dpop [simp]: "dlookup (dpop d k) k' = (if k' = k then None else dlookup d k')"
  by (induction d) (auto simp: dpop_def)

lemma dget_dpop [simp]: "dget (dpop d k) k' = (if k' = k then PNone else dget d k')"
  by (simp add: dget_def)

lemma keys_dset: "fst ` set (dset d k v) = insert k (fst ` set d)"
  by (induction d k v rule: dset.induct) auto

lemma distinct_dset: "distinct (map fst d) \<Longrightarrow> distinct (map fst (dset d k v))"
proof (induction d k v rule: dset.induct)
  case (1 k v)
  then show ?case by simp
next
  case (2 k' v' d k v)
  then show ?case by (cases "k' = k") (simp_all add: keys_dset)
qed

lemma distinct_dmerge: "distinct (map fst a) \<Longrightarrow> distinct (map fst (dmerge a b))"
  by (induction a b rule: dmerge.induct) (auto simp: distinct_dset)

lemma dlookup_dmerge:
  "distinct (map fst b) \<Longrightarrow>
   dlookup (dmerge a b) k = (case dlookup b k of None \<Rightarrow> dlookup a k | Some v \<Rightarrow> Some v)"
proof (induction a b rule: dmerge.induct)
  case (1 a)
  then show ?case by simp
next
  case (2 a k' v b)
  then have "dlookup b k' = None" by (simp add: dlookup_None)
  with 2 show ?case by (cases "k = k'") (auto split: option.splits)
qed

lemma dget_Nil [simp]: "dget [] k = PNone"
  by (simp add: dget_def dlookup_def)

lemma dget_Cons [simp]: "dget ((k', v) # d) k = (if k = k' then v else dget d k)"
  by (simp add: dget_def dlookup_def)

lemma dmem_Nil [simp]: "\<not> dmem [] k"
  by (simp add: dmem_def dlookup_def)

lemma dmem_Cons [simp]: "dmem ((k', v) # d) k = (k = k' \<or> dmem d k)"
  by (simp add: dmem_def dlookup_def)

lemma dget_not_mem: "\<not> dmem d k \<Longrightarrow> dget d k = PNone"
  by (simp add: dget_def dmem_def)

section \<open>Strings\<close>

abbreviation chr_code :: "char \<Rightarrow> nat" where
  "chr_code \<equiv> of_char"

text \<open>ASCII white space as \<open>str.strip\<close> and \<open>str.split\<close> see it.\<close>

definition is_ws :: "char \<Rightarrow> bool" where
  "is_ws c = (chr_code c = 32 \<or> (9 \<le> chr_code c \<and> chr_code c \<le> 13) \<or> (28 \<le> chr_code c \<and> chr_code c \<le> 31))"

definition strip_by :: "(char \<Rightarrow> bool) \<Rightarrow> string \<Rightarrow> string" where
  "strip_by p s = rev (dropWhile p (rev (dropWhile p s)))"

definition str_strip :: "string \<Rightarrow> string" where
  "str_strip = strip_by is_ws"

definition is_upper :: "char \<Rightarrow> bool" where
  "is_upper c = (65 \<le> chr_code c \<and> chr_code c \<le> 90)"

definition is_lower :: "char \<Rightarrow> bool" where
  "is_lower c = (97 \<le> chr_code c \<and> chr_code c \<le> 122)"

definition is_digit :: "char \<Rightarrow> bool" where
  "is_digit c = (48 \<le> chr_code c \<and> chr_code c \<le> 57)"

definition is_alnum :: "char \<Rightarrow> bool" where
  "is_alnum c = (is_upper c \<or> is_lower c \<or> is_digit c)"

definition char_lower :: "char \<Rightarrow> char" where
  "char_lower c = (if is_upper c then char_of (chr_code c + 32) else c)"

definition str_lower :: "string \<Rightarrow> string" where
  "str_lower = map char_lower"

text \<open>\<open>s.replace(a, b)\<close> for single characters.\<close>

definition replace_char :: "char \<Rightarrow> char \<Rightarrow> string \<Rightarrow> string" where
  "replace_char a b = map (\<lambda>c. if c = a then b else c)"

definition starts_with :: "string \<Rightarrow> string \<Rightarrow> bool" where
  "starts_with s p = (take (length p) s = p)"

definition ends_with :: "string \<Rightarrow> string \<Rightarrow> bool" where
  "ends_with s t = starts_with (rev s) (rev t)"

text \<open>\<open>p in s\<close>.\<close>

fun contains :: "string \<Rightarrow> string \<Rightarrow> bool" where
  "contains [] p = (p = [])"
| "contains (c # s) p = (starts_with (c # s) p \<or> contains s p)"

fun join :: "string \<Rightarrow> string list \<Rightarrow> string" where
  "join sep [] = []"
| "join sep [x] = x"
| "join sep (x # y # zs) = x @ sep @ join sep (y # zs)"

text \<open>\<open>s.split()\<close>: maximal runs of characters that are not white space.\<close>

function split_ws :: "string \<Rightarrow> string list" where
  "split_ws s =
     (case dropWhile is_ws s of
        [] \<Rightarrow> []
      | c # r \<Rightarrow> (c # takeWhile (\<lambda>x. \<not> is_ws x) r) # split_ws (dropWhile (\<lambda>x. \<not> is_ws x) r))"
  by pat_completeness auto
termination
proof (relation "measure length", simp)
  fix s c and r :: string
  assume "dropWhile is_ws s = c # r"
  then have "length (c # r) \<le> length s" by (metis length_dropWhile_le)
  moreover have "length (dropWhile (\<lambda>x. \<not> is_ws x) r) \<le> length r" by (rule length_dropWhile_le)
  ultimately show "(dropWhile (\<lambda>x. \<not> is_ws x) r, s) \<in> measure length" by simp
qed

declare split_ws.simps [simp del]

text \<open>\<open>s.split(c)\<close> for a one-character separator; never empty.\<close>

fun split_on :: "char \<Rightarrow> string \<Rightarrow> string list" where
  "split_on c [] = [[]]"
| "split_on c (x # xs) =
     (if x = c then [] # split_on c xs
      else (case split_on c xs of [] \<Rightarrow> [[x]] | p # ps \<Rightarrow> (x # p) # ps))"

lemma starts_with_iff_prefix: "starts_with s p \<longleftrightarrow> prefix p s"
  by (metis append_eq_conv_conj append_take_drop_id prefix_def starts_with_def)

lemma contains_iff_sublist: "contains s p \<longleftrightarrow> sublist p s"
  by (induction s) (auto simp: starts_with_iff_prefix sublist_Cons_right)

lemma split_on_not_Nil [simp]: "split_on c s \<noteq> []"
  by (cases s) (auto split: list.splits)

lemma join_split_on: "join [c] (split_on c s) = s"
proof (induction s)
  case Nil
  show ?case by simp
next
  case (Cons x xs)
  show ?case
  proof (cases "split_on c xs")
    case Nil
    then show ?thesis by simp
  next
    case (Cons p ps)
    with Cons.IH show ?thesis by (cases ps) auto
  qed
qed

lemma split_on_no_sep: "p \<in> set (split_on c s) \<Longrightarrow> c \<notin> set p"
proof (induction s arbitrary: p)
  case Nil
  then show ?case by simp
next
  case (Cons x xs)
  then show ?case by (cases "split_on c xs") (auto split: if_splits)
qed

lemma set_strip_by: "set (strip_by p s) \<subseteq> set s"
  unfolding strip_by_def by (metis set_dropWhileD set_rev subsetI)

lemma strip_by_head: "strip_by p s = c # r \<Longrightarrow> \<not> p c"
proof -
  assume a: "strip_by p s = c # r"
  let ?t = "dropWhile p s"
  have "prefix (strip_by p s) ?t"
    unfolding strip_by_def by (metis rev_rev_ident suffix_dropWhile suffix_to_prefix)
  then obtain u where "?t = c # r @ u" using a by (auto simp: prefix_def)
  then show ?thesis by (metis hd_dropWhile list.discI list.sel(1))
qed

lemma strip_by_last: "strip_by p s \<noteq> [] \<Longrightarrow> \<not> p (last (strip_by p s))"
  unfolding strip_by_def
  by (metis hd_dropWhile last_rev rev_is_Nil_conv)

lemma strip_by_idem: "strip_by p (strip_by p s) = strip_by p s"
proof (cases "strip_by p s")
  case Nil
  then show ?thesis by (simp add: strip_by_def [of p "[]"])
next
  case (Cons c r)
  let ?t = "strip_by p s"
  have h: "dropWhile p ?t = ?t" using Cons strip_by_head [OF Cons] by simp
  have "?t \<noteq> []" using Cons by simp
  then have "\<not> p (hd (rev ?t))" "rev ?t \<noteq> []" using strip_by_last [of p s] by (simp_all only: hd_rev rev_is_Nil_conv not_False_eq_True)
  then have "dropWhile p (rev ?t) = rev ?t" by (metis dropWhile_eq_self_iff)
  with h show ?thesis by (metis rev_rev_ident strip_by_def)
qed

lemma str_strip_idem [simp]: "str_strip (str_strip s) = str_strip s"
  by (simp add: str_strip_def strip_by_idem)

lemma str_strip_Nil [simp]: "str_strip [] = []"
  by (simp add: str_strip_def strip_by_def)

lemma length_str_lower [simp]: "length (str_lower s) = length s"
  by (simp add: str_lower_def)

section \<open>Numbers as text\<close>

definition digit_char :: "nat \<Rightarrow> char" where
  "digit_char n = char_of (48 + n)"

function nat_str :: "nat \<Rightarrow> string" where
  "nat_str n = (if n < 10 then [digit_char n] else nat_str (n div 10) @ [digit_char (n mod 10)])"
  by pat_completeness auto
termination by (relation "measure id") auto

declare nat_str.simps [simp del]

definition int_str :: "int \<Rightarrow> string" where
  "int_str i = (if i < 0 then ''-'' @ nat_str (nat (- i)) else nat_str (nat i))"

definition digit_val :: "char \<Rightarrow> nat" where
  "digit_val c = chr_code c - 48"

text \<open>The digits of an \<open>int()\<close> literal; one underscore may stand between two digits.\<close>

fun digits_val :: "nat \<Rightarrow> string \<Rightarrow> nat option" where
  "digits_val acc [] = Some acc"
| "digits_val acc (c # s) =
     (if is_digit c then digits_val (10 * acc + digit_val c) s
      else if c = CHR ''_'' then
        (case s of d # r \<Rightarrow> if is_digit d then digits_val (10 * acc + digit_val d) r else None | [] \<Rightarrow> None)
      else None)"

definition nat_of_str :: "string \<Rightarrow> nat option" where
  "nat_of_str s = (case s of [] \<Rightarrow> None | c # r \<Rightarrow> if is_digit c then digits_val (digit_val c) r else None)"

definition int_of_str :: "string \<Rightarrow> int option" where
  "int_of_str s =
     (case str_strip s of
        [] \<Rightarrow> None
      | c # r \<Rightarrow>
          if c = CHR ''-'' then map_option (\<lambda>n. - int n) (nat_of_str r)
          else if c = CHR ''+'' then map_option int (nat_of_str r)
          else map_option int (nat_of_str (c # r)))"

lemma digit_char_code: "n < 10 \<Longrightarrow> chr_code (digit_char n) = 48 + n"
  by (simp add: digit_char_def)

lemma is_digit_digit_char [simp]: "n < 10 \<Longrightarrow> is_digit (digit_char n)"
  by (simp add: is_digit_def digit_char_code)

lemma digit_val_digit_char [simp]: "n < 10 \<Longrightarrow> digit_val (digit_char n) = n"
  by (simp add: digit_val_def digit_char_code)

lemma digits_val_append_digit:
  "digits_val acc s = Some m \<Longrightarrow> is_digit c \<Longrightarrow> digits_val acc (s @ [c]) = Some (10 * m + digit_val c)"
proof (induction acc s rule: digits_val.induct)
  case (1 acc)
  then show ?case by simp
next
  case (2 acc c' s)
  then show ?case by (cases s) (auto split: if_splits)
qed

lemma nat_of_str_append_digit:
  "nat_of_str s = Some m \<Longrightarrow> is_digit c \<Longrightarrow> nat_of_str (s @ [c]) = Some (10 * m + digit_val c)"
  by (auto simp: nat_of_str_def digits_val_append_digit split: list.splits if_splits)

lemma nat_of_str_nat_str [simp]: "nat_of_str (nat_str n) = Some n"
proof (induction n rule: nat_str.induct)
  case (1 n)
  show ?case
  proof (cases "n < 10")
    case True
    then show ?thesis by (simp add: nat_str.simps [of n] nat_of_str_def)
  next
    case False
    with 1 have "nat_of_str (nat_str (n div 10)) = Some (n div 10)" by simp
    then have "nat_of_str (nat_str (n div 10) @ [digit_char (n mod 10)]) = Some (10 * (n div 10) + n mod 10)"
      by (simp add: nat_of_str_append_digit)
    with False show ?thesis by (simp add: nat_str.simps [of n])
  qed
qed

lemma nat_str_digits: "c \<in> set (nat_str n) \<Longrightarrow> is_digit c"
proof (induction n rule: nat_str.induct)
  case (1 n)
  then show ?case by (cases "n < 10") (auto simp: nat_str.simps [of n])
qed

lemma nat_str_not_Nil [simp]: "nat_str n \<noteq> []"
  by (subst nat_str.simps) simp

lemma is_digit_not_ws: "is_digit c \<Longrightarrow> \<not> is_ws c"
  by (auto simp: is_digit_def is_ws_def)

lemma strip_by_id: "(\<And>c. c \<in> set s \<Longrightarrow> \<not> p c) \<Longrightarrow> strip_by p s = s"
  unfolding strip_by_def by (metis dropWhile_eq_self_iff list.set_sel(1) rev_rev_ident set_rev)

lemma str_strip_nat_str [simp]: "str_strip (nat_str n) = nat_str n"
  unfolding str_strip_def by (rule strip_by_id) (auto dest: nat_str_digits is_digit_not_ws)

lemma int_of_str_int_str [simp]: "int_of_str (int_str i) = Some i"
proof (cases "i < 0")
  case True
  have "str_strip (CHR ''-'' # nat_str (nat (- i))) = CHR ''-'' # nat_str (nat (- i))"
    unfolding str_strip_def
    by (rule strip_by_id) (auto dest!: nat_str_digits is_digit_not_ws simp: is_ws_def)
  with True show ?thesis by (simp add: int_str_def int_of_str_def)
next
  case False
  obtain c r where cr: "nat_str (nat i) = c # r" by (cases "nat_str (nat i)") auto
  have "is_digit c" using nat_str_digits [of c "nat i"] cr by simp
  then have "c \<noteq> CHR ''-''" "c \<noteq> CHR ''+''" by (auto simp: is_digit_def)
  with False cr show ?thesis
    using str_strip_nat_str [of "nat i"] nat_of_str_nat_str [of "nat i"]
    by (simp add: int_str_def int_of_str_def)
qed

section \<open>\<open>str\<close>, \<open>repr\<close> and \<open>int\<close>\<close>

definition hex_digit :: "nat \<Rightarrow> char" where
  "hex_digit n = (if n < 10 then char_of (48 + n) else char_of (87 + n))"

text \<open>One character inside a \<open>repr\<close> with quote \<open>q\<close>.\<close>

definition repr_char :: "char \<Rightarrow> char \<Rightarrow> string" where
  "repr_char q c =
     (if c = CHR 0x5C \<or> c = q then [CHR 0x5C, c]
      else if chr_code c = 10 then [CHR 0x5C, CHR ''n'']
      else if chr_code c = 13 then [CHR 0x5C, CHR ''r'']
      else if chr_code c = 9 then [CHR 0x5C, CHR ''t'']
      else if chr_code c < 32 \<or> chr_code c = 127
        then [CHR 0x5C, CHR ''x'', hex_digit (chr_code c div 16), hex_digit (chr_code c mod 16)]
      else [c])"

definition str_repr :: "string \<Rightarrow> string" where
  "str_repr s =
     (let q = (if CHR 0x27 \<in> set s \<and> CHR 0x22 \<notin> set s then CHR 0x22 else CHR 0x27)
      in [q] @ concat (map (repr_char q) s) @ [q])"

fun py_repr :: "pyval \<Rightarrow> string"
  and py_repr_list :: "pyval list \<Rightarrow> string"
  and py_repr_items :: "(string \<times> pyval) list \<Rightarrow> string" where
  "py_repr PNone = ''None''"
| "py_repr (PBool b) = (if b then ''True'' else ''False'')"
| "py_repr (PInt i) = int_str i"
| "py_repr (PStr s) = str_repr s"
| "py_repr (PList xs) = ''['' @ py_repr_list xs @ '']''"
| "py_repr (PDict d) = ''{'' @ py_repr_items d @ ''}''"
| "py_repr_list [] = []"
| "py_repr_list [x] = py_repr x"
| "py_repr_list (x # y # zs) = py_repr x @ '', '' @ py_repr_list (y # zs)"
| "py_repr_items [] = []"
| "py_repr_items [(k, v)] = str_repr k @ '': '' @ py_repr v"
| "py_repr_items ((k, v) # i # is) = str_repr k @ '': '' @ py_repr v @ '', '' @ py_repr_items (i # is)"

fun py_str :: "pyval \<Rightarrow> string" where
  "py_str (PStr s) = s"
| "py_str v = py_repr v"

text \<open>\<open>int(v)\<close>.\<close>

fun py_int :: "pyval \<Rightarrow> int res" where
  "py_int (PInt i) = Inr i"
| "py_int (PBool b) = Inr (if b then 1 else 0)"
| "py_int (PStr s) =
     (case int_of_str s of
        None \<Rightarrow> Inl (ValueError (''invalid literal for int() with base 10: '' @ str_repr s))
      | Some i \<Rightarrow> Inr i)"
| "py_int _ = Inl (TypeError ''int() argument must be a string, a bytes-like object or a real number'')"

text \<open>\<open>s if s else None\<close> for an optional text column, and a column as a value.\<close>

fun opt_str :: "string option \<Rightarrow> pyval" where
  "opt_str None = PNone"
| "opt_str (Some s) = PStr s"

fun opt_int :: "int option \<Rightarrow> pyval" where
  "opt_int None = PNone"
| "opt_int (Some i) = PInt i"

lemma opt_str_inj [simp]: "opt_str a = opt_str b \<longleftrightarrow> a = b"
  by (cases a; cases b) auto

lemma py_int_str [simp]: "py_int (PStr (int_str i)) = Inr i"
  by simp

text \<open>The items a \<open>for\<close> loop sees in \<open>value or []\<close>; iterating a number raises.\<close>

fun py_iter :: "pyval \<Rightarrow> pyval list res" where
  "py_iter (PList xs) = Inr xs"
| "py_iter (PStr s) = Inr (map (\<lambda>c. PStr [c]) s)"
| "py_iter (PDict d) = Inr (map (\<lambda>(k, _). PStr k) d)"
| "py_iter _ = Inl (TypeError ''object is not iterable'')"

text \<open>
  \<open>dict(v)\<close>: a copy of a dictionary, or the pairs of an iterable; a pair is any iterable of two.
  A key that is not a string has no counterpart in a JSON object.
\<close>

fun py_pair :: "pyval \<Rightarrow> (string \<times> pyval) res" where
  "py_pair (PList [PStr k, v]) = Inr (k, v)"
| "py_pair (PList [_, _]) = Inl (TypeError ''keys must be strings'')"
| "py_pair (PList _) = Inl (ValueError ''dictionary update sequence element has the wrong length; 2 is required'')"
| "py_pair (PStr [a, b]) = Inr ([a], PStr [b])"
| "py_pair (PStr _) = Inl (ValueError ''dictionary update sequence element has the wrong length; 2 is required'')"
| "py_pair (PDict [(k, _), (k', _)]) = Inr (k, PStr k')"
| "py_pair (PDict _) = Inl (ValueError ''dictionary update sequence element has the wrong length; 2 is required'')"
| "py_pair _ = Inl (TypeError ''cannot convert dictionary update sequence element to a sequence'')"

definition py_dict :: "pyval \<Rightarrow> dict res" where
  "py_dict v =
     (case v of
        PDict d \<Rightarrow> Inr d
      | _ \<Rightarrow> rbind (py_iter v) (\<lambda>items. rbind (rmap py_pair items) (\<lambda>pairs. Inr (dmerge [] pairs))))"

lemma py_dict_simps [simp]: "py_dict (PDict d) = Inr d" "py_dict (PList []) = Inr []" "py_dict (PStr []) = Inr []"
  by (simp_all add: py_dict_def)

text \<open>\<open>list(v)\<close>.\<close>

definition py_list :: "pyval \<Rightarrow> pyval list res" where
  "py_list v = py_iter v"

end
