(* ===== verification/Domain_Models.thy ===== *)
theory Domain_Models
  imports Py_Values
begin

text \<open>
  The relational model of the platform (\<open>services/platform/app/domain/models.py\<close>): one
  record per SQLAlchemy class, with a field per column. A field is the column's name after a
  prefix for the table (\<open>ar_status\<close> is \<open>AuditRun.status\<close>), because several tables share
  column names; \<open>metadata_json\<close> and \<open>filter_json\<close> lose their suffix. The mixin with the
  two time stamps is the record every table extends. Nullable columns are options, JSON columns
  are Python dictionaries or lists.

  \<open>db\<close> is the database the modelled components work on: the rows of each table in the order
  they were inserted, the clock, the source of fresh identifiers (\<open>uuid.uuid4\<close>), the sequences
  behind the integer keys, and the JSON files of the artifact directory by their relative path.
\<close>

text \<open>Microseconds since 1970-01-01T00:00:00+00:00; every time of the platform is in UTC.\<close>

type_synonym time = int

record timestamped =
  created_at :: time
  updated_at :: time

record audit_run = timestamped +
  ar_audit_run_id :: string
  ar_project_id :: string
  ar_snapshot_id :: "string option"
  ar_status :: string
  ar_validator_rounds :: int
  ar_max_parallel_validators :: int
  ar_allow_external_network :: bool
  ar_retain_runtime_on_failure :: bool
  ar_config :: dict

record audit_run_event = timestamped +
  are_id :: int
  are_audit_run_id :: string
  are_event_type :: string
  are_payload :: dict

record platform_audit_event = timestamped +
  pa_id :: int
  pa_service :: string
  pa_method :: string
  pa_path :: string
  pa_status_code :: int
  pa_client_host :: "string option"
  pa_user_agent :: "string option"
  pa_auth_enabled :: bool
  pa_auth_result :: string
  pa_request_id :: "string option"
  pa_metadata :: dict

record api_key_record = timestamped +
  ak_key_id :: string
  ak_name :: string
  ak_key_hash :: string
  ak_scopes :: "string list"
  ak_status :: string
  ak_last_used_at :: "time option"
  ak_deactivated_at :: "time option"
  ak_metadata :: dict

record worker_heartbeat = timestamped +
  wh_worker_id :: string
  wh_service_name :: string
  wh_hostname :: string
  wh_status :: string
  wh_last_seen_at :: time
  wh_current_audit_run_id :: "string option"
  wh_metadata :: dict

record project = timestamped +
  pr_project_id :: string
  pr_name :: string
  pr_source_type :: string
  pr_source_uri :: "string option"
  pr_default_branch :: "string option"
  pr_status :: string
  pr_metadata :: dict

record project_snapshot = timestamped +
  sn_snapshot_id :: string
  sn_project_id :: string
  sn_source_type :: string
  sn_source_ref :: "string option"
  sn_workspace_path :: string
  sn_artifact_path :: "string option"
  sn_content_hash :: "string option"
  sn_status :: string
  sn_metadata :: dict

record container_run = timestamped +
  cr_id :: int
  cr_audit_run_id :: string
  cr_project_id :: string
  cr_agent_run_id :: "string option"
  cr_container_id :: string
  cr_container_name :: "string option"
  cr_image :: string
  cr_role :: string
  cr_status :: string
  cr_exit_code :: "int option"
  cr_log_artifact :: "string option"
  cr_labels :: dict

record agent_runtime = timestamped +
  rt_runtime_id :: string
  rt_audit_run_id :: string
  rt_project_id :: string
  rt_status :: string
  rt_runtime_kind :: string
  rt_runner_container_id :: "string option"
  rt_runner_container_name :: "string option"
  rt_network_name :: "string option"
  rt_mcp_containers :: "dict list"
  rt_container_ids :: "string list"
  rt_endpoint_url :: "string option"
  rt_ttl_expires_at :: "time option"
  rt_cleanup_status :: string
  rt_cleanup_reason :: "string option"
  rt_metadata :: dict

record runtime_network = timestamped +
  rn_id :: int
  rn_audit_run_id :: string
  rn_name :: string
  rn_status :: string

record agent_run = timestamped +
  ag_agent_run_id :: string
  ag_audit_run_id :: string
  ag_project_id :: string
  ag_agent_name :: string
  ag_template_name :: string
  ag_protocol_kind :: string
  ag_status :: string
  ag_input_summary :: dict
  ag_output_summary :: dict
  ag_artifact_path :: "string option"
  ag_error :: "string option"
  ag_runtime_id :: "string option"
  ag_acp_session_id :: "string option"
  ag_decision_status :: "string option"
  ag_decision_reason :: "string option"

record agent_run_event = timestamped +
  age_id :: int
  age_agent_run_id :: string
  age_event_type :: string
  age_payload :: dict

record agent_transcript_event = timestamped +
  te_id :: int
  te_agent_run_id :: string
  te_audit_run_id :: string
  te_runtime_id :: "string option"
  te_seq :: int
  te_event_type :: string
  te_session_id :: "string option"
  te_payload :: dict
  te_content_text :: "string option"

record artifact_record = timestamped +
  af_artifact_id :: string
  af_artifact_uri :: string
  af_storage_backend :: string
  af_path :: string
  af_content_type :: "string option"
  af_sha256 :: string
  af_size :: int
  af_audit_run_id :: "string option"
  af_project_id :: "string option"
  af_metadata :: dict

record finding = timestamped +
  fi_finding_id :: string
  fi_audit_run_id :: string
  fi_project_id :: string
  fi_title :: string
  fi_severity :: string
  fi_status :: string
  fi_file_path :: "string option"
  fi_line_start :: "int option"
  fi_line_end :: "int option"
  fi_rule_id :: "string option"
  fi_description :: "string option"
  fi_source :: string
  fi_raw :: dict

record evidence = timestamped +
  ev_evidence_id :: string
  ev_finding_id :: string
  ev_audit_run_id :: string
  ev_kind :: string
  ev_summary :: "string option"
  ev_artifact_path :: "string option"
  ev_payload :: dict

record finding_triage_decision = timestamped +
  td_decision_id :: string
  td_audit_run_id :: string
  td_project_id :: string
  td_finding_id :: "string option"
  td_card_id :: "string option"
  td_agent_run_id :: "string option"
  td_decision_status :: string
  td_decision_reason :: "string option"
  td_deep_dive_allowed :: bool
  td_poc_allowed :: bool
  td_confidence :: "string option"
  td_signals :: dict

record dependency_record = timestamped +
  dr_dependency_id :: string
  dr_audit_run_id :: string
  dr_project_id :: string
  dr_ecosystem :: string
  dr_name :: string
  dr_version :: "string option"
  dr_manifest :: "string option"
  dr_vulnerability_count :: int
  dr_vulnerabilities :: "dict list"

record code_analysis_task = timestamped +
  ca_task_id :: string
  ca_audit_run_id :: string
  ca_project_id :: string
  ca_title :: string
  ca_focus :: string
  ca_file_paths :: "string list"
  ca_status :: string
  ca_agent_run_id :: "string option"
  ca_result :: dict

record knowledge_document = timestamped +
  kd_document_id :: string
  kd_title :: string
  kd_source_name :: string
  kd_content_type :: "string option"
  kd_scope :: string
  kd_project_id :: "string option"
  kd_status :: string
  kd_chunk_count :: int
  kd_artifact_path :: "string option"
  kd_metadata :: dict

record knowledge_chunk = timestamped +
  kc_chunk_id :: string
  kc_document_id :: string
  kc_scope :: string
  kc_project_id :: "string option"
  kc_chunk_index :: int
  kc_text :: string
  kc_token_count :: int
  kc_vector_id :: string
  kc_metadata :: dict

record validation_attempt = timestamped +
  va_attempt_id :: string
  va_finding_id :: string
  va_audit_run_id :: string
  va_agent_run_id :: "string option"
  va_round_index :: int
  va_status :: string
  va_result :: dict

record report_artifact = timestamped +
  re_report_id :: string
  re_audit_run_id :: string
  re_project_id :: string
  re_kind :: string
  re_path :: string
  re_summary :: dict

record deliverable_artifact = timestamped +
  da_artifact_id :: string
  da_audit_run_id :: string
  da_project_id :: string
  da_finding_id :: "string option"
  da_kind :: string
  da_path :: string
  da_title :: "string option"
  da_content_type :: "string option"
  da_size :: int
  da_sha256 :: "string option"
  da_metadata :: dict

record whiteboard_card = timestamped +
  wc_card_id :: string
  wc_audit_run_id :: string
  wc_project_id :: string
  wc_title :: string
  wc_card_type :: string
  wc_status :: string
  wc_author :: "string option"
  wc_agent_run_id :: "string option"
  wc_event_time :: "time option"
  wc_content :: "string option"
  wc_confidence :: "string option"
  wc_finding_id :: "string option"
  wc_file_path :: "string option"
  wc_line_start :: "int option"
  wc_line_end :: "int option"
  wc_expected_predecessors :: "dict list"
  wc_possible_successors :: "dict list"
  wc_requirements :: "pyval list"
  wc_metadata :: dict

record whiteboard_edge = timestamped +
  we_edge_id :: string
  we_audit_run_id :: string
  we_project_id :: string
  we_source_card_id :: string
  we_target_card_id :: string
  we_edge_type :: string
  we_author :: "string option"
  we_agent_run_id :: "string option"
  we_rationale :: "string option"
  we_metadata :: dict

record whiteboard_note = timestamped +
  wn_note_id :: string
  wn_audit_run_id :: string
  wn_project_id :: string
  wn_card_id :: "string option"
  wn_author :: "string option"
  wn_agent_run_id :: "string option"
  wn_content :: string
  wn_metadata :: dict

record whiteboard_attachment = timestamped +
  wa_attachment_id :: string
  wa_audit_run_id :: string
  wa_project_id :: string
  wa_card_id :: string
  wa_path :: string
  wa_label :: "string option"
  wa_content_type :: "string option"
  wa_metadata :: dict

record whiteboard_task = timestamped +
  wt_task_id :: string
  wt_audit_run_id :: string
  wt_project_id :: string
  wt_gap_card_id :: "string option"
  wt_agent_role :: string
  wt_agent_name :: string
  wt_status :: string
  wt_round_index :: int
  wt_attempt_index :: int
  wt_agent_run_id :: "string option"
  wt_parent_task_id :: "string option"
  wt_root_task_id :: "string option"
  wt_card_id :: "string option"
  wt_wait_reason :: "string option"
  wt_wake_event_id :: "string option"
  wt_task_group :: "string option"
  wt_requested_by_agent_run_id :: "string option"
  wt_prompt :: "string option"
  wt_result :: dict

record whiteboard_event = timestamped +
  wv_event_id :: string
  wv_audit_run_id :: string
  wv_project_id :: string
  wv_entity_type :: string
  wv_entity_id :: string
  wv_event_type :: string
  wv_summary :: "string option"
  wv_payload :: dict

record whiteboard_subscription = timestamped +
  ws_subscription_id :: string
  ws_audit_run_id :: string
  ws_project_id :: string
  ws_subscriber_task_id :: "string option"
  ws_subscriber_agent_run_id :: "string option"
  ws_filter :: dict
  ws_cursor_event_id :: "string option"
  ws_status :: string

record whiteboard_notification = timestamped +
  wno_notification_id :: string
  wno_audit_run_id :: string
  wno_project_id :: string
  wno_event_id :: string
  wno_subscription_id :: string
  wno_subscriber_task_id :: "string option"
  wno_subscriber_agent_run_id :: "string option"
  wno_status :: string
  wno_claimed_by_agent_run_id :: "string option"
  wno_lease_expires_at :: "time option"
  wno_attempt_count :: int
  wno_summary :: "string option"
  wno_payload :: dict

record whiteboard_schedule_request = timestamped +
  wsr_request_id :: string
  wsr_audit_run_id :: string
  wsr_project_id :: string
  wsr_requested_by_task_id :: "string option"
  wsr_requested_by_agent_run_id :: "string option"
  wsr_suggested_agent_name :: "string option"
  wsr_goal :: string
  wsr_reason :: "string option"
  wsr_related_card_ids :: "string list"
  wsr_status :: string
  wsr_decision :: dict
  wsr_task_id :: "string option"

section \<open>The database\<close>

record db =
  db_now :: time
  db_uuids :: "nat \<Rightarrow> string"
  db_uuid_next :: nat
  db_event_seq :: int
  db_agent_event_seq :: int
  audit_runs :: "audit_run list"
  audit_run_events :: "audit_run_event list"
  agent_runs :: "agent_run list"
  agent_run_events :: "agent_run_event list"
  worker_heartbeats :: "worker_heartbeat list"
  findings :: "finding list"
  evidence_rows :: "evidence list"
  triage_decisions :: "finding_triage_decision list"
  wb_cards :: "whiteboard_card list"
  wb_edges :: "whiteboard_edge list"
  wb_notes :: "whiteboard_note list"
  wb_attachments :: "whiteboard_attachment list"
  wb_tasks :: "whiteboard_task list"
  wb_events :: "whiteboard_event list"
  wb_subscriptions :: "whiteboard_subscription list"
  wb_notifications :: "whiteboard_notification list"
  wb_requests :: "whiteboard_schedule_request list"
  artifact_files :: "string \<Rightarrow> pyval option"

text \<open>\<open>str(uuid.uuid4())\<close>.\<close>

definition fresh_uuid :: "db \<Rightarrow> string \<times> db" where
  "fresh_uuid d = (db_uuids d (db_uuid_next d), d\<lparr>db_uuid_next := Suc (db_uuid_next d)\<rparr>)"

text \<open>
  What SQLAlchemy writes for a changed row: \<open>onupdate=func.now()\<close> stamps it, and a row whose
  columns all kept their values is not written at all.
\<close>

definition stamped :: "time \<Rightarrow> 'a timestamped_scheme \<Rightarrow> 'a timestamped_scheme \<Rightarrow> 'a timestamped_scheme" where
  "stamped t old new = (if new = old then old else new\<lparr>updated_at := t\<rparr>)"

section \<open>Tables\<close>

interpretation runs_table: db_table ar_audit_run_id audit_runs "\<lambda>rs d. d\<lparr>audit_runs := rs\<rparr>"
  by unfold_locales simp

interpretation heartbeat_table: db_table wh_worker_id worker_heartbeats "\<lambda>rs d. d\<lparr>worker_heartbeats := rs\<rparr>"
  by unfold_locales simp

interpretation findings_table: db_table fi_finding_id findings "\<lambda>rs d. d\<lparr>findings := rs\<rparr>"
  by unfold_locales simp

interpretation cards_table: db_table wc_card_id wb_cards "\<lambda>rs d. d\<lparr>wb_cards := rs\<rparr>"
  by unfold_locales simp

interpretation tasks_table: db_table wt_task_id wb_tasks "\<lambda>rs d. d\<lparr>wb_tasks := rs\<rparr>"
  by unfold_locales simp

interpretation notifications_table:
  db_table wno_notification_id wb_notifications "\<lambda>rs d. d\<lparr>wb_notifications := rs\<rparr>"
  by unfold_locales simp

interpretation requests_table: db_table wsr_request_id wb_requests "\<lambda>rs d. d\<lparr>wb_requests := rs\<rparr>"
  by unfold_locales simp

end
