(* ===== verification/Py_Time.thy ===== *)
theory Py_Time
  imports Domain_Models
begin

text \<open>
  \<open>datetime.isoformat()\<close> for the UTC times of the platform: the civil date of a day number in
  the proleptic Gregorian calendar, the time of the day, the microseconds when there are any,
  and the offset \<open>+00:00\<close>.
\<close>

definition pad :: "nat \<Rightarrow> nat \<Rightarrow> string" where
  "pad w n = (let s = nat_str n in replicate (w - length s) (CHR ''0'') @ s)"

text \<open>Year, month and day of the day number \<open>z\<close> (0 is 1970-01-01).\<close>

definition civil_from_days :: "int \<Rightarrow> int \<times> int \<times> int" where
  "civil_from_days z0 =
     (let z = z0 + 719468;
          era = z div 146097;
          doe = z mod 146097;
          yoe = (doe - doe div 1460 + doe div 36524 - doe div 146096) div 365;
          doy = doe - (365 * yoe + yoe div 4 - yoe div 100);
          mp = (5 * doy + 2) div 153;
          m = (if mp < 10 then mp + 3 else mp - 9);
          y = yoe + era * 400 + (if m \<le> 2 then 1 else 0)
      in (y, m, doy - (153 * mp + 2) div 5 + 1))"

definition micros_per_day :: int where
  "micros_per_day = 86400000000"

definition iso_utc :: "time \<Rightarrow> string" where
  "iso_utc t =
     (case civil_from_days (t div micros_per_day) of (y, m, d) \<Rightarrow>
        let r = t mod micros_per_day; us = r mod 1000000; s = r div 1000000
        in pad 4 (nat y) @ ''-'' @ pad 2 (nat m) @ ''-'' @ pad 2 (nat d) @ ''T''
           @ pad 2 (nat (s div 3600)) @ '':'' @ pad 2 (nat (s div 60 mod 60)) @ '':'' @ pad 2 (nat (s mod 60))
           @ (if us = 0 then [] else ''.'' @ pad 6 (nat us)) @ ''+00:00'')"

definition seconds :: "int \<Rightarrow> time" where
  "seconds n = n * 1000000"

definition pytime :: "time \<Rightarrow> pyval" where
  "pytime t = PStr (iso_utc t)"

fun opt_time :: "time option \<Rightarrow> pyval" where
  "opt_time None = PNone"
| "opt_time (Some t) = pytime t"

text \<open>\<open>s.replace("Z", "+00:00")\<close>, what \<open>fromisoformat\<close> is given.\<close>

fun replace_Z :: "string \<Rightarrow> string" where
  "replace_Z [] = []"
| "replace_Z (c # s) = (if c = CHR ''Z'' then ''+00:00'' @ replace_Z s else c # replace_Z s)"

lemma civil_epoch: "civil_from_days 0 = (1970, 1, 1)"
  by code_simp

lemma civil_leap_day: "civil_from_days 19782 = (2024, 2, 29)"
  by code_simp

end
