(* ===== verification/Artifact_Paths.thy ===== *)
theory Artifact_Paths
  imports Py_Time
begin

text \<open>
  Naming and confining of artifacts (\<open>services/platform/app/services/artifacts.py\<close>): the
  identifier of an artifact is the URL-safe base64 of its relative path, and every path a caller
  supplies is resolved below the artifact root. Paths are lists of components; \<open>resolve\<close> is
  taken without symbolic links. The files themselves are a parameter (\<open>artifact_fs\<close>); the
  MinIO backend is a service that is not modelled.
\<close>

section \<open>Paths\<close>

text \<open>\<open>pathlib\<close> drops empty and \<open>.\<close> components when it parses a path.\<close>

definition path_parts :: "string \<Rightarrow> string list" where
  "path_parts p = filter (\<lambda>c. c \<noteq> [] \<and> c \<noteq> ''.'') (split_on (CHR ''/'') p)"

definition is_absolute :: "string \<Rightarrow> bool" where
  "is_absolute p = starts_with p ''/''"

text \<open>\<open>Path.resolve\<close>: \<open>..\<close> removes the component before it and is void at the root.\<close>

fun resolve_onto :: "string list \<Rightarrow> string list \<Rightarrow> string list" where
  "resolve_onto acc [] = acc"
| "resolve_onto acc (c # cs) =
     (if c = ''..'' then resolve_onto (butlast acc) cs else resolve_onto (acc @ [c]) cs)"

definition resolve_parts :: "string list \<Rightarrow> string list" where
  "resolve_parts = resolve_onto []"

definition posix_of :: "string list \<Rightarrow> string" where
  "posix_of ps = join ''/'' ps"

definition clean_parts :: "string list \<Rightarrow> bool" where
  "clean_parts ps = (\<forall>c \<in> set ps. c \<noteq> [] \<and> c \<noteq> ''.'' \<and> c \<noteq> ''..'' \<and> CHR ''/'' \<notin> set c)"

record artifact_settings =
  as_root :: "string list"
  as_backend :: string
  as_bucket :: string

definition artifact_root :: "artifact_settings \<Rightarrow> string list" where
  "artifact_root s = resolve_parts (as_root s)"

definition artifact_absolute_path :: "artifact_settings \<Rightarrow> string \<Rightarrow> string list res" where
  "artifact_absolute_path s path =
     (let root = artifact_root s;
          candidate = (if is_absolute path then path_parts path else root @ path_parts path);
          resolved = resolve_parts candidate
      in if resolved \<noteq> root \<and> \<not> strict_prefix root resolved
         then Inl (ValueError ''artifact path escapes artifact root'')
         else Inr resolved)"

definition artifact_relative_path :: "artifact_settings \<Rightarrow> string \<Rightarrow> string res" where
  "artifact_relative_path s path =
     rbind (artifact_absolute_path s path) (\<lambda>resolved.
       let root = artifact_root s
       in if prefix root resolved
          then Inr (if drop (length root) resolved = [] then ''.'' else posix_of (drop (length root) resolved))
          else Inl (ValueError ''artifact path escapes artifact root''))"

definition artifact_storage_backend :: "artifact_settings \<Rightarrow> string" where
  "artifact_storage_backend s =
     str_lower (str_strip (if as_backend s = [] then ''local'' else as_backend s))"

definition artifact_uri :: "artifact_settings \<Rightarrow> string \<Rightarrow> string" where
  "artifact_uri s relative_path =
     (if artifact_storage_backend s = ''minio''
      then ''minio://'' @ (if as_bucket s = [] then ''dieaudit-artifacts'' else as_bucket s) @ ''/'' @ relative_path
      else ''local://artifacts/'' @ relative_path)"

definition normalize_slashes :: "string \<Rightarrow> string" where
  "normalize_slashes p = replace_char (CHR 0x5C) (CHR ''/'') (str_strip p)"

definition validate_relative_path :: "artifact_settings \<Rightarrow> string \<Rightarrow> string res" where
  "validate_relative_path s relative_path =
     (let normalized = normalize_slashes relative_path
      in if normalized = [] \<or> is_absolute normalized \<or> contains (''/'' @ normalized @ ''/'') ''/../''
         then Inl (ValueError ''invalid artifact path'')
         else rbind (artifact_absolute_path s normalized) (\<lambda>_. Inr normalized))"

text \<open>\<open>artifact_path_matches\<close>: any path error counts as no match.\<close>

definition artifact_path_matches :: "artifact_settings \<Rightarrow> string option \<Rightarrow> string \<Rightarrow> bool" where
  "artifact_path_matches s stored requested =
     (case stored of
        None \<Rightarrow> False
      | Some p \<Rightarrow>
          p \<noteq> [] \<and>
          (case (artifact_relative_path s p, artifact_relative_path s requested) of
             (Inr a, Inr b) \<Rightarrow> a = b
           | _ \<Rightarrow> False))"

section \<open>Artifact identifiers\<close>

definition b64_char :: "nat \<Rightarrow> char" where
  "b64_char n =
     (if n < 26 then char_of (65 + n)
      else if n < 52 then char_of (71 + n)
      else if n < 62 then char_of (n - 4)
      else if n = 62 then CHR ''-'' else CHR ''_'')"

text \<open>
  The value of a character for \<open>urlsafe_b64decode\<close>, which first turns \<open>-_\<close> into \<open>+/\<close>; a
  character outside the alphabet has none.
\<close>

definition b64_val :: "char \<Rightarrow> nat option" where
  "b64_val c =
     (let n = chr_code c in
      if 65 \<le> n \<and> n \<le> 90 then Some (n - 65)
      else if 97 \<le> n \<and> n \<le> 122 then Some (n - 71)
      else if 48 \<le> n \<and> n \<le> 57 then Some (n + 4)
      else if c = CHR ''-'' \<or> c = CHR ''+'' then Some 62
      else if c = CHR ''_'' \<or> c = CHR ''/'' then Some 63
      else None)"

fun b64_encode :: "nat list \<Rightarrow> string" where
  "b64_encode [] = []"
| "b64_encode [a] = [b64_char (a div 4), b64_char (a mod 4 * 16), CHR ''='', CHR ''='']"
| "b64_encode [a, b] =
     [b64_char (a div 4), b64_char (a mod 4 * 16 + b div 16), b64_char (b mod 16 * 4), CHR ''='']"
| "b64_encode (a # b # c # r) =
     [b64_char (a div 4), b64_char (a mod 4 * 16 + b div 16), b64_char (b mod 16 * 4 + c div 64),
      b64_char (c mod 64)] @ b64_encode r"

text \<open>
  \<open>binascii.a2b_base64\<close> as \<open>urlsafe_b64decode\<close> calls it: position in the group of four,
  bits left over from it, padding seen, bytes so far. Characters outside the alphabet are
  skipped; complete padding ends the data; data that ends inside a group is an error.
\<close>

fun a2b :: "nat \<Rightarrow> nat \<Rightarrow> nat \<Rightarrow> nat list \<Rightarrow> string \<Rightarrow> nat list option" where
  "a2b q left pads out [] = (if q = 0 then Some out else None)"
| "a2b q left pads out (c # s) =
     (if c = CHR ''='' then
        (if 2 \<le> q \<and> 4 \<le> q + Suc pads then Some out else a2b q left (Suc pads) out s)
      else
        case b64_val c of
          None \<Rightarrow> a2b q left pads out s
        | Some v \<Rightarrow>
            if q = 0 then a2b 1 v 0 out s
            else if q = 1 then a2b 2 (v mod 16) 0 (out @ [left * 4 + v div 16]) s
            else if q = 2 then a2b 3 (v mod 4) 0 (out @ [left * 16 + v div 4]) s
            else a2b 0 0 0 (out @ [left * 64 + v]) s)"

definition artifact_id_for_relative_path :: "string \<Rightarrow> string" where
  "artifact_id_for_relative_path relative_path =
     (let normalized = normalize_slashes relative_path;
          encoded = b64_encode (map chr_code normalized)
      in rev (dropWhile (\<lambda>c. c = CHR ''='') (rev encoded)))"

definition relative_path_for_artifact_id :: "string \<Rightarrow> string res" where
  "relative_path_for_artifact_id artifact_id =
     (let padding = replicate ((4 - length artifact_id mod 4) mod 4) (CHR ''='')
      in case a2b 0 0 0 [] (artifact_id @ padding) of
           None \<Rightarrow> Inl (ValueError ''invalid artifact id'')
         | Some bytes \<Rightarrow>
             if \<not> list_all (\<lambda>b. b < 128) bytes then Inl (ValueError ''invalid artifact id'')
             else let decoded = map char_of bytes
                  in if decoded = [] \<or> is_absolute decoded \<or> CHR 0x5C \<in> set decoded
                     then Inl (ValueError ''invalid artifact id'')
                     else Inr decoded)"

section \<open>Metadata of a stored file\<close>

record artifact_file =
  file_size :: int
  file_sha256 :: string
  file_mtime :: pyval

text \<open>What is at a path: nothing, a file, or something that is not a file.\<close>

datatype path_kind = Missing | NotAFile | IsFile artifact_file

record artifact_fs =
  fs_kind :: "string list \<Rightarrow> path_kind"
  fs_guess_type :: "string \<Rightarrow> string option"

definition quote_char :: "char \<Rightarrow> string" where
  "quote_char c =
     (if is_alnum c \<or> c \<in> set ''_.-~/'' then [c]
      else let up = (\<lambda>n. if n < 10 then char_of (48 + n) else char_of (55 + n))
           in [CHR 0x25, up (chr_code c div 16), up (chr_code c mod 16)])"

definition url_quote :: "string \<Rightarrow> string" where
  "url_quote s = concat (map quote_char s)"

definition path_name :: "string list \<Rightarrow> string" where
  "path_name ps = (if ps = [] then [] else last ps)"

definition metadata_from_local ::
  "artifact_settings \<Rightarrow> artifact_fs \<Rightarrow> string \<Rightarrow> string list \<Rightarrow> artifact_file \<Rightarrow> string option \<Rightarrow> dict" where
  "metadata_from_local s fs relative_path local_path f content_type =
     (let artifact_id = artifact_id_for_relative_path relative_path;
          guessed = (case fs_guess_type fs (path_name local_path) of
                       Some t \<Rightarrow> t | None \<Rightarrow> ''application/octet-stream'')
      in [(''artifact_id'', PStr artifact_id),
          (''artifact_uri'', PStr (artifact_uri s relative_path)),
          (''storage_backend'', PStr (artifact_storage_backend s)),
          (''path'', PStr (''/'' @ posix_of local_path)),
          (''relative_path'', PStr relative_path),
          (''name'', PStr (path_name local_path)),
          (''size'', PInt (file_size f)),
          (''sha256'', PStr (file_sha256 f)),
          (''content_type'', PStr (case content_type of Some t \<Rightarrow> if t = [] then guessed else t | None \<Rightarrow> guessed)),
          (''updated_at'', file_mtime f),
          (''download_url'', PStr (''/artifacts/download?path='' @ url_quote relative_path)),
          (''canonical_download_url'', PStr (''/artifacts/'' @ url_quote artifact_id @ ''/download''))])"

text \<open>\<open>ArtifactStore.metadata_for_path\<close> with the local backend.\<close>

definition metadata_for_path :: "artifact_settings \<Rightarrow> artifact_fs \<Rightarrow> string \<Rightarrow> dict res" where
  "metadata_for_path s fs path =
     rbind (artifact_relative_path s path) (\<lambda>relative_path.
     rbind (artifact_absolute_path s relative_path) (\<lambda>local_path.
       case fs_kind fs local_path of
         IsFile f \<Rightarrow> Inr (metadata_from_local s fs relative_path local_path f None)
       | NotAFile \<Rightarrow> Inl (ValueError ''artifact path is not a file'')
       | Missing \<Rightarrow> Inl (OtherError ''artifact not found'')))"

section \<open>Lemmas: confinement\<close>

lemma resolve_onto_prefix_clean:
  "''..'' \<notin> set cs \<Longrightarrow> resolve_onto acc cs = acc @ cs"
  by (induction cs arbitrary: acc) auto

lemma resolve_onto_no_dotdot:
  "''..'' \<notin> set acc \<Longrightarrow> ''..'' \<notin> set (resolve_onto acc cs)"
  by (induction acc cs rule: resolve_onto.induct) (auto dest: in_set_butlastD)

lemma resolve_parts_no_dotdot: "''..'' \<notin> set (resolve_parts ps)"
  by (simp add: resolve_parts_def resolve_onto_no_dotdot)

lemma resolve_parts_id: "''..'' \<notin> set ps \<Longrightarrow> resolve_parts ps = ps"
  by (simp add: resolve_parts_def resolve_onto_prefix_clean)

lemma resolve_parts_append_clean:
  "''..'' \<notin> set qs \<Longrightarrow> resolve_parts (ps @ qs) = resolve_parts ps @ qs"
proof -
  have "resolve_onto acc (ps @ qs) = resolve_onto (resolve_onto acc ps) qs" for acc
    by (induction acc ps rule: resolve_onto.induct) auto
  then show "''..'' \<notin> set qs \<Longrightarrow> ?thesis"
    by (simp add: resolve_parts_def resolve_onto_prefix_clean)
qed

lemma artifact_root_no_dotdot: "''..'' \<notin> set (artifact_root s)"
  by (simp add: artifact_root_def resolve_parts_no_dotdot)

lemma absolute_path_below_root:
  "artifact_absolute_path s p = Inr r \<Longrightarrow> prefix (artifact_root s) r"
  by (auto simp: artifact_absolute_path_def Let_def strict_prefix_def split: if_splits)

lemma absolute_path_no_dotdot:
  "artifact_absolute_path s p = Inr r \<Longrightarrow> ''..'' \<notin> set r"
  using artifact_root_no_dotdot
  by (auto simp: artifact_absolute_path_def Let_def resolve_parts_no_dotdot split: if_splits)

lemma absolute_path_relative_clean:
  assumes "\<not> is_absolute p" and "''..'' \<notin> set (path_parts p)"
  shows "artifact_absolute_path s p = Inr (artifact_root s @ path_parts p)"
proof -
  have "resolve_parts (artifact_root s @ path_parts p) = artifact_root s @ path_parts p"
    using assms(2) artifact_root_no_dotdot by (intro resolve_parts_id) auto
  then show ?thesis using assms(1) by (auto simp: artifact_absolute_path_def Let_def strict_prefix_def)
qed

lemma set_path_parts:
  assumes "c \<in> set (path_parts p)" shows "c \<noteq> []" "c \<noteq> ''.''" "CHR ''/'' \<notin> set c"
proof -
  from assms have "c \<in> set (split_on (CHR ''/'') p)" by (auto simp: path_parts_def)
  then show "CHR ''/'' \<notin> set c" by (rule split_on_no_sep)
  from assms show "c \<noteq> []" "c \<noteq> ''.''" by (auto simp: path_parts_def)
qed

lemma split_on_no_occurrence: "c \<notin> set s \<Longrightarrow> split_on c s = [s]"
  by (induction s) auto

lemma split_on_append: "c \<notin> set p \<Longrightarrow> split_on c (p @ c # s) = p # split_on c s"
  by (induction p) auto

lemma split_on_join:
  "ps \<noteq> [] \<Longrightarrow> (\<And>p. p \<in> set ps \<Longrightarrow> c \<notin> set p) \<Longrightarrow> split_on c (join [c] ps) = ps"
proof (induction "[c]" ps rule: join.induct)
  case 1
  then show ?case by simp
next
  case (2 x)
  then show ?case by (simp add: split_on_no_occurrence)
next
  case (3 x y zs)
  then have "split_on c (join [c] (y # zs)) = y # zs" by simp
  moreover have "c \<notin> set x" using 3 by simp
  ultimately show ?case by (simp add: split_on_append)
qed

lemma path_parts_posix_of:
  assumes "clean_parts ps" shows "path_parts (posix_of ps) = ps"
proof (cases ps)
  case Nil
  then show ?thesis by (simp add: posix_of_def path_parts_def)
next
  case (Cons x xs)
  have "split_on (CHR ''/'') (join [CHR ''/''] ps) = ps"
    using assms Cons by (intro split_on_join) (auto simp: clean_parts_def)
  moreover have "filter (\<lambda>c. c \<noteq> [] \<and> c \<noteq> ''.'') ps = ps"
    using assms by (intro filter_True) (auto simp: clean_parts_def)
  ultimately show ?thesis by (simp add: path_parts_def posix_of_def)
qed

lemma posix_of_not_absolute:
  assumes "clean_parts ps" shows "\<not> is_absolute (posix_of ps)"
proof (cases ps)
  case Nil
  then show ?thesis by (simp add: posix_of_def is_absolute_def starts_with_def)
next
  case (Cons x xs)
  then obtain c r where "x = c # r" "c \<noteq> CHR ''/''"
    using assms by (cases x) (auto simp: clean_parts_def)
  with Cons show ?thesis
    by (cases xs) (auto simp: posix_of_def is_absolute_def starts_with_def)
qed

lemma resolve_onto_keeps:
  "c \<in> set (resolve_onto acc cs) \<Longrightarrow> c \<in> set acc \<or> c \<in> set cs"
  by (induction acc cs rule: resolve_onto.induct) (auto split: if_splits dest: in_set_butlastD)

lemma absolute_path_clean:
  assumes "artifact_absolute_path s p = Inr r" and "clean_parts (artifact_root s)"
  shows "clean_parts r"
proof -
  have "c \<noteq> [] \<and> c \<noteq> ''.'' \<and> CHR ''/'' \<notin> set c" if "c \<in> set r" for c
  proof -
    have "c \<in> set (artifact_root s) \<or> c \<in> set (path_parts p)"
      using that assms(1)
      by (auto simp: artifact_absolute_path_def resolve_parts_def Let_def split: if_splits
               dest!: resolve_onto_keeps)
    then show ?thesis using assms(2) set_path_parts [of c p] by (auto simp: clean_parts_def)
  qed
  moreover have "''..'' \<notin> set r" using assms(1) by (rule absolute_path_no_dotdot)
  ultimately show ?thesis by (auto simp: clean_parts_def)
qed

lemma relative_path_absolute_again:
  assumes rel: "artifact_relative_path s p = Inr q" and root: "clean_parts (artifact_root s)"
  shows "artifact_absolute_path s q = artifact_absolute_path s p"
proof -
  obtain r where r: "artifact_absolute_path s p = Inr r"
    using rel by (auto simp: artifact_relative_path_def rbind_Inr_iff)
  obtain t where t: "r = artifact_root s @ t"
    using absolute_path_below_root [OF r] by (auto simp: prefix_def)
  have q: "q = (if t = [] then ''.'' else posix_of t)"
    using rel r t by (auto simp: artifact_relative_path_def Let_def split: if_splits)
  have ct: "clean_parts t" using absolute_path_clean [OF r root] t by (auto simp: clean_parts_def)
  show ?thesis
  proof (cases "t = []")
    case True
    have "\<not> is_absolute q" "path_parts q = []"
      using q True by (simp_all add: is_absolute_def starts_with_def path_parts_def)
    then show ?thesis using r t True by (simp add: absolute_path_relative_clean)
  next
    case False
    then have "\<not> is_absolute q" "path_parts q = t"
      using q ct by (simp_all add: posix_of_not_absolute path_parts_posix_of)
    moreover have "''..'' \<notin> set t" using ct by (auto simp: clean_parts_def)
    ultimately show ?thesis using r t by (simp add: absolute_path_relative_clean)
  qed
qed

section \<open>Lemmas: base64\<close>

lemma b64_val_char [simp]: "n < 64 \<Longrightarrow> b64_val (b64_char n) = Some n"
  by (auto simp: b64_val_def b64_char_def Let_def)

lemma b64_char_not_pad: "n < 64 \<Longrightarrow> b64_char n \<noteq> CHR ''=''"
proof
  assume "n < 64" and "b64_char n = CHR ''=''"
  then have "b64_val (CHR ''='') = Some n" using b64_val_char [of n] by simp
  then show False by (simp add: b64_val_def)
qed

lemma sextets:
  fixes a b c :: nat
  assumes "a < 256" "b < 256" "c < 256"
  shows "a div 4 < 64" "a mod 4 * 16 < 64" "a mod 4 * 16 + b div 16 < 64" "b mod 16 * 4 < 64"
    "b mod 16 * 4 + c div 64 < 64" "c mod 64 < 64"
proof -
  have "a mod 4 < 4" "b mod 16 < 16" "b div 16 < 16" "c div 64 < 4" using assms by auto
  then show "a mod 4 * 16 + b div 16 < 64" "b mod 16 * 4 + c div 64 < 64" "a mod 4 * 16 < 64" "b mod 16 * 4 < 64"
    by linarith+
qed (use assms in auto)

lemma septets:
  fixes a b c :: nat
  assumes "a < 256" "b < 256" "c < 256"
  shows "a div 4 * 4 + (a mod 4 * 16) div 16 = a" "a div 4 * 4 + (a mod 4 * 16 + b div 16) div 16 = a"
    "(a mod 4 * 16 + b div 16) mod 16 * 16 + (b mod 16 * 4) div 4 = b"
    "(a mod 4 * 16 + b div 16) mod 16 * 16 + (b mod 16 * 4 + c div 64) div 4 = b"
    "(b mod 16 * 4 + c div 64) mod 4 * 64 + c mod 64 = c"
proof -
  have d: "b div 16 < 16" "c div 64 < 4" using assms by auto
  have e: "(x * 16 + b div 16) div 16 = x" "(x * 16 + b div 16) mod 16 = b div 16"
    "(y * 4 + c div 64) div 4 = y" "(y * 4 + c div 64) mod 4 = c div 64" for x y
    using d by simp_all
  show "a div 4 * 4 + (a mod 4 * 16 + b div 16) div 16 = a"
    "(a mod 4 * 16 + b div 16) mod 16 * 16 + (b mod 16 * 4) div 4 = b"
    "(a mod 4 * 16 + b div 16) mod 16 * 16 + (b mod 16 * 4 + c div 64) div 4 = b"
    "(b mod 16 * 4 + c div 64) mod 4 * 64 + c mod 64 = c"
    by (simp_all only: e) simp_all
qed simp

lemma b64_encode_shape:
  assumes "\<forall>b \<in> set bs. b < 256"
  shows "\<exists>body k. b64_encode bs = body @ replicate k (CHR ''='') \<and> CHR ''='' \<notin> set body
          \<and> k < 3 \<and> (length body + k) mod 4 = 0"
  using assms
proof (induction bs rule: b64_encode.induct)
  case 1
  show ?case by (intro exI [of _ "[]"] exI [of _ 0]) simp
next
  case (2 a)
  then show ?case using sextets [of a 0 0]
    by (intro exI [of _ "[b64_char (a div 4), b64_char (a mod 4 * 16)]"] exI [of _ 2])
       (auto simp: numeral_2_eq_2 b64_char_not_pad [symmetric])
next
  case (3 a b)
  then show ?case using sextets [of a b 0]
    by (intro exI [of _ "[b64_char (a div 4), b64_char (a mod 4 * 16 + b div 16), b64_char (b mod 16 * 4)]"]
              exI [of _ 1])
       (auto simp: b64_char_not_pad [symmetric])
next
  case (4 a b c r)
  then obtain body k where IH: "b64_encode r = body @ replicate k (CHR ''='')" "CHR ''='' \<notin> set body"
      "k < 3" "(length body + k) mod 4 = 0" by auto
  let ?g = "[b64_char (a div 4), b64_char (a mod 4 * 16 + b div 16), b64_char (b mod 16 * 4 + c div 64), b64_char (c mod 64)]"
  have "CHR ''='' \<notin> set ?g" using sextets [of a b c] 4 by (auto simp: b64_char_not_pad [symmetric])
  moreover have "(length (?g @ body) + k) mod 4 = 0"
    using IH(4) by (simp add: mod_Suc)
  ultimately show ?case using IH by (intro exI [of _ "?g @ body"] exI [of _ k]) auto
qed

lemma a2b_char:
  "v < 64 \<Longrightarrow> a2b 0 left pads out (b64_char v # s) = a2b 1 v 0 out s"
  "v < 64 \<Longrightarrow> a2b 1 left pads out (b64_char v # s) = a2b 2 (v mod 16) 0 (out @ [left * 4 + v div 16]) s"
  "v < 64 \<Longrightarrow> a2b (Suc 0) left pads out (b64_char v # s) = a2b 2 (v mod 16) 0 (out @ [left * 4 + v div 16]) s"
  "v < 64 \<Longrightarrow> a2b 2 left pads out (b64_char v # s) = a2b 3 (v mod 4) 0 (out @ [left * 16 + v div 4]) s"
  "v < 64 \<Longrightarrow> a2b 3 left pads out (b64_char v # s) = a2b 0 0 0 (out @ [left * 64 + v]) s"
  by (simp_all add: b64_char_not_pad)

lemma a2b_group:
  assumes "a < 256" "b < 256" "c < 256"
  shows "a2b 0 left pads out
      (b64_char (a div 4) # b64_char (a mod 4 * 16 + b div 16) # b64_char (b mod 16 * 4 + c div 64)
       # b64_char (c mod 64) # r) = a2b 0 0 0 (out @ [a, b, c]) r"
  by (simp only: a2b_char sextets [OF assms] septets [OF assms] append_assoc append.simps)

lemma a2b_two_bytes:
  assumes "a < 256" "b < 256"
  shows "a2b 0 left pads out [b64_char (a div 4), b64_char (a mod 4 * 16 + b div 16), b64_char (b mod 16 * 4), CHR ''='']
    = Some (out @ [a, b])"
proof -
  have z: "(0::nat) < 256" by simp
  have "a2b 3 l 0 out' [CHR ''=''] = Some out'" for l out' by simp
  then show ?thesis
    by (simp only: a2b_char sextets [OF assms z] septets [OF assms z] append_assoc append.simps)
qed

lemma a2b_one_byte:
  assumes "a < 256"
  shows "a2b 0 left pads out [b64_char (a div 4), b64_char (a mod 4 * 16), CHR ''='', CHR ''='']
    = Some (out @ [a])"
proof -
  have z: "(0::nat) < 256" by simp
  have "a2b 2 l 0 out' [CHR ''='', CHR ''=''] = Some out'" for l out' by simp
  then show ?thesis
    by (simp only: a2b_char sextets [OF assms z z] septets [OF assms z z] append_assoc append.simps)
qed

lemma a2b_b64_encode:
  assumes "\<forall>b \<in> set bs. b < 256"
  shows "a2b 0 left pads out (b64_encode bs) = Some (out @ bs)"
  using assms
  by (induction bs arbitrary: left pads out rule: b64_encode.induct)
     (simp_all add: a2b_group a2b_two_bytes a2b_one_byte del: a2b.simps(2))

lemma rstrip_pad: "CHR ''='' \<notin> set body \<Longrightarrow>
  rev (dropWhile (\<lambda>c. c = CHR ''='') (rev (body @ replicate k (CHR ''='')))) = body"
proof -
  assume a: "CHR ''='' \<notin> set body"
  have "dropWhile (\<lambda>c. c = CHR ''='') (rev body) = rev body"
  proof (cases "rev body")
    case Nil
    then show ?thesis by simp
  next
    case (Cons x xs)
    then have "x \<in> set body" by (metis list.set_intros(1) set_rev)
    then have "x \<noteq> CHR ''=''" using a by blast
    with Cons show ?thesis by simp
  qed
  moreover have "dropWhile (\<lambda>c. c = CHR ''='') (replicate k (CHR ''='') @ ys) = dropWhile (\<lambda>c. c = CHR ''='') ys" for ys
    by (induction k) simp_all
  ultimately show ?thesis by simp
qed

lemma pad_count_small:
  "\<forall>m \<in> {0, 1, 2, 3 :: nat}. \<forall>k \<in> {0, 1, 2 :: nat}. (m + k) mod 4 = 0 \<longrightarrow> (4 - m) mod 4 = k"
  by code_simp

lemma pad_count:
  assumes "k < 3" and "(l + k) mod 4 = (0::nat)" shows "(4 - l mod 4) mod 4 = k"
proof -
  have "l mod 4 < 4" by simp
  then have "l mod 4 \<in> {0, 1, 2, 3}" by (simp only: insert_iff empty_iff) linarith
  moreover have "k \<in> {0, 1, 2}" using assms(1) by (simp only: insert_iff empty_iff) linarith
  moreover have "(l mod 4 + k) mod 4 = 0" using assms(2) by (simp only: mod_add_left_eq)
  ultimately show ?thesis using pad_count_small by (meson bspec)
qed

lemma normalize_slashes_ascii:
  assumes "\<forall>c \<in> set p. chr_code c < 128" and "c \<in> set (normalize_slashes p)"
  shows "chr_code c < 128"
proof -
  have "c \<in> (\<lambda>c. if c = CHR 0x5C then CHR ''/'' else c) ` set (strip_by is_ws p)"
    using assms(2) by (simp only: normalize_slashes_def replace_char_def str_strip_def set_map)
  then obtain d where d: "c = (if d = CHR 0x5C then CHR ''/'' else d)" "d \<in> set (strip_by is_ws p)"
    by (rule imageE)
  have "chr_code d < 128" using assms(1) d(2) set_strip_by [of is_ws p] by (meson subsetD)
  then show ?thesis unfolding d(1) by (cases "d = CHR 0x5C") simp_all
qed

lemma artifact_id_decode:
  assumes "\<forall>c \<in> set p. chr_code c < 128"
  shows "relative_path_for_artifact_id (artifact_id_for_relative_path p) =
    (let n = normalize_slashes p
     in if n = [] \<or> is_absolute n \<or> CHR 0x5C \<in> set n then Inl (ValueError ''invalid artifact id'') else Inr n)"
proof -
  define n where "n = normalize_slashes p"
  define bs :: "nat list" where "bs = map chr_code n"
  have small: "\<forall>b \<in> set bs. b < 128"
    using normalize_slashes_ascii [OF assms] by (auto simp: bs_def n_def)
  then have bytes: "\<forall>b \<in> set bs. b < 256" by fastforce
  obtain body k where e: "b64_encode bs = body @ replicate k (CHR ''='')" "CHR ''='' \<notin> set body"
      "k < 3" "(length body + k) mod 4 = 0"
    using b64_encode_shape [OF bytes] by (elim exE conjE)
  have id: "artifact_id_for_relative_path p = body"
    unfolding artifact_id_for_relative_path_def Let_def n_def [symmetric] bs_def [symmetric] e(1)
    by (rule rstrip_pad [OF e(2)])
  have k: "(4 - length body mod 4) mod 4 = k" using e(3,4) by (rule pad_count)
  have "a2b 0 0 0 [] (body @ replicate ((4 - length body mod 4) mod 4) (CHR ''='')) = Some bs"
    unfolding k e(1) [symmetric] a2b_b64_encode [OF bytes] by simp
  moreover have "list_all (\<lambda>b. b < 128) bs" using small by (simp add: list_all_iff)
  moreover have "map char_of bs = n" by (simp add: bs_def comp_def)
  ultimately show ?thesis
    unfolding relative_path_for_artifact_id_def id Let_def n_def [symmetric] by simp
qed

end
