(* ===== verification/Serializers.thy ===== *)
theory Serializers
  imports Artifact_Paths
begin

text \<open>
  The JSON views of the rows (\<open>services/platform/app/api/serializers.py\<close>), key by key in the
  order of the code. A view that shows an artifact reads its metadata from the artifact store;
  a path error or a missing file shows as \<open>None\<close>.
\<close>

definition artifact_metadata_or_none :: "artifact_settings \<Rightarrow> artifact_fs \<Rightarrow> string option \<Rightarrow> pyval" where
  "artifact_metadata_or_none s fs path =
     (case path of
        None \<Rightarrow> PNone
      | Some p \<Rightarrow>
          if p = [] then PNone
          else (case metadata_for_path s fs p of Inl _ \<Rightarrow> PNone | Inr m \<Rightarrow> PDict m))"

text \<open>
  \<open>finding_markdown_reference\<close>: where the handoff file of a finding is or would be. The
  fallback's own \<open>artifact_absolute_path\<close> cannot fail for the paths built here, whose
  components hold no \<open>..\<close>; when an identifier brings one in, the error escapes.
\<close>

definition finding_markdown_path :: "string \<Rightarrow> string \<Rightarrow> string" where
  "finding_markdown_path audit_run_id finding_id =
     ''findings/'' @ audit_run_id @ ''/'' @ finding_id @ ''/finding.md''"

definition finding_markdown_reference :: "artifact_settings \<Rightarrow> artifact_fs \<Rightarrow> string \<Rightarrow> string \<Rightarrow> dict res" where
  "finding_markdown_reference s fs audit_run_id finding_id =
     (let relative_path = finding_markdown_path audit_run_id finding_id
      in case metadata_for_path s fs relative_path of
           Inr metadata \<Rightarrow> Inr (dset metadata ''exists'' (PBool True))
         | Inl _ \<Rightarrow>
             let artifact_id = artifact_id_for_relative_path relative_path
             in rbind (artifact_absolute_path s relative_path) (\<lambda>absolute. Inr
                  [(''artifact_id'', PStr artifact_id),
                   (''artifact_uri'', PStr (artifact_uri s relative_path)),
                   (''storage_backend'', PStr (as_backend s)),
                   (''path'', PStr (''/'' @ posix_of absolute)),
                   (''relative_path'', PStr relative_path),
                   (''name'', PStr ''finding.md''),
                   (''content_type'', PStr ''text/markdown; charset=utf-8''),
                   (''download_url'', PStr (''/artifacts/download?path='' @ relative_path)),
                   (''canonical_download_url'', PStr (''/artifacts/'' @ artifact_id @ ''/download'')),
                   (''exists'', PBool False)]))"

definition agent_run_to_dict :: "agent_run \<Rightarrow> dict" where
  "agent_run_to_dict r =
     [(''agent_run_id'', PStr (ag_agent_run_id r)),
      (''audit_run_id'', PStr (ag_audit_run_id r)),
      (''project_id'', PStr (ag_project_id r)),
      (''agent_name'', PStr (ag_agent_name r)),
      (''template_name'', PStr (ag_template_name r)),
      (''protocol_kind'', PStr (ag_protocol_kind r)),
      (''status'', PStr (ag_status r)),
      (''input_summary'', PDict (ag_input_summary r)),
      (''output_summary'', PDict (ag_output_summary r)),
      (''artifact_path'', opt_str (ag_artifact_path r)),
      (''runtime_id'', opt_str (ag_runtime_id r)),
      (''acp_session_id'', opt_str (ag_acp_session_id r)),
      (''decision_status'', opt_str (ag_decision_status r)),
      (''decision_reason'', opt_str (ag_decision_reason r)),
      (''error'', opt_str (ag_error r)),
      (''created_at'', pytime (created_at r)),
      (''updated_at'', pytime (updated_at r))]"

definition agent_runtime_to_dict :: "agent_runtime \<Rightarrow> dict" where
  "agent_runtime_to_dict r =
     [(''runtime_id'', PStr (rt_runtime_id r)),
      (''audit_run_id'', PStr (rt_audit_run_id r)),
      (''project_id'', PStr (rt_project_id r)),
      (''status'', PStr (rt_status r)),
      (''runtime_kind'', PStr (rt_runtime_kind r)),
      (''runner_container_id'', opt_str (rt_runner_container_id r)),
      (''runner_container_name'', opt_str (rt_runner_container_name r)),
      (''network_name'', opt_str (rt_network_name r)),
      (''mcp_containers'', PList (map PDict (rt_mcp_containers r))),
      (''container_ids'', PList (map PStr (rt_container_ids r))),
      (''endpoint_url'', opt_str (rt_endpoint_url r)),
      (''ttl_expires_at'', opt_time (rt_ttl_expires_at r)),
      (''cleanup_status'', PStr (rt_cleanup_status r)),
      (''cleanup_reason'', opt_str (rt_cleanup_reason r)),
      (''metadata'', PDict (rt_metadata r)),
      (''created_at'', pytime (created_at r)),
      (''updated_at'', pytime (updated_at r))]"

definition agent_transcript_event_to_dict :: "agent_transcript_event \<Rightarrow> dict" where
  "agent_transcript_event_to_dict r =
     [(''id'', PInt (te_id r)),
      (''agent_run_id'', PStr (te_agent_run_id r)),
      (''audit_run_id'', PStr (te_audit_run_id r)),
      (''runtime_id'', opt_str (te_runtime_id r)),
      (''seq'', PInt (te_seq r)),
      (''event_type'', PStr (te_event_type r)),
      (''session_id'', opt_str (te_session_id r)),
      (''payload'', PDict (te_payload r)),
      (''content_text'', opt_str (te_content_text r)),
      (''created_at'', pytime (created_at r))]"

definition platform_audit_event_to_dict :: "platform_audit_event \<Rightarrow> dict" where
  "platform_audit_event_to_dict r =
     [(''id'', PInt (pa_id r)),
      (''service'', PStr (pa_service r)),
      (''method'', PStr (pa_method r)),
      (''path'', PStr (pa_path r)),
      (''status_code'', PInt (pa_status_code r)),
      (''client_host'', opt_str (pa_client_host r)),
      (''user_agent'', opt_str (pa_user_agent r)),
      (''auth_enabled'', PBool (pa_auth_enabled r)),
      (''auth_result'', PStr (pa_auth_result r)),
      (''request_id'', opt_str (pa_request_id r)),
      (''metadata'', PDict (pa_metadata r)),
      (''created_at'', pytime (created_at r)),
      (''updated_at'', pytime (updated_at r))]"

definition project_to_dict :: "project \<Rightarrow> dict" where
  "project_to_dict r =
     [(''project_id'', PStr (pr_project_id r)),
      (''name'', PStr (pr_name r)),
      (''source_type'', PStr (pr_source_type r)),
      (''source_uri'', opt_str (pr_source_uri r)),
      (''default_branch'', opt_str (pr_default_branch r)),
      (''status'', PStr (pr_status r)),
      (''metadata'', PDict (pr_metadata r)),
      (''created_at'', pytime (created_at r)),
      (''updated_at'', pytime (updated_at r))]"

definition snapshot_to_dict :: "artifact_settings \<Rightarrow> artifact_fs \<Rightarrow> project_snapshot \<Rightarrow> dict" where
  "snapshot_to_dict s fs r =
     [(''snapshot_id'', PStr (sn_snapshot_id r)),
      (''project_id'', PStr (sn_project_id r)),
      (''source_type'', PStr (sn_source_type r)),
      (''source_ref'', opt_str (sn_source_ref r)),
      (''workspace_path'', PStr (sn_workspace_path r)),
      (''artifact_path'', opt_str (sn_artifact_path r)),
      (''artifact'', artifact_metadata_or_none s fs (sn_artifact_path r)),
      (''content_hash'', opt_str (sn_content_hash r)),
      (''status'', PStr (sn_status r)),
      (''metadata'', PDict (sn_metadata r)),
      (''created_at'', pytime (created_at r)),
      (''updated_at'', pytime (updated_at r))]"

definition audit_run_to_dict :: "audit_run \<Rightarrow> dict" where
  "audit_run_to_dict r =
     [(''audit_run_id'', PStr (ar_audit_run_id r)),
      (''project_id'', PStr (ar_project_id r)),
      (''snapshot_id'', opt_str (ar_snapshot_id r)),
      (''status'', PStr (ar_status r)),
      (''validator_rounds'', PInt (ar_validator_rounds r)),
      (''max_parallel_validators'', PInt (ar_max_parallel_validators r)),
      (''allow_external_network'', PBool (ar_allow_external_network r)),
      (''retain_runtime_on_failure'', PBool (ar_retain_runtime_on_failure r)),
      (''config'', PDict (ar_config r)),
      (''created_at'', pytime (created_at r)),
      (''updated_at'', pytime (updated_at r))]"

definition finding_to_dict :: "artifact_settings \<Rightarrow> artifact_fs \<Rightarrow> finding \<Rightarrow> dict res" where
  "finding_to_dict s fs r =
     rbind (finding_markdown_reference s fs (fi_audit_run_id r) (fi_finding_id r)) (\<lambda>finding_markdown. Inr
     [(''finding_id'', PStr (fi_finding_id r)),
      (''audit_run_id'', PStr (fi_audit_run_id r)),
      (''project_id'', PStr (fi_project_id r)),
      (''title'', PStr (fi_title r)),
      (''severity'', PStr (fi_severity r)),
      (''status'', PStr (fi_status r)),
      (''file_path'', opt_str (fi_file_path r)),
      (''line_start'', opt_int (fi_line_start r)),
      (''line_end'', opt_int (fi_line_end r)),
      (''rule_id'', opt_str (fi_rule_id r)),
      (''description'', opt_str (fi_description r)),
      (''source'', PStr (fi_source r)),
      (''raw'', PDict (fi_raw r)),
      (''finding_markdown'', PDict finding_markdown),
      (''created_at'', pytime (created_at r)),
      (''updated_at'', pytime (updated_at r))])"

definition evidence_to_dict :: "artifact_settings \<Rightarrow> artifact_fs \<Rightarrow> evidence \<Rightarrow> dict" where
  "evidence_to_dict s fs r =
     [(''evidence_id'', PStr (ev_evidence_id r)),
      (''finding_id'', PStr (ev_finding_id r)),
      (''audit_run_id'', PStr (ev_audit_run_id r)),
      (''kind'', PStr (ev_kind r)),
      (''summary'', opt_str (ev_summary r)),
      (''artifact_path'', opt_str (ev_artifact_path r)),
      (''artifact'', artifact_metadata_or_none s fs (ev_artifact_path r)),
      (''payload'', PDict (ev_payload r)),
      (''created_at'', pytime (created_at r)),
      (''updated_at'', pytime (updated_at r))]"

definition knowledge_document_to_dict :: "artifact_settings \<Rightarrow> artifact_fs \<Rightarrow> knowledge_document \<Rightarrow> dict" where
  "knowledge_document_to_dict s fs r =
     [(''document_id'', PStr (kd_document_id r)),
      (''title'', PStr (kd_title r)),
      (''source_name'', PStr (kd_source_name r)),
      (''content_type'', opt_str (kd_content_type r)),
      (''scope'', PStr (kd_scope r)),
      (''project_id'', opt_str (kd_project_id r)),
      (''status'', PStr (kd_status r)),
      (''chunk_count'', PInt (kd_chunk_count r)),
      (''artifact_path'', opt_str (kd_artifact_path r)),
      (''artifact'', artifact_metadata_or_none s fs (kd_artifact_path r)),
      (''metadata'', PDict (kd_metadata r)),
      (''created_at'', pytime (created_at r)),
      (''updated_at'', pytime (updated_at r))]"

definition knowledge_chunk_to_dict :: "knowledge_chunk \<Rightarrow> dict" where
  "knowledge_chunk_to_dict r =
     [(''chunk_id'', PStr (kc_chunk_id r)),
      (''document_id'', PStr (kc_document_id r)),
      (''scope'', PStr (kc_scope r)),
      (''project_id'', opt_str (kc_project_id r)),
      (''chunk_index'', PInt (kc_chunk_index r)),
      (''text'', PStr (kc_text r)),
      (''token_count'', PInt (kc_token_count r)),
      (''vector_id'', PStr (kc_vector_id r)),
      (''metadata'', PDict (kc_metadata r)),
      (''created_at'', pytime (created_at r)),
      (''updated_at'', pytime (updated_at r))]"

definition attempt_to_dict :: "validation_attempt \<Rightarrow> dict" where
  "attempt_to_dict r =
     [(''attempt_id'', PStr (va_attempt_id r)),
      (''finding_id'', PStr (va_finding_id r)),
      (''audit_run_id'', PStr (va_audit_run_id r)),
      (''agent_run_id'', opt_str (va_agent_run_id r)),
      (''round_index'', PInt (va_round_index r)),
      (''status'', PStr (va_status r)),
      (''result'', PDict (va_result r)),
      (''created_at'', pytime (created_at r)),
      (''updated_at'', pytime (updated_at r))]"

definition report_to_dict :: "artifact_settings \<Rightarrow> artifact_fs \<Rightarrow> report_artifact \<Rightarrow> dict" where
  "report_to_dict s fs r =
     [(''report_id'', PStr (re_report_id r)),
      (''audit_run_id'', PStr (re_audit_run_id r)),
      (''project_id'', PStr (re_project_id r)),
      (''kind'', PStr (re_kind r)),
      (''path'', PStr (re_path r)),
      (''artifact'', artifact_metadata_or_none s fs (Some (re_path r))),
      (''summary'', PDict (re_summary r)),
      (''created_at'', pytime (created_at r)),
      (''updated_at'', pytime (updated_at r))]"

definition finding_triage_decision_to_dict :: "finding_triage_decision \<Rightarrow> dict" where
  "finding_triage_decision_to_dict r =
     [(''decision_id'', PStr (td_decision_id r)),
      (''audit_run_id'', PStr (td_audit_run_id r)),
      (''project_id'', PStr (td_project_id r)),
      (''finding_id'', opt_str (td_finding_id r)),
      (''card_id'', opt_str (td_card_id r)),
      (''agent_run_id'', opt_str (td_agent_run_id r)),
      (''decision_status'', PStr (td_decision_status r)),
      (''decision_reason'', opt_str (td_decision_reason r)),
      (''deep_dive_allowed'', PBool (td_deep_dive_allowed r)),
      (''poc_allowed'', PBool (td_poc_allowed r)),
      (''confidence'', opt_str (td_confidence r)),
      (''signals'', PDict (td_signals r)),
      (''created_at'', pytime (created_at r)),
      (''updated_at'', pytime (updated_at r))]"

definition deliverable_artifact_to_dict :: "artifact_settings \<Rightarrow> artifact_fs \<Rightarrow> deliverable_artifact \<Rightarrow> dict" where
  "deliverable_artifact_to_dict s fs r =
     [(''artifact_id'', PStr (da_artifact_id r)),
      (''audit_run_id'', PStr (da_audit_run_id r)),
      (''project_id'', PStr (da_project_id r)),
      (''finding_id'', opt_str (da_finding_id r)),
      (''kind'', PStr (da_kind r)),
      (''path'', PStr (da_path r)),
      (''artifact'', artifact_metadata_or_none s fs (Some (da_path r))),
      (''title'', opt_str (da_title r)),
      (''content_type'', opt_str (da_content_type r)),
      (''size'', PInt (da_size r)),
      (''sha256'', opt_str (da_sha256 r)),
      (''metadata'', PDict (da_metadata r)),
      (''created_at'', pytime (created_at r)),
      (''updated_at'', pytime (updated_at r))]"

definition dependency_record_to_dict :: "dependency_record \<Rightarrow> dict" where
  "dependency_record_to_dict r =
     [(''dependency_id'', PStr (dr_dependency_id r)),
      (''audit_run_id'', PStr (dr_audit_run_id r)),
      (''project_id'', PStr (dr_project_id r)),
      (''ecosystem'', PStr (dr_ecosystem r)),
      (''name'', PStr (dr_name r)),
      (''version'', opt_str (dr_version r)),
      (''manifest'', opt_str (dr_manifest r)),
      (''vulnerability_count'', PInt (dr_vulnerability_count r)),
      (''vulnerabilities'', PList (map PDict (dr_vulnerabilities r))),
      (''created_at'', pytime (created_at r)),
      (''updated_at'', pytime (updated_at r))]"

definition whiteboard_card_to_dict :: "whiteboard_card \<Rightarrow> pyval list \<Rightarrow> dict" where
  "whiteboard_card_to_dict r attachments =
     [(''card_id'', PStr (wc_card_id r)),
      (''audit_run_id'', PStr (wc_audit_run_id r)),
      (''project_id'', PStr (wc_project_id r)),
      (''title'', PStr (wc_title r)),
      (''card_type'', PStr (wc_card_type r)),
      (''status'', PStr (wc_status r)),
      (''author'', opt_str (wc_author r)),
      (''agent_run_id'', opt_str (wc_agent_run_id r)),
      (''event_time'', opt_time (wc_event_time r)),
      (''content'', opt_str (wc_content r)),
      (''confidence'', opt_str (wc_confidence r)),
      (''finding_id'', opt_str (wc_finding_id r)),
      (''file_path'', opt_str (wc_file_path r)),
      (''line_start'', opt_int (wc_line_start r)),
      (''line_end'', opt_int (wc_line_end r)),
      (''expected_predecessors'', PList (map PDict (wc_expected_predecessors r))),
      (''possible_successors'', PList (map PDict (wc_possible_successors r))),
      (''requirements'', PList (wc_requirements r)),
      (''attachments'', PList attachments),
      (''metadata'', PDict (wc_metadata r)),
      (''created_at'', pytime (created_at r)),
      (''updated_at'', pytime (updated_at r))]"

definition whiteboard_edge_to_dict :: "whiteboard_edge \<Rightarrow> dict" where
  "whiteboard_edge_to_dict r =
     [(''edge_id'', PStr (we_edge_id r)),
      (''audit_run_id'', PStr (we_audit_run_id r)),
      (''project_id'', PStr (we_project_id r)),
      (''source_card_id'', PStr (we_source_card_id r)),
      (''target_card_id'', PStr (we_target_card_id r)),
      (''edge_type'', PStr (we_edge_type r)),
      (''author'', opt_str (we_author r)),
      (''agent_run_id'', opt_str (we_agent_run_id r)),
      (''rationale'', opt_str (we_rationale r)),
      (''metadata'', PDict (we_metadata r)),
      (''created_at'', pytime (created_at r)),
      (''updated_at'', pytime (updated_at r))]"

definition whiteboard_note_to_dict :: "whiteboard_note \<Rightarrow> dict" where
  "whiteboard_note_to_dict r =
     [(''note_id'', PStr (wn_note_id r)),
      (''audit_run_id'', PStr (wn_audit_run_id r)),
      (''project_id'', PStr (wn_project_id r)),
      (''card_id'', opt_str (wn_card_id r)),
      (''author'', opt_str (wn_author r)),
      (''agent_run_id'', opt_str (wn_agent_run_id r)),
      (''content'', PStr (wn_content r)),
      (''metadata'', PDict (wn_metadata r)),
      (''created_at'', pytime (created_at r)),
      (''updated_at'', pytime (updated_at r))]"

definition whiteboard_attachment_to_dict :: "whiteboard_attachment \<Rightarrow> dict" where
  "whiteboard_attachment_to_dict r =
     [(''attachment_id'', PStr (wa_attachment_id r)),
      (''audit_run_id'', PStr (wa_audit_run_id r)),
      (''project_id'', PStr (wa_project_id r)),
      (''card_id'', PStr (wa_card_id r)),
      (''path'', PStr (wa_path r)),
      (''label'', opt_str (wa_label r)),
      (''content_type'', opt_str (wa_content_type r)),
      (''metadata'', PDict (wa_metadata r)),
      (''created_at'', pytime (created_at r)),
      (''updated_at'', pytime (updated_at r))]"

definition whiteboard_task_to_dict :: "whiteboard_task \<Rightarrow> dict" where
  "whiteboard_task_to_dict r =
     [(''task_id'', PStr (wt_task_id r)),
      (''audit_run_id'', PStr (wt_audit_run_id r)),
      (''project_id'', PStr (wt_project_id r)),
      (''gap_card_id'', opt_str (wt_gap_card_id r)),
      (''card_id'', opt_str (wt_card_id r)),
      (''agent_role'', PStr (wt_agent_role r)),
      (''agent_name'', PStr (wt_agent_name r)),
      (''status'', PStr (wt_status r)),
      (''round_index'', PInt (wt_round_index r)),
      (''attempt_index'', PInt (wt_attempt_index r)),
      (''agent_run_id'', opt_str (wt_agent_run_id r)),
      (''parent_task_id'', opt_str (wt_parent_task_id r)),
      (''root_task_id'', opt_str (wt_root_task_id r)),
      (''wait_reason'', opt_str (wt_wait_reason r)),
      (''wake_event_id'', opt_str (wt_wake_event_id r)),
      (''task_group'', opt_str (wt_task_group r)),
      (''requested_by_agent_run_id'', opt_str (wt_requested_by_agent_run_id r)),
      (''prompt'', opt_str (wt_prompt r)),
      (''result'', PDict (wt_result r)),
      (''created_at'', pytime (created_at r)),
      (''updated_at'', pytime (updated_at r))]"

definition code_analysis_task_to_dict :: "code_analysis_task \<Rightarrow> dict" where
  "code_analysis_task_to_dict r =
     [(''task_id'', PStr (ca_task_id r)),
      (''audit_run_id'', PStr (ca_audit_run_id r)),
      (''project_id'', PStr (ca_project_id r)),
      (''title'', PStr (ca_title r)),
      (''focus'', PStr (ca_focus r)),
      (''file_paths'', PList (map PStr (ca_file_paths r))),
      (''status'', PStr (ca_status r)),
      (''agent_run_id'', opt_str (ca_agent_run_id r)),
      (''result'', PDict (ca_result r)),
      (''created_at'', pytime (created_at r)),
      (''updated_at'', pytime (updated_at r))]"

end
