(* ===== verification/Run_Store.thy ===== *)
theory Run_Store
  imports Serializers
begin

text \<open>
  The audit run as the pipeline sees it: the callbacks of
  \<open>services/platform/app/api/routes.py\<close> that read and write the run's row, its event log and
  its cancellation request. Each opens a session of its own and commits, so each is one state
  change of the database; on an unknown run a write does nothing. \<open>runtime_control\<close> and
  \<open>pipeline_state\<close> of a configuration, when present and not empty, are dictionaries, which is
  how every writer of the platform leaves them.
\<close>

section \<open>Compacted event payloads\<close>

text \<open>
  \<open>_compact_event_payload\<close> with its limits as arguments: \<open>ms\<close> characters of a string, \<open>mi\<close>
  items of a container, five levels. \<open>index\<close> counts the items of a dictionary already copied.
\<close>

fun compact :: "nat \<Rightarrow> nat \<Rightarrow> nat \<Rightarrow> pyval \<Rightarrow> pyval"
  and compact_items :: "nat \<Rightarrow> nat \<Rightarrow> nat \<Rightarrow> nat \<Rightarrow> pyval list \<Rightarrow> pyval list"
  and compact_pairs :: "nat \<Rightarrow> nat \<Rightarrow> nat \<Rightarrow> nat \<Rightarrow> nat \<Rightarrow> dict \<Rightarrow> dict \<Rightarrow> dict" where
  "compact ms mi depth (PStr s) =
     (if 4 < depth then PStr ''<truncated-depth>''
      else if length s \<le> ms then PStr s
      else PStr (take ms s @ ''...<truncated '' @ nat_str (length s - ms) @ '' chars>''))"
| "compact ms mi depth (PList xs) =
     (if 4 < depth then PStr ''<truncated-depth>''
      else PList (compact_items ms mi (Suc depth) mi xs
        @ (if mi < length xs then [PStr (''<truncated '' @ nat_str (length xs - mi) @ '' items>'')] else [])))"
| "compact ms mi depth (PDict d) =
     (if 4 < depth then PStr ''<truncated-depth>''
      else PDict (compact_pairs ms mi (Suc depth) (length d) 0 [] d))"
| "compact ms mi depth v = (if 4 < depth then PStr ''<truncated-depth>'' else v)"
| "compact_items ms mi depth left [] = []"
| "compact_items ms mi depth left (x # xs) =
     (if left = 0 then [] else compact ms mi depth x # compact_items ms mi depth (left - 1) xs)"
| "compact_pairs ms mi depth tot index result [] = result"
| "compact_pairs ms mi depth tot index result ((k, v) # d) =
     (if mi \<le> index then dset result ''<truncated>'' (PStr (nat_str (tot - mi) @ '' keys''))
      else compact_pairs ms mi depth tot (Suc index) (dset result k (compact ms mi depth v)) d)"

definition compact_event_payload :: "pyval \<Rightarrow> pyval" where
  "compact_event_payload v = compact 1200 20 0 v"

section \<open>The run's row\<close>

definition find_run :: "db \<Rightarrow> string \<Rightarrow> audit_run option" where
  "find_run d rid = row_find ar_audit_run_id rid (audit_runs d)"

text \<open>A write to the run's columns: stamped when something changed, committed.\<close>

definition write_run :: "string \<Rightarrow> (audit_run \<Rightarrow> audit_run) \<Rightarrow> db \<Rightarrow> db" where
  "write_run rid f d =
     d\<lparr>audit_runs := row_upd ar_audit_run_id rid (\<lambda>r. stamped (db_now d) r (f r)) (audit_runs d)\<rparr>"

definition get_audit_run :: "db \<Rightarrow> string \<Rightarrow> dict option" where
  "get_audit_run d rid = map_option audit_run_to_dict (find_run d rid)"

definition mark_audit_run_status :: "string \<Rightarrow> string \<Rightarrow> db \<Rightarrow> db" where
  "mark_audit_run_status rid status = write_run rid (\<lambda>r. r\<lparr>ar_status := status\<rparr>)"

definition config_part :: "dict \<Rightarrow> string \<Rightarrow> dict" where
  "config_part config k = (if truthy (dget config k) then dict_or_empty (dget config k) else [])"

definition request_pipeline_cancel :: "string \<Rightarrow> string \<Rightarrow> db \<Rightarrow> db" where
  "request_pipeline_cancel rid reason d =
     write_run rid (\<lambda>r.
       let control = dmerge (config_part (ar_config r) ''runtime_control'')
             [(''cancel_requested'', PBool True), (''cancel_reason'', PStr reason),
              (''cancel_requested_at'', pytime (db_now d))]
       in r\<lparr>ar_config := dset (ar_config r) ''runtime_control'' (PDict control)\<rparr>) d"

definition clear_pipeline_cancel :: "string \<Rightarrow> db \<Rightarrow> db" where
  "clear_pipeline_cancel rid d =
     write_run rid (\<lambda>r.
       let control = config_part (ar_config r) ''runtime_control''
       in if control = [] then r
          else r\<lparr>ar_config := dset (ar_config r) ''runtime_control''
                 (PDict (dpop (dpop (dset control ''cancel_requested'' (PBool False))
                          ''cancel_reason'') ''cancel_requested_at''))\<rparr>) d"

text \<open>\<open>((audit_run or {}).get("config") or {}).get("runtime_control") or {}\<close>.\<close>

definition run_control :: "db \<Rightarrow> string \<Rightarrow> dict" where
  "run_control d rid = (case find_run d rid of None \<Rightarrow> [] | Some r \<Rightarrow> config_part (ar_config r) ''runtime_control'')"

definition is_cancel_requested :: "string \<Rightarrow> db \<Rightarrow> bool" where
  "is_cancel_requested rid d = truthy (dget (run_control d rid) ''cancel_requested'')"

definition cancel_reason :: "string \<Rightarrow> db \<Rightarrow> string option" where
  "cancel_reason rid d =
     (let reason = dget (run_control d rid) ''cancel_reason''
      in if truthy reason then Some (py_str reason) else None)"

definition raise_if_cancelled :: "string \<Rightarrow> (db, unit) sx" where
  "raise_if_cancelled rid d =
     (if is_cancel_requested rid d
      then (Inl (PipelineCancelled (case cancel_reason rid d of
              None \<Rightarrow> ''cancel_requested'' | Some m \<Rightarrow> if m = [] then ''cancel_requested'' else m)), d)
      else (Inr (), d))"

section \<open>Events\<close>

definition record_audit_run_event :: "string \<Rightarrow> string \<Rightarrow> dict \<Rightarrow> db \<Rightarrow> db" where
  "record_audit_run_event rid event_type payload d =
     d\<lparr>db_event_seq := db_event_seq d + 1,
       audit_run_events := audit_run_events d @
         [\<lparr>created_at = db_now d, updated_at = db_now d, are_id = db_event_seq d,
           are_audit_run_id = rid, are_event_type = event_type,
           are_payload = dict_or_empty (compact_event_payload (PDict payload))\<rparr>]\<rparr>"

text \<open>\<open>ORDER BY created_at DESC\<close>, first row.\<close>

definition latest_agent_run :: "db \<Rightarrow> string \<Rightarrow> agent_run option" where
  "latest_agent_run d rid =
     (case sort_key (\<lambda>r. - created_at r) (filter (\<lambda>r. ag_audit_run_id r = rid) (agent_runs d)) of
        [] \<Rightarrow> None
      | r # _ \<Rightarrow> Some r)"

definition add_agent_run_event :: "string \<Rightarrow> string \<Rightarrow> dict \<Rightarrow> db \<Rightarrow> db" where
  "add_agent_run_event agent_run_id event_type payload d =
     d\<lparr>db_agent_event_seq := db_agent_event_seq d + 1,
       agent_run_events := agent_run_events d @
         [\<lparr>created_at = db_now d, updated_at = db_now d, age_id = db_agent_event_seq d,
           age_agent_run_id = agent_run_id, age_event_type = event_type, age_payload = payload\<rparr>]\<rparr>"

definition record_pipeline_event :: "string \<Rightarrow> string \<Rightarrow> dict \<Rightarrow> db \<Rightarrow> db" where
  "record_pipeline_event rid event_type payload d =
     (let d1 = record_audit_run_event rid event_type payload d
      in case latest_agent_run d1 rid of
           None \<Rightarrow> d1
         | Some a \<Rightarrow> add_agent_run_event (ag_agent_run_id a) event_type payload d1)"

definition set_pipeline_state :: "string \<Rightarrow> string \<Rightarrow> string \<Rightarrow> string option \<Rightarrow> db \<Rightarrow> db" where
  "set_pipeline_state rid stage status err =
     write_run rid (\<lambda>r.
       let state = [(''stage'', PStr stage), (''status'', PStr status)]
             @ (case err of None \<Rightarrow> [] | Some e \<Rightarrow> if e = [] then [] else [(''error'', PStr e)])
       in r\<lparr>ar_config := dset (ar_config r) ''pipeline_state'' (PDict state)\<rparr>)"

definition record_pipeline_summary :: "string \<Rightarrow> dict \<Rightarrow> db \<Rightarrow> db" where
  "record_pipeline_summary rid summary d =
     (case find_run d rid of
        None \<Rightarrow> d
      | Some _ \<Rightarrow>
          let d1 = write_run rid (\<lambda>r. r\<lparr>ar_config := dset (ar_config r) ''pipeline'' (PDict summary)\<rparr>) d
          in case latest_agent_run d1 rid of
               None \<Rightarrow> d1
             | Some a \<Rightarrow> add_agent_run_event (ag_agent_run_id a) ''pipeline_summary'' summary d1)"

section \<open>Lemmas\<close>

definition keeps_id :: "(audit_run \<Rightarrow> audit_run) \<Rightarrow> bool" where
  "keeps_id f = (\<forall>r. ar_audit_run_id (f r) = ar_audit_run_id r)"

lemma stamped_id [simp]: "ar_audit_run_id (f r) = ar_audit_run_id r \<Longrightarrow> ar_audit_run_id (stamped t r (f r)) = ar_audit_run_id r"
  by (simp add: stamped_def)

lemma stamped_columns [simp]:
  "ar_status (stamped t r r') = ar_status r'"
  "ar_config (stamped t r r') = ar_config r'"
  "ar_project_id (stamped t r r') = ar_project_id r'"
  "ar_retain_runtime_on_failure (stamped t r r') = ar_retain_runtime_on_failure r'"
  by (auto simp: stamped_def)

lemma find_run_write_same:
  assumes "keeps_id f"
  shows "find_run (write_run rid f d) rid = map_option (\<lambda>r. stamped (db_now d) r (f r)) (find_run d rid)"
  unfolding find_run_def write_run_def
  using assms by (intro runs_table.find_update_same) (simp add: keeps_id_def)

lemma find_run_write_other:
  assumes "keeps_id f" and "rid' \<noteq> rid"
  shows "find_run (write_run rid f d) rid' = find_run d rid'"
  unfolding find_run_def write_run_def
  using assms by (intro runs_table.find_update_other) (simp_all add: keeps_id_def)

lemma keeps_id_simps [simp]:
  "keeps_id (\<lambda>r. r\<lparr>ar_status := x\<rparr>)"
  "keeps_id (\<lambda>r. r\<lparr>ar_config := g r\<rparr>)"
  by (simp_all add: keeps_id_def)

lemma keeps_id_cancel [simp]:
  "keeps_id (\<lambda>r. if c r then r else r\<lparr>ar_config := g r\<rparr>)"
  by (simp add: keeps_id_def)

definition run_status :: "db \<Rightarrow> string \<Rightarrow> string option" where
  "run_status d rid = map_option ar_status (find_run d rid)"

definition run_config :: "db \<Rightarrow> string \<Rightarrow> dict option" where
  "run_config d rid = map_option ar_config (find_run d rid)"

text \<open>The \<open>stage\<close> and \<open>status\<close> of the pipeline state of a run.\<close>

definition pipeline_state_of :: "db \<Rightarrow> string \<Rightarrow> dict" where
  "pipeline_state_of d rid =
     (case run_config d rid of None \<Rightarrow> [] | Some c \<Rightarrow> dict_or_empty (dget c ''pipeline_state''))"

definition run_event_log :: "db \<Rightarrow> string \<Rightarrow> (string \<times> dict) list" where
  "run_event_log d rid =
     map (\<lambda>e. (are_event_type e, are_payload e)) (filter (\<lambda>e. are_audit_run_id e = rid) (audit_run_events d))"

lemma write_run_frame [frame_simps]:
  "audit_run_events (write_run rid f d) = audit_run_events d"
  "agent_runs (write_run rid f d) = agent_runs d"
  "agent_run_events (write_run rid f d) = agent_run_events d"
  "findings (write_run rid f d) = findings d"
  "db_now (write_run rid f d) = db_now d"
  "run_event_log (write_run rid f d) rid' = run_event_log d rid'"
  by (simp_all add: write_run_def run_event_log_def)

lemma event_frame [frame_simps]:
  "audit_runs (record_audit_run_event rid t p d) = audit_runs d"
  "audit_runs (add_agent_run_event a t p d) = audit_runs d"
  "audit_run_events (add_agent_run_event a t p d) = audit_run_events d"
  "db_now (record_audit_run_event rid t p d) = db_now d"
  "db_now (add_agent_run_event a t p d) = db_now d"
  by (simp_all add: record_audit_run_event_def add_agent_run_event_def)

lemma find_run_events [simp]:
  "find_run (record_audit_run_event rid t p d) rid' = find_run d rid'"
  "find_run (add_agent_run_event a t p d) rid' = find_run d rid'"
  "find_run (record_pipeline_event rid t p d) rid' = find_run d rid'"
  by (simp_all add: find_run_def frame_simps record_pipeline_event_def Let_def split: option.splits)

lemma run_status_simps [simp]:
  "run_status (mark_audit_run_status rid x d) rid = map_option (\<lambda>_. x) (run_status d rid)"
  "run_status (set_pipeline_state rid stage st err d) rid' = run_status d rid'"
  "run_status (record_audit_run_event rid t p d) rid' = run_status d rid'"
  "run_status (record_pipeline_event rid t p d) rid' = run_status d rid'"
proof -
  show "run_status (mark_audit_run_status rid x d) rid = map_option (\<lambda>_. x) (run_status d rid)"
    by (simp add: run_status_def mark_audit_run_status_def find_run_write_same option.map_comp comp_def)
  show "run_status (set_pipeline_state rid stage st err d) rid' = run_status d rid'"
    by (cases "rid' = rid")
       (simp_all add: run_status_def set_pipeline_state_def Let_def find_run_write_same find_run_write_other
          option.map_comp comp_def)
qed (simp_all add: run_status_def)

lemma run_status_summary [simp]: "run_status (record_pipeline_summary rid p d) rid' = run_status d rid'"
  by (cases "rid' = rid")
     (auto simp: run_status_def record_pipeline_summary_def Let_def find_run_write_same find_run_write_other
        option.map_comp comp_def split: option.splits)

lemma run_status_mark_other: "rid' \<noteq> rid \<Longrightarrow> run_status (mark_audit_run_status rid x d) rid' = run_status d rid'"
  by (simp add: run_status_def mark_audit_run_status_def find_run_write_other)

lemma event_log_simps [simp]:
  "run_event_log (record_audit_run_event rid t p d) rid =
     run_event_log d rid @ [(t, dict_or_empty (compact_event_payload (PDict p)))]"
  "run_event_log (record_pipeline_event rid t p d) rid =
     run_event_log d rid @ [(t, dict_or_empty (compact_event_payload (PDict p)))]"
  "run_event_log (mark_audit_run_status rid x d) rid' = run_event_log d rid'"
  "run_event_log (set_pipeline_state rid stage st err d) rid' = run_event_log d rid'"
  "run_event_log (record_pipeline_summary rid p d) rid' = run_event_log d rid'"
  by (auto simp: run_event_log_def record_audit_run_event_def record_pipeline_event_def frame_simps Let_def
       mark_audit_run_status_def set_pipeline_state_def record_pipeline_summary_def add_agent_run_event_def
       split: option.splits)

text \<open>A cancellation is seen once requested and no longer once cleared.\<close>

lemma dict_or_empty_config_part [simp]: "config_part (dset c k (PDict m)) k = m"
  by (cases m) (simp_all add: config_part_def)

lemma config_part_other [simp]: "k' \<noteq> k \<Longrightarrow> config_part (dset c k v) k' = config_part c k'"
  by (simp add: config_part_def)

lemma run_control_request:
  assumes "find_run d rid = Some r"
  shows "run_control (request_pipeline_cancel rid reason d) rid =
    dmerge (config_part (ar_config r) ''runtime_control'')
      [(''cancel_requested'', PBool True), (''cancel_reason'', PStr reason), (''cancel_requested_at'', pytime (db_now d))]"
  using assms
  by (simp add: run_control_def request_pipeline_cancel_def Let_def find_run_write_same)

lemma request_then_seen:
  assumes "find_run d rid = Some r"
  shows "is_cancel_requested rid (request_pipeline_cancel rid reason d)"
    and "cancel_reason rid (request_pipeline_cancel rid reason d) = (if reason = [] then None else Some reason)"
  using assms by (simp_all add: is_cancel_requested_def cancel_reason_def run_control_request)

lemma clear_then_unseen:
  assumes "find_run d rid = Some r"
  shows "\<not> is_cancel_requested rid (clear_pipeline_cancel rid d)"
  using assms
  by (simp add: is_cancel_requested_def run_control_def clear_pipeline_cancel_def Let_def find_run_write_same)

text \<open>The limits that compaction promises.\<close>

fun pv_depth :: "pyval \<Rightarrow> nat" and pv_depths :: "pyval list \<Rightarrow> nat" and pv_depth_items :: "dict \<Rightarrow> nat" where
  "pv_depth (PList xs) = Suc (pv_depths xs)"
| "pv_depth (PDict d) = Suc (pv_depth_items d)"
| "pv_depth v = 0"
| "pv_depths [] = 0"
| "pv_depths (x # xs) = max (pv_depth x) (pv_depths xs)"
| "pv_depth_items [] = 0"
| "pv_depth_items ((k, v) # d) = max (pv_depth v) (pv_depth_items d)"

lemma pv_depth_items_dset:
  "pv_depth v \<le> n \<Longrightarrow> pv_depth_items d \<le> n \<Longrightarrow> pv_depth_items (dset d k v) \<le> n"
  by (induction d k v rule: dset.induct) auto

lemma pv_depths_append [simp]: "pv_depths (xs @ ys) = max (pv_depths xs) (pv_depths ys)"
  by (induction xs) auto

lemma compact_depth:
  "pv_depth (compact ms mi depth v) \<le> 5 - depth"
  "pv_depths (compact_items ms mi depth' left xs) \<le> 5 - depth'"
  "pv_depth_items res \<le> 5 - depth'' \<Longrightarrow> pv_depth_items (compact_pairs ms mi depth'' tot index res d) \<le> 5 - depth''"
  by (induction ms mi depth v and ms mi depth' left xs and ms mi depth'' tot index res d
        rule: compact_compact_items_compact_pairs.induct)
     (auto simp: not_less pv_depth_items_dset)

text \<open>How many entries a container of the result can have, at every level.\<close>

fun pv_width :: "nat \<Rightarrow> pyval \<Rightarrow> bool" and pv_widths :: "nat \<Rightarrow> pyval list \<Rightarrow> bool"
  and pv_width_items :: "nat \<Rightarrow> dict \<Rightarrow> bool" where
  "pv_width n (PList xs) = (length xs \<le> n \<and> pv_widths n xs)"
| "pv_width n (PDict d) = (length d \<le> n \<and> pv_width_items n d)"
| "pv_width n v = True"
| "pv_widths n [] = True"
| "pv_widths n (x # xs) = (pv_width n x \<and> pv_widths n xs)"
| "pv_width_items n [] = True"
| "pv_width_items n ((k, v) # d) = (pv_width n v \<and> pv_width_items n d)"

lemma pv_widths_append [simp]: "pv_widths n (xs @ ys) = (pv_widths n xs \<and> pv_widths n ys)"
  by (induction xs) auto

lemma pv_width_items_dset: "pv_width n v \<Longrightarrow> pv_width_items n d \<Longrightarrow> pv_width_items n (dset d k v)"
  by (induction d k v rule: dset.induct) auto

lemma length_dset_le: "length (dset d k v) \<le> Suc (length d)"
  by (induction d k v rule: dset.induct) auto

lemma length_compact_items: "length (compact_items ms mi depth left xs) \<le> left"
proof (induction xs arbitrary: left)
  case Nil
  then show ?case by simp
next
  case (Cons x xs)
  show ?case using Cons.IH [of "left - 1"] by (cases left) auto
qed

lemma length_compact_pairs:
  "length res \<le> index \<Longrightarrow> index \<le> mi \<Longrightarrow> length (compact_pairs ms mi depth tot index res d) \<le> Suc mi"
proof (induction d arbitrary: index res)
  case Nil
  then show ?case by simp
next
  case (Cons kv d)
  obtain k v where kv: "kv = (k, v)" by (cases kv)
  show ?case
  proof (cases "mi \<le> index")
    case True
    then show ?thesis
      using Cons.prems kv length_dset_le [of res "''<truncated>''"] by (auto intro: order_trans)
  next
    case False
    have "length (dset res k (compact ms mi depth v)) \<le> Suc index"
      using Cons.prems(1) length_dset_le order_trans by (metis Suc_le_mono)
    then show ?thesis using Cons.IH [of "dset res k (compact ms mi depth v)" "Suc index"] False kv by simp
  qed
qed

lemma compact_width:
  "pv_width (Suc mi) (compact ms mi depth v)"
  "pv_widths (Suc mi) (compact_items ms mi depth' left xs)"
  "pv_width_items (Suc mi) res \<Longrightarrow> pv_width_items (Suc mi) (compact_pairs ms mi depth'' tot index res d)"
  by (induction ms mi depth v and ms mi depth' left xs and ms mi depth'' tot index res d
        rule: compact_compact_items_compact_pairs.induct)
     (auto simp: pv_width_items_dset length_compact_pairs le_SucI length_compact_items)

end
