(* ===== verification/Agent_Registry.thy ===== *)
theory Agent_Registry
  imports Py_Time
begin

text \<open>
  The registry of agent runtimes (\<open>services/platform/app/runtime/agent_runtime_registry.py\<close>):
  which template serves which agent role.
\<close>

definition REQUIRED_AGENT_ROLES :: "string list" where
  "REQUIRED_AGENT_ROLES =
     [''orchestrator'', ''code-auditor'', ''recon-auditor'', ''sca-analyst'', ''source-sink-finder'',
      ''validator'', ''judger'', ''poc-writer'', ''poc-verifier'']"

record agent_runtime_adapter =
  ad_runtime_id :: string
  ad_display_name :: string
  ad_protocol_kind :: string
  ad_template_runtime :: string
  ad_image :: string
  ad_capabilities :: "string list"
  ad_default_model_profile :: string
  ad_role_templates :: "(string \<times> string) list"
  ad_enabled :: bool

definition BUILTIN_AGENT_RUNTIMES :: "agent_runtime_adapter list" where
  "BUILTIN_AGENT_RUNTIMES =
     [\<lparr>ad_runtime_id = ''kimi-code'',
       ad_display_name = ''Kimi Code'',
       ad_protocol_kind = ''agent-client-protocol'',
       ad_template_runtime = ''kimi'',
       ad_image = ''dieaudit/kimi-code-agent:local'',
       ad_capabilities = [''acp'', ''mcp'', ''transcript-events'', ''runtime-containers'', ''model-overrides''],
       ad_default_model_profile = ''auditor-strong'',
       ad_role_templates =
         [(''orchestrator'', ''kimi-orchestrator''),
          (''code-auditor'', ''kimi-code-auditor''),
          (''recon-auditor'', ''kimi-recon-auditor''),
          (''sca-analyst'', ''kimi-sca-analyst''),
          (''source-sink-finder'', ''kimi-source-sink-finder''),
          (''validator'', ''kimi-validator''),
          (''judger'', ''kimi-judger''),
          (''poc-writer'', ''kimi-poc-writer''),
          (''poc-verifier'', ''kimi-poc-verifier'')],
       ad_enabled = True\<rparr>]"

definition enabled_agent_runtimes :: "agent_runtime_adapter list" where
  "enabled_agent_runtimes = filter ad_enabled BUILTIN_AGENT_RUNTIMES"

definition default_agent_runtime :: "agent_runtime_adapter res" where
  "default_agent_runtime =
     (case enabled_agent_runtimes of
        [] \<Rightarrow> Inl (IndexError ''tuple index out of range'')
      | r # _ \<Rightarrow> Inr r)"

definition default_agent_template :: "string \<Rightarrow> string res" where
  "default_agent_template role =
     rbind default_agent_runtime (\<lambda>r.
       case map_of (ad_role_templates r) role of None \<Rightarrow> Inl (KeyError role) | Some t \<Rightarrow> Inr t)"

definition role_template :: "agent_runtime_adapter \<Rightarrow> string \<Rightarrow> string res" where
  "role_template r role =
     (case map_of (ad_role_templates r) role of None \<Rightarrow> Inl (KeyError role) | Some t \<Rightarrow> Inr t)"

text \<open>A set in the code; the list keeps the order in which the names are added.\<close>

definition required_agent_template_names :: "string list res" where
  "required_agent_template_names =
     rbind (rmap (\<lambda>r. rmap (role_template r) REQUIRED_AGENT_ROLES) enabled_agent_runtimes)
       (\<lambda>ns. Inr (remdups (concat ns)))"

definition template_runtime_for_name :: "string \<Rightarrow> string option" where
  "template_runtime_for_name template_name =
     map_option ad_template_runtime
       (List.find (\<lambda>r. template_name \<in> set (map snd (ad_role_templates r))) enabled_agent_runtimes)"

text \<open>Every role the platform requires has a template, and that template leads back to its runtime.\<close>

lemma required_roles_covered:
  "\<forall>role \<in> set REQUIRED_AGENT_ROLES.
     \<exists>t. default_agent_template role = Inr t \<and> template_runtime_for_name t = Some ''kimi''"
  by (simp add: REQUIRED_AGENT_ROLES_def default_agent_template_def default_agent_runtime_def
        enabled_agent_runtimes_def BUILTIN_AGENT_RUNTIMES_def template_runtime_for_name_def)

text \<open>\<open>default_agent_template\<close> for a role of the registry, as the code uses it at import time.\<close>

definition template_of :: "string \<Rightarrow> string" where
  "template_of role = (case default_agent_template role of Inl _ \<Rightarrow> [] | Inr t \<Rightarrow> t)"

end
