(* ===== verification/Pipeline_Config.thy ===== *)
theory Pipeline_Config
  imports Run_Store Agent_Registry
begin

text \<open>
  The static methods of \<open>PipelineExecutor\<close>
  (\<open>services/platform/app/services/pipeline_executor.py\<close>) that read an audit run's
  configuration: which stages are enabled, and what a failed agent run is.
\<close>

text \<open>\<open>audit_run.get("config") if isinstance(audit_run.get("config"), dict) else {}\<close>.\<close>

definition run_cfg :: "dict \<Rightarrow> dict" where
  "run_cfg audit_run = dict_or_empty (dget audit_run ''config'')"

definition agent_enabled :: "dict \<Rightarrow> string \<Rightarrow> bool" where
  "agent_enabled config agent =
     (case dget config ''enabled_agents'' of
        PList items \<Rightarrow> agent \<in> set (map py_str items)
      | _ \<Rightarrow> True)"

definition flag :: "dict \<Rightarrow> string \<Rightarrow> bool \<Rightarrow> bool" where
  "flag config k dflt = truthy (dget_or config k (PBool dflt))"

definition code_batch_analysis_enabled :: "dict \<Rightarrow> bool" where
  "code_batch_analysis_enabled audit_run =
     (flag (run_cfg audit_run) ''enable_code_batch_analysis'' True \<and> agent_enabled (run_cfg audit_run) ''code-auditor'')"

definition source_sink_analysis_enabled :: "dict \<Rightarrow> bool" where
  "source_sink_analysis_enabled audit_run = False"

definition legacy_source_sink_analysis_enabled :: "dict \<Rightarrow> bool" where
  "legacy_source_sink_analysis_enabled audit_run =
     (flag (run_cfg audit_run) ''enable_source_sink_analysis'' False \<and> agent_enabled (run_cfg audit_run) ''source-sink-finder'')"

definition whiteboard_swarm_enabled :: "dict \<Rightarrow> bool" where
  "whiteboard_swarm_enabled audit_run =
     (flag (run_cfg audit_run) ''enable_whiteboard'' True \<and> flag (run_cfg audit_run) ''enable_whiteboard_swarm'' True)"

definition structure_discovery_enabled :: "dict \<Rightarrow> bool" where
  "structure_discovery_enabled audit_run = flag (run_cfg audit_run) ''enable_structure_discovery'' True"

definition agent_audit_enabled :: "dict \<Rightarrow> bool" where
  "agent_audit_enabled audit_run = agent_enabled (run_cfg audit_run) ''orchestrator''"

definition validation_judgement_enabled :: "dict \<Rightarrow> bool" where
  "validation_judgement_enabled audit_run =
     (flag (run_cfg audit_run) ''enable_validation_judgement'' True \<and>
      (agent_enabled (run_cfg audit_run) ''validation-judgement'' \<or> agent_enabled (run_cfg audit_run) ''validator''))"

definition validators_enabled :: "dict \<Rightarrow> bool" where
  "validators_enabled audit_run = validation_judgement_enabled audit_run"

definition judgement_enabled :: "dict \<Rightarrow> bool" where
  "judgement_enabled audit_run = False"

definition legacy_judgement_enabled :: "dict \<Rightarrow> bool" where
  "legacy_judgement_enabled audit_run =
     (flag (run_cfg audit_run) ''enable_judgement'' False \<and> agent_enabled (run_cfg audit_run) ''judger'')"

definition poc_writing_enabled :: "dict \<Rightarrow> bool" where
  "poc_writing_enabled audit_run =
     (flag (run_cfg audit_run) ''enable_poc_writing'' True \<and> agent_enabled (run_cfg audit_run) ''poc-writer'')"

definition poc_verification_enabled :: "dict \<Rightarrow> bool" where
  "poc_verification_enabled audit_run =
     (flag (run_cfg audit_run) ''enable_poc_verification'' True \<and> agent_enabled (run_cfg audit_run) ''poc-verifier'')"

definition config_str :: "dict \<Rightarrow> string \<Rightarrow> string \<Rightarrow> string" where
  "config_str audit_run k dflt =
     (let value = dget (run_cfg audit_run) k in if truthy value then py_str value else dflt)"

definition skipped_result :: "string \<Rightarrow> dict" where
  "skipped_result reason = [(''ok'', PBool True), (''skipped'', PBool True), (''reason'', PStr reason)]"

text \<open>\<open>dflt\<close> is the setting \<open>allow_agent_external_network\<close>.\<close>

definition agent_external_network :: "bool \<Rightarrow> dict \<Rightarrow> bool" where
  "agent_external_network dflt audit_run = flag (run_cfg audit_run) ''allow_agent_external_network'' dflt"

definition agent_run_failed :: "dict \<Rightarrow> bool" where
  "agent_run_failed agent_result =
     (let status = str_lower (py_str (por (por (dget agent_result ''status'') (dget agent_result ''acp_status'')) (PStr [])))
      in status = ''failed'' \<or> truthy (dget agent_result ''error''))"

definition agent_run_error :: "dict \<Rightarrow> string option" where
  "agent_run_error agent_result =
     (if truthy (dget agent_result ''error'') then Some (py_str (dget agent_result ''error''))
      else (case por (dget agent_result ''result'') (dget agent_result ''acp_result'') of
              PDict result \<Rightarrow> if truthy (dget result ''error'') then Some (py_str (dget result ''error'')) else None
            | _ \<Rightarrow> None))"

definition agent_codebase_memory_context :: dict where
  "agent_codebase_memory_context =
     [(''mcp'', PStr ''codebase-memory-mcp''),
      (''repo_path'', PStr ''/workspace''),
      (''cache_dir'', PStr ''/artifacts/codebase-memory''),
      (''instruction'', PStr (
         ''Call index_repository for /workspace when graph context is needed or missing. '' @
         ''Use get_architecture before broad planning, then search_graph, trace_path, query_graph, '' @
         ''get_code_snippet, detect_changes, and search_code for focused security analysis.''))]"

end
