(* ===== verification/Pipeline_Quality.thy ===== *)
theory Pipeline_Quality
  imports Pipeline_Config
begin

text \<open>
  \<open>PipelineExecutor._result_quality\<close>: the warnings and counters a finished pipeline reports,
  read off the results of its steps, the judgement and the report. Any \<open>int(...)\<close> over a
  malformed result raises, and so does the whole computation.
\<close>

record quality_metrics =
  qm_agent_parse_warnings :: int
  qm_tool_failures :: int
  qm_validator_failures :: int
  qm_unvalidated_findings :: int

type_synonym quality_acc = "pyval list \<times> quality_metrics"

definition warn :: "dict \<Rightarrow> quality_acc \<Rightarrow> quality_acc" where
  "warn w acc = (fst acc @ [PDict w], snd acc)"

definition warn_if :: "bool \<Rightarrow> dict \<Rightarrow> quality_acc \<Rightarrow> quality_acc" where
  "warn_if b w acc = (if b then warn w acc else acc)"

definition kind_warning :: "string \<Rightarrow> dict" where
  "kind_warning k = [(''kind'', PStr k)]"

text \<open>\<open>int(d.get(k) or 0)\<close> and \<open>d.get(k) is False\<close>.\<close>

definition int_or_0 :: "dict \<Rightarrow> string \<Rightarrow> int res" where
  "int_or_0 d k = py_int (por (dget d k) (PInt 0))"

definition is_False :: "dict \<Rightarrow> string \<Rightarrow> bool" where
  "is_False d k = (dget d k = PBool False)"

definition equals_0 :: "pyval \<Rightarrow> bool" where
  "equals_0 v = (v = PInt 0 \<or> v = PBool False)"

definition quality_agent_audit :: "dict \<Rightarrow> quality_acc \<Rightarrow> quality_acc res" where
  "quality_agent_audit result acc =
     (let ingest = dict_or_empty (dget result ''structured_ingest'')
      in rbind (py_iter (por (por (dget ingest ''structured_parse_warnings'') (dget ingest ''warnings'')) (PList [])))
        (\<lambda>parse_warnings.
           let parse_status = py_str (por (dget ingest ''structured_parse_status'') (PStr []));
               acc1 = (fst acc, (snd acc)\<lparr>qm_agent_parse_warnings :=
                         qm_agent_parse_warnings (snd acc) + int (length parse_warnings)\<rparr>);
               acc2 = warn_if (parse_status \<in> {''not_found'', ''parsed_with_warnings''} \<or> parse_warnings \<noteq> [])
                        [(''kind'', PStr ''agent_structured_output''),
                         (''status'', PStr (if parse_status = [] then ''unknown'' else parse_status)),
                         (''warnings'', PList parse_warnings)] acc1
           in if ingest = [] then Inr acc2
              else rbind (int_or_0 ingest ''findings_created'') (\<lambda>n.
                Inr (warn_if (n = 0) (kind_warning ''agent_created_no_findings'') acc2))))"

definition quality_tool :: "string \<Rightarrow> dict \<Rightarrow> quality_acc \<Rightarrow> quality_acc" where
  "quality_tool step_name result acc =
     (let tool_status = py_str (por (dget result ''status'') (PStr []))
      in if is_False result ''ok'' \<or> is_False result ''available''
            \<or> tool_status \<in> {''syft_unavailable'', ''osv_unreachable'', ''unavailable'', ''failed''}
         then warn [(''kind'', PStr ''tool_failure''), (''step'', PStr step_name), (''result'', PDict result)]
                (fst acc, (snd acc)\<lparr>qm_tool_failures := qm_tool_failures (snd acc) + 1\<rparr>)
         else acc)"

definition quality_code_analysis :: "dict \<Rightarrow> quality_acc \<Rightarrow> quality_acc res" where
  "quality_code_analysis result acc =
     (let acc1 = warn_if (is_False result ''ok'')
                   [(''kind'', PStr ''code_batch_analysis_failed''), (''result'', PDict result)] acc
      in if truthy (dget result ''skipped'')
            \<and> contains (py_str (por (dget result ''reason'') (PStr []))) ''disabled''
         then Inr acc1
         else rbind (int_or_0 result ''skipped'') (\<lambda>skipped. rbind (int_or_0 result ''failed'') (\<lambda>failed.
                Inr (warn_if (skipped \<noteq> 0 \<or> failed \<noteq> 0)
                       [(''kind'', PStr ''code_batch_analysis_incomplete''),
                        (''skipped'', PInt skipped), (''failed'', PInt failed)] acc1))))"

definition quality_source_sink :: "dict \<Rightarrow> quality_acc \<Rightarrow> quality_acc" where
  "quality_source_sink result acc =
     warn_if (truthy (dget result ''skipped'')
              \<and> \<not> contains (py_str (por (dget result ''reason'') (PStr []))) ''disabled'')
       [(''kind'', PStr ''trace_worker_skipped''), (''result'', PDict result)]
       (warn_if (is_False result ''ok'')
          [(''kind'', PStr ''trace_worker_failed''), (''result'', PDict result)] acc)"

definition quality_validators :: "dict \<Rightarrow> quality_acc \<Rightarrow> quality_acc res" where
  "quality_validators result acc =
     (let status_counts = dict_or_empty (dget result ''status_counts'')
      in rbind (int_or_0 status_counts ''failed'') (\<lambda>failed. rbind (int_or_0 status_counts ''cancelled'') (\<lambda>cancelled.
           let acc1 = (fst acc, (snd acc)\<lparr>qm_validator_failures :=
                         qm_validator_failures (snd acc) + (failed + cancelled)\<rparr>);
               acc2 = warn_if (failed \<noteq> 0 \<or> cancelled \<noteq> 0)
                        [(''kind'', PStr ''validator_attempt_failures''), (''status_counts'', PDict status_counts)] acc1
           in Inr (if equals_0 (dget result ''scheduled'')
                   then warn (kind_warning ''no_validator_attempts_scheduled'')
                          (fst acc2, (snd acc2)\<lparr>qm_unvalidated_findings := qm_unvalidated_findings (snd acc2) + 1\<rparr>)
                   else acc2))))"

text \<open>The two PoC steps: \<open>poc-writing\<close> and \<open>poc-verification\<close>.\<close>

definition quality_poc :: "string \<Rightarrow> string \<Rightarrow> dict \<Rightarrow> quality_acc \<Rightarrow> quality_acc res" where
  "quality_poc failed_kind incomplete_kind result acc =
     (let acc1 = warn_if (is_False result ''ok'') [(''kind'', PStr failed_kind), (''result'', PDict result)] acc
      in rbind (int_or_0 result ''failed'') (\<lambda>failed.
           Inr (warn_if (failed \<noteq> 0) [(''kind'', PStr incomplete_kind), (''failed'', PInt failed)] acc1)))"

definition quality_branch :: "string \<Rightarrow> dict \<Rightarrow> quality_acc \<Rightarrow> quality_acc res" where
  "quality_branch step_name result acc =
     (if step_name = ''agent-audit'' then quality_agent_audit result acc
      else if step_name = ''sca'' \<or> step_name = ''semgrep'' then Inr (quality_tool step_name result acc)
      else if step_name = ''code-analysis'' then quality_code_analysis result acc
      else if step_name = ''source-sink-analysis'' then Inr (quality_source_sink result acc)
      else if step_name = ''whiteboard-swarm''
        then Inr (warn_if (is_False result ''ok'')
               [(''kind'', PStr ''whiteboard_swarm_failed''), (''result'', PDict result)] acc)
      else if step_name = ''validators'' then quality_validators result acc
      else if step_name = ''poc-writing''
        then quality_poc ''poc_writing_failed'' ''poc_writing_incomplete'' result acc
      else if step_name = ''poc-verification''
        then quality_poc ''poc_verification_failed'' ''poc_verification_incomplete'' result acc
      else Inr acc)"

definition quality_step :: "pyval \<Rightarrow> quality_acc \<Rightarrow> quality_acc res" where
  "quality_step step acc =
     rbind (vget step ''step'') (\<lambda>name. rbind (vget step ''result'') (\<lambda>r.
       case r of
         PDict result \<Rightarrow> quality_branch (py_str (por name (PStr ''unknown''))) result acc
       | _ \<Rightarrow> Inr acc))"

fun quality_steps :: "pyval list \<Rightarrow> quality_acc \<Rightarrow> quality_acc res" where
  "quality_steps [] acc = Inr acc"
| "quality_steps (s # ss) acc = rbind (quality_step s acc) (quality_steps ss)"

fun quality_parse_warnings :: "pyval list \<Rightarrow> quality_acc \<Rightarrow> quality_acc" where
  "quality_parse_warnings [] acc = acc"
| "quality_parse_warnings (PDict w # ws) acc =
     quality_parse_warnings ws (warn (dmerge (kind_warning ''report_parse_warning'') w) acc)"
| "quality_parse_warnings (_ # ws) acc = quality_parse_warnings ws acc"

definition quality_report :: "pyval \<Rightarrow> quality_acc \<Rightarrow> quality_acc res" where
  "quality_report report_result acc =
     (let report_summary = (case report_result of PDict r \<Rightarrow> dget r ''summary'' | _ \<Rightarrow> PDict [])
      in case report_summary of
           PDict summary \<Rightarrow>
             rbind (int_or_0 summary ''unvalidated_findings'') (\<lambda>unvalidated.
               let acc1 = (fst acc, (snd acc)\<lparr>qm_unvalidated_findings :=
                             max (qm_unvalidated_findings (snd acc)) unvalidated\<rparr>);
                   acc2 = warn_if (unvalidated \<noteq> 0)
                            [(''kind'', PStr ''unvalidated_findings''), (''count'', PInt unvalidated)] acc1
               in rbind (py_iter (por (dget summary ''parse_warnings'') (PList []))) (\<lambda>ws.
                    Inr (quality_parse_warnings ws acc2)))
         | _ \<Rightarrow> Inr acc)"

definition run_failed_item :: "pyval \<Rightarrow> bool" where
  "run_failed_item item =
     (case item of
        PDict d \<Rightarrow> str_lower (py_str (por (dget d ''status'') (PStr []))) = ''failed''
      | _ \<Rightarrow> False)"

definition quality_judge :: "dict \<Rightarrow> quality_acc \<Rightarrow> quality_acc" where
  "quality_judge judge_result acc =
     (let acc1 = (case dget judge_result ''agent_run'' of
                    PDict a \<Rightarrow> warn_if (is_False a ''ok'')
                                 [(''kind'', PStr ''judger_agent_failed''), (''result'', PDict a)] acc
                  | _ \<Rightarrow> acc)
      in case dget judge_result ''agent_runs'' of
           PList items \<Rightarrow>
             (let failed = filter run_failed_item items
              in warn_if (failed \<noteq> [])
                   [(''kind'', PStr ''judger_agent_failures''), (''count'', PInt (int (length failed))),
                    (''results'', PList failed)] acc1)
         | _ \<Rightarrow> acc1)"

record quality_result =
  qr_status :: string
  qr_warnings :: "pyval list"
  qr_metrics :: quality_metrics

definition no_metrics :: quality_metrics where
  "no_metrics = \<lparr>qm_agent_parse_warnings = 0, qm_tool_failures = 0, qm_validator_failures = 0,
     qm_unvalidated_findings = 0\<rparr>"

definition result_quality :: "pyval list \<Rightarrow> dict \<Rightarrow> pyval \<Rightarrow> quality_result res" where
  "result_quality steps judge_result report_result =
     rbind (quality_steps steps ([], no_metrics)) (\<lambda>acc1.
     rbind (quality_report report_result acc1) (\<lambda>acc2.
       let acc3 = quality_judge judge_result acc2
       in Inr \<lparr>qr_status = (if fst acc3 \<noteq> [] then ''warn'' else ''pass''),
               qr_warnings = fst acc3, qr_metrics = snd acc3\<rparr>))"

definition quality_to_dict :: "quality_result \<Rightarrow> dict" where
  "quality_to_dict q =
     [(''status'', PStr (qr_status q)), (''warnings'', PList (qr_warnings q)),
      (''metrics'', PDict
        [(''agent_parse_warnings'', PInt (qm_agent_parse_warnings (qr_metrics q))),
         (''tool_failures'', PInt (qm_tool_failures (qr_metrics q))),
         (''validator_failures'', PInt (qm_validator_failures (qr_metrics q))),
         (''unvalidated_findings'', PInt (qm_unvalidated_findings (qr_metrics q)))])]"

end
