(* ===== verification/Pipeline_Executor.thy ===== *)
theory Pipeline_Executor
  imports Pipeline_Quality
begin

text \<open>
  \<open>PipelineExecutor\<close> (\<open>services/platform/app/services/pipeline_executor.py\<close>): the stages
  of one audit run and what happens to the run when a stage fails or a cancellation arrives.

  As in the code, everything the executor does to the world goes through the callbacks it is
  constructed with, here a record of functions over a world type \<open>'s\<close>; a callback the code
  allows to be missing is an option. The callbacks of the runtime may run for long and change
  the world in any way, so a cancellation requested meanwhile shows at the next poll. The list
  \<open>steps\<close> that the body builds and the exception handlers read is state beside the world.
  Arguments that are only handed through (the two polling closures given to
  \<open>scale_validators\<close>) are part of the callback.
\<close>

record 's callbacks =
  set_allow_agent_external_network :: bool
  cb_get_audit_run :: "string \<Rightarrow> ('s, dict option) sx"
  cb_mark_status :: "string \<Rightarrow> string \<Rightarrow> ('s, unit) sx"
  cb_set_state :: "string \<Rightarrow> string \<Rightarrow> string \<Rightarrow> string option \<Rightarrow> ('s, unit) sx"
  cb_run_event :: "string \<Rightarrow> string \<Rightarrow> dict \<Rightarrow> ('s, unit) sx"
  cb_pipeline_event :: "string \<Rightarrow> string \<Rightarrow> dict \<Rightarrow> ('s, unit) sx"
  cb_summary :: "string \<Rightarrow> dict \<Rightarrow> ('s, unit) sx"
  cb_raise_if_cancelled :: "string \<Rightarrow> ('s, unit) sx"
  cb_is_cancel_requested :: "string \<Rightarrow> ('s, bool) sx"
  cb_cancel_reason :: "string \<Rightarrow> ('s, string option) sx"
  cb_list_findings :: "string \<Rightarrow> ('s, pyval list) sx"
  cb_structure_discovery :: "(string \<Rightarrow> pyval \<Rightarrow> pyval \<Rightarrow> dict \<Rightarrow> ('s, pyval) sx) option"
  cb_code_batch :: "(string \<Rightarrow> pyval \<Rightarrow> pyval \<Rightarrow> dict \<Rightarrow> ('s, pyval) sx) option"
  cb_whiteboard_swarm :: "(string \<Rightarrow> ('s, pyval) sx) option"
  cb_generate_pocs :: "string \<Rightarrow> ('s, pyval) sx"
  cb_verify_pocs :: "string \<Rightarrow> ('s, pyval) sx"
  cb_generate_report :: "string \<Rightarrow> ('s, pyval) sx"
  cb_compact :: "pyval \<Rightarrow> pyval"
  rt_start_agent_run :: "dict \<Rightarrow> ('s, dict) sx"
  rt_scale_validators :: "dict \<Rightarrow> ('s, dict) sx"
  rt_cleanup_run :: "(string \<Rightarrow> ('s, pyval) sx) option"

type_synonym ('s, 'a) px = "('s \<times> pyval list, 'a) sx"

definition on_world :: "('s, 'a) sx \<Rightarrow> ('s, 'a) px" where
  "on_world m = (\<lambda>(s, steps). case m s of (r, t) \<Rightarrow> (r, (t, steps)))"

definition add_step :: "string \<Rightarrow> pyval \<Rightarrow> ('s, unit) px" where
  "add_step name result =
     sx_modify (\<lambda>(s, steps). (s, steps @ [PDict [(''step'', PStr name), (''result'', result)]]))"

definition enter_stage :: "'s callbacks \<Rightarrow> string \<Rightarrow> string \<Rightarrow> dict \<Rightarrow> ('s, unit) px" where
  "enter_stage cb rid name extra =
     sx_do (on_world (cb_set_state cb rid name ''running'' None))
           (on_world (cb_run_event cb rid ''pipeline_step_started'' ((''step'', PStr name) # extra)))"

definition leave_stage :: "'s callbacks \<Rightarrow> string \<Rightarrow> string \<Rightarrow> pyval \<Rightarrow> ('s, unit) px" where
  "leave_stage cb rid name result =
     sx_do (add_step name result)
       (on_world (cb_run_event cb rid ''pipeline_step_completed''
          [(''step'', PStr name), (''result'', cb_compact cb result)]))"

definition skip_stage :: "'s callbacks \<Rightarrow> string \<Rightarrow> string \<Rightarrow> string \<Rightarrow> ('s, unit) px" where
  "skip_stage cb rid name reason =
     sx_do (add_step name (PDict (skipped_result reason)))
       (on_world (cb_run_event cb rid ''pipeline_step_skipped''
          [(''step'', PStr name), (''reason'', PStr reason)]))"

definition poll_cancel :: "'s callbacks \<Rightarrow> string \<Rightarrow> ('s, unit) px" where
  "poll_cancel cb rid = on_world (cb_raise_if_cancelled cb rid)"

definition error_result :: "pyexc \<Rightarrow> dict" where
  "error_result exc = [(''ok'', PBool False), (''error'', PStr (exc_str exc))]"

definition unavailable_result :: "string \<Rightarrow> dict" where
  "unavailable_result msg = [(''ok'', PBool False), (''available'', PBool False), (''error'', PStr msg)]"

text \<open>\<open>try: ... except Exception as exc: result = {"ok": False, ...}; record_pipeline_event(...)\<close>.\<close>

definition guarded :: "'s callbacks \<Rightarrow> string \<Rightarrow> string \<Rightarrow> ('s, pyval) sx \<Rightarrow> ('s, pyval) sx" where
  "guarded cb rid event m =
     sx_try m (\<lambda>exc. sx_do (cb_pipeline_event cb rid event (error_result exc))
                        (sx_ret (PDict (error_result exc))))"

section \<open>Stages\<close>

definition stage_structure :: "'s callbacks \<Rightarrow> string \<Rightarrow> pyval \<Rightarrow> dict \<Rightarrow> ('s, dict) px" where
  "stage_structure cb rid workspace run =
     (if \<not> structure_discovery_enabled run then sx_ret run
      else
        sx_do (enter_stage cb rid ''structure-discovery'' [])
        (sx_bind (on_world (guarded cb rid ''structure_discovery_failed''
           (case cb_structure_discovery cb of
              None \<Rightarrow> sx_ret (PDict (unavailable_result ''structure discovery callback is not configured''))
            | Some f \<Rightarrow> sx_bind (sx_lift (dindex run ''project_id'')) (\<lambda>project. f rid project workspace run))))
         (\<lambda>result.
            sx_do (leave_stage cb rid ''structure-discovery'' result)
            (sx_do (poll_cancel cb rid)
              (sx_ret (case dget run ''config'' of
                 PDict config \<Rightarrow> dset run ''config'' (PDict (dset config ''structure_context'' result))
               | _ \<Rightarrow> run))))))"

definition default_agent_goal :: pyval where
  "default_agent_goal = PDict [(''goal'', PStr (
     ''Run a structured security audit pass. Return JSON with summary, findings, and evidence. '' @
     ''Every finding must include title, severity, file_path, line_start, description, confidence, and source.''))]"

definition agent_input_payload :: "pyval \<Rightarrow> pyval" where
  "agent_input_payload input =
     (case por input default_agent_goal of
        PDict payload \<Rightarrow> PDict (dset payload ''codebase_memory'' (PDict agent_codebase_memory_context))
      | v \<Rightarrow> v)"

definition stage_agent_audit :: "'s callbacks \<Rightarrow> string \<Rightarrow> pyval \<Rightarrow> bool \<Rightarrow> dict \<Rightarrow> ('s, unit) px" where
  "stage_agent_audit cb rid workspace network run =
     (if \<not> agent_audit_enabled run then skip_stage cb rid ''agent-audit'' ''orchestrator agent disabled''
      else
        sx_do (enter_stage cb rid ''agent-audit'' [])
        (sx_bind (sx_lift (vget (dget_or run ''config'' (PDict [])) ''input_payload'')) (\<lambda>input.
         sx_bind (sx_lift (dindex run ''project_id'')) (\<lambda>project.
         sx_bind (sx_lift (vget (dget_or run ''config'' (PDict [])) ''agent_name'')) (\<lambda>name.
         sx_bind (sx_lift (default_agent_template ''orchestrator'')) (\<lambda>default_name.
         sx_bind (sx_lift (dindex run ''retain_runtime_on_failure'')) (\<lambda>retain.
         sx_bind (on_world (rt_start_agent_run cb
            [(''audit_run_id'', PStr rid), (''project_id'', project),
             (''agent_name'', por name (PStr default_name)),
             (''workspace_host_path'', workspace), (''allow_external_network'', PBool network),
             (''retain_runtime_on_failure'', retain),
             (''input_payload'', agent_input_payload input)])) (\<lambda>agent_result.
         sx_do (leave_stage cb rid ''agent-audit'' (PDict agent_result))
           (if agent_run_failed agent_result
            then sx_raise (RuntimeError (case agent_run_error agent_result of
                   None \<Rightarrow> ''agent-audit failed'' | Some m \<Rightarrow> if m = [] then ''agent-audit failed'' else m))
            else poll_cancel cb rid)))))))))"

definition stage_code_analysis :: "'s callbacks \<Rightarrow> string \<Rightarrow> pyval \<Rightarrow> dict \<Rightarrow> ('s, unit) px" where
  "stage_code_analysis cb rid workspace run =
     (if \<not> code_batch_analysis_enabled run then skip_stage cb rid ''code-analysis'' ''code-auditor agent disabled''
      else
        sx_do (enter_stage cb rid ''code-analysis'' [])
        (sx_bind (on_world (guarded cb rid ''code_analysis_failed''
           (case cb_code_batch cb of
              None \<Rightarrow> sx_ret (PDict (unavailable_result ''code batch analysis callback is not configured''))
            | Some f \<Rightarrow> sx_bind (sx_lift (dindex run ''project_id'')) (\<lambda>project. f rid project workspace run))))
         (\<lambda>result. sx_do (leave_stage cb rid ''code-analysis'' result) (poll_cancel cb rid))))"

definition triage_result :: dict where
  "triage_result =
     [(''ok'', PBool True), (''mode'', PStr ''pre-swarm''),
      (''policy'', PStr ''exclude standalone low-impact hygiene findings from swarm scheduling'')]"

text \<open>This stage reports its result as it is, without compaction by the executor.\<close>

definition stage_value_triage :: "'s callbacks \<Rightarrow> string \<Rightarrow> ('s, unit) px" where
  "stage_value_triage cb rid =
     sx_do (enter_stage cb rid ''value-triage'' [(''policy'', PStr (
        ''Main-agent value triage runs before whiteboard swarm so standalone hygiene findings '' @
        ''do not trigger deeper agent work.''))])
     (sx_do (add_step ''value-triage'' (PDict triage_result))
     (sx_do (on_world (cb_run_event cb rid ''pipeline_step_completed''
               [(''step'', PStr ''value-triage''), (''result'', PDict triage_result)]))
       (poll_cancel cb rid)))"

definition stage_whiteboard_swarm :: "'s callbacks \<Rightarrow> string \<Rightarrow> dict \<Rightarrow> ('s, unit) px" where
  "stage_whiteboard_swarm cb rid run =
     (if \<not> whiteboard_swarm_enabled run then skip_stage cb rid ''whiteboard-swarm'' ''whiteboard swarm disabled''
      else
        sx_do (enter_stage cb rid ''whiteboard-swarm'' [])
        (sx_bind (on_world (guarded cb rid ''whiteboard_swarm_failed''
           (case cb_whiteboard_swarm cb of
              None \<Rightarrow> sx_ret (PDict (unavailable_result ''whiteboard swarm callback is not configured''))
            | Some f \<Rightarrow> f rid)))
         (\<lambda>result. sx_do (leave_stage cb rid ''whiteboard-swarm'' result) (poll_cancel cb rid))))"

text \<open>The result is the pair of \<open>validator_result\<close> and \<open>judge_result\<close>.\<close>

definition stage_validation :: "'s callbacks \<Rightarrow> string \<Rightarrow> pyval \<Rightarrow> bool \<Rightarrow> dict \<Rightarrow> pyval list \<Rightarrow> ('s, dict \<times> dict) px" where
  "stage_validation cb rid workspace network run items =
     (if \<not> validation_judgement_enabled run then
        (let skipped = skipped_result ''validation-judgement disabled''
         in sx_do (skip_stage cb rid ''validation-judgement'' ''validation-judgement disabled'')
              (sx_ret (skipped, skipped)))
      else
        sx_do (on_world (cb_set_state cb rid ''validation-judgement'' ''running'' None))
        (sx_bind (sx_lift (dindex run ''validator_rounds'')) (\<lambda>rounds.
        sx_do (on_world (cb_run_event cb rid ''pipeline_step_started''
                 [(''step'', PStr ''validation-judgement''), (''finding_count'', PInt (int (length items))),
                  (''validator_rounds'', rounds)]))
        (sx_bind (sx_lift (dindex run ''project_id'')) (\<lambda>project.
         sx_bind (sx_lift (dindex run ''max_parallel_validators'')) (\<lambda>parallel.
         sx_bind (sx_lift (default_agent_template ''validator'')) (\<lambda>default_name.
         sx_bind (sx_lift (dindex run ''retain_runtime_on_failure'')) (\<lambda>retain.
         sx_bind (on_world (rt_scale_validators cb
            [(''audit_run_id'', PStr rid), (''project_id'', project), (''findings'', PList items),
             (''workspace_host_path'', workspace), (''validator_rounds'', rounds),
             (''max_parallel_validators'', parallel),
             (''validator_agent_name'', PStr (config_str run ''validation_judgement_agent_name''
                (config_str run ''validator_agent_name'' default_name))),
             (''allow_external_network'', PBool network), (''retain_runtime_on_failure'', retain),
             (''wait_for_completion'', PBool True)])) (\<lambda>validator_result.
         sx_do (leave_stage cb rid ''validation-judgement'' (PDict validator_result))
         (sx_do (poll_cancel cb rid)
           (sx_ret (validator_result, [(''validation_judgement'', PDict validator_result)]))))))))))))"

section \<open>The feedback loop\<close>

text \<open>\<open>{**value}\<close>: unpacking what is not a dictionary raises.\<close>

fun py_mapping :: "pyval \<Rightarrow> dict res" where
  "py_mapping (PDict d) = Inr d"
| "py_mapping _ = Inl (TypeError ''object is not a mapping'')"

definition created_count :: "dict \<Rightarrow> int res" where
  "created_count result =
     py_int (por (por (por (dget result ''findings_created'') (dget result ''cards_created''))
                      (dget result ''candidates_created'')) (PInt 0))"

text \<open>
  The loop over \<open>range(1, max_rounds + 1)\<close>: \<open>left\<close> rounds still to go, \<open>i\<close> the round that is
  next. It stops at an exception and at a round that creates nothing.
\<close>

fun feedback_rounds ::
  "'s callbacks \<Rightarrow> string \<Rightarrow> (string \<Rightarrow> pyval \<Rightarrow> pyval \<Rightarrow> dict \<Rightarrow> ('s, pyval) sx) \<Rightarrow> pyval \<Rightarrow> dict \<Rightarrow> dict \<Rightarrow> nat
    \<Rightarrow> nat \<Rightarrow> nat \<Rightarrow> pyval list \<Rightarrow> ('s, pyval list) sx" where
  "feedback_rounds cb rid batch workspace run feedback max_rounds 0 i results = sx_ret results"
| "feedback_rounds cb rid batch workspace run feedback max_rounds (Suc left) i results =
     (let feedback_config = dset (run_cfg run) ''feedback_loop'' (PDict (dset (dset feedback
            ''round_index'' (PInt (int i))) ''max_rounds'' (PInt (int max_rounds))));
          feedback_run = dset run ''config'' (PDict feedback_config)
      in sx_bind (sx_attempt (sx_bind (sx_lift (dindex run ''project_id''))
                    (\<lambda>project. batch rid project workspace feedback_run)))
        (\<lambda>outcome. case outcome of
           Inl exc \<Rightarrow>
             (let result = [(''ok'', PBool False), (''round_index'', PInt (int i)), (''error'', PStr (exc_str exc))]
              in sx_do (cb_pipeline_event cb rid ''feedback_loop_failed'' result)
                   (sx_ret (results @ [PDict result])))
         | Inr value \<Rightarrow>
             sx_bind (sx_lift (py_mapping value)) (\<lambda>mapping.
               let result = dset mapping ''round_index'' (PInt (int i));
                   results' = results @ [PDict result]
               in sx_do (cb_pipeline_event cb rid ''feedback_loop_round_completed'' result)
                  (sx_bind (sx_lift (created_count result)) (\<lambda>created.
                     if created \<le> 0 then sx_ret results'
                     else feedback_rounds cb rid batch workspace run feedback max_rounds left (Suc i) results')))))"

definition feedback_guidance :: "pyval" where
  "feedback_guidance = PList
     [PStr ''Avoid repeating candidates already marked false_positive or unreachable.'',
      PStr ''Search uncovered architecture modules, critical flows, codebase-memory graph paths, and dependency-enabled code paths.'',
      PStr ''Prefer new candidate_vulnerability Whiteboard cards with concrete files, lines, source, sink, and reachability questions.'']"

definition feedback_skip :: "string \<Rightarrow> dict \<Rightarrow> pyval" where
  "feedback_skip reason status_counts =
     PDict [(''ok'', PBool True), (''skipped'', PBool True), (''reason'', PStr reason),
            (''status_counts'', PDict status_counts)]"

definition all_ok :: "pyval list \<Rightarrow> bool" where
  "all_ok results =
     list_all (\<lambda>item. case item of PDict d \<Rightarrow> truthy (dget_or d ''ok'' (PBool True)) | _ \<Rightarrow> True) results"

definition run_feedback_loop :: "'s callbacks \<Rightarrow> string \<Rightarrow> dict \<Rightarrow> pyval \<Rightarrow> dict \<Rightarrow> ('s, pyval) sx" where
  "run_feedback_loop cb rid run workspace validation_result =
     (if \<not> flag (run_cfg run) ''enable_feedback_loop'' True
      then sx_ret (PDict (skipped_result ''feedback loop disabled''))
      else case (cb_code_batch cb, code_batch_analysis_enabled run) of
        (Some batch, True) \<Rightarrow>
          sx_bind (sx_lift (py_int (por (dget (run_cfg run) ''max_feedback_rounds'') (PInt 2)))) (\<lambda>n.
          let max_rounds = nat (max 0 n)
          in if max_rounds = 0 then sx_ret (PDict (skipped_result ''max feedback rounds is zero''))
             else
               let status_counts = dict_or_empty (dget validation_result ''status_counts'');
                   decisions = list_or_empty (dget validation_result ''decisions'')
               in sx_bind (sx_lift (py_int (por (por (por (dget status_counts ''confirmed'') (dget status_counts ''pass''))
                                                   (dget status_counts ''completed_confirmed'')) (PInt 0)))) (\<lambda>confirmed.
                  sx_bind (sx_lift (int_or_0 status_counts ''needs_review'')) (\<lambda>needs_review.
                  sx_bind (sx_lift (py_int (por (por (dget status_counts ''false_positive'') (dget status_counts ''failed''))
                                                (PInt 0)))) (\<lambda>false_positive.
                  if decisions = [] \<and> status_counts = []
                  then sx_ret (PDict (skipped_result ''no validation status available''))
                  else if confirmed \<noteq> 0 \<or> needs_review \<noteq> 0
                  then sx_ret (feedback_skip ''confirmed or needs_review findings exist'' status_counts)
                  else if false_positive \<le> 0 \<and> status_counts \<noteq> []
                  then sx_ret (feedback_skip ''validation did not indicate all candidates are unreachable'' status_counts)
                  else
                    let feedback =
                          [(''round_reason'', PStr ''all candidates were rejected or unreachable''),
                           (''validation_status_counts'', PDict status_counts),
                           (''validation_decisions'', PList (take 50 decisions)),
                           (''guidance'', feedback_guidance)]
                    in sx_bind (feedback_rounds cb rid batch workspace run feedback max_rounds max_rounds 1 []) (\<lambda>results.
                         sx_ret (PDict
                           [(''ok'', PBool (all_ok results)),
                            (''rounds'', PInt (int (length results))),
                            (''max_rounds'', PInt (int max_rounds)),
                            (''results'', PList results),
                            (''feedback'', PDict feedback)]))))))
      | _ \<Rightarrow> sx_ret (PDict (skipped_result ''code batch analysis unavailable'')))"

definition stage_feedback :: "'s callbacks \<Rightarrow> string \<Rightarrow> pyval \<Rightarrow> dict \<Rightarrow> dict \<Rightarrow> ('s, unit) px" where
  "stage_feedback cb rid workspace run validator_result =
     sx_do (enter_stage cb rid ''feedback-loop'' [])
     (sx_bind (on_world (run_feedback_loop cb rid run workspace validator_result)) (\<lambda>result.
      sx_do (leave_stage cb rid ''feedback-loop'' result) (poll_cancel cb rid)))"

definition stage_legacy_notes :: "'s callbacks \<Rightarrow> string \<Rightarrow> dict \<Rightarrow> ('s, unit) px" where
  "stage_legacy_notes cb rid run =
     sx_do (if legacy_judgement_enabled run
            then on_world (cb_pipeline_event cb rid ''legacy_judgement_skipped''
                   [(''reason'', PStr ''validation-judgement replaces judgement'')])
            else sx_ret ())
           (if legacy_source_sink_analysis_enabled run
            then on_world (cb_pipeline_event cb rid ''legacy_trace_worker_skipped''
                   [(''reason'', PStr ''whiteboard-swarm schedules Trace Worker work internally'')])
            else sx_ret ())"

definition stage_poc_writing :: "'s callbacks \<Rightarrow> string \<Rightarrow> dict \<Rightarrow> ('s, unit) px" where
  "stage_poc_writing cb rid run =
     (if \<not> poc_writing_enabled run then skip_stage cb rid ''poc-writing'' ''poc-writer agent disabled''
      else
        sx_do (enter_stage cb rid ''poc-writing'' [])
        (sx_bind (on_world (guarded cb rid ''poc_writing_failed'' (cb_generate_pocs cb rid)))
         (\<lambda>result. sx_do (leave_stage cb rid ''poc-writing'' result) (poll_cancel cb rid))))"

definition stage_poc_verification :: "'s callbacks \<Rightarrow> string \<Rightarrow> dict \<Rightarrow> ('s, unit) px" where
  "stage_poc_verification cb rid run =
     (if \<not> poc_verification_enabled run then skip_stage cb rid ''poc-verification'' ''poc-verifier agent disabled''
      else
        sx_do (enter_stage cb rid ''poc-verification'' [])
        (sx_bind (on_world (guarded cb rid ''poc_verification_failed'' (cb_verify_pocs cb rid)))
         (\<lambda>result. sx_do (leave_stage cb rid ''poc-verification'' result) (poll_cancel cb rid))))"

text \<open>The report is no entry of \<open>steps\<close>.\<close>

definition stage_report :: "'s callbacks \<Rightarrow> string \<Rightarrow> ('s, pyval) px" where
  "stage_report cb rid =
     sx_do (enter_stage cb rid ''report'' [])
     (sx_bind (on_world (cb_generate_report cb rid)) (\<lambda>report_result.
      sx_do (on_world (cb_run_event cb rid ''pipeline_step_completed''
               [(''step'', PStr ''report''), (''result'', cb_compact cb report_result)]))
        (sx_ret report_result)))"

section \<open>Ends of a run\<close>

definition cleanup_terminal_runtime :: "'s callbacks \<Rightarrow> string \<Rightarrow> string \<Rightarrow> dict \<Rightarrow> ('s, unit) sx" where
  "cleanup_terminal_runtime cb rid terminal_status run =
     (if terminal_status = ''failed'' \<and> truthy (dget run ''retain_runtime_on_failure'')
      then cb_pipeline_event cb rid ''runtime_cleanup_skipped''
             [(''reason'', PStr ''retain_runtime_on_failure''), (''terminal_status'', PStr terminal_status)]
      else case rt_cleanup_run cb of
        None \<Rightarrow> cb_pipeline_event cb rid ''runtime_cleanup_skipped''
             [(''reason'', PStr ''runtime_cleanup_unavailable''), (''terminal_status'', PStr terminal_status)]
      | Some cleanup \<Rightarrow>
          sx_bind (sx_attempt (cleanup rid)) (\<lambda>outcome. case outcome of
            Inl exc \<Rightarrow> cb_pipeline_event cb rid ''runtime_cleanup_failed''
                [(''error'', PStr (exc_str exc)), (''terminal_status'', PStr terminal_status)]
          | Inr result \<Rightarrow> cb_pipeline_event cb rid ''runtime_cleanup_completed''
                [(''terminal_status'', PStr terminal_status), (''result'', cb_compact cb result)]))"

definition final_status_of :: "quality_result \<Rightarrow> string" where
  "final_status_of q = (if qr_warnings q \<noteq> [] then ''completed_with_warnings'' else ''completed'')"

definition finish_completed :: "'s callbacks \<Rightarrow> string \<Rightarrow> dict \<Rightarrow> dict \<Rightarrow> pyval \<Rightarrow> ('s, unit) px" where
  "finish_completed cb rid run judge_result report_result =
     sx_bind (sx_gets snd) (\<lambda>steps.
     sx_bind (sx_lift (result_quality steps judge_result report_result)) (\<lambda>q.
       let final_status = final_status_of q;
           final_event = (if final_status = ''completed_with_warnings'' then ''pipeline_completed_with_warnings''
                          else ''pipeline_completed'')
       in sx_do (on_world (cb_summary cb rid
                   [(''steps'', PList steps), (''judge'', PDict judge_result), (''report'', report_result),
                    (''result_quality'', PDict (quality_to_dict q))]))
          (sx_do (on_world (cb_mark_status cb rid final_status))
          (sx_do (on_world (cb_set_state cb rid ''completed'' final_status None))
          (sx_do (on_world (cb_run_event cb rid final_event
                   [(''report'', cb_compact cb report_result),
                    (''result_quality'', cb_compact cb (PDict (quality_to_dict q)))]))
            (on_world (cleanup_terminal_runtime cb rid final_status run)))))))"

definition on_cancelled :: "'s callbacks \<Rightarrow> string \<Rightarrow> dict \<Rightarrow> pyexc \<Rightarrow> pyval list \<Rightarrow> ('s, unit) sx" where
  "on_cancelled cb rid run exc steps =
     sx_do (cb_mark_status cb rid ''cancelled'')
     (sx_do (cb_set_state cb rid ''cancelled'' ''cancelled'' (Some (exc_str exc)))
     (sx_do (cb_run_event cb rid ''pipeline_cancelled''
               [(''reason'', PStr (exc_str exc)), (''steps'', PList (map (cb_compact cb) steps))])
       (cleanup_terminal_runtime cb rid ''cancelled'' run)))"

text \<open>\<open>reason or str(exc)\<close>.\<close>

definition reason_or :: "string option \<Rightarrow> string \<Rightarrow> string" where
  "reason_or reason m = (case reason of None \<Rightarrow> m | Some r \<Rightarrow> if r = [] then m else r)"

definition on_error :: "'s callbacks \<Rightarrow> string \<Rightarrow> dict \<Rightarrow> pyexc \<Rightarrow> pyval list \<Rightarrow> ('s, unit) sx" where
  "on_error cb rid run exc steps =
     sx_bind (cb_is_cancel_requested cb rid) (\<lambda>requested.
       if requested then
         sx_bind (cb_cancel_reason cb rid) (\<lambda>reason.
         sx_do (cb_mark_status cb rid ''cancelled'')
         (sx_do (cb_set_state cb rid ''cancelled'' ''cancelled'' (Some (reason_or reason (exc_str exc))))
         (sx_do (cb_run_event cb rid ''pipeline_cancelled''
                   [(''reason'', PStr (reason_or reason (exc_str exc))), (''error'', PStr (exc_str exc)),
                    (''steps'', PList (map (cb_compact cb) steps))])
           (cleanup_terminal_runtime cb rid ''cancelled'' run))))
       else
         sx_do (cb_pipeline_event cb rid ''pipeline_failed''
                  [(''error'', PStr (exc_str exc)), (''steps'', PList steps)])
         (sx_do (cb_set_state cb rid ''failed'' ''failed'' (Some (exc_str exc)))
         (sx_do (cb_run_event cb rid ''pipeline_failed''
                  [(''error'', PStr (exc_str exc)), (''steps'', PList (map (cb_compact cb) steps))])
         (sx_do (cb_mark_status cb rid ''failed'')
           (cleanup_terminal_runtime cb rid ''failed'' run)))))"

section \<open>Execution\<close>

text \<open>The body of the \<open>try\<close>; \<open>later_stages\<close> is its part from the value triage on.\<close>

definition later_stages :: "'s callbacks \<Rightarrow> string \<Rightarrow> pyval \<Rightarrow> bool \<Rightarrow> dict \<Rightarrow> ('s, unit) px" where
  "later_stages cb rid workspace network run =
     sx_do (stage_value_triage cb rid)
     (sx_do (stage_whiteboard_swarm cb rid run)
     (sx_bind (on_world (cb_list_findings cb rid)) (\<lambda>items.
      sx_bind (stage_validation cb rid workspace network run items) (\<lambda>(validator_result, judge_result).
      sx_do (stage_feedback cb rid workspace run validator_result)
      (sx_do (stage_legacy_notes cb rid run)
      (sx_do (stage_poc_writing cb rid run)
      (sx_do (stage_poc_verification cb rid run)
      (sx_bind (stage_report cb rid) (\<lambda>report_result.
         finish_completed cb rid run judge_result report_result)))))))))"

definition run_stages :: "'s callbacks \<Rightarrow> string \<Rightarrow> pyval \<Rightarrow> dict \<Rightarrow> ('s, unit) px" where
  "run_stages cb rid workspace run0 =
     (let network = agent_external_network (set_allow_agent_external_network cb) run0
      in sx_do (poll_cancel cb rid)
         (sx_bind (stage_structure cb rid workspace run0) (\<lambda>run.
          sx_do (stage_agent_audit cb rid workspace network run)
          (sx_do (stage_code_analysis cb rid workspace run)
            (later_stages cb rid workspace network run)))))"

text \<open>The two \<open>except\<close> clauses.\<close>

definition handle_exception :: "'s callbacks \<Rightarrow> string \<Rightarrow> dict \<Rightarrow> pyexc \<Rightarrow> pyval list \<Rightarrow> ('s, unit) sx" where
  "handle_exception cb rid run exc steps =
     (case exc of
        PipelineCancelled m \<Rightarrow> on_cancelled cb rid run exc steps
      | _ \<Rightarrow> on_error cb rid run exc steps)"

definition execute_with_workspace :: "'s callbacks \<Rightarrow> string \<Rightarrow> pyval \<Rightarrow> dict \<Rightarrow> ('s, unit) sx" where
  "execute_with_workspace cb rid workspace run =
     sx_do (cb_mark_status cb rid ''running'')
     (sx_do (cb_run_event cb rid ''pipeline_started'' [(''stage'', PStr ''structure-discovery'')])
       (\<lambda>s. case run_stages cb rid workspace run (s, []) of
              (Inr u, (t, steps)) \<Rightarrow> (Inr u, t)
            | (Inl exc, (t, steps)) \<Rightarrow> handle_exception cb rid run exc steps t))"

definition execute_without_workspace :: "'s callbacks \<Rightarrow> string \<Rightarrow> dict \<Rightarrow> ('s, unit) sx" where
  "execute_without_workspace cb rid run =
     sx_do (cb_mark_status cb rid ''failed'')
     (sx_do (cb_set_state cb rid ''failed'' ''failed'' (Some ''audit run has no workspace path''))
     (sx_do (cb_run_event cb rid ''pipeline_failed'' [(''error'', PStr ''audit run has no workspace path'')])
       (cleanup_terminal_runtime cb rid ''failed'' run)))"

definition execute :: "'s callbacks \<Rightarrow> string \<Rightarrow> ('s, unit) sx" where
  "execute cb rid =
     sx_bind (cb_get_audit_run cb rid) (\<lambda>found. case found of
       None \<Rightarrow> sx_ret ()
     | Some run \<Rightarrow>
         if run = [] then sx_ret ()
         else
           sx_bind (sx_lift (vget (dget_or run ''config'' (PDict [])) ''workspace_host_path'')) (\<lambda>workspace.
             if truthy workspace then execute_with_workspace cb rid workspace run
             else execute_without_workspace cb rid run))"

end
