(* ===== verification/Executor_Invariants.thy ===== *)
theory Executor_Invariants
  imports Pipeline_Executor
begin

text \<open>
  What the pipeline executor keeps of an invariant of its callbacks, stage by stage, and where
  it polls for a cancellation. The next theory draws the executor's promises from these over the
  interface of the run store.
\<close>

section \<open>Invariants of the callbacks\<close>

text \<open>\<open>P\<close> of the world and \<open>W\<close> of the recorded steps; steps are only ever appended.\<close>

definition on_state :: "('s \<Rightarrow> bool) \<Rightarrow> (pyval list \<Rightarrow> bool) \<Rightarrow> 's \<times> pyval list \<Rightarrow> bool" where
  "on_state P W = (\<lambda>(s, steps). P s \<and> W steps)"

definition grows :: "(pyval list \<Rightarrow> bool) \<Rightarrow> bool" where
  "grows W \<longleftrightarrow> (\<forall>xs ys. W xs \<longrightarrow> W (xs @ ys))"

lemma on_state_simp [simp]: "on_state P W (s, steps) \<longleftrightarrow> P s \<and> W steps"
  by (simp add: on_state_def)

lemma grows_True [simp, intro]: "grows (\<lambda>_. True)"
  by (simp add: grows_def)

text \<open>A first part that keeps \<open>I\<close>, and the rest from any state in \<open>I\<close>.\<close>

lemma wp_bind_keeps:
  assumes "keeps I m" and "I st"
    and "\<And>x st. I st \<Longrightarrow> sx_wp (f x) Q (\<lambda>_. I) st"
  shows "sx_wp (sx_bind m f) Q (\<lambda>_. I) st"
  using assms by (auto intro: keeps_wpI)

lemma wp_do_keeps:
  assumes "keeps I m" and "I st"
    and "\<And>st. I st \<Longrightarrow> sx_wp k Q (\<lambda>_. I) st"
  shows "sx_wp (sx_do m k) Q (\<lambda>_. I) st"
  using assms by (auto intro: keeps_wpI)

lemma sx_wp_on_world [simp]:
  "sx_wp (on_world m) Q E (s, steps) = sx_wp m (\<lambda>x t. Q x (t, steps)) (\<lambda>e t. E e (t, steps)) s"
  by (simp add: sx_wp_def on_world_def split: prod.splits sum.splits)

lemma sx_wp_add_step [simp]:
  "sx_wp (add_step name r) Q E (s, steps)
    = Q () (s, steps @ [PDict [(''step'', PStr name), (''result'', r)]])"
  by (simp add: add_step_def)

lemma keeps_on_world [keeps_intros]: "keeps P m \<Longrightarrow> keeps (on_state P W) (on_world m)"
  by (auto simp: keeps_def on_world_def on_state_def split: prod.splits)

lemma keeps_add_step [keeps_intros]: "grows W \<Longrightarrow> keeps (on_state P W) (add_step name r)"
  by (auto simp: keeps_def add_step_def sx_modify_def on_state_def grows_def split: prod.splits)

text \<open>Reading and writing the run's bookkeeping keeps \<open>P\<close>.\<close>

definition store_keeps :: "('s \<Rightarrow> bool) \<Rightarrow> 's callbacks \<Rightarrow> string \<Rightarrow> bool" where
  "store_keeps P cb rid \<longleftrightarrow>
     (\<forall>stage st err. keeps P (cb_set_state cb rid stage st err)) \<and>
     (\<forall>t p. keeps P (cb_run_event cb rid t p)) \<and>
     (\<forall>t p. keeps P (cb_pipeline_event cb rid t p)) \<and>
     (\<forall>p. keeps P (cb_summary cb rid p)) \<and>
     keeps P (cb_raise_if_cancelled cb rid)"

text \<open>The callbacks that do the work of the stages up to the report keep \<open>P\<close>.\<close>

definition stages_keep :: "('s \<Rightarrow> bool) \<Rightarrow> 's callbacks \<Rightarrow> string \<Rightarrow> bool" where
  "stages_keep P cb rid \<longleftrightarrow>
     (\<forall>f p w r. cb_structure_discovery cb = Some f \<longrightarrow> keeps P (f rid p w r)) \<and>
     (\<forall>f p w r. cb_code_batch cb = Some f \<longrightarrow> keeps P (f rid p w r)) \<and>
     (\<forall>f. cb_whiteboard_swarm cb = Some f \<longrightarrow> keeps P (f rid)) \<and>
     (\<forall>a. keeps P (rt_start_agent_run cb a)) \<and>
     (\<forall>a. keeps P (rt_scale_validators cb a)) \<and>
     keeps P (cb_list_findings cb rid) \<and>
     keeps P (cb_generate_pocs cb rid) \<and>
     keeps P (cb_verify_pocs cb rid)"

definition cleanup_keeps :: "('s \<Rightarrow> bool) \<Rightarrow> 's callbacks \<Rightarrow> string \<Rightarrow> bool" where
  "cleanup_keeps P cb rid \<longleftrightarrow> (\<forall>f. rt_cleanup_run cb = Some f \<longrightarrow> keeps P (f rid))"

lemma store_keepsD [keeps_intros]:
  assumes "store_keeps P cb rid"
  shows "keeps P (cb_set_state cb rid stage st err)"
    and "keeps P (cb_run_event cb rid t p)"
    and "keeps P (cb_pipeline_event cb rid t p)"
    and "keeps P (cb_summary cb rid p)"
    and "keeps P (cb_raise_if_cancelled cb rid)"
  using assms by (auto simp: store_keeps_def)

lemma stages_keepD [keeps_intros]:
  assumes "stages_keep P cb rid"
  shows "keeps P (rt_start_agent_run cb a)"
    and "keeps P (rt_scale_validators cb a)"
    and "keeps P (cb_list_findings cb rid)"
    and "keeps P (cb_generate_pocs cb rid)"
    and "keeps P (cb_verify_pocs cb rid)"
  using assms by (auto simp: stages_keep_def)

lemma keeps_optional_calls [keeps_intros]:
  assumes "stages_keep P cb rid"
  shows "keeps P m \<Longrightarrow> keeps P (case cb_structure_discovery cb of None \<Rightarrow> m
           | Some f \<Rightarrow> sx_bind (sx_lift r) (\<lambda>p. f rid p w run))"
    and "keeps P m \<Longrightarrow> keeps P (case cb_code_batch cb of None \<Rightarrow> m
           | Some f \<Rightarrow> sx_bind (sx_lift r) (\<lambda>p. f rid p w run))"
    and "keeps P m \<Longrightarrow> keeps P (case cb_whiteboard_swarm cb of None \<Rightarrow> m | Some f \<Rightarrow> f rid)"
  using assms by (auto simp: stages_keep_def intro!: keeps_bind keeps_lift split: option.split)

lemma keeps_poll [keeps_intros]: "store_keeps P cb rid \<Longrightarrow> keeps (on_state P W) (poll_cancel cb rid)"
  unfolding poll_cancel_def by (intro keeps_intros)

lemma keeps_enter [keeps_intros]: "store_keeps P cb rid \<Longrightarrow> keeps (on_state P W) (enter_stage cb rid name x)"
  unfolding enter_stage_def by (intro keeps_intros)

lemma keeps_leave [keeps_intros]: "grows W \<Longrightarrow> store_keeps P cb rid \<Longrightarrow> keeps (on_state P W) (leave_stage cb rid name x)"
  unfolding leave_stage_def by (intro keeps_intros)

lemma keeps_skip [keeps_intros]: "grows W \<Longrightarrow> store_keeps P cb rid \<Longrightarrow> keeps (on_state P W) (skip_stage cb rid name x)"
  unfolding skip_stage_def by (intro keeps_intros)

lemma keeps_guarded [keeps_intros]: "store_keeps P cb rid \<Longrightarrow> keeps P m \<Longrightarrow> keeps P (guarded cb rid event m)"
  unfolding guarded_def by (intro keeps_intros)

section \<open>Stages\<close>

lemma keeps_stage_structure [keeps_intros]:
  "grows W \<Longrightarrow> store_keeps P cb rid \<Longrightarrow> stages_keep P cb rid \<Longrightarrow> keeps (on_state P W) (stage_structure cb rid w run)"
  unfolding stage_structure_def by (intro keeps_intros)

lemma keeps_stage_agent_audit [keeps_intros]:
  "grows W \<Longrightarrow> store_keeps P cb rid \<Longrightarrow> stages_keep P cb rid \<Longrightarrow> keeps (on_state P W) (stage_agent_audit cb rid w n run)"
  unfolding stage_agent_audit_def by (intro keeps_intros)

lemma keeps_stage_code_analysis [keeps_intros]:
  "grows W \<Longrightarrow> store_keeps P cb rid \<Longrightarrow> stages_keep P cb rid \<Longrightarrow> keeps (on_state P W) (stage_code_analysis cb rid w run)"
  unfolding stage_code_analysis_def by (intro keeps_intros)

lemma keeps_stage_value_triage [keeps_intros]:
  "grows W \<Longrightarrow> store_keeps P cb rid \<Longrightarrow> keeps (on_state P W) (stage_value_triage cb rid)"
  unfolding stage_value_triage_def by (intro keeps_intros)

lemma keeps_stage_whiteboard_swarm [keeps_intros]:
  "grows W \<Longrightarrow> store_keeps P cb rid \<Longrightarrow> stages_keep P cb rid \<Longrightarrow> keeps (on_state P W) (stage_whiteboard_swarm cb rid run)"
  unfolding stage_whiteboard_swarm_def by (intro keeps_intros)

lemma keeps_stage_validation [keeps_intros]:
  "grows W \<Longrightarrow> store_keeps P cb rid \<Longrightarrow> stages_keep P cb rid \<Longrightarrow> keeps (on_state P W) (stage_validation cb rid w n run items)"
  unfolding stage_validation_def Let_def by (intro keeps_intros)

lemma keeps_feedback_rounds:
  assumes "store_keeps P cb rid" and "\<And>p r. keeps P (batch rid p w r)"
  shows "keeps P (feedback_rounds cb rid batch w run fb mx left i results)"
proof (induction left arbitrary: i results)
  case 0
  show ?case by (simp add: keeps_ret)
next
  case (Suc left)
  show ?case
    unfolding feedback_rounds.simps Let_def by (intro keeps_intros assms Suc.IH)
qed

lemma keeps_run_feedback_loop [keeps_intros]:
  assumes "store_keeps P cb rid" and "stages_keep P cb rid"
  shows "keeps P (run_feedback_loop cb rid run w v)"
proof (cases "cb_code_batch cb")
  case None
  then show ?thesis by (simp add: run_feedback_loop_def keeps_ret)
next
  case (Some batch)
  then have "keeps P (feedback_rounds cb rid batch w run fb mx left i results)" for fb mx left i results
    using assms by (intro keeps_feedback_rounds) (auto simp: stages_keep_def)
  then show ?thesis
    unfolding run_feedback_loop_def Let_def
    by (cases "code_batch_analysis_enabled run") (auto simp: Some intro!: keeps_intros)
qed

lemma keeps_stage_feedback [keeps_intros]:
  "grows W \<Longrightarrow> store_keeps P cb rid \<Longrightarrow> stages_keep P cb rid \<Longrightarrow> keeps (on_state P W) (stage_feedback cb rid w run v)"
  unfolding stage_feedback_def by (intro keeps_intros)

lemma keeps_stage_legacy_notes [keeps_intros]:
  "store_keeps P cb rid \<Longrightarrow> keeps (on_state P W) (stage_legacy_notes cb rid run)"
  unfolding stage_legacy_notes_def by (intro keeps_intros)

lemma keeps_stage_poc_writing [keeps_intros]:
  "grows W \<Longrightarrow> store_keeps P cb rid \<Longrightarrow> stages_keep P cb rid \<Longrightarrow> keeps (on_state P W) (stage_poc_writing cb rid run)"
  unfolding stage_poc_writing_def by (intro keeps_intros)

lemma keeps_stage_poc_verification [keeps_intros]:
  "grows W \<Longrightarrow> store_keeps P cb rid \<Longrightarrow> stages_keep P cb rid \<Longrightarrow> keeps (on_state P W) (stage_poc_verification cb rid run)"
  unfolding stage_poc_verification_def by (intro keeps_intros)

lemma keeps_stage_report [keeps_intros]:
  "grows W \<Longrightarrow> store_keeps P cb rid \<Longrightarrow> keeps P (cb_generate_report cb rid) \<Longrightarrow> keeps (on_state P W) (stage_report cb rid)"
  unfolding stage_report_def by (intro keeps_intros)

lemma keeps_cleanup [keeps_intros]:
  assumes "store_keeps P cb rid" and "cleanup_keeps P cb rid"
  shows "keeps P (cleanup_terminal_runtime cb rid st run)"
  unfolding cleanup_terminal_runtime_def
proof (intro keeps_if keeps_case_option keeps_bind keeps_attempt keeps_case_sum)
  fix cleanup
  assume "rt_cleanup_run cb = Some cleanup"
  then show "keeps P (cleanup rid)" using assms(2) by (simp add: cleanup_keeps_def)
qed (rule store_keepsD(3) [OF assms(1)])+

lemmas stage_keeps =
  keeps_stage_structure keeps_stage_agent_audit keeps_stage_code_analysis keeps_stage_value_triage
  keeps_stage_whiteboard_swarm keeps_stage_validation keeps_stage_feedback keeps_stage_legacy_notes
  keeps_stage_poc_writing keeps_stage_poc_verification

section \<open>Whole executions\<close>

text \<open>Also the status writes keep \<open>P\<close>, and every read.\<close>

definition all_keep :: "('s \<Rightarrow> bool) \<Rightarrow> 's callbacks \<Rightarrow> string \<Rightarrow> bool" where
  "all_keep P cb rid \<longleftrightarrow>
     store_keeps P cb rid \<and> stages_keep P cb rid \<and> cleanup_keeps P cb rid \<and>
     keeps P (cb_generate_report cb rid) \<and> keeps P (cb_get_audit_run cb rid) \<and>
     (\<forall>st. keeps P (cb_mark_status cb rid st)) \<and>
     keeps P (cb_is_cancel_requested cb rid) \<and> keeps P (cb_cancel_reason cb rid)"

lemma all_keepD:
  assumes "all_keep P cb rid"
  shows "store_keeps P cb rid" "stages_keep P cb rid" "cleanup_keeps P cb rid"
    "keeps P (cb_generate_report cb rid)" "keeps P (cb_get_audit_run cb rid)"
    "keeps P (cb_mark_status cb rid st)" "keeps P (cb_is_cancel_requested cb rid)"
    "keeps P (cb_cancel_reason cb rid)"
  using assms by (auto simp: all_keep_def)

lemma keeps_finish_completed:
  "all_keep P cb rid \<Longrightarrow> keeps (on_state P (\<lambda>_. True)) (finish_completed cb rid run j r)"
  unfolding finish_completed_def Let_def by (intro keeps_intros grows_True all_keepD)

lemma keeps_run_stages:
  "all_keep P cb rid \<Longrightarrow> keeps (on_state P (\<lambda>_. True)) (run_stages cb rid w run)"
  unfolding run_stages_def later_stages_def Let_def
  by (intro keeps_intros grows_True all_keepD keeps_finish_completed)

lemma keeps_handle_exception: "all_keep P cb rid \<Longrightarrow> keeps P (handle_exception cb rid run e steps)"
  unfolding handle_exception_def on_cancelled_def on_error_def Let_def
  by (cases e) (simp_all add: keeps_intros all_keepD)

lemma keeps_execute:
  assumes "all_keep P cb rid"
  shows "keeps P (execute cb rid)"
proof -
  have body: "keeps P (\<lambda>s. case run_stages cb rid w run (s, []) of
      (Inr u, (t, steps)) \<Rightarrow> (Inr u, t) | (Inl exc, (t, steps)) \<Rightarrow> handle_exception cb rid run exc steps t)"
    for w run
  proof (unfold keeps_def, intro allI impI)
    fix s
    assume s: "P s"
    obtain r t steps where r: "run_stages cb rid w run (s, []) = (r, (t, steps))" by (metis prod.collapse)
    have t: "P t"
      using keeps_run_stages [OF assms, of w run] s r unfolding keeps_def on_state_def
      by (metis (mono_tags, lifting) case_prod_conv snd_conv)
    show "P (snd (case run_stages cb rid w run (s, []) of
        (Inr u, (t, steps)) \<Rightarrow> (Inr u, t) | (Inl exc, (t, steps)) \<Rightarrow> handle_exception cb rid run exc steps t))"
      using keeps_handle_exception [OF assms] t by (cases r) (simp_all add: r keeps_def)
  qed
  show ?thesis
    unfolding execute_def execute_with_workspace_def execute_without_workspace_def
    by (intro keeps_intros keeps_case_option all_keepD assms body)
qed

end
