(* ===== verification/Executor_Store.thy ===== *)
theory Executor_Store
  imports Executor_Invariants
begin

text \<open>
  The interface between the pipeline executor and the run store, and what the executor promises
  over it: whatever the runtime does, a run ends in a terminal status, a cancellation requested
  before the report ends it as cancelled, a failed orchestrator agent fails it, a failed stage
  shows as warnings, and a runtime that is to be retained is left alone.

  \<open>run_store\<close> has the store's operations and its laws; \<open>platform\<close> interprets it with the
  database operations of \<open>Run_Store\<close>, wired as \<open>build_pipeline_executor\<close>
  (\<open>services/platform/app/worker.py\<close>) wires them.
\<close>

text \<open>The executor's constructor: the store's operations beside a runtime's callbacks.\<close>

definition with_store ::
  "(string \<Rightarrow> 's \<Rightarrow> dict option) \<Rightarrow> (string \<Rightarrow> string \<Rightarrow> 's \<Rightarrow> 's)
    \<Rightarrow> (string \<Rightarrow> string \<Rightarrow> string \<Rightarrow> string option \<Rightarrow> 's \<Rightarrow> 's) \<Rightarrow> (string \<Rightarrow> string \<Rightarrow> dict \<Rightarrow> 's \<Rightarrow> 's)
    \<Rightarrow> (string \<Rightarrow> string \<Rightarrow> dict \<Rightarrow> 's \<Rightarrow> 's) \<Rightarrow> (string \<Rightarrow> dict \<Rightarrow> 's \<Rightarrow> 's) \<Rightarrow> (string \<Rightarrow> ('s, unit) sx)
    \<Rightarrow> (string \<Rightarrow> 's \<Rightarrow> bool) \<Rightarrow> (string \<Rightarrow> 's \<Rightarrow> string option) \<Rightarrow> 's callbacks \<Rightarrow> 's callbacks" where
  "with_store get mark set_state run_event pipeline_event summary raise_if is_requested reason cb =
     cb\<lparr>cb_get_audit_run := \<lambda>rid. sx_gets (get rid),
        cb_mark_status := \<lambda>rid st. sx_modify (mark rid st),
        cb_set_state := \<lambda>rid stage st err. sx_modify (set_state rid stage st err),
        cb_run_event := \<lambda>rid t p. sx_modify (run_event rid t p),
        cb_pipeline_event := \<lambda>rid t p. sx_modify (pipeline_event rid t p),
        cb_summary := \<lambda>rid p. sx_modify (summary rid p),
        cb_raise_if_cancelled := raise_if,
        cb_is_cancel_requested := \<lambda>rid. sx_gets (is_requested rid),
        cb_cancel_reason := \<lambda>rid. sx_gets (reason rid)\<rparr>"

definition terminal_statuses :: "string set" where
  "terminal_statuses = {''completed'', ''completed_with_warnings'', ''cancelled'', ''failed''}"

text \<open>A run as \<open>get_audit_run\<close> returns it, with a workspace to work on.\<close>

definition has_workspace :: "dict \<Rightarrow> bool" where
  "has_workspace run = truthy (dget (run_cfg run) ''workspace_host_path'')"

definition workspace_of :: "dict \<Rightarrow> pyval" where
  "workspace_of run = dget (run_cfg run) ''workspace_host_path''"

text \<open>The steps that make the quality check warn when they report \<open>ok: False\<close>.\<close>

definition warning_steps :: "string set" where
  "warning_steps = {''code-analysis'', ''whiteboard-swarm'', ''poc-writing'', ''poc-verification''}"

definition failed_step :: "pyval \<Rightarrow> bool" where
  "failed_step step \<longleftrightarrow>
     (\<exists>name \<in> warning_steps. \<exists>r. step = PDict [(''step'', PStr name), (''result'', PDict r)] \<and> is_False r ''ok'')"

definition some_failed :: "pyval list \<Rightarrow> bool" where
  "some_failed steps = (\<exists>step \<in> set steps. failed_step step)"

lemma grows_some_failed [simp, intro]: "grows some_failed"
  by (auto simp: grows_def some_failed_def)

section \<open>The quality check and failed steps\<close>

lemma warn_if_mono [simp]: "fst acc \<noteq> [] \<Longrightarrow> fst (warn_if b w acc) \<noteq> []"
  by (simp add: warn_if_def warn_def)

lemma warn_nonempty [simp]: "fst (warn w acc) \<noteq> []" "fst (warn_if True w acc) \<noteq> []"
  by (simp_all add: warn_if_def warn_def)

text \<open>A check that, if it returns, has warned.\<close>

definition warned :: "quality_acc res \<Rightarrow> bool" where
  "warned m \<longleftrightarrow> (\<forall>acc. m = Inr acc \<longrightarrow> fst acc \<noteq> [])"

lemma warned_intros:
  "warned (Inl e)"
  "fst acc \<noteq> [] \<Longrightarrow> warned (Inr acc)"
  "(b \<Longrightarrow> warned m) \<Longrightarrow> (\<not> b \<Longrightarrow> warned k) \<Longrightarrow> warned (if b then m else k)"
  "(\<And>x. r = Inr x \<Longrightarrow> warned (f x)) \<Longrightarrow> warned (rbind r f)"
  by (auto simp: warned_def rbind_Inr_iff)

lemma warned_branches:
  assumes "fst acc \<noteq> []"
  shows "warned (quality_agent_audit r acc)" and "warned (Inr (quality_tool n r acc))"
    and "warned (quality_code_analysis r acc)" and "warned (Inr (quality_source_sink r acc))"
    and "warned (quality_validators r acc)" and "warned (quality_poc k k' r acc)"
  unfolding quality_agent_audit_def quality_tool_def quality_code_analysis_def quality_source_sink_def
    quality_validators_def quality_poc_def Let_def
  by (intro warned_intros; simp add: assms)+

lemma warned_step: "fst acc \<noteq> [] \<Longrightarrow> warned (quality_step step acc)"
  unfolding quality_step_def quality_branch_def
  by (intro warned_intros, simp split: pyval.split, intro conjI allI impI warned_intros warned_branches) simp_all

lemma quality_step_mono: "quality_step step acc = Inr acc' \<Longrightarrow> fst acc \<noteq> [] \<Longrightarrow> fst acc' \<noteq> []"
  using warned_step unfolding warned_def by blast

lemma quality_step_failed:
  assumes "quality_step step acc = Inr acc'" and "failed_step step"
  shows "fst acc' \<noteq> []"
proof -
  obtain name r where step: "step = PDict [(''step'', PStr name), (''result'', PDict r)]"
    and name: "name \<in> warning_steps" and False: "is_False r ''ok''"
    using assms(2) by (auto simp: failed_step_def)
  have branch: "quality_step step acc = quality_branch name r acc"
    using name by (simp add: step quality_step_def warning_steps_def por_def) auto
  have code: "warned (quality_code_analysis r acc)"
    unfolding quality_code_analysis_def Let_def by (intro warned_intros; simp add: False)
  have poc: "warned (quality_poc k k' r acc)" for k k'
    unfolding quality_poc_def Let_def by (intro warned_intros; simp add: False)
  have "warned (quality_branch ''code-analysis'' r acc)" using code by (simp add: quality_branch_def)
  moreover have "warned (quality_branch ''whiteboard-swarm'' r acc)"
    by (simp add: quality_branch_def False warned_intros)
  moreover have "warned (quality_branch ''poc-writing'' r acc)" using poc by (simp add: quality_branch_def)
  moreover have "warned (quality_branch ''poc-verification'' r acc)" using poc by (simp add: quality_branch_def)
  ultimately have "warned (quality_branch name r acc)" using name unfolding warning_steps_def by blast
  then show ?thesis using assms(1) branch unfolding warned_def by metis
qed

lemma quality_steps_mono: "quality_steps steps acc = Inr acc' \<Longrightarrow> fst acc \<noteq> [] \<Longrightarrow> fst acc' \<noteq> []"
  by (induction steps arbitrary: acc) (auto simp: rbind_Inr_iff dest: quality_step_mono)

lemma quality_steps_failed: "quality_steps steps acc = Inr acc' \<Longrightarrow> some_failed steps \<Longrightarrow> fst acc' \<noteq> []"
  by (induction steps arbitrary: acc)
     (auto simp: rbind_Inr_iff some_failed_def dest: quality_step_failed quality_steps_mono)

lemma quality_parse_warnings_mono: "fst acc \<noteq> [] \<Longrightarrow> fst (quality_parse_warnings ws acc) \<noteq> []"
  by (induction ws acc rule: quality_parse_warnings.induct) auto

lemma quality_report_mono: "quality_report r acc = Inr acc' \<Longrightarrow> fst acc \<noteq> [] \<Longrightarrow> fst acc' \<noteq> []"
  by (auto simp: quality_report_def rbind_Inr_iff Let_def quality_parse_warnings_mono
      split: pyval.splits if_splits)

lemma quality_judge_mono: "fst acc \<noteq> [] \<Longrightarrow> fst (quality_judge j acc) \<noteq> []"
  by (auto simp: quality_judge_def Let_def split: pyval.splits)

lemma failed_steps_warn:
  "result_quality steps j r = Inr q \<Longrightarrow> some_failed steps \<Longrightarrow> final_status_of q = ''completed_with_warnings''"
  by (auto simp: result_quality_def rbind_Inr_iff Let_def final_status_of_def
      dest!: quality_steps_failed quality_report_mono dest: quality_judge_mono)

section \<open>Configuration through structure discovery\<close>

text \<open>The only change a stage makes to the run's view is \<open>config["structure_context"]\<close>.\<close>

definition same_run :: "dict \<Rightarrow> dict \<Rightarrow> bool" where
  "same_run run run' \<longleftrightarrow>
     (run' = run \<or> (\<exists>r. run' = dset run ''config'' (PDict (dset (run_cfg run) ''structure_context'' r))))"

lemma same_run_refl [simp]: "same_run run run"
  by (simp add: same_run_def)

lemma same_run_config:
  "same_run run run' \<Longrightarrow> k \<noteq> ''structure_context'' \<Longrightarrow> dget (run_cfg run') k = dget (run_cfg run) k"
  by (auto simp: same_run_def run_cfg_def)

lemma same_run_agent_enabled: "same_run run run' \<Longrightarrow> agent_enabled (run_cfg run') a = agent_enabled (run_cfg run) a"
  by (simp add: agent_enabled_def same_run_config)

lemma same_run_flag:
  "same_run run run' \<Longrightarrow> k \<noteq> ''structure_context'' \<Longrightarrow> flag (run_cfg run') k b = flag (run_cfg run) k b"
  by (auto simp: same_run_def run_cfg_def flag_def dget_or_def)

lemma same_run_enabled:
  assumes "same_run run run'"
  shows "agent_audit_enabled run' = agent_audit_enabled run"
    and "code_batch_analysis_enabled run' = code_batch_analysis_enabled run"
  by (simp_all add: agent_audit_enabled_def code_batch_analysis_enabled_def
      same_run_agent_enabled [OF assms] same_run_flag [OF assms])

lemma stage_structure_same_run:
  assumes "store_keeps P cb rid" and "stages_keep P cb rid" and "grows W" and "P s" and "W steps"
  shows "sx_wp (stage_structure cb rid w run)
    (\<lambda>run' st. same_run run run' \<and> on_state P W st) (\<lambda>_. on_state P W) (s, steps)"
proof -
  have "sx_wp (stage_structure cb rid w run) (\<lambda>_. on_state P W) (\<lambda>_. on_state P W) (s, steps)"
    using keeps_stage_structure [OF assms(3,1,2)] assms(4,5) by (simp add: keeps_wp)
  moreover have "sx_wp (stage_structure cb rid w run) (\<lambda>run' _. same_run run run') (\<lambda>_ _. True) st" for st
    by (auto simp: stage_structure_def sx_wp_def sx_bind_def sx_do_def sx_ret_def same_run_def run_cfg_def
        split: prod.splits sum.splits pyval.splits)
  ultimately show ?thesis by (rule sx_wp_mono [OF sx_wp_conj]) simp_all
qed

section \<open>The interface\<close>

text \<open>The run exists and, when \<open>c\<close> says so, no cancellation is requested for it.\<close>

definition run_ready ::
  "(string \<Rightarrow> 's \<Rightarrow> string option) \<Rightarrow> (string \<Rightarrow> 's \<Rightarrow> bool) \<Rightarrow> bool \<Rightarrow> string \<Rightarrow> 's \<Rightarrow> bool" where
  "run_ready status is_requested c rid s \<longleftrightarrow> status rid s \<noteq> None \<and> (c \<longrightarrow> \<not> is_requested rid s)"

locale run_store =
  fixes get :: "string \<Rightarrow> 's \<Rightarrow> dict option"
    and mark :: "string \<Rightarrow> string \<Rightarrow> 's \<Rightarrow> 's"
    and set_state :: "string \<Rightarrow> string \<Rightarrow> string \<Rightarrow> string option \<Rightarrow> 's \<Rightarrow> 's"
    and run_event :: "string \<Rightarrow> string \<Rightarrow> dict \<Rightarrow> 's \<Rightarrow> 's"
    and pipeline_event :: "string \<Rightarrow> string \<Rightarrow> dict \<Rightarrow> 's \<Rightarrow> 's"
    and summary :: "string \<Rightarrow> dict \<Rightarrow> 's \<Rightarrow> 's"
    and raise_if :: "string \<Rightarrow> ('s, unit) sx"
    and is_requested :: "string \<Rightarrow> 's \<Rightarrow> bool"
    and reason :: "string \<Rightarrow> 's \<Rightarrow> string option"
    and status :: "string \<Rightarrow> 's \<Rightarrow> string option"
  assumes get_status: "get rid s = Some run \<Longrightarrow> status rid s \<noteq> None"
    and get_config: "get rid s = Some run \<Longrightarrow> \<exists>c. dlookup run ''config'' = Some (PDict c)"
    and status_mark: "status rid (mark rid st s) = map_option (\<lambda>_. st) (status rid s)"
    and status_set_state: "status rid (set_state rid stage st err s) = status rid s"
    and status_run_event: "status rid (run_event rid t p s) = status rid s"
    and status_pipeline_event: "status rid (pipeline_event rid t p s) = status rid s"
    and status_summary: "status rid (summary rid p s) = status rid s"
    and requested_mark: "is_requested rid (mark rid st s) = is_requested rid s"
    and requested_set_state: "is_requested rid (set_state rid stage st err s) = is_requested rid s"
    and requested_run_event: "is_requested rid (run_event rid t p s) = is_requested rid s"
    and requested_pipeline_event: "is_requested rid (pipeline_event rid t p s) = is_requested rid s"
    and requested_summary: "is_requested rid (summary rid p s) = is_requested rid s"
    and raise_if_requested: "is_requested rid s \<Longrightarrow> \<exists>m. raise_if rid s = (Inl (PipelineCancelled m), s)"
    and raise_if_not: "\<not> is_requested rid s \<Longrightarrow> raise_if rid s = (Inr (), s)"
begin

abbreviation wired :: "'s callbacks \<Rightarrow> 's callbacks" where
  "wired \<equiv> with_store get mark set_state run_event pipeline_event summary raise_if is_requested reason"

lemmas status_laws = status_mark status_set_state status_run_event status_pipeline_event status_summary
lemmas requested_laws =
  requested_mark requested_set_state requested_run_event requested_pipeline_event requested_summary

lemma wired_fields [simp]:
  "cb_get_audit_run (wired cb) rid = sx_gets (get rid)"
  "cb_mark_status (wired cb) rid st = sx_modify (mark rid st)"
  "cb_set_state (wired cb) rid stage st err = sx_modify (set_state rid stage st err)"
  "cb_run_event (wired cb) rid t p = sx_modify (run_event rid t p)"
  "cb_pipeline_event (wired cb) rid t p = sx_modify (pipeline_event rid t p)"
  "cb_summary (wired cb) rid p = sx_modify (summary rid p)"
  "cb_raise_if_cancelled (wired cb) = raise_if"
  "cb_is_cancel_requested (wired cb) rid = sx_gets (is_requested rid)"
  "cb_cancel_reason (wired cb) rid = sx_gets (reason rid)"
  "cb_generate_report (wired cb) = cb_generate_report cb"
  "rt_cleanup_run (wired cb) = rt_cleanup_run cb"
  "cb_code_batch (wired cb) = cb_code_batch cb"
  "rt_start_agent_run (wired cb) = rt_start_agent_run cb"
  "stages_keep P (wired cb) rid = stages_keep P cb rid"
  "cleanup_keeps P (wired cb) rid = cleanup_keeps P cb rid"
  by (simp_all add: with_store_def stages_keep_def cleanup_keeps_def)

lemma sx_wp_raise_if:
  "(is_requested rid s \<Longrightarrow> \<forall>m. E (PipelineCancelled m) s) \<Longrightarrow> (\<not> is_requested rid s \<Longrightarrow> Q () s)
    \<Longrightarrow> sx_wp (raise_if rid) Q E s"
  by (cases "is_requested rid s") (auto simp: sx_wp_def raise_if_not dest!: raise_if_requested)

lemma keeps_raise_if: "keeps P (raise_if rid)"
  by (simp add: keeps_wp) (auto intro: sx_wp_raise_if)

text \<open>What the bookkeeping of the store keeps: any fact about the run's status and request.\<close>

lemma store_keeps_fact:
  assumes "\<And>s t. status rid s = status rid t \<Longrightarrow> is_requested rid s = is_requested rid t \<Longrightarrow> P s = P t"
  shows "store_keeps P (wired cb) rid"
proof -
  have "P (f s) = P s" if "status rid (f s) = status rid s" "is_requested rid (f s) = is_requested rid s" for f s
    using assms that by blast
  then show ?thesis
    by (simp add: store_keeps_def keeps_raise_if) (auto intro!: keeps_modify simp: status_laws requested_laws)
qed

lemma store_keeps_alive: "store_keeps (\<lambda>s. status rid s \<noteq> None) (wired cb) rid"
  by (rule store_keeps_fact) simp

lemma store_keeps_unrequested: "store_keeps (\<lambda>s. \<not> is_requested rid s) (wired cb) rid"
  by (rule store_keeps_fact) simp

abbreviation ready :: "bool \<Rightarrow> string \<Rightarrow> 's \<Rightarrow> bool" where
  "ready \<equiv> run_ready status is_requested"

lemma store_keeps_ready: "store_keeps (ready c rid) (wired cb) rid"
  by (rule store_keeps_fact) (simp add: run_ready_def)

lemma wp_poll:
  "on_state (ready False rid) W st \<Longrightarrow>
   sx_wp (poll_cancel (wired cb) rid) (\<lambda>_. on_state (ready c rid) W) (\<lambda>_. on_state (ready False rid) W) st"
  by (cases st) (auto simp: poll_cancel_def run_ready_def intro!: sx_wp_raise_if)

lemma ready_weaken: "on_state (ready c rid) W st \<Longrightarrow> on_state (ready False rid) W st"
  by (cases st) (simp add: run_ready_def)

lemma wp_stage_feedback:
  assumes "grows W" and "stages_keep (ready False rid) (wired cb) rid" and "on_state (ready False rid) W st"
  shows "sx_wp (stage_feedback (wired cb) rid w run v)
    (\<lambda>_. on_state (ready c rid) W) (\<lambda>_. on_state (ready False rid) W) st"
  unfolding stage_feedback_def
  by (intro wp_do_keeps wp_bind_keeps wp_poll keeps_intros assms store_keeps_ready)

lemma wp_skip_stage:
  assumes "grows W" and "on_state (ready c rid) W st"
  shows "sx_wp (skip_stage (wired cb) rid n r)
    (\<lambda>_. on_state (ready c rid) W) (\<lambda>_. on_state (ready False rid) W) st"
  by (rule keeps_wpI [where P = "on_state (ready c rid) W"])
     (auto intro: assms keeps_skip store_keeps_ready ready_weaken)

lemma wp_stage_poc_writing:
  assumes "grows W" and "stages_keep (ready False rid) (wired cb) rid" and "on_state (ready c rid) W st"
  shows "sx_wp (stage_poc_writing (wired cb) rid run)
    (\<lambda>_. on_state (ready c rid) W) (\<lambda>_. on_state (ready False rid) W) st"
proof (cases "poc_writing_enabled run")
  case True
  show ?thesis
    by (simp only: stage_poc_writing_def True not_True_eq_False if_False)
       (intro wp_do_keeps wp_bind_keeps wp_poll keeps_intros assms(1,2) store_keeps_ready ready_weaken [OF assms(3)])
next
  case False
  then show ?thesis
    by (simp only: stage_poc_writing_def not_False_eq_True if_True wp_skip_stage [OF assms(1,3)])
qed

lemma wp_stage_poc_verification:
  assumes "grows W" and "stages_keep (ready False rid) (wired cb) rid" and "on_state (ready c rid) W st"
  shows "sx_wp (stage_poc_verification (wired cb) rid run)
    (\<lambda>_. on_state (ready c rid) W) (\<lambda>_. on_state (ready False rid) W) st"
proof (cases "poc_verification_enabled run")
  case True
  show ?thesis
    by (simp only: stage_poc_verification_def True not_True_eq_False if_False)
       (intro wp_do_keeps wp_bind_keeps wp_poll keeps_intros assms(1,2) store_keeps_ready ready_weaken [OF assms(3)])
next
  case False
  then show ?thesis
    by (simp only: stage_poc_verification_def not_False_eq_True if_True wp_skip_stage [OF assms(1,3)])
qed

text \<open>What the runtime's own cleanup must not touch: the final status, and with \<open>c\<close> the request.\<close>

abbreviation cleanup_ok :: "bool \<Rightarrow> 's callbacks \<Rightarrow> string \<Rightarrow> bool" where
  "cleanup_ok c cb rid \<equiv> (\<forall>x. cleanup_keeps (\<lambda>s. status rid s = Some x \<and> ready c rid s) cb rid)"

text \<open>Nothing in the cleanup can raise, and the final status survives it.\<close>

lemma wp_cleanup:
  assumes "cleanup_ok c cb rid" and "status rid s = Some x" and "ready c rid s"
  shows "sx_wp (cleanup_terminal_runtime (wired cb) rid st run)
    (\<lambda>_ t. status rid t = Some x \<and> ready c rid t) (\<lambda>_ _. False) s"
proof -
  have "keeps (\<lambda>s. status rid s = Some x \<and> ready c rid s) (cleanup_terminal_runtime (wired cb) rid st run)"
    using assms(1) by (intro keeps_cleanup store_keeps_fact) (auto simp: run_ready_def)
  then have "sx_wp (cleanup_terminal_runtime (wired cb) rid st run)
      (\<lambda>_ t. status rid t = Some x \<and> ready c rid t) (\<lambda>_ t. True) s"
    using assms(2,3) by (auto elim: keeps_wpI)
  moreover have "sx_wp (cleanup_terminal_runtime (wired cb) rid st run) (\<lambda>_ _. True) (\<lambda>_ _. False) s"
    by (auto simp: cleanup_terminal_runtime_def sx_wp_def sx_bind_def sx_attempt_def sx_modify_def
        split: option.split prod.splits sum.splits)
  ultimately show ?thesis by (rule sx_wp_mono [OF sx_wp_conj]) simp_all
qed

text \<open>A run that got through: its status is the one the quality check of its steps says.\<close>

definition finished :: "bool \<Rightarrow> string \<Rightarrow> (pyval list \<Rightarrow> bool) \<Rightarrow> 's \<times> pyval list \<Rightarrow> bool" where
  "finished c rid W = (\<lambda>(t, steps).
     W steps \<and> ready c rid t \<and>
     (\<exists>j r q. result_quality steps j r = Inr q \<and> status rid t = Some (final_status_of q)))"

lemma ready_laws:
  "ready c rid (mark rid st s) = ready c rid s"
  "ready c rid (set_state rid stage st err s) = ready c rid s"
  "ready c rid (run_event rid t p s) = ready c rid s"
  "ready c rid (summary rid p s) = ready c rid s"
  "ready c rid (pipeline_event rid t p s) = ready c rid s"
  by (simp_all add: run_ready_def status_laws requested_laws)

lemma wp_finish_completed:
  assumes "cleanup_ok c cb rid" and "on_state (ready c rid) W (s, steps)"
  shows "sx_wp (finish_completed (wired cb) rid run j r)
    (\<lambda>_. finished c rid W) (\<lambda>_. on_state (ready False rid) W) (s, steps)"
proof (cases "result_quality steps j r")
  case (Inl e)
  then show ?thesis
    using ready_weaken [OF assms(2)] by (simp add: finish_completed_def sx_wp_lift)
next
  case (Inr q)
  let ?P = "\<lambda>t. status rid t = Some (final_status_of q) \<and> ready c rid t"
  have cleanup: "sx_wp (cleanup_terminal_runtime (wired cb) rid st run)
      (\<lambda>_ t. finished c rid W (t, steps)) (\<lambda>_ t. on_state (ready False rid) W (t, steps)) t"
    if "?P t" for st t
    using that assms(2) Inr
    by (intro sx_wp_mono [OF wp_cleanup [OF assms(1), where x = "final_status_of q"]])
       (auto simp: finished_def run_ready_def)
  have "status rid s \<noteq> None" "ready c rid s" using assms(2) by (simp_all add: run_ready_def)
  then have "?P (run_event rid ev p (set_state rid stage st err (mark rid (final_status_of q) (summary rid sm s))))"
    for ev p stage st err sm
    by (auto simp: status_laws ready_laws)
  then show ?thesis
    by (simp only: finish_completed_def Let_def sx_wp_bind sx_wp_do sx_wp_gets sx_wp_lift sx_wp_on_world
        sx_wp_modify wired_fields snd_conv Inr sum.case) (rule cleanup)
qed

lemma wp_later_stages:
  assumes W: "grows W" and stages: "stages_keep (ready False rid) (wired cb) rid"
    and report: "keeps (ready c rid) (cb_generate_report cb rid)" and cleanup: "cleanup_ok c cb rid"
    and st: "on_state (ready False rid) W st"
  shows "sx_wp (later_stages (wired cb) rid w n run)
    (\<lambda>_. finished c rid W) (\<lambda>_. on_state (ready False rid) W) st"
proof -
  have report': "sx_wp (stage_report (wired cb) rid)
      (\<lambda>_. on_state (ready c rid) W) (\<lambda>_. on_state (ready False rid) W) st'"
    if "on_state (ready c rid) W st'" for st'
    using keeps_stage_report [OF W store_keeps_ready, of c rid cb] report that
    by (auto elim!: keeps_wpI intro: ready_weaken)
  have legacy: "sx_wp (stage_legacy_notes (wired cb) rid run)
      (\<lambda>_. on_state (ready c rid) W) (\<lambda>_. on_state (ready False rid) W) st'"
    if "on_state (ready c rid) W st'" for st'
    using keeps_stage_legacy_notes [OF store_keeps_ready, of c rid W cb run] that
    by (auto elim!: keeps_wpI intro: ready_weaken)
  have tail: "sx_wp (sx_do (stage_feedback (wired cb) rid w run v) (sx_do (stage_legacy_notes (wired cb) rid run)
      (sx_do (stage_poc_writing (wired cb) rid run) (sx_do (stage_poc_verification (wired cb) rid run)
      (sx_bind (stage_report (wired cb) rid) (\<lambda>r. finish_completed (wired cb) rid run j r))))))
    (\<lambda>_. finished c rid W) (\<lambda>_. on_state (ready False rid) W) st'"
    if "on_state (ready False rid) W st'" for st' v j
    unfolding sx_wp_do sx_wp_bind
    by (rule sx_wp_mono [OF wp_stage_feedback [OF W stages that, of w run v c]], rule sx_wp_mono [OF legacy], assumption,
        rule sx_wp_mono [OF wp_stage_poc_writing [OF W stages, of c]], assumption,
        rule sx_wp_mono [OF wp_stage_poc_verification [OF W stages, of c]], assumption,
        rule sx_wp_mono [OF report'], assumption)
       (auto intro: wp_finish_completed [OF cleanup])
  show ?thesis
    unfolding later_stages_def
    by (intro wp_do_keeps wp_bind_keeps keeps_intros W stages st store_keeps_ready)
       (auto intro: tail)
qed

lemma wp_run_stages:
  assumes W: "grows W" and stages: "stages_keep (ready False rid) (wired cb) rid"
    and report: "keeps (ready c rid) (cb_generate_report cb rid)" and cleanup: "cleanup_ok c cb rid"
    and code: "\<And>st run'. same_run run run' \<Longrightarrow> on_state (ready False rid) (\<lambda>_. True) st \<Longrightarrow>
      sx_wp (stage_code_analysis (wired cb) rid w run')
        (\<lambda>_. on_state (ready False rid) W) (\<lambda>_. on_state (ready False rid) (\<lambda>_. True)) st"
    and st: "on_state (ready False rid) (\<lambda>_. True) (s, steps)"
  shows "sx_wp (run_stages (wired cb) rid w run)
    (\<lambda>_. finished c rid W) (\<lambda>_. on_state (ready False rid) (\<lambda>_. True)) (s, steps)"
proof -
  let ?I = "on_state (ready False rid) (\<lambda>_. True)"
  have discovery: "sx_wp (stage_structure (wired cb) rid w run)
      (\<lambda>run' st. same_run run run' \<and> ?I st) (\<lambda>_. ?I) st'" if "?I st'" for st'
  proof (cases st')
    case (Pair u us)
    then show ?thesis
      using stage_structure_same_run [OF store_keeps_ready stages grows_True, where s = u] that by simp
  qed
  have later: "sx_wp (later_stages (wired cb) rid w n run') (\<lambda>_. finished c rid W) (\<lambda>_. ?I) st'"
    if "on_state (ready False rid) W st'" for st' n run'
    by (rule sx_wp_mono [OF wp_later_stages [OF W stages report cleanup that]]) (auto simp: on_state_def)
  have analysed: "sx_wp (sx_do (stage_code_analysis (wired cb) rid w run') (later_stages (wired cb) rid w n run'))
      (\<lambda>_. finished c rid W) (\<lambda>_. ?I) st'" if "same_run run run'" "?I st'" for n run' st'
    unfolding sx_wp_do by (rule sx_wp_mono [OF code [OF that]]) (auto intro: later)
  have "sx_wp (sx_do (stage_agent_audit (wired cb) rid w n run')
        (sx_do (stage_code_analysis (wired cb) rid w run') (later_stages (wired cb) rid w n run')))
      (\<lambda>_. finished c rid W) (\<lambda>_. ?I) st'" if "same_run run run'" "?I st'" for n run' st'
    by (intro wp_do_keeps keeps_intros grows_True store_keeps_ready stages that analysed)
  then show ?thesis
    unfolding run_stages_def Let_def sx_wp_do sx_wp_bind
    by (intro sx_wp_mono [OF wp_poll [OF st]] sx_wp_mono [OF discovery]) auto
qed

lemma wp_code_analysis_keeps:
  assumes "stages_keep (ready False rid) (wired cb) rid" and "on_state (ready False rid) (\<lambda>_. True) st"
  shows "sx_wp (stage_code_analysis (wired cb) rid w run)
    (\<lambda>_. on_state (ready False rid) (\<lambda>_. True)) (\<lambda>_. on_state (ready False rid) (\<lambda>_. True)) st"
  using keeps_stage_code_analysis [OF grows_True store_keeps_ready assms(1)] assms(2) unfolding keeps_wp by blast

section \<open>Ends of a run\<close>

text \<open>
  How an execution ends: cancelled, failed or finished; unless it is cancelled, \<open>ready c\<close> still
  holds.
\<close>

definition ended :: "bool \<Rightarrow> string \<Rightarrow> (pyval list \<Rightarrow> bool) \<Rightarrow> 's \<Rightarrow> bool" where
  "ended c rid W t \<longleftrightarrow>
     status rid t = Some ''cancelled'' \<or>
     ready c rid t \<and> (status rid t = Some ''failed'' \<or> (\<exists>steps. finished c rid W (t, steps)))"

lemma wp_on_cancelled:
  assumes "cleanup_ok False cb rid" and "ready False rid s"
  shows "sx_wp (on_cancelled (wired cb) rid run e steps) (\<lambda>_ t. status rid t = Some ''cancelled'') (\<lambda>_ _. False) s"
  unfolding on_cancelled_def
  by (simp del: not_None_eq, rule sx_wp_mono [OF wp_cleanup [OF assms(1), where x = "''cancelled''"]])
     (use assms(2) in \<open>auto simp: status_laws ready_laws run_ready_def\<close>)

lemma wp_on_error:
  assumes "cleanup_ok False cb rid" and "cleanup_ok True cb rid" and "ready False rid s"
  shows "sx_wp (on_error (wired cb) rid run e steps)
    (\<lambda>_ t. status rid t = Some ''cancelled'' \<or> status rid t = Some ''failed'' \<and> ready True rid t) (\<lambda>_ _. False) s"
proof (cases "is_requested rid s")
  case True
  then show ?thesis
    using assms(3)
    by (simp add: on_error_def, intro sx_wp_mono [OF wp_cleanup [OF assms(1), where x = "''cancelled''"]])
       (auto simp: status_laws ready_laws run_ready_def)
next
  case False
  then show ?thesis
    using assms(3)
    by (simp add: on_error_def, intro sx_wp_mono [OF wp_cleanup [OF assms(2), where x = "''failed''"]])
       (auto simp: status_laws requested_laws run_ready_def)
qed

lemma wp_handle_exception:
  assumes "\<And>c. cleanup_ok c cb rid" and "ready False rid s"
  shows "sx_wp (handle_exception (wired cb) rid run e steps)
    (\<lambda>_ t. status rid t = Some ''cancelled'' \<or> status rid t = Some ''failed'' \<and> ready True rid t) (\<lambda>_ _. False) s"
proof -
  have "sx_wp (on_cancelled (wired cb) rid run e steps)
    (\<lambda>_ t. status rid t = Some ''cancelled'' \<or> status rid t = Some ''failed'' \<and> ready True rid t) (\<lambda>_ _. False) s"
    by (rule sx_wp_mono [OF wp_on_cancelled [OF assms]]) auto
  then show ?thesis
    using wp_on_error [OF assms(1,1,2), of run e steps] by (cases e) (simp_all add: handle_exception_def)
qed

lemma wp_handlers:
  "sx_wp (run_stages cb rid w run) (\<lambda>u st. Q u (fst st))
     (\<lambda>e st. sx_wp (handle_exception cb rid run e (snd st)) Q E (fst st)) (s, []) \<Longrightarrow>
   sx_wp (\<lambda>s. case run_stages cb rid w run (s, []) of
              (Inr u, (t, steps)) \<Rightarrow> (Inr u, t)
            | (Inl exc, (t, steps)) \<Rightarrow> handle_exception cb rid run exc steps t) Q E s"
  by (auto simp: sx_wp_def split: prod.splits sum.splits)

lemma finished_ended: "finished c rid W st \<Longrightarrow> ended c rid W (fst st)"
  by (cases st) (unfold ended_def finished_def, auto)

lemma wp_execute_with_workspace:
  assumes "grows W" and "stages_keep (ready False rid) (wired cb) rid"
    and "keeps (ready c rid) (cb_generate_report cb rid)" and "\<And>c. cleanup_ok c cb rid"
    and "\<And>st run'. same_run run run' \<Longrightarrow> on_state (ready False rid) (\<lambda>_. True) st \<Longrightarrow>
      sx_wp (stage_code_analysis (wired cb) rid w run')
        (\<lambda>_. on_state (ready False rid) W) (\<lambda>_. on_state (ready False rid) (\<lambda>_. True)) st"
    and "ready False rid s"
  shows "sx_wp (execute_with_workspace (wired cb) rid w run) (\<lambda>_. ended c rid W) (\<lambda>_ _. False) s"
proof -
  have ready: "on_state (ready False rid) (\<lambda>_. True) (run_event rid t p (mark rid x s), [])" for t p x
    using assms(6) by (simp add: ready_laws)
  have handled: "sx_wp (handle_exception (wired cb) rid run e steps) (\<lambda>_. ended c rid W) (\<lambda>_ _. False) t"
    if "ready False rid t" for t e steps
    by (rule sx_wp_mono [OF wp_handle_exception [OF assms(4) that]]) (auto simp: ended_def run_ready_def)
  show ?thesis
    unfolding execute_with_workspace_def sx_wp_do wired_fields sx_wp_modify
    by (rule wp_handlers, rule sx_wp_mono [OF wp_run_stages [OF assms(1-3) assms(4) assms(5) ready]])
       (auto simp: on_state_def intro: finished_ended handled)
qed

lemma wp_execute_without_workspace:
  assumes "\<And>c. cleanup_ok c cb rid" and "ready c rid s"
  shows "sx_wp (execute_without_workspace (wired cb) rid run)
    (\<lambda>_ t. status rid t = Some ''failed'' \<and> ready c rid t) (\<lambda>_ _. False) s"
  using assms(2)
  by (simp add: execute_without_workspace_def, intro wp_cleanup [OF assms(1)])
     (auto simp: status_laws ready_laws run_ready_def requested_laws)

lemma execute_eq:
  assumes "get rid s = Some run"
  shows "execute (wired cb) rid s =
    (if has_workspace run then execute_with_workspace (wired cb) rid (workspace_of run) run s
     else execute_without_workspace (wired cb) rid run s)"
proof -
  obtain c where "dlookup run ''config'' = Some (PDict c)" using get_config [OF assms] by blast
  then show ?thesis
    using assms
    by (auto simp: execute_def sx_bind_def sx_gets_def sx_lift_def dget_or_def has_workspace_def workspace_of_def
        run_cfg_def dget_def)
qed

text \<open>Whatever the runtime does, the execution returns and the run's status is terminal.\<close>

lemma ends_terminal:
  assumes "get rid s = Some run"
    and "stages_keep (\<lambda>s. status rid s \<noteq> None) cb rid"
    and "keeps (\<lambda>s. status rid s \<noteq> None) (cb_generate_report cb rid)"
    and "\<And>c. cleanup_ok c cb rid"
  shows "\<exists>t x. execute (wired cb) rid s = (Inr (), t) \<and> status rid t = Some x \<and> x \<in> terminal_statuses"
proof -
  have R: "ready False rid = (\<lambda>s. status rid s \<noteq> None)" by (rule ext) (simp add: run_ready_def)
  have s: "ready False rid s" using get_status [OF assms(1)] by (simp add: run_ready_def)
  have stages: "stages_keep (ready False rid) (wired cb) rid" using assms(2) by (simp only: R wired_fields)
  have report: "keeps (ready False rid) (cb_generate_report cb rid)" using assms(3) by (simp only: R)
  have W: "sx_wp (execute_with_workspace (wired cb) rid w run) (\<lambda>_. ended False rid (\<lambda>_. True)) (\<lambda>_ _. False) s" for w
    by (rule wp_execute_with_workspace [OF grows_True stages report assms(4) _ s])
       (rule wp_code_analysis_keeps [OF stages])
  have "sx_wp (execute (wired cb) rid)
    (\<lambda>_ t. \<exists>x. status rid t = Some x \<and> x \<in> terminal_statuses) (\<lambda>_ _. False) s"
  proof (cases "has_workspace run")
    case True
    have "sx_wp (execute_with_workspace (wired cb) rid (workspace_of run) run)
      (\<lambda>_ t. \<exists>x. status rid t = Some x \<and> x \<in> terminal_statuses) (\<lambda>_ _. False) s"
      by (rule sx_wp_mono [OF W])
         (auto simp: ended_def finished_def terminal_statuses_def final_status_of_def split: if_splits)
    then show ?thesis by (simp add: sx_wp_def execute_eq [OF assms(1)] True)
  next
    case False
    have "sx_wp (execute_without_workspace (wired cb) rid run)
      (\<lambda>_ t. \<exists>x. status rid t = Some x \<and> x \<in> terminal_statuses) (\<lambda>_ _. False) s"
      by (rule sx_wp_mono [OF wp_execute_without_workspace [OF assms(4) s]]) (auto simp: terminal_statuses_def)
    then show ?thesis by (simp add: sx_wp_def execute_eq [OF assms(1)] False)
  qed
  then show ?thesis by (auto simp: sx_wp_def split: prod.splits sum.splits)
qed

text \<open>
  A cancellation that is on record at the end and that neither the report nor the cleanup
  brought in ends the run as cancelled: it was requested before the last poll, or it was found
  when an exception came up.
\<close>

lemma run_cancellation_wins:
  assumes "get rid s = Some run" and "has_workspace run"
    and "stages_keep (\<lambda>s. status rid s \<noteq> None) cb rid"
    and "keeps (ready True rid) (cb_generate_report cb rid)"
    and "\<And>c. cleanup_ok c cb rid"
    and "execute (wired cb) rid s = (Inr (), t)" and "is_requested rid t"
  shows "status rid t = Some ''cancelled''"
proof -
  have R: "ready False rid = (\<lambda>s. status rid s \<noteq> None)" by (rule ext) (simp add: run_ready_def)
  have s: "ready False rid s" using get_status [OF assms(1)] by (simp add: run_ready_def)
  have stages: "stages_keep (ready False rid) (wired cb) rid" using assms(3) by (simp only: R wired_fields)
  have "sx_wp (execute_with_workspace (wired cb) rid (workspace_of run) run)
      (\<lambda>_. ended True rid (\<lambda>_. True)) (\<lambda>_ _. False) s"
    by (rule wp_execute_with_workspace [OF grows_True stages assms(4,5) _ s])
       (rule wp_code_analysis_keeps [OF stages])
  then have "ended True rid (\<lambda>_. True) t"
    using assms(6) by (simp add: sx_wp_def execute_eq [OF assms(1)] assms(2))
  then show ?thesis using assms(7) by (simp add: ended_def run_ready_def)
qed

text \<open>A stage whose callback reports a failure cannot be passed over: the run has warnings.\<close>

lemma run_failed_analysis_shows:
  assumes "get rid s = Some run" and "has_workspace run" and "code_batch_analysis_enabled run"
    and "cb_code_batch cb = Some f"
    and fails: "\<And>p w r s. sx_wp (f rid p w r) (\<lambda>v _. \<exists>d. v = PDict d \<and> is_False d ''ok'') (\<lambda>_ _. True) s"
    and "stages_keep (\<lambda>s. status rid s \<noteq> None) cb rid"
    and "keeps (\<lambda>s. status rid s \<noteq> None) (cb_generate_report cb rid)"
    and "\<And>c. cleanup_ok c cb rid"
    and "execute (wired cb) rid s = (Inr (), t)"
  shows "status rid t \<noteq> Some ''completed''"
proof -
  have R: "ready False rid = (\<lambda>s. status rid s \<noteq> None)" by (rule ext) (simp add: run_ready_def)
  have s: "ready False rid s" using get_status [OF assms(1)] by (simp add: run_ready_def)
  have stages: "stages_keep (ready False rid) (wired cb) rid" using assms(6) by (simp only: R wired_fields)
  have report: "keeps (ready False rid) (cb_generate_report cb rid)" using assms(7) by (simp only: R)
  let ?I = "on_state (ready False rid) (\<lambda>_. True)"
  let ?F = "on_state (ready False rid) some_failed"
  have run_f: "keeps (ready False rid) (f rid p w r)" for p w r
    using stages assms(4) by (simp add: stages_keep_def)
  have code: "sx_wp (stage_code_analysis (wired cb) rid w run') (\<lambda>_. ?F) (\<lambda>_. ?I) (u, steps)"
    if "same_run run run'" "?I (u, steps)" for u steps run' w
  proof -
    have on: "code_batch_analysis_enabled run'" using assms(3) same_run_enabled [OF that(1)] by simp
    have poll: "sx_wp (poll_cancel (wired cb) rid) (\<lambda>_. ?F) (\<lambda>_. ?I) st" if "?F st" for st
      by (rule sx_wp_mono [OF wp_poll [where c = False]]) (use that in \<open>auto simp: on_state_def\<close>)
    have leave: "sx_wp (leave_stage (wired cb) rid ''code-analysis'' (PDict d)) (\<lambda>_. ?F) (\<lambda>_. ?I) (u', us)"
      if "ready False rid u'" "is_False d ''ok''" for d u' us
      using that by (auto simp: leave_stage_def ready_laws some_failed_def failed_step_def warning_steps_def)
    have call: "sx_wp (guarded (wired cb) rid ''code_analysis_failed''
          (sx_bind (sx_lift (dindex run' ''project_id'')) (\<lambda>project. f rid project w run')))
        (\<lambda>v u'. ready False rid u' \<and> (\<exists>d. v = PDict d \<and> is_False d ''ok'')) (\<lambda>_. ready False rid) u'"
      if "ready False rid u'" for u'
    proof -
      let ?Q = "\<lambda>v u'. ready False rid u' \<and> (\<exists>d. v = PDict d \<and> is_False d ''ok'')"
      have f: "sx_wp (f rid p w run') ?Q (\<lambda>_. ready False rid) u'" for p
      proof -
        have "sx_wp (f rid p w run') (\<lambda>_. ready False rid) (\<lambda>_. ready False rid) u'"
          using run_f that unfolding keeps_wp by blast
        then show ?thesis by (rule sx_wp_mono [OF sx_wp_conj [OF fails]]) auto
      qed
      have report: "sx_wp (sx_do (cb_pipeline_event (wired cb) rid ev (error_result e))
          (sx_ret (PDict (error_result e)))) ?Q (\<lambda>_. ready False rid) v" if "ready False rid v" for e v ev
        using that by (simp add: ready_laws error_result_def is_False_def)
      show ?thesis
        unfolding guarded_def sx_wp_try sx_wp_bind sx_wp_lift
        using that by (auto simp del: sx_wp_do wired_fields split: sum.split
            intro: report intro!: sx_wp_mono [OF f])
    qed
    show ?thesis
      using that(2) on
      by (simp add: stage_code_analysis_def assms(4) enter_stage_def)
         (rule sx_wp_mono [OF call], auto simp: ready_laws intro!: sx_wp_mono [OF leave] poll)
  qed
  have "sx_wp (execute_with_workspace (wired cb) rid (workspace_of run) run)
      (\<lambda>_. ended False rid some_failed) (\<lambda>_ _. False) s"
    by (rule wp_execute_with_workspace [OF grows_some_failed stages report assms(8) _ s]) (use code in auto)
  then have "ended False rid some_failed t"
    using assms(9) by (simp add: sx_wp_def execute_eq [OF assms(1)] assms(2))
  then show ?thesis by (auto simp: ended_def finished_def dest: failed_steps_warn)
qed

text \<open>A failed orchestrator agent ends the run as failed, or as cancelled when that was requested.\<close>

lemma wp_failed_orchestrator:
  assumes fails: "\<And>a s. sx_wp (rt_start_agent_run cb a) (\<lambda>r _. agent_run_failed r) (\<lambda>_ _. True) s"
    and stages: "stages_keep (ready False rid) (wired cb) rid"
    and enabled: "agent_audit_enabled run" and st: "on_state (ready False rid) (\<lambda>_. True) st"
  shows "sx_wp (stage_agent_audit (wired cb) rid w n run)
    (\<lambda>_ _. False) (\<lambda>_. on_state (ready False rid) (\<lambda>_. True)) st"
proof -
  let ?I = "on_state (ready False rid) (\<lambda>_. True)"
  have start: "sx_wp (on_world (rt_start_agent_run (wired cb) a)) (\<lambda>r st. agent_run_failed r \<and> ?I st) (\<lambda>_. ?I) st'"
    if "?I st'" for a st'
  proof -
    obtain u us where st': "st' = (u, us)" by (cases st')
    have "keeps (ready False rid) (rt_start_agent_run cb a)" using stages by (simp add: stages_keep_def)
    then have "sx_wp (rt_start_agent_run cb a) (\<lambda>_. ready False rid) (\<lambda>_. ready False rid) u"
      using that unfolding keeps_wp st' by simp
    then have "sx_wp (rt_start_agent_run cb a) (\<lambda>r u. agent_run_failed r \<and> ready False rid u) (\<lambda>_. ready False rid) u"
      by (rule sx_wp_mono [OF sx_wp_conj [OF fails]]) auto
    then show ?thesis by (simp add: st')
  qed
  have after: "sx_wp (sx_do (leave_stage (wired cb) rid ''agent-audit'' (PDict r))
        (if agent_run_failed r then sx_raise e else poll_cancel (wired cb) rid))
      (\<lambda>_ _. False) (\<lambda>_. ?I) st'" if "agent_run_failed r" "?I st'" for r e st'
    using that by (intro wp_do_keeps keeps_intros grows_True store_keeps_ready) simp_all
  show ?thesis
    by (simp only: stage_agent_audit_def enabled not_True_eq_False if_False)
       (intro wp_do_keeps wp_bind_keeps [OF keeps_lift] keeps_intros grows_True store_keeps_ready st,
        (assumption | (unfold sx_wp_bind, rule sx_wp_mono [OF start], assumption, elim conjE, rule after))+)
qed

lemma run_failed_orchestrator_fails:
  assumes "get rid s = Some run" and "has_workspace run" and "agent_audit_enabled run"
    and "\<And>a s. sx_wp (rt_start_agent_run cb a) (\<lambda>r _. agent_run_failed r) (\<lambda>_ _. True) s"
    and "stages_keep (\<lambda>s. status rid s \<noteq> None) cb rid"
    and "\<And>c. cleanup_ok c cb rid"
    and "execute (wired cb) rid s = (Inr (), t)"
  shows "status rid t = Some ''failed'' \<or> status rid t = Some ''cancelled''"
proof -
  have R: "ready False rid = (\<lambda>s. status rid s \<noteq> None)" by (rule ext) (simp add: run_ready_def)
  have s: "ready False rid s" using get_status [OF assms(1)] by (simp add: run_ready_def)
  have stages: "stages_keep (ready False rid) (wired cb) rid" using assms(5) by (simp only: R wired_fields)
  let ?I = "on_state (ready False rid) (\<lambda>_. True)"
  have body: "sx_wp (run_stages (wired cb) rid w run) (\<lambda>_ _. False) (\<lambda>_. ?I) (u, steps)"
    if "ready False rid u" for u steps w
  proof -
    have audit: "sx_wp (stage_agent_audit (wired cb) rid w n run') (\<lambda>_ _. False) (\<lambda>_. ?I) st'"
      if "same_run run run'" "?I st'" for n run' st'
      by (rule wp_failed_orchestrator [OF assms(4) stages]) (use that assms(3) same_run_enabled in auto)
    have discovery: "sx_wp (stage_structure (wired cb) rid w run)
        (\<lambda>run' st. same_run run run' \<and> ?I st) (\<lambda>_. ?I) st'" if "?I st'" for st'
      using stage_structure_same_run [OF store_keeps_ready stages grows_True, where s = "fst st'" and steps = "snd st'"]
        that by (cases st') simp
    show ?thesis
      unfolding run_stages_def Let_def sx_wp_do sx_wp_bind
      by (intro sx_wp_mono [OF wp_poll [where c = False]] sx_wp_mono [OF discovery] sx_wp_mono [OF audit])
         (use that in auto)
  qed
  have "sx_wp (execute_with_workspace (wired cb) rid (workspace_of run) run)
      (\<lambda>_ t. status rid t = Some ''failed'' \<or> status rid t = Some ''cancelled'') (\<lambda>_ _. False) s"
  proof -
    have handled: "sx_wp (handle_exception (wired cb) rid run e steps)
        (\<lambda>_ t. status rid t = Some ''failed'' \<or> status rid t = Some ''cancelled'') (\<lambda>_ _. False) u"
      if "ready False rid u" for u e steps
      by (rule sx_wp_mono [OF wp_handle_exception [OF assms(6) that]]) auto
    show ?thesis
      unfolding execute_with_workspace_def sx_wp_do wired_fields sx_wp_modify
      by (rule wp_handlers, rule sx_wp_mono [OF body]) (use s in \<open>auto simp: ready_laws on_state_def intro: handled\<close>)
  qed
  then show ?thesis using assms(7) by (simp add: sx_wp_def execute_eq [OF assms(1)] assms(2))
qed

text \<open>A run that is already to be cancelled starts no stage at all.\<close>

lemma run_cancelled_before_start:
  assumes "get rid s = Some run" and "has_workspace run" and "is_requested rid s"
  shows "\<exists>m. execute (wired cb) rid s =
    on_cancelled (wired cb) rid run (PipelineCancelled m) []
      (run_event rid ''pipeline_started'' [(''stage'', PStr ''structure-discovery'')] (mark rid ''running'' s))"
proof -
  let ?s = "run_event rid ''pipeline_started'' [(''stage'', PStr ''structure-discovery'')] (mark rid ''running'' s)"
  obtain m where m: "raise_if rid ?s = (Inl (PipelineCancelled m), ?s)"
    using raise_if_requested assms(3) by (metis requested_run_event requested_mark)
  have "execute (wired cb) rid s = on_cancelled (wired cb) rid run (PipelineCancelled m) [] ?s"
    by (simp add: execute_eq [OF assms(1)] assms(2) execute_with_workspace_def sx_do_def sx_bind_def sx_modify_def
        run_stages_def Let_def poll_cancel_def on_world_def m handle_exception_def)
  then show ?thesis by (rule exI [of _ m])
qed

lemma all_keep_requested:
  assumes "stages_keep (is_requested rid) cb rid" and "cleanup_keeps (is_requested rid) cb rid"
    and "keeps (is_requested rid) (cb_generate_report cb rid)"
  shows "all_keep (is_requested rid) (wired cb) rid"
  using assms store_keeps_fact [of rid "is_requested rid"]
  by (auto simp: all_keep_def requested_laws intro: keeps_gets intro!: keeps_modify)

text \<open>
  A runtime to be retained: \<open>Q\<close>, which everything but the cleanup keeps, still holds of a run
  that ended as failed.
\<close>

lemma wp_finish_retained:
  assumes store: "store_keeps Q (wired cb) rid" and alive: "\<And>s. Q s \<Longrightarrow> status rid s \<noteq> None"
    and cleanup: "cleanup_ok False cb rid" and st: "on_state Q (\<lambda>_. True) st"
  shows "sx_wp (finish_completed (wired cb) rid run j r)
    (\<lambda>_ st. status rid (fst st) \<noteq> Some ''failed'') (\<lambda>_. on_state Q (\<lambda>_. True)) st"
proof -
  obtain s steps where s: "st = (s, steps)" by (cases st)
  have ready: "on_state (ready False rid) (\<lambda>_. True) (s, steps)" using st alive by (auto simp: run_ready_def s)
  show ?thesis
  proof (cases "result_quality steps j r")
    case (Inl e)
    then show ?thesis using st by (simp add: finish_completed_def sx_wp_lift s)
  next
    case (Inr q)
    have clean: "sx_wp (cleanup_terminal_runtime (wired cb) rid x run)
        (\<lambda>_ t. status rid t \<noteq> Some ''failed'') (\<lambda>_ _. False)
        (run_event rid ev p (set_state rid stage x' err (mark rid (final_status_of q) (summary rid sm s))))"
      for x x' ev p stage err sm
      by (rule sx_wp_mono [OF wp_cleanup [OF cleanup, where x = "final_status_of q"]])
         (use ready in \<open>auto simp: status_laws ready_laws run_ready_def final_status_of_def\<close>)
    show ?thesis
      by (simp only: finish_completed_def Let_def sx_wp_bind sx_wp_do sx_wp_gets sx_wp_lift sx_wp_on_world
          sx_wp_modify wired_fields snd_conv fst_conv Inr sum.case s)
        (rule sx_wp_mono [OF clean], simp_all)
  qed
qed

lemma retained_on_failure:
  assumes "get rid s = Some run" and retain: "truthy (dget run ''retain_runtime_on_failure'')"
    and store: "store_keeps Q (wired cb) rid" and mark: "\<And>st s. Q s \<Longrightarrow> Q (mark rid st s)"
    and stages: "stages_keep Q (wired cb) rid" and report: "keeps Q (cb_generate_report (wired cb) rid)"
    and alive: "\<And>s. Q s \<Longrightarrow> status rid s \<noteq> None" and cleanup: "\<And>c. cleanup_ok c cb rid"
    and "Q s" and run: "execute (wired cb) rid s = (Inr (), t)" and failed: "status rid t = Some ''failed''"
  shows "Q t"
proof -
  let ?I = "on_state Q (\<lambda>_. True)"
  let ?R = "\<lambda>(_::unit) t. status rid t = Some ''failed'' \<longrightarrow> Q t"
  have step: "Q (pipeline_event rid ev p v)" "Q (run_event rid ev p v)" "Q (set_state rid stage st err v)"
    if "Q v" for ev p v stage st err
    using store that by (auto simp: store_keeps_def keeps_wp)
  have finish: "sx_wp (finish_completed (wired cb) rid run' j r)
      (\<lambda>_ st. status rid (fst st) \<noteq> Some ''failed'') (\<lambda>_. ?I) st" if "?I st" for run' j r st
    by (rule wp_finish_retained [OF store alive cleanup that])
  have body: "sx_wp (run_stages (wired cb) rid w run)
      (\<lambda>_ st. status rid (fst st) \<noteq> Some ''failed'') (\<lambda>_. ?I) (u, [])" if "Q u" for w u
    unfolding run_stages_def later_stages_def Let_def case_prod_unfold
    by (intro wp_do_keeps wp_bind_keeps keeps_intros grows_True store stages report finish)
       (use that in simp_all)
  have handled: "sx_wp (handle_exception (wired cb) rid run e steps) ?R (\<lambda>_ _. False) u" if "Q u" for e steps u
  proof -
    have u: "ready False rid u" using alive that by (simp add: run_ready_def)
    have cancel: "sx_wp (on_cancelled (wired cb) rid run e steps) ?R (\<lambda>_ _. False) u"
      by (rule sx_wp_mono [OF wp_on_cancelled [OF cleanup u]]) auto
    have error: "sx_wp (on_error (wired cb) rid run e steps) ?R (\<lambda>_ _. False) u"
    proof (cases "is_requested rid u")
      case True
      then show ?thesis
        using u by (simp add: on_error_def, intro sx_wp_mono [OF wp_cleanup [OF cleanup, where x = "''cancelled''" and c = False]])
          (auto simp: status_laws ready_laws run_ready_def)
    next
      case False
      then show ?thesis
        using that by (simp add: on_error_def cleanup_terminal_runtime_def retain step mark)
    qed
    show ?thesis using cancel error by (cases e) (simp_all add: handle_exception_def)
  qed
  have "sx_wp (execute_with_workspace (wired cb) rid (workspace_of run) run) ?R (\<lambda>_ _. False) s"
    unfolding execute_with_workspace_def sx_wp_do wired_fields sx_wp_modify
  proof (rule wp_handlers, rule sx_wp_mono [OF body])
    show "Q (run_event rid ''pipeline_started'' [(''stage'', PStr ''structure-discovery'')] (mark rid ''running'' s))"
      by (simp add: step mark \<open>Q s\<close>)
  qed (auto simp: on_state_def intro: handled)
  moreover have "sx_wp (execute_without_workspace (wired cb) rid run) ?R (\<lambda>_ _. False) s"
    using \<open>Q s\<close> by (simp add: execute_without_workspace_def cleanup_terminal_runtime_def retain step mark)
  ultimately show ?thesis
    using run failed by (cases "has_workspace run") (simp_all add: sx_wp_def execute_eq [OF assms(1)])
qed

end

end
