(* ===== verification/Executor_Platform.thy ===== *)
theory Executor_Platform
  imports Executor_Store
begin

text \<open>
  The executor on the platform's database: \<open>build_pipeline_executor\<close> hands the database
  operations of \<open>Run_Store\<close> to the executor, and these satisfy the laws of \<open>run_store\<close>. The
  theorems here are the executor's promises over that store, for every behaviour of the agents,
  tools and report generation that is left to the remaining callbacks.
\<close>

text \<open>The agents' and tools' part is in \<open>cb\<close>.\<close>

definition build_pipeline_executor :: "db callbacks \<Rightarrow> db callbacks" where
  "build_pipeline_executor cb =
     with_store (\<lambda>rid d. get_audit_run d rid) mark_audit_run_status set_pipeline_state record_audit_run_event
       record_pipeline_event record_pipeline_summary raise_if_cancelled is_cancel_requested cancel_reason
       (cb\<lparr>cb_compact := compact_event_payload\<rparr>)"

lemma run_control_simps [simp]:
  "run_control (mark_audit_run_status rid st d) rid = run_control d rid"
  "run_control (set_pipeline_state rid stage st err d) rid = run_control d rid"
  "run_control (record_audit_run_event rid t p d) rid = run_control d rid"
  "run_control (record_pipeline_event rid t p d) rid = run_control d rid"
  "run_control (record_pipeline_summary rid sm d) rid = run_control d rid"
  by (auto simp: run_control_def mark_audit_run_status_def set_pipeline_state_def record_pipeline_summary_def
      Let_def find_run_write_same config_part_def split: option.splits)

lemma is_cancel_requested_simps [simp]:
  "is_cancel_requested rid (mark_audit_run_status rid st d) = is_cancel_requested rid d"
  "is_cancel_requested rid (set_pipeline_state rid stage st err d) = is_cancel_requested rid d"
  "is_cancel_requested rid (record_audit_run_event rid t p d) = is_cancel_requested rid d"
  "is_cancel_requested rid (record_pipeline_event rid t p d) = is_cancel_requested rid d"
  "is_cancel_requested rid (record_pipeline_summary rid sm d) = is_cancel_requested rid d"
  by (simp_all add: is_cancel_requested_def)

lemma get_audit_run_Some:
  assumes "get_audit_run d rid = Some run"
  shows "run_status d rid \<noteq> None" and "\<exists>c. dlookup run ''config'' = Some (PDict c)"
  using assms by (auto simp: get_audit_run_def run_status_def audit_run_to_dict_def)

interpretation platform: run_store
  "\<lambda>rid d. get_audit_run d rid" mark_audit_run_status set_pipeline_state record_audit_run_event
  record_pipeline_event record_pipeline_summary raise_if_cancelled is_cancel_requested cancel_reason
  "\<lambda>rid d. run_status d rid"
  by unfold_locales (auto dest: get_audit_run_Some simp: raise_if_cancelled_def simp del: not_None_eq)

section \<open>What the runtime may do\<close>

text \<open>
  The agents and tools may change the database as they like, as long as they leave the run's
  row in place; the cleanup of containers and networks touches neither the final status of the
  run nor a request to cancel it.
\<close>

definition runtime_keeps_run :: "db callbacks \<Rightarrow> string \<Rightarrow> bool" where
  "runtime_keeps_run cb rid \<longleftrightarrow>
     stages_keep (\<lambda>d. run_status d rid \<noteq> None) cb rid \<and>
     keeps (\<lambda>d. run_status d rid \<noteq> None) (cb_generate_report cb rid) \<and>
     (\<forall>x c. cleanup_keeps (\<lambda>d. run_status d rid = Some x \<and> (c \<longrightarrow> \<not> is_cancel_requested rid d)) cb rid)"

lemma runtime_keeps_runD:
  assumes "runtime_keeps_run cb rid"
  shows "stages_keep (\<lambda>d. run_status d rid \<noteq> None) (cb\<lparr>cb_compact := f\<rparr>) rid"
    and "keeps (\<lambda>d. run_status d rid \<noteq> None) (cb_generate_report (cb\<lparr>cb_compact := f\<rparr>) rid)"
    and "platform.cleanup_ok c (cb\<lparr>cb_compact := f\<rparr>) rid"
proof -
  have "cleanup_keeps (\<lambda>d. run_status d rid = Some x \<and> run_ready (\<lambda>rid d. run_status d rid) is_cancel_requested c rid d)
      (cb\<lparr>cb_compact := f\<rparr>) rid" for x
  proof -
    have "(\<lambda>d. run_status d rid = Some x \<and> run_ready (\<lambda>rid d. run_status d rid) is_cancel_requested c rid d)
        = (\<lambda>d. run_status d rid = Some x \<and> (c \<longrightarrow> \<not> is_cancel_requested rid d))"
      by (rule ext) (auto simp: run_ready_def)
    then show ?thesis using assms by (simp add: runtime_keeps_run_def cleanup_keeps_def)
  qed
  then show "platform.cleanup_ok c (cb\<lparr>cb_compact := f\<rparr>) rid" by blast
qed (use assms in \<open>simp_all add: runtime_keeps_run_def stages_keep_def\<close>)

text \<open>A runtime that answers at once and changes nothing, and one run to execute.\<close>

definition idle_callbacks :: "db callbacks" where
  "idle_callbacks =
     \<lparr>set_allow_agent_external_network = False,
      cb_get_audit_run = \<lambda>_. sx_ret None,
      cb_mark_status = \<lambda>_ _. sx_ret (),
      cb_set_state = \<lambda>_ _ _ _. sx_ret (),
      cb_run_event = \<lambda>_ _ _. sx_ret (),
      cb_pipeline_event = \<lambda>_ _ _. sx_ret (),
      cb_summary = \<lambda>_ _. sx_ret (),
      cb_raise_if_cancelled = \<lambda>_. sx_ret (),
      cb_is_cancel_requested = \<lambda>_. sx_ret False,
      cb_cancel_reason = \<lambda>_. sx_ret None,
      cb_list_findings = \<lambda>_. sx_ret [],
      cb_structure_discovery = None,
      cb_code_batch = Some (\<lambda>_ _ _ _. sx_ret (PDict [(''ok'', PBool False)])),
      cb_whiteboard_swarm = None,
      cb_generate_pocs = \<lambda>_. sx_ret (PDict []),
      cb_verify_pocs = \<lambda>_. sx_ret (PDict []),
      cb_generate_report = \<lambda>_. sx_ret (PDict []),
      cb_compact = \<lambda>v. v,
      rt_start_agent_run = \<lambda>_. sx_ret [(''status'', PStr ''failed'')],
      rt_scale_validators = \<lambda>_. sx_ret [],
      rt_cleanup_run = Some (\<lambda>_. sx_ret PNone)\<rparr>"

definition sample_run :: "dict \<Rightarrow> audit_run" where
  "sample_run config =
     \<lparr>created_at = 0, updated_at = 0, ar_audit_run_id = ''run-1'', ar_project_id = ''p-1'',
      ar_snapshot_id = None, ar_status = ''queued'', ar_validator_rounds = 1,
      ar_max_parallel_validators = 2, ar_allow_external_network = False,
      ar_retain_runtime_on_failure = False, ar_config = config\<rparr>"

definition empty_db :: db where
  "empty_db =
     \<lparr>db_now = 0, db_uuids = (\<lambda>n. ''u'' @ nat_str n), db_uuid_next = 0, db_event_seq = 1,
      db_agent_event_seq = 1, audit_runs = [], audit_run_events = [], agent_runs = [],
      agent_run_events = [], worker_heartbeats = [], findings = [], evidence_rows = [],
      triage_decisions = [], wb_cards = [], wb_edges = [], wb_notes = [], wb_attachments = [],
      wb_tasks = [], wb_events = [], wb_subscriptions = [], wb_notifications = [],
      wb_requests = [], artifact_files = (\<lambda>_. None)\<rparr>"

definition sample_config :: dict where
  "sample_config = [(''workspace_host_path'', PStr ''/workspace'')]"

definition sample_db :: db where
  "sample_db = empty_db\<lparr>audit_runs := [sample_run sample_config]\<rparr>"

lemma idle_callbacks_keep:
  "stages_keep P idle_callbacks rid" "cleanup_keeps P idle_callbacks rid"
  "keeps P (cb_generate_report idle_callbacks rid)" "runtime_keeps_run idle_callbacks rid"
  by (auto simp: runtime_keeps_run_def stages_keep_def cleanup_keeps_def idle_callbacks_def intro!: keeps_ret)

lemma sample_run_found:
  "get_audit_run sample_db ''run-1'' = Some (audit_run_to_dict (sample_run sample_config))"
  by (simp add: get_audit_run_def find_run_def sample_db_def empty_db_def sample_run_def)

lemma sample_config_enabled:
  "has_workspace (audit_run_to_dict (sample_run sample_config))"
  "agent_audit_enabled (audit_run_to_dict (sample_run sample_config))"
  "code_batch_analysis_enabled (audit_run_to_dict (sample_run sample_config))"
  by (simp_all add: has_workspace_def agent_audit_enabled_def code_batch_analysis_enabled_def run_cfg_def
      audit_run_to_dict_def sample_run_def sample_config_def agent_enabled_def flag_def dget_or_def)

section \<open>Promises of the executor\<close>

text \<open>C1. Whatever the agents and tools do or raise, \<open>execute\<close> on a stored run returns normally,
  and it leaves the run in one of its four terminal statuses.\<close>

theorem execute_ends_terminal:
  assumes "get_audit_run d rid = Some run" and "runtime_keeps_run cb rid"
  shows "\<exists>d' x. execute (build_pipeline_executor cb) rid d = (Inr (), d') \<and>
           run_status d' rid = Some x \<and> x \<in> terminal_statuses"
  unfolding build_pipeline_executor_def
  by (rule platform.ends_terminal [OF assms(1) runtime_keeps_runD [OF assms(2)]])

theorem execute_ends_terminal_witness:
  "\<exists>d' x. execute (build_pipeline_executor idle_callbacks) ''run-1'' sample_db = (Inr (), d') \<and>
     run_status d' ''run-1'' = Some x \<and> x \<in> terminal_statuses"
  by (rule execute_ends_terminal [OF sample_run_found idle_callbacks_keep(4)])

text \<open>C2. A cancellation that is on record when the execution is over, and that came neither with
  the report nor with the cleanup, has ended the run as cancelled: it was not completed and not
  failed.\<close>

theorem cancellation_wins:
  assumes "get_audit_run d rid = Some run" and "has_workspace run" and "runtime_keeps_run cb rid"
    and "keeps (\<lambda>d. run_status d rid \<noteq> None \<and> \<not> is_cancel_requested rid d) (cb_generate_report cb rid)"
    and "execute (build_pipeline_executor cb) rid d = (Inr (), d')"
    and "is_cancel_requested rid d'"
  shows "run_status d' rid = Some ''cancelled''"
proof -
  have "keeps (run_ready (\<lambda>rid d. run_status d rid) is_cancel_requested True rid)
      (cb_generate_report (cb\<lparr>cb_compact := compact_event_payload\<rparr>) rid)"
    using assms(4) by (simp add: run_ready_def [abs_def])
  then show ?thesis
    using platform.run_cancellation_wins [OF assms(1,2) runtime_keeps_runD(1) [OF assms(3)] _
        runtime_keeps_runD(3) [OF assms(3)] _ assms(6)] assms(5)
    unfolding build_pipeline_executor_def by blast
qed

definition cancelled_db :: db where
  "cancelled_db = request_pipeline_cancel ''run-1'' ''stop'' sample_db"

lemma cancelled_db_run:
  "\<exists>run. get_audit_run cancelled_db ''run-1'' = Some run \<and> has_workspace run"
  "is_cancel_requested ''run-1'' cancelled_db"
proof -
  have f: "find_run sample_db ''run-1'' = Some (sample_run sample_config)"
    by (simp add: find_run_def sample_db_def empty_db_def sample_run_def)
  then show "is_cancel_requested ''run-1'' cancelled_db"
    unfolding cancelled_db_def by (rule request_then_seen)
  show "\<exists>run. get_audit_run cancelled_db ''run-1'' = Some run \<and> has_workspace run"
    by (simp add: get_audit_run_def cancelled_db_def request_pipeline_cancel_def find_run_write_same f Let_def
        has_workspace_def run_cfg_def audit_run_to_dict_def sample_run_def sample_config_def)
qed

theorem cancellation_wins_witness:
  "\<exists>d'. execute (build_pipeline_executor idle_callbacks) ''run-1'' cancelled_db = (Inr (), d') \<and>
     run_status d' ''run-1'' = Some ''cancelled''"
proof -
  obtain run where run: "get_audit_run cancelled_db ''run-1'' = Some run" "has_workspace run"
    using cancelled_db_run(1) by blast
  obtain d' where d': "execute (build_pipeline_executor idle_callbacks) ''run-1'' cancelled_db = (Inr (), d')"
    unfolding build_pipeline_executor_def
    using platform.ends_terminal [OF run(1) runtime_keeps_runD [OF idle_callbacks_keep(4)]] by blast
  have "all_keep (is_cancel_requested ''run-1'') (build_pipeline_executor idle_callbacks) ''run-1''"
    unfolding build_pipeline_executor_def
    by (rule platform.all_keep_requested)
       (auto simp: stages_keep_def cleanup_keeps_def idle_callbacks_def intro: keeps_ret)
  then have "keeps (is_cancel_requested ''run-1'') (execute (build_pipeline_executor idle_callbacks) ''run-1'')"
    by (rule keeps_execute)
  then have "is_cancel_requested ''run-1'' (snd (execute (build_pipeline_executor idle_callbacks) ''run-1'' cancelled_db))"
    using cancelled_db_run(2) unfolding keeps_def by blast
  then have "is_cancel_requested ''run-1'' d'" by (simp add: d')
  then show ?thesis
    using cancellation_wins [OF run idle_callbacks_keep(4) idle_callbacks_keep(3) d'] d' by blast
qed

text \<open>A run whose cancellation is on record before it starts is only marked, logged and
  closed as cancelled: no stage is entered, whatever the agents and tools would do.\<close>

lemma cancelled_before_start:
  assumes "get_audit_run d rid = Some run" and "has_workspace run" and "is_cancel_requested rid d"
  shows "\<exists>m. execute (build_pipeline_executor cb) rid d =
    on_cancelled (build_pipeline_executor cb) rid run (PipelineCancelled m) []
      (record_audit_run_event rid ''pipeline_started'' [(''stage'', PStr ''structure-discovery'')]
        (mark_audit_run_status rid ''running'' d))"
  unfolding build_pipeline_executor_def by (rule platform.run_cancelled_before_start [OF assms])

lemma cancelled_before_start_witness:
  "\<exists>run m. execute (build_pipeline_executor idle_callbacks) ''run-1'' cancelled_db =
    on_cancelled (build_pipeline_executor idle_callbacks) ''run-1'' run (PipelineCancelled m) []
      (record_audit_run_event ''run-1'' ''pipeline_started'' [(''stage'', PStr ''structure-discovery'')]
        (mark_audit_run_status ''run-1'' ''running'' cancelled_db))"
  using cancelled_db_run cancelled_before_start by blast

text \<open>When the orchestrator agent is enabled and every start of it fails, the run ends as
  failed, or as cancelled if that was requested; it is never completed.\<close>

lemma failed_orchestrator_fails:
  assumes "get_audit_run d rid = Some run" and "has_workspace run" and "agent_audit_enabled run"
    and "runtime_keeps_run cb rid"
    and "\<And>a d. sx_wp (rt_start_agent_run cb a) (\<lambda>r _. agent_run_failed r) (\<lambda>_ _. True) d"
    and "execute (build_pipeline_executor cb) rid d = (Inr (), d')"
  shows "run_status d' rid = Some ''failed'' \<or> run_status d' rid = Some ''cancelled''"
proof -
  have "sx_wp (rt_start_agent_run (cb\<lparr>cb_compact := compact_event_payload\<rparr>) a)
      (\<lambda>r _. agent_run_failed r) (\<lambda>_ _. True) d" for a d
    using assms(5) by simp
  then show ?thesis
    using platform.run_failed_orchestrator_fails [OF assms(1-3) _ runtime_keeps_runD(1) [OF assms(4)]
        runtime_keeps_runD(3) [OF assms(4)]] assms(6)
    unfolding build_pipeline_executor_def by blast
qed

lemma idle_execution_returns: "\<exists>d'. execute (build_pipeline_executor idle_callbacks) ''run-1'' sample_db = (Inr (), d')"
  unfolding build_pipeline_executor_def
  using platform.ends_terminal [OF sample_run_found runtime_keeps_runD [OF idle_callbacks_keep(4)]] by blast

lemma failed_orchestrator_fails_witness:
  "\<exists>d'. execute (build_pipeline_executor idle_callbacks) ''run-1'' sample_db = (Inr (), d') \<and>
     (run_status d' ''run-1'' = Some ''failed'' \<or> run_status d' ''run-1'' = Some ''cancelled'')"
proof -
  have "sx_wp (rt_start_agent_run idle_callbacks a) (\<lambda>r _. agent_run_failed r) (\<lambda>_ _. True) d" for a d
    by (simp add: idle_callbacks_def agent_run_failed_def por_def, code_simp)
  then show ?thesis
    using idle_execution_returns
      failed_orchestrator_fails [OF sample_run_found sample_config_enabled(1,2) idle_callbacks_keep(4)] by blast
qed

text \<open>When the code analysis is enabled and every call of it reports \<open>ok: False\<close> or raises,
  the run does not end as plainly completed: the warning is not lost on any later path.\<close>

lemma failed_analysis_shows:
  assumes "get_audit_run d rid = Some run" and "has_workspace run" and "code_batch_analysis_enabled run"
    and "cb_code_batch cb = Some f"
    and "\<And>p w r d. sx_wp (f rid p w r) (\<lambda>v _. \<exists>m. v = PDict m \<and> is_False m ''ok'') (\<lambda>_ _. True) d"
    and "runtime_keeps_run cb rid"
    and "execute (build_pipeline_executor cb) rid d = (Inr (), d')"
  shows "run_status d' rid \<noteq> Some ''completed''"
proof -
  let ?cb = "cb\<lparr>cb_compact := compact_event_payload\<rparr>"
  have "cb_code_batch ?cb = Some f" using assms(4) by simp
  from platform.run_failed_analysis_shows [where cb = ?cb and f = f, OF assms(1-3) this _ runtime_keeps_runD [OF assms(6)]]
  show ?thesis using assms(5,7) unfolding build_pipeline_executor_def by blast
qed

lemma failed_analysis_shows_witness:
  "\<exists>d'. execute (build_pipeline_executor idle_callbacks) ''run-1'' sample_db = (Inr (), d') \<and>
     run_status d' ''run-1'' \<noteq> Some ''completed''"
proof -
  have "cb_code_batch idle_callbacks = Some (\<lambda>_ _ _ _. sx_ret (PDict [(''ok'', PBool False)]))"
    by (simp add: idle_callbacks_def)
  from failed_analysis_shows [OF sample_run_found sample_config_enabled(1,3) this _ idle_callbacks_keep(4)]
  show ?thesis using idle_execution_returns by (fastforce simp: is_False_def)
qed

section \<open>The feedback loop\<close>

text \<open>Rounds are numbered on from \<open>i\<close>, and no more than \<open>left\<close> of them are made.\<close>

lemma feedback_rounds_numbered:
  assumes "feedback_rounds cb rid batch w run fb mx left i results s = (Inr res, t)"
  shows "\<exists>new. res = results @ new \<and> length new \<le> left \<and>
    (\<forall>j < length new. \<exists>d. new ! j = PDict d \<and> dget d ''round_index'' = PInt (int (i + j)))"
  using assms
proof (induction left arbitrary: i results s)
  case 0
  then show ?case by (simp add: sx_ret_def)
next
  case (Suc left)
  have one: "\<exists>new. results @ [PDict d] = results @ new \<and> length new \<le> Suc left \<and>
      (\<forall>j < length new. \<exists>d. new ! j = PDict d \<and> dget d ''round_index'' = PInt (int (i + j)))"
    if "dget d ''round_index'' = PInt (int i)" for d
    using that by (intro exI [of _ "[PDict d]"]) simp
  from Suc.prems consider
      (last) d where "res = results @ [PDict d]" "dget d ''round_index'' = PInt (int i)"
    | (more) m s' where "feedback_rounds cb rid batch w run fb mx left (Suc i)
        (results @ [PDict (dset m ''round_index'' (PInt (int i)))]) s' = (Inr res, t)"
    by (auto simp: Let_def sx_bind_def sx_do_def sx_attempt_def sx_lift_def sx_ret_def
        split: prod.splits sum.splits if_splits)
  then show ?case
  proof cases
    case last
    then show ?thesis using one by simp
  next
    case more
    let ?d = "dset m ''round_index'' (PInt (int i))"
    from Suc.IH [OF more] obtain new where new: "res = (results @ [PDict ?d]) @ new" "length new \<le> left"
      "\<And>j. j < length new \<Longrightarrow> \<exists>d. new ! j = PDict d \<and> dget d ''round_index'' = PInt (int (Suc i + j))"
      by blast
    have "\<exists>d'. (PDict ?d # new) ! j = PDict d' \<and> dget d' ''round_index'' = PInt (int (i + j))"
      if "j < length (PDict ?d # new)" for j
      using that new(3) by (cases j) auto
    then show ?thesis using new(1,2) by (intro exI [of _ "PDict ?d # new"]) auto
  qed
qed

text \<open>A feedback loop that ran made at most \<open>max_feedback_rounds\<close> rounds (2 when that is not
  set, and also when it is set to 0), numbered from 1 in the order they were made.\<close>

lemma feedback_rounds_bounded:
  assumes "run_feedback_loop cb rid run w v s = (Inr (PDict result), t)"
    and "dget result ''results'' = PList rounds"
    and "py_int (por (dget (run_cfg run) ''max_feedback_rounds'') (PInt 2)) = Inr n"
  shows "int (length rounds) \<le> n \<and> dget result ''rounds'' = PInt (int (length rounds)) \<and>
    (\<forall>j < length rounds. \<exists>d. rounds ! j = PDict d \<and> dget d ''round_index'' = PInt (int (Suc j)))"
proof -
  from assms obtain batch fb s' t' where rounds:
      "feedback_rounds cb rid batch w run fb (nat (max 0 n)) (nat (max 0 n)) 1 [] s' = (Inr rounds, t')"
    and n: "nat (max 0 n) \<noteq> 0" and res: "dget result ''rounds'' = PInt (int (length rounds))"
    by (auto simp: run_feedback_loop_def skipped_result_def feedback_skip_def sx_ret_def sx_lift_def sx_bind_def Let_def
        split: if_splits option.splits bool.splits sum.splits prod.splits)
  from feedback_rounds_numbered [OF rounds] have "length rounds \<le> nat (max 0 n)"
    "\<forall>j < length rounds. \<exists>d. rounds ! j = PDict d \<and> dget d ''round_index'' = PInt (int (Suc j))"
    by auto
  with n res show ?thesis by auto
qed

definition rejected_validation :: dict where
  "rejected_validation = [(''status_counts'', PDict [(''failed'', PInt 3)])]"

definition sample_feedback :: "pyval res \<times> db" where
  "sample_feedback =
     run_feedback_loop idle_callbacks ''run-1'' (audit_run_to_dict (sample_run sample_config)) PNone
       rejected_validation sample_db"

lemma sample_feedback_ran:
  "case fst sample_feedback of
     Inr (PDict result) \<Rightarrow> is_list (dget result ''results'') \<and> dget result ''rounds'' = PInt 1
   | _ \<Rightarrow> False"
  by code_simp

lemma feedback_rounds_bounded_witness:
  "\<exists>result rounds. fst sample_feedback = Inr (PDict result) \<and> dget result ''results'' = PList rounds \<and>
     int (length rounds) \<le> 2 \<and> dget result ''rounds'' = PInt (int (length rounds))"
proof -
  obtain result rounds where r: "fst sample_feedback = Inr (PDict result)" "dget result ''results'' = PList rounds"
    using sample_feedback_ran by (auto split: sum.splits pyval.splits elim: is_list.elims)
  then have "run_feedback_loop idle_callbacks ''run-1'' (audit_run_to_dict (sample_run sample_config)) PNone
      rejected_validation sample_db = (Inr (PDict result), snd sample_feedback)"
    unfolding sample_feedback_def by (metis prod.collapse)
  from feedback_rounds_bounded [OF this r(2), of 2] r show ?thesis
    by (simp add: run_cfg_def audit_run_to_dict_def sample_run_def sample_config_def por_def)
qed

section \<open>The quality check\<close>

text \<open>The outcome of the validation stage has no part in the quality check: whatever result
  \<open>validation-judgement\<close> reported, failed and cancelled validator attempts included, the
  warnings, counters and status are those without it.\<close>

lemma validation_outcome_unseen:
  "result_quality (steps @ [PDict [(''step'', PStr ''validation-judgement''), (''result'', PDict outcome)]] @ steps')
     judge report = result_quality (steps @ steps') judge report"
proof -
  have one: "quality_step (PDict [(''step'', PStr ''validation-judgement''), (''result'', PDict outcome)]) acc = Inr acc"
    for acc
    by (simp add: quality_step_def quality_branch_def por_def)
  have "quality_steps (steps @ [PDict [(''step'', PStr ''validation-judgement''), (''result'', PDict outcome)]] @ steps') acc
      = quality_steps (steps @ steps') acc" for acc
  proof (induction steps arbitrary: acc)
    case Nil
    show ?case by (simp add: one)
  next
    case (Cons s steps)
    show ?case using Cons.IH by (cases "quality_step s acc") simp_all
  qed
  then show ?thesis by (simp add: result_quality_def)
qed

section \<open>Failure\<close>

text \<open>A run that fails without a cancellation request gets \<open>pipeline_failed\<close> in its event log
  twice in a row, before the entry of the cleanup.\<close>

lemma failure_logged_twice:
  assumes "\<not> is_cancel_requested rid d" and "rt_cleanup_run cb = None"
  shows "\<exists>d' p p' q. on_error (build_pipeline_executor cb) rid run e steps d = (Inr (), d') \<and>
    run_event_log d' rid =
      run_event_log d rid @ [(''pipeline_failed'', p), (''pipeline_failed'', p'), (''runtime_cleanup_skipped'', q)]"
  using assms
  by (simp add: on_error_def build_pipeline_executor_def with_store_def sx_bind_def sx_gets_def sx_do_def sx_modify_def
      cleanup_terminal_runtime_def)

lemma failure_logged_twice_witness:
  "\<exists>d' p p' q. on_error (build_pipeline_executor (idle_callbacks\<lparr>rt_cleanup_run := None\<rparr>)) ''run-1'' []
       (RuntimeError ''boom'') [] sample_db = (Inr (), d') \<and>
     run_event_log d' ''run-1'' =
       run_event_log sample_db ''run-1'' @
         [(''pipeline_failed'', p), (''pipeline_failed'', p'), (''runtime_cleanup_skipped'', q)]"
proof -
  have "\<not> is_cancel_requested ''run-1'' sample_db"
    by (simp add: is_cancel_requested_def run_control_def find_run_def sample_db_def empty_db_def sample_run_def
        sample_config_def config_part_def)
  moreover have "rt_cleanup_run (idle_callbacks\<lparr>rt_cleanup_run := None\<rparr>) = None" by simp
  ultimately show ?thesis by (rule failure_logged_twice)
qed

lemma keeps_both: "keeps P m \<Longrightarrow> keeps Q m \<Longrightarrow> keeps (\<lambda>s. P s \<and> Q s) m"
  by (simp add: keeps_def)

text \<open>On a run that is to retain its runtime, nothing is cleaned up when it fails: every fact
  \<open>Q\<close> of the world that the agents, tools and bookkeeping leave alone (that a container is still
  there, for one) is still true when the run has ended as failed, whatever the runtime's cleanup
  would have done to it.\<close>

lemma retained_runtime_untouched:
  assumes "get_audit_run d rid = Some run" and "truthy (dget run ''retain_runtime_on_failure'')"
    and "runtime_keeps_run cb rid"
    and "stages_keep Q cb rid" and "keeps Q (cb_generate_report cb rid)"
    and "store_keeps Q (build_pipeline_executor cb) rid" and "\<And>st d. Q d \<Longrightarrow> Q (mark_audit_run_status rid st d)"
    and "Q d" and "execute (build_pipeline_executor cb) rid d = (Inr (), d')"
    and "run_status d' rid = Some ''failed''"
  shows "Q d'"
proof -
  let ?Q = "\<lambda>d. Q d \<and> run_status d rid \<noteq> None"
  let ?cb = "cb\<lparr>cb_compact := compact_event_payload\<rparr>"
  have "store_keeps (\<lambda>d. run_status d rid \<noteq> None) (build_pipeline_executor cb) rid"
    unfolding build_pipeline_executor_def by (rule platform.store_keeps_alive)
  then have "store_keeps ?Q (platform.wired ?cb) rid"
    using assms(6) unfolding build_pipeline_executor_def store_keeps_def by (simp add: keeps_both del: not_None_eq)
  moreover have "stages_keep ?Q cb rid"
    using assms(3,4) unfolding runtime_keeps_run_def stages_keep_def by (simp add: keeps_both del: not_None_eq)
  then have "stages_keep ?Q (platform.wired ?cb) rid"
    by (simp add: with_store_def stages_keep_def del: not_None_eq)
  moreover have "keeps ?Q (cb_generate_report (platform.wired ?cb) rid)"
    using assms(3,5) by (simp add: runtime_keeps_run_def keeps_both del: not_None_eq)
  moreover have "?Q d" using assms(8) get_audit_run_Some(1) [OF assms(1)] by blast
  ultimately have "?Q d'"
    using platform.retained_on_failure [OF assms(1,2), where Q = ?Q and cb = ?cb and t = d']
      runtime_keeps_runD(3) [OF assms(3)] assms(7,9,10)
    unfolding build_pipeline_executor_def by simp
  then show ?thesis by blast
qed

definition retaining_db :: db where
  "retaining_db = empty_db\<lparr>audit_runs := [sample_run [] \<lparr>ar_retain_runtime_on_failure := True\<rparr>]\<rparr>"

lemma retaining_db_failed:
  "fst (execute (build_pipeline_executor idle_callbacks) ''run-1'' retaining_db) = Inr ()"
  "run_status (snd (execute (build_pipeline_executor idle_callbacks) ''run-1'' retaining_db)) ''run-1'' = Some ''failed''"
  by code_simp+

lemma retained_runtime_untouched_witness:
  "findings (snd (execute (build_pipeline_executor idle_callbacks) ''run-1'' retaining_db)) = []"
proof (rule retained_runtime_untouched [where cb = idle_callbacks and rid = "''run-1''" and d = retaining_db])
  show "get_audit_run retaining_db ''run-1'' =
      Some (audit_run_to_dict (sample_run [] \<lparr>ar_retain_runtime_on_failure := True\<rparr>))"
    by (simp add: get_audit_run_def find_run_def retaining_db_def empty_db_def sample_run_def)
  show "store_keeps (\<lambda>d. findings d = []) (build_pipeline_executor idle_callbacks) ''run-1''"
    by (simp add: store_keeps_def build_pipeline_executor_def platform.keeps_raise_if)
       (auto intro!: keeps_modify simp: set_pipeline_state_def record_pipeline_event_def record_pipeline_summary_def
          record_audit_run_event_def add_agent_run_event_def frame_simps Let_def split: option.splits)
  show "execute (build_pipeline_executor idle_callbacks) ''run-1'' retaining_db =
      (Inr (), snd (execute (build_pipeline_executor idle_callbacks) ''run-1'' retaining_db))"
    using retaining_db_failed(1) by (metis prod.collapse)
  show "run_status (snd (execute (build_pipeline_executor idle_callbacks) ''run-1'' retaining_db)) ''run-1'' = Some ''failed''"
    by (rule retaining_db_failed(2))
qed (simp_all add: audit_run_to_dict_def sample_run_def idle_callbacks_keep mark_audit_run_status_def frame_simps
      retaining_db_def empty_db_def)

end
