(* ===== verification/Worker_Fleet.thy ===== *)
theory Worker_Fleet
  imports Executor_Platform
begin

text \<open>
  The workflow workers: how one claims a queued run
  (\<open>services/platform/app/services/pipeline_queue.py\<close>), how it says that it is alive
  (\<open>worker_heartbeat.py\<close>), what a starting worker does to runs whose worker is gone
  (\<open>pipeline_recovery.py\<close>), and the body of its loop (\<open>services/platform/app/worker.py\<close>).

  Durations are in microseconds, as the difference of two times. \<open>FOR UPDATE SKIP LOCKED\<close> is
  the set of runs that other open transactions hold.
\<close>

section \<open>Claiming a run\<close>

definition next_queued :: "string set \<Rightarrow> db \<Rightarrow> audit_run option" where
  "next_queued locked d =
     (case sort_key created_at (filter (\<lambda>r. ar_status r = ''queued'' \<and> ar_audit_run_id r \<notin> locked) (audit_runs d)) of
        [] \<Rightarrow> None
      | r # _ \<Rightarrow> Some r)"

definition claimed_config :: "string \<Rightarrow> time \<Rightarrow> dict \<Rightarrow> dict" where
  "claimed_config worker_id claimed_at config =
     dset (dset config ''runtime_control''
             (PDict (dmerge (config_part config ''runtime_control'')
                [(''worker_id'', PStr worker_id), (''claimed_at'', pytime claimed_at)])))
       ''pipeline_state''
         (PDict [(''stage'', PStr ''claimed''), (''status'', PStr ''running''),
                 (''worker_id'', PStr worker_id), (''claimed_at'', pytime claimed_at)])"

text \<open>\<open>session.add(AuditRunEvent(...))\<close>: the payload is stored as it is.\<close>

definition add_run_event :: "string \<Rightarrow> string \<Rightarrow> dict \<Rightarrow> db \<Rightarrow> db" where
  "add_run_event rid event_type payload d =
     d\<lparr>db_event_seq := db_event_seq d + 1,
       audit_run_events := audit_run_events d @
         [\<lparr>created_at = db_now d, updated_at = db_now d, are_id = db_event_seq d,
           are_audit_run_id = rid, are_event_type = event_type, are_payload = payload\<rparr>]\<rparr>"

definition claim_run :: "string \<Rightarrow> string \<Rightarrow> db \<Rightarrow> db" where
  "claim_run worker_id rid d =
     add_run_event rid ''pipeline_claimed''
       [(''worker_id'', PStr worker_id), (''claimed_at'', pytime (db_now d))]
       (write_run rid (\<lambda>r. r\<lparr>ar_status := ''running'',
          ar_config := claimed_config worker_id (db_now d) (ar_config r)\<rparr>) d)"

definition claim_next_queued_pipeline :: "string set \<Rightarrow> string \<Rightarrow> db \<Rightarrow> string option \<times> db" where
  "claim_next_queued_pipeline locked worker_id d =
     (case next_queued locked d of
        None \<Rightarrow> (None, d)
      | Some r \<Rightarrow> (Some (ar_audit_run_id r), claim_run worker_id (ar_audit_run_id r) d))"

section \<open>Heartbeats\<close>

definition ACTIVE_WORKER_STATUSES :: "string list" where
  "ACTIVE_WORKER_STATUSES = [''starting'', ''idle'', ''running'']"

text \<open>\<open>age_seconds\<close> of the view is \<open>hv_age\<close>, in microseconds.\<close>

record heartbeat_view =
  hv_worker_id :: string
  hv_service_name :: string
  hv_hostname :: string
  hv_status :: string
  hv_last_seen_at :: string
  hv_age :: int
  hv_current_audit_run_id :: "string option"
  hv_metadata :: dict

definition worker_heartbeat_to_dict :: "time \<Rightarrow> worker_heartbeat \<Rightarrow> heartbeat_view" where
  "worker_heartbeat_to_dict now row =
     \<lparr>hv_worker_id = wh_worker_id row, hv_service_name = wh_service_name row, hv_hostname = wh_hostname row,
      hv_status = wh_status row, hv_last_seen_at = iso_utc (wh_last_seen_at row),
      hv_age = max 0 (now - wh_last_seen_at row),
      hv_current_audit_run_id = wh_current_audit_run_id row, hv_metadata = wh_metadata row\<rparr>"

record worker_health =
  he_ok :: bool
  he_max_age :: int
  he_active_count :: nat
  he_stale_count :: nat
  he_stopped_count :: nat
  he_workers :: "heartbeat_view list"
  he_message :: string

definition summarize_worker_health :: "time \<Rightarrow> int \<Rightarrow> worker_heartbeat list \<Rightarrow> worker_health" where
  "summarize_worker_health now max_age rows =
     (let workers = map (worker_heartbeat_to_dict now) rows;
          active_workers = filter (\<lambda>w. hv_status w \<in> set ACTIVE_WORKER_STATUSES \<and> hv_age w \<le> max_age) workers;
          stale_workers = filter (\<lambda>w. hv_status w \<in> set ACTIVE_WORKER_STATUSES \<and> max_age < hv_age w) workers;
          stopped_workers = filter (\<lambda>w. hv_status w \<notin> set ACTIVE_WORKER_STATUSES) workers
      in \<lparr>he_ok = (active_workers \<noteq> []), he_max_age = max_age,
          he_active_count = length active_workers, he_stale_count = length stale_workers,
          he_stopped_count = length stopped_workers, he_workers = workers,
          he_message = (if active_workers \<noteq> [] then ''At least one workflow worker heartbeat is fresh.''
                        else ''No fresh workflow-worker heartbeat is available.'')\<rparr>)"

definition worker_heartbeat_retention_cutoff :: "time \<Rightarrow> int option \<Rightarrow> time option" where
  "worker_heartbeat_retention_cutoff now retention =
     (case retention of None \<Rightarrow> None | Some s \<Rightarrow> if s \<le> 0 then None else Some (now - s))"

definition upsert_heartbeat ::
  "string \<Rightarrow> string \<Rightarrow> string \<Rightarrow> string \<Rightarrow> string option \<Rightarrow> dict \<Rightarrow> time \<Rightarrow> db \<Rightarrow> db" where
  "upsert_heartbeat worker_id service_name hostname status run_id metadata seen_at d =
     (case row_find wh_worker_id worker_id (worker_heartbeats d) of
        None \<Rightarrow> d\<lparr>worker_heartbeats := worker_heartbeats d @
          [\<lparr>created_at = db_now d, updated_at = db_now d, wh_worker_id = worker_id,
            wh_service_name = service_name, wh_hostname = hostname, wh_status = status,
            wh_last_seen_at = seen_at, wh_current_audit_run_id = run_id, wh_metadata = metadata\<rparr>]\<rparr>
      | Some _ \<Rightarrow> d\<lparr>worker_heartbeats := row_upd wh_worker_id worker_id (\<lambda>r. stamped (db_now d) r
          (r\<lparr>wh_service_name := service_name, wh_hostname := hostname, wh_status := status,
             wh_last_seen_at := seen_at, wh_current_audit_run_id := run_id, wh_metadata := metadata\<rparr>))
          (worker_heartbeats d)\<rparr>)"

definition expire_heartbeats :: "string \<Rightarrow> time option \<Rightarrow> db \<Rightarrow> db" where
  "expire_heartbeats worker_id cutoff d =
     (case cutoff of
        None \<Rightarrow> d
      | Some c \<Rightarrow> d\<lparr>worker_heartbeats :=
          filter (\<lambda>r. \<not> (wh_worker_id r \<noteq> worker_id \<and> wh_last_seen_at r < c)) (worker_heartbeats d)\<rparr>)"

definition record_worker_heartbeat ::
  "string \<Rightarrow> string \<Rightarrow> string \<Rightarrow> string \<Rightarrow> string option \<Rightarrow> dict \<Rightarrow> time \<Rightarrow> int option \<Rightarrow> db \<Rightarrow> db" where
  "record_worker_heartbeat worker_id service_name hostname status run_id metadata seen_at retention d =
     expire_heartbeats worker_id (worker_heartbeat_retention_cutoff seen_at retention)
       (upsert_heartbeat worker_id service_name hostname status run_id metadata seen_at d)"

definition list_worker_heartbeats :: "string option \<Rightarrow> db \<Rightarrow> heartbeat_view list" where
  "list_worker_heartbeats service_name d =
     map (worker_heartbeat_to_dict (db_now d))
       (filter (\<lambda>r. case service_name of None \<Rightarrow> True | Some s \<Rightarrow> s = [] \<or> wh_service_name r = s)
         (sort_key (\<lambda>r. - wh_last_seen_at r) (worker_heartbeats d)))"

definition workflow_worker_health :: "int \<Rightarrow> db \<Rightarrow> worker_health" where
  "workflow_worker_health max_age d =
     summarize_worker_health (db_now d) max_age
       (filter (\<lambda>r. wh_service_name r = ''workflow-worker'') (worker_heartbeats d))"

section \<open>Recovery\<close>

definition ACTIVE_AUDIT_STATUSES :: "string list" where
  "ACTIVE_AUDIT_STATUSES = [''queued'', ''running'', ''validating'', ''cancelling'']"

definition active_statuses :: "bool \<Rightarrow> string list" where
  "active_statuses include_queued =
     (if include_queued then ACTIVE_AUDIT_STATUSES else filter (\<lambda>s. s \<noteq> ''queued'') ACTIVE_AUDIT_STATUSES)"

text \<open>\<open>ACTIVE_PIPELINE_STATUSES\<close> is the same set.\<close>

definition is_active_pipeline :: "bool \<Rightarrow> string \<Rightarrow> dict \<Rightarrow> bool" where
  "is_active_pipeline include_queued status config =
     (status \<in> set (active_statuses include_queued) \<or>
      (case dget (config_part config ''pipeline_state'') ''status'' of
         PStr s \<Rightarrow> s \<in> set (active_statuses include_queued)
       | _ \<Rightarrow> False))"

definition interrupted_pipeline_config :: "string \<Rightarrow> time \<Rightarrow> string \<Rightarrow> dict \<Rightarrow> dict" where
  "interrupted_pipeline_config service_name recovered_at reason config =
     (let previous_state = config_part config ''pipeline_state'';
          updated = dset config ''pipeline_state'' (PDict
            [(''stage'', PStr ''interrupted''), (''status'', PStr ''failed''), (''error'', PStr reason),
             (''previous'', PDict previous_state), (''recovered_by'', PStr service_name),
             (''recovered_at'', pytime recovered_at)])
      in dset updated ''runtime_control'' (PDict
           (dset (dset (config_part updated ''runtime_control'') ''cancel_requested'' (PBool False))
              ''interrupted_on_startup'' (PBool True))))"

definition pipeline_worker_id :: "dict \<Rightarrow> string option" where
  "pipeline_worker_id config =
     (let worker_id = por (dget (config_part config ''runtime_control'') ''worker_id'')
                          (dget (config_part config ''pipeline_state'') ''worker_id'')
      in if truthy worker_id then Some (py_str worker_id) else None)"

definition serves_run :: "time \<Rightarrow> int \<Rightarrow> audit_run \<Rightarrow> worker_heartbeat \<Rightarrow> bool" where
  "serves_run now max_age run worker \<longleftrightarrow>
     wh_status worker \<in> set ACTIVE_WORKER_STATUSES \<and>
     wh_current_audit_run_id worker = Some (ar_audit_run_id run) \<and>
     (case pipeline_worker_id (ar_config run) of None \<Rightarrow> True | Some w \<Rightarrow> w = [] \<or> wh_worker_id worker = w) \<and>
     now - wh_last_seen_at worker \<le> max_age"

definition active_worker_for_pipeline ::
  "time \<Rightarrow> int \<Rightarrow> worker_heartbeat list \<Rightarrow> audit_run \<Rightarrow> worker_heartbeat option" where
  "active_worker_for_pipeline now max_age workers run = List.find (serves_run now max_age run) workers"

definition recovery_reason :: "string \<Rightarrow> string" where
  "recovery_reason service_name =
     service_name @ '' restarted while pipeline was active; background execution cannot be resumed automatically''"

text \<open>One row of the loop: skipped, left to its worker, or failed.\<close>

datatype recovery = Inactive | Served worker_heartbeat | Interrupted

definition recovery_of :: "bool \<Rightarrow> time \<Rightarrow> int \<Rightarrow> worker_heartbeat list \<Rightarrow> audit_run \<Rightarrow> recovery" where
  "recovery_of include_queued now ttl workers row =
     (if \<not> is_active_pipeline include_queued (ar_status row) (ar_config row) then Inactive
      else case active_worker_for_pipeline now ttl workers row of
        Some w \<Rightarrow> Served w
      | None \<Rightarrow> Interrupted)"

definition interrupt_run :: "string \<Rightarrow> time \<Rightarrow> audit_run \<Rightarrow> db \<Rightarrow> db" where
  "interrupt_run service_name now row d =
     add_run_event (ar_audit_run_id row) ''pipeline_interrupted''
       [(''reason'', PStr (recovery_reason service_name)),
        (''previous_status'', PStr (ar_status row)),
        (''previous_state'', PDict (config_part (ar_config row) ''pipeline_state'')),
        (''recovered_by'', PStr service_name), (''recovered_at'', pytime now)]
       (write_run (ar_audit_run_id row) (\<lambda>r. r\<lparr>ar_status := ''failed'',
          ar_config := interrupted_pipeline_config service_name now (recovery_reason service_name) (ar_config r)\<rparr>) d)"

record recovery_result =
  rr_runs :: "dict list"
  rr_skipped_active :: "dict list"

definition recover_row ::
  "string \<Rightarrow> bool \<Rightarrow> time \<Rightarrow> int \<Rightarrow> worker_heartbeat list \<Rightarrow> audit_run \<Rightarrow> recovery_result \<times> db \<Rightarrow> recovery_result \<times> db" where
  "recover_row service_name include_queued now ttl workers row acc =
     (case recovery_of include_queued now ttl workers row of
        Inactive \<Rightarrow> acc
      | Served w \<Rightarrow>
          ((fst acc)\<lparr>rr_skipped_active := rr_skipped_active (fst acc) @
             [[(''audit_run_id'', PStr (ar_audit_run_id row)), (''worker_id'', PStr (wh_worker_id w)),
               (''last_seen_at'', pytime (wh_last_seen_at w))]]\<rparr>, snd acc)
      | Interrupted \<Rightarrow>
          ((fst acc)\<lparr>rr_runs := rr_runs (fst acc) @
             [[(''audit_run_id'', PStr (ar_audit_run_id row)), (''previous_status'', PStr (ar_status row)),
               (''previous_state'', PDict (config_part (ar_config row) ''pipeline_state''))]]\<rparr>,
           interrupt_run service_name now row (snd acc)))"

text \<open>The rows and workers are those read at the start; \<open>recovered\<close> is the length of \<open>rr_runs\<close>.\<close>

definition recover_interrupted_pipelines ::
  "string \<Rightarrow> bool \<Rightarrow> int \<Rightarrow> time \<Rightarrow> db \<Rightarrow> recovery_result \<times> db" where
  "recover_interrupted_pipelines service_name include_queued ttl now d =
     fold (recover_row service_name include_queued now ttl (worker_heartbeats d)) (audit_runs d)
       (\<lparr>rr_runs = [], rr_skipped_active = []\<rparr>, d)"

section \<open>The worker's loop\<close>

text \<open>\<open>try: await executor.execute(...) except Exception\<close> around one claimed run.\<close>

definition run_claimed :: "db callbacks \<Rightarrow> string \<Rightarrow> db \<Rightarrow> db" where
  "run_claimed cb rid d =
     (case execute (build_pipeline_executor cb) rid d of
        (Inr _, d1) \<Rightarrow> d1
      | (Inl _, d1) \<Rightarrow>
          record_audit_run_event rid ''pipeline_failed'' [(''error'', PStr ''workflow worker crashed'')]
            (set_pipeline_state rid ''failed'' ''failed'' (Some ''workflow worker crashed'')
              (mark_audit_run_status rid ''failed'' d1)))"

text \<open>One turn of the loop: nothing claimed, or one run executed to its end.\<close>

definition worker_turn :: "db callbacks \<Rightarrow> string set \<Rightarrow> string \<Rightarrow> db \<Rightarrow> string option \<times> db" where
  "worker_turn cb locked worker_id d =
     (case claim_next_queued_pipeline locked worker_id d of
        (None, d1) \<Rightarrow> (None, d1)
      | (Some rid, d1) \<Rightarrow> (Some rid, run_claimed cb rid d1))"

section \<open>Lemmas on claims\<close>

abbreviation run_ids :: "db \<Rightarrow> string list" where
  "run_ids d \<equiv> map ar_audit_run_id (audit_runs d)"

lemma next_queued_Some:
  assumes "next_queued locked d = Some r"
  shows "r \<in> set (audit_runs d)" "ar_status r = ''queued''" "ar_audit_run_id r \<notin> locked"
    "r' \<in> set (audit_runs d) \<Longrightarrow> ar_status r' = ''queued'' \<Longrightarrow> ar_audit_run_id r' \<notin> locked \<Longrightarrow>
       created_at r \<le> created_at r'"
proof -
  let ?q = "filter (\<lambda>r. ar_status r = ''queued'' \<and> ar_audit_run_id r \<notin> locked) (audit_runs d)"
  obtain rest where rest: "sort_key created_at ?q = r # rest"
    using assms by (auto simp: next_queued_def split: list.splits)
  have set: "set (r # rest) = set ?q" using arg_cong [OF rest, of set] by (simp only: set_sort)
  have "r \<in> set ?q" using set by auto
  then show "r \<in> set (audit_runs d)" "ar_status r = ''queued''" "ar_audit_run_id r \<notin> locked" by auto
  have "sorted (map created_at (r # rest))" using sorted_sort_key [of created_at ?q] by (simp only: rest)
  moreover assume "r' \<in> set (audit_runs d)" "ar_status r' = ''queued''" "ar_audit_run_id r' \<notin> locked"
  then have "r' \<in> set (r # rest)" using set by auto
  ultimately show "created_at r \<le> created_at r'" by auto
qed

lemma next_queued_None:
  "next_queued locked d = None \<longleftrightarrow>
   (\<forall>r \<in> set (audit_runs d). ar_status r = ''queued'' \<longrightarrow> ar_audit_run_id r \<in> locked)"
proof -
  let ?q = "filter (\<lambda>r. ar_status r = ''queued'' \<and> ar_audit_run_id r \<notin> locked) (audit_runs d)"
  have "next_queued locked d = None \<longleftrightarrow> sort_key created_at ?q = []"
    by (simp add: next_queued_def split: list.splits)
  also have "\<dots> \<longleftrightarrow> ?q = []" by (simp only: set_empty [symmetric] set_sort)
  finally show ?thesis by (auto simp: filter_empty_conv)
qed

lemma find_run_distinct: "distinct (run_ids d) \<Longrightarrow> r \<in> set (audit_runs d) \<Longrightarrow> find_run d (ar_audit_run_id r) = Some r"
  unfolding find_run_def by (rule row_find_distinct)

lemma run_ids_write [simp]: "keeps_id f \<Longrightarrow> run_ids (write_run rid f d) = run_ids d"
  unfolding write_run_def by (simp, rule keys_row_upd) (simp add: keeps_id_def)

lemma add_run_event_frame [simp]:
  "audit_runs (add_run_event rid t p d) = audit_runs d"
  "worker_heartbeats (add_run_event rid t p d) = worker_heartbeats d"
  "find_run (add_run_event rid t p d) rid' = find_run d rid'"
  "db_now (add_run_event rid t p d) = db_now d"
  by (simp_all add: add_run_event_def find_run_def)

lemma worker_heartbeats_write [simp]: "worker_heartbeats (write_run rid f d) = worker_heartbeats d"
  by (simp add: write_run_def)

lemma keeps_id_claim [simp]: "keeps_id (\<lambda>r. r\<lparr>ar_status := x, ar_config := g r\<rparr>)"
  by (simp add: keeps_id_def)

lemma find_run_claim:
  "find_run (claim_run w rid d) rid' =
    (if rid' = rid then map_option (\<lambda>r. stamped (db_now d) r
       (r\<lparr>ar_status := ''running'', ar_config := claimed_config w (db_now d) (ar_config r)\<rparr>)) (find_run d rid)
     else find_run d rid')"
  by (simp add: claim_run_def find_run_write_same find_run_write_other)

lemma run_ids_claim [simp]: "run_ids (claim_run w rid d) = run_ids d"
  by (simp add: claim_run_def)

lemma worker_heartbeats_claim [simp]: "worker_heartbeats (claim_run w rid d) = worker_heartbeats d"
  by (simp add: claim_run_def)

lemma dlookup_dmerge_two:
  "k1 \<noteq> k2 \<Longrightarrow> dget (dmerge a [(k1, v1), (k2, v2)]) k = (if k = k2 then v2 else if k = k1 then v1 else dget a k)"
  by (simp add: dget_def)

lemma claimed_worker_id: "w \<noteq> [] \<Longrightarrow> pipeline_worker_id (claimed_config w t c) = Some w"
  by (simp add: pipeline_worker_id_def claimed_config_def por_def dlookup_dmerge_two)

lemma claimed_is_active: "is_active_pipeline b ''running'' c"
  by (simp add: is_active_pipeline_def active_statuses_def ACTIVE_AUDIT_STATUSES_def)

section \<open>Claims\<close>

text \<open>A claim takes the oldest queued run that no other transaction holds, marks it running
  under the worker's name and changes no other run.\<close>

lemma claim_takes_oldest:
  assumes "distinct (run_ids d)" and "worker_id \<noteq> []"
    and "claim_next_queued_pipeline locked worker_id d = (Some rid, d')"
  shows "\<exists>r. find_run d rid = Some r \<and> ar_status r = ''queued'' \<and> rid \<notin> locked \<and>
      (\<forall>r' \<in> set (audit_runs d). ar_status r' = ''queued'' \<and> ar_audit_run_id r' \<notin> locked \<longrightarrow>
         created_at r \<le> created_at r') \<and>
      run_status d' rid = Some ''running'' \<and>
      map_option pipeline_worker_id (run_config d' rid) = Some (Some worker_id) \<and>
      (\<forall>rid'. rid' \<noteq> rid \<longrightarrow> find_run d' rid' = find_run d rid')"
proof -
  obtain r where r: "next_queued locked d = Some r" "rid = ar_audit_run_id r" "d' = claim_run worker_id rid d"
    using assms(3) by (auto simp: claim_next_queued_pipeline_def split: option.splits)
  have found: "find_run d rid = Some r"
    using find_run_distinct [OF assms(1) next_queued_Some(1) [OF r(1)]] r(2) by simp
  have after: "find_run d' rid = Some (stamped (db_now d) r
      (r\<lparr>ar_status := ''running'', ar_config := claimed_config worker_id (db_now d) (ar_config r)\<rparr>))"
    by (simp add: r(3) find_run_claim found)
  show ?thesis
  proof (intro exI [of _ r] conjI allI impI ballI)
    show "run_status d' rid = Some ''running''" by (simp add: run_status_def after)
    show "map_option pipeline_worker_id (run_config d' rid) = Some (Some worker_id)"
      by (simp add: run_config_def after claimed_worker_id [OF assms(2)])
    show "find_run d' rid' = find_run d rid'" if "rid' \<noteq> rid" for rid'
      using that by (simp add: r(3) find_run_claim)
    show "created_at r \<le> created_at r'"
      if "r' \<in> set (audit_runs d)" "ar_status r' = ''queued'' \<and> ar_audit_run_id r' \<notin> locked" for r'
      using next_queued_Some(4) [OF r(1)] that by blast
  qed (use found next_queued_Some(2,3) [OF r(1)] r(2) in simp_all)
qed

definition two_queued :: db where
  "two_queued = empty_db\<lparr>audit_runs :=
     [sample_run [] \<lparr>created_at := 7\<rparr>, sample_run [] \<lparr>ar_audit_run_id := ''run-2'', created_at := 3\<rparr>]\<rparr>"

lemma claim_takes_oldest_witness:
  "run_status (snd (claim_next_queued_pipeline {} ''w1'' two_queued)) ''run-2'' = Some ''running''"
proof -
  have "distinct (run_ids two_queued)" by (simp add: two_queued_def empty_db_def sample_run_def)
  moreover have "claim_next_queued_pipeline {} ''w1'' two_queued =
      (Some ''run-2'', snd (claim_next_queued_pipeline {} ''w1'' two_queued))"
    by (simp add: claim_next_queued_pipeline_def next_queued_def two_queued_def empty_db_def sample_run_def)
  ultimately show ?thesis using claim_takes_oldest [of two_queued "''w1''" "{}" "''run-2''"] by blast
qed

text \<open>Nothing is claimed exactly when every queued run is held by another transaction.\<close>

lemma no_claim_iff:
  "fst (claim_next_queued_pipeline locked worker_id d) = None \<longleftrightarrow>
     set (map ar_audit_run_id (filter (\<lambda>r. ar_status r = ''queued'') (audit_runs d))) \<subseteq> locked"
proof -
  have "fst (claim_next_queued_pipeline locked worker_id d) = None \<longleftrightarrow> next_queued locked d = None"
    by (simp add: claim_next_queued_pipeline_def split: option.split)
  then show ?thesis unfolding next_queued_None by auto
qed

section \<open>Several workers at once\<close>

text \<open>
  A claim is one transaction: it locks the row it selects, and the row is written at its commit.
  \<open>fl_open\<close> has the workers inside a claim with the run each has locked, \<open>fl_claims\<close> the
  claims committed so far. Between these steps the rest of the platform may change the database
  in any way that queues no run anew.
\<close>

record fleet =
  fl_db :: db
  fl_open :: "(string \<times> string) list"
  fl_claims :: "(string \<times> string) list"

definition queues_nothing :: "db \<Rightarrow> db \<Rightarrow> bool" where
  "queues_nothing d d' \<longleftrightarrow>
     distinct (run_ids d') \<and>
     (\<forall>rid. run_status d' rid = Some ''queued'' \<longrightarrow> run_status d rid = Some ''queued'') \<and>
     (\<forall>rid. run_status d rid \<noteq> None \<longrightarrow> run_status d' rid \<noteq> None)"

inductive fleet_step :: "fleet \<Rightarrow> fleet \<Rightarrow> bool" where
  lock: "next_queued (snd ` set (fl_open f)) (fl_db f) = Some r \<Longrightarrow>
    fleet_step f (f\<lparr>fl_open := (w, ar_audit_run_id r) # fl_open f\<rparr>)"
| commit: "(w, rid) \<in> set (fl_open f) \<Longrightarrow>
    fleet_step f (f\<lparr>fl_db := claim_run w rid (fl_db f), fl_open := remove1 (w, rid) (fl_open f),
                   fl_claims := (w, rid) # fl_claims f\<rparr>)"
| rollback: "(w, rid) \<in> set (fl_open f) \<Longrightarrow>
    fleet_step f (f\<lparr>fl_open := remove1 (w, rid) (fl_open f)\<rparr>)"
| elsewhere: "queues_nothing (fl_db f) d' \<Longrightarrow> fleet_step f (f\<lparr>fl_db := d'\<rparr>)"

inductive_cases fleet_stepE: "fleet_step f f'"

inductive reachable :: "db \<Rightarrow> fleet \<Rightarrow> bool" for d :: db where
  start: "reachable d \<lparr>fl_db = d, fl_open = [], fl_claims = []\<rparr>"
| step: "reachable d f \<Longrightarrow> fleet_step f f' \<Longrightarrow> reachable d f'"

definition fleet_inv :: "fleet \<Rightarrow> bool" where
  "fleet_inv f \<longleftrightarrow>
     distinct (run_ids (fl_db f)) \<and>
     distinct (map snd (fl_open f) @ map snd (fl_claims f)) \<and>
     (\<forall>rid \<in> set (map snd (fl_open f) @ map snd (fl_claims f)). run_status (fl_db f) rid \<noteq> None) \<and>
     (\<forall>rid \<in> set (map snd (fl_claims f)). run_status (fl_db f) rid \<noteq> Some ''queued'')"

lemma run_status_claim:
  "run_status (claim_run w rid d) rid' =
    (if rid' = rid then map_option (\<lambda>_. ''running'') (run_status d rid) else run_status d rid')"
  by (simp add: run_status_def find_run_claim option.map_comp comp_def)

lemma next_queued_status:
  "distinct (run_ids d) \<Longrightarrow> next_queued locked d = Some r \<Longrightarrow> run_status d (ar_audit_run_id r) = Some ''queued''"
  by (simp add: run_status_def find_run_distinct next_queued_Some)

lemma distinct_map_remove1:
  "(w, rid) \<in> set xs \<Longrightarrow> distinct (map snd xs) \<Longrightarrow>
   set (map snd (remove1 (w, rid) xs)) = set (map snd xs) - {rid} \<and> distinct (map snd (remove1 (w, rid) xs))"
  by (induction xs) (auto simp: image_iff)

lemma fleet_inv_lock:
  assumes "fleet_inv f" and "next_queued (snd ` set (fl_open f)) (fl_db f) = Some r"
  shows "fleet_inv (f\<lparr>fl_open := (w, ar_audit_run_id r) # fl_open f\<rparr>)"
proof -
  have "run_status (fl_db f) (ar_audit_run_id r) = Some ''queued''"
    using assms by (intro next_queued_status) (auto simp: fleet_inv_def)
  moreover have "ar_audit_run_id r \<notin> snd ` set (fl_open f)" using next_queued_Some(3) [OF assms(2)] .
  ultimately show ?thesis using assms(1) by (auto simp: fleet_inv_def)
qed

lemma fleet_inv_commit:
  assumes "fleet_inv f" and "(w, rid) \<in> set (fl_open f)"
  shows "fleet_inv (f\<lparr>fl_db := claim_run w rid (fl_db f), fl_open := remove1 (w, rid) (fl_open f),
    fl_claims := (w, rid) # fl_claims f\<rparr>)"
proof -
  have d: "distinct (map snd (fl_open f))" using assms(1) by (simp add: fleet_inv_def)
  note r = distinct_map_remove1 [OF assms(2) d]
  have rid: "rid \<in> set (map snd (fl_open f))" using assms(2) by (force simp: image_iff)
  then have "run_status (fl_db f) rid \<noteq> None"
    using assms(1) unfolding fleet_inv_def set_append by blast
  moreover have "rid \<notin> snd ` set (fl_claims f)"
    using assms(1) rid unfolding fleet_inv_def distinct_append set_map by blast
  ultimately show ?thesis
    using assms(1) r by (auto simp: fleet_inv_def run_status_claim)
qed

lemma fleet_inv_rollback:
  assumes "fleet_inv f" and "(w, rid) \<in> set (fl_open f)"
  shows "fleet_inv (f\<lparr>fl_open := remove1 (w, rid) (fl_open f)\<rparr>)"
proof -
  have d: "distinct (map snd (fl_open f))" using assms(1) by (simp add: fleet_inv_def)
  from distinct_map_remove1 [OF assms(2) d] assms(1) show ?thesis by (auto simp: fleet_inv_def)
qed

lemma fleet_inv_elsewhere: "fleet_inv f \<Longrightarrow> queues_nothing (fl_db f) d' \<Longrightarrow> fleet_inv (f\<lparr>fl_db := d'\<rparr>)"
  unfolding fleet_inv_def queues_nothing_def by (simp, blast)

lemma fleet_inv_step: "fleet_step f f' \<Longrightarrow> fleet_inv f \<Longrightarrow> fleet_inv f'"
  by (erule fleet_stepE) (auto intro: fleet_inv_lock fleet_inv_commit fleet_inv_rollback fleet_inv_elsewhere)

lemma reachable_inv: "reachable d f \<Longrightarrow> distinct (run_ids d) \<Longrightarrow> fleet_inv f"
  by (induction rule: reachable.induct) (simp_all add: fleet_inv_def [of "\<lparr>fl_db = d, fl_open = [], fl_claims = []\<rparr>"] fleet_inv_step)

text \<open>C12. However the transactions of any number of workers interleave, with each other and
  with the rest of the platform, no run is ever claimed twice or by two workers, unless something
  queues it again.\<close>

theorem no_double_claim:
  assumes "distinct (run_ids d)" and "reachable d f"
  shows "distinct (map snd (fl_claims f)) \<and>
    (\<forall>w rid. (w, rid) \<in> set (fl_claims f) \<longrightarrow> rid \<notin> snd ` set (fl_open f))"
proof -
  have inv: "distinct (map snd (fl_open f) @ map snd (fl_claims f))"
    using reachable_inv [OF assms(2,1)] by (simp add: fleet_inv_def)
  have "rid \<notin> snd ` set (fl_open f)" if "(w, rid) \<in> set (fl_claims f)" for w rid
  proof -
    have "rid \<in> snd ` set (fl_claims f)" using that by (force simp: image_iff)
    then show ?thesis using inv by auto
  qed
  then show ?thesis using inv by simp
qed

theorem no_double_claim_witness:
  "\<exists>f. reachable two_queued f \<and> length (fl_claims f) = 2 \<and> distinct (map snd (fl_claims f))"
proof -
  let ?f0 = "\<lparr>fl_db = two_queued, fl_open = [], fl_claims = []\<rparr>"
  let ?f1 = "?f0\<lparr>fl_open := [(''w1'', ''run-2'')]\<rparr>"
  let ?f2 = "?f1\<lparr>fl_open := [(''w2'', ''run-1''), (''w1'', ''run-2'')]\<rparr>"
  let ?f3 = "?f2\<lparr>fl_db := claim_run ''w1'' ''run-2'' two_queued, fl_open := [(''w2'', ''run-1'')],
    fl_claims := [(''w1'', ''run-2'')]\<rparr>"
  let ?f4 = "?f3\<lparr>fl_db := claim_run ''w2'' ''run-1'' (claim_run ''w1'' ''run-2'' two_queued), fl_open := [],
    fl_claims := [(''w2'', ''run-1''), (''w1'', ''run-2'')]\<rparr>"
  have "reachable two_queued ?f0" by (rule reachable.start)
  moreover have "fleet_step ?f0 ?f1"
    using fleet_step.lock [of ?f0 "sample_run [] \<lparr>ar_audit_run_id := ''run-2'', created_at := 3\<rparr>" "''w1''"]
    by (simp add: next_queued_def two_queued_def empty_db_def sample_run_def)
  moreover have "fleet_step ?f1 ?f2"
    using fleet_step.lock [of ?f1 "sample_run [] \<lparr>created_at := 7\<rparr>" "''w2''"]
    by (simp add: next_queued_def two_queued_def empty_db_def sample_run_def)
  moreover have "fleet_step ?f2 ?f3" using fleet_step.commit [of "''w1''" "''run-2''" ?f2] by simp
  moreover have "fleet_step ?f3 ?f4" using fleet_step.commit [of "''w2''" "''run-1''" ?f3] by simp
  ultimately have r: "reachable two_queued ?f4" by (blast intro: reachable.step)
  have "distinct (run_ids two_queued)" by (simp add: two_queued_def empty_db_def sample_run_def)
  from no_double_claim [OF this r] r show ?thesis by (intro exI [of _ ?f4]) simp
qed

section \<open>Recovery\<close>

text \<open>The row of an interrupted run.\<close>

definition interrupted_row :: "string \<Rightarrow> time \<Rightarrow> time \<Rightarrow> audit_run \<Rightarrow> audit_run" where
  "interrupted_row service_name now t r = stamped t r (r\<lparr>ar_status := ''failed'',
     ar_config := interrupted_pipeline_config service_name now (recovery_reason service_name) (ar_config r)\<rparr>)"

lemma find_run_interrupt:
  "find_run (interrupt_run s now row d) rid =
    (if rid = ar_audit_run_id row then map_option (interrupted_row s now (db_now d)) (find_run d rid)
     else find_run d rid)"
  by (simp add: interrupt_run_def find_run_write_same find_run_write_other interrupted_row_def [abs_def])

lemma interrupt_frame [simp]:
  "run_ids (interrupt_run s now row d) = run_ids d"
  "db_now (interrupt_run s now row d) = db_now d"
  "worker_heartbeats (interrupt_run s now row d) = worker_heartbeats d"
  by (simp_all add: interrupt_run_def frame_simps)

lemma recover_fold_frame:
  "run_ids (snd (fold (recover_row s b now ttl ws) rows acc)) = run_ids (snd acc)"
  "db_now (snd (fold (recover_row s b now ttl ws) rows acc)) = db_now (snd acc)"
  "worker_heartbeats (snd (fold (recover_row s b now ttl ws) rows acc)) = worker_heartbeats (snd acc)"
  by (induction rows arbitrary: acc) (simp_all add: recover_row_def split: recovery.split)

lemma recover_row_find:
  "find_run (snd (recover_row s b now ttl ws row acc)) rid =
    (if rid = ar_audit_run_id row \<and> recovery_of b now ttl ws row = Interrupted
     then map_option (interrupted_row s now (db_now (snd acc))) (find_run (snd acc) rid)
     else find_run (snd acc) rid)"
  by (simp add: recover_row_def find_run_interrupt split: recovery.split)

lemma recover_row_now [simp]: "db_now (snd (recover_row s b now ttl ws row acc)) = db_now (snd acc)"
  by (simp add: recover_row_def split: recovery.split)

lemma recover_fold_find:
  assumes "distinct (map ar_audit_run_id rows)"
  shows "find_run (snd (fold (recover_row s b now ttl ws) rows acc)) rid =
    (case row_find ar_audit_run_id rid rows of
       None \<Rightarrow> find_run (snd acc) rid
     | Some row \<Rightarrow>
         if recovery_of b now ttl ws row = Interrupted
         then map_option (interrupted_row s now (db_now (snd acc))) (find_run (snd acc) rid)
         else find_run (snd acc) rid)"
  using assms
proof (induction rows arbitrary: acc)
  case Nil
  show ?case by simp
next
  case (Cons row rows)
  have fresh: "row_find ar_audit_run_id rid rows = None" if "ar_audit_run_id row = rid"
    using Cons.prems that by (simp add: row_find_None)
  have IH: "find_run (snd (fold (recover_row s b now ttl ws) rows (recover_row s b now ttl ws row acc))) rid =
    (case row_find ar_audit_run_id rid rows of
       None \<Rightarrow> find_run (snd (recover_row s b now ttl ws row acc)) rid
     | Some row' \<Rightarrow>
         if recovery_of b now ttl ws row' = Interrupted
         then map_option (interrupted_row s now (db_now (snd acc))) (find_run (snd (recover_row s b now ttl ws row acc)) rid)
         else find_run (snd (recover_row s b now ttl ws row acc)) rid)"
    using Cons.IH [of "recover_row s b now ttl ws row acc"] Cons.prems by (simp split: option.splits)
  show ?case
    using fresh by (cases "ar_audit_run_id row = rid") (auto simp: IH recover_row_find split: option.splits)
qed

lemma recovered_find:
  assumes "distinct (run_ids d)" and "find_run d rid = Some r"
  shows "find_run (snd (recover_interrupted_pipelines s b ttl now d)) rid =
    Some (if recovery_of b now ttl (worker_heartbeats d) r = Interrupted
          then interrupted_row s now (db_now d) r else r)"
  using recover_fold_find [OF assms(1), of s b now ttl "worker_heartbeats d" _ rid] assms(2)
  by (simp add: recover_interrupted_pipelines_def find_run_def)

lemma find_none_iff: "List.find P xs = None \<longleftrightarrow> (\<forall>x \<in> set xs. \<not> P x)"
  by (induction xs) auto

lemma recovery_interrupted_iff:
  "recovery_of b now ttl ws r = Interrupted \<longleftrightarrow>
     is_active_pipeline b (ar_status r) (ar_config r) \<and> (\<forall>w \<in> set ws. \<not> serves_run now ttl r w)"
  unfolding find_none_iff [symmetric]
  by (simp add: recovery_of_def active_worker_for_pipeline_def split: option.split)

text \<open>An interrupted run counts as active no more.\<close>

lemma interrupted_row_simps [simp]:
  "ar_status (interrupted_row s now t r) = ''failed''"
  "ar_audit_run_id (interrupted_row s now t r) = ar_audit_run_id r"
  "ar_config (interrupted_row s now t r) =
     interrupted_pipeline_config s now (recovery_reason s) (ar_config r)"
  by (simp_all add: interrupted_row_def) (simp add: stamped_def)

lemma interrupted_inactive: "\<not> is_active_pipeline b ''failed'' (interrupted_pipeline_config s now reason c)"
  by (simp add: is_active_pipeline_def interrupted_pipeline_config_def Let_def active_statuses_def
      ACTIVE_AUDIT_STATUSES_def)

lemma interrupted_unrequested:
  "\<not> truthy (dget (config_part (interrupted_pipeline_config s now reason c) ''runtime_control'') ''cancel_requested'')"
  by (simp add: interrupted_pipeline_config_def Let_def)

text \<open>C30. Recovery fails exactly the runs that count as active and that no fresh heartbeat
  serves: such a run ends as failed, with its pipeline state failed and no request to cancel it
  left; every other run keeps its row.\<close>

theorem recovery_fails_orphans:
  assumes "distinct (run_ids d)" and "find_run d rid = Some r"
    and "recover_interrupted_pipelines s b ttl now d = (res, d')"
  shows "if is_active_pipeline b (ar_status r) (ar_config r) \<and> \<not> (\<exists>w \<in> set (worker_heartbeats d). serves_run now ttl r w)
    then run_status d' rid = Some ''failed'' \<and> dget (pipeline_state_of d' rid) ''status'' = PStr ''failed'' \<and>
      dget (pipeline_state_of d' rid) ''stage'' = PStr ''interrupted'' \<and> \<not> is_cancel_requested rid d'
    else find_run d' rid = Some r"
proof -
  have d': "d' = snd (recover_interrupted_pipelines s b ttl now d)" by (simp add: assms(3))
  have "recovery_of b now ttl (worker_heartbeats d) r = Interrupted \<longleftrightarrow>
      is_active_pipeline b (ar_status r) (ar_config r) \<and> \<not> (\<exists>w \<in> set (worker_heartbeats d). serves_run now ttl r w)"
    unfolding recovery_interrupted_iff by blast
  then show ?thesis
    using recovered_find [OF assms(1,2), of s b ttl now]
    by (auto simp: d' run_status_def pipeline_state_of_def run_config_def is_cancel_requested_def run_control_def
        interrupted_unrequested) (simp_all add: interrupted_pipeline_config_def Let_def)
qed

definition orphan_db :: db where
  "orphan_db = empty_db\<lparr>audit_runs := [sample_run [] \<lparr>ar_status := ''running''\<rparr>]\<rparr>"

theorem recovery_fails_orphans_witness:
  "run_status (snd (recover_interrupted_pipelines ''workflow-worker'' False 30000000 0 orphan_db)) ''run-1'' = Some ''failed''"
proof -
  have d: "distinct (run_ids orphan_db)" by (simp add: orphan_db_def empty_db_def)
  have f: "find_run orphan_db ''run-1'' = Some (sample_run [] \<lparr>ar_status := ''running''\<rparr>)"
    by (simp add: find_run_def orphan_db_def empty_db_def sample_run_def)
  have "worker_heartbeats orphan_db = []" by (simp add: orphan_db_def empty_db_def)
  moreover obtain res d' where r: "recover_interrupted_pipelines ''workflow-worker'' False 30000000 0 orphan_db = (res, d')"
    by (cases "recover_interrupted_pipelines ''workflow-worker'' False 30000000 0 orphan_db")
  ultimately show ?thesis
    using recovery_fails_orphans [OF d f r] by (simp add: claimed_is_active)
qed

lemma recover_fold_idle:
  "\<forall>row \<in> set rows. recovery_of b now ttl ws row \<noteq> Interrupted \<Longrightarrow>
   snd (fold (recover_row s b now ttl ws) rows acc) = snd acc \<and>
   rr_runs (fst (fold (recover_row s b now ttl ws) rows acc)) = rr_runs (fst acc)"
  by (induction rows arbitrary: acc) (auto simp: recover_row_def split: recovery.splits)

lemma recovered_rows:
  assumes "distinct (run_ids d)" and "row \<in> set (audit_runs (snd (recover_interrupted_pipelines s b ttl now d)))"
  shows "recovery_of b now' ttl' ws' row \<noteq> Interrupted \<or>
    (row \<in> set (audit_runs d) \<and> recovery_of b now ttl (worker_heartbeats d) row \<noteq> Interrupted)"
proof -
  let ?d' = "snd (recover_interrupted_pipelines s b ttl now d)"
  have ids: "run_ids ?d' = run_ids d"
    by (simp add: recover_interrupted_pipelines_def recover_fold_frame)
  have "ar_audit_run_id row \<in> set (run_ids ?d')" using assms(2) by simp
  then obtain r where r: "r \<in> set (audit_runs d)" "ar_audit_run_id r = ar_audit_run_id row"
    unfolding ids by (metis (mono_tags) image_iff list.set_map)
  have "find_run d (ar_audit_run_id row) = Some r" using find_run_distinct [OF assms(1) r(1)] r(2) by simp
  moreover have "find_run ?d' (ar_audit_run_id row) = Some row"
    using find_run_distinct [of ?d'] assms ids by simp
  ultimately have "row = (if recovery_of b now ttl (worker_heartbeats d) r = Interrupted
      then interrupted_row s now (db_now d) r else r)"
    using recovered_find [OF assms(1), of _ r s b ttl now] by simp
  then show ?thesis using r(1) by (auto simp: recovery_interrupted_iff interrupted_inactive split: if_splits)
qed

text \<open>Recovery is idempotent: running it again with the same clock and heartbeats recovers
  nothing and changes nothing.\<close>

lemma recovery_idempotent:
  assumes "distinct (run_ids d)" and "recover_interrupted_pipelines s b ttl now d = (res, d')"
  shows "rr_runs (fst (recover_interrupted_pipelines s b ttl now d')) = [] \<and>
    snd (recover_interrupted_pipelines s b ttl now d') = d'"
proof -
  have d': "d' = snd (recover_interrupted_pipelines s b ttl now d)" by (simp add: assms(2))
  have ws: "worker_heartbeats d' = worker_heartbeats d"
    by (simp add: d' recover_interrupted_pipelines_def recover_fold_frame)
  have "recovery_of b now ttl (worker_heartbeats d') row \<noteq> Interrupted" if "row \<in> set (audit_runs d')" for row
    using recovered_rows [OF assms(1), of row s b ttl now now ttl "worker_heartbeats d"] that unfolding d' [symmetric] ws
    by blast
  then show ?thesis
    using recover_fold_idle [of "audit_runs d'" b now ttl "worker_heartbeats d'" s]
    by (simp add: recover_interrupted_pipelines_def)
qed

lemma recovery_idempotent_witness:
  "rr_runs (fst (recover_interrupted_pipelines ''w'' False 1 0
     (snd (recover_interrupted_pipelines ''w'' False 1 0 orphan_db)))) = []"
proof -
  have "distinct (run_ids orphan_db)" by (simp add: orphan_db_def empty_db_def)
  from recovery_idempotent [OF this, of "''w''" False 1 0] show ?thesis by (metis prod.collapse)
qed

text \<open>A run that a worker has claimed and not yet named in a heartbeat of its own is failed
  by any worker that starts then, however fresh the first worker's heartbeat is: the claim writes
  no heartbeat.\<close>

lemma claim_before_heartbeat_is_failed:
  assumes "distinct (run_ids d)"
    and "claim_next_queued_pipeline locked worker_id d = (Some rid, d1)"
    and "\<And>w. w \<in> set (worker_heartbeats d) \<Longrightarrow> wh_current_audit_run_id w \<noteq> Some rid"
  shows "run_status (snd (recover_interrupted_pipelines s False ttl now d1)) rid = Some ''failed''"
proof -
  obtain r where r: "next_queued locked d = Some r" "rid = ar_audit_run_id r" "d1 = claim_run worker_id rid d"
    using assms(2) by (auto simp: claim_next_queued_pipeline_def split: option.splits)
  have "find_run d rid = Some r"
    using find_run_distinct [OF assms(1) next_queued_Some(1) [OF r(1)]] r(2) by simp
  then obtain r1 where r1: "find_run d1 rid = Some r1" "ar_status r1 = ''running''"
    by (auto simp: r(3) find_run_claim)
  then have "ar_audit_run_id r1 = rid" by (auto simp: find_run_def dest: row_find_Some)
  then have "recovery_of False now ttl (worker_heartbeats d1) r1 = Interrupted"
    using assms(3) r1(2) by (auto simp: recovery_interrupted_iff r(3) serves_run_def claimed_is_active)
  moreover have "distinct (run_ids d1)" using assms(1) by (simp add: r(3))
  ultimately show ?thesis using recovered_find [of d1 rid r1 s False ttl now] r1(1) by (simp add: run_status_def)
qed

definition idle_worker :: worker_heartbeat where
  "idle_worker = \<lparr>created_at = 0, updated_at = 0, wh_worker_id = ''w1'', wh_service_name = ''workflow-worker'',
     wh_hostname = ''host'', wh_status = ''idle'', wh_last_seen_at = 0, wh_current_audit_run_id = None, wh_metadata = []\<rparr>"

lemma claim_before_heartbeat_is_failed_witness:
  "run_status (snd (recover_interrupted_pipelines ''workflow-worker'' False 30000000 0
     (snd (claim_next_queued_pipeline {} ''w1'' (two_queued\<lparr>worker_heartbeats := [idle_worker]\<rparr>))))) ''run-2'' = Some ''failed''"
proof -
  let ?d = "two_queued\<lparr>worker_heartbeats := [idle_worker]\<rparr>"
  have "distinct (run_ids ?d)" by (simp add: two_queued_def empty_db_def sample_run_def)
  moreover have "claim_next_queued_pipeline {} ''w1'' ?d = (Some ''run-2'', snd (claim_next_queued_pipeline {} ''w1'' ?d))"
    by (simp add: claim_next_queued_pipeline_def next_queued_def two_queued_def empty_db_def sample_run_def)
  ultimately show ?thesis by (rule claim_before_heartbeat_is_failed) (auto simp: idle_worker_def)
qed

section \<open>Heartbeats\<close>

lemma set_row_upd_other:
  assumes "\<And>r. key (f r) = key r" and "key r \<noteq> k"
  shows "r \<in> set (row_upd key k f rows) \<longleftrightarrow> r \<in> set rows"
  using assms by (induction rows) auto

lemma row_find_filter: "(\<And>r. key r = k \<Longrightarrow> P r) \<Longrightarrow> row_find key k (filter P rows) = row_find key k rows"
  by (induction rows) auto

lemma distinct_keys_filter: "distinct (map key rows) \<Longrightarrow> distinct (map key (filter P rows))"
  by (induction rows) auto

lemma stamped_heartbeat [simp]:
  "wh_worker_id (stamped t r r') = wh_worker_id r'"
  "wh_status (stamped t r r') = wh_status r'"
  "wh_last_seen_at (stamped t r r') = wh_last_seen_at r'"
  "wh_current_audit_run_id (stamped t r r') = wh_current_audit_run_id r'"
  by (auto simp: stamped_def)

lemma upsert_heartbeat_row:
  assumes "distinct (map wh_worker_id (worker_heartbeats d))"
  shows "distinct (map wh_worker_id (worker_heartbeats (upsert_heartbeat w service host status run meta seen d)))"
    and "\<exists>r. row_find wh_worker_id w (worker_heartbeats (upsert_heartbeat w service host status run meta seen d)) = Some r \<and>
      wh_status r = status \<and> wh_last_seen_at r = seen \<and> wh_current_audit_run_id r = run"
    and "wh_worker_id r \<noteq> w \<Longrightarrow>
      r \<in> set (worker_heartbeats (upsert_heartbeat w service host status run meta seen d)) \<longleftrightarrow> r \<in> set (worker_heartbeats d)"
proof -
  let ?u = "upsert_heartbeat w service host status run meta seen d"
  let ?f = "\<lambda>r. stamped (db_now d) r (r\<lparr>wh_service_name := service, wh_hostname := host, wh_status := status,
      wh_last_seen_at := seen, wh_current_audit_run_id := run, wh_metadata := meta\<rparr>)"
  have key: "wh_worker_id (?f r) = wh_worker_id r" for r by simp
  have "distinct (map wh_worker_id (worker_heartbeats ?u)) \<and>
    (\<exists>r. row_find wh_worker_id w (worker_heartbeats ?u) = Some r \<and>
      wh_status r = status \<and> wh_last_seen_at r = seen \<and> wh_current_audit_run_id r = run) \<and>
    (wh_worker_id r \<noteq> w \<longrightarrow> r \<in> set (worker_heartbeats ?u) \<longleftrightarrow> r \<in> set (worker_heartbeats d))"
  proof (cases "row_find wh_worker_id w (worker_heartbeats d)")
    case None
    then have "w \<notin> wh_worker_id ` set (worker_heartbeats d)" by (simp add: row_find_None)
    with None assms show ?thesis by (auto simp: upsert_heartbeat_def row_find_append)
  next
    case (Some old)
    have rows: "worker_heartbeats ?u = row_upd wh_worker_id w ?f (worker_heartbeats d)"
      by (simp add: upsert_heartbeat_def Some)
    have "distinct (map wh_worker_id (worker_heartbeats ?u))"
      unfolding rows keys_row_upd [of wh_worker_id ?f, OF key] by (rule assms)
    moreover have "row_find wh_worker_id w (worker_heartbeats ?u) = Some (?f old)"
      unfolding rows row_find_upd_same [of wh_worker_id ?f, OF key] Some by simp
    moreover have "r \<in> set (worker_heartbeats ?u) \<longleftrightarrow> r \<in> set (worker_heartbeats d)" if "wh_worker_id r \<noteq> w"
      unfolding rows using set_row_upd_other [of wh_worker_id ?f, OF key that] .
    moreover have "wh_status (?f old) = status \<and> wh_last_seen_at (?f old) = seen \<and> wh_current_audit_run_id (?f old) = run"
      by simp
    ultimately show ?thesis by blast
  qed
  then show "distinct (map wh_worker_id (worker_heartbeats ?u))"
    "\<exists>r. row_find wh_worker_id w (worker_heartbeats ?u) = Some r \<and>
      wh_status r = status \<and> wh_last_seen_at r = seen \<and> wh_current_audit_run_id r = run"
    "wh_worker_id r \<noteq> w \<Longrightarrow> r \<in> set (worker_heartbeats ?u) \<longleftrightarrow> r \<in> set (worker_heartbeats d)"
    by blast+
qed

lemma expire_heartbeats_rows:
  "worker_heartbeats (expire_heartbeats w (worker_heartbeat_retention_cutoff seen retention) d) =
     filter (\<lambda>r. wh_worker_id r = w \<or> (\<forall>keep. retention = Some keep \<and> 0 < keep \<longrightarrow> seen - keep \<le> wh_last_seen_at r))
       (worker_heartbeats d)"
  by (auto simp: expire_heartbeats_def worker_heartbeat_retention_cutoff_def not_less intro!: filter_cong
      split: option.splits)

text \<open>Recording a heartbeat leaves exactly one row of the worker, with what was recorded;
  another worker's row is unchanged, or gone when its last heartbeat is older than the
  retention.\<close>

lemma heartbeat_recorded:
  assumes "distinct (map wh_worker_id (worker_heartbeats d))"
  shows "let d' = record_worker_heartbeat worker_id service host status run meta seen retention d
    in distinct (map wh_worker_id (worker_heartbeats d')) \<and>
       (\<exists>r. row_find wh_worker_id worker_id (worker_heartbeats d') = Some r \<and> wh_status r = status \<and>
          wh_last_seen_at r = seen \<and> wh_current_audit_run_id r = run) \<and>
       (\<forall>r. wh_worker_id r \<noteq> worker_id \<longrightarrow>
          (r \<in> set (worker_heartbeats d') \<longleftrightarrow> r \<in> set (worker_heartbeats d) \<and>
             (\<forall>keep. retention = Some keep \<and> 0 < keep \<longrightarrow> seen - keep \<le> wh_last_seen_at r)))"
  using upsert_heartbeat_row [OF assms]
  by (simp add: record_worker_heartbeat_def expire_heartbeats_rows Let_def distinct_keys_filter row_find_filter)

lemma heartbeat_recorded_witness:
  "distinct (map wh_worker_id (worker_heartbeats
     (record_worker_heartbeat ''w2'' ''workflow-worker'' ''host'' ''idle'' None [] 100 (Some 10)
        (two_queued\<lparr>worker_heartbeats := [idle_worker]\<rparr>))))"
proof -
  have "distinct (map wh_worker_id (worker_heartbeats (two_queued\<lparr>worker_heartbeats := [idle_worker]\<rparr>)))" by simp
  from heartbeat_recorded [OF this] show ?thesis unfolding Let_def by blast
qed

text \<open>The health summary counts every heartbeat row once, and it is good exactly when some
  worker that is not stopped was seen within the limit.\<close>

lemma health_counts_every_worker:
  "let h = summarize_worker_health now max_age rows
   in he_active_count h + he_stale_count h + he_stopped_count h = length rows \<and>
      (he_ok h \<longleftrightarrow> (\<exists>r. r \<in> set rows \<and> wh_status r \<in> set ACTIVE_WORKER_STATUSES \<and>
         max 0 (now - wh_last_seen_at r) \<le> max_age))"
proof -
  have "length (filter (\<lambda>w. p w \<and> a w \<le> m) ws) + length (filter (\<lambda>w. p w \<and> m < a w) ws)
      + length (filter (\<lambda>w. \<not> p w) ws) = length ws" for p :: "heartbeat_view \<Rightarrow> bool" and a and m :: int and ws
    by (induction ws) auto
  from this [of "\<lambda>w. hv_status w \<in> set ACTIVE_WORKER_STATUSES" hv_age max_age "map (worker_heartbeat_to_dict now) rows"]
  show ?thesis
    by (auto simp: summarize_worker_health_def Let_def filter_empty_conv worker_heartbeat_to_dict_def)
qed

end
