(* ===== verification/Platform_Contracts.thy ===== *)
theory Platform_Contracts
  imports Executor_Platform
begin

text \<open>
  What the platform promises about the artifacts it serves and the events it stores: paths stay
  below the artifact root, identifiers name the path they were made from, payloads are bounded,
  and a request to cancel a run is seen until it is cleared.
\<close>

section \<open>Components of a checked path\<close>

lemma sublist_join:
  "p \<in> set ps \<Longrightarrow> sublist (c # p @ [c]) (c # join [c] ps @ [c])"
proof (induction ps rule: induct_list012)
  case (2 x)
  then show ?case by simp
next
  case (3 x y zs)
  show ?case
  proof (cases "p = x")
    case True
    have "c # join [c] (x # y # zs) @ [c] = [] @ (c # x @ [c]) @ (join [c] (y # zs) @ [c])" by simp
    then show ?thesis unfolding True sublist_def by blast
  next
    case False
    then have "sublist (c # p @ [c]) (c # join [c] (y # zs) @ [c])" using 3 by simp
    then have "sublist (c # p @ [c]) ((c # x) @ (c # join [c] (y # zs) @ [c]))"
      by (metis append_assoc sublist_def)
    then show ?thesis by simp
  qed
qed simp

lemma part_is_contained: "p \<in> set (split_on c s) \<Longrightarrow> contains ([c] @ s @ [c]) ([c] @ p @ [c])"
  using sublist_join [of p "split_on c s" c] by (simp add: contains_iff_sublist join_split_on)

lemma normalize_slashes_no_backslash: "CHR 0x5C \<notin> set (normalize_slashes p)"
  by (auto simp: normalize_slashes_def replace_char_def)

section \<open>Artifacts\<close>

text \<open>A path that \<open>_validate_relative_path\<close> lets through names a place below the artifact
  root: it is relative, has no \<open>..\<close> component, and resolving it only appends its components.\<close>

lemma validated_path_confined:
  assumes "validate_relative_path s p = Inr q"
  shows "\<not> is_absolute q \<and> ''..'' \<notin> set (path_parts q) \<and>
    artifact_absolute_path s q = Inr (artifact_root s @ path_parts q)"
proof -
  have q: "\<not> is_absolute q" "\<not> contains (''/'' @ q @ ''/'') ''/../''"
    using assms by (auto simp: validate_relative_path_def Let_def rbind_Inr_iff split: if_splits)
  have "''..'' \<notin> set (split_on (CHR ''/'') q)"
    using part_is_contained [of "''..''" "CHR ''/''" q] q(2) by auto
  then have "''..'' \<notin> set (path_parts q)" by (simp add: path_parts_def)
  then show ?thesis using q(1) absolute_path_relative_clean by blast
qed

definition local_artifacts :: artifact_settings where
  "local_artifacts = \<lparr>as_root = [''data'', ''artifacts''], as_backend = ''local'', as_bucket = []\<rparr>"

lemma validated_path_confined_witness:
  "artifact_absolute_path local_artifacts ''reports/r.md'' = Inr [''data'', ''artifacts'', ''reports'', ''r.md'']"
proof -
  have "validate_relative_path local_artifacts (''reports'' @ [CHR 0x5C] @ ''r.md'') = Inr ''reports/r.md''"
    by (code_simp)
  from validated_path_confined [OF this]
  have "artifact_absolute_path local_artifacts ''reports/r.md'' = Inr (artifact_root local_artifacts @ path_parts ''reports/r.md'')"
    by blast
  also have "\<dots> = Inr [''data'', ''artifacts'', ''reports'', ''r.md'']" by code_simp
  finally show ?thesis .
qed

text \<open>Metadata is given only for a file that lies below the artifact root, at a path without
  \<open>..\<close>, whatever path was asked for, absolute ones and ones with \<open>..\<close> included.\<close>

lemma served_artifact_confined:
  assumes "metadata_for_path s fs path = Inr m" and "clean_parts (artifact_root s)"
  shows "\<exists>r f. fs_kind fs r = IsFile f \<and> prefix (artifact_root s) r \<and> ''..'' \<notin> set r \<and>
    artifact_absolute_path s path = Inr r \<and> dget m ''path'' = PStr (''/'' @ posix_of r) \<and>
    dget m ''sha256'' = PStr (file_sha256 f)"
proof -
  obtain q where q: "artifact_relative_path s path = Inr q"
    using assms(1) by (auto simp: metadata_for_path_def rbind_Inr_iff)
  note same = relative_path_absolute_again [OF q assms(2)]
  obtain r where abs: "artifact_absolute_path s q = Inr r"
    using assms(1) q by (auto simp: metadata_for_path_def rbind_Inr_iff)
  obtain f where r: "artifact_absolute_path s q = Inr r" "fs_kind fs r = IsFile f"
      "m = metadata_from_local s fs q r f None"
    using assms(1) q abs by (cases "fs_kind fs r") (auto simp: metadata_for_path_def)
  show ?thesis
    using r same absolute_path_below_root [OF r(1)] absolute_path_no_dotdot [OF r(1)]
    by (intro exI [of _ r] exI [of _ f]) (simp add: metadata_from_local_def Let_def)
qed

definition one_file :: artifact_fs where
  "one_file = \<lparr>fs_kind = (\<lambda>p. if p = [''data'', ''artifacts'', ''r.md''] then IsFile \<lparr>file_size = 1, file_sha256 = ''00'', file_mtime = PNone\<rparr> else Missing),
     fs_guess_type = (\<lambda>_. None)\<rparr>"

lemma served_artifact_confined_witness:
  "\<exists>m. metadata_for_path local_artifacts one_file ''reports/../r.md'' = Inr m \<and> dget m ''path'' = PStr ''/data/artifacts/r.md''"
proof -
  have clean: "clean_parts (artifact_root local_artifacts)" by code_simp
  have "artifact_relative_path local_artifacts ''reports/../r.md'' = Inr ''r.md''" by code_simp
  moreover have "artifact_absolute_path local_artifacts ''r.md'' = Inr [''data'', ''artifacts'', ''r.md'']" by code_simp
  ultimately obtain m where m: "metadata_for_path local_artifacts one_file ''reports/../r.md'' = Inr m"
    by (simp add: metadata_for_path_def one_file_def)
  have "artifact_absolute_path local_artifacts ''reports/../r.md'' = Inr [''data'', ''artifacts'', ''r.md'']" by code_simp
  with served_artifact_confined [OF m clean] have "dget m ''path'' = PStr ''/data/artifacts/r.md''"
    by (auto simp: posix_of_def)
  with m show ?thesis by blast
qed

text \<open>The identifier of an artifact names the path it was made from: reading it gives back
  the path with its slashes normalised, and an empty or absolute path is refused.\<close>

lemma artifact_id_roundtrip:
  assumes "\<forall>c \<in> set p. chr_code c < 128"
  shows "relative_path_for_artifact_id (artifact_id_for_relative_path p) =
    (if normalize_slashes p = [] \<or> is_absolute (normalize_slashes p) then Inl (ValueError ''invalid artifact id'')
     else Inr (normalize_slashes p))"
  unfolding artifact_id_decode [OF assms] Let_def using normalize_slashes_no_backslash [of p] by simp

lemma artifact_id_roundtrip_witness:
  "relative_path_for_artifact_id (artifact_id_for_relative_path ''reports/r.md'') = Inr ''reports/r.md''"
proof -
  have "\<forall>c \<in> set ''reports/r.md''. chr_code c < 128" by code_simp
  from artifact_id_roundtrip [OF this] show ?thesis
    by (simp add: normalize_slashes_def replace_char_def is_absolute_def starts_with_def str_strip_def strip_by_def is_ws_def)
qed

section \<open>Events and requests\<close>

text \<open>A compacted event payload is at most five containers deep and no container of it has
  more than 21 entries, whatever was reported: what an event stores is bounded.\<close>

lemma event_payload_bounded:
  "pv_depth (compact_event_payload v) \<le> 5 \<and> pv_width 21 (compact_event_payload v)"
  using compact_depth(1) [of 1200 20 0 v] compact_width(1) [of 20 1200 0 v]
  by (simp add: compact_event_payload_def)

text \<open>A request to cancel a stored run is seen by every later poll, with its reason, through
  any change of the run's status, state, summary and log, until it is cleared; after the
  clearing no poll sees it.\<close>

lemma cancel_request_seen_until_cleared:
  assumes "find_run d rid = Some r" and "reason \<noteq> []"
    and "later = (\<lambda>d. record_pipeline_event rid t p (set_pipeline_state rid stage st err (mark_audit_run_status rid x d)))"
  shows "raise_if_cancelled rid (later (request_pipeline_cancel rid reason d)) =
      (Inl (PipelineCancelled reason), later (request_pipeline_cancel rid reason d)) \<and>
    fst (raise_if_cancelled rid (later (clear_pipeline_cancel rid (request_pipeline_cancel rid reason d)))) = Inr ()"
proof -
  have seen: "is_cancel_requested rid (request_pipeline_cancel rid reason d)"
    "cancel_reason rid (request_pipeline_cancel rid reason d) = Some reason"
    using request_then_seen [OF assms(1), of reason] assms(2) by simp_all
  have "cancel_reason rid (later e) = cancel_reason rid e" for e
    by (simp add: assms(3) cancel_reason_def)
  moreover obtain r' where "find_run (request_pipeline_cancel rid reason d) rid = Some r'"
    using assms(1) by (simp add: request_pipeline_cancel_def Let_def find_run_write_same)
  ultimately show ?thesis
    using seen clear_then_unseen assms(2) by (simp add: raise_if_cancelled_def assms(3))
qed

lemma cancel_request_seen_until_cleared_witness:
  "fst (raise_if_cancelled ''run-1'' (record_pipeline_event ''run-1'' ''x'' [] (set_pipeline_state ''run-1'' ''s'' ''running'' None
     (mark_audit_run_status ''run-1'' ''running'' (request_pipeline_cancel ''run-1'' ''stop'' sample_db))))) =
   Inl (PipelineCancelled ''stop'')"
proof -
  have "find_run sample_db ''run-1'' = Some (sample_run sample_config)"
    by (simp add: find_run_def sample_db_def empty_db_def sample_run_def)
  from cancel_request_seen_until_cleared [OF this _ refl, of "''stop''" "''x''" "[]" "''s''" "''running''" None "''running''"]
  show ?thesis by simp
qed

end
