(* ===== verification/Whiteboard_Views.thy ===== *)
theory Whiteboard_Views
  imports Executor_Platform
begin

text \<open>
  The whiteboard service (\<open>services/platform/app/services/whiteboard.py\<close>), first part: the JSON
  views of its rows and the static methods that clean up what agents send.
\<close>

section \<open>Views\<close>

definition wb_attachment_to_dict :: "whiteboard_attachment \<Rightarrow> dict" where
  "wb_attachment_to_dict r =
     [(''attachment_id'', PStr (wa_attachment_id r)),
      (''audit_run_id'', PStr (wa_audit_run_id r)),
      (''project_id'', PStr (wa_project_id r)),
      (''card_id'', PStr (wa_card_id r)),
      (''path'', PStr (wa_path r)),
      (''label'', opt_str (wa_label r)),
      (''content_type'', opt_str (wa_content_type r)),
      (''metadata'', PDict (wa_metadata r)),
      (''created_at'', pytime (created_at r))]"

definition wb_card_to_dict :: "whiteboard_card \<Rightarrow> pyval list \<Rightarrow> dict" where
  "wb_card_to_dict r attachments =
     [(''card_id'', PStr (wc_card_id r)),
      (''audit_run_id'', PStr (wc_audit_run_id r)),
      (''project_id'', PStr (wc_project_id r)),
      (''title'', PStr (wc_title r)),
      (''card_type'', PStr (wc_card_type r)),
      (''status'', PStr (wc_status r)),
      (''author'', opt_str (wc_author r)),
      (''agent_run_id'', opt_str (wc_agent_run_id r)),
      (''event_time'', opt_time (wc_event_time r)),
      (''content'', opt_str (wc_content r)),
      (''confidence'', opt_str (wc_confidence r)),
      (''finding_id'', opt_str (wc_finding_id r)),
      (''file_path'', opt_str (wc_file_path r)),
      (''line_start'', opt_int (wc_line_start r)),
      (''line_end'', opt_int (wc_line_end r)),
      (''expected_predecessors'', PList (map PDict (wc_expected_predecessors r))),
      (''possible_successors'', PList (map PDict (wc_possible_successors r))),
      (''requirements'', PList (wc_requirements r)),
      (''metadata'', PDict (wc_metadata r)),
      (''attachments'', PList attachments),
      (''created_at'', pytime (created_at r)),
      (''updated_at'', pytime (updated_at r))]"

definition wb_edge_to_dict :: "whiteboard_edge \<Rightarrow> dict" where
  "wb_edge_to_dict r =
     [(''edge_id'', PStr (we_edge_id r)),
      (''audit_run_id'', PStr (we_audit_run_id r)),
      (''project_id'', PStr (we_project_id r)),
      (''source_card_id'', PStr (we_source_card_id r)),
      (''target_card_id'', PStr (we_target_card_id r)),
      (''edge_type'', PStr (we_edge_type r)),
      (''author'', opt_str (we_author r)),
      (''agent_run_id'', opt_str (we_agent_run_id r)),
      (''rationale'', opt_str (we_rationale r)),
      (''metadata'', PDict (we_metadata r)),
      (''created_at'', pytime (created_at r))]"

definition wb_note_to_dict :: "whiteboard_note \<Rightarrow> dict" where
  "wb_note_to_dict r =
     [(''note_id'', PStr (wn_note_id r)),
      (''audit_run_id'', PStr (wn_audit_run_id r)),
      (''project_id'', PStr (wn_project_id r)),
      (''card_id'', opt_str (wn_card_id r)),
      (''author'', opt_str (wn_author r)),
      (''agent_run_id'', opt_str (wn_agent_run_id r)),
      (''content'', PStr (wn_content r)),
      (''metadata'', PDict (wn_metadata r)),
      (''created_at'', pytime (created_at r))]"

definition wb_task_to_dict :: "whiteboard_task \<Rightarrow> dict" where
  "wb_task_to_dict r =
     [(''task_id'', PStr (wt_task_id r)),
      (''audit_run_id'', PStr (wt_audit_run_id r)),
      (''project_id'', PStr (wt_project_id r)),
      (''gap_card_id'', opt_str (wt_gap_card_id r)),
      (''card_id'', opt_str (wt_card_id r)),
      (''agent_role'', PStr (wt_agent_role r)),
      (''agent_name'', PStr (wt_agent_name r)),
      (''agent_run_id'', opt_str (wt_agent_run_id r)),
      (''parent_task_id'', opt_str (wt_parent_task_id r)),
      (''root_task_id'', opt_str (wt_root_task_id r)),
      (''wait_reason'', opt_str (wt_wait_reason r)),
      (''wake_event_id'', opt_str (wt_wake_event_id r)),
      (''task_group'', opt_str (wt_task_group r)),
      (''requested_by_agent_run_id'', opt_str (wt_requested_by_agent_run_id r)),
      (''status'', PStr (wt_status r)),
      (''round_index'', PInt (wt_round_index r)),
      (''attempt_index'', PInt (wt_attempt_index r)),
      (''prompt'', opt_str (wt_prompt r)),
      (''result'', PDict (wt_result r)),
      (''created_at'', pytime (created_at r)),
      (''updated_at'', pytime (updated_at r))]"

definition wb_event_to_dict :: "whiteboard_event \<Rightarrow> dict" where
  "wb_event_to_dict r =
     [(''event_id'', PStr (wv_event_id r)),
      (''audit_run_id'', PStr (wv_audit_run_id r)),
      (''project_id'', PStr (wv_project_id r)),
      (''entity_type'', PStr (wv_entity_type r)),
      (''entity_id'', PStr (wv_entity_id r)),
      (''event_type'', PStr (wv_event_type r)),
      (''summary'', opt_str (wv_summary r)),
      (''payload'', PDict (wv_payload r)),
      (''created_at'', pytime (created_at r)),
      (''updated_at'', pytime (updated_at r))]"

definition wb_subscription_to_dict :: "whiteboard_subscription \<Rightarrow> dict" where
  "wb_subscription_to_dict r =
     [(''subscription_id'', PStr (ws_subscription_id r)),
      (''audit_run_id'', PStr (ws_audit_run_id r)),
      (''project_id'', PStr (ws_project_id r)),
      (''subscriber_task_id'', opt_str (ws_subscriber_task_id r)),
      (''subscriber_agent_run_id'', opt_str (ws_subscriber_agent_run_id r)),
      (''filter'', PDict (ws_filter r)),
      (''cursor_event_id'', opt_str (ws_cursor_event_id r)),
      (''status'', PStr (ws_status r)),
      (''created_at'', pytime (created_at r)),
      (''updated_at'', pytime (updated_at r))]"

definition wb_notification_to_dict :: "whiteboard_notification \<Rightarrow> dict" where
  "wb_notification_to_dict r =
     [(''notification_id'', PStr (wno_notification_id r)),
      (''audit_run_id'', PStr (wno_audit_run_id r)),
      (''project_id'', PStr (wno_project_id r)),
      (''event_id'', PStr (wno_event_id r)),
      (''subscription_id'', PStr (wno_subscription_id r)),
      (''subscriber_task_id'', opt_str (wno_subscriber_task_id r)),
      (''subscriber_agent_run_id'', opt_str (wno_subscriber_agent_run_id r)),
      (''status'', PStr (wno_status r)),
      (''claimed_by_agent_run_id'', opt_str (wno_claimed_by_agent_run_id r)),
      (''lease_expires_at'', opt_time (wno_lease_expires_at r)),
      (''attempt_count'', PInt (wno_attempt_count r)),
      (''summary'', opt_str (wno_summary r)),
      (''payload'', PDict (wno_payload r)),
      (''created_at'', pytime (created_at r)),
      (''updated_at'', pytime (updated_at r))]"

definition wb_schedule_request_to_dict :: "whiteboard_schedule_request \<Rightarrow> dict" where
  "wb_schedule_request_to_dict r =
     [(''request_id'', PStr (wsr_request_id r)),
      (''audit_run_id'', PStr (wsr_audit_run_id r)),
      (''project_id'', PStr (wsr_project_id r)),
      (''requested_by_task_id'', opt_str (wsr_requested_by_task_id r)),
      (''requested_by_agent_run_id'', opt_str (wsr_requested_by_agent_run_id r)),
      (''suggested_agent_name'', opt_str (wsr_suggested_agent_name r)),
      (''goal'', PStr (wsr_goal r)),
      (''reason'', opt_str (wsr_reason r)),
      (''related_card_ids'', PList (map PStr (wsr_related_card_ids r))),
      (''status'', PStr (wsr_status r)),
      (''decision'', PDict (wsr_decision r)),
      (''task_id'', opt_str (wsr_task_id r)),
      (''created_at'', pytime (created_at r)),
      (''updated_at'', pytime (updated_at r))]"

text \<open>
  The view of a row that is not flushed yet: the columns the server fills in, its time stamps,
  are still unset.
\<close>

definition unflushed :: "dict \<Rightarrow> dict" where
  "unflushed d = map (\<lambda>(k, v). (k, if k = ''created_at'' \<or> k = ''updated_at'' then PNone else v)) d"

section \<open>Cleaning up input\<close>

definition WHITEBOARD_EDGE_TYPES :: "string list" where
  "WHITEBOARD_EDGE_TYPES = [''blocks'', ''contradicts'', ''duplicates'', ''precedes'', ''refines'', ''supports'']"

definition WHITEBOARD_LINK_STATUSES :: "string list" where
  "WHITEBOARD_LINK_STATUSES = [''not_ready'', ''finding'', ''not_found'', ''hint'', ''impossible'']"

definition WHITEBOARD_AGENT_BY_GAP_TYPE :: "(string \<times> string \<times> string) list" where
  "WHITEBOARD_AGENT_BY_GAP_TYPE =
     [(''source'', ''source-sink-finder'', template_of ''source-sink-finder''),
      (''predecessor'', ''source-sink-finder'', template_of ''source-sink-finder''),
      (''successor'', ''source-sink-finder'', template_of ''source-sink-finder''),
      (''validation'', ''validator'', template_of ''validator''),
      (''judgement'', ''judger'', template_of ''judger''),
      (''poc'', ''poc-writer'', template_of ''poc-writer''),
      (''poc-verification'', ''poc-verifier'', template_of ''poc-verifier'')]"

definition optional_str :: "pyval \<Rightarrow> nat \<Rightarrow> string option" where
  "optional_str value limit =
     (if value = PNone then None
      else let text = str_strip (py_str value) in if text = [] then None else Some (take limit text))"

definition safe_token :: "pyval \<Rightarrow> string \<Rightarrow> string" where
  "safe_token value fallback =
     (let text = replace_char (CHR ''_'') (CHR ''-'') (str_lower (str_strip (py_str (por value (PStr [])))));
          text = strip_by (\<lambda>c. c = CHR ''-'') (filter (\<lambda>c. is_alnum c \<or> c = CHR ''-'') text)
      in if take 64 text = [] then fallback else take 64 text)"

text \<open>\<open>fromiso\<close> is \<open>datetime.fromisoformat\<close>, with None for its \<open>ValueError\<close>.\<close>

definition parse_event_time :: "(string \<Rightarrow> time option) \<Rightarrow> time \<Rightarrow> pyval \<Rightarrow> time" where
  "parse_event_time fromiso now value =
     (if \<not> truthy value then now
      else case fromiso (replace_Z (py_str value)) of None \<Rightarrow> now | Some t \<Rightarrow> t)"

definition attachment_prefixes :: "string list" where
  "attachment_prefixes = [''findings/'', ''agent-runs/'', ''reports/'', ''whiteboards/'', ''mcp-runs/'', ''workspace/'']"

text \<open>\<open>PurePosixPath(p).parts\<close> of a relative path are its components but empty ones and \<open>.\<close>.\<close>

definition validate_attachment_path :: "string \<Rightarrow> string res" where
  "validate_attachment_path path =
     (let normalized = replace_char (CHR 0x5C) (CHR ''/'') (str_strip path)
      in if normalized = [] \<or> starts_with normalized ''/'' \<or> contains normalized ''://''
         then Inl (ValueError ''attachment path must be a relative workspace or artifact path'')
         else if list_ex (\<lambda>part. part \<in> {[], ''.'', ''..''}) (path_parts normalized)
         then Inl (ValueError ''attachment path contains unsafe segments'')
         else if \<not> list_ex (starts_with normalized) attachment_prefixes
         then Inl (ValueError ''attachment path must start with one of the allowed prefixes'')
         else Inr normalized)"

text \<open>\<open>[str(x).strip() for x in v or [] if str(x).strip()]\<close>.\<close>

definition stripped_strs :: "pyval \<Rightarrow> string list res" where
  "stripped_strs v =
     rbind (py_iter (por v (PList []))) (\<lambda>items. Inr (filter (\<lambda>s. s \<noteq> []) (map (str_strip \<circ> py_str) items)))"

definition link_status :: "pyval \<Rightarrow> string" where
  "link_status v =
     (let status = replace_char (CHR '' '') (CHR ''_'') (replace_char (CHR ''-'') (CHR ''_'')
            (str_lower (str_strip (py_str (por v (PStr ''not_ready''))))))
      in if status \<in> set WHITEBOARD_LINK_STATUSES then status else ''not_ready'')"

definition normalize_link_candidate :: "dict \<Rightarrow> dict res" where
  "normalize_link_candidate raw =
     rbind (stripped_strs (dget raw ''card_ids'')) (\<lambda>card_ids.
     rbind (py_dict (por (dget raw ''metadata'') (PDict []))) (\<lambda>metadata. Inr
       [(''title'', opt_str (optional_str (dget raw ''title'') 255)),
        (''card_ids'', PList (map PStr (take 50 card_ids))),
        (''status'', PStr (link_status (dget raw ''status''))),
        (''agent_run_id'', opt_str (optional_str (por (dget raw ''agent_run_id'') (dget raw ''agent_id'')) 128)),
        (''rationale'', opt_str (optional_str (dget raw ''rationale'') 2000)),
        (''metadata'', PDict metadata)]))"

fun normalize_link_items :: "pyval list \<Rightarrow> dict list res" where
  "normalize_link_items [] = Inr []"
| "normalize_link_items (item # items) =
     (case (case item of PStr s \<Rightarrow> Some [(''title'', PStr s)] | PDict d \<Rightarrow> Some d | _ \<Rightarrow> None) of
        None \<Rightarrow> normalize_link_items items
      | Some raw \<Rightarrow>
          rbind (normalize_link_candidate raw) (\<lambda>c. rbind (normalize_link_items items) (\<lambda>cs.
            Inr (if truthy (dget c ''title'') \<or> truthy (dget c ''card_ids'') \<or> truthy (dget c ''rationale'')
                 then c # cs else cs))))"

definition normalize_link_candidates :: "pyval \<Rightarrow> dict list res" where
  "normalize_link_candidates value = rbind (py_iter (por value (PList []))) normalize_link_items"

definition evidence_summary :: "whiteboard_card list \<Rightarrow> string" where
  "evidence_summary cards =
     (let titles = map wc_title (take 5 cards)
      in if titles \<noteq> [] then ''Whiteboard chain: '' @ join '' -> '' titles else ''Whiteboard chain evidence'')"

text \<open>
  \<open>_card_has_candidate_status\<close> asks each of the two columns whether it is a dictionary; both are
  lists.
\<close>

definition card_has_candidate_status :: "whiteboard_card \<Rightarrow> string \<Rightarrow> bool" where
  "card_has_candidate_status row status =
     (let normalized = replace_char (CHR '' '') (CHR ''_'') (replace_char (CHR ''-'') (CHR ''_'')
            (str_lower (str_strip status)))
      in list_ex (\<lambda>group. case group of
             PDict d \<Rightarrow> str_lower (py_str (por (dget d ''status'') (PStr []))) = normalized
           | _ \<Rightarrow> False)
           [PList (map PDict (wc_expected_predecessors row)), PList (map PDict (wc_possible_successors row))])"

end
