(* ===== verification/Whiteboard_Service.thy ===== *)
theory Whiteboard_Service
  imports Whiteboard_Views "HOL-Library.List_Lexorder" "HOL-Library.Char_ord" "HOL-Library.Product_Lexorder"
begin

text \<open>
  The operations of \<open>WhiteboardService\<close>. Each works in one database session: what it wrote is
  there after its commit, and nothing is when it raises before. Most write the run's snapshot
  file after the commit; a failure of that write leaves the commit in place, so an operation is
  a sequence of \<open>commit\<close>s and file writes.

  The rows an operation adds carry the time of the database clock, which stands still inside an
  operation. \<open>env\<close> has what is outside the repository: the file system below the artifact
  root, and the parser of ISO dates.
\<close>

record wb_env =
  env_artifacts :: artifact_settings
  env_fs :: artifact_fs
  env_stat :: "pyval \<Rightarrow> artifact_file"
  env_fromiso :: "string \<Rightarrow> time option"

type_synonym 'a wtx = "(db, 'a) tx"
type_synonym 'a wop = "(db, 'a) sx"

section \<open>Reading\<close>

definition new_uuid :: "string wtx" where
  "new_uuid d = Inr (fresh_uuid d)"

definition find_card :: "db \<Rightarrow> string \<Rightarrow> string \<Rightarrow> whiteboard_card option" where
  "find_card d rid cid = List.find (\<lambda>c. wc_audit_run_id c = rid \<and> wc_card_id c = cid) (wb_cards d)"

definition find_edge :: "db \<Rightarrow> string \<Rightarrow> string \<Rightarrow> whiteboard_edge option" where
  "find_edge d rid eid = List.find (\<lambda>e. we_audit_run_id e = rid \<and> we_edge_id e = eid) (wb_edges d)"

definition get_run :: "string \<Rightarrow> audit_run wtx" where
  "get_run rid d = (case find_run d rid of None \<Rightarrow> Inl (LookupError ''audit run not found'') | Some r \<Rightarrow> Inr (r, d))"

definition get_card :: "string \<Rightarrow> string \<Rightarrow> whiteboard_card wtx" where
  "get_card rid cid d =
     (case find_card d rid cid of None \<Rightarrow> Inl (LookupError ''whiteboard card not found'') | Some c \<Rightarrow> Inr (c, d))"

definition get_edge :: "string \<Rightarrow> string \<Rightarrow> whiteboard_edge wtx" where
  "get_edge rid eid d =
     (case find_edge d rid eid of None \<Rightarrow> Inl (LookupError ''whiteboard edge not found'') | Some e \<Rightarrow> Inr (e, d))"

definition asc :: "('a timestamped_scheme \<Rightarrow> bool) \<Rightarrow> 'a timestamped_scheme list \<Rightarrow> 'a timestamped_scheme list" where
  "asc p rows = sort_key created_at (filter p rows)"

definition desc :: "('a timestamped_scheme \<Rightarrow> bool) \<Rightarrow> 'a timestamped_scheme list \<Rightarrow> 'a timestamped_scheme list" where
  "desc p rows = sort_key (\<lambda>r. - created_at r) (filter p rows)"

definition attachments_of :: "db \<Rightarrow> string \<Rightarrow> string \<Rightarrow> pyval list" where
  "attachments_of d rid cid =
     map (\<lambda>a. PDict (wb_attachment_to_dict a))
       (filter (\<lambda>a. wa_audit_run_id a = rid \<and> wa_card_id a = cid) (wb_attachments d))"

definition snapshot_path :: "string \<Rightarrow> string" where
  "snapshot_path rid = ''whiteboards/'' @ rid @ ''/whiteboard.json''"

definition chain_evidence_to_dict :: "evidence \<Rightarrow> dict" where
  "chain_evidence_to_dict r =
     [(''evidence_id'', PStr (ev_evidence_id r)),
      (''finding_id'', PStr (ev_finding_id r)),
      (''summary'', opt_str (ev_summary r)),
      (''artifact_path'', opt_str (ev_artifact_path r)),
      (''payload'', PDict (ev_payload r)),
      (''created_at'', pytime (created_at r))]"

definition board_tasks :: "db \<Rightarrow> string \<Rightarrow> dict list" where
  "board_tasks d rid = map wb_task_to_dict (asc (\<lambda>t. wt_audit_run_id t = rid) (wb_tasks d))"

definition board_graph :: "db \<Rightarrow> string \<Rightarrow> audit_run \<Rightarrow> dict" where
  "board_graph d rid run =
     [(''audit_run_id'', PStr rid),
      (''project_id'', PStr (ar_project_id run)),
      (''snapshot'', PStr (snapshot_path rid)),
      (''cards'', PList (map (\<lambda>c. PDict (wb_card_to_dict c (attachments_of d rid (wc_card_id c))))
         (asc (\<lambda>c. wc_audit_run_id c = rid) (wb_cards d)))),
      (''edges'', PList (map (\<lambda>e. PDict (wb_edge_to_dict e)) (asc (\<lambda>e. we_audit_run_id e = rid) (wb_edges d)))),
      (''notes'', PList (map (\<lambda>n. PDict (wb_note_to_dict n)) (asc (\<lambda>n. wn_audit_run_id n = rid) (wb_notes d)))),
      (''tasks'', PList (map PDict (board_tasks d rid))),
      (''events'', PList (map (\<lambda>e. PDict (wb_event_to_dict e))
         (take 100 (desc (\<lambda>e. wv_audit_run_id e = rid) (wb_events d))))),
      (''subscriptions'', PList (map (\<lambda>s. PDict (wb_subscription_to_dict s))
         (asc (\<lambda>s. ws_audit_run_id s = rid) (wb_subscriptions d)))),
      (''notifications'', PList (map (\<lambda>n. PDict (wb_notification_to_dict n))
         (take 100 (desc (\<lambda>n. wno_audit_run_id n = rid) (wb_notifications d))))),
      (''schedule_requests'', PList (map (\<lambda>r. PDict (wb_schedule_request_to_dict r))
         (take 100 (desc (\<lambda>r. wsr_audit_run_id r = rid) (wb_requests d))))),
      (''evidence'', PList (map (\<lambda>e. PDict (chain_evidence_to_dict e))
         (asc (\<lambda>e. ev_audit_run_id e = rid \<and> ev_kind e = ''whiteboard-chain'') (evidence_rows d))))]"

definition graph :: "string \<Rightarrow> dict wtx" where
  "graph rid = tx_bind (get_run rid) (\<lambda>run. tx_gets (\<lambda>d. board_graph d rid run))"

definition card_view :: "string \<Rightarrow> string \<Rightarrow> dict wtx" where
  "card_view rid cid =
     tx_bind (get_card rid cid) (\<lambda>c. tx_gets (\<lambda>d. wb_card_to_dict c (attachments_of d rid cid)))"

section \<open>Files\<close>

definition put_json :: "wb_env \<Rightarrow> string \<Rightarrow> pyval \<Rightarrow> dict wop" where
  "put_json env path payload =
     sx_bind (sx_lift (validate_relative_path (env_artifacts env) path)) (\<lambda>normalized.
     sx_bind (sx_lift (artifact_absolute_path (env_artifacts env) normalized)) (\<lambda>local_path.
     sx_do (sx_modify (\<lambda>d. d\<lparr>artifact_files := (artifact_files d)(normalized := Some payload)\<rparr>))
       (sx_ret (metadata_from_local (env_artifacts env) (env_fs env) normalized local_path (env_stat env payload)
                  (Some ''application/json; charset=utf-8'')))))"

definition write_snapshot :: "wb_env \<Rightarrow> string \<Rightarrow> dict wop" where
  "write_snapshot env rid =
     sx_bind (commit (graph rid)) (\<lambda>g. put_json env (snapshot_path rid) (PDict g))"

section \<open>Events and notifications\<close>

text \<open>The entries of a filter list that are not blank.\<close>

definition filter_strs :: "dict \<Rightarrow> string \<Rightarrow> string list res" where
  "filter_strs filters k =
     rbind (py_iter (por (dget filters k) (PList []))) (\<lambda>items.
       Inr (filter (\<lambda>s. str_strip s \<noteq> []) (map py_str items)))"

definition payload_card :: "whiteboard_event \<Rightarrow> pyval" where
  "payload_card ev = dget (wv_payload ev) ''card''"

definition card_field :: "whiteboard_event \<Rightarrow> string \<Rightarrow> string option" where
  "card_field ev k =
     (case payload_card ev of PDict c \<Rightarrow> Some (py_str (por (dget c k) (PStr []))) | _ \<Rightarrow> None)"

definition summary_text :: "whiteboard_event \<Rightarrow> string" where
  "summary_text ev = (case wv_summary ev of None \<Rightarrow> [] | Some s \<Rightarrow> s)"

definition required_capabilities :: "whiteboard_event \<Rightarrow> string list res" where
  "required_capabilities ev =
     (let metadata = (case payload_card ev of PDict c \<Rightarrow> dict_or_empty (dget c ''metadata'') | _ \<Rightarrow> [])
      in rbind (py_iter (por (por (dget metadata ''required_capabilities'') (dget metadata ''capabilities'')) (PList [])))
           (\<lambda>items. Inr (map (str_lower \<circ> py_str) items)))"

definition related_ids :: "whiteboard_event \<Rightarrow> string list" where
  "related_ids ev =
     (let edge = dict_or_empty (dget (wv_payload ev) ''edge'')
      in [py_str (por (dget (wv_payload ev) ''card_id'') (PStr [])), wv_entity_id ev,
          py_str (por (dget edge ''source_card_id'') (PStr [])), py_str (por (dget edge ''target_card_id'') (PStr []))])"

text \<open>One criterion of a filter: empty lists pass, the test is asked otherwise.\<close>

definition criterion :: "dict \<Rightarrow> string \<Rightarrow> (string list \<Rightarrow> bool res) \<Rightarrow> bool res \<Rightarrow> bool res" where
  "criterion filters k test next =
     rbind (filter_strs filters k) (\<lambda>wanted.
       if wanted = [] then next
       else rbind (test wanted) (\<lambda>ok. if ok then next else Inr False))"

definition subscription_matches :: "dict \<Rightarrow> whiteboard_event \<Rightarrow> bool res" where
  "subscription_matches filters ev =
     criterion filters ''card_ids'' (\<lambda>ids. Inr (wv_entity_id ev \<in> set ids \<or>
         py_str (por (dget (wv_payload ev) ''card_id'') (PStr [])) \<in> set ids))
     (criterion filters ''entity_types'' (\<lambda>ts. Inr (wv_entity_type ev \<in> set ts))
     (criterion filters ''event_types'' (\<lambda>ts. Inr (wv_event_type ev \<in> set ts))
     (criterion filters ''card_types'' (\<lambda>ts. Inr (case card_field ev ''card_type'' of None \<Rightarrow> False | Some t \<Rightarrow> t \<in> set ts))
     (criterion filters ''statuses'' (\<lambda>ts. Inr (case card_field ev ''status'' of None \<Rightarrow> False | Some t \<Rightarrow> t \<in> set ts))
     (criterion filters ''keywords'' (\<lambda>ks.
        let haystack = str_lower (summary_text ev @ '' '' @ wv_entity_type ev @ '' '' @ wv_event_type ev @ '' ''
              @ py_str (PDict (wv_payload ev)))
        in Inr (list_ex (\<lambda>k. contains haystack (str_lower k)) ks))
     (criterion filters ''topics'' (\<lambda>ks.
        let haystack = str_lower (summary_text ev @ '' '' @ py_str (PDict (wv_payload ev)))
        in Inr (list_ex (\<lambda>k. contains haystack (str_lower k)) ks))
     (criterion filters ''capabilities'' (\<lambda>cs.
        rbind (required_capabilities ev) (\<lambda>required.
          Inr (required = [] \<or> list_ex (\<lambda>c. str_lower c \<in> set required) cs)))
     (criterion filters ''dependency_card_ids'' (\<lambda>ids. Inr (list_ex (\<lambda>i. i \<in> set (related_ids ev)) ids))
     (Inr True)))))))))"

definition notification_for :: "whiteboard_event \<Rightarrow> whiteboard_subscription \<Rightarrow> string \<Rightarrow> time \<Rightarrow> whiteboard_notification" where
  "notification_for ev sub nid now =
     \<lparr>created_at = now, updated_at = now, wno_notification_id = nid,
      wno_audit_run_id = wv_audit_run_id ev, wno_project_id = wv_project_id ev,
      wno_event_id = wv_event_id ev, wno_subscription_id = ws_subscription_id sub,
      wno_subscriber_task_id = ws_subscriber_task_id sub,
      wno_subscriber_agent_run_id = ws_subscriber_agent_run_id sub,
      wno_status = ''pending'', wno_claimed_by_agent_run_id = None, wno_lease_expires_at = None,
      wno_attempt_count = 0, wno_summary = wv_summary ev,
      wno_payload = [(''event'', PDict (wb_event_to_dict ev))]\<rparr>"

definition notify :: "whiteboard_event \<Rightarrow> whiteboard_subscription \<Rightarrow> unit wtx" where
  "notify ev sub =
     tx_bind (tx_gets (\<lambda>d. list_ex (\<lambda>n. wno_event_id n = wv_event_id ev \<and> wno_subscription_id n = ws_subscription_id sub)
                        (wb_notifications d))) (\<lambda>existing.
       if existing then tx_ret ()
       else tx_bind new_uuid (\<lambda>nid. tx_modify (\<lambda>d.
         d\<lparr>wb_notifications := wb_notifications d @ [notification_for ev sub nid (db_now d)],
           wb_subscriptions := row_upd ws_subscription_id (ws_subscription_id sub)
             (\<lambda>s. stamped (db_now d) s (s\<lparr>ws_cursor_event_id := Some (wv_event_id ev)\<rparr>)) (wb_subscriptions d)\<rparr>)))"

fun fanout :: "whiteboard_event \<Rightarrow> whiteboard_subscription list \<Rightarrow> unit wtx" where
  "fanout ev [] = tx_ret ()"
| "fanout ev (sub # subs) =
     tx_bind (tx_lift (subscription_matches (ws_filter sub) ev)) (\<lambda>ok.
       tx_do (if ok then notify ev sub else tx_ret ()) (fanout ev subs))"

definition active_subscriptions :: "db \<Rightarrow> string \<Rightarrow> whiteboard_subscription list" where
  "active_subscriptions d rid =
     filter (\<lambda>s. ws_audit_run_id s = rid \<and> ws_status s = ''active'') (wb_subscriptions d)"

definition fanout_notifications :: "whiteboard_event \<Rightarrow> unit wtx" where
  "fanout_notifications ev =
     tx_bind (tx_gets (\<lambda>d. active_subscriptions d (wv_audit_run_id ev))) (fanout ev)"

text \<open>Every caller passes the project, so the run is not looked up again.\<close>

definition wb_record_event ::
  "string \<Rightarrow> string \<Rightarrow> string \<Rightarrow> string \<Rightarrow> string \<Rightarrow> string \<Rightarrow> dict \<Rightarrow> whiteboard_event wtx" where
  "wb_record_event rid project entity_type entity_id event_type summary payload =
     tx_bind new_uuid (\<lambda>eid.
     tx_bind (tx_gets (\<lambda>d.
       \<lparr>created_at = db_now d, updated_at = db_now d, wv_event_id = eid, wv_audit_run_id = rid,
        wv_project_id = project, wv_entity_type = entity_type, wv_entity_id = entity_id,
        wv_event_type = event_type, wv_summary = Some summary, wv_payload = payload\<rparr>)) (\<lambda>ev.
     tx_do (tx_modify (\<lambda>d. d\<lparr>wb_events := wb_events d @ [ev]\<rparr>))
     (tx_do (fanout_notifications ev) (tx_ret ev))))"

section \<open>Cards, edges, notes and attachments\<close>

text \<open>What an integer column takes; anything else is refused by the database.\<close>

fun int_column :: "pyval \<Rightarrow> int option res" where
  "int_column PNone = Inr None"
| "int_column (PInt i) = Inr (Some i)"
| "int_column (PBool b) = Inr (Some (if b then 1 else 0))"
| "int_column _ = Inl (OtherError ''invalid input for an integer column'')"

definition body_text :: "dict \<Rightarrow> string \<Rightarrow> string" where
  "body_text body k = py_str (por (dget body k) (PStr []))"

definition body_dict :: "dict \<Rightarrow> string \<Rightarrow> dict res" where
  "body_dict body k = py_dict (por (dget body k) (PDict []))"

definition new_card :: "wb_env \<Rightarrow> string \<Rightarrow> string \<Rightarrow> string \<Rightarrow> time \<Rightarrow> dict \<Rightarrow> whiteboard_card res" where
  "new_card env cid rid project now body =
     rbind (int_column (dget body ''line_start'')) (\<lambda>line_start.
     rbind (int_column (dget body ''line_end'')) (\<lambda>line_end.
     rbind (normalize_link_candidates (dget body ''expected_predecessors'')) (\<lambda>predecessors.
     rbind (normalize_link_candidates (dget body ''possible_successors'')) (\<lambda>successors.
     rbind (py_iter (por (dget body ''requirements'') (PList []))) (\<lambda>requirements.
     rbind (body_dict body ''metadata'') (\<lambda>metadata. Inr
       \<lparr>created_at = now, updated_at = now, wc_card_id = cid, wc_audit_run_id = rid, wc_project_id = project,
        wc_title = str_strip (body_text body ''title''),
        wc_card_type = safe_token (por (dget body ''card_type'') (PStr ''observation'')) ''observation'',
        wc_status = safe_token (por (dget body ''status'') (PStr ''open'')) ''open'',
        wc_author = optional_str (dget body ''author'') 255,
        wc_agent_run_id = optional_str (dget body ''agent_run_id'') 128,
        wc_event_time = Some (parse_event_time (env_fromiso env) now (dget body ''event_time'')),
        wc_content = optional_str (dget body ''content'') 20000,
        wc_confidence = optional_str (dget body ''confidence'') 32,
        wc_finding_id = optional_str (dget body ''finding_id'') 128,
        wc_file_path = optional_str (dget body ''file_path'') 2048,
        wc_line_start = line_start, wc_line_end = line_end,
        wc_expected_predecessors = predecessors, wc_possible_successors = successors,
        wc_requirements = map (\<lambda>v. PStr (take 500 (py_str v))) requirements,
        wc_metadata = metadata\<rparr>))))))"

text \<open>\<open>add_attachment\<close> up to its commit; \<open>flush\<close> says whether it reports itself.\<close>

definition add_attachment_row :: "string \<Rightarrow> string \<Rightarrow> bool \<Rightarrow> pyval \<Rightarrow> whiteboard_attachment wtx" where
  "add_attachment_row rid cid flush item =
     tx_bind (get_run rid) (\<lambda>run.
     tx_bind (get_card rid cid) (\<lambda>_.
     tx_bind (tx_lift (vget item ''path'')) (\<lambda>raw_path.
     tx_bind (tx_lift (validate_attachment_path (py_str (por raw_path (PStr []))))) (\<lambda>path.
     tx_bind new_uuid (\<lambda>aid.
     tx_bind (tx_lift (body_dict (dict_or_empty item) ''metadata'')) (\<lambda>metadata.
     tx_bind (tx_gets (\<lambda>d.
       \<lparr>created_at = db_now d, updated_at = db_now d, wa_attachment_id = aid, wa_audit_run_id = rid,
        wa_project_id = ar_project_id run, wa_card_id = cid, wa_path = path,
        wa_label = optional_str (dget (dict_or_empty item) ''label'') 255,
        wa_content_type = optional_str (dget (dict_or_empty item) ''content_type'') 255,
        wa_metadata = metadata\<rparr>)) (\<lambda>row.
     tx_do (tx_modify (\<lambda>d. d\<lparr>wb_attachments := wb_attachments d @ [row]\<rparr>))
     (if flush
      then tx_bind (wb_record_event rid (ar_project_id run) ''attachment'' aid ''created'' (''Attachment added: '' @ path)
             [(''attachment'', PDict (unflushed (wb_attachment_to_dict row))), (''card_id'', PStr cid)])
             (\<lambda>_. tx_ret row)
      else tx_ret row))))))))"

definition add_attachment :: "wb_env \<Rightarrow> string \<Rightarrow> string \<Rightarrow> pyval \<Rightarrow> dict wop" where
  "add_attachment env rid cid item =
     sx_bind (commit (add_attachment_row rid cid True item)) (\<lambda>row.
     sx_do (write_snapshot env rid) (sx_ret (wb_attachment_to_dict row)))"

definition create_card_row :: "wb_env \<Rightarrow> string \<Rightarrow> dict \<Rightarrow> string wtx" where
  "create_card_row env rid body =
     tx_bind (get_run rid) (\<lambda>run.
     tx_bind new_uuid (\<lambda>cid.
     tx_bind (tx_gets db_now) (\<lambda>now.
     tx_bind (tx_lift (new_card env cid rid (ar_project_id run) now body)) (\<lambda>row.
     tx_do (tx_guard (wc_title row \<noteq> []) (ValueError ''title is required''))
     (tx_do (tx_modify (\<lambda>d. d\<lparr>wb_cards := wb_cards d @ [row]\<rparr>))
     (tx_bind (tx_lift (py_iter (por (dget body ''attachments'') (PList [])))) (\<lambda>attachments.
      tx_do (tx_map (add_attachment_row rid cid False) attachments)
      (tx_do (wb_record_event rid (ar_project_id run) ''card'' cid ''created'' (''Card created: '' @ wc_title row)
               [(''card'', PDict (wb_card_to_dict row []))])
        (tx_ret cid)))))))))"

definition create_card :: "wb_env \<Rightarrow> string \<Rightarrow> dict \<Rightarrow> dict wop" where
  "create_card env rid body =
     sx_bind (commit (create_card_row env rid body)) (\<lambda>cid.
     sx_do (write_snapshot env rid) (commit (card_view rid cid)))"

definition declare_gap :: "wb_env \<Rightarrow> string \<Rightarrow> dict \<Rightarrow> dict wop" where
  "declare_gap env rid body =
     (let body = dset body ''card_type'' (PStr ''gap'');
          body = dsetdefault body ''status'' (PStr ''open'');
          body = dsetdefault body ''title'' (por (dget body ''title'') (PStr ''Whiteboard gap''))
      in create_card env rid body)"

text \<open>\<open>field in body and body[field] is not None\<close>.\<close>

definition given :: "dict \<Rightarrow> string \<Rightarrow> pyval option" where
  "given body k = (case dlookup body k of None \<Rightarrow> None | Some PNone \<Rightarrow> None | Some v \<Rightarrow> Some v)"

definition updated_text :: "dict \<Rightarrow> string \<Rightarrow> nat \<Rightarrow> string \<Rightarrow> string" where
  "updated_text body k n old = (case given body k of None \<Rightarrow> old | Some v \<Rightarrow> take n (py_str v))"

definition updated_opt :: "dict \<Rightarrow> string \<Rightarrow> nat \<Rightarrow> string option \<Rightarrow> string option" where
  "updated_opt body k n old = (case given body k of None \<Rightarrow> old | Some v \<Rightarrow> Some (take n (py_str v)))"

definition updated_links :: "dict \<Rightarrow> string \<Rightarrow> dict list \<Rightarrow> dict list res" where
  "updated_links body k old = (case given body k of None \<Rightarrow> Inr old | Some v \<Rightarrow> normalize_link_candidates v)"

definition updated_card :: "dict \<Rightarrow> whiteboard_card \<Rightarrow> whiteboard_card res" where
  "updated_card body row =
     rbind (updated_links body ''expected_predecessors'' (wc_expected_predecessors row)) (\<lambda>predecessors.
     rbind (updated_links body ''possible_successors'' (wc_possible_successors row)) (\<lambda>successors.
     rbind (case given body ''requirements'' of None \<Rightarrow> Inr (wc_requirements row) | Some v \<Rightarrow> py_list v) (\<lambda>requirements.
     rbind (if dget body ''metadata'' = PNone then Inr (wc_metadata row) else body_dict body ''metadata'') (\<lambda>metadata. Inr
       (row\<lparr>wc_title := updated_text body ''title'' 255 (wc_title row),
            wc_card_type := updated_text body ''card_type'' 255 (wc_card_type row),
            wc_status := updated_text body ''status'' 255 (wc_status row),
            wc_content := updated_opt body ''content'' 20000 (wc_content row),
            wc_confidence := updated_opt body ''confidence'' 255 (wc_confidence row),
            wc_expected_predecessors := predecessors, wc_possible_successors := successors,
            wc_requirements := requirements, wc_metadata := metadata\<rparr>)))))"

definition write_card :: "whiteboard_card \<Rightarrow> unit wtx" where
  "write_card row =
     tx_modify (\<lambda>d. d\<lparr>wb_cards := row_upd wc_card_id (wc_card_id row) (\<lambda>old. stamped (db_now d) old row) (wb_cards d)\<rparr>)"

text \<open>The event's payload is built before the changes are flushed, with the old time of update.\<close>

definition update_card_row :: "string \<Rightarrow> string \<Rightarrow> dict \<Rightarrow> unit wtx" where
  "update_card_row rid cid body =
     tx_bind (get_card rid cid) (\<lambda>old.
     tx_bind (tx_lift (updated_card body old)) (\<lambda>row.
     tx_do (write_card row)
     (tx_do (wb_record_event rid (wc_project_id row) ''card'' cid ''updated'' (''Card updated: '' @ wc_title row)
              [(''updates'', PDict body), (''card'', PDict (wb_card_to_dict row []))])
       (tx_ret ()))))"

definition update_card :: "wb_env \<Rightarrow> string \<Rightarrow> string \<Rightarrow> dict \<Rightarrow> dict wop" where
  "update_card env rid cid body =
     sx_do (commit (update_card_row rid cid body))
     (sx_do (write_snapshot env rid) (commit (card_view rid cid)))"

definition create_edge_row :: "string \<Rightarrow> dict \<Rightarrow> whiteboard_edge wtx" where
  "create_edge_row rid body =
     tx_bind (get_run rid) (\<lambda>run.
       let source_id = body_text body ''source_card_id'';
           target_id = body_text body ''target_card_id'';
           edge_type = safe_token (por (dget body ''edge_type'') (PStr ''supports'')) ''supports''
       in tx_do (tx_guard (source_id \<noteq> target_id) (ValueError ''source_card_id and target_card_id must differ''))
          (tx_do (get_card rid source_id)
          (tx_do (get_card rid target_id)
          (tx_do (tx_guard (edge_type \<in> set WHITEBOARD_EDGE_TYPES) (ValueError ''edge_type must be one of the edge types''))
          (tx_bind new_uuid (\<lambda>eid.
           tx_bind (tx_lift (body_dict body ''metadata'')) (\<lambda>metadata.
           tx_bind (tx_gets (\<lambda>d.
             \<lparr>created_at = db_now d, updated_at = db_now d, we_edge_id = eid, we_audit_run_id = rid,
              we_project_id = ar_project_id run, we_source_card_id = source_id, we_target_card_id = target_id,
              we_edge_type = edge_type, we_author = optional_str (dget body ''author'') 255,
              we_agent_run_id = optional_str (dget body ''agent_run_id'') 128,
              we_rationale = optional_str (dget body ''rationale'') 10000, we_metadata = metadata\<rparr>)) (\<lambda>row.
           tx_do (tx_modify (\<lambda>d. d\<lparr>wb_edges := wb_edges d @ [row]\<rparr>))
           (tx_do (wb_record_event rid (ar_project_id run) ''edge'' eid ''created''
                    (''Cards linked: '' @ source_id @ '' -> '' @ target_id)
                    [(''edge'', PDict (unflushed (wb_edge_to_dict row)))])
             (tx_ret row))))))))))"

definition create_edge :: "wb_env \<Rightarrow> string \<Rightarrow> dict \<Rightarrow> dict wop" where
  "create_edge env rid body =
     sx_bind (commit (create_edge_row rid body)) (\<lambda>row.
     sx_do (write_snapshot env rid) (sx_ret (wb_edge_to_dict row)))"

definition add_note_row :: "string \<Rightarrow> dict \<Rightarrow> whiteboard_note wtx" where
  "add_note_row rid body =
     tx_bind (get_run rid) (\<lambda>run.
       let card_id = optional_str (dget body ''card_id'') 128;
           content = str_strip (body_text body ''content'')
       in tx_do (case card_id of None \<Rightarrow> tx_ret () | Some cid \<Rightarrow> tx_do (get_card rid cid) (tx_ret ()))
          (tx_bind new_uuid (\<lambda>nid.
           tx_bind (tx_lift (body_dict body ''metadata'')) (\<lambda>metadata.
           tx_do (tx_guard (content \<noteq> []) (ValueError ''content is required''))
           (tx_bind (tx_gets (\<lambda>d.
              \<lparr>created_at = db_now d, updated_at = db_now d, wn_note_id = nid, wn_audit_run_id = rid,
               wn_project_id = ar_project_id run, wn_card_id = card_id,
               wn_author = optional_str (dget body ''author'') 255,
               wn_agent_run_id = optional_str (dget body ''agent_run_id'') 128,
               wn_content = content, wn_metadata = metadata\<rparr>)) (\<lambda>row.
            tx_do (tx_modify (\<lambda>d. d\<lparr>wb_notes := wb_notes d @ [row]\<rparr>))
            (tx_do (wb_record_event rid (ar_project_id run) ''note'' nid ''created''
                     (''Note added'' @ (case card_id of None \<Rightarrow> [] | Some cid \<Rightarrow> '' to '' @ cid))
                     [(''note'', PDict (unflushed (wb_note_to_dict row))), (''card_id'', opt_str card_id)])
              (tx_ret row))))))))"

definition add_note :: "wb_env \<Rightarrow> string \<Rightarrow> dict \<Rightarrow> dict wop" where
  "add_note env rid body =
     sx_bind (commit (add_note_row rid body)) (\<lambda>row.
     sx_do (write_snapshot env rid) (sx_ret (wb_note_to_dict row)))"

section \<open>Evidence\<close>

text \<open>\<open>uuid.uuid4().hex[:12]\<close>.\<close>

definition uuid_hex12 :: "string \<Rightarrow> string" where
  "uuid_hex12 u = take 12 (filter (\<lambda>c. c \<noteq> CHR ''-'') u)"

definition chain_summary :: "dict \<Rightarrow> whiteboard_card list \<Rightarrow> string" where
  "chain_summary body cards =
     (let s = str_strip (py_str (por (dget body ''summary'') (PStr (evidence_summary cards))))
      in if s = [] then ''Whiteboard chain evidence'' else s)"

definition chain_finding :: "dict \<Rightarrow> whiteboard_card list \<Rightarrow> string" where
  "chain_finding body cards =
     (let s = py_str (por (por (dget body ''finding_id'')
                (case cards of [] \<Rightarrow> PStr [] | c # _ \<Rightarrow> opt_str (wc_finding_id c))) (PStr []))
      in if s = [] then ''whiteboard'' else s)"

record chain =
  ch_run :: audit_run
  ch_cards :: "whiteboard_card list"
  ch_card_ids :: "string list"
  ch_edge_ids :: "string list"
  ch_graph :: dict
  ch_file :: string

text \<open>What is read before the evidence file is written.\<close>

definition read_chain :: "string \<Rightarrow> dict \<Rightarrow> chain wtx" where
  "read_chain rid body =
     tx_bind (get_run rid) (\<lambda>run.
     tx_bind (tx_lift (py_iter (por (dget body ''card_ids'') (PList [])))) (\<lambda>card_ids.
     tx_bind (tx_lift (py_iter (por (dget body ''edge_ids'') (PList [])))) (\<lambda>edge_ids.
     tx_bind (tx_map (get_card rid \<circ> py_str) card_ids) (\<lambda>cards.
     tx_do (tx_map (get_edge rid \<circ> py_str) edge_ids)
     (tx_bind (graph rid) (\<lambda>g.
      tx_bind new_uuid (\<lambda>u. tx_ret
        \<lparr>ch_run = run, ch_cards = cards, ch_card_ids = map py_str card_ids, ch_edge_ids = map py_str edge_ids,
         ch_graph = g, ch_file = ''whiteboards/'' @ rid @ ''/evidence-'' @ uuid_hex12 u @ ''.json''\<rparr>)))))))"

definition store_chain :: "string \<Rightarrow> dict \<Rightarrow> chain \<Rightarrow> pyval \<Rightarrow> evidence wtx" where
  "store_chain rid body ch path =
     tx_bind new_uuid (\<lambda>eid.
     tx_bind (tx_gets (\<lambda>d.
       \<lparr>created_at = db_now d, updated_at = db_now d, ev_evidence_id = eid,
        ev_finding_id = chain_finding body (ch_cards ch), ev_audit_run_id = rid, ev_kind = ''whiteboard-chain'',
        ev_summary = Some (chain_summary body (ch_cards ch)),
        ev_artifact_path = (case path of PStr p \<Rightarrow> Some p | _ \<Rightarrow> None),
        ev_payload = [(''card_ids'', PList (map PStr (ch_card_ids ch))), (''edge_ids'', PList (map PStr (ch_edge_ids ch))),
                      (''source'', PStr ''whiteboard'')]\<rparr>)) (\<lambda>row.
     tx_do (tx_modify (\<lambda>d. d\<lparr>evidence_rows := evidence_rows d @ [row]\<rparr>))
     (tx_do (if truthy (dget_or body ''mark_cards_submitted'' (PBool True))
             then tx_map (\<lambda>c. write_card (c\<lparr>wc_status := ''submitted''\<rparr>)) (ch_cards ch) else tx_ret [])
     (tx_do (wb_record_event rid (ar_project_id (ch_run ch)) ''evidence'' eid ''created'' (chain_summary body (ch_cards ch))
              [(''card_ids'', PList (map PStr (ch_card_ids ch))), (''edge_ids'', PList (map PStr (ch_edge_ids ch))),
               (''evidence_id'', PStr eid)])
       (tx_ret row)))))"

definition submit_chain_evidence :: "wb_env \<Rightarrow> string \<Rightarrow> dict \<Rightarrow> dict wop" where
  "submit_chain_evidence env rid body =
     sx_bind (commit (read_chain rid body)) (\<lambda>ch.
     sx_bind (put_json env (ch_file ch)
       (PDict [(''summary'', PStr (chain_summary body (ch_cards ch))),
               (''card_ids'', PList (map PStr (ch_card_ids ch))), (''edge_ids'', PList (map PStr (ch_edge_ids ch))),
               (''graph'', PDict (ch_graph ch))])) (\<lambda>metadata.
     sx_bind (commit (store_chain rid body ch (dget metadata ''relative_path''))) (\<lambda>row.
     sx_do (write_snapshot env rid)
       (sx_ret [(''ok'', PBool True), (''evidence_id'', PStr (ev_evidence_id row)), (''artifact'', PDict metadata),
                (''summary'', PStr (chain_summary body (ch_cards ch)))]))))"

section \<open>Search and lists\<close>

definition opt_text :: "string option \<Rightarrow> string" where
  "opt_text o' = (case o' of None \<Rightarrow> [] | Some s \<Rightarrow> s)"

definition candidate_titles :: "dict list \<Rightarrow> string" where
  "candidate_titles items = join '' '' (map (\<lambda>d. py_str (por (dget d ''title'') (PStr []))) items)"

definition card_haystack :: "whiteboard_card \<Rightarrow> string" where
  "card_haystack row = str_lower (join '' ''
     [wc_title row, opt_text (wc_content row), opt_text (wc_finding_id row), opt_text (wc_file_path row),
      wc_card_type row, wc_status row,
      candidate_titles (wc_expected_predecessors row), candidate_titles (wc_possible_successors row)])"

record card_query =
  cq_terms :: "string list"
  cq_card_type :: "string option"
  cq_status :: "string option"
  cq_finding_id :: "string option"
  cq_file_path :: "string option"
  cq_candidate_status :: "string option"

text \<open>Empty strings do not occur: \<open>optional_str\<close> gives None for them.\<close>

definition passes_filters :: "card_query \<Rightarrow> whiteboard_card \<Rightarrow> bool" where
  "passes_filters q row =
     ((case cq_card_type q of None \<Rightarrow> True | Some t \<Rightarrow> wc_card_type row = t) \<and>
      (case cq_status q of None \<Rightarrow> True | Some s \<Rightarrow> wc_status row = s) \<and>
      (case cq_finding_id q of None \<Rightarrow> True | Some f \<Rightarrow> wc_finding_id row = Some f) \<and>
      (case cq_file_path q of None \<Rightarrow> True | Some f \<Rightarrow> contains (opt_text (wc_file_path row)) f) \<and>
      (case cq_candidate_status q of None \<Rightarrow> True | Some s \<Rightarrow> card_has_candidate_status row s))"

definition matched_terms :: "card_query \<Rightarrow> whiteboard_card \<Rightarrow> string list" where
  "matched_terms q row = filter (contains (card_haystack row)) (cq_terms q)"

definition filter_reasons :: "card_query \<Rightarrow> string list" where
  "filter_reasons q =
     (case cq_card_type q of None \<Rightarrow> [] | Some t \<Rightarrow> [''card_type:'' @ t]) @
     (case cq_status q of None \<Rightarrow> [] | Some s \<Rightarrow> [''status:'' @ s]) @
     (case cq_finding_id q of None \<Rightarrow> [] | Some f \<Rightarrow> [''finding_id:'' @ f]) @
     (case cq_file_path q of None \<Rightarrow> [] | Some f \<Rightarrow> [''file_path:'' @ f]) @
     (case cq_candidate_status q of None \<Rightarrow> [] | Some s \<Rightarrow> [''candidate_status:'' @ s])"

record card_match =
  cm_score :: nat
  cm_reasons :: "string list"
  cm_card :: whiteboard_card

definition match_card :: "card_query \<Rightarrow> whiteboard_card \<Rightarrow> card_match option" where
  "match_card q row =
     (let hits = matched_terms q row;
          reasons = map (\<lambda>t. ''matched:'' @ t) hits @ filter_reasons q
      in if \<not> passes_filters q row \<or> (cq_terms q \<noteq> [] \<and> hits = []) then None
         else Some \<lparr>cm_score = length hits, cm_reasons = (if reasons = [] then [''filter''] else reasons), cm_card = row\<rparr>)"

definition match_to_dict :: "card_match \<Rightarrow> dict" where
  "match_to_dict m' =
     [(''score'', PInt (int (cm_score m'))), (''reasons'', PList (map PStr (cm_reasons m'))),
      (''card'', PDict (wb_card_to_dict (cm_card m') []))]"

definition search_matches :: "card_query \<Rightarrow> db \<Rightarrow> string \<Rightarrow> card_match list" where
  "search_matches q d rid =
     sort_key (\<lambda>m. (- int (cm_score m), iso_utc (updated_at (cm_card m))))
       (List.map_filter (match_card q)
         (sort_key (\<lambda>c. - updated_at c) (filter (\<lambda>c. wc_audit_run_id c = rid) (wb_cards d))))"

definition card_query_of :: "dict \<Rightarrow> card_query" where
  "card_query_of body =
     \<lparr>cq_terms = split_ws (replace_char (CHR 0x5C) (CHR ''/'') (str_lower (str_strip (body_text body ''query'')))),
      cq_card_type = optional_str (dget body ''card_type'') 64,
      cq_status = optional_str (dget body ''status'') 64,
      cq_finding_id = optional_str (dget body ''finding_id'') 128,
      cq_file_path = optional_str (dget body ''file_path'') 2048,
      cq_candidate_status = optional_str (dget body ''candidate_status'') 32\<rparr>"

definition search_cards :: "string \<Rightarrow> dict \<Rightarrow> dict wtx" where
  "search_cards rid body =
     tx_do (get_run rid)
     (tx_bind (tx_lift (py_int (por (dget body ''limit'') (PInt 20)))) (\<lambda>n.
      tx_bind (tx_gets (\<lambda>d. take (nat (max 1 (min n 100))) (search_matches (card_query_of body) d rid))) (\<lambda>ms.
        tx_ret [(''query'', PDict body), (''count'', PInt (int (length ms))),
                (''matches'', PList (map (\<lambda>m. PDict (match_to_dict m)) ms))])))"

definition after_event :: "string option \<Rightarrow> whiteboard_event list \<Rightarrow> whiteboard_event list" where
  "after_event after_id rows =
     (case after_id of
        None \<Rightarrow> rows
      | Some e \<Rightarrow> if e = [] then rows else drop 1 (dropWhile (\<lambda>r. wv_event_id r \<noteq> e) rows))"

definition list_events :: "string \<Rightarrow> int \<Rightarrow> string option \<Rightarrow> dict list wtx" where
  "list_events rid limit after_event_id =
     tx_do (get_run rid)
       (tx_gets (\<lambda>d.
          let rows = after_event after_event_id (asc (\<lambda>e. wv_audit_run_id e = rid) (wb_events d));
              n = nat (max 1 (min limit 500))
          in map wb_event_to_dict (drop (length rows - n) rows)))"

definition list_notifications :: "string \<Rightarrow> string option \<Rightarrow> string option \<Rightarrow> dict list wtx" where
  "list_notifications rid status subscriber =
     tx_do (get_run rid)
       (tx_gets (\<lambda>d. map wb_notification_to_dict (take 200 (desc (\<lambda>n.
          wno_audit_run_id n = rid \<and> (opt_text status = [] \<or> wno_status n = opt_text status) \<and>
          (opt_text subscriber = [] \<or> wno_subscriber_agent_run_id n = subscriber)) (wb_notifications d)))))"

end
