(* ===== verification/Whiteboard_Scheduling.thy ===== *)
theory Whiteboard_Scheduling
  imports Whiteboard_Service
begin

text \<open>
  The whiteboard service, third part: subscriptions and the leases of notifications, requests
  for another agent with the policy that decides them, and the tasks made from gap cards.

  The dictionary an operation returns for a row it changed is the row as the database has it
  after the commit; how the ORM reloads a column is not modelled.
\<close>

section \<open>Subscriptions and notifications\<close>

definition subscribe_row :: "string \<Rightarrow> dict \<Rightarrow> whiteboard_subscription wtx" where
  "subscribe_row rid body =
     tx_bind (get_run rid) (\<lambda>run.
       let task = optional_str (por (dget body ''subscriber_task_id'') (dget body ''task_id'')) 128;
           agent = optional_str (por (dget body ''subscriber_agent_run_id'') (dget body ''agent_run_id'')) 128
       in tx_do (tx_guard (task \<noteq> None \<or> agent \<noteq> None)
                  (ValueError ''subscriber_task_id or subscriber_agent_run_id is required''))
          (tx_bind new_uuid (\<lambda>sid.
           tx_bind (tx_lift (body_dict body ''filter'')) (\<lambda>filters.
           tx_bind (tx_gets (\<lambda>d.
             \<lparr>created_at = db_now d, updated_at = db_now d, ws_subscription_id = sid, ws_audit_run_id = rid,
              ws_project_id = ar_project_id run, ws_subscriber_task_id = task, ws_subscriber_agent_run_id = agent,
              ws_filter = filters, ws_cursor_event_id = optional_str (dget body ''cursor_event_id'') 128,
              ws_status = safe_token (por (dget body ''status'') (PStr ''active'')) ''active''\<rparr>)) (\<lambda>row.
           tx_do (tx_modify (\<lambda>d. d\<lparr>wb_subscriptions := wb_subscriptions d @ [row]\<rparr>))
             (tx_ret row))))))"

definition subscribe :: "string \<Rightarrow> dict \<Rightarrow> dict wop" where
  "subscribe rid body =
     sx_bind (commit (subscribe_row rid body)) (\<lambda>row. sx_ret (wb_subscription_to_dict row))"

definition NOTIFICATION_STATUSES :: "string list" where
  "NOTIFICATION_STATUSES = [''pending'', ''claimed'', ''handled'', ''ignored'']"

definition find_notification :: "db \<Rightarrow> string \<Rightarrow> string \<Rightarrow> whiteboard_notification option" where
  "find_notification d rid nid =
     List.find (\<lambda>n. wno_audit_run_id n = rid \<and> wno_notification_id n = nid) (wb_notifications d)"

definition get_notification :: "string \<Rightarrow> string \<Rightarrow> whiteboard_notification wtx" where
  "get_notification rid nid d =
     (case find_notification d rid nid of
        None \<Rightarrow> Inl (LookupError ''whiteboard notification not found'') | Some n \<Rightarrow> Inr (n, d))"

text \<open>\<open>max(30, int(lease_seconds or 300))\<close>.\<close>

definition lease_length :: "int option \<Rightarrow> int" where
  "lease_length lease_seconds =
     max 30 (case lease_seconds of None \<Rightarrow> 300 | Some n \<Rightarrow> if n = 0 then 300 else n)"

definition updated_notification ::
  "string \<Rightarrow> string option \<Rightarrow> int option \<Rightarrow> time \<Rightarrow> whiteboard_notification \<Rightarrow> whiteboard_notification" where
  "updated_notification status claimed_by lease_seconds now row =
     (let row = row\<lparr>wno_status := status\<rparr>
      in if status = ''claimed'' then
           row\<lparr>wno_claimed_by_agent_run_id :=
                 (case optional_str (opt_str claimed_by) 128 of
                    None \<Rightarrow> wno_subscriber_agent_run_id row | Some a \<Rightarrow> Some a),
               wno_lease_expires_at := Some (now + seconds (lease_length lease_seconds)),
               wno_attempt_count := wno_attempt_count row + 1\<rparr>
         else if status \<in> {''handled'', ''ignored''} then row\<lparr>wno_lease_expires_at := None\<rparr>
         else row)"

definition update_notification_row ::
  "string \<Rightarrow> string \<Rightarrow> string \<Rightarrow> string option \<Rightarrow> int option \<Rightarrow> dict wtx" where
  "update_notification_row rid nid status claimed_by lease_seconds =
     tx_do (get_run rid)
     (tx_bind (get_notification rid nid) (\<lambda>row.
       let normalized = safe_token (PStr status) ''pending''
       in tx_do (tx_guard (normalized \<in> set NOTIFICATION_STATUSES)
                  (ValueError ''notification status must be pending, claimed, handled, or ignored''))
          (tx_bind (tx_gets db_now) (\<lambda>now.
             let new = stamped now row (updated_notification normalized claimed_by lease_seconds now row)
             in tx_do (tx_modify (\<lambda>d. d\<lparr>wb_notifications :=
                        row_upd wno_notification_id nid (\<lambda>_. new) (wb_notifications d)\<rparr>))
                (tx_ret (wb_notification_to_dict new))))))"

definition update_notification ::
  "string \<Rightarrow> string \<Rightarrow> string \<Rightarrow> string option \<Rightarrow> int option \<Rightarrow> dict wop" where
  "update_notification rid nid status claimed_by lease_seconds =
     commit (update_notification_row rid nid status claimed_by lease_seconds)"

section \<open>Requests for another agent\<close>

definition triage_rows :: "db \<Rightarrow> string \<Rightarrow> whiteboard_card list \<Rightarrow> finding_triage_decision list" where
  "triage_rows d rid cards =
     (let finding_ids = filter (\<lambda>f. f \<noteq> []) (List.map_filter wc_finding_id cards)
      in filter (\<lambda>t. td_audit_run_id t = rid \<and>
           ((\<exists>c \<in> set cards. td_card_id t = Some (wc_card_id c)) \<or> (\<exists>f \<in> set finding_ids. td_finding_id t = Some f)))
         (triage_decisions d))"

text \<open>The decision a triage left on the card itself.\<close>

definition card_triage :: "whiteboard_card \<Rightarrow> string option" where
  "card_triage c =
     (case dget (wc_metadata c) ''swarm_triage'' of
        PDict triage \<Rightarrow> Some (py_str (por (dget triage ''decision'') (PStr [])))
      | _ \<Rightarrow> None)"

definition related_cards :: "db \<Rightarrow> string \<Rightarrow> string list \<Rightarrow> whiteboard_card list" where
  "related_cards d rid ids = filter (\<lambda>c. wc_audit_run_id c = rid \<and> wc_card_id c \<in> set ids) (wb_cards d)"

definition low_value_only_schedule_reason :: "string \<Rightarrow> string list \<Rightarrow> db \<Rightarrow> string option" where
  "low_value_only_schedule_reason rid related_card_ids d =
     (if related_card_ids = [] then
        Some ''Schedule requests must reference at least one Whiteboard card with a main-agent deep_dive triage decision.''
      else
        let cards = related_cards d rid related_card_ids;
            rows = triage_rows d rid cards;
            decisions = map td_decision_status rows @ List.map_filter card_triage cards
        in if cards = [] then Some ''Schedule requests must reference existing Whiteboard cards.''
           else if list_ex (\<lambda>t. td_decision_status t = ''deep_dive'' \<and> td_deep_dive_allowed t) rows then None
           else if decisions = [] then
             Some ''No main-agent deep_dive triage decision is recorded for the related cards; Swarm scheduling is blocked.''
           else if list_ex (\<lambda>x. x \<in> {''deep_dive'', ''chain_candidate''}) decisions then None
           else Some ''All related cards were triaged as low-value, evidence-only, appendix-only, or rejected; Swarm must not launch agents for standalone hygiene findings.'')"

definition low_value_decision :: "string \<Rightarrow> dict" where
  "low_value_decision reason = [(''reason'', PStr reason), (''policy'', PStr ''low_value_swarm_triage'')]"

definition create_schedule_request_row :: "string \<Rightarrow> dict \<Rightarrow> whiteboard_schedule_request wtx" where
  "create_schedule_request_row rid body =
     tx_bind (get_run rid) (\<lambda>run.
       let goal = str_strip (body_text body ''goal'')
       in tx_do (tx_guard (goal \<noteq> []) (ValueError ''goal is required''))
          (tx_bind (tx_lift (py_iter (por (dget body ''related_card_ids'') (PList [])))) (\<lambda>items.
           let related = filter (\<lambda>s. str_strip s \<noteq> []) (map py_str items)
           in tx_bind (tx_gets (low_value_only_schedule_reason rid related)) (\<lambda>blocked.
              tx_bind new_uuid (\<lambda>qid.
              tx_bind (tx_gets (\<lambda>d.
                \<lparr>created_at = db_now d, updated_at = db_now d, wsr_request_id = qid, wsr_audit_run_id = rid,
                 wsr_project_id = ar_project_id run,
                 wsr_requested_by_task_id = optional_str (por (dget body ''requested_by_task_id'') (dget body ''task_id'')) 128,
                 wsr_requested_by_agent_run_id =
                   optional_str (por (dget body ''requested_by_agent_run_id'') (dget body ''agent_run_id'')) 128,
                 wsr_suggested_agent_name = optional_str (dget body ''suggested_agent_name'') 128,
                 wsr_goal = goal, wsr_reason = optional_str (dget body ''reason'') 10000,
                 wsr_related_card_ids = related,
                 wsr_status = (if blocked = None then ''pending'' else ''rejected''),
                 wsr_decision = (case blocked of None \<Rightarrow> [] | Some m \<Rightarrow> low_value_decision m),
                 wsr_task_id = None\<rparr>)) (\<lambda>row.
              tx_do (tx_modify (\<lambda>d. d\<lparr>wb_requests := wb_requests d @ [row]\<rparr>))
              (tx_do (wb_record_event rid (ar_project_id run) ''schedule-request'' qid
                        (if blocked = None then ''created'' else ''rejected'')
                        ((if blocked = None then ''Agent help requested: '' else ''Low-value agent help rejected: '') @ take 160 goal)
                        [(''schedule_request'', PDict (unflushed (wb_schedule_request_to_dict row)))])
                (tx_ret row))))))))"

definition create_schedule_request :: "string \<Rightarrow> dict \<Rightarrow> dict wop" where
  "create_schedule_request rid body =
     sx_bind (commit (create_schedule_request_row rid body)) (\<lambda>row. sx_ret (wb_schedule_request_to_dict row))"

definition DECISION_STATUSES :: "string list" where
  "DECISION_STATUSES = [''approved'', ''rejected'', ''merged'', ''scheduled'']"

definition find_request :: "db \<Rightarrow> string \<Rightarrow> string \<Rightarrow> whiteboard_schedule_request option" where
  "find_request d rid qid = List.find (\<lambda>r. wsr_audit_run_id r = rid \<and> wsr_request_id r = qid) (wb_requests d)"

definition get_request :: "string \<Rightarrow> string \<Rightarrow> whiteboard_schedule_request wtx" where
  "get_request rid qid d =
     (case find_request d rid qid of
        None \<Rightarrow> Inl (LookupError ''whiteboard schedule request not found'') | Some r \<Rightarrow> Inr (r, d))"

text \<open>\<open>(row.related_card_ids or [None])[0]\<close>.\<close>

definition first_related :: "whiteboard_schedule_request \<Rightarrow> string option" where
  "first_related row = (case wsr_related_card_ids row of [] \<Rightarrow> None | c # _ \<Rightarrow> Some c)"

definition requested_task ::
  "string \<Rightarrow> string \<Rightarrow> time \<Rightarrow> audit_run \<Rightarrow> dict \<Rightarrow> whiteboard_schedule_request \<Rightarrow> whiteboard_task" where
  "requested_task rid tid now run body row =
     \<lparr>created_at = now, updated_at = now, wt_task_id = tid, wt_audit_run_id = rid,
      wt_project_id = ar_project_id run, wt_gap_card_id = first_related row,
      wt_agent_role = ''whiteboard-requested-agent'',
      wt_agent_name = py_str (por (por (dget body ''agent_name'') (opt_str (wsr_suggested_agent_name row)))
                                  (PStr (template_of ''source-sink-finder''))),
      wt_status = ''queued'', wt_round_index = 1, wt_attempt_index = 1, wt_agent_run_id = None,
      wt_parent_task_id = optional_str (por (dget body ''parent_task_id'') (opt_str (wsr_requested_by_task_id row))) 128,
      wt_root_task_id = optional_str (por (dget body ''root_task_id'') (opt_str (wsr_requested_by_task_id row))) 128,
      wt_card_id = first_related row, wt_wait_reason = None, wt_wake_event_id = None,
      wt_task_group = optional_str (dget body ''task_group'') 128,
      wt_requested_by_agent_run_id = wsr_requested_by_agent_run_id row,
      wt_prompt = Some (wsr_goal row),
      wt_result = [(''schedule_request_id'', PStr (wsr_request_id row)), (''reason'', opt_str (wsr_reason row))]\<rparr>"

text \<open>The status and the body after the low-value policy: an approval it forbids is a rejection.\<close>

definition policed_decision :: "string option \<Rightarrow> string \<Rightarrow> dict \<Rightarrow> string \<times> dict" where
  "policed_decision blocked status body =
     (case blocked of
        Some m \<Rightarrow> if status \<in> {''approved'', ''scheduled''}
                  then (''rejected'', dset body ''decision'' (PDict (low_value_decision m)))
                  else (status, body)
      | None \<Rightarrow> (status, body))"

text \<open>The task a granted request gets when the decision names none.\<close>

definition grant_task ::
  "string \<Rightarrow> audit_run \<Rightarrow> string \<Rightarrow> dict \<Rightarrow> whiteboard_schedule_request \<Rightarrow> whiteboard_schedule_request wtx" where
  "grant_task rid run status body row =
     (if status \<in> {''approved'', ''scheduled''} \<and> wsr_task_id row = None
      then tx_bind new_uuid (\<lambda>tid.
           tx_do (tx_modify (\<lambda>d. d\<lparr>wb_tasks := wb_tasks d @ [requested_task rid tid (db_now d) run body row]\<rparr>))
             (tx_ret (row\<lparr>wsr_task_id := Some tid\<rparr>)))
      else tx_ret row)"

definition write_request :: "whiteboard_schedule_request \<Rightarrow> whiteboard_schedule_request wtx" where
  "write_request row =
     tx_bind (tx_gets (\<lambda>d. map (\<lambda>old. stamped (db_now d) old row)
        (filter (\<lambda>r. wsr_request_id r = wsr_request_id row) (wb_requests d)))) (\<lambda>written.
     tx_do (tx_modify (\<lambda>d. d\<lparr>wb_requests :=
        row_upd wsr_request_id (wsr_request_id row) (\<lambda>old. stamped (db_now d) old row) (wb_requests d)\<rparr>))
       (tx_ret (case written of [] \<Rightarrow> row | r # _ \<Rightarrow> r)))"

text \<open>The rest of a decision once its status and body are settled.\<close>

definition settle_request ::
  "string \<Rightarrow> audit_run \<Rightarrow> string \<Rightarrow> dict \<Rightarrow> dict \<Rightarrow> whiteboard_schedule_request \<Rightarrow> dict wtx" where
  "settle_request rid run status body decision old =
     tx_bind (grant_task rid run status body
                (old\<lparr>wsr_status := status, wsr_decision := decision,
                     wsr_task_id := optional_str (dget body ''task_id'') 128\<rparr>)) (\<lambda>row.
     tx_bind (write_request row) (\<lambda>written.
     tx_do (wb_record_event rid (ar_project_id run) ''schedule-request'' (wsr_request_id row) status
              (''Schedule request '' @ status @ '': '' @ take 160 (wsr_goal row))
              [(''schedule_request'', PDict (wb_schedule_request_to_dict row))])
       (tx_ret (wb_schedule_request_to_dict written))))"

definition decide_schedule_request_row :: "string \<Rightarrow> string \<Rightarrow> dict \<Rightarrow> dict wtx" where
  "decide_schedule_request_row rid qid body =
     tx_bind (get_run rid) (\<lambda>run.
     tx_bind (get_request rid qid) (\<lambda>old.
       let asked = safe_token (por (por (dget body ''status'') (dget body ''decision'')) (PStr ''approved'')) ''approved''
       in tx_do (tx_guard (asked \<in> set DECISION_STATUSES)
                  (ValueError ''schedule request decision must be approved, rejected, merged, or scheduled''))
          (tx_bind (tx_gets (low_value_only_schedule_reason rid (wsr_related_card_ids old))) (\<lambda>blocked.
           let decided = policed_decision blocked asked body
           in tx_bind (tx_lift (py_dict (por (dget (snd decided) ''decision'') (PDict (snd decided))))) (\<lambda>decision.
              settle_request rid run (fst decided) (snd decided) decision old)))))"

definition decide_schedule_request :: "string \<Rightarrow> string \<Rightarrow> dict \<Rightarrow> dict wop" where
  "decide_schedule_request rid qid body = commit (decide_schedule_request_row rid qid body)"

section \<open>Tasks\<close>

definition agent_node :: "dict \<Rightarrow> pyval" where
  "agent_node task = PDict
     [(''id'', PStr (''task:'' @ py_str (dget task ''task_id''))), (''kind'', PStr ''whiteboard-task''),
      (''label'', por (dget task ''agent_role'') (dget task ''agent_name'')),
      (''status'', dget task ''status''), (''data'', PDict task)]"

definition graph_edge :: "string \<Rightarrow> string \<Rightarrow> string \<Rightarrow> pyval" where
  "graph_edge src tgt ty = PDict [(''source'', PStr src), (''target'', PStr tgt), (''type'', PStr ty)]"

definition agent_edges :: "pyval set \<Rightarrow> dict \<Rightarrow> pyval list" where
  "agent_edges task_ids task =
     (let tgt = ''task:'' @ py_str (dget task ''task_id'');
          parent = dget task ''parent_task_id'';
          card_id = por (dget task ''card_id'') (dget task ''gap_card_id'')
      in (if truthy parent \<and> parent \<in> task_ids then [graph_edge (''task:'' @ py_str parent) tgt ''parent''] else []) @
         (if truthy card_id then [graph_edge (''card:'' @ py_str card_id) tgt ''works-on''] else []))"

definition agent_graph :: "string \<Rightarrow> dict wtx" where
  "agent_graph rid =
     tx_bind (get_run rid) (\<lambda>run. tx_gets (\<lambda>d.
       let tasks = board_tasks d rid; task_ids = set (map (\<lambda>t. dget t ''task_id'') tasks)
       in [(''audit_run_id'', PStr rid), (''project_id'', PStr (ar_project_id run)),
           (''nodes'', PList (map agent_node tasks)),
           (''edges'', PList (concat (map (agent_edges task_ids) tasks))),
           (''summary'', PDict [(''task_count'', PInt (int (length tasks)))])]))"

definition pending_gap_cards :: "string \<Rightarrow> nat \<Rightarrow> db \<Rightarrow> whiteboard_card list" where
  "pending_gap_cards rid limit d =
     take limit (asc (\<lambda>c. wc_audit_run_id c = rid \<and> wc_card_type c = ''gap'' \<and>
       wc_status c \<in> {''open'', ''needs_agent''}) (wb_cards d))"

definition task_attempt_count :: "string \<Rightarrow> string \<Rightarrow> db \<Rightarrow> nat" where
  "task_attempt_count rid gap_card_id d =
     length (filter (\<lambda>t. wt_audit_run_id t = rid \<and> wt_gap_card_id t = Some gap_card_id) (wb_tasks d))"

definition gap_kind :: "whiteboard_card \<Rightarrow> string" where
  "gap_kind gap =
     str_lower (str_strip (if wc_metadata gap = [] then []
       else py_str (por (dget (wc_metadata gap) ''gap_kind'') (dget (wc_metadata gap) ''kind''))))"

definition gap_agent :: "dict \<Rightarrow> whiteboard_card \<Rightarrow> string \<times> string" where
  "gap_agent config gap =
     (let (agent_role, default_agent_name) =
            (case map_of WHITEBOARD_AGENT_BY_GAP_TYPE (gap_kind gap) of
               None \<Rightarrow> (''source-sink-finder'', template_of ''source-sink-finder'') | Some p \<Rightarrow> p)
      in (agent_role,
          py_str (por (dget config (replace_char (CHR ''-'') (CHR ''_'') agent_role @ ''_agent_name''))
                      (PStr default_agent_name))))"

definition gap_task :: "string \<Rightarrow> time \<Rightarrow> audit_run \<Rightarrow> whiteboard_card \<Rightarrow> int \<Rightarrow> int \<Rightarrow> whiteboard_task" where
  "gap_task tid now run gap round_index attempt_index =
     (let group = take 128 (py_str (por (por (dget (wc_metadata gap) ''source_trace_group'')
                                             (dget (wc_metadata gap) ''task_group'')) (PStr [])))
      in \<lparr>created_at = now, updated_at = now, wt_task_id = tid, wt_audit_run_id = ar_audit_run_id run,
          wt_project_id = ar_project_id run, wt_gap_card_id = Some (wc_card_id gap),
          wt_agent_role = fst (gap_agent (ar_config run) gap), wt_agent_name = snd (gap_agent (ar_config run) gap),
          wt_status = ''queued'', wt_round_index = round_index, wt_attempt_index = attempt_index,
          wt_agent_run_id = None, wt_parent_task_id = None, wt_root_task_id = None,
          wt_card_id = Some (wc_card_id gap), wt_wait_reason = None, wt_wake_event_id = None,
          wt_task_group = (if group = [] then None else Some group), wt_requested_by_agent_run_id = None,
          wt_prompt = Some (''Resolve whiteboard gap `'' @ wc_card_id gap @ ''`: '' @ wc_title gap @ [CHR 0x0A, CHR 0x0A]
            @ opt_text (wc_content gap)),
          wt_result = []\<rparr>)"

definition set_card_status :: "string \<Rightarrow> string \<Rightarrow> unit wtx" where
  "set_card_status cid status =
     tx_modify (\<lambda>d. d\<lparr>wb_cards :=
       row_upd wc_card_id cid (\<lambda>c. stamped (db_now d) c (c\<lparr>wc_status := status\<rparr>)) (wb_cards d)\<rparr>)"

definition create_task_row :: "audit_run \<Rightarrow> whiteboard_card \<Rightarrow> int \<Rightarrow> int \<Rightarrow> whiteboard_task wtx" where
  "create_task_row run gap round_index attempt_index =
     tx_bind new_uuid (\<lambda>tid.
     tx_bind (tx_gets (\<lambda>d. gap_task tid (db_now d) run gap round_index attempt_index)) (\<lambda>task.
     tx_do (tx_modify (\<lambda>d. d\<lparr>wb_tasks := wb_tasks d @ [task]\<rparr>))
     (tx_do (set_card_status (wc_card_id gap) ''agent_queued'')
     (tx_do (wb_record_event (ar_audit_run_id run) (ar_project_id run) ''task'' tid ''created''
              (''Whiteboard task queued: '' @ wc_title gap) [(''task'', PDict (unflushed (wb_task_to_dict task)))])
       (tx_ret task)))))"

definition create_task_for_gap ::
  "wb_env \<Rightarrow> audit_run \<Rightarrow> whiteboard_card \<Rightarrow> int \<Rightarrow> int \<Rightarrow> whiteboard_task wop" where
  "create_task_for_gap env run gap round_index attempt_index =
     sx_bind (commit (create_task_row run gap round_index attempt_index)) (\<lambda>task.
     sx_do (write_snapshot env (ar_audit_run_id run)) (sx_ret task))"

end
