(* ===== verification/Whiteboard_Invariant.thy ===== *)
theory Whiteboard_Invariant
  imports Whiteboard_Scheduling
begin

text \<open>
  What the whiteboard's tables satisfy after any sequence of operations: primary keys are
  unique, edges, notes and attachments hang on cards of their run, notifications belong to an
  event and a subscription, leases and granted requests are complete. Each table's part is a
  predicate on the lists it speaks of, so that a change of one table leaves the others' parts
  alone; \<open>board_intros\<close> collects how the parts survive the changes the operations make.
\<close>

named_theorems board_intros \<open>parts of the board invariant after a change of a table\<close>

section \<open>The parts\<close>

text \<open>\<open>uuid4\<close> never repeats: the identifiers to come are none of those in a table.\<close>

definition keyed :: "(nat \<Rightarrow> string) \<Rightarrow> nat \<Rightarrow> string list \<Rightarrow> bool" where
  "keyed u n ids \<longleftrightarrow> inj u \<and> distinct ids \<and> (\<forall>m \<ge> n. u m \<notin> set ids)"

definition has_card :: "whiteboard_card list \<Rightarrow> string \<Rightarrow> string \<Rightarrow> bool" where
  "has_card cs rid cid \<longleftrightarrow> (\<exists>c \<in> set cs. wc_audit_run_id c = rid \<and> wc_card_id c = cid)"

definition edges_ok :: "whiteboard_card list \<Rightarrow> whiteboard_edge list \<Rightarrow> bool" where
  "edges_ok cs es \<longleftrightarrow> (\<forall>e \<in> set es. we_source_card_id e \<noteq> we_target_card_id e \<and>
     has_card cs (we_audit_run_id e) (we_source_card_id e) \<and> has_card cs (we_audit_run_id e) (we_target_card_id e) \<and>
     we_edge_type e \<in> set WHITEBOARD_EDGE_TYPES)"

definition notes_ok :: "whiteboard_card list \<Rightarrow> whiteboard_note list \<Rightarrow> bool" where
  "notes_ok cs ns \<longleftrightarrow> (\<forall>n \<in> set ns. wn_content n \<noteq> [] \<and>
     (\<forall>cid. wn_card_id n = Some cid \<longrightarrow> has_card cs (wn_audit_run_id n) cid))"

definition attachments_ok :: "whiteboard_card list \<Rightarrow> whiteboard_attachment list \<Rightarrow> bool" where
  "attachments_ok cs as \<longleftrightarrow> (\<forall>a \<in> set as. has_card cs (wa_audit_run_id a) (wa_card_id a) \<and>
     validate_attachment_path (wa_path a) = Inr (wa_path a))"

definition lease_ok :: "whiteboard_notification \<Rightarrow> bool" where
  "lease_ok n \<longleftrightarrow> wno_status n \<in> set NOTIFICATION_STATUSES \<and> 0 \<le> wno_attempt_count n \<and>
     (wno_status n = ''claimed'' \<longrightarrow> wno_lease_expires_at n \<noteq> None \<and> 1 \<le> wno_attempt_count n) \<and>
     (wno_status n \<in> {''handled'', ''ignored''} \<longrightarrow> wno_lease_expires_at n = None)"

definition notifications_ok ::
  "whiteboard_event list \<Rightarrow> whiteboard_subscription list \<Rightarrow> whiteboard_notification list \<Rightarrow> bool" where
  "notifications_ok evs subs ns \<longleftrightarrow> (\<forall>n \<in> set ns. lease_ok n \<and>
     (\<exists>ev \<in> set evs. wv_event_id ev = wno_event_id n \<and> wv_audit_run_id ev = wno_audit_run_id n) \<and>
     (\<exists>s \<in> set subs. ws_subscription_id s = wno_subscription_id n \<and> ws_audit_run_id s = wno_audit_run_id n))"

definition once_notified :: "whiteboard_notification list \<Rightarrow> bool" where
  "once_notified ns \<longleftrightarrow> distinct (map (\<lambda>n. (wno_event_id n, wno_subscription_id n)) ns)"

definition requests_ok :: "whiteboard_schedule_request list \<Rightarrow> bool" where
  "requests_ok rs \<longleftrightarrow> (\<forall>r \<in> set rs. wsr_goal r \<noteq> [] \<and> wsr_status r \<in> insert ''pending'' (set DECISION_STATUSES) \<and>
     (wsr_status r \<in> {''approved'', ''scheduled''} \<longrightarrow> wsr_task_id r \<noteq> None))"

definition keys_ok :: "db \<Rightarrow> bool" where
  "keys_ok d \<longleftrightarrow> (let k = keyed (db_uuids d) (db_uuid_next d) in
     k (map wc_card_id (wb_cards d)) \<and> k (map we_edge_id (wb_edges d)) \<and> k (map wn_note_id (wb_notes d)) \<and>
     k (map wa_attachment_id (wb_attachments d)) \<and> k (map wt_task_id (wb_tasks d)) \<and>
     k (map wv_event_id (wb_events d)) \<and> k (map ws_subscription_id (wb_subscriptions d)) \<and>
     k (map wno_notification_id (wb_notifications d)) \<and> k (map wsr_request_id (wb_requests d)))"

definition board_ok :: "db \<Rightarrow> bool" where
  "board_ok d \<longleftrightarrow> keys_ok d \<and> edges_ok (wb_cards d) (wb_edges d) \<and> notes_ok (wb_cards d) (wb_notes d) \<and>
     attachments_ok (wb_cards d) (wb_attachments d) \<and>
     notifications_ok (wb_events d) (wb_subscriptions d) (wb_notifications d) \<and>
     once_notified (wb_notifications d) \<and> requests_ok (wb_requests d)"

section \<open>Changes of one table\<close>

lemma keyed_Suc [board_intros]: "keyed u n ids \<Longrightarrow> keyed u (Suc n) ids"
  by (auto simp: keyed_def)

lemma keyed_insert [board_intros]: "keyed u n ids \<Longrightarrow> keyed u (Suc n) (ids @ [u n])"
  by (auto simp: keyed_def inj_def Suc_le_eq)

lemma has_card_append [simp]: "has_card (cs @ [c]) rid cid \<longleftrightarrow>
   has_card cs rid cid \<or> wc_audit_run_id c = rid \<and> wc_card_id c = cid"
  by (auto simp: has_card_def)

lemma cards_ok_append [board_intros]:
  "edges_ok cs es \<Longrightarrow> edges_ok (cs @ [c]) es"
  "notes_ok cs ns \<Longrightarrow> notes_ok (cs @ [c]) ns"
  "attachments_ok cs as \<Longrightarrow> attachments_ok (cs @ [c]) as"
  by (auto simp: edges_ok_def notes_ok_def attachments_ok_def)

lemma rows_ok_append:
  "edges_ok cs (es @ [e]) \<longleftrightarrow> edges_ok cs es \<and> edges_ok cs [e]"
  "notes_ok cs (ns @ [n]) \<longleftrightarrow> notes_ok cs ns \<and> notes_ok cs [n]"
  "attachments_ok cs (as @ [a]) \<longleftrightarrow> attachments_ok cs as \<and> attachments_ok cs [a]"
  "notifications_ok evs subs (nos @ [no]) \<longleftrightarrow> notifications_ok evs subs nos \<and> notifications_ok evs subs [no]"
  "requests_ok (rs @ [r]) \<longleftrightarrow> requests_ok rs \<and> requests_ok [r]"
  by (auto simp: edges_ok_def notes_ok_def attachments_ok_def notifications_ok_def requests_ok_def)

lemma notifications_ok_more [board_intros]:
  "notifications_ok evs subs ns \<Longrightarrow> notifications_ok (evs @ [ev]) subs ns"
  "notifications_ok evs subs ns \<Longrightarrow> notifications_ok evs (subs @ [s]) ns"
  by (fastforce simp: notifications_ok_def)+

text \<open>A row is rewritten and keeps what others refer to it by.\<close>

lemma map_row_upd: "(\<And>r. r \<in> set rows \<Longrightarrow> key r = k \<Longrightarrow> g (f r) = g r) \<Longrightarrow> map g (row_upd key k f rows) = map g rows"
  by (auto simp: row_upd_def)

lemma bex_row_upd:
  "(\<And>r. r \<in> set rows \<Longrightarrow> key r = k \<Longrightarrow> P (f r) = P r) \<Longrightarrow> (\<exists>r \<in> set (row_upd key k f rows). P r) = (\<exists>r \<in> set rows. P r)"
  by (auto simp: row_upd_def)

lemma ball_row_upd:
  "(\<And>r. r \<in> set rows \<Longrightarrow> key r = k \<Longrightarrow> P r \<Longrightarrow> P (f r)) \<Longrightarrow> (\<forall>r \<in> set rows. P r) \<Longrightarrow> \<forall>r \<in> set (row_upd key k f rows). P r"
  by (auto simp: row_upd_def)

lemma has_card_row_upd:
  assumes "\<And>c. c \<in> set cs \<Longrightarrow> wc_card_id c = k \<Longrightarrow> wc_audit_run_id (f c) = wc_audit_run_id c \<and> wc_card_id (f c) = wc_card_id c"
  shows "has_card (row_upd wc_card_id k f cs) = has_card cs"
  unfolding has_card_def by (intro ext bex_row_upd) (use assms in auto)

lemma same_has_card:
  assumes "has_card cs' = has_card cs"
  shows "edges_ok cs' es = edges_ok cs es" "notes_ok cs' ns = notes_ok cs ns" "attachments_ok cs' as = attachments_ok cs as"
  unfolding edges_ok_def notes_ok_def attachments_ok_def assms by simp_all

lemma stamped_card [simp]:
  "wc_card_id (stamped t c c') = wc_card_id c'" "wc_audit_run_id (stamped t c c') = wc_audit_run_id c'"
  by (auto simp: stamped_def)

lemma stamped_subscription [simp]:
  "ws_subscription_id (stamped t s s') = ws_subscription_id s'" "ws_audit_run_id (stamped t s s') = ws_audit_run_id s'"
  "ws_status (stamped t s s') = ws_status s'" "ws_filter (stamped t s s') = ws_filter s'"
  by (auto simp: stamped_def)

lemma stamped_notification [simp]:
  "wno_notification_id (stamped t n n') = wno_notification_id n'" "wno_audit_run_id (stamped t n n') = wno_audit_run_id n'"
  "wno_event_id (stamped t n n') = wno_event_id n'" "wno_subscription_id (stamped t n n') = wno_subscription_id n'"
  "lease_ok (stamped t n n') = lease_ok n'"
  by (auto simp: stamped_def lease_ok_def)

lemma stamped_request [simp]:
  "wsr_request_id (stamped t r r') = wsr_request_id r'" "wsr_status (stamped t r r') = wsr_status r'"
  "wsr_task_id (stamped t r r') = wsr_task_id r'" "wsr_goal (stamped t r r') = wsr_goal r'"
  by (auto simp: stamped_def)

section \<open>Reading\<close>

lemma wp_get_run [simp]: "tx_wp (get_run rid) Q d \<longleftrightarrow> (\<forall>r. find_run d rid = Some r \<longrightarrow> Q r d)"
  by (simp add: tx_wp_def get_run_def split: option.splits)

lemma wp_get_card [simp]: "tx_wp (get_card rid cid) Q d \<longleftrightarrow> (\<forall>c. find_card d rid cid = Some c \<longrightarrow> Q c d)"
  by (simp add: tx_wp_def get_card_def split: option.splits)

lemma wp_get_edge [simp]: "tx_wp (get_edge rid eid) Q d \<longleftrightarrow> (\<forall>e. find_edge d rid eid = Some e \<longrightarrow> Q e d)"
  by (simp add: tx_wp_def get_edge_def split: option.splits)

lemma wp_get_notification [simp]:
  "tx_wp (get_notification rid nid) Q d \<longleftrightarrow> (\<forall>n. find_notification d rid nid = Some n \<longrightarrow> Q n d)"
  by (simp add: tx_wp_def get_notification_def split: option.splits)

lemma wp_get_request [simp]:
  "tx_wp (get_request rid qid) Q d \<longleftrightarrow> (\<forall>r. find_request d rid qid = Some r \<longrightarrow> Q r d)"
  by (simp add: tx_wp_def get_request_def split: option.splits)

lemma wp_new_uuid [simp]:
  "tx_wp new_uuid Q d \<longleftrightarrow> Q (db_uuids d (db_uuid_next d)) (d\<lparr>db_uuid_next := Suc (db_uuid_next d)\<rparr>)"
  by (simp add: tx_wp_def new_uuid_def fresh_uuid_def)

lemma find_some: "List.find P xs = Some x \<Longrightarrow> x \<in> set xs \<and> P x"
  by (auto simp: find_Some_iff)

lemma find_card_Some: "find_card d rid cid = Some c \<Longrightarrow> c \<in> set (wb_cards d) \<and> wc_audit_run_id c = rid \<and> wc_card_id c = cid"
  unfolding find_card_def by (drule find_some) simp

lemma find_card_has: "find_card d rid cid = Some c \<Longrightarrow> has_card (wb_cards d) rid cid"
  by (drule find_card_Some) (auto simp: has_card_def)

section \<open>Recording an event\<close>

text \<open>What the fan-out of an event changes: notifications, cursors and the stream of identifiers.\<close>

abbreviation sub_key :: "whiteboard_subscription \<Rightarrow> string \<times> string \<times> string \<times> dict" where
  "sub_key s \<equiv> (ws_subscription_id s, ws_audit_run_id s, ws_status s, ws_filter s)"

definition notified :: "db \<Rightarrow> db \<Rightarrow> bool" where
  "notified d d' \<longleftrightarrow> (\<exists>n new ss. d' = d\<lparr>db_uuid_next := n, wb_notifications := wb_notifications d @ new, wb_subscriptions := ss\<rparr> \<and>
     map sub_key ss = map sub_key (wb_subscriptions d))"

lemma notified_refl [simp]: "notified d d"
  unfolding notified_def by (rule exI [of _ "db_uuid_next d"], rule exI [of _ "[]"],
    rule exI [of _ "wb_subscriptions d"]) simp

lemma notified_trans: "notified a b \<Longrightarrow> notified b c \<Longrightarrow> notified a c"
  unfolding notified_def by (elim exE conjE) (auto intro!: exI)

lemma notified_frame:
  assumes "notified d d'"
  shows "wb_events d' = wb_events d" "wb_cards d' = wb_cards d" "wb_edges d' = wb_edges d" "wb_notes d' = wb_notes d"
    "wb_attachments d' = wb_attachments d" "wb_tasks d' = wb_tasks d" "wb_requests d' = wb_requests d"
    "audit_runs d' = audit_runs d" "db_now d' = db_now d" "evidence_rows d' = evidence_rows d"
    "artifact_files d' = artifact_files d" "db_uuids d' = db_uuids d"
    "map sub_key (wb_subscriptions d') = map sub_key (wb_subscriptions d)"
  using assms by (auto simp: notified_def)

lemma notified_appends: "notified d d' \<Longrightarrow> prefix (wb_notifications d) (wb_notifications d')"
  by (auto simp: notified_def)

text \<open>The run of a subscription is known by its identifier.\<close>

lemma sub_key_ids:
  assumes "map sub_key ss = map sub_key ss'"
  shows "(\<exists>s \<in> set ss. ws_subscription_id s = sid \<and> ws_audit_run_id s = rid) \<longleftrightarrow>
    (\<exists>s \<in> set ss'. ws_subscription_id s = sid \<and> ws_audit_run_id s = rid)"
    and "map ws_subscription_id ss = map ws_subscription_id ss'"
proof -
  have "(\<lambda>k. (fst k, fst (snd k))) ` set (map sub_key ss) = (\<lambda>k. (fst k, fst (snd k))) ` set (map sub_key ss')"
    using assms by simp
  then have "(\<lambda>s. (ws_subscription_id s, ws_audit_run_id s)) ` set ss = (\<lambda>s. (ws_subscription_id s, ws_audit_run_id s)) ` set ss'"
    by (simp add: image_image)
  then have "(sid, rid) \<in> (\<lambda>s. (ws_subscription_id s, ws_audit_run_id s)) ` set ss \<longleftrightarrow>
      (sid, rid) \<in> (\<lambda>s. (ws_subscription_id s, ws_audit_run_id s)) ` set ss'" by simp
  then show "(\<exists>s \<in> set ss. ws_subscription_id s = sid \<and> ws_audit_run_id s = rid) \<longleftrightarrow>
    (\<exists>s \<in> set ss'. ws_subscription_id s = sid \<and> ws_audit_run_id s = rid)" by (auto simp: image_iff)
  have "map fst (map sub_key ss) = map fst (map sub_key ss')" using assms by simp
  then show "map ws_subscription_id ss = map ws_subscription_id ss'" by (simp add: comp_def)
qed

lemma notifications_ok_subs:
  "map sub_key ss = map sub_key ss' \<Longrightarrow> notifications_ok evs ss ns = notifications_ok evs ss' ns"
  unfolding notifications_ok_def using sub_key_ids(1) [of ss ss'] by simp

definition has_sub :: "db \<Rightarrow> string \<Rightarrow> string \<Rightarrow> bool" where
  "has_sub d rid sid \<longleftrightarrow> (\<exists>s \<in> set (wb_subscriptions d). ws_subscription_id s = sid \<and> ws_audit_run_id s = rid)"

lemma has_sub_notified: "notified d d' \<Longrightarrow> has_sub d' rid sid = has_sub d rid sid"
  unfolding has_sub_def by (rule sub_key_ids(1)) (rule notified_frame(13))

lemma cursor_keeps_keys:
  "map sub_key (row_upd ws_subscription_id k (\<lambda>s. stamped t s (s\<lparr>ws_cursor_event_id := e\<rparr>)) ss) = map sub_key ss"
  by (rule map_row_upd) simp

lemma wp_notify:
  assumes ok: "board_ok d" and ev: "ev \<in> set (wb_events d)" and sub: "has_sub d (wv_audit_run_id ev) (ws_subscription_id sub)"
    and Q: "\<And>d'. board_ok d' \<Longrightarrow> notified d d' \<Longrightarrow> Q () d'"
  shows "tx_wp (notify ev sub) Q d"
proof -
  let ?ss = "row_upd ws_subscription_id (ws_subscription_id sub)
    (\<lambda>s. stamped (db_now d) s (s\<lparr>ws_cursor_event_id := Some (wv_event_id ev)\<rparr>)) (wb_subscriptions d)"
  let ?no = "notification_for ev sub (db_uuids d (db_uuid_next d)) (db_now d)"
  let ?d' = "d\<lparr>db_uuid_next := Suc (db_uuid_next d), wb_notifications := wb_notifications d @ [?no], wb_subscriptions := ?ss\<rparr>"
  have keys: "map sub_key ?ss = map sub_key (wb_subscriptions d)" by (rule cursor_keeps_keys)
  have "board_ok ?d'" if new: "\<not> list_ex (\<lambda>n. wno_event_id n = wv_event_id ev \<and> wno_subscription_id n = ws_subscription_id sub)
      (wb_notifications d)"
  proof -
    have "keys_ok ?d'"
      using ok sub_key_ids(2) [OF keys]
      by (simp add: board_ok_def keys_ok_def Let_def notification_for_def board_intros)
    moreover have "notifications_ok (wb_events d) ?ss [?no]"
      using ev sub unfolding notifications_ok_subs [OF keys] has_sub_def
      by (auto simp: notifications_ok_def notification_for_def lease_ok_def NOTIFICATION_STATUSES_def)
    moreover have "once_notified (wb_notifications d @ [?no])"
      using ok new by (auto simp: board_ok_def once_notified_def notification_for_def list_ex_iff)
    ultimately show ?thesis
      using ok by (simp add: board_ok_def rows_ok_append notifications_ok_subs [OF keys])
  qed
  moreover have "notified d ?d'"
    unfolding notified_def by (rule exI, rule exI, rule exI, rule conjI [OF refl keys])
  ultimately show ?thesis by (auto simp: notify_def intro!: Q ok)
qed

lemma wp_fanout:
  "board_ok d \<Longrightarrow> ev \<in> set (wb_events d) \<Longrightarrow> \<forall>s \<in> set subs. has_sub d (wv_audit_run_id ev) (ws_subscription_id s) \<Longrightarrow>
   (\<And>d'. board_ok d' \<Longrightarrow> notified d d' \<Longrightarrow> Q () d') \<Longrightarrow> tx_wp (fanout ev subs) Q d"
proof (induction ev subs arbitrary: d rule: fanout.induct)
  case (1 ev)
  then show ?case by simp
next
  case (2 ev sub subs)
  have next_ok: "tx_wp (fanout ev subs) Q d1" if "board_ok d1" "notified d d1" for d1
    using that 2 notified_trans notified_frame(1) [OF that(2)] by (intro 2(1)) (auto simp: has_sub_notified)
  have "tx_wp (notify ev sub) (\<lambda>_. tx_wp (fanout ev subs) Q) d"
    using 2 next_ok by (intro wp_notify) auto
  then show ?case using next_ok [OF 2(2) notified_refl] by simp
qed

definition recorded :: "whiteboard_event \<Rightarrow> db \<Rightarrow> db \<Rightarrow> bool" where
  "recorded ev d d' \<longleftrightarrow> notified (d\<lparr>db_uuid_next := Suc (db_uuid_next d), wb_events := wb_events d @ [ev]\<rparr>) d'"

lemma wp_record_event:
  assumes "board_ok d"
    and "\<And>ev d'. board_ok d' \<Longrightarrow> recorded ev d d' \<Longrightarrow> wv_audit_run_id ev = rid \<Longrightarrow> wv_entity_id ev = entity_id \<Longrightarrow> Q ev d'"
  shows "tx_wp (wb_record_event rid project entity_type entity_id event_type summary payload) Q d"
proof -
  define ev where "ev = \<lparr>created_at = db_now d, updated_at = db_now d, wv_event_id = db_uuids d (db_uuid_next d),
    wv_audit_run_id = rid, wv_project_id = project, wv_entity_type = entity_type, wv_entity_id = entity_id,
    wv_event_type = event_type, wv_summary = Some summary, wv_payload = payload\<rparr>"
  let ?d = "d\<lparr>db_uuid_next := Suc (db_uuid_next d), wb_events := wb_events d @ [ev]\<rparr>"
  have "wv_event_id ev = db_uuids d (db_uuid_next d)" by (simp add: ev_def)
  then have ok: "board_ok ?d" using assms(1) by (simp add: board_ok_def keys_ok_def Let_def board_intros)
  have "tx_wp (fanout ev (active_subscriptions ?d rid)) (\<lambda>_. tx_wp (tx_ret ev) Q) ?d"
    using ok by (rule wp_fanout)
      (auto simp: active_subscriptions_def has_sub_def ev_def intro!: assms(2) simp: recorded_def)
  then show ?thesis
    by (simp add: wb_record_event_def fanout_notifications_def ev_def)
qed

lemma recorded_frame:
  assumes "recorded ev d d'"
  shows "wb_events d' = wb_events d @ [ev]" "wb_cards d' = wb_cards d" "wb_edges d' = wb_edges d" "wb_notes d' = wb_notes d"
    "wb_attachments d' = wb_attachments d" "wb_tasks d' = wb_tasks d" "wb_requests d' = wb_requests d"
    "audit_runs d' = audit_runs d" "db_now d' = db_now d" "evidence_rows d' = evidence_rows d"
    "artifact_files d' = artifact_files d" "db_uuids d' = db_uuids d" "find_run d' rid = find_run d rid"
  using assms notified_frame by (fastforce simp: recorded_def find_run_def)+

lemma recorded_appends: "recorded ev d d' \<Longrightarrow> prefix (wb_notifications d) (wb_notifications d')"
  unfolding recorded_def by (drule notified_appends) simp

end
