(* ===== verification/Whiteboard_Operations.thy ===== *)
theory Whiteboard_Operations
  imports Whiteboard_Invariant
begin

text \<open>
  Every transaction of the whiteboard keeps the board invariant and only adds to the board:
  one lemma per operation, in the order of the service.
\<close>

section \<open>Nothing is deleted\<close>

definition later :: "db \<Rightarrow> db \<Rightarrow> bool" where
  "later d d' \<longleftrightarrow>
     prefix (wb_events d) (wb_events d') \<and>
     prefix (map (\<lambda>c. (wc_audit_run_id c, wc_card_id c)) (wb_cards d)) (map (\<lambda>c. (wc_audit_run_id c, wc_card_id c)) (wb_cards d')) \<and>
     prefix (wb_edges d) (wb_edges d') \<and> prefix (wb_notes d) (wb_notes d') \<and>
     prefix (wb_attachments d) (wb_attachments d') \<and> prefix (wb_tasks d) (wb_tasks d') \<and>
     prefix (evidence_rows d) (evidence_rows d') \<and>
     prefix (map wsr_request_id (wb_requests d)) (map wsr_request_id (wb_requests d')) \<and>
     prefix (map wno_notification_id (wb_notifications d)) (map wno_notification_id (wb_notifications d')) \<and>
     audit_runs d' = audit_runs d"

lemma later_refl [simp]: "later d d"
  by (simp add: later_def)

lemma later_trans: "later a b \<Longrightarrow> later b c \<Longrightarrow> later a c"
  unfolding later_def by (auto intro: prefix_order.trans)

lemma later_uuid [simp]: "later d (d'\<lparr>db_uuid_next := n\<rparr>) = later d d'"
  by (simp add: later_def)

lemma recorded_later: "recorded ev d d' \<Longrightarrow> later d d'"
  using recorded_appends [of ev d d'] by (simp add: later_def recorded_frame map_mono_prefix)

text \<open>A transaction that keeps the board and adds to it.\<close>

definition adds :: "db \<Rightarrow> (db, 'a) tx \<Rightarrow> bool" where
  "adds d m \<longleftrightarrow> tx_wp m (\<lambda>_ d'. board_ok d' \<and> later d d') d"

lemma board_recorded:
  assumes "board_ok d'" and "later d d'"
  shows "tx_wp (wb_record_event rid p et eid ty s pl) (\<lambda>_ d'. board_ok d' \<and> later d d') d'"
  using assms(1) by (rule wp_record_event) (auto intro: later_trans [OF assms(2) recorded_later])

lemma board_recorded_ret:
  assumes "board_ok d'" and "later d d'"
  shows "tx_wp (wb_record_event rid p et eid ty s pl) (\<lambda>ev. tx_wp (tx_ret (f ev)) (\<lambda>_ d'. board_ok d' \<and> later d d')) d'"
  using board_recorded [OF assms] by (rule tx_wp_mono) simp

lemma find_run_uuid [simp]: "find_run (d\<lparr>db_uuid_next := n\<rparr>) rid = find_run d rid"
  by (simp add: find_run_def)

lemma find_card_uuid [simp]: "find_card (d\<lparr>db_uuid_next := n\<rparr>) rid cid = find_card d rid cid"
  by (simp add: find_card_def)

section \<open>Attachments\<close>

lemma strip_by_map: "(\<And>c. p (f c) = p c) \<Longrightarrow> strip_by p (map f s) = map f (strip_by p s)"
  by (simp add: strip_by_def dropWhile_map rev_map comp_def)

lemma strip_replace: "str_strip (replace_char (CHR 0x5C) (CHR ''/'') s) = replace_char (CHR 0x5C) (CHR ''/'') (str_strip s)"
  unfolding str_strip_def replace_char_def by (rule strip_by_map) (simp add: is_ws_def)

lemma validate_attachment_again:
  assumes "validate_attachment_path p = Inr q" shows "validate_attachment_path q = Inr q"
proof -
  define n where "n = replace_char (CHR 0x5C) (CHR ''/'') (str_strip p)"
  have q: "q = n" using assms by (auto simp: validate_attachment_path_def Let_def n_def split: if_splits)
  have "replace_char (CHR 0x5C) (CHR ''/'') (str_strip n) = n"
    by (simp add: n_def strip_replace) (simp add: replace_char_def)
  then show ?thesis using assms unfolding q by (simp add: validate_attachment_path_def Let_def n_def [symmetric] split: if_splits)
qed

lemma board_add_attachment:
  assumes "board_ok d" shows "adds d (add_attachment_row rid cid flush item)"
proof -
  have "board_ok d' \<and> later d d'"
    if "find_card d rid cid = Some c" "validate_attachment_path p = Inr q"
      "d' = d\<lparr>db_uuid_next := Suc (db_uuid_next d), wb_attachments := wb_attachments d @
        [\<lparr>created_at = db_now d, updated_at = db_now d, wa_attachment_id = db_uuids d (db_uuid_next d), wa_audit_run_id = rid,
          wa_project_id = pr, wa_card_id = cid, wa_path = q, wa_label = l, wa_content_type = ct, wa_metadata = m\<rparr>]\<rparr>"
    for c p q pr l ct m d'
    using assms find_card_has [OF that(1)] validate_attachment_again [OF that(2)] unfolding that(3)
    by (simp add: board_ok_def keys_ok_def Let_def board_intros rows_ok_append later_def)
       (simp add: attachments_ok_def)
  then show ?thesis
    unfolding adds_def add_attachment_row_def
    by (auto simp: board_recorded_ret)
qed

section \<open>Cards\<close>

lemma new_card_ids: "new_card env cid rid pr now body = Inr c \<Longrightarrow> wc_card_id c = cid \<and> wc_audit_run_id c = rid"
  by (auto simp: new_card_def rbind_Inr_iff)

lemma board_insert_card:
  assumes "board_ok d" and "wc_card_id c = db_uuids d (db_uuid_next d)"
  shows "board_ok (d\<lparr>db_uuid_next := Suc (db_uuid_next d), wb_cards := wb_cards d @ [c]\<rparr>)"
    and "later d (d\<lparr>db_uuid_next := Suc (db_uuid_next d), wb_cards := wb_cards d @ [c]\<rparr>)"
  using assms by (simp_all add: board_ok_def keys_ok_def Let_def board_intros later_def)

lemma board_create_card:
  assumes "board_ok d" shows "adds d (create_card_row env rid body)"
proof -
  have rest: "tx_wp (tx_map (add_attachment_row rid' cid False) items)
      (\<lambda>_. tx_wp (tx_do (wb_record_event rid' pr et eid ty s pl) (tx_ret cid)) (\<lambda>_ d'. board_ok d' \<and> later d d')) d'"
    if "board_ok d'" "later d d'" for rid' cid items pr et eid ty s pl d'
  proof -
    have "tx_wp (add_attachment_row rid' cid False item) (\<lambda>_ e. board_ok e \<and> later d e) e"
      if "board_ok e \<and> later d e" for item e
      using that board_add_attachment [of e rid' cid False item] unfolding adds_def
      by (auto elim!: tx_wp_mono intro: later_trans)
    then have "tx_wp (tx_map (add_attachment_row rid' cid False) items) (\<lambda>_ e. board_ok e \<and> later d e) d'"
      by (rule tx_wp_map) (use that in simp_all)
    then show ?thesis by (rule tx_wp_mono) (auto intro: board_recorded_ret)
  qed
  show ?thesis
    unfolding adds_def create_card_row_def
    using assms by (auto dest!: new_card_ids intro!: rest board_insert_card)
qed

lemma row_upd_ids:
  assumes "distinct (map key rows)" and "r \<in> set rows" and "g r' = g r"
    and "\<And>x. g (f x) = g r'"
  shows "map g (row_upd key (key r) f rows) = map g rows"
  using assms row_find_distinct [OF assms(1)] by (intro map_row_upd) (metis option.inject)

lemma board_write_card:
  assumes "board_ok d" and "c \<in> set (wb_cards d)" and "wc_card_id row = wc_card_id c"
    and "wc_audit_run_id row = wc_audit_run_id c"
  shows "board_ok (d\<lparr>wb_cards := row_upd wc_card_id (wc_card_id row) (\<lambda>old. stamped (db_now d) old row) (wb_cards d)\<rparr>)"
    and "later d (d\<lparr>wb_cards := row_upd wc_card_id (wc_card_id row) (\<lambda>old. stamped (db_now d) old row) (wb_cards d)\<rparr>)"
proof -
  let ?cs = "row_upd wc_card_id (wc_card_id row) (\<lambda>old. stamped (db_now d) old row) (wb_cards d)"
  have "distinct (map wc_card_id (wb_cards d))" using assms(1) by (simp add: board_ok_def keys_ok_def Let_def keyed_def)
  then have keys: "map (\<lambda>c. (wc_audit_run_id c, wc_card_id c)) ?cs = map (\<lambda>c. (wc_audit_run_id c, wc_card_id c)) (wb_cards d)"
    using assms(2-4) row_upd_ids [of wc_card_id "wb_cards d" c "\<lambda>c. (wc_audit_run_id c, wc_card_id c)" row] by simp
  then have same: "has_card ?cs = has_card (wb_cards d)"
  proof -
    have "has_card cs rid cid \<longleftrightarrow> (rid, cid) \<in> set (map (\<lambda>c. (wc_audit_run_id c, wc_card_id c)) cs)" for cs rid cid
      by (auto simp: has_card_def image_iff)
    moreover have "set (map (\<lambda>c. (wc_audit_run_id c, wc_card_id c)) ?cs) = set (map (\<lambda>c. (wc_audit_run_id c, wc_card_id c)) (wb_cards d))"
      by (simp only: keys)
    ultimately show ?thesis by (intro ext) (simp only:)
  qed
  have "map wc_card_id ?cs = map wc_card_id (wb_cards d)"
    using arg_cong [OF keys, of "map snd"] by (simp add: comp_def)
  then show "board_ok (d\<lparr>wb_cards := ?cs\<rparr>)"
    using assms(1) by (simp add: board_ok_def keys_ok_def Let_def same_has_card [OF same])
  show "later d (d\<lparr>wb_cards := ?cs\<rparr>)" using keys by (simp add: later_def)
qed

lemma updated_card_ids: "updated_card body c = Inr row \<Longrightarrow>
   wc_card_id row = wc_card_id c \<and> wc_audit_run_id row = wc_audit_run_id c \<and> wc_project_id row = wc_project_id c"
  by (auto simp: updated_card_def rbind_Inr_iff)

lemma board_update_card:
  assumes "board_ok d" shows "adds d (update_card_row rid cid body)"
  unfolding adds_def update_card_row_def write_card_def
  using assms by (auto dest!: updated_card_ids find_card_Some intro!: board_recorded_ret intro: board_write_card)

section \<open>Edges and notes\<close>

lemma board_create_edge:
  assumes "board_ok d" shows "adds d (create_edge_row rid body)"
proof -
  have "board_ok d' \<and> later d d'"
    if "has_card (wb_cards d) rid s" "has_card (wb_cards d) rid t" "s \<noteq> t" "ty \<in> set WHITEBOARD_EDGE_TYPES"
      "d' = d\<lparr>db_uuid_next := Suc (db_uuid_next d), wb_edges := wb_edges d @
        [\<lparr>created_at = db_now d, updated_at = db_now d, we_edge_id = db_uuids d (db_uuid_next d), we_audit_run_id = rid,
          we_project_id = pr, we_source_card_id = s, we_target_card_id = t, we_edge_type = ty, we_author = a,
          we_agent_run_id = ag, we_rationale = ra, we_metadata = m\<rparr>]\<rparr>" for s t ty pr a ag ra m d'
    using assms that by (simp add: board_ok_def keys_ok_def Let_def board_intros rows_ok_append later_def)
      (simp add: edges_ok_def)
  then show ?thesis
    unfolding adds_def create_edge_row_def Let_def
    by (auto simp: board_recorded_ret dest!: find_card_has)
qed

lemma board_add_note:
  assumes "board_ok d" shows "adds d (add_note_row rid body)"
proof -
  have "board_ok d' \<and> later d d'"
    if "\<forall>cid. co = Some cid \<longrightarrow> has_card (wb_cards d) rid cid" "content \<noteq> []"
      "d' = d\<lparr>db_uuid_next := Suc (db_uuid_next d), wb_notes := wb_notes d @
        [\<lparr>created_at = db_now d, updated_at = db_now d, wn_note_id = db_uuids d (db_uuid_next d), wn_audit_run_id = rid,
          wn_project_id = pr, wn_card_id = co, wn_author = a, wn_agent_run_id = ag, wn_content = content, wn_metadata = m\<rparr>]\<rparr>"
    for co content pr a ag m d'
    using assms that by (simp add: board_ok_def keys_ok_def Let_def board_intros rows_ok_append later_def)
      (simp add: notes_ok_def)
  then show ?thesis
    unfolding adds_def add_note_row_def Let_def
    by (auto simp: board_recorded_ret dest!: find_card_has split: option.split)
qed

section \<open>Evidence\<close>

lemma read_chain_pure: "tx_wp (read_chain rid body) (\<lambda>ch d'. d' = d\<lparr>db_uuid_next := Suc (db_uuid_next d)\<rparr> \<and>
    set (ch_cards ch) \<subseteq> {c \<in> set (wb_cards d). wc_audit_run_id c = rid} \<and> ch_file ch = ''whiteboards/'' @ rid @ ''/evidence-'' @
      uuid_hex12 (db_uuids d (db_uuid_next d)) @ ''.json'') d"
proof -
  have cards: "tx_wp (tx_map (get_card rid \<circ> py_str) ids) (\<lambda>cs d'. d' = d \<and> set cs \<subseteq> {c \<in> set (wb_cards d). wc_audit_run_id c = rid}) d"
    for ids
  proof (induction ids)
    case (Cons i ids)
    have "tx_wp (tx_map (get_card rid \<circ> py_str) ids)
        (\<lambda>cs. tx_wp (tx_ret (c # cs)) (\<lambda>cs d'. d' = d \<and> set cs \<subseteq> {c \<in> set (wb_cards d). wc_audit_run_id c = rid})) d"
      if "find_card d rid (py_str i) = Some c" for c
      using find_card_Some [OF that] by (intro tx_wp_mono [OF Cons.IH]) auto
    then show ?case by (simp add: comp_def)
  qed simp
  have edges: "tx_wp (tx_map (get_edge rid \<circ> py_str) ids) (\<lambda>_ d'. d' = d) d" for ids
    by (rule tx_wp_map [where I = "\<lambda>e. e = d"]) simp_all
  show ?thesis
    unfolding read_chain_def graph_def
    by (auto intro!: tx_wp_mono [OF cards] tx_wp_mono [OF edges])
qed

lemma board_store_chain:
  assumes "board_ok d" and "set (ch_cards ch) \<subseteq> {c \<in> set (wb_cards d). wc_audit_run_id c = rid}"
  shows "adds d (store_chain rid body ch path)"
proof -
  have marks: "tx_wp (tx_map (\<lambda>c. write_card (c\<lparr>wc_status := ''submitted''\<rparr>)) cs)
      (\<lambda>_ e. board_ok e \<and> later d e) d'"
    if "board_ok d'" "later d d'" "\<forall>c \<in> set cs. has_card (wb_cards d') (wc_audit_run_id c) (wc_card_id c)" for cs d'
    using that
  proof (induction cs arbitrary: d')
    case (Cons c cs)
    obtain c' where c': "c' \<in> set (wb_cards d')" "wc_card_id c = wc_card_id c'" "wc_audit_run_id c = wc_audit_run_id c'"
      using Cons.prems(3) by (auto simp: has_card_def)
    let ?row = "c\<lparr>wc_status := ''submitted''\<rparr>"
    let ?e = "d'\<lparr>wb_cards := row_upd wc_card_id (wc_card_id ?row) (\<lambda>old. stamped (db_now d') old ?row) (wb_cards d')\<rparr>"
    note w = board_write_card [OF Cons.prems(1) c'(1), of ?row]
    have "has_card (wb_cards ?e) rid cid" if "has_card (wb_cards d') rid cid" for rid cid
    proof -
      have "prefix (map (\<lambda>c. (wc_audit_run_id c, wc_card_id c)) (wb_cards d')) (map (\<lambda>c. (wc_audit_run_id c, wc_card_id c)) (wb_cards ?e))"
        using w c' by (simp add: later_def)
      then show ?thesis using that set_mono_prefix by (fastforce simp: has_card_def)
    qed
    then have "tx_wp (tx_map (\<lambda>c. write_card (c\<lparr>wc_status := ''submitted''\<rparr>)) cs) (\<lambda>_ e. board_ok e \<and> later d e) ?e"
      using w c' Cons.prems by (intro Cons.IH) (auto intro: later_trans)
    then show ?case by (auto simp: write_card_def elim!: tx_wp_mono)
  qed simp
  have "board_ok d'" "later d d'" "\<forall>c \<in> set (ch_cards ch). has_card (wb_cards d') (wc_audit_run_id c) (wc_card_id c)"
    if "d' = d\<lparr>db_uuid_next := Suc (db_uuid_next d), evidence_rows := evidence_rows d @ [r]\<rparr>" for d' r
    using assms that by (auto simp: board_ok_def keys_ok_def Let_def board_intros later_def has_card_def)
  then show ?thesis
    unfolding adds_def store_chain_def
    by (auto intro!: tx_wp_mono [OF marks] board_recorded_ret)
qed

section \<open>Subscriptions and leases\<close>

lemma board_subscribe:
  assumes "board_ok d" shows "adds d (subscribe_row rid body)"
proof -
  have "board_ok d' \<and> later d d'"
    if "d' = d\<lparr>db_uuid_next := Suc (db_uuid_next d), wb_subscriptions := wb_subscriptions d @ [s]\<rparr>"
      "ws_subscription_id s = db_uuids d (db_uuid_next d)" for d' s
    using assms that by (simp add: board_ok_def keys_ok_def Let_def board_intros later_def)
  then show ?thesis unfolding adds_def subscribe_row_def Let_def by auto
qed

lemma find_notification_Some:
  "find_notification d rid nid = Some n \<Longrightarrow>
   n \<in> set (wb_notifications d) \<and> wno_audit_run_id n = rid \<and> wno_notification_id n = nid"
  unfolding find_notification_def by (drule find_some) simp

lemma updated_notification_frame [simp]:
  "wno_notification_id (updated_notification s c l t n) = wno_notification_id n"
  "wno_audit_run_id (updated_notification s c l t n) = wno_audit_run_id n"
  "wno_event_id (updated_notification s c l t n) = wno_event_id n"
  "wno_subscription_id (updated_notification s c l t n) = wno_subscription_id n"
  by (simp_all add: updated_notification_def Let_def)

lemma updated_notification_lease:
  "lease_ok n \<Longrightarrow> s \<in> set NOTIFICATION_STATUSES \<Longrightarrow> lease_ok (updated_notification s c l t n)"
  by (auto simp: lease_ok_def updated_notification_def Let_def)

lemma board_update_notification:
  assumes "board_ok d" shows "adds d (update_notification_row rid nid status claimed_by lease)"
proof -
  have "board_ok d' \<and> later d d'"
    if n: "find_notification d rid nid = Some n" and s: "s \<in> set NOTIFICATION_STATUSES"
      and d': "d' = d\<lparr>wb_notifications := row_upd wno_notification_id nid
        (\<lambda>_. stamped (db_now d) n (updated_notification s claimed_by lease (db_now d) n)) (wb_notifications d)\<rparr>" for n s d'
  proof -
    let ?new = "stamped (db_now d) n (updated_notification s claimed_by lease (db_now d) n)"
    let ?ns = "row_upd wno_notification_id nid (\<lambda>_. ?new) (wb_notifications d)"
    note n = find_notification_Some [OF n]
    have dist: "distinct (map wno_notification_id (wb_notifications d))"
      using assms by (simp add: board_ok_def keys_ok_def Let_def keyed_def)
    have same: "map g ?ns = map g (wb_notifications d)" if "g ?new = g n" for g :: "whiteboard_notification \<Rightarrow> 'b"
      using row_upd_ids [OF dist, of n g ?new "\<lambda>_. ?new"] n that by simp
    have "notifications_ok (wb_events d) (wb_subscriptions d) ?ns"
    proof -
      have ok: "notifications_ok (wb_events d) (wb_subscriptions d) (wb_notifications d)" using assms by (simp add: board_ok_def)
      then have "notifications_ok (wb_events d) (wb_subscriptions d) [?new]"
        using n updated_notification_lease [of n s claimed_by lease "db_now d"] s unfolding notifications_ok_def
        by (simp del: ex_simps) blast
      with ok show ?thesis unfolding notifications_ok_def by (intro ball_row_upd) auto
    qed
    moreover have "once_notified ?ns"
      using assms same [of "\<lambda>n. (wno_event_id n, wno_subscription_id n)"] by (simp add: board_ok_def once_notified_def)
    moreover have "map wno_notification_id ?ns = map wno_notification_id (wb_notifications d)" by (rule same) simp
    ultimately show ?thesis using assms unfolding d' by (simp add: board_ok_def keys_ok_def Let_def later_def)
  qed
  then show ?thesis
    unfolding adds_def update_notification_row_def Let_def by auto
qed

section \<open>Requests and tasks\<close>

lemma board_create_request:
  assumes "board_ok d" shows "adds d (create_schedule_request_row rid body)"
proof -
  have "board_ok d' \<and> later d d'"
    if "d' = d\<lparr>db_uuid_next := Suc (db_uuid_next d), wb_requests := wb_requests d @ [r]\<rparr>"
      "wsr_request_id r = db_uuids d (db_uuid_next d)" "wsr_goal r \<noteq> []" "wsr_status r \<in> {''pending'', ''rejected''}" for d' r
    using assms that
    by (simp add: board_ok_def keys_ok_def Let_def board_intros later_def rows_ok_append)
      (auto simp: requests_ok_def DECISION_STATUSES_def)
  then show ?thesis
    unfolding adds_def create_schedule_request_row_def Let_def
    by (auto intro!: board_recorded_ret)
qed

lemma find_request_Some:
  "find_request d rid qid = Some r \<Longrightarrow> r \<in> set (wb_requests d) \<and> wsr_audit_run_id r = rid \<and> wsr_request_id r = qid"
  unfolding find_request_def by (drule find_some) simp

text \<open>Writing back a request whose status fits its task.\<close>

lemma wp_write_request:
  assumes "board_ok d" and "r \<in> set (wb_requests d)" and "wsr_request_id row = wsr_request_id r"
    and "requests_ok [row]"
    and "\<And>w d'. board_ok d' \<Longrightarrow> later d d' \<Longrightarrow> Q w d'"
  shows "tx_wp (write_request row) Q d"
proof -
  let ?rs = "row_upd wsr_request_id (wsr_request_id row) (\<lambda>old. stamped (db_now d) old row) (wb_requests d)"
  have dist: "distinct (map wsr_request_id (wb_requests d))"
    using assms(1) by (simp add: board_ok_def keys_ok_def Let_def keyed_def)
  have "map wsr_request_id ?rs = map wsr_request_id (wb_requests d)"
    using row_upd_ids [OF dist assms(2), of wsr_request_id row] assms(3) by simp
  moreover have "requests_ok ?rs"
    using assms(1,4) unfolding board_ok_def requests_ok_def by (intro ball_row_upd) auto
  ultimately have "board_ok (d\<lparr>wb_requests := ?rs\<rparr>)" "later d (d\<lparr>wb_requests := ?rs\<rparr>)"
    using assms(1) by (simp_all add: board_ok_def keys_ok_def Let_def later_def)
  then show ?thesis unfolding write_request_def by (simp add: assms(5))
qed

lemma wp_grant_task:
  assumes "board_ok d" and "wsr_goal row \<noteq> []" and "status \<in> set DECISION_STATUSES" and "wsr_status row = status"
    and "\<And>w d'. board_ok d' \<Longrightarrow> later d d' \<Longrightarrow> wb_requests d' = wb_requests d \<Longrightarrow>
      requests_ok [w] \<Longrightarrow> wsr_request_id w = wsr_request_id row \<Longrightarrow> Q w d'"
  shows "tx_wp (grant_task rid run status body row) Q d"
proof (cases "status \<in> {''approved'', ''scheduled''} \<and> wsr_task_id row = None")
  case True
  let ?d' = "d\<lparr>db_uuid_next := Suc (db_uuid_next d), wb_tasks := wb_tasks d @
    [requested_task rid (db_uuids d (db_uuid_next d)) (db_now d) run body row]\<rparr>"
  have "board_ok ?d'" "later d ?d'"
    using assms(1) by (simp_all add: board_ok_def keys_ok_def Let_def board_intros later_def requested_task_def)
  with True assms(2-4) show ?thesis
    by (auto simp: grant_task_def requests_ok_def intro!: assms(5))
next
  case False
  then show ?thesis using assms by (auto simp: grant_task_def requests_ok_def)
qed

lemma policed_status: "status \<in> set DECISION_STATUSES \<Longrightarrow> fst (policed_decision blocked status body) \<in> set DECISION_STATUSES"
  by (auto simp: policed_decision_def DECISION_STATUSES_def split: option.split)

lemma board_settle_request:
  assumes "board_ok d" and "find_request d rid qid = Some old" and "status \<in> set DECISION_STATUSES"
  shows "adds d (settle_request rid run status body decision old)"
proof -
  note old = find_request_Some [OF assms(2)]
  have goal: "wsr_goal old \<noteq> []" using assms(1) old by (auto simp: board_ok_def requests_ok_def)
  have "tx_wp (write_request w) (\<lambda>x. tx_wp (tx_do (wb_record_event rid p et eid ty s pl) (tx_ret (g x)))
      (\<lambda>_ d'. board_ok d' \<and> later d d')) d1"
    if "board_ok d1" "later d d1" "wb_requests d1 = wb_requests d" "requests_ok [w]" "wsr_request_id w = wsr_request_id old"
    for w d1 p et eid ty s pl and g :: "whiteboard_schedule_request \<Rightarrow> dict"
    using that old by (intro wp_write_request [of d1 old]) (auto intro!: board_recorded_ret intro: later_trans)
  then show ?thesis
    using assms(1,3) goal unfolding adds_def settle_request_def by (auto intro!: wp_grant_task)
qed

lemma board_decide_request:
  assumes "board_ok d" shows "adds d (decide_schedule_request_row rid qid body)"
  using assms policed_status board_settle_request [OF assms]
  unfolding adds_def decide_schedule_request_row_def Let_def by auto

lemma board_create_task:
  assumes "board_ok d" shows "adds d (create_task_row run gap round_index attempt_index)"
proof -
  let ?task = "gap_task (db_uuids d (db_uuid_next d)) (db_now d) run gap round_index attempt_index"
  let ?cs = "row_upd wc_card_id (wc_card_id gap) (\<lambda>c. stamped (db_now d) c (c\<lparr>wc_status := ''agent_queued''\<rparr>)) (wb_cards d)"
  let ?d' = "d\<lparr>db_uuid_next := Suc (db_uuid_next d), wb_tasks := wb_tasks d @ [?task], wb_cards := ?cs\<rparr>"
  have same: "has_card ?cs = has_card (wb_cards d)" by (rule has_card_row_upd) simp
  have keys: "map (\<lambda>c. (wc_audit_run_id c, wc_card_id c)) ?cs = map (\<lambda>c. (wc_audit_run_id c, wc_card_id c)) (wb_cards d)"
    by (rule map_row_upd) simp
  have ids: "map wc_card_id ?cs = map wc_card_id (wb_cards d)" by (rule map_row_upd) simp
  have "wt_task_id ?task = db_uuids d (db_uuid_next d)" by (simp add: gap_task_def Let_def)
  then have "board_ok ?d'" "later d ?d'"
    using assms keys by (simp_all add: board_ok_def keys_ok_def Let_def board_intros same_has_card [OF same] ids later_def)
  then show ?thesis
    unfolding adds_def create_task_row_def set_card_status_def by (auto intro!: board_recorded_ret)
qed

lemmas board_operations =
  board_create_card board_update_card board_create_edge board_add_note board_add_attachment
  board_subscribe board_update_notification board_create_request board_decide_request board_create_task

end
