(* ===== verification/Whiteboard_Board.thy ===== *)
theory Whiteboard_Board
  imports Whiteboard_Operations
begin

text \<open>
  The whiteboard as its clients see it: calls of the service in any order, each a sequence of
  committed transactions and file writes. The theorems hold for every such sequence, calls that
  raise included.
\<close>

section \<open>Calls\<close>

datatype board_op =
    CreateCard string dict
  | DeclareGap string dict
  | UpdateCard string string dict
  | CreateEdge string dict
  | AddNote string dict
  | AddAttachment string string pyval
  | SubmitEvidence string dict
  | Subscribe string dict
  | UpdateNotification string string string "string option" "int option"
  | RequestAgent string dict
  | DecideRequest string string dict
  | CreateTask audit_run whiteboard_card int int

definition done_with :: "'a wop \<Rightarrow> unit wop" where
  "done_with m = sx_do m (sx_ret ())"

fun board_call :: "wb_env \<Rightarrow> board_op \<Rightarrow> unit wop" where
  "board_call env (CreateCard rid body) = done_with (create_card env rid body)"
| "board_call env (DeclareGap rid body) = done_with (declare_gap env rid body)"
| "board_call env (UpdateCard rid cid body) = done_with (update_card env rid cid body)"
| "board_call env (CreateEdge rid body) = done_with (create_edge env rid body)"
| "board_call env (AddNote rid body) = done_with (add_note env rid body)"
| "board_call env (AddAttachment rid cid item) = done_with (add_attachment env rid cid item)"
| "board_call env (SubmitEvidence rid body) = done_with (submit_chain_evidence env rid body)"
| "board_call env (Subscribe rid body) = done_with (subscribe rid body)"
| "board_call env (UpdateNotification rid nid st by lease) = done_with (update_notification rid nid st by lease)"
| "board_call env (RequestAgent rid body) = done_with (create_schedule_request rid body)"
| "board_call env (DecideRequest rid qid body) = done_with (decide_schedule_request rid qid body)"
| "board_call env (CreateTask run gap r a) = done_with (create_task_for_gap env run gap r a)"

definition board_exec :: "wb_env \<Rightarrow> board_op \<Rightarrow> db \<Rightarrow> db" where
  "board_exec env op d = snd (board_call env op d)"

section \<open>Files and views\<close>

lemma put_json_cases:
  "put_json env path payload d = (r, d') \<Longrightarrow>
   (case r of
      Inl _ \<Rightarrow> d' = d
    | Inr m \<Rightarrow> \<exists>p. validate_relative_path (env_artifacts env) path = Inr p \<and> d' = d\<lparr>artifact_files := (artifact_files d)(p := Some payload)\<rparr>)"
  unfolding put_json_def
  by (cases "validate_relative_path (env_artifacts env) path") (auto simp: sx_simps split: sum.splits)

lemma wp_put_json:
  assumes "\<And>p m. validate_relative_path (env_artifacts env) path = Inr p \<Longrightarrow>
      Q m (d\<lparr>artifact_files := (artifact_files d)(p := Some payload)\<rparr>)"
    and "\<And>e. E e d"
  shows "sx_wp (put_json env path payload) Q E d"
proof -
  obtain r d' where r: "put_json env path payload d = (r, d')" by (cases "put_json env path payload d")
  show ?thesis using put_json_cases [OF r] assms by (auto simp: sx_wp_def r split: sum.splits)
qed

lemma wp_write_snapshot:
  assumes "\<And>p m run. find_run d rid = Some run \<Longrightarrow> validate_relative_path (env_artifacts env) (snapshot_path rid) = Inr p \<Longrightarrow>
      Q m (d\<lparr>artifact_files := (artifact_files d)(p := Some (PDict (board_graph d rid run)))\<rparr>)"
    and "\<And>e. E e d"
  shows "sx_wp (write_snapshot env rid) Q E d"
proof -
  have "sx_wp (commit (graph rid)) (\<lambda>g. sx_wp (put_json env (snapshot_path rid) (PDict g)) Q E) E d"
    using assms by (intro sx_wp_commit) (auto simp: graph_def intro!: wp_put_json)
  then show ?thesis by (simp add: write_snapshot_def)
qed

lemma wp_card_view: "Q' d \<Longrightarrow> (\<And>e. E e d) \<Longrightarrow> sx_wp (commit (card_view rid cid)) (\<lambda>_. Q') E d"
  by (rule sx_wp_commit) (simp_all add: card_view_def)

lemma files_frame [simp]:
  "board_ok (d\<lparr>artifact_files := fs\<rparr>) = board_ok d" "later d (d'\<lparr>artifact_files := fs\<rparr>) = later d d'"
  "find_run (d\<lparr>artifact_files := fs\<rparr>) rid = find_run d rid"
  "board_graph (d\<lparr>artifact_files := fs\<rparr>) rid run = board_graph d rid run"
  by (simp_all add: board_ok_def keys_ok_def later_def find_run_def board_graph_def board_tasks_def attachments_of_def)

section \<open>The invariant of every history\<close>

definition history :: "db \<Rightarrow> db \<Rightarrow> bool" where
  "history d e \<longleftrightarrow> board_ok e \<and> later d e"

lemma adds_history: "adds e m \<Longrightarrow> history d e \<Longrightarrow> tx_wp m (\<lambda>_. history d) e"
  unfolding adds_def by (erule tx_wp_mono) (auto simp: history_def intro: later_trans)

lemma keeps_history_commit: "(\<And>e. board_ok e \<Longrightarrow> adds e m) \<Longrightarrow> keeps (history d) (commit m)"
  unfolding keeps_wp by (auto intro!: sx_wp_commit adds_history simp: history_def [of d] dest: conjunct1)

lemma history_files [simp]: "history d (e\<lparr>artifact_files := fs\<rparr>) = history d e"
  by (simp add: history_def)

lemma history_uuid: "history d e \<Longrightarrow> history d (e\<lparr>db_uuid_next := Suc (db_uuid_next e)\<rparr>)"
  by (simp add: history_def board_ok_def keys_ok_def Let_def board_intros)

lemma keeps_history_files [keeps_intros]:
  "keeps (history d) (put_json env path payload)" "keeps (history d) (write_snapshot env rid)"
  unfolding keeps_wp by (auto intro!: wp_put_json wp_write_snapshot)

lemma keeps_history_view [keeps_intros]: "keeps (history d) (commit (card_view rid cid))"
  unfolding keeps_wp by (auto intro!: wp_card_view)

lemmas keeps_history = keeps_intros keeps_history_commit board_operations

lemma keeps_submit: "keeps (history d) (submit_chain_evidence env rid body)"
proof -
  let ?H = "history d"
  have rest: "sx_wp (sx_do (write_snapshot env rid) (sx_ret x)) (\<lambda>_. ?H) (\<lambda>_. ?H) e" if "?H e" for x e
    by (rule keeps_wpI [OF keeps_do [OF keeps_history_files(2) keeps_ret] that])
  have store: "sx_wp (commit (store_chain rid body ch path)) (\<lambda>row. sx_wp (sx_do (write_snapshot env rid) (sx_ret (f row)))
      (\<lambda>_. ?H) (\<lambda>_. ?H)) (\<lambda>_. ?H) e"
    if "?H e" "set (ch_cards ch) \<subseteq> {c \<in> set (wb_cards e). wc_audit_run_id c = rid}" for ch path e f
  proof -
    have "adds e (store_chain rid body ch path)"
      using that by (intro board_store_chain) (simp_all add: history_def)
    then have "tx_wp (store_chain rid body ch path) (\<lambda>_. ?H) e" using that(1) by (rule adds_history)
    then show ?thesis using that(1) by (intro sx_wp_commit) (auto elim!: tx_wp_mono intro!: rest simp del: sx_wp_do)
  qed
  have "sx_wp (submit_chain_evidence env rid body) (\<lambda>_. ?H) (\<lambda>_. ?H) e" if "?H e" for e
    unfolding submit_chain_evidence_def sx_wp_bind
  proof (rule sx_wp_commit [OF tx_wp_mono [OF read_chain_pure]])
    fix ch :: chain and e1
    assume e1: "e1 = e\<lparr>db_uuid_next := Suc (db_uuid_next e)\<rparr> \<and>
      set (ch_cards ch) \<subseteq> {c \<in> set (wb_cards e). wc_audit_run_id c = rid} \<and>
      ch_file ch = ''whiteboards/'' @ rid @ ''/evidence-'' @ uuid_hex12 (db_uuids e (db_uuid_next e)) @ ''.json''"
    then have "?H e1" using history_uuid [OF that] by simp
    then show "sx_wp (put_json env (ch_file ch) pl) (\<lambda>m. sx_wp (commit (store_chain rid body ch (g m)))
        (\<lambda>row. sx_wp (sx_do (write_snapshot env rid) (sx_ret (f m row))) (\<lambda>_. ?H) (\<lambda>_. ?H)) (\<lambda>_. ?H)) (\<lambda>_. ?H) e1"
      for pl g f
      using e1 by (intro wp_put_json store) simp_all
  qed (rule that)
  then show ?thesis by (simp add: keeps_wp)
qed

lemma keeps_board_call: "keeps (history d) (board_call env op)"
proof (cases op)
  case (SubmitEvidence rid body)
  then show ?thesis using keeps_do [OF keeps_submit keeps_ret] by (simp add: done_with_def)
qed (auto simp: done_with_def create_card_def declare_gap_def update_card_def create_edge_def add_note_def add_attachment_def
    subscribe_def update_notification_def create_schedule_request_def decide_schedule_request_def create_task_for_gap_def Let_def
    intro!: keeps_history)

lemma board_exec_history: "history d e \<Longrightarrow> history d (board_exec env op e)"
  using keeps_board_call [of d env op] by (simp add: keeps_def board_exec_def)

text \<open>C3. After any sequence of calls of the service, whatever they are asked and whether they
  raise: the primary keys of the nine tables of the board are unique; an edge joins two different
  cards of its run with an allowed type; a note has a content and, if it names a card, one of its
  run; an attachment hangs on a card of its run and its path is one the path check accepts; a
  notification belongs to an event and a subscription of its run, once per pair, with a lease
  while it is claimed and none when it is handled or ignored; a request has a goal and a known
  status, and names a task once it is granted. And nothing is deleted: cards, edges, notes,
  attachments, tasks, evidence, requests, notifications and the event log only grow at their end.
  The service stores some identifiers without looking them up - the related cards of a request,
  a task named in it, the gap of a task and the finding of a card or of a piece of evidence - and
  the claim says nothing of what those name.\<close>

theorem board_invariant:
  assumes "board_ok d"
  shows "board_ok (fold (board_exec env) ops d) \<and> later d (fold (board_exec env) ops d)"
proof -
  have "history d (fold (board_exec env) ops e)" if "history d e" for e
    using that by (induction ops arbitrary: e) (simp_all add: board_exec_history)
  then show ?thesis using assms by (simp add: history_def)
qed

definition sample_env :: wb_env where
  "sample_env = \<lparr>env_artifacts = \<lparr>as_root = [''data''], as_backend = ''local'', as_bucket = []\<rparr>,
     env_fs = \<lparr>fs_kind = (\<lambda>_. Missing), fs_guess_type = (\<lambda>_. None)\<rparr>,
     env_stat = (\<lambda>_. \<lparr>file_size = 0, file_sha256 = [], file_mtime = PNone\<rparr>), env_fromiso = (\<lambda>_. None)\<rparr>"

lemma sample_uuids: "inj (db_uuids empty_db)"
proof (rule injI)
  fix m n assume "db_uuids empty_db m = db_uuids empty_db n"
  then have "nat_of_str (nat_str m) = nat_of_str (nat_str n)" by (simp add: empty_db_def)
  then show "m = n" by simp
qed

lemma sample_board: "board_ok sample_db"
  using sample_uuids
  by (simp add: board_ok_def keys_ok_def keyed_def sample_db_def empty_db_def edges_ok_def notes_ok_def attachments_ok_def
      notifications_ok_def once_notified_def requests_ok_def)

theorem board_invariant_witness:
  "board_ok (fold (board_exec sample_env)
     [CreateCard ''run-1'' [(''title'', PStr ''sink'')], CreateEdge ''run-1'' [], Subscribe ''run-1'' [(''task_id'', PStr ''t'')],
      DecideRequest ''run-1'' ''none'' []] sample_db)"
  using board_invariant [OF sample_board] by blast

section \<open>What an event leaves alone\<close>

lemma wp_fanout_frame: "notified d0 d \<Longrightarrow> tx_wp (fanout ev subs) (\<lambda>_. notified d0) d"
proof (induction ev subs arbitrary: d rule: fanout.induct)
  case (2 ev sub subs)
  have one: "tx_wp (notify ev sub) (\<lambda>_. notified d0) d"
  proof -
    have "notified d (d\<lparr>db_uuid_next := n, wb_notifications := wb_notifications d @ new,
        wb_subscriptions := row_upd ws_subscription_id k (\<lambda>s. stamped t s (s\<lparr>ws_cursor_event_id := e\<rparr>)) (wb_subscriptions d)\<rparr>)"
      for n new k t e
      unfolding notified_def by (intro exI conjI) (rule refl, rule cursor_keeps_keys)
    then show ?thesis using 2(2) by (auto simp: notify_def intro: notified_trans)
  qed
  then show ?case using 2 by (auto elim!: tx_wp_mono)
qed simp

lemma wp_event:
  assumes "\<And>ev d'. recorded ev d d' \<Longrightarrow> wv_audit_run_id ev = rid \<Longrightarrow> wv_event_type ev = ty \<Longrightarrow>
      wv_entity_type ev = et \<Longrightarrow> wv_entity_id ev = eid \<Longrightarrow> Q ev d'"
  shows "tx_wp (wb_record_event rid project et eid ty summary payload) Q d"
proof -
  have "tx_wp (fanout ev subs) (\<lambda>_. tx_wp (tx_ret ev) Q) (d\<lparr>db_uuid_next := Suc (db_uuid_next d), wb_events := wb_events d @ [ev]\<rparr>)"
    if "wv_audit_run_id ev = rid" "wv_event_type ev = ty" "wv_entity_type ev = et" "wv_entity_id ev = eid" for ev subs
    by (rule tx_wp_mono [OF wp_fanout_frame [OF notified_refl]]) (simp add: assms that recorded_def)
  then show ?thesis by (simp add: wb_record_event_def fanout_notifications_def)
qed

section \<open>The snapshot file\<close>

text \<open>The run whose snapshot a call rewrites.\<close>

fun snapshots :: "board_op \<Rightarrow> string option" where
  "snapshots (CreateCard rid _) = Some rid"
| "snapshots (DeclareGap rid _) = Some rid"
| "snapshots (UpdateCard rid _ _) = Some rid"
| "snapshots (CreateEdge rid _) = Some rid"
| "snapshots (AddNote rid _) = Some rid"
| "snapshots (AddAttachment rid _ _) = Some rid"
| "snapshots (SubmitEvidence rid _) = Some rid"
| "snapshots (CreateTask run _ _ _) = Some (ar_audit_run_id run)"
| "snapshots _ = None"

text \<open>The run in whose log a call reports itself.\<close>

fun logged :: "board_op \<Rightarrow> string option" where
  "logged (RequestAgent rid _) = Some rid"
| "logged (DecideRequest rid _ _) = Some rid"
| "logged op = snapshots op"

definition snapshot_is :: "wb_env \<Rightarrow> string \<Rightarrow> db \<Rightarrow> bool" where
  "snapshot_is env rid d \<longleftrightarrow> (\<exists>run p. find_run d rid = Some run \<and>
     validate_relative_path (env_artifacts env) (snapshot_path rid) = Inr p \<and>
     artifact_files d p = Some (PDict (board_graph d rid run)))"

lemma sx_wp_any: "sx_wp m (\<lambda>_ _. True) (\<lambda>_ _. True) s"
  by (simp add: sx_wp_def split: prod.splits sum.splits)

lemma wp_snapshot_then:
  assumes "\<And>x. keeps (snapshot_is env rid) (k x)"
  shows "sx_wp (sx_bind m (\<lambda>x. sx_do (write_snapshot env rid) (k x))) (\<lambda>_. snapshot_is env rid) (\<lambda>_ _. True) d"
proof -
  have "sx_wp (write_snapshot env rid) (\<lambda>_. sx_wp (k x) (\<lambda>_. snapshot_is env rid) (\<lambda>_ _. True)) (\<lambda>_ _. True) e" for x e
    by (rule wp_write_snapshot)
      (auto simp: snapshot_is_def board_graph_def board_tasks_def attachments_of_def find_run_def intro!: keeps_wpI [OF assms])
  then show ?thesis by (auto intro: sx_wp_mono [OF sx_wp_any])
qed

lemma keeps_snapshot_view: "keeps (snapshot_is env rid) (commit (card_view rid cid))"
  unfolding keeps_wp by (auto intro!: wp_card_view)

lemma wp_done_with: "sx_wp m (\<lambda>_. Q) E d \<Longrightarrow> sx_wp (done_with m) (\<lambda>_. Q) E d"
  by (simp add: done_with_def) (erule sx_wp_mono, simp_all)

lemma wp_after: "(\<And>x e. sx_wp (f x) Q (\<lambda>_ _. True) e) \<Longrightarrow> sx_wp (sx_bind m f) Q (\<lambda>_ _. True) d"
  by (auto intro: sx_wp_mono [OF sx_wp_any])

lemma wp_snapshot_call:
  "snapshots op = Some rid \<Longrightarrow> sx_wp (board_call env op) (\<lambda>_. snapshot_is env rid) (\<lambda>_ _. True) d"
proof (cases op)
  case (UpdateCard rid' cid body)
  assume "snapshots op = Some rid"
  then show ?thesis
    using wp_snapshot_then [of env rid "\<lambda>_. commit (card_view rid cid)" "commit (update_card_row rid cid body)" d]
    by (simp add: UpdateCard update_card_def sx_do_def [of "commit (update_card_row rid cid body)"] wp_done_with keeps_snapshot_view
        del: sx_wp_bind sx_wp_do)
next
  case (SubmitEvidence rid' body)
  assume "snapshots op = Some rid"
  then show ?thesis
    by (auto simp add: SubmitEvidence submit_chain_evidence_def simp del: sx_wp_bind sx_wp_do
        intro!: wp_done_with wp_after wp_snapshot_then keeps_ret)
qed (auto simp add: create_card_def declare_gap_def create_edge_def add_note_def add_attachment_def create_task_for_gap_def Let_def
      simp del: sx_wp_bind sx_wp_do intro!: wp_done_with wp_snapshot_then keeps_ret keeps_snapshot_view)

text \<open>The other calls touch no file.\<close>

lemma keeps_files_commit: "(\<And>e. artifact_files e = fs \<Longrightarrow> tx_wp m (\<lambda>_ e. artifact_files e = fs) e) \<Longrightarrow>
    keeps (\<lambda>e. artifact_files e = fs) (commit m)"
  unfolding keeps_wp by (auto intro!: sx_wp_commit)

lemma wp_event_files:
  assumes "\<And>ev e. artifact_files e = artifact_files d \<Longrightarrow> Q ev e"
  shows "tx_wp (wb_record_event rid p et eid ty s pl) Q d"
  by (rule wp_event) (simp add: assms recorded_frame)

lemma quiet_call:
  assumes "snapshots op = None"
  shows "keeps (\<lambda>e. artifact_files e = fs) (board_call env op)"
proof (cases op)
  case (Subscribe rid body)
  then show ?thesis
    by (auto simp: done_with_def subscribe_def subscribe_row_def Let_def intro!: keeps_intros keeps_files_commit)
next
  case (UpdateNotification rid nid st who lease)
  then show ?thesis
    by (auto simp: done_with_def update_notification_def update_notification_row_def Let_def
        intro!: keeps_intros keeps_files_commit)
next
  case (RequestAgent rid body)
  then show ?thesis
    by (auto simp: done_with_def create_schedule_request_def create_schedule_request_row_def Let_def
        intro!: keeps_intros keeps_files_commit wp_event_files)
next
  case (DecideRequest rid qid body)
  then show ?thesis
    by (auto simp: done_with_def decide_schedule_request_def decide_schedule_request_row_def settle_request_def grant_task_def
        write_request_def Let_def intro!: keeps_intros keeps_files_commit wp_event_files)
qed (use assms in simp_all)

text \<open>C7. When a call on cards, gaps, edges, notes, attachments, evidence or the task of a gap
  returns, the run's snapshot file holds exactly the board as the database has it then. The calls
  on subscriptions, notifications and schedule requests write no file at all, though the board
  lists all three: the snapshot stays as it was until a call of the first kind.\<close>

theorem snapshot_current:
  assumes "board_call env op d = (Inr (), d')"
  shows "case snapshots op of
      Some rid \<Rightarrow> \<exists>run p. find_run d' rid = Some run \<and>
        validate_relative_path (env_artifacts env) (snapshot_path rid) = Inr p \<and>
        artifact_files d' p = Some (PDict (board_graph d' rid run))
    | None \<Rightarrow> artifact_files d' = artifact_files d"
proof (cases "snapshots op")
  case None
  then show ?thesis using quiet_call [OF None, of "artifact_files d" env] assms by (auto simp: keeps_def dest!: spec [of _ d])
next
  case (Some rid)
  then show ?thesis using wp_snapshot_call [OF Some, of env d] assms by (simp add: sx_wp_def snapshot_is_def)
qed

definition sample_card :: whiteboard_card where
  "sample_card = \<lparr>created_at = 0, updated_at = 0, wc_card_id = ''c-1'', wc_audit_run_id = ''run-1'', wc_project_id = ''p-1'',
     wc_title = ''who calls this sink'', wc_card_type = ''gap'', wc_status = ''open'', wc_author = None, wc_agent_run_id = None,
     wc_event_time = None, wc_content = None, wc_confidence = None, wc_finding_id = None, wc_file_path = None,
     wc_line_start = None, wc_line_end = None, wc_expected_predecessors = [], wc_possible_successors = [],
     wc_requirements = [], wc_metadata = []\<rparr>"

abbreviation sample_call :: board_op where
  "sample_call \<equiv> CreateTask (sample_run sample_config) sample_card 1 1"

lemma sample_snapshot_path:
  "validate_relative_path (env_artifacts sample_env) (snapshot_path ''run-1'') = Inr ''whiteboards/run-1/whiteboard.json''"
  "artifact_absolute_path (env_artifacts sample_env) ''whiteboards/run-1/whiteboard.json'' =
     Inr [''data'', ''whiteboards'', ''run-1'', ''whiteboard.json'']"
  by code_simp+

lemma sample_call_run: "snapshots sample_call = Some ''run-1''" "logged sample_call = Some ''run-1''"
  by (simp_all add: sample_run_def)

lemma sample_call_returns: "fst (board_call sample_env sample_call sample_db) = Inr ()"
proof -
  have run: "ar_audit_run_id (sample_run sample_config) = ''run-1''" by (simp add: sample_run_def)
  obtain task d1 where create: "create_task_row (sample_run sample_config) sample_card 1 1 sample_db = Inr (task, d1)"
    by (simp add: create_task_row_def set_card_status_def wb_record_event_def fanout_notifications_def active_subscriptions_def
        new_uuid_def fresh_uuid_def tx_bind_def tx_do_def tx_defs sample_db_def empty_db_def)
  have "audit_runs d1 = audit_runs sample_db"
    using tx_wpD [OF board_create_task [OF sample_board, unfolded adds_def] create] by (simp add: later_def)
  then have "find_run d1 ''run-1'' = Some (sample_run sample_config)"
    by (simp add: find_run_def sample_db_def sample_run_def)
  then show ?thesis
    using create sample_snapshot_path
    by (auto simp: done_with_def create_task_for_gap_def sx_simps commit_def run write_snapshot_def put_json_def graph_def
        get_run_def tx_bind_def tx_defs)
qed

theorem snapshot_current_witness:
  "\<exists>p g. artifact_files (board_exec sample_env sample_call sample_db) p = Some (PDict g)"
proof -
  have "board_call sample_env sample_call sample_db = (Inr (), board_exec sample_env sample_call sample_db)"
    using sample_call_returns by (simp add: board_exec_def prod_eq_iff)
  from snapshot_current [OF this] show ?thesis unfolding sample_call_run by auto
qed

section \<open>All or nothing\<close>





































end
