(* ===== verification/Whiteboard_Policy.thy ===== *)
theory Whiteboard_Policy
  imports Whiteboard_Board
begin

text \<open>
  What the single operations of the whiteboard promise: who is notified of an event, what a
  claim of a notification does, which requests for an agent are granted and what task they get,
  what a search returns, and where an attachment may point.
\<close>

section \<open>Who is notified\<close>

definition matching :: "whiteboard_event \<Rightarrow> whiteboard_subscription list \<Rightarrow> whiteboard_subscription list" where
  "matching ev subs = filter (\<lambda>s. subscription_matches (ws_filter s) ev = Inr True) subs"

lemma notify_new:
  assumes "\<forall>n \<in> set (wb_notifications d). \<not> (wno_event_id n = wv_event_id ev \<and> wno_subscription_id n = ws_subscription_id sub)"
  shows "\<exists>d'. notify ev sub d = Inr ((), d') \<and> db_now d' = db_now d \<and>
    wb_notifications d' = wb_notifications d @ [notification_for ev sub (db_uuids d (db_uuid_next d)) (db_now d)]"
  using assms
  by (auto simp: notify_def tx_bind_def tx_defs new_uuid_def fresh_uuid_def list_ex_iff)

lemma fanout_result:
  "fanout ev subs d = Inr (u, d') \<Longrightarrow> distinct (map ws_subscription_id subs) \<Longrightarrow>
   \<forall>s \<in> set subs. \<forall>n \<in> set (wb_notifications d). \<not> (wno_event_id n = wv_event_id ev \<and> wno_subscription_id n = ws_subscription_id s) \<Longrightarrow>
   \<exists>ids. length ids = length (matching ev subs) \<and>
     wb_notifications d' = wb_notifications d @ map2 (\<lambda>s i. notification_for ev s i (db_now d)) (matching ev subs) ids"
proof (induction ev subs arbitrary: d rule: fanout.induct)
  case (1 ev)
  then show ?case by (simp add: matching_def)
next
  case (2 ev sub subs)
  obtain ok where ok: "subscription_matches (ws_filter sub) ev = Inr ok"
    using 2(2) by (auto simp: tx_simps)
  show ?case
  proof (cases ok)
    case False
    then have "fanout ev subs d = Inr (u, d')" using 2(2) ok by (auto simp: tx_simps)
    then show ?thesis using 2 ok False by (simp add: matching_def)
  next
    case True
    obtain d1 where d1: "notify ev sub d = Inr ((), d1)" "db_now d1 = db_now d"
        "wb_notifications d1 = wb_notifications d @ [notification_for ev sub (db_uuids d (db_uuid_next d)) (db_now d)]"
      using notify_new [of d ev sub] 2(4) by auto
    have "fanout ev subs d1 = Inr (u, d')" using 2(2) ok True d1(1) by (auto simp: tx_simps)
    moreover have "\<forall>s \<in> set subs. \<forall>n \<in> set (wb_notifications d1). \<not> (wno_event_id n = wv_event_id ev \<and> wno_subscription_id n = ws_subscription_id s)"
      using 2(3,4) by (auto simp: d1(3) notification_for_def image_iff)
    ultimately obtain ids where "length ids = length (matching ev subs)"
        "wb_notifications d' = wb_notifications d1 @ map2 (\<lambda>s i. notification_for ev s i (db_now d1)) (matching ev subs) ids"
      using 2(1) [of d1] 2(3) by auto
    then show ?thesis using ok True d1 by (intro exI [of _ "db_uuids d (db_uuid_next d) # ids"]) (simp add: matching_def)
  qed
qed

text \<open>C5. An event produces exactly one pending notification for each active subscription of its
  run whose filter it passes, in the order of the subscriptions, and none for any other.\<close>

theorem event_notifies_matching:
  assumes "board_ok d" and "wb_record_event rid project et eid ty summary payload d = Inr (ev, d')"
  shows "\<exists>ids. length ids = length (matching ev (active_subscriptions d rid)) \<and>
    wb_notifications d' = wb_notifications d @
      map2 (\<lambda>s i. notification_for ev s i (db_now d)) (matching ev (active_subscriptions d rid)) ids"
proof -
  let ?ev = "\<lparr>created_at = db_now d, updated_at = db_now d, wv_event_id = db_uuids d (db_uuid_next d),
    wv_audit_run_id = rid, wv_project_id = project, wv_entity_type = et, wv_entity_id = eid,
    wv_event_type = ty, wv_summary = Some summary, wv_payload = payload\<rparr>"
  let ?d = "d\<lparr>db_uuid_next := Suc (db_uuid_next d), wb_events := wb_events d @ [?ev]\<rparr>"
  have run: "ev = ?ev" "fanout ?ev (active_subscriptions ?d rid) ?d = Inr ((), d')"
    using assms(2)
    by (auto simp: wb_record_event_def fanout_notifications_def tx_simps new_uuid_def fresh_uuid_def)
  have subs: "active_subscriptions ?d rid = active_subscriptions d rid" by (simp add: active_subscriptions_def)
  have "wv_event_id ?ev \<notin> set (map wv_event_id (wb_events d))"
    using assms(1) by (simp add: board_ok_def keys_ok_def Let_def keyed_def)
  then have "\<forall>n \<in> set (wb_notifications d). wno_event_id n \<noteq> wv_event_id ?ev"
    using assms(1) unfolding board_ok_def notifications_ok_def by force
  moreover have "distinct (map ws_subscription_id (active_subscriptions d rid))"
    using assms(1) by (simp add: board_ok_def keys_ok_def Let_def keyed_def active_subscriptions_def distinct_map_filter)
  ultimately show ?thesis
    using fanout_result [OF run(2)] unfolding run(1) subs by simp
qed

definition watching_db :: db where
  "watching_db = sample_db\<lparr>wb_subscriptions :=
     [\<lparr>created_at = 0, updated_at = 0, ws_subscription_id = ''s-1'', ws_audit_run_id = ''run-1'', ws_project_id = ''p-1'',
       ws_subscriber_task_id = Some ''t-1'', ws_subscriber_agent_run_id = None,
       ws_filter = [(''entity_types'', PList [PStr ''card''])], ws_cursor_event_id = None, ws_status = ''active''\<rparr>]\<rparr>"

lemma watching_board: "board_ok watching_db"
  using sample_board by (simp add: board_ok_def keys_ok_def Let_def watching_db_def notifications_ok_def keyed_def)
    (auto simp: sample_db_def empty_db_def)

theorem event_notifies_matching_witness:
  "\<exists>ev d'. wb_record_event ''run-1'' ''p-1'' ''edge'' ''e-1'' ''created'' ''linked'' [] watching_db = Inr (ev, d') \<and>
     wb_notifications d' = []"
proof -
  let ?s = "hd (wb_subscriptions watching_db)"
  have no: "subscription_matches [(''entity_types'', PList [PStr ''card''])] ev = Inr False" if "wv_entity_type ev = ''edge''" for ev
    using that by (simp add: subscription_matches_def criterion_def filter_strs_def str_strip_def strip_by_def is_ws_def)
  then obtain ev d' where e: "wb_record_event ''run-1'' ''p-1'' ''edge'' ''e-1'' ''created'' ''linked'' [] watching_db = Inr (ev, d')"
      "wv_entity_type ev = ''edge''"
    by (auto simp: wb_record_event_def fanout_notifications_def active_subscriptions_def new_uuid_def fresh_uuid_def tx_bind_def
        tx_do_def tx_defs watching_db_def)
  have "matching ev (active_subscriptions watching_db ''run-1'') = []"
    using no [OF e(2)] by (simp add: matching_def active_subscriptions_def watching_db_def)
  then show ?thesis
    using event_notifies_matching [OF watching_board e(1)] e(1) by (auto simp: watching_db_def sample_db_def empty_db_def)
qed

section \<open>Leases\<close>

lemma stamped_claim [simp]:
  "wno_claimed_by_agent_run_id (stamped t n n') = wno_claimed_by_agent_run_id n'"
  "wno_lease_expires_at (stamped t n n') = wno_lease_expires_at n'"
  "wno_attempt_count (stamped t n n') = wno_attempt_count n'"
  by (auto simp: stamped_def)

text \<open>Claiming a notification always succeeds, also when another agent holds it and the lease
  runs: the claim names the new agent, lasts at least 30 seconds from now (300 when no length is
  given), counts one more attempt and touches no other notification.\<close>

lemma claim_takes_over:
  assumes "board_ok d" and "find_run d rid = Some run" and "find_notification d rid nid = Some n"
    and "safe_token (PStr status) ''pending'' = ''claimed''" and "optional_str (PStr agent) 128 = Some by"
  shows "\<exists>v d' n'. update_notification rid nid status (Some agent) lease d = (Inr v, d') \<and>
    find_notification d' rid nid = Some n' \<and> wno_claimed_by_agent_run_id n' = Some by \<and>
    wno_lease_expires_at n' = Some (db_now d + seconds (lease_length lease)) \<and> 30 \<le> lease_length lease \<and>
    wno_attempt_count n' = wno_attempt_count n + 1 \<and>
    (\<forall>m \<in> set (wb_notifications d). wno_notification_id m \<noteq> nid \<longrightarrow> m \<in> set (wb_notifications d'))"
proof -
  let ?new = "stamped (db_now d) n (updated_notification ''claimed'' (Some agent) lease (db_now d) n)"
  let ?d' = "d\<lparr>wb_notifications := row_upd wno_notification_id nid (\<lambda>_. ?new) (wb_notifications d)\<rparr>"
  note n = find_notification_Some [OF assms(3)]
  have new: "wno_notification_id ?new = nid" "wno_audit_run_id ?new = rid" using n by simp_all
  have call: "update_notification rid nid status (Some agent) lease d = (Inr (wb_notification_to_dict ?new), ?d')"
    using assms(2-4)
    by (simp add: update_notification_def commit_Inr update_notification_row_def tx_simps get_run_def get_notification_def
        NOTIFICATION_STATUSES_def Let_def)
  have "distinct (map wno_notification_id (wb_notifications ?d'))"
    using assms(1) new(1) row_upd_ids [of wno_notification_id "wb_notifications d" n wno_notification_id ?new "\<lambda>_. ?new"] n
    by (simp add: board_ok_def keys_ok_def Let_def keyed_def)
  moreover have "?new \<in> set (wb_notifications ?d')" using n by (force simp: row_upd_def)
  ultimately have unique: "m = ?new" if "m \<in> set (wb_notifications ?d')" "wno_notification_id m = nid" for m
    using that new(1) by (metis distinct_map inj_onD)
  have "find_notification ?d' rid nid = Some ?new"
  proof (cases "find_notification ?d' rid nid")
    case None
    then show ?thesis using \<open>?new \<in> set (wb_notifications ?d')\<close> new unfolding find_notification_def find_None_iff by blast
  next
    case (Some m)
    then show ?thesis using find_notification_Some [OF Some] unique by simp
  qed
  moreover have "wno_claimed_by_agent_run_id ?new = Some by" "wno_attempt_count ?new = wno_attempt_count n + 1"
    "wno_lease_expires_at ?new = Some (db_now d + seconds (lease_length lease))"
    using assms(5) by (simp_all add: updated_notification_def Let_def)
  moreover have "30 \<le> lease_length lease" by (simp add: lease_length_def)
  moreover have "m \<in> set (wb_notifications ?d')" if "m \<in> set (wb_notifications d)" "wno_notification_id m \<noteq> nid" for m
    using that by (force simp: row_upd_def)
  ultimately show ?thesis using call by blast
qed

definition held_notification :: whiteboard_notification where
  "held_notification = \<lparr>created_at = 0, updated_at = 0, wno_notification_id = ''n-1'', wno_audit_run_id = ''run-1'',
     wno_project_id = ''p-1'', wno_event_id = ''v-1'', wno_subscription_id = ''s-1'', wno_subscriber_task_id = None,
     wno_subscriber_agent_run_id = None, wno_status = ''claimed'', wno_claimed_by_agent_run_id = Some ''agent-1'',
     wno_lease_expires_at = Some (seconds 300), wno_attempt_count = 1, wno_summary = None, wno_payload = []\<rparr>"

definition held_db :: db where
  "held_db = watching_db\<lparr>wb_notifications := [held_notification],
     wb_events := [\<lparr>created_at = 0, updated_at = 0, wv_event_id = ''v-1'', wv_audit_run_id = ''run-1'', wv_project_id = ''p-1'',
       wv_entity_type = ''card'', wv_entity_id = ''c-1'', wv_event_type = ''created'', wv_summary = None, wv_payload = []\<rparr>]\<rparr>"

lemma held_board: "board_ok held_db"
  using watching_board
  by (simp add: board_ok_def keys_ok_def Let_def held_db_def keyed_def notifications_ok_def once_notified_def)
    (auto simp: held_notification_def lease_ok_def NOTIFICATION_STATUSES_def watching_db_def sample_db_def empty_db_def)

lemma claim_takes_over_witness:
  "\<exists>n' d'. find_notification d' ''run-1'' ''n-1'' = Some n' \<and> wno_claimed_by_agent_run_id n' = Some ''agent-2'' \<and>
     d' = snd (update_notification ''run-1'' ''n-1'' ''claimed'' (Some ''agent-2'') None held_db)"
proof -
  have "find_run held_db ''run-1'' = Some (sample_run sample_config)"
    by (simp add: held_db_def watching_db_def sample_db_def empty_db_def find_run_def sample_run_def)
  moreover have "find_notification held_db ''run-1'' ''n-1'' = Some held_notification"
    by (simp add: find_notification_def held_db_def held_notification_def)
  moreover have "safe_token (PStr ''claimed'') ''pending'' = ''claimed''" "optional_str (PStr ''agent-2'') 128 = Some ''agent-2''"
    by code_simp+
  ultimately show ?thesis using claim_takes_over [OF held_board] by (metis snd_conv)
qed

section \<open>Requests for an agent\<close>

text \<open>A triage decision that lets agents work on one of the cards.\<close>

definition worthwhile :: "string \<Rightarrow> bool" where
  "worthwhile status \<longleftrightarrow> status \<in> {''deep_dive'', ''chain_candidate''}"

text \<open>The policy of the swarm lets a request through exactly when a card it refers to has been
  triaged as \<open>deep_dive\<close> or \<open>chain_candidate\<close>, on the card itself or in a decision on the card or
  its finding. Whether the decision allows a deep dive plays no part.\<close>

lemma schedule_gate:
  "low_value_only_schedule_reason rid ids d = None \<longleftrightarrow>
    (\<exists>c \<in> set (related_cards d rid ids). \<exists>status. card_triage c = Some status \<and> worthwhile status) \<or>
    (\<exists>t \<in> set (triage_rows d rid (related_cards d rid ids)). worthwhile (td_decision_status t))"
proof -
  have no_rows: "triage_rows d rid [] = []" by (simp add: triage_rows_def)
  have no_ids: "related_cards d rid [] = []" by (simp add: related_cards_def)
  have marks: "list_ex P (List.map_filter f xs) \<longleftrightarrow> (\<exists>x \<in> set xs. \<exists>y. f x = Some y \<and> P y)"
    for P and f :: "whiteboard_card \<Rightarrow> string option" and xs
    by (induction xs) (auto simp: List.map_filter_def split: option.splits)
  have list: "list_ex worthwhile (map td_decision_status ts @ List.map_filter card_triage cs) \<longleftrightarrow>
      (\<exists>c \<in> set cs. \<exists>status. card_triage c = Some status \<and> worthwhile status) \<or> (\<exists>t \<in> set ts. worthwhile (td_decision_status t))" for ts cs
    by (simp add: marks) (auto simp: list_ex_iff)
  have eq: "(\<lambda>x. x \<in> {''deep_dive'', ''chain_candidate''}) = worthwhile" by (rule ext) (simp add: worthwhile_def)
  have allowed: "list_ex worthwhile (map td_decision_status ts @ xs)"
    if "list_ex (\<lambda>t. td_decision_status t = ''deep_dive'' \<and> td_deep_dive_allowed t) ts" for ts xs
    using that by (auto simp: list_ex_iff worthwhile_def)
  define cs where "cs = related_cards d rid ids"
  define ts where "ts = triage_rows d rid cs"
  define ds where "ds = map td_decision_status ts @ List.map_filter card_triage cs"
  have "low_value_only_schedule_reason rid ids d = None \<longleftrightarrow> list_ex worthwhile ds"
  proof (cases "ids = [] \<or> cs = []")
    case True
    then have "cs = []" using no_ids by (auto simp: cs_def)
    then have "ds = []" by (simp add: ds_def ts_def no_rows)
    with True show ?thesis by (auto simp: low_value_only_schedule_reason_def Let_def cs_def)
  next
    case False
    then show ?thesis
      using allowed [of ts "List.map_filter card_triage cs"]
      unfolding low_value_only_schedule_reason_def Let_def cs_def [symmetric] ts_def [symmetric] ds_def [symmetric] eq
      by (cases ds) auto
  qed
  then show ?thesis unfolding ds_def list unfolding ts_def cs_def .
qed

lemma policed_granted:
  "fst (policed_decision blocked asked body) \<in> {''approved'', ''scheduled''} \<Longrightarrow>
   blocked = None \<and> policed_decision blocked asked body = (asked, body)"
  by (auto simp: policed_decision_def split: option.splits if_splits)

lemma request_view [simp]:
  "dget (wb_schedule_request_to_dict r) ''status'' = PStr (wsr_status r)"
  "dget (wb_schedule_request_to_dict r) ''task_id'' = opt_str (wsr_task_id r)"
  by (simp_all add: wb_schedule_request_to_dict_def)

lemma write_request_result:
  "tx_wp (write_request row) (\<lambda>w e. wb_tasks e = wb_tasks d \<and> wsr_status w = wsr_status row \<and> wsr_task_id w = wsr_task_id row) d"
  by (auto simp: write_request_def split: list.split)

text \<open>The task of a settled request.\<close>

definition granted_task :: "db \<Rightarrow> string \<Rightarrow> whiteboard_schedule_request \<Rightarrow> dict \<Rightarrow> dict \<Rightarrow> db \<Rightarrow> bool" where
  "granted_task d status old body v e \<longleftrightarrow> dget v ''status'' = PStr status \<and>
     (if status \<in> {''approved'', ''scheduled''} \<and> optional_str (dget body ''task_id'') 128 = None
      then \<exists>t. wb_tasks e = wb_tasks d @ [t] \<and> dget v ''task_id'' = PStr (wt_task_id t) \<and> wt_status t = ''queued'' \<and>
        wt_prompt t = Some (wsr_goal old)
      else wb_tasks e = wb_tasks d \<and> dget v ''task_id'' = opt_str (optional_str (dget body ''task_id'') 128))"

lemma settle_request_result:
  "tx_wp (settle_request rid run status body dec old) (granted_task d status old body) d"
proof -
  let ?row = "old\<lparr>wsr_status := status, wsr_decision := dec, wsr_task_id := optional_str (dget body ''task_id'') 128\<rparr>"
  have rest: "tx_wp (write_request w) (\<lambda>x. tx_wp (tx_do (wb_record_event rid p et eid ty s pl) (tx_ret (wb_schedule_request_to_dict x)))
      (granted_task d status old body)) e"
    if "\<And>v e'. wb_tasks e' = wb_tasks e \<Longrightarrow> dget v ''status'' = PStr (wsr_status w) \<Longrightarrow> dget v ''task_id'' = opt_str (wsr_task_id w) \<Longrightarrow>
      granted_task d status old body v e'" for w e p et eid ty s pl
    by (rule tx_wp_mono [OF write_request_result]) (auto intro!: wp_event that simp: recorded_frame)
  show ?thesis
    unfolding settle_request_def grant_task_def
    by (auto intro!: rest simp: granted_task_def requested_task_def)
qed

text \<open>C4. A decision that returns leaves a request approved or scheduled only if the policy lets it
  through. Such a request has a task: the one the decision names, or one new task, queued, with
  the request's goal as its prompt. Any other decision, a rejection by the policy included,
  creates no task.\<close>

theorem decision_follows_policy:
  assumes "find_request d rid qid = Some old" and "decide_schedule_request rid qid body d = (Inr v, d')"
  shows "if dget v ''status'' \<in> {PStr ''approved'', PStr ''scheduled''}
    then low_value_only_schedule_reason rid (wsr_related_card_ids old) d = None \<and>
      (if optional_str (dget body ''task_id'') 128 = None
       then \<exists>t. wb_tasks d' = wb_tasks d @ [t] \<and> dget v ''task_id'' = PStr (wt_task_id t) \<and> wt_status t = ''queued'' \<and>
         wt_prompt t = Some (wsr_goal old)
       else wb_tasks d' = wb_tasks d \<and> dget v ''task_id'' = opt_str (optional_str (dget body ''task_id'') 128))
    else wb_tasks d' = wb_tasks d"
proof -
  let ?blocked = "low_value_only_schedule_reason rid (wsr_related_card_ids old) d"
  obtain run asked dec where tail:
    "settle_request rid run (fst (policed_decision ?blocked asked body)) (snd (policed_decision ?blocked asked body)) dec old d = Inr (v, d')"
    using assms by (auto simp: decide_schedule_request_def commit_Inr decide_schedule_request_row_def tx_simps Let_def get_request_def get_run_def
        split: option.splits)
  define st where "st = fst (policed_decision ?blocked asked body)"
  define bd where "bd = snd (policed_decision ?blocked asked body)"
  have result: "granted_task d st old bd v d'"
    using tx_wpD [OF settle_request_result tail] by (simp add: st_def bd_def)
  then have status: "dget v ''status'' = PStr st" by (simp add: granted_task_def)
  show ?thesis
  proof (cases "st \<in> {''approved'', ''scheduled''}")
    case True
    then have "?blocked = None" "bd = body" using policed_granted [of ?blocked asked body] by (auto simp: st_def bd_def)
    with result True show ?thesis by (auto simp: granted_task_def)
  next
    case False
    with result show ?thesis by (auto simp: granted_task_def)
  qed
qed

definition asked_request :: whiteboard_schedule_request where
  "asked_request = \<lparr>created_at = 0, updated_at = 0, wsr_request_id = ''q-1'', wsr_audit_run_id = ''run-1'', wsr_project_id = ''p-1'',
     wsr_requested_by_task_id = None, wsr_requested_by_agent_run_id = None, wsr_suggested_agent_name = None,
     wsr_goal = ''trace the sink'', wsr_reason = None, wsr_related_card_ids = [], wsr_status = ''pending'', wsr_decision = [],
     wsr_task_id = None\<rparr>"

lemma event_returns:
  "wb_subscriptions d = [] \<Longrightarrow> \<exists>ev d'. wb_record_event rid p et eid ty s pl d = Inr (ev, d')"
  by (simp add: wb_record_event_def fanout_notifications_def active_subscriptions_def new_uuid_def fresh_uuid_def
      tx_bind_def tx_do_def tx_defs)

lemma rejection_returns:
  assumes "wb_subscriptions d = []"
  shows "\<exists>v d'. settle_request rid run ''rejected'' body dec old d = Inr (v, d') \<and> dget v ''status'' = PStr ''rejected''"
proof -
  obtain w d1 where w: "write_request (old\<lparr>wsr_status := ''rejected'', wsr_decision := dec,
      wsr_task_id := optional_str (dget body ''task_id'') 128\<rparr>) d = Inr (w, d1)" "wb_subscriptions d1 = []"
    using assms by (simp add: write_request_def tx_bind_def tx_do_def tx_defs)
  obtain ev d2 where e: "wb_record_event rid (ar_project_id run) ''schedule-request'' (wsr_request_id old) ''rejected''
      (''Schedule request '' @ ''rejected'' @ '': '' @ take 160 (wsr_goal old))
      [(''schedule_request'', PDict (wb_schedule_request_to_dict (old\<lparr>wsr_status := ''rejected'', wsr_decision := dec,
        wsr_task_id := optional_str (dget body ''task_id'') 128\<rparr>)))] d1 = Inr (ev, d2)"
    using event_returns [OF w(2)] by blast
  have "settle_request rid run ''rejected'' body dec old d = Inr (wb_schedule_request_to_dict w, d2)"
    using w(1) e by (simp add: settle_request_def grant_task_def tx_simps)
  moreover have "wsr_status w = ''rejected''" using tx_wpD [OF write_request_result w(1)] by simp
  ultimately show ?thesis by simp
qed

theorem decision_follows_policy_witness:
  "\<exists>v d'. decide_schedule_request ''run-1'' ''q-1'' [] (sample_db\<lparr>wb_requests := [asked_request]\<rparr>) = (Inr v, d') \<and> wb_tasks d' = []"
proof -
  let ?d = "sample_db\<lparr>wb_requests := [asked_request]\<rparr>"
  have found: "find_request ?d ''run-1'' ''q-1'' = Some asked_request" by (simp add: find_request_def asked_request_def)
  have run: "find_run ?d ''run-1'' = Some (sample_run sample_config)"
    by (simp add: find_run_def sample_db_def empty_db_def sample_run_def)
  have token: "safe_token (PStr ''approved'') ''approved'' = ''approved''" by code_simp
  have cards: "wsr_related_card_ids asked_request = []" by (simp add: asked_request_def)
  have "wb_subscriptions ?d = []" by (simp add: sample_db_def empty_db_def)
  then have rejects: "\<exists>v d'. settle_request ''run-1'' (sample_run sample_config) ''rejected'' b dec asked_request ?d = Inr (v, d') \<and>
      dget v ''status'' = PStr ''rejected''" for b dec by (rule rejection_returns)
  obtain m where m: "low_value_only_schedule_reason ''run-1'' [] ?d = Some m"
    by (simp add: low_value_only_schedule_reason_def)
  obtain v d' where
    settled: "settle_request ''run-1'' (sample_run sample_config) ''rejected'' (snd (policed_decision (Some m) ''approved'' []))
        (low_value_decision m) asked_request ?d = Inr (v, d')" "dget v ''status'' = PStr ''rejected''"
    using rejects [of "snd (policed_decision (Some m) ''approved'' [])" "low_value_decision m"] by blast
  have call: "decide_schedule_request ''run-1'' ''q-1'' [] ?d = (Inr v, d')"
    unfolding decide_schedule_request_def commit_Inr decide_schedule_request_row_def Let_def
    using settled(1)
    by (simp add: tx_simps get_run_def run get_request_def found token cards m DECISION_STATUSES_def)
      (simp add: policed_decision_def low_value_decision_def)
  have "wb_tasks d' = wb_tasks ?d"
    using decision_follows_policy [OF found call] settled(2) by simp
  then show ?thesis using call by (simp add: sample_db_def empty_db_def)
qed

section \<open>Searching and listing\<close>

lemma no_candidate_status [simp]: "\<not> card_has_candidate_status row status"
  by (simp add: card_has_candidate_status_def Let_def)

lemma matches_of:
  "m \<in> set (search_matches q d rid) \<Longrightarrow>
   cm_card m \<in> set (wb_cards d) \<and> wc_audit_run_id (cm_card m) = rid \<and> match_card q (cm_card m) = Some m"
  by (auto simp: search_matches_def List.map_filter_def match_card_def Let_def split: if_splits)

text \<open>What a search returns are views of at most 100 cards of the run that pass every given
  filter and, when there are terms, contain one; best matches first, and among equally good ones
  the card that was updated first.\<close>

lemma search_results:
  assumes "search_cards rid body d = Inr (v, d')"
  shows "\<exists>ms. dget v ''matches'' = PList (map (\<lambda>m. PDict (match_to_dict m)) ms) \<and> length ms \<le> 100 \<and> d' = d \<and>
    sorted (map (\<lambda>m. (- int (cm_score m), iso_utc (updated_at (cm_card m)))) ms) \<and>
    (\<forall>m \<in> set ms. cm_card m \<in> set (wb_cards d) \<and> wc_audit_run_id (cm_card m) = rid \<and>
       passes_filters (card_query_of body) (cm_card m) \<and>
       cm_score m = length (filter (contains (card_haystack (cm_card m))) (cq_terms (card_query_of body))) \<and>
       (cq_terms (card_query_of body) = [] \<or> 0 < cm_score m))"
proof -
  let ?ms = "search_matches (card_query_of body) d rid"
  obtain n where v: "dget v ''matches'' = PList (map (\<lambda>m. PDict (match_to_dict m)) (take (nat (max 1 (min n 100))) ?ms))" "d' = d"
    using assms by (auto simp: search_cards_def tx_simps get_run_def split: option.splits)
  define ms where "ms = take (nat (max 1 (min n 100))) ?ms"
  have found: "passes_filters q (cm_card m) \<and> cm_score m = length (filter (contains (card_haystack (cm_card m))) (cq_terms q)) \<and>
      (cq_terms q = [] \<or> 0 < cm_score m)" if "match_card q (cm_card m) = Some m" for q m
    using that by (cases m) (auto simp: match_card_def matched_terms_def Let_def split: if_splits)
  have "nat (max 1 (min n 100)) \<le> 100" by linarith
  then have "length ms \<le> 100" by (simp add: ms_def min_le_iff_disj)
  moreover have "sorted (map (\<lambda>m. (- int (cm_score m), iso_utc (updated_at (cm_card m)))) ms)"
    unfolding ms_def take_map [symmetric] by (intro sorted_wrt_take) (simp add: search_matches_def)
  moreover have "\<forall>m \<in> set ms. cm_card m \<in> set (wb_cards d) \<and> wc_audit_run_id (cm_card m) = rid \<and>
       passes_filters (card_query_of body) (cm_card m) \<and>
       cm_score m = length (filter (contains (card_haystack (cm_card m))) (cq_terms (card_query_of body))) \<and>
       (cq_terms (card_query_of body) = [] \<or> 0 < cm_score m)"
  proof
    fix m assume "m \<in> set ms"
    then have "m \<in> set ?ms" unfolding ms_def by (rule in_set_takeD)
    note m = matches_of [OF this]
    then have "match_card (card_query_of body) (cm_card m) = Some m" by blast
    with m found [OF this] show "cm_card m \<in> set (wb_cards d) \<and> wc_audit_run_id (cm_card m) = rid \<and>
       passes_filters (card_query_of body) (cm_card m) \<and>
       cm_score m = length (filter (contains (card_haystack (cm_card m))) (cq_terms (card_query_of body))) \<and>
       (cq_terms (card_query_of body) = [] \<or> 0 < cm_score m)" by blast
  qed
  ultimately show ?thesis
    using v unfolding ms_def [symmetric] by (intro exI [of _ ms] conjI)
qed

text \<open>A search that gives a candidate status finds nothing, whatever is on the board: the
  test asks whether a list is a dictionary.\<close>

lemma candidate_status_finds_nothing:
  assumes "optional_str (dget body ''candidate_status'') 32 \<noteq> None" and "search_cards rid body d = Inr (v, d')"
  shows "dget v ''matches'' = PList []"
proof -
  have "match_card (card_query_of body) c = None" for c
    using assms(1) by (auto simp: match_card_def passes_filters_def card_query_of_def Let_def)
  then have "search_matches (card_query_of body) d rid = []"
    using matches_of by (metis last_in_set option.distinct(1))
  moreover have "d' = d" using assms(2) by (auto simp: search_cards_def tx_simps get_run_def split: option.splits)
  ultimately show ?thesis using assms(2) by (auto simp: search_cards_def tx_simps)
qed

lemma sample_search:
  "\<exists>v. search_cards ''run-1'' body sample_db = Inr (v, sample_db)" if "dget body ''limit'' = PNone"
  using that
  by (simp add: search_cards_def tx_do_def tx_bind_def tx_defs get_run_def find_run_def sample_db_def empty_db_def sample_run_def)

lemma search_results_witness:
  "\<exists>v ms. search_cards ''run-1'' [] sample_db = Inr (v, sample_db) \<and>
     dget v ''matches'' = PList (map (\<lambda>m. PDict (match_to_dict m)) ms) \<and> length ms \<le> 100"
proof -
  obtain v where v: "search_cards ''run-1'' [] sample_db = Inr (v, sample_db)" using sample_search [of "[]"] by auto
  from search_results [OF v] v show ?thesis by blast
qed

lemma candidate_status_finds_nothing_witness:
  "\<exists>v. search_cards ''run-1'' [(''candidate_status'', PStr ''hint'')] (sample_db\<lparr>wb_cards := [sample_card]\<rparr>) =
      Inr (v, sample_db\<lparr>wb_cards := [sample_card]\<rparr>) \<and> dget v ''matches'' = PList []"
proof -
  let ?b = "[(''candidate_status'', PStr ''hint'')]" and ?d = "sample_db\<lparr>wb_cards := [sample_card]\<rparr>"
  have "\<exists>v. search_cards ''run-1'' ?b ?d = Inr (v, ?d)"
    by (simp add: search_cards_def tx_do_def tx_bind_def tx_defs get_run_def find_run_def sample_db_def empty_db_def sample_run_def)
  moreover have "optional_str (dget ?b ''candidate_status'') 32 \<noteq> None" by code_simp
  ultimately show ?thesis using candidate_status_finds_nothing by blast
qed

lemma after_event_split:
  "e \<noteq> [] \<Longrightarrow> e \<notin> wv_event_id ` set xs \<Longrightarrow> wv_event_id r = e \<Longrightarrow> after_event (Some e) (xs @ r # ys) = ys"
  by (induction xs) (auto simp: after_event_def)

text \<open>A reader that asks for the events after one it has seen gets, in order, the last
  \<open>limit\<close> of them (at least 1, at most 500): all of them when it is not further behind, and
  otherwise without the oldest ones; a reader that moves on to the newest never gets them.\<close>

lemma events_after_cursor:
  assumes "find_run d rid = Some run" and "asc (\<lambda>e. wv_audit_run_id e = rid) (wb_events d) = xs @ r # ys"
    and "wv_event_id r = e" and "e \<noteq> []" and "e \<notin> wv_event_id ` set xs"
  shows "list_events rid limit (Some e) d =
    Inr (map wb_event_to_dict (drop (length ys - nat (max 1 (min limit 500))) ys), d)"
  using assms(1) after_event_split [OF assms(4,5,3), of ys]
  by (simp add: list_events_def tx_do_def tx_bind_def tx_defs get_run_def assms(2) Let_def)

definition logged_event :: "string \<Rightarrow> time \<Rightarrow> whiteboard_event" where
  "logged_event eid at = \<lparr>created_at = at, updated_at = at, wv_event_id = eid, wv_audit_run_id = ''run-1'', wv_project_id = ''p-1'',
     wv_entity_type = ''card'', wv_entity_id = ''c-1'', wv_event_type = ''updated'', wv_summary = None, wv_payload = []\<rparr>"

lemma events_after_cursor_witness:
  "list_events ''run-1'' 1 (Some ''v-1'') (sample_db\<lparr>wb_events := [logged_event ''v-1'' 1, logged_event ''v-2'' 2, logged_event ''v-3'' 3]\<rparr>) =
     Inr ([wb_event_to_dict (logged_event ''v-3'' 3)],
       sample_db\<lparr>wb_events := [logged_event ''v-1'' 1, logged_event ''v-2'' 2, logged_event ''v-3'' 3]\<rparr>)"
proof -
  let ?d = "sample_db\<lparr>wb_events := [logged_event ''v-1'' 1, logged_event ''v-2'' 2, logged_event ''v-3'' 3]\<rparr>"
  have "find_run ?d ''run-1'' = Some (sample_run sample_config)"
    by (simp add: find_run_def sample_db_def empty_db_def sample_run_def)
  moreover have "asc (\<lambda>e. wv_audit_run_id e = ''run-1'') (wb_events ?d) =
      [] @ logged_event ''v-1'' 1 # [logged_event ''v-2'' 2, logged_event ''v-3'' 3]"
    by (simp add: asc_def logged_event_def)
  ultimately have "list_events ''run-1'' 1 (Some ''v-1'') ?d =
      Inr (map wb_event_to_dict (drop (length [logged_event ''v-2'' 2, logged_event ''v-3'' 3] - nat (max 1 (min 1 500)))
        [logged_event ''v-2'' 2, logged_event ''v-3'' 3]), ?d)"
    by (rule events_after_cursor) (simp_all add: logged_event_def)
  then show ?thesis by simp
qed

section \<open>Attachments\<close>

text \<open>An attachment path that passes the check names, under any artifact root, a place below
  that root: it is relative, its components have no \<open>..\<close>, and it lies in one of the six areas
  meant for attachments.\<close>

lemma attachment_confined:
  assumes "validate_attachment_path p = Inr q"
  shows "artifact_absolute_path s q = Inr (artifact_root s @ path_parts q) \<and> ''..'' \<notin> set (path_parts q) \<and>
    (\<exists>area \<in> set attachment_prefixes. prefix area q)"
proof -
  have q: "\<not> is_absolute q" "''..'' \<notin> set (path_parts q)" "list_ex (starts_with q) attachment_prefixes"
    using assms by (auto simp: validate_attachment_path_def Let_def is_absolute_def list_ex_iff split: if_splits)
  then show ?thesis
    using absolute_path_relative_clean [OF q(1,2)] by (auto simp: list_ex_iff starts_with_iff_prefix)
qed

lemma attachment_confined_witness:
  "artifact_absolute_path (env_artifacts sample_env) ''reports/a.md'' = Inr [''data'', ''reports'', ''a.md'']"
proof -
  have "validate_attachment_path '' reports/a.md '' = Inr ''reports/a.md''" by code_simp
  then have "artifact_absolute_path (env_artifacts sample_env) ''reports/a.md'' =
      Inr (artifact_root (env_artifacts sample_env) @ path_parts ''reports/a.md'')"
    using attachment_confined by blast
  also have "\<dots> = Inr [''data'', ''reports'', ''a.md'']" by code_simp
  finally show ?thesis .
qed

end
