(* ===== verification/Whiteboard_Gaps.thy ===== *)
theory Whiteboard_Gaps
  imports Whiteboard_Policy
begin

text \<open>
  The life of a gap card: how it is declared, when the swarm sees it as pending, and what queueing
  a task for it changes.
\<close>

lemma pending_gap:
  "c \<in> set (pending_gap_cards rid limit d) \<Longrightarrow>
   c \<in> set (wb_cards d) \<and> wc_audit_run_id c = rid \<and> wc_card_type c = ''gap'' \<and> wc_status c \<in> {''open'', ''needs_agent''}"
  unfolding pending_gap_cards_def asc_def by (drule in_set_takeD) simp

section \<open>Declaring\<close>

lemma quiet_cards: "tx_wp (add_attachment_row rid cid flush item) (\<lambda>_ e. wb_cards e = wb_cards d) d"
  by (auto simp: add_attachment_row_def recorded_frame intro!: wp_event)

lemma create_card_result:
  "tx_wp (create_card_row env rid body) (\<lambda>cid e. \<exists>row project. wb_cards e = wb_cards d @ [row] \<and>
     cid = db_uuids d (db_uuid_next d) \<and> new_card env cid rid project (db_now d) body = Inr row \<and> wc_title row \<noteq> []) d"
proof -
  have rest: "tx_wp (tx_map (add_attachment_row rid cid False) items)
      (\<lambda>_. tx_wp (tx_do (wb_record_event rid p et eid ty s pl) (tx_ret cid)) Q) e"
    if "\<And>e'. wb_cards e' = wb_cards e \<Longrightarrow> Q cid e'" for items p et eid ty s pl e cid Q
  proof -
    have "tx_wp (tx_map (add_attachment_row rid cid False) items) (\<lambda>_ e'. wb_cards e' = wb_cards e) e"
      by (rule tx_wp_map [where I = "\<lambda>e'. wb_cards e' = wb_cards e", OF _ refl]) (rule tx_wp_mono [OF quiet_cards], simp)
    then show ?thesis by (rule tx_wp_mono) (auto intro!: wp_event that simp: recorded_frame)
  qed
  show ?thesis unfolding create_card_row_def by (auto intro!: rest)
qed

lemma safe_token_no_underscore: "CHR ''_'' \<notin> set f \<Longrightarrow> CHR ''_'' \<notin> set (safe_token v f)"
proof -
  assume f: "CHR ''_'' \<notin> set f"
  have "CHR ''_'' \<notin> set (take 64 (strip_by p (filter (\<lambda>c. is_alnum c \<or> c = CHR ''-'') s)))" for p s
    using set_strip_by [of p "filter (\<lambda>c. is_alnum c \<or> c = CHR ''-'') s"]
    by (auto dest!: in_set_takeD simp: is_alnum_def is_upper_def is_lower_def is_digit_def)
  with f show ?thesis by (simp add: safe_token_def Let_def)
qed

lemma new_card_token:
  "new_card env cid rid project now body = Inr row \<Longrightarrow>
   wc_status row = safe_token (por (dget body ''status'') (PStr ''open'')) ''open'' \<and> wc_card_id row = cid \<and>
   wc_card_type row = safe_token (por (dget body ''card_type'') (PStr ''observation'')) ''observation''"
  by (auto simp: new_card_def rbind_Inr_iff)

text \<open>A card created with the status \<open>needs_agent\<close>, one of the two that make a gap pending,
  is stored as \<open>needs-agent\<close> and is never among the pending gaps: the token keeps no
  underscore.\<close>

lemma needs_agent_never_pending:
  assumes "board_ok d" and "create_card_row env rid body d = Inr (cid, d')" and "dget body ''status'' = PStr ''needs_agent''"
  shows "\<exists>row. wb_cards d' = wb_cards d @ [row] \<and> wc_card_id row = cid \<and> wc_status row = ''needs-agent'' \<and>
    cid \<notin> wc_card_id ` set (pending_gap_cards rid limit d')"
proof -
  obtain row project where row: "wb_cards d' = wb_cards d @ [row]" "cid = db_uuids d (db_uuid_next d)"
      "new_card env cid rid project (db_now d) body = Inr row"
    using tx_wpD [OF create_card_result assms(2)] by blast
  have "safe_token (PStr ''needs_agent'') ''open'' = ''needs-agent''" by code_simp
  then have status: "wc_status row = ''needs-agent''" "wc_card_id row = cid"
    using new_card_token [OF row(3)] assms(3) by simp_all
  have "cid \<notin> set (map wc_card_id (wb_cards d))"
    using assms(1) by (simp add: row(2) board_ok_def keys_ok_def Let_def keyed_def)
  then have "c = row" if "c \<in> set (wb_cards d')" "wc_card_id c = cid" for c using that by (auto simp: row(1))
  then have "c = row" if "c \<in> set (pending_gap_cards rid limit d')" "wc_card_id c = cid" for c
    using pending_gap [OF that(1)] that(2) by blast
  moreover have "row \<notin> set (pending_gap_cards rid limit d')" using pending_gap [of row rid limit d'] status by auto
  ultimately have "cid \<notin> wc_card_id ` set (pending_gap_cards rid limit d')" by blast
  then show ?thesis using row(1) status by blast
qed

lemma needs_agent_never_pending_witness:
  "\<exists>cid d'. create_card_row sample_env ''run-1'' [(''title'', PStr ''x''), (''status'', PStr ''needs_agent'')] sample_db = Inr (cid, d') \<and>
     cid \<notin> wc_card_id ` set (pending_gap_cards ''run-1'' 10 d')"
proof -
  let ?b = "[(''title'', PStr ''x''), (''status'', PStr ''needs_agent'')]"
  have title: "str_strip (body_text ?b ''title'') \<noteq> []" by code_simp
  obtain row where new: "new_card sample_env (db_uuids sample_db 0) ''run-1'' ''p-1'' 0 ?b = Inr row" "wc_title row \<noteq> []"
    using title by (simp add: new_card_def body_dict_def normalize_link_candidates_def)
  have run: "find_run sample_db ''run-1'' = Some (sample_run sample_config)" "ar_project_id (sample_run sample_config) = ''p-1''"
    "db_uuid_next sample_db = 0" "db_now sample_db = 0"
    by (simp_all add: find_run_def sample_db_def empty_db_def sample_run_def)
  have "wb_subscriptions (sample_db\<lparr>db_uuid_next := Suc 0, wb_cards := wb_cards sample_db @ [row]\<rparr>) = []"
    by (simp add: sample_db_def empty_db_def)
  then obtain ev d' where e: "wb_record_event ''run-1'' ''p-1'' ''card'' (db_uuids sample_db 0) ''created'' (''Card created: '' @ wc_title row)
      [(''card'', PDict (wb_card_to_dict row []))] (sample_db\<lparr>db_uuid_next := Suc 0, wb_cards := wb_cards sample_db @ [row]\<rparr>) = Inr (ev, d')"
    using event_returns by blast
  have "create_card_row sample_env ''run-1'' ?b sample_db = Inr (db_uuids sample_db 0, d')"
    using new e by (simp add: create_card_row_def tx_simps get_run_def run new_uuid_def fresh_uuid_def)
  with needs_agent_never_pending [OF sample_board this] show ?thesis by auto
qed

section \<open>Queueing a task\<close>

text \<open>Queueing a task for a gap creates one queued task for it, counts as one more attempt,
  and takes the gap off the list of pending ones.\<close>

lemma gap_is_queued:
  assumes "create_task_row run gap round_index attempt_index d = Inr (task, d')"
  shows "wb_tasks d' = wb_tasks d @ [task] \<and> wt_status task = ''queued'' \<and> wt_gap_card_id task = Some (wc_card_id gap) \<and>
    task_attempt_count (ar_audit_run_id run) (wc_card_id gap) d' = Suc (task_attempt_count (ar_audit_run_id run) (wc_card_id gap) d) \<and>
    wc_card_id gap \<notin> wc_card_id ` set (pending_gap_cards (ar_audit_run_id run) limit d')"
proof -
  let ?task = "gap_task (db_uuids d (db_uuid_next d)) (db_now d) run gap round_index attempt_index"
  let ?cs = "row_upd wc_card_id (wc_card_id gap) (\<lambda>c. stamped (db_now d) c (c\<lparr>wc_status := ''agent_queued''\<rparr>)) (wb_cards d)"
  have "tx_wp (create_task_row run gap round_index attempt_index)
      (\<lambda>t e. t = ?task \<and> wb_tasks e = wb_tasks d @ [?task] \<and> wb_cards e = ?cs) d"
    unfolding create_task_row_def set_card_status_def by (auto intro!: wp_event simp: recorded_frame)
  from tx_wpD [OF this assms] have t: "task = ?task" "wb_tasks d' = wb_tasks d @ [?task]" "wb_cards d' = ?cs" by auto
  have task: "wt_status ?task = ''queued''" "wt_gap_card_id ?task = Some (wc_card_id gap)" "wt_audit_run_id ?task = ar_audit_run_id run"
    by (simp_all add: gap_task_def Let_def)
  have "wc_status (stamped t c c') = wc_status c'" for t and c c' :: whiteboard_card by (auto simp: stamped_def)
  then have "wc_status c = ''agent_queued''" if "c \<in> set ?cs" "wc_card_id c = wc_card_id gap" for c
    using that by (auto simp: row_upd_def split: if_splits)
  then have "wc_card_id gap \<notin> wc_card_id ` set (pending_gap_cards (ar_audit_run_id run) limit d')"
    using pending_gap [of _ "ar_audit_run_id run" limit d'] unfolding t(3) by fastforce
  then show ?thesis using t(1,2) task by (simp add: task_attempt_count_def)
qed

lemma gap_is_queued_witness:
  "\<exists>task d'. create_task_row (sample_run sample_config) sample_card 1 1 sample_db = Inr (task, d') \<and>
     task_attempt_count ''run-1'' ''c-1'' d' = 1"
proof -
  obtain task d' where c: "create_task_row (sample_run sample_config) sample_card 1 1 sample_db = Inr (task, d')"
    by (simp add: create_task_row_def set_card_status_def wb_record_event_def fanout_notifications_def active_subscriptions_def
        new_uuid_def fresh_uuid_def tx_bind_def tx_do_def tx_defs sample_db_def empty_db_def)
  have ids: "ar_audit_run_id (sample_run sample_config) = ''run-1''" "wc_card_id sample_card = ''c-1''"
    "task_attempt_count ''run-1'' ''c-1'' sample_db = 0"
    by (simp_all add: sample_run_def sample_card_def task_attempt_count_def sample_db_def empty_db_def)
  show ?thesis using gap_is_queued [OF c] c by (auto simp: ids)
qed

end
