(* ===== verification/Agent_Output.thy ===== *)
theory Agent_Output
  imports Run_Store
begin

text \<open>
  What becomes of an agent's output (\<open>services/platform/app/services/agent_output.py\<close> and
  \<open>finding_dedupe.py\<close>): the structured part is searched in the transcript, its findings are
  checked, compared with those the audit run has already, and stored with their evidence.

  \<open>decode\<close> is \<open>json.JSONDecoder().raw_decode\<close>: the value at the start of a text, None for a
  \<open>JSONDecodeError\<close>. Numbers of the documents are integers. A column takes text of any length.
\<close>

section \<open>The identity of a finding\<close>

text \<open>\<open>optional_int\<close>: what \<open>int\<close> refuses counts as missing.\<close>

definition optional_int :: "pyval \<Rightarrow> int option" where
  "optional_int value =
     (if value = PNone \<or> value = PStr [] then None
      else case py_int value of Inl _ \<Rightarrow> None | Inr i \<Rightarrow> Some i)"

record identity =
  id_title :: string
  id_source :: string
  id_file_path :: "string option"
  id_line_start :: "int option"
  id_rule_id :: "string option"

definition str_if_truthy :: "pyval \<Rightarrow> string option" where
  "str_if_truthy v = (if truthy v then Some (py_str v) else None)"

definition finding_identity :: "pyval \<Rightarrow> pyval \<Rightarrow> pyval \<Rightarrow> pyval \<Rightarrow> pyval \<Rightarrow> identity" where
  "finding_identity title source file_path line_start rule_id =
     \<lparr>id_title = take 255 (py_str (por title (PStr ''Finding''))),
      id_source = py_str (por source (PStr ''unknown'')),
      id_file_path = str_if_truthy file_path,
      id_line_start = optional_int line_start,
      id_rule_id = str_if_truthy rule_id\<rparr>"

definition identity_to_dict :: "identity \<Rightarrow> dict" where
  "identity_to_dict i =
     [(''title'', PStr (id_title i)), (''source'', PStr (id_source i)), (''file_path'', opt_str (id_file_path i)),
      (''line_start'', opt_int (id_line_start i)), (''rule_id'', opt_str (id_rule_id i))]"

text \<open>
  The identity of a stored row. The query compares columns with \<open>IS NULL\<close> where the identity
  has None; for the rule identifier also where it is empty.
\<close>

definition same_finding :: "string \<Rightarrow> identity \<Rightarrow> finding \<Rightarrow> bool" where
  "same_finding rid i f \<longleftrightarrow>
     fi_audit_run_id f = rid \<and> fi_title f = id_title i \<and> fi_source f = id_source i \<and>
     fi_file_path f = id_file_path i \<and> fi_line_start f = id_line_start i \<and>
     fi_rule_id f = (if id_rule_id i = Some [] then None else id_rule_id i)"

definition find_existing_finding :: "string \<Rightarrow> identity \<Rightarrow> db \<Rightarrow> finding option" where
  "find_existing_finding rid i d = List.find (same_finding rid i) (findings d)"

section \<open>Finding the structured part\<close>

text \<open>\<open>_walk\<close>: a value and everything inside it, in order.\<close>

fun walk :: "pyval \<Rightarrow> pyval list" and walk_list :: "pyval list \<Rightarrow> pyval list" and walk_items :: "dict \<Rightarrow> pyval list" where
  "walk (PList xs) = PList xs # walk_list xs"
| "walk (PDict d) = PDict d # walk_items d"
| "walk v = [v]"
| "walk_list [] = []"
| "walk_list (x # xs) = walk x @ walk_list xs"
| "walk_items [] = []"
| "walk_items ((k, v) # d) = walk v @ walk_items d"

text \<open>\<open>_content_text_pieces\<close>. \<open>own\<close> has the pieces of a dictionary's own content.\<close>

fun content_text_pieces :: "pyval \<Rightarrow> string list" and content_pieces_list :: "pyval list \<Rightarrow> string list"
  and content_of_items :: "dict \<Rightarrow> string list" where
  "content_text_pieces (PList xs) = content_pieces_list xs"
| "content_text_pieces (PDict d) =
     (case dget d ''text'' of PStr s \<Rightarrow> [s] | _ \<Rightarrow> []) @ content_of_items d"
| "content_text_pieces v = []"
| "content_pieces_list [] = []"
| "content_pieces_list (x # xs) = content_text_pieces x @ content_pieces_list xs"
| "content_of_items [] = []"
| "content_of_items ((k, v) # d) = (if k = ''content'' then content_text_pieces v else content_of_items d)"

text \<open>The kind and the pieces of each event that has any.\<close>

definition event_pieces :: "pyval \<Rightarrow> (string \<times> string list) option" where
  "event_pieces event =
     (case event of
        PDict e \<Rightarrow> (case dget e ''update'' of
            PDict u \<Rightarrow> (let pieces = content_text_pieces (dget u ''content'')
              in if pieces = [] then None else Some (py_str (por (dget u ''session_update'') (PStr [])), pieces))
          | _ \<Rightarrow> None)
      | _ \<Rightarrow> None)"

definition candidate_texts :: "dict \<Rightarrow> string list" where
  "candidate_texts payload =
     (case dget payload ''events'' of
        PList events \<Rightarrow>
          (let found = List.map_filter event_pieces events;
               of_kind = (\<lambda>kind. concat (map snd (filter (\<lambda>(k, _). k = kind) found)));
               all_text = concat (map snd found)
           in map concat (filter (\<lambda>ps. ps \<noteq> []) (map of_kind [''agent_message_chunk'', ''agent_thought_chunk'', ''tool_call_update'']))
              @ (if all_text = [] then [] else [concat all_text]))
      | _ \<Rightarrow> [])"

text \<open>
  \<open>re.findall(r"```(?:json)?\s*(.*?)\s*```", s, re.DOTALL)\<close>: what stands between a pair of
  fences, without the word \<open>json\<close> at its start and without white space around it.
\<close>

definition fence :: string where
  "fence = ''```''"

text \<open>The text before and after the first fence.\<close>

fun cut_fence :: "string \<Rightarrow> (string \<times> string) option" where
  "cut_fence [] = None"
| "cut_fence (c # s) =
     (if starts_with (c # s) fence then Some ([], drop 3 (c # s))
      else map_option (\<lambda>(before, after). (c # before, after)) (cut_fence s))"

lemma cut_fence_shorter: "cut_fence s = Some (b, a) \<Longrightarrow> length a < length s"
  by (induction s arbitrary: b) (auto split: if_splits)

definition drop_json :: "string \<Rightarrow> string" where
  "drop_json s = (if starts_with s ''json'' then drop 4 s else s)"

lemma length_drop_json: "length (drop_json s) \<le> length s"
  by (simp add: drop_json_def)

function fenced :: "string \<Rightarrow> string list" where
  "fenced s =
     (case cut_fence s of
        None \<Rightarrow> []
      | Some (_, after) \<Rightarrow>
          (case cut_fence (drop_json after) of
             None \<Rightarrow> []
           | Some (inner, rest) \<Rightarrow> str_strip inner # fenced rest))"
  by pat_completeness auto
termination
proof (relation "measure length")
  fix s ba b a p i rest
  assume "cut_fence s = Some ba" "(b, a) = ba" "cut_fence (drop_json a) = Some p" "(i, rest) = p"
  then have "length rest < length (drop_json a)" "length a < length s" by (auto dest: cut_fence_shorter)
  then show "(rest, s) \<in> measure length" using length_drop_json [of a] by simp
qed simp

declare fenced.simps [simp del]

text \<open>From the first \<open>{\<close> to the last \<open>}\<close>, when they stand in this order.\<close>

definition braces :: "string \<Rightarrow> string option" where
  "braces s =
     (let t = dropWhile (\<lambda>c. c \<noteq> CHR ''{'') s;
          u = rev (dropWhile (\<lambda>c. c \<noteq> CHR ''}'') (rev t))
      in if t = [] \<or> u = [] then None else Some u)"

text \<open>
  The first substitution of \<open>_repair_json_text\<close> doubles a backslash that stands alone and starts
  no JSON escape; \<open>prev\<close> is the character before. The second one writes two backslashes for two.
\<close>

definition json_escape :: "char \<Rightarrow> bool" where
  "json_escape c \<longleftrightarrow> c \<in> set (CHR 0x22 # ''/bfnrtu'')"

fun double_strays :: "char option \<Rightarrow> string \<Rightarrow> string" where
  "double_strays prev [] = []"
| "double_strays prev (c # s) =
     (if c = CHR 0x5C \<and> prev \<noteq> Some (CHR 0x5C) \<and>
         (case s of [] \<Rightarrow> True | n # _ \<Rightarrow> n \<noteq> CHR 0x5C \<and> \<not> json_escape n)
      then [CHR 0x5C, CHR 0x5C] else [c]) @ double_strays (Some c) s"

definition repair_json_text :: "string \<Rightarrow> string" where
  "repair_json_text text = double_strays None text"

definition str_lstrip :: "string \<Rightarrow> string" where
  "str_lstrip = dropWhile is_ws"

definition parse_json_candidate :: "(string \<Rightarrow> pyval option) \<Rightarrow> string \<Rightarrow> pyval option" where
  "parse_json_candidate decode candidate =
     (case decode (str_lstrip candidate) of
        Some v \<Rightarrow> Some v
      | None \<Rightarrow> decode (str_lstrip (repair_json_text candidate)))"

fun first_dict :: "(string \<Rightarrow> pyval option) \<Rightarrow> string list \<Rightarrow> dict option" where
  "first_dict decode [] = None"
| "first_dict decode (c # cs) =
     (case parse_json_candidate decode c of Some (PDict d) \<Rightarrow> Some d | _ \<Rightarrow> first_dict decode cs)"

definition parse_json_from_text :: "(string \<Rightarrow> pyval option) \<Rightarrow> string \<Rightarrow> dict option" where
  "parse_json_from_text decode text =
     (let stripped = str_strip text
      in first_dict decode ([stripped] @ fenced stripped @ (case braces stripped of None \<Rightarrow> [] | Some s \<Rightarrow> [s])))"

definition mentions_output :: "string \<Rightarrow> bool" where
  "mentions_output s \<longleftrightarrow> contains s ''findings'' \<or> contains s ''evidence''"

definition output_in_text :: "(string \<Rightarrow> pyval option) \<Rightarrow> string \<Rightarrow> dict option" where
  "output_in_text decode s = (if mentions_output s then parse_json_from_text decode s else None)"

definition output_in_value :: "(string \<Rightarrow> pyval option) \<Rightarrow> pyval \<Rightarrow> dict option" where
  "output_in_value decode v =
     (case v of
        PDict d \<Rightarrow> if dmem d ''findings'' \<or> dmem d ''evidence'' then Some d else None
      | PStr s \<Rightarrow> output_in_text decode s
      | _ \<Rightarrow> None)"

fun first_some :: "('a \<Rightarrow> 'b option) \<Rightarrow> 'a list \<Rightarrow> 'b option" where
  "first_some f [] = None"
| "first_some f (x # xs) = (case f x of None \<Rightarrow> first_some f xs | Some y \<Rightarrow> Some y)"

definition extract_structured_payload :: "(string \<Rightarrow> pyval option) \<Rightarrow> dict \<Rightarrow> dict \<times> dict list" where
  "extract_structured_payload decode payload =
     (case first_some (output_in_text decode) (candidate_texts payload) of
        Some d \<Rightarrow> (d, [])
      | None \<Rightarrow>
          (case first_some (output_in_value decode) (walk (PDict payload)) of
             Some d \<Rightarrow> (d, [])
           | None \<Rightarrow> ([], [[(''kind'', PStr ''structured_output_not_found'')]])))"

section \<open>Storing findings and evidence\<close>

definition REQUIRED_FINDING_FIELDS :: "string list" where
  "REQUIRED_FINDING_FIELDS =
     [''confidence'', ''description'', ''file_path'', ''line_start'', ''severity'', ''source'', ''title'']"

record ingestion =
  in_db :: db
  in_warnings :: "dict list"
  in_findings :: "finding list"
  in_evidence :: "evidence list"
  in_skipped :: nat

definition warn_at :: "string \<Rightarrow> nat \<Rightarrow> dict \<Rightarrow> ingestion \<Rightarrow> ingestion" where
  "warn_at kind index extra s =
     s\<lparr>in_warnings := in_warnings s @ [[(''kind'', PStr kind), (''index'', PInt (int index))] @ extra]\<rparr>"

text \<open>
  The test \<open>confidence in {None, ""}\<close> hashes the value, which a list or a dictionary refuses.
\<close>

definition normalize_finding_item :: "dict \<Rightarrow> nat \<Rightarrow> ingestion \<Rightarrow> (dict \<times> ingestion) res" where
  "normalize_finding_item item index s =
     (case dget item ''confidence'' of
        PList _ \<Rightarrow> Inl (TypeError ''unhashable type: list'')
      | PDict _ \<Rightarrow> Inl (TypeError ''unhashable type: dict'')
      | c \<Rightarrow> Inr (if c = PNone \<or> c = PStr []
                 then (dset item ''confidence'' (PStr ''medium''),
                       warn_at ''finding_defaulted_confidence'' index
                         [(''value'', PStr ''medium''), (''reason'', PStr ''agent omitted confidence'')] s)
                 else (item, s)))"

definition evidence_from_payload :: "string \<Rightarrow> string \<Rightarrow> string \<Rightarrow> string \<Rightarrow> time \<Rightarrow> dict \<Rightarrow> evidence" where
  "evidence_from_payload evidence_id finding_id rid default_kind now item =
     \<lparr>created_at = now, updated_at = now, ev_evidence_id = evidence_id, ev_finding_id = finding_id, ev_audit_run_id = rid,
      ev_kind = py_str (por (dget item ''kind'') (PStr default_kind)),
      ev_summary = str_if_truthy (dget item ''summary''),
      ev_artifact_path = str_if_truthy (dget item ''artifact_path''),
      ev_payload = (case dget item ''payload'' of PDict p \<Rightarrow> p | _ \<Rightarrow> item)\<rparr>"

definition add_evidence :: "string \<Rightarrow> string \<Rightarrow> string \<Rightarrow> dict \<Rightarrow> ingestion \<Rightarrow> ingestion" where
  "add_evidence finding_id rid default_kind item s =
     (let (eid, d) = fresh_uuid (in_db s);
          ev = evidence_from_payload eid finding_id rid default_kind (db_now d) item
      in s\<lparr>in_db := d\<lparr>evidence_rows := evidence_rows d @ [ev]\<rparr>, in_evidence := in_evidence s @ [ev]\<rparr>)"

definition finding_evidence_items :: "dict \<Rightarrow> dict list" where
  "finding_evidence_items item =
     (case dget item ''evidence'' of
        PList entries \<Rightarrow> List.map_filter (\<lambda>e. case e of PDict d \<Rightarrow> Some d | _ \<Rightarrow> None) entries
      | PDict d \<Rightarrow> [d]
      | _ \<Rightarrow> [[(''kind'', PStr ''agent-finding''), (''summary'', dget item ''description''),
               (''payload'', PDict [(''confidence'', dget item ''confidence''), (''file_path'', dget item ''file_path'')])]])"

definition item_identity :: "dict \<Rightarrow> identity" where
  "item_identity item =
     finding_identity (dget item ''title'') (dget item ''source'') (dget item ''file_path'') (dget item ''line_start'')
       (dget item ''rule_id'')"

definition new_finding :: "string \<Rightarrow> string \<Rightarrow> string \<Rightarrow> string \<Rightarrow> time \<Rightarrow> dict \<Rightarrow> finding" where
  "new_finding finding_id agent_run_id rid project now item =
     (let i = item_identity item
      in \<lparr>created_at = now, updated_at = now, fi_finding_id = finding_id, fi_audit_run_id = rid, fi_project_id = project,
          fi_title = id_title i, fi_severity = str_lower (py_str (por (dget item ''severity'') (PStr ''unknown''))),
          fi_status = py_str (por (dget item ''status'') (PStr ''candidate'')),
          fi_file_path = id_file_path i, fi_line_start = id_line_start i, fi_line_end = optional_int (dget item ''line_end''),
          fi_rule_id = id_rule_id i, fi_description = Some (py_str (dget item ''description'')), fi_source = id_source i,
          fi_raw = dset item ''agent_run_id'' (PStr agent_run_id)\<rparr>)"

definition add_finding :: "string \<Rightarrow> string \<Rightarrow> string \<Rightarrow> dict \<Rightarrow> ingestion \<Rightarrow> ingestion" where
  "add_finding agent_run_id rid project item s =
     (let (fid, d) = fresh_uuid (in_db s);
          f = new_finding fid agent_run_id rid project (db_now d) item;
          s1 = s\<lparr>in_db := d\<lparr>findings := findings d @ [f]\<rparr>, in_findings := in_findings s @ [f]\<rparr>
      in fold (add_evidence fid rid ''agent-finding'') (finding_evidence_items item) s1)"

definition missing_fields :: "dict \<Rightarrow> string list" where
  "missing_fields item = filter (\<lambda>k. \<not> dmem item k) REQUIRED_FINDING_FIELDS"

definition has_empty_value :: "dict \<Rightarrow> bool" where
  "has_empty_value item \<longleftrightarrow> list_ex (\<lambda>k. \<not> truthy (dget item k)) [''title'', ''file_path'', ''description'', ''source'']"

definition ingest_finding :: "string \<Rightarrow> string \<Rightarrow> string \<Rightarrow> nat \<times> pyval \<Rightarrow> ingestion \<Rightarrow> ingestion res" where
  "ingest_finding agent_run_id rid project entry s =
     (case entry of (index, value) \<Rightarrow>
        (case value of
           PDict raw \<Rightarrow>
             rbind (normalize_finding_item raw index s) (\<lambda>(item, s).
               Inr (if missing_fields item \<noteq> [] then
                      warn_at ''finding_missing_fields'' index [(''missing'', PList (map PStr (missing_fields item)))] s
                    else if has_empty_value item then warn_at ''finding_empty_required_value'' index [] s
                    else if find_existing_finding rid (item_identity item) (in_db s) \<noteq> None then
                      (warn_at ''finding_duplicate_skipped'' index [(''identity'', PDict (identity_to_dict (item_identity item)))] s)
                        \<lparr>in_skipped := Suc (in_skipped s)\<rparr>
                    else add_finding agent_run_id rid project item s))
         | _ \<Rightarrow> Inr (warn_at ''finding_invalid_type'' index [] s)))"

fun ingest_each :: "('a \<Rightarrow> ingestion \<Rightarrow> ingestion res) \<Rightarrow> 'a list \<Rightarrow> ingestion \<Rightarrow> ingestion res" where
  "ingest_each f [] s = Inr s"
| "ingest_each f (x # xs) s = rbind (f x s) (ingest_each f xs)"

text \<open>A boolean is an integer for \<open>isinstance\<close>.\<close>

definition indexed_finding :: "pyval \<Rightarrow> finding list \<Rightarrow> finding option" where
  "indexed_finding v fs =
     (case (case v of PInt i \<Rightarrow> Some i | PBool b \<Rightarrow> Some (if b then 1 else 0) | _ \<Rightarrow> None) of
        Some i \<Rightarrow> if 0 \<le> i \<and> i < int (length fs) then Some (fs ! nat i) else None
      | None \<Rightarrow> None)"

definition resolve_evidence_finding :: "dict \<Rightarrow> finding list \<Rightarrow> finding option" where
  "resolve_evidence_finding item fs =
     (case indexed_finding (dget item ''finding_index'') fs of
        Some f \<Rightarrow> Some f
      | None \<Rightarrow>
          (case List.find (\<lambda>f. PStr (fi_finding_id f) = dget item ''finding_id'') fs of
             Some f \<Rightarrow> Some f
           | None \<Rightarrow>
               (case List.find (\<lambda>f. truthy (dget item ''finding_title'') \<and> PStr (fi_title f) = dget item ''finding_title'') fs of
                  Some f \<Rightarrow> Some f
                | None \<Rightarrow> (case fs of [f] \<Rightarrow> Some f | _ \<Rightarrow> None))))"

definition ingest_evidence :: "string \<Rightarrow> nat \<times> pyval \<Rightarrow> ingestion \<Rightarrow> ingestion" where
  "ingest_evidence rid entry s =
     (case entry of (index, value) \<Rightarrow>
        (case value of
           PDict item \<Rightarrow>
             (case resolve_evidence_finding item (in_findings s) of
                None \<Rightarrow> warn_at ''evidence_unmatched_finding'' index [] s
              | Some f \<Rightarrow> add_evidence (fi_finding_id f) rid ''agent-output'' item s)
         | _ \<Rightarrow> warn_at ''evidence_invalid_type'' index [] s))"

definition parse_status :: "dict \<Rightarrow> dict list \<Rightarrow> string" where
  "parse_status structured warnings =
     (if structured = [] then ''not_found'' else if warnings \<noteq> [] then ''parsed_with_warnings'' else ''parsed'')"

definition ingest_report :: "dict \<Rightarrow> ingestion \<Rightarrow> dict" where
  "ingest_report structured s =
     [(''summary'', dget structured ''summary''), (''structured_parse_status'', PStr (parse_status structured (in_warnings s))),
      (''structured_parse_warnings'', PList (map PDict (in_warnings s))),
      (''findings_created'', PInt (int (length (in_findings s)))), (''findings_skipped'', PInt (int (in_skipped s))),
      (''evidence_created'', PInt (int (length (in_evidence s))))]"

definition log_ingestion :: "string \<Rightarrow> dict \<Rightarrow> ingestion \<Rightarrow> db" where
  "log_ingestion agent_run_id structured s =
     (let d = (if in_warnings s = [] then in_db s
               else add_agent_run_event agent_run_id ''structured_output_parse_warnings''
                      [(''warnings'', PList (map PDict (in_warnings s)))] (in_db s))
      in if structured = [] then d
         else add_agent_run_event agent_run_id ''structured_output_ingested'' (ingest_report structured s) d)"

definition ingest :: "(string \<Rightarrow> pyval option) \<Rightarrow> string \<Rightarrow> string \<Rightarrow> string \<Rightarrow> dict \<Rightarrow> (db, dict) tx" where
  "ingest decode agent_run_id rid project payload d =
     (let (structured, warnings) = extract_structured_payload decode payload;
          items = list_or_empty (dget_or structured ''findings'' (PList []));
          evs = list_or_empty (dget_or structured ''evidence'' (PList []))
      in rbind (ingest_each (ingest_finding agent_run_id rid project) (enumerate 0 items)
                 \<lparr>in_db = d, in_warnings = warnings, in_findings = [], in_evidence = [], in_skipped = 0\<rparr>) (\<lambda>s.
           let s = fold (ingest_evidence rid) (enumerate 0 evs) s
           in Inr (ingest_report structured s @ [(''warnings'', PList (map PDict (in_warnings s)))],
                   log_ingestion agent_run_id structured s)))"

definition get_findings_for_audit_run :: "string \<Rightarrow> db \<Rightarrow> finding list" where
  "get_findings_for_audit_run rid d = sort_key created_at (filter (\<lambda>f. fi_audit_run_id f = rid) (findings d))"

end
