(* ===== verification/Agent_Output_Contracts.thy ===== *)
theory Agent_Output_Contracts
  imports Agent_Output Executor_Platform
begin

text \<open>
  What holds of the ingestion of agent output: its report counts the rows it wrote, findings of a
  run never repeat an identity, and the same output given twice is stored once.
\<close>

section \<open>Identities\<close>

definition finding_key :: "finding \<Rightarrow> identity" where
  "finding_key f = \<lparr>id_title = fi_title f, id_source = fi_source f, id_file_path = fi_file_path f,
                    id_line_start = fi_line_start f, id_rule_id = fi_rule_id f\<rparr>"

definition findings_distinct :: "string \<Rightarrow> db \<Rightarrow> bool" where
  "findings_distinct rid d \<longleftrightarrow> distinct (map finding_key (filter (\<lambda>f. fi_audit_run_id f = rid) (findings d)))"

lemma py_str_nonempty: "truthy v \<Longrightarrow> py_str v \<noteq> []"
proof (cases v)
  case (PInt i)
  moreover have "nat_str n \<noteq> []" for n using nat_of_str_nat_str [of n] by (cases "nat_str n") auto
  ultimately show ?thesis by (simp add: int_str_def)
qed auto

lemma str_if_truthy_nonempty: "str_if_truthy v \<noteq> Some []"
  by (simp add: str_if_truthy_def py_str_nonempty)

lemma item_rule_nonempty [simp]: "id_rule_id (item_identity item) \<noteq> Some []"
  by (simp add: item_identity_def finding_identity_def str_if_truthy_nonempty)

lemma same_finding_iff:
  "id_rule_id i \<noteq> Some [] \<Longrightarrow> same_finding rid i f \<longleftrightarrow> fi_audit_run_id f = rid \<and> finding_key f = i"
  by (cases i) (auto simp: same_finding_def finding_key_def)

lemma no_existing_finding:
  "find_existing_finding rid (item_identity item) d = None \<longleftrightarrow>
     (\<forall>f \<in> set (findings d). fi_audit_run_id f = rid \<longrightarrow> finding_key f \<noteq> item_identity item)"
  by (auto simp: find_existing_finding_def find_None_iff same_finding_iff)

lemma new_finding_key [simp]:
  "finding_key (new_finding fid ar rid project now item) = item_identity item"
  "fi_audit_run_id (new_finding fid ar rid project now item) = rid"
  "fi_finding_id (new_finding fid ar rid project now item) = fid"
  by (simp_all add: finding_key_def new_finding_def Let_def)

section \<open>What an ingestion has written so far\<close>

text \<open>The rows of \<open>s\<close> are those of \<open>d\<close> and the ones the ingestion lists.\<close>

definition written :: "string \<Rightarrow> db \<Rightarrow> ingestion \<Rightarrow> bool" where
  "written rid d s \<longleftrightarrow>
     findings (in_db s) = findings d @ in_findings s \<and>
     evidence_rows (in_db s) = evidence_rows d @ in_evidence s \<and>
     (\<forall>f \<in> set (in_findings s). fi_audit_run_id f = rid) \<and>
     (\<forall>e \<in> set (in_evidence s). ev_audit_run_id e = rid \<and> ev_finding_id e \<in> fi_finding_id ` set (in_findings s))"

lemma warn_at_simps [simp]:
  "in_db (warn_at k i x s) = in_db s" "in_findings (warn_at k i x s) = in_findings s"
  "in_evidence (warn_at k i x s) = in_evidence s" "in_skipped (warn_at k i x s) = in_skipped s"
  "in_warnings (warn_at k i x s) \<noteq> []"
  by (simp_all add: warn_at_def)

lemma written_warn_at [simp]:
  "written rid d (warn_at k i x s) = written rid d s"
  "written rid d (s\<lparr>in_skipped := n\<rparr>) = written rid d s"
  by (simp_all add: written_def)

lemma add_evidence_simps [simp]:
  "findings (in_db (add_evidence fid rid k item s)) = findings (in_db s)"
  "in_findings (add_evidence fid rid k item s) = in_findings s"
  "in_skipped (add_evidence fid rid k item s) = in_skipped s"
  "in_warnings (add_evidence fid rid k item s) = in_warnings s"
  by (simp_all add: add_evidence_def fresh_uuid_def Let_def)

lemma add_evidences_simps [simp]:
  "findings (in_db (fold (add_evidence fid rid k) items s)) = findings (in_db s)"
  "in_findings (fold (add_evidence fid rid k) items s) = in_findings s"
  "in_skipped (fold (add_evidence fid rid k) items s) = in_skipped s"
  by (induction items arbitrary: s) simp_all

lemma written_add_evidence:
  "written rid d s \<Longrightarrow> fid \<in> fi_finding_id ` set (in_findings s) \<Longrightarrow> written rid d (add_evidence fid rid k item s)"
  by (simp add: written_def add_evidence_def fresh_uuid_def Let_def evidence_from_payload_def)

lemma written_add_evidences:
  "written rid d s \<Longrightarrow> fid \<in> fi_finding_id ` set (in_findings s) \<Longrightarrow>
   written rid d (fold (add_evidence fid rid k) items s)"
  by (induction items arbitrary: s) (simp_all add: written_add_evidence)

lemma add_finding_findings:
  "\<exists>f. findings (in_db (add_finding ar rid project item s)) = findings (in_db s) @ [f] \<and>
       in_findings (add_finding ar rid project item s) = in_findings s @ [f] \<and>
       finding_key f = item_identity item \<and> fi_audit_run_id f = rid"
  by (simp add: add_finding_def fresh_uuid_def Let_def)

lemma written_add_finding: "written rid d s \<Longrightarrow> written rid d (add_finding ar rid project item s)"
  unfolding add_finding_def fresh_uuid_def Let_def prod.case
  by (rule written_add_evidences) (auto simp: written_def)

section \<open>One item\<close>

text \<open>The item with the confidence it is stored with.\<close>

definition defaulted :: "dict \<Rightarrow> dict" where
  "defaulted item =
     (if dget item ''confidence'' = PNone \<or> dget item ''confidence'' = PStr [] then dset item ''confidence'' (PStr ''medium'')
      else item)"

lemma normalized:
  "normalize_finding_item raw i s = Inr (item, s') \<Longrightarrow>
     item = defaulted raw \<and> in_db s' = in_db s \<and> in_findings s' = in_findings s \<and> in_evidence s' = in_evidence s \<and>
     in_skipped s' = in_skipped s"
  by (auto simp: normalize_finding_item_def defaulted_def split: pyval.splits if_splits)

lemma normalize_again: "normalize_finding_item raw i s = Inr r \<Longrightarrow> \<exists>r'. normalize_finding_item raw j t = Inr r'"
  by (auto simp: normalize_finding_item_def split: pyval.splits)

text \<open>An item that is not going to be stored: not an object, incomplete, or of a known identity.\<close>

definition settled :: "string \<Rightarrow> pyval \<Rightarrow> db \<Rightarrow> bool" where
  "settled rid value d \<longleftrightarrow>
     (case value of
        PDict raw \<Rightarrow> missing_fields (defaulted raw) \<noteq> [] \<or> has_empty_value (defaulted raw) \<or>
                     find_existing_finding rid (item_identity (defaulted raw)) d \<noteq> None
      | _ \<Rightarrow> True)"

lemma settled_mono: "settled rid v d \<Longrightarrow> set (findings d) \<subseteq> set (findings d') \<Longrightarrow> settled rid v d'"
  by (auto simp: settled_def no_existing_finding split: pyval.splits)

text \<open>An item is either left out, or it is a new identity and one finding is added for it.\<close>

lemma ingest_finding_cases:
  assumes "ingest_finding ar rid project (i, v) s = Inr s'"
  shows "(settled rid v (in_db s) \<and> in_db s' = in_db s \<and> in_findings s' = in_findings s \<and> in_evidence s' = in_evidence s) \<or>
    (\<exists>item t. v = PDict item \<and> s' = add_finding ar rid project (defaulted item) t \<and>
      in_db t = in_db s \<and> in_findings t = in_findings s \<and> in_evidence t = in_evidence s \<and>
      find_existing_finding rid (item_identity (defaulted item)) (in_db s) = None)"
proof (cases v)
  case (PDict raw)
  with assms obtain t where t: "normalize_finding_item raw i s = Inr (defaulted raw, t)"
    by (auto simp: ingest_finding_def rbind_Inr_iff dest: normalized)
  with normalized [OF t] assms PDict show ?thesis
    by (auto simp: ingest_finding_def settled_def split: if_splits)
qed (use assms in \<open>auto simp: ingest_finding_def settled_def\<close>)

lemma ingest_finding_settled:
  assumes "settled rid v (in_db t)" and "ingest_finding ar rid project (i, v) s = Inr s'"
  shows "\<exists>t'. ingest_finding ar2 rid p2 (j, v) t = Inr t' \<and> in_db t' = in_db t \<and> in_findings t' = in_findings t \<and>
    in_evidence t' = in_evidence t"
proof (cases v)
  case (PDict raw)
  with assms(2) obtain r0 where "normalize_finding_item raw i s = Inr r0"
    by (auto simp: ingest_finding_def rbind_Inr_iff)
  then obtain item u where n: "normalize_finding_item raw j t = Inr (item, u)"
    using normalize_again [of raw i s r0 j t] by auto
  from normalized [OF n] assms(1) PDict n show ?thesis
    by (auto simp: ingest_finding_def settled_def)
qed (auto simp: ingest_finding_def)

section \<open>All items\<close>

lemma ingest_finding_keeps:
  assumes "ingest_finding ar rid project e s = Inr s'"
  shows "written rid d s \<Longrightarrow> written rid d s'"
    and "set (findings (in_db s)) \<subseteq> set (findings (in_db s'))"
    and "findings_distinct rid (in_db s) \<Longrightarrow> findings_distinct rid (in_db s')"
    and "settled rid (snd e) (in_db s')"
proof -
  obtain i v where e: "e = (i, v)" by (cases e)
  consider (old) "settled rid v (in_db s)" "in_db s' = in_db s" "in_findings s' = in_findings s" "in_evidence s' = in_evidence s"
    | (added) f where "findings (in_db s') = findings (in_db s) @ [f]" "fi_audit_run_id f = rid"
        "\<forall>g \<in> set (findings (in_db s)). fi_audit_run_id g = rid \<longrightarrow> finding_key g \<noteq> finding_key f"
        "settled rid v (in_db s')" "written rid d s \<Longrightarrow> written rid d s'"
    using ingest_finding_cases [OF assms [unfolded e]]
  proof (elim disjE exE conjE)
    fix item t
    assume t: "v = PDict item" "s' = add_finding ar rid project (defaulted item) t"
        "in_db t = in_db s" "in_findings t = in_findings s" "in_evidence t = in_evidence s"
      and new: "find_existing_finding rid (item_identity (defaulted item)) (in_db s) = None"
    from add_finding_findings [of ar rid project "defaulted item" t] t obtain f where
      f: "findings (in_db s') = findings (in_db s) @ [f]" "finding_key f = item_identity (defaulted item)" "fi_audit_run_id f = rid"
      by auto
    show thesis
    proof (rule added)
      show "settled rid v (in_db s')" by (simp add: t(1) f settled_def no_existing_finding)
      show "written rid d s'" if "written rid d s"
        using that written_add_finding [of rid d t] by (simp add: written_def t)
    qed (use f new [unfolded no_existing_finding] in auto)
  qed (use old in simp)
  note parts = this
  from parts show "written rid d s \<Longrightarrow> written rid d s'" by cases (simp_all add: written_def)
  from parts show "set (findings (in_db s)) \<subseteq> set (findings (in_db s'))" by cases auto
  from parts show "settled rid (snd e) (in_db s')" by cases (simp_all add: e)
  from parts show "findings_distinct rid (in_db s')" if "findings_distinct rid (in_db s)"
    by cases (use that in \<open>auto simp: findings_distinct_def\<close>)
qed

lemma ingest_each_keeps:
  "ingest_each (ingest_finding ar rid project) es s = Inr s' \<Longrightarrow>
     (written rid d s \<longrightarrow> written rid d s') \<and> set (findings (in_db s)) \<subseteq> set (findings (in_db s')) \<and>
     (findings_distinct rid (in_db s) \<longrightarrow> findings_distinct rid (in_db s')) \<and>
     (\<forall>e \<in> set es. settled rid (snd e) (in_db s'))"
proof (induction es arbitrary: s)
  case (Cons e es)
  then obtain t where t: "ingest_finding ar rid project e s = Inr t" "ingest_each (ingest_finding ar rid project) es t = Inr s'"
    by (auto simp: rbind_Inr_iff)
  note later = Cons.IH [OF t(2)]
  have "settled rid (snd e) (in_db s')"
    using ingest_finding_keeps(4) [OF t(1)] later by (blast intro: settled_mono)
  with later ingest_finding_keeps(1-3) [OF t(1)] show ?case by auto
qed simp

lemma ingest_each_settled:
  "ingest_each (ingest_finding ar rid project) es s = Inr s' \<Longrightarrow>
   \<forall>e \<in> set es. settled rid (snd e) (in_db t) \<Longrightarrow>
   \<exists>t'. ingest_each (ingest_finding ar2 rid p2) es t = Inr t' \<and> in_db t' = in_db t \<and>
     in_findings t' = in_findings t \<and> in_evidence t' = in_evidence t"
proof (induction es arbitrary: s t)
  case (Cons e es)
  obtain i v where e: "e = (i, v)" by (cases e)
  from Cons.prems obtain u where u: "ingest_finding ar rid project e s = Inr u" "ingest_each (ingest_finding ar rid project) es u = Inr s'"
    by (auto simp: rbind_Inr_iff)
  with Cons.prems obtain t1 where t1: "ingest_finding ar2 rid p2 e t = Inr t1" "in_db t1 = in_db t"
      "in_findings t1 = in_findings t" "in_evidence t1 = in_evidence t"
    using ingest_finding_settled [of rid v t ar project i s u ar2 p2 i] by (auto simp: e)
  with Cons.IH [OF u(2), of t1] Cons.prems(2) show ?case by auto
qed simp

text \<open>The second list, of evidence for the findings of this output.\<close>

lemma resolved_is_created: "resolve_evidence_finding item fs = Some f \<Longrightarrow> f \<in> set fs"
  by (auto simp: resolve_evidence_finding_def indexed_finding_def find_Some_iff split: option.splits if_splits list.splits
      pyval.splits)

lemma resolve_none [simp]: "resolve_evidence_finding item [] = None"
  by (simp add: resolve_evidence_finding_def indexed_finding_def) (auto split: pyval.split)

lemma ingest_evidence_keeps:
  "written rid d s \<Longrightarrow> written rid d (ingest_evidence rid e s)"
  "findings (in_db (ingest_evidence rid e s)) = findings (in_db s)"
  "in_findings (ingest_evidence rid e s) = in_findings s"
  by (auto simp: ingest_evidence_def written_add_evidence split: prod.split pyval.split option.split
      dest!: resolved_is_created)

lemma ingest_evidence_fold:
  "written rid d s \<Longrightarrow> written rid d (fold (ingest_evidence rid) es s)"
  "findings (in_db (fold (ingest_evidence rid) es s)) = findings (in_db s)"
  "in_findings (fold (ingest_evidence rid) es s) = in_findings s"
  by (induction es arbitrary: s) (simp_all add: ingest_evidence_keeps)

lemma no_evidence_without_findings:
  "in_findings s = [] \<Longrightarrow> in_db (fold (ingest_evidence rid) es s) = in_db s \<and>
     in_evidence (fold (ingest_evidence rid) es s) = in_evidence s"
  by (induction es arbitrary: s) (simp_all add: ingest_evidence_def split: prod.split pyval.split)

lemma log_ingestion_simps [simp]:
  "findings (log_ingestion ar structured s) = findings (in_db s)"
  "evidence_rows (log_ingestion ar structured s) = evidence_rows (in_db s)"
  by (simp_all add: log_ingestion_def add_agent_run_event_def Let_def)

text \<open>An ingestion that returns, taken apart.\<close>

definition ingestion_start :: "db \<Rightarrow> dict list \<Rightarrow> ingestion" where
  "ingestion_start d warnings = \<lparr>in_db = d, in_warnings = warnings, in_findings = [], in_evidence = [], in_skipped = 0\<rparr>"

lemma ingest_returnsE:
  assumes "ingest decode ar rid project payload d = Inr (report, d')"
  obtains structured warnings s where
    "extract_structured_payload decode payload = (structured, warnings)"
    "ingest_each (ingest_finding ar rid project) (enumerate 0 (list_or_empty (dget_or structured ''findings'' (PList []))))
       (ingestion_start d warnings) = Inr s"
    "let t = fold (ingest_evidence rid) (enumerate 0 (list_or_empty (dget_or structured ''evidence'' (PList [])))) s
     in report = ingest_report structured t @ [(''warnings'', PList (map PDict (in_warnings t)))] \<and> d' = log_ingestion ar structured t"
proof (cases "extract_structured_payload decode payload")
  case (Pair structured warnings)
  with assms that [OF Pair] show ?thesis
    by (auto simp: ingest_def Let_def rbind_Inr_iff ingestion_start_def)
qed

section \<open>The properties\<close>

definition sample_output :: dict where
  "sample_output =
     [(''summary'', PStr ''one''),
      (''findings'', PList [PDict
         [(''title'', PStr ''Path traversal''), (''severity'', PStr ''HIGH''), (''file_path'', PStr ''a.py''), (''line_start'', PInt 3),
          (''description'', PStr ''unchecked''), (''confidence'', PStr ''high''), (''source'', PStr ''agent'')]])]"

definition no_decoder :: "string \<Rightarrow> pyval option" where
  "no_decoder s = None"

lemma sample_ingested:
  "\<exists>report d. ingest no_decoder ''agent-1'' ''run-1'' ''p'' sample_output sample_db = Inr (report, d) \<and> length (findings d) = 1"
proof -
  have "extract_structured_payload no_decoder sample_output = (sample_output, [])"
    unfolding sample_output_def
    by (simp add: extract_structured_payload_def candidate_texts_def output_in_value_def dget_def dmem_def)
  then show ?thesis
    by (simp add: ingest_def sample_output_def dget_def dget_or_def ingest_finding_def normalize_finding_item_def
        missing_fields_def REQUIRED_FINDING_FIELDS_def dmem_def has_empty_value_def find_existing_finding_def
        sample_db_def empty_db_def add_finding_def fresh_uuid_def Let_def)
qed

text \<open>An ingestion that returns reports exactly what it wrote: the findings and the evidence rows
  come after those stored before, each finding is of the run, and each evidence row belongs to one of
  the findings this output brought.\<close>

lemma ingestion_reported:
  assumes "ingest decode ar rid project payload d = Inr (report, d')"
  shows "\<exists>new evs. findings d' = findings d @ new \<and> evidence_rows d' = evidence_rows d @ evs \<and>
    dget report ''findings_created'' = PInt (int (length new)) \<and>
    dget report ''evidence_created'' = PInt (int (length evs)) \<and>
    (\<forall>f \<in> set new. fi_audit_run_id f = rid) \<and>
    (\<forall>e \<in> set evs. ev_audit_run_id e = rid \<and> ev_finding_id e \<in> fi_finding_id ` set new)"
  using assms
proof (rule ingest_returnsE)
  fix structured warnings s
  let ?evs = "enumerate 0 (list_or_empty (dget_or structured ''evidence'' (PList [])))"
  assume each: "ingest_each (ingest_finding ar rid project) (enumerate 0 (list_or_empty (dget_or structured ''findings'' (PList []))))
       (ingestion_start d warnings) = Inr s"
    and fin: "let t = fold (ingest_evidence rid) ?evs s
     in report = ingest_report structured t @ [(''warnings'', PList (map PDict (in_warnings t)))] \<and> d' = log_ingestion ar structured t"
  have "written rid d (ingestion_start d warnings)" by (simp add: written_def ingestion_start_def)
  with ingest_each_keeps [OF each] have "written rid d (fold (ingest_evidence rid) ?evs s)"
    by (simp add: ingest_evidence_fold)
  with fin show ?thesis
    by (auto simp: Let_def written_def ingest_report_def dget_def)
qed

lemma ingestion_reported_witness:
  "\<exists>report d. ingest no_decoder ''agent-1'' ''run-1'' ''p'' sample_output sample_db = Inr (report, d) \<and>
     dget report ''findings_created'' = PInt 1"
proof -
  from sample_ingested obtain report d where
    r: "ingest no_decoder ''agent-1'' ''run-1'' ''p'' sample_output sample_db = Inr (report, d)" "length (findings d) = 1" by blast
  from ingestion_reported [OF r(1)] r show ?thesis by (auto simp: sample_db_def empty_db_def)
qed

text \<open>The findings of a run stay pairwise different in title, source, file, line and rule, whatever
  output an agent gives.\<close>

lemma findings_never_repeat:
  assumes "findings_distinct rid d" and "ingest decode ar rid project payload d = Inr (report, d')"
  shows "findings_distinct rid d'"
  using assms(2)
proof (rule ingest_returnsE)
  fix structured warnings s
  let ?evs = "enumerate 0 (list_or_empty (dget_or structured ''evidence'' (PList [])))"
  assume each: "ingest_each (ingest_finding ar rid project) (enumerate 0 (list_or_empty (dget_or structured ''findings'' (PList []))))
       (ingestion_start d warnings) = Inr s"
    and fin: "let t = fold (ingest_evidence rid) ?evs s
     in report = ingest_report structured t @ [(''warnings'', PList (map PDict (in_warnings t)))] \<and> d' = log_ingestion ar structured t"
  have "findings_distinct rid (in_db s)"
    using ingest_each_keeps [OF each] assms(1) by (simp add: ingestion_start_def)
  with fin show ?thesis by (simp add: Let_def findings_distinct_def ingest_evidence_fold)
qed

lemma findings_never_repeat_witness:
  "\<exists>report d. ingest no_decoder ''agent-1'' ''run-1'' ''p'' sample_output sample_db = Inr (report, d) \<and> findings_distinct ''run-1'' d"
proof -
  have "findings_distinct ''run-1'' sample_db" by (simp add: findings_distinct_def sample_db_def empty_db_def)
  with sample_ingested show ?thesis using findings_never_repeat by blast
qed

text \<open>C27. Giving the same output again, in any later agent run of the same audit run, stores nothing: the
  findings and the evidence are as the first time left them and the report says so.\<close>

theorem ingest_twice:
  assumes "ingest decode ar rid project payload d = Inr (report, d1)"
  shows "\<exists>report2 d2. ingest decode ar2 rid project2 payload d1 = Inr (report2, d2) \<and>
    findings d2 = findings d1 \<and> evidence_rows d2 = evidence_rows d1 \<and>
    dget report2 ''findings_created'' = PInt 0 \<and> dget report2 ''evidence_created'' = PInt 0"
  using assms
proof (rule ingest_returnsE)
  fix structured warnings s
  let ?items = "enumerate 0 (list_or_empty (dget_or structured ''findings'' (PList [])))"
  let ?evs = "enumerate 0 (list_or_empty (dget_or structured ''evidence'' (PList [])))"
  assume ex: "extract_structured_payload decode payload = (structured, warnings)"
    and each: "ingest_each (ingest_finding ar rid project) ?items (ingestion_start d warnings) = Inr s"
    and fin: "let t = fold (ingest_evidence rid) ?evs s
     in report = ingest_report structured t @ [(''warnings'', PList (map PDict (in_warnings t)))] \<and> d1 = log_ingestion ar structured t"
  have d1: "findings d1 = findings (in_db s)" using fin by (simp add: Let_def ingest_evidence_fold)
  have "\<forall>e \<in> set ?items. settled rid (snd e) (in_db (ingestion_start d1 warnings))"
  proof
    fix e assume "e \<in> set ?items"
    with ingest_each_keeps [OF each] have "settled rid (snd e) (in_db s)" by blast
    then show "settled rid (snd e) (in_db (ingestion_start d1 warnings))"
      by (rule settled_mono) (simp add: ingestion_start_def d1)
  qed
  from ingest_each_settled [OF each this] obtain t where
    t: "ingest_each (ingest_finding ar2 rid project2) ?items (ingestion_start d1 warnings) = Inr t"
      "in_db t = d1" "in_findings t = []" "in_evidence t = []"
    by (auto simp: ingestion_start_def)
  have "in_db (fold (ingest_evidence rid) ?evs t) = d1" "in_evidence (fold (ingest_evidence rid) ?evs t) = []"
    "in_findings (fold (ingest_evidence rid) ?evs t) = []"
    using no_evidence_without_findings [OF t(3)] t by (simp_all add: ingest_evidence_fold)
  then show ?thesis
    using t(1) by (auto simp: ingest_def ex ingestion_start_def ingest_report_def dget_def Let_def)
qed

theorem ingest_twice_witness:
  "\<exists>report d. ingest no_decoder ''agent-1'' ''run-1'' ''p'' sample_output sample_db = Inr (report, d) \<and> length (findings d) = 1 \<and>
    (\<exists>report2 d2. ingest no_decoder ''agent-2'' ''run-1'' ''p'' sample_output d = Inr (report2, d2) \<and> length (findings d2) = 1)"
proof -
  from sample_ingested obtain report d where
    r: "ingest no_decoder ''agent-1'' ''run-1'' ''p'' sample_output sample_db = Inr (report, d)" "length (findings d) = 1" by blast
  with ingest_twice [OF r(1), of "''agent-2''" "''p''"] show ?thesis by auto
qed

end
