(* ===== verification/Access_Guards.thy ===== *)
theory Access_Guards
  imports Py_Time "HOL-Library.List_Lexorder" "HOL-Library.Char_ord"
begin

text \<open>
  What a request passes before a route sees it: the size of its body and its rate
  (\<open>services/platform/app/services/http_guards.py\<close>), its API key and the scope of the key
  (\<open>services/auth.py\<close>), in the order of the middleware \<open>api_key_auth\<close> of \<open>main.py\<close>.

  A parameter of the model is \<open>ge_sha\<close>, the SHA-256 of a key. Times are in microseconds; the
  monotonic clock of the limiter and the wall clock are separate. The database may be away
  (\<open>fr_db_up\<close>): then every session raises.
\<close>

section \<open>Rates and sizes\<close>

record rate_limiter =
  rl_limit :: int
  rl_window :: int
  rl_windows :: "string \<rightharpoonup> time \<times> int"

record rate_decision =
  rd_allowed :: bool
  rd_limit :: int
  rd_remaining :: int
  rd_retry_after :: int

definition fixed_window_rate_limiter :: "int \<Rightarrow> int \<Rightarrow> rate_limiter" where
  "fixed_window_rate_limiter limit window =
     \<lparr>rl_limit = max 0 limit, rl_window = max 1 window, rl_windows = (\<lambda>_. None)\<rparr>"

definition check_rate :: "string \<Rightarrow> time \<Rightarrow> rate_limiter \<Rightarrow> rate_decision \<times> rate_limiter" where
  "check_rate key now l =
     (if rl_limit l \<le> 0 then (\<lparr>rd_allowed = True, rd_limit = 0, rd_remaining = 0, rd_retry_after = 0\<rparr>, l)
      else
        let (start, count) = (case rl_windows l key of None \<Rightarrow> (now, 0) | Some w \<Rightarrow> w);
            (start, count) = (if seconds (rl_window l) \<le> now - start then (now, 0) else (start, count));
            count = count + 1
        in (\<lparr>rd_allowed = (count \<le> rl_limit l), rd_limit = rl_limit l, rd_remaining = max 0 (rl_limit l - count),
             rd_retry_after = (if count \<le> rl_limit l then 0
               else max 1 ((seconds (rl_window l) - (now - start)) div 1000000))\<rparr>,
            l\<lparr>rl_windows := (rl_windows l)(key \<mapsto> (start, count))\<rparr>))"

definition prune_rates :: "time \<Rightarrow> rate_limiter \<Rightarrow> rate_limiter" where
  "prune_rates now l = l\<lparr>rl_windows := (\<lambda>key. case rl_windows l key of None \<Rightarrow> None
     | Some (start, count) \<Rightarrow> if seconds (rl_window l * 2) \<le> now - start then None else Some (start, count))\<rparr>"

definition parse_content_length :: "string option \<Rightarrow> int option" where
  "parse_content_length value =
     (case value of None \<Rightarrow> None
      | Some s \<Rightarrow> (case int_of_str s of Some n \<Rightarrow> if 0 \<le> n then Some n else None | None \<Rightarrow> None))"

definition enforce_content_length_limit :: "string option \<Rightarrow> int \<Rightarrow> int option res" where
  "enforce_content_length_limit value max_bytes =
     (case parse_content_length value of
        Some n \<Rightarrow> if 0 < max_bytes \<and> max_bytes < n
                  then Inl (ValueError (''request body exceeds '' @ int_str max_bytes @ '' bytes'')) else Inr (Some n)
      | None \<Rightarrow> Inr None)"

section \<open>Scopes\<close>

type_synonym principal = "dict option"

definition char_upper :: "char \<Rightarrow> char" where
  "char_upper c = (if is_lower c then char_of (chr_code c - 32) else c)"

definition str_upper :: "string \<Rightarrow> string" where
  "str_upper = map char_upper"

text \<open>The scopes of a principal are a list.\<close>

definition has_scope :: "principal \<Rightarrow> string \<Rightarrow> bool" where
  "has_scope p scope =
     (let scopes = set (list_or_empty (dget (case p of None \<Rightarrow> [] | Some d \<Rightarrow> d) ''scopes''))
      in PStr ''*'' \<in> scopes \<or> PStr scope \<in> scopes)"

definition can_access_scope :: "principal \<Rightarrow> string option \<Rightarrow> string \<Rightarrow> bool" where
  "can_access_scope p required method =
     (case required of
        None \<Rightarrow> True
      | Some scope \<Rightarrow>
          scope = [] \<or> has_scope p ''admin'' \<or> has_scope p scope \<or>
          (str_upper method = ''GET'' \<and> scope \<noteq> ''admin'' \<and> has_scope p ''read''))"

definition required_scope_for_path :: "string \<Rightarrow> string \<Rightarrow> string option" where
  "required_scope_for_path method path =
     (if str_upper method \<in> {''OPTIONS'', ''HEAD''} then None
      else if path = ''/auth/me'' then None
      else if starts_with path ''/auth/api-keys'' then Some ''admin''
      else if starts_with path ''/platform'' then Some ''admin''
      else if starts_with path ''/runtime/templates'' \<or> starts_with path ''/runtime/policy'' then Some ''admin''
      else if starts_with path ''/runtime'' then Some ''runtime''
      else if path = ''/knowledge/search'' then Some ''read''
      else if starts_with path ''/knowledge'' then Some ''audit''
      else if starts_with path ''/artifacts'' then Some ''audit''
      else if starts_with path ''/projects'' \<or> starts_with path ''/audit-runs'' \<or> starts_with path ''/findings'' \<or>
              starts_with path ''/reports'' then Some ''audit''
      else if path = ''/metrics'' then Some ''admin''
      else None)"

definition normalize_scopes :: "string list \<Rightarrow> string \<Rightarrow> string list" where
  "normalize_scopes scopes default_scope =
     (let normalized = sort (remdups (map (\<lambda>s. str_lower (str_strip s)) (filter (\<lambda>s. str_strip s \<noteq> []) scopes)))
      in if normalized = [] then [default_scope] else normalized)"

section \<open>Keys\<close>

record guard_env =
  ge_service :: string
  ge_api_key :: string
  ge_public_metrics :: bool
  ge_max_body :: int
  ge_sha :: "string \<Rightarrow> string"
  ge_fromiso :: "string \<Rightarrow> time option"
  ge_duration :: pyval

text \<open>The state of the service: clocks, key table, limiter, audit log, and the context variable.\<close>

record front =
  fr_now :: time
  fr_monotonic :: time
  fr_db_up :: bool
  fr_uuids :: "nat \<Rightarrow> string"
  fr_uuid_next :: nat
  fr_tokens :: "nat \<Rightarrow> string"
  fr_token_next :: nat
  fr_keys :: "api_key_record list"
  fr_limiter :: rate_limiter
  fr_audit :: "platform_audit_event list"
  fr_audit_seq :: int
  fr_current_key :: "string option"

definition BOOTSTRAP_KEY_ID :: string where
  "BOOTSTRAP_KEY_ID = ''env-bootstrap''"

definition bootstrap_principal :: dict where
  "bootstrap_principal =
     [(''key_id'', PStr BOOTSTRAP_KEY_ID), (''name'', PStr ''Environment bootstrap key''), (''source'', PStr ''env''),
      (''scopes'', PList [PStr ''*'']), (''metadata'', PDict [])]"

definition api_key_principal :: "api_key_record \<Rightarrow> dict" where
  "api_key_principal row =
     [(''key_id'', PStr (ak_key_id row)), (''name'', PStr (ak_name row)), (''source'', PStr ''database''),
      (''scopes'', PList (map PStr (ak_scopes row))), (''metadata'', PDict (ak_metadata row))]"

definition api_key_record_to_dict :: "api_key_record \<Rightarrow> dict" where
  "api_key_record_to_dict row =
     [(''key_id'', PStr (ak_key_id row)), (''name'', PStr (ak_name row)), (''scopes'', PList (map PStr (ak_scopes row))),
      (''status'', PStr (ak_status row)), (''last_used_at'', opt_time (ak_last_used_at row)),
      (''deactivated_at'', opt_time (ak_deactivated_at row)), (''metadata'', PDict (ak_metadata row)),
      (''created_at'', pytime (created_at row)), (''updated_at'', pytime (updated_at row))]"

definition auth_is_enabled :: "guard_env \<Rightarrow> front \<Rightarrow> bool" where
  "auth_is_enabled env s \<longleftrightarrow>
     ge_api_key env \<noteq> [] \<or> (fr_db_up s \<and> list_ex (\<lambda>r. ak_status r = ''active'') (fr_keys s))"

definition api_key_is_expired :: "guard_env \<Rightarrow> time \<Rightarrow> api_key_record \<Rightarrow> bool" where
  "api_key_is_expired env now row =
     (let raw = dget (ak_metadata row) ''expires_at''
      in truthy raw \<and>
         (case ge_fromiso env (replace_Z (py_str raw)) of None \<Rightarrow> False | Some t \<Rightarrow> t \<le> now))"

definition write_key :: "string \<Rightarrow> (api_key_record \<Rightarrow> api_key_record) \<Rightarrow> front \<Rightarrow> front" where
  "write_key key_id f s = s\<lparr>fr_keys := row_upd ak_key_id key_id (\<lambda>r. stamped (fr_now s) r (f r)) (fr_keys s)\<rparr>"

text \<open>\<open>secrets.compare_digest\<close> refuses strings that are not ASCII.\<close>

definition compare_digest :: "string \<Rightarrow> string \<Rightarrow> bool res" where
  "compare_digest a b =
     (if list_ex (\<lambda>c. 128 \<le> chr_code c) (a @ b)
      then Inl (TypeError ''comparing strings with non-ASCII characters is not supported'') else Inr (a = b))"

text \<open>A database session: it raises when the database is away.\<close>

definition db_session :: "(front, 'a) sx \<Rightarrow> (front, 'a) sx" where
  "db_session m s = (if fr_db_up s then m s else (Inl (OtherError ''database is not available''), s))"

definition authenticate_row :: "guard_env \<Rightarrow> string \<Rightarrow> (front, principal) sx" where
  "authenticate_row env supplied = db_session (\<lambda>s.
     (case List.find (\<lambda>r. ak_key_hash r = ge_sha env supplied \<and> ak_status r = ''active'') (fr_keys s) of
        None \<Rightarrow> (Inr None, s)
      | Some row \<Rightarrow>
          if api_key_is_expired env (fr_now s) row then
            (Inr None, write_key (ak_key_id row)
               (\<lambda>r. r\<lparr>ak_status := ''inactive'', ak_deactivated_at := Some (fr_now s)\<rparr>) s)
          else (Inr (Some (api_key_principal row)), write_key (ak_key_id row) (\<lambda>r. r\<lparr>ak_last_used_at := Some (fr_now s)\<rparr>) s)))"

definition authenticate_api_key :: "guard_env \<Rightarrow> string option \<Rightarrow> (front, principal) sx" where
  "authenticate_api_key env supplied =
     (case supplied of
        None \<Rightarrow> sx_ret None
      | Some key \<Rightarrow>
          if key = [] then sx_ret None
          else if ge_api_key env = [] then authenticate_row env key
          else sx_bind (sx_lift (compare_digest key (ge_api_key env))) (\<lambda>same.
                 if same then sx_ret (Some bootstrap_principal) else authenticate_row env key))"

definition API_KEY_PREFIX :: string where
  "API_KEY_PREFIX = ''dak_''"

definition create_persisted_api_key :: "guard_env \<Rightarrow> string \<Rightarrow> string list \<Rightarrow> dict \<Rightarrow> string \<Rightarrow> (front, dict) sx" where
  "create_persisted_api_key env name scopes metadata default_scope s =
     (let raw_key = API_KEY_PREFIX @ fr_tokens s (fr_token_next s);
          row = \<lparr>created_at = fr_now s, updated_at = fr_now s, ak_key_id = fr_uuids s (fr_uuid_next s), ak_name = name,
                 ak_key_hash = ge_sha env raw_key, ak_scopes = normalize_scopes scopes default_scope,
                 ak_status = ''active'', ak_last_used_at = None, ak_deactivated_at = None, ak_metadata = metadata\<rparr>;
          s = s\<lparr>fr_token_next := Suc (fr_token_next s), fr_uuid_next := Suc (fr_uuid_next s)\<rparr>
      in db_session (\<lambda>s. (Inr [(''api_key'', PStr raw_key), (''record'', PDict (api_key_record_to_dict row))],
                           s\<lparr>fr_keys := fr_keys s @ [row]\<rparr>)) s)"

end
