(* ===== verification/Access_Middleware.thy ===== *)
theory Access_Middleware
  imports Access_Guards
begin

text \<open>
  The HTTP middleware \<open>api_key_auth\<close> of \<open>services/platform/app/main.py\<close> and the routes that
  manage API keys (\<open>api/routes.py\<close>). The rest of the application, \<open>call_next\<close>, is an argument:
  it is given the request, the principal found, and the state.
\<close>

section \<open>Requests and responses\<close>

text \<open>The headers the middleware reads, by name.\<close>

record request =
  rq_method :: string
  rq_path :: string
  rq_query :: string
  rq_request_id :: "string option"
  rq_key_header :: "string option"
  rq_authorization :: "string option"
  rq_content_length :: "string option"
  rq_user_agent :: "string option"
  rq_forwarded_for :: "string option"
  rq_client_host :: "string option"

record response =
  rs_status :: int
  rs_body :: dict
  rs_headers :: "(string \<times> string) list"

type_synonym handler = "principal \<Rightarrow> request \<Rightarrow> (front, response) sx"

definition set_header :: "string \<Rightarrow> string \<Rightarrow> response \<Rightarrow> response" where
  "set_header k v r = r\<lparr>rs_headers := filter (\<lambda>(k', _). str_lower k' \<noteq> str_lower k) (rs_headers r) @ [(k, v)]\<rparr>"

definition PUBLIC_PATHS :: "string list" where
  "PUBLIC_PATHS = [''/'', ''/health'', ''/ready'', ''/auth/status'']"

definition is_public_path :: "guard_env \<Rightarrow> string \<Rightarrow> bool" where
  "is_public_path env path \<longleftrightarrow> (path = ''/metrics'' \<and> ge_public_metrics env) \<or> path \<in> set PUBLIC_PATHS"

definition should_record_platform_event :: "string \<Rightarrow> bool" where
  "should_record_platform_event path \<longleftrightarrow> path \<notin> set [''/'', ''/health'', ''/ready'', ''/auth/status'', ''/metrics'']"

definition bearer_token :: "string option \<Rightarrow> string option" where
  "bearer_token value =
     (case value of
        Some v \<Rightarrow> if starts_with v ''Bearer '' then Some (drop 7 v) else None
      | None \<Rightarrow> None)"

text \<open>\<open>a or b\<close> for strings that may be missing.\<close>

definition or_str :: "string option \<Rightarrow> string option \<Rightarrow> string option" where
  "or_str a b = (case a of Some s \<Rightarrow> if s = [] then b else Some s | None \<Rightarrow> b)"

definition supplied_key :: "request \<Rightarrow> string option" where
  "supplied_key rq = or_str (rq_key_header rq) (bearer_token (rq_authorization rq))"

definition rate_limit_identity :: "guard_env \<Rightarrow> request \<Rightarrow> string option \<Rightarrow> string" where
  "rate_limit_identity env rq supplied =
     (case supplied of
        Some key \<Rightarrow> if key = [] then ''ip:'' @ (case rq_client_host rq of Some h \<Rightarrow> h | None \<Rightarrow> ''unknown'')
                    else ''key:'' @ ge_sha env key
      | None \<Rightarrow> ''ip:'' @ (case rq_client_host rq of Some h \<Rightarrow> h | None \<Rightarrow> ''unknown''))"

definition check_rate_limit :: "guard_env \<Rightarrow> request \<Rightarrow> string option \<Rightarrow> front \<Rightarrow> rate_decision \<times> front" where
  "check_rate_limit env rq supplied s =
     (let (d, l) = check_rate (rate_limit_identity env rq supplied) (fr_monotonic s) (prune_rates (fr_monotonic s) (fr_limiter s))
      in (d, s\<lparr>fr_limiter := l\<rparr>))"

section \<open>The audit log\<close>

record outcome =
  oc_request_id :: string
  oc_auth_enabled :: bool
  oc_result :: string
  oc_principal :: principal

definition principal_get :: "principal \<Rightarrow> string \<Rightarrow> pyval" where
  "principal_get p k = dget (case p of None \<Rightarrow> [] | Some d \<Rightarrow> d) k"

definition record_platform_audit_event :: "guard_env \<Rightarrow> request \<Rightarrow> int \<Rightarrow> outcome \<Rightarrow> front \<Rightarrow> front" where
  "record_platform_audit_event env rq status_code oc s =
     (if \<not> should_record_platform_event (rq_path rq) \<or> \<not> fr_db_up s then s
      else s\<lparr>fr_audit_seq := fr_audit_seq s + 1,
             fr_audit := fr_audit s @
               [\<lparr>created_at = fr_now s, updated_at = fr_now s, pa_id = fr_audit_seq s, pa_service = ge_service env,
                 pa_method = rq_method rq, pa_path = rq_path rq, pa_status_code = status_code,
                 pa_client_host = rq_client_host rq, pa_user_agent = rq_user_agent rq,
                 pa_auth_enabled = oc_auth_enabled oc, pa_auth_result = oc_result oc,
                 pa_request_id = Some (oc_request_id oc),
                 pa_metadata = [(''query'', PStr (rq_query rq)), (''duration_ms'', ge_duration env),
                   (''forwarded_for'', opt_str (rq_forwarded_for rq)),
                   (''auth_key_id'', principal_get (oc_principal oc) ''key_id''),
                   (''auth_source'', principal_get (oc_principal oc) ''source'')]\<rparr>]\<rparr>)"

section \<open>The middleware\<close>

text \<open>A request that is turned away, and one that is handed on.\<close>

definition turn_away ::
  "guard_env \<Rightarrow> request \<Rightarrow> outcome \<Rightarrow> int \<Rightarrow> dict \<Rightarrow> (string \<times> string) list \<Rightarrow> (front, response) sx" where
  "turn_away env rq oc status body headers s =
     (Inr \<lparr>rs_status = status, rs_body = body, rs_headers = (''X-Request-Id'', oc_request_id oc) # headers\<rparr>,
      record_platform_audit_event env rq status oc s)"

definition hand_on :: "guard_env \<Rightarrow> handler \<Rightarrow> request \<Rightarrow> outcome \<Rightarrow> (front, response) sx" where
  "hand_on env call_next rq oc s =
     (case call_next (oc_principal oc) rq s of
        (Inl e, t) \<Rightarrow> (Inl e, t)
      | (Inr r, t) \<Rightarrow> (Inr (set_header ''X-Request-Id'' (oc_request_id oc) r),
                      record_platform_audit_event env rq (rs_status r) oc t))"

definition with_principal :: "guard_env \<Rightarrow> handler \<Rightarrow> request \<Rightarrow> outcome \<Rightarrow> string option \<Rightarrow> (front, response) sx" where
  "with_principal env call_next rq oc supplied =
     sx_bind (authenticate_api_key env supplied) (\<lambda>principal.
       case principal of
         None \<Rightarrow> turn_away env rq (oc\<lparr>oc_result := ''failed''\<rparr>) 401 [(''detail'', PStr ''missing or invalid API key'')] []
       | Some d \<Rightarrow>
           sx_do (sx_modify (\<lambda>s. s\<lparr>fr_current_key := supplied\<rparr>))
             (let required = required_scope_for_path (rq_method rq) (rq_path rq)
              in if can_access_scope principal required (rq_method rq)
                 then hand_on env call_next rq (oc\<lparr>oc_result := ''success'', oc_principal := principal\<rparr>)
                 else turn_away env rq (oc\<lparr>oc_result := ''insufficient_scope'', oc_principal := principal\<rparr>) 403
                   [(''detail'', PStr ''insufficient API key scope''), (''required_scope'', opt_str required)] []))"

definition after_rate :: "guard_env \<Rightarrow> handler \<Rightarrow> request \<Rightarrow> bool \<Rightarrow> outcome \<Rightarrow> string option \<Rightarrow> (front, response) sx" where
  "after_rate env call_next rq public oc supplied =
     (if public \<or> \<not> oc_auth_enabled oc then hand_on env call_next rq oc else with_principal env call_next rq oc supplied)"

definition guarded :: "guard_env \<Rightarrow> handler \<Rightarrow> request \<Rightarrow> bool \<Rightarrow> outcome \<Rightarrow> string option \<Rightarrow> (front, response) sx" where
  "guarded env call_next rq public oc supplied s =
     (case enforce_content_length_limit (rq_content_length rq) (ge_max_body env) of
        Inl exc \<Rightarrow> turn_away env rq (oc\<lparr>oc_result := ''body_too_large''\<rparr>) 413 [(''detail'', PStr (exc_str exc))] [] s
      | Inr _ \<Rightarrow>
          if public then after_rate env call_next rq public oc supplied s
          else case check_rate_limit env rq supplied s of (d, t) \<Rightarrow>
            if rd_allowed d then after_rate env call_next rq public oc supplied t
            else turn_away env rq (oc\<lparr>oc_result := ''rate_limited''\<rparr>) 429 [(''detail'', PStr ''rate limit exceeded'')]
              [(''Retry-After'', int_str (rd_retry_after d)), (''X-RateLimit-Limit'', int_str (rd_limit d)),
               (''X-RateLimit-Remaining'', int_str (rd_remaining d))] t)"

text \<open>The \<open>finally\<close> block gives the context variable its old value in every case.\<close>

definition api_key_auth :: "guard_env \<Rightarrow> handler \<Rightarrow> request \<Rightarrow> (front, response) sx" where
  "api_key_auth env call_next rq s =
     (let token = fr_current_key s;
          s0 = s\<lparr>fr_current_key := None\<rparr>;
          (request_id, s1) = (case or_str (rq_request_id rq) None of
             Some i \<Rightarrow> (i, s0)
           | None \<Rightarrow> (fr_uuids s0 (fr_uuid_next s0), s0\<lparr>fr_uuid_next := Suc (fr_uuid_next s0)\<rparr>));
          public = is_public_path env (rq_path rq);
          auth_enabled = (if public then ge_api_key env \<noteq> [] else auth_is_enabled env s1);
          oc = \<lparr>oc_request_id = request_id, oc_auth_enabled = auth_enabled, oc_result = ''not_required'', oc_principal = None\<rparr>;
          (r, s2) = guarded env call_next rq public oc (supplied_key rq) s1
      in (r, s2\<lparr>fr_current_key := token\<rparr>))"

section \<open>The routes of API keys\<close>

definition require_admin :: "guard_env \<Rightarrow> principal \<Rightarrow> (front, unit) sx" where
  "require_admin env p s =
     (if auth_is_enabled env s \<and> \<not> has_scope p ''admin'' then (Inl (PermissionError ''admin scope required''), s) else (Inr (), s))"

definition list_api_keys :: "guard_env \<Rightarrow> principal \<Rightarrow> (front, dict list) sx" where
  "list_api_keys env p =
     sx_do (require_admin env p) (db_session (sx_gets (\<lambda>s. map api_key_record_to_dict (rev (sort_key created_at (fr_keys s))))))"

definition create_api_key :: "guard_env \<Rightarrow> principal \<Rightarrow> string \<Rightarrow> string list \<Rightarrow> dict \<Rightarrow> (front, dict) sx" where
  "create_api_key env p name scopes metadata =
     sx_do (require_admin env p) (create_persisted_api_key env name scopes metadata ''read'')"

definition deactivate_api_key :: "guard_env \<Rightarrow> principal \<Rightarrow> string \<Rightarrow> (front, dict) sx" where
  "deactivate_api_key env p key_id =
     sx_do (require_admin env p) (db_session (\<lambda>s.
       case row_find ak_key_id key_id (fr_keys s) of
         None \<Rightarrow> (Inl (LookupError ''api key not found''), s)
       | Some row \<Rightarrow>
           let change = (\<lambda>r. r\<lparr>ak_status := ''inactive'', ak_deactivated_at := Some (fr_now s)\<rparr>)
           in (Inr (api_key_record_to_dict (stamped (fr_now s) row (change row))), write_key key_id change s)))"

end
