(* ===== verification/Access_Contracts.thy ===== *)
theory Access_Contracts
  imports Access_Middleware
begin

text \<open>
  What the guards promise: how many requests of a caller pass in a stretch of time, who reaches a
  route, and what the life of an API key is.
\<close>

section \<open>How many requests pass\<close>

text \<open>The times at which requests of \<open>key\<close> are let through, of a sequence of requests.\<close>

fun allowed_times :: "string \<Rightarrow> (string \<times> time) list \<Rightarrow> rate_limiter \<Rightarrow> time list" where
  "allowed_times key [] l = []"
| "allowed_times key ((k, t) # rs) l =
     (case check_rate k t (prune_rates t l) of (d, l') \<Rightarrow>
        (if k = key \<and> rd_allowed d then [t] else []) @ allowed_times key rs l')"

definition between :: "time \<Rightarrow> time \<Rightarrow> time list \<Rightarrow> nat" where
  "between a b ts = length (filter (\<lambda>t. a \<le> t \<and> t < b) ts)"

lemma between_append [simp]: "between a b (xs @ ys) = between a b xs + between a b ys"
  by (simp add: between_def)

lemma between_single [simp]: "between a b [t] = (if a \<le> t \<and> t < b then 1 else 0)"
  by (simp add: between_def)

lemma between_Nil [simp]: "between a b [] = 0"
  by (simp add: between_def)

lemma between_subset:
  "(\<And>t. t \<in> set ts \<Longrightarrow> a \<le> t \<Longrightarrow> t < b \<Longrightarrow> a' \<le> t \<and> t < b') \<Longrightarrow> between a b ts \<le> between a' b' ts"
  unfolding between_def by (induction ts) auto

lemma between_mono: "a' \<le> a \<Longrightarrow> b \<le> b' \<Longrightarrow> between a b ts \<le> between a' b' ts"
  by (rule between_subset) auto

lemma between_split: "between a c ts \<le> between a b ts + between b c ts"
  unfolding between_def by (induction ts) auto

lemma between_none: "\<forall>t \<in> set ts. t < a \<or> b \<le> t \<Longrightarrow> between a b ts = 0"
  by (auto simp: between_def filter_empty_conv)

lemma between_strict:
  assumes "x \<in> set ts" and "a \<le> x" and "x < a'" and "x < b" shows "between a' b ts < between a b ts"
  using assms(1)
proof (induction ts)
  case (Cons t ts)
  have "between a' b ts \<le> between a b ts" using assms(2,3) by (intro between_mono) auto
  with Cons assms(2-4) show ?case by (auto simp: between_def)
qed simp

text \<open>
  The window of a caller at time \<open>now\<close> against the times \<open>ts\<close> it was let through: none known
  means that they are all more than a window ago; otherwise those since its start are counted and
  those of the window before it are fewer than the limit.
\<close>

definition window_ok :: "nat \<Rightarrow> time \<Rightarrow> time \<Rightarrow> (time \<times> int) option \<Rightarrow> time list \<Rightarrow> bool" where
  "window_ok n w now win ts \<longleftrightarrow>
     (case win of
        None \<Rightarrow> \<forall>t \<in> set ts. t \<le> now - w
      | Some (start, count) \<Rightarrow>
          start \<le> now \<and> start \<in> set ts \<and> 1 \<le> count \<and> (\<forall>t \<in> set ts. t < start + w \<and> t \<le> now) \<and>
          int (between start (start + w) ts) \<le> count \<and> between start (start + w) ts \<le> n \<and>
          between (start - w + 1) start ts < n)"

definition bursts_ok :: "nat \<Rightarrow> time \<Rightarrow> time list \<Rightarrow> bool" where
  "bursts_ok n w ts \<longleftrightarrow> (\<forall>a. between a (a + w) ts < 2 * n)"

lemma window_ok_later:
  "window_ok n w now win ts \<Longrightarrow> now \<le> later \<Longrightarrow> window_ok n w later win ts"
  by (auto simp: window_ok_def split: option.splits)

lemma window_ok_pruned:
  "window_ok n w now (Some (start, count)) ts \<Longrightarrow> 0 < w \<Longrightarrow> 2 * w \<le> now - start \<Longrightarrow> window_ok n w now None ts"
  by (auto simp: window_ok_def)

text \<open>A request opens a window.\<close>

lemma window_opened:
  assumes "0 < n" "0 < w" "bursts_ok n w ts" "window_ok n w now win ts"
    and "win = None \<or> (\<exists>start count. win = Some (start, count) \<and> w \<le> now - start)"
  shows "window_ok n w now (Some (now, 1)) (ts @ [now])" and "bursts_ok n w (ts @ [now])"
proof -
  have before: "\<forall>t \<in> set ts. t < now"
  proof
    fix t assume t: "t \<in> set ts"
    show "t < now"
    proof (cases win)
      case None
      with t assms(4) have "t \<le> now - w" by (simp add: window_ok_def)
      with assms(2) show ?thesis by simp
    next
      case (Some p)
      then obtain start count where s: "win = Some (start, count)" "w \<le> now - start" using assms(5) by auto
      with t assms(4) have "t < start + w" by (simp add: window_ok_def)
      with s(2) show ?thesis by simp
    qed
  qed
  have few: "between (now - w + 1) now ts < n"
  proof (cases win)
    case None
    then have "between (now - w + 1) now ts = 0"
      using assms(4) by (intro between_none) (auto simp: window_ok_def)
    with assms(1) show ?thesis by simp
  next
    case (Some p)
    then obtain start count where s: "win = Some (start, count)" "w \<le> now - start" using assms(5) by auto
    then have "between (now - w + 1) (start + w) ts < between start (start + w) ts"
      using assms(2,4) by (intro between_strict [of start]) (auto simp: window_ok_def)
    moreover have "between (now - w + 1) now ts \<le> between (now - w + 1) (start + w) ts + between (start + w) now ts"
      by (rule between_split)
    moreover have "between (start + w) now ts = 0"
      using assms(4) s by (intro between_none) (auto simp: window_ok_def)
    ultimately show ?thesis using assms(4) s by (simp add: window_ok_def)
  qed
  have none: "between now (now + w) ts = 0" using before by (intro between_none) auto
  from few none before assms(1,2) show "window_ok n w now (Some (now, 1)) (ts @ [now])"
    by (auto simp: window_ok_def)
  show "bursts_ok n w (ts @ [now])"
    unfolding bursts_ok_def
  proof
    fix a
    show "between a (a + w) (ts @ [now]) < 2 * n"
    proof (cases "a \<le> now \<and> now < a + w")
      case True
      then have "between a (a + w) ts \<le> between (now - w + 1) now ts"
        using before True by (intro between_subset) auto
      with True few show ?thesis by simp
    qed (use assms(3) in \<open>auto simp: bursts_ok_def\<close>)
  qed
qed

text \<open>A request in an open window.\<close>

lemma window_counted:
  assumes "0 < w" "bursts_ok n w ts" "window_ok n w now (Some (start, count)) ts" "now - start < w"
  shows "window_ok n w now (Some (start, count + 1)) (if count + 1 \<le> int n then ts @ [now] else ts)"
    and "bursts_ok n w (if count + 1 \<le> int n then ts @ [now] else ts)"
proof -
  show "window_ok n w now (Some (start, count + 1)) (if count + 1 \<le> int n then ts @ [now] else ts)"
    using assms(1,3,4) by (auto simp: window_ok_def)
  show "bursts_ok n w (if count + 1 \<le> int n then ts @ [now] else ts)"
  proof (cases "count + 1 \<le> int n")
    case fits: True
    have "between a (a + w) (ts @ [now]) < 2 * n" for a
    proof (cases "a \<le> now \<and> now < a + w")
      case True
      have "between a (a + w) ts \<le> between a start ts + between start (a + w) ts" by (rule between_split)
      moreover have "between start (a + w) ts \<le> between start (start + w) ts"
        using assms(3) by (intro between_subset) (auto simp: window_ok_def)
      moreover have "between a start ts \<le> between (start - w + 1) start ts"
        using True assms(3) by (intro between_mono) (auto simp: window_ok_def)
      ultimately show ?thesis
        using fits assms(3) True by (simp add: window_ok_def)
    qed (use assms(2) in \<open>auto simp: bursts_ok_def\<close>)
    with fits show ?thesis by (simp add: bursts_ok_def)
  qed (use assms(2) in simp)
qed

text \<open>One request of the sequence, for the caller that is watched and for another.\<close>

definition next_window :: "rate_limiter \<Rightarrow> string \<Rightarrow> time \<Rightarrow> time \<times> int" where
  "next_window l key now =
     (case rl_windows l key of None \<Rightarrow> (now, 1)
      | Some (start, count) \<Rightarrow> if seconds (rl_window l) \<le> now - start then (now, 1) else (start, count + 1))"

lemma check_rate_next:
  "rl_windows (snd (check_rate key now l)) =
     (if rl_limit l \<le> 0 then rl_windows l else (rl_windows l)(key \<mapsto> next_window l key now))"
  "0 < rl_limit l \<Longrightarrow> rd_allowed (fst (check_rate key now l)) \<longleftrightarrow> snd (next_window l key now) \<le> rl_limit l"
  by (auto simp: check_rate_def next_window_def Let_def split: option.split)

lemma check_rate_watched:
  assumes "0 < rl_limit l" "0 < rl_window l" "int n = rl_limit l" "w = seconds (rl_window l)"
    and "window_ok n w now (rl_windows l key) ts" "bursts_ok n w ts"
  shows "window_ok n w now (rl_windows (snd (check_rate key now l)) key)
           (if rd_allowed (fst (check_rate key now l)) then ts @ [now] else ts)"
    and "bursts_ok n w (if rd_allowed (fst (check_rate key now l)) then ts @ [now] else ts)"
proof -
  have pos: "0 < w" "0 < n" using assms(1-4) by (auto simp: seconds_def)
  let ?allowed = "rd_allowed (fst (check_rate key now l))"
  have "window_ok n w now (Some (next_window l key now)) (if ?allowed then ts @ [now] else ts) \<and>
    bursts_ok n w (if ?allowed then ts @ [now] else ts)"
  proof (cases "\<exists>start count. rl_windows l key = Some (start, count) \<and> now - start < w")
    case True
    then obtain start count where win: "rl_windows l key = Some (start, count)" "now - start < w" by blast
    then have "next_window l key now = (start, count + 1)" "?allowed \<longleftrightarrow> count + 1 \<le> int n"
      using assms by (simp_all add: next_window_def check_rate_next)
    then show ?thesis
      using window_counted [OF pos(1) assms(6), of now start count] assms(5) win by simp
  next
    case False
    then have "next_window l key now = (now, 1)"
      using assms(4) by (auto simp: next_window_def split: option.split)
    moreover from this have ?allowed using assms by (simp add: check_rate_next)
    moreover have "rl_windows l key = None \<or> (\<exists>start count. rl_windows l key = Some (start, count) \<and> w \<le> now - start)"
      using False by (cases "rl_windows l key") (auto simp: not_less)
    ultimately show ?thesis using window_opened [OF pos(2) pos(1) assms(6) assms(5)] by simp
  qed
  with assms(1) show "window_ok n w now (rl_windows (snd (check_rate key now l)) key) (if ?allowed then ts @ [now] else ts)"
    and "bursts_ok n w (if ?allowed then ts @ [now] else ts)"
    by (simp_all add: check_rate_next)
qed

lemma check_rate_other [simp]:
  "k \<noteq> key \<Longrightarrow> rl_windows (snd (check_rate k now l)) key = rl_windows l key"
  by (simp add: check_rate_next)

lemma check_rate_settings [simp]:
  "rl_limit (snd (check_rate k now l)) = rl_limit l" "rl_window (snd (check_rate k now l)) = rl_window l"
  "rl_limit (prune_rates now l) = rl_limit l" "rl_window (prune_rates now l) = rl_window l"
  by (simp_all add: check_rate_def prune_rates_def Let_def split: option.split prod.split)

lemma prune_keeps_ok:
  "window_ok n w now (rl_windows l key) ts \<Longrightarrow> 0 < w \<Longrightarrow> w = seconds (rl_window l) \<Longrightarrow>
   window_ok n w now (rl_windows (prune_rates now l) key) ts"
  by (auto simp: prune_rates_def seconds_def intro: window_ok_pruned split: option.split)

lemma allowed_bursts:
  assumes "sorted (map snd reqs)" "\<forall>(k, t) \<in> set reqs. now \<le> t"
    and "0 < rl_limit l" "0 < rl_window l" "int n = rl_limit l" "w = seconds (rl_window l)"
    and "window_ok n w now (rl_windows l key) ts" "bursts_ok n w ts"
  shows "bursts_ok n w (ts @ allowed_times key reqs l)"
  using assms
proof (induction reqs arbitrary: now l ts)
  case (Cons r reqs)
  obtain k t where r: "r = (k, t)" by (cases r)
  let ?l = "prune_rates t l"
  let ?d = "fst (check_rate k t ?l)" and ?l' = "snd (check_rate k t ?l)"
  let ?ts = "if k = key \<and> rd_allowed ?d then ts @ [t] else ts"
  have ok: "window_ok n w t (rl_windows ?l key) ts"
  proof (rule prune_keeps_ok)
    show "window_ok n w t (rl_windows l key) ts"
    proof (rule window_ok_later [OF Cons.prems(7)])
      show "now \<le> t" using Cons.prems(2) by (simp add: r)
    qed
    show "0 < w" using Cons.prems(4,6) by (simp add: seconds_def)
  qed (rule Cons.prems(6))
  have "window_ok n w t (rl_windows ?l' key) ?ts \<and> bursts_ok n w ?ts"
  proof (cases "k = key")
    case True
    then show ?thesis using check_rate_watched [of ?l n w t key ts] Cons.prems ok by simp
  next
    case False
    then show ?thesis using Cons.prems ok by simp
  qed
  moreover have "sorted (map snd reqs)" "\<forall>(k, u) \<in> set reqs. t \<le> u"
    using Cons.prems(1) by (auto simp: r)
  ultimately have "bursts_ok n w (?ts @ allowed_times key reqs ?l')"
    using Cons.IH [of t ?l' ?ts] Cons.prems(3-6) by simp
  moreover have "ts @ allowed_times key (r # reqs) l = ?ts @ allowed_times key reqs ?l'"
    by (cases "check_rate k t ?l") (simp add: r)
  ultimately show ?case by (simp only:)
qed simp

text \<open>C29. However the requests of all callers come, in any stretch of time as long as the window fewer
  than twice the limit of one caller are let through.\<close>

theorem rate_bounded:
  assumes "sorted (map snd reqs)" and "0 < limit"
  shows "between a (a + seconds (max 1 window)) (allowed_times key reqs (fixed_window_rate_limiter limit window)) < 2 * nat limit"
proof (cases reqs)
  case (Cons r rs)
  have "bursts_ok (nat limit) (seconds (max 1 window)) ([] @ allowed_times key reqs (fixed_window_rate_limiter limit window))"
    using assms Cons
    by (intro allowed_bursts [of _ "snd r"]) (auto simp: fixed_window_rate_limiter_def window_ok_def bursts_ok_def)
  then show ?thesis by (simp add: bursts_ok_def)
qed (use assms in simp)

theorem rate_bounded_witness:
  "between 900000 1900000 (allowed_times ''k'' [(''k'', 0), (''k'', 900000), (''k'', 1000000), (''k'', 1100000), (''k'', 1200000)]
     (fixed_window_rate_limiter 2 1)) = 3 \<and> (3::nat) < 2 * nat 2"
proof -
  have "sorted (map snd [(''k'', 0 :: time), (''k'', 900000), (''k'', 1000000), (''k'', 1100000), (''k'', 1200000)])" by simp
  from rate_bounded [OF this, of 2 900000 1 "''k''"]
  show ?thesis
    by (simp add: fixed_window_rate_limiter_def check_rate_def prune_rates_def seconds_def between_def)
qed

section \<open>Who reaches a route\<close>

text \<open>What a key stands for in a state: the key of the environment, or an active row that has not expired.\<close>

definition known_key :: "guard_env \<Rightarrow> front \<Rightarrow> string \<Rightarrow> dict \<Rightarrow> bool" where
  "known_key env s key d \<longleftrightarrow>
     key \<noteq> [] \<and>
     ((key = ge_api_key env \<and> d = bootstrap_principal) \<or>
      (\<exists>row \<in> set (fr_keys s). ak_key_hash row = ge_sha env key \<and> ak_status row = ''active'' \<and>
         \<not> api_key_is_expired env (fr_now s) row \<and> d = api_key_principal row))"

lemma authenticated_known:
  "authenticate_api_key env supplied s = (Inr (Some d), t) \<Longrightarrow> \<exists>key. supplied = Some key \<and> known_key env s key d"
  by (auto simp: authenticate_api_key_def authenticate_row_def db_session_def compare_digest_def known_key_def sx_simps
      find_Some_iff split: option.splits if_splits)

lemma check_rate_limit_simps [simp]:
  "fr_keys (snd (check_rate_limit env rq k s)) = fr_keys s" "fr_now (snd (check_rate_limit env rq k s)) = fr_now s"
  "fst (check_rate_limit env rq k (s\<lparr>fr_current_key := x\<rparr>)) = fst (check_rate_limit env rq k s)"
  "fst (check_rate_limit env rq k (s\<lparr>fr_uuid_next := n\<rparr>)) = fst (check_rate_limit env rq k s)"
  by (simp_all add: check_rate_limit_def split: prod.split)

lemma known_key_simps [simp]:
  "known_key env (snd (check_rate_limit env rq k s)) = known_key env s"
  "known_key env (s\<lparr>fr_current_key := x\<rparr>) = known_key env s"
  "known_key env (s\<lparr>fr_uuid_next := n\<rparr>) = known_key env s"
  by (auto simp: known_key_def fun_eq_iff)

text \<open>Where the handler matters, the request got as far as the handler.\<close>

lemma with_principal_served:
  assumes "with_principal env h rq oc supplied s \<noteq> with_principal env h' rq oc supplied s"
  shows "\<exists>key d. supplied = Some key \<and> known_key env s key d \<and>
    can_access_scope (Some d) (required_scope_for_path (rq_method rq) (rq_path rq)) (rq_method rq)"
proof (cases "authenticate_api_key env supplied s")
  case (Pair r t)
  obtain d where d: "r = Inr (Some d)"
    using assms Pair by (cases r) (auto simp: with_principal_def sx_bind_def split: option.splits)
  moreover have "can_access_scope (Some d) (required_scope_for_path (rq_method rq) (rq_path rq)) (rq_method rq)"
    using assms Pair d by (auto simp: with_principal_def sx_simps Let_def split: if_splits)
  ultimately show ?thesis using authenticated_known [of env supplied s d t] Pair by auto
qed

lemma guarded_served:
  assumes "guarded env h rq False oc supplied s \<noteq> guarded env h' rq False oc supplied s" and "oc_auth_enabled oc"
  shows "\<exists>key d. supplied = Some key \<and> known_key env s key d \<and>
    can_access_scope (Some d) (required_scope_for_path (rq_method rq) (rq_path rq)) (rq_method rq)"
    and "rd_allowed (fst (check_rate_limit env rq supplied s))"
    and "\<exists>n. enforce_content_length_limit (rq_content_length rq) (ge_max_body env) = Inr n"
proof -
  obtain n where n: "enforce_content_length_limit (rq_content_length rq) (ge_max_body env) = Inr n"
    using assms(1) by (cases "enforce_content_length_limit (rq_content_length rq) (ge_max_body env)") (auto simp: guarded_def)
  then show "\<exists>n. enforce_content_length_limit (rq_content_length rq) (ge_max_body env) = Inr n" by blast
  obtain d t where c: "check_rate_limit env rq supplied s = (d, t)" by (cases "check_rate_limit env rq supplied s")
  then have a: "rd_allowed d"
    using assms(1) n by (auto simp: guarded_def split: if_splits)
  with c show "rd_allowed (fst (check_rate_limit env rq supplied s))" by simp
  have "with_principal env h rq oc supplied t \<noteq> with_principal env h' rq oc supplied t"
    using assms n c a by (simp add: guarded_def after_rate_def)
  moreover have "known_key env t = known_key env s"
    using c known_key_simps(1) [of env rq supplied s] by simp
  ultimately show "\<exists>key d. supplied = Some key \<and> known_key env s key d \<and>
    can_access_scope (Some d) (required_scope_for_path (rq_method rq) (rq_path rq)) (rq_method rq)"
    using with_principal_served by metis
qed

text \<open>C8. While authentication is on, the outcome of a request to a path that is not public depends on the
  route behind the middleware only if the request gives a known key that has not expired, the scope
  of the key is enough for the path and the method, the body is within its limit, and the rate
  limiter lets it through: no route is reached otherwise.\<close>

theorem only_admitted_served:
  assumes "\<not> is_public_path env (rq_path rq)" and "auth_is_enabled env s"
    and "api_key_auth env h rq s \<noteq> api_key_auth env h' rq s"
  shows "\<exists>key d. supplied_key rq = Some key \<and> known_key env s key d \<and>
    can_access_scope (Some d) (required_scope_for_path (rq_method rq) (rq_path rq)) (rq_method rq) \<and>
    rd_allowed (fst (check_rate_limit env rq (Some key) s)) \<and>
    (\<exists>n. enforce_content_length_limit (rq_content_length rq) (ge_max_body env) = Inr n)"
proof -
  let ?s0 = "s\<lparr>fr_current_key := None\<rparr>"
  obtain i u where u: "(case or_str (rq_request_id rq) None of
             Some i \<Rightarrow> (i, ?s0) | None \<Rightarrow> (fr_uuids ?s0 (fr_uuid_next ?s0), ?s0\<lparr>fr_uuid_next := Suc (fr_uuid_next ?s0)\<rparr>)) = (i, u)"
    by (cases "or_str (rq_request_id rq) None") auto
  then have same: "known_key env u = known_key env s" "auth_is_enabled env u = auth_is_enabled env s"
      "fst (check_rate_limit env rq k u) = fst (check_rate_limit env rq k s)" for k
    by (auto simp: auth_is_enabled_def split: option.splits)
  let ?oc = "\<lparr>oc_request_id = i, oc_auth_enabled = True, oc_result = ''not_required'', oc_principal = None\<rparr>"
  have "guarded env h rq False ?oc (supplied_key rq) u \<noteq> guarded env h' rq False ?oc (supplied_key rq) u"
    using assms u by (auto simp: api_key_auth_def Let_def same)
  from guarded_served [OF this] same show ?thesis by auto
qed

definition sample_guard :: guard_env where
  "sample_guard = \<lparr>ge_service = ''web-api'', ge_api_key = [], ge_public_metrics = False, ge_max_body = 100,
     ge_sha = (\<lambda>s. s), ge_fromiso = (\<lambda>s. if s = ''1970-01-01'' then Some 0 else None), ge_duration = PNone\<rparr>"

definition sample_key :: "dict \<Rightarrow> api_key_record" where
  "sample_key metadata = \<lparr>created_at = 0, updated_at = 0, ak_key_id = ''k1'', ak_name = ''ci'', ak_key_hash = ''dak_t'',
     ak_scopes = [''audit''], ak_status = ''active'', ak_last_used_at = None, ak_deactivated_at = None, ak_metadata = metadata\<rparr>"

definition sample_front :: "api_key_record list \<Rightarrow> front" where
  "sample_front keys = \<lparr>fr_now = 5, fr_monotonic = 0, fr_db_up = True, fr_uuids = (\<lambda>n. ''u'' @ nat_str n), fr_uuid_next = 0,
     fr_tokens = (\<lambda>n. ''t'' @ nat_str n), fr_token_next = 0, fr_keys = keys, fr_limiter = fixed_window_rate_limiter 120 60,
     fr_audit = [], fr_audit_seq = 1, fr_current_key = None\<rparr>"

definition sample_request :: "string option \<Rightarrow> request" where
  "sample_request key = \<lparr>rq_method = ''GET'', rq_path = ''/projects'', rq_query = [], rq_request_id = Some ''r1'',
     rq_key_header = key, rq_authorization = None, rq_content_length = None, rq_user_agent = None, rq_forwarded_for = None,
     rq_client_host = None\<rparr>"

definition answer :: "response \<Rightarrow> handler" where
  "answer ok p rq s = (Inr ok, s)"

definition ok_response :: "int \<Rightarrow> response" where
  "ok_response n = \<lparr>rs_status = n, rs_body = [], rs_headers = []\<rparr>"

lemmas sample_access_defs = sample_guard_def sample_key_def sample_front_def sample_request_def answer_def ok_response_def
  is_public_path_def PUBLIC_PATHS_def auth_is_enabled_def supplied_key_def or_str_def bearer_token_def
  enforce_content_length_limit_def parse_content_length_def check_rate_limit_def check_rate_def prune_rates_def
  fixed_window_rate_limiter_def rate_limit_identity_def seconds_def Let_def

theorem only_admitted_served_witness:
  "known_key sample_guard (sample_front [sample_key []]) ''dak_t'' (api_key_principal (sample_key []))"
proof -
  let ?s = "sample_front [sample_key []]" and ?rq = "sample_request (Some ''dak_t'')"
  have "\<not> is_public_path sample_guard (rq_path ?rq)" "auth_is_enabled sample_guard ?s"
    by (simp_all add: sample_access_defs)
  moreover have served: "fst (api_key_auth sample_guard (answer (ok_response n)) ?rq ?s) =
      Inr (set_header ''X-Request-Id'' ''r1'' (ok_response n))" for n
    by (simp add: api_key_auth_def guarded_def sample_access_defs after_rate_def with_principal_def authenticate_api_key_def
        authenticate_row_def db_session_def api_key_is_expired_def dget_def sx_simps required_scope_for_path_def starts_with_def
        str_upper_def char_upper_def is_lower_def can_access_scope_def has_scope_def api_key_principal_def hand_on_def)
  have "api_key_auth sample_guard (answer (ok_response 200)) ?rq ?s \<noteq> api_key_auth sample_guard (answer (ok_response 201)) ?rq ?s"
    using served [of 200] served [of 201] by (auto simp: set_header_def ok_response_def dest: arg_cong [where f = fst])
  ultimately show ?thesis
    using only_admitted_served [of sample_guard ?rq ?s] by (auto simp: known_key_def sample_access_defs)
qed

section \<open>The life of a key\<close>

lemma find_other: "\<forall>r \<in> set rows. \<not> P r \<Longrightarrow> List.find P rows = None"
  by (simp add: find_None_iff)

lemma find_only:
  assumes "x \<in> set xs" "P x" "\<And>y. y \<in> set xs \<Longrightarrow> P y \<Longrightarrow> y = x" shows "List.find P xs = Some x"
proof (cases "List.find P xs")
  case None
  with assms(1,2) show ?thesis by (simp add: find_None_iff)
next
  case (Some y)
  then have "y \<in> set xs" "P y" by (auto simp: find_Some_iff)
  with assms(3) Some show ?thesis by simp
qed

lemma find_append_last: "\<forall>r \<in> set rows. \<not> P r \<Longrightarrow> List.find P (rows @ [x]) = (if P x then Some x else None)"
  by (induction rows) auto

lemma authenticate_unlisted:
  assumes "fr_db_up s" and "key \<noteq> []" and "ge_api_key env \<noteq> [] \<Longrightarrow> compare_digest key (ge_api_key env) = Inr False"
  shows "authenticate_api_key env (Some key) s = authenticate_row env key s"
  using assms by (simp add: authenticate_api_key_def sx_simps)

lemma created_key_life:
  assumes "create_api_key env p name scopes metadata s = (Inr r, t)"
    and "raw = API_KEY_PREFIX @ fr_tokens s (fr_token_next s)"
    and "\<forall>row \<in> set (fr_keys s). ak_key_hash row \<noteq> ge_sha env raw"
    and "ge_api_key env \<noteq> [] \<Longrightarrow> compare_digest raw (ge_api_key env) = Inr False"
    and "\<not> truthy (dget metadata ''expires_at'')"
  shows "dget r ''api_key'' = PStr raw"
    and "\<exists>d. fst (authenticate_api_key env (Some raw) t) = Inr (Some d) \<and>
           dget d ''scopes'' = PList (map PStr (normalize_scopes scopes ''read''))"
    and "deactivate_api_key env q (fr_uuids s (fr_uuid_next s)) t = (Inr r', u) \<Longrightarrow>
           fst (authenticate_api_key env (Some raw) u) = Inr None"
proof -
  define row where "row = \<lparr>created_at = fr_now s, updated_at = fr_now s, ak_key_id = fr_uuids s (fr_uuid_next s), ak_name = name,
                 ak_key_hash = ge_sha env raw, ak_scopes = normalize_scopes scopes ''read'',
                 ak_status = ''active'', ak_last_used_at = None, ak_deactivated_at = None, ak_metadata = metadata\<rparr>"
  have made: "fr_db_up t" "fr_keys t = fr_keys s @ [row]" "r = [(''api_key'', PStr raw), (''record'', PDict (api_key_record_to_dict row))]"
    using assms(1,2) by (auto simp: create_api_key_def require_admin_def create_persisted_api_key_def db_session_def sx_simps
        Let_def row_def split: if_splits)
  then show "dget r ''api_key'' = PStr raw" by (simp add: dget_def)
  have raw: "raw \<noteq> []" using assms(2) by (simp add: API_KEY_PREFIX_def)
  note listed = authenticate_unlisted [OF _ raw assms(4)]
  have "List.find (\<lambda>r. ak_key_hash r = ge_sha env raw \<and> ak_status r = ''active'') (fr_keys t) = Some row"
    using find_append_last [of "fr_keys s" "\<lambda>r. ak_key_hash r = ge_sha env raw \<and> ak_status r = ''active''" row] assms(3)
    by (simp add: made row_def)
  moreover have "\<not> api_key_is_expired env (fr_now t) row"
    using assms(5) by (simp add: api_key_is_expired_def row_def)
  ultimately show "\<exists>d. fst (authenticate_api_key env (Some raw) t) = Inr (Some d) \<and>
           dget d ''scopes'' = PList (map PStr (normalize_scopes scopes ''read''))"
    using listed [of t] made(1)
    by (simp add: authenticate_row_def db_session_def api_key_principal_def dget_def row_def)
  assume "deactivate_api_key env q (fr_uuids s (fr_uuid_next s)) t = (Inr r', u)"
  then have u: "fr_db_up u" "fr_keys u = row_upd ak_key_id (ak_key_id row)
      (\<lambda>r. stamped (fr_now t) r (r\<lparr>ak_status := ''inactive'', ak_deactivated_at := Some (fr_now t)\<rparr>)) (fr_keys t)"
    by (auto simp: deactivate_api_key_def require_admin_def db_session_def sx_simps write_key_def row_def Let_def
        split: if_splits option.splits)
  have "\<forall>r \<in> set (fr_keys u). \<not> (ak_key_hash r = ge_sha env raw \<and> ak_status r = ''active'')"
    using assms(3) by (auto simp: u made row_upd_def stamped_def) (auto simp: row_def)
  then show "fst (authenticate_api_key env (Some raw) u) = Inr None"
    using listed [of u] u(1) by (simp add: authenticate_row_def db_session_def find_other)
qed

text \<open>A key that the API creates is accepted with exactly the scopes it was created with as long as it
  does not expire, and from the moment it is deactivated it is refused.\<close>

lemma key_accepted_until_deactivated:
  assumes "create_api_key env p name scopes metadata s = (Inr r, t)"
    and "\<forall>row \<in> set (fr_keys s). ak_key_hash row \<noteq> ge_sha env (API_KEY_PREFIX @ fr_tokens s (fr_token_next s))"
    and "ge_api_key env \<noteq> [] \<Longrightarrow> compare_digest (API_KEY_PREFIX @ fr_tokens s (fr_token_next s)) (ge_api_key env) = Inr False"
    and "\<not> truthy (dget metadata ''expires_at'')"
  shows "\<exists>key. dget r ''api_key'' = PStr key \<and>
    (\<exists>d. fst (authenticate_api_key env (Some key) t) = Inr (Some d) \<and>
       dget d ''scopes'' = PList (map PStr (normalize_scopes scopes ''read''))) \<and>
    (\<forall>q r' u. deactivate_api_key env q (fr_uuids s (fr_uuid_next s)) t = (Inr r', u) \<longrightarrow>
       fst (authenticate_api_key env (Some key) u) = Inr None)"
  using created_key_life [OF assms(1) refl assms(2-4)] by blast

lemma key_accepted_until_deactivated_witness:
  "\<exists>r t. create_api_key sample_guard None ''ci'' ['' Audit ''] [] (sample_front []) = (Inr r, t) \<and>
     (\<exists>key d. dget r ''api_key'' = PStr key \<and> fst (authenticate_api_key sample_guard (Some key) t) = Inr (Some d))"
proof -
  obtain r t where c: "create_api_key sample_guard None ''ci'' ['' Audit ''] [] (sample_front []) = (Inr r, t)"
    by (simp add: create_api_key_def require_admin_def create_persisted_api_key_def db_session_def sx_simps sample_access_defs)
  from key_accepted_until_deactivated [OF c] have "\<exists>key. dget r ''api_key'' = PStr key \<and>
     (\<exists>d. fst (authenticate_api_key sample_guard (Some key) t) = Inr (Some d) \<and> 
       dget d ''scopes'' = PList (map PStr (normalize_scopes ['' Audit ''] ''read'')))"
    by (auto simp: sample_front_def sample_guard_def dget_def)
  with c show ?thesis by blast
qed

lemma stamped_key_status [simp]: "ak_status (stamped t old new) = ak_status new"
  by (auto simp: stamped_def)

lemma audit_event_simps [simp]:
  "fr_keys (record_platform_audit_event env rq n oc s) = fr_keys s"
  "fr_db_up (record_platform_audit_event env rq n oc s) = fr_db_up s"
  by (simp_all add: record_platform_audit_event_def)

lemma auth_is_enabled_cong:
  "fr_keys s = fr_keys t \<Longrightarrow> fr_db_up s = fr_db_up t \<Longrightarrow> auth_is_enabled env s = auth_is_enabled env t"
  by (simp add: auth_is_enabled_def)

text \<open>Where authentication is off, every request of admissible size and rate is answered by its route.\<close>

lemma unguarded_answered:
  assumes "\<not> auth_is_enabled env s"
    and "rd_allowed (fst (check_rate_limit env rq (supplied_key rq) s))"
    and "enforce_content_length_limit (rq_content_length rq) (ge_max_body env) = Inr m"
  shows "\<exists>resp. fst (api_key_auth env (answer ok) rq s) = Inr resp \<and> rs_status resp = rs_status ok \<and> rs_body resp = rs_body ok"
proof -
  let ?s0 = "s\<lparr>fr_current_key := None\<rparr>"
  obtain i u where u: "(case or_str (rq_request_id rq) None of
             Some i \<Rightarrow> (i, ?s0) | None \<Rightarrow> (fr_uuids ?s0 (fr_uuid_next ?s0), ?s0\<lparr>fr_uuid_next := Suc (fr_uuid_next ?s0)\<rparr>)) = (i, u)"
    by (cases "or_str (rq_request_id rq) None") auto
  have same: "\<not> auth_is_enabled env u" "fst (check_rate_limit env rq k u) = fst (check_rate_limit env rq k s)" for k
    using u assms(1) by (auto simp: auth_is_enabled_def split: option.splits)
  obtain d t where c: "check_rate_limit env rq (supplied_key rq) u = (d, t)" by (cases "check_rate_limit env rq (supplied_key rq) u")
  with assms(2) same have "rd_allowed d" by (metis fst_conv)
  moreover have "ge_api_key env = []" using assms(1) by (simp add: auth_is_enabled_def)
  ultimately show ?thesis
    using u c same(1) assms(3) by (simp add: api_key_auth_def Let_def guarded_def after_rate_def hand_on_def answer_def set_header_def)
qed

lemma only_active_switched_off:
  assumes "\<forall>r \<in> set (fr_keys v). ak_status r = ''active'' \<longrightarrow> r = row"
  shows "\<forall>r \<in> set (fr_keys (write_key (ak_key_id row) (\<lambda>r. r\<lparr>ak_status := ''inactive'', ak_deactivated_at := d\<rparr>) v)).
    ak_status r \<noteq> ''active''"
proof
  fix r assume "r \<in> set (fr_keys (write_key (ak_key_id row) (\<lambda>r. r\<lparr>ak_status := ''inactive'', ak_deactivated_at := d\<rparr>) v))"
  then have "r \<in> (\<lambda>r0. if ak_key_id r0 = ak_key_id row
      then stamped (fr_now v) r0 ((\<lambda>r. r\<lparr>ak_status := ''inactive'', ak_deactivated_at := d\<rparr>) r0) else r0) ` set (fr_keys v)"
    by (simp add: write_key_def row_upd_def)
  then obtain r0 where r0: "r = (if ak_key_id r0 = ak_key_id row
      then stamped (fr_now v) r0 ((\<lambda>r. r\<lparr>ak_status := ''inactive'', ak_deactivated_at := d\<rparr>) r0) else r0)"
    "r0 \<in> set (fr_keys v)" by (rule imageE)
  show "ak_status r \<noteq> ''active''"
  proof (cases "ak_status r0 = ''active''")
    case True
    with bspec [OF assms r0(2)] have "r0 = row" by (rule mp)
    with r0(1) show ?thesis by simp
  next
    case False
    with r0(1) show ?thesis by simp
  qed
qed

text \<open>A refused request can open the whole API: when the only active key of a deployment without an
  environment key has expired, the first request with it is answered 401 and switches authentication
  off, and from then on every request that keeps to size and rate reaches its route without a key.\<close>

lemma expired_last_key_opens:
  assumes "ge_api_key env = []" and "fr_db_up s" and "row \<in> set (fr_keys s)" and "ak_status row = ''active''"
    and "\<forall>r \<in> set (fr_keys s). ak_status r = ''active'' \<longrightarrow> r = row"
    and "ak_key_hash row = ge_sha env key" and "key \<noteq> []" and "api_key_is_expired env (fr_now s) row"
    and "\<not> is_public_path env (rq_path rq)" and "supplied_key rq = Some key"
    and "rd_allowed (fst (check_rate_limit env rq (Some key) s))"
    and "enforce_content_length_limit (rq_content_length rq) (ge_max_body env) = Inr n"
  shows "\<exists>resp t. api_key_auth env h rq s = (Inr resp, t) \<and> rs_status resp = 401 \<and> \<not> auth_is_enabled env t \<and>
    (\<forall>rq' ok. rd_allowed (fst (check_rate_limit env rq' (supplied_key rq') t)) \<and>
        (\<exists>m. enforce_content_length_limit (rq_content_length rq') (ge_max_body env) = Inr m) \<longrightarrow>
      (\<exists>resp'. fst (api_key_auth env (answer ok) rq' t) = Inr resp' \<and> rs_status resp' = rs_status ok \<and> rs_body resp' = rs_body ok))"
proof -
  let ?s0 = "s\<lparr>fr_current_key := None\<rparr>"
  obtain i u where u: "(case or_str (rq_request_id rq) None of
             Some i \<Rightarrow> (i, ?s0) | None \<Rightarrow> (fr_uuids ?s0 (fr_uuid_next ?s0), ?s0\<lparr>fr_uuid_next := Suc (fr_uuid_next ?s0)\<rparr>)) = (i, u)"
    by (cases "or_str (rq_request_id rq) None") auto
  obtain d v where c: "check_rate_limit env rq (Some key) u = (d, v)" by (cases "check_rate_limit env rq (Some key) u")
  have v: "fr_keys v = fr_keys s" "fr_now v = fr_now s" "fr_db_up v"
    using u assms(2) check_rate_limit_simps(1,2) [of env rq "Some key" u] c
    by (auto simp: check_rate_limit_def split: option.splits prod.splits)
  have "fst (check_rate_limit env rq (Some key) u) = fst (check_rate_limit env rq (Some key) s)"
    using u by (auto split: option.splits)
  with assms(11) c have d: "rd_allowed d" by (metis fst_conv)
  have on: "auth_is_enabled env u"
    using u assms(2-4) by (auto simp: auth_is_enabled_def list_ex_iff split: option.splits)
  let ?w = "write_key (ak_key_id row) (\<lambda>r. r\<lparr>ak_status := ''inactive'', ak_deactivated_at := Some (fr_now v)\<rparr>) v"
  have "List.find (\<lambda>r. ak_key_hash r = ge_sha env key \<and> ak_status r = ''active'') (fr_keys v) = Some row"
  proof (rule find_only)
    show "row \<in> set (fr_keys v)" "ak_key_hash row = ge_sha env key \<and> ak_status row = ''active''"
      using assms(3,4,6) v(1) by simp_all
  next
    fix y assume "y \<in> set (fr_keys v)" "ak_key_hash y = ge_sha env key \<and> ak_status y = ''active''"
    with bspec [OF assms(5), of y] v(1) show "y = row" by (simp only: simp_thms)
  qed
  then have "authenticate_api_key env (Some key) v = (Inr None, ?w)"
    using authenticate_unlisted [OF v(3) assms(7)] assms(1,8) v by (simp add: authenticate_row_def db_session_def)
  then have refused: "guarded env h rq False oc (Some key) u =
      turn_away env rq (oc\<lparr>oc_result := ''failed''\<rparr>) 401 [(''detail'', PStr ''missing or invalid API key'')] [] ?w"
    if "oc_auth_enabled oc" for oc
    using c d that assms(12) by (simp add: guarded_def after_rate_def with_principal_def sx_bind_def)
  let ?oc = "\<lparr>oc_request_id = i, oc_auth_enabled = True, oc_result = ''not_required'', oc_principal = None\<rparr>"
  have whole: "api_key_auth env h rq s =
      (case guarded env h rq False ?oc (Some key) u of (r, s2) \<Rightarrow> (r, s2\<lparr>fr_current_key := fr_current_key s\<rparr>))"
    using assms(9,10) on by (simp add: api_key_auth_def Let_def u)
  obtain resp t where t: "api_key_auth env h rq s = (Inr resp, t)" "rs_status resp = 401"
      "fr_keys t = fr_keys ?w" "fr_db_up t = fr_db_up ?w"
    unfolding whole using refused [of ?oc] by (simp add: turn_away_def)
  have "\<forall>r \<in> set (fr_keys ?w). ak_status r \<noteq> ''active''"
    using assms(5) by (intro only_active_switched_off) (simp only: v(1))
  then have "\<not> auth_is_enabled env t"
    unfolding auth_is_enabled_def list_ex_iff t(3) using assms(1) by blast
  with t unguarded_answered [OF this] show ?thesis by blast
qed

lemma expired_last_key_opens_witness:
  "\<exists>resp t. api_key_auth sample_guard (answer (ok_response 200)) (sample_request (Some ''dak_t''))
       (sample_front [sample_key [(''expires_at'', PStr ''1970-01-01'')]]) = (Inr resp, t) \<and> rs_status resp = 401 \<and>
     \<not> auth_is_enabled sample_guard t"
proof -
  let ?row = "sample_key [(''expires_at'', PStr ''1970-01-01'')]" and ?rq = "sample_request (Some ''dak_t'')"
  let ?s = "sample_front [?row]"
  have "\<exists>resp t. api_key_auth sample_guard (answer (ok_response 200)) ?rq ?s = (Inr resp, t) \<and> rs_status resp = 401 \<and>
    \<not> auth_is_enabled sample_guard t \<and>
    (\<forall>rq' ok. rd_allowed (fst (check_rate_limit sample_guard rq' (supplied_key rq') t)) \<and>
        (\<exists>m. enforce_content_length_limit (rq_content_length rq') (ge_max_body sample_guard) = Inr m) \<longrightarrow>
      (\<exists>resp'. fst (api_key_auth sample_guard (answer ok) rq' t) = Inr resp' \<and> rs_status resp' = rs_status ok \<and> rs_body resp' = rs_body ok))"
    by (rule expired_last_key_opens [where row = ?row and key = "''dak_t''" and n = None])
      (simp_all add: sample_access_defs api_key_is_expired_def dget_def)
  then show ?thesis by blast
qed

end
