(* ===== verification/Access_Resources.thy ===== *)
theory Access_Resources
  imports Access_Guards Agent_Output_Contracts
begin

text \<open>
  Which audit runs, projects and artifacts an API key may use (\<open>api/routes.py\<close>): the metadata of
  a key may limit it to projects and audit runs, and a file of the artifact root is served only if a
  row of the database refers to it. The tables beside those of \<open>db\<close> that are searched for such
  references are in \<open>library_db\<close>. A path in the summary of a report is a string.
\<close>

section \<open>Limits of a key\<close>

definition resource_attr :: "dict \<Rightarrow> string \<Rightarrow> string" where
  "resource_attr d key = py_str (por (dget d key) (PStr []))"

definition metadata_id_set :: "pyval \<Rightarrow> string list" where
  "metadata_id_set value =
     (case value of
        PStr s \<Rightarrow> filter (\<lambda>i. i \<noteq> []) (map str_strip (split_on (CHR '','') s))
      | PList xs \<Rightarrow> filter (\<lambda>i. i \<noteq> []) (map (\<lambda>x. str_strip (py_str x)) xs)
      | _ \<Rightarrow> [])"

definition no_principal :: "principal \<Rightarrow> bool" where
  "no_principal p \<longleftrightarrow> (case p of None \<Rightarrow> True | Some d \<Rightarrow> d = [])"

definition principal_metadata :: "principal \<Rightarrow> dict" where
  "principal_metadata p = (case p of None \<Rightarrow> [] | Some d \<Rightarrow> dict_or_empty (dget d ''metadata''))"

definition principal_allowed_project_ids :: "principal \<Rightarrow> string list" where
  "principal_allowed_project_ids p =
     (if no_principal p \<or> has_scope p ''admin'' then []
      else let m = principal_metadata p in metadata_id_set (por (dget m ''project_ids'') (dget m ''projects'')))"

definition principal_allowed_audit_run_ids :: "principal \<Rightarrow> string list" where
  "principal_allowed_audit_run_ids p =
     (if no_principal p \<or> has_scope p ''admin'' then []
      else let m = principal_metadata p in metadata_id_set (por (dget m ''audit_run_ids'') (dget m ''audit_runs'')))"

definition principal_has_resource_limits :: "principal \<Rightarrow> bool" where
  "principal_has_resource_limits p \<longleftrightarrow> principal_allowed_project_ids p \<noteq> [] \<or> principal_allowed_audit_run_ids p \<noteq> []"

text \<open>A missing run and an empty dictionary are both refused.\<close>

definition principal_can_access_audit_run :: "principal \<Rightarrow> dict option \<Rightarrow> bool" where
  "principal_can_access_audit_run p audit_run =
     (case audit_run of
        None \<Rightarrow> False
      | Some run \<Rightarrow>
          run \<noteq> [] \<and>
          (no_principal p \<or> has_scope p ''admin'' \<or>
           (let projects = principal_allowed_project_ids p; runs = principal_allowed_audit_run_ids p
            in projects = [] \<and> runs = [] \<or>
               ((projects = [] \<or> resource_attr run ''project_id'' \<in> set projects) \<and>
                (runs = [] \<or> resource_attr run ''audit_run_id'' \<in> set runs)))))"

definition principal_can_access_project :: "principal \<Rightarrow> string option \<Rightarrow> db \<Rightarrow> bool" where
  "principal_can_access_project p project_id d =
     (case project_id of
        None \<Rightarrow> False
      | Some pid \<Rightarrow>
          pid \<noteq> [] \<and>
          (no_principal p \<or> has_scope p ''admin'' \<or>
           (let projects = principal_allowed_project_ids p; runs = principal_allowed_audit_run_ids p
            in if projects = [] \<and> runs = [] then True
               else if projects \<noteq> [] \<and> pid \<notin> set projects then False
               else if runs = [] then True
               else list_ex (\<lambda>r. ar_project_id r = pid \<and> ar_audit_run_id r \<in> set runs \<and> ar_audit_run_id r \<noteq> []) (audit_runs d))))"

definition require_project_access :: "principal \<Rightarrow> string \<Rightarrow> db \<Rightarrow> unit res" where
  "require_project_access p pid d =
     (if principal_can_access_project p (Some pid) d then Inr ()
      else Inl (PermissionError ''project is outside API key project or audit run scope''))"

definition require_audit_run_access :: "principal \<Rightarrow> dict option \<Rightarrow> unit res" where
  "require_audit_run_access p audit_run =
     (if principal_can_access_audit_run p audit_run then Inr ()
      else Inl (PermissionError ''audit run is outside API key project or audit run scope''))"

definition require_audit_run_id_access :: "principal \<Rightarrow> string \<Rightarrow> db \<Rightarrow> dict res" where
  "require_audit_run_id_access p rid d =
     (case get_audit_run d rid of
        None \<Rightarrow> Inl (LookupError ''audit run not found'')
      | Some run \<Rightarrow> rbind (require_audit_run_access p (Some run)) (\<lambda>_. Inr run))"

definition require_finding_access :: "principal \<Rightarrow> finding option \<Rightarrow> unit res" where
  "require_finding_access p f =
     (case f of
        None \<Rightarrow> Inl (LookupError ''finding not found'')
      | Some f \<Rightarrow> require_audit_run_access p
          (Some [(''audit_run_id'', PStr (fi_audit_run_id f)), (''project_id'', PStr (fi_project_id f))]))"

definition require_unrestricted_resource_scope :: "principal \<Rightarrow> string \<Rightarrow> unit res" where
  "require_unrestricted_resource_scope p action =
     (if principal_has_resource_limits p
      then Inl (PermissionError (action @ '' requires unrestricted API key resource scope'')) else Inr ())"

section \<open>References to a file\<close>

record library_db =
  ld_db :: db
  ld_snapshots :: "project_snapshot list"
  ld_containers :: "container_run list"
  ld_documents :: "knowledge_document list"
  ld_reports :: "report_artifact list"

definition reference :: "string \<Rightarrow> string option \<Rightarrow> string option \<Rightarrow> string \<Rightarrow> dict" where
  "reference kind project_id audit_run_id record_id =
     [(''kind'', PStr kind), (''project_id'', opt_str project_id), (''audit_run_id'', opt_str audit_run_id),
      (''record_id'', PStr record_id)]"

definition snapshot_references :: "(string option \<Rightarrow> bool) \<Rightarrow> library_db \<Rightarrow> dict list" where
  "snapshot_references matches l =
     map (\<lambda>r. reference ''project_snapshot'' (Some (sn_project_id r)) None (sn_snapshot_id r))
       (filter (\<lambda>r. matches (sn_artifact_path r)) (ld_snapshots l))"

definition container_references :: "(string option \<Rightarrow> bool) \<Rightarrow> library_db \<Rightarrow> dict list" where
  "container_references matches l =
     map (\<lambda>r. reference ''container_log'' (Some (cr_project_id r)) (Some (cr_audit_run_id r)) (cr_container_id r))
       (filter (\<lambda>r. matches (cr_log_artifact r)) (ld_containers l))"

definition agent_run_references :: "(string option \<Rightarrow> bool) \<Rightarrow> library_db \<Rightarrow> dict list" where
  "agent_run_references matches l =
     map (\<lambda>r. reference ''agent_run'' (Some (ag_project_id r)) (Some (ag_audit_run_id r)) (ag_agent_run_id r))
       (filter (\<lambda>r. matches (ag_artifact_path r)) (agent_runs (ld_db l)))"

definition evidence_reference :: "db \<Rightarrow> evidence \<Rightarrow> dict" where
  "evidence_reference d r =
     reference ''evidence'' (map_option ar_project_id (find_run d (ev_audit_run_id r))) (Some (ev_audit_run_id r)) (ev_evidence_id r)"

definition evidence_references :: "(string option \<Rightarrow> bool) \<Rightarrow> library_db \<Rightarrow> dict list" where
  "evidence_references matches l =
     map (evidence_reference (ld_db l)) (filter (\<lambda>r. matches (ev_artifact_path r)) (evidence_rows (ld_db l)))"

definition finding_references :: "(string option \<Rightarrow> bool) \<Rightarrow> library_db \<Rightarrow> dict list" where
  "finding_references matches l =
     map (\<lambda>r. reference ''finding_markdown'' (Some (fi_project_id r)) (Some (fi_audit_run_id r)) (fi_finding_id r))
       (filter (\<lambda>r. matches (Some (''findings/'' @ fi_audit_run_id r @ ''/'' @ fi_finding_id r @ ''/finding.md'')))
          (findings (ld_db l)))"

definition document_references :: "(string option \<Rightarrow> bool) \<Rightarrow> library_db \<Rightarrow> dict list" where
  "document_references matches l =
     map (\<lambda>r. reference ''knowledge_document'' (kd_project_id r) None (kd_document_id r))
       (filter (\<lambda>r. matches (kd_artifact_path r)) (ld_documents l))"

definition report_references :: "(string option \<Rightarrow> bool) \<Rightarrow> library_db \<Rightarrow> dict list" where
  "report_references matches l =
     concat (map (\<lambda>r.
       (if matches (Some (re_path r))
        then [reference ''report'' (Some (re_project_id r)) (Some (re_audit_run_id r)) (re_report_id r)] else [])
       @ (if matches (case dget (re_summary r) ''json_path'' of PStr s \<Rightarrow> Some s | _ \<Rightarrow> None)
          then [reference ''report_json'' (Some (re_project_id r)) (Some (re_audit_run_id r)) (re_report_id r)] else []))
       (ld_reports l))"

definition artifact_references :: "artifact_settings \<Rightarrow> library_db \<Rightarrow> string list \<Rightarrow> dict list" where
  "artifact_references s l path =
     (let matches = (\<lambda>stored. artifact_path_matches s stored (''/'' @ posix_of path))
      in snapshot_references matches l @ container_references matches l @ agent_run_references matches l @
         evidence_references matches l @ finding_references matches l @ document_references matches l @
         report_references matches l)"

definition principal_can_access_artifact :: "principal \<Rightarrow> dict list \<Rightarrow> bool" where
  "principal_can_access_artifact p references =
     (references \<noteq> [] \<and>
      (no_principal p \<or> has_scope p ''admin'' \<or>
       (case dget (case p of None \<Rightarrow> [] | Some d \<Rightarrow> d) ''metadata'' of
          PDict m \<Rightarrow>
            (let projects = metadata_id_set (por (dget m ''project_ids'') (dget m ''projects''));
                 runs = metadata_id_set (por (dget m ''audit_run_ids'') (dget m ''audit_runs''))
             in projects = [] \<and> runs = [] \<or>
                list_ex (\<lambda>r. (projects = [] \<or> py_str (por (dget r ''project_id'') (PStr [])) \<in> set projects) \<and>
                             (runs = [] \<or> py_str (por (dget r ''audit_run_id'') (PStr [])) \<in> set runs)) references)
        | _ \<Rightarrow> True)))"

text \<open>\<open>resolve_artifact_path\<close>: a file below the root. With the MinIO backend the path alone is checked.\<close>

definition resolve_artifact_path :: "artifact_settings \<Rightarrow> artifact_fs \<Rightarrow> string \<Rightarrow> string list res" where
  "resolve_artifact_path s fs path =
     rbind (artifact_absolute_path s path) (\<lambda>resolved.
       case fs_kind fs resolved of
         Missing \<Rightarrow> Inl (LookupError ''artifact not found'')
       | NotAFile \<Rightarrow> Inl (ValueError ''artifact path is not a file'')
       | IsFile _ \<Rightarrow> Inr resolved)"

definition resolve_authorized_artifact ::
  "artifact_settings \<Rightarrow> artifact_fs \<Rightarrow> library_db \<Rightarrow> principal \<Rightarrow> string \<Rightarrow> (string list \<times> dict list) res" where
  "resolve_authorized_artifact s fs l p path =
     rbind (if artifact_storage_backend s = ''minio'' then artifact_absolute_path s path else resolve_artifact_path s fs path)
       (\<lambda>artifact_path.
          let references = artifact_references s l artifact_path
          in if references = [] then Inl (PermissionError ''artifact is not referenced by a platform record'')
             else if \<not> principal_can_access_artifact p references
               then Inl (PermissionError ''artifact is outside API key project or audit run scope'')
             else Inr (artifact_path, references))"

section \<open>What the checks promise\<close>

lemma access_artifact_is_access_run:
  assumes "\<forall>r \<in> set references. r \<noteq> []"
  shows "principal_can_access_artifact p references \<longleftrightarrow>
    (\<exists>r \<in> set references. principal_can_access_audit_run p (Some r))"
proof (cases "no_principal p \<or> has_scope p ''admin''")
  case True
  with assms show ?thesis
    by (cases references) (auto simp: principal_can_access_artifact_def principal_can_access_audit_run_def)
next
  case False
  then obtain d where p: "p = Some d" by (cases p) (auto simp: no_principal_def)
  have "principal_can_access_artifact p references \<longleftrightarrow>
    references \<noteq> [] \<and>
    (let projects = principal_allowed_project_ids p; runs = principal_allowed_audit_run_ids p
     in projects = [] \<and> runs = [] \<or>
        (\<exists>r \<in> set references. (projects = [] \<or> resource_attr r ''project_id'' \<in> set projects) \<and>
           (runs = [] \<or> resource_attr r ''audit_run_id'' \<in> set runs)))"
    using False
    by (cases "dget d ''metadata''")
      (auto simp: p principal_can_access_artifact_def principal_allowed_project_ids_def principal_allowed_audit_run_ids_def
        principal_metadata_def resource_attr_def list_ex_iff Let_def dget_def dlookup_def por_def metadata_id_set_def)
  with False assms show ?thesis
    by (cases references) (auto simp: principal_can_access_audit_run_def Let_def)
qed

lemma references_not_empty: "r \<in> set (artifact_references s l path) \<Longrightarrow> r \<noteq> []"
  by (auto simp: artifact_references_def Let_def snapshot_references_def container_references_def agent_run_references_def
      evidence_references_def evidence_reference_def finding_references_def document_references_def report_references_def
      reference_def split: if_splits)

end
