(* ===== verification/Access_Artifacts.thy ===== *)
theory Access_Artifacts
  imports Access_Resources Platform_Contracts
begin

text \<open>
  Who is served which file of the artifact root: exactly the keys that may use an audit run or
  project some row of the database refers to the file from. Evidence is such a row, and the path it
  gives is what an agent wrote.
\<close>

lemma resolved_path_iff:
  "(if artifact_storage_backend s = ''minio'' then artifact_absolute_path s path else resolve_artifact_path s fs path) = Inr file
     \<longleftrightarrow> artifact_absolute_path s path = Inr file \<and>
         (artifact_storage_backend s = ''minio'' \<or> (\<exists>f. fs_kind fs file = IsFile f))"
proof (cases "artifact_absolute_path s path")
  case (Inr r)
  then show ?thesis by (cases "fs_kind fs r") (auto simp: resolve_artifact_path_def)
qed (simp add: resolve_artifact_path_def)

lemma artifact_served:
  "resolve_authorized_artifact s fs l p path = Inr (file, refs) \<longleftrightarrow>
     artifact_absolute_path s path = Inr file \<and>
     (artifact_storage_backend s = ''minio'' \<or> (\<exists>f. fs_kind fs file = IsFile f)) \<and>
     refs = artifact_references s l file \<and> prefix (artifact_root s) file \<and>
     (\<exists>r \<in> set refs. principal_can_access_audit_run p (Some r))"
proof -
  have access: "principal_can_access_artifact p (artifact_references s l file) \<longleftrightarrow>
      (\<exists>r \<in> set (artifact_references s l file). principal_can_access_audit_run p (Some r))"
    by (rule access_artifact_is_access_run) (auto dest: references_not_empty)
  have nonempty: "principal_can_access_artifact p (artifact_references s l file) \<Longrightarrow> artifact_references s l file \<noteq> []"
    by (simp add: principal_can_access_artifact_def)
  note resolved = resolved_path_iff [of s path fs]
  have "resolve_authorized_artifact s fs l p path = Inr (file, refs) \<longleftrightarrow>
      (if artifact_storage_backend s = ''minio'' then artifact_absolute_path s path else resolve_artifact_path s fs path) = Inr file \<and>
      refs = artifact_references s l file \<and> principal_can_access_artifact p (artifact_references s l file)"
    unfolding resolve_authorized_artifact_def rbind_Inr_iff Let_def using nonempty by (auto split: if_split_asm)
  then show ?thesis
    unfolding resolved access using absolute_path_below_root by blast
qed

text \<open>The path of a resolved file resolves to itself.\<close>

lemma absolute_again:
  assumes "artifact_absolute_path s path = Inr file" and "clean_parts (artifact_root s)"
  shows "artifact_relative_path s (''/'' @ posix_of file) = artifact_relative_path s path"
proof -
  have clean: "clean_parts file" using assms by (rule absolute_path_clean)
  have "path_parts (''/'' @ posix_of file) = path_parts (posix_of file)"
    by (simp add: path_parts_def)
  then have parts: "path_parts (''/'' @ posix_of file) = file" using path_parts_posix_of [OF clean] by simp
  have "resolve_parts file = file" using clean by (intro resolve_parts_id) (auto simp: clean_parts_def)
  then have "artifact_absolute_path s (''/'' @ posix_of file) = Inr file"
    using absolute_path_below_root [OF assms(1)] parts
    by (auto simp: artifact_absolute_path_def Let_def is_absolute_def starts_with_def strict_prefix_def)
  with assms(1) show ?thesis by (simp add: artifact_relative_path_def)
qed

section \<open>Who refers to a file\<close>

text \<open>A text names a file of the artifact root: parsed, resolved and found at or below the root.\<close>

definition names_file :: "artifact_settings \<Rightarrow> string \<Rightarrow> string list \<Rightarrow> bool" where
  "names_file s q file \<longleftrightarrow> prefix (artifact_root s) file \<and>
     resolve_parts ((if is_absolute q then [] else artifact_root s) @ path_parts q) = file"

text \<open>
  The rows that refer to a path, each with its kind, its project, its audit run and its key. A
  snapshot and a document belong to no run, a document may belong to no project either, and the
  project of evidence is that of its run.
\<close>

inductive refers :: "library_db \<Rightarrow> string \<Rightarrow> string \<Rightarrow> string option \<Rightarrow> string option \<Rightarrow> string \<Rightarrow> bool" for l where
  snapshot_row: "\<lbrakk>r \<in> set (ld_snapshots l); sn_artifact_path r = Some q\<rbrakk> \<Longrightarrow>
     refers l q ''project_snapshot'' (Some (sn_project_id r)) None (sn_snapshot_id r)"
| container_row: "\<lbrakk>r \<in> set (ld_containers l); cr_log_artifact r = Some q\<rbrakk> \<Longrightarrow>
     refers l q ''container_log'' (Some (cr_project_id r)) (Some (cr_audit_run_id r)) (cr_container_id r)"
| agent_run_row: "\<lbrakk>r \<in> set (agent_runs (ld_db l)); ag_artifact_path r = Some q\<rbrakk> \<Longrightarrow>
     refers l q ''agent_run'' (Some (ag_project_id r)) (Some (ag_audit_run_id r)) (ag_agent_run_id r)"
| evidence_row: "\<lbrakk>r \<in> set (evidence_rows (ld_db l)); ev_artifact_path r = Some q\<rbrakk> \<Longrightarrow>
     refers l q ''evidence'' (map_option ar_project_id (find_run (ld_db l) (ev_audit_run_id r))) (Some (ev_audit_run_id r))
       (ev_evidence_id r)"
| finding_row: "\<lbrakk>r \<in> set (findings (ld_db l)); q = ''findings/'' @ fi_audit_run_id r @ ''/'' @ fi_finding_id r @ ''/finding.md''\<rbrakk> \<Longrightarrow>
     refers l q ''finding_markdown'' (Some (fi_project_id r)) (Some (fi_audit_run_id r)) (fi_finding_id r)"
| document_row: "\<lbrakk>r \<in> set (ld_documents l); kd_artifact_path r = Some q\<rbrakk> \<Longrightarrow>
     refers l q ''knowledge_document'' (kd_project_id r) None (kd_document_id r)"
| report_row: "\<lbrakk>r \<in> set (ld_reports l); re_path r = q\<rbrakk> \<Longrightarrow>
     refers l q ''report'' (Some (re_project_id r)) (Some (re_audit_run_id r)) (re_report_id r)"
| report_json_row: "\<lbrakk>r \<in> set (ld_reports l); dget (re_summary r) ''json_path'' = PStr q\<rbrakk> \<Longrightarrow>
     refers l q ''report_json'' (Some (re_project_id r)) (Some (re_audit_run_id r)) (re_report_id r)"

text \<open>The limits of a key: a row of no project, or of no run, is outside every limit of that sort.\<close>

definition key_admits :: "principal \<Rightarrow> string option \<Rightarrow> string option \<Rightarrow> bool" where
  "key_admits p project run \<longleftrightarrow>
     (principal_allowed_project_ids p = [] \<or> (\<exists>x. project = Some x \<and> x \<in> set (principal_allowed_project_ids p))) \<and>
     (principal_allowed_audit_run_ids p = [] \<or> (\<exists>x. run = Some x \<and> x \<in> set (principal_allowed_audit_run_ids p)))"

lemma names_file_iff: "names_file s q file \<longleftrightarrow> artifact_absolute_path s q = Inr file"
  by (auto simp: names_file_def artifact_absolute_path_def Let_def strict_prefix_def)

lemma matches_iff:
  assumes "artifact_absolute_path s path = Inr file" and "clean_parts (artifact_root s)"
  shows "artifact_path_matches s stored (''/'' @ posix_of file) \<longleftrightarrow> (\<exists>q. stored = Some q \<and> q \<noteq> [] \<and> names_file s q file)"
proof -
  obtain rel where rel: "artifact_relative_path s path = Inr rel"
    using assms(1) absolute_path_below_root [OF assms(1)] by (simp add: artifact_relative_path_def Let_def)
  have iff: "artifact_relative_path s q = Inr rel \<longleftrightarrow> artifact_absolute_path s q = Inr file" for q
    using relative_path_absolute_again [OF _ assms(2), of q rel] relative_path_absolute_again [OF rel assms(2)] rel assms(1)
    by (auto simp: artifact_relative_path_def rbind_Inr_iff)
  show ?thesis
  proof (cases stored)
    case (Some q)
    then show ?thesis
      using iff [of q]
      by (cases "artifact_relative_path s q")
        (auto simp: artifact_path_matches_def absolute_again [OF assms, simplified] rel names_file_iff)
  qed (simp add: artifact_path_matches_def)
qed

lemma references_iff:
  assumes "artifact_absolute_path s path = Inr file" and "clean_parts (artifact_root s)"
  shows "set (artifact_references s l file) =
    {reference kind project run key | kind project run key. \<exists>q. refers l q kind project run key \<and> q \<noteq> [] \<and> names_file s q file}"
    (is "?L = ?R")
proof
  have m: "artifact_path_matches s stored (CHR ''/'' # posix_of file) \<longleftrightarrow> (\<exists>q. stored = Some q \<and> q \<noteq> [] \<and> names_file s q file)"
    for stored using matches_iff [OF assms] by simp
  note d = artifact_references_def snapshot_references_def container_references_def agent_run_references_def
    evidence_references_def evidence_reference_def finding_references_def document_references_def report_references_def
  have L: "?L \<subseteq> R" if R: "\<And>q kind project run key. refers l q kind project run key \<Longrightarrow> q \<noteq> [] \<Longrightarrow> names_file s q file \<Longrightarrow>
      reference kind project run key \<in> R" for R
  proof -
    let ?m = "\<lambda>stored. artifact_path_matches s stored (''/'' @ posix_of file)"
    have "set (snapshot_references ?m l) \<subseteq> R" "set (container_references ?m l) \<subseteq> R" "set (agent_run_references ?m l) \<subseteq> R"
      by (auto simp: d m intro: R [OF snapshot_row] R [OF container_row] R [OF agent_run_row])
    moreover have "set (evidence_references ?m l) \<subseteq> R" "set (finding_references ?m l) \<subseteq> R" "set (document_references ?m l) \<subseteq> R"
      by (auto simp: d m intro: R [OF evidence_row] R [OF finding_row] R [OF document_row])
    moreover have "set (report_references ?m l) \<subseteq> R"
      by (auto simp: d m split: if_splits pyval.splits intro: R [OF report_row] R [OF report_json_row])
    ultimately show ?thesis by (simp add: artifact_references_def Let_def)
  qed
  show "?L \<subseteq> ?R" by (rule L) (rule CollectI, intro exI conjI, rule refl, assumption+)
  have "reference kind project run key \<in> ?L" if "refers l q kind project run key" "q \<noteq> []" "names_file s q file"
    for q kind project run key
    using that by (induction rule: refers.induct) (auto simp: d m Let_def)
  then show "?R \<subseteq> ?L" by blast
qed

lemma admits_reference:
  "principal_can_access_audit_run p (Some (reference kind project run key)) \<longleftrightarrow> key_admits p project run"
proof -
  have "x \<noteq> []" if "x \<in> set (principal_allowed_project_ids p) \<union> set (principal_allowed_audit_run_ids p)" for x
    using that by (auto simp: principal_allowed_project_ids_def principal_allowed_audit_run_ids_def metadata_id_set_def Let_def
        split: if_splits pyval.splits)
  then have "[] \<notin> set (principal_allowed_project_ids p)" "[] \<notin> set (principal_allowed_audit_run_ids p)" by auto
  moreover have "no_principal p \<or> has_scope p ''admin'' \<Longrightarrow> principal_allowed_project_ids p = [] \<and> principal_allowed_audit_run_ids p = []"
    by (auto simp: principal_allowed_project_ids_def principal_allowed_audit_run_ids_def)
  moreover have "resource_attr (reference kind project run key) ''project_id'' = (case project of None \<Rightarrow> [] | Some x \<Rightarrow> x)"
    "resource_attr (reference kind project run key) ''audit_run_id'' = (case run of None \<Rightarrow> [] | Some x \<Rightarrow> x)"
    by (auto simp: resource_attr_def reference_def dget_def por_def split: option.splits)
  moreover have "reference kind project run key \<noteq> []" by (simp add: reference_def)
  ultimately show ?thesis
    by (auto simp: principal_can_access_audit_run_def key_admits_def Let_def split: option.splits)
qed

text \<open>C9. A file is served under a path exactly if the path, resolved, is this file, at or below the
  artifact root and (with the local backend) there, and some row of the seven tables - snapshots,
  container logs, agent runs, evidence, findings with their markdown, knowledge documents, reports
  with their text or JSON - whose stored path resolves to the same file belongs to a project and a
  run within the limits of the key. The references that come with it are those of all such rows,
  whatever the limits, and of no other.\<close>

theorem artifact_served_iff:
  assumes "clean_parts (artifact_root s)"
  shows "((\<exists>refs. resolve_authorized_artifact s fs l p path = Inr (file, refs)) \<longleftrightarrow>
      names_file s path file \<and> (artifact_storage_backend s = ''minio'' \<or> (\<exists>f. fs_kind fs file = IsFile f)) \<and>
      (\<exists>q kind project run key. refers l q kind project run key \<and> q \<noteq> [] \<and> names_file s q file \<and> key_admits p project run)) \<and>
    (resolve_authorized_artifact s fs l p path = Inr (file, refs) \<longrightarrow>
      set refs = {reference kind project run key | kind project run key.
        \<exists>q. refers l q kind project run key \<and> q \<noteq> [] \<and> names_file s q file})"
proof -
  have all: "set (artifact_references s l file) = {reference kind project run key | kind project run key.
      \<exists>q. refers l q kind project run key \<and> q \<noteq> [] \<and> names_file s q file}" if "artifact_absolute_path s path = Inr file"
    using references_iff [OF that assms] .
  then have refs: "resolve_authorized_artifact s fs l p path = Inr (file, refs) \<longrightarrow>
      set refs = {reference kind project run key | kind project run key.
        \<exists>q. refers l q kind project run key \<and> q \<noteq> [] \<and> names_file s q file}"
    by (simp add: artifact_served)
  have "(\<exists>refs. resolve_authorized_artifact s fs l p path = Inr (file, refs)) \<longleftrightarrow>
      names_file s path file \<and> (artifact_storage_backend s = ''minio'' \<or> (\<exists>f. fs_kind fs file = IsFile f)) \<and>
      (\<exists>q kind project run key. refers l q kind project run key \<and> q \<noteq> [] \<and> names_file s q file \<and> key_admits p project run)"
  proof (cases "artifact_absolute_path s path = Inr file")
    case True
    then have "(\<exists>refs. resolve_authorized_artifact s fs l p path = Inr (file, refs)) \<longleftrightarrow>
        (artifact_storage_backend s = ''minio'' \<or> (\<exists>f. fs_kind fs file = IsFile f)) \<and>
        (\<exists>r \<in> set (artifact_references s l file). principal_can_access_audit_run p (Some r))"
      using absolute_path_below_root [OF True] by (simp add: artifact_served)
    moreover have "names_file s path file" using True by (simp add: names_file_iff)
    moreover have "(\<exists>r \<in> {reference kind project run key | kind project run key. \<exists>q. refers l q kind project run key \<and> q \<noteq> [] \<and>
        names_file s q file}. principal_can_access_audit_run p (Some r)) \<longleftrightarrow>
        (\<exists>q kind project run key. refers l q kind project run key \<and> q \<noteq> [] \<and> names_file s q file \<and> key_admits p project run)"
      using admits_reference by blast
    ultimately show ?thesis unfolding all [OF True] by simp
  qed (simp add: artifact_served names_file_iff)
  with refs show ?thesis by blast
qed

text \<open>A row of evidence is a grant: whatever file of the artifact root its path names, of any project,
  every key that may use the run of the evidence is served this file. The path of evidence that an
  agent reports is stored as it is.\<close>

lemma evidence_path_is_a_grant:
  assumes "e \<in> set (evidence_rows (ld_db l))" and "ev_artifact_path e = Some q" and "q \<noteq> []"
    and "find_run (ld_db l) (ev_audit_run_id e) = Some run"
    and "artifact_absolute_path s q = Inr file" and "fs_kind fs file = IsFile f" and "clean_parts (artifact_root s)"
    and "principal_can_access_audit_run p (Some (audit_run_to_dict run))"
  shows "\<exists>refs. resolve_authorized_artifact s fs l p q = Inr (file, refs)"
proof -
  let ?r = "evidence_reference (ld_db l) e"
  have "ar_audit_run_id run = ev_audit_run_id e"
    using assms(4) row_find_Some by (fastforce simp: find_run_def)
  then have "resource_attr ?r ''project_id'' = resource_attr (audit_run_to_dict run) ''project_id''"
    "resource_attr ?r ''audit_run_id'' = resource_attr (audit_run_to_dict run) ''audit_run_id''"
    by (simp_all add: evidence_reference_def reference_def assms(4) resource_attr_def audit_run_to_dict_def dget_def)
  then have "principal_can_access_audit_run p (Some ?r)"
    using assms(8) by (auto simp: principal_can_access_audit_run_def evidence_reference_def reference_def Let_def)
  moreover have "?r \<in> set (artifact_references s l file)"
    unfolding references_iff [OF assms(5,7)] evidence_reference_def names_file_iff
    using evidence_row [OF assms(1,2)] assms(3,5) by blast
  ultimately have "\<exists>r \<in> set (artifact_references s l file). principal_can_access_audit_run p (Some r)" by blast
  then show ?thesis
    using assms(5,6) absolute_path_below_root [OF assms(5)] by (auto simp: artifact_served)
qed

definition granting_db :: library_db where
  "granting_db = \<lparr>ld_db = sample_db\<lparr>evidence_rows := [evidence_from_payload ''e1'' ''f1'' ''run-1'' ''agent-output'' 0
       [(''artifact_path'', PStr ''r.md'')]]\<rparr>,
     ld_snapshots = [], ld_containers = [], ld_documents = [], ld_reports = []\<rparr>"

definition limited_key :: principal where
  "limited_key = Some [(''scopes'', PList [PStr ''audit'']), (''metadata'', PDict [(''project_ids'', PList [PStr ''p-1''])])]"

lemma limited_key_admits: "key_admits limited_key (Some ''p-1'') (Some rid)" "\<not> key_admits limited_key (Some ''p-2'') (Some rid)"
  by (simp_all add: key_admits_def limited_key_def principal_allowed_project_ids_def principal_allowed_audit_run_ids_def
      principal_metadata_def metadata_id_set_def no_principal_def has_scope_def dget_def por_def str_strip_def strip_by_def is_ws_def)

lemma granted_by_evidence:
  "refers granting_db ''r.md'' ''evidence'' (Some ''p-1'') (Some ''run-1'') ''e1''"
proof -
  let ?e = "evidence_from_payload ''e1'' ''f1'' ''run-1'' ''agent-output'' 0 [(''artifact_path'', PStr ''r.md'')]"
  have "refers granting_db ''r.md'' ''evidence'' (map_option ar_project_id (find_run (ld_db granting_db) (ev_audit_run_id ?e)))
      (Some (ev_audit_run_id ?e)) (ev_evidence_id ?e)"
    by (rule evidence_row) (simp_all add: granting_db_def evidence_from_payload_def str_if_truthy_def dget_def)
  then show ?thesis
    by (simp add: evidence_from_payload_def find_run_def granting_db_def sample_db_def empty_db_def sample_run_def)
qed

theorem artifact_served_iff_witness:
  "\<exists>refs. resolve_authorized_artifact local_artifacts one_file granting_db limited_key ''r.md'' =
     Inr ([''data'', ''artifacts'', ''r.md''], refs)"
proof -
  let ?file = "[''data'', ''artifacts'', ''r.md'']"
  have root: "clean_parts (artifact_root local_artifacts)" by code_simp
  have name: "names_file local_artifacts ''r.md'' ?file" by code_simp
  have there: "\<exists>f. fs_kind one_file ?file = IsFile f" by (simp add: one_file_def)
  have row: "\<exists>q kind project run key. refers granting_db q kind project run key \<and> q \<noteq> [] \<and> names_file local_artifacts q ?file \<and>
      key_admits limited_key project run"
    using granted_by_evidence name limited_key_admits(1) by blast
  show ?thesis
    by (rule artifact_served_iff [OF root, THEN conjunct1, THEN iffD2]) (intro conjI name row disjI2 there)
qed

lemma evidence_path_is_a_grant_witness:
  "\<exists>refs. resolve_authorized_artifact local_artifacts one_file granting_db limited_key ''r.md'' =
     Inr ([''data'', ''artifacts'', ''r.md''], refs)"
proof (rule evidence_path_is_a_grant)
  show "find_run (ld_db granting_db) (ev_audit_run_id (evidence_from_payload ''e1'' ''f1'' ''run-1'' ''agent-output'' 0
      [(''artifact_path'', PStr ''r.md'')])) = Some (sample_run sample_config)"
    by (simp add: find_run_def granting_db_def sample_db_def empty_db_def sample_run_def evidence_from_payload_def)
  show "artifact_absolute_path local_artifacts ''r.md'' = Inr [''data'', ''artifacts'', ''r.md'']" by code_simp
  show "clean_parts (artifact_root local_artifacts)" by code_simp
  show "principal_can_access_audit_run limited_key (Some (audit_run_to_dict (sample_run sample_config)))"
    by (simp add: principal_can_access_audit_run_def limited_key_def audit_run_to_dict_def sample_run_def no_principal_def
        has_scope_def dget_def principal_allowed_project_ids_def principal_allowed_audit_run_ids_def principal_metadata_def
        metadata_id_set_def por_def resource_attr_def str_strip_def strip_by_def is_ws_def)
qed (simp_all add: granting_db_def evidence_from_payload_def str_if_truthy_def dget_def one_file_def)

end
