(* ===== verification/Storage_Cleanup.thy ===== *)
theory Storage_Cleanup
  imports Artifact_Paths "HOL-Library.List_Lexorder" "HOL-Library.Char_ord" "HOL-Library.Product_Lexorder"
begin

text \<open>
  The cleanup of local storage (\<open>services/platform/app/services/storage_cleanup.py\<close>): old children
  of four managed directories are listed, checked against what the database refers to, and removed.

  The file system has its entries by absolute path. \<open>sf_real\<close> is \<open>Path.resolve\<close>, which follows
  symbolic links, so a link is an entry of its own name and what \<open>sf_real\<close> gives is its target.
  \<open>sf_remove\<close> tells which removals fail, with their message and what they removed before.
\<close>

section \<open>The file system\<close>

type_synonym path = "string list"

datatype fs_entry = FileEntry time int | DirEntry time | LinkEntry

record storage_fs =
  sf_entries :: "(path \<times> fs_entry) list"
  sf_real :: "path \<Rightarrow> path"
  sf_cwd :: path
  sf_remove :: "path \<Rightarrow> (string \<times> (path \<Rightarrow> bool)) option"

definition fs_stat :: "storage_fs \<Rightarrow> path \<Rightarrow> fs_entry option" where
  "fs_stat fs p = (case map_of (sf_entries fs) (sf_real fs p) of Some LinkEntry \<Rightarrow> None | e \<Rightarrow> e)"

definition fs_is_dir :: "storage_fs \<Rightarrow> path \<Rightarrow> bool" where
  "fs_is_dir fs p = (case fs_stat fs p of Some (DirEntry _) \<Rightarrow> True | _ \<Rightarrow> False)"

definition fs_is_file :: "storage_fs \<Rightarrow> path \<Rightarrow> bool" where
  "fs_is_file fs p = (case fs_stat fs p of Some (FileEntry _ _) \<Rightarrow> True | _ \<Rightarrow> False)"

definition fs_exists :: "storage_fs \<Rightarrow> path \<Rightarrow> bool" where
  "fs_exists fs p = (fs_stat fs p \<noteq> None)"

definition fs_iterdir :: "storage_fs \<Rightarrow> path \<Rightarrow> path list res" where
  "fs_iterdir fs p =
     (if fs_is_dir fs p then Inr (filter (\<lambda>q. q \<noteq> [] \<and> butlast q = p) (map fst (sf_entries fs)))
      else Inl (OtherError ''not a directory''))"

definition fs_below :: "storage_fs \<Rightarrow> path \<Rightarrow> path list" where
  "fs_below fs p = filter (\<lambda>q. strict_prefix p q) (map fst (sf_entries fs))"

definition fs_size :: "storage_fs \<Rightarrow> path \<Rightarrow> int" where
  "fs_size fs p = (case fs_stat fs p of Some (FileEntry _ n) \<Rightarrow> n | _ \<Rightarrow> 0)"

fun entry_mtime :: "fs_entry \<Rightarrow> time" where
  "entry_mtime (FileEntry t _) = t"
| "entry_mtime (DirEntry t) = t"
| "entry_mtime LinkEntry = 0"

definition fs_without :: "(path \<Rightarrow> bool) \<Rightarrow> storage_fs \<Rightarrow> storage_fs" where
  "fs_without gone fs = fs\<lparr>sf_entries := filter (\<lambda>(q, _). \<not> gone q) (sf_entries fs)\<rparr>"

text \<open>\<open>shutil.rmtree\<close> and \<open>unlink\<close>: everything at and below the path goes.\<close>

definition fs_rmtree :: "path \<Rightarrow> (storage_fs, unit) sx" where
  "fs_rmtree p fs =
     (case sf_remove fs p of
        None \<Rightarrow> (Inr (), fs_without (prefix p) fs)
      | Some (message, gone) \<Rightarrow> (Inl (OtherError message), fs_without (\<lambda>q. prefix p q \<and> gone q) fs))"

definition fs_unlink :: "path \<Rightarrow> (storage_fs, unit) sx" where
  "fs_unlink p fs =
     (case sf_remove fs p of
        None \<Rightarrow> (Inr (), fs_without (\<lambda>q. q = p) fs)
      | Some (message, _) \<Rightarrow> (Inl (OtherError message), fs))"

section \<open>Policy\<close>

record storage_settings =
  ss_artifact_root :: path
  ss_workspace_root :: path
  ss_runtime_package_retention_days :: int
  ss_upload_staging_retention_days :: int
  ss_unreferenced_workspace_retention_days :: int
  ss_unreferenced_snapshot_retention_days :: int
  ss_storage_cleanup_max_entries :: int

record cleanup_policy =
  cp_runtime_package_retention_days :: int
  cp_upload_staging_retention_days :: int
  cp_unreferenced_workspace_retention_days :: int
  cp_unreferenced_snapshot_retention_days :: int
  cp_max_entries :: int

definition non_negative :: "int option \<Rightarrow> int \<Rightarrow> int" where
  "non_negative value fallback = max 0 (case value of None \<Rightarrow> fallback | Some n \<Rightarrow> n)"

definition cleanup_policy_of ::
  "storage_settings \<Rightarrow> int option \<Rightarrow> int option \<Rightarrow> int option \<Rightarrow> int option \<Rightarrow> int option \<Rightarrow> cleanup_policy" where
  "cleanup_policy_of cfg packages uploads workspaces snapshots max_entries =
     \<lparr>cp_runtime_package_retention_days = non_negative packages (ss_runtime_package_retention_days cfg),
      cp_upload_staging_retention_days = non_negative uploads (ss_upload_staging_retention_days cfg),
      cp_unreferenced_workspace_retention_days = non_negative workspaces (ss_unreferenced_workspace_retention_days cfg),
      cp_unreferenced_snapshot_retention_days = non_negative snapshots (ss_unreferenced_snapshot_retention_days cfg),
      cp_max_entries = max 1 (case max_entries of Some n \<Rightarrow> if n = 0 then ss_storage_cleanup_max_entries cfg else n
                                                | None \<Rightarrow> ss_storage_cleanup_max_entries cfg)\<rparr>"

definition cleanup_policy_to_dict :: "cleanup_policy \<Rightarrow> dict" where
  "cleanup_policy_to_dict p =
     [(''runtime_package_retention_days'', PInt (cp_runtime_package_retention_days p)),
      (''upload_staging_retention_days'', PInt (cp_upload_staging_retention_days p)),
      (''unreferenced_workspace_retention_days'', PInt (cp_unreferenced_workspace_retention_days p)),
      (''unreferenced_snapshot_retention_days'', PInt (cp_unreferenced_snapshot_retention_days p)),
      (''max_entries'', PInt (cp_max_entries p))]"

section \<open>Checks\<close>

definition abs_path :: "path \<Rightarrow> string" where
  "abs_path p = ''/'' @ posix_of p"

definition assert_managed_root :: "storage_settings \<Rightarrow> storage_fs \<Rightarrow> path \<Rightarrow> unit res" where
  "assert_managed_root cfg fs p =
     (if prefix (sf_real fs (ss_artifact_root cfg)) p \<or> prefix (sf_real fs (ss_workspace_root cfg)) p then Inr ()
      else Inl (ValueError (''refusing to manage path outside configured storage roots: '' @ abs_path p)))"

definition assert_child :: "path \<Rightarrow> path \<Rightarrow> unit res" where
  "assert_child root p =
     (if strict_prefix root p then Inr () else Inl (ValueError (''cleanup candidate escapes managed root: '' @ abs_path p)))"

text \<open>A path is kept if it is one that is referred to, or a directory above one.\<close>

definition contains_reference :: "path \<Rightarrow> path list \<Rightarrow> bool" where
  "contains_reference p referenced = list_ex (\<lambda>r. r = p \<or> strict_prefix p r) referenced"

definition resolved_existing :: "storage_fs \<Rightarrow> string list \<Rightarrow> path list" where
  "resolved_existing fs paths =
     map (\<lambda>p. sf_real fs (if is_absolute p then path_parts p else sf_cwd fs @ path_parts p)) (filter (\<lambda>p. p \<noteq> []) paths)"

definition relative_storage_path :: "storage_settings \<Rightarrow> storage_fs \<Rightarrow> path \<Rightarrow> string" where
  "relative_storage_path cfg fs p =
     (let a = sf_real fs (ss_artifact_root cfg); w = sf_real fs (ss_workspace_root cfg);
          rel = (\<lambda>root. if p = root then ''.'' else posix_of (drop (length root) p))
      in if prefix a p then ''artifacts/'' @ rel a else if prefix w p then ''workspaces/'' @ rel w else abs_path p)"

definition path_size :: "storage_fs \<Rightarrow> path \<Rightarrow> int" where
  "path_size fs p = (if fs_is_file fs p then fs_size fs p else sum_list (map (fs_size fs) (filter (fs_is_file fs) (fs_below fs p))))"

section \<open>Candidates\<close>

record candidate =
  cd_kind :: string
  cd_path :: path
  cd_relative_path :: string
  cd_mtime :: time
  cd_age_days :: int
  cd_bytes :: int

definition candidate_to_dict :: "candidate \<Rightarrow> dict" where
  "candidate_to_dict c =
     [(''kind'', PStr (cd_kind c)), (''path'', PStr (abs_path (cd_path c))), (''relative_path'', PStr (cd_relative_path c)),
      (''mtime'', pytime (cd_mtime c)), (''age_days'', PInt (cd_age_days c)), (''bytes'', PInt (cd_bytes c))]"

definition candidate_row ::
  "storage_settings \<Rightarrow> storage_fs \<Rightarrow> string \<Rightarrow> int \<Rightarrow> time \<Rightarrow> path list \<Rightarrow> path \<Rightarrow> candidate list res" where
  "candidate_row cfg fs kind retention_days now referenced p =
     (if contains_reference p referenced then Inr []
      else case fs_stat fs p of
        None \<Rightarrow> Inl (OtherError (''no such file: '' @ abs_path p))
      | Some e \<Rightarrow>
          if now - retention_days * micros_per_day < entry_mtime e then Inr []
          else Inr [\<lparr>cd_kind = kind, cd_path = p, cd_relative_path = relative_storage_path cfg fs p, cd_mtime = entry_mtime e,
                     cd_age_days = (now - entry_mtime e) div micros_per_day, cd_bytes = path_size fs p\<rparr>])"

definition expired_children ::
  "storage_settings \<Rightarrow> storage_fs \<Rightarrow> path \<Rightarrow> string \<Rightarrow> int \<Rightarrow> time \<Rightarrow> path list \<Rightarrow> candidate list res" where
  "expired_children cfg fs root0 kind retention_days now referenced =
     (let root = sf_real fs root0
      in rbind (assert_managed_root cfg fs root) (\<lambda>_.
           if \<not> fs_exists fs root then Inr []
           else rbind (fs_iterdir fs root) (\<lambda>children.
             rbind (rmap (\<lambda>child. let resolved = sf_real fs child
                                  in rbind (assert_child root resolved) (\<lambda>_.
                                       candidate_row cfg fs kind retention_days now referenced resolved)) children)
               (\<lambda>rows. Inr (concat rows)))))"

text \<open>What of a child is looked at: its directories, or itself when it has none.\<close>

definition nested_candidates :: "storage_fs \<Rightarrow> path \<Rightarrow> path \<Rightarrow> path list res" where
  "nested_candidates fs root child =
     (let resolved = sf_real fs child
      in rbind (assert_child root resolved) (\<lambda>_.
           if \<not> fs_is_dir fs resolved then Inr [resolved]
           else rbind (fs_iterdir fs resolved) (\<lambda>items.
             let dirs = filter (fs_is_dir fs) (map (sf_real fs) items)
             in Inr (if dirs = [] then [resolved] else dirs))))"

definition expired_nested_children ::
  "storage_settings \<Rightarrow> storage_fs \<Rightarrow> path \<Rightarrow> string \<Rightarrow> int \<Rightarrow> time \<Rightarrow> path list \<Rightarrow> candidate list res" where
  "expired_nested_children cfg fs root0 kind retention_days now referenced =
     (let root = sf_real fs root0
      in rbind (assert_managed_root cfg fs root) (\<lambda>_.
           if \<not> fs_exists fs root then Inr []
           else rbind (fs_iterdir fs root) (\<lambda>children.
             rbind (rmap (nested_candidates fs root) children) (\<lambda>candidates.
               rbind (rmap (\<lambda>c. rbind (assert_child root c) (\<lambda>_.
                                  candidate_row cfg fs kind retention_days now referenced c)) (concat candidates))
                 (\<lambda>rows. Inr (concat rows))))))"

section \<open>The cleanup\<close>

definition delete_candidate :: "storage_settings \<Rightarrow> path \<Rightarrow> (storage_fs, unit) sx" where
  "delete_candidate cfg p fs =
     (let resolved = sf_real fs p
      in case assert_managed_root cfg fs resolved of
           Inl e \<Rightarrow> (Inl e, fs)
         | Inr _ \<Rightarrow>
             if fs_is_dir fs resolved then fs_rmtree resolved fs
             else if fs_is_file fs resolved then fs_unlink resolved fs
             else (Inl (ValueError ''cleanup candidate no longer exists''), fs))"

text \<open>The deleted candidates, those that failed with their error, and the file system after.\<close>

fun delete_each :: "storage_settings \<Rightarrow> candidate list \<Rightarrow> storage_fs \<Rightarrow> candidate list \<times> (candidate \<times> pyexc) list \<times> storage_fs" where
  "delete_each cfg [] fs = ([], [], fs)"
| "delete_each cfg (c # cs) fs =
     (case delete_candidate cfg (cd_path c) fs of
        (Inr _, fs1) \<Rightarrow> (case delete_each cfg cs fs1 of (deleted, errors, fs2) \<Rightarrow> (c # deleted, errors, fs2))
      | (Inl e, fs1) \<Rightarrow> (case delete_each cfg cs fs1 of (deleted, errors, fs2) \<Rightarrow> (deleted, (c, e) # errors, fs2)))"

definition cleanup_candidates ::
  "storage_settings \<Rightarrow> storage_fs \<Rightarrow> time \<Rightarrow> cleanup_policy \<Rightarrow> string list \<Rightarrow> string list \<Rightarrow> candidate list res" where
  "cleanup_candidates cfg fs now policy workspaces snapshots =
     rbind (expired_children cfg fs (ss_artifact_root cfg @ [''runtime-packages'']) ''runtime_package''
              (cp_runtime_package_retention_days policy) now []) (\<lambda>packages.
     rbind (expired_children cfg fs (ss_artifact_root cfg @ [''uploads'']) ''upload_staging''
              (cp_upload_staging_retention_days policy) now []) (\<lambda>uploads.
     rbind (expired_nested_children cfg fs (ss_workspace_root cfg) ''unreferenced_workspace''
              (cp_unreferenced_workspace_retention_days policy) now (resolved_existing fs workspaces)) (\<lambda>ws.
     rbind (expired_nested_children cfg fs (ss_artifact_root cfg @ [''snapshots'']) ''unreferenced_snapshot_archive''
              (cp_unreferenced_snapshot_retention_days policy) now (resolved_existing fs snapshots)) (\<lambda>archives.
     Inr (sort_key (\<lambda>c. (iso_utc (cd_mtime c), abs_path (cd_path c))) (packages @ uploads @ ws @ archives))))))"

definition cleanup_storage ::
  "storage_settings \<Rightarrow> time \<Rightarrow> bool \<Rightarrow> cleanup_policy \<Rightarrow> string list \<Rightarrow> string list \<Rightarrow> (storage_fs, dict) sx" where
  "cleanup_storage cfg now dry_run policy workspaces snapshots fs =
     (case cleanup_candidates cfg fs now policy workspaces snapshots of
        Inl e \<Rightarrow> (Inl e, fs)
      | Inr candidates \<Rightarrow>
          let selected = take (nat (cp_max_entries policy)) candidates;
              (deleted, errors, fs2) = (if dry_run then ([], [], fs) else delete_each cfg selected fs)
          in (Inr [(''dry_run'', PBool dry_run), (''policy'', PDict (cleanup_policy_to_dict policy)),
                   (''candidate_count'', PInt (int (length candidates))), (''selected_count'', PInt (int (length selected))),
                   (''truncated'', PBool (cp_max_entries policy < int (length candidates))),
                   (''deleted_count'', PInt (int (length deleted))), (''error_count'', PInt (int (length errors))),
                   (''candidates'', PList (map (\<lambda>c. PDict (candidate_to_dict c)) selected)),
                   (''deleted'', PList (map (\<lambda>c. PDict (candidate_to_dict c)) deleted)),
                   (''errors'', PList (map (\<lambda>(c, e). PDict (candidate_to_dict c @ [(''error'', PStr (exc_str e))])) errors))], fs2))"

definition root_summary :: "storage_fs \<Rightarrow> path \<Rightarrow> dict" where
  "root_summary fs root =
     (if \<not> fs_exists fs root
      then [(''path'', PStr (abs_path root)), (''exists'', PBool False), (''files'', PInt 0), (''dirs'', PInt 0), (''bytes'', PInt 0)]
      else let files = filter (fs_is_file fs) (fs_below fs root)
           in [(''path'', PStr (abs_path root)), (''exists'', PBool True), (''files'', PInt (int (length files))),
               (''dirs'', PInt (int (length (filter (fs_is_dir fs) (fs_below fs root))))),
               (''bytes'', PInt (sum_list (map (fs_size fs) files)))])"

definition storage_summary :: "storage_settings \<Rightarrow> storage_fs \<Rightarrow> dict" where
  "storage_summary cfg fs =
     (let a = sf_real fs (ss_artifact_root cfg); w = sf_real fs (ss_workspace_root cfg)
      in [(''roots'', PDict [(''artifact_root'', PDict (root_summary fs a)), (''workspace_root'', PDict (root_summary fs w))]),
          (''managed_prefixes'', PDict
             [(''runtime_packages'', PDict (root_summary fs (a @ [''runtime-packages'']))),
              (''upload_staging'', PDict (root_summary fs (a @ [''uploads'']))),
              (''snapshot_archives'', PDict (root_summary fs (a @ [''snapshots'']))),
              (''workspaces'', PDict (root_summary fs w))]),
          (''policy'', PDict (cleanup_policy_to_dict (cleanup_policy_of cfg None None None None None)))])"

end
