(* ===== verification/Storage_Contracts.thy ===== *)
theory Storage_Contracts
  imports Storage_Cleanup
begin

text \<open>
  What a cleanup may remove: entries at or below a bounded number of expired, unreferenced
  candidates inside the managed directories; never an imported workspace that is referred to.
\<close>

definition fs_paths :: "storage_fs \<Rightarrow> path set" where
  "fs_paths fs = fst ` set (sf_entries fs)"

section \<open>Removal\<close>

lemma fs_without_simps [simp]:
  "sf_real (fs_without g fs) = sf_real fs"
  "fs_paths (fs_without g fs) = {q \<in> fs_paths fs. \<not> g q}"
  by (force simp: fs_without_def fs_paths_def)+

lemma delete_candidate_removes:
  "delete_candidate cfg p fs = (r, fs') \<Longrightarrow>
     sf_real fs' = sf_real fs \<and> fs_paths fs' \<subseteq> fs_paths fs \<and>
     (\<forall>q \<in> fs_paths fs - fs_paths fs'. prefix (sf_real fs p) q)"
  by (auto simp: delete_candidate_def fs_rmtree_def fs_unlink_def Let_def split: sum.splits if_splits option.splits)

lemma delete_each_removes:
  "delete_each cfg cs fs = (deleted, errors, fs') \<Longrightarrow>
     sf_real fs' = sf_real fs \<and> fs_paths fs' \<subseteq> fs_paths fs \<and>
     (\<forall>q \<in> fs_paths fs - fs_paths fs'. \<exists>c \<in> set cs. prefix (sf_real fs (cd_path c)) q)"
proof (induction cs arbitrary: fs deleted errors)
  case (Cons c cs)
  obtain r fs1 where one: "delete_candidate cfg (cd_path c) fs = (r, fs1)" by (cases "delete_candidate cfg (cd_path c) fs")
  obtain ds es where rest: "delete_each cfg cs fs1 = (ds, es, fs')"
    using Cons.prems one by (auto split: sum.splits prod.splits)
  from delete_candidate_removes [OF one] Cons.IH [OF rest] show ?case by auto
qed simp

section \<open>Candidates\<close>

text \<open>A candidate of an area: below its root, old enough, and no referenced path at or below it.\<close>

definition expired_below :: "storage_fs \<Rightarrow> time \<Rightarrow> path \<times> int \<times> path list \<Rightarrow> candidate \<Rightarrow> bool" where
  "expired_below fs now area c \<longleftrightarrow>
     (case area of (root, days, referenced) \<Rightarrow>
        strict_prefix (sf_real fs root) (cd_path c) \<and> cd_mtime c \<le> now - days * micros_per_day \<and>
        (\<forall>r \<in> set referenced. \<not> prefix (cd_path c) r) \<and> (\<exists>p. cd_path c = sf_real fs p))"

definition areas :: "storage_settings \<Rightarrow> storage_fs \<Rightarrow> cleanup_policy \<Rightarrow> string list \<Rightarrow> string list \<Rightarrow> (path \<times> int \<times> path list) list" where
  "areas cfg fs policy workspaces snapshots =
     [(ss_artifact_root cfg @ [''runtime-packages''], cp_runtime_package_retention_days policy, []),
      (ss_artifact_root cfg @ [''uploads''], cp_upload_staging_retention_days policy, []),
      (ss_workspace_root cfg, cp_unreferenced_workspace_retention_days policy, resolved_existing fs workspaces),
      (ss_artifact_root cfg @ [''snapshots''], cp_unreferenced_snapshot_retention_days policy, resolved_existing fs snapshots)]"

lemma rmap_concat_elem:
  "rmap f xs = Inr ys \<Longrightarrow> y \<in> set (concat ys) \<Longrightarrow> \<exists>x \<in> set xs. \<exists>zs. f x = Inr zs \<and> y \<in> set zs"
  by (induction xs arbitrary: ys) (fastforce simp: rbind_Inr_iff)+

lemma candidate_row_elem:
  "candidate_row cfg fs kind days now referenced p = Inr cs \<Longrightarrow> c \<in> set cs \<Longrightarrow>
     cd_path c = p \<and> cd_mtime c \<le> now - days * micros_per_day \<and> (\<forall>r \<in> set referenced. \<not> prefix p r)"
  by (auto simp: candidate_row_def contains_reference_def list_ex_iff strict_prefix_def split: if_splits option.splits)

lemma expired_children_elem:
  assumes "expired_children cfg fs root kind days now referenced = Inr cs" and "c \<in> set cs"
  shows "expired_below fs now (root, days, referenced) c"
proof -
  obtain children rows where rows: "rmap (\<lambda>child. let resolved = sf_real fs child
        in rbind (assert_child (sf_real fs root) resolved) (\<lambda>_. candidate_row cfg fs kind days now referenced resolved)) children = Inr rows"
      "c \<in> set (concat rows)"
    using assms by (auto simp: expired_children_def Let_def rbind_Inr_iff split: if_splits)
  from rmap_concat_elem [OF this] obtain child zs where
    "assert_child (sf_real fs root) (sf_real fs child) = Inr ()"
    "candidate_row cfg fs kind days now referenced (sf_real fs child) = Inr zs" "c \<in> set zs"
    by (auto simp: Let_def rbind_Inr_iff)
  with candidate_row_elem show ?thesis
    by (fastforce simp: expired_below_def assert_child_def split: if_splits)
qed

text \<open>The shape of what a nested area offers: a child of the root, or a child of a child.\<close>

lemma nested_candidates_elem:
  "nested_candidates fs root child = Inr ps \<Longrightarrow> p \<in> set ps \<Longrightarrow>
     p = sf_real fs child \<or> (\<exists>item. p = sf_real fs item \<and> item \<noteq> [] \<and> butlast item = sf_real fs child)"
  by (auto simp: nested_candidates_def Let_def rbind_Inr_iff fs_iterdir_def split: if_splits)

lemma expired_nested_elem:
  assumes "expired_nested_children cfg fs root kind days now referenced = Inr cs" and "c \<in> set cs"
  shows "expired_below fs now (root, days, referenced) c"
    and "\<exists>child. child \<noteq> [] \<and> butlast child = sf_real fs root \<and> (cd_path c = sf_real fs child \<or>
      (\<exists>item. cd_path c = sf_real fs item \<and> item \<noteq> [] \<and> butlast item = sf_real fs child))"
proof -
  obtain children candidates rows where parts:
      "fs_iterdir fs (sf_real fs root) = Inr children" "rmap (nested_candidates fs (sf_real fs root)) children = Inr candidates"
      "rmap (\<lambda>p. rbind (assert_child (sf_real fs root) p) (\<lambda>_. candidate_row cfg fs kind days now referenced p))
         (concat candidates) = Inr rows" "c \<in> set (concat rows)"
    using assms by (auto simp: expired_nested_children_def Let_def rbind_Inr_iff split: if_splits)
  from rmap_concat_elem [OF parts(3,4)] obtain p zs where p: "p \<in> set (concat candidates)"
    "assert_child (sf_real fs root) p = Inr ()" "candidate_row cfg fs kind days now referenced p = Inr zs" "c \<in> set zs"
    by (auto simp: rbind_Inr_iff)
  from rmap_concat_elem [OF parts(2) p(1)] obtain child ps where
    child: "child \<in> set children" "nested_candidates fs (sf_real fs root) child = Inr ps" "p \<in> set ps" by auto
  note shape = nested_candidates_elem [OF child(2,3)]
  have "child \<noteq> []" "butlast child = sf_real fs root"
    using parts(1) child(1) by (auto simp: fs_iterdir_def split: if_splits)
  with shape candidate_row_elem [OF p(3,4)]
  show "\<exists>child. child \<noteq> [] \<and> butlast child = sf_real fs root \<and> (cd_path c = sf_real fs child \<or>
      (\<exists>item. cd_path c = sf_real fs item \<and> item \<noteq> [] \<and> butlast item = sf_real fs child))" by blast
  show "expired_below fs now (root, days, referenced) c"
    using shape candidate_row_elem [OF p(3,4)] p(2) by (auto simp: expired_below_def assert_child_def split: if_splits)
qed

lemma cleanup_candidates_elem:
  assumes "cleanup_candidates cfg fs now policy workspaces snapshots = Inr cs" and "c \<in> set cs"
  shows "\<exists>area \<in> set (areas cfg fs policy workspaces snapshots). expired_below fs now area c"
    and "(\<exists>x. strict_prefix (sf_real fs (ss_artifact_root cfg @ [x])) (cd_path c)) \<or>
      ((\<forall>r \<in> set (resolved_existing fs workspaces). \<not> prefix (cd_path c) r) \<and>
       (\<exists>child. child \<noteq> [] \<and> butlast child = sf_real fs (ss_workspace_root cfg) \<and> (cd_path c = sf_real fs child \<or>
         (\<exists>item. cd_path c = sf_real fs item \<and> item \<noteq> [] \<and> butlast item = sf_real fs child))))"
proof -
  obtain packages uploads ws archives where parts:
      "expired_children cfg fs (ss_artifact_root cfg @ [''runtime-packages'']) ''runtime_package''
         (cp_runtime_package_retention_days policy) now [] = Inr packages"
      "expired_children cfg fs (ss_artifact_root cfg @ [''uploads'']) ''upload_staging''
         (cp_upload_staging_retention_days policy) now [] = Inr uploads"
      "expired_nested_children cfg fs (ss_workspace_root cfg) ''unreferenced_workspace''
         (cp_unreferenced_workspace_retention_days policy) now (resolved_existing fs workspaces) = Inr ws"
      "expired_nested_children cfg fs (ss_artifact_root cfg @ [''snapshots'']) ''unreferenced_snapshot_archive''
         (cp_unreferenced_snapshot_retention_days policy) now (resolved_existing fs snapshots) = Inr archives"
      "set cs = set packages \<union> (set uploads \<union> (set ws \<union> set archives))"
    using assms(1) by (auto simp: cleanup_candidates_def rbind_Inr_iff)
  with assms(2) consider "c \<in> set packages" | "c \<in> set uploads" | "c \<in> set ws" | "c \<in> set archives" by blast
  note cases = this
  from cases show "\<exists>area \<in> set (areas cfg fs policy workspaces snapshots). expired_below fs now area c"
    by cases (simp_all add: areas_def expired_children_elem [OF parts(1)] expired_children_elem [OF parts(2)]
      expired_nested_elem(1) [OF parts(3)] expired_nested_elem(1) [OF parts(4)])
  from cases show "(\<exists>x. strict_prefix (sf_real fs (ss_artifact_root cfg @ [x])) (cd_path c)) \<or>
      ((\<forall>r \<in> set (resolved_existing fs workspaces). \<not> prefix (cd_path c) r) \<and>
       (\<exists>child. child \<noteq> [] \<and> butlast child = sf_real fs (ss_workspace_root cfg) \<and> (cd_path c = sf_real fs child \<or>
         (\<exists>item. cd_path c = sf_real fs item \<and> item \<noteq> [] \<and> butlast item = sf_real fs child))))"
  proof cases
    case 3
    with expired_nested_elem [OF parts(3)] show ?thesis by (auto simp: expired_below_def)
  qed (auto simp: expired_below_def dest: expired_children_elem [OF parts(1)] expired_children_elem [OF parts(2)]
      expired_nested_elem(1) [OF parts(4)])
qed

section \<open>The properties\<close>

lemma cleanup_selected:
  assumes "cleanup_storage cfg now dry policy workspaces snapshots fs = (r, fs')"
  obtains "fs' = fs"
  | cs deleted errors where "\<not> dry" "length cs \<le> nat (cp_max_entries policy)"
      "delete_each cfg cs fs = (deleted, errors, fs')"
      "\<And>c. c \<in> set cs \<Longrightarrow> \<exists>all. cleanup_candidates cfg fs now policy workspaces snapshots = Inr all \<and> c \<in> set all"
proof (cases "cleanup_candidates cfg fs now policy workspaces snapshots")
  case (Inl e)
  with assms that(1) show ?thesis by (simp add: cleanup_storage_def)
next
  case (Inr all)
  let ?cs = "take (nat (cp_max_entries policy)) all"
  show ?thesis
  proof (cases dry)
    case True
    with assms Inr that(1) show ?thesis by (simp add: cleanup_storage_def Let_def)
  next
    case False
    obtain ds es fs2 where d: "delete_each cfg ?cs fs = (ds, es, fs2)" by (cases "delete_each cfg ?cs fs")
    with assms Inr False have "fs2 = fs'" by (simp add: cleanup_storage_def Let_def)
    with d False Inr that(2) [of ?cs ds es] show ?thesis by (auto dest: in_set_takeD)
  qed
qed

text \<open>C10. A cleanup removes only what lies at or below at most \<open>max_entries\<close> candidates, each strictly
  below one of the four managed directories, not younger than the retention of its directory and
  with no referenced path at or below it; a dry run removes nothing.\<close>

theorem cleanup_removes_only_expired:
  assumes "cleanup_storage cfg now dry policy workspaces snapshots fs = (r, fs')"
    and "\<forall>p. sf_real fs (sf_real fs p) = sf_real fs p"
  shows "(dry \<longrightarrow> fs' = fs) \<and> fs_paths fs' \<subseteq> fs_paths fs \<and>
    (\<exists>cs. length cs \<le> nat (cp_max_entries policy) \<and>
       (\<forall>c \<in> set cs. \<exists>area \<in> set (areas cfg fs policy workspaces snapshots). expired_below fs now area c) \<and>
       (\<forall>q \<in> fs_paths fs - fs_paths fs'. \<exists>c \<in> set cs. prefix (cd_path c) q))"
  using assms(1)
proof (rule cleanup_selected)
  assume "fs' = fs"
  then show ?thesis by (auto intro!: exI [of _ "[]"])
next
  fix cs deleted errors
  assume cs: "\<not> dry" "length cs \<le> nat (cp_max_entries policy)" "delete_each cfg cs fs = (deleted, errors, fs')"
    "\<And>c. c \<in> set cs \<Longrightarrow> \<exists>all. cleanup_candidates cfg fs now policy workspaces snapshots = Inr all \<and> c \<in> set all"
  have area: "\<exists>area \<in> set (areas cfg fs policy workspaces snapshots). expired_below fs now area c" if "c \<in> set cs" for c
    using cs(4) [OF that] cleanup_candidates_elem(1) by blast
  then have "sf_real fs (cd_path c) = cd_path c" if "c \<in> set cs" for c
    using that assms(2) by (fastforce simp: expired_below_def)
  with delete_each_removes [OF cs(3)] cs(1,2) area show ?thesis by (intro conjI exI [of _ cs]) auto
qed

text \<open>Where there are no symbolic links and the two storage roots lie apart, a workspace that the
  database refers to, at the depth the importer puts it, keeps everything at and below its path.\<close>

lemma referenced_workspace_survives:
  assumes "cleanup_storage cfg now dry policy workspaces snapshots fs = (r, fs')"
    and "\<forall>p. sf_real fs p = p"
    and "\<not> prefix (ss_artifact_root cfg) (ss_workspace_root cfg)" and "\<not> prefix (ss_workspace_root cfg) (ss_artifact_root cfg)"
    and "w \<in> set workspaces" and "is_absolute w" and "path_parts w = ss_workspace_root cfg @ [project, snapshot]"
    and "q \<in> fs_paths fs" and "prefix (ss_workspace_root cfg @ [project, snapshot]) q"
  shows "q \<in> fs_paths fs'"
  using assms(1)
proof (rule cleanup_selected)
  assume "fs' = fs"
  with assms(8) show ?thesis by simp
next
  fix cs deleted errors
  assume cs: "delete_each cfg cs fs = (deleted, errors, fs')"
    "\<And>c. c \<in> set cs \<Longrightarrow> \<exists>all. cleanup_candidates cfg fs now policy workspaces snapshots = Inr all \<and> c \<in> set all"
  let ?ref = "ss_workspace_root cfg @ [project, snapshot]"
  have ref: "?ref \<in> set (resolved_existing fs workspaces)"
    using assms(2,5-7) by (force simp: resolved_existing_def is_absolute_def starts_with_def)
  show ?thesis
  proof (rule ccontr)
    assume "q \<notin> fs_paths fs'"
    with assms(8) have "q \<in> fs_paths fs - fs_paths fs'" by blast
    with delete_each_removes [OF cs(1)] obtain c where "c \<in> set cs" "prefix (sf_real fs (cd_path c)) q" by blast
    with assms(2) have c: "c \<in> set cs" "prefix (cd_path c) q" by simp_all
    from cs(2) [OF c(1)] obtain all where "cleanup_candidates cfg fs now policy workspaces snapshots = Inr all" "c \<in> set all" by blast
    from cleanup_candidates_elem(2) [OF this] consider
        (artifacts) x where "strict_prefix (sf_real fs (ss_artifact_root cfg @ [x])) (cd_path c)"
      | (workspaces) child where "\<forall>r \<in> set (resolved_existing fs workspaces). \<not> prefix (cd_path c) r"
          "child \<noteq> []" "butlast child = sf_real fs (ss_workspace_root cfg)"
          "cd_path c = sf_real fs child \<or> (\<exists>item. cd_path c = sf_real fs item \<and> item \<noteq> [] \<and> butlast item = sf_real fs child)"
      by blast
    then show False
    proof cases
      case artifacts
      then have "prefix (ss_artifact_root cfg) q" using c(2) assms(2) by (auto simp: strict_prefix_def prefix_def)
      moreover have "prefix (ss_workspace_root cfg) q" using assms(9) by (auto simp: prefix_def)
      ultimately show False using assms(3,4) prefix_same_cases by blast
    next
      case workspaces
      have "length (cd_path c) \<le> length ?ref"
        using workspaces(2-4) assms(2) by (auto dest!: arg_cong [where f = length])
      moreover have "prefix (cd_path c) ?ref \<or> prefix ?ref (cd_path c)"
        using c(2) assms(9) prefix_same_cases by blast
      ultimately have "prefix (cd_path c) ?ref" by (metis prefix_length_prefix prefix_order.order_refl)
      with workspaces(1) ref show False by blast
    qed
  qed
qed

definition sample_storage :: storage_fs where
  "sample_storage = \<lparr>sf_entries =
       [([''ws''], DirEntry 0), ([''ws'', ''p''], DirEntry 0), ([''ws'', ''p'', ''s1''], DirEntry 0),
        ([''ws'', ''p'', ''s1'', ''a.py''], FileEntry 0 3), ([''ws'', ''p'', ''s2''], DirEntry 0),
        ([''ws'', ''p'', ''s2'', ''b.py''], FileEntry 0 4)],
     sf_real = (\<lambda>p. p), sf_cwd = [], sf_remove = (\<lambda>_. None)\<rparr>"

definition sample_storage_settings :: storage_settings where
  "sample_storage_settings = \<lparr>ss_artifact_root = [''art''], ss_workspace_root = [''ws''],
     ss_runtime_package_retention_days = 7, ss_upload_staging_retention_days = 1, ss_unreferenced_workspace_retention_days = 30,
     ss_unreferenced_snapshot_retention_days = 90, ss_storage_cleanup_max_entries = 500\<rparr>"

definition sample_cleanup :: "dict res \<times> storage_fs" where
  "sample_cleanup = cleanup_storage sample_storage_settings (40 * micros_per_day) False
     (cleanup_policy_of sample_storage_settings None None None None None) [''/ws/p/s1''] [] sample_storage"

lemma sample_cleanup_paths:
  "map fst (sf_entries (snd sample_cleanup)) = [[''ws''], [''ws'', ''p''], [''ws'', ''p'', ''s1''], [''ws'', ''p'', ''s1'', ''a.py'']]"
  by code_simp

lemma sample_cleanup_fs_paths:
  "fs_paths (snd sample_cleanup) = {[''ws''], [''ws'', ''p''], [''ws'', ''p'', ''s1''], [''ws'', ''p'', ''s1'', ''a.py'']}"
  unfolding fs_paths_def set_map [symmetric] sample_cleanup_paths by simp

theorem cleanup_removes_only_expired_witness:
  "\<exists>cs :: candidate list. length cs \<le> 500 \<and> (\<exists>c \<in> set cs. prefix (cd_path c) [''ws'', ''p'', ''s2'', ''b.py''])"
proof -
  obtain r fs' where s: "sample_cleanup = (r, fs')" by (cases sample_cleanup)
  have gone: "[''ws'', ''p'', ''s2'', ''b.py''] \<in> fs_paths sample_storage - fs_paths fs'"
    using sample_cleanup_fs_paths unfolding s by (simp add: fs_paths_def sample_storage_def)
  have "\<forall>p. sf_real sample_storage (sf_real sample_storage p) = sf_real sample_storage p"
    by (simp add: sample_storage_def)
  from cleanup_removes_only_expired [OF s [unfolded sample_cleanup_def] this] obtain cs :: "candidate list" where
    cs: "length cs \<le> nat (cp_max_entries (cleanup_policy_of sample_storage_settings None None None None None))"
      "\<forall>q \<in> fs_paths sample_storage - fs_paths fs'. \<exists>c \<in> set cs. prefix (cd_path c) q"
    by blast
  have "length cs \<le> 500" using cs(1) by (simp add: cleanup_policy_of_def sample_storage_settings_def)
  with bspec [OF cs(2) gone] show ?thesis by blast
qed

lemma referenced_workspace_survives_witness:
  "[''ws'', ''p'', ''s1'', ''a.py''] \<in> fs_paths (snd sample_cleanup)"
proof (rule referenced_workspace_survives)
  show "cleanup_storage sample_storage_settings (40 * micros_per_day) False
     (cleanup_policy_of sample_storage_settings None None None None None) [''/ws/p/s1''] [] sample_storage =
     (fst sample_cleanup, snd sample_cleanup)"
    by (simp add: sample_cleanup_def)
  show "path_parts ''/ws/p/s1'' = ss_workspace_root sample_storage_settings @ [''p'', ''s1'']" by code_simp
qed (simp_all add: sample_storage_def sample_storage_settings_def is_absolute_def starts_with_def fs_paths_def)

end
