(* ===== verification/Workspace_Import.thy ===== *)
theory Workspace_Import
  imports Artifact_Paths
begin

text \<open>
  Bringing code in (\<open>services/platform/app/services/workspace.py\<close>): an uploaded archive is stored
  under a size limit, checked entry by entry, extracted into a new workspace and archived again as a
  snapshot; the URL of a repository to clone is checked before \<open>git\<close> runs.

  The state is the file system. Parameters are the readers of the standard library: \<open>wi_unzip\<close>, the
  entries of an archive (None for \<open>BadZipFile\<close>), \<open>wi_archive\<close>, what \<open>shutil.make_archive\<close> makes of a
  directory, \<open>wi_sha\<close>, and \<open>wi_ipv6\<close>, what \<open>ipaddress\<close> says of a text that is not a dotted quad
  (None for no address, otherwise whether one of the refused properties holds).
  Paths are resolved without symbolic links: the workspace is new, and links in it are refused.
\<close>

section \<open>Errors\<close>

text \<open>\<open>OSFailure\<close> stands for every exception the handlers of the importer do not name.\<close>

datatype import_error =
    WorkspaceImportError string
  | BadZipFile
  | RuntimeFailure string
  | OSFailure string
  | UrlValueError string

section \<open>Files\<close>

datatype node = Dir | File string

type_synonym files = "string list \<Rightarrow> node option"

text \<open>\<open>mkdir(parents=True, exist_ok=True)\<close>.\<close>

definition mkdirs :: "string list \<Rightarrow> files \<Rightarrow> (import_error + unit) \<times> files" where
  "mkdirs p fs =
     (if list_ex (\<lambda>n. case fs (take n p) of Some (File _) \<Rightarrow> True | _ \<Rightarrow> False) [0..<Suc (length p)]
      then (Inl (OSFailure ''not a directory''), fs)
      else (Inr (), \<lambda>q. if prefix q p then Some Dir else fs q))"

text \<open>\<open>open("wb")\<close> with all that is written: the parent is there.\<close>

definition write_bytes :: "string list \<Rightarrow> string \<Rightarrow> files \<Rightarrow> (import_error + unit) \<times> files" where
  "write_bytes p content fs =
     (if fs p = Some Dir then (Inl (OSFailure ''is a directory''), fs) else (Inr (), fs(p \<mapsto> File content)))"

definition rmtree :: "string list \<Rightarrow> files \<Rightarrow> files" where
  "rmtree p fs = (\<lambda>q. if prefix p q then None else fs q)"

definition unlink :: "string list \<Rightarrow> files \<Rightarrow> files" where
  "unlink p fs = fs(p := None)"

section \<open>Archives\<close>

record zip_item =
  zi_filename :: string
  zi_flag_bits :: nat
  zi_external_attr :: nat
  zi_file_size :: int
  zi_data :: "import_error + string"

record import_env =
  wi_workspace_root :: "string list"
  wi_artifact_root :: "string list"
  wi_max_upload_bytes :: int
  wi_max_workspace_files :: int
  wi_max_uncompressed_bytes :: int
  wi_allowed_git_url_schemes :: string
  wi_allowed_git_hosts :: string
  wi_unzip :: "string \<Rightarrow> zip_item list option"
  wi_archive :: "files \<Rightarrow> string list \<Rightarrow> string"
  wi_sha :: "string \<Rightarrow> string"
  wi_ipv6 :: "string \<Rightarrow> bool option"

definition zip_is_dir :: "zip_item \<Rightarrow> bool" where
  "zip_is_dir item \<longleftrightarrow> zi_filename item \<noteq> [] \<and> last (zi_filename item) = CHR ''/''"

definition is_zip_symlink :: "zip_item \<Rightarrow> bool" where
  "is_zip_symlink item \<longleftrightarrow> zi_external_attr item div 65536 div 4096 mod 16 = 10"

definition destination :: "string list \<Rightarrow> zip_item \<Rightarrow> string list" where
  "destination target item =
     resolve_parts (if is_absolute (zi_filename item) then path_parts (zi_filename item)
                    else target @ path_parts (zi_filename item))"

text \<open>The first loop of \<open>_extract_zip\<close>: the files and bytes counted so far come along.\<close>

fun check_items :: "import_env \<Rightarrow> string list \<Rightarrow> int \<Rightarrow> int \<Rightarrow> zip_item list \<Rightarrow> import_error + unit" where
  "check_items env target files bytes [] = Inr ()"
| "check_items env target files bytes (item # items) =
     (if odd (zi_flag_bits item) then Inl (WorkspaceImportError (''encrypted zip entries are not allowed: '' @ zi_filename item))
      else if is_zip_symlink item then Inl (WorkspaceImportError (''zip symlink entries are not allowed: '' @ zi_filename item))
      else if zip_is_dir item then check_items env target files bytes items
      else
        let files = files + 1; bytes = bytes + zi_file_size item
        in if 0 < wi_max_workspace_files env \<and> wi_max_workspace_files env < files
           then Inl (WorkspaceImportError (''zip contains too many files: limit '' @ int_str (wi_max_workspace_files env)))
           else if 0 < wi_max_uncompressed_bytes env \<and> wi_max_uncompressed_bytes env < bytes
           then Inl (WorkspaceImportError (''zip uncompressed size exceeds '' @ int_str (wi_max_uncompressed_bytes env) @ '' bytes''))
           else if \<not> prefix (resolve_parts target) (destination target item)
           then Inl (WorkspaceImportError (''zip entry escapes target directory: '' @ zi_filename item))
           else check_items env target files bytes items)"

text \<open>
  One file of the second loop. What a damaged entry leaves half written goes with the workspace.
\<close>

definition extract_item :: "string list \<Rightarrow> zip_item \<Rightarrow> files \<Rightarrow> (import_error + unit) \<times> files" where
  "extract_item target item fs =
     (case mkdirs (butlast (destination target item)) fs of
        (Inl e, fs1) \<Rightarrow> (Inl e, fs1)
      | (Inr _, fs1) \<Rightarrow>
          (case zi_data item of
             Inl e \<Rightarrow> (Inl e, fs1)
           | Inr content \<Rightarrow> write_bytes (destination target item) content fs1))"

fun extract_items :: "string list \<Rightarrow> zip_item list \<Rightarrow> files \<Rightarrow> (import_error + unit) \<times> files" where
  "extract_items target [] fs = (Inr (), fs)"
| "extract_items target (item # items) fs =
     (if zip_is_dir item then extract_items target items fs
      else case extract_item target item fs of
        (Inl e, fs1) \<Rightarrow> (Inl e, fs1)
      | (Inr _, fs1) \<Rightarrow> extract_items target items fs1)"

definition extract_zip :: "import_env \<Rightarrow> string \<Rightarrow> string list \<Rightarrow> files \<Rightarrow> (import_error + unit) \<times> files" where
  "extract_zip env archive target fs =
     (case wi_unzip env archive of
        None \<Rightarrow> (Inl BadZipFile, fs)
      | Some items \<Rightarrow>
          (case check_items env target 0 0 items of
             Inl e \<Rightarrow> (Inl e, fs)
           | Inr _ \<Rightarrow> extract_items target items fs))"

text \<open>\<open>_copy_limited\<close>: what was written, or the refusal.\<close>

fun copy_limited :: "int \<Rightarrow> int \<Rightarrow> string list \<Rightarrow> string \<Rightarrow> import_error + string" where
  "copy_limited max_bytes copied [] written = Inr written"
| "copy_limited max_bytes copied (chunk # chunks) written =
     (let copied = copied + int (length chunk)
      in if 0 < max_bytes \<and> max_bytes < copied
         then Inl (WorkspaceImportError (''upload exceeds '' @ int_str max_bytes @ '' bytes''))
         else copy_limited max_bytes copied chunks (written @ chunk))"

section \<open>Importing an archive\<close>

definition workspace_path :: "import_env \<Rightarrow> string \<Rightarrow> string \<Rightarrow> string list" where
  "workspace_path env project_id snapshot_id = wi_workspace_root env @ [project_id, snapshot_id]"

definition upload_path :: "import_env \<Rightarrow> string \<Rightarrow> string \<Rightarrow> string \<Rightarrow> string list" where
  "upload_path env project_id snapshot_id filename =
     wi_artifact_root env @ [''uploads'', project_id, snapshot_id @ ''-'' @ path_name (path_parts filename)]"

definition snapshot_archive_path :: "import_env \<Rightarrow> string \<Rightarrow> string \<Rightarrow> string list" where
  "snapshot_archive_path env project_id snapshot_id = wi_artifact_root env @ [''snapshots'', project_id, snapshot_id @ ''.zip'']"

definition snapshot_result ::
  "import_env \<Rightarrow> string \<Rightarrow> string \<Rightarrow> string \<Rightarrow> string \<Rightarrow> files \<Rightarrow> (import_error + dict) \<times> files" where
  "snapshot_result env project_id snapshot_id source_ref source_type fs =
     (let ws = workspace_path env project_id snapshot_id;
          archive = snapshot_archive_path env project_id snapshot_id;
          content = wi_archive env fs ws
      in case mkdirs (butlast archive) fs of
           (Inl e, fs1) \<Rightarrow> (Inl e, fs1)
         | (Inr _, fs1) \<Rightarrow>
             (case write_bytes archive content fs1 of
                (Inl e, fs2) \<Rightarrow> (Inl e, fs2)
              | (Inr _, fs2) \<Rightarrow>
                  (Inr [(''snapshot_id'', PStr snapshot_id), (''project_id'', PStr project_id), (''source_type'', PStr source_type),
                        (''source_ref'', PStr source_ref), (''workspace_path'', PStr (''/'' @ posix_of ws)),
                        (''artifact_path'', PStr (''/'' @ posix_of archive)), (''content_hash'', PStr (wi_sha env content))], fs2)))"

definition store_upload :: "import_env \<Rightarrow> string list \<Rightarrow> string list \<Rightarrow> files \<Rightarrow> (import_error + string) \<times> files" where
  "store_upload env p chunks fs =
     (case mkdirs (butlast p) fs of
        (Inl e, fs1) \<Rightarrow> (Inl e, fs1)
      | (Inr _, fs1) \<Rightarrow>
          (case copy_limited (wi_max_upload_bytes env) 0 chunks [] of
             Inl e \<Rightarrow> (Inl e, unlink p fs1)
           | Inr content \<Rightarrow> (case write_bytes p content fs1 of (Inl e, fs2) \<Rightarrow> (Inl e, fs2) | (Inr _, fs2) \<Rightarrow> (Inr content, fs2))))"

text \<open>
  The handlers of \<open>import_zip\<close>, in their order. \<open>WorkspaceImportError\<close> is a \<open>RuntimeError\<close>, so the
  second handler takes it and the third is never reached; an \<open>OSError\<close> passes all of them.
\<close>

definition handle_extraction :: "string list \<Rightarrow> import_error \<Rightarrow> files \<Rightarrow> import_error \<times> files" where
  "handle_extraction ws exc fs =
     (case exc of
        BadZipFile \<Rightarrow> (WorkspaceImportError ''invalid zip archive'', rmtree ws fs)
      | RuntimeFailure m \<Rightarrow> (WorkspaceImportError (''failed to extract zip archive: '' @ m), rmtree ws fs)
      | WorkspaceImportError m \<Rightarrow> (WorkspaceImportError (''failed to extract zip archive: '' @ m), rmtree ws fs)
      | other \<Rightarrow> (other, fs))"

definition import_zip ::
  "import_env \<Rightarrow> string \<Rightarrow> string \<Rightarrow> string \<Rightarrow> string list \<Rightarrow> files \<Rightarrow> (import_error + dict) \<times> files" where
  "import_zip env snapshot_id project_id filename chunks fs =
     (let ws = workspace_path env project_id snapshot_id
      in case store_upload env (upload_path env project_id snapshot_id filename) chunks fs of
           (Inl e, fs1) \<Rightarrow> (Inl e, fs1)
         | (Inr archive, fs1) \<Rightarrow>
             (case mkdirs ws fs1 of
                (Inl e, fs2) \<Rightarrow> (Inl e, fs2)
              | (Inr _, fs2) \<Rightarrow>
                  (case extract_zip env archive ws fs2 of
                     (Inl exc, fs3) \<Rightarrow> (case handle_extraction ws exc fs3 of (e, fs4) \<Rightarrow> (Inl e, fs4))
                   | (Inr _, fs3) \<Rightarrow> snapshot_result env project_id snapshot_id filename ''zip'' fs3)))"

section \<open>The URL of a repository\<close>

text \<open>\<open>urllib.parse.urlsplit\<close>, as far as it is used; a netloc with an unmatched bracket raises.\<close>

record url =
  url_scheme :: string
  url_netloc :: string
  url_hostname :: "string option"

definition scheme_char :: "char \<Rightarrow> bool" where
  "scheme_char c \<longleftrightarrow> is_alnum c \<or> c \<in> set ''+-.''"

definition before :: "char \<Rightarrow> string \<Rightarrow> string" where
  "before c s = takeWhile (\<lambda>x. x \<noteq> c) s"

definition after :: "char \<Rightarrow> string \<Rightarrow> string" where
  "after c s = tl (dropWhile (\<lambda>x. x \<noteq> c) s)"

definition split_scheme :: "string \<Rightarrow> string \<times> string" where
  "split_scheme s =
     (let p = before (CHR '':'') s
      in if CHR '':'' \<in> set s \<and> p \<noteq> [] \<and> (is_lower (hd p) \<or> is_upper (hd p)) \<and> list_all scheme_char p
         then (str_lower p, after (CHR '':'') s) else ([], s))"

definition hostname_of :: "string \<Rightarrow> string option" where
  "hostname_of netloc =
     (let hostinfo = last (split_on (CHR ''@'') netloc);
          h = (if CHR ''['' \<in> set hostinfo then before (CHR '']'') (after (CHR ''['') hostinfo) else before (CHR '':'') hostinfo)
      in if h = [] then None
         else Some (str_lower (before (CHR 0x25) h) @ (if CHR 0x25 \<in> set h then [CHR 0x25] @ after (CHR 0x25) h else [])))"

definition url_parse :: "import_env \<Rightarrow> string \<Rightarrow> import_error + url" where
  "url_parse env s =
     (let s = filter (\<lambda>c. chr_code c \<notin> {9, 10, 13}) (dropWhile (\<lambda>c. chr_code c \<le> 32) s);
          (scheme, rest) = split_scheme s;
          netloc = (if starts_with rest ''//'' then takeWhile (\<lambda>c. c \<notin> set ''/?#'') (drop 2 rest) else []);
          open_br = CHR ''['' \<in> set netloc; close_br = CHR '']'' \<in> set netloc
      in if open_br \<noteq> close_br then Inl (UrlValueError ''Invalid IPv6 URL'')
         else if open_br \<and> wi_ipv6 env (before (CHR '']'') (after (CHR ''['') netloc)) = None
         then Inl (UrlValueError ''not an IPv6 address'')
         else Inr \<lparr>url_scheme = scheme, url_netloc = netloc, url_hostname = hostname_of netloc\<rparr>)"

text \<open>\<open>ipaddress.IPv4Address\<close>: four decimal octets without leading zeros.\<close>

definition octet :: "string \<Rightarrow> nat option" where
  "octet s = (if s \<noteq> [] \<and> length s \<le> 3 \<and> list_all is_digit s \<and> (hd s \<noteq> CHR ''0'' \<or> length s = 1)
     then (case nat_of_str s of Some n \<Rightarrow> if n \<le> 255 then Some n else None | None \<Rightarrow> None) else None)"

definition ipv4 :: "string \<Rightarrow> (nat \<times> nat \<times> nat \<times> nat) option" where
  "ipv4 s = (case map octet (split_on (CHR ''.'') s) of
     [Some a, Some b, Some c, Some d] \<Rightarrow> Some (a, b, c, d) | _ \<Rightarrow> None)"

text \<open>Private, loopback, link-local, multicast, reserved or unspecified.\<close>

definition ipv4_refused :: "nat \<times> nat \<times> nat \<times> nat \<Rightarrow> bool" where
  "ipv4_refused ip = (case ip of (a, b, c, d) \<Rightarrow>
     a = 0 \<or> a = 10 \<or> a = 127 \<or> (a = 169 \<and> b = 254) \<or> (a = 172 \<and> 16 \<le> b \<and> b < 32) \<or>
     (a = 192 \<and> b = 0 \<and> c = 0 \<and> d \<noteq> 9 \<and> d \<noteq> 10) \<or> (a = 192 \<and> b = 0 \<and> c = 2) \<or> (a = 192 \<and> b = 168) \<or>
     (a = 198 \<and> (b = 18 \<or> b = 19)) \<or> (a = 198 \<and> b = 51 \<and> c = 100) \<or> (a = 203 \<and> b = 0 \<and> c = 113) \<or> 224 \<le> a)"

definition ip_refused :: "import_env \<Rightarrow> string \<Rightarrow> bool option" where
  "ip_refused env s = (case ipv4 s of Some ip \<Rightarrow> Some (ipv4_refused ip) | None \<Rightarrow> wi_ipv6 env s)"

definition normalize_host :: "string \<Rightarrow> string" where
  "normalize_host host =
     str_lower (rev (dropWhile (\<lambda>c. c = CHR ''.'') (rev (strip_by (\<lambda>c. c = CHR ''['' \<or> c = CHR '']'') (str_strip host)))))"

definition allowed_git_url_schemes :: "import_env \<Rightarrow> string list" where
  "allowed_git_url_schemes env =
     map (\<lambda>i. str_lower (str_strip i)) (filter (\<lambda>i. str_strip i \<noteq> []) (split_on (CHR '','') (wi_allowed_git_url_schemes env)))"

definition allowed_git_hosts :: "import_env \<Rightarrow> string list" where
  "allowed_git_hosts env = map normalize_host (filter (\<lambda>i. str_strip i \<noteq> []) (split_on (CHR '','') (wi_allowed_git_hosts env)))"

definition validate_git_host :: "import_env \<Rightarrow> string option \<Rightarrow> import_error + unit" where
  "validate_git_host env host =
     (let normalized = normalize_host (case host of None \<Rightarrow> [] | Some h \<Rightarrow> h)
      in if normalized = [] then Inl (WorkspaceImportError ''Git URL host is required'')
         else if normalized \<in> set (allowed_git_hosts env) then Inr ()
         else if normalized = ''localhost'' \<or> ends_with normalized ''.localhost''
         then Inl (WorkspaceImportError ''Git URL host is not allowed: localhost'')
         else (case ip_refused env normalized of
                 Some True \<Rightarrow> Inl (WorkspaceImportError (''Git URL host is not allowed: '' @ normalized))
               | _ \<Rightarrow> Inr ()))"

definition is_scp_like_git_url :: "string \<Rightarrow> bool" where
  "is_scp_like_git_url value \<longleftrightarrow>
     \<not> (contains value ''://'' \<or> starts_with value ''/'' \<or> starts_with value ''.'') \<and>
     CHR ''@'' \<in> set value \<and> CHR '':'' \<in> set (after (CHR ''@'') value)"

definition scp_like_git_host :: "string \<Rightarrow> string" where
  "scp_like_git_host value =
     before (CHR '':'') (if CHR ''@'' \<in> set value then after (CHR ''@'') value else value)"

definition validate_git_url :: "import_env \<Rightarrow> string \<Rightarrow> import_error + unit" where
  "validate_git_url env git_url =
     (let value = str_strip git_url; allowed = allowed_git_url_schemes env
      in if value = [] then Inl (WorkspaceImportError ''git_url is required'')
         else if is_scp_like_git_url value then
           (if ''ssh'' \<notin> set allowed
            then Inl (WorkspaceImportError ''scp-like Git SSH URLs are not allowed by ALLOWED_GIT_URL_SCHEMES'')
            else validate_git_host env (Some (scp_like_git_host value)))
         else (case url_parse env value of
           Inl e \<Rightarrow> Inl e
         | Inr u \<Rightarrow>
             if url_scheme u = [] then Inl (WorkspaceImportError ''local Git paths are not allowed; use an allowed remote URL scheme'')
             else if url_scheme u = ''file'' then Inl (WorkspaceImportError ''file:// Git URLs are not allowed'')
             else if url_scheme u \<notin> set allowed
             then Inl (WorkspaceImportError (''Git URL scheme '' @ [CHR 0x27] @ url_scheme u @ [CHR 0x27] @ '' is not allowed''))
             else if url_scheme u \<in> {''http'', ''https'', ''ssh'', ''git''} \<and> url_netloc u = []
             then Inl (WorkspaceImportError ''Git URL host is required'')
             else validate_git_host env (url_hostname u)))"

text \<open>
  \<open>import_git\<close>: \<open>clone\<close> is what running \<open>git\<close> does to the file system, with the text of its failure
  or None for exit status 0.
\<close>

definition git_command :: "string \<Rightarrow> string option \<Rightarrow> string list \<Rightarrow> string list" where
  "git_command git_url ref ws =
     [''git'', ''clone'', ''--depth'', ''1''] @ (case ref of Some r \<Rightarrow> if r = [] then [] else [''--branch'', r] | None \<Rightarrow> [])
     @ [''--'', git_url, ''/'' @ posix_of ws]"

definition import_git ::
  "import_env \<Rightarrow> (string list \<Rightarrow> files \<Rightarrow> string option \<times> files) \<Rightarrow> string \<Rightarrow> string \<Rightarrow> string \<Rightarrow> string option \<Rightarrow> files
     \<Rightarrow> (import_error + dict) \<times> files" where
  "import_git env clone snapshot_id project_id git_url ref fs =
     (case validate_git_url env git_url of
        Inl e \<Rightarrow> (Inl e, fs)
      | Inr _ \<Rightarrow>
          let ws = workspace_path env project_id snapshot_id
          in case mkdirs (butlast ws) fs of
               (Inl e, fs1) \<Rightarrow> (Inl e, fs1)
             | (Inr _, fs1) \<Rightarrow>
                 (case clone (git_command git_url ref ws) fs1 of
                    (Some message, fs2) \<Rightarrow> (Inl (WorkspaceImportError (str_strip (if message = [] then ''git clone failed'' else message))), fs2)
                  | (None, fs2) \<Rightarrow>
                      snapshot_result env project_id snapshot_id
                        (case ref of Some r \<Rightarrow> if r = [] then git_url else r | None \<Rightarrow> git_url) ''git'' fs2))"

end
