(* ===== verification/Workspace_Contracts.thy ===== *)
theory Workspace_Contracts
  imports Workspace_Import
begin

text \<open>
  What an import does to the file system: it stays inside the workspace, its own upload and its own
  snapshot archive, puts every file of the archive into the workspace, and leaves no workspace when
  it refuses the archive; and which hosts a repository may be cloned from.
\<close>

section \<open>Where changes happen\<close>

text \<open>Only paths of \<open>may\<close> change, apart from directories made at paths of \<open>dir\<close>.\<close>

definition touches :: "(string list \<Rightarrow> bool) \<Rightarrow> (string list \<Rightarrow> bool) \<Rightarrow> files \<Rightarrow> files \<Rightarrow> bool" where
  "touches may dir fs fs' \<longleftrightarrow> (\<forall>q. fs' q = fs q \<or> may q \<or> (dir q \<and> fs q = None \<and> fs' q = Some Dir))"

lemma touches_refl [simp]: "touches may dir fs fs"
  by (simp add: touches_def)

lemma touches_trans: "touches may dir fs fs1 \<Longrightarrow> touches may dir fs1 fs2 \<Longrightarrow> touches may dir fs fs2"
  unfolding touches_def by (metis option.distinct(1))

lemma touches_mkdirs:
  assumes "mkdirs p fs = (r, fs')" and "\<And>q. prefix q p \<Longrightarrow> may q \<or> dir q"
  shows "touches may dir fs fs'"
proof -
  have free: "fs q = None \<or> fs q = Some Dir" if "prefix q p"
      "\<not> list_ex (\<lambda>n. case fs (take n p) of Some (File _) \<Rightarrow> True | _ \<Rightarrow> False) [0..<Suc (length p)]" for q
  proof (rule ccontr)
    assume "\<not> (fs q = None \<or> fs q = Some Dir)"
    then obtain c where "fs q = Some (File c)" by (metis node.exhaust option.exhaust)
    moreover have "take (length q) p = q" "length q \<in> set [0..<Suc (length p)]"
      using that(1) by (auto simp: prefix_def)
    ultimately show False using that(2) by (force simp: list_ex_iff simp del: upt_Suc)
  qed
  have "fs' q = fs q \<or> may q \<or> (dir q \<and> fs q = None \<and> fs' q = Some Dir)" for q
    using free [of q] assms(2) [of q] assms(1) by (auto simp: mkdirs_def simp del: upt_Suc split: if_splits)
  then show ?thesis by (simp add: touches_def)
qed

lemma mkdirs_keeps_file:
  assumes "mkdirs p fs = (r, fs')" and "fs q = Some (File c)" shows "fs' q = Some (File c)"
  using touches_mkdirs [OF assms(1), of "\<lambda>_. False" "\<lambda>_. True"] assms(2) by (auto simp: touches_def dest: spec [of _ q])

lemma touches_write: "write_bytes p content fs = (r, fs') \<Longrightarrow> may p \<Longrightarrow> touches may dir fs fs'"
  by (auto simp: write_bytes_def touches_def split: if_splits)

lemma touches_rmtree: "(\<And>q. prefix p q \<Longrightarrow> may q) \<Longrightarrow> touches may dir fs (rmtree p fs)"
  by (simp add: rmtree_def touches_def)

lemma touches_unlink: "may p \<Longrightarrow> touches may dir fs (unlink p fs)"
  by (simp add: unlink_def touches_def)

section \<open>Extraction\<close>

text \<open>What the first loop has made sure of.\<close>

lemma checked_items:
  "check_items env target n b items = Inr () \<Longrightarrow> item \<in> set items \<Longrightarrow>
     even (zi_flag_bits item) \<and> \<not> is_zip_symlink item \<and>
     (\<not> zip_is_dir item \<longrightarrow> prefix (resolve_parts target) (destination target item))"
  by (induction items arbitrary: n b) (auto simp: Let_def split: if_splits)

lemma checked_count:
  "check_items env target n b items = Inr () \<Longrightarrow> 0 < wi_max_workspace_files env \<Longrightarrow> n \<le> wi_max_workspace_files env \<Longrightarrow>
     n + int (length (filter (\<lambda>i. \<not> zip_is_dir i) items)) \<le> wi_max_workspace_files env"
proof (induction items arbitrary: n b)
  case (Cons item items)
  show ?case
  proof (cases "zip_is_dir item")
    case True
    with Cons show ?thesis by (auto split: if_splits)
  next
    case False
    with Cons.prems have "check_items env target (n + 1) (b + zi_file_size item) items = Inr ()" "n + 1 \<le> wi_max_workspace_files env"
      by (auto simp: Let_def split: if_splits)
    from Cons.IH [OF this(1) Cons.prems(2) this(2)] False show ?thesis by simp
  qed
qed simp

lemma checked_size:
  "check_items env target n b items = Inr () \<Longrightarrow> 0 < wi_max_uncompressed_bytes env \<Longrightarrow> b \<le> wi_max_uncompressed_bytes env \<Longrightarrow>
     b + sum_list (map zi_file_size (filter (\<lambda>i. \<not> zip_is_dir i) items)) \<le> wi_max_uncompressed_bytes env"
proof (induction items arbitrary: n b)
  case (Cons item items)
  show ?case
  proof (cases "zip_is_dir item")
    case True
    with Cons show ?thesis by (auto split: if_splits)
  next
    case False
    with Cons.prems have "check_items env target (n + 1) (b + zi_file_size item) items = Inr ()" "b + zi_file_size item \<le> wi_max_uncompressed_bytes env"
      by (auto simp: Let_def split: if_splits)
    from Cons.IH [OF this(1) Cons.prems(2) this(2)] False show ?thesis by simp
  qed
qed simp

lemma extract_item_touches:
  assumes "extract_item target item fs = (r, fs')" and "prefix target (destination target item)"
    and "\<And>q. prefix target q \<Longrightarrow> may q" and "\<And>q. strict_prefix q target \<Longrightarrow> dir q"
  shows "touches may dir fs fs'"
proof -
  obtain r1 fs1 where m: "mkdirs (butlast (destination target item)) fs = (r1, fs1)"
    by (cases "mkdirs (butlast (destination target item)) fs")
  have "may q \<or> dir q" if "prefix q (butlast (destination target item))" for q
  proof -
    have "prefix q (destination target item)"
      using that prefixeq_butlast prefix_order.trans by blast
    with assms(2) have "prefix target q \<or> prefix q target" using prefix_same_cases by blast
    with assms(3,4) show ?thesis by (auto simp: strict_prefix_def)
  qed
  with touches_mkdirs [OF m] have one: "touches may dir fs fs1" by blast
  show ?thesis
  proof (cases r1)
    case (Inl e)
    with assms(1) m one show ?thesis by (simp add: extract_item_def)
  next
    case (Inr u)
    show ?thesis
    proof (cases "zi_data item")
      case (Inl e)
      with assms(1) m one Inr show ?thesis by (simp add: extract_item_def)
    next
      case data: (Inr content)
      with assms(1) m Inr have "write_bytes (destination target item) content fs1 = (r, fs')" by (simp add: extract_item_def)
      from touches_write [OF this] assms(2,3) one show ?thesis by (blast intro: touches_trans)
    qed
  qed
qed

lemma extract_items_touches:
  assumes "extract_items target items fs = (r, fs')"
    and "\<forall>item \<in> set items. \<not> zip_is_dir item \<longrightarrow> prefix target (destination target item)"
    and "\<And>q. prefix target q \<Longrightarrow> may q" and "\<And>q. strict_prefix q target \<Longrightarrow> dir q"
  shows "touches may dir fs fs'"
  using assms(1,2)
proof (induction items arbitrary: fs)
  case (Cons item items)
  show ?case
  proof (cases "zip_is_dir item")
    case False
    obtain r1 fs1 where one: "extract_item target item fs = (r1, fs1)" by (cases "extract_item target item fs")
    have "touches may dir fs fs1"
      using extract_item_touches [OF one] Cons.prems False assms(3,4) by simp
    with Cons one False show ?thesis
      by (cases r1) (auto intro: touches_trans)
  qed (use Cons in simp)
qed simp

text \<open>A file stays as it is unless a later entry has the same destination.\<close>

lemma extract_item_keeps:
  assumes "extract_item target item fs = (r, fs')" and "fs q = Some (File c)" and "q \<noteq> destination target item"
  shows "fs' q = Some (File c)"
proof -
  obtain r1 fs1 where m: "mkdirs (butlast (destination target item)) fs = (r1, fs1)"
    by (cases "mkdirs (butlast (destination target item)) fs")
  have "fs1 q = Some (File c)" by (rule mkdirs_keeps_file [OF m assms(2)])
  with assms m show ?thesis
    by (auto simp: extract_item_def write_bytes_def split: sum.splits if_splits)
qed

lemma extract_items_keeps:
  "extract_items target items fs = (r, fs') \<Longrightarrow> fs q = Some (File c) \<Longrightarrow>
   \<forall>item \<in> set items. \<not> zip_is_dir item \<longrightarrow> destination target item \<noteq> q \<Longrightarrow> fs' q = Some (File c)"
proof (induction items arbitrary: fs)
  case (Cons item items)
  show ?case
  proof (cases "zip_is_dir item")
    case False
    obtain r1 fs1 where one: "extract_item target item fs = (r1, fs1)" by (cases "extract_item target item fs")
    have "fs1 q = Some (File c)" using extract_item_keeps [OF one Cons.prems(2)] Cons.prems(3) False by auto
    with Cons one False show ?thesis by (cases r1) auto
  qed (use Cons in simp)
qed simp

lemma extracted_content:
  "extract_items target items fs = (Inr (), fs') \<Longrightarrow> items = pre @ item # post \<Longrightarrow> \<not> zip_is_dir item \<Longrightarrow>
   \<forall>i \<in> set post. \<not> zip_is_dir i \<longrightarrow> destination target i \<noteq> destination target item \<Longrightarrow>
   \<exists>c. zi_data item = Inr c \<and> fs' (destination target item) = Some (File c)"
proof (induction pre arbitrary: items fs)
  case Nil
  obtain r1 fs1 where one: "extract_item target item fs = (r1, fs1)" by (cases "extract_item target item fs")
  with Nil have rest: "r1 = Inr ()" "extract_items target post fs1 = (Inr (), fs')" by (cases r1; simp)+
  from one rest(1) obtain c where "zi_data item = Inr c" "fs1 (destination target item) = Some (File c)"
    by (auto simp: extract_item_def write_bytes_def split: sum.splits prod.splits if_splits)
  with extract_items_keeps [OF rest(2)] Nil.prems(4) show ?case by blast
next
  case (Cons p pre)
  show ?case
  proof (cases "zip_is_dir p")
    case True
    with Cons show ?thesis by auto
  next
    case False
    obtain r1 fs1 where one: "extract_item target p fs = (r1, fs1)" by (cases "extract_item target p fs")
    with Cons.prems False have "extract_items target (pre @ item # post) fs1 = (Inr (), fs')" by (cases r1) auto
    from Cons.IH [OF this refl Cons.prems(3,4)] show ?thesis .
  qed
qed

section \<open>The import\<close>

lemma store_upload_touches:
  assumes "store_upload env p chunks fs = (r, fs')" and "may p" and "\<And>q. strict_prefix q p \<Longrightarrow> dir q"
  shows "touches may dir fs fs'"
proof -
  obtain r1 fs1 where m: "mkdirs (butlast p) fs = (r1, fs1)" by (cases "mkdirs (butlast p) fs")
  have "may q \<or> dir q" if "prefix q (butlast p)" for q
    using that assms(2,3) prefixeq_butlast [of p] by (metis prefix_order.dual_order.strict_iff_order prefix_order.trans)
  with touches_mkdirs [OF m] have one: "touches may dir fs fs1" by blast
  show ?thesis
  proof (cases r1)
    case (Inr u)
    show ?thesis
    proof (cases "copy_limited (wi_max_upload_bytes env) 0 chunks []")
      case (Inl e)
      with assms(1) m Inr have "fs' = unlink p fs1" by (simp add: store_upload_def)
      with one touches_unlink assms(2) show ?thesis by (metis touches_trans)
    next
      case written: (Inr content)
      obtain r2 fs2 where w: "write_bytes p content fs1 = (r2, fs2)" by (cases "write_bytes p content fs1")
      with assms(1) m Inr written have "fs' = fs2" by (cases r2) (simp_all add: store_upload_def)
      with one touches_write [OF w, of may dir] assms(2) show ?thesis by (metis touches_trans)
    qed
  qed (use assms(1) m one in \<open>simp add: store_upload_def\<close>)
qed

lemma snapshot_result_touches:
  assumes "snapshot_result env project_id snapshot_id source_ref source_type fs = (r, fs')"
    and "may (snapshot_archive_path env project_id snapshot_id)"
    and "\<And>q. strict_prefix q (snapshot_archive_path env project_id snapshot_id) \<Longrightarrow> dir q"
  shows "touches may dir fs fs'"
proof -
  let ?p = "snapshot_archive_path env project_id snapshot_id"
  obtain r1 fs1 where m: "mkdirs (butlast ?p) fs = (r1, fs1)" by (cases "mkdirs (butlast ?p) fs")
  have "may q \<or> dir q" if "prefix q (butlast ?p)" for q
    using that assms(2,3) prefixeq_butlast [of ?p] by (metis prefix_order.dual_order.strict_iff_order prefix_order.trans)
  with touches_mkdirs [OF m] have one: "touches may dir fs fs1" by blast
  let ?c = "wi_archive env fs (workspace_path env project_id snapshot_id)"
  obtain r2 fs2 where w: "write_bytes ?p ?c fs1 = (r2, fs2)" by (cases "write_bytes ?p ?c fs1")
  from assms(1) m w have "fs' = fs1 \<or> fs' = fs2"
    by (auto simp: snapshot_result_def Let_def split: sum.splits)
  with one touches_write [OF w, of may dir] assms(2) show ?thesis by (metis touches_trans)
qed

lemma handle_extraction_touches:
  "handle_extraction ws exc fs = (e, fs') \<Longrightarrow> (\<And>q. prefix ws q \<Longrightarrow> may q) \<Longrightarrow> touches may dir fs fs'"
  by (auto simp: handle_extraction_def touches_rmtree split: import_error.splits)

lemma extract_zip_touches:
  assumes "extract_zip env archive target fs = (r, fs')" and "''..'' \<notin> set target"
    and "\<And>q. prefix target q \<Longrightarrow> may q" and "\<And>q. strict_prefix q target \<Longrightarrow> dir q"
  shows "touches may dir fs fs'"
proof (cases "wi_unzip env archive")
  case (Some items)
  show ?thesis
  proof (cases "check_items env target 0 0 items")
    case (Inr u)
    then have "\<forall>item \<in> set items. \<not> zip_is_dir item \<longrightarrow> prefix target (destination target item)"
      using checked_items [of env target 0 0 items] resolve_parts_id [OF assms(2)] by auto
    with extract_items_touches [of target items fs r fs' may dir] assms Some Inr show ?thesis by (simp add: extract_zip_def)
  qed (use assms(1) Some in \<open>simp add: extract_zip_def\<close>)
qed (use assms(1) in \<open>simp add: extract_zip_def\<close>)

text \<open>C11. Whatever archive is uploaded and however the import ends, no path changes but those at or below
  the new workspace, the stored upload and the snapshot archive; above these three, directories are
  made where nothing was.\<close>

theorem zip_import_confined:
  assumes "import_zip env snapshot_id project_id filename chunks fs = (r, fs')"
    and "''..'' \<notin> set (workspace_path env project_id snapshot_id)" and "fs' q \<noteq> fs q"
  shows "prefix (workspace_path env project_id snapshot_id) q \<or>
    q = upload_path env project_id snapshot_id filename \<or> q = snapshot_archive_path env project_id snapshot_id \<or>
    (fs q = None \<and> fs' q = Some Dir \<and>
      (strict_prefix q (workspace_path env project_id snapshot_id) \<or> strict_prefix q (upload_path env project_id snapshot_id filename) \<or>
       strict_prefix q (snapshot_archive_path env project_id snapshot_id)))"
proof -
  let ?ws = "workspace_path env project_id snapshot_id" and ?up = "upload_path env project_id snapshot_id filename"
  let ?ar = "snapshot_archive_path env project_id snapshot_id"
  define may where "may q \<longleftrightarrow> prefix ?ws q \<or> q = ?up \<or> q = ?ar" for q
  define dir where "dir q \<longleftrightarrow> strict_prefix q ?ws \<or> strict_prefix q ?up \<or> strict_prefix q ?ar" for q
  obtain r1 fs1 where up: "store_upload env ?up chunks fs = (r1, fs1)" by (cases "store_upload env ?up chunks fs")
  have t1: "touches may dir fs fs1" by (rule store_upload_touches [OF up]) (simp_all add: may_def dir_def)
  have "touches may dir fs fs'"
  proof (cases r1)
    case (Inl e)
    with assms(1) up t1 show ?thesis by (simp add: import_zip_def)
  next
    case archive: (Inr archive)
    obtain r2 fs2 where mk: "mkdirs ?ws fs1 = (r2, fs2)" by (cases "mkdirs ?ws fs1")
    have t2: "touches may dir fs fs2"
      using touches_trans [OF t1 touches_mkdirs [OF mk]] by (auto simp: may_def dir_def strict_prefix_def)
    show ?thesis
    proof (cases r2)
      case (Inl e)
      with assms(1) up archive mk t2 show ?thesis by (simp add: import_zip_def)
    next
      case (Inr u)
      obtain r3 fs3 where ex: "extract_zip env archive ?ws fs2 = (r3, fs3)" by (cases "extract_zip env archive ?ws fs2")
      have t3: "touches may dir fs fs3"
        using touches_trans [OF t2 extract_zip_touches [OF ex assms(2)]] by (auto simp: may_def dir_def)
      show ?thesis
      proof (cases r3)
        case (Inl exc)
        obtain e fs4 where h: "handle_extraction ?ws exc fs3 = (e, fs4)" by (cases "handle_extraction ?ws exc fs3")
        with assms(1) up archive mk Inr ex Inl have "fs' = fs4" by (simp add: import_zip_def)
        with touches_trans [OF t3 handle_extraction_touches [OF h]] show ?thesis by (auto simp: may_def)
      next
        case over: (Inr v)
        with assms(1) up archive mk Inr ex
        have s: "snapshot_result env project_id snapshot_id filename ''zip'' fs3 = (r, fs')" by (simp add: import_zip_def)
        have "touches may dir fs3 fs'" by (rule snapshot_result_touches [OF s]) (simp_all add: may_def dir_def)
        with t3 show ?thesis by (rule touches_trans)
      qed
    qed
  qed
  with assms(3) show ?thesis by (auto simp: touches_def may_def dir_def)
qed

lemma copy_limited_all: "copy_limited m n chunks w = Inr content \<Longrightarrow> content = w @ concat chunks"
proof (induction chunks arbitrary: n w)
  case (Cons a chunks)
  then have "copy_limited m (n + int (length a)) chunks (w @ a) = Inr content"
    by (simp add: Let_def split: if_splits)
  from Cons.IH [OF this] show ?case by simp
qed simp

lemma store_upload_content:
  "store_upload env p chunks fs = (Inr content, fs') \<Longrightarrow> content = concat chunks"
  by (auto simp: store_upload_def split: prod.splits sum.splits dest: copy_limited_all)

text \<open>An import that returns, taken apart.\<close>

lemma import_zip_returns:
  assumes "import_zip env snapshot_id project_id filename chunks fs = (Inr result, fs')"
  obtains fs2 fs3 items where
    "wi_unzip env (concat chunks) = Some items"
    "check_items env (workspace_path env project_id snapshot_id) 0 0 items = Inr ()"
    "extract_items (workspace_path env project_id snapshot_id) items fs2 = (Inr (), fs3)"
    "snapshot_result env project_id snapshot_id filename ''zip'' fs3 = (Inr result, fs')"
  using assms
  by (auto simp: import_zip_def extract_zip_def Let_def dest!: store_upload_content split: prod.splits sum.splits option.splits)

text \<open>C28. An archive that is imported has kept to both limits, and every file of it is in the workspace, at a
  path below it, with the content of the last entry of this path.\<close>

theorem imported_files_present:
  assumes "import_zip env snapshot_id project_id filename chunks fs = (Inr result, fs')"
    and "ws = workspace_path env project_id snapshot_id" and "''..'' \<notin> set ws"
    and "\<not> prefix ws (snapshot_archive_path env project_id snapshot_id)"
  shows "\<exists>items. wi_unzip env (concat chunks) = Some items \<and>
    (0 < wi_max_workspace_files env \<longrightarrow> int (length (filter (\<lambda>i. \<not> zip_is_dir i) items)) \<le> wi_max_workspace_files env) \<and>
    (0 < wi_max_uncompressed_bytes env \<longrightarrow>
       sum_list (map zi_file_size (filter (\<lambda>i. \<not> zip_is_dir i) items)) \<le> wi_max_uncompressed_bytes env) \<and>
    (\<forall>pre item post. items = pre @ item # post \<and> \<not> zip_is_dir item \<and>
       (\<forall>i \<in> set post. \<not> zip_is_dir i \<longrightarrow> destination ws i \<noteq> destination ws item) \<longrightarrow>
       prefix ws (destination ws item) \<and>
       (\<exists>c. zi_data item = Inr c \<and> fs' (destination ws item) = Some (File c)))"
  using assms(1)
proof (rule import_zip_returns)
  fix fs2 fs3 items
  assume un: "wi_unzip env (concat chunks) = Some items"
    and ch: "check_items env (workspace_path env project_id snapshot_id) 0 0 items = Inr ()"
    and xt: "extract_items (workspace_path env project_id snapshot_id) items fs2 = (Inr (), fs3)"
    and sn: "snapshot_result env project_id snapshot_id filename ''zip'' fs3 = (Inr result, fs')"
  have t: "touches (\<lambda>q. q = snapshot_archive_path env project_id snapshot_id) (\<lambda>_. True) fs3 fs'"
    by (rule snapshot_result_touches [OF sn]) simp_all
  have "prefix ws (destination ws item) \<and> (\<exists>c. zi_data item = Inr c \<and> fs' (destination ws item) = Some (File c))"
    if i: "items = pre @ item # post" "\<not> zip_is_dir item"
      "\<forall>i \<in> set post. \<not> zip_is_dir i \<longrightarrow> destination ws i \<noteq> destination ws item" for pre item post
  proof -
    have below: "prefix ws (destination ws item)"
      using checked_items [OF ch, of item] i(1,2) resolve_parts_id [OF assms(3)] by (simp add: assms(2))
    obtain c where c: "zi_data item = Inr c" "fs3 (destination ws item) = Some (File c)"
      using extracted_content [OF xt i(1,2)] i(3) by (auto simp: assms(2))
    moreover have "destination ws item \<noteq> snapshot_archive_path env project_id snapshot_id" using below assms(4) by metis
    ultimately show ?thesis using below t by (auto simp: touches_def dest: spec [of _ "destination ws item"])
  qed
  with un checked_count [OF ch] checked_size [OF ch] show ?thesis by auto
qed

lemma snapshot_result_error: "snapshot_result env pid sid ref kind fs = (Inl e, fs') \<Longrightarrow> \<exists>m. e = OSFailure m"
  by (auto simp: snapshot_result_def mkdirs_def write_bytes_def Let_def split: prod.splits sum.splits if_splits)

lemma handled_extraction: "handle_extraction ws exc fs = (WorkspaceImportError m, fs') \<Longrightarrow> fs' = rmtree ws fs"
  by (cases exc) (auto simp: handle_extraction_def)

text \<open>An import refused with a \<open>WorkspaceImportError\<close>, the only error the callers handle, leaves nothing
  at or below the path of its workspace.\<close>

lemma refused_import_leaves_nothing:
  assumes "import_zip env snapshot_id project_id filename chunks fs = (Inl (WorkspaceImportError m), fs')"
    and "ws = workspace_path env project_id snapshot_id"
    and "\<forall>q. prefix ws q \<longrightarrow> fs q = None" and "\<not> prefix ws (upload_path env project_id snapshot_id filename)"
  shows "\<forall>q. prefix ws q \<longrightarrow> fs' q = None"
proof -
  let ?up = "upload_path env project_id snapshot_id filename"
  obtain r1 fs1 where up: "store_upload env ?up chunks fs = (r1, fs1)" by (cases "store_upload env ?up chunks fs")
  show ?thesis
  proof (cases r1)
    case (Inl e)
    have "touches (\<lambda>q. q = ?up) (\<lambda>q. strict_prefix q ?up) fs fs1" by (rule store_upload_touches [OF up]) simp_all
    moreover have "\<not> strict_prefix q ?up \<and> q \<noteq> ?up" if "prefix ws q" for q
      using that assms(4) by (auto simp: strict_prefix_def dest: prefix_order.trans)
    ultimately have "fs1 q = None" if "prefix ws q" for q using that assms(3) unfolding touches_def by metis
    with assms(1) up Inl show ?thesis by (simp add: import_zip_def)
  next
    case stored: (Inr archive)
    obtain r2 fs2 where mk: "mkdirs ws fs1 = (r2, fs2)" by (cases "mkdirs ws fs1")
    obtain r3 fs3 where ex: "extract_zip env archive ws fs2 = (r3, fs3)" by (cases "extract_zip env archive ws fs2")
    have "\<exists>u. r2 = Inr u"
      using assms(1,2) up stored mk by (cases r2) (auto simp: import_zip_def mkdirs_def split: if_splits)
    then have "\<exists>exc. r3 = Inl exc \<and> handle_extraction ws exc fs3 = (WorkspaceImportError m, fs')"
      using assms(1,2) up stored mk ex
      by (cases r3) (auto simp: import_zip_def split: prod.splits dest: snapshot_result_error)
    then have "fs' = rmtree ws fs3" by (auto dest: handled_extraction)
    then show ?thesis by (simp add: rmtree_def)
  qed
qed

section \<open>Hosts\<close>

text \<open>A repository URL passes only with an allowed scheme other than \<open>file\<close>, or in the form of \<open>scp\<close> where
  \<open>ssh\<close> is allowed, and only with a host that is listed or is neither \<open>localhost\<close> nor below it nor written as
  a refused address.\<close>

lemma git_url_checked:
  assumes "validate_git_url env git_url = Inr ()"
  shows "\<exists>host. host \<noteq> [] \<and>
    (host \<in> set (allowed_git_hosts env) \<or>
     (host \<noteq> ''localhost'' \<and> \<not> ends_with host ''.localhost'' \<and> ip_refused env host \<noteq> Some True)) \<and>
    (if is_scp_like_git_url (str_strip git_url)
     then ''ssh'' \<in> set (allowed_git_url_schemes env) \<and> host = normalize_host (scp_like_git_host (str_strip git_url))
     else \<exists>u. url_parse env (str_strip git_url) = Inr u \<and> url_scheme u \<noteq> ''file'' \<and>
       url_scheme u \<in> set (allowed_git_url_schemes env) \<and> url_hostname u \<noteq> None \<and>
       host = normalize_host (the (url_hostname u)))"
proof -
  have host: "\<exists>h. host = Some h \<and> normalize_host h \<noteq> [] \<and> (normalize_host h \<in> set (allowed_git_hosts env) \<or>
      (normalize_host h \<noteq> ''localhost'' \<and> \<not> ends_with (normalize_host h) ''.localhost'' \<and> ip_refused env (normalize_host h) \<noteq> Some True))"
    if "validate_git_host env host = Inr ()" for host
  proof (cases host)
    case None
    then show ?thesis using that by (simp add: validate_git_host_def normalize_host_def str_strip_def strip_by_def str_lower_def)
  next
    case (Some h)
    then show ?thesis using that by (auto simp: validate_git_host_def Let_def split: if_splits option.splits)
  qed
  show ?thesis
  proof (cases "is_scp_like_git_url (str_strip git_url)")
    case True
    with assms have "''ssh'' \<in> set (allowed_git_url_schemes env)" "validate_git_host env (Some (scp_like_git_host (str_strip git_url))) = Inr ()"
      by (auto simp: validate_git_url_def Let_def split: if_splits)
    with True host [OF this(2)] show ?thesis by auto
  next
    case False
    with assms obtain u where u: "url_parse env (str_strip git_url) = Inr u" "url_scheme u \<noteq> ''file''"
        "url_scheme u \<in> set (allowed_git_url_schemes env)" "validate_git_host env (url_hostname u) = Inr ()"
      by (auto simp: validate_git_url_def Let_def split: if_splits sum.splits)
    with False host [OF u(4)] show ?thesis by auto
  qed
qed

section \<open>Samples\<close>

definition plain_item :: "string \<Rightarrow> zip_item" where
  "plain_item name = \<lparr>zi_filename = name, zi_flag_bits = 0, zi_external_attr = 0, zi_file_size = 1, zi_data = Inr ''x''\<rparr>"

definition sample_import :: "string list \<Rightarrow> import_env" where
  "sample_import names = \<lparr>wi_workspace_root = [''ws''], wi_artifact_root = [''art''], wi_max_upload_bytes = 10,
     wi_max_workspace_files = 2, wi_max_uncompressed_bytes = 5, wi_allowed_git_url_schemes = ''https,ssh'', wi_allowed_git_hosts = [],
     wi_unzip = (\<lambda>s. if s = ''PK'' then Some (map plain_item names) else None), wi_archive = (\<lambda>_ _. ''zip''), wi_sha = (\<lambda>s. s),
     wi_ipv6 = (\<lambda>_. None)\<rparr>"

definition sample_import_of :: "string list \<Rightarrow> (import_error + dict) \<times> files" where
  "sample_import_of names = import_zip (sample_import names) ''s1'' ''p'' ''up.zip'' [''P'', ''K''] (\<lambda>_. None)"

lemmas sample_import_defs = sample_import_of_def sample_import_def import_zip_def store_upload_def upload_path_def workspace_path_def
  mkdirs_def write_bytes_def rmtree_def unlink_def extract_zip_def extract_item_def handle_extraction_def snapshot_result_def
  snapshot_archive_path_def destination_def plain_item_def zip_is_dir_def is_zip_symlink_def is_absolute_def starts_with_def
  path_parts_def path_name_def resolve_parts_def Let_def

lemma sample_import_good:
  "snd (sample_import_of [''src/a.py'']) [''ws'', ''p'', ''s1'', ''src'', ''a.py''] = Some (File ''x'')"
  "\<exists>r. fst (sample_import_of [''src/a.py'']) = Inr r"
  by (simp_all add: sample_import_defs)

lemma sample_import_bad: "\<exists>m. fst (sample_import_of [''a'', ''../b'']) = Inl (WorkspaceImportError m)"
  by (simp add: sample_import_defs)

text \<open>Two entries that cannot both be files: the error is not the one that is handled, and the workspace stays.\<close>

lemma clashing_entries_leave_workspace:
  "fst (sample_import_of [''a'', ''a/b'']) = Inl (OSFailure ''not a directory'')"
  "snd (sample_import_of [''a'', ''a/b'']) [''ws'', ''p'', ''s1'', ''a''] = Some (File ''x'')"
  by (simp_all add: sample_import_defs)

text \<open>The loopback address written as one number is no address for \<open>ipaddress\<close>.\<close>

lemma number_host_accepted: "validate_git_url (sample_import []) ''https://2130706433/x.git'' = Inr ()"
  by code_simp

theorem zip_import_confined_witness:
  "prefix [''ws'', ''p'', ''s1''] [''ws'', ''p'', ''s1'', ''src'', ''a.py''] \<and>
   snd (sample_import_of [''src/a.py'']) [''ws'', ''p'', ''s1'', ''src'', ''a.py''] \<noteq> None"
proof -
  obtain r fs' where i: "import_zip (sample_import [''src/a.py'']) ''s1'' ''p'' ''up.zip'' [''P'', ''K''] (\<lambda>_. None) = (r, fs')"
    by (cases "import_zip (sample_import [''src/a.py'']) ''s1'' ''p'' ''up.zip'' [''P'', ''K''] (\<lambda>_. None)")
  have c: "fs' [''ws'', ''p'', ''s1'', ''src'', ''a.py''] = Some (File ''x'')"
    using sample_import_good(1) i by (simp add: sample_import_of_def)
  from zip_import_confined [OF i, of "[''ws'', ''p'', ''s1'', ''src'', ''a.py'']"] c sample_import_good(1)
  show ?thesis by (simp add: workspace_path_def sample_import_def)
qed

theorem imported_files_present_witness:
  "\<exists>c. snd (sample_import_of [''src/a.py'']) [''ws'', ''p'', ''s1'', ''src'', ''a.py''] = Some (File c)"
proof -
  obtain result fs' where i: "import_zip (sample_import [''src/a.py'']) ''s1'' ''p'' ''up.zip'' [''P'', ''K''] (\<lambda>_. None) = (Inr result, fs')"
    using sample_import_good(2)
    by (cases "import_zip (sample_import [''src/a.py'']) ''s1'' ''p'' ''up.zip'' [''P'', ''K''] (\<lambda>_. None)")
      (auto simp: sample_import_of_def)
  have d: "destination [''ws'', ''p'', ''s1''] (plain_item ''src/a.py'') = [''ws'', ''p'', ''s1'', ''src'', ''a.py'']" by code_simp
  have u: "wi_unzip (sample_import [''src/a.py'']) (concat [''P'', ''K'']) = Some [plain_item ''src/a.py'']"
    by (simp add: sample_import_def)
  have n: "\<not> zip_is_dir (plain_item ''src/a.py'')" by code_simp
  have "\<exists>c. fs' (destination [''ws'', ''p'', ''s1''] (plain_item ''src/a.py'')) = Some (File c)"
    using imported_files_present [OF i, of "[''ws'', ''p'', ''s1'']"] u n
    by (fastforce simp: workspace_path_def snapshot_archive_path_def sample_import_def)
  with i d show ?thesis by (simp add: sample_import_of_def)
qed

lemma refused_import_leaves_nothing_witness:
  "snd (sample_import_of [''a'', ''../b'']) [''ws'', ''p'', ''s1''] = None"
proof -
  obtain m fs' where i: "import_zip (sample_import [''a'', ''../b'']) ''s1'' ''p'' ''up.zip'' [''P'', ''K''] (\<lambda>_. None) =
      (Inl (WorkspaceImportError m), fs')"
    using sample_import_bad
    by (cases "import_zip (sample_import [''a'', ''../b'']) ''s1'' ''p'' ''up.zip'' [''P'', ''K''] (\<lambda>_. None)")
      (auto simp: sample_import_of_def)
  have "\<forall>q. prefix [''ws'', ''p'', ''s1''] q \<longrightarrow> fs' q = None"
    by (rule refused_import_leaves_nothing [OF i])
      (simp_all add: workspace_path_def upload_path_def sample_import_def)
  with i show ?thesis by (simp add: sample_import_of_def)
qed

lemma git_url_checked_witness:
  "\<exists>host. host \<noteq> [] \<and> ip_refused (sample_import []) host \<noteq> Some True"
proof -
  have v: "validate_git_url (sample_import []) ''https://github.com/o/r.git'' = Inr ()" by code_simp
  have "allowed_git_hosts (sample_import []) = []" by code_simp
  with git_url_checked [OF v] show ?thesis by auto
qed

end
