(* ===== verification/Flow_Models.thy ===== *)
theory Flow_Models
  imports Py_Time
begin

text \<open>
  The relational model the split services share
  (\<open>services/platform-common/dieaudit_common/domain/models.py\<close>): one record per SQLAlchemy
  class, a field per column, named as in the theory of the platform's own models with a prefix
  of its own for each table. A floating point column is an opaque JSON number (\<open>pyval\<close>).

  \<open>flow_db\<close> is the database of \<open>web-api\<close> and \<open>workflow-worker\<close>: the tables their code
  reads or writes, the clock, the source of identifiers and the two sequences. The clock stands
  still inside a transaction, as \<open>now()\<close> does.
\<close>

record common_project = timestamped +
  cpr_project_id :: string
  cpr_name :: string
  cpr_source_type :: string
  cpr_source_uri :: "string option"
  cpr_default_branch :: "string option"
  cpr_status :: string
  cpr_metadata :: dict

record common_snapshot = timestamped +
  csn_snapshot_id :: string
  csn_project_id :: string
  csn_source_type :: string
  csn_source_ref :: "string option"
  csn_workspace_path :: string
  csn_artifact_path :: "string option"
  csn_content_hash :: "string option"
  csn_status :: string
  csn_metadata :: dict

record common_run = timestamped +
  car_audit_run_id :: string
  car_project_id :: string
  car_snapshot_id :: "string option"
  car_status :: string
  car_pipeline_status :: string
  car_current_stage :: "string option"
  car_worker_id :: "string option"
  car_cancel_requested :: bool
  car_workspace_path :: "string option"
  car_allow_external_network :: bool
  car_retain_runtime_on_failure :: bool
  car_config :: dict
  car_input_payload :: dict
  car_metadata :: dict

record pipeline_run = timestamped +
  cpi_pipeline_run_id :: string
  cpi_audit_run_id :: string
  cpi_status :: string
  cpi_started_at :: "time option"
  cpi_completed_at :: "time option"
  cpi_summary :: dict
  cpi_error :: "string option"

record stage_run = timestamped +
  cst_id :: int
  cst_pipeline_run_id :: string
  cst_audit_run_id :: string
  cst_stage :: string
  cst_status :: string
  cst_started_at :: "time option"
  cst_completed_at :: "time option"
  cst_summary :: dict
  cst_artifact_ids :: "string list"
  cst_error :: "string option"

record common_event = timestamped +
  cev_id :: int
  cev_audit_run_id :: string
  cev_subject :: string
  cev_event_type :: string
  cev_payload :: dict

record common_agent_run = timestamped +
  cag_agent_run_id :: string
  cag_audit_run_id :: string
  cag_project_id :: string
  cag_agent_name :: string
  cag_template_name :: string
  cag_protocol_kind :: string
  cag_status :: string
  cag_runtime_id :: "string option"
  cag_acp_session_id :: "string option"
  cag_decision_status :: "string option"
  cag_decision_reason :: "string option"
  cag_input_payload :: dict
  cag_output_payload :: dict
  cag_artifact_path :: "string option"
  cag_error :: "string option"

record common_agent_event = timestamped +
  cae_id :: int
  cae_agent_run_id :: string
  cae_event_type :: string
  cae_payload :: dict

record common_tool_run = timestamped +
  ctl_tool_run_id :: string
  ctl_audit_run_id :: string
  ctl_project_id :: string
  ctl_tool_name :: string
  ctl_status :: string
  ctl_input_payload :: dict
  ctl_output_payload :: dict
  ctl_artifact_ids :: "string list"
  ctl_error :: "string option"

record common_runtime = timestamped +
  crt_runtime_id :: string
  crt_audit_run_id :: string
  crt_project_id :: string
  crt_status :: string
  crt_runtime_kind :: string
  crt_runner_container_id :: "string option"
  crt_runner_container_name :: "string option"
  crt_network_name :: "string option"
  crt_mcp_containers :: "dict list"
  crt_container_ids :: "string list"
  crt_endpoint_url :: "string option"
  crt_ttl_expires_at :: "time option"
  crt_cleanup_status :: string
  crt_cleanup_reason :: "string option"
  crt_metadata :: dict

record common_transcript = timestamped +
  ctr_id :: int
  ctr_agent_run_id :: string
  ctr_audit_run_id :: string
  ctr_runtime_id :: "string option"
  ctr_seq :: int
  ctr_event_type :: string
  ctr_session_id :: "string option"
  ctr_payload :: dict
  ctr_content_text :: "string option"

record common_finding = timestamped +
  cfi_finding_id :: string
  cfi_audit_run_id :: string
  cfi_project_id :: string
  cfi_title :: string
  cfi_severity :: string
  cfi_status :: string
  cfi_file_path :: "string option"
  cfi_line_start :: "int option"
  cfi_line_end :: "int option"
  cfi_rule_id :: "string option"
  cfi_description :: "string option"
  cfi_source :: string
  cfi_metadata :: dict
  cfi_raw_result :: dict

record common_evidence = timestamped +
  cvd_evidence_id :: string
  cvd_finding_id :: "string option"
  cvd_audit_run_id :: string
  cvd_kind :: string
  cvd_summary :: "string option"
  cvd_artifact_ids :: "string list"
  cvd_payload :: dict

record common_triage = timestamped +
  ctd_decision_id :: string
  ctd_audit_run_id :: string
  ctd_project_id :: string
  ctd_finding_id :: "string option"
  ctd_card_id :: "string option"
  ctd_agent_run_id :: "string option"
  ctd_decision_status :: string
  ctd_decision_reason :: "string option"
  ctd_deep_dive_allowed :: bool
  ctd_poc_allowed :: bool
  ctd_confidence :: "string option"
  ctd_signals :: dict

record common_report = timestamped +
  crp_report_id :: string
  crp_audit_run_id :: string
  crp_title :: string
  crp_format :: string
  crp_artifact_id :: "string option"
  crp_summary :: dict

record common_artifact = timestamped +
  caf_artifact_id :: string
  caf_artifact_uri :: string
  caf_storage_backend :: string
  caf_path :: string
  caf_content_type :: "string option"
  caf_sha256 :: "string option"
  caf_size :: int
  caf_audit_run_id :: "string option"
  caf_project_id :: "string option"
  caf_metadata :: dict

record common_deliverable = timestamped +
  cda_artifact_id :: string
  cda_audit_run_id :: string
  cda_project_id :: string
  cda_finding_id :: "string option"
  cda_kind :: string
  cda_path :: string
  cda_title :: "string option"
  cda_content_type :: "string option"
  cda_size :: int
  cda_sha256 :: "string option"
  cda_metadata :: dict

record common_container = timestamped +
  cct_id :: int
  cct_audit_run_id :: string
  cct_project_id :: "string option"
  cct_agent_run_id :: "string option"
  cct_container_id :: string
  cct_container_name :: "string option"
  cct_image :: string
  cct_role :: string
  cct_status :: string
  cct_exit_code :: "int option"
  cct_log_artifact_id :: "string option"
  cct_labels :: dict

record common_heartbeat = timestamped +
  chb_worker_id :: string
  chb_service_name :: string
  chb_hostname :: string
  chb_status :: string
  chb_last_seen_at :: time
  chb_current_audit_run_id :: "string option"
  chb_metadata :: dict

record common_key = timestamped +
  cky_key_id :: string
  cky_name :: string
  cky_key_hash :: string
  cky_scopes :: "string list"
  cky_status :: string
  cky_last_used_at :: "time option"
  cky_deactivated_at :: "time option"
  cky_metadata :: dict

record model_profile = timestamped +
  cmp_role :: string
  cmp_runtime_id :: string
  cmp_provider_type :: string
  cmp_base_url :: "string option"
  cmp_model_name :: string
  cmp_api_key :: "string option"
  cmp_temperature :: "pyval option"
  cmp_max_output_tokens :: "int option"
  cmp_context_window :: "int option"
  cmp_metadata :: dict

record common_document = timestamped +
  ckd_document_id :: string
  ckd_title :: string
  ckd_source_name :: string
  ckd_content_type :: "string option"
  ckd_scope :: string
  ckd_project_id :: "string option"
  ckd_status :: string
  ckd_chunk_count :: int
  ckd_artifact_id :: "string option"
  ckd_metadata :: dict

record common_card = timestamped +
  cwc_card_id :: string
  cwc_audit_run_id :: string
  cwc_title :: string
  cwc_card_type :: string
  cwc_status :: string
  cwc_content :: "string option"
  cwc_metadata :: dict

record common_edge = timestamped +
  cwe_edge_id :: string
  cwe_audit_run_id :: string
  cwe_source_card_id :: string
  cwe_target_card_id :: string
  cwe_edge_type :: string
  cwe_metadata :: dict

text \<open>The status columns have enumerations in \<open>domain/enums.py\<close>.\<close>

definition AUDIT_RUN_STATUSES :: "string list" where
  "AUDIT_RUN_STATUSES = [''created'', ''queued'', ''running'', ''succeeded'', ''failed'', ''cancelled'']"

definition PIPELINE_STAGE_STATUSES :: "string list" where
  "PIPELINE_STAGE_STATUSES =
     [''pending'', ''running'', ''succeeded'', ''failed'', ''skipped'', ''cancelled'', ''warning'']"

datatype failure_policy = FAIL_FAST | CONTINUE_WITH_WARNING | ALWAYS_RUN

section \<open>The database\<close>

record flow_db =
  fd_now :: time
  fd_hex :: "nat \<Rightarrow> string"
  fd_hex_next :: nat
  fd_stage_seq :: int
  fd_event_seq :: int
  fd_projects :: "common_project list"
  fd_snapshots :: "common_snapshot list"
  fd_runs :: "common_run list"
  fd_pipelines :: "pipeline_run list"
  fd_stages :: "stage_run list"
  fd_events :: "common_event list"
  fd_agent_runs :: "common_agent_run list"
  fd_agent_events :: "common_agent_event list"
  fd_transcripts :: "common_transcript list"
  fd_findings :: "common_finding list"
  fd_evidence :: "common_evidence list"
  fd_reports :: "common_report list"
  fd_containers :: "common_container list"
  fd_heartbeats :: "common_heartbeat list"
  fd_keys :: "common_key list"
  fd_profiles :: "model_profile list"
  fd_cards :: "common_card list"
  fd_edges :: "common_edge list"

text \<open>\<open>new_id(prefix)\<close>: the prefix and 16 hexadecimal digits of a new \<open>uuid4\<close>.\<close>

definition new_id :: "string \<Rightarrow> flow_db \<Rightarrow> string \<times> flow_db" where
  "new_id p d =
     (p @ ''-'' @ take 16 (fd_hex d (fd_hex_next d)), d\<lparr>fd_hex_next := Suc (fd_hex_next d)\<rparr>)"

interpretation flow_runs: db_table car_audit_run_id fd_runs "\<lambda>rs d. d\<lparr>fd_runs := rs\<rparr>"
  by unfold_locales simp

interpretation flow_pipelines: db_table cpi_pipeline_run_id fd_pipelines "\<lambda>rs d. d\<lparr>fd_pipelines := rs\<rparr>"
  by unfold_locales simp

interpretation flow_projects: db_table cpr_project_id fd_projects "\<lambda>rs d. d\<lparr>fd_projects := rs\<rparr>"
  by unfold_locales simp

interpretation flow_heartbeats: db_table chb_worker_id fd_heartbeats "\<lambda>rs d. d\<lparr>fd_heartbeats := rs\<rparr>"
  by unfold_locales simp

interpretation flow_profiles: db_table cmp_role fd_profiles "\<lambda>rs d. d\<lparr>fd_profiles := rs\<rparr>"
  by unfold_locales simp

end
