(* ===== verification/Flow_Store.thy ===== *)
theory Flow_Store
  imports Flow_Models
begin

text \<open>
  The repositories of the split services
  (\<open>services/platform-common/dieaudit_common/persistence/repositories/core.py\<close>) as functions
  on the database a session sees. A changed row is stamped with the clock of its transaction.
\<close>

definition SCHEMA :: dict where
  "SCHEMA = [(''schema_version'', PInt 1)]"

text \<open>\<open>{**(v or {})}\<close>: spreading what is neither falsy nor a mapping raises.\<close>

definition spread :: "pyval \<Rightarrow> dict res" where
  "spread v =
     (if \<not> truthy v then Inr []
      else (case v of PDict d \<Rightarrow> Inr d | _ \<Rightarrow> Inl (TypeError ''object is not a mapping'')))"

lemma spread_simps [simp]: "spread (PDict d) = Inr d" "spread PNone = Inr []"
  by (simp_all add: spread_def)

section \<open>Projects and snapshots\<close>

definition project_list :: "flow_db \<Rightarrow> common_project list" where
  "project_list d = sort_key (\<lambda>r. - created_at r) (fd_projects d)"

definition project_get :: "string \<Rightarrow> flow_db \<Rightarrow> common_project option" where
  "project_get pid d = row_find cpr_project_id pid (fd_projects d)"

definition project_create ::
  "string \<Rightarrow> string \<Rightarrow> string option \<Rightarrow> dict \<Rightarrow> flow_db \<Rightarrow> common_project \<times> flow_db" where
  "project_create name source_type source_uri metadata d =
     (let (pid, d1) = new_id ''project'' d;
          row = \<lparr>created_at = fd_now d, updated_at = fd_now d, cpr_project_id = pid, cpr_name = name,
                 cpr_source_type = source_type, cpr_source_uri = source_uri, cpr_default_branch = None,
                 cpr_status = ''created'', cpr_metadata = dmerge SCHEMA metadata\<rparr>
      in (row, d1\<lparr>fd_projects := fd_projects d1 @ [row]\<rparr>))"

definition snapshot_create_ready ::
  "string \<Rightarrow> string \<Rightarrow> string \<Rightarrow> string option \<Rightarrow> flow_db \<Rightarrow> common_snapshot \<times> flow_db" where
  "snapshot_create_ready project_id workspace_path source_type source_ref d =
     (let (sid, d1) = new_id ''snapshot'' d;
          row = \<lparr>created_at = fd_now d, updated_at = fd_now d, csn_snapshot_id = sid,
                 csn_project_id = project_id, csn_source_type = source_type, csn_source_ref = source_ref,
                 csn_workspace_path = workspace_path, csn_artifact_path = None, csn_content_hash = None,
                 csn_status = ''ready'', csn_metadata = SCHEMA\<rparr>
      in (row, d1\<lparr>fd_snapshots := fd_snapshots d1 @ [row]\<rparr>))"

section \<open>Audit runs\<close>

definition run_list :: "flow_db \<Rightarrow> common_run list" where
  "run_list d = sort_key (\<lambda>r. - created_at r) (fd_runs d)"

definition run_get :: "string \<Rightarrow> flow_db \<Rightarrow> common_run option" where
  "run_get rid d = row_find car_audit_run_id rid (fd_runs d)"

text \<open>Writing to the row of a run.\<close>

definition write_flow_run :: "string \<Rightarrow> (common_run \<Rightarrow> common_run) \<Rightarrow> flow_db \<Rightarrow> flow_db" where
  "write_flow_run rid f d =
     d\<lparr>fd_runs := row_upd car_audit_run_id rid (\<lambda>r. stamped (fd_now d) r (f r)) (fd_runs d)\<rparr>"

record run_request =
  rq_project_id :: string
  rq_snapshot_id :: "string option"
  rq_workspace_path :: "string option"
  rq_allow_external_network :: bool
  rq_retain_runtime_on_failure :: bool
  rq_input_payload :: dict
  rq_config :: dict

definition run_create :: "run_request \<Rightarrow> flow_db \<Rightarrow> common_run \<times> flow_db" where
  "run_create q d =
     (let (rid, d1) = new_id ''audit'' d;
          row = \<lparr>created_at = fd_now d, updated_at = fd_now d, car_audit_run_id = rid,
                 car_project_id = rq_project_id q, car_snapshot_id = rq_snapshot_id q,
                 car_status = ''created'', car_pipeline_status = ''pending'', car_current_stage = None,
                 car_worker_id = None, car_cancel_requested = False,
                 car_workspace_path = rq_workspace_path q,
                 car_allow_external_network = rq_allow_external_network q,
                 car_retain_runtime_on_failure = rq_retain_runtime_on_failure q,
                 car_config = dmerge SCHEMA (rq_config q),
                 car_input_payload = dmerge SCHEMA (rq_input_payload q), car_metadata = []\<rparr>
      in (row, d1\<lparr>fd_runs := fd_runs d1 @ [row]\<rparr>))"

definition run_queue :: "string \<Rightarrow> flow_db \<Rightarrow> flow_db" where
  "run_queue rid =
     write_flow_run rid (\<lambda>r. r\<lparr>car_status := ''queued'', car_pipeline_status := ''queued'',
                               car_cancel_requested := False\<rparr>)"

definition run_cancel :: "string \<Rightarrow> string \<Rightarrow> flow_db \<Rightarrow> flow_db" where
  "run_cancel rid reason =
     write_flow_run rid (\<lambda>r. r\<lparr>car_cancel_requested := True,
                               car_metadata := dset (car_metadata r) ''cancel_reason'' (PStr reason)\<rparr>)"

text \<open>The query of a claim. Rows with the same stamp come in the order of the table.\<close>

definition next_claimable :: "flow_db \<Rightarrow> common_run option" where
  "next_claimable d =
     (case sort_key updated_at (filter (\<lambda>r. car_status r = ''queued'') (fd_runs d)) of
        [] \<Rightarrow> None
      | r # _ \<Rightarrow> Some r)"

definition claimed_row :: "string \<Rightarrow> common_run \<Rightarrow> common_run res" where
  "claimed_row worker_id r =
     rbind (spread (dget (car_config r) ''runtime_control'')) (\<lambda>control. Inr
       (r\<lparr>car_status := ''running'', car_pipeline_status := ''running'', car_worker_id := Some worker_id,
          car_config := dset (car_config r) ''runtime_control''
                          (PDict (dset control ''worker_id'' (PStr worker_id)))\<rparr>))"

definition claim_queued :: "string \<Rightarrow> (flow_db, common_run option) tx" where
  "claim_queued worker_id d =
     (case next_claimable d of
        None \<Rightarrow> Inr (None, d)
      | Some r \<Rightarrow>
          rbind (claimed_row worker_id r) (\<lambda>row.
            Inr (Some row, write_flow_run (car_audit_run_id r) (\<lambda>_. row) d)))"

definition with_pipeline_state :: "string \<Rightarrow> string option \<Rightarrow> string option \<Rightarrow> common_run \<Rightarrow> common_run" where
  "with_pipeline_state status current_stage error r =
     (let r1 = r\<lparr>car_pipeline_status := status, car_current_stage := current_stage\<rparr>;
          r2 = (if status \<in> {''succeeded'', ''completed''} then r1\<lparr>car_status := ''completed''\<rparr>
                else if status \<in> {''failed'', ''cancelled''} then r1\<lparr>car_status := status\<rparr>
                else if status \<in> {''running'', ''queued''} then r1\<lparr>car_status := status\<rparr>
                else r1)
      in case error of
           None \<Rightarrow> r2
         | Some e \<Rightarrow> if e = [] then r2
                     else r2\<lparr>car_metadata := dset (car_metadata r2) ''pipeline_error'' (PStr e)\<rparr>)"

definition set_run_state :: "string \<Rightarrow> string \<Rightarrow> string option \<Rightarrow> string option \<Rightarrow> flow_db \<Rightarrow> flow_db" where
  "set_run_state rid status current_stage error =
     write_flow_run rid (with_pipeline_state status current_stage error)"

section \<open>Pipelines and events\<close>

text \<open>\<open>wall\<close> is the wall clock (\<open>datetime.now\<close>), which goes on inside a transaction.\<close>

definition pipeline_create :: "string \<Rightarrow> time \<Rightarrow> flow_db \<Rightarrow> string \<times> flow_db" where
  "pipeline_create rid wall d =
     (let (pid, d1) = new_id ''pipe'' d
      in (pid, d1\<lparr>fd_pipelines := fd_pipelines d1 @
           [\<lparr>created_at = fd_now d, updated_at = fd_now d, cpi_pipeline_run_id = pid,
             cpi_audit_run_id = rid, cpi_status = ''running'', cpi_started_at = Some wall,
             cpi_completed_at = None, cpi_summary = [], cpi_error = None\<rparr>]\<rparr>))"

definition stage_record ::
  "string \<Rightarrow> string \<Rightarrow> string \<Rightarrow> string \<Rightarrow> dict \<Rightarrow> string list \<Rightarrow> string option \<Rightarrow> time \<Rightarrow> flow_db \<Rightarrow> flow_db" where
  "stage_record pid rid stage status summary artifact_ids error wall d =
     d\<lparr>fd_stage_seq := fd_stage_seq d + 1,
       fd_stages := fd_stages d @
         [\<lparr>created_at = fd_now d, updated_at = fd_now d, cst_id = fd_stage_seq d,
           cst_pipeline_run_id = pid, cst_audit_run_id = rid, cst_stage = stage, cst_status = status,
           cst_started_at = Some wall, cst_completed_at = Some wall, cst_summary = summary,
           cst_artifact_ids = artifact_ids, cst_error = error\<rparr>]\<rparr>"

text \<open>\<open>UniqueConstraint("pipeline_run_id", "stage")\<close>, which the database checks at a flush.\<close>

definition stages_unique :: "flow_db \<Rightarrow> bool" where
  "stages_unique d = distinct (map (\<lambda>r. (cst_pipeline_run_id r, cst_stage r)) (fd_stages d))"

definition pipeline_finish :: "string \<Rightarrow> string \<Rightarrow> dict \<Rightarrow> string option \<Rightarrow> time \<Rightarrow> flow_db \<Rightarrow> flow_db" where
  "pipeline_finish pid status summary error wall d =
     d\<lparr>fd_pipelines := row_upd cpi_pipeline_run_id pid
         (\<lambda>r. stamped (fd_now d) r
            (r\<lparr>cpi_status := status, cpi_completed_at := Some wall, cpi_summary := summary,
               cpi_error := error\<rparr>)) (fd_pipelines d)\<rparr>"

definition event_append :: "string \<Rightarrow> string \<Rightarrow> string \<Rightarrow> dict \<Rightarrow> flow_db \<Rightarrow> flow_db" where
  "event_append rid subject event_type payload d =
     d\<lparr>fd_event_seq := fd_event_seq d + 1,
       fd_events := fd_events d @
         [\<lparr>created_at = fd_now d, updated_at = fd_now d, cev_id = fd_event_seq d, cev_audit_run_id = rid,
           cev_subject = subject, cev_event_type = event_type, cev_payload = payload\<rparr>]\<rparr>"

section \<open>Heartbeats\<close>

definition heartbeat_upsert ::
  "string \<Rightarrow> string \<Rightarrow> string \<Rightarrow> string \<Rightarrow> string option \<Rightarrow> dict \<Rightarrow> time \<Rightarrow> flow_db \<Rightarrow> flow_db" where
  "heartbeat_upsert worker_id service_name hostname status run_id metadata seen d =
     (case row_find chb_worker_id worker_id (fd_heartbeats d) of
        None \<Rightarrow>
          d\<lparr>fd_heartbeats := fd_heartbeats d @
             [\<lparr>created_at = fd_now d, updated_at = fd_now d, chb_worker_id = worker_id,
               chb_service_name = service_name, chb_hostname = hostname, chb_status = status,
               chb_last_seen_at = seen, chb_current_audit_run_id = run_id,
               chb_metadata = dmerge SCHEMA metadata\<rparr>]\<rparr>
      | Some _ \<Rightarrow>
          d\<lparr>fd_heartbeats := row_upd chb_worker_id worker_id
             (\<lambda>r. stamped (fd_now d) r
                (r\<lparr>chb_status := status, chb_last_seen_at := seen, chb_current_audit_run_id := run_id,
                   chb_metadata := dmerge (chb_metadata r) metadata\<rparr>)) (fd_heartbeats d)\<rparr>)"

section \<open>What the operations on a run do to the other rows\<close>

lemma run_get_write:
  assumes "\<And>r. car_audit_run_id (f r) = car_audit_run_id r"
  shows "run_get k (write_flow_run rid f d) =
           (if k = rid then map_option (\<lambda>r. stamped (fd_now d) r (f r)) (run_get k d) else run_get k d)"
  unfolding run_get_def write_flow_run_def
  by (simp add: row_find_upd_same row_find_upd_other stamped_def assms)

lemma stamped_run [simp]:
  "car_audit_run_id (stamped t r (q :: common_run)) = car_audit_run_id q"
  "car_status (stamped t r q) = car_status q"
  "car_pipeline_status (stamped t r q) = car_pipeline_status q"
  "car_current_stage (stamped t r q) = car_current_stage q"
  "car_cancel_requested (stamped t r q) = car_cancel_requested q"
  "car_retain_runtime_on_failure (stamped t r q) = car_retain_runtime_on_failure q"
  "car_snapshot_id (stamped t r q) = car_snapshot_id q"
  "car_workspace_path (stamped t r q) = car_workspace_path q"
  "car_worker_id (stamped t r q) = car_worker_id q"
  "car_config (stamped t r q) = car_config q"
  "car_metadata (stamped t r q) = car_metadata q"
  "created_at (stamped t r q) = created_at q"
  by (simp_all add: stamped_def)

lemma with_pipeline_state_frame [simp]:
  "car_audit_run_id (with_pipeline_state st c e r) = car_audit_run_id r"
  "car_pipeline_status (with_pipeline_state st c e r) = st"
  "car_current_stage (with_pipeline_state st c e r) = c"
  "car_cancel_requested (with_pipeline_state st c e r) = car_cancel_requested r"
  "car_retain_runtime_on_failure (with_pipeline_state st c e r) = car_retain_runtime_on_failure r"
  "car_config (with_pipeline_state st c e r) = car_config r"
  "car_snapshot_id (with_pipeline_state st c e r) = car_snapshot_id r"
  "car_workspace_path (with_pipeline_state st c e r) = car_workspace_path r"
  "created_at (with_pipeline_state st c e r) = created_at r"
  by (simp_all add: with_pipeline_state_def Let_def split: option.splits)

lemma with_pipeline_state_status [simp]:
  "car_status (with_pipeline_state st c e r) =
     (if st \<in> {''succeeded'', ''completed''} then ''completed''
      else if st \<in> {''failed'', ''cancelled'', ''running'', ''queued''} then st else car_status r)"
  by (simp add: with_pipeline_state_def Let_def split: option.splits)

lemma length_sort_key_Nil: "sort_key f xs = [] \<longleftrightarrow> xs = []"
  by (metis length_0_conv length_sort)

lemma next_claimable_None: "next_claimable d = None \<longleftrightarrow> (\<forall>r \<in> set (fd_runs d). car_status r \<noteq> ''queued'')"
proof -
  have "next_claimable d = None \<longleftrightarrow>
          sort_key updated_at (filter (\<lambda>r. car_status r = ''queued'') (fd_runs d)) = []"
    by (simp add: next_claimable_def split: list.splits)
  then show ?thesis by (simp add: length_sort_key_Nil filter_empty_conv)
qed

lemma next_claimable_Some:
  assumes "next_claimable d = Some r"
  shows "r \<in> set (fd_runs d)" "car_status r = ''queued''"
    and "\<And>q. q \<in> set (fd_runs d) \<Longrightarrow> car_status q = ''queued'' \<Longrightarrow> updated_at r \<le> updated_at q"
proof -
  let ?q = "filter (\<lambda>r. car_status r = ''queued'') (fd_runs d)"
  obtain rest where rest: "sort_key updated_at ?q = r # rest"
    using assms by (auto simp: next_claimable_def split: list.splits)
  have s: "set (r # rest) = set ?q" using rest by (metis set_sort)
  then show "r \<in> set (fd_runs d)" "car_status r = ''queued''" by auto
  fix q assume "q \<in> set (fd_runs d)" "car_status q = ''queued''"
  then have "q \<in> set (r # rest)" using s by simp
  moreover have "sorted (map updated_at (r # rest))" using sorted_sort_key [of updated_at ?q] by (simp only: rest)
  ultimately show "updated_at r \<le> updated_at q" by auto
qed

lemma claimed_row_keeps:
  "claimed_row w r = Inr r' \<Longrightarrow>
     car_audit_run_id r' = car_audit_run_id r \<and> car_status r' = ''running'' \<and>
     car_pipeline_status r' = ''running'' \<and> car_worker_id r' = Some w \<and>
     car_cancel_requested r' = car_cancel_requested r"
  by (auto simp: claimed_row_def rbind_Inr_iff)

end
