(* ===== verification/Stage_Runner.thy ===== *)
theory Stage_Runner
  imports Flow_Store Stage_Registry
begin

text \<open>
  What the stages do (\<open>services/workflow-worker/app/application/stage_runner.py\<close> and
  \<open>clients.py\<close>): the \<open>StageAdapterRunner\<close> reads the run of the session, asks the other
  services over HTTP and writes to the run.

  The state is the session's view of the database and the requests sent so far. The answers of
  the other services, and the findings other sessions have committed by then, are the
  environment. What the session adds or changes reaches the database at the next query: that
  flush raises when a row of a stage is there twice, or when a value does not fit its column
  (\<open>fw_broken\<close>).
\<close>

datatype service_call =
    Structure_Call string
  | Start_Agent_Call dict
  | Cleanup_Call string

record flow_state =
  fw_db :: flow_db
  fw_calls :: "service_call list"
  fw_broken :: bool

text \<open>
  \<open>se_reply\<close>: the decoded answer to a request after the earlier ones, or the exception of the
  HTTP client. \<open>se_findings\<close>: the table of findings after these requests. \<open>se_cancel\<close>: what
  reading \<open>cancel_requested\<close> again shows, given what the session has loaded. \<open>se_clock\<close>: the
  wall clock.
\<close>

record service_env =
  se_reply :: "service_call list \<Rightarrow> service_call \<Rightarrow> pyval res"
  se_findings :: "service_call list \<Rightarrow> common_finding list"
  se_cancel :: "service_call list \<Rightarrow> bool \<Rightarrow> bool"
  se_clock :: "service_call list \<Rightarrow> time"

type_synonym 'a fx = "(flow_state, 'a) sx"

definition on_db :: "(flow_db \<Rightarrow> flow_db) \<Rightarrow> unit fx" where
  "on_db f = sx_modify (\<lambda>s. s\<lparr>fw_db := f (fw_db s)\<rparr>)"

definition flushable :: "flow_state \<Rightarrow> bool" where
  "flushable s = (stages_unique (fw_db s) \<and> \<not> fw_broken s)"

definition flush :: "unit fx" where
  "flush = sx_bind (sx_gets flushable) (\<lambda>ok. if ok then sx_ret () else sx_raise (OtherError ''IntegrityError''))"

definition wall_clock :: "service_env \<Rightarrow> time fx" where
  "wall_clock env = sx_gets (\<lambda>s. se_clock env (fw_calls s))"

text \<open>\<open>AuditRunRepository.get\<close> inside the session.\<close>

definition get_flow_run :: "string \<Rightarrow> common_run option fx" where
  "get_flow_run rid = sx_do flush (sx_gets (\<lambda>s. run_get rid (fw_db s)))"

definition put_run :: "string \<Rightarrow> (common_run \<Rightarrow> common_run) \<Rightarrow> unit fx" where
  "put_run rid f = on_db (write_flow_run rid f)"

section \<open>The clients\<close>

text \<open>\<open>InternalClients._post\<close>.\<close>

definition post_request :: "service_env \<Rightarrow> service_call \<Rightarrow> dict fx" where
  "post_request env c s =
     (case se_reply env (fw_calls s) c of
        Inl e \<Rightarrow> (Inl e, s\<lparr>fw_calls := fw_calls s @ [c]\<rparr>)
      | Inr v \<Rightarrow> (Inr (case v of PDict d \<Rightarrow> d | _ \<Rightarrow> [(''result'', v)]), s\<lparr>fw_calls := fw_calls s @ [c]\<rparr>))"

definition workspace_structure :: "service_env \<Rightarrow> string \<Rightarrow> dict fx" where
  "workspace_structure env path = post_request env (Structure_Call path)"

definition start_agent_run :: "service_env \<Rightarrow> dict \<Rightarrow> dict fx" where
  "start_agent_run env payload = post_request env (Start_Agent_Call payload)"

definition cleanup_runtime :: "service_env \<Rightarrow> string \<Rightarrow> dict fx" where
  "cleanup_runtime env rid = post_request env (Cleanup_Call rid)"

section \<open>Helpers of the runner\<close>

definition runner_audit_run :: "string \<Rightarrow> common_run fx" where
  "runner_audit_run rid =
     sx_bind (get_flow_run rid) (\<lambda>r. case r of
       None \<Rightarrow> sx_raise (RuntimeError ''audit run not found'')
     | Some row \<Rightarrow> sx_ret row)"

text \<open>\<open>audit_run.workspace_path or (audit_run.config_json or {}).get("workspace_host_path")\<close>.\<close>

definition workspace_value :: "common_run \<Rightarrow> pyval" where
  "workspace_value r = por (opt_str (car_workspace_path r)) (dget (car_config r) ''workspace_host_path'')"

definition runner_workspace_path :: "common_run \<Rightarrow> string res" where
  "runner_workspace_path r =
     (if truthy (workspace_value r) then Inr (py_str (workspace_value r))
      else Inl (RuntimeError ''audit run has no workspace path''))"

definition runner_agent_enabled :: "dict \<Rightarrow> string \<Rightarrow> bool" where
  "runner_agent_enabled config role =
     (case dget config ''enabled_agents'' of
        PList xs \<Rightarrow> xs = [] \<or> PStr role \<in> set xs
      | _ \<Rightarrow> True)"

definition agent_payload :: "common_run \<Rightarrow> pyval \<Rightarrow> string \<Rightarrow> dict \<Rightarrow> dict res" where
  "agent_payload r agent_name phase extra =
     rbind (runner_workspace_path r) (\<lambda>path. Inr
       [(''audit_run_id'', PStr (car_audit_run_id r)),
        (''project_id'', PStr (car_project_id r)),
        (''agent_name'', agent_name),
        (''workspace_host_path'', PStr path),
        (''allow_external_network'', PBool (car_allow_external_network r)),
        (''retain_runtime_on_failure'', PBool (car_retain_runtime_on_failure r)),
        (''input_payload'', PDict (dmerge (dmerge (car_input_payload r)
           [(''audit_phase'', PStr phase), (''config'', PDict (car_config r))]) extra))])"

definition skipped_because :: "string \<Rightarrow> dict" where
  "skipped_because reason = [(''ok'', PBool True), (''skipped'', PBool True), (''reason'', PStr reason)]"

definition no_findings :: dict where
  "no_findings = [(''ok'', PBool True), (''scheduled'', PInt 0), (''reason'', PStr ''no findings'')]"

text \<open>\<open>select(Finding).where(Finding.audit_run_id == ...)\<close>.\<close>

definition run_findings :: "service_env \<Rightarrow> string \<Rightarrow> common_finding list fx" where
  "run_findings env rid =
     sx_do flush (sx_gets (\<lambda>s. filter (\<lambda>f. cfi_audit_run_id f = rid) (se_findings env (fw_calls s))))"

section \<open>The stages\<close>

definition snapshot_ready :: "common_run \<Rightarrow> dict fx" where
  "snapshot_ready r =
     (let path = workspace_value r
      in if car_snapshot_id r \<in> {None, Some []} \<or> \<not> truthy path
         then sx_raise (RuntimeError ''audit run has no ready snapshot/workspace'')
         else
           sx_do
             (case path of
                PStr p \<Rightarrow> put_run (car_audit_run_id r) (\<lambda>q. q\<lparr>car_workspace_path := Some p\<rparr>)
              | _ \<Rightarrow> sx_modify (\<lambda>s. s\<lparr>fw_broken := True\<rparr>))
           (sx_do (put_run (car_audit_run_id r)
                     (\<lambda>q. q\<lparr>car_config := dset (car_config q) ''workspace_host_path'' path\<rparr>))
           (sx_ret [(''ok'', PBool True), (''snapshot_id'', opt_str (car_snapshot_id r)),
                    (''workspace_path'', path)])))"

definition structure_discovery :: "service_env \<Rightarrow> common_run \<Rightarrow> dict fx" where
  "structure_discovery env r =
     sx_bind (sx_lift (runner_workspace_path r)) (\<lambda>path.
     sx_bind (workspace_structure env path) (\<lambda>result.
     sx_do (put_run (car_audit_run_id r)
              (\<lambda>q. q\<lparr>car_config := dset (car_config q) ''structure_context'' (PDict result)\<rparr>))
     (sx_ret [(''ok'', PBool (truthy (dget_or result ''exists'' (PBool True)))), (''structure'', PDict result)])))"

definition ask_agent :: "service_env \<Rightarrow> common_run \<Rightarrow> pyval \<Rightarrow> string \<Rightarrow> dict \<Rightarrow> dict fx" where
  "ask_agent env r agent_name phase extra =
     sx_bind (sx_lift (agent_payload r agent_name phase extra)) (start_agent_run env)"

definition agent_audit :: "service_env \<Rightarrow> common_run \<Rightarrow> dict fx" where
  "agent_audit env r =
     (if \<not> runner_agent_enabled (car_config r) ''orchestrator''
      then sx_ret (skipped_because ''orchestrator disabled'')
      else ask_agent env r (por (dget (car_config r) ''agent_name'') (PStr ''kimi-orchestrator'')) ''agent-audit'' [])"

definition code_analysis :: "service_env \<Rightarrow> common_run \<Rightarrow> dict fx" where
  "code_analysis env r =
     (if dget (car_config r) ''enable_code_batch_analysis'' = PBool False \<or>
         \<not> runner_agent_enabled (car_config r) ''code-auditor''
      then sx_ret (skipped_because ''code analysis disabled'')
      else ask_agent env r (por (dget (car_config r) ''code_auditor_agent_name'') (PStr ''kimi-code-auditor''))
             ''code-analysis'' [])"

definition whiteboard_swarm :: "common_run \<Rightarrow> dict fx" where
  "whiteboard_swarm r =
     (if dget (car_config r) ''enable_whiteboard'' = PBool False \<or>
         dget (car_config r) ''enable_whiteboard_swarm'' = PBool False
      then sx_ret (skipped_because ''whiteboard swarm disabled'')
      else sx_bind (sx_lift (vget (por (dget (car_config r) ''whiteboard_swarm'') (PDict [])) ''trace_worker''))
             (\<lambda>trace_worker. sx_ret
                [(''ok'', PBool True), (''scheduled'', PInt 0), (''trace_worker'', por trace_worker (PDict [])),
                 (''mode'', PStr ''controller-ready'')]))"

definition finding_summary :: "common_finding \<Rightarrow> pyval" where
  "finding_summary f =
     PDict [(''finding_id'', PStr (cfi_finding_id f)), (''title'', PStr (cfi_title f)),
            (''severity'', PStr (cfi_severity f)), (''description'', opt_str (cfi_description f))]"

definition validation_judgement :: "service_env \<Rightarrow> common_run \<Rightarrow> dict fx" where
  "validation_judgement env r =
     (if dget (car_config r) ''enable_validation_judgement'' = PBool False
      then sx_ret (skipped_because ''validation disabled'')
      else sx_bind (run_findings env (car_audit_run_id r)) (\<lambda>findings.
        if findings = [] then sx_ret no_findings
        else ask_agent env r
               (por (por (dget (car_config r) ''validation_judgement_agent_name'')
                         (dget (car_config r) ''validator_agent_name'')) (PStr ''kimi-validator''))
               ''validation-judgement'' [(''findings'', PList (map finding_summary findings))]))"

definition poc_agent_stage :: "service_env \<Rightarrow> common_run \<Rightarrow> string \<Rightarrow> dict fx" where
  "poc_agent_stage env r role =
     (if role = ''poc-writer'' \<and> dget (car_config r) ''enable_poc_writing'' = PBool False
      then sx_ret (skipped_because ''poc writing disabled'')
      else if role = ''poc-verifier'' \<and> dget (car_config r) ''enable_poc_verification'' = PBool False
      then sx_ret (skipped_because ''poc verification disabled'')
      else sx_bind (run_findings env (car_audit_run_id r)) (\<lambda>findings.
        if findings = [] then sx_ret no_findings
        else ask_agent env r
               (por (dget (car_config r)
                       (if role = ''poc-writer'' then ''poc_writer_agent_name'' else ''poc_verifier_agent_name''))
                    (PStr (''kimi-'' @ role)))
               role []))"

definition report_stage :: "service_env \<Rightarrow> common_run \<Rightarrow> dict fx" where
  "report_stage env r =
     sx_bind (run_findings env (car_audit_run_id r)) (\<lambda>findings.
       let summary = [(''finding_count'', PInt (int (length findings))), (''status'', PStr ''generated'')]
       in sx_bind (sx_gets (\<lambda>s. fst (new_id ''report'' (fw_db s)))) (\<lambda>report_id.
          sx_do (on_db (\<lambda>d. (snd (new_id ''report'' d))\<lparr>fd_reports := fd_reports d @
              [\<lparr>created_at = fd_now d, updated_at = fd_now d, crp_report_id = report_id,
                crp_audit_run_id = car_audit_run_id r, crp_title = ''DieAudit Report'',
                crp_format = ''markdown'', crp_artifact_id = None, crp_summary = summary\<rparr>]\<rparr>))
          (sx_ret [(''ok'', PBool True), (''report_id'', PStr report_id), (''summary'', PDict summary)])))"

definition runtime_cleanup :: "service_env \<Rightarrow> common_run \<Rightarrow> dict fx" where
  "runtime_cleanup env r =
     (if car_retain_runtime_on_failure r \<and> car_status r = ''failed''
      then sx_ret (skipped_because ''retain_runtime_on_failure'')
      else sx_try (cleanup_runtime env (car_audit_run_id r))
             (\<lambda>e. sx_ret [(''ok'', PBool False), (''warning'', PStr (exc_str e))]))"

definition value_triage :: dict where
  "value_triage =
     [(''ok'', PBool True), (''mode'', PStr ''pre-swarm''),
      (''policy'', PStr ''exclude standalone low-impact hygiene findings from swarm scheduling'')]"

definition feedback_stage :: dict where
  "feedback_stage = [(''ok'', PBool True), (''mode'', PStr ''single-pass''), (''scheduled'', PInt 0)]"

text \<open>\<open>StageAdapterRunner.__call__\<close>.\<close>

definition stage_adapter :: "service_env \<Rightarrow> string \<Rightarrow> string \<Rightarrow> dict fx" where
  "stage_adapter env rid stage =
     sx_bind (runner_audit_run rid) (\<lambda>r.
       if stage = ''snapshot-ready'' then snapshot_ready r
       else if stage = ''structure-discovery'' then structure_discovery env r
       else if stage = ''agent-audit'' then agent_audit env r
       else if stage = ''code-analysis'' then code_analysis env r
       else if stage = ''value-triage'' then sx_ret value_triage
       else if stage = ''whiteboard-swarm'' then whiteboard_swarm r
       else if stage = ''validation-judgement'' then validation_judgement env r
       else if stage = ''feedback-loop'' then sx_ret feedback_stage
       else if stage = ''poc-writing'' then poc_agent_stage env r ''poc-writer''
       else if stage = ''poc-verification'' then poc_agent_stage env r ''poc-verifier''
       else if stage = ''report'' then report_stage env r
       else if stage = ''runtime-cleanup'' then runtime_cleanup env r
       else sx_raise (RuntimeError (''unknown stage: '' @ stage)))"

end
