(* ===== verification/Flow_Pipeline.thy ===== *)
theory Flow_Pipeline
  imports Stage_Runner
begin

text \<open>
  The pipeline of the workflow worker: \<open>PipelineExecutor.execute\<close>
  (\<open>services/workflow-worker/app/pipeline/executor.py\<close>) over the ordered stages, the service
  that opens and closes a run around it (\<open>application/pipeline_service.py\<close>), and the turn of
  the worker loop that claims and runs one run (\<open>worker.py\<close>).

  The whole pipeline is one database session: nothing is committed before it is over, and an
  exception that leaves it takes every change with it, except the requests that were sent.
\<close>

section \<open>Context and stages\<close>

record pipeline_context =
  cx_audit_run_id :: string
  cx_pipeline_run_id :: string
  cx_project_id :: string
  cx_snapshot_id :: "string option"
  cx_workspace_path :: "string option"
  cx_config :: dict
  cx_input_payload :: dict
  cx_cancelled :: bool

fun hashable :: "pyval \<Rightarrow> bool" where
  "hashable (PList _) = False"
| "hashable (PDict _) = False"
| "hashable _ = True"

text \<open>\<open>set(v)\<close>.\<close>

definition py_set :: "pyval \<Rightarrow> pyval set res" where
  "py_set v =
     rbind (py_iter v) (\<lambda>xs. if list_all hashable xs then Inr (set xs) else Inl (TypeError ''unhashable type''))"

text \<open>\<open>ServiceStage.enabled\<close>.\<close>

definition stage_enabled :: "pipeline_context \<Rightarrow> service_stage \<Rightarrow> bool res" where
  "stage_enabled cx sg =
     rbind (py_set (por (dget (cx_config cx) ''disabled_stages'') (PList []))) (\<lambda>disabled.
       Inr (PStr (sg_name sg) \<notin> disabled))"

record stage_result =
  sr_stage :: string
  sr_status :: string
  sr_started_at :: "time option"
  sr_completed_at :: "time option"
  sr_summary :: dict
  sr_artifact_ids :: "string list"
  sr_error :: "string option"

text \<open>A UTC time as pydantic writes it.\<close>

definition iso_z :: "time \<Rightarrow> string" where
  "iso_z t = take (length (iso_utc t) - 6) (iso_utc t) @ ''Z''"

fun opt_iso_z :: "time option \<Rightarrow> pyval" where
  "opt_iso_z None = PNone"
| "opt_iso_z (Some t) = PStr (iso_z t)"

text \<open>\<open>result.model_dump(mode="json")\<close>.\<close>

definition dump_result :: "stage_result \<Rightarrow> dict" where
  "dump_result r =
     [(''stage'', PStr (sr_stage r)), (''status'', PStr (sr_status r)),
      (''started_at'', opt_iso_z (sr_started_at r)), (''completed_at'', opt_iso_z (sr_completed_at r)),
      (''summary'', PDict (sr_summary r)), (''artifact_ids'', PList (map PStr (sr_artifact_ids r))),
      (''error'', opt_str (sr_error r))]"

text \<open>\<open>ServiceStage.run\<close>: a stage that returns has succeeded, whatever its summary says.\<close>

definition run_service_stage :: "service_env \<Rightarrow> pipeline_context \<Rightarrow> service_stage \<Rightarrow> stage_result fx" where
  "run_service_stage env cx sg =
     sx_bind (wall_clock env) (\<lambda>started.
     sx_bind (stage_adapter env (cx_audit_run_id cx) (sg_name sg)) (\<lambda>summary.
     sx_bind (wall_clock env) (\<lambda>ended.
     sx_ret \<lparr>sr_stage = sg_name sg, sr_status = ''succeeded'', sr_started_at = Some started,
             sr_completed_at = Some ended, sr_summary = summary, sr_artifact_ids = [], sr_error = None\<rparr>)))"

section \<open>The executor\<close>

text \<open>\<open>DomainEvent.to_payload\<close>: the payload of the event is nested.\<close>

definition event_to_payload :: "string \<Rightarrow> string \<Rightarrow> string \<Rightarrow> string \<Rightarrow> dict \<Rightarrow> dict" where
  "event_to_payload subject event_type rid occurred_at payload =
     [(''schema_version'', PInt 1), (''subject'', PStr subject), (''event_type'', PStr event_type),
      (''audit_run_id'', PStr rid), (''occurred_at'', PStr occurred_at), (''payload'', PDict payload)]"

text \<open>The publisher of the worker is the null publisher.\<close>

definition emit_event :: "service_env \<Rightarrow> string \<Rightarrow> string \<Rightarrow> pipeline_context \<Rightarrow> dict \<Rightarrow> unit fx" where
  "emit_event env subject event_type cx payload =
     sx_bind (wall_clock env) (\<lambda>t.
       on_db (event_append (cx_audit_run_id cx) subject event_type
                (event_to_payload subject event_type (cx_audit_run_id cx) (iso_utc t) payload)))"

definition set_pipeline_status :: "string \<Rightarrow> string \<Rightarrow> string option \<Rightarrow> string option \<Rightarrow> unit fx" where
  "set_pipeline_status rid status current_stage error =
     sx_bind (get_flow_run rid) (\<lambda>r. case r of
       None \<Rightarrow> sx_ret ()
     | Some _ \<Rightarrow> on_db (set_run_state rid status current_stage error))"

definition record_result ::
  "service_env \<Rightarrow> pipeline_context \<Rightarrow> string \<Rightarrow> string \<Rightarrow> dict \<Rightarrow> string list \<Rightarrow> string option \<Rightarrow> unit fx" where
  "record_result env cx stage status summary artifact_ids error =
     sx_bind (wall_clock env) (\<lambda>t.
       on_db (stage_record (cx_pipeline_run_id cx) (cx_audit_run_id cx) stage status summary artifact_ids error t))"

definition record_success :: "service_env \<Rightarrow> pipeline_context \<Rightarrow> stage_result \<Rightarrow> unit fx" where
  "record_success env cx r =
     record_result env cx (sr_stage r) (sr_status r) (sr_summary r) (sr_artifact_ids r) (sr_error r)"

record stage_loop =
  lo_completed :: "dict list"
  lo_failed :: bool
  lo_cancelled :: bool
  lo_error :: "string option"
  lo_seen :: bool

text \<open>\<open>_refresh_cancel\<close>; \<open>lo_seen\<close> is \<open>ctx.cancelled\<close>.\<close>

definition refresh_cancel :: "service_env \<Rightarrow> pipeline_context \<Rightarrow> stage_loop \<Rightarrow> stage_loop fx" where
  "refresh_cancel env cx lo =
     sx_bind (get_flow_run (cx_audit_run_id cx)) (\<lambda>r. case r of
       None \<Rightarrow> sx_ret lo
     | Some row \<Rightarrow>
         sx_gets (\<lambda>s. lo\<lparr>lo_seen := se_cancel env (fw_calls s) (car_cancel_requested row)\<rparr>))"

definition skip_disabled :: "service_env \<Rightarrow> pipeline_context \<Rightarrow> service_stage \<Rightarrow> unit fx" where
  "skip_disabled env cx sg =
     record_result env cx (sg_name sg) ''skipped'' [(''reason'', PStr ''disabled'')] [] None"

definition enter_service_stage :: "service_env \<Rightarrow> pipeline_context \<Rightarrow> service_stage \<Rightarrow> unit fx" where
  "enter_service_stage env cx sg =
     sx_do (set_pipeline_status (cx_audit_run_id cx) ''running'' (Some (sg_name sg)) None)
       (emit_event env ''dieaudit.audit_run.stage.started'' ''audit_run.stage.started'' cx
          [(''stage'', PStr (sg_name sg))])"

definition stage_failed :: "service_env \<Rightarrow> pipeline_context \<Rightarrow> service_stage \<Rightarrow> pyexc \<Rightarrow> unit fx" where
  "stage_failed env cx sg e =
     sx_do (record_result env cx (sg_name sg)
              (if sg_policy sg = CONTINUE_WITH_WARNING then ''warning'' else ''failed'') [] [] (Some (exc_str e)))
       (emit_event env ''dieaudit.audit_run.stage.failed'' ''audit_run.stage.failed'' cx
          [(''stage'', PStr (sg_name sg)), (''error'', PStr (exc_str e))])"

definition stage_succeeded :: "service_env \<Rightarrow> pipeline_context \<Rightarrow> stage_result \<Rightarrow> unit fx" where
  "stage_succeeded env cx r =
     sx_do (record_success env cx r)
       (emit_event env ''dieaudit.audit_run.stage.completed'' ''audit_run.stage.completed'' cx
          [(''stage'', PStr (sr_stage r)), (''status'', PStr (sr_status r)), (''summary'', PDict (sr_summary r))])"

definition after_failure :: "service_stage \<Rightarrow> pyexc \<Rightarrow> stage_loop \<Rightarrow> stage_loop" where
  "after_failure sg e lo =
     lo\<lparr>lo_error := Some (exc_str e), lo_failed := (lo_failed lo \<or> sg_policy sg \<noteq> CONTINUE_WITH_WARNING)\<rparr>"

definition after_success :: "stage_result \<Rightarrow> stage_loop \<Rightarrow> stage_loop" where
  "after_success r lo = lo\<lparr>lo_completed := lo_completed lo @ [dump_result r]\<rparr>"

text \<open>The first loop of \<open>execute\<close>.\<close>

fun stage_pass :: "service_env \<Rightarrow> pipeline_context \<Rightarrow> service_stage list \<Rightarrow> stage_loop \<Rightarrow> stage_loop fx" where
  "stage_pass env cx [] lo = sx_ret lo"
| "stage_pass env cx (sg # sgs) lo0 =
     sx_bind (refresh_cancel env cx lo0) (\<lambda>lo.
       if lo_seen lo \<and> sg_policy sg \<noteq> ALWAYS_RUN then sx_ret (lo\<lparr>lo_cancelled := True\<rparr>)
       else sx_bind (sx_lift (stage_enabled cx sg)) (\<lambda>enabled.
         if \<not> enabled then sx_do (skip_disabled env cx sg) (stage_pass env cx sgs lo)
         else sx_do (enter_service_stage env cx sg)
           (sx_bind (sx_attempt (run_service_stage env cx sg)) (\<lambda>outcome. case outcome of
              Inl e \<Rightarrow>
                sx_do (stage_failed env cx sg e)
                  (if sg_policy sg = FAIL_FAST then sx_ret (after_failure sg e lo)
                   else stage_pass env cx sgs (after_failure sg e lo))
            | Inr r \<Rightarrow> sx_do (stage_succeeded env cx r) (stage_pass env cx sgs (after_success r lo))))))"

definition has_completed :: "stage_loop \<Rightarrow> string \<Rightarrow> bool" where
  "has_completed lo name = list_ex (\<lambda>item. dget item ''stage'' = PStr name) (lo_completed lo)"

text \<open>One stage of the second loop.\<close>

definition run_anyway :: "service_env \<Rightarrow> pipeline_context \<Rightarrow> service_stage \<Rightarrow> stage_loop \<Rightarrow> stage_loop fx" where
  "run_anyway env cx sg lo =
     sx_try
       (sx_do (set_pipeline_status (cx_audit_run_id cx) ''running'' (Some (sg_name sg)) None)
         (sx_bind (run_service_stage env cx sg) (\<lambda>r.
            sx_do (record_success env cx r) (sx_ret (after_success r lo)))))
       (\<lambda>e. sx_do (record_result env cx (sg_name sg) ''warning'' [] [] (Some (exc_str e))) (sx_ret lo))"

text \<open>The second loop: stages that always run, unless they have completed.\<close>

fun always_pass :: "service_env \<Rightarrow> pipeline_context \<Rightarrow> service_stage list \<Rightarrow> stage_loop \<Rightarrow> stage_loop fx" where
  "always_pass env cx [] lo = sx_ret lo"
| "always_pass env cx (sg # sgs) lo =
     (if sg_policy sg \<noteq> ALWAYS_RUN \<or> has_completed lo (sg_name sg) then always_pass env cx sgs lo
      else sx_bind (run_anyway env cx sg lo) (always_pass env cx sgs))"

definition loop_status :: "stage_loop \<Rightarrow> string" where
  "loop_status lo = (if lo_cancelled lo then ''cancelled'' else if lo_failed lo then ''failed'' else ''succeeded'')"

definition loop_state :: "stage_loop \<Rightarrow> string" where
  "loop_state lo = (if lo_cancelled lo then ''cancelled'' else if lo_failed lo then ''failed'' else ''completed'')"

definition finish_pipeline :: "service_env \<Rightarrow> pipeline_context \<Rightarrow> stage_loop \<Rightarrow> dict fx" where
  "finish_pipeline env cx lo =
     sx_do flush
     (sx_bind (wall_clock env) (\<lambda>t.
      sx_do (on_db (pipeline_finish (cx_pipeline_run_id cx) (loop_status lo)
                      [(''stages'', PList (map PDict (lo_completed lo)))] (lo_error lo) t))
      (sx_do (set_pipeline_status (cx_audit_run_id cx) (loop_state lo) None (lo_error lo))
      (sx_ret [(''status'', PStr (loop_status lo)), (''stages'', PList (map PDict (lo_completed lo)))]))))"

definition execute_stages :: "service_env \<Rightarrow> service_stage list \<Rightarrow> pipeline_context \<Rightarrow> dict fx" where
  "execute_stages env registered cx =
     sx_do (emit_event env ''dieaudit.audit_run.started'' ''audit_run.started'' cx [(''status'', PStr ''running'')])
     (sx_bind (sx_lift (ordered_stages registered)) (\<lambda>stages.
      sx_bind (stage_pass env cx stages
                 \<lparr>lo_completed = [], lo_failed = False, lo_cancelled = False, lo_error = None,
                  lo_seen = cx_cancelled cx\<rparr>) (\<lambda>lo.
      sx_bind (if lo_failed lo \<or> lo_cancelled lo then always_pass env cx stages lo else sx_ret lo) (\<lambda>lo'.
      finish_pipeline env cx lo'))))"

section \<open>The service and the worker\<close>

definition context_of :: "common_run \<Rightarrow> string \<Rightarrow> pipeline_context" where
  "context_of r pid =
     \<lparr>cx_audit_run_id = car_audit_run_id r, cx_pipeline_run_id = pid, cx_project_id = car_project_id r,
      cx_snapshot_id = car_snapshot_id r, cx_workspace_path = car_workspace_path r,
      cx_config = car_config r, cx_input_payload = car_input_payload r, cx_cancelled = car_cancel_requested r\<rparr>"

text \<open>\<open>PipelineService.run\<close>; only a failed pipeline makes a failed run.\<close>

definition open_pipeline :: "service_env \<Rightarrow> common_run \<Rightarrow> string fx" where
  "open_pipeline env r =
     sx_bind (wall_clock env) (\<lambda>t.
     sx_bind (sx_gets (\<lambda>s. fst (pipeline_create (car_audit_run_id r) t (fw_db s)))) (\<lambda>pid.
     sx_do (on_db (\<lambda>d. snd (pipeline_create (car_audit_run_id r) t d)))
     (sx_do (put_run (car_audit_run_id r) (\<lambda>q. q\<lparr>car_status := ''running'', car_pipeline_status := ''running''\<rparr>))
     (sx_ret pid))))"

definition close_pipeline :: "common_run \<Rightarrow> dict \<Rightarrow> dict fx" where
  "close_pipeline r result =
     sx_do (put_run (car_audit_run_id r) (\<lambda>q. q\<lparr>
              car_status := (if dget result ''status'' = PStr ''failed'' then ''failed'' else ''succeeded''),
              car_pipeline_status := py_str (dget result ''status''),
              car_current_stage := None\<rparr>))
       (sx_ret result)"

definition pipeline_service :: "service_env \<Rightarrow> common_run \<Rightarrow> dict fx" where
  "pipeline_service env r =
     sx_bind (open_pipeline env r) (\<lambda>pid.
     sx_bind (execute_stages env (stage_registry default_stages) (context_of r pid)) (close_pipeline r))"

text \<open>
  \<open>async with SessionLocal() as session: ...; await session.commit()\<close>: a new transaction. When
  the body or the flush of the commit raises, the database is as before; identifiers that were
  drawn and requests that were sent are not taken back.
\<close>

definition in_session :: "service_env \<Rightarrow> 'a fx \<Rightarrow> 'a fx" where
  "in_session env m s =
     (let s0 = s\<lparr>fw_db := (fw_db s)\<lparr>fd_now := se_clock env (fw_calls s)\<rparr>, fw_broken := False\<rparr>;
          rollback = (\<lambda>t. s0\<lparr>fw_db := (fw_db s0)\<lparr>fd_hex_next := fd_hex_next (fw_db t)\<rparr>, fw_calls := fw_calls t\<rparr>)
      in case m s0 of
           (Inl e, t) \<Rightarrow> (Inl e, rollback t)
         | (Inr x, t) \<Rightarrow> if flushable t then (Inr x, t) else (Inl (OtherError ''IntegrityError''), rollback t))"

definition claim_session :: "service_env \<Rightarrow> string \<Rightarrow> common_run option fx" where
  "claim_session env worker_id =
     in_session env (\<lambda>s. case claim_queued worker_id (fw_db s) of
       Inl e \<Rightarrow> (Inl e, s)
     | Inr (r, d) \<Rightarrow> (Inr r, s\<lparr>fw_db := d\<rparr>))"

text \<open>Running a claimed run; an exception marks it as failed in a session of its own.\<close>

definition run_session :: "service_env \<Rightarrow> string \<Rightarrow> unit fx" where
  "run_session env rid =
     sx_try
       (in_session env (sx_bind (get_flow_run rid) (\<lambda>r. case r of
          None \<Rightarrow> sx_ret ()
        | Some row \<Rightarrow> sx_do (pipeline_service env row) (sx_ret ()))))
       (\<lambda>e. in_session env (set_pipeline_status rid ''failed'' None (Some ''workflow worker crashed'')))"

text \<open>
  One turn of the loop of \<open>run_worker\<close>: the run it took, or \<open>None\<close> when none is queued. A claim
  that raises is outside the handler, so the worker ends.
\<close>

definition flow_turn :: "service_env \<Rightarrow> string \<Rightarrow> string option fx" where
  "flow_turn env worker_id =
     sx_bind (claim_session env worker_id) (\<lambda>claimed. case claimed of
       None \<Rightarrow> sx_ret None
     | Some r \<Rightarrow> sx_do (run_session env (car_audit_run_id r)) (sx_ret (Some (car_audit_run_id r))))"

fun flow_turns :: "service_env \<Rightarrow> string \<Rightarrow> nat \<Rightarrow> unit fx" where
  "flow_turns env worker_id 0 = sx_ret ()"
| "flow_turns env worker_id (Suc n) = sx_do (flow_turn env worker_id) (flow_turns env worker_id n)"

end
