(* ===== verification/Stage_Order.thy ===== *)
theory Stage_Order
  imports Stage_Registry "HOL-Library.Multiset"
begin

text \<open>
  The order of the stages is right: Kahn's loop keeps an invariant about the names it has put
  out, the counts it keeps and the queue, from which the order, its completeness for acyclic
  graphs and the error for cyclic ones follow.
\<close>

section \<open>One round of the loop\<close>

lemma release_spec:
  assumes "release cs (deg, queue) = (deg', queue')" "\<And>c. int (count_list cs c) \<le> deg c \<or> c \<notin> set cs"
  shows "deg' = (\<lambda>n. deg n - int (count_list cs n))"
    and "\<exists>new. queue' = queue @ new \<and> distinct new \<and> set new = {c \<in> set cs. deg c = int (count_list cs c)}"
proof -
  have "deg' = (\<lambda>n. deg n - int (count_list cs n)) \<and>
        (\<exists>new. queue' = queue @ new \<and> distinct new \<and> set new = {c \<in> set cs. deg c = int (count_list cs c)})"
    using assms
  proof (induction cs arbitrary: deg queue)
    case Nil
    then show ?case by simp
  next
    case (Cons c cs)
    let ?deg = "deg(c := deg c - 1)"
    let ?queue = "if deg c - 1 = 0 then queue @ [c] else queue"
    have r: "release cs (?deg, ?queue) = (deg', queue')" using Cons.prems(1) by (simp only: release.simps)
    have b: "int (count_list cs x) \<le> ?deg x \<or> x \<notin> set cs" for x
      using Cons.prems(2) [of x] by auto
    obtain new where new: "deg' = (\<lambda>n. ?deg n - int (count_list cs n))" "queue' = ?queue @ new" "distinct new"
        "set new = {x \<in> set cs. ?deg x = int (count_list cs x)}"
      using Cons.IH [OF r b] by blast
    have d: "deg' = (\<lambda>n. deg n - int (count_list (c # cs) n))" using new(1) by (auto simp: fun_eq_iff)
    show ?case
    proof (cases "deg c = 1")
      case True
      then have "count_list cs c = 0" using Cons.prems(2) [of c] by simp
      then have c: "c \<notin> set cs" by (simp add: count_list_0_iff)
      then have "queue' = queue @ (c # new)" "distinct (c # new)"
        using True new by auto
      moreover have "set (c # new) = {x \<in> set (c # cs). deg x = int (count_list (c # cs) x)}"
        using True c new(4) by (auto simp: count_list_0_iff)
      ultimately show ?thesis using d by blast
    next
      case False
      then have "queue' = queue @ new" using new(2) by simp
      moreover have "set new = {x \<in> set (c # cs). deg x = int (count_list (c # cs) x)}"
      proof -
        have "deg c \<noteq> int (count_list (c # cs) c) \<or> c \<in> set cs"
          using False by (cases "c \<in> set cs") (auto simp: count_list_0_iff)
        then show ?thesis using new(4) by auto
      qed
      ultimately show ?thesis using d new(3) by blast
    qed
  qed
  then show "deg' = (\<lambda>n. deg n - int (count_list cs n))"
    and "\<exists>new. queue' = queue @ new \<and> distinct new \<and> set new = {c \<in> set cs. deg c = int (count_list cs c)}"
    by blast+
qed

text \<open>How many dependencies of \<open>n\<close> are not among \<open>out\<close>.\<close>

definition open_deps :: "(string \<times> string) list \<Rightarrow> string set \<Rightarrow> string \<Rightarrow> nat" where
  "open_deps edges out n = length (filter (\<lambda>e. snd e = n \<and> fst e \<notin> out) edges)"

lemma open_deps_0: "open_deps edges out n = 0 \<longleftrightarrow> (\<forall>d. (d, n) \<in> set edges \<longrightarrow> d \<in> out)"
  by (auto simp: open_deps_def filter_empty_conv)

lemma count_children: "count_list (sort (children edges m)) n = length (filter (\<lambda>e. fst e = m \<and> snd e = n) edges)"
proof -
  have "count_list (sort xs) x = count_list xs x" for xs :: "string list" and x
    by (metis count_mset mset_sort)
  moreover have "count_list (children edges m) n = length (filter (\<lambda>e. fst e = m \<and> snd e = n) edges)"
    by (induction edges) (auto simp: children_def)
  ultimately show ?thesis by simp
qed

lemma open_deps_insert:
  "m \<notin> out \<Longrightarrow>
   open_deps edges out n = open_deps edges (insert m out) n + count_list (sort (children edges m)) n"
  unfolding count_children open_deps_def by (induction edges) auto

text \<open>Each name of the list comes after the names it depends on.\<close>

definition deps_first :: "(string \<times> string) set \<Rightarrow> string list \<Rightarrow> bool" where
  "deps_first E xs = (\<forall>ys n zs. xs = ys @ n # zs \<longrightarrow> (\<forall>d. (d, n) \<in> E \<longrightarrow> d \<in> set ys))"

lemma deps_first_Nil [simp]: "deps_first E []"
  by (simp add: deps_first_def)

lemma deps_first_snoc: "deps_first E (xs @ [x]) \<longleftrightarrow> deps_first E xs \<and> (\<forall>d. (d, x) \<in> E \<longrightarrow> d \<in> set xs)"
proof
  assume a: "deps_first E (xs @ [x])"
  have "deps_first E xs"
    unfolding deps_first_def
  proof (intro allI impI)
    fix ys n zs d assume "xs = ys @ n # zs" and e: "(d, n) \<in> E"
    then have "xs @ [x] = ys @ n # (zs @ [x])" by simp
    with a e show "d \<in> set ys" unfolding deps_first_def by blast
  qed
  moreover have "\<forall>d. (d, x) \<in> E \<longrightarrow> d \<in> set xs"
    using a unfolding deps_first_def by blast
  ultimately show "deps_first E xs \<and> (\<forall>d. (d, x) \<in> E \<longrightarrow> d \<in> set xs)" by blast
next
  assume a: "deps_first E xs \<and> (\<forall>d. (d, x) \<in> E \<longrightarrow> d \<in> set xs)"
  show "deps_first E (xs @ [x])"
    unfolding deps_first_def
  proof (intro allI impI)
    fix ys n zs d assume s: "xs @ [x] = ys @ n # zs" and e: "(d, n) \<in> E"
    show "d \<in> set ys"
    proof (cases zs rule: rev_cases)
      case Nil
      then show ?thesis using s e a by simp
    next
      case (snoc ws w)
      then have "xs = ys @ n # ws" using s by simp
      then show ?thesis using a e unfolding deps_first_def by blast
    qed
  qed
qed

section \<open>The invariant\<close>

definition kahn_inv :: "(string \<times> string) list \<Rightarrow> string set \<Rightarrow> string list \<Rightarrow> (string \<Rightarrow> int) \<Rightarrow> string list \<Rightarrow> bool" where
  "kahn_inv edges names out deg queue =
     (distinct (out @ queue) \<and> deg = (\<lambda>n. int (open_deps edges (set out) n)) \<and>
      set (out @ queue) = {n \<in> names. open_deps edges (set out) n = 0} \<and> deps_first (set edges) out)"

lemma kahn_inv_round:
  assumes inv: "kahn_inv edges names out deg (name # queue)" and names: "snd ` set edges \<subseteq> names"
    and r: "release (sort (children edges name)) (deg, queue) = (deg', queue')"
  shows "kahn_inv edges names (out @ [name]) deg' queue'"
proof -
  let ?out = "insert name (set out)"
  from inv have fresh: "name \<notin> set out" and dist: "distinct (out @ name # queue)"
    and deg: "deg = (\<lambda>n. int (open_deps edges (set out) n))"
    and eq: "set (out @ name # queue) = {n \<in> names. open_deps edges (set out) n = 0}"
    and first: "deps_first (set edges) out"
    by (auto simp: kahn_inv_def)
  let ?cs = "sort (children edges name)"
  have bound: "int (count_list ?cs c) \<le> deg c \<or> c \<notin> set ?cs" for c
    using open_deps_insert [OF fresh, of edges c] by (simp add: deg)
  obtain new where new: "queue' = queue @ new" "distinct new" "set new = {c \<in> set ?cs. deg c = int (count_list ?cs c)}"
    using release_spec(2) [OF r bound] by blast
  have deg': "deg' n = int (open_deps edges ?out n)" for n
    using release_spec(1) [OF r bound] open_deps_insert [OF fresh, of edges n] by (simp add: deg)
  have set_new: "set new = {c \<in> names. open_deps edges ?out c = 0 \<and> 0 < open_deps edges (set out) c}"
  proof -
    have "c \<in> set ?cs \<longleftrightarrow> 0 < count_list ?cs c" for c
      by (metis count_list_0_iff neq0_conv)
    moreover have "set ?cs \<subseteq> names" using names by (auto simp: children_def)
    ultimately show ?thesis
      using open_deps_insert [OF fresh, of edges] by (auto simp: new(3) deg)
  qed
  have zero: "open_deps edges (set out) c = 0 \<Longrightarrow> open_deps edges ?out c = 0" for c
    using open_deps_insert [OF fresh, of edges c] by simp
  have set_eq: "set ((out @ [name]) @ queue') = {n \<in> names. open_deps edges ?out n = 0}"
  proof -
    have "set ((out @ [name]) @ queue') = set (out @ name # queue) \<union> set new" using new(1) by auto
    also have "\<dots> = {n \<in> names. open_deps edges ?out n = 0}" unfolding eq set_new using zero by auto
    finally show ?thesis .
  qed
  have "set new \<inter> set (out @ name # queue) = {}" unfolding eq set_new by auto
  then have "distinct ((out @ [name]) @ queue')" using dist new by auto
  moreover have "deps_first (set edges) (out @ [name])"
  proof -
    have "open_deps edges (set out) name = 0" using eq by auto
    then show ?thesis using first by (auto simp: deps_first_snoc open_deps_0)
  qed
  ultimately show ?thesis
    using set_eq deg' by (simp add: kahn_inv_def fun_eq_iff)
qed

lemma kahn_correct:
  assumes "kahn_inv edges names out deg queue" "snd ` set edges \<subseteq> names"
  shows "\<exists>deg'. kahn_inv edges names (out @ kahn edges deg queue) deg' []"
  using assms
proof (induction edges deg queue arbitrary: out rule: kahn.induct)
  case (1 edges deg)
  then show ?case by auto
next
  case (2 edges deg name queue)
  obtain deg' queue' where r: "release (sort (children edges name)) (deg, queue) = (deg', queue')" by fastforce
  from kahn_inv_round [OF "2.prems" r] have "kahn_inv edges names (out @ [name]) deg' queue'" .
  from "2.IH" [OF r [symmetric] this "2.prems"(2)] show ?case by (simp add: r)
qed

lemma indegree_open: "indegree edges n = int (open_deps edges {} n)"
  by (simp add: indegree_def open_deps_def)

lemma stage_order_inv:
  assumes "distinct (map sg_name stages)"
  shows "\<exists>deg'. kahn_inv (stage_edges stages) (sg_name ` set stages) (stage_order stages) deg' []"
proof -
  let ?q = "sort (filter (\<lambda>n. indegree (stage_edges stages) n = 0) (map sg_name stages))"
  have "kahn_inv (stage_edges stages) (sg_name ` set stages) [] (indegree (stage_edges stages)) ?q"
    unfolding kahn_inv_def
  proof (intro conjI)
    show "distinct ([] @ ?q)" using assms by simp
    show "indegree (stage_edges stages) = (\<lambda>n. int (open_deps (stage_edges stages) (set []) n))"
      by (simp add: fun_eq_iff indegree_open)
    show "set ([] @ ?q) = {n \<in> sg_name ` set stages. open_deps (stage_edges stages) (set []) n = 0}"
      by (auto simp: indegree_open)
  qed simp
  moreover have "snd ` set (stage_edges stages) \<subseteq> sg_name ` set stages" by (auto simp: stage_edges_def)
  ultimately show ?thesis unfolding stage_order_def using kahn_correct [of _ _ "[]"] by (metis append_Nil)
qed

section \<open>Order and cycles\<close>

lemma deps_first_acyclic:
  assumes "deps_first E xs" "snd ` E \<subseteq> set xs"
  shows "acyclic E"
proof -
  let ?pos = "\<lambda>n. length (takeWhile (\<lambda>x. x \<noteq> n) xs)"
  have "E \<subseteq> measure ?pos"
  proof (rule subrelI)
    fix d n assume e: "(d, n) \<in> E"
    then have "n \<in> set xs" using assms(2) by force
    then obtain ys zs where s: "xs = ys @ n # zs" "n \<notin> set ys" by (meson split_list_first)
    then have "d \<in> set ys" using assms(1) e unfolding deps_first_def by blast
    then obtain us vs where "ys = us @ d # vs" "d \<notin> set us" by (meson split_list_first)
    then have "?pos d = length us" "?pos n = length ys" "length us < length ys"
      using s by (auto simp: takeWhile_append takeWhile_eq_all_conv)
    then show "(d, n) \<in> measure ?pos" by simp
  qed
  then show ?thesis by (meson wf_acyclic wf_measure wf_subset)
qed

lemma acyclic_complete:
  assumes "acyclic (set edges)" "fst ` set edges \<subseteq> names" "kahn_inv edges names out deg []"
  shows "set out = names"
proof (rule ccontr)
  assume a: "set out \<noteq> names"
  let ?R = "names - set out"
  have "set out \<subseteq> names" using assms(3) by (auto simp: kahn_inv_def)
  then have "?R \<noteq> {}" using a by blast
  moreover have "wf (set edges)" using assms(1) by (simp add: finite_acyclic_wf)
  ultimately obtain n where n: "n \<in> ?R" "\<And>d. (d, n) \<in> set edges \<Longrightarrow> d \<notin> ?R"
    by (metis wfE_min all_not_in_conv)
  have "open_deps edges (set out) n = 0"
    unfolding open_deps_0 using n(2) assms(2) by force
  then have "n \<in> set out" using assms(3) n(1) by (auto simp: kahn_inv_def)
  then show False using n(1) by blast
qed

lemma names_stage_put: "sg_name ` set (stage_put s ts) = insert (sg_name s) (sg_name ` set ts)"
  by (induction s ts rule: stage_put.induct) auto

lemma distinct_stage_put: "distinct (map sg_name ts) \<Longrightarrow> distinct (map sg_name (stage_put s ts))"
  by (induction s ts rule: stage_put.induct) (auto simp: names_stage_put)

lemma distinct_registry: "distinct (map sg_name (stage_registry stages))"
proof -
  have "distinct (map sg_name acc) \<Longrightarrow> distinct (map sg_name (fold stage_put stages acc))" for acc
    by (induction stages arbitrary: acc) (simp_all add: distinct_stage_put)
  then show ?thesis by (simp add: stage_registry_def)
qed

lemma named_stage_distinct:
  "distinct (map sg_name stages) \<Longrightarrow> s \<in> set stages \<Longrightarrow> named_stage stages (sg_name s) = [s]"
  unfolding named_stage_def
  by (induction stages) (auto simp: filter_empty_conv image_iff)

lemma map_names_ordered:
  assumes "distinct (map sg_name stages)" "set ns \<subseteq> sg_name ` set stages"
  shows "map sg_name (concat (map (named_stage stages) ns)) = ns"
    and "set (concat (map (named_stage stages) ns)) \<subseteq> set stages"
  using assms(2)
proof (induction ns)
  case (Cons n ns)
  case 1
  then obtain s where "s \<in> set stages" "n = sg_name s" by auto
  then show ?case using Cons 1 named_stage_distinct [OF assms(1)] by simp
next
  case (Cons n ns)
  case 2
  then show ?case using Cons by (auto simp: named_stage_def)
qed simp_all

lemma unknown_dependency_None:
  "unknown_dependency stages = None \<longleftrightarrow> fst ` set (stage_edges stages) \<subseteq> sg_name ` set stages"
  by (auto simp: unknown_dependency_def find_None_iff split: prod.splits)

lemma ordered_Inr:
  assumes d: "distinct (map sg_name stages)" and o: "ordered_stages stages = Inr os"
  shows "mset os = mset stages" "deps_first (set (stage_edges stages)) (map sg_name os)"
    "acyclic (set (stage_edges stages))"
proof -
  obtain deg where inv: "kahn_inv (stage_edges stages) (sg_name ` set stages) (stage_order stages) deg []"
    using stage_order_inv [OF d] by blast
  from o have len: "length (stage_order stages) = length stages"
    and os: "os = concat (map (named_stage stages) (stage_order stages))"
    by (auto simp: ordered_stages_def split: option.splits prod.splits if_splits)
  have sub: "set (stage_order stages) \<subseteq> sg_name ` set stages" and dist: "distinct (stage_order stages)"
    and first: "deps_first (set (stage_edges stages)) (stage_order stages)"
    using inv by (auto simp: kahn_inv_def)
  have names: "map sg_name os = stage_order stages" and "set os \<subseteq> set stages"
    using map_names_ordered [OF d sub] os by auto
  have "card (set (stage_order stages)) = card (sg_name ` set stages)"
    using dist d len by (metis distinct_card length_map list.set_map)
  then have all: "set (stage_order stages) = sg_name ` set stages"
    using sub by (simp add: card_subset_eq)
  have "distinct os" using names dist by (metis distinct_map)
  moreover have "length os = length stages" using names len by (metis length_map)
  moreover have "distinct stages" using d by (simp add: distinct_map)
  ultimately have "set os = set stages"
    using \<open>set os \<subseteq> set stages\<close> by (metis card_subset_eq distinct_card finite_set)
  then show "mset os = mset stages"
    using \<open>distinct os\<close> \<open>distinct stages\<close> by (simp add: set_eq_iff_mset_eq_distinct)
  show "deps_first (set (stage_edges stages)) (map sg_name os)" using first names by simp
  have "snd ` set (stage_edges stages) \<subseteq> set (stage_order stages)"
    unfolding all by (auto simp: stage_edges_def)
  then show "acyclic (set (stage_edges stages))" by (rule deps_first_acyclic [OF first])
qed

lemma ordered_total:
  assumes d: "distinct (map sg_name stages)" and known: "fst ` set (stage_edges stages) \<subseteq> sg_name ` set stages"
    and acyc: "acyclic (set (stage_edges stages))"
  shows "\<exists>os. ordered_stages stages = Inr os"
proof -
  obtain deg where inv: "kahn_inv (stage_edges stages) (sg_name ` set stages) (stage_order stages) deg []"
    using stage_order_inv [OF d] by blast
  have "set (stage_order stages) = sg_name ` set stages" by (rule acyclic_complete [OF acyc known inv])
  moreover have "distinct (stage_order stages)" using inv by (simp add: kahn_inv_def)
  ultimately have "length (stage_order stages) = length stages"
    using d by (metis distinct_card length_map list.set_map)
  then show ?thesis using known by (simp add: ordered_stages_def unknown_dependency_None [THEN iffD2])
qed

text \<open>C31. Whatever stages are registered: when an order is returned it has each registered stage
  once, after all the stages it depends on; an error means that a dependency is not registered or
  that the dependencies have a cycle. The loop ends in every case.\<close>

theorem stage_order_correct:
  "case ordered_stages (stage_registry stages) of
     Inr os \<Rightarrow>
       mset os = mset (stage_registry stages) \<and>
       deps_first (set (stage_edges (stage_registry stages))) (map sg_name os) \<and>
       acyclic (set (stage_edges (stage_registry stages)))
   | Inl e \<Rightarrow>
       \<not> (fst ` set (stage_edges (stage_registry stages)) \<subseteq> sg_name ` set (stage_registry stages) \<and>
          acyclic (set (stage_edges (stage_registry stages))))"
  using ordered_Inr [OF distinct_registry] ordered_total [OF distinct_registry, of stages]
  by (auto split: sum.splits)

lemma default_order: "ordered_stages default_stages = Inr default_stages"
  by code_simp

end
