(* ===== verification/Flow_Invariants.thy ===== *)
theory Flow_Invariants
  imports Flow_Pipeline Stage_Order
begin

text \<open>
  What every call of the workflow worker keeps, whatever it returns or raises. \<open>fw_step rid s t\<close>
  relates the states before and after a call made for the run \<open>rid\<close>: requests and rows are only
  added, no other run is touched, and of the run itself neither the cancellation nor the
  retention flag is. As an invariant from a fixed first state it goes through the composed
  calls with the rules of \<open>keeps\<close>.
\<close>

section \<open>Steps for one run\<close>

definition run_flags :: "common_run \<Rightarrow> bool \<times> bool \<times> time" where
  "run_flags r = (car_cancel_requested r, car_retain_runtime_on_failure r, created_at r)"

text \<open>The payload of an event of the pipeline is inside the payload that is stored.\<close>

definition nested_event :: "common_event \<Rightarrow> bool" where
  "nested_event e = (\<exists>subj ty rid t p. cev_payload e = event_to_payload subj ty rid t p)"

definition fw_step :: "string \<Rightarrow> flow_state \<Rightarrow> flow_state \<Rightarrow> bool" where
  "fw_step rid s t =
     ((\<exists>cs. fw_calls t = fw_calls s @ cs) \<and>
      (\<exists>rows. fd_stages (fw_db t) = fd_stages (fw_db s) @ rows) \<and>
      (\<exists>rows. fd_events (fw_db t) = fd_events (fw_db s) @ rows \<and> list_all nested_event rows) \<and>
      (fw_broken s \<longrightarrow> fw_broken t) \<and> fd_now (fw_db t) = fd_now (fw_db s) \<and>
      map car_audit_run_id (fd_runs (fw_db t)) = map car_audit_run_id (fd_runs (fw_db s)) \<and>
      (\<forall>k. k \<noteq> rid \<longrightarrow> run_get k (fw_db t) = run_get k (fw_db s)) \<and>
      map_option run_flags (run_get rid (fw_db t)) = map_option run_flags (run_get rid (fw_db s)))"

lemma fw_step_refl [simp]: "fw_step rid s s"
  by (simp add: fw_step_def)

lemma fw_step_trans [trans]: "fw_step rid s t \<Longrightarrow> fw_step rid t u \<Longrightarrow> fw_step rid s u"
  unfolding fw_step_def by fastforce

lemma fw_step_flushable: "fw_step rid s t \<Longrightarrow> flushable t \<Longrightarrow> flushable s"
  by (auto simp: fw_step_def flushable_def stages_unique_def)

lemma fw_step_calls: "fw_step rid s t \<Longrightarrow> c \<in> set (fw_calls s) \<Longrightarrow> c \<in> set (fw_calls t)"
  by (auto simp: fw_step_def)

lemma fw_step_present: "fw_step rid s t \<Longrightarrow> run_get rid (fw_db s) \<noteq> None \<Longrightarrow> run_get rid (fw_db t) \<noteq> None"
  by (auto simp: fw_step_def)

definition steps :: "string \<Rightarrow> 'a fx \<Rightarrow> bool" where
  "steps rid m = (\<forall>s0. keeps (fw_step rid s0) m)"

lemma stepsD: "steps rid m \<Longrightarrow> fw_step rid s (snd (m s))"
  by (simp add: steps_def keeps_def)

lemma steps_wp: "steps rid m \<longleftrightarrow> (\<forall>s. sx_wp m (\<lambda>_ t. fw_step rid s t) (\<lambda>_ t. fw_step rid s t) s)"
proof
  assume "steps rid m"
  then show "\<forall>s. sx_wp m (\<lambda>_ t. fw_step rid s t) (\<lambda>_ t. fw_step rid s t) s"
    by (metis fw_step_refl keeps_wp steps_def)
next
  assume a: "\<forall>s. sx_wp m (\<lambda>_ t. fw_step rid s t) (\<lambda>_ t. fw_step rid s t) s"
  show "steps rid m"
    unfolding steps_def keeps_wp
    by (intro allI impI) (rule sx_wp_mono [OF a [rule_format]], (erule (1) fw_step_trans)+)
qed

named_theorems steps_intros \<open>calls that are steps for their run\<close>

lemma steps_keeps [steps_intros]:
  "steps rid (sx_ret x)" "steps rid (sx_raise e)" "steps rid (sx_lift v)" "steps rid (sx_gets g)"
  by (simp_all add: steps_def keeps_intros)

lemma steps_bind [steps_intros]: "steps rid m \<Longrightarrow> (\<And>x. steps rid (f x)) \<Longrightarrow> steps rid (sx_bind m f)"
  by (simp add: steps_def keeps_bind)

lemma steps_do [steps_intros]: "steps rid m \<Longrightarrow> steps rid k \<Longrightarrow> steps rid (sx_do m k)"
  by (simp add: steps_def keeps_do)

lemma steps_try [steps_intros]: "steps rid m \<Longrightarrow> (\<And>e. steps rid (h e)) \<Longrightarrow> steps rid (sx_try m h)"
  by (simp add: steps_def keeps_try)

lemma steps_attempt [steps_intros]: "steps rid m \<Longrightarrow> steps rid (sx_attempt m)"
  by (simp add: steps_def keeps_attempt)

lemma steps_if [steps_intros]: "(b \<Longrightarrow> steps rid m) \<Longrightarrow> (\<not> b \<Longrightarrow> steps rid k) \<Longrightarrow> steps rid (if b then m else k)"
  by simp

lemma steps_let [steps_intros]: "(\<And>x. steps rid (f x)) \<Longrightarrow> steps rid (let x = v in f x)"
  by simp

lemma steps_case_sum [steps_intros]:
  "(\<And>e. steps rid (m e)) \<Longrightarrow> (\<And>x. steps rid (k x)) \<Longrightarrow> steps rid (case v of Inl e \<Rightarrow> m e | Inr x \<Rightarrow> k x)"
  by (cases v) auto

lemma steps_case_option [steps_intros]:
  "steps rid m \<Longrightarrow> (\<And>x. v = Some x \<Longrightarrow> steps rid (k x)) \<Longrightarrow> steps rid (case v of None \<Rightarrow> m | Some x \<Rightarrow> k x)"
  by (cases v) auto

lemma steps_modify: "(\<And>s. fw_step rid s (f s)) \<Longrightarrow> steps rid (sx_modify f)"
  by (simp add: steps_wp)

section \<open>The single effects\<close>

lemma steps_flush [steps_intros]: "steps rid flush"
  unfolding flush_def by (intro steps_intros)

lemma steps_wall_clock [steps_intros]: "steps rid (wall_clock env)"
  unfolding wall_clock_def by (intro steps_intros)

lemma steps_get [steps_intros]: "steps rid (get_flow_run k)"
  unfolding get_flow_run_def by (intro steps_intros)

lemma steps_put:
  assumes "\<And>r. car_audit_run_id (f r) = car_audit_run_id r" "\<And>r. run_flags (f r) = run_flags r"
  shows "steps rid (put_run rid f)"
  unfolding put_run_def on_db_def
proof (rule steps_modify)
  fix s :: flow_state
  let ?t = "s\<lparr>fw_db := write_flow_run rid f (fw_db s)\<rparr>"
  have "map car_audit_run_id (fd_runs (fw_db ?t)) = map car_audit_run_id (fd_runs (fw_db s))"
    by (simp add: write_flow_run_def row_upd_def assms(1) stamped_def)
  moreover have "map_option run_flags (run_get rid (fw_db ?t)) = map_option run_flags (run_get rid (fw_db s))"
    using assms(2)
    by (cases "run_get rid (fw_db s)") (auto simp: run_get_write [OF assms(1)] run_flags_def)
  ultimately show "fw_step rid s ?t"
    unfolding fw_step_def by (simp add: run_get_write [OF assms(1)]) (simp add: write_flow_run_def)
qed

lemma steps_append:
  assumes "\<And>d. fd_runs (f d) = fd_runs d" "\<And>d. fd_now (f d) = fd_now d"
    "\<And>d. \<exists>rows. fd_stages (f d) = fd_stages d @ rows" "\<And>d. \<exists>rows. fd_events (f d) = fd_events d @ rows \<and> list_all nested_event rows"
  shows "steps rid (on_db f)"
  unfolding on_db_def by (rule steps_modify) (simp add: fw_step_def run_get_def assms)

lemma steps_post [steps_intros]: "steps rid (post_request env c)"
  by (simp add: steps_wp post_request_def sx_wp_def fw_step_def split: sum.splits)

lemma steps_record [steps_intros]: "steps rid (record_result env cx stage status summary aids err)"
  unfolding record_result_def by (intro steps_intros steps_append) (simp_all add: stage_record_def)

lemma steps_emit [steps_intros]: "steps rid (emit_event env subj ev cx payload)"
  unfolding emit_event_def by (intro steps_intros steps_append) (simp_all add: event_append_def nested_event_def, blast)

lemma steps_set_status [steps_intros]: "steps rid (set_pipeline_status rid st c e)"
proof -
  have "steps rid (on_db (set_run_state rid st c e))"
    unfolding set_run_state_def put_run_def [symmetric]
    by (rule steps_put) (simp_all add: run_flags_def)
  then show ?thesis unfolding set_pipeline_status_def by (intro steps_intros)
qed

section \<open>The runner\<close>

lemma wp_runner_audit_run:
  "sx_wp (runner_audit_run rid) Q E s \<longleftrightarrow>
     (if flushable s then (case run_get rid (fw_db s) of None \<Rightarrow> E (RuntimeError ''audit run not found'') s | Some r \<Rightarrow> Q r s)
      else E (OtherError ''IntegrityError'') s)"
  by (simp add: runner_audit_run_def get_flow_run_def flush_def split: option.splits)

lemma run_get_id: "run_get rid d = Some r \<Longrightarrow> car_audit_run_id r = rid"
  unfolding run_get_def by (drule row_find_Some) simp

lemma steps_runner_bind:
  assumes "\<And>r. car_audit_run_id r = rid \<Longrightarrow> steps rid (f r)"
  shows "steps rid (sx_bind (runner_audit_run rid) f)"
  unfolding steps_wp
proof (intro allI)
  fix s
  show "sx_wp (sx_bind (runner_audit_run rid) f) (\<lambda>_. fw_step rid s) (\<lambda>_. fw_step rid s) s"
    using assms run_get_id by (auto simp: wp_runner_audit_run steps_wp split: option.splits)
qed

lemma steps_run_findings [steps_intros]: "steps rid (run_findings env k)"
  unfolding run_findings_def by (intro steps_intros)

lemma steps_ask_agent [steps_intros]: "steps rid (ask_agent env r a p x)"
  unfolding ask_agent_def start_agent_run_def by (intro steps_intros)

lemma steps_snapshot_ready: "steps (car_audit_run_id r) (snapshot_ready r)"
proof -
  have "steps k (sx_modify (\<lambda>s. s\<lparr>fw_broken := True\<rparr>))" for k
    by (rule steps_modify) (simp add: fw_step_def)
  moreover have "steps (car_audit_run_id r) (put_run (car_audit_run_id r) (\<lambda>q. q\<lparr>car_workspace_path := p\<rparr>))" for p
    by (rule steps_put) (simp_all add: run_flags_def)
  ultimately show ?thesis
    unfolding snapshot_ready_def Let_def
    by (intro steps_intros steps_put) (auto simp: run_flags_def split: pyval.split)
qed

lemma steps_structure: "steps (car_audit_run_id r) (structure_discovery env r)"
  unfolding structure_discovery_def workspace_structure_def
  by (intro steps_intros steps_put) (simp_all add: run_flags_def)

lemma steps_report [steps_intros]: "steps rid (report_stage env r)"
  unfolding report_stage_def Let_def
  by (intro steps_intros steps_append) (simp_all add: new_id_def)

lemma steps_adapter [steps_intros]: "steps rid (stage_adapter env rid stage)"
  unfolding stage_adapter_def
proof (rule steps_runner_bind)
  fix r :: common_run
  assume "car_audit_run_id r = rid"
  then have "steps rid (snapshot_ready r)" "steps rid (structure_discovery env r)"
    using steps_snapshot_ready steps_structure by blast+
  then show "steps rid
        (if stage = ''snapshot-ready'' then snapshot_ready r
         else if stage = ''structure-discovery'' then structure_discovery env r
         else if stage = ''agent-audit'' then agent_audit env r
         else if stage = ''code-analysis'' then code_analysis env r
         else if stage = ''value-triage'' then sx_ret value_triage
         else if stage = ''whiteboard-swarm'' then whiteboard_swarm r
         else if stage = ''validation-judgement'' then validation_judgement env r
         else if stage = ''feedback-loop'' then sx_ret feedback_stage
         else if stage = ''poc-writing'' then poc_agent_stage env r ''poc-writer''
         else if stage = ''poc-verification'' then poc_agent_stage env r ''poc-verifier''
         else if stage = ''report'' then report_stage env r
         else if stage = ''runtime-cleanup'' then runtime_cleanup env r
         else sx_raise (RuntimeError (''unknown stage: '' @ stage)))"
    unfolding agent_audit_def code_analysis_def whiteboard_swarm_def validation_judgement_def
      poc_agent_stage_def runtime_cleanup_def cleanup_runtime_def
    by (intro steps_intros)
qed

lemma steps_service_stage [steps_intros]: "cx_audit_run_id cx = rid \<Longrightarrow> steps rid (run_service_stage env cx sg)"
  unfolding run_service_stage_def by (intro steps_intros) (auto intro: steps_intros)

section \<open>The executor\<close>

lemma steps_refresh [steps_intros]: "steps rid (refresh_cancel env cx lo)"
  unfolding refresh_cancel_def by (intro steps_intros)

lemma steps_enter [steps_intros]: "cx_audit_run_id cx = rid \<Longrightarrow> steps rid (enter_service_stage env cx sg)"
  unfolding enter_service_stage_def by (simp, intro steps_intros)

lemma steps_outcomes [steps_intros]:
  "steps rid (skip_disabled env cx sg)" "steps rid (stage_failed env cx sg e)"
  "steps rid (stage_succeeded env cx r)" "steps rid (record_success env cx r)"
  unfolding skip_disabled_def stage_failed_def stage_succeeded_def record_success_def by (intro steps_intros)+

lemma steps_stage_pass [steps_intros]: "cx_audit_run_id cx = rid \<Longrightarrow> steps rid (stage_pass env cx sgs lo)"
  by (induction env cx sgs lo rule: stage_pass.induct)
     (auto intro!: steps_intros simp: steps_intros)

lemma steps_run_anyway [steps_intros]: "cx_audit_run_id cx = rid \<Longrightarrow> steps rid (run_anyway env cx sg lo)"
  unfolding run_anyway_def by (auto intro!: steps_intros)

lemma steps_always_pass [steps_intros]: "cx_audit_run_id cx = rid \<Longrightarrow> steps rid (always_pass env cx sgs lo)"
  by (induction env cx sgs lo rule: always_pass.induct) (auto intro!: steps_intros)

lemma steps_finish [steps_intros]: "cx_audit_run_id cx = rid \<Longrightarrow> steps rid (finish_pipeline env cx lo)"
  unfolding finish_pipeline_def
  by (intro steps_intros steps_append) (auto simp: pipeline_finish_def intro!: steps_intros)

lemma steps_execute [steps_intros]: "cx_audit_run_id cx = rid \<Longrightarrow> steps rid (execute_stages env stages cx)"
  unfolding execute_stages_def by (intro steps_intros) auto

lemma context_of_id [simp]: "cx_audit_run_id (context_of r pid) = car_audit_run_id r"
  by (simp add: context_of_def)

lemma steps_pipeline_service: "steps (car_audit_run_id r) (pipeline_service env r)"
  unfolding pipeline_service_def open_pipeline_def close_pipeline_def
  by (intro steps_intros steps_append steps_put) (simp_all add: pipeline_create_def new_id_def run_flags_def)

end
