(* ===== verification/Flow_Contracts.thy ===== *)
theory Flow_Contracts
  imports Flow_Invariants
begin

text \<open>
  What a pipeline of the workflow worker guarantees, for every behaviour of the other services:
  the clean-up is always asked for, the outcome of the run, what a crash leaves behind, and what
  becomes of a cancellation.
\<close>

section \<open>Single steps\<close>

abbreviation run_status :: "string \<Rightarrow> flow_state \<Rightarrow> string option" where
  "run_status rid s \<equiv> map_option car_status (run_get rid (fw_db s))"

lemma wp_get: "sx_wp (get_flow_run rid) Q E s \<longleftrightarrow>
    (if flushable s then Q (run_get rid (fw_db s)) s else E (OtherError ''IntegrityError'') s)"
  by (simp add: get_flow_run_def flush_def)

lemma run_get_set_state [simp]:
  "run_get k (set_run_state rid st c e d) =
     (if k = rid then map_option (\<lambda>r. stamped (fd_now d) r (with_pipeline_state st c e r)) (run_get k d)
      else run_get k d)"
  by (simp add: set_run_state_def run_get_write)

lemma sx_wp_True [simp]: "sx_wp m (\<lambda>_ _. True) (\<lambda>_ _. True) s"
  by (simp add: sx_wp_def split: prod.splits sum.splits)

lemma wp_post [simp]:
  "sx_wp (post_request env c) Q E s \<longleftrightarrow>
     (case se_reply env (fw_calls s) c of
        Inl e \<Rightarrow> E e (s\<lparr>fw_calls := fw_calls s @ [c]\<rparr>)
      | Inr v \<Rightarrow> Q (case v of PDict d \<Rightarrow> d | _ \<Rightarrow> [(''result'', v)]) (s\<lparr>fw_calls := fw_calls s @ [c]\<rparr>))"
  by (simp add: sx_wp_def post_request_def split: sum.splits)

lemma wp_on_db [simp]: "sx_wp (on_db f) Q E s = Q () (s\<lparr>fw_db := f (fw_db s)\<rparr>)"
  by (simp add: on_db_def)

lemma wp_wall_clock [simp]: "sx_wp (wall_clock env) Q E s = Q (se_clock env (fw_calls s)) s"
  by (simp add: wall_clock_def)

lemma flushable_simps [simp]:
  "flushable (s\<lparr>fw_db := d\<rparr>) \<longleftrightarrow> stages_unique d \<and> \<not> fw_broken s"
  "flushable (s\<lparr>fw_calls := cs\<rparr>) = flushable s"
  by (simp_all add: flushable_def)

lemma stages_unique_simps [simp]:
  "stages_unique (set_run_state rid st c e d) = stages_unique d"
  "stages_unique (event_append rid subj ev p d) = stages_unique d"
  by (simp_all add: stages_unique_def set_run_state_def write_flow_run_def event_append_def)

lemma wp_set_status:
  assumes "run_get rid (fw_db s) = Some r"
  shows "sx_wp (set_pipeline_status rid st c e) Q E s \<longleftrightarrow>
     (if flushable s then Q () (s\<lparr>fw_db := set_run_state rid st c e (fw_db s)\<rparr>)
      else E (OtherError ''IntegrityError'') s)"
  using assms by (simp add: set_pipeline_status_def wp_get)

lemma frame_set_state [simp]:
  "fd_stages (set_run_state rid st c e d) = fd_stages d"
  "fd_events (set_run_state rid st c e d) = fd_events d"
  "fd_now (set_run_state rid st c e d) = fd_now d"
  by (simp_all add: set_run_state_def write_flow_run_def)

lemma event_append_frame [simp]:
  "fd_stages (event_append rid subj ev p d) = fd_stages d"
  "fd_runs (event_append rid subj ev p d) = fd_runs d"
  "fd_now (event_append rid subj ev p d) = fd_now d"
  "run_get k (event_append rid subj ev p d) = run_get k d"
  by (simp_all add: event_append_def run_get_def)

text \<open>After a stage has been entered, its run is marked as running.\<close>

lemma wp_enter:
  assumes "cx_audit_run_id cx = rid" "run_get rid (fw_db s) \<noteq> None"
  shows "sx_wp (enter_service_stage env cx sg)
           (\<lambda>_ t. run_status rid t = Some ''running'' \<and> flushable t \<and> fw_calls t = fw_calls s) (\<lambda>_ _. True) s"
proof -
  obtain r where r: "run_get rid (fw_db s) = Some r" using assms(2) by blast
  show ?thesis
    unfolding enter_service_stage_def sx_wp_do assms(1) wp_set_status [OF r]
    by (simp add: emit_event_def r flushable_def)
qed

text \<open>A failed run would be retained, but the stage is only entered with the run marked as running.\<close>

lemma wp_cleanup_stage:
  assumes "cx_audit_run_id cx = rid" "sg_name sg = ''runtime-cleanup''"
    and "flushable s" "run_status rid s = Some ''running''"
  shows "sx_wp (run_service_stage env cx sg)
           (\<lambda>r t. fw_calls t = fw_calls s @ [Cleanup_Call rid] \<and> sr_stage r = ''runtime-cleanup'' \<and> flushable t) (\<lambda>_ _. False) s"
proof -
  obtain row where row: "run_get rid (fw_db s) = Some row" "car_status row = ''running''"
    using assms(4) by auto
  have "car_audit_run_id row = rid" using row(1) by (rule run_get_id)
  then have "sx_wp (runtime_cleanup env row) (\<lambda>_ t. fw_calls t = fw_calls s @ [Cleanup_Call rid] \<and> flushable t) (\<lambda>_ _. False) s"
    using assms(3) row(2)
    by (simp add: runtime_cleanup_def cleanup_runtime_def split: sum.splits)
  then show ?thesis
    unfolding run_service_stage_def assms(1,2) stage_adapter_def
    using assms(3) row
    by (simp add: wp_runner_audit_run) (erule sx_wp_mono, simp_all)
qed

lemma wp_service_stage_name:
  "sx_wp (run_service_stage env cx sg) (\<lambda>r t. sr_stage r = sg_name sg \<and> sr_status r = ''succeeded'') (\<lambda>_ _. True) s"
  unfolding run_service_stage_def by (simp, rule sx_wp_mono [OF sx_wp_True]) simp_all

lemma wp_steps: "steps rid m \<Longrightarrow> sx_wp m (\<lambda>_ t. fw_step rid s t) (\<lambda>_ t. fw_step rid s t) s"
  by (simp add: steps_wp)

section \<open>The clean-up is asked for\<close>

text \<open>\<open>n\<close> is the number of requests before the pipeline: only those after it count.\<close>

definition cleanup_asked :: "nat \<Rightarrow> string \<Rightarrow> stage_loop \<Rightarrow> flow_state \<Rightarrow> bool" where
  "cleanup_asked n rid lo t =
     (run_get rid (fw_db t) \<noteq> None \<and> n \<le> length (fw_calls t) \<and>
      (flushable t \<longrightarrow> has_completed lo ''runtime-cleanup'' \<longrightarrow> Cleanup_Call rid \<in> set (drop n (fw_calls t))))"

lemma has_completed_after [simp]:
  "has_completed (after_success r lo) m \<longleftrightarrow> has_completed lo m \<or> sr_stage r = m"
  "has_completed (after_failure sg e lo) n = has_completed lo n"
  "has_completed (lo\<lparr>lo_seen := b\<rparr>) n = has_completed lo n"
  "has_completed (lo\<lparr>lo_cancelled := b\<rparr>) n = has_completed lo n"
  by (auto simp: has_completed_def after_success_def after_failure_def dump_result_def)

lemma after_success_flags [simp]:
  "lo_failed (after_success r lo) = lo_failed lo" "lo_cancelled (after_success r lo) = lo_cancelled lo"
  "lo_seen (after_success r lo) = lo_seen lo" "lo_error (after_success r lo) = lo_error lo"
  by (simp_all add: after_success_def)

lemma fw_step_later_calls:
  "fw_step rid s t \<Longrightarrow> c \<in> set (drop n (fw_calls s)) \<Longrightarrow> c \<in> set (drop n (fw_calls t))"
  by (auto simp: fw_step_def)

lemma fw_step_length_calls: "fw_step rid s t \<Longrightarrow> n \<le> length (fw_calls s) \<Longrightarrow> n \<le> length (fw_calls t)"
  by (auto simp: fw_step_def)

lemma cleanup_asked_step:
  "cleanup_asked n rid lo s \<Longrightarrow> fw_step rid s t \<Longrightarrow>
   (has_completed lo' ''runtime-cleanup'' \<Longrightarrow> has_completed lo ''runtime-cleanup'') \<Longrightarrow> cleanup_asked n rid lo' t"
  unfolding cleanup_asked_def using fw_step_present fw_step_flushable fw_step_later_calls fw_step_length_calls by blast

lemma wp_asked_step:
  assumes "steps rid m" "cleanup_asked n rid lo s" "\<And>t. cleanup_asked n rid lo t \<Longrightarrow> sx_wp (k t) Q E t"
  shows "sx_wp m (\<lambda>x t. sx_wp (k t) Q E t) (\<lambda>_ _. True) s"
  by (rule sx_wp_mono [OF wp_steps [OF assms(1)]]) (blast intro: assms(3) cleanup_asked_step assms(2))+

text \<open>What running one stage to a result means for the request of the clean-up.\<close>

lemma wp_run_asked:
  assumes "cx_audit_run_id cx = rid" "cleanup_asked n rid lo s" "flushable s" "run_status rid s = Some ''running''"
  shows "sx_wp (run_service_stage env cx sg)
           (\<lambda>r t. sr_stage r = sg_name sg \<and> cleanup_asked n rid (after_success r lo) t)
           (\<lambda>e t. cleanup_asked n rid lo t) s"
proof -
  have step: "sx_wp (run_service_stage env cx sg) (\<lambda>_ t. fw_step rid s t) (\<lambda>_ t. fw_step rid s t) s"
    by (rule wp_steps) (rule steps_service_stage [OF assms(1)])
  show ?thesis
  proof (cases "sg_name sg = ''runtime-cleanup''")
    case True
    show ?thesis
      by (rule sx_wp_mono [OF sx_wp_conj [OF step wp_cleanup_stage [OF assms(1) True assms(3,4)]]])
         (use assms(2) True in \<open>auto simp: cleanup_asked_def dest: fw_step_present\<close>)
  next
    case False
    show ?thesis
      by (rule sx_wp_mono [OF sx_wp_conj [OF step wp_service_stage_name]])
         (use assms(2) False in \<open>auto intro: cleanup_asked_step\<close>)
  qed
qed

text \<open>
  The first loop: a run that neither failed nor was cancelled has completed each enabled stage
  whose failure is not only a warning.
\<close>

definition went_through :: "pipeline_context \<Rightarrow> service_stage list \<Rightarrow> stage_loop \<Rightarrow> bool" where
  "went_through cx sgs lo =
     (lo_failed lo \<or> lo_cancelled lo \<or>
      (\<forall>sg \<in> set sgs. sg_policy sg = CONTINUE_WITH_WARNING \<or> stage_enabled cx sg = Inr False \<or>
                     has_completed lo (sg_name sg)))"

lemma went_through_Cons:
  "went_through cx sgs lo \<Longrightarrow>
   lo_failed lo \<or> sg_policy sg = CONTINUE_WITH_WARNING \<or> stage_enabled cx sg = Inr False \<or>
     has_completed lo (sg_name sg) \<Longrightarrow>
   went_through cx (sg # sgs) lo"
  by (auto simp: went_through_def)

text \<open>What has been completed or has failed stays so.\<close>

definition loop_grows :: "stage_loop \<Rightarrow> stage_loop \<Rightarrow> bool" where
  "loop_grows lo lo' =
     ((lo_failed lo \<longrightarrow> lo_failed lo') \<and> (\<forall>n. has_completed lo n \<longrightarrow> has_completed lo' n))"

lemma loop_grows_simps [simp]:
  "loop_grows lo lo" "loop_grows lo (lo\<lparr>lo_seen := b\<rparr>)" "loop_grows lo (lo\<lparr>lo_cancelled := b\<rparr>)"
  "loop_grows lo (after_success r lo)" "loop_grows lo (after_failure sg e lo)"
  by (simp_all add: loop_grows_def) (auto simp: after_success_def after_failure_def)

lemma loop_grows_trans: "loop_grows a b \<Longrightarrow> loop_grows b c \<Longrightarrow> loop_grows a c"
  by (auto simp: loop_grows_def)

lemma wp_refresh_asked:
  assumes "cleanup_asked n rid lo0 s" "cx_audit_run_id cx = rid"
    and "\<And>b t. cleanup_asked n rid (lo0\<lparr>lo_seen := b\<rparr>) t \<Longrightarrow> sx_wp (k (lo0\<lparr>lo_seen := b\<rparr>)) Q (\<lambda>_ _. True) t"
  shows "sx_wp (sx_bind (refresh_cancel env cx lo0) k) Q (\<lambda>_ _. True) s"
proof -
  obtain row where "run_get rid (fw_db s) = Some row" using assms(1) by (auto simp: cleanup_asked_def)
  moreover have "cleanup_asked n rid (lo0\<lparr>lo_seen := b\<rparr>) s" for b using assms(1) by (simp add: cleanup_asked_def)
  ultimately show ?thesis using assms(2,3) by (simp add: refresh_cancel_def wp_get)
qed

lemma wp_stage_pass:
  assumes cx: "cx_audit_run_id cx = rid" and "cleanup_asked n rid lo s"
  shows "sx_wp (stage_pass env cx sgs lo)
           (\<lambda>lo' t. cleanup_asked n rid lo' t \<and> loop_grows lo lo' \<and> went_through cx sgs lo') (\<lambda>_ _. True) s"
  using assms(2)
proof (induction sgs arbitrary: lo s)
  case Nil
  then show ?case by (simp add: went_through_def)
next
  case (Cons sg sgs lo0)
  let ?post = "\<lambda>lo' t. cleanup_asked n rid lo' t \<and> loop_grows lo0 lo' \<and> went_through cx (sg # sgs) lo'"
  show ?case
    unfolding stage_pass.simps
  proof (rule wp_refresh_asked [OF Cons.prems cx])
    fix b s assume asked: "cleanup_asked n rid (lo0\<lparr>lo_seen := b\<rparr>) s"
    let ?lo = "lo0\<lparr>lo_seen := b\<rparr>"
    have on: "sx_wp (stage_pass env cx sgs lo1) ?post (\<lambda>_ _. True) t"
      if "cleanup_asked n rid lo1 t" "loop_grows ?lo lo1"
        "lo_failed lo1 \<or> sg_policy sg = CONTINUE_WITH_WARNING \<or> stage_enabled cx sg = Inr False \<or>
         has_completed lo1 (sg_name sg)" for lo1 t
    proof (rule sx_wp_mono [OF Cons.IH [OF that(1)]], elim conjE, intro conjI)
      fix lo' u assume grows: "loop_grows lo1 lo'" and through: "went_through cx sgs lo'"
      show "loop_grows lo0 lo'"
        using loop_grows_trans [OF that(2) grows] by (auto simp: loop_grows_def)
      show "went_through cx (sg # sgs) lo'"
        using through that(3) grows by (intro went_through_Cons) (auto simp: loop_grows_def)
    qed simp_all
    have skip: "sx_wp (sx_do (skip_disabled env cx sg) (stage_pass env cx sgs ?lo)) ?post (\<lambda>_ _. True) s"
      if "stage_enabled cx sg = Inr False"
      unfolding sx_wp_do
      by (rule wp_asked_step [OF steps_outcomes(1) asked]) (rule on, simp_all add: that)
    have failed: "sx_wp (sx_do (stage_failed env cx sg e)
          (if sg_policy sg = FAIL_FAST then sx_ret (after_failure sg e ?lo)
           else stage_pass env cx sgs (after_failure sg e ?lo))) ?post (\<lambda>_ _. True) t"
      if "cleanup_asked n rid ?lo t" for e t
      unfolding sx_wp_do
    proof (rule wp_asked_step [OF steps_outcomes(2) that])
      fix u assume u: "cleanup_asked n rid ?lo u"
      then have u': "cleanup_asked n rid (after_failure sg e ?lo) u" by (simp add: cleanup_asked_def)
      show "sx_wp (if sg_policy sg = FAIL_FAST then sx_ret (after_failure sg e ?lo)
           else stage_pass env cx sgs (after_failure sg e ?lo)) ?post (\<lambda>_ _. True) u"
      proof (cases "sg_policy sg = FAIL_FAST")
        case True
        then show ?thesis
          using u' by (auto simp: went_through_def after_failure_def loop_grows_def has_completed_def)
      next
        case False
        have "lo_failed (after_failure sg e ?lo) \<or> sg_policy sg = CONTINUE_WITH_WARNING"
          by (simp add: after_failure_def)
        then show ?thesis using on [OF u'] False by auto
      qed
    qed
    have succeeded: "sx_wp (sx_do (stage_succeeded env cx r) (stage_pass env cx sgs (after_success r ?lo))) ?post (\<lambda>_ _. True) t"
      if "cleanup_asked n rid (after_success r ?lo) t" "sr_stage r = sg_name sg" for r t
      unfolding sx_wp_do
      by (rule wp_asked_step [OF steps_outcomes(3) that(1)]) (rule on, simp_all add: that(2))
    let ?next = "\<lambda>outcome. case outcome of
              Inl e \<Rightarrow>
                sx_do (stage_failed env cx sg e)
                  (if sg_policy sg = FAIL_FAST then sx_ret (after_failure sg e ?lo)
                   else stage_pass env cx sgs (after_failure sg e ?lo))
            | Inr r \<Rightarrow> sx_do (stage_succeeded env cx r) (stage_pass env cx sgs (after_success r ?lo))"
    have run: "sx_wp (sx_do (enter_service_stage env cx sg)
           (sx_bind (sx_attempt (run_service_stage env cx sg)) ?next)) ?post (\<lambda>_ _. True) s"
      unfolding sx_wp_do sx_wp_bind sx_wp_attempt
    proof (rule sx_wp_mono [OF sx_wp_conj [OF wp_steps [OF steps_enter [OF cx]] wp_enter [OF cx]]])
      show "run_get rid (fw_db s) \<noteq> None" using asked by (simp add: cleanup_asked_def)
      fix t assume t: "fw_step rid s t \<and> run_status rid t = Some ''running'' \<and> flushable t \<and> fw_calls t = fw_calls s"
      then have c: "cleanup_asked n rid ?lo t" using cleanup_asked_step [OF asked] by blast
      show "sx_wp (run_service_stage env cx sg) (\<lambda>r. sx_wp (?next (Inr r)) ?post (\<lambda>_ _. True))
          (\<lambda>e. sx_wp (?next (Inl e)) ?post (\<lambda>_ _. True)) t"
        unfolding sum.case
      proof (rule sx_wp_mono [OF wp_run_asked [OF cx c]])
        show "flushable t" "run_status rid t = Some ''running''" using t by auto
      qed (use succeeded failed in blast)+
    qed simp
    show "sx_wp (if lo_seen ?lo \<and> sg_policy sg \<noteq> ALWAYS_RUN then sx_ret (?lo\<lparr>lo_cancelled := True\<rparr>)
       else sx_bind (sx_lift (stage_enabled cx sg)) (\<lambda>enabled.
         if \<not> enabled then sx_do (skip_disabled env cx sg) (stage_pass env cx sgs ?lo)
         else sx_do (enter_service_stage env cx sg)
           (sx_bind (sx_attempt (run_service_stage env cx sg)) ?next))) ?post (\<lambda>_ _. True) s"
    proof (cases "lo_seen ?lo \<and> sg_policy sg \<noteq> ALWAYS_RUN")
      case True
      then show ?thesis using asked by (auto simp: went_through_def cleanup_asked_def loop_grows_def has_completed_def)
    next
      case False
      then show ?thesis
        using skip run by (auto simp: sx_wp_lift simp del: sx_wp_do split: sum.splits bool.splits)
    qed
  qed
qed


text \<open>The second loop.\<close>

definition cleanup_sent :: "nat \<Rightarrow> string \<Rightarrow> flow_state \<Rightarrow> bool" where
  "cleanup_sent n rid t = (flushable t \<longrightarrow> Cleanup_Call rid \<in> set (drop n (fw_calls t)))"

lemma cleanup_sent_step: "cleanup_sent n rid s \<Longrightarrow> fw_step rid s t \<Longrightarrow> cleanup_sent n rid t"
  unfolding cleanup_sent_def using fw_step_flushable fw_step_later_calls by blast

lemma cleanup_asked_sent:
  "cleanup_asked n rid lo t \<Longrightarrow> has_completed lo ''runtime-cleanup'' \<Longrightarrow> cleanup_sent n rid t"
  by (simp add: cleanup_asked_def cleanup_sent_def)

lemma wp_run_anyway:
  assumes cx: "cx_audit_run_id cx = rid" and asked: "cleanup_asked n rid lo s"
  shows "sx_wp (run_anyway env cx sg lo)
           (\<lambda>lo' t. cleanup_asked n rid lo' t \<and> lo_failed lo' = lo_failed lo \<and> lo_cancelled lo' = lo_cancelled lo \<and>
                    (sg_name sg = ''runtime-cleanup'' \<longrightarrow> cleanup_sent n rid t)) (\<lambda>_ _. True) s"
proof -
  let ?post = "\<lambda>lo' t. cleanup_asked n rid lo' t \<and> lo_failed lo' = lo_failed lo \<and> lo_cancelled lo' = lo_cancelled lo \<and>
                    (sg_name sg = ''runtime-cleanup'' \<longrightarrow> cleanup_sent n rid t)"
  let ?handler = "\<lambda>e. sx_do (record_result env cx (sg_name sg) ''warning'' [] [] (Some (exc_str e))) (sx_ret lo)"
  obtain row where row: "run_get rid (fw_db s) = Some row" using asked by (auto simp: cleanup_asked_def)
  have handler: "sx_wp (?handler e) ?post (\<lambda>_ _. True) t"
    if "cleanup_asked n rid lo t" "sg_name sg = ''runtime-cleanup'' \<longrightarrow> \<not> flushable t" for e t
    unfolding sx_wp_do sx_wp_ret
    by (rule sx_wp_mono [OF wp_steps [OF steps_record]])
       (use that in \<open>auto simp: cleanup_sent_def intro: cleanup_asked_step dest: fw_step_flushable\<close>)
  show ?thesis
  proof (cases "flushable s")
    case False
    then show ?thesis
      unfolding run_anyway_def sx_wp_try sx_wp_do [of "set_pipeline_status _ _ _ _"] cx wp_set_status [OF row]
      using handler [OF asked] by (simp del: sx_wp_do exc_str.simps)
  next
    case True
    let ?s = "s\<lparr>fw_db := set_run_state rid ''running'' (Some (sg_name sg)) None (fw_db s)\<rparr>"
    have s': "flushable ?s" "run_status rid ?s = Some ''running''" "cleanup_asked n rid lo ?s"
      using True row asked by (auto simp: flushable_def cleanup_asked_def)
    let ?Q = "\<lambda>r t. sr_stage r = sg_name sg \<and> cleanup_asked n rid (after_success r lo) t"
    let ?E = "\<lambda>(e :: pyexc) t. cleanup_asked n rid lo t \<and> sg_name sg \<noteq> ''runtime-cleanup''"
    have run: "sx_wp (run_service_stage env cx sg) ?Q ?E ?s"
    proof (cases "sg_name sg = ''runtime-cleanup''")
      case True
      show ?thesis
        by (rule sx_wp_mono [OF sx_wp_conj [OF wp_run_asked [OF cx s'(3,1,2)] wp_cleanup_stage [OF cx True s'(1,2)]]])
           simp_all
    next
      case False
      then show ?thesis by (intro sx_wp_mono [OF wp_run_asked [OF cx s'(3,1,2)]]) simp_all
    qed
    have recorded: "sx_wp (sx_do (record_success env cx r) (sx_ret (after_success r lo))) ?post
                     (\<lambda>e. sx_wp (?handler e) ?post (\<lambda>_ _. True)) t"
      if "?Q r t" for r t
    proof -
      have "sx_wp (record_success env cx r) (\<lambda>_ u. fw_step rid t u) (\<lambda>_ _. False) t"
        using stepsD [OF steps_outcomes(4) [of rid env cx r], of t]
        by (simp add: record_success_def record_result_def sx_wp_def on_db_def sx_modify_def sx_bind_def wall_clock_def sx_gets_def)
      then show ?thesis
        unfolding sx_wp_do sx_wp_ret
        by (rule sx_wp_mono)
           (use that in \<open>auto intro: cleanup_asked_step cleanup_sent_step [OF cleanup_asked_sent]\<close>)
    qed
    have "sx_wp (sx_bind (run_service_stage env cx sg)
             (\<lambda>r. sx_do (record_success env cx r) (sx_ret (after_success r lo)))) ?post
            (\<lambda>e. sx_wp (?handler e) ?post (\<lambda>_ _. True)) ?s"
      unfolding sx_wp_bind by (rule sx_wp_mono [OF run]) (use recorded handler in blast)+
    then show ?thesis
      unfolding run_anyway_def sx_wp_try sx_wp_do [of "set_pipeline_status _ _ _ _"] cx wp_set_status [OF row]
      using True by (simp only: if_True)
  qed
qed

definition always_post :: "nat \<Rightarrow> string \<Rightarrow> service_stage list \<Rightarrow> stage_loop \<Rightarrow> stage_loop \<Rightarrow> flow_state \<Rightarrow> bool" where
  "always_post n rid sgs lo lo' t =
     (cleanup_asked n rid lo' t \<and> lo_failed lo' = lo_failed lo \<and> lo_cancelled lo' = lo_cancelled lo \<and>
      ((\<exists>sg \<in> set sgs. sg_policy sg = ALWAYS_RUN \<and> sg_name sg = ''runtime-cleanup'') \<longrightarrow> cleanup_sent n rid t))"

lemma always_post_Cons:
  "always_post n rid sgs lo1 lo' t \<Longrightarrow> lo_failed lo1 = lo_failed lo \<Longrightarrow> lo_cancelled lo1 = lo_cancelled lo \<Longrightarrow>
   sg_policy sg \<noteq> ALWAYS_RUN \<or> sg_name sg \<noteq> ''runtime-cleanup'' \<or> cleanup_sent n rid t \<Longrightarrow>
   always_post n rid (sg # sgs) lo lo' t"
  by (auto simp: always_post_def)

lemma wp_always_pass:
  assumes cx: "cx_audit_run_id cx = rid" and "cleanup_asked n rid lo s"
  shows "sx_wp (always_pass env cx sgs lo) (always_post n rid sgs lo) (\<lambda>_ _. True) s"
  using assms(2)
proof (induction sgs arbitrary: lo s)
  case Nil
  then show ?case by (simp add: always_post_def)
next
  case (Cons sg sgs)
  have later: "sx_wp (always_pass env cx sgs lo1) (always_post n rid (sg # sgs) lo) (\<lambda>_ _. True) u"
    if "cleanup_asked n rid lo1 u" "lo_failed lo1 = lo_failed lo" "lo_cancelled lo1 = lo_cancelled lo"
      "sg_policy sg \<noteq> ALWAYS_RUN \<or> sg_name sg \<noteq> ''runtime-cleanup'' \<or> cleanup_sent n rid u" for lo1 u
  proof (rule sx_wp_mono [OF sx_wp_conj [OF Cons.IH [OF that(1)] wp_steps [OF steps_always_pass [OF cx]]]])
    fix lo' t assume a: "always_post n rid sgs lo1 lo' t \<and> fw_step rid u t"
    show "always_post n rid (sg # sgs) lo lo' t"
      by (rule always_post_Cons [OF conjunct1 [OF a] that(2,3)])
         (use that(4) cleanup_sent_step conjunct2 [OF a] in blast)
  qed simp
  show ?case
  proof (cases "sg_policy sg \<noteq> ALWAYS_RUN \<or> has_completed lo (sg_name sg)")
    case True
    then have "sg_policy sg \<noteq> ALWAYS_RUN \<or> sg_name sg \<noteq> ''runtime-cleanup'' \<or> cleanup_sent n rid s"
      using cleanup_asked_sent [OF Cons.prems] by force
    from later [OF Cons.prems refl refl this] True show ?thesis by (simp only: always_pass.simps if_True)
  next
    case False
    show ?thesis
      using False by (simp, intro sx_wp_mono [OF wp_run_anyway [OF cx Cons.prems]]) (use later in blast)+
  qed
qed

end
