(* ===== verification/Flow_Outcome.thy ===== *)
theory Flow_Outcome
  imports Flow_Contracts
begin

text \<open>
  How a pipeline of the workflow worker ends: the executor on the default stages, the service
  around it, the session of the worker and its turns.
\<close>

lemma default_registry: "stage_registry default_stages = default_stages"
  by code_simp

definition cleanup_stage :: service_stage where
  "cleanup_stage = service_stage_of ''runtime-cleanup'' [''report''] ALWAYS_RUN"

lemma cleanup_stage_in: "cleanup_stage \<in> set default_stages"
  by (simp add: default_stages_def cleanup_stage_def)

lemma cleanup_stage_simps [simp]: "sg_name cleanup_stage = ''runtime-cleanup''" "sg_policy cleanup_stage = ALWAYS_RUN"
  by (simp_all add: cleanup_stage_def service_stage_of_def)

section \<open>The executor\<close>

definition pipeline_outcome :: "nat \<Rightarrow> pipeline_context \<Rightarrow> dict \<Rightarrow> flow_state \<Rightarrow> bool" where
  "pipeline_outcome n cx result t =
     (\<exists>lo. dget result ''status'' = PStr (loop_status lo) \<and> flushable t \<and>
           (Cleanup_Call (cx_audit_run_id cx) \<in> set (drop n (fw_calls t)) \<or>
            loop_status lo = ''succeeded'' \<and> stage_enabled cx cleanup_stage = Inr False))"

lemma wp_finish:
  assumes "run_get (cx_audit_run_id cx) (fw_db s) \<noteq> None"
  shows "sx_wp (finish_pipeline env cx lo)
     (\<lambda>result t. dget result ''status'' = PStr (loop_status lo) \<and> flushable s \<and> flushable t \<and> fw_calls t = fw_calls s)
     (\<lambda>_ _. True) s"
proof -
  obtain row where row: "run_get (cx_audit_run_id cx) (fw_db s) = Some row" using assms by blast
  then have "run_get (cx_audit_run_id cx) (pipeline_finish p st sm e t (fw_db s)) = Some row" for p st sm e t
    by (simp add: pipeline_finish_def run_get_def)
  moreover have "stages_unique (pipeline_finish p st sm e t (fw_db s)) = stages_unique (fw_db s)" for p st sm e t
    by (simp add: pipeline_finish_def stages_unique_def)
  ultimately show ?thesis
    by (simp add: finish_pipeline_def flush_def set_pipeline_status_def wp_get flushable_def)
qed

lemma wp_execute:
  assumes "run_get (cx_audit_run_id cx) (fw_db s) \<noteq> None"
  shows "sx_wp (execute_stages env (stage_registry default_stages) cx)
           (pipeline_outcome (length (fw_calls s)) cx) (\<lambda>_ _. True) s"
proof -
  let ?n = "length (fw_calls s)" and ?rid = "cx_audit_run_id cx"
  let ?lo = "\<lparr>lo_completed = [], lo_failed = False, lo_cancelled = False, lo_error = None, lo_seen = cx_cancelled cx\<rparr>"
  have finish: "sx_wp (finish_pipeline env cx lo) (pipeline_outcome ?n cx) (\<lambda>_ _. True) t"
    if "cleanup_asked ?n ?rid lo t"
      "cleanup_sent ?n ?rid t \<or> loop_status lo = ''succeeded'' \<and> stage_enabled cx cleanup_stage = Inr False" for lo t
    using that
    by (intro sx_wp_mono [OF wp_finish]) (auto simp: cleanup_asked_def cleanup_sent_def pipeline_outcome_def)
  have rest: "sx_wp (sx_bind (if lo_failed lo \<or> lo_cancelled lo then always_pass env cx default_stages lo else sx_ret lo)
                 (finish_pipeline env cx)) (pipeline_outcome ?n cx) (\<lambda>_ _. True) t"
    if lo: "cleanup_asked ?n ?rid lo t" "went_through cx default_stages lo" for lo t
  proof (cases "lo_failed lo \<or> lo_cancelled lo")
    case True
    have "sx_wp (always_pass env cx default_stages lo)
            (\<lambda>lo'. sx_wp (finish_pipeline env cx lo') (pipeline_outcome ?n cx) (\<lambda>_ _. True)) (\<lambda>_ _. True) t"
    proof (rule sx_wp_mono [OF wp_always_pass [OF refl lo(1)]])
      fix lo' u assume post: "always_post ?n ?rid default_stages lo lo' u"
      then have "cleanup_sent ?n ?rid u" using cleanup_stage_in by (force simp: always_post_def)
      then show "sx_wp (finish_pipeline env cx lo') (pipeline_outcome ?n cx) (\<lambda>_ _. True) u"
        using finish post by (auto simp: always_post_def)
    qed simp
    then show ?thesis using True by (simp only: sx_wp_bind if_True)
  next
    case False
    then have "stage_enabled cx cleanup_stage = Inr False \<or> has_completed lo ''runtime-cleanup''"
      using lo(2) cleanup_stage_in by (force simp: went_through_def)
    moreover have "loop_status lo = ''succeeded''" using False by (simp add: loop_status_def)
    ultimately have "cleanup_sent ?n ?rid t \<or> loop_status lo = ''succeeded'' \<and> stage_enabled cx cleanup_stage = Inr False"
      using cleanup_asked_sent [OF lo(1)] by blast
    then show ?thesis using False finish [OF lo(1)] by simp
  qed
  have "sx_wp (stage_pass env cx default_stages ?lo)
      (\<lambda>lo. sx_wp (sx_bind (if lo_failed lo \<or> lo_cancelled lo then always_pass env cx default_stages lo else sx_ret lo)
                 (finish_pipeline env cx)) (pipeline_outcome ?n cx) (\<lambda>_ _. True)) (\<lambda>_ _. True) t"
    if "fw_step ?rid s t" for t
  proof (rule sx_wp_mono [OF wp_stage_pass [OF refl]])
    show "cleanup_asked ?n ?rid ?lo t"
      using fw_step_present [OF that assms] fw_step_length_calls [OF that order_refl]
      by (simp add: cleanup_asked_def has_completed_def)
  qed (use rest in auto)
  then show ?thesis
    unfolding execute_stages_def default_registry default_order sx_wp_do sx_wp_bind [of "sx_lift _"]
    by (intro sx_wp_mono [OF wp_steps [OF steps_emit [of ?rid]]]) (simp_all add: sx_wp_lift del: sx_wp_bind, simp)
qed

section \<open>The service\<close>

definition service_outcome :: "nat \<Rightarrow> common_run \<Rightarrow> dict \<Rightarrow> flow_state \<Rightarrow> bool" where
  "service_outcome n r result t =
     (\<exists>status row. dget result ''status'' = PStr status \<and> status \<in> {''succeeded'', ''failed'', ''cancelled''} \<and>
        flushable t \<and> run_get (car_audit_run_id r) (fw_db t) = Some row \<and>
        car_status row = (if status = ''failed'' then ''failed'' else ''succeeded'') \<and>
        car_pipeline_status row = status \<and> car_current_stage row = None \<and>
        (Cleanup_Call (car_audit_run_id r) \<in> set (drop n (fw_calls t)) \<or>
         status = ''succeeded'' \<and> stage_enabled (context_of r []) cleanup_stage = Inr False))"

lemma stage_enabled_context: "stage_enabled (context_of r pid) sg = stage_enabled (context_of r []) sg"
  by (simp add: stage_enabled_def context_of_def)

lemma loop_status_cases: "loop_status lo \<in> {''succeeded'', ''failed'', ''cancelled''}"
  by (simp add: loop_status_def)

lemma stages_unique_write [simp]: "stages_unique (write_flow_run rid f d) = stages_unique d"
  by (simp add: stages_unique_def write_flow_run_def)

lemma run_get_pipeline_create [simp]: "run_get k (snd (pipeline_create rid t d)) = run_get k d"
  by (simp add: pipeline_create_def new_id_def run_get_def)

lemma wp_pipeline_service:
  assumes "run_get (car_audit_run_id r) (fw_db s) \<noteq> None"
  shows "sx_wp (pipeline_service env r) (service_outcome (length (fw_calls s)) r) (\<lambda>_ _. True) s"
proof -
  let ?rid = "car_audit_run_id r"
  have close: "sx_wp (close_pipeline r result) (service_outcome (length (fw_calls s)) r) (\<lambda>_ _. True) t"
    if t: "run_get ?rid (fw_db t) \<noteq> None" "pipeline_outcome (length (fw_calls s)) (context_of r pid) result t" for result t pid
  proof -
    obtain row where row: "run_get ?rid (fw_db t) = Some row" using t(1) by blast
    from t(2) obtain lo where lo: "dget result ''status'' = PStr (loop_status lo)" "flushable t"
      "Cleanup_Call ?rid \<in> set (drop (length (fw_calls s)) (fw_calls t)) \<or>
       loop_status lo = ''succeeded'' \<and> stage_enabled (context_of r []) cleanup_stage = Inr False"
      by (auto simp: pipeline_outcome_def stage_enabled_context [of r pid])
    let ?f = "\<lambda>q. q\<lparr>car_status := (if dget result ''status'' = PStr ''failed'' then ''failed'' else ''succeeded''),
                car_pipeline_status := py_str (dget result ''status''), car_current_stage := None\<rparr>"
    let ?t = "t\<lparr>fw_db := write_flow_run ?rid ?f (fw_db t)\<rparr>"
    have row': "run_get ?rid (fw_db ?t) = Some (stamped (fd_now (fw_db t)) row (?f row))"
      using row by (simp add: run_get_write)
    have "service_outcome (length (fw_calls s)) r result ?t"
      unfolding service_outcome_def
    proof (intro exI conjI)
      show "run_get ?rid (fw_db ?t) = Some (stamped (fd_now (fw_db t)) row (?f row))" by (rule row')
      show "dget result ''status'' = PStr (loop_status lo)" by (rule lo(1))
      show "loop_status lo \<in> {''succeeded'', ''failed'', ''cancelled''}" by (rule loop_status_cases)
      show "flushable ?t" using lo(2) by (simp add: flushable_def)
      show "Cleanup_Call ?rid \<in> set (drop (length (fw_calls s)) (fw_calls ?t)) \<or>
         loop_status lo = ''succeeded'' \<and> stage_enabled (context_of r []) cleanup_stage = Inr False"
        using lo(3) by simp
    qed (simp_all add: lo(1))
    then show ?thesis by (simp add: close_pipeline_def put_run_def)
  qed
  have run: "sx_wp (execute_stages env (stage_registry default_stages) (context_of r pid))
      (\<lambda>result t. run_get ?rid (fw_db t) \<noteq> None \<and> pipeline_outcome (length (fw_calls s)) (context_of r pid) result t)
      (\<lambda>_ _. True) u" if u: "run_get ?rid (fw_db u) \<noteq> None" "fw_calls u = fw_calls s" for u pid
    using u
    by (intro sx_wp_mono [OF sx_wp_conj [OF wp_execute wp_steps [OF steps_execute [of _ ?rid]]]])
       (auto dest: fw_step_present)
  have "sx_wp (open_pipeline env r)
      (\<lambda>_ u. run_get ?rid (fw_db u) \<noteq> None \<and> fw_calls u = fw_calls s) (\<lambda>_ _. True) s"
    using assms by (simp add: open_pipeline_def put_run_def run_get_write)
  then show ?thesis
    unfolding pipeline_service_def sx_wp_bind
    by (rule sx_wp_mono) (auto intro!: sx_wp_mono [OF run] close)
qed

end
