(* ===== verification/Flow_Worker.thy ===== *)
theory Flow_Worker
  imports Flow_Outcome
begin

text \<open>
  The turns of a workflow worker. Every run it takes ends, as succeeded or failed, whatever the
  services answer and whatever is raised; runs it does not take are left alone; and while the
  configurations of the queued runs can be read, the queue gets empty.
\<close>

section \<open>Sessions\<close>

definition session_start :: "service_env \<Rightarrow> flow_state \<Rightarrow> flow_state" where
  "session_start env s =
     s\<lparr>fw_db := (fw_db s)\<lparr>fd_now := se_clock env (fw_calls s)\<rparr>, fw_broken := False\<rparr>"

lemma session_start_simps [simp]:
  "run_get k (fw_db (session_start env s)) = run_get k (fw_db s)"
  "fd_runs (fw_db (session_start env s)) = fd_runs (fw_db s)"
  "fd_stages (fw_db (session_start env s)) = fd_stages (fw_db s)"
  "fd_events (fw_db (session_start env s)) = fd_events (fw_db s)"
  "fd_reports (fw_db (session_start env s)) = fd_reports (fw_db s)"
  "fd_pipelines (fw_db (session_start env s)) = fd_pipelines (fw_db s)"
  "fw_calls (session_start env s) = fw_calls s"
  "next_claimable (fw_db (session_start env s)) = next_claimable (fw_db s)"
  "flushable (session_start env s) = stages_unique (fw_db s)"
  by (simp_all add: session_start_def run_get_def next_claimable_def stages_unique_def flushable_def)

lemma stages_unique_now [simp]: "stages_unique (d\<lparr>fd_now := x\<rparr>) = stages_unique d"
  by (simp add: stages_unique_def)

text \<open>A database after a roll-back: only the clock and the source of identifiers have moved on.\<close>

definition rolled_back :: "flow_state \<Rightarrow> flow_state \<Rightarrow> bool" where
  "rolled_back s t =
     (\<exists>now hex. fw_db t = (fw_db s)\<lparr>fd_now := now, fd_hex_next := hex\<rparr>)"

lemma rolled_backD:
  assumes "rolled_back s t"
  shows "run_get k (fw_db t) = run_get k (fw_db s)" "fd_runs (fw_db t) = fd_runs (fw_db s)"
    "fd_stages (fw_db t) = fd_stages (fw_db s)" "fd_events (fw_db t) = fd_events (fw_db s)"
    "fd_reports (fw_db t) = fd_reports (fw_db s)" "fd_pipelines (fw_db t) = fd_pipelines (fw_db s)"
    "stages_unique (fw_db t) = stages_unique (fw_db s)" "next_claimable (fw_db t) = next_claimable (fw_db s)"
  using assms by (auto simp: rolled_back_def run_get_def stages_unique_def next_claimable_def)

lemma wp_in_session:
  assumes "sx_wp m Q (\<lambda>_ _. True) (session_start env s)"
    and "\<And>x t. Q x t \<Longrightarrow> flushable t \<Longrightarrow> Q' x t" and "\<And>e t. rolled_back s t \<Longrightarrow> E' e t"
  shows "sx_wp (in_session env m) Q' E' s"
proof -
  have rb: "rolled_back s (s0\<lparr>fw_db := (fw_db s0)\<lparr>fd_hex_next := h\<rparr>, fw_calls := cs\<rparr>)"
    if "s0 = session_start env s" for s0 h cs
    unfolding rolled_back_def that
    by (rule exI [of _ "se_clock env (fw_calls s)"], rule exI [of _ h]) (simp add: session_start_def)
  show ?thesis
    using assms(1)
    unfolding in_session_def session_start_def [symmetric] Let_def sx_wp_def
    by (auto split: prod.splits sum.splits intro: assms(2) assms(3) rb)
qed

section \<open>One turn\<close>

definition others_same :: "string \<Rightarrow> flow_state \<Rightarrow> flow_state \<Rightarrow> bool" where
  "others_same rid s t =
     (map car_audit_run_id (fd_runs (fw_db t)) = map car_audit_run_id (fd_runs (fw_db s)) \<and>
      (\<forall>k. k \<noteq> rid \<longrightarrow> run_get k (fw_db t) = run_get k (fw_db s)))"

lemma others_same_trans: "others_same rid s t \<Longrightarrow> others_same rid t u \<Longrightarrow> others_same rid s u"
  by (simp add: others_same_def)

lemma others_same_step: "fw_step rid (session_start env s) t \<Longrightarrow> others_same rid s t"
  by (simp add: fw_step_def others_same_def)

lemma others_same_rolled: "rolled_back s t \<Longrightarrow> others_same rid s t"
  by (simp add: others_same_def rolled_backD)

lemma run_get_replace:
  assumes "car_audit_run_id row = rid"
  shows "run_get k (write_flow_run rid (\<lambda>_. row) d) =
           (if k = rid then map_option (\<lambda>r. stamped (fd_now d) r row) (run_get k d) else run_get k d)"
proof -
  let ?f = "\<lambda>r. if car_audit_run_id r = rid then row else r"
  have "write_flow_run rid (\<lambda>_. row) d = write_flow_run rid ?f d"
    by (simp add: write_flow_run_def row_upd_def cong: if_cong)
  moreover have "car_audit_run_id (?f r) = car_audit_run_id r" for r using assms by simp
  then have "run_get k (write_flow_run rid ?f d) =
      (if k = rid then map_option (\<lambda>r. stamped (fd_now d) r (?f r)) (run_get k d) else run_get k d)"
    by (rule run_get_write)
  moreover have "map_option (\<lambda>r. stamped (fd_now d) r (?f r)) (run_get rid d) =
      map_option (\<lambda>r. stamped (fd_now d) r row) (run_get rid d)"
    using run_get_id by (cases "run_get rid d") auto
  ultimately show ?thesis by simp
qed

lemma ids_replace:
  "car_audit_run_id row = rid \<Longrightarrow>
   map car_audit_run_id (fd_runs (write_flow_run rid (\<lambda>_. row) d)) = map car_audit_run_id (fd_runs d)"
  by (simp add: write_flow_run_def row_upd_def)

lemma run_get_distinct:
  "distinct (map car_audit_run_id (fd_runs d)) \<Longrightarrow> r \<in> set (fd_runs d) \<Longrightarrow> run_get (car_audit_run_id r) d = Some r"
  unfolding run_get_def by (rule row_find_distinct)

lemma wp_claim_session:
  assumes d: "distinct (map car_audit_run_id (fd_runs (fw_db s)))" and u: "stages_unique (fw_db s)"
  shows "sx_wp (claim_session env w)
     (\<lambda>claimed t. stages_unique (fw_db t) \<and> fw_calls t = fw_calls s \<and>
        (case claimed of
           None \<Rightarrow> next_claimable (fw_db s) = None \<and> fd_runs (fw_db t) = fd_runs (fw_db s)
         | Some row \<Rightarrow> (\<exists>r. next_claimable (fw_db s) = Some r \<and> car_audit_run_id row = car_audit_run_id r \<and>
             others_same (car_audit_run_id r) s t \<and> run_status (car_audit_run_id r) t = Some ''running'' \<and>
             map_option car_cancel_requested (run_get (car_audit_run_id r) (fw_db t)) = Some (car_cancel_requested r))))
     (\<lambda>e t. rolled_back s t) s"
  unfolding claim_session_def
proof (rule wp_in_session)
  let ?claim = "\<lambda>s. case claim_queued w (fw_db s) of Inl e \<Rightarrow> (Inl e, s) | Inr (r, d) \<Rightarrow> (Inr r, s\<lparr>fw_db := d\<rparr>)"
  let ?Q = "\<lambda>claimed t. fw_calls t = fw_calls s \<and>
        (case claimed of
           None \<Rightarrow> next_claimable (fw_db s) = None \<and> fd_runs (fw_db t) = fd_runs (fw_db s)
         | Some row \<Rightarrow> (\<exists>r. next_claimable (fw_db s) = Some r \<and> car_audit_run_id row = car_audit_run_id r \<and>
             others_same (car_audit_run_id r) s t \<and> run_status (car_audit_run_id r) t = Some ''running'' \<and>
             map_option car_cancel_requested (run_get (car_audit_run_id r) (fw_db t)) = Some (car_cancel_requested r)))"
  show "sx_wp ?claim ?Q (\<lambda>_ _. True) (session_start env s)"
  proof (cases "next_claimable (fw_db s)")
    case None
    then show ?thesis by (simp add: sx_wp_def claim_queued_def)
  next
    case (Some r)
    let ?rid = "car_audit_run_id r" and ?s = "session_start env s"
    have r: "run_get ?rid (fw_db s) = Some r"
      using run_get_distinct [OF d] next_claimable_Some(1) [OF Some] by blast
    have "?Q (Some row) (?s\<lparr>fw_db := write_flow_run ?rid (\<lambda>_. row) (fw_db ?s)\<rparr>)" if "claimed_row w r = Inr row" for row
    proof -
      have k: "car_audit_run_id row = ?rid" "car_status row = ''running''" "car_cancel_requested row = car_cancel_requested r"
        using claimed_row_keeps [OF that] by auto
      show ?thesis
        using Some r k
        by (auto simp: others_same_def run_get_replace [OF k(1)] ids_replace [OF k(1)])
    qed
    then show ?thesis
      using Some by (auto simp: sx_wp_def claim_queued_def rbind_def split: sum.splits)
  qed
qed (auto simp: flushable_def)

lemma wp_pair: "sx_wp m Q E s \<Longrightarrow> steps rid m \<Longrightarrow>
    sx_wp m (\<lambda>x t. Q x t \<and> fw_step rid s t) (\<lambda>e t. E e t \<and> fw_step rid s t) s"
  by (rule sx_wp_conj) (simp_all add: wp_steps)

definition settled_row :: "common_run \<Rightarrow> bool" where
  "settled_row r =
     (car_status r \<in> {''succeeded'', ''failed''} \<and> car_current_stage r = None \<and>
      car_pipeline_status r \<in> {''succeeded'', ''failed'', ''cancelled''})"

definition settled :: "string \<Rightarrow> flow_state \<Rightarrow> bool" where
  "settled rid t = (\<exists>row. run_get rid (fw_db t) = Some row \<and> settled_row row)"

lemma wp_run_session:
  assumes present: "run_get rid (fw_db s) \<noteq> None" and u: "stages_unique (fw_db s)"
  shows "sx_wp (run_session env rid)
     (\<lambda>_ t. stages_unique (fw_db t) \<and> others_same rid s t \<and> settled rid t) (\<lambda>_ _. False) s"
  unfolding run_session_def sx_wp_try
proof (rule wp_in_session)
  let ?s = "session_start env s"
  obtain row where row: "run_get rid (fw_db s) = Some row" using present by blast
  have id: "car_audit_run_id row = rid" using row by (rule run_get_id)
  let ?body = "sx_bind (get_flow_run rid) (\<lambda>r. case r of
          None \<Rightarrow> sx_ret () | Some row \<Rightarrow> sx_do (pipeline_service env row) (sx_ret ()))"
  have "sx_wp (pipeline_service env row)
       (\<lambda>result t. service_outcome (length (fw_calls ?s)) row result t \<and> fw_step rid ?s t) (\<lambda>_ _. True) ?s"
    by (rule sx_wp_mono [OF wp_pair [OF wp_pipeline_service]])
       (use row id steps_pipeline_service [of row env] in auto)
  then show "sx_wp ?body (\<lambda>_ t. others_same rid s t \<and> settled rid t) (\<lambda>_ _. True) ?s"
    using row u id
    by (simp add: wp_get) (erule sx_wp_mono, auto simp: service_outcome_def settled_def settled_row_def others_same_step)
next
  fix e :: pyexc and t assume t: "rolled_back s t"
  obtain row where row: "run_get rid (fw_db t) = Some row" using present t by (auto simp: rolled_backD)
  show "sx_wp (in_session env (set_pipeline_status rid ''failed'' None (Some ''workflow worker crashed'')))
     (\<lambda>_ t. stages_unique (fw_db t) \<and> others_same rid s t \<and> settled rid t) (\<lambda>_ _. False) t"
  proof -
    let ?t = "session_start env t"
    let ?u = "?t\<lparr>fw_db := set_run_state rid ''failed'' None (Some ''workflow worker crashed'') (fw_db ?t)\<rparr>"
    have "set_pipeline_status rid ''failed'' None (Some ''workflow worker crashed'') ?t = (Inr (), ?u)"
      using row u t
      by (simp add: set_pipeline_status_def get_flow_run_def flush_def on_db_def sx_simps rolled_backD)
    moreover have "flushable ?u" using u t by (simp add: rolled_backD session_start_def)
    ultimately have "in_session env (set_pipeline_status rid ''failed'' None (Some ''workflow worker crashed'')) t = (Inr (), ?u)"
      unfolding in_session_def session_start_def [symmetric] Let_def by simp
    moreover have "others_same rid t ?u"
      by (simp add: others_same_def) (simp add: set_run_state_def write_flow_run_def row_upd_def stamped_def with_pipeline_state_def)
    moreover have "settled rid ?u" using row by (simp add: settled_def settled_row_def)
    moreover have "stages_unique (fw_db ?u)" using u t by (simp add: rolled_backD session_start_def stages_unique_def)
    ultimately show ?thesis
      using others_same_trans [OF others_same_rolled [OF t]] by (simp add: sx_wp_def)
  qed
qed (auto simp: flushable_def)


lemma wp_flow_turn:
  assumes d: "distinct (map car_audit_run_id (fd_runs (fw_db s)))" and u: "stages_unique (fw_db s)"
  shows "sx_wp (flow_turn env w)
     (\<lambda>res t. stages_unique (fw_db t) \<and>
        (case res of
           None \<Rightarrow> next_claimable (fw_db s) = None \<and> fd_runs (fw_db t) = fd_runs (fw_db s)
         | Some rid \<Rightarrow> (\<exists>r. next_claimable (fw_db s) = Some r \<and> rid = car_audit_run_id r \<and>
             others_same rid s t \<and> settled rid t)))
     (\<lambda>e t. rolled_back s t) s"
  unfolding flow_turn_def sx_wp_bind
proof (rule sx_wp_mono [OF wp_claim_session [OF d u]])
  fix claimed t
  assume t: "stages_unique (fw_db t) \<and> fw_calls t = fw_calls s \<and>
        (case claimed of
           None \<Rightarrow> next_claimable (fw_db s) = None \<and> fd_runs (fw_db t) = fd_runs (fw_db s)
         | Some row \<Rightarrow> (\<exists>r. next_claimable (fw_db s) = Some r \<and> car_audit_run_id row = car_audit_run_id r \<and>
             others_same (car_audit_run_id r) s t \<and> run_status (car_audit_run_id r) t = Some ''running'' \<and>
             map_option car_cancel_requested (run_get (car_audit_run_id r) (fw_db t)) = Some (car_cancel_requested r)))"
  show "sx_wp (case claimed of None \<Rightarrow> sx_ret None
               | Some r \<Rightarrow> sx_do (run_session env (car_audit_run_id r)) (sx_ret (Some (car_audit_run_id r))))
     (\<lambda>res t. stages_unique (fw_db t) \<and>
        (case res of
           None \<Rightarrow> next_claimable (fw_db s) = None \<and> fd_runs (fw_db t) = fd_runs (fw_db s)
         | Some rid \<Rightarrow> (\<exists>r. next_claimable (fw_db s) = Some r \<and> rid = car_audit_run_id r \<and>
             others_same rid s t \<and> settled rid t)))
     (\<lambda>e t. rolled_back s t) t"
  proof (cases claimed)
    case None
    then show ?thesis using t by simp
  next
    case (Some row)
    then obtain r where r: "next_claimable (fw_db s) = Some r" "car_audit_run_id row = car_audit_run_id r"
      "others_same (car_audit_run_id r) s t" "run_get (car_audit_run_id r) (fw_db t) \<noteq> None"
      using t by auto
    show ?thesis
      unfolding Some option.case sx_wp_do r(2)
      by (rule sx_wp_mono [OF wp_run_session [OF r(4)]]) (use t r(1) others_same_trans [OF r(3)] in auto)
  qed
qed

section \<open>The queue gets empty\<close>

text \<open>A queued run whose \<open>runtime_control\<close> can be spread into a dictionary.\<close>

definition claimable :: "common_run \<Rightarrow> bool" where
  "claimable r = (\<not> isl (spread (dget (car_config r) ''runtime_control'')))"

definition waiting_ids :: "flow_db \<Rightarrow> string set" where
  "waiting_ids d = {k. map_option car_status (run_get k d) = Some ''queued''}"

definition all_claimable :: "flow_db \<Rightarrow> bool" where
  "all_claimable d = (\<forall>k r. run_get k d = Some r \<longrightarrow> car_status r = ''queued'' \<longrightarrow> claimable r)"

lemma waiting_ids_sub: "waiting_ids d \<subseteq> car_audit_run_id ` set (fd_runs d)"
  unfolding waiting_ids_def run_get_def using row_find_Some by fastforce

lemma finite_waiting_ids [simp]: "finite (waiting_ids d)"
  by (rule finite_subset [OF waiting_ids_sub]) simp

lemma next_claimable_waiting:
  assumes "distinct (map car_audit_run_id (fd_runs d))"
  shows "next_claimable d = None \<longleftrightarrow> waiting_ids d = {}"
    and "next_claimable d = Some r \<Longrightarrow> car_audit_run_id r \<in> waiting_ids d \<and> run_get (car_audit_run_id r) d = Some r"
proof -
  show Some: "next_claimable d = Some r \<Longrightarrow> car_audit_run_id r \<in> waiting_ids d \<and> run_get (car_audit_run_id r) d = Some r" for r
    using next_claimable_Some [of d r] run_get_distinct [OF assms] by (simp add: waiting_ids_def)
  show "next_claimable d = None \<longleftrightarrow> waiting_ids d = {}"
  proof
    assume "next_claimable d = None"
    then have "\<forall>r \<in> set (fd_runs d). car_status r \<noteq> ''queued''" by (simp add: next_claimable_None)
    then show "waiting_ids d = {}" unfolding waiting_ids_def run_get_def using row_find_Some by fastforce
  next
    assume "waiting_ids d = {}"
    then show "next_claimable d = None" using Some by (cases "next_claimable d") auto
  qed
qed

lemma claim_returns:
  assumes "stages_unique (fw_db s)" "\<And>r. next_claimable (fw_db s) = Some r \<Longrightarrow> claimable r"
  shows "sx_wp (claim_session env w) (\<lambda>_ _. True) (\<lambda>_ _. False) s"
proof (cases "next_claimable (fw_db s)")
  case None
  then show ?thesis
    using assms(1) unfolding claim_session_def in_session_def session_start_def [symmetric] Let_def
    by (simp add: sx_wp_def claim_queued_def)
next
  case (Some r)
  then obtain control where "spread (dget (car_config r) ''runtime_control'') = Inr control"
    using assms(2) by (cases "spread (dget (car_config r) ''runtime_control'')") (auto simp: claimable_def)
  then obtain row where "claimed_row w r = Inr row" by (simp add: claimed_row_def)
  then show ?thesis
    using Some assms(1) unfolding claim_session_def in_session_def session_start_def [symmetric] Let_def
    by (simp add: sx_wp_def claim_queued_def) (simp add: flushable_def session_start_def)
qed

lemma flow_turn_returns:
  assumes d: "distinct (map car_audit_run_id (fd_runs (fw_db s)))" and u: "stages_unique (fw_db s)"
    and c: "all_claimable (fw_db s)"
  shows "sx_wp (flow_turn env w) (\<lambda>_ _. True) (\<lambda>_ _. False) s"
proof -
  have "claimable r" if "next_claimable (fw_db s) = Some r" for r
    using c next_claimable_waiting(2) [OF d that] by (auto simp: all_claimable_def waiting_ids_def)
  then have "sx_wp (claim_session env w) (\<lambda>_ _. True) (\<lambda>_ _. False) s" by (rule claim_returns [OF u])
  from sx_wp_conj [OF this wp_claim_session [OF d u]] show ?thesis
    unfolding flow_turn_def sx_wp_bind
  proof (rule sx_wp_mono, goal_cases)
    case (1 claimed t)
    then show ?case
    proof (cases claimed)
      case (Some row)
      have "run_get (car_audit_run_id row) (fw_db t) \<noteq> None" "stages_unique (fw_db t)" using 1 Some by auto
      from wp_run_session [OF this]
      have "sx_wp (run_session env (car_audit_run_id row)) (\<lambda>_ _. True) (\<lambda>_ _. False) t"
        by (rule sx_wp_mono) simp_all
      then show ?thesis
        unfolding Some option.case sx_wp_do sx_wp_ret .
    qed simp
  qed simp
qed

lemma turns_drain:
  assumes "distinct (map car_audit_run_id (fd_runs (fw_db s)))" "stages_unique (fw_db s)"
    "all_claimable (fw_db s)" "card (waiting_ids (fw_db s)) \<le> n"
  shows "\<exists>t. flow_turns env w n s = (Inr (), t) \<and> waiting_ids (fw_db t) = {} \<and>
     (\<forall>k \<in> waiting_ids (fw_db s). settled k t) \<and>
     (\<forall>k. k \<notin> waiting_ids (fw_db s) \<longrightarrow> run_get k (fw_db t) = run_get k (fw_db s))"
  using assms
proof (induction n arbitrary: s)
  case 0
  then show ?case by (simp add: sx_ret_def)
next
  case (Suc n)
  note d = Suc.prems(1) and u = Suc.prems(2) and c = Suc.prems(3)
  from sx_wp_conj [OF wp_flow_turn [OF d u, of env w] flow_turn_returns [OF d u c, of env w]]
  obtain res t where turn: "flow_turn env w s = (Inr res, t)" and ut: "stages_unique (fw_db t)"
    and post: "case res of None \<Rightarrow> next_claimable (fw_db s) = None \<and> fd_runs (fw_db t) = fd_runs (fw_db s)
       | Some rid \<Rightarrow> (\<exists>r. next_claimable (fw_db s) = Some r \<and> rid = car_audit_run_id r \<and> others_same rid s t \<and> settled rid t)"
    by (auto simp: sx_wp_def split: prod.splits sum.splits)
  have unfold: "flow_turns env w (Suc n) s = flow_turns env w n t" using turn by (simp add: sx_do_def sx_bind_def)
  show ?case
  proof (cases res)
    case None
    then have same: "run_get k (fw_db t) = run_get k (fw_db s)" for k using post by (simp add: run_get_def)
    have "waiting_ids (fw_db s) = {}" using None post next_claimable_waiting(1) [OF d] by simp
    moreover have "waiting_ids (fw_db t) = waiting_ids (fw_db s)" by (simp add: waiting_ids_def same)
    moreover have "all_claimable (fw_db t)" using c by (simp add: all_claimable_def same)
    moreover have "distinct (map car_audit_run_id (fd_runs (fw_db t)))" using d None post by simp
    ultimately show ?thesis using Suc.IH [of t] ut same unfold by simp
  next
    case (Some rid)
    then obtain r where r: "next_claimable (fw_db s) = Some r" "rid = car_audit_run_id r"
      and o: "others_same rid s t" and st: "settled rid t" using post by auto
    have rid: "rid \<in> waiting_ids (fw_db s)" using next_claimable_waiting(2) [OF d r(1)] r(2) by simp
    have same: "run_get k (fw_db t) = run_get k (fw_db s)" if "k \<noteq> rid" for k using o that by (simp add: others_same_def)
    have rid_t: "rid \<notin> waiting_ids (fw_db t)" using st by (auto simp: settled_def settled_row_def waiting_ids_def)
    have w: "waiting_ids (fw_db t) = waiting_ids (fw_db s) - {rid}"
    proof (rule set_eqI)
      fix k show "k \<in> waiting_ids (fw_db t) \<longleftrightarrow> k \<in> waiting_ids (fw_db s) - {rid}"
        using rid_t same [of k] by (cases "k = rid") (simp_all add: waiting_ids_def)
    qed
    then have "card (waiting_ids (fw_db t)) \<le> n" using rid Suc.prems(4) by (simp add: card_Diff_singleton)
    moreover have "all_claimable (fw_db t)"
      unfolding all_claimable_def
    proof (intro allI impI)
      fix k q assume q: "run_get k (fw_db t) = Some q" "car_status q = ''queued''"
      then have "k \<noteq> rid" using rid_t by (auto simp: waiting_ids_def)
      then show "claimable q" using c q same by (simp add: all_claimable_def)
    qed
    moreover have "distinct (map car_audit_run_id (fd_runs (fw_db t)))" using d o by (simp add: others_same_def)
    ultimately obtain v where v: "flow_turns env w n t = (Inr (), v)" "waiting_ids (fw_db v) = {}"
      "\<forall>k \<in> waiting_ids (fw_db t). settled k v"
      "\<forall>k. k \<notin> waiting_ids (fw_db t) \<longrightarrow> run_get k (fw_db v) = run_get k (fw_db t)"
      using Suc.IH [of t] ut by blast
    have "settled k v" if "k \<in> waiting_ids (fw_db s)" for k
      using v(3,4) st rid_t that w by (cases "k = rid") (auto simp: settled_def)
    moreover have "run_get k (fw_db v) = run_get k (fw_db s)" if "k \<notin> waiting_ids (fw_db s)" for k
    proof -
      have "k \<noteq> rid" using that rid by auto
      then show ?thesis using v(4) same w that by simp
    qed
    ultimately show ?thesis using v(1,2) unfold by auto
  qed
qed

end
