(* ===== verification/Flow_Cancel.thy ===== *)
theory Flow_Cancel
  imports Flow_Worker
begin

text \<open>
  Cancellation of a run that a workflow worker executes: a request the session has loaded skips
  every stage but the clean-up, a request made later is not seen, and in both cases the run is
  not recorded as cancelled.
\<close>

section \<open>A request that is there at the start\<close>

lemma stage_pass_cancelled:
  assumes "flushable s" "run_get (cx_audit_run_id cx) (fw_db s) = Some row"
    and "se_cancel env (fw_calls s) (car_cancel_requested row)" "sg_policy sg \<noteq> ALWAYS_RUN"
  shows "stage_pass env cx (sg # sgs) lo s = (Inr (lo\<lparr>lo_seen := True, lo_cancelled := True\<rparr>), s)"
  using assms by (simp add: refresh_cancel_def get_flow_run_def flush_def sx_simps)

lemma always_pass_skip:
  "(\<And>sg. sg \<in> set xs \<Longrightarrow> sg_policy sg \<noteq> ALWAYS_RUN) \<Longrightarrow> always_pass env cx (xs @ ys) lo = always_pass env cx ys lo"
  by (induction xs) auto

lemma default_stages_split:
  "default_stages = butlast default_stages @ [cleanup_stage]"
  "sg \<in> set (butlast default_stages) \<Longrightarrow> sg_policy sg \<noteq> ALWAYS_RUN"
  by (auto simp: default_stages_def cleanup_stage_def service_stage_of_def)

definition new_pipeline :: "string \<Rightarrow> flow_db \<Rightarrow> bool" where
  "new_pipeline pid d = list_all (\<lambda>st. cst_pipeline_run_id st \<noteq> pid) (fd_stages d)"

text \<open>The stages a pipeline has a row of.\<close>

definition recorded :: "string \<Rightarrow> flow_db \<Rightarrow> string set" where
  "recorded pid d = cst_stage ` set (filter (\<lambda>st. cst_pipeline_run_id st = pid) (fd_stages d))"

lemma new_pipeline_recorded: "new_pipeline pid d \<longleftrightarrow> recorded pid d = {}"
  by (auto simp: new_pipeline_def recorded_def list_all_iff filter_empty_conv)

lemma stages_unique_record:
  "stages_unique d \<Longrightarrow> stage \<notin> recorded pid d \<Longrightarrow> stages_unique (stage_record pid rid stage st sm ids e t d)"
  by (force simp: stages_unique_def stage_record_def recorded_def)

lemma recorded_record [simp]: "recorded pid (stage_record pid rid stage st sm ids e t d) = insert stage (recorded pid d)"
  by (simp add: recorded_def stage_record_def)

lemma recorded_unchanged [simp]:
  "recorded pid (set_run_state rid st c e d) = recorded pid d"
  "recorded pid (event_append rid subj ev p d) = recorded pid d"
  "recorded pid (write_flow_run rid f d) = recorded pid d"
  by (simp_all add: recorded_def write_flow_run_def)

lemma run_get_stage_record [simp]: "run_get k (stage_record pid rid stage st sm ids e t d) = run_get k d"
  by (simp add: run_get_def stage_record_def)

lemma set_run_state_frame [simp]:
  "fd_stages (set_run_state rid st c e d) = fd_stages d" "fd_events (set_run_state rid st c e d) = fd_events d"
  "fd_stages (write_flow_run rid f d) = fd_stages d" "fd_events (write_flow_run rid f d) = fd_events d"
  by (simp_all add: set_run_state_def write_flow_run_def)

text \<open>One stage has left a row, and it is the clean-up.\<close>

definition one_cleanup :: "flow_db \<Rightarrow> flow_db \<Rightarrow> bool" where
  "one_cleanup d d' = (\<exists>st. fd_stages d' = fd_stages d @ [st] \<and> cst_stage st = ''runtime-cleanup'')"

lemma wp_cleanup_anyway:
  assumes cx: "cx_audit_run_id cx = rid" and row: "run_get rid (fw_db s) \<noteq> None" and fl: "flushable s"
    and new: "''runtime-cleanup'' \<notin> recorded (cx_pipeline_run_id cx) (fw_db s)"
  shows "sx_wp (run_anyway env cx cleanup_stage lo)
     (\<lambda>lo' t. lo_failed lo' = lo_failed lo \<and> lo_cancelled lo' = lo_cancelled lo \<and> flushable t \<and>
        fw_calls t = fw_calls s @ [Cleanup_Call rid] \<and> run_get rid (fw_db t) \<noteq> None \<and>
        fd_events (fw_db t) = fd_events (fw_db s) \<and> one_cleanup (fw_db s) (fw_db t)) (\<lambda>_ _. False) s"
proof -
  obtain r where r: "run_get rid (fw_db s) = Some r" using row by blast
  let ?s = "s\<lparr>fw_db := set_run_state rid ''running'' (Some ''runtime-cleanup'') None (fw_db s)\<rparr>"
  have s': "flushable ?s" "run_get rid (fw_db ?s) =
      Some (stamped (fd_now (fw_db s)) r (with_pipeline_state ''running'' (Some ''runtime-cleanup'') None r))"
    using fl r by (simp_all add: flushable_def)
  let ?row = "stamped (fd_now (fw_db s)) r (with_pipeline_state ''running'' (Some ''runtime-cleanup'') None r)"
  have id: "car_audit_run_id ?row = rid" using run_get_id [OF s'(2)] .
  let ?t = "?s\<lparr>fw_calls := fw_calls s @ [Cleanup_Call rid]\<rparr>"
  have clean: "sx_wp (runtime_cleanup env ?row) (\<lambda>_ t. t = ?t) (\<lambda>_ _. False) ?s"
    using id by (simp add: runtime_cleanup_def cleanup_runtime_def split: sum.splits)
  have stage: "sx_wp (run_service_stage env cx cleanup_stage) (\<lambda>sr t. t = ?t \<and> sr_stage sr = ''runtime-cleanup'') (\<lambda>_ _. False) ?s"
    unfolding run_service_stage_def cx stage_adapter_def cleanup_stage_simps
    using s' by (simp add: wp_runner_audit_run del: run_get_set_state) (rule sx_wp_mono [OF clean], simp_all)
  have recd: "sx_wp (record_success env cx sr)
     (\<lambda>_ t. flushable t \<and> fw_calls t = fw_calls s @ [Cleanup_Call rid] \<and> run_get rid (fw_db t) \<noteq> None \<and>
        fd_events (fw_db t) = fd_events (fw_db s) \<and> one_cleanup (fw_db s) (fw_db t)) (\<lambda>_ _. False) ?t"
    if "sr_stage sr = ''runtime-cleanup''" for sr
    using fl r new that by (simp add: record_success_def record_result_def flushable_def stages_unique_record one_cleanup_def)
      (simp add: stage_record_def)
  let ?handler = "\<lambda>e. sx_do (record_result env cx ''runtime-cleanup'' ''warning'' [] [] (Some (exc_str e))) (sx_ret lo)"
  let ?post = "\<lambda>lo' t. lo_failed lo' = lo_failed lo \<and> lo_cancelled lo' = lo_cancelled lo \<and> flushable t \<and>
        fw_calls t = fw_calls s @ [Cleanup_Call rid] \<and> run_get rid (fw_db t) \<noteq> None \<and>
        fd_events (fw_db t) = fd_events (fw_db s) \<and> one_cleanup (fw_db s) (fw_db t)"
  have "sx_wp (sx_do (record_success env cx sr) (sx_ret (after_success sr lo))) ?post
          (\<lambda>e. sx_wp (?handler e) ?post (\<lambda>_ _. False)) ?t" if "sr_stage sr = ''runtime-cleanup''" for sr
    unfolding sx_wp_do sx_wp_ret by (rule sx_wp_mono [OF recd [OF that]]) simp_all
  then have "sx_wp (sx_bind (run_service_stage env cx cleanup_stage)
               (\<lambda>sr. sx_do (record_success env cx sr) (sx_ret (after_success sr lo)))) ?post
          (\<lambda>e. sx_wp (?handler e) ?post (\<lambda>_ _. False)) ?s"
    unfolding sx_wp_bind by (intro sx_wp_mono [OF stage]) auto
  then show ?thesis
    unfolding run_anyway_def sx_wp_try sx_wp_do [of "set_pipeline_status _ _ _ _"] cx wp_set_status [OF r]
      cleanup_stage_simps
    using fl by (simp only: if_True)
qed


text \<open>The executor on a run whose cancellation has been loaded.\<close>

lemma wp_execute_cancelled:
  assumes cx: "cx_audit_run_id cx = rid" and row: "run_get rid (fw_db s) = Some row" and fl: "flushable s"
    and cancel: "\<And>cs. se_cancel env cs (car_cancel_requested row)" and new: "new_pipeline (cx_pipeline_run_id cx) (fw_db s)"
  shows "sx_wp (execute_stages env (stage_registry default_stages) cx)
     (\<lambda>result t. dget result ''status'' = PStr ''cancelled'' \<and> fw_calls t = fw_calls s @ [Cleanup_Call rid] \<and>
        run_get rid (fw_db t) \<noteq> None \<and>
        (\<exists>ev. fd_events (fw_db t) = fd_events (fw_db s) @ [ev] \<and> cev_event_type ev = ''audit_run.started'') \<and>
        one_cleanup (fw_db s) (fw_db t)) (\<lambda>_ _. False) s"
proof -
  let ?post = "\<lambda>result t. dget result ''status'' = PStr ''cancelled'' \<and> fw_calls t = fw_calls s @ [Cleanup_Call rid] \<and>
        run_get rid (fw_db t) \<noteq> None \<and>
        (\<exists>ev. fd_events (fw_db t) = fd_events (fw_db s) @ [ev] \<and> cev_event_type ev = ''audit_run.started'') \<and>
        one_cleanup (fw_db s) (fw_db t)"
  let ?lo = "\<lparr>lo_completed = [], lo_failed = False, lo_cancelled = False, lo_error = None, lo_seen = cx_cancelled cx\<rparr>"
  let ?lo' = "?lo\<lparr>lo_seen := True, lo_cancelled := True\<rparr>"
  let ?u = "s\<lparr>fw_db := event_append rid ''dieaudit.audit_run.started'' ''audit_run.started''
              (event_to_payload ''dieaudit.audit_run.started'' ''audit_run.started'' rid
                 (iso_utc (se_clock env (fw_calls s))) [(''status'', PStr ''running'')]) (fw_db s)\<rparr>"
  have u: "flushable ?u" "run_get rid (fw_db ?u) = Some row" "''runtime-cleanup'' \<notin> recorded (cx_pipeline_run_id cx) (fw_db ?u)"
    using fl row new by (simp_all add: flushable_def new_pipeline_recorded)
  have finish: "sx_wp (finish_pipeline env cx lo') ?post (\<lambda>_ _. False) t"
    if c: "lo_cancelled lo'" "flushable t" "fw_calls t = fw_calls s @ [Cleanup_Call rid]" "run_get rid (fw_db t) \<noteq> None"
      "fd_events (fw_db t) = fd_events (fw_db ?u)" "one_cleanup (fw_db ?u) (fw_db t)" for lo' t
  proof -
    obtain q where "run_get rid (fw_db t) = Some q" using c(4) by blast
    then have "run_get rid (pipeline_finish p st sm e w (fw_db t)) = Some q" for p st sm e w
      by (simp add: pipeline_finish_def run_get_def)
    moreover have "stages_unique (pipeline_finish p st sm e w (fw_db t)) = stages_unique (fw_db t)" for p st sm e w
      by (simp add: pipeline_finish_def stages_unique_def)
    moreover have "fd_events (pipeline_finish p st sm e w (fw_db t)) = fd_events (fw_db t)"
        "fd_stages (pipeline_finish p st sm e w (fw_db t)) = fd_stages (fw_db t)" for p st sm e w
      by (simp_all add: pipeline_finish_def)
    ultimately show ?thesis
      using c by (simp add: finish_pipeline_def flush_def set_pipeline_status_def wp_get flushable_def cx loop_status_def)
        (simp add: one_cleanup_def event_append_def)
  qed
  have always: "sx_wp (always_pass env cx default_stages ?lo')
     (\<lambda>lo'. sx_wp (finish_pipeline env cx lo') ?post (\<lambda>_ _. False)) (\<lambda>_ _. False) ?u"
  proof -
    have "always_pass env cx default_stages ?lo' = always_pass env cx [cleanup_stage] ?lo'"
      by (subst default_stages_split(1)) (rule always_pass_skip, erule default_stages_split(2))
    also have "\<dots> = sx_bind (run_anyway env cx cleanup_stage ?lo') sx_ret"
    proof -
      have "always_pass env cx [] = sx_ret" by (rule ext) simp
      then show ?thesis by (simp add: has_completed_def)
    qed
    finally have eq: "always_pass env cx default_stages ?lo' = sx_bind (run_anyway env cx cleanup_stage ?lo') sx_ret" .
    show ?thesis
      unfolding eq sx_wp_bind sx_wp_ret
      by (rule sx_wp_mono [OF wp_cleanup_anyway [OF cx _ u(1) u(3)]]) (use u(2) finish in auto)
  qed
  have pass: "stage_pass env cx default_stages ?lo ?u = (Inr ?lo', ?u)"
  proof -
    have "default_stages = hd default_stages # tl default_stages" "sg_policy (hd default_stages) \<noteq> ALWAYS_RUN"
      by (simp_all add: default_stages_def service_stage_of_def)
    then show ?thesis
      using stage_pass_cancelled [of ?u cx row env "hd default_stages" "tl default_stages" ?lo] u cancel cx by simp
  qed
  have "sx_wp (stage_pass env cx default_stages ?lo)
     (\<lambda>lo. sx_wp (sx_bind (if lo_failed lo \<or> lo_cancelled lo then always_pass env cx default_stages lo else sx_ret lo)
                  (finish_pipeline env cx)) ?post (\<lambda>_ _. False)) (\<lambda>_ _. False) ?u"
    using always by (simp add: sx_wp_def [of "stage_pass _ _ _ _"] pass)
  then show ?thesis
    unfolding execute_stages_def default_registry default_order sx_wp_do sx_wp_bind [of "sx_lift _"]
    by (simp add: sx_wp_lift emit_event_def cx)
qed

lemma wp_service_cancelled:
  assumes row: "run_get (car_audit_run_id r) (fw_db s) = Some r" and fl: "flushable s"
    and cancel: "car_cancel_requested r" "\<And>cs. se_cancel env cs True"
    and new: "\<And>t. new_pipeline (fst (pipeline_create (car_audit_run_id r) t (fw_db s))) (fw_db s)"
  shows "sx_wp (pipeline_service env r)
     (\<lambda>result t. dget result ''status'' = PStr ''cancelled'' \<and>
        fw_calls t = fw_calls s @ [Cleanup_Call (car_audit_run_id r)] \<and>
        (\<exists>ev. fd_events (fw_db t) = fd_events (fw_db s) @ [ev] \<and> cev_event_type ev = ''audit_run.started'') \<and>
        one_cleanup (fw_db s) (fw_db t) \<and>
        (\<exists>row. run_get (car_audit_run_id r) (fw_db t) = Some row \<and>
               car_status row = ''succeeded'' \<and> car_pipeline_status row = ''cancelled'')) (\<lambda>_ _. False) s"
proof -
  let ?rid = "car_audit_run_id r"
  let ?ok = "\<lambda>pid u. flushable u \<and> fw_calls u = fw_calls s \<and> new_pipeline pid (fw_db u) \<and>
       fd_events (fw_db u) = fd_events (fw_db s) \<and> fd_stages (fw_db u) = fd_stages (fw_db s) \<and>
       (\<exists>q. run_get ?rid (fw_db u) = Some q \<and> car_cancel_requested q)"
  have "sx_wp (open_pipeline env r) ?ok (\<lambda>_ _. False) s"
    using row fl cancel(1) new
    by (simp add: open_pipeline_def put_run_def run_get_write flushable_def new_pipeline_def)
       (simp add: write_flow_run_def pipeline_create_def new_id_def stages_unique_def)
  moreover have "sx_wp (sx_bind (execute_stages env (stage_registry default_stages) (context_of r pid)) (close_pipeline r))
     (\<lambda>result t. dget result ''status'' = PStr ''cancelled'' \<and>
        fw_calls t = fw_calls s @ [Cleanup_Call ?rid] \<and>
        (\<exists>ev. fd_events (fw_db t) = fd_events (fw_db s) @ [ev] \<and> cev_event_type ev = ''audit_run.started'') \<and>
        one_cleanup (fw_db s) (fw_db t) \<and>
        (\<exists>row. run_get ?rid (fw_db t) = Some row \<and>
               car_status row = ''succeeded'' \<and> car_pipeline_status row = ''cancelled'')) (\<lambda>_ _. False) u"
    if ok: "?ok pid u" for pid u
  proof -
    from ok obtain q where q: "run_get ?rid (fw_db u) = Some q" "car_cancel_requested q" by blast
    have "sx_wp (execute_stages env (stage_registry default_stages) (context_of r pid))
        (\<lambda>result t. dget result ''status'' = PStr ''cancelled'' \<and> fw_calls t = fw_calls u @ [Cleanup_Call ?rid] \<and>
           run_get ?rid (fw_db t) \<noteq> None \<and>
        (\<exists>ev. fd_events (fw_db t) = fd_events (fw_db u) @ [ev] \<and> cev_event_type ev = ''audit_run.started'') \<and>
        one_cleanup (fw_db u) (fw_db t)) (\<lambda>_ _. False) u"
      by (rule wp_execute_cancelled [OF _ q(1)]) (use ok q cancel in \<open>auto simp: context_of_def\<close>)
    then show ?thesis
      unfolding sx_wp_bind using ok
      by (elim sx_wp_mono) (auto simp: close_pipeline_def put_run_def run_get_write one_cleanup_def)
  qed
  ultimately show ?thesis
    unfolding pipeline_service_def sx_wp_bind [of "open_pipeline _ _"] by (elim sx_wp_mono) auto
qed

section \<open>A request that comes later\<close>

text \<open>
  The session keeps the row it has loaded: a query that meets it again does not overwrite its
  attributes (SQLAlchemy's identity map), so reading the flag again shows the loaded value.
\<close>

definition loads_once :: "service_env \<Rightarrow> bool" where
  "loads_once env = (\<forall>cs b. se_cancel env cs b = b)"

definition uncancelled :: "string \<Rightarrow> flow_state \<Rightarrow> bool" where
  "uncancelled rid s = (map_option car_cancel_requested (run_get rid (fw_db s)) = Some False)"

lemma uncancelled_step: "uncancelled rid s \<Longrightarrow> fw_step rid s t \<Longrightarrow> uncancelled rid t"
  by (auto simp: uncancelled_def fw_step_def run_flags_def)

lemma wp_uncancelled:
  assumes "steps rid m" "uncancelled rid s"
  shows "sx_wp m (\<lambda>_ t. uncancelled rid t) (\<lambda>_ t. uncancelled rid t) s"
  by (rule sx_wp_mono [OF wp_steps [OF assms(1)]]) (use assms(2) uncancelled_step in blast)+

lemma stage_pass_uncancelled:
  assumes cx: "cx_audit_run_id cx = rid" and once: "loads_once env" and "uncancelled rid s" "\<not> lo_cancelled lo"
  shows "sx_wp (stage_pass env cx sgs lo) (\<lambda>lo' t. \<not> lo_cancelled lo' \<and> uncancelled rid t) (\<lambda>_ _. True) s"
  using assms(3,4)
proof (induction sgs arbitrary: lo s)
  case Nil
  then show ?case by simp
next
  case (Cons sg sgs)
  let ?post = "\<lambda>lo' t. \<not> lo_cancelled lo' \<and> uncancelled rid t"
  obtain row where row: "run_get rid (fw_db s) = Some row" "\<not> car_cancel_requested row"
    using Cons.prems(1) by (auto simp: uncancelled_def)
  let ?lo = "lo\<lparr>lo_seen := False\<rparr>"
  have refresh: "sx_wp (refresh_cancel env cx lo) (\<lambda>lo' t. lo' = ?lo \<and> t = s) (\<lambda>_ _. True) s"
    using row once by (simp add: refresh_cancel_def wp_get cx loads_once_def)
  have on: "sx_wp (sx_do m (stage_pass env cx sgs lo1)) ?post (\<lambda>_ _. True) t"
    if "steps rid m" "uncancelled rid t" "\<not> lo_cancelled lo1" for m lo1 t
    unfolding sx_wp_do by (rule sx_wp_mono [OF wp_uncancelled [OF that(1,2)]]) (use Cons.IH that(3) in auto)
  have stop: "sx_wp (sx_do (stage_failed env cx sg e) (sx_ret (after_failure sg e ?lo))) ?post (\<lambda>_ _. True) t"
    if "uncancelled rid t" for e t
    unfolding sx_wp_do sx_wp_ret
    by (rule sx_wp_mono [OF wp_uncancelled [OF steps_outcomes(2) that]]) (use Cons.prems in \<open>auto simp: after_failure_def\<close>)
  have nc: "\<not> lo_cancelled ?lo" "\<not> lo_cancelled (after_failure sg e ?lo)" "\<not> lo_cancelled (after_success r ?lo)" for e r
    using Cons.prems(2) by (simp_all add: after_failure_def)
  have run: "sx_wp (sx_bind (sx_attempt (run_service_stage env cx sg)) (\<lambda>outcome. case outcome of
              Inl e \<Rightarrow>
                sx_do (stage_failed env cx sg e)
                  (if sg_policy sg = FAIL_FAST then sx_ret (after_failure sg e ?lo)
                   else stage_pass env cx sgs (after_failure sg e ?lo))
            | Inr r \<Rightarrow> sx_do (stage_succeeded env cx r) (stage_pass env cx sgs (after_success r ?lo)))) ?post (\<lambda>_ _. True) t"
    if "uncancelled rid t" for t
    unfolding sx_wp_bind sx_wp_attempt
    by (rule sx_wp_mono [OF wp_uncancelled [OF steps_service_stage [OF cx] that]])
       (use on [OF steps_outcomes(2)] on [OF steps_outcomes(3)] stop nc in auto)
  have enter: "sx_wp (sx_do (enter_service_stage env cx sg) (sx_bind (sx_attempt (run_service_stage env cx sg)) (\<lambda>outcome. case outcome of
              Inl e \<Rightarrow>
                sx_do (stage_failed env cx sg e)
                  (if sg_policy sg = FAIL_FAST then sx_ret (after_failure sg e ?lo)
                   else stage_pass env cx sgs (after_failure sg e ?lo))
            | Inr r \<Rightarrow> sx_do (stage_succeeded env cx r) (stage_pass env cx sgs (after_success r ?lo))))) ?post (\<lambda>_ _. True) s"
    unfolding sx_wp_do [of "enter_service_stage _ _ _"]
    by (rule sx_wp_mono [OF wp_uncancelled [OF steps_enter [OF cx] Cons.prems(1)]]) (use run in auto)
  show ?case
    unfolding stage_pass.simps sx_wp_bind [of "refresh_cancel _ _ _"]
    by (rule sx_wp_mono [OF refresh])
       (use enter on [OF steps_outcomes(1) Cons.prems(1) nc(1)] in \<open>auto simp: sx_wp_lift simp del: sx_wp_do split: sum.splits\<close>)
qed


lemma always_pass_flags: "sx_wp (always_pass env cx sgs lo) (\<lambda>lo' _. lo_cancelled lo' = lo_cancelled lo) (\<lambda>_ _. True) s"
proof (induction sgs arbitrary: lo s)
  case Nil
  then show ?case by simp
next
  case (Cons sg sgs)
  have triv: "sx_wp m (\<lambda>_ _. True) (\<lambda>_ _. True) u" for m :: "'x fx" and u by simp
  have anyway: "sx_wp (run_anyway env cx sg lo) (\<lambda>lo' _. lo_cancelled lo' = lo_cancelled lo) (\<lambda>_ _. True) u" for u
    unfolding run_anyway_def sx_wp_try sx_wp_do sx_wp_bind sx_wp_ret
    by (rule sx_wp_mono [OF triv] | simp)+
  have later: "sx_wp (always_pass env cx sgs lo1) (\<lambda>lo' _. lo_cancelled lo' = lo_cancelled lo) (\<lambda>_ _. True) u"
    if "lo_cancelled lo1 = lo_cancelled lo" for lo1 u
    by (rule sx_wp_mono [OF Cons.IH]) (simp_all add: that)
  have "sx_wp (sx_bind (run_anyway env cx sg lo) (always_pass env cx sgs))
          (\<lambda>lo' _. lo_cancelled lo' = lo_cancelled lo) (\<lambda>_ _. True) u" for u
    unfolding sx_wp_bind by (rule sx_wp_mono [OF anyway]) (rule later, simp_all)
  then show ?case using Cons.IH by (simp only: always_pass.simps split: if_split) blast
qed

lemma finish_status: "sx_wp (finish_pipeline env cx lo) (\<lambda>result _. dget result ''status'' = PStr (loop_status lo)) (\<lambda>_ _. True) s"
proof -
  have triv: "sx_wp m (\<lambda>_ _. True) (\<lambda>_ _. True) u" for m :: "'x fx" and u by simp
  show ?thesis
    unfolding finish_pipeline_def sx_wp_do sx_wp_bind sx_wp_ret
    by (rule sx_wp_mono [OF triv] | simp)+
qed

lemma execute_uncancelled:
  assumes cx: "cx_audit_run_id cx = rid" and once: "loads_once env" and un: "uncancelled rid s"
  shows "sx_wp (execute_stages env (stage_registry default_stages) cx)
           (\<lambda>result _. dget result ''status'' \<noteq> PStr ''cancelled'') (\<lambda>_ _. True) s"
proof -
  have fin: "sx_wp (finish_pipeline env cx lo) (\<lambda>result _. dget result ''status'' \<noteq> PStr ''cancelled'') (\<lambda>_ _. True) u"
    if "\<not> lo_cancelled lo" for lo u
    by (rule sx_wp_mono [OF finish_status]) (use that in \<open>simp_all add: loop_status_def\<close>)
  have rest: "sx_wp (sx_bind (if lo_failed lo \<or> lo_cancelled lo then always_pass env cx default_stages lo else sx_ret lo)
        (finish_pipeline env cx)) (\<lambda>result _. dget result ''status'' \<noteq> PStr ''cancelled'') (\<lambda>_ _. True) u"
    if nc: "\<not> lo_cancelled lo" for lo u
  proof -
    have "sx_wp (always_pass env cx default_stages lo)
        (\<lambda>lo'. sx_wp (finish_pipeline env cx lo') (\<lambda>result _. dget result ''status'' \<noteq> PStr ''cancelled'') (\<lambda>_ _. True))
        (\<lambda>_ _. True) u"
      by (rule sx_wp_mono [OF always_pass_flags]) (use fin nc in auto)
    then show ?thesis using fin [OF nc] nc by simp
  qed
  let ?lo = "\<lparr>lo_completed = [], lo_failed = False, lo_cancelled = False, lo_error = None, lo_seen = cx_cancelled cx\<rparr>"
  have "sx_wp (stage_pass env cx default_stages ?lo)
      (\<lambda>lo. sx_wp (sx_bind (if lo_failed lo \<or> lo_cancelled lo then always_pass env cx default_stages lo else sx_ret lo)
                 (finish_pipeline env cx)) (\<lambda>result _. dget result ''status'' \<noteq> PStr ''cancelled'') (\<lambda>_ _. True))
      (\<lambda>_ _. True) u" if "uncancelled rid u" for u
    by (rule sx_wp_mono [OF stage_pass_uncancelled [OF cx once that]]) (use rest in auto)
  then show ?thesis
    unfolding execute_stages_def default_registry default_order sx_wp_do sx_wp_bind [of "sx_lift _"]
    by (intro sx_wp_mono [OF wp_uncancelled [OF steps_emit un]]) (simp_all add: sx_wp_lift del: sx_wp_bind, simp)
qed

lemma service_uncancelled:
  assumes once: "loads_once env" and un: "uncancelled (car_audit_run_id r) s"
  shows "sx_wp (pipeline_service env r) (\<lambda>result _. dget result ''status'' \<noteq> PStr ''cancelled'') (\<lambda>_ _. True) s"
proof -
  let ?rid = "car_audit_run_id r"
  have opened: "sx_wp (open_pipeline env r) (\<lambda>_ t. uncancelled ?rid t) (\<lambda>_ _. True) s"
    using un by (auto simp: open_pipeline_def put_run_def run_get_write uncancelled_def)
  have closed: "sx_wp (close_pipeline r result) (\<lambda>result' _. dget result' ''status'' \<noteq> PStr ''cancelled'') (\<lambda>_ _. True) t"
    if "dget result ''status'' \<noteq> PStr ''cancelled''" for result t
    using that by (simp add: close_pipeline_def put_run_def)
  show ?thesis
    unfolding pipeline_service_def sx_wp_bind
  proof (rule sx_wp_mono [OF opened])
    fix pid u assume "uncancelled ?rid u"
    then have "sx_wp (execute_stages env (stage_registry default_stages) (context_of r pid))
        (\<lambda>result _. dget result ''status'' \<noteq> PStr ''cancelled'') (\<lambda>_ _. True) u"
      by (intro execute_uncancelled [OF _ once]) simp_all
    then show "sx_wp (execute_stages env (stage_registry default_stages) (context_of r pid))
        (\<lambda>result. sx_wp (close_pipeline r result) (\<lambda>result _. dget result ''status'' \<noteq> PStr ''cancelled'') (\<lambda>_ _. True))
        (\<lambda>_ _. True) u"
      by (elim sx_wp_mono) (rule closed, simp_all)
  qed simp
qed

end
