(* ===== verification/Flow_Returns.thy ===== *)
theory Flow_Returns
  imports Flow_Cancel
begin

text \<open>
  A pipeline on the default stages returns: whatever the services answer or raise is recorded
  as the outcome of a stage and does not leave the executor. What it needs is a readable list of
  disabled stages, a workspace that is a text if there is one, and a new pipeline identifier.
\<close>

definition plain_workspace :: "common_run \<Rightarrow> bool" where
  "plain_workspace r = (truthy (workspace_value r) \<longrightarrow> is_str (workspace_value r))"

text \<open>No row of the pipeline \<open>pid\<close> names a stage of \<open>N\<close>, and the session can be flushed.\<close>

definition sound :: "string \<Rightarrow> string \<Rightarrow> string set \<Rightarrow> flow_state \<Rightarrow> bool" where
  "sound pid rid N s =
     (flushable s \<and> map_option plain_workspace (run_get rid (fw_db s)) = Some True \<and>
      recorded pid (fw_db s) \<inter> N = {})"

lemma sound_present: "sound pid rid N s \<Longrightarrow> run_get rid (fw_db s) \<noteq> None \<and> flushable s"
  by (auto simp: sound_def)

lemma sound_mono: "sound pid rid N s \<Longrightarrow> M \<subseteq> N \<Longrightarrow> sound pid rid M s"
  by (auto simp: sound_def)

section \<open>The stages keep it\<close>

lemma keeps_on_put:
  assumes "\<And>r. car_audit_run_id (f r) = car_audit_run_id r" "\<And>r. plain_workspace r \<Longrightarrow> plain_workspace (f r)"
  shows "keeps (sound pid rid N) (put_run rid f)"
proof -
  have stamped: "plain_workspace (stamped t q r) = plain_workspace r" for t q r
    by (simp add: plain_workspace_def workspace_value_def)
  show ?thesis
    unfolding put_run_def on_db_def
    by (rule keeps_modify)
       (auto simp: sound_def flushable_def run_get_write [OF assms(1)] stamped assms(2))
qed

lemma keeps_flush: "keeps (sound pid rid N) flush"
  unfolding flush_def by (intro keeps_intros)

lemma keeps_post: "keeps (sound pid rid N) (post_request env c)"
  by (simp add: keeps_wp) (auto simp: sound_def split: sum.splits)

lemma keeps_findings: "keeps (sound pid rid N) (run_findings env k)"
  unfolding run_findings_def by (intro keeps_intros keeps_flush)

lemma keeps_ask_agent: "keeps (sound pid rid N) (ask_agent env r a p x)"
  unfolding ask_agent_def start_agent_run_def by (intro keeps_intros keeps_post)

lemma keeps_snapshot_ready:
  assumes "plain_workspace r" "car_audit_run_id r = rid"
  shows "keeps (sound pid rid N) (snapshot_ready r)"
proof (cases "car_snapshot_id r \<in> {None, Some []} \<or> \<not> truthy (workspace_value r)")
  case True
  then show ?thesis unfolding snapshot_ready_def Let_def by (auto intro: keeps_intros)
next
  case False
  then obtain p where p: "workspace_value r = PStr p" "p \<noteq> []"
    using assms(1) by (cases "workspace_value r") (auto simp: plain_workspace_def)
  have "keeps (sound pid rid N) (put_run rid (\<lambda>q. q\<lparr>car_workspace_path := Some p\<rparr>))"
    by (rule keeps_on_put) (use p in \<open>simp_all add: plain_workspace_def workspace_value_def\<close>)
  moreover have "keeps (sound pid rid N) (put_run rid (\<lambda>q. q\<lparr>car_config := dset (car_config q) ''workspace_host_path'' (PStr p)\<rparr>))"
    by (rule keeps_on_put) (auto simp: plain_workspace_def workspace_value_def por_def)
  ultimately show ?thesis
    unfolding snapshot_ready_def Let_def p(1) assms(2) using False p
    by (auto intro!: keeps_intros)
qed

lemma keeps_structure: "car_audit_run_id r = rid \<Longrightarrow> keeps (sound pid rid N) (structure_discovery env r)"
  unfolding structure_discovery_def workspace_structure_def
  by (intro keeps_intros keeps_post)
     (auto intro!: keeps_on_put simp: plain_workspace_def workspace_value_def)

lemma keeps_report: "keeps (sound pid rid N) (report_stage env r)"
  unfolding report_stage_def Let_def
  by (intro keeps_intros keeps_findings, simp add: keeps_wp)
     (simp add: sound_def flushable_def stages_unique_def recorded_def new_id_def run_get_def)

lemma keeps_adapter: "keeps (sound pid rid N) (stage_adapter env rid stage)"
  unfolding keeps_wp
proof (intro allI impI)
  fix s assume s: "sound pid rid N s"
  then obtain r where r: "run_get rid (fw_db s) = Some r" "plain_workspace r" by (auto simp: sound_def)
  have id: "car_audit_run_id r = rid" using r(1) by (rule run_get_id)
  note keep = keeps_snapshot_ready [OF r(2) id] keeps_structure [OF id]
  have "keeps (sound pid rid N)
       (if stage = ''snapshot-ready'' then snapshot_ready r
         else if stage = ''structure-discovery'' then structure_discovery env r
         else if stage = ''agent-audit'' then agent_audit env r
         else if stage = ''code-analysis'' then code_analysis env r
         else if stage = ''value-triage'' then sx_ret value_triage
         else if stage = ''whiteboard-swarm'' then whiteboard_swarm r
         else if stage = ''validation-judgement'' then validation_judgement env r
         else if stage = ''feedback-loop'' then sx_ret feedback_stage
         else if stage = ''poc-writing'' then poc_agent_stage env r ''poc-writer''
         else if stage = ''poc-verification'' then poc_agent_stage env r ''poc-verifier''
         else if stage = ''report'' then report_stage env r
         else if stage = ''runtime-cleanup'' then runtime_cleanup env r
         else sx_raise (RuntimeError (''unknown stage: '' @ stage)))"
    unfolding agent_audit_def code_analysis_def whiteboard_swarm_def validation_judgement_def
      poc_agent_stage_def runtime_cleanup_def cleanup_runtime_def
    by (intro keeps_intros keep keeps_report keeps_findings keeps_ask_agent keeps_post)
  then show "sx_wp (stage_adapter env rid stage) (\<lambda>_. sound pid rid N) (\<lambda>_. sound pid rid N) s"
    using s r unfolding stage_adapter_def sx_wp_bind wp_runner_audit_run
    by (auto simp: keeps_wp dest: sound_present)
qed

lemma keeps_service_stage:
  "cx_audit_run_id cx = rid \<Longrightarrow> keeps (sound pid rid N) (run_service_stage env cx sg)"
  unfolding run_service_stage_def wall_clock_def by (auto intro!: keeps_intros keeps_adapter)

section \<open>The executor returns\<close>

lemma sound_record:
  assumes "sound pid rid N s" "stage \<in> N" "cx_pipeline_run_id cx = pid"
  shows "sx_wp (record_result env cx stage st sm ids e) (\<lambda>_ t. sound pid rid (N - {stage}) t) (\<lambda>_ _. False) s"
  using assms by (auto simp: record_result_def sound_def flushable_def intro: stages_unique_record)

lemma sound_emit:
  "sound pid rid N s \<Longrightarrow> sx_wp (emit_event env subj ev cx p) (\<lambda>_ t. sound pid rid N t) (\<lambda>_ _. False) s"
  by (simp add: emit_event_def sound_def flushable_def)

lemma plain_with_pipeline_state [simp]:
  "plain_workspace (stamped t q (with_pipeline_state st c e r)) = plain_workspace r"
  by (simp add: plain_workspace_def workspace_value_def)

lemma sound_set_status:
  assumes "sound pid rid N s"
  shows "sx_wp (set_pipeline_status rid st c e) (\<lambda>_ t. sound pid rid N t) (\<lambda>_ _. False) s"
proof -
  obtain row where "run_get rid (fw_db s) = Some row" using assms by (auto simp: sound_def)
  then show ?thesis using assms by (simp add: wp_set_status) (simp add: sound_def flushable_def)
qed

lemma sound_enter:
  assumes "sound pid rid N s" "cx_audit_run_id cx = rid"
  shows "sx_wp (enter_service_stage env cx sg)
           (\<lambda>_ t. sound pid rid N t \<and> run_status rid t = Some ''running'') (\<lambda>_ _. False) s"
proof -
  have "sx_wp (enter_service_stage env cx sg) (\<lambda>_ t. sound pid rid N t) (\<lambda>_ _. False) s"
    unfolding enter_service_stage_def sx_wp_do assms(2)
    by (rule sx_wp_mono [OF sound_set_status [OF assms(1)]]) (simp_all add: sound_emit)
  from sx_wp_conj [OF this wp_enter [OF assms(2)]] sound_present [OF assms(1)] show ?thesis
    by (auto elim: sx_wp_mono)
qed

lemma sound_refresh:
  assumes "sound pid rid N s" "cx_audit_run_id cx = rid"
  shows "sx_wp (refresh_cancel env cx lo) (\<lambda>lo' t. t = s \<and> (\<exists>b. lo' = lo\<lparr>lo_seen := b\<rparr>)) (\<lambda>_ _. False) s"
  using assms by (auto simp: refresh_cancel_def wp_get sound_def)

lemma sound_outcome:
  assumes "sound pid rid N s" "sg_name sg \<in> N" "cx_pipeline_run_id cx = pid"
  shows "sx_wp (stage_failed env cx sg e) (\<lambda>_ t. sound pid rid (N - {sg_name sg}) t) (\<lambda>_ _. False) s"
    and "sr_stage r = sg_name sg \<Longrightarrow>
         sx_wp (stage_succeeded env cx r) (\<lambda>_ t. sound pid rid (N - {sg_name sg}) t) (\<lambda>_ _. False) s"
    and "sx_wp (skip_disabled env cx sg) (\<lambda>_ t. sound pid rid (N - {sg_name sg}) t) (\<lambda>_ _. False) s"
  unfolding stage_failed_def stage_succeeded_def record_success_def skip_disabled_def sx_wp_do
  by (auto intro!: sx_wp_mono [OF sound_record [OF assms(1) _ assms(3)]] sound_emit simp: assms(2))

text \<open>Stages with different names of which none has been recorded, the clean-up at the end.\<close>

definition ends_in_cleanup :: "service_stage list \<Rightarrow> bool" where
  "ends_in_cleanup sgs =
     (distinct (map sg_name sgs) \<and> sgs \<noteq> [] \<and> last sgs = cleanup_stage \<and>
      (\<forall>sg \<in> set (butlast sgs). sg_policy sg \<noteq> ALWAYS_RUN))"

definition pass_post :: "string \<Rightarrow> string \<Rightarrow> stage_loop \<Rightarrow> flow_state \<Rightarrow> bool" where
  "pass_post pid rid lo t =
     (sound pid rid {} t \<and>
      (lo_failed lo \<or> lo_cancelled lo \<longrightarrow> has_completed lo ''runtime-cleanup'' \<or> sound pid rid {''runtime-cleanup''} t))"

lemma pass_returns:
  assumes cx: "cx_audit_run_id cx = rid" "cx_pipeline_run_id cx = pid"
    and en: "\<And>sg. \<exists>b. stage_enabled cx sg = Inr b"
    and "ends_in_cleanup sgs" "sound pid rid (sg_name ` set sgs) s" "\<not> lo_failed lo" "\<not> lo_cancelled lo"
  shows "sx_wp (stage_pass env cx sgs lo) (pass_post pid rid) (\<lambda>_ _. False) s"
  using assms(4-7)
proof (induction sgs arbitrary: lo s)
  case Nil
  then show ?case by (simp add: ends_in_cleanup_def)
next
  case (Cons sg sgs)
  let ?N = "sg_name ` set (sg # sgs)" and ?M = "sg_name ` set sgs"
  have M: "?N - {sg_name sg} = ?M" using Cons.prems(1) by (auto simp: ends_in_cleanup_def)
  have last: "sgs = [] \<Longrightarrow> sg = cleanup_stage" and more: "sgs \<noteq> [] \<Longrightarrow> ends_in_cleanup sgs \<and> sg_policy sg \<noteq> ALWAYS_RUN"
    using Cons.prems(1) by (auto simp: ends_in_cleanup_def)
  have cleanup: "''runtime-cleanup'' \<in> ?N"
  proof -
    have "cleanup_stage \<in> set (sg # sgs)" using Cons.prems(1) by (metis ends_in_cleanup_def last_in_set)
    then show ?thesis by (metis cleanup_stage_simps(1) imageI)
  qed
  have on: "sx_wp (stage_pass env cx sgs lo1) (pass_post pid rid) (\<lambda>_ _. False) t"
    if "sound pid rid ?M t" "\<not> lo_failed lo1" "\<not> lo_cancelled lo1" for lo1 t
  proof (cases "sgs = []")
    case True
    then show ?thesis using that sound_mono by (auto simp: pass_post_def)
  next
    case False
    then show ?thesis using Cons.IH more that by blast
  qed
  have after: "sx_wp (sx_do m (stage_pass env cx sgs lo1)) (pass_post pid rid) (\<lambda>_ _. False) t"
    if "sx_wp m (\<lambda>_ t. sound pid rid (?N - {sg_name sg}) t) (\<lambda>_ _. False) t" "\<not> lo_failed lo1" "\<not> lo_cancelled lo1" for m lo1 t
    unfolding sx_wp_do by (rule sx_wp_mono [OF that(1)]) (use on that M in auto)
  show ?case
    unfolding stage_pass.simps sx_wp_bind [of "refresh_cancel _ _ _"]
  proof (rule sx_wp_mono [OF sound_refresh [OF Cons.prems(2) cx(1)]])
    fix lo' t assume lt: "t = s \<and> (\<exists>b. lo' = lo\<lparr>lo_seen := b\<rparr>)"
    then have t: "t = s" by simp
    obtain enabled where e: "stage_enabled cx sg = Inr enabled" using en by blast
    from lt have fl: "\<not> lo_failed lo'" "\<not> lo_cancelled lo'" using Cons.prems(3,4) by auto
    let ?next = "\<lambda>outcome. case outcome of
              Inl e \<Rightarrow>
                sx_do (stage_failed env cx sg e)
                  (if sg_policy sg = FAIL_FAST then sx_ret (after_failure sg e lo')
                   else stage_pass env cx sgs (after_failure sg e lo'))
            | Inr r \<Rightarrow> sx_do (stage_succeeded env cx r) (stage_pass env cx sgs (after_success r lo'))"
    have skip: "sx_wp (sx_do (skip_disabled env cx sg) (stage_pass env cx sgs lo')) (pass_post pid rid) (\<lambda>_ _. False) s"
      by (rule after [OF sound_outcome(3) [OF Cons.prems(2) _ cx(2)] fl]) simp
    have succ: "sx_wp (?next (Inr r)) (pass_post pid rid) (\<lambda>_ _. False) u"
      if "sound pid rid ?N u" "sr_stage r = sg_name sg" for r u
      unfolding sum.case by (rule after [OF sound_outcome(2) [OF that(1) _ cx(2) that(2)]]) (simp_all add: fl)
    have fail: "sx_wp (?next (Inl e)) (pass_post pid rid) (\<lambda>_ _. False) u"
      if u: "sound pid rid ?N u" and sg: "sg_name sg \<noteq> ''runtime-cleanup''" for e u
    proof -
      have pol: "sg_policy sg \<noteq> ALWAYS_RUN" using more last sg by force
      have failed: "sx_wp (stage_failed env cx sg e) (\<lambda>_ t. sound pid rid (?N - {sg_name sg}) t) (\<lambda>_ _. False) u"
        by (rule sound_outcome(1) [OF u _ cx(2)]) simp
      show ?thesis
      proof (cases "sg_policy sg = FAIL_FAST")
        case True
        have "sx_wp (sx_do (stage_failed env cx sg e) (sx_ret (after_failure sg e lo'))) (pass_post pid rid) (\<lambda>_ _. False) u"
          unfolding sx_wp_do sx_wp_ret
          by (rule sx_wp_mono [OF failed]) (use sound_mono cleanup sg in \<open>auto simp: pass_post_def\<close>)
        then show ?thesis using True by simp
      next
        case False
        then have "sg_policy sg = CONTINUE_WITH_WARNING" using pol by (cases "sg_policy sg") auto
        then have "\<not> lo_failed (after_failure sg e lo')" "\<not> lo_cancelled (after_failure sg e lo')"
          using fl by (simp_all add: after_failure_def)
        then show ?thesis using False after [OF failed] by simp
      qed
    qed
    have run: "sx_wp (sx_do (enter_service_stage env cx sg) (sx_bind (sx_attempt (run_service_stage env cx sg)) ?next))
        (pass_post pid rid) (\<lambda>_ _. False) s"
      unfolding sx_wp_do sx_wp_bind sx_wp_attempt
    proof (rule sx_wp_mono [OF sound_enter [OF Cons.prems(2) cx(1)]])
      fix u assume u: "sound pid rid ?N u \<and> run_status rid u = Some ''running''"
      have k: "sx_wp (run_service_stage env cx sg) (\<lambda>_. sound pid rid ?N) (\<lambda>_. sound pid rid ?N) u"
        using keeps_service_stage [OF cx(1)] u by (simp add: keeps_wp)
      show "sx_wp (run_service_stage env cx sg) (\<lambda>r. sx_wp (?next (Inr r)) (pass_post pid rid) (\<lambda>_ _. False))
              (\<lambda>e. sx_wp (?next (Inl e)) (pass_post pid rid) (\<lambda>_ _. False)) u"
      proof (cases "sg_name sg = ''runtime-cleanup''")
        case True
        have "sx_wp (run_service_stage env cx sg) (\<lambda>r v. sound pid rid ?N v \<and> sr_stage r = sg_name sg) (\<lambda>_ _. False) u"
          by (rule sx_wp_mono [OF sx_wp_conj [OF k wp_cleanup_stage [OF cx(1) True]]])
             (use u True sound_present in auto)
        then show ?thesis by (rule sx_wp_mono) (use succ in blast)+
      next
        case False
        have "sx_wp (run_service_stage env cx sg) (\<lambda>r v. sound pid rid ?N v \<and> sr_stage r = sg_name sg)
                (\<lambda>_ v. sound pid rid ?N v) u"
          by (rule sx_wp_mono [OF sx_wp_conj [OF k wp_service_stage_name]]) auto
        then show ?thesis by (rule sx_wp_mono) (use succ fail False in blast)+
      qed
    qed simp
    have "sx_wp (sx_ret (lo'\<lparr>lo_cancelled := True\<rparr>)) (pass_post pid rid) (\<lambda>_ _. False) s"
      using Cons.prems(2) cleanup sound_mono by (auto simp: pass_post_def)
    then show "sx_wp (if lo_seen lo' \<and> sg_policy sg \<noteq> ALWAYS_RUN then sx_ret (lo'\<lparr>lo_cancelled := True\<rparr>)
         else sx_bind (sx_lift (stage_enabled cx sg)) (\<lambda>enabled.
           if \<not> enabled then sx_do (skip_disabled env cx sg) (stage_pass env cx sgs lo')
           else sx_do (enter_service_stage env cx sg) (sx_bind (sx_attempt (run_service_stage env cx sg)) ?next)))
       (pass_post pid rid) (\<lambda>_ _. False) t"
      unfolding t e sx_wp_bind [of "sx_lift _"]
      by (cases "lo_seen lo' \<and> sg_policy sg \<noteq> ALWAYS_RUN"; cases enabled)
         (simp_all only: if_True if_False not_True_eq_False not_False_eq_True sx_wp_bind [of "sx_lift _"] sx_wp_lift sum.case simp_thms skip run)
  qed simp
qed


lemma always_returns:
  assumes cx: "cx_audit_run_id cx = rid" "cx_pipeline_run_id cx = pid"
    and s: "sound pid rid {} s" "has_completed lo ''runtime-cleanup'' \<or> sound pid rid {''runtime-cleanup''} s"
  shows "sx_wp (always_pass env cx default_stages lo) (\<lambda>_ t. run_get rid (fw_db t) \<noteq> None \<and> flushable t) (\<lambda>_ _. False) s"
proof -
  have skip: "always_pass env cx default_stages lo = always_pass env cx [cleanup_stage] lo"
    by (subst default_stages_split(1)) (rule always_pass_skip, erule default_stages_split(2))
  show ?thesis
  proof (cases "has_completed lo ''runtime-cleanup''")
    case True
    then show ?thesis using sound_present [OF s(1)] by (simp add: skip)
  next
    case False
    then have a: "flushable s" "run_get rid (fw_db s) \<noteq> None" "''runtime-cleanup'' \<notin> recorded (cx_pipeline_run_id cx) (fw_db s)"
      using s cx by (auto simp: sound_def)
    have "always_pass env cx [] = sx_ret" by (rule ext) simp
    then have "always_pass env cx default_stages lo = sx_bind (run_anyway env cx cleanup_stage lo) sx_ret"
      using False by (simp add: skip)
    then show ?thesis
      using wp_cleanup_anyway [OF cx(1) a(2,1,3), of env lo] by (auto elim: sx_wp_mono)
  qed
qed

lemma default_ends_in_cleanup: "ends_in_cleanup default_stages"
  unfolding ends_in_cleanup_def using default_stages_split
  by (simp add: cleanup_stage_def service_stage_of_def) (simp add: default_stages_def service_stage_of_def)

lemma execute_returns:
  assumes cx: "cx_audit_run_id cx = rid" "cx_pipeline_run_id cx = pid"
    and en: "\<And>sg. \<exists>b. stage_enabled cx sg = Inr b" and s: "sound pid rid UNIV s"
  shows "sx_wp (execute_stages env (stage_registry default_stages) cx) (\<lambda>_ _. True) (\<lambda>_ _. False) s"
proof -
  have fin: "sx_wp (finish_pipeline env cx lo) (\<lambda>_ _. True) (\<lambda>_ _. False) u"
    if c: "run_get rid (fw_db u) \<noteq> None" "flushable u" for lo u
  proof -
    obtain row where "run_get rid (fw_db u) = Some row" using c(1) by blast
    then have "run_get rid (pipeline_finish p st sm e t (fw_db u)) = Some row" for p st sm e t
      by (simp add: pipeline_finish_def run_get_def)
    moreover have "stages_unique (pipeline_finish p st sm e t (fw_db u)) = stages_unique (fw_db u)" for p st sm e t
      by (simp add: pipeline_finish_def stages_unique_def)
    ultimately show ?thesis
      using c(2) by (simp add: finish_pipeline_def flush_def set_pipeline_status_def wp_get flushable_def cx)
  qed
  have rest: "sx_wp (sx_bind (if lo_failed lo \<or> lo_cancelled lo then always_pass env cx default_stages lo else sx_ret lo)
        (finish_pipeline env cx)) (\<lambda>_ _. True) (\<lambda>_ _. False) u"
    if post: "pass_post pid rid lo u" for lo u
  proof (cases "lo_failed lo \<or> lo_cancelled lo")
    case True
    then have "sx_wp (always_pass env cx default_stages lo)
        (\<lambda>lo'. sx_wp (finish_pipeline env cx lo') (\<lambda>_ _. True) (\<lambda>_ _. False)) (\<lambda>_ _. False) u"
      by (intro sx_wp_mono [OF always_returns [OF cx]]) (use post fin in \<open>auto simp: pass_post_def\<close>)
    then show ?thesis using True by (simp only: sx_wp_bind if_True)
  next
    case False
    have "run_get rid (fw_db u) \<noteq> None" "flushable u" using post sound_present by (auto simp: pass_post_def)
    then show ?thesis using fin False by simp
  qed
  let ?lo = "\<lparr>lo_completed = [], lo_failed = False, lo_cancelled = False, lo_error = None, lo_seen = cx_cancelled cx\<rparr>"
  have "sx_wp (stage_pass env cx default_stages ?lo)
      (\<lambda>lo. sx_wp (sx_bind (if lo_failed lo \<or> lo_cancelled lo then always_pass env cx default_stages lo else sx_ret lo)
                 (finish_pipeline env cx)) (\<lambda>_ _. True) (\<lambda>_ _. False))
      (\<lambda>_ _. False) u" if "sound pid rid UNIV u" for u
    by (rule sx_wp_mono [OF pass_returns [OF cx en default_ends_in_cleanup sound_mono [OF that]]]) (use rest in auto)
  then show ?thesis
    unfolding execute_stages_def default_registry default_order sx_wp_do sx_wp_bind [of "sx_lift _"]
    by (intro sx_wp_mono [OF sound_emit [OF s]]) (simp_all add: sx_wp_lift del: sx_wp_bind, simp)
qed

text \<open>\<open>disabled_stages\<close> is falsy, or a list or text without lists and dictionaries.\<close>

definition readable_stages :: "common_run \<Rightarrow> bool" where
  "readable_stages r = (\<not> isl (py_set (por (dget (car_config r) ''disabled_stages'') (PList []))))"

lemma readable_enabled:
  assumes "readable_stages r"
  shows "\<exists>b. stage_enabled (context_of r pid) sg = Inr b"
proof -
  obtain xs where "py_set (por (dget (car_config r) ''disabled_stages'') (PList [])) = Inr xs"
    using assms by (cases "py_set (por (dget (car_config r) ''disabled_stages'') (PList []))") (auto simp: readable_stages_def)
  then show ?thesis by (simp add: stage_enabled_def context_of_def)
qed

lemma service_returns:
  assumes row: "run_get (car_audit_run_id r) (fw_db s) = Some r" and fl: "flushable s"
    and ok: "readable_stages r" "plain_workspace r"
    and new: "\<And>t. new_pipeline (fst (pipeline_create (car_audit_run_id r) t (fw_db s))) (fw_db s)"
  shows "sx_wp (pipeline_service env r) (\<lambda>_ _. True) (\<lambda>_ _. False) s"
proof -
  let ?rid = "car_audit_run_id r"
  have plain: "plain_workspace (stamped t q (r\<lparr>car_status := a, car_pipeline_status := b\<rparr>))" for t q a b
    using ok(2) by (simp add: plain_workspace_def workspace_value_def)
  have opened: "sx_wp (open_pipeline env r) (\<lambda>pid u. sound pid ?rid UNIV u) (\<lambda>_ _. False) s"
    using row fl new plain
    by (simp add: open_pipeline_def put_run_def run_get_write sound_def flushable_def new_pipeline_recorded)
       (simp add: write_flow_run_def pipeline_create_def new_id_def stages_unique_def recorded_def)
  have "sx_wp (sx_bind (execute_stages env (stage_registry default_stages) (context_of r pid)) (close_pipeline r))
     (\<lambda>_ _. True) (\<lambda>_ _. False) u" if "sound pid ?rid UNIV u" for pid u
    unfolding sx_wp_bind
    by (rule sx_wp_mono [OF execute_returns [OF _ _ readable_enabled [OF ok(1)] that]])
       (simp_all add: context_of_def close_pipeline_def put_run_def)
  then show ?thesis
    unfolding pipeline_service_def sx_wp_bind [of "open_pipeline _ _"] by (intro sx_wp_mono [OF opened]) auto
qed

end
