(* ===== verification/Flow_World.thy ===== *)
theory Flow_World
  imports Flow_Returns
begin

text \<open>
  Several workers and the users of the web API on one database, one committed transaction after
  the other. The claim of a worker is two steps: its query, which takes no lock, and its commit.
  The pipeline of a run is one transaction, so it is one step; the environment of each step may
  be another one.
\<close>

record flow_world =
  wo_state :: flow_state
  wo_selected :: "string \<Rightarrow> common_run option"
  wo_claimed :: "string \<Rightarrow> string option"

text \<open>A transaction that begins at \<open>now\<close> and changes the database by \<open>f\<close>.\<close>

definition transact :: "time \<Rightarrow> (flow_db \<Rightarrow> flow_db) \<Rightarrow> flow_world \<Rightarrow> flow_world" where
  "transact now f W =
     W\<lparr>wo_state := (wo_state W)\<lparr>fw_db := f ((fw_db (wo_state W))\<lparr>fd_now := now\<rparr>)\<rparr>\<rparr>"

text \<open>The \<open>UPDATE\<close> of a claim writes the columns \<open>claim_next_queued\<close> has assigned.\<close>

definition commit_claim :: "common_run \<Rightarrow> flow_db \<Rightarrow> flow_db" where
  "commit_claim row =
     write_flow_run (car_audit_run_id row) (\<lambda>q. q\<lparr>car_status := car_status row,
       car_pipeline_status := car_pipeline_status row, car_worker_id := car_worker_id row,
       car_config := car_config row\<rparr>)"

text \<open>The identifier of a run is unique: the database refuses a second row with it.\<close>

inductive flow_act :: "flow_world \<Rightarrow> flow_world \<Rightarrow> bool" where
  create: "run_get (fst (new_id ''audit'' (fw_db (wo_state W)))) (fw_db (wo_state W)) = None \<Longrightarrow>
     flow_act W (transact now (\<lambda>d. snd (run_create q d)) W)"
| start: "flow_act W (transact now (run_queue rid) W)"
| cancel: "flow_act W (transact now (run_cancel rid reason) W)"
| select: "wo_selected W w = None \<Longrightarrow> wo_claimed W w = None \<Longrightarrow>
     next_claimable (fw_db (wo_state W)) = Some r \<Longrightarrow>
     flow_act W (W\<lparr>wo_selected := (wo_selected W)(w := Some r)\<rparr>)"
| commit: "wo_selected W w = Some r \<Longrightarrow> claimed_row w r = Inr row \<Longrightarrow>
     flow_act W ((transact now (commit_claim row) W)\<lparr>
       wo_selected := (wo_selected W)(w := None),
       wo_claimed := (wo_claimed W)(w := Some (car_audit_run_id row))\<rparr>)"
| work: "wo_claimed W w = Some rid \<Longrightarrow>
     flow_act W (W\<lparr>wo_state := snd (run_session env rid (wo_state W)),
                   wo_claimed := (wo_claimed W)(w := None)\<rparr>)"

inductive_cases flow_act_cases: "flow_act W V"

section \<open>The states that are stored\<close>

definition RUN_PIPELINE_STATUSES :: "string list" where
  "RUN_PIPELINE_STATUSES = [''pending'', ''queued'', ''running'', ''succeeded'', ''failed'', ''cancelled'']"

definition typed_run :: "common_run \<Rightarrow> bool" where
  "typed_run r =
     (car_status r \<in> set AUDIT_RUN_STATUSES \<and> car_pipeline_status r \<in> set RUN_PIPELINE_STATUSES)"

definition typed_db :: "flow_db \<Rightarrow> bool" where
  "typed_db d =
     (distinct (map car_audit_run_id (fd_runs d)) \<and> stages_unique d \<and> list_all typed_run (fd_runs d))"

text \<open>What a worker has selected or claimed is a row of the table.\<close>

definition typed_world :: "flow_world \<Rightarrow> bool" where
  "typed_world W =
     (typed_db (fw_db (wo_state W)) \<and>
      (\<forall>w r. wo_selected W w = Some r \<longrightarrow> run_get (car_audit_run_id r) (fw_db (wo_state W)) \<noteq> None) \<and>
      (\<forall>w rid. wo_claimed W w = Some rid \<longrightarrow> run_get rid (fw_db (wo_state W)) \<noteq> None))"

lemma typed_runI:
  "car_status r \<in> set AUDIT_RUN_STATUSES \<Longrightarrow> car_pipeline_status r \<in> set RUN_PIPELINE_STATUSES \<Longrightarrow> typed_run r"
  by (simp add: typed_run_def)

lemma typed_db_get:
  "distinct (map car_audit_run_id (fd_runs d)) \<Longrightarrow>
   list_all typed_run (fd_runs d) \<longleftrightarrow> (\<forall>k r. run_get k d = Some r \<longrightarrow> typed_run r)"
proof
  assume "list_all typed_run (fd_runs d)"
  then show "\<forall>k r. run_get k d = Some r \<longrightarrow> typed_run r"
    using row_find_Some by (fastforce simp: list_all_iff run_get_def)
next
  assume "distinct (map car_audit_run_id (fd_runs d))" "\<forall>k r. run_get k d = Some r \<longrightarrow> typed_run r"
  then show "list_all typed_run (fd_runs d)" using run_get_distinct by (force simp: list_all_iff)
qed

lemma settled_typed: "settled_row r \<Longrightarrow> typed_run r"
  by (auto simp: settled_row_def typed_run_def AUDIT_RUN_STATUSES_def RUN_PIPELINE_STATUSES_def)

lemma ids_write:
  "(\<And>r. car_audit_run_id (f r) = car_audit_run_id r) \<Longrightarrow>
   map car_audit_run_id (fd_runs (write_flow_run rid f d)) = map car_audit_run_id (fd_runs d)"
  by (simp add: write_flow_run_def row_upd_def)

lemma typed_write:
  assumes "typed_db d" "\<And>r. car_audit_run_id (f r) = car_audit_run_id r" "\<And>r. typed_run r \<Longrightarrow> typed_run (f r)"
  shows "typed_db (write_flow_run rid f d)"
proof -
  have "typed_run (stamped (fd_now d) r (f r)) = typed_run (f r)" for r by (simp add: typed_run_def)
  then have "list_all typed_run (fd_runs (write_flow_run rid f d))"
    using assms(1,3) by (auto simp: typed_db_def write_flow_run_def row_upd_def list_all_iff)
  then show ?thesis using assms(1) by (simp add: typed_db_def ids_write [OF assms(2)])
qed

lemma present_write:
  "(\<And>r. car_audit_run_id (f r) = car_audit_run_id r) \<Longrightarrow>
   run_get k (write_flow_run rid f d) = None \<longleftrightarrow> run_get k d = None"
  by (simp add: run_get_write)

lemma typed_db_now [simp]: "typed_db (d\<lparr>fd_now := now\<rparr>) = typed_db d"
  by (simp add: typed_db_def)

lemma run_get_now [simp]: "run_get k (d\<lparr>fd_now := now\<rparr>) = run_get k d"
  by (simp add: run_get_def)

lemma typed_create:
  assumes "typed_db d" "run_get (fst (new_id ''audit'' d)) d = None"
  shows "typed_db (snd (run_create q d))" and "run_get k d \<noteq> None \<Longrightarrow> run_get k (snd (run_create q d)) \<noteq> None"
  using assms
  by (auto simp: Let_def typed_db_def run_create_def new_id_def run_get_def row_find_None row_find_append stages_unique_def
        typed_run_def AUDIT_RUN_STATUSES_def RUN_PIPELINE_STATUSES_def split: option.splits)

text \<open>A write to one run keeps the world typed.\<close>

lemma typed_world_write:
  assumes "typed_world W" "\<And>r. car_audit_run_id (f r) = car_audit_run_id r" "\<And>r. typed_run r \<Longrightarrow> typed_run (f r)"
  shows "typed_world (transact now (write_flow_run rid f) W)"
  using assms(1) by (auto simp: typed_world_def transact_def present_write [OF assms(2)] intro!: typed_write assms(2,3))

lemma typed_world_work:
  assumes W: "typed_world W" and c: "wo_claimed W w = Some rid"
  shows "typed_world (W\<lparr>wo_state := snd (run_session env rid (wo_state W)), wo_claimed := (wo_claimed W)(w := None)\<rparr>)"
proof -
  let ?s = "wo_state W"
  have present: "run_get rid (fw_db ?s) \<noteq> None" and u: "stages_unique (fw_db ?s)"
    and d: "distinct (map car_audit_run_id (fd_runs (fw_db ?s)))"
    using W c by (auto simp: typed_world_def typed_db_def)
  obtain t where t: "snd (run_session env rid ?s) = t" "stages_unique (fw_db t)" "others_same rid ?s t" "settled rid t"
    using wp_run_session [OF present u, of env] by (auto simp: sx_wp_def split: prod.splits sum.splits)
  have d': "distinct (map car_audit_run_id (fd_runs (fw_db t)))" using d t(3) by (simp add: others_same_def)
  have "typed_run r" if "run_get k (fw_db t) = Some r" for k r
  proof (cases "k = rid")
    case True
    then show ?thesis using t(4) that by (auto simp: settled_def intro: settled_typed)
  next
    case False
    then have "run_get k (fw_db ?s) = Some r" using t(3) that by (simp add: others_same_def)
    then show ?thesis using W typed_db_get [OF d] by (auto simp: typed_world_def typed_db_def)
  qed
  then have "typed_db (fw_db t)" using t(2) d' by (simp add: typed_db_def typed_db_get)
  moreover have "run_get k (fw_db t) \<noteq> None" if "run_get k (fw_db ?s) \<noteq> None" for k
    using t(3,4) that by (cases "k = rid") (auto simp: others_same_def settled_def)
  ultimately show ?thesis using W t(1) by (auto simp: typed_world_def)
qed

lemma typed_world_act: "flow_act W V \<Longrightarrow> typed_world W \<Longrightarrow> typed_world V"
proof (induction rule: flow_act.induct)
  case (create W now q)
  have "typed_db ((fw_db (wo_state W))\<lparr>fd_now := now\<rparr>)" using create.prems by (simp add: typed_world_def)
  moreover have "run_get (fst (new_id ''audit'' ((fw_db (wo_state W))\<lparr>fd_now := now\<rparr>))) ((fw_db (wo_state W))\<lparr>fd_now := now\<rparr>) = None"
    using create.hyps by (simp add: new_id_def)
  ultimately show ?case
    using create.prems typed_create by (fastforce simp: typed_world_def transact_def)
next
  case (start W now rid)
  then show ?case
    unfolding run_queue_def
    by (rule typed_world_write) (simp_all add: typed_run_def AUDIT_RUN_STATUSES_def RUN_PIPELINE_STATUSES_def)
next
  case (cancel W now rid reason)
  then show ?case
    unfolding run_cancel_def by (rule typed_world_write) (simp_all add: typed_run_def)
next
  case (select W w r)
  then have "run_get (car_audit_run_id r) (fw_db (wo_state W)) = Some r"
    by (intro run_get_distinct) (auto simp: typed_world_def typed_db_def dest: next_claimable_Some(1))
  then show ?case using select.prems by (auto simp: typed_world_def)
next
  case (commit W w r row now)
  have k: "car_audit_run_id row = car_audit_run_id r" "car_status row = ''running''" "car_pipeline_status row = ''running''"
    using claimed_row_keeps [OF commit.hyps(2)] by auto
  have "typed_world (transact now (commit_claim row) W)"
    unfolding commit_claim_def using commit.prems
    by (rule typed_world_write) (simp_all add: k typed_run_def AUDIT_RUN_STATUSES_def RUN_PIPELINE_STATUSES_def)
  moreover have "run_get (car_audit_run_id row) (fw_db (wo_state (transact now (commit_claim row) W))) \<noteq> None"
    using commit.prems commit.hyps(1) k(1)
    by (simp add: transact_def commit_claim_def present_write typed_world_def)
  moreover have "wo_selected (transact now (commit_claim row) W) = wo_selected W"
    "wo_claimed (transact now (commit_claim row) W) = wo_claimed W" by (simp_all add: transact_def)
  ultimately show ?case by (auto simp: typed_world_def)
next
  case (work W w rid env)
  then show ?case by (intro typed_world_work)
qed

lemma typed_world_reachable: "flow_act\<^sup>*\<^sup>* W V \<Longrightarrow> typed_world W \<Longrightarrow> typed_world V"
  by (induction rule: rtranclp_induct) (auto intro: typed_world_act)

section \<open>One run, two workers\<close>

lemma claim_row_exists:
  assumes "claimable r"
  obtains row where "claimed_row w r = Inr row" "car_audit_run_id row = car_audit_run_id r"
proof -
  obtain control where "spread (dget (car_config r) ''runtime_control'') = Inr control"
    using assms by (cases "spread (dget (car_config r) ''runtime_control'')") (auto simp: claimable_def)
  then obtain row where "claimed_row w r = Inr row" by (simp add: claimed_row_def)
  then show ?thesis using claimed_row_keeps that by blast
qed

lemma four_acts: "flow_act a b \<Longrightarrow> flow_act b c \<Longrightarrow> flow_act c d \<Longrightarrow> flow_act d e \<Longrightarrow> flow_act\<^sup>*\<^sup>* a e"
  by (rule converse_rtranclp_into_rtranclp [of flow_act a b], assumption,
      rule converse_rtranclp_into_rtranclp [of flow_act b c], assumption,
      rule converse_rtranclp_into_rtranclp [of flow_act c d], assumption, rule r_into_rtranclp)

lemma both_claim:
  assumes "next_claimable (fw_db (wo_state W)) = Some r" "claimable r" "v \<noteq> w"
    and "\<And>x. x \<in> {v, w} \<Longrightarrow> wo_selected W x = None \<and> wo_claimed W x = None"
  shows "\<exists>V. flow_act\<^sup>*\<^sup>* W V \<and> wo_claimed V v = Some (car_audit_run_id r) \<and> wo_claimed V w = Some (car_audit_run_id r)"
proof -
  obtain rv where rv: "claimed_row v r = Inr rv" "car_audit_run_id rv = car_audit_run_id r"
    using claim_row_exists [OF assms(2)] by blast
  obtain rw where rw: "claimed_row w r = Inr rw" "car_audit_run_id rw = car_audit_run_id r"
    using claim_row_exists [OF assms(2)] by blast
  let ?W1 = "W\<lparr>wo_selected := (wo_selected W)(v := Some r)\<rparr>"
  let ?W2 = "?W1\<lparr>wo_selected := (wo_selected ?W1)(w := Some r)\<rparr>"
  let ?W3 = "(transact 0 (commit_claim rv) ?W2)\<lparr>wo_selected := (wo_selected ?W2)(v := None),
               wo_claimed := (wo_claimed ?W2)(v := Some (car_audit_run_id rv))\<rparr>"
  let ?W4 = "(transact 0 (commit_claim rw) ?W3)\<lparr>wo_selected := (wo_selected ?W3)(w := None),
               wo_claimed := (wo_claimed ?W3)(w := Some (car_audit_run_id rw))\<rparr>"
  have s: "flow_act W ?W1" by (rule flow_act.select) (use assms in auto)
  have s': "flow_act ?W1 ?W2" by (rule flow_act.select) (use assms in auto)
  have c: "flow_act ?W2 ?W3" by (rule flow_act.commit [OF _ rv(1)]) (use assms in auto)
  have c': "flow_act ?W3 ?W4" by (rule flow_act.commit [OF _ rw(1)]) (use assms in auto)
  have reach: "flow_act\<^sup>*\<^sup>* W ?W4"
    by (rule four_acts [OF s s' c c'])
  show ?thesis
    by (rule exI [of _ ?W4], intro conjI, rule reach) (use assms(3) rv(2) rw(2) in simp_all)
qed

end
