(* ===== verification/Workflow_Contracts.thy ===== *)
theory Workflow_Contracts
  imports Flow_World
begin

text \<open>
  The properties of the workflow worker: the queue gets empty, the clean-up is asked for, what a
  cancellation and a crash come to, the states that are stored, and what two workers can do to
  one run.
\<close>

section \<open>A state to try the properties on\<close>

definition demo_run :: "string \<Rightarrow> common_run" where
  "demo_run rid =
     \<lparr>created_at = 1, updated_at = 2, car_audit_run_id = rid, car_project_id = ''project-1'',
      car_snapshot_id = Some ''snapshot-1'', car_status = ''queued'', car_pipeline_status = ''queued'',
      car_current_stage = None, car_worker_id = None, car_cancel_requested = False,
      car_workspace_path = Some ''/w'', car_allow_external_network = False,
      car_retain_runtime_on_failure = True, car_config = [], car_input_payload = [], car_metadata = []\<rparr>"

definition demo_db :: "common_run list \<Rightarrow> flow_db" where
  "demo_db rs =
     \<lparr>fd_now = 5, fd_hex = nat_str, fd_hex_next = 0, fd_stage_seq = 1, fd_event_seq = 1, fd_projects = [],
      fd_snapshots = [], fd_runs = rs, fd_pipelines = [], fd_stages = [], fd_events = [], fd_agent_runs = [],
      fd_agent_events = [], fd_transcripts = [], fd_findings = [], fd_evidence = [], fd_reports = [],
      fd_containers = [], fd_heartbeats = [], fd_keys = [], fd_profiles = [], fd_cards = [], fd_edges = []\<rparr>"

definition demo_state :: "common_run list \<Rightarrow> flow_state" where
  "demo_state rs = \<lparr>fw_db = demo_db rs, fw_calls = [], fw_broken = False\<rparr>"

definition demo_env :: service_env where
  "demo_env =
     \<lparr>se_reply = (\<lambda>_ _. Inr (PDict [(''ok'', PBool True)])), se_findings = (\<lambda>_. []),
      se_cancel = (\<lambda>_ b. b), se_clock = (\<lambda>cs. 10 + int (length cs))\<rparr>"

lemmas demo_defs = demo_run_def demo_db_def demo_state_def demo_env_def

lemma demo_state_simps [simp]:
  "fd_runs (fw_db (demo_state rs)) = rs" "fw_calls (demo_state rs) = []" "stages_unique (fw_db (demo_state rs))"
  "flushable (demo_state rs)" "run_get k (fw_db (demo_state rs)) = row_find car_audit_run_id k rs"
  "new_pipeline pid (fw_db (demo_state rs))"
  by (simp_all add: demo_state_def demo_db_def stages_unique_def flushable_def run_get_def new_pipeline_def)

lemma demo_env_simps [simp]: "se_cancel demo_env cs b = b"
  by (simp add: demo_env_def)

lemma demo_run_simps [simp]:
  "car_audit_run_id (demo_run rid) = rid" "car_status (demo_run rid) = ''queued''"
  "claimable (demo_run rid)"
  by (simp_all add: demo_run_def claimable_def)

section \<open>The queue\<close>

text \<open>C32. While the configuration of every queued run can be read, a worker that makes at least
  as many turns as there are queued runs returns from all of them: none is queued then, each of
  them has ended as succeeded or failed, and every other run is as it was, whatever the services
  answer or raise.\<close>

theorem queue_drains:
  assumes "distinct (map car_audit_run_id (fd_runs (fw_db s)))" "stages_unique (fw_db s)"
    and "all_claimable (fw_db s)" "card (waiting_ids (fw_db s)) \<le> n"
  shows "\<exists>t. flow_turns env w n s = (Inr (), t) \<and> waiting_ids (fw_db t) = {} \<and>
           (\<forall>k. if k \<in> waiting_ids (fw_db s) then settled k t
                else run_get k (fw_db t) = run_get k (fw_db s))"
  using turns_drain [OF assms] by (metis (no_types, lifting))

theorem queue_drains_witness:
  "\<exists>t. flow_turns demo_env ''w'' 2 (demo_state [demo_run ''a'', demo_run ''b'']) = (Inr (), t) \<and>
       settled ''a'' t \<and> settled ''b'' t"
proof -
  let ?s = "demo_state [demo_run ''a'', demo_run ''b'']"
  have w: "waiting_ids (fw_db ?s) = {''a'', ''b''}" by (auto simp: waiting_ids_def)
  have "all_claimable (fw_db ?s)" by (simp add: all_claimable_def)
  then obtain t where "flow_turns demo_env ''w'' 2 ?s = (Inr (), t)"
    "\<forall>k. if k \<in> waiting_ids (fw_db ?s) then settled k t else run_get k (fw_db t) = run_get k (fw_db ?s)"
    using queue_drains [of ?s 2 demo_env "''w''"] w by auto
  then show ?thesis using w by (metis insertCI)
qed

text \<open>Workers that are started one after the other, each for one turn.\<close>

fun serve :: "service_env \<Rightarrow> string list \<Rightarrow> flow_state \<Rightarrow> flow_state" where
  "serve env [] s = s"
| "serve env (w # ws) s = serve env ws (snd (flow_turn env w s))"

lemma unclaimable_turn:
  assumes "next_claimable (fw_db s) = Some r" "\<not> claimable r"
  shows "isl (fst (flow_turn env w s)) \<and> rolled_back s (snd (flow_turn env w s))"
proof -
  obtain e where "claimed_row w r = Inl e"
    using assms(2) by (cases "spread (dget (car_config r) ''runtime_control'')") (auto simp: claimable_def claimed_row_def)
  then have "claim_queued w (fw_db (session_start env s)) = Inl e" using assms(1) by (simp add: claim_queued_def)
  then have "sx_wp (claim_session env w) (\<lambda>_ _. False) (\<lambda>_ t. rolled_back s t) s"
    unfolding claim_session_def
    by (intro wp_in_session [where Q = "\<lambda>_ _. False"]) (simp_all add: sx_wp_def)
  then have "sx_wp (flow_turn env w) (\<lambda>_ _. False) (\<lambda>_ t. rolled_back s t) s"
    unfolding flow_turn_def sx_wp_bind by (rule sx_wp_mono) simp_all
  then show ?thesis by (auto simp: sx_wp_def split: prod.splits sum.splits)
qed

text \<open>A run whose \<open>runtime_control\<close> is neither falsy nor a mapping ends every worker that
  meets it at the head of the queue: no worker, however often one is started, changes any run.\<close>

lemma unclaimable_run_blocks:
  assumes "next_claimable (fw_db s) = Some r" "\<not> claimable r"
  shows "fd_runs (fw_db (serve env ws s)) = fd_runs (fw_db s) \<and> isl (fst (flow_turn env w (serve env ws s)))"
  using assms(1)
proof (induction ws arbitrary: s)
  case Nil
  then show ?case using unclaimable_turn [OF Nil assms(2)] by simp
next
  case (Cons v ws)
  have "rolled_back s (snd (flow_turn env v s))" using unclaimable_turn [OF Cons.prems assms(2)] by blast
  then show ?case using Cons by (simp add: rolled_backD)
qed

definition poison_run :: common_run where
  "poison_run = (demo_run ''p'')\<lparr>updated_at := 1, car_config := [(''runtime_control'', PStr ''x'')]\<rparr>"

lemma unclaimable_run_blocks_witness:
  "fd_runs (fw_db (serve demo_env [''w1'', ''w2''] (demo_state [demo_run ''a'', poison_run]))) = [demo_run ''a'', poison_run]"
proof -
  let ?s = "demo_state [demo_run ''a'', poison_run]"
  have "next_claimable (fw_db ?s) = Some poison_run" by (simp add: next_claimable_def poison_run_def demo_run_def)
  moreover have "\<not> claimable poison_run" by (simp add: claimable_def poison_run_def spread_def)
  ultimately show ?thesis using unclaimable_run_blocks [of ?s poison_run demo_env "[''w1'', ''w2'']" "[]"] by simp
qed

section \<open>Clean-up and cancellation\<close>

text \<open>C33. A pipeline that returns has asked the sandbox runner for the clean-up of its run, also
  when the run is to be retained on failure, unless it succeeded with that stage disabled.\<close>

theorem cleanup_always_requested:
  assumes "run_get (car_audit_run_id r) (fw_db s) \<noteq> None" "pipeline_service env r s = (Inr result, t)"
  shows "Cleanup_Call (car_audit_run_id r) \<in> set (drop (length (fw_calls s)) (fw_calls t)) \<or>
         dget result ''status'' = PStr ''succeeded'' \<and> stage_enabled (context_of r []) cleanup_stage = Inr False"
  using wp_pipeline_service [OF assms(1), of env] assms(2) by (auto simp: sx_wp_def service_outcome_def)

definition cancelled_demo :: common_run where
  "cancelled_demo = (demo_run ''a'')\<lparr>car_status := ''running'', car_cancel_requested := True\<rparr>"

lemma cancelled_demo_simps [simp]: "car_audit_run_id cancelled_demo = ''a''" "car_cancel_requested cancelled_demo"
  by (simp_all add: cancelled_demo_def)

lemma cancelled_demo_runs:
  "\<exists>result t. pipeline_service demo_env cancelled_demo (demo_state [cancelled_demo]) = (Inr result, t) \<and>
     dget result ''status'' = PStr ''cancelled''"
proof -
  have "sx_wp (pipeline_service demo_env cancelled_demo) (\<lambda>result t. dget result ''status'' = PStr ''cancelled'')
          (\<lambda>_ _. False) (demo_state [cancelled_demo])"
    by (rule sx_wp_mono [OF wp_service_cancelled])
       auto
  then show ?thesis by (auto simp: sx_wp_def split: prod.splits sum.splits)
qed

theorem cleanup_always_requested_witness:
  "\<exists>result t. pipeline_service demo_env cancelled_demo (demo_state [cancelled_demo]) = (Inr result, t) \<and>
     Cleanup_Call ''a'' \<in> set (fw_calls t)"
proof -
  obtain result t where r: "pipeline_service demo_env cancelled_demo (demo_state [cancelled_demo]) = (Inr result, t)"
      "dget result ''status'' = PStr ''cancelled''"
    using cancelled_demo_runs by blast
  have "run_get (car_audit_run_id cancelled_demo) (fw_db (demo_state [cancelled_demo])) \<noteq> None" by simp
  from cleanup_always_requested [OF this r(1)] r show ?thesis
    by auto
qed

text \<open>C37. A run whose cancellation its session has loaded enters no stage but the clean-up: the
  pipeline reports its own start and never the start of a stage, the only stage it leaves a row of is
  the clean-up, and the clean-up is the only request it sends. The run is then stored as succeeded,
  with the pipeline status cancelled.\<close>

theorem cancelled_run_stored_succeeded:
  assumes "run_get (car_audit_run_id r) (fw_db s) = Some r" "car_cancel_requested r" "flushable s"
    and "\<And>cs. se_cancel env cs True" "\<And>t. new_pipeline (fst (pipeline_create (car_audit_run_id r) t (fw_db s))) (fw_db s)"
  shows "\<exists>result t row. pipeline_service env r s = (Inr result, t) \<and>
           fw_calls t = fw_calls s @ [Cleanup_Call (car_audit_run_id r)] \<and>
           (\<exists>ev. fd_events (fw_db t) = fd_events (fw_db s) @ [ev] \<and> cev_event_type ev = ''audit_run.started'') \<and>
           (\<exists>st. fd_stages (fw_db t) = fd_stages (fw_db s) @ [st] \<and> cst_stage st = ''runtime-cleanup'') \<and>
           run_get (car_audit_run_id r) (fw_db t) = Some row \<and>
           car_status row = ''succeeded'' \<and> car_pipeline_status row = ''cancelled''"
  using wp_service_cancelled [OF assms(1,3,2,4,5)]
  by (auto simp: sx_wp_def one_cleanup_def split: prod.splits sum.splits)

theorem cancelled_run_stored_succeeded_witness:
  "\<exists>result t row. pipeline_service demo_env cancelled_demo (demo_state [cancelled_demo]) = (Inr result, t) \<and>
     fw_calls t = [Cleanup_Call ''a''] \<and> run_get ''a'' (fw_db t) = Some row \<and>
     car_status row = ''succeeded'' \<and> car_pipeline_status row = ''cancelled''"
  using cancelled_run_stored_succeeded [of cancelled_demo "demo_state [cancelled_demo]" demo_env]
  by auto


text \<open>When a query does not overwrite what the session has loaded, a run that was not
  cancelled when its pipeline started is not reported as cancelled, whatever is requested later.\<close>

lemma late_cancellation_unseen:
  assumes "loads_once env" "run_get (car_audit_run_id r) (fw_db s) = Some r" "\<not> car_cancel_requested r"
    and "pipeline_service env r s = (Inr result, t)"
  shows "dget result ''status'' \<noteq> PStr ''cancelled''"
proof -
  have "uncancelled (car_audit_run_id r) s" using assms(2,3) by (simp add: uncancelled_def)
  from service_uncancelled [OF assms(1) this] assms(4) show ?thesis by (simp add: sx_wp_def)
qed

lemma demo_runs_on:
  "\<exists>result t. pipeline_service demo_env (demo_run ''a'') (demo_state [demo_run ''a'']) = (Inr result, t)"
proof -
  have ok: "readable_stages (demo_run ''a'')" "plain_workspace (demo_run ''a'')"
    by (simp_all add: readable_stages_def plain_workspace_def workspace_value_def demo_run_def por_def py_set_def)
  have "sx_wp (pipeline_service demo_env (demo_run ''a'')) (\<lambda>_ _. True) (\<lambda>_ _. False) (demo_state [demo_run ''a''])"
    by (rule service_returns [OF _ _ ok]) simp_all
  then show ?thesis by (auto simp: sx_wp_def split: prod.splits sum.splits)
qed

lemma late_cancellation_unseen_witness:
  "\<exists>result t. pipeline_service demo_env (demo_run ''a'') (demo_state [demo_run ''a'']) = (Inr result, t) \<and>
     dget result ''status'' \<noteq> PStr ''cancelled''"
proof -
  obtain result t where r: "pipeline_service demo_env (demo_run ''a'') (demo_state [demo_run ''a'']) = (Inr result, t)"
    using demo_runs_on by blast
  have "loads_once demo_env" "\<not> car_cancel_requested (demo_run ''a'')"
    by (simp_all add: loads_once_def demo_run_def)
  with r show ?thesis
    using late_cancellation_unseen [of demo_env "demo_run ''a''" "demo_state [demo_run ''a'']" result t] by simp
qed

section \<open>What leaves the executor\<close>

text \<open>C34. Whatever the other services answer or raise, a pipeline returns: the list of disabled
  stages and the workspace of the run are all that can make it raise.\<close>

theorem pipeline_returns:
  assumes "run_get (car_audit_run_id r) (fw_db s) = Some r" "flushable s" "readable_stages r" "plain_workspace r"
    and "\<And>t. new_pipeline (fst (pipeline_create (car_audit_run_id r) t (fw_db s))) (fw_db s)"
  shows "\<exists>result t. pipeline_service env r s = (Inr result, t)"
  using service_returns [OF assms, of env] by (auto simp: sx_wp_def split: prod.splits sum.splits)

theorem pipeline_returns_witness:
  "\<exists>result t. pipeline_service (demo_env\<lparr>se_reply := \<lambda>_ _. Inl (RuntimeError ''down'')\<rparr>) (demo_run ''a'')
     (demo_state [demo_run ''a'']) = (Inr result, t)"
  by (rule pipeline_returns)
     (simp_all, simp_all add: readable_stages_def plain_workspace_def workspace_value_def demo_run_def por_def py_set_def)

text \<open>C35. When a pipeline raises, its run is marked as failed and nothing else of what it wrote is
  stored; the requests it has sent are not taken back.\<close>

theorem crash_only_marks:
  assumes "run_get rid (fw_db s) = Some row" "stages_unique (fw_db s)"
    and "pipeline_service env row (session_start env s) = (Inl e, u)"
  shows "\<exists>t now hex. run_session env rid s = (Inr (), t) \<and> fw_calls t = fw_calls u \<and>
           fw_db t = set_run_state rid ''failed'' None (Some ''workflow worker crashed'')
                       ((fw_db s)\<lparr>fd_now := now, fd_hex_next := hex\<rparr>)"
proof -
  let ?body = "sx_bind (get_flow_run rid) (\<lambda>r. case r of
          None \<Rightarrow> sx_ret () | Some row \<Rightarrow> sx_do (pipeline_service env row) (sx_ret ()))"
  let ?s1 = "(session_start env s)\<lparr>fw_db := (fw_db (session_start env s))\<lparr>fd_hex_next := fd_hex_next (fw_db u)\<rparr>,
               fw_calls := fw_calls u\<rparr>"
  have "?body (session_start env s) = (Inl e, u)"
    using assms by (simp add: sx_bind_def sx_do_def get_flow_run_def flush_def sx_simps)
  then have raised: "in_session env ?body s = (Inl e, ?s1)"
    unfolding in_session_def session_start_def [symmetric] Let_def by simp
  let ?t = "(session_start env ?s1)\<lparr>fw_db := set_run_state rid ''failed'' None (Some ''workflow worker crashed'')
      (fw_db (session_start env ?s1))\<rparr>"
  have u1: "stages_unique (fw_db ?s1)" using assms(2) by (simp add: stages_unique_def)
  have "run_get rid (fw_db ?s1) = Some row" using assms(1) by (simp add: run_get_def session_start_def)
  then have "set_pipeline_status rid ''failed'' None (Some ''workflow worker crashed'') (session_start env ?s1) = (Inr (), ?t)"
    using u1 by (simp add: set_pipeline_status_def get_flow_run_def flush_def on_db_def sx_simps)
  moreover have "flushable ?t" using u1 by (simp add: session_start_def stages_unique_def)
  ultimately have "in_session env (set_pipeline_status rid ''failed'' None (Some ''workflow worker crashed'')) ?s1 = (Inr (), ?t)"
    unfolding in_session_def session_start_def [symmetric] Let_def by simp
  then have "run_session env rid s = (Inr (), ?t)" using raised by (simp add: run_session_def sx_try_def)
  moreover have "fw_calls ?t = fw_calls u" by simp
  moreover have "fw_db (session_start env ?s1) = (fw_db s)\<lparr>fd_now := se_clock env (fw_calls u), fd_hex_next := fd_hex_next (fw_db u)\<rparr>"
    by (simp add: session_start_def)
  ultimately show ?thesis by (intro exI [of _ ?t]) auto
qed

definition unreadable_run :: common_run where
  "unreadable_run = (demo_run ''a'')\<lparr>car_config := [(''disabled_stages'', PInt 5)]\<rparr>"

lemma unreadable_raises:
  assumes once: "loads_once env" and un: "uncancelled (car_audit_run_id r) s" and bad: "\<not> readable_stages r"
  shows "sx_wp (pipeline_service env r) (\<lambda>_ _. False) (\<lambda>_ _. True) s"
proof -
  let ?rid = "car_audit_run_id r"
  have raises: "sx_wp (stage_pass env (context_of r pid) default_stages lo) (\<lambda>_ _. False) (\<lambda>_ _. True) u"
    if u: "uncancelled ?rid u" for pid lo u
  proof -
    obtain sg sgs where d: "default_stages = sg # sgs" by (simp add: default_stages_def)
    obtain e where e: "stage_enabled (context_of r pid) sg = Inl e"
      using bad by (cases "py_set (por (dget (car_config r) ''disabled_stages'') (PList []))")
        (auto simp: readable_stages_def stage_enabled_def context_of_def)
    obtain row where row: "run_get ?rid (fw_db u) = Some row" "\<not> car_cancel_requested row"
      using u by (auto simp: uncancelled_def)
    have "sx_wp (refresh_cancel env (context_of r pid) lo) (\<lambda>lo' _. \<not> lo_seen lo') (\<lambda>_ _. True) u"
      using row once by (simp add: refresh_cancel_def wp_get context_of_def loads_once_def)
    then show ?thesis
      unfolding d stage_pass.simps sx_wp_bind [of "refresh_cancel _ _ _"]
      by (rule sx_wp_mono) (simp_all add: e sx_wp_lift)
  qed
  have opened: "sx_wp (open_pipeline env r) (\<lambda>_ t. uncancelled ?rid t) (\<lambda>_ _. True) s"
    using un by (auto simp: open_pipeline_def put_run_def run_get_write uncancelled_def)
  have exec: "sx_wp (execute_stages env (stage_registry default_stages) (context_of r pid)) (\<lambda>_ _. False) (\<lambda>_ _. True) u"
    if "uncancelled ?rid u" for pid u
    unfolding execute_stages_def default_registry default_order sx_wp_do sx_wp_bind [of "sx_lift _"]
    by (rule sx_wp_mono [OF wp_uncancelled [OF steps_emit that]]) (simp_all add: sx_wp_lift, rule sx_wp_mono [OF raises], simp_all)
  show ?thesis
    unfolding pipeline_service_def sx_wp_bind
    by (rule sx_wp_mono [OF opened], rule sx_wp_mono [OF exec], simp_all)
qed

theorem crash_only_marks_witness:
  "\<exists>t now hex. run_session demo_env ''a'' (demo_state [unreadable_run]) = (Inr (), t) \<and>
     fw_db t = set_run_state ''a'' ''failed'' None (Some ''workflow worker crashed'')
                 ((demo_db [unreadable_run])\<lparr>fd_now := now, fd_hex_next := hex\<rparr>)"
proof -
  let ?s = "demo_state [unreadable_run]"
  have r: "run_get ''a'' (fw_db ?s) = Some unreadable_run" "car_audit_run_id unreadable_run = ''a''"
    "\<not> car_cancel_requested unreadable_run" by (simp_all add: unreadable_run_def demo_run_def)
  have "\<not> readable_stages unreadable_run"
    by (simp add: readable_stages_def unreadable_run_def por_def py_set_def)
  moreover have "uncancelled (car_audit_run_id unreadable_run) (session_start demo_env ?s)"
    using r by (simp add: uncancelled_def)
  moreover have "loads_once demo_env" by (simp add: loads_once_def)
  ultimately have "sx_wp (pipeline_service demo_env unreadable_run) (\<lambda>_ _. False) (\<lambda>_ _. True) (session_start demo_env ?s)"
    using unreadable_raises by blast
  then obtain e u where "pipeline_service demo_env unreadable_run (session_start demo_env ?s) = (Inl e, u)"
    by (auto simp: sx_wp_def split: prod.splits sum.splits)
  from crash_only_marks [OF r(1) demo_state_simps(3) this] show ?thesis
    unfolding demo_state_def flow_state.simps by blast
qed

section \<open>Several workers\<close>

definition demo_world :: "common_run list \<Rightarrow> flow_world" where
  "demo_world rs = \<lparr>wo_state = demo_state rs, wo_selected = (\<lambda>_. None), wo_claimed = (\<lambda>_. None)\<rparr>"

text \<open>C36. However the users and any number of workers act, every stored run has a status of
  \<open>AuditRunStatus\<close> and a pipeline status, and no two runs share an identifier; the
  \<open>completed\<close> that \<open>set_pipeline_state\<close> writes is gone before its transaction commits.\<close>

theorem stored_statuses_typed:
  assumes "typed_world W" "flow_act\<^sup>*\<^sup>* W V"
  shows "distinct (map car_audit_run_id (fd_runs (fw_db (wo_state V)))) \<and>
         (\<forall>r \<in> set (fd_runs (fw_db (wo_state V))).
            car_status r \<in> set AUDIT_RUN_STATUSES \<and> car_pipeline_status r \<in> set RUN_PIPELINE_STATUSES)"
  using typed_world_reachable [OF assms(2,1)]
  by (simp add: typed_world_def typed_db_def list_all_iff typed_run_def)

lemma demo_world_typed: "typed_world (demo_world [demo_run ''a''])"
  by (simp add: typed_world_def demo_world_def typed_db_def typed_run_def AUDIT_RUN_STATUSES_def RUN_PIPELINE_STATUSES_def)
     (simp add: demo_run_def)

theorem stored_statuses_typed_witness:
  "\<exists>V. flow_act\<^sup>*\<^sup>* (demo_world [demo_run ''a'']) V \<and> V \<noteq> demo_world [demo_run ''a''] \<and>
      (\<forall>r \<in> set (fd_runs (fw_db (wo_state V))). car_status r \<in> set AUDIT_RUN_STATUSES)"
proof -
  let ?V = "transact 9 (run_cancel ''a'' ''stop'') (demo_world [demo_run ''a''])"
  have act: "flow_act (demo_world [demo_run ''a'']) ?V" by (rule flow_act.cancel)
  have "fd_runs (fw_db (wo_state ?V)) \<noteq> fd_runs (fw_db (wo_state (demo_world [demo_run ''a''])))"
    by (simp add: transact_def demo_world_def run_cancel_def write_flow_run_def row_upd_def stamped_def)
       (simp add: demo_run_def)
  then have "?V \<noteq> demo_world [demo_run ''a'']" by metis
  with act stored_statuses_typed [OF demo_world_typed r_into_rtranclp [where r = flow_act, OF act]]
  show ?thesis by (intro exI [of _ ?V]) (simp add: r_into_rtranclp)
qed

text \<open>The query of a claim takes no lock: two idle workers can both come to execute the run at
  the head of the queue.\<close>

lemma two_workers_one_run:
  assumes "next_claimable (fw_db (wo_state W)) = Some r" "claimable r" "v \<noteq> w"
    and "\<And>x. x \<in> {v, w} \<Longrightarrow> wo_selected W x = None \<and> wo_claimed W x = None"
  shows "\<exists>V. flow_act\<^sup>*\<^sup>* W V \<and> wo_claimed V v = Some (car_audit_run_id r) \<and> wo_claimed V w = Some (car_audit_run_id r)"
  by (rule both_claim [OF assms])

lemma two_workers_one_run_witness:
  "\<exists>V. flow_act\<^sup>*\<^sup>* (demo_world [demo_run ''a'']) V \<and> wo_claimed V ''w1'' = Some ''a'' \<and> wo_claimed V ''w2'' = Some ''a''"
  using two_workers_one_run [of "demo_world [demo_run ''a'']" "demo_run ''a''" "''w1''" "''w2''"]
  by (simp add: demo_world_def next_claimable_def)

end
