(* ===== verification/Web_Views.thy ===== *)
theory Web_Views
  imports Flow_Pipeline
begin

text \<open>
  The rows of the shared model as \<open>web-api\<close> answers them
  (\<open>services/web-api/app/application/serializers.py\<close>): one dictionary view per table, with the
  keys in the order of the code. \<open>row.x or {}\<close> is \<open>row.x\<close>, for an empty dictionary too.
\<close>

definition project_to_bff :: "common_project \<Rightarrow> dict" where
  "project_to_bff r =
     [(''project_id'', PStr (cpr_project_id r)),
      (''name'', PStr (cpr_name r)),
      (''source_type'', PStr (cpr_source_type r)),
      (''source_uri'', opt_str (cpr_source_uri r)),
      (''default_branch'', opt_str (cpr_default_branch r)),
      (''status'', PStr (cpr_status r)),
      (''metadata'', PDict (cpr_metadata r)),
      (''created_at'', pytime (created_at r)),
      (''updated_at'', pytime (updated_at r))]"

definition snapshot_to_bff :: "common_snapshot \<Rightarrow> dict" where
  "snapshot_to_bff r =
     [(''snapshot_id'', PStr (csn_snapshot_id r)),
      (''project_id'', PStr (csn_project_id r)),
      (''source_type'', PStr (csn_source_type r)),
      (''source_ref'', opt_str (csn_source_ref r)),
      (''workspace_path'', PStr (csn_workspace_path r)),
      (''artifact_path'', opt_str (csn_artifact_path r)),
      (''content_hash'', opt_str (csn_content_hash r)),
      (''status'', PStr (csn_status r)),
      (''metadata'', PDict (csn_metadata r)),
      (''created_at'', pytime (created_at r)),
      (''updated_at'', pytime (updated_at r))]"

definition audit_run_to_bff :: "common_run \<Rightarrow> dict" where
  "audit_run_to_bff r =
     [(''audit_run_id'', PStr (car_audit_run_id r)),
      (''project_id'', PStr (car_project_id r)),
      (''snapshot_id'', opt_str (car_snapshot_id r)),
      (''status'', PStr (car_status r)),
      (''pipeline_status'', PStr (car_pipeline_status r)),
      (''current_stage'', opt_str (car_current_stage r)),
      (''worker_id'', opt_str (car_worker_id r)),
      (''cancel_requested'', PBool (car_cancel_requested r)),
      (''workspace_path'', opt_str (car_workspace_path r)),
      (''allow_external_network'', PBool (car_allow_external_network r)),
      (''retain_runtime_on_failure'', PBool (car_retain_runtime_on_failure r)),
      (''config'', PDict (car_config r)),
      (''input_payload'', PDict (car_input_payload r)),
      (''metadata'', PDict (car_metadata r)),
      (''created_at'', pytime (created_at r)),
      (''updated_at'', pytime (updated_at r))]"

definition agent_run_to_bff :: "common_agent_run \<Rightarrow> dict" where
  "agent_run_to_bff r =
     [(''agent_run_id'', PStr (cag_agent_run_id r)),
      (''audit_run_id'', PStr (cag_audit_run_id r)),
      (''project_id'', PStr (cag_project_id r)),
      (''agent_name'', PStr (cag_agent_name r)),
      (''template_name'', PStr (cag_template_name r)),
      (''protocol_kind'', PStr (cag_protocol_kind r)),
      (''status'', PStr (cag_status r)),
      (''runtime_id'', opt_str (cag_runtime_id r)),
      (''acp_session_id'', opt_str (cag_acp_session_id r)),
      (''decision_status'', opt_str (cag_decision_status r)),
      (''decision_reason'', opt_str (cag_decision_reason r)),
      (''input_summary'', PDict (cag_input_payload r)),
      (''output_summary'', PDict (cag_output_payload r)),
      (''artifact_path'', opt_str (cag_artifact_path r)),
      (''error'', opt_str (cag_error r)),
      (''created_at'', pytime (created_at r)),
      (''updated_at'', pytime (updated_at r))]"

definition agent_event_to_bff :: "common_agent_event \<Rightarrow> dict" where
  "agent_event_to_bff r =
     [(''id'', PInt (cae_id r)),
      (''agent_run_id'', PStr (cae_agent_run_id r)),
      (''event_type'', PStr (cae_event_type r)),
      (''payload'', PDict (cae_payload r)),
      (''created_at'', pytime (created_at r))]"

definition finding_to_bff :: "common_finding \<Rightarrow> dict" where
  "finding_to_bff r =
     [(''finding_id'', PStr (cfi_finding_id r)),
      (''audit_run_id'', PStr (cfi_audit_run_id r)),
      (''project_id'', PStr (cfi_project_id r)),
      (''title'', PStr (cfi_title r)),
      (''severity'', PStr (cfi_severity r)),
      (''status'', PStr (cfi_status r)),
      (''file_path'', opt_str (cfi_file_path r)),
      (''line_start'', opt_int (cfi_line_start r)),
      (''line_end'', opt_int (cfi_line_end r)),
      (''rule_id'', opt_str (cfi_rule_id r)),
      (''description'', opt_str (cfi_description r)),
      (''source'', PStr (cfi_source r)),
      (''metadata'', PDict (cfi_metadata r)),
      (''raw'', PDict (cfi_raw_result r)),
      (''created_at'', pytime (created_at r)),
      (''updated_at'', pytime (updated_at r))]"

definition evidence_to_bff :: "common_evidence \<Rightarrow> dict" where
  "evidence_to_bff r =
     [(''evidence_id'', PStr (cvd_evidence_id r)),
      (''finding_id'', opt_str (cvd_finding_id r)),
      (''audit_run_id'', PStr (cvd_audit_run_id r)),
      (''kind'', PStr (cvd_kind r)),
      (''summary'', opt_str (cvd_summary r)),
      (''artifact_ids'', PList (map PStr (cvd_artifact_ids r))),
      (''payload'', PDict (cvd_payload r)),
      (''created_at'', pytime (created_at r)),
      (''updated_at'', pytime (updated_at r))]"

definition report_to_bff :: "common_report \<Rightarrow> dict" where
  "report_to_bff r =
     [(''report_id'', PStr (crp_report_id r)),
      (''audit_run_id'', PStr (crp_audit_run_id r)),
      (''title'', PStr (crp_title r)),
      (''format'', PStr (crp_format r)),
      (''artifact_path'', opt_str (crp_artifact_id r)),
      (''artifact_id'', opt_str (crp_artifact_id r)),
      (''summary'', PDict (crp_summary r)),
      (''created_at'', pytime (created_at r)),
      (''updated_at'', pytime (updated_at r))]"

definition runtime_container_to_bff :: "common_container \<Rightarrow> dict" where
  "runtime_container_to_bff r =
     [(''Id'', PStr (cct_container_id r)),
      (''Names'', PList (if cct_container_name r \<in> {None, Some []} then [] else [opt_str (cct_container_name r)])),
      (''Image'', PStr (cct_image r)),
      (''State'', PStr (cct_status r)),
      (''Status'', PStr (cct_status r)),
      (''Labels'', PDict (cct_labels r)),
      (''audit_run_id'', PStr (cct_audit_run_id r)),
      (''project_id'', opt_str (cct_project_id r)),
      (''agent_run_id'', opt_str (cct_agent_run_id r)),
      (''role'', PStr (cct_role r)),
      (''exit_code'', opt_int (cct_exit_code r)),
      (''log_artifact_id'', opt_str (cct_log_artifact_id r)),
      (''created_at'', pytime (created_at r)),
      (''updated_at'', pytime (updated_at r))]"

definition whiteboard_card_to_bff :: "common_card \<Rightarrow> dict" where
  "whiteboard_card_to_bff r =
     [(''card_id'', PStr (cwc_card_id r)),
      (''audit_run_id'', PStr (cwc_audit_run_id r)),
      (''title'', PStr (cwc_title r)),
      (''card_type'', PStr (cwc_card_type r)),
      (''status'', PStr (cwc_status r)),
      (''content'', opt_str (cwc_content r)),
      (''metadata'', PDict (cwc_metadata r)),
      (''created_at'', pytime (created_at r)),
      (''updated_at'', pytime (updated_at r))]"

definition whiteboard_edge_to_bff :: "common_edge \<Rightarrow> dict" where
  "whiteboard_edge_to_bff r =
     [(''edge_id'', PStr (cwe_edge_id r)),
      (''audit_run_id'', PStr (cwe_audit_run_id r)),
      (''source_card_id'', PStr (cwe_source_card_id r)),
      (''target_card_id'', PStr (cwe_target_card_id r)),
      (''edge_type'', PStr (cwe_edge_type r)),
      (''metadata'', PDict (cwe_metadata r)),
      (''created_at'', pytime (created_at r))]"

end
