(* ===== verification/Web_Profiles.thy ===== *)
theory Web_Profiles
  imports Web_Views
begin

text \<open>
  The model profiles of the agents
  (\<open>services/web-api/app/application/agent_model_profiles.py\<close>): reading them with and without
  their keys, saving them, and merging them into the configuration of a run. Floating point
  numbers are opaque: \<open>0.1\<close> and \<open>float\<close> are the parameters of \<open>number_ops\<close>.
\<close>

record number_ops =
  no_tenth :: pyval
  no_float :: "pyval \<Rightarrow> pyval res"

definition KIMI_MODEL_PROVIDER_TYPES :: "string list" where
  "KIMI_MODEL_PROVIDER_TYPES = [''openai'', ''openai_responses'', ''anthropic'']"

definition KIMI_MODEL_PROVIDER_TYPE_OPTIONS :: "dict list" where
  "KIMI_MODEL_PROVIDER_TYPE_OPTIONS =
     [[(''value'', PStr ''openai''), (''label'', PStr ''OpenAI Chat Completions''),
       (''description'', PStr ''OpenAI-compatible /chat/completions wire type.'')],
      [(''value'', PStr ''openai_responses''), (''label'', PStr ''OpenAI Responses''),
       (''description'', PStr ''OpenAI Responses API wire type.'')],
      [(''value'', PStr ''anthropic''), (''label'', PStr ''Anthropic''),
       (''description'', PStr ''Anthropic Messages wire type.'')]]"

definition AGENT_MODEL_ROLES :: "string list" where
  "AGENT_MODEL_ROLES =
     [''orchestrator'', ''code-auditor'', ''source-sink-finder'', ''validator'', ''judger'', ''poc-writer'',
      ''poc-verifier'']"

definition DEFAULT_PROFILE :: "number_ops \<Rightarrow> dict" where
  "DEFAULT_PROFILE ops =
     [(''runtime_id'', PStr ''kimi-code''), (''provider_type'', PStr ''openai''), (''base_url'', PStr []),
      (''model_name'', PStr ''default''), (''api_key'', PStr []), (''temperature'', no_tenth ops),
      (''max_output_tokens'', PInt 8192), (''context_window'', PInt 128000)]"

section \<open>Reading\<close>

definition or_default :: "string \<Rightarrow> string \<Rightarrow> pyval" where
  "or_default s d = PStr (if s = [] then d else s)"

definition or_empty :: "string option \<Rightarrow> pyval" where
  "or_empty s = PStr (case s of None \<Rightarrow> [] | Some s \<Rightarrow> s)"

definition row_or_default :: "number_ops \<Rightarrow> string \<Rightarrow> model_profile option \<Rightarrow> dict" where
  "row_or_default ops role row =
     (case row of
        None \<Rightarrow> (''role'', PStr role) # DEFAULT_PROFILE ops
      | Some r \<Rightarrow>
          [(''role'', PStr role),
           (''runtime_id'', or_default (cmp_runtime_id r) ''kimi-code''),
           (''provider_type'', or_default (cmp_provider_type r) ''openai''),
           (''base_url'', or_empty (cmp_base_url r)),
           (''model_name'', or_default (cmp_model_name r) ''default''),
           (''api_key'', or_empty (cmp_api_key r)),
           (''temperature'', case cmp_temperature r of None \<Rightarrow> no_tenth ops | Some v \<Rightarrow> v),
           (''max_output_tokens'', PInt (case cmp_max_output_tokens r of None \<Rightarrow> 8192 | Some n \<Rightarrow> n)),
           (''context_window'', PInt (case cmp_context_window r of None \<Rightarrow> 128000 | Some n \<Rightarrow> n))])"

definition role_items :: "number_ops \<Rightarrow> flow_db \<Rightarrow> (string \<times> dict) list" where
  "role_items ops d =
     map (\<lambda>role. (role, row_or_default ops role (row_find cmp_role role (fd_profiles d)))) AGENT_MODEL_ROLES"

definition secret_preview :: "string \<Rightarrow> string" where
  "secret_preview value =
     (if value = [] then [] else if length value \<le> 8 then ''****''
      else take 4 value @ ''...'' @ drop (length value - 4) value)"

definition public_item :: "dict \<Rightarrow> dict" where
  "public_item item =
     (let api_key = py_str (por (dget item ''api_key'') (PStr []))
      in dset (dset (filter (\<lambda>(k, _). k \<noteq> ''api_key'') item) ''api_key_set'' (PBool (api_key \<noteq> [])))
           ''api_key_preview'' (PStr (secret_preview api_key)))"

text \<open>\<open>get_config\<close> with and without \<open>public_agent_model_config\<close>.\<close>

definition agent_model_config :: "number_ops \<Rightarrow> bool \<Rightarrow> flow_db \<Rightarrow> dict" where
  "agent_model_config ops include_secrets d =
     [(''provider_type_options'', PList (map PDict KIMI_MODEL_PROVIDER_TYPE_OPTIONS)),
      (''roles'', PDict (map (\<lambda>(role, item). (role, PDict (if include_secrets then item else public_item item)))
                    (role_items ops d)))]"

section \<open>Saving\<close>

definition normalize_provider_type :: "pyval \<Rightarrow> string res" where
  "normalize_provider_type value =
     (let provider_type = replace_char (CHR ''-'') (CHR ''_'') (str_lower (str_strip (py_str (por value (PStr ''openai'')))))
      in if provider_type \<in> set KIMI_MODEL_PROVIDER_TYPES then Inr provider_type
         else Inl (ValueError (''unsupported agent model provider type: '' @ str_repr provider_type @
                ''; expected one of '' @ join '', '' KIMI_MODEL_PROVIDER_TYPES)))"

text \<open>\<open>except (TypeError, ValueError): return fallback\<close>; an \<open>OverflowError\<close> goes on.\<close>

fun or_fallback :: "'a res \<Rightarrow> 'a \<Rightarrow> 'a res" where
  "or_fallback (Inr v) _ = Inr v"
| "or_fallback (Inl (TypeError _)) fallback = Inr fallback"
| "or_fallback (Inl (ValueError _)) fallback = Inr fallback"
| "or_fallback (Inl e) _ = Inl e"

record profile_values =
  pf_runtime_id :: string
  pf_provider_type :: string
  pf_base_url :: string
  pf_model_name :: string
  pf_api_key :: string
  pf_temperature :: pyval
  pf_max_output_tokens :: int
  pf_context_window :: int

definition merge_profile :: "number_ops \<Rightarrow> model_profile \<Rightarrow> dict \<Rightarrow> profile_values res" where
  "merge_profile ops existing incoming =
     (let current = row_or_default ops (cmp_role existing) (Some existing);
          text = (\<lambda>k. py_str (por (dget incoming k) (dget current k)))
      in rbind (normalize_provider_type (por (dget incoming ''provider_type'') (dget current ''provider_type''))) (\<lambda>provider.
         rbind (or_fallback (no_float ops (dget_or incoming ''temperature'' (dget current ''temperature''))) (no_tenth ops)) (\<lambda>temperature.
         rbind (or_fallback (py_int (dget_or incoming ''max_output_tokens'' (dget current ''max_output_tokens''))) 8192) (\<lambda>tokens.
         rbind (or_fallback (py_int (dget_or incoming ''context_window'' (dget current ''context_window''))) 128000) (\<lambda>window.
         Inr \<lparr>pf_runtime_id = text ''runtime_id'', pf_provider_type = provider, pf_base_url = text ''base_url'',
              pf_model_name = text ''model_name'', pf_api_key = text ''api_key'', pf_temperature = temperature,
              pf_max_output_tokens = tokens, pf_context_window = window\<rparr>)))))"

definition none_if_empty :: "string \<Rightarrow> string option" where
  "none_if_empty s = (if s = [] then None else Some s)"

definition assign_profile :: "profile_values \<Rightarrow> model_profile \<Rightarrow> model_profile" where
  "assign_profile v r =
     r\<lparr>cmp_runtime_id := pf_runtime_id v, cmp_provider_type := pf_provider_type v,
       cmp_base_url := none_if_empty (pf_base_url v), cmp_model_name := pf_model_name v,
       cmp_api_key := none_if_empty (pf_api_key v), cmp_temperature := Some (pf_temperature v),
       cmp_max_output_tokens := Some (pf_max_output_tokens v), cmp_context_window := Some (pf_context_window v),
       cmp_metadata := dset (cmp_metadata r) ''schema_version'' (PInt 1)\<rparr>"

text \<open>\<open>AgentModelProfile(role=role, metadata_json={"schema_version": 1})\<close>, the other columns unset.\<close>

definition blank_profile :: "time \<Rightarrow> string \<Rightarrow> model_profile" where
  "blank_profile now role =
     \<lparr>created_at = now, updated_at = now, cmp_role = role, cmp_runtime_id = [], cmp_provider_type = [],
      cmp_base_url = None, cmp_model_name = [], cmp_api_key = None, cmp_temperature = None,
      cmp_max_output_tokens = None, cmp_context_window = None, cmp_metadata = SCHEMA\<rparr>"

definition save_role :: "number_ops \<Rightarrow> dict \<Rightarrow> string \<Rightarrow> (flow_db, unit) tx" where
  "save_role ops incoming_roles role d =
     (case dget_or incoming_roles role (PDict []) of
        PDict incoming \<Rightarrow>
          (case row_find cmp_role role (fd_profiles d) of
             None \<Rightarrow> rbind (merge_profile ops (blank_profile (fd_now d) role) incoming) (\<lambda>v.
               Inr ((), d\<lparr>fd_profiles := fd_profiles d @ [assign_profile v (blank_profile (fd_now d) role)]\<rparr>))
           | Some existing \<Rightarrow> rbind (merge_profile ops existing incoming) (\<lambda>v.
               Inr ((), d\<lparr>fd_profiles := row_upd cmp_role role
                            (\<lambda>r. stamped (fd_now d) r (assign_profile v r)) (fd_profiles d)\<rparr>)))
      | _ \<Rightarrow> Inl (AttributeError ''get''))"

definition incoming_roles_of :: "dict \<Rightarrow> dict" where
  "incoming_roles_of payload = (case dget payload ''roles'' of PDict roles \<Rightarrow> roles | _ \<Rightarrow> payload)"

definition save_agent_model_config :: "number_ops \<Rightarrow> dict \<Rightarrow> (flow_db, dict) tx" where
  "save_agent_model_config ops payload =
     tx_bind (tx_map (save_role ops (incoming_roles_of payload)) AGENT_MODEL_ROLES) (\<lambda>_.
       tx_gets (agent_model_config ops False))"

section \<open>Overrides of a run\<close>

definition model_override :: "dict \<Rightarrow> dict" where
  "model_override item =
     [(''runtime_id'', por (dget item ''runtime_id'') (PStr ''kimi-code'')),
      (''provider'', por (dget item ''provider_type'') (PStr ''openai'')),
      (''model'', PStr (str_strip (py_str (por (dget item ''model_name'') (PStr []))))),
      (''temperature'', dget item ''temperature''),
      (''max_output_tokens'', dget item ''max_output_tokens''),
      (''context_window'', dget item ''context_window'')] @
     (if truthy (dget item ''base_url'') then [(''base_url'', dget item ''base_url'')] else []) @
     (if truthy (dget item ''api_key'') then [(''api_key'', dget item ''api_key'')] else [])"

definition has_model :: "dict \<Rightarrow> bool" where
  "has_model item = (str_strip (py_str (por (dget item ''model_name'') (PStr []))) \<noteq> [])"

definition model_overrides :: "number_ops \<Rightarrow> flow_db \<Rightarrow> dict" where
  "model_overrides ops d =
     map (\<lambda>(role, item). (role, PDict (model_override item))) (filter (\<lambda>(_, item). has_model item) (role_items ops d))"

definition merge_model_overrides :: "number_ops \<Rightarrow> flow_db \<Rightarrow> dict \<Rightarrow> dict" where
  "merge_model_overrides ops d config =
     dset config ''model_overrides''
       (PDict (dmerge (model_overrides ops d) (dict_or_empty (dget config ''model_overrides''))))"

section \<open>What reading shows of a key\<close>

text \<open>A profile without its key, and with what is shown of it.\<close>

type_synonym keyless_profile =
  "(string \<times> string \<times> string \<times> string option \<times> string) \<times> (pyval option \<times> int option \<times> int option) \<times> string"

definition keyless :: "model_profile \<Rightarrow> keyless_profile" where
  "keyless r =
     ((cmp_role r, cmp_runtime_id r, cmp_provider_type r, cmp_base_url r, cmp_model_name r),
      (cmp_temperature r, cmp_max_output_tokens r, cmp_context_window r),
      secret_preview (case cmp_api_key r of None \<Rightarrow> [] | Some k \<Rightarrow> k))"

lemma secret_preview_Nil: "secret_preview k = [] \<longleftrightarrow> k = []"
  by (auto simp: secret_preview_def)

lemma keyless_role: "keyless r = keyless q \<Longrightarrow> cmp_role r = cmp_role q"
  by (simp add: keyless_def)

lemma find_keyless:
  "map keyless rows = map keyless rows' \<Longrightarrow>
   map_option keyless (row_find cmp_role role rows) = map_option keyless (row_find cmp_role role rows')"
proof (induction rows arbitrary: rows')
  case (Cons r rows)
  obtain q qs where q: "rows' = q # qs" "keyless r = keyless q" "map keyless rows = map keyless qs"
    using Cons.prems by (cases rows') auto
  show ?case using q(2) Cons.IH [OF q(3)] keyless_role [OF q(2)] by (simp add: q(1))
qed simp

lemma public_row:
  "public_item (row_or_default ops role (Some r)) =
     (case keyless r of ((_, runtime, provider, url, model), (temperature, tokens, window), preview) \<Rightarrow>
       [(''role'', PStr role), (''runtime_id'', or_default runtime ''kimi-code''),
        (''provider_type'', or_default provider ''openai''), (''base_url'', or_empty url),
        (''model_name'', or_default model ''default''),
        (''temperature'', case temperature of None \<Rightarrow> no_tenth ops | Some v \<Rightarrow> v),
        (''max_output_tokens'', PInt (case tokens of None \<Rightarrow> 8192 | Some n \<Rightarrow> n)),
        (''context_window'', PInt (case window of None \<Rightarrow> 128000 | Some n \<Rightarrow> n)),
        (''api_key_set'', PBool (preview \<noteq> [])), (''api_key_preview'', PStr preview)])"
proof -
  let ?k = "case cmp_api_key r of None \<Rightarrow> [] | Some k \<Rightarrow> k"
  have key: "py_str (por (or_empty (cmp_api_key r)) (PStr [])) = ?k"
    by (cases "?k = []") (simp_all add: or_empty_def por_def)
  have "dget (row_or_default ops role (Some r)) ''api_key'' = or_empty (cmp_api_key r)"
    by (simp add: row_or_default_def)
  then show ?thesis
    unfolding public_item_def Let_def
    by (simp only: key) (simp add: row_or_default_def keyless_def secret_preview_Nil)
qed

lemma public_keyless:
  "keyless r = keyless q \<Longrightarrow>
   public_item (row_or_default ops role (Some r)) = public_item (row_or_default ops role (Some q))"
  by (simp only: public_row)

lemma public_config_keyless:
  assumes "map keyless (fd_profiles d) = map keyless (fd_profiles d')"
  shows "agent_model_config ops False d = agent_model_config ops False d'"
proof -
  have "public_item (row_or_default ops role (row_find cmp_role role (fd_profiles d))) =
        public_item (row_or_default ops role (row_find cmp_role role (fd_profiles d')))" for role
    using find_keyless [OF assms, of role]
    by (cases "row_find cmp_role role (fd_profiles d)"; cases "row_find cmp_role role (fd_profiles d')")
       (simp_all, rule public_keyless)
  then show ?thesis by (simp add: agent_model_config_def role_items_def)
qed

lemma public_item_no_key: "\<not> dmem (public_item item) ''api_key''"
proof -
  have "\<not> dmem (filter (\<lambda>(k, _). k \<noteq> ''api_key'') item) ''api_key''" by (induction item) auto
  then show ?thesis by (simp add: public_item_def Let_def)
qed

end
