(* ===== verification/Execution_Graph.thy ===== *)
theory Execution_Graph
  imports Web_Views
begin

text \<open>
  The execution graph of an audit run
  (\<open>services/web-api/app/application/execution_graph.py\<close>): one node for the run, for each stage
  and for each row that belongs to the run, and the edges between them. The nodes are a dictionary
  by identifier, the keys of the edges a set.
\<close>

definition PIPELINE_STAGES :: "string list" where
  "PIPELINE_STAGES =
     [''snapshot-ready'', ''structure-discovery'', ''agent-audit'', ''code-analysis'', ''value-triage'',
      ''whiteboard-swarm'', ''validation-judgement'', ''feedback-loop'', ''poc-writing'',
      ''poc-verification'', ''report'', ''runtime-cleanup'']"

section \<open>The data of the nodes\<close>

definition audit_run_data :: "common_run \<Rightarrow> dict" where
  "audit_run_data r =
     [(''audit_run_id'', PStr (car_audit_run_id r)),
      (''project_id'', PStr (car_project_id r)),
      (''snapshot_id'', opt_str (car_snapshot_id r)),
      (''pipeline_status'', PStr (car_pipeline_status r)),
      (''current_stage'', opt_str (car_current_stage r))]"

definition agent_data :: "common_agent_run \<Rightarrow> dict" where
  "agent_data r =
     [(''agent_run_id'', PStr (cag_agent_run_id r)),
      (''agent_name'', PStr (cag_agent_name r)),
      (''template_name'', PStr (cag_template_name r)),
      (''protocol_kind'', PStr (cag_protocol_kind r)),
      (''runtime_id'', opt_str (cag_runtime_id r)),
      (''error'', opt_str (cag_error r))]"

definition container_data :: "common_container \<Rightarrow> dict" where
  "container_data r =
     [(''container_id'', PStr (cct_container_id r)),
      (''container_name'', opt_str (cct_container_name r)),
      (''agent_run_id'', opt_str (cct_agent_run_id r)),
      (''image'', PStr (cct_image r)),
      (''role'', PStr (cct_role r)),
      (''status'', PStr (cct_status r)),
      (''exit_code'', opt_int (cct_exit_code r)),
      (''log_artifact_id'', opt_str (cct_log_artifact_id r))]"

definition finding_data :: "common_finding \<Rightarrow> dict" where
  "finding_data r =
     [(''finding_id'', PStr (cfi_finding_id r)),
      (''severity'', PStr (cfi_severity r)),
      (''status'', PStr (cfi_status r)),
      (''file_path'', opt_str (cfi_file_path r)),
      (''line_start'', opt_int (cfi_line_start r)),
      (''source'', PStr (cfi_source r))]"

definition evidence_data :: "common_evidence \<Rightarrow> dict" where
  "evidence_data r =
     [(''evidence_id'', PStr (cvd_evidence_id r)),
      (''finding_id'', opt_str (cvd_finding_id r)),
      (''kind'', PStr (cvd_kind r)),
      (''artifact_ids'', PList (map PStr (cvd_artifact_ids r)))]"

definition report_data :: "common_report \<Rightarrow> dict" where
  "report_data r =
     [(''report_id'', PStr (crp_report_id r)),
      (''format'', PStr (crp_format r)),
      (''artifact_id'', opt_str (crp_artifact_id r)),
      (''summary'', PDict (crp_summary r))]"

definition card_data :: "common_card \<Rightarrow> dict" where
  "card_data r =
     [(''card_id'', PStr (cwc_card_id r)),
      (''card_type'', PStr (cwc_card_type r)),
      (''status'', PStr (cwc_status r)),
      (''content'', opt_str (cwc_content r)),
      (''metadata'', PDict (cwc_metadata r))]"


text \<open>\<open>str.title\<close>: a letter is upper case exactly when no letter is before it.\<close>

definition char_upper :: "char \<Rightarrow> char" where
  "char_upper c = (if is_lower c then char_of (chr_code c - 32) else c)"

fun title_from :: "bool \<Rightarrow> string \<Rightarrow> string" where
  "title_from after [] = []"
| "title_from after (c # s) =
     (if after then char_lower c else char_upper c) # title_from (is_upper c \<or> is_lower c) s"

definition stage_label :: "string \<Rightarrow> string" where
  "stage_label stage =
     (if stage = ''poc-writing'' then ''PoC Writing''
      else if stage = ''poc-verification'' then ''PoC Verification''
      else if stage = ''validation-judgement'' then ''Validation Judgement''
      else if stage = ''whiteboard-swarm'' then ''Whiteboard Swarm''
      else title_from False (replace_char (CHR ''-'') (CHR '' '') stage))"

definition agent_stages :: "(string \<times> string) list" where
  "agent_stages =
     [(''orchestrator'', ''agent-audit''), (''code-auditor'', ''code-analysis''), (''trace'', ''whiteboard-swarm''),
      (''source-sink'', ''whiteboard-swarm''), (''validator'', ''validation-judgement''),
      (''judger'', ''validation-judgement''), (''poc-writer'', ''poc-writing''),
      (''poc-verifier'', ''poc-verification'')]"

definition stage_node_id :: "string \<Rightarrow> string" where
  "stage_node_id stage = ''pipeline-step:'' @ stage"

text \<open>Every stage of the table is a pipeline stage, so the look-up in \<open>stage_nodes\<close> finds it.\<close>

definition agent_stage_node :: "string \<Rightarrow> string option" where
  "agent_stage_node agent_name =
     map_option (\<lambda>(_, stage). stage_node_id stage)
       (find (\<lambda>(needle, _). contains (str_lower agent_name) needle) agent_stages)"

section \<open>The statuses of the stages\<close>

definition event_stage :: "common_event \<Rightarrow> string" where
  "event_stage e =
     py_str (por (por (dget (cev_payload e) ''stage'') (dget (cev_payload e) ''step'')) (PStr []))"

definition apply_event :: "common_event \<Rightarrow> dict \<Rightarrow> dict" where
  "apply_event e statuses =
     (let stage = event_stage e; t = cev_event_type e
      in if stage = [] then statuses
         else if ends_with t ''.started'' \<or> ends_with t ''_started'' then dset statuses stage (PStr ''running'')
         else if ends_with t ''.completed'' \<or> ends_with t ''_completed''
           then dset statuses stage (PStr (py_str (por (dget (cev_payload e) ''status'') (PStr ''completed''))))
         else if ends_with t ''.failed'' \<or> ends_with t ''_failed'' then dset statuses stage (PStr ''failed'')
         else if ends_with t ''_skipped'' then dset statuses stage (PStr ''skipped'')
         else statuses)"

definition stage_statuses :: "stage_run list \<Rightarrow> common_event list \<Rightarrow> dict" where
  "stage_statuses stage_rows event_rows =
     fold apply_event event_rows
       (fold (\<lambda>r statuses. dset statuses (cst_stage r) (PStr (cst_status r))) stage_rows [])"

section \<open>The summary\<close>

fun tally :: "string \<Rightarrow> (string \<times> nat) list \<Rightarrow> (string \<times> nat) list" where
  "tally k [] = [(k, 1)]"
| "tally k ((k', n) # rest) = (if k = k' then (k', n + 1) # rest else (k', n) # tally k rest)"

definition node_kind :: "dict \<Rightarrow> string" where
  "node_kind node = py_str (por (dget node ''kind'') (PStr ''unknown''))"

definition node_status :: "dict \<Rightarrow> string" where
  "node_status node = py_str (por (dget node ''status'') (PStr ''unknown''))"

definition unfinished_statuses :: "string list" where
  "unfinished_statuses = [''created'', ''pending'', ''queued'', ''running'', ''open'', ''needs_agent'', ''agent_queued'', ''starting'']"

definition completed_statuses :: "string list" where
  "completed_statuses = [''completed'', ''succeeded'', ''confirmed'', ''closed'', ''markdown'', ''json'']"

definition failed_statuses :: "string list" where
  "failed_statuses = [''failed'', ''cancelled'']"

definition count_in :: "string list \<Rightarrow> (string \<times> nat) list \<Rightarrow> nat" where
  "count_in ks counts = sum_list (map snd (filter (\<lambda>(k, _). k \<in> set ks) counts))"

definition counts_value :: "(string \<times> nat) list \<Rightarrow> pyval" where
  "counts_value counts = PDict (map (\<lambda>(k, n). (k, PInt (int n))) counts)"

definition execution_graph_summary :: "dict list \<Rightarrow> dict" where
  "execution_graph_summary nodes =
     (let by_kind = fold (\<lambda>n. tally (node_kind n)) nodes [];
          by_status = fold (\<lambda>n. tally (node_status n)) nodes []
      in [(''node_count'', PInt (int (length nodes))),
          (''by_kind'', counts_value by_kind), (''by_status'', counts_value by_status),
          (''completed'', PInt (int (count_in completed_statuses by_status))),
          (''unfinished'', PInt (int (count_in unfinished_statuses by_status))),
          (''failed'', PInt (int (count_in failed_statuses by_status)))])"

section \<open>The graph\<close>

record exec_graph =
  eg_nodes :: dict
  eg_edges :: "dict list"
  eg_keys :: "(string \<times> string \<times> string) list"

definition graph_node ::
  "string \<Rightarrow> string \<Rightarrow> string \<Rightarrow> string \<Rightarrow> string \<Rightarrow> dict \<Rightarrow> dict \<Rightarrow> dict" where
  "graph_node nid kind label status grp target data =
     [(''id'', PStr nid), (''kind'', PStr kind), (''label'', PStr label), (''status'', PStr status),
      (''group'', PStr grp), (''target'', PDict target), (''data'', PDict data)]"

definition add_node :: "dict \<Rightarrow> exec_graph \<Rightarrow> exec_graph" where
  "add_node node g = g\<lparr>eg_nodes := dset (eg_nodes g) (py_str (dget node ''id'')) (PDict node)\<rparr>"

definition add_edge :: "string \<Rightarrow> string \<Rightarrow> string \<Rightarrow> dict \<Rightarrow> exec_graph \<Rightarrow> exec_graph" where
  "add_edge source target edge_type metadata g =
     (if \<not> dmem (eg_nodes g) source \<or> \<not> dmem (eg_nodes g) target \<or> (source, target, edge_type) \<in> set (eg_keys g)
      then g
      else g\<lparr>eg_keys := (source, target, edge_type) # eg_keys g,
             eg_edges := eg_edges g @
               [[(''source'', PStr source), (''target'', PStr target), (''type'', PStr edge_type)] @
                (if metadata = [] then [] else [(''data'', PDict metadata)])]\<rparr>)"

definition run_node_id :: "common_run \<Rightarrow> string" where
  "run_node_id r = ''audit-run:'' @ car_audit_run_id r"

definition view_target :: "string \<Rightarrow> string \<Rightarrow> dict" where
  "view_target view rid = [(''view'', PStr view), (''audit_run_id'', PStr rid)]"

definition run_node :: "common_run \<Rightarrow> dict" where
  "run_node r =
     graph_node (run_node_id r) ''audit-run'' (car_audit_run_id r) (car_status r) (car_pipeline_status r)
       (view_target ''audit-runs'' (car_audit_run_id r)) (audit_run_data r)"

definition stage_node :: "string \<Rightarrow> dict \<Rightarrow> string \<Rightarrow> dict" where
  "stage_node rid statuses stage =
     graph_node (stage_node_id stage) ''pipeline-step'' (stage_label stage)
       (py_str (dget_or statuses stage (PStr ''pending''))) ''pipeline''
       (view_target ''audit-runs'' rid) [(''stage'', PStr stage)]"

definition agent_run_node :: "string \<Rightarrow> common_agent_run \<Rightarrow> dict" where
  "agent_run_node rid a =
     graph_node (''agent-run:'' @ cag_agent_run_id a) ''agent-run'' (cag_agent_name a) (cag_status a)
       (cag_template_name a)
       (view_target ''agent-runs'' rid @ [(''agent_run_id'', PStr (cag_agent_run_id a))]) (agent_data a)"

definition container_node :: "string \<Rightarrow> common_container \<Rightarrow> dict" where
  "container_node rid c =
     graph_node (''container:'' @ cct_container_id c) ''container''
       (case cct_container_name c of
          Some name \<Rightarrow> if name = [] then take 12 (cct_container_id c) else name
        | None \<Rightarrow> take 12 (cct_container_id c)) (cct_status c) (cct_role c)
       (view_target ''runtime-containers'' rid @ [(''container_id'', PStr (cct_container_id c))]) (container_data c)"

definition finding_node :: "string \<Rightarrow> common_finding \<Rightarrow> dict" where
  "finding_node rid f =
     graph_node (''finding:'' @ cfi_finding_id f) ''finding'' (cfi_title f) (cfi_status f) (cfi_severity f)
       (view_target ''findings'' rid @ [(''finding_id'', PStr (cfi_finding_id f))]) (finding_data f)"

definition evidence_node :: "string \<Rightarrow> common_evidence \<Rightarrow> dict" where
  "evidence_node rid e =
     graph_node (''evidence:'' @ cvd_evidence_id e) ''evidence''
       (case cvd_summary e of Some s \<Rightarrow> if s = [] then cvd_kind e else s | None \<Rightarrow> cvd_kind e)
       (cvd_kind e) ''evidence'' (view_target ''findings'' rid) (evidence_data e)"

definition report_node :: "string \<Rightarrow> common_report \<Rightarrow> dict" where
  "report_node rid p =
     graph_node (''report:'' @ crp_report_id p) ''report'' (crp_title p) (crp_format p) ''report''
       (view_target ''reports'' rid @ [(''report_id'', PStr (crp_report_id p))]) (report_data p)"

definition card_node_id :: "string \<Rightarrow> string" where
  "card_node_id cid = ''whiteboard-card:'' @ cid"

definition card_node :: "string \<Rightarrow> common_card \<Rightarrow> dict" where
  "card_node rid c =
     graph_node (card_node_id (cwc_card_id c)) ''whiteboard-card'' (cwc_title c) (cwc_status c) (cwc_card_type c)
       (view_target ''whiteboard'' rid @ [(''card_id'', PStr (cwc_card_id c))]) (card_data c)"

text \<open>The rows of a run, oldest first; rows with the same stamp come in the order of the table.\<close>

definition rows_of :: "('r timestamped_scheme \<Rightarrow> string) \<Rightarrow> string \<Rightarrow> 'r timestamped_scheme list \<Rightarrow> 'r timestamped_scheme list" where
  "rows_of run rid rows = sort_key created_at (filter (\<lambda>r. run r = rid) rows)"

definition add_stages :: "common_run \<Rightarrow> dict \<Rightarrow> exec_graph \<Rightarrow> exec_graph" where
  "add_stages r statuses g =
     fold (\<lambda>(a, b). add_edge (stage_node_id a) (stage_node_id b) ''next'' []) (zip PIPELINE_STAGES (tl PIPELINE_STAGES))
       (fold (\<lambda>stage g. add_edge (run_node_id r) (stage_node_id stage) ''contains'' []
                 (add_node (stage_node (car_audit_run_id r) statuses stage) g)) PIPELINE_STAGES g)"

definition add_agent :: "common_run \<Rightarrow> common_agent_run \<Rightarrow> exec_graph \<Rightarrow> exec_graph" where
  "add_agent r a g =
     add_edge (case agent_stage_node (cag_agent_name a) of None \<Rightarrow> run_node_id r | Some n \<Rightarrow> n)
       (''agent-run:'' @ cag_agent_run_id a) ''runs'' [] (add_node (agent_run_node (car_audit_run_id r) a) g)"

definition add_container :: "common_run \<Rightarrow> common_container \<Rightarrow> exec_graph \<Rightarrow> exec_graph" where
  "add_container r c g =
     add_edge (case cct_agent_run_id c of
                 Some a \<Rightarrow> if a = [] then run_node_id r else ''agent-run:'' @ a
               | None \<Rightarrow> run_node_id r)
       (''container:'' @ cct_container_id c) ''container'' [] (add_node (container_node (car_audit_run_id r) c) g)"

definition add_finding_node :: "common_run \<Rightarrow> common_finding \<Rightarrow> exec_graph \<Rightarrow> exec_graph" where
  "add_finding_node r f g =
     add_edge (stage_node_id ''code-analysis'') (''finding:'' @ cfi_finding_id f) ''produces'' []
       (add_node (finding_node (car_audit_run_id r) f) g)"

definition add_evidence_node :: "common_run \<Rightarrow> common_evidence \<Rightarrow> exec_graph \<Rightarrow> exec_graph" where
  "add_evidence_node r e g =
     (let g' = add_node (evidence_node (car_audit_run_id r) e) g; nid = ''evidence:'' @ cvd_evidence_id e
      in if cvd_finding_id e \<in> {None, Some []} then add_edge (run_node_id r) nid ''produces'' [] g'
         else add_edge (''finding:'' @ the (cvd_finding_id e)) nid ''validates'' [] g')"

definition add_report_node :: "common_run \<Rightarrow> common_report \<Rightarrow> exec_graph \<Rightarrow> exec_graph" where
  "add_report_node r p g =
     add_edge (stage_node_id ''report'') (''report:'' @ crp_report_id p) ''reports'' []
       (add_node (report_node (car_audit_run_id r) p) g)"

definition add_card_node :: "common_run \<Rightarrow> common_card \<Rightarrow> exec_graph \<Rightarrow> exec_graph" where
  "add_card_node r c g =
     add_edge (stage_node_id ''whiteboard-swarm'') (card_node_id (cwc_card_id c)) ''writes'' []
       (add_node (card_node (car_audit_run_id r) c) g)"

definition add_board_edge :: "common_edge \<Rightarrow> exec_graph \<Rightarrow> exec_graph" where
  "add_board_edge e g =
     add_edge (card_node_id (cwe_source_card_id e)) (card_node_id (cwe_target_card_id e))
       (''whiteboard:'' @ cwe_edge_type e)
       [(''edge_id'', PStr (cwe_edge_id e)), (''metadata'', PDict (cwe_metadata e))] g"

definition run_statuses :: "string \<Rightarrow> flow_db \<Rightarrow> dict" where
  "run_statuses rid d =
     stage_statuses (rows_of cst_audit_run_id rid (fd_stages d)) (rows_of cev_audit_run_id rid (fd_events d))"

definition run_graph :: "common_run \<Rightarrow> flow_db \<Rightarrow> exec_graph" where
  "run_graph r d =
     (let rid = car_audit_run_id r;
          g0 = add_node (run_node r) \<lparr>eg_nodes = [], eg_edges = [], eg_keys = []\<rparr>;
          g1 = add_stages r (run_statuses rid d) g0;
          g2 = fold (add_agent r) (rows_of cag_audit_run_id rid (fd_agent_runs d)) g1;
          g3 = fold (add_container r) (rows_of cct_audit_run_id rid (fd_containers d)) g2;
          g4 = fold (add_finding_node r) (rows_of cfi_audit_run_id rid (fd_findings d)) g3;
          g5 = fold (add_evidence_node r) (rows_of cvd_audit_run_id rid (fd_evidence d)) g4;
          g6 = fold (add_report_node r) (rows_of crp_audit_run_id rid (fd_reports d)) g5;
          g7 = fold (add_card_node r) (rows_of cwc_audit_run_id rid (fd_cards d)) g6
      in fold add_board_edge (rows_of cwe_audit_run_id rid (fd_edges d)) g7)"

definition graph_nodes :: "exec_graph \<Rightarrow> dict list" where
  "graph_nodes g = map (\<lambda>(_, v). dict_or_empty v) (eg_nodes g)"

definition audit_run_execution_graph :: "string \<Rightarrow> flow_db \<Rightarrow> dict option" where
  "audit_run_execution_graph rid d =
     map_option (\<lambda>r.
       let g = run_graph r d
       in [(''audit_run_id'', PStr rid), (''project_id'', PStr (car_project_id r)),
           (''summary'', PDict (execution_graph_summary (graph_nodes g))),
           (''nodes'', PList (map PDict (graph_nodes g))), (''edges'', PList (map PDict (eg_edges g)))])
       (run_get rid d)"

end
