(* ===== verification/Web_Runs.thy ===== *)
theory Web_Runs
  imports Web_Profiles Execution_Graph
begin

text \<open>
  What \<open>web-api\<close> does with projects and audit runs: \<open>services/web-api/app/application/projects.py\<close>
  and \<open>audit_runs.py\<close> with their routes in \<open>bff/routes\<close>, and the views of the workers. An
  operation that changes rows is a transaction on the database: when it raises, the route does not
  commit. The answer shows a new row before its first flush, so what the database fills in is missing.
\<close>

definition unflushed :: "dict \<Rightarrow> dict" where
  "unflushed view = dset (dset view ''created_at'' PNone) ''updated_at'' PNone"

section \<open>Projects\<close>

record create_project_payload =
  cj_name :: string
  cj_git_url :: "string option"
  cj_ref :: "string option"
  cj_metadata :: dict

definition list_projects :: "flow_db \<Rightarrow> dict list" where
  "list_projects d = map project_to_bff (project_list d)"

definition or_option :: "string option \<Rightarrow> string option \<Rightarrow> string option" where
  "or_option a b = (if a \<in> {None, Some []} then b else a)"

text \<open>
  \<open>_create_workspace_snapshot\<close>; \<open>reply\<close> is the decoded answer of \<open>workspace-engine\<close> or the error
  of the client. A path that is not a text is refused by the column when the row is flushed.
\<close>

definition workspace_of_reply :: "pyval res \<Rightarrow> string res" where
  "workspace_of_reply reply =
     rbind reply (\<lambda>v. rbind (vget v ''workspace_path'') (\<lambda>path.
       if \<not> truthy path then Inl (RuntimeError ''workspace-engine did not return workspace_path'')
       else case path of PStr p \<Rightarrow> Inr p | _ \<Rightarrow> Inl (OtherError ''StatementError'')))"

definition create_project ::
  "(dict \<Rightarrow> pyval res) \<Rightarrow> create_project_payload \<Rightarrow> (flow_db, dict) tx" where
  "create_project engine p d =
     (let source_type = (if cj_git_url p \<in> {None, Some []} then ''manual'' else ''git'');
          (row, d1) = project_create (cj_name p) source_type (cj_git_url p) (cj_metadata p) d;
          pid = cpr_project_id row
      in rbind (workspace_of_reply (engine [(''project_id'', PStr pid), (''git_url'', opt_str (cj_git_url p)),
                                            (''ref'', opt_str (cj_ref p))])) (\<lambda>path.
         let (snapshot, d2) = snapshot_create_ready pid path source_type (or_option (cj_ref p) (cj_git_url p)) d1;
             row' = row\<lparr>cpr_status := ''ready'',
                        cpr_metadata := dset (cpr_metadata row) ''latest_snapshot_id'' (PStr (csn_snapshot_id snapshot))\<rparr>
         in Inr ([(''project'', PDict (unflushed (project_to_bff row'))),
                  (''snapshot'', PDict (unflushed (snapshot_to_bff snapshot)))],
                 d2\<lparr>fd_projects := row_upd cpr_project_id pid (\<lambda>_. row') (fd_projects d2)\<rparr>)))"

section \<open>Creating a run\<close>

record create_run_payload =
  cp_project_id :: string
  cp_snapshot_id :: "string option"
  cp_enabled_agents :: "string list"
  cp_allow_external_network :: bool
  cp_retain_runtime_on_failure :: bool
  cp_input_payload :: dict
  cp_config :: dict

definition resolve_snapshot :: "string \<Rightarrow> string option \<Rightarrow> flow_db \<Rightarrow> common_snapshot res" where
  "resolve_snapshot project_id snapshot_id d =
     (let ready = filter (\<lambda>s. csn_project_id s = project_id \<and> csn_status s = ''ready'') (fd_snapshots d);
          rows = (if snapshot_id \<in> {None, Some []} then sort_key (\<lambda>s. - created_at s) ready
                  else filter (\<lambda>s. Some (csn_snapshot_id s) = snapshot_id) ready)
      in case rows of [] \<Rightarrow> Inl (ValueError ''project has no ready snapshot'') | s # _ \<Rightarrow> Inr s)"

definition trace_worker_defaults :: "dict \<Rightarrow> dict" where
  "trace_worker_defaults w =
     dsetdefault (dsetdefault (dsetdefault (dsetdefault w ''enabled'' (PBool True))
       ''agent_name'' (PStr ''kimi-source-sink-finder'')) ''max_parallel'' (PInt 1)) ''max_findings'' (PInt 50)"

text \<open>\<open>dict(v or {})\<close>.\<close>

definition dict_of :: "pyval \<Rightarrow> dict res" where
  "dict_of v = py_dict (por v (PDict []))"

definition base_config :: "number_ops \<Rightarrow> create_run_payload \<Rightarrow> common_snapshot \<Rightarrow> flow_db \<Rightarrow> dict" where
  "base_config ops p snapshot d =
     dsetdefault (dsetdefault (dset (dset (merge_model_overrides ops d (cp_config p))
       ''enabled_agents'' (PList (map PStr (cp_enabled_agents p))))
       ''workspace_host_path'' (PStr (csn_workspace_path snapshot)))
       ''enable_whiteboard'' (PBool True)) ''enable_whiteboard_swarm'' (PBool True)"

definition normalized_config :: "number_ops \<Rightarrow> create_run_payload \<Rightarrow> common_snapshot \<Rightarrow> flow_db \<Rightarrow> dict res" where
  "normalized_config ops p snapshot d =
     (let config = base_config ops p snapshot d
      in rbind (dict_of (dget config ''whiteboard_swarm'')) (\<lambda>swarm.
         rbind (dict_of (dget swarm ''trace_worker'')) (\<lambda>trace_worker.
         Inr (dset config ''whiteboard_swarm''
                (PDict (dset swarm ''trace_worker'' (PDict (trace_worker_defaults trace_worker))))))))"

definition new_run_view :: "common_run \<Rightarrow> dict" where
  "new_run_view row = unflushed (dset (audit_run_to_bff row) ''cancel_requested'' PNone)"

definition create_audit_run :: "number_ops \<Rightarrow> create_run_payload \<Rightarrow> (flow_db, dict) tx" where
  "create_audit_run ops p d =
     rbind (resolve_snapshot (cp_project_id p) (cp_snapshot_id p) d) (\<lambda>snapshot.
     rbind (normalized_config ops p snapshot d) (\<lambda>config.
     let (row, d') = run_create
           \<lparr>rq_project_id = cp_project_id p, rq_snapshot_id = Some (csn_snapshot_id snapshot),
            rq_workspace_path = Some (csn_workspace_path snapshot),
            rq_allow_external_network = cp_allow_external_network p,
            rq_retain_runtime_on_failure = cp_retain_runtime_on_failure p,
            rq_input_payload = cp_input_payload p, rq_config = config\<rparr> d
     in Inr (new_run_view row, d')))"

section \<open>Starting, cancelling and reading a run\<close>

definition list_audit_runs :: "flow_db \<Rightarrow> dict list" where
  "list_audit_runs d = map audit_run_to_bff (run_list d)"

definition view_audit_run :: "string \<Rightarrow> flow_db \<Rightarrow> dict option" where
  "view_audit_run rid d = map_option audit_run_to_bff (run_get rid d)"

definition queue_audit_run :: "string \<Rightarrow> flow_db \<Rightarrow> dict option \<times> flow_db" where
  "queue_audit_run rid d = (view_audit_run rid (run_queue rid d), run_queue rid d)"

definition cancel_audit_run :: "string \<Rightarrow> string \<Rightarrow> flow_db \<Rightarrow> dict option \<times> flow_db" where
  "cancel_audit_run rid reason d = (view_audit_run rid (run_cancel rid reason d), run_cancel rid reason d)"

text \<open>The routes: a run that is not there is a 404 and nothing is committed.\<close>

definition start_audit_run :: "string \<Rightarrow> bool \<Rightarrow> (flow_db, dict) tx" where
  "start_audit_run rid force d =
     (case queue_audit_run rid d of
        (None, _) \<Rightarrow> Inl (LookupError ''audit run not found'')
      | (Some view, d') \<Rightarrow> Inr ([(''queued'', PBool True), (''force'', PBool force), (''audit_run'', PDict view)], d'))"

definition cancel_run_route :: "string \<Rightarrow> string \<Rightarrow> (flow_db, dict) tx" where
  "cancel_run_route rid reason d =
     (case cancel_audit_run rid reason d of
        (None, _) \<Rightarrow> Inl (LookupError ''audit run not found'')
      | (Some view, d') \<Rightarrow> Inr ([(''cancel_requested'', PBool True), (''audit_run'', PDict view)], d'))"

text \<open>The rows of a run, newest first.\<close>

definition newest :: "('r timestamped_scheme \<Rightarrow> string) \<Rightarrow> string \<Rightarrow> 'r timestamped_scheme list \<Rightarrow> 'r timestamped_scheme list" where
  "newest run rid rows = sort_key (\<lambda>r. - created_at r) (filter (\<lambda>r. run r = rid) rows)"

definition run_agent_views :: "string \<Rightarrow> flow_db \<Rightarrow> dict list" where
  "run_agent_views rid d = map agent_run_to_bff (newest cag_audit_run_id rid (fd_agent_runs d))"

definition agent_event_views :: "string \<Rightarrow> flow_db \<Rightarrow> dict list" where
  "agent_event_views agent_run_id d =
     map agent_event_to_bff (sort_key created_at (sort_key cae_id
       (filter (\<lambda>e. cae_agent_run_id e = agent_run_id) (fd_agent_events d))))"

definition run_finding_views :: "string \<Rightarrow> flow_db \<Rightarrow> dict list" where
  "run_finding_views rid d = map finding_to_bff (newest cfi_audit_run_id rid (fd_findings d))"

definition run_evidence_views :: "string \<Rightarrow> string option \<Rightarrow> flow_db \<Rightarrow> dict list" where
  "run_evidence_views rid finding_id d =
     map evidence_to_bff (filter (\<lambda>e. finding_id \<in> {None, Some []} \<or> cvd_finding_id e = finding_id)
       (newest cvd_audit_run_id rid (fd_evidence d)))"

definition finding_view :: "string \<Rightarrow> flow_db \<Rightarrow> dict option" where
  "finding_view finding_id d =
     map_option (\<lambda>row. dset (finding_to_bff row) ''evidence''
                   (PList (map PDict (run_evidence_views (cfi_audit_run_id row) (Some finding_id) d))))
       (row_find cfi_finding_id finding_id (fd_findings d))"

definition run_container_views :: "string \<Rightarrow> flow_db \<Rightarrow> dict list" where
  "run_container_views rid d = map runtime_container_to_bff (newest cct_audit_run_id rid (fd_containers d))"

definition run_report_views :: "string \<Rightarrow> flow_db \<Rightarrow> dict list" where
  "run_report_views rid d = map report_to_bff (newest crp_audit_run_id rid (fd_reports d))"

definition run_whiteboard :: "string \<Rightarrow> flow_db \<Rightarrow> dict" where
  "run_whiteboard rid d =
     [(''audit_run_id'', PStr rid),
      (''cards'', PList (map (\<lambda>r. PDict (whiteboard_card_to_bff r)) (rows_of cwc_audit_run_id rid (fd_cards d)))),
      (''edges'', PList (map (\<lambda>r. PDict (whiteboard_edge_to_bff r)) (rows_of cwe_audit_run_id rid (fd_edges d)))),
      (''tasks'', PList []), (''notifications'', PList [])]"

definition stage_row :: "stage_run \<Rightarrow> dict" where
  "stage_row r =
     [(''stage'', PStr (cst_stage r)), (''status'', PStr (cst_status r)), (''summary'', PDict (cst_summary r)),
      (''artifact_ids'', PList (map PStr (cst_artifact_ids r))), (''error'', opt_str (cst_error r)),
      (''started_at'', opt_time (cst_started_at r)), (''completed_at'', opt_time (cst_completed_at r))]"

definition stages_with :: "string list \<Rightarrow> dict list \<Rightarrow> pyval" where
  "stages_with statuses rows = PInt (int (length (filter (\<lambda>i. dget i ''status'' \<in> PStr ` set statuses) rows)))"

definition run_pipeline_status :: "string \<Rightarrow> flow_db \<Rightarrow> dict" where
  "run_pipeline_status rid d =
     (let row = run_get rid d; stage_rows = map stage_row (rows_of cst_audit_run_id rid (fd_stages d))
      in [(''audit_run_id'', PStr rid),
          (''status'', case row of None \<Rightarrow> PStr ''unknown'' | Some r \<Rightarrow> PStr (car_pipeline_status r)),
          (''current_stage'', case row of None \<Rightarrow> PNone | Some r \<Rightarrow> opt_str (car_current_stage r)),
          (''runtime_control'', por (case row of None \<Rightarrow> PDict [] | Some r \<Rightarrow> dget (car_config r) ''runtime_control'') (PDict [])),
          (''stages'', PList (map PDict stage_rows)),
          (''summary'', PDict
             [(''completed'', stages_with [''succeeded'', ''completed''] stage_rows),
              (''failed'', stages_with [''failed''] stage_rows),
              (''unfinished'', stages_with [''running'', ''queued'', ''pending''] stage_rows)])])"

definition no_dependencies :: "string \<Rightarrow> dict" where
  "no_dependencies rid =
     [(''audit_run_id'', PStr rid), (''packages'', PList []),
      (''summary'', PDict [(''total'', PInt 0), (''vulnerable'', PInt 0), (''by_ecosystem'', PDict [])])]"

definition run_bundle :: "string \<Rightarrow> flow_db \<Rightarrow> dict option" where
  "run_bundle rid d =
     map_option (\<lambda>row.
       [(''run'', PDict (audit_run_to_bff row)),
        (''agents'', PList (map PDict (run_agent_views rid d))),
        (''findings'', PList (map PDict (run_finding_views rid d))),
        (''evidence'', PList (map PDict (run_evidence_views rid None d))),
        (''codeAnalysisTasks'', PList []),
        (''dependencies'', PDict (no_dependencies rid)),
        (''containers'', PList (map PDict (run_container_views rid d))),
        (''reports'', PList (map PDict (run_report_views rid d))),
        (''pipeline'', PDict (run_pipeline_status rid d)),
        (''whiteboard'', PDict (run_whiteboard rid d)),
        (''executionGraph'', case audit_run_execution_graph rid d of None \<Rightarrow> PNone | Some g \<Rightarrow> PDict g)])
       (run_get rid d)"

text \<open>\<open>agent_messages.py\<close>.\<close>

definition transcript_view :: "common_transcript \<Rightarrow> dict" where
  "transcript_view r =
     [(''id'', PInt (ctr_id r)), (''agent_run_id'', PStr (ctr_agent_run_id r)),
      (''audit_run_id'', PStr (ctr_audit_run_id r)), (''runtime_id'', opt_str (ctr_runtime_id r)),
      (''seq'', PInt (ctr_seq r)), (''event_type'', PStr (ctr_event_type r)),
      (''session_id'', opt_str (ctr_session_id r)), (''payload'', PDict (ctr_payload r)),
      (''content_text'', opt_str (ctr_content_text r)), (''created_at'', pytime (created_at r))]"

definition agent_messages :: "string \<Rightarrow> string \<Rightarrow> flow_db \<Rightarrow> dict list" where
  "agent_messages rid agent_run_id d =
     map transcript_view (sort_key ctr_seq (sort_key ctr_id
       (filter (\<lambda>r. ctr_audit_run_id r = rid \<and> ctr_agent_run_id r = agent_run_id) (fd_transcripts d))))"

section \<open>The workers\<close>

definition common_heartbeat_view :: "common_heartbeat \<Rightarrow> dict" where
  "common_heartbeat_view r =
     [(''worker_id'', PStr (chb_worker_id r)), (''service_name'', PStr (chb_service_name r)),
      (''hostname'', PStr (chb_hostname r)), (''status'', PStr (chb_status r)),
      (''last_seen_at'', pytime (chb_last_seen_at r)),
      (''current_audit_run_id'', opt_str (chb_current_audit_run_id r)), (''metadata'', PDict (chb_metadata r))]"

definition worker_heartbeats_view :: "flow_db \<Rightarrow> dict" where
  "worker_heartbeats_view d =
     [(''workers'', PList (map (\<lambda>r. PDict (common_heartbeat_view r))
        (sort_key (\<lambda>r. - chb_last_seen_at r) (fd_heartbeats d))))]"

text \<open>
  \<open>fromiso\<close> is \<open>datetime.fromisoformat\<close> with None for its \<open>ValueError\<close>. \<open>max_age\<close> is the
  environment's number of seconds, at least 1.
\<close>

definition fresh_worker :: "(string \<Rightarrow> time option) \<Rightarrow> time \<Rightarrow> int \<Rightarrow> dict \<Rightarrow> bool res" where
  "fresh_worker fromiso now max_age worker =
     (if dget worker ''service_name'' \<noteq> PStr ''workflow-worker'' \<or> dget worker ''status'' = PStr ''stopped'' then Inr False
      else if \<not> truthy (dget worker ''last_seen_at'') then Inr False
      else case fromiso (py_str (dget worker ''last_seen_at'')) of
             None \<Rightarrow> Inl (ValueError ''Invalid isoformat string'')
           | Some last_seen \<Rightarrow> Inr (now - last_seen \<le> seconds max_age))"

definition runtime_readiness :: "(string \<Rightarrow> time option) \<Rightarrow> time \<Rightarrow> int \<Rightarrow> flow_db \<Rightarrow> dict res" where
  "runtime_readiness fromiso now max_age d =
     rbind (rmap (fresh_worker fromiso now max_age)
              (map dict_or_empty (list_or_empty (dget (worker_heartbeats_view d) ''workers'')))) (\<lambda>fresh.
       let n = length (filter id fresh); status = (if n > 0 then ''pass'' else ''warn'')
       in Inr [(''ok'', PBool (n > 0)),
               (''checks'', PList [PDict
                  [(''id'', PStr ''workflow_worker''),
                   (''title'', PStr ''workflow-worker heartbeat is fresh enough for queue execution''),
                   (''status'', PStr status),
                   (''message'', PStr (nat_str n @ '' fresh workflow-worker heartbeat(s) recorded''))]]),
               (''summary'', PDict [(''status'', PStr status)])])"

text \<open>\<open>services/workflow-worker/app/healthcheck.py\<close>: the worker that was seen last. The
  message about a stale heartbeat ends, in the code, with its age.\<close>

definition worker_healthcheck :: "time \<Rightarrow> int \<Rightarrow> flow_db \<Rightarrow> string option" where
  "worker_healthcheck now ttl d =
     (case sort_key (\<lambda>r. - chb_last_seen_at r) (filter (\<lambda>r. chb_service_name r = ''workflow-worker'') (fd_heartbeats d)) of
        [] \<Rightarrow> Some ''no workflow-worker heartbeat recorded''
      | row # _ \<Rightarrow>
          if now - chb_last_seen_at row > seconds ttl then Some ''workflow-worker heartbeat is stale''
          else if chb_status row = ''stopped'' then Some ''latest workflow-worker heartbeat is stopped''
          else None)"

end
