(* ===== verification/Web_Session.thy ===== *)
theory Web_Session
  imports Web_Views
begin

text \<open>
  Sessions and API keys of the split services: \<open>services/web-api/app/bff/routes/session.py\<close> and
  \<open>dieaudit_common/security/api_keys.py\<close>. The hash of a key and its random part are parameters;
  strings are ASCII, for which \<open>compare_digest\<close> is equality.
\<close>

record web_settings =
  ws_service_name :: string
  ws_api_key_header :: string
  ws_api_key :: string
  ws_admin_username :: string
  ws_admin_password :: string

text \<open>The headers of a request by lower case name.\<close>

type_synonym web_headers = "string \<Rightarrow> string option"

definition header :: "web_headers \<Rightarrow> string \<Rightarrow> string option" where
  "header hs name = hs (str_lower name)"

section \<open>The keys of the database\<close>

definition key_to_dict :: "common_key \<Rightarrow> dict" where
  "key_to_dict r =
     [(''key_id'', PStr (cky_key_id r)), (''name'', PStr (cky_name r)),
      (''scopes'', PList (map PStr (cky_scopes r))), (''status'', PStr (cky_status r)),
      (''created_at'', pytime (created_at r)), (''last_used_at'', opt_time (cky_last_used_at r))]"

text \<open>\<open>create_api_key\<close>; \<open>token\<close> is \<open>secrets.token_urlsafe(32)\<close>. The row is not flushed yet.\<close>

definition create_split_key :: "(string \<Rightarrow> string) \<Rightarrow> string \<Rightarrow> string \<Rightarrow> string list \<Rightarrow> flow_db \<Rightarrow> dict \<times> flow_db" where
  "create_split_key hash token name scopes d =
     (let api_key = ''dieaudit_'' @ token;
          (kid, d1) = new_id ''key'' d;
          row = \<lparr>created_at = fd_now d, updated_at = fd_now d, cky_key_id = kid, cky_name = name,
                 cky_key_hash = hash api_key, cky_scopes = (if scopes = [] then [''admin''] else scopes),
                 cky_status = ''active'', cky_last_used_at = None, cky_deactivated_at = None, cky_metadata = SCHEMA\<rparr>
      in ([(''api_key'', PStr api_key), (''record'', PDict (dset (key_to_dict row) ''created_at'' PNone))],
          d1\<lparr>fd_keys := fd_keys d1 @ [row]\<rparr>))"

definition key_principal :: "common_key \<Rightarrow> dict" where
  "key_principal r =
     [(''key_id'', PStr (cky_key_id r)), (''name'', PStr (cky_name r)),
      (''scopes'', PList (map PStr (cky_scopes r))), (''source'', PStr ''persisted'')]"

definition authenticate_key :: "(string \<Rightarrow> string) \<Rightarrow> time \<Rightarrow> string option \<Rightarrow> flow_db \<Rightarrow> dict option \<times> flow_db" where
  "authenticate_key hash wall supplied d =
     (case supplied of
        None \<Rightarrow> (None, d)
      | Some key \<Rightarrow>
          if key = [] then (None, d)
          else case find (\<lambda>r. cky_key_hash r = hash key \<and> cky_status r = ''active'') (fd_keys d) of
                 None \<Rightarrow> (None, d)
               | Some r \<Rightarrow>
                   (Some (key_principal r),
                    d\<lparr>fd_keys := row_upd cky_key_id (cky_key_id r)
                        (\<lambda>q. stamped (fd_now d) q (q\<lparr>cky_last_used_at := Some wall\<rparr>)) (fd_keys d)\<rparr>))"

section \<open>Sessions\<close>

definition session_bearer_token :: "string option \<Rightarrow> string option" where
  "session_bearer_token value =
     (case value of
        None \<Rightarrow> None
      | Some v \<Rightarrow>
          (let scheme = takeWhile (\<lambda>c. c \<noteq> CHR '' '') v; token = drop (length scheme + 1) v
           in if str_lower scheme \<noteq> ''bearer'' \<or> str_strip token = [] then None else Some (str_strip token)))"

definition session_supplied_key :: "web_settings \<Rightarrow> web_headers \<Rightarrow> string option" where
  "session_supplied_key ws hs =
     (let own = header hs (ws_api_key_header ws);
          supplied = (if own \<in> {None, Some []} then session_bearer_token (header hs ''Authorization'') else own)
      in case supplied of
           None \<Rightarrow> None
         | Some s \<Rightarrow> if str_strip s = [] then None else Some (str_strip s))"

definition password_login_enabled :: "web_settings \<Rightarrow> bool" where
  "password_login_enabled ws = (str_strip (ws_admin_username ws) \<noteq> [] \<and> str_strip (ws_admin_password ws) \<noteq> [])"

definition authenticate_admin_password :: "web_settings \<Rightarrow> string \<Rightarrow> string \<Rightarrow> dict option" where
  "authenticate_admin_password ws username password =
     (if \<not> password_login_enabled ws then None
      else if username \<noteq> ws_admin_username ws then None
      else if password \<noteq> ws_admin_password ws then None
      else Some [(''key_id'', PStr ''admin''), (''name'', PStr ''Administrator''),
                 (''scopes'', PList [PStr ''admin'']), (''source'', PStr ''password'')])"

definition bootstrap_admin :: dict where
  "bootstrap_admin =
     [(''key_id'', PStr ''bootstrap''), (''name'', PStr ''Bootstrap administrator''),
      (''scopes'', PList [PStr ''admin'']), (''source'', PStr ''bootstrap'')]"

definition session_authenticate ::
  "(string \<Rightarrow> string) \<Rightarrow> time \<Rightarrow> web_settings \<Rightarrow> web_headers \<Rightarrow> flow_db \<Rightarrow> dict option \<times> flow_db" where
  "session_authenticate hash wall ws hs d =
     (case session_supplied_key ws hs of
        None \<Rightarrow> (None, d)
      | Some supplied \<Rightarrow>
          let bootstrap_key = str_strip (ws_api_key ws)
          in if bootstrap_key \<noteq> [] \<and> supplied = bootstrap_key then (Some bootstrap_admin, d)
             else authenticate_key hash wall (Some supplied) d)"

definition session_view ::
  "(string \<Rightarrow> string) \<Rightarrow> time \<Rightarrow> web_settings \<Rightarrow> web_headers \<Rightarrow> flow_db \<Rightarrow> dict \<times> flow_db" where
  "session_view hash wall ws hs d =
     (case session_authenticate hash wall ws hs d of (who, d') \<Rightarrow>
        ([(''authenticated'', PBool (who \<noteq> None)), (''api_key_header'', PStr (ws_api_key_header ws)),
          (''principal'', case who of None \<Rightarrow> PNone | Some p \<Rightarrow> PDict p),
          (''service'', PStr (ws_service_name ws))], d'))"

definition session_status :: "web_settings \<Rightarrow> flow_db \<Rightarrow> dict" where
  "session_status ws d =
     (let persisted = list_ex (\<lambda>r. cky_status r = ''active'') (fd_keys d); bootstrap = str_strip (ws_api_key ws) \<noteq> []
      in [(''enabled'', PBool (password_login_enabled ws \<or> bootstrap \<or> persisted)),
          (''bootstrap_key_enabled'', PBool bootstrap),
          (''password_login_enabled'', PBool (password_login_enabled ws)),
          (''api_key_header'', PStr (ws_api_key_header ws)), (''public_metrics'', PBool False),
          (''service'', PStr (ws_service_name ws))])"

text \<open>\<open>Inl\<close> is the status of the HTTP error.\<close>

definition session_login :: "web_settings \<Rightarrow> dict \<Rightarrow> nat + dict" where
  "session_login ws payload =
     (let username = str_strip (py_str (por (dget payload ''username'') (PStr [])));
          password = py_str (por (dget payload ''password'') (PStr []))
      in case authenticate_admin_password ws username password of
           None \<Rightarrow> Inl 401
         | Some admin \<Rightarrow>
             let access_token = str_strip (ws_api_key ws)
             in if access_token = [] then Inl 503
                else Inr [(''authenticated'', PBool True), (''access_token'', PStr access_token),
                          (''api_key_header'', PStr (ws_api_key_header ws)), (''principal'', PDict admin),
                          (''service'', PStr (ws_service_name ws))])"

end
