(* ===== verification/Graph_Contracts.thy ===== *)
theory Graph_Contracts
  imports Execution_Graph Workflow_Contracts
begin

text \<open>
  What the execution graph of a run shows: which nodes it has, that its edges join them, what the
  summary counts, and where the statuses of the stages come from.
\<close>

definition graph_demo :: flow_db where
  "graph_demo = (demo_db [demo_run ''a''])\<lparr>
     fd_findings := [\<lparr>created_at = 3, updated_at = 3, cfi_finding_id = ''f1'', cfi_audit_run_id = ''a'',
       cfi_project_id = ''project-1'', cfi_title = ''SQL injection'', cfi_severity = ''high'', cfi_status = ''open'',
       cfi_file_path = None, cfi_line_start = None, cfi_line_end = None, cfi_rule_id = None, cfi_description = None,
       cfi_source = ''agent'', cfi_metadata = [], cfi_raw_result = []\<rparr>],
     fd_evidence := [\<lparr>created_at = 4, updated_at = 4, cvd_evidence_id = ''e1'', cvd_finding_id = Some ''f1'',
       cvd_audit_run_id = ''a'', cvd_kind = ''trace'', cvd_summary = None, cvd_artifact_ids = [], cvd_payload = []\<rparr>]\<rparr>"

lemma graph_demo_run: "run_get ''a'' graph_demo = Some (demo_run ''a'')"
  by (simp add: graph_demo_def demo_db_def run_get_def)

section \<open>Nodes and edges\<close>

lemma items_dset: "x \<in> set (dset d k v) \<Longrightarrow> x = (k, v) \<or> x \<in> set d"
  by (induction d k v rule: dset.induct) (auto split: if_splits)

lemma dset_fresh: "k \<notin> fst ` set d \<Longrightarrow> dset d k v = d @ [(k, v)]"
  by (induction d k v rule: dset.induct) auto

definition edge_key :: "dict \<Rightarrow> pyval \<times> pyval \<times> pyval" where
  "edge_key e = (dget e ''source'', dget e ''target'', dget e ''type'')"

definition graph_ok :: "exec_graph \<Rightarrow> bool" where
  "graph_ok g =
     (distinct (map fst (eg_nodes g)) \<and>
      (\<forall>x \<in> set (eg_nodes g). dget (dict_or_empty (snd x)) ''id'' = PStr (fst x)) \<and>
      distinct (eg_keys g) \<and>
      map edge_key (eg_edges g) = rev (map (\<lambda>(s, t, y). (PStr s, PStr t, PStr y)) (eg_keys g)) \<and>
      (\<forall>(s, t, y) \<in> set (eg_keys g). dmem (eg_nodes g) s \<and> dmem (eg_nodes g) t))"

named_theorems graph_intros \<open>operations that keep a graph well formed\<close>

lemma ok_add_node:
  assumes "dget node ''id'' = PStr k" "graph_ok g"
  shows "graph_ok (add_node node g)"
  using assms items_dset [of _ "eg_nodes g" k "PDict node"]
  by (fastforce simp: graph_ok_def add_node_def distinct_dset)

lemma ok_graph_node [graph_intros]: "graph_ok g \<Longrightarrow> graph_ok (add_node (graph_node nid kd lb st gp tg dt) g)"
  by (rule ok_add_node) (simp add: graph_node_def)

lemma ok_add_edge [graph_intros]: "graph_ok g \<Longrightarrow> graph_ok (add_edge s t y m g)"
  by (auto simp: graph_ok_def add_edge_def edge_key_def)

lemma ok_fold [graph_intros]: "(\<And>x g. graph_ok g \<Longrightarrow> graph_ok (f x g)) \<Longrightarrow> graph_ok g \<Longrightarrow> graph_ok (fold f xs g)"
  by (induction xs arbitrary: g) auto

lemma ok_empty: "graph_ok \<lparr>eg_nodes = [], eg_edges = [], eg_keys = []\<rparr>"
  by (simp add: graph_ok_def)

lemmas node_defs = run_node_def stage_node_def agent_run_node_def container_node_def finding_node_def
  evidence_node_def report_node_def card_node_def

lemma ok_rows [graph_intros]:
  "graph_ok g \<Longrightarrow> graph_ok (add_agent r a g)" "graph_ok g \<Longrightarrow> graph_ok (add_container r c g)"
  "graph_ok g \<Longrightarrow> graph_ok (add_finding_node r f g)" "graph_ok g \<Longrightarrow> graph_ok (add_evidence_node r e g)"
  "graph_ok g \<Longrightarrow> graph_ok (add_report_node r p g)" "graph_ok g \<Longrightarrow> graph_ok (add_card_node r k g)"
  "graph_ok g \<Longrightarrow> graph_ok (add_board_edge b g)"
  unfolding add_agent_def add_container_def add_finding_node_def add_evidence_node_def add_report_node_def
    add_card_node_def add_board_edge_def node_defs
  by (auto simp: Let_def intro!: graph_intros)

lemma ok_run_graph: "graph_ok (run_graph r d)"
  unfolding run_graph_def Let_def add_stages_def node_defs
  by (intro graph_intros ok_empty) (auto intro!: graph_intros)

lemma ids_graph_nodes:
  assumes "graph_ok g"
  shows "map (\<lambda>n. dget n ''id'') (graph_nodes g) = map (\<lambda>x. PStr (fst x)) (eg_nodes g)"
  using assms by (auto simp: graph_ok_def graph_nodes_def)

text \<open>C38. The edges of an execution graph join nodes of the graph, no two of them have the same
  ends and type, and no two nodes share an identifier.\<close>

theorem graph_well_formed:
  assumes "audit_run_execution_graph rid d = Some out"
  shows "\<exists>nodes edges. dget out ''nodes'' = PList (map PDict nodes) \<and> dget out ''edges'' = PList (map PDict edges) \<and>
           distinct (map (\<lambda>n. dget n ''id'') nodes) \<and>
           distinct (map (\<lambda>e. (dget e ''source'', dget e ''target'', dget e ''type'')) edges) \<and>
           (\<forall>e \<in> set edges. \<exists>a \<in> set nodes. \<exists>b \<in> set nodes.
              dget e ''source'' = dget a ''id'' \<and> dget e ''target'' = dget b ''id'')"
proof -
  obtain r where r: "run_get rid d = Some r" using assms by (auto simp: audit_run_execution_graph_def)
  let ?g = "run_graph r d"
  have ok: "graph_ok ?g" by (rule ok_run_graph)
  have out: "dget out ''nodes'' = PList (map PDict (graph_nodes ?g))" "dget out ''edges'' = PList (map PDict (eg_edges ?g))"
    using assms r by (auto simp: audit_run_execution_graph_def Let_def)
  have "distinct (map (\<lambda>x. PStr (fst x)) (eg_nodes ?g))"
    using ok by (simp add: graph_ok_def distinct_map inj_on_def)
  then have nodes: "distinct (map (\<lambda>n. dget n ''id'') (graph_nodes ?g))" by (simp add: ids_graph_nodes [OF ok])
  have keys: "map edge_key (eg_edges ?g) = rev (map (\<lambda>(s, t, y). (PStr s, PStr t, PStr y)) (eg_keys ?g))"
    using ok by (simp add: graph_ok_def)
  have "distinct (map (\<lambda>(s, t, y). (PStr s, PStr t, PStr y)) (eg_keys ?g))"
    using ok by (auto simp: graph_ok_def distinct_map inj_on_def)
  then have edges: "distinct (map edge_key (eg_edges ?g))" by (simp add: keys)
  have node: "\<exists>a \<in> set (graph_nodes ?g). PStr k = dget a ''id''" if "dmem (eg_nodes ?g) k" for k
  proof -
    have "PStr k \<in> set (map (\<lambda>x. PStr (fst x)) (eg_nodes ?g))"
      using that by (force simp: dmem_def dlookup_def split: option.splits dest: map_of_SomeD)
    then have "PStr k \<in> set (map (\<lambda>n. dget n ''id'') (graph_nodes ?g))" by (simp only: ids_graph_nodes [OF ok])
    then show ?thesis by auto
  qed
  have join: "\<exists>a \<in> set (graph_nodes ?g). \<exists>b \<in> set (graph_nodes ?g).
      dget e ''source'' = dget a ''id'' \<and> dget e ''target'' = dget b ''id''" if e: "e \<in> set (eg_edges ?g)" for e
  proof -
    have "edge_key e \<in> set (rev (map (\<lambda>(s, t, y). (PStr s, PStr t, PStr y)) (eg_keys ?g)))"
      unfolding keys [symmetric] using e by simp
    then obtain s t y where k: "edge_key e = (PStr s, PStr t, PStr y)" "(s, t, y) \<in> set (eg_keys ?g)" by auto
    then have "dmem (eg_nodes ?g) s" "dmem (eg_nodes ?g) t" using ok by (auto simp: graph_ok_def)
    then show ?thesis using node k(1) by (simp add: edge_key_def)
  qed
  show ?thesis
    by (rule exI [of _ "graph_nodes ?g"], rule exI [of _ "eg_edges ?g"])
       (use out nodes edges join in \<open>simp add: edge_key_def [abs_def]\<close>)
qed

theorem graph_well_formed_witness:
  "\<exists>out nodes. audit_run_execution_graph ''a'' graph_demo = Some out \<and> dget out ''nodes'' = PList (map PDict nodes) \<and>
     distinct (map (\<lambda>n. dget n ''id'') nodes)"
proof -
  obtain out where out: "audit_run_execution_graph ''a'' graph_demo = Some out"
    by (simp add: audit_run_execution_graph_def graph_demo_run)
  with graph_well_formed [OF out] show ?thesis by blast
qed

section \<open>Every row has its node\<close>

lemma nodes_add_edge [simp]: "eg_nodes (add_edge s t y m g) = eg_nodes g"
  by (simp add: add_edge_def)

lemma nodes_graph_node [simp]:
  "eg_nodes (add_node (graph_node nid kd lb st gp tg dt) g) = dset (eg_nodes g) nid (PDict (graph_node nid kd lb st gp tg dt))"
  by (simp add: add_node_def graph_node_def)

lemma nodes_fold:
  assumes step: "\<And>x g. eg_nodes (f x g) = dset (eg_nodes g) (p @ key x) (PDict (node x))"
    and "distinct (map key xs)" "\<And>x. x \<in> set xs \<Longrightarrow> p @ key x \<notin> fst ` set (eg_nodes g)"
  shows "eg_nodes (fold f xs g) = eg_nodes g @ map (\<lambda>x. (p @ key x, PDict (node x))) xs"
  using assms(2,3)
proof (induction xs arbitrary: g)
  case Nil
  then show ?case by simp
next
  case (Cons x xs)
  have x: "eg_nodes (f x g) = eg_nodes g @ [(p @ key x, PDict (node x))]"
    using Cons.prems(2) by (simp add: step dset_fresh)
  have "eg_nodes (fold f xs (f x g)) = eg_nodes (f x g) @ map (\<lambda>x. (p @ key x, PDict (node x))) xs"
    by (rule Cons.IH) (use Cons.prems x in \<open>auto simp: image_iff\<close>)
  then show ?case by (simp add: x)
qed

lemma nodes_rows:
  "eg_nodes (add_agent r a g) = dset (eg_nodes g) (''agent-run:'' @ cag_agent_run_id a) (PDict (agent_run_node (car_audit_run_id r) a))"
  "eg_nodes (add_container r c g) = dset (eg_nodes g) (''container:'' @ cct_container_id c) (PDict (container_node (car_audit_run_id r) c))"
  "eg_nodes (add_finding_node r f g) = dset (eg_nodes g) (''finding:'' @ cfi_finding_id f) (PDict (finding_node (car_audit_run_id r) f))"
  "eg_nodes (add_evidence_node r e g) = dset (eg_nodes g) (''evidence:'' @ cvd_evidence_id e) (PDict (evidence_node (car_audit_run_id r) e))"
  "eg_nodes (add_report_node r p g) = dset (eg_nodes g) (''report:'' @ crp_report_id p) (PDict (report_node (car_audit_run_id r) p))"
  "eg_nodes (add_card_node r k g) = dset (eg_nodes g) (''whiteboard-card:'' @ cwc_card_id k) (PDict (card_node (car_audit_run_id r) k))"
  unfolding add_agent_def add_container_def add_finding_node_def add_evidence_node_def add_report_node_def
    add_card_node_def Let_def node_defs card_node_id_def
  by (simp_all split: if_split)

lemma nodes_board_edges: "eg_nodes (fold add_board_edge es g) = eg_nodes g"
  by (induction es arbitrary: g) (simp_all add: add_board_edge_def)

lemma nodes_stages:
  "eg_nodes (add_stages r st g0) =
     (''audit-run:'' @ car_audit_run_id r, v) #
     map (\<lambda>stage. (''pipeline-step:'' @ stage, PDict (stage_node (car_audit_run_id r) st stage))) PIPELINE_STAGES"
  if "eg_nodes g0 = [(''audit-run:'' @ car_audit_run_id r, v)]"
proof -
  have fold_edges: "eg_nodes (fold (\<lambda>(a, b). add_edge (stage_node_id a) (stage_node_id b) ''next'' []) zs g) = eg_nodes g" for zs g
    by (induction zs arbitrary: g) (auto split: prod.splits)
  have "eg_nodes (fold (\<lambda>stage g. add_edge (run_node_id r) (stage_node_id stage) ''contains'' []
                 (add_node (stage_node (car_audit_run_id r) st stage) g)) PIPELINE_STAGES g0) =
        eg_nodes g0 @ map (\<lambda>stage. (''pipeline-step:'' @ id stage, PDict (stage_node (car_audit_run_id r) st stage))) PIPELINE_STAGES"
    by (rule nodes_fold) (simp_all add: stage_node_def stage_node_id_def that, simp_all add: PIPELINE_STAGES_def)
  then show ?thesis unfolding add_stages_def fold_edges by (simp add: that)
qed

lemma distinct_rows:
  assumes "distinct (map key rows)"
  shows "distinct (map key (rows_of run rid rows))"
proof -
  have "distinct (map key (filter (\<lambda>r. run r = rid) rows))" using assms by (simp add: distinct_map_filter)
  then show ?thesis by (simp add: rows_of_def distinct_map)
qed

text \<open>The primary keys and the unique column of containers.\<close>

definition graph_keys_ok :: "flow_db \<Rightarrow> bool" where
  "graph_keys_ok d =
     (distinct (map cag_agent_run_id (fd_agent_runs d)) \<and> distinct (map cct_container_id (fd_containers d)) \<and>
      distinct (map cfi_finding_id (fd_findings d)) \<and> distinct (map cvd_evidence_id (fd_evidence d)) \<and>
      distinct (map crp_report_id (fd_reports d)) \<and> distinct (map cwc_card_id (fd_cards d)))"

lemma nodes_run_graph:
  assumes "graph_keys_ok d"
  shows "eg_nodes (run_graph r d) =
     (let rid = car_audit_run_id r in
      [(run_node_id r, PDict (run_node r))] @
      map (\<lambda>st. (''pipeline-step:'' @ st, PDict (stage_node rid (run_statuses rid d) st))) PIPELINE_STAGES @
      map (\<lambda>a. (''agent-run:'' @ cag_agent_run_id a, PDict (agent_run_node rid a))) (rows_of cag_audit_run_id rid (fd_agent_runs d)) @
      map (\<lambda>c. (''container:'' @ cct_container_id c, PDict (container_node rid c))) (rows_of cct_audit_run_id rid (fd_containers d)) @
      map (\<lambda>f. (''finding:'' @ cfi_finding_id f, PDict (finding_node rid f))) (rows_of cfi_audit_run_id rid (fd_findings d)) @
      map (\<lambda>e. (''evidence:'' @ cvd_evidence_id e, PDict (evidence_node rid e))) (rows_of cvd_audit_run_id rid (fd_evidence d)) @
      map (\<lambda>p. (''report:'' @ crp_report_id p, PDict (report_node rid p))) (rows_of crp_audit_run_id rid (fd_reports d)) @
      map (\<lambda>k. (''whiteboard-card:'' @ cwc_card_id k, PDict (card_node rid k))) (rows_of cwc_audit_run_id rid (fd_cards d)))"
proof -
  let ?rid = "car_audit_run_id r"
  let ?g0 = "add_node (run_node r) \<lparr>eg_nodes = [], eg_edges = [], eg_keys = []\<rparr>"
  let ?g1 = "add_stages r (run_statuses ?rid d) ?g0"
  let ?g2 = "fold (add_agent r) (rows_of cag_audit_run_id ?rid (fd_agent_runs d)) ?g1"
  let ?g3 = "fold (add_container r) (rows_of cct_audit_run_id ?rid (fd_containers d)) ?g2"
  let ?g4 = "fold (add_finding_node r) (rows_of cfi_audit_run_id ?rid (fd_findings d)) ?g3"
  let ?g5 = "fold (add_evidence_node r) (rows_of cvd_audit_run_id ?rid (fd_evidence d)) ?g4"
  let ?g6 = "fold (add_report_node r) (rows_of crp_audit_run_id ?rid (fd_reports d)) ?g5"
  note k = assms [unfolded graph_keys_ok_def]
  have g0: "eg_nodes ?g0 = [(''audit-run:'' @ ?rid, PDict (run_node r))]" by (simp add: run_node_def run_node_id_def)
  note g1 = nodes_stages [OF g0, of "run_statuses ?rid d"]
  have g2: "eg_nodes ?g2 = eg_nodes ?g1 @ map (\<lambda>a. (''agent-run:'' @ cag_agent_run_id a, PDict (agent_run_node ?rid a))) (rows_of cag_audit_run_id ?rid (fd_agent_runs d))"
    by (rule nodes_fold [OF nodes_rows(1) distinct_rows]) (use k in simp, auto simp: g1)
  have g3: "eg_nodes ?g3 = eg_nodes ?g2 @ map (\<lambda>c. (''container:'' @ cct_container_id c, PDict (container_node ?rid c))) (rows_of cct_audit_run_id ?rid (fd_containers d))"
    by (rule nodes_fold [OF nodes_rows(2) distinct_rows]) (use k in simp, auto simp: g1 g2)
  have g4: "eg_nodes ?g4 = eg_nodes ?g3 @ map (\<lambda>f. (''finding:'' @ cfi_finding_id f, PDict (finding_node ?rid f))) (rows_of cfi_audit_run_id ?rid (fd_findings d))"
    by (rule nodes_fold [OF nodes_rows(3) distinct_rows]) (use k in simp, auto simp: g1 g2 g3)
  have g5: "eg_nodes ?g5 = eg_nodes ?g4 @ map (\<lambda>e. (''evidence:'' @ cvd_evidence_id e, PDict (evidence_node ?rid e))) (rows_of cvd_audit_run_id ?rid (fd_evidence d))"
    by (rule nodes_fold [OF nodes_rows(4) distinct_rows]) (use k in simp, auto simp: g1 g2 g3 g4)
  have g6: "eg_nodes ?g6 = eg_nodes ?g5 @ map (\<lambda>p. (''report:'' @ crp_report_id p, PDict (report_node ?rid p))) (rows_of crp_audit_run_id ?rid (fd_reports d))"
    by (rule nodes_fold [OF nodes_rows(5) distinct_rows]) (use k in simp, auto simp: g1 g2 g3 g4 g5)
  have g7: "eg_nodes (fold (add_card_node r) (rows_of cwc_audit_run_id ?rid (fd_cards d)) ?g6) = eg_nodes ?g6 @ map (\<lambda>k. (''whiteboard-card:'' @ cwc_card_id k, PDict (card_node ?rid k))) (rows_of cwc_audit_run_id ?rid (fd_cards d))"
    by (rule nodes_fold [OF nodes_rows(6) distinct_rows]) (use k in simp, auto simp: g1 g2 g3 g4 g5 g6)
  show ?thesis
    unfolding run_graph_def Let_def nodes_board_edges g7 g6 g5 g4 g3 g2 g1 by (simp add: run_node_id_def)
qed

text \<open>C39. With the keys of the tables unique, the nodes of the graph are exactly one for the run, one
  for each stage and one for each agent run, container, finding, piece of evidence, report and card
  of the run, oldest first.\<close>

theorem graph_shows_rows:
  assumes "graph_keys_ok d" "run_get rid d = Some r"
  shows "\<exists>out. audit_run_execution_graph rid d = Some out \<and>
     dget out ''nodes'' = PList (map PDict
       ([run_node r] @ map (stage_node rid (run_statuses rid d)) PIPELINE_STAGES @
        map (agent_run_node rid) (rows_of cag_audit_run_id rid (fd_agent_runs d)) @
        map (container_node rid) (rows_of cct_audit_run_id rid (fd_containers d)) @
        map (finding_node rid) (rows_of cfi_audit_run_id rid (fd_findings d)) @
        map (evidence_node rid) (rows_of cvd_audit_run_id rid (fd_evidence d)) @
        map (report_node rid) (rows_of crp_audit_run_id rid (fd_reports d)) @
        map (card_node rid) (rows_of cwc_audit_run_id rid (fd_cards d))))"
proof -
  have "car_audit_run_id r = rid" using assms(2) by (rule run_get_id)
  then show ?thesis
    by (simp add: audit_run_execution_graph_def assms(2) Let_def graph_nodes_def nodes_run_graph [OF assms(1)] comp_def)
qed

theorem graph_shows_rows_witness:
  "\<exists>out nodes. audit_run_execution_graph ''a'' graph_demo = Some out \<and> dget out ''nodes'' = PList (map PDict nodes) \<and>
     length nodes = 15 \<and> map (\<lambda>n. dget n ''id'') (drop 13 nodes) = [PStr ''finding:f1'', PStr ''evidence:e1'']"
proof -
  have "graph_keys_ok graph_demo" by (simp add: graph_keys_ok_def graph_demo_def demo_db_def)
  from graph_shows_rows [OF this graph_demo_run] obtain out where
    out: "audit_run_execution_graph ''a'' graph_demo = Some out" and nodes: "dget out ''nodes'' = PList (map PDict
       ([run_node (demo_run ''a'')] @ map (stage_node ''a'' (run_statuses ''a'' graph_demo)) PIPELINE_STAGES @
        map (agent_run_node ''a'') (rows_of cag_audit_run_id ''a'' (fd_agent_runs graph_demo)) @
        map (container_node ''a'') (rows_of cct_audit_run_id ''a'' (fd_containers graph_demo)) @
        map (finding_node ''a'') (rows_of cfi_audit_run_id ''a'' (fd_findings graph_demo)) @
        map (evidence_node ''a'') (rows_of cvd_audit_run_id ''a'' (fd_evidence graph_demo)) @
        map (report_node ''a'') (rows_of crp_audit_run_id ''a'' (fd_reports graph_demo)) @
        map (card_node ''a'') (rows_of cwc_audit_run_id ''a'' (fd_cards graph_demo))))" (is "_ = PList (map PDict ?nodes)")
    by blast
  have "length ?nodes = 15" "map (\<lambda>n. dget n ''id'') (drop 13 ?nodes) = [PStr ''finding:f1'', PStr ''evidence:e1'']"
    by (simp_all add: PIPELINE_STAGES_def rows_of_def graph_demo_def demo_db_def finding_node_def evidence_node_def graph_node_def)
  then show ?thesis
    by (intro exI [of _ out] exI [of _ ?nodes] conjI out nodes)
qed

section \<open>The summary\<close>

lemma count_in_tally: "count_in ks (tally k c) = count_in ks c + (if k \<in> set ks then 1 else 0)"
  by (induction k c rule: tally.induct) (auto simp: count_in_def)

lemma count_in_fold:
  "count_in ks (fold (\<lambda>n. tally (f n)) ns c) = count_in ks c + length (filter (\<lambda>n. f n \<in> set ks) ns)"
  by (induction ns arbitrary: c) (simp_all add: count_in_tally)

lemma map_of_tally:
  "map_of (tally k c) k' =
     (if k' = k then Some (case map_of c k of None \<Rightarrow> 1 | Some n \<Rightarrow> n + 1) else map_of c k')"
  by (induction k c rule: tally.induct) auto

lemma map_of_fold_tally:
  "map_of (fold (\<lambda>n. tally (f n)) ns c) k =
     (let m = length (filter (\<lambda>n. f n = k) ns)
      in case map_of c k of None \<Rightarrow> if m = 0 then None else Some m | Some n \<Rightarrow> Some (n + m))"
  by (induction ns arbitrary: c) (auto simp: map_of_tally Let_def split: option.splits)

lemma dget_counts: "dget (dict_or_empty (counts_value c)) k = (case map_of c k of None \<Rightarrow> PNone | Some n \<Rightarrow> PInt (int n))"
  by (simp add: counts_value_def dget_def dlookup_def map_of_map split: option.splits)

lemma counted: "count_in ks (fold (\<lambda>n. tally (f n)) nodes []) = length (filter (\<lambda>x. f x \<in> set ks) nodes)"
  by (simp add: count_in_fold) (simp add: count_in_def)

text \<open>The summary counts what it says: \<open>by_kind\<close> has, for each kind there is, the number of its
  nodes; the completed, unfinished and failed nodes are those with such a status, and no node is
  counted twice.\<close>

lemma summary_counts:
  "let s = execution_graph_summary nodes;
       n = (\<lambda>ks. int (length (filter (\<lambda>x. node_status x \<in> set ks) nodes)));
       kinds = int (length (filter (\<lambda>x. node_kind x = k) nodes))
   in dget s ''node_count'' = PInt (int (length nodes)) \<and>
      dget (dict_or_empty (dget s ''by_kind'')) k = (if kinds = 0 then PNone else PInt kinds) \<and>
      dget s ''completed'' = PInt (n completed_statuses) \<and>
      dget s ''unfinished'' = PInt (n unfinished_statuses) \<and>
      dget s ''failed'' = PInt (n failed_statuses) \<and>
      n completed_statuses + n unfinished_statuses + n failed_statuses \<le> int (length nodes)"
proof -
  have split: "length (filter P xs) + length (filter Q xs) + length (filter R xs) \<le> length xs"
    if "\<And>x. \<not> (P x \<and> Q x)" "\<And>x. \<not> (P x \<and> R x)" "\<And>x. \<not> (Q x \<and> R x)" for P Q R and xs :: "dict list"
    using that by (induction xs) auto
  have "length (filter (\<lambda>x. node_status x \<in> set completed_statuses) nodes) +
        length (filter (\<lambda>x. node_status x \<in> set unfinished_statuses) nodes) +
        length (filter (\<lambda>x. node_status x \<in> set failed_statuses) nodes) \<le> length nodes"
    by (rule split) (auto simp: completed_statuses_def unfinished_statuses_def failed_statuses_def)
  then show ?thesis
    by (simp add: execution_graph_summary_def Let_def counted dget_counts map_of_fold_tally)
qed

section \<open>The statuses of the stages\<close>

lemma nested_no_stage: "dget (event_to_payload subj ty rid t p) ''stage'' = PNone" "dget (event_to_payload subj ty rid t p) ''step'' = PNone"
  by (simp_all add: event_to_payload_def)

lemma apply_nested:
  assumes "nested_event e"
  shows "apply_event e st = st"
proof -
  have "dget (cev_payload e) ''stage'' = PNone" "dget (cev_payload e) ''step'' = PNone"
    using assms nested_no_stage by (auto simp: nested_event_def)
  then have "event_stage e = []" by (simp add: event_stage_def por_def)
  then show ?thesis by (simp add: apply_event_def)
qed

lemma fold_nested: "list_all nested_event es \<Longrightarrow> fold apply_event es st = st"
  by (induction es arbitrary: st) (simp_all add: apply_nested)

text \<open>The events of a pipeline change no status of a stage in the graph: their payloads are nested,
  so the statuses come from the rows of the stages alone.\<close>

lemma pipeline_events_unseen:
  assumes "list_all nested_event (fd_events (fw_db s))" "pipeline_service env r s = (out, t)"
  shows "run_statuses rid (fw_db t) = stage_statuses (rows_of cst_audit_run_id rid (fd_stages (fw_db t))) []"
proof -
  have "fw_step (car_audit_run_id r) s t"
    using stepsD [OF steps_pipeline_service [of r env], of s] assms(2) by simp
  then have "list_all nested_event (fd_events (fw_db t))" using assms(1) by (auto simp: fw_step_def)
  then have "list_all nested_event (rows_of cev_audit_run_id rid (fd_events (fw_db t)))"
    by (auto simp: rows_of_def list_all_iff)
  then show ?thesis by (simp add: run_statuses_def stage_statuses_def fold_nested)
qed

lemma pipeline_events_unseen_witness:
  "\<exists>out t. pipeline_service demo_env (demo_run ''a'') (demo_state [demo_run ''a'']) = (Inr out, t) \<and>
     run_statuses ''a'' (fw_db t) = stage_statuses (rows_of cst_audit_run_id ''a'' (fd_stages (fw_db t))) []"
proof -
  obtain out t where r: "pipeline_service demo_env (demo_run ''a'') (demo_state [demo_run ''a'']) = (Inr out, t)"
    using demo_runs_on by blast
  have "list_all nested_event (fd_events (fw_db (demo_state [demo_run ''a''])))"
    by (simp add: demo_state_def demo_db_def)
  from pipeline_events_unseen [OF this r, of "''a''"] r show ?thesis by blast
qed

end
