(* ===== verification/Web_Contracts.thy ===== *)
theory Web_Contracts
  imports Web_Runs Web_Session Graph_Contracts
begin

text \<open>
  What the web API promises and what it lets out: keys of model profiles, runs that are created
  from a request, logins, and the two answers to whether a worker lives.
\<close>

section \<open>Keys of model profiles\<close>

text \<open>The public model configuration tells of a stored key only whether there is one and the
  preview of it: databases whose profiles agree on everything else are answered alike, and no item
  has the key.\<close>

lemma public_config_hides_keys:
  assumes "map keyless (fd_profiles d) = map keyless (fd_profiles d')"
  shows "agent_model_config ops False d = agent_model_config ops False d' \<and>
         (\<forall>role \<in> set AGENT_MODEL_ROLES. \<exists>item. dget (dict_or_empty (dget (agent_model_config ops False d) ''roles'')) role = PDict item \<and>
            \<not> dmem item ''api_key'')"
proof (rule conjI [OF public_config_keyless [OF assms]], rule ballI)
  fix role assume "role \<in> set AGENT_MODEL_ROLES"
  let ?item = "\<lambda>role. public_item (row_or_default ops role (row_find cmp_role role (fd_profiles d)))"
  have roles: "dict_or_empty (dget (agent_model_config ops False d) ''roles'') = map (\<lambda>role. (role, PDict (?item role))) AGENT_MODEL_ROLES"
    by (simp add: agent_model_config_def role_items_def)
  have look: "dget (map (\<lambda>role. (role, PDict (f role))) rs) role = PDict (f role)" if "role \<in> set rs" for f rs
    using that by (induction rs) auto
  show "\<exists>item. dget (dict_or_empty (dget (agent_model_config ops False d) ''roles'')) role = PDict item \<and> \<not> dmem item ''api_key''"
    unfolding roles using look [OF \<open>role \<in> set AGENT_MODEL_ROLES\<close>, of ?item] public_item_no_key by blast
qed

definition demo_ops :: number_ops where
  "demo_ops = \<lparr>no_tenth = PStr ''0.1'', no_float = (\<lambda>v. Inr v)\<rparr>"

definition demo_profile :: "string \<Rightarrow> model_profile" where
  "demo_profile key = (blank_profile 1 ''orchestrator'')\<lparr>cmp_model_name := ''m'', cmp_api_key := Some key\<rparr>"

definition profile_db :: "string \<Rightarrow> flow_db" where
  "profile_db key = (demo_db [])\<lparr>fd_profiles := [demo_profile key]\<rparr>"

lemma public_config_hides_keys_witness:
  "agent_model_config demo_ops False (profile_db ''sk-1aaaaaaaaaaaa9999'') =
   agent_model_config demo_ops False (profile_db ''sk-1bbbbbbbb9999'')"
proof -
  have "map keyless (fd_profiles (profile_db ''sk-1aaaaaaaaaaaa9999'')) = map keyless (fd_profiles (profile_db ''sk-1bbbbbbbb9999''))"
    by (simp add: profile_db_def demo_profile_def keyless_def secret_preview_def)
  from public_config_hides_keys [OF this] show ?thesis by blast
qed

section \<open>Created runs\<close>

lemma dget_dmerge:
  "distinct (map fst b) \<Longrightarrow> dget (dmerge a b) k = (if dmem b k then dget b k else dget a k)"
  by (simp add: dget_def dlookup_dmerge dmem_def split: option.splits)

lemma dget_setdefault [simp]: "dget (dsetdefault d k v) k' = (if k' = k \<and> \<not> dmem d k then v else dget d k')"
  by (simp add: dsetdefault_def)

lemma dmem_setdefault [simp]: "dmem (dsetdefault d k v) k' = (k' = k \<or> dmem d k')"
  by (auto simp: dsetdefault_def)

lemma distinct_setdefault: "distinct (map fst d) \<Longrightarrow> distinct (map fst (dsetdefault d k v))"
  by (simp add: dsetdefault_def distinct_dset)

text \<open>The configuration of a created run: what the request says, apart from the keys the API sets.\<close>

definition created_config :: "number_ops \<Rightarrow> create_run_payload \<Rightarrow> flow_db \<Rightarrow> common_snapshot \<Rightarrow> pyval \<Rightarrow> dict" where
  "created_config ops p d snapshot swarm =
     dmerge SCHEMA (dset (base_config ops p snapshot d) ''whiteboard_swarm'' swarm)"

definition OWN_KEYS :: "string list" where
  "OWN_KEYS = [''schema_version'', ''model_overrides'', ''enabled_agents'', ''workspace_host_path'', ''enable_whiteboard'',
     ''enable_whiteboard_swarm'', ''whiteboard_swarm'']"

lemma created_config_get:
  assumes "distinct (map fst (cp_config p))"
  shows "k \<notin> set OWN_KEYS \<Longrightarrow> dget (created_config ops p d snapshot swarm) k = dget (cp_config p) k"
    and "dget (created_config ops p d snapshot swarm) ''enabled_agents'' = PList (map PStr (cp_enabled_agents p))"
    and "dget (created_config ops p d snapshot swarm) ''workspace_host_path'' = PStr (csn_workspace_path snapshot)"
    and "dget (created_config ops p d snapshot swarm) ''model_overrides'' =
           PDict (dmerge (model_overrides ops d) (dict_or_empty (dget (cp_config p) ''model_overrides'')))"
proof -
  have "distinct (map fst (dset (base_config ops p snapshot d) ''whiteboard_swarm'' swarm))"
    using assms by (simp add: base_config_def merge_model_overrides_def distinct_dset distinct_setdefault)
  note merged = dget_dmerge [OF this, of SCHEMA]
  have get: "dget (created_config ops p d snapshot swarm) k =
      (if dmem (dset (base_config ops p snapshot d) ''whiteboard_swarm'' swarm) k
       then dget (dset (base_config ops p snapshot d) ''whiteboard_swarm'' swarm) k else dget SCHEMA k)" for k
    by (simp only: created_config_def merged)
  show "k \<notin> set OWN_KEYS \<Longrightarrow> dget (created_config ops p d snapshot swarm) k = dget (cp_config p) k"
    by (simp add: get OWN_KEYS_def base_config_def merge_model_overrides_def SCHEMA_def dget_not_mem)
  show "dget (created_config ops p d snapshot swarm) ''enabled_agents'' = PList (map PStr (cp_enabled_agents p))"
    "dget (created_config ops p d snapshot swarm) ''workspace_host_path'' = PStr (csn_workspace_path snapshot)"
    "dget (created_config ops p d snapshot swarm) ''model_overrides'' =
       PDict (dmerge (model_overrides ops d) (dict_or_empty (dget (cp_config p) ''model_overrides'')))"
    by (simp_all add: get base_config_def merge_model_overrides_def)
qed

lemma create_created:
  assumes "create_audit_run ops p d = Inr (view, d')"
  shows "\<exists>r snapshot swarm. fd_runs d' = fd_runs d @ [r] \<and> view = new_run_view r \<and>
     resolve_snapshot (cp_project_id p) (cp_snapshot_id p) d = Inr snapshot \<and>
     car_status r = ''created'' \<and> car_project_id r = cp_project_id p \<and>
     car_snapshot_id r = Some (csn_snapshot_id snapshot) \<and> car_workspace_path r = Some (csn_workspace_path snapshot) \<and>
     car_config r = created_config ops p d snapshot swarm"
  using assms
  by (auto simp: create_audit_run_def rbind_Inr_iff run_create_def Let_def normalized_config_def created_config_def
        new_id_def split: prod.splits)

lemma resolve_snapshot_ready:
  assumes "resolve_snapshot pid sid d = Inr s"
  shows "s \<in> set (fd_snapshots d) \<and> csn_project_id s = pid \<and> csn_status s = ''ready''"
proof -
  let ?ready = "filter (\<lambda>s. csn_project_id s = pid \<and> csn_status s = ''ready'') (fd_snapshots d)"
  let ?rows = "if sid \<in> {None, Some []} then sort_key (\<lambda>s. - created_at s) ?ready else filter (\<lambda>s. Some (csn_snapshot_id s) = sid) ?ready"
  obtain rest where "?rows = s # rest"
    using assms by (auto simp: resolve_snapshot_def Let_def split: list.splits if_splits)
  then have "s \<in> set ?rows" by simp
  then show ?thesis by (auto split: if_splits)
qed

text \<open>A run that is created from a request belongs to a ready snapshot of the project and has its
  path as workspace. Whether a worker can claim it, and can read its stages, is up to the request;
  its agents are those of \<open>enabled_agents\<close>, whatever the configuration in the request says of them.\<close>

lemma created_run_shape:
  assumes "create_audit_run ops p d = Inr (view, d')" "distinct (map fst (cp_config p))"
  shows "\<exists>r snapshot. fd_runs d' = fd_runs d @ [r] \<and> snapshot \<in> set (fd_snapshots d) \<and>
     csn_project_id snapshot = cp_project_id p \<and> csn_status snapshot = ''ready'' \<and>
     car_workspace_path r = Some (csn_workspace_path snapshot) \<and> plain_workspace r \<and>
     (claimable r \<longleftrightarrow> \<not> isl (spread (dget (cp_config p) ''runtime_control''))) \<and>
     (readable_stages r \<longleftrightarrow> \<not> isl (py_set (por (dget (cp_config p) ''disabled_stages'') (PList [])))) \<and>
     (\<forall>role. runner_agent_enabled (car_config r) role \<longleftrightarrow> cp_enabled_agents p = [] \<or> role \<in> set (cp_enabled_agents p))"
proof -
  obtain r snapshot swarm where r: "fd_runs d' = fd_runs d @ [r]"
      "resolve_snapshot (cp_project_id p) (cp_snapshot_id p) d = Inr snapshot"
      "car_workspace_path r = Some (csn_workspace_path snapshot)"
      "car_config r = created_config ops p d snapshot swarm"
    using create_created [OF assms(1)] by blast
  note get = created_config_get [OF assms(2), where ops = ops and d = d and snapshot = snapshot and swarm = swarm, folded r(4)]
  have "plain_workspace r"
    by (cases "csn_workspace_path snapshot = []") (simp_all add: plain_workspace_def workspace_value_def r(3) get(3) por_def)
  moreover have "claimable r \<longleftrightarrow> \<not> isl (spread (dget (cp_config p) ''runtime_control''))"
    by (simp add: claimable_def get(1) OWN_KEYS_def)
  moreover have "readable_stages r \<longleftrightarrow> \<not> isl (py_set (por (dget (cp_config p) ''disabled_stages'') (PList [])))"
    by (simp add: readable_stages_def get(1) OWN_KEYS_def)
  moreover have "runner_agent_enabled (car_config r) role \<longleftrightarrow> cp_enabled_agents p = [] \<or> role \<in> set (cp_enabled_agents p)" for role
    by (auto simp: runner_agent_enabled_def get(2))
  ultimately show ?thesis using r(1,3) resolve_snapshot_ready [OF r(2)] by blast
qed

definition demo_payload :: "dict \<Rightarrow> create_run_payload" where
  "demo_payload config =
     \<lparr>cp_project_id = ''project-1'', cp_snapshot_id = None, cp_enabled_agents = [], cp_allow_external_network = False,
      cp_retain_runtime_on_failure = False, cp_input_payload = [], cp_config = config\<rparr>"

definition demo_snapshot :: common_snapshot where
  "demo_snapshot =
     \<lparr>created_at = 1, updated_at = 1, csn_snapshot_id = ''snapshot-1'', csn_project_id = ''project-1'',
      csn_source_type = ''git'', csn_source_ref = None, csn_workspace_path = ''/w'', csn_artifact_path = None,
      csn_content_hash = None, csn_status = ''ready'', csn_metadata = []\<rparr>"

definition web_db :: "string \<Rightarrow> flow_db" where
  "web_db key = (profile_db key)\<lparr>fd_snapshots := [demo_snapshot]\<rparr>"

lemma demo_created:
  assumes "dget config ''whiteboard_swarm'' = PNone"
  shows "\<exists>view d'. create_audit_run demo_ops (demo_payload config) (web_db key) = Inr (view, d')"
proof -
  have "resolve_snapshot ''project-1'' None (web_db key) = Inr demo_snapshot"
    by (simp add: resolve_snapshot_def web_db_def demo_snapshot_def Let_def)
  moreover have "dget (base_config demo_ops (demo_payload config) demo_snapshot d) ''whiteboard_swarm'' = PNone" for d
    using assms by (simp add: base_config_def merge_model_overrides_def demo_payload_def)
  ultimately show ?thesis
    by (simp add: create_audit_run_def demo_payload_def normalized_config_def dict_of_def por_def Let_def run_create_def new_id_def)
qed

lemma created_run_shape_witness:
  "\<exists>view d' r. create_audit_run demo_ops (demo_payload [(''runtime_control'', PStr ''x'')]) (web_db []) = Inr (view, d') \<and>
     fd_runs d' = [r] \<and> \<not> claimable r \<and> plain_workspace r"
proof -
  obtain view d' where c: "create_audit_run demo_ops (demo_payload [(''runtime_control'', PStr ''x'')]) (web_db []) = Inr (view, d')"
    using demo_created [of "[(''runtime_control'', PStr ''x'')]" "[]"] by auto
  have "distinct (map fst (cp_config (demo_payload [(''runtime_control'', PStr ''x'')])))" by (simp add: demo_payload_def)
  from created_run_shape [OF c this] c show ?thesis
    by (auto simp: demo_payload_def spread_def web_db_def profile_db_def demo_db_def)
qed

section \<open>A key in the view of a run\<close>

lemma model_overrides_get:
  assumes "role \<in> set AGENT_MODEL_ROLES" "row_find cmp_role role (fd_profiles d) = Some prof"
    and "str_strip (cmp_model_name prof) \<noteq> []"
  shows "dget (model_overrides ops d) role = PDict (model_override (row_or_default ops role (Some prof)))"
proof -
  have look: "dget (map (\<lambda>(role, item). (role, PDict (g item))) (filter (\<lambda>(_, item). h item) (map (\<lambda>role. (role, f role)) rs))) role = PDict (g (f role))"
    if "role \<in> set rs" "h (f role)" for rs and f :: "string \<Rightarrow> dict" and g h
    using that by (induction rs) auto
  have "has_model (row_or_default ops role (Some prof))"
    using assms(3) by (auto simp: has_model_def row_or_default_def or_default_def por_def)
  then show ?thesis
    using assms(1,2) unfolding model_overrides_def role_items_def
    by (subst look) simp_all
qed

lemma dget_dmerge_other: "\<not> dmem b k \<Longrightarrow> dget (dmerge a b) k = dget a k"
  by (induction a b rule: dmerge.induct) auto

text \<open>C40. When a role has a stored key and a stored model name that is not blank, and the request has
  no override of that role, whatever it overrides of others, the key is in the configuration of the
  run that is created, and so it is in the answer to the request and in the view of the stored run.\<close>

theorem run_view_leaks_key:
  assumes "create_audit_run ops p d = Inr (view, d')" "distinct (map fst (cp_config p))"
    and "role \<in> set AGENT_MODEL_ROLES" "row_find cmp_role role (fd_profiles d) = Some prof"
    and "cmp_api_key prof = Some key" "key \<noteq> []" "str_strip (cmp_model_name prof) \<noteq> []"
    and "\<not> dmem (dict_or_empty (dget (cp_config p) ''model_overrides'')) role"
  shows "\<exists>r. fd_runs d' = fd_runs d @ [r] \<and>
     (\<forall>v \<in> {view, audit_run_to_bff r}.
        dget (dict_or_empty (dget (dict_or_empty (dget (dict_or_empty (dget v ''config'')) ''model_overrides'')) role)) ''api_key'' = PStr key)"
proof -
  obtain r snapshot swarm where r: "fd_runs d' = fd_runs d @ [r]" "view = new_run_view r"
      "car_config r = created_config ops p d snapshot swarm"
    using create_created [OF assms(1)] by blast
  have config: "dget view ''config'' = PDict (car_config r)" "dget (audit_run_to_bff r) ''config'' = PDict (car_config r)"
    by (simp_all add: r(2) new_run_view_def unflushed_def audit_run_to_bff_def)
  have "dget (dict_or_empty (dget (car_config r) ''model_overrides'')) role = dget (model_overrides ops d) role"
    by (simp add: r(3) created_config_get(4) [OF assms(2)] dget_dmerge_other [OF assms(8)])
  moreover have "dget (model_override (row_or_default ops role (Some prof))) ''api_key'' = PStr key"
    using assms(5,6) by (simp add: model_override_def row_or_default_def or_empty_def)
  ultimately show ?thesis using r(1) config by (simp add: model_overrides_get [OF assms(3,4,7)])
qed

theorem run_view_leaks_key_witness:
  "\<exists>view d' r. create_audit_run demo_ops (demo_payload []) (web_db ''sk-1aaaaaaaaaaaa9999'') = Inr (view, d') \<and> fd_runs d' = [r] \<and>
     dget (dict_or_empty (dget (dict_or_empty (dget (dict_or_empty (dget view ''config'')) ''model_overrides'')) ''orchestrator'')) ''api_key''
       = PStr ''sk-1aaaaaaaaaaaa9999''"
proof -
  let ?d = "web_db ''sk-1aaaaaaaaaaaa9999''"
  obtain view d' where c: "create_audit_run demo_ops (demo_payload []) ?d = Inr (view, d')"
    using demo_created [of "[]" "''sk-1aaaaaaaaaaaa9999''"] by auto
  have prof: "row_find cmp_role ''orchestrator'' (fd_profiles ?d) = Some (demo_profile ''sk-1aaaaaaaaaaaa9999'')"
    by (simp add: web_db_def profile_db_def demo_profile_def blank_profile_def)
  have "distinct (map fst (cp_config (demo_payload [])))" "''orchestrator'' \<in> set AGENT_MODEL_ROLES"
    "cmp_api_key (demo_profile ''sk-1aaaaaaaaaaaa9999'') = Some ''sk-1aaaaaaaaaaaa9999''" "''sk-1aaaaaaaaaaaa9999'' \<noteq> []"
    "str_strip (cmp_model_name (demo_profile ''sk-1aaaaaaaaaaaa9999'')) \<noteq> []"
    "\<not> dmem (dict_or_empty (dget (cp_config (demo_payload [])) ''model_overrides'')) ''orchestrator''"
    by (simp_all add: demo_payload_def AGENT_MODEL_ROLES_def demo_profile_def str_strip_def strip_by_def is_ws_def)
  from run_view_leaks_key [OF c this(1,2) prof this(3-6)] c show ?thesis
    by (auto simp: web_db_def profile_db_def demo_db_def)
qed

section \<open>Saving profiles\<close>

lemma save_role_effect:
  assumes "save_role ops inc role d = Inr (x, d')"
  shows "\<And>k. k \<noteq> role \<Longrightarrow> row_find cmp_role k (fd_profiles d') = row_find cmp_role k (fd_profiles d)"
    and "\<exists>i v r. dget_or inc role (PDict []) = PDict i \<and> row_find cmp_role role (fd_profiles d') = Some r \<and>
           merge_profile ops (case row_find cmp_role role (fd_profiles d) of None \<Rightarrow> blank_profile (fd_now d) role | Some e \<Rightarrow> e) i = Inr v \<and>
           cmp_api_key r = none_if_empty (pf_api_key v) \<and> cmp_model_name r = pf_model_name v"
    and "fd_now d' = fd_now d"
proof -
  obtain i where i: "dget_or inc role (PDict []) = PDict i"
    using assms by (auto simp: save_role_def split: pyval.splits)
  let ?row = "row_find cmp_role role (fd_profiles d)"
  obtain v where v: "merge_profile ops (case ?row of None \<Rightarrow> blank_profile (fd_now d) role | Some e \<Rightarrow> e) i = Inr v"
    using assms by (auto simp: save_role_def i rbind_Inr_iff split: option.splits)
  have d': "d' = d\<lparr>fd_profiles := (case ?row of
      None \<Rightarrow> fd_profiles d @ [assign_profile v (blank_profile (fd_now d) role)]
    | Some _ \<Rightarrow> row_upd cmp_role role (\<lambda>r. stamped (fd_now d) r (assign_profile v r)) (fd_profiles d))\<rparr>"
    using assms v by (auto simp: save_role_def i rbind_Inr_iff split: option.splits)
  let ?f = "\<lambda>r. stamped (fd_now d) r (assign_profile v r)"
  have role: "cmp_role (?f r) = cmp_role r" for r
    by (simp add: stamped_def assign_profile_def)
  have named: "cmp_role (assign_profile v r) = cmp_role r" for r by (simp add: assign_profile_def)
  note other = row_find_upd_other [where key = cmp_role and f = ?f, OF role]
  note same = row_find_upd_same [where key = cmp_role and f = ?f, OF role]
  show "fd_now d' = fd_now d" by (simp add: d')
  show "row_find cmp_role k (fd_profiles d') = row_find cmp_role k (fd_profiles d)" if "k \<noteq> role" for k
    using that
    by (cases ?row)
       (simp_all add: d' row_find_append other named blank_profile_def split: option.splits)
  have fields: "cmp_api_key (assign_profile v r) = none_if_empty (pf_api_key v)"
      "cmp_model_name (assign_profile v r) = pf_model_name v" for r
    by (simp_all add: assign_profile_def)
  have stamp: "cmp_api_key (stamped t r q) = cmp_api_key q" "cmp_model_name (stamped t r q) = cmp_model_name q" for t r q
    by (simp_all add: stamped_def)
  have "\<exists>r. row_find cmp_role role (fd_profiles d') = Some r \<and> cmp_api_key r = none_if_empty (pf_api_key v) \<and>
          cmp_model_name r = pf_model_name v"
    by (cases ?row) (simp_all add: d' row_find_append same named fields stamp blank_profile_def)
  then show "\<exists>i v r. dget_or inc role (PDict []) = PDict i \<and> row_find cmp_role role (fd_profiles d') = Some r \<and>
           merge_profile ops (case ?row of None \<Rightarrow> blank_profile (fd_now d) role | Some e \<Rightarrow> e) i = Inr v \<and>
           cmp_api_key r = none_if_empty (pf_api_key v) \<and> cmp_model_name r = pf_model_name v"
    using i v by blast
qed

definition stored_key :: "string \<Rightarrow> flow_db \<Rightarrow> string" where
  "stored_key role d =
     (case row_find cmp_role role (fd_profiles d) of
        None \<Rightarrow> [] | Some r \<Rightarrow> (case cmp_api_key r of None \<Rightarrow> [] | Some k \<Rightarrow> k))"

lemma merged_key:
  assumes "merge_profile ops e i = Inr v"
  shows "pf_api_key v = (if truthy (dget i ''api_key'') then py_str (dget i ''api_key'')
                          else case cmp_api_key e of None \<Rightarrow> [] | Some k \<Rightarrow> k)"
  using assms by (auto simp: merge_profile_def rbind_Inr_iff Let_def row_or_default_def or_empty_def por_def)

lemma saved_roles:
  assumes "tx_map (save_role ops inc) roles d = Inr (xs, d')" "distinct roles" "role \<in> set roles"
  shows "\<exists>i. dget_or inc role (PDict []) = PDict i \<and>
     stored_key role d' = (if truthy (dget i ''api_key'') then py_str (dget i ''api_key'') else stored_key role d)"
  using assms
proof (induction roles arbitrary: d xs)
  case Nil
  then show ?case by simp
next
  case (Cons q roles)
  obtain x d1 ys where d1: "save_role ops inc q d = Inr (x, d1)" "tx_map (save_role ops inc) roles d1 = Inr (ys, d')"
    using Cons.prems(1) by (auto simp: tx_bind_Inr_iff)
  have later: "row_find cmp_role q (fd_profiles d') = row_find cmp_role q (fd_profiles d1)"
    if "q \<notin> set roles"
    using d1(2) that
  proof (induction roles arbitrary: d1 ys)
    case (Cons p ps)
    then obtain y d2 zs where d2: "save_role ops inc p d1 = Inr (y, d2)" "tx_map (save_role ops inc) ps d2 = Inr (zs, d')"
      by (auto simp: tx_bind_Inr_iff)
    then show ?case using Cons save_role_effect(1) [OF d2(1), of q] by simp
  qed (simp add: tx_ret_def)
  show ?case
  proof (cases "role = q")
    case True
    obtain i v r where e: "dget_or inc q (PDict []) = PDict i" "row_find cmp_role q (fd_profiles d1) = Some r"
        "merge_profile ops (case row_find cmp_role q (fd_profiles d) of None \<Rightarrow> blank_profile (fd_now d) q | Some e \<Rightarrow> e) i = Inr v"
        "cmp_api_key r = none_if_empty (pf_api_key v)"
      using save_role_effect(2) [OF d1(1)] by blast
    have "stored_key q d' = pf_api_key v"
      using later Cons.prems(2) e(2,4) by (simp add: stored_key_def none_if_empty_def)
    then show ?thesis
      using True e(1) merged_key [OF e(3)]
      by (auto simp: stored_key_def blank_profile_def split: option.splits)
  next
    case False
    then have "stored_key role d1 = stored_key role d"
      using save_role_effect(1) [OF d1(1), of role] by (simp add: stored_key_def)
    moreover have "distinct roles" "role \<in> set roles" using Cons.prems(2,3) False by auto
    ultimately show ?thesis using Cons.IH [OF d1(2)] by metis
  qed
qed

text \<open>Saving the model configuration stores the key of a role where the request has one and
  keeps the stored one where it has none: a stored key can be replaced but not removed.\<close>

lemma saved_keys:
  assumes "save_agent_model_config ops payload d = Inr (out, d')" "role \<in> set AGENT_MODEL_ROLES"
  shows "\<exists>i. dget_or (incoming_roles_of payload) role (PDict []) = PDict i \<and>
     stored_key role d' = (if truthy (dget i ''api_key'') then py_str (dget i ''api_key'') else stored_key role d) \<and>
     (stored_key role d \<noteq> [] \<longrightarrow> stored_key role d' \<noteq> [])"
proof -
  obtain xs where "tx_map (save_role ops (incoming_roles_of payload)) AGENT_MODEL_ROLES d = Inr (xs, d')"
    using assms(1) by (auto simp: save_agent_model_config_def tx_bind_Inr_iff tx_gets_Inr_iff)
  moreover have "distinct AGENT_MODEL_ROLES" by (simp add: AGENT_MODEL_ROLES_def)
  ultimately obtain i where i: "dget_or (incoming_roles_of payload) role (PDict []) = PDict i"
      "stored_key role d' = (if truthy (dget i ''api_key'') then py_str (dget i ''api_key'') else stored_key role d)"
    using saved_roles assms(2) by blast
  have "py_str v \<noteq> []" if "truthy v" for v
    using that by (cases v) (auto simp: int_str_def)
  then show ?thesis using i by auto
qed

lemma saved_keys_witness:
  "\<exists>out d'. save_agent_model_config demo_ops [] (profile_db ''sk-1aaaaaaaaaaaa9999'') = Inr (out, d') \<and>
     stored_key ''orchestrator'' d' = ''sk-1aaaaaaaaaaaa9999''"
proof -
  let ?d = "profile_db ''sk-1aaaaaaaaaaaa9999''"
  have "\<not> isl (save_agent_model_config demo_ops [] ?d)" by code_simp
  then obtain out d' where saved: "save_agent_model_config demo_ops [] ?d = Inr (out, d')"
    by (cases "save_agent_model_config demo_ops [] ?d") auto
  have "''orchestrator'' \<in> set AGENT_MODEL_ROLES" by (simp add: AGENT_MODEL_ROLES_def)
  from saved_keys [OF saved this] saved show ?thesis
    by (auto simp: incoming_roles_of_def stored_key_def profile_db_def demo_profile_def blank_profile_def dget_or_def)
qed

section \<open>Logging in\<close>

text \<open>The token a login answers with is accepted as the bootstrap administrator, in the header of
  the API as well as in a bearer authorization.\<close>

lemma login_token_authenticates:
  assumes "session_login ws payload = Inr out" "dget out ''access_token'' = PStr token"
    and "header hs (ws_api_key_header ws) = Some token \<or>
         header hs (ws_api_key_header ws) = None \<and> header hs ''Authorization'' = Some (''Bearer '' @ token)"
  shows "session_authenticate hash wall ws hs d = (Some bootstrap_admin, d)"
proof -
  have t: "token = str_strip (ws_api_key ws)" "token \<noteq> []"
    using assms(1,2) by (auto simp: session_login_def Let_def split: option.splits if_splits)
  have lower: "str_lower ''Bearer'' = ''bearer''" by code_simp
  have bearer: "session_bearer_token (Some (''Bearer '' @ token)) = Some token"
    using t by (simp add: session_bearer_token_def Let_def lower)
  have "session_supplied_key ws hs = Some token"
    using assms(3) t bearer by (auto simp: session_supplied_key_def Let_def)
  then show ?thesis using t by (simp add: session_authenticate_def Let_def)
qed

definition demo_web_settings :: web_settings where
  "demo_web_settings =
     \<lparr>ws_service_name = ''web-api'', ws_api_key_header = ''X-API-Key'', ws_api_key = '' k1 '',
      ws_admin_username = ''admin'', ws_admin_password = ''pw''\<rparr>"

definition demo_login :: dict where
  "demo_login = [(''username'', PStr '' admin''), (''password'', PStr ''pw'')]"

definition demo_admin :: dict where
  "demo_admin = [(''key_id'', PStr ''admin''), (''name'', PStr ''Administrator''),
                 (''scopes'', PList [PStr ''admin'']), (''source'', PStr ''password'')]"

lemma login_demo:
  "session_login demo_web_settings demo_login =
     Inr [(''authenticated'', PBool True), (''access_token'', PStr ''k1''), (''api_key_header'', PStr ''X-API-Key''),
          (''principal'', PDict demo_admin), (''service'', PStr ''web-api'')]"
  by code_simp

definition bearer_headers :: web_headers where
  "bearer_headers name = (if name = ''authorization'' then Some ''Bearer k1'' else None)"

lemma login_token_authenticates_witness:
  "session_authenticate hash wall demo_web_settings bearer_headers d = (Some bootstrap_admin, d)"
proof -
  obtain out where out: "session_login demo_web_settings demo_login = Inr out" "dget out ''access_token'' = PStr ''k1''"
    by (simp add: login_demo that)
  have "header bearer_headers (ws_api_key_header demo_web_settings) = None \<and>
        header bearer_headers ''Authorization'' = Some (''Bearer '' @ ''k1'')"
    by code_simp
  then show ?thesis using login_token_authenticates [OF out] by blast
qed

section \<open>Does a worker live?\<close>

definition live_worker :: "time \<Rightarrow> int \<Rightarrow> common_heartbeat \<Rightarrow> bool" where
  "live_worker now max_age r =
     (chb_service_name r = ''workflow-worker'' \<and> chb_status r \<noteq> ''stopped'' \<and> now - chb_last_seen_at r \<le> seconds max_age)"

lemma rmap_Inr: "(\<And>x. x \<in> set xs \<Longrightarrow> f x = Inr (g x)) \<Longrightarrow> rmap f xs = Inr (map g xs)"
  by (induction xs) auto

text \<open>The API reports the runtime as ready exactly if some workflow worker that is not stopped was
  seen lately enough; when the health check of the worker container passes, it does.\<close>

lemma readiness_iff_live:
  assumes "\<forall>r \<in> set (fd_heartbeats d). fromiso (iso_utc (chb_last_seen_at r)) = Some (chb_last_seen_at r)"
  shows "\<exists>out. runtime_readiness fromiso now max_age d = Inr out \<and>
     dget out ''ok'' = PBool (\<exists>r \<in> set (fd_heartbeats d). live_worker now max_age r) \<and>
     (worker_healthcheck now max_age d = None \<longrightarrow> dget out ''ok'' = PBool True)"
proof -
  let ?rows = "sort_key (\<lambda>r. - chb_last_seen_at r) (fd_heartbeats d)"
  have "iso_utc t \<noteq> []" for t by (simp add: iso_utc_def Let_def split: prod.splits)
  then have "fresh_worker fromiso now max_age (common_heartbeat_view r) = Inr (live_worker now max_age r)"
    if "r \<in> set ?rows" for r
    using assms that by (auto simp: fresh_worker_def common_heartbeat_view_def live_worker_def pytime_def)
  then have "rmap (fresh_worker fromiso now max_age) (map common_heartbeat_view ?rows) = Inr (map (live_worker now max_age) ?rows)"
    by (subst rmap_Inr [where g = "\<lambda>w. case fresh_worker fromiso now max_age w of Inl _ \<Rightarrow> False | Inr b \<Rightarrow> b"]) auto
  moreover have "map dict_or_empty (list_or_empty (dget (worker_heartbeats_view d) ''workers'')) = map common_heartbeat_view ?rows"
    by (simp add: worker_heartbeats_view_def)
  ultimately obtain out where out: "runtime_readiness fromiso now max_age d = Inr out"
      "dget out ''ok'' = PBool (0 < length (filter id (map (live_worker now max_age) ?rows)))"
    by (simp add: runtime_readiness_def Let_def filter_map o_def)
  have live: "0 < length (filter id (map (live_worker now max_age) ?rows)) \<longleftrightarrow> (\<exists>r \<in> set (fd_heartbeats d). live_worker now max_age r)"
    by (auto simp: filter_empty_conv)
  have "\<exists>r \<in> set (fd_heartbeats d). live_worker now max_age r" if healthy: "worker_healthcheck now max_age d = None"
  proof -
    let ?ws = "sort_key (\<lambda>r. - chb_last_seen_at r) (filter (\<lambda>r. chb_service_name r = ''workflow-worker'') (fd_heartbeats d))"
    obtain row rest where ws: "?ws = row # rest" and row: "now - chb_last_seen_at row \<le> seconds max_age" "chb_status row \<noteq> ''stopped''"
      using healthy by (auto simp: worker_healthcheck_def split: list.splits if_splits)
    have "row \<in> set ?ws" by (simp add: ws)
    then show ?thesis using row by (auto simp: live_worker_def)
  qed
  then show ?thesis using out live by auto
qed


definition demo_heartbeat :: common_heartbeat where
  "demo_heartbeat =
     \<lparr>created_at = 0, updated_at = 0, chb_worker_id = ''w'', chb_service_name = ''workflow-worker'', chb_hostname = ''h'', chb_status = ''idle'',
      chb_last_seen_at = 0, chb_current_audit_run_id = None, chb_metadata = []\<rparr>"

lemma readiness_iff_live_witness:
  "\<exists>out. runtime_readiness (\<lambda>_. Some 0) 1 30 ((demo_db [])\<lparr>fd_heartbeats := [demo_heartbeat]\<rparr>) = Inr out \<and>
     dget out ''ok'' = PBool True"
proof -
  let ?d = "(demo_db [])\<lparr>fd_heartbeats := [demo_heartbeat]\<rparr>"
  have "\<forall>r \<in> set (fd_heartbeats ?d). (\<lambda>_. Some 0) (iso_utc (chb_last_seen_at r)) = Some (chb_last_seen_at r)"
    by (simp add: demo_heartbeat_def)
  from readiness_iff_live [OF this, of 1 30] show ?thesis
    by (auto simp: demo_heartbeat_def live_worker_def seconds_def)
qed

end
