(* ===== verification/Readiness.thy ===== *)
theory Readiness
  imports Worker_Fleet Agent_Registry "HOL-Library.List_Lexorder" "HOL-Library.Char_ord"
begin

text \<open>
  The readiness report of the platform (\<open>services/platform/app/api/readiness.py\<close>): one check per
  guard rail, each a dictionary with a status, and their summary. Settings are a record; a value
  that is only shown (a number of seconds that may be a float) is a parameter.
\<close>

section \<open>Guard rails\<close>

record readiness_settings =
  rs_max_request_body_bytes :: int
  rs_max_upload_bytes :: int
  rs_rate_limit_per_minute :: int
  rs_rate_limit_window_seconds :: int
  rs_max_workspace_files :: int
  rs_max_workspace_uncompressed_bytes :: int
  rs_allowed_git_url_schemes :: string
  rs_allowed_git_hosts :: string
  rs_pipeline_recovery_on_startup :: bool
  rs_pipeline_execution_backend :: string

definition strs :: "string list \<Rightarrow> pyval" where
  "strs xs = PList (map PStr xs)"

text \<open>The settings, named as in the environment, that are not positive.\<close>

definition not_positive :: "(int \<times> string) list \<Rightarrow> string list" where
  "not_positive limits = map snd (filter (\<lambda>(n, _). n \<le> 0) limits)"

definition pass_or_fail :: "bool \<Rightarrow> pyval" where
  "pass_or_fail ok = PStr (if ok then ''pass'' else ''fail'')"

definition http_guardrails_readiness_check :: "readiness_settings \<Rightarrow> dict" where
  "http_guardrails_readiness_check s =
     (let missing = not_positive
            [(rs_max_request_body_bytes s, ''MAX_REQUEST_BODY_BYTES''), (rs_max_upload_bytes s, ''MAX_UPLOAD_BYTES''),
             (rs_rate_limit_per_minute s, ''RATE_LIMIT_PER_MINUTE''),
             (rs_rate_limit_window_seconds s, ''RATE_LIMIT_WINDOW_SECONDS'')]
      in [(''id'', PStr ''http_guardrails''), (''title'', PStr ''HTTP request guard rails are enabled''),
          (''status'', pass_or_fail (missing = [])),
          (''detail'', PDict
             [(''max_request_body_bytes'', PInt (rs_max_request_body_bytes s)),
              (''max_upload_bytes'', PInt (rs_max_upload_bytes s)),
              (''rate_limit_per_minute'', PInt (rs_rate_limit_per_minute s)),
              (''rate_limit_window_seconds'', PInt (rs_rate_limit_window_seconds s)),
              (''missing_or_disabled'', strs missing)]),
          (''remediation'', strs (if missing = [] then [] else
             [''Set MAX_REQUEST_BODY_BYTES and MAX_UPLOAD_BYTES to positive byte limits for source uploads.'',
              ''Set RATE_LIMIT_PER_MINUTE and RATE_LIMIT_WINDOW_SECONDS to positive values for single-node API throttling.'',
              ''Use nginx, WAF, or ingress-level rate limiting before exposing multi-node deployments.'']))])"

definition csv_values :: "string \<Rightarrow> string list" where
  "csv_values value =
     map (\<lambda>item. str_lower (str_strip item)) (filter (\<lambda>item. str_strip item \<noteq> []) (split_on (CHR '','') value))"

text \<open>\<open>sorted(set(...))\<close>.\<close>

definition sorted_names :: "string list \<Rightarrow> string list" where
  "sorted_names xs = sort (remdups xs)"

definition workspace_import_readiness_check :: "readiness_settings \<Rightarrow> dict" where
  "workspace_import_readiness_check s =
     (let schemes = csv_values (rs_allowed_git_url_schemes s);
          unsafe_schemes = sorted_names (filter (\<lambda>x. x \<in> {''file'', ''ftp''}) schemes);
          missing_limits = not_positive
            [(rs_max_workspace_files s, ''MAX_WORKSPACE_FILES''),
             (rs_max_workspace_uncompressed_bytes s, ''MAX_WORKSPACE_UNCOMPRESSED_BYTES'')] @
            (if schemes = [] then [''ALLOWED_GIT_URL_SCHEMES''] else []);
          ok = (missing_limits = [] \<and> unsafe_schemes = [])
      in [(''id'', PStr ''workspace_import_guardrails''), (''title'', PStr ''Workspace import guard rails are enabled''),
          (''status'', pass_or_fail ok),
          (''detail'', PDict
             [(''max_workspace_files'', PInt (rs_max_workspace_files s)),
              (''max_workspace_uncompressed_bytes'', PInt (rs_max_workspace_uncompressed_bytes s)),
              (''allowed_git_url_schemes'', strs schemes),
              (''allowed_git_hosts'', strs (csv_values (rs_allowed_git_hosts s))),
              (''missing_or_disabled'', strs missing_limits), (''unsafe_schemes'', strs unsafe_schemes)]),
          (''remediation'', strs (if ok then [] else
             [''Set MAX_WORKSPACE_FILES and MAX_WORKSPACE_UNCOMPRESSED_BYTES to positive limits before accepting Git or zip imports.'',
              ''Keep ALLOWED_GIT_URL_SCHEMES limited to https,ssh for production unless another remote scheme has been explicitly approved.'',
              ''Do not allow file:// or local Git paths in production imports.'']))])"

section \<open>Ownership of the active pipelines\<close>

text \<open>\<open>config.get(k) or {}\<close>, on which \<open>get\<close> is called next.\<close>

definition part_of :: "dict \<Rightarrow> string \<Rightarrow> dict res" where
  "part_of config k =
     (case por (dget config k) (PDict []) of PDict d \<Rightarrow> Inr d | _ \<Rightarrow> Inl (AttributeError ''get''))"

definition active_for_readiness :: "audit_run \<Rightarrow> bool res" where
  "active_for_readiness run =
     (if ar_status run \<in> set (active_statuses False) then Inr True
      else rbind (part_of (ar_config run) ''pipeline_state'') (\<lambda>_.
             Inr (is_active_pipeline False (ar_status run) (ar_config run))))"

text \<open>\<open>runtime_control.get("worker_id") or pipeline_state.get("worker_id")\<close>.\<close>

definition readiness_worker_id :: "dict \<Rightarrow> string option res" where
  "readiness_worker_id config =
     rbind (part_of config ''runtime_control'') (\<lambda>control.
       if truthy (dget control ''worker_id'') then Inr (Some (py_str (dget control ''worker_id'')))
       else rbind (part_of config ''pipeline_state'') (\<lambda>state.
         Inr (if truthy (dget state ''worker_id'') then Some (py_str (dget state ''worker_id'')) else None)))"

definition fresh_pipeline_worker :: "time \<Rightarrow> int \<Rightarrow> worker_heartbeat list \<Rightarrow> audit_run \<Rightarrow> bool res" where
  "fresh_pipeline_worker now max_age workers run =
     rbind (readiness_worker_id (ar_config run)) (\<lambda>worker_id.
       Inr (list_ex (\<lambda>w. wh_status w \<in> set ACTIVE_WORKER_STATUSES \<and>
              wh_current_audit_run_id w = Some (ar_audit_run_id run) \<and>
              (worker_id \<in> {None, Some []} \<or> Some (wh_worker_id w) = worker_id) \<and>
              now - wh_last_seen_at w \<le> max_age) workers))"

definition pipeline_readiness_run_detail :: "audit_run \<Rightarrow> dict res" where
  "pipeline_readiness_run_detail run =
     rbind (part_of (ar_config run) ''pipeline_state'') (\<lambda>state.
     rbind (readiness_worker_id (ar_config run)) (\<lambda>worker_id.
       Inr [(''audit_run_id'', PStr (ar_audit_run_id run)), (''status'', PStr (ar_status run)),
            (''stage'', dget state ''stage''), (''pipeline_status'', dget state ''status''),
            (''worker_id'', opt_str worker_id)]))"

text \<open>A comprehension whose condition may raise.\<close>

fun rfilter :: "('a \<Rightarrow> bool res) \<Rightarrow> 'a list \<Rightarrow> 'a list res" where
  "rfilter p [] = Inr []"
| "rfilter p (x # xs) = rbind (p x) (\<lambda>b. rbind (rfilter p xs) (\<lambda>ys. Inr (if b then x # ys else ys)))"

definition stuck_details :: "time \<Rightarrow> int \<Rightarrow> worker_heartbeat list \<Rightarrow> audit_run list \<Rightarrow> dict list res" where
  "stuck_details now max_age workers active_runs =
     rbind (rmap (\<lambda>run. rbind (fresh_pipeline_worker now max_age workers run) (\<lambda>fresh.
              if fresh then Inr [] else rbind (pipeline_readiness_run_detail run) (\<lambda>detail. Inr [detail]))) active_runs)
       (\<lambda>rows. Inr (concat rows))"

definition active_pipeline_readiness_check ::
  "pyval \<Rightarrow> time \<Rightarrow> int \<Rightarrow> worker_heartbeat list \<Rightarrow> audit_run list \<Rightarrow> dict res" where
  "active_pipeline_readiness_check shown_age now max_age workers runs =
     rbind (rfilter active_for_readiness runs) (\<lambda>active_runs.
     rbind (stuck_details now max_age workers active_runs) (\<lambda>stuck_runs.
       Inr [(''id'', PStr ''active_pipeline_ownership''),
            (''title'', PStr ''Active audit pipelines have fresh worker ownership''),
            (''status'', pass_or_fail (stuck_runs = [])),
            (''detail'', PDict
               [(''active_pipeline_count'', PInt (int (length active_runs))),
                (''stuck_pipeline_count'', PInt (int (length stuck_runs))),
                (''max_worker_age_seconds'', shown_age), (''stuck_runs'', PList (map PDict stuck_runs))]),
            (''remediation'', strs (if stuck_runs = [] then [] else
               [''Verify workflow-worker is running and publishing fresh heartbeats for active AuditRun ownership.'',
                ''Restart workflow-worker with PIPELINE_RECOVERY_ON_STARTUP=true so interrupted active runs are marked failed.'',
                ''Cancel or retry stuck AuditRuns after preserving any retained runtime evidence needed for debugging.'']))]))"

section \<open>The execution backend\<close>

definition normalized_pipeline_backend :: "readiness_settings \<Rightarrow> string" where
  "normalized_pipeline_backend s =
     str_lower (str_strip (if rs_pipeline_execution_backend s = [] then ''workflow-worker'' else rs_pipeline_execution_backend s))"

definition supported_backends :: "string list" where
  "supported_backends = [''workflow-worker'']"

definition production_backends :: "string list" where
  "production_backends = [''workflow-worker'']"

definition backend_status :: "string \<Rightarrow> dict option \<Rightarrow> string \<times> pyval" where
  "backend_status backend worker_health =
     (if backend \<notin> set supported_backends then
        (''fail'', PStr (''Unsupported pipeline execution backend '' @ [CHR 0x27] @ backend @ [CHR 0x27] @
           ''. Supported backends: '' @ py_repr (strs supported_backends) @ ''.''))
      else if backend \<in> set production_backends then
        (case worker_health of
           None \<Rightarrow> (''fail'', PStr ''Workflow-worker backend is configured, but worker heartbeat health was not checked.'')
         | Some health \<Rightarrow>
             if truthy (dget health ''ok'')
             then (''pass'', PStr ''Audit pipelines are claimed by at least one fresh workflow-worker heartbeat.'')
             else (''fail'', por (dget health ''message'') (PStr ''No fresh workflow-worker heartbeat is available.'')))
      else (''fail'', PStr (''FastAPI background task execution can lose in-flight work on restart. '' @
              ''Use workflow-worker before treating this deployment as production-ready.'')))"

definition pipeline_backend_readiness_check :: "readiness_settings \<Rightarrow> dict option \<Rightarrow> dict" where
  "pipeline_backend_readiness_check s worker_health =
     (let backend = normalized_pipeline_backend s; (status, message) = backend_status backend worker_health
      in [(''id'', PStr ''pipeline_execution_backend''),
          (''title'', PStr ''Audit pipeline execution is not tied to FastAPI background tasks''),
          (''status'', PStr status),
          (''detail'', PDict
             [(''backend'', PStr backend), (''production_backends'', strs production_backends),
              (''supported_backends'', strs supported_backends),
              (''recovery_on_startup'', PBool (rs_pipeline_recovery_on_startup s)),
              (''worker_health'', case worker_health of None \<Rightarrow> PNone | Some h \<Rightarrow> PDict h), (''message'', message)]),
          (''remediation'', strs (if status = ''pass'' then [] else
             [''Set PIPELINE_EXECUTION_BACKEND=workflow-worker and keep workflow-worker enabled in the core Compose profile.'',
              ''Verify /runtime/workers reports at least one fresh running worker heartbeat.'']))])"

section \<open>What to do about the sandbox and the knowledge base\<close>

definition sandbox_readiness_remediation :: "dict \<Rightarrow> string list" where
  "sandbox_readiness_remediation detail =
     (let requested_runtime = py_str (por (dget detail ''requested_runtime'') (PStr ''runc''))
      in if \<not> truthy (dget detail ''requested_runtime_available'') then
           [''Install or register the configured Docker runtime '' @ [CHR 0x27] @ requested_runtime @ [CHR 0x27] @
            '', or change DEFAULT_SANDBOX_RUNTIME to an available Docker runtime.'']
         else if \<not> truthy (dget detail ''sandbox_execution_available'') then
           [''Set ALLOW_RUNC_SANDBOX=true when DEFAULT_SANDBOX_RUNTIME=runc, or configure another available Docker runtime.'']
         else [])"

definition embedding_readiness_remediation :: "dict \<Rightarrow> string list" where
  "embedding_readiness_remediation status =
     (let provider = py_str (por (dget status ''provider'') (PStr ''hash''))
      in if provider \<in> {''hash'', ''local-hash'', []} then
           [''Hash embeddings are usable for development and deterministic smoke tests, but configure KNOWLEDGE_EMBEDDING_PROVIDER=openai-compatible for semantic RAG quality.'',
            ''Set KNOWLEDGE_EMBEDDING_BASE_URL to an endpoint exposing /embeddings, KNOWLEDGE_EMBEDDING_MODEL to a real embedding model, and KNOWLEDGE_VECTOR_SIZE to the model dimension.'',
            ''Set KNOWLEDGE_EMBEDDING_API_KEY when the embedding endpoint requires authentication.'']
         else if provider \<notin> {''openai'', ''openai-compatible''} then
           [''Use KNOWLEDGE_EMBEDDING_PROVIDER=openai-compatible or add a tested provider implementation before enabling production RAG.'']
         else
           let probe = dict_or_empty (dget status ''probe'');
               remediation =
                 (if truthy (dget status ''base_url_configured'') then []
                  else [''Set KNOWLEDGE_EMBEDDING_BASE_URL to the OpenAI-compatible embedding API base URL.'']) @
                 (if truthy (dget status ''model'') then []
                  else [''Set KNOWLEDGE_EMBEDDING_MODEL to the embedding model name.'']) @
                 (if truthy (dget probe ''attempted'') \<and> \<not> truthy (dget probe ''ok'')
                  then [''Fix embedding endpoint reachability, credentials, or vector dimension mismatch shown in the readiness detail.'']
                  else [])
           in if remediation = [] \<and> dget status ''status'' \<noteq> PStr ''pass''
              then [''Review the embedding readiness detail and configure a semantic embedding provider before production RAG use.'']
              else remediation)"

definition vector_store_readiness_remediation :: "dict \<Rightarrow> string list" where
  "vector_store_readiness_remediation status =
     (let message = py_str (por (dget status ''message'') (PStr []))
      in if dget status ''qdrant_url_configured'' = PBool False
         then [''Set QDRANT_URL to the Qdrant service endpoint before enabling knowledge retrieval.'']
         else if contains message ''vector size'' \<or> contains message ''KNOWLEDGE_VECTOR_SIZE'' then
           [''Set KNOWLEDGE_COLLECTION_NAME to a new collection name after changing embedding provider or vector dimension.'',
            ''Reindex uploaded knowledge documents so Qdrant vectors match the configured embedding model.'',
            ''Delete or archive obsolete Qdrant collections only after confirming no AuditRun depends on them.'']
         else if dget status ''status'' = PStr ''warn''
         then [''Upload or reindex at least one knowledge document to initialize the configured Qdrant collection.'']
         else if dget status ''status'' = PStr ''fail''
         then [''Verify Qdrant is reachable from platform services and that the configured collection can be read.'']
         else [])"

section \<open>Templates\<close>

text \<open>The required names are computed when the module is imported.\<close>

definition PRODUCTION_AGENT_TEMPLATES :: "string list" where
  "PRODUCTION_AGENT_TEMPLATES = (case required_agent_template_names of Inl _ \<Rightarrow> [] | Inr names \<Rightarrow> names)"

definition PRODUCTION_MCP_TEMPLATES :: "string list" where
  "PRODUCTION_MCP_TEMPLATES =
     [''filesystem-mcp'', ''code-search-mcp'', ''whiteboard-mcp'', ''semgrep-mcp'', ''sca-mcp'',
      ''codebase-memory-mcp'', ''kb-mcp'', ''http-test-mcp'', ''sandbox-mcp'']"

definition OPTIONAL_HEAVY_MCP_TEMPLATES :: "string list" where
  "OPTIONAL_HEAVY_MCP_TEMPLATES = []"

definition templates_by_name :: "dict list \<Rightarrow> dict" where
  "templates_by_name items =
     fold (\<lambda>item by_name. dset by_name (py_str (por (dget item ''name'') (PStr []))) (PDict item)) items []"

definition template_at :: "dict \<Rightarrow> string \<Rightarrow> dict" where
  "template_at by_name name = dict_or_empty (dget by_name name)"

definition image_contains :: "dict \<Rightarrow> string \<Rightarrow> bool" where
  "image_contains template part = contains (py_str (por (dget template ''image'') (PStr []))) part"

definition missing_templates :: "string list \<Rightarrow> dict \<Rightarrow> string list" where
  "missing_templates required by_name = sorted_names (filter (\<lambda>n. \<not> dmem by_name n) required)"

definition invalid_agent :: "dict \<Rightarrow> string \<Rightarrow> bool res" where
  "invalid_agent agents name =
     rbind (vget (por (dget (template_at agents name) ''protocol'') (PDict [])) ''kind'') (\<lambda>kind.
     rbind (vget (por (dget (template_at agents name) ''protocol'') (PDict [])) ''runtime'') (\<lambda>runtime.
       Inr (kind \<noteq> PStr ''agent-client-protocol'' \<or> runtime \<noteq> opt_str (template_runtime_for_name name) \<or>
            image_contains (template_at agents name) ''mock-agent'')))"

definition invalid_agents :: "dict \<Rightarrow> string list res" where
  "invalid_agents agents =
     rbind (rfilter (invalid_agent agents) (filter (dmem agents) PRODUCTION_AGENT_TEMPLATES)) (\<lambda>names.
       Inr (sorted_names names))"

definition mock_mcps :: "dict \<Rightarrow> string list" where
  "mock_mcps mcps =
     sorted_names (filter (\<lambda>n. dmem mcps n \<and> image_contains (template_at mcps n) ''mock-mcp'') PRODUCTION_MCP_TEMPLATES)"

text \<open>\<open>(tool_capabilities.get("templates", {}).get(name) or {}).get("missing_binaries")\<close>; of an
  empty list and of no entry at all the code only uses that they are false.\<close>

definition missing_binaries :: "dict \<Rightarrow> string \<Rightarrow> pyval res" where
  "missing_binaries capabilities name =
     rbind (vget (dget_or capabilities ''templates'' (PDict [])) name) (\<lambda>template.
       vget (por template (PDict [])) ''missing_binaries'')"

definition production_missing :: "dict option \<Rightarrow> dict \<Rightarrow> dict res" where
  "production_missing tool_capabilities mcps =
     (case tool_capabilities of
        None \<Rightarrow> Inr []
      | Some capabilities \<Rightarrow>
          if capabilities = [] then Inr []
          else rbind (rmap (\<lambda>name. rbind (missing_binaries capabilities name) (\<lambda>m.
                       Inr (if truthy m then [(name, m)] else [])))
                     (sorted_names (filter (dmem mcps) PRODUCTION_MCP_TEMPLATES)))
                 (\<lambda>rows. Inr (concat rows)))"

definition probe_error :: "dict option \<Rightarrow> bool" where
  "probe_error tool_capabilities =
     (case tool_capabilities of None \<Rightarrow> False | Some c \<Rightarrow> truthy (dget c ''error''))"

definition capabilities_value :: "dict option \<Rightarrow> pyval" where
  "capabilities_value tool_capabilities = (case tool_capabilities of None \<Rightarrow> PNone | Some c \<Rightarrow> PDict c)"

definition agent_templates_check :: "dict \<Rightarrow> string list \<Rightarrow> dict" where
  "agent_templates_check agents invalid =
     (let missing = missing_templates PRODUCTION_AGENT_TEMPLATES agents
      in [(''id'', PStr ''agent_runtime_templates''), (''title'', PStr ''Enabled agent runtime templates are configured''),
          (''status'', pass_or_fail (missing = [] \<and> invalid = [])),
          (''detail'', PDict
             [(''required'', strs (sorted_names PRODUCTION_AGENT_TEMPLATES)), (''missing'', strs missing),
              (''invalid'', strs invalid)])])"

definition mcp_templates_check :: "dict option \<Rightarrow> dict \<Rightarrow> dict \<Rightarrow> dict" where
  "mcp_templates_check tool_capabilities mcps unavailable =
     (let missing = missing_templates PRODUCTION_MCP_TEMPLATES mcps; mocks = mock_mcps mcps;
          failed = probe_error tool_capabilities
      in [(''id'', PStr ''production_mcp_templates''), (''title'', PStr ''Production MCP templates are configured''),
          (''status'', pass_or_fail (missing = [] \<and> mocks = [] \<and> unavailable = [] \<and> \<not> failed)),
          (''detail'', PDict
             [(''required'', strs (sorted_names PRODUCTION_MCP_TEMPLATES)), (''missing'', strs missing),
              (''mock_images'', strs mocks), (''missing_binaries'', PDict unavailable),
              (''tool_capabilities'', capabilities_value tool_capabilities)]),
          (''remediation'', strs (if unavailable = [] \<and> \<not> failed then [] else
             [''Build required production MCP and ACP agent images before production readiness.'',
              ''Verify required MCP tools are available and rerun /runtime/readiness.'']))])"

text \<open>The check of the heavy analysers, which is left out while there is no such template.\<close>

definition heavy_missing :: "dict option \<Rightarrow> string list \<Rightarrow> dict res" where
  "heavy_missing tool_capabilities names =
     (case tool_capabilities of
        None \<Rightarrow> Inr []
      | Some capabilities \<Rightarrow>
          if capabilities = [] then Inr []
          else rmap (\<lambda>name.
            rbind (vget (dget_or capabilities ''templates'' (PDict [])) name) (\<lambda>template.
            rbind (vget (por template (PDict [])) ''missing_binaries'') (\<lambda>_.
            Inr (name, dget_or (dict_or_empty (por template (PDict []))) ''missing_binaries'' (PList []))))) names)"

definition heavy_analyzers_check :: "dict option \<Rightarrow> string list \<Rightarrow> dict \<Rightarrow> dict" where
  "heavy_analyzers_check tool_capabilities names missing =
     (let unavailable = sorted_names (map fst (filter (\<lambda>(_, m). truthy m) missing));
          (status, message) =
            (if tool_capabilities = None
             then (''warn'', ''Heavy analyzer templates are present, but tool image capabilities were not probed.'')
             else if probe_error tool_capabilities \<or> unavailable \<noteq> []
             then (''warn'', ''Heavy analyzer templates are present, but one or more required CLIs are unavailable in their configured images.'')
             else (''pass'', ''Heavy analyzer templates have required CLIs available in their configured tool images.''))
      in [(''id'', PStr ''heavy_analyzers''), (''title'', PStr ''Heavy analyzers have required tool CLIs''),
          (''status'', PStr status),
          (''detail'', PDict
             [(''templates'', strs names), (''unavailable'', strs unavailable), (''missing_binaries'', PDict missing),
              (''tool_capabilities'', capabilities_value tool_capabilities), (''message'', PStr message)])])"

definition mock_check :: "string \<Rightarrow> string \<Rightarrow> string \<Rightarrow> bool \<Rightarrow> string list \<Rightarrow> dict" where
  "mock_check cid title kind include_demo names =
     [(''id'', PStr cid), (''title'', PStr title), (''status'', PStr (if include_demo then ''fail'' else ''warn'')),
      (''detail'', PDict
         [(''templates'', strs names), (''include_demo_templates'', PBool include_demo),
          (''message'', PStr (if include_demo
             then kind @ '' templates are exposed through runtime APIs. Set ENABLE_DEMO_TEMPLATES=false for production.''
             else kind @ '' templates exist on disk but are hidden from production runtime APIs.''))])]"

definition template_readiness_checks :: "dict list \<Rightarrow> dict list \<Rightarrow> dict option \<Rightarrow> bool \<Rightarrow> dict list res" where
  "template_readiness_checks agent_templates mcp_templates tool_capabilities include_demo =
     (let agents = templates_by_name agent_templates; mcps = templates_by_name mcp_templates;
          optional_heavy = sorted_names (filter (dmem mcps) OPTIONAL_HEAVY_MCP_TEMPLATES);
          legacy = sorted_names (filter (\<lambda>n. n \<noteq> [] \<and> n \<notin> set PRODUCTION_AGENT_TEMPLATES \<and>
                     image_contains (template_at agents n) ''mock-agent'') (map fst agents));
          exposed = sorted_names (filter (\<lambda>n. n \<noteq> [] \<and> image_contains (template_at mcps n) ''mock-mcp'') (map fst mcps))
      in rbind (invalid_agents agents) (\<lambda>invalid.
         rbind (production_missing tool_capabilities mcps) (\<lambda>unavailable.
         rbind (heavy_missing tool_capabilities optional_heavy) (\<lambda>heavy.
         Inr ([agent_templates_check agents invalid, mcp_templates_check tool_capabilities mcps unavailable] @
              (if optional_heavy = [] then [] else [heavy_analyzers_check tool_capabilities optional_heavy heavy]) @
              (if legacy = [] then []
               else [mock_check ''legacy_mock_templates'' ''Legacy mock templates are still available'' ''Mock'' include_demo legacy]) @
              (if exposed = [] then []
               else [mock_check ''legacy_mock_mcp_templates'' ''Legacy mock MCP templates are still available''
                       ''Mock MCP'' include_demo exposed]))))))"

section \<open>The summary\<close>

definition with_status :: "string \<Rightarrow> dict list \<Rightarrow> dict list" where
  "with_status status checks = filter (\<lambda>check. dget check ''status'' = PStr status) checks"

definition next_action :: "dict \<Rightarrow> dict" where
  "next_action check =
     [(''id'', dget check ''id''), (''status'', dget check ''status''), (''title'', dget check ''title''),
      (''remediation'', PList (take 3 (list_or_empty (dget check ''remediation''))))]"

definition summarize_readiness_checks :: "dict list \<Rightarrow> dict" where
  "summarize_readiness_checks checks =
     (let blocking_checks = with_status ''fail'' checks; warning_checks = with_status ''warn'' checks;
          passed_checks = with_status ''pass'' checks
      in [(''ok'', PBool (blocking_checks = [])),
          (''status'', PStr (if blocking_checks = [] then ''ready'' else ''not_ready'')),
          (''summary'', PDict
             [(''fail'', PInt (int (length blocking_checks))), (''warn'', PInt (int (length warning_checks))),
              (''pass'', PInt (int (length passed_checks)))]),
          (''blocking_checks'', PList (map PDict blocking_checks)),
          (''warning_checks'', PList (map PDict warning_checks)),
          (''next_actions'', PList (map PDict (take 8 (map next_action (blocking_checks @ warning_checks))))),
          (''checks'', PList (map PDict checks))])"

end
