(* ===== verification/Readiness_Contracts.thy ===== *)
theory Readiness_Contracts
  imports Readiness
begin

text \<open>
  The readiness report and the recovery of interrupted pipelines judge a run by the same rule: the
  runs the report calls stuck are those a worker that starts now would fail.
\<close>

lemma part_of_config: "part_of config k = Inr p \<Longrightarrow> config_part config k = p"
  by (auto simp: part_of_def config_part_def por_def split: pyval.splits if_splits)

definition readable_parts :: "audit_run \<Rightarrow> bool" where
  "readable_parts run =
     (\<not> isl (part_of (ar_config run) ''runtime_control'') \<and> \<not> isl (part_of (ar_config run) ''pipeline_state''))"

lemma readable_partsD:
  assumes "readable_parts run"
  shows "part_of (ar_config run) ''runtime_control'' = Inr (config_part (ar_config run) ''runtime_control'')"
    and "part_of (ar_config run) ''pipeline_state'' = Inr (config_part (ar_config run) ''pipeline_state'')"
  using assms part_of_config [of "ar_config run" "''runtime_control''"] part_of_config [of "ar_config run" "''pipeline_state''"]
  by (cases "part_of (ar_config run) ''runtime_control''"; cases "part_of (ar_config run) ''pipeline_state''";
      simp add: readable_parts_def)+

lemma readiness_worker: "readable_parts run \<Longrightarrow> readiness_worker_id (ar_config run) = Inr (pipeline_worker_id (ar_config run))"
  by (auto simp: readiness_worker_id_def readable_partsD pipeline_worker_id_def por_def Let_def)

lemma fresh_worker_serves:
  assumes "readable_parts run"
  shows "fresh_pipeline_worker now ttl workers run = Inr (list_ex (serves_run now ttl run) workers)"
proof -
  have "(wh_status w \<in> set ACTIVE_WORKER_STATUSES \<and> wh_current_audit_run_id w = Some (ar_audit_run_id run) \<and>
      (pipeline_worker_id (ar_config run) \<in> {None, Some []} \<or> Some (wh_worker_id w) = pipeline_worker_id (ar_config run)) \<and>
      now - wh_last_seen_at w \<le> ttl) = serves_run now ttl run w" for w
    by (auto simp: serves_run_def split: option.splits)
  then show ?thesis by (simp add: fresh_pipeline_worker_def readiness_worker [OF assms])
qed

lemma active_readiness:
  "readable_parts run \<Longrightarrow> active_for_readiness run = Inr (is_active_pipeline False (ar_status run) (ar_config run))"
  by (auto simp: active_for_readiness_def readable_partsD is_active_pipeline_def)

lemma rfilter_Inr: "(\<And>x. x \<in> set xs \<Longrightarrow> p x = Inr (q x)) \<Longrightarrow> rfilter p xs = Inr (filter q xs)"
  by (induction xs) auto

lemma interrupted_unserved:
  "recovery_of False now ttl workers run = Interrupted \<longleftrightarrow>
     is_active_pipeline False (ar_status run) (ar_config run) \<and> \<not> list_ex (serves_run now ttl run) workers"
  by (auto simp: recovery_of_def active_worker_for_pipeline_def list_ex_iff find_None_iff find_Some_iff
        split: option.splits)

lemma stuck_ids:
  assumes "\<forall>run \<in> set runs. readable_parts run"
  shows "\<exists>rows. stuck_details now ttl workers runs = Inr rows \<and>
     map (\<lambda>r. dget r ''audit_run_id'') rows =
     map (\<lambda>r. PStr (ar_audit_run_id r)) (filter (\<lambda>r. \<not> list_ex (serves_run now ttl r) workers) runs)"
  using assms
proof (induction runs)
  case Nil
  then show ?case by (simp add: stuck_details_def)
next
  case (Cons run runs)
  then have r: "readable_parts run" by simp
  from Cons obtain xs where xs: "rmap (\<lambda>run. rbind (fresh_pipeline_worker now ttl workers run) (\<lambda>fresh.
              if fresh then Inr [] else rbind (pipeline_readiness_run_detail run) (\<lambda>detail. Inr [detail]))) runs = Inr xs"
      "map (\<lambda>r. dget r ''audit_run_id'') (concat xs) =
         map (\<lambda>r. PStr (ar_audit_run_id r)) (filter (\<lambda>r. \<not> list_ex (serves_run now ttl r) workers) runs)"
    by (auto simp: stuck_details_def rbind_Inr_iff)
  show ?case
    by (simp add: stuck_details_def xs fresh_worker_serves [OF r] pipeline_readiness_run_detail_def
          readable_partsD [OF r] readiness_worker [OF r])
qed

lemma recovered_ids:
  "map (\<lambda>r. dget r ''audit_run_id'') (rr_runs (fst (fold (recover_row s b now ttl workers) rows acc))) =
   map (\<lambda>r. dget r ''audit_run_id'') (rr_runs (fst acc)) @
   map (\<lambda>r. PStr (ar_audit_run_id r)) (filter (\<lambda>r. recovery_of b now ttl workers r = Interrupted) rows)"
  by (induction rows arbitrary: acc) (auto simp: recover_row_def split: recovery.splits)

text \<open>C14. The runs that the readiness report calls stuck are, in the same order, those that the
  recovery of a worker that starts at the same moment fails; the check passes exactly if there are
  none.\<close>

theorem readiness_names_recovered:
  assumes "\<forall>run \<in> set (audit_runs d). readable_parts run"
  shows "\<exists>check. active_pipeline_readiness_check shown now ttl (worker_heartbeats d) (audit_runs d) = Inr check \<and>
     map (\<lambda>v. dget (dict_or_empty v) ''audit_run_id'')
         (list_or_empty (dget (dict_or_empty (dget check ''detail'')) ''stuck_runs'')) =
       map (\<lambda>r. dget r ''audit_run_id'') (rr_runs (fst (recover_interrupted_pipelines s False ttl now d))) \<and>
     (dget check ''status'' = PStr ''pass'' \<longleftrightarrow>
        rr_runs (fst (recover_interrupted_pipelines s False ttl now d)) = [])"
proof -
  let ?active = "filter (\<lambda>r. is_active_pipeline False (ar_status r) (ar_config r)) (audit_runs d)"
  have active: "rfilter active_for_readiness (audit_runs d) = Inr ?active"
    by (rule rfilter_Inr) (use assms active_readiness in blast)
  obtain rows where rows: "stuck_details now ttl (worker_heartbeats d) ?active = Inr rows"
      "map (\<lambda>r. dget r ''audit_run_id'') rows =
         map (\<lambda>r. PStr (ar_audit_run_id r)) (filter (\<lambda>r. \<not> list_ex (serves_run now ttl r) (worker_heartbeats d)) ?active)"
    using stuck_ids [of ?active now ttl "worker_heartbeats d"] assms by auto
  have "filter (\<lambda>r. \<not> list_ex (serves_run now ttl r) (worker_heartbeats d)) ?active =
      filter (\<lambda>r. recovery_of False now ttl (worker_heartbeats d) r = Interrupted) (audit_runs d)"
    by (auto simp: interrupted_unserved intro: filter_cong)
  then have ids: "map (\<lambda>r. dget r ''audit_run_id'') rows =
      map (\<lambda>r. dget r ''audit_run_id'') (rr_runs (fst (recover_interrupted_pipelines s False ttl now d)))"
    by (simp add: rows(2) recover_interrupted_pipelines_def recovered_ids)
  then have "rows = [] \<longleftrightarrow> rr_runs (fst (recover_interrupted_pipelines s False ttl now d)) = []"
    by (metis map_is_Nil_conv)
  with ids show ?thesis
    by (simp add: active_pipeline_readiness_check_def active rows(1) pass_or_fail_def o_def)
qed

theorem readiness_names_recovered_witness:
  "\<exists>check. active_pipeline_readiness_check (PInt 30) 0 30000000 [] (audit_runs orphan_db) = Inr check \<and>
     dget check ''status'' \<noteq> PStr ''pass''"
proof -
  have "\<forall>run \<in> set (audit_runs orphan_db). readable_parts run"
    by (simp add: orphan_db_def sample_run_def readable_parts_def part_of_def empty_db_def)
  from readiness_names_recovered [OF this, of "PInt 30" 0 30000000 "''workflow-worker''"]
  have "\<exists>check. active_pipeline_readiness_check (PInt 30) 0 30000000 (worker_heartbeats orphan_db) (audit_runs orphan_db) = Inr check \<and>
     (dget check ''status'' = PStr ''pass'' \<longleftrightarrow>
        rr_runs (fst (recover_interrupted_pipelines ''workflow-worker'' False 30000000 0 orphan_db)) = [])" by blast
  moreover have "worker_heartbeats orphan_db = []" by (simp add: orphan_db_def empty_db_def)
  moreover have "map (\<lambda>r. dget r ''audit_run_id'')
      (rr_runs (fst (recover_interrupted_pipelines ''workflow-worker'' False 30000000 0 orphan_db))) = [PStr ''run-1'']"
    unfolding recover_interrupted_pipelines_def recovered_ids
    by (simp add: orphan_db_def empty_db_def sample_run_def interrupted_unserved claimed_is_active)
  ultimately show ?thesis by auto
qed

end
