(* ===== verification/Finding_Triage.thy ===== *)
theory Finding_Triage
  imports Agent_Output Whiteboard_Scheduling Worker_Fleet
begin

text \<open>
  How candidates become judged findings (\<open>services/platform/app/api/routes.py\<close>): candidate cards
  of the whiteboard are turned into findings, the value triage of the swarm decides which of them
  deserve more work, and the judgement settles their status. Every function is one session.
\<close>

section \<open>Candidate cards become findings\<close>

definition candidate_card_types :: "string list" where
  "candidate_card_types = [''candidate_vulnerability'', ''candidate-vulnerability'']"

definition candidate_cards :: "string \<Rightarrow> db \<Rightarrow> whiteboard_card list" where
  "candidate_cards rid d =
     sort_key created_at (filter (\<lambda>c. wc_audit_run_id c = rid \<and> wc_card_type c \<in> set candidate_card_types) (wb_cards d))"

definition no_text :: "string option \<Rightarrow> bool" where
  "no_text s = (s \<in> {None, Some []})"

text \<open>\<open>next(value.strip().lower()[:32] for a text under one of the keys that is not blank)\<close>.\<close>

fun stated_severity :: "dict \<Rightarrow> string list \<Rightarrow> string option" where
  "stated_severity metadata [] = None"
| "stated_severity metadata (k # ks) =
     (case dget metadata k of
        PStr v \<Rightarrow> if str_strip v \<noteq> [] then Some (take 32 (str_lower (str_strip v))) else stated_severity metadata ks
      | _ \<Rightarrow> stated_severity metadata ks)"

definition mentions_severity :: "string \<Rightarrow> string \<Rightarrow> bool" where
  "mentions_severity content v =
     (contains content (''severity: '' @ v) \<or>
      contains content ([CHR 0x22] @ ''severity'' @ [CHR 0x22] @ '': '' @ [CHR 0x22] @ v @ [CHR 0x22]))"

definition whiteboard_finding_severity :: "whiteboard_card \<Rightarrow> string" where
  "whiteboard_finding_severity wc =
     (case stated_severity (wc_metadata wc) [''severity'', ''risk'', ''priority''] of
        Some v \<Rightarrow> v
      | None \<Rightarrow>
          (case find (mentions_severity (str_lower (case wc_content wc of None \<Rightarrow> [] | Some c \<Rightarrow> c)))
                  [''critical'', ''high'', ''medium'', ''low'', ''info''] of
             Some v \<Rightarrow> v
           | None \<Rightarrow> ''unknown''))"

definition card_identity :: "whiteboard_card \<Rightarrow> identity" where
  "card_identity wc =
     finding_identity (PStr (wc_title wc))
       (PStr (take 64 (py_str (por (por (dget (wc_metadata wc) ''source'') (opt_str (wc_author wc))) (PStr ''whiteboard'')))))
       (opt_str (wc_file_path wc)) (opt_int (wc_line_start wc))
       (PStr (py_str (por (dget (wc_metadata wc) ''rule_id'') (PStr []))))"

definition finding_of_card :: "string \<Rightarrow> time \<Rightarrow> whiteboard_card \<Rightarrow> finding" where
  "finding_of_card fid now wc =
     (let i = card_identity wc
      in \<lparr>created_at = now, updated_at = now, fi_finding_id = fid, fi_audit_run_id = wc_audit_run_id wc,
          fi_project_id = wc_project_id wc, fi_title = id_title i, fi_severity = whiteboard_finding_severity wc,
          fi_status = ''candidate'', fi_file_path = id_file_path i, fi_line_start = id_line_start i,
          fi_line_end = wc_line_end wc, fi_rule_id = id_rule_id i, fi_description = wc_content wc,
          fi_source = id_source i,
          fi_raw = [(''whiteboard_card_id'', PStr (wc_card_id wc)), (''whiteboard_status'', PStr (wc_status wc)),
            (''whiteboard_author'', opt_str (wc_author wc)), (''whiteboard_metadata'', PDict (wc_metadata wc)),
            (''agent_run_id'', opt_str (wc_agent_run_id wc))]\<rparr>)"

definition evidence_of_card :: "string \<Rightarrow> string \<Rightarrow> time \<Rightarrow> whiteboard_card \<Rightarrow> evidence" where
  "evidence_of_card eid fid now wc =
     \<lparr>created_at = now, updated_at = now, ev_evidence_id = eid, ev_finding_id = fid,
      ev_audit_run_id = wc_audit_run_id wc, ev_kind = ''whiteboard-card'', ev_summary = wc_content wc,
      ev_artifact_path = None,
      ev_payload = [(''card_id'', PStr (wc_card_id wc)), (''title'', PStr (wc_title wc)),
        (''confidence'', opt_str (wc_confidence wc)), (''metadata'', PDict (wc_metadata wc))]\<rparr>"

definition link_card :: "string \<Rightarrow> string \<Rightarrow> db \<Rightarrow> db" where
  "link_card cid fid d =
     d\<lparr>wb_cards := row_upd wc_card_id cid (\<lambda>c. stamped (db_now d) c (c\<lparr>wc_finding_id := Some fid\<rparr>)) (wb_cards d)\<rparr>"

definition add_card_finding :: "whiteboard_card \<Rightarrow> db \<Rightarrow> db" where
  "add_card_finding wc d =
     (let (fid, d1) = fresh_uuid d; (eid, d2) = fresh_uuid d1
      in link_card (wc_card_id wc) fid
           (d2\<lparr>findings := findings d2 @ [finding_of_card fid (db_now d) wc],
               evidence_rows := evidence_rows d2 @ [evidence_of_card eid fid (db_now d) wc]\<rparr>))"

text \<open>One turn of the loop; the numbers are \<open>created\<close> and \<open>linked\<close>.\<close>

definition sync_card :: "string \<Rightarrow> whiteboard_card \<Rightarrow> (nat \<times> nat) \<times> db \<Rightarrow> (nat \<times> nat) \<times> db" where
  "sync_card rid wc acc =
     (case acc of ((created, linked), d) \<Rightarrow>
        if \<not> no_text (wc_finding_id wc) then ((created, linked + 1), d)
        else case find_existing_finding rid (card_identity wc) d of
               Some f \<Rightarrow> ((created, linked + 1), link_card (wc_card_id wc) (fi_finding_id f) d)
             | None \<Rightarrow> ((created + 1, linked), add_card_finding wc d))"

definition sync_whiteboard_candidate_findings :: "string \<Rightarrow> db \<Rightarrow> (nat \<times> nat) \<times> db" where
  "sync_whiteboard_candidate_findings rid d =
     (let cards = candidate_cards rid d;
          ((created, linked), d1) = fold (sync_card rid) cards ((0, 0), d)
      in ((created, linked),
          if created > 0 \<or> linked > 0 then
            add_run_event rid ''whiteboard_findings_synced''
              [(''created'', PInt (int created)), (''linked'', PInt (int linked)),
               (''candidate_cards'', PInt (int (length cards)))] d1
          else d1))"

section \<open>The value of a candidate\<close>

definition high_value_patterns :: "(string \<times> int \<times> string) list" where
  "high_value_patterns =
     [(''auth bypass'', 45, ''authentication bypass''),
      (''authentication bypass'', 45, ''authentication bypass''),
      (''rbac bypass'', 40, ''authorization bypass''),
      (''idor'', 40, ''direct object authorization impact''),
      (''ownership'', 25, ''resource ownership impact''),
      (''missing authorization'', 35, ''authorization impact''),
      (''sql injection'', 45, ''database injection''),
      (''raw sql'', 25, ''raw SQL sink''),
      (''arbitrary file write'', 45, ''file write primitive''),
      (''file upload rce'', 50, ''upload-to-code-execution path''),
      (''webshell'', 50, ''webshell/code execution path''),
      (''ssrf'', 30, ''server-side request primitive''),
      (''deserialization'', 35, ''deserialization primitive''),
      (''unserialize'', 35, ''PHP unserialize primitive''),
      (''jwt forgery'', 40, ''token forgery impact''),
      (''jwt secret'', 25, ''token signing secret impact''),
      (''mass assignment'', 35, ''state-changing mass assignment''),
      (''remote sql execution'', 50, ''remote SQL execution path''),
      (''dynamic table'', 25, ''dynamic database target'')]"

definition low_value_patterns :: "string list" where
  "low_value_patterns =
     [''ssl/tls verification'', ''ssl verification'', ''tls verification'', ''weak password'', ''double md5'', ''md5'',
      ''cookie security'', ''httponly'', ''samesite'', ''csrf'', ''debug mode'', ''default database credentials'',
      ''hardcoded default'', ''rate limiting'']"

definition attack_chain_terms :: "string list" where
  "attack_chain_terms =
     [''attack chain'', ''privilege escalation'', ''account takeover'', ''auth bypass'', ''rce'', ''remote code execution'',
      ''data exfiltration'', ''source-sink'']"

definition card_text :: "whiteboard_card \<Rightarrow> string" where
  "card_text wc =
     str_lower (join '' '' (map (\<lambda>item. py_str (por item (PStr [])))
       [PStr (wc_title wc), opt_str (wc_content wc), opt_str (wc_file_path wc),
        dget (wc_metadata wc) ''category'', dget (wc_metadata wc) ''impact'']))"

text \<open>The score and the reasons for it.\<close>

definition candidate_score :: "whiteboard_card \<Rightarrow> int \<times> string list" where
  "candidate_score wc =
     (let text = card_text wc;
          hits = filter (\<lambda>(pattern, _, _). contains text pattern) high_value_patterns;
          low_hits = filter (contains text) low_value_patterns;
          severity = str_lower (py_str (por (por (dget (wc_metadata wc) ''severity'') (dget (wc_metadata wc) ''risk'')) (PStr [])));
          chained = low_hits \<noteq> [] \<and> list_ex (contains text) attack_chain_terms
      in (sum_list (map (\<lambda>(_, points, _). points) hits)
            + (if low_hits = [] then 0 else - 40)
            + (if severity \<in> {''critical'', ''high''} then 15 else if severity = ''medium'' then 5 else 0)
            + (if chained then 50 else 0),
          map (\<lambda>(_, _, reason). reason) hits
            @ (if low_hits = [] then [] else [''standalone hygiene finding: '' @ join '', '' (take 3 low_hits)])
            @ (if chained then [''low-value smell is connected to an explicit attack-chain claim''] else [])))"

definition has_low_hits :: "whiteboard_card \<Rightarrow> bool" where
  "has_low_hits wc = list_ex (contains (card_text wc)) low_value_patterns"

definition candidate_decision :: "whiteboard_card \<Rightarrow> string" where
  "candidate_decision wc =
     (let score = fst (candidate_score wc)
      in if score \<ge> 55 then ''deep_dive'' else if score \<ge> 30 then ''evidence_only''
         else if has_low_hits wc then ''appendix_only'' else ''needs_human'')"

definition candidate_reasons :: "whiteboard_card \<Rightarrow> string list" where
  "candidate_reasons wc =
     (if snd (candidate_score wc) = [] then [''no strong exploitability signal''] else snd (candidate_score wc))"

definition candidate_confidence :: "whiteboard_card \<Rightarrow> string" where
  "candidate_confidence wc = (if \<bar>fst (candidate_score wc)\<bar> \<ge> 40 then ''high'' else ''medium'')"

definition swarm_candidate_value_decision :: "whiteboard_card \<Rightarrow> dict" where
  "swarm_candidate_value_decision wc =
     [(''decision'', PStr (candidate_decision wc)), (''score'', PInt (fst (candidate_score wc))),
      (''reasons'', PList (map PStr (candidate_reasons wc))),
      (''deep_dive_allowed'', PBool (candidate_decision wc = ''deep_dive'')),
      (''poc_allowed'', PBool (candidate_decision wc = ''deep_dive'')),
      (''confidence'', PStr (candidate_confidence wc))]"

section \<open>Recording the triage\<close>

definition triaged_card :: "whiteboard_card \<Rightarrow> whiteboard_card" where
  "triaged_card wc =
     wc\<lparr>wc_metadata := dset (wc_metadata wc) ''swarm_triage'' (PDict (swarm_candidate_value_decision wc))\<rparr>"

text \<open>The columns the triage writes, into a row that exists or a new one.\<close>

definition with_decision :: "whiteboard_card \<Rightarrow> finding_triage_decision \<Rightarrow> finding_triage_decision" where
  "with_decision wc t =
     t\<lparr>td_project_id := wc_project_id wc, td_finding_id := wc_finding_id wc, td_agent_run_id := wc_agent_run_id wc,
       td_decision_status := candidate_decision wc,
       td_decision_reason := Some (take 10000 (join ''; '' (candidate_reasons wc))),
       td_deep_dive_allowed := (candidate_decision wc = ''deep_dive''),
       td_poc_allowed := (candidate_decision wc = ''deep_dive''),
       td_confidence := Some (candidate_confidence wc), td_signals := swarm_candidate_value_decision wc\<rparr>"

definition new_decision :: "string \<Rightarrow> string \<Rightarrow> time \<Rightarrow> whiteboard_card \<Rightarrow> finding_triage_decision" where
  "new_decision did rid now wc =
     with_decision wc
       \<lparr>created_at = now, updated_at = now, td_decision_id = did, td_audit_run_id = rid, td_project_id = [],
        td_finding_id = None, td_card_id = Some (wc_card_id wc), td_agent_run_id = None, td_decision_status = [],
        td_decision_reason = None, td_deep_dive_allowed = False, td_poc_allowed = False, td_confidence = None,
        td_signals = []\<rparr>"

definition decision_of_card :: "string \<Rightarrow> string \<Rightarrow> finding_triage_decision \<Rightarrow> bool" where
  "decision_of_card rid cid t = (td_audit_run_id t = rid \<and> td_card_id t = Some cid)"

definition triage_card :: "string \<Rightarrow> whiteboard_card \<Rightarrow> db \<Rightarrow> db" where
  "triage_card rid wc d =
     (let d1 = d\<lparr>wb_cards := row_upd wc_card_id (wc_card_id wc) (\<lambda>c. stamped (db_now d) c (triaged_card c)) (wb_cards d)\<rparr>
      in case find (decision_of_card rid (wc_card_id wc)) (triage_decisions d1) of
           Some t \<Rightarrow> d1\<lparr>triage_decisions := row_upd td_decision_id (td_decision_id t)
                          (\<lambda>t. stamped (db_now d) t (with_decision wc t)) (triage_decisions d1)\<rparr>
         | None \<Rightarrow> (let (did, d2) = fresh_uuid d1
                   in d2\<lparr>triage_decisions := triage_decisions d2 @ [new_decision did rid (db_now d) wc]\<rparr>))"

definition triage_card_summary :: "whiteboard_card \<Rightarrow> dict" where
  "triage_card_summary wc =
     [(''card_id'', PStr (wc_card_id wc)), (''title'', PStr (wc_title wc)), (''file_path'', opt_str (wc_file_path wc)),
      (''line_start'', opt_int (wc_line_start wc)), (''decision'', PStr (candidate_decision wc)),
      (''score'', PInt (fst (candidate_score wc))), (''reasons'', PList (map PStr (candidate_reasons wc)))]"

definition triage_policy :: string where
  "triage_policy =
     ''Swarm should spend agent work only on findings with realistic exploitability and direct impact. '' @
     ''Standalone hygiene findings are appendix-only unless connected to an attack chain.''"

definition triage_whiteboard_swarm_candidates :: "string \<Rightarrow> db \<Rightarrow> dict \<times> db" where
  "triage_whiteboard_swarm_candidates rid d =
     (let rows = candidate_cards rid d;
          d1 = fold (triage_card rid) rows d;
          eligible = filter (\<lambda>c. candidate_decision c = ''deep_dive'') rows;
          excluded = filter (\<lambda>c. candidate_decision c \<noteq> ''deep_dive'') rows;
          counts = [(''candidate_cards'', PInt (int (length rows))), (''eligible'', PInt (int (length eligible))),
                    (''excluded'', PInt (int (length excluded)))];
          ids = [(''eligible_card_ids'', PList (map (\<lambda>c. PStr (wc_card_id c)) eligible)),
                 (''excluded_card_ids'', PList (map (\<lambda>c. PStr (wc_card_id c)) excluded))]
      in ([(''policy'', PStr triage_policy)] @ ids @
          [(''eligible'', PList (map (\<lambda>c. PDict (triage_card_summary c)) (take 80 eligible))),
           (''excluded'', PList (map (\<lambda>c. PDict (triage_card_summary c)) (take 80 excluded))),
           (''summary'', PDict counts)],
          if rows = [] then d1 else add_run_event rid ''whiteboard_swarm_candidates_triaged'' (counts @ ids) d1))"

text \<open>\<open>_filter_deep_dive_findings\<close> and \<open>_filter_poc_allowed_findings\<close>, which differ in the column.\<close>

definition decided_findings ::
  "(finding_triage_decision \<Rightarrow> bool) \<Rightarrow> string \<Rightarrow> dict list \<Rightarrow> db \<Rightarrow> dict list" where
  "decided_findings column rid items d =
     (let finding_ids = map (\<lambda>i. py_str (dget i ''finding_id'')) (filter (\<lambda>i. truthy (dget i ''finding_id'')) items);
          rows = filter (\<lambda>t. td_audit_run_id t = rid \<and> td_finding_id t \<in> Some ` set finding_ids \<and>
                     td_decision_status t = ''deep_dive'' \<and> column t) (triage_decisions d);
          allowed = List.map_filter td_finding_id (filter (\<lambda>t. \<not> no_text (td_finding_id t)) rows)
      in if items = [] \<or> finding_ids = [] then []
         else filter (\<lambda>i. py_str (por (dget i ''finding_id'') (PStr [])) \<in> set allowed) items)"

definition filter_deep_dive_findings :: "string \<Rightarrow> dict list \<Rightarrow> db \<Rightarrow> dict list" where
  "filter_deep_dive_findings = decided_findings td_deep_dive_allowed"

definition filter_poc_allowed_findings :: "string \<Rightarrow> dict list \<Rightarrow> db \<Rightarrow> dict list" where
  "filter_poc_allowed_findings = decided_findings td_poc_allowed"

definition has_status :: "string \<Rightarrow> dict \<Rightarrow> bool" where
  "has_status status item = (str_lower (py_str (por (dget item ''status'') (PStr []))) = status)"

definition poc_candidate_findings :: "dict list \<Rightarrow> dict list" where
  "poc_candidate_findings items =
     (if filter (has_status ''confirmed'') items \<noteq> [] then filter (has_status ''confirmed'') items
      else filter (has_status ''needs_review'') items)"

section \<open>Judgement\<close>

text \<open>\<open>loads\<close> is \<open>json.loads\<close>, None for a \<open>JSONDecodeError\<close>.\<close>

fun first_loaded :: "(string \<Rightarrow> pyval option) \<Rightarrow> string list \<Rightarrow> dict option" where
  "first_loaded loads [] = None"
| "first_loaded loads (c # cs) = (case loads c of Some (PDict d) \<Rightarrow> Some d | _ \<Rightarrow> first_loaded loads cs)"

definition parse_json_object :: "(string \<Rightarrow> pyval option) \<Rightarrow> string \<Rightarrow> dict option" where
  "parse_json_object loads text =
     first_loaded loads (str_strip text # (case braces (str_strip text) of None \<Rightarrow> [] | Some s \<Rightarrow> [s]))"

definition decisions_in :: "(string \<Rightarrow> pyval option) \<Rightarrow> pyval \<Rightarrow> dict list option" where
  "decisions_in loads candidate =
     (let parsed = (case candidate of
            PDict d \<Rightarrow> if dmem d ''decisions'' \<or> dmem d ''findings'' then Some d else None
          | PStr s \<Rightarrow> if contains s ''decisions'' \<or> contains s ''finding_id'' then parse_json_object loads s else None
          | _ \<Rightarrow> None)
      in case parsed of
           None \<Rightarrow> None
         | Some d \<Rightarrow>
             (case por (dget d ''decisions'') (dget d ''findings'') of
                PList items \<Rightarrow> Some (map dict_or_empty (filter is_dict items))
              | _ \<Rightarrow> None))"

definition extract_judger_decisions :: "(string \<Rightarrow> pyval option) \<Rightarrow> string \<Rightarrow> db \<Rightarrow> dict list" where
  "extract_judger_decisions loads agent_run_id d =
     (case row_find ag_agent_run_id agent_run_id (agent_runs d) of
        None \<Rightarrow> []
      | Some run \<Rightarrow>
          (case first_some (decisions_in loads) (walk (PDict (ag_output_summary run))) of
             None \<Rightarrow> []
           | Some decisions \<Rightarrow> decisions))"

definition judgement_statuses :: "string list" where
  "judgement_statuses = [''confirmed'', ''false_positive'', ''needs_review'']"

definition decided_finding :: "dict \<Rightarrow> string" where
  "decided_finding decision = py_str (por (por (dget decision ''finding_id'') (dget decision ''id'')) (PStr []))"

definition decided_status :: "dict \<Rightarrow> string" where
  "decided_status decision = str_lower (py_str (por (por (dget decision ''status'') (dget decision ''judgement'')) (PStr [])))"

text \<open>\<open>structured_by_id.get\<close>: the last decision with an allowed status counts.\<close>

definition structured_decision :: "dict list \<Rightarrow> string \<Rightarrow> dict option" where
  "structured_decision decisions finding_id =
     find (\<lambda>x. decided_finding x = finding_id \<and> decided_finding x \<noteq> [] \<and> decided_status x \<in> set judgement_statuses)
       (rev decisions)"

definition fallback_status :: "validation_attempt list \<Rightarrow> finding \<Rightarrow> string" where
  "fallback_status attempts f =
     (if list_ex (\<lambda>a. va_status a = ''completed'') attempts then ''confirmed''
      else if list_ex (\<lambda>a. va_status a = ''failed'') attempts then ''needs_review''
      else if fi_status f \<in> {''candidate'', ''validating''} then ''needs_review'' else fi_status f)"

definition attempts_of :: "string \<Rightarrow> finding \<Rightarrow> validation_attempt list \<Rightarrow> validation_attempt list" where
  "attempts_of rid f attempts =
     filter (\<lambda>a. va_audit_run_id a = rid \<and> va_finding_id a = fi_finding_id f) attempts"

definition count_status :: "string \<Rightarrow> validation_attempt list \<Rightarrow> pyval" where
  "count_status status attempts = PInt (int (length (filter (\<lambda>a. va_status a = status) attempts)))"

definition judge_finding :: "string \<Rightarrow> validation_attempt list \<Rightarrow> dict list \<Rightarrow> finding \<Rightarrow> string \<times> dict" where
  "judge_finding rid attempts decisions f =
     (case structured_decision decisions (fi_finding_id f) of
        Some x \<Rightarrow>
          (decided_status x,
           [(''finding_id'', PStr (fi_finding_id f)), (''status'', PStr (decided_status x)), (''source'', PStr ''judger-agent''),
            (''reason'', por (por (dget x ''reason'') (dget x ''description'')) (dget x ''rationale''))])
      | None \<Rightarrow>
          let own = attempts_of rid f attempts; status = fallback_status own f
          in (status,
              [(''finding_id'', PStr (fi_finding_id f)), (''status'', PStr status), (''source'', PStr ''rule-fallback''),
               (''completed_attempts'', count_status ''completed'' own), (''failed_attempts'', count_status ''failed'' own)]))"

definition set_finding_status :: "string \<Rightarrow> string \<Rightarrow> db \<Rightarrow> db" where
  "set_finding_status fid status d =
     d\<lparr>findings := row_upd fi_finding_id fid (\<lambda>f. stamped (db_now d) f (f\<lparr>fi_status := status\<rparr>)) (findings d)\<rparr>"

definition apply_judgement ::
  "string \<Rightarrow> validation_attempt list \<Rightarrow> dict list \<Rightarrow> db \<Rightarrow> dict list \<times> db" where
  "apply_judgement rid attempts decisions d =
     (let rows = sort_key created_at (filter (\<lambda>f. fi_audit_run_id f = rid) (findings d))
      in (map (\<lambda>f. snd (judge_finding rid attempts decisions f)) rows,
          fold (\<lambda>f. set_finding_status (fi_finding_id f) (fst (judge_finding rid attempts decisions f))) rows d))"

definition complete_judgement ::
  "string \<Rightarrow> validation_attempt list \<Rightarrow> dict list \<Rightarrow> db \<Rightarrow> dict \<times> db" where
  "complete_judgement rid attempts agent_results d =
     (let parsed = map dict_or_empty (filter is_dict (concat (map (\<lambda>r. list_or_empty (dget r ''decisions'')) agent_results)));
          (decisions, d1) = apply_judgement rid attempts parsed d;
          result = [(''audit_run_id'', PStr rid), (''agent_runs'', PList (map PDict agent_results)),
                    (''decisions'', PList (map PDict decisions))]
      in (result, record_pipeline_event rid ''judgement_completed'' result d1))"

end
