(* ===== verification/Triage_Contracts.thy ===== *)
theory Triage_Contracts
  imports Finding_Triage Whiteboard_Board Agent_Output_Contracts
begin

text \<open>
  What the three sessions of \<open>Finding_Triage\<close> promise: candidate cards are linked once and
  for all, the triage opens the schedule gate of the whiteboard for the cards it rates high and for
  no other, and a judgement leaves no finding of the run undecided.
\<close>

section \<open>Candidate cards\<close>

definition is_candidate :: "string \<Rightarrow> whiteboard_card \<Rightarrow> bool" where
  "is_candidate rid c = (wc_audit_run_id c = rid \<and> wc_card_type c \<in> set candidate_card_types)"

lemma set_candidate_cards [simp]: "set (candidate_cards rid d) = {c \<in> set (wb_cards d). is_candidate rid c}"
  by (auto simp: candidate_cards_def is_candidate_def)

lemma distinct_candidate_cards:
  "distinct (map wc_card_id (wb_cards d)) \<Longrightarrow> distinct (map wc_card_id (candidate_cards rid d))"
  by (simp add: candidate_cards_def distinct_map_filter distinct_map inj_on_def)

lemma same_card: "distinct (map wc_card_id cs) \<Longrightarrow> c \<in> set cs \<Longrightarrow> c' \<in> set cs \<Longrightarrow> wc_card_id c = wc_card_id c' \<Longrightarrow> c = c'"
  by (metis distinct_map inj_onD)

lemma stamped_fields [simp]:
  "wc_card_id (stamped t r (c :: whiteboard_card)) = wc_card_id c"
  "wc_audit_run_id (stamped t r c) = wc_audit_run_id c"
  "wc_card_type (stamped t r c) = wc_card_type c"
  "wc_finding_id (stamped t r c) = wc_finding_id c"
  "wc_metadata (stamped t r c) = wc_metadata c"
  by (simp_all add: stamped_def)

section \<open>Linking candidates to findings\<close>

lemma link_card_frame [simp]:
  "findings (link_card cid fid d) = findings d" "evidence_rows (link_card cid fid d) = evidence_rows d"
  "db_uuids (link_card cid fid d) = db_uuids d"
  by (simp_all add: link_card_def)

text \<open>A card but for its link and the time of its last change.\<close>

definition unlinked :: "whiteboard_card \<Rightarrow> whiteboard_card" where
  "unlinked c = c\<lparr>updated_at := 0, wc_finding_id := None\<rparr>"

lemma unlinked_fields [simp]:
  "wc_card_id (unlinked c) = wc_card_id c" "wc_audit_run_id (unlinked c) = wc_audit_run_id c"
  "wc_card_type (unlinked c) = wc_card_type c"
  by (simp_all add: unlinked_def)

lemma unlinked_same:
  "unlinked x = unlinked y \<Longrightarrow> wc_card_id x = wc_card_id y \<and> wc_audit_run_id x = wc_audit_run_id y \<and> wc_card_type x = wc_card_type y"
  by (metis unlinked_fields)

lemma unlinked_link [simp]: "unlinked (stamped t x (x\<lparr>wc_finding_id := v\<rparr>)) = unlinked x"
proof -
  have "unlinked (x\<lparr>wc_finding_id := v\<rparr>) = unlinked x" "unlinked (x\<lparr>wc_finding_id := v, updated_at := t\<rparr>) = unlinked x"
    by (simp_all add: unlinked_def)
  then show ?thesis unfolding stamped_def by (cases "x\<lparr>wc_finding_id := v\<rparr> = x") simp_all
qed

text \<open>
  A card before and after: one of \<open>todo\<close> that named no finding now names one of the run with its
  identity, every other card names what it named.
\<close>

definition linked_to :: "string \<Rightarrow> (whiteboard_card \<Rightarrow> bool) \<Rightarrow> finding list \<Rightarrow> whiteboard_card \<Rightarrow> whiteboard_card \<Rightarrow> bool" where
  "linked_to rid todo fs c c' \<longleftrightarrow> unlinked c' = unlinked c \<and>
     (if todo c \<and> no_text (wc_finding_id c)
      then \<exists>f \<in> set fs. wc_finding_id c' = Some (fi_finding_id f) \<and> same_finding rid (card_identity c) f
      else wc_finding_id c' = wc_finding_id c)"

lemma linked_to_more: "linked_to rid todo fs c c' \<Longrightarrow> set fs \<subseteq> set fs' \<Longrightarrow> linked_to rid todo fs' c c'"
  unfolding linked_to_def by (cases "todo c \<and> no_text (wc_finding_id c)") auto

text \<open>As many findings of the run as were created, each with a row of evidence.\<close>

definition added :: "string \<Rightarrow> nat \<Rightarrow> db \<Rightarrow> db \<Rightarrow> bool" where
  "added rid n d d' \<longleftrightarrow> (\<exists>fs es. findings d' = findings d @ fs \<and> evidence_rows d' = evidence_rows d @ es \<and>
     length fs = n \<and> map ev_finding_id es = map fi_finding_id fs \<and> fi_audit_run_id ` set fs \<subseteq> {rid} \<and> ev_audit_run_id ` set es \<subseteq> {rid} \<and>
     fi_finding_id ` set fs \<subseteq> range (db_uuids d))"

lemma added_trans:
  assumes "added rid n a b" and "added rid m b c" and "db_uuids b = db_uuids a"
  shows "added rid (n + m) a c"
proof -
  obtain fs es where 1: "findings b = findings a @ fs" "evidence_rows b = evidence_rows a @ es" "length fs = n"
      "map ev_finding_id es = map fi_finding_id fs" "fi_audit_run_id ` set fs \<subseteq> {rid}" "ev_audit_run_id ` set es \<subseteq> {rid}"
      "fi_finding_id ` set fs \<subseteq> range (db_uuids a)"
    using assms(1) unfolding added_def by (elim exE conjE) (rule that; assumption)
  obtain fs' es' where 2: "findings c = findings b @ fs'" "evidence_rows c = evidence_rows b @ es'" "length fs' = m"
      "map ev_finding_id es' = map fi_finding_id fs'" "fi_audit_run_id ` set fs' \<subseteq> {rid}" "ev_audit_run_id ` set es' \<subseteq> {rid}"
      "fi_finding_id ` set fs' \<subseteq> range (db_uuids a)"
    using assms(2) unfolding added_def assms(3) by (elim exE conjE) (rule that; assumption)
  show ?thesis unfolding added_def
    by (rule exI [of _ "fs @ fs'"], rule exI [of _ "es @ es'"]) (use 1 2 in \<open>simp add: image_Un\<close>)
qed

definition sync_inv :: "string \<Rightarrow> db \<Rightarrow> string set \<Rightarrow> nat \<Rightarrow> db \<Rightarrow> bool" where
  "sync_inv rid d0 done n d \<longleftrightarrow>
     list_all2 (linked_to rid (\<lambda>c. wc_card_id c \<in> done) (findings d)) (wb_cards d0) (wb_cards d) \<and> added rid n d0 d \<and>
     db_uuids d = db_uuids d0"

lemma sync_inv_more:
  assumes "sync_inv rid d0 done n d" and "added rid m d d'" and "wb_cards d' = wb_cards d" and "db_uuids d' = db_uuids d"
  shows "sync_inv rid d0 done (n + m) d'"
proof -
  have "set (findings d) \<subseteq> set (findings d')" using assms(2) by (auto simp: added_def)
  then have "list_all2 (linked_to rid (\<lambda>c. wc_card_id c \<in> done) (findings d')) (wb_cards d0) (wb_cards d')"
    using assms(1) unfolding sync_inv_def assms(3) by (auto elim!: list.rel_mono_strong intro: linked_to_more)
  moreover have "added rid (n + m) d0 d'"
    using assms(1,2) by (intro added_trans [of rid n d0 d m]) (auto simp: sync_inv_def)
  ultimately show ?thesis using assms(1,4) by (simp add: sync_inv_def)
qed

lemma sync_inv_link:
  assumes "sync_inv rid d0 done n d" and "distinct (map wc_card_id (wb_cards d0))" and "c \<in> set (wb_cards d0)"
    and "no_text (wc_finding_id c)" and "f \<in> set (findings d)" and "same_finding rid (card_identity c) f"
  shows "sync_inv rid d0 (insert (wc_card_id c) done) n (link_card (wc_card_id c) (fi_finding_id f) d)"
proof -
  let ?f = "\<lambda>x. if wc_card_id x = wc_card_id c then stamped (db_now d) x (x\<lparr>wc_finding_id := Some (fi_finding_id f)\<rparr>) else x"
  have one: "linked_to rid (\<lambda>x. wc_card_id x \<in> insert (wc_card_id c) done) (findings d) y (?f x)"
    if "y \<in> set (wb_cards d0)" "linked_to rid (\<lambda>x. wc_card_id x \<in> done) (findings d) y x" for y x
  proof (cases "wc_card_id y = wc_card_id c")
    case True
    then have "y = c" using same_card [OF assms(2) that(1) assms(3)] by simp
    then show ?thesis
      using that(2) unlinked_same [of x y] assms(4-6) by (auto simp: linked_to_def)
  next
    case False
    then show ?thesis using that(2) unlinked_same [of x y] by (auto simp: linked_to_def)
  qed
  have "wb_cards (link_card (wc_card_id c) (fi_finding_id f) d) = map ?f (wb_cards d)"
    by (simp add: link_card_def row_upd_def)
  moreover have "list_all2 (linked_to rid (\<lambda>x. wc_card_id x \<in> insert (wc_card_id c) done) (findings d)) (wb_cards d0) (map ?f (wb_cards d))"
    unfolding list_all2_map2 by (rule list.rel_mono_strong [OF assms(1) [unfolded sync_inv_def, THEN conjunct1]]) (rule one)
  ultimately show ?thesis
    using assms(1) by (simp add: sync_inv_def added_def)
qed

text \<open>A turn of the loop over a card of the run, which the loop has as it was at the start.\<close>

lemma sync_inv_step:
  assumes "distinct (map wc_card_id (wb_cards d0))" and "c \<in> set (wb_cards d0)" and "wc_audit_run_id c = rid"
    and "sync_inv rid d0 done created d" and "sync_card rid c ((created, linked), d) = ((created', linked'), d')"
  shows "sync_inv rid d0 (insert (wc_card_id c) done) created' d'"
proof (cases "no_text (wc_finding_id c)")
  case False
  have "linked_to rid (\<lambda>x. wc_card_id x \<in> insert (wc_card_id c) done) (findings d) y x"
    if "y \<in> set (wb_cards d0)" "linked_to rid (\<lambda>x. wc_card_id x \<in> done) (findings d) y x" for y x
    using that(2) same_card [OF assms(1) that(1) assms(2)] False by (auto simp: linked_to_def)
  then show ?thesis
    using assms(4,5) False by (auto simp: sync_card_def sync_inv_def elim!: list.rel_mono_strong)
next
  case True
  show ?thesis
  proof (cases "find_existing_finding rid (card_identity c) d")
    case (Some f)
    then have "f \<in> set (findings d)" "same_finding rid (card_identity c) f"
      by (auto simp: find_existing_finding_def find_Some_iff)
    from sync_inv_link [OF assms(4,1,2) True this] show ?thesis
      using assms(5) True Some by (simp add: sync_card_def)
  next
    case None
    obtain fid d1 where 1: "fresh_uuid d = (fid, d1)" by (cases "fresh_uuid d")
    obtain eid d2 where 2: "fresh_uuid d1 = (eid, d2)" by (cases "fresh_uuid d1")
    let ?f = "finding_of_card fid (db_now d) c"
    let ?d = "d2\<lparr>findings := findings d2 @ [?f], evidence_rows := evidence_rows d2 @ [evidence_of_card eid fid (db_now d) c]\<rparr>"
    have f: "same_finding rid (card_identity c) ?f" "fi_finding_id ?f = fid"
      using assms(3) by (simp_all add: same_finding_def finding_of_card_def Let_def card_identity_def finding_identity_def
          str_if_truthy_nonempty)
    have "added rid 1 d ?d"
      using 1 2 assms(3) f(2) by (auto simp: added_def fresh_uuid_def finding_of_card_def evidence_of_card_def Let_def)
    then have "sync_inv rid d0 done (created + 1) ?d"
      using 1 2 by (intro sync_inv_more [OF assms(4)]) (auto simp: fresh_uuid_def)
    from sync_inv_link [OF this assms(1,2) True _ f(1)] show ?thesis
      using assms(5) True None f(2) by (simp add: sync_card_def add_card_finding_def 1 2)
  qed
qed

lemma sync_inv_fold:
  assumes "distinct (map wc_card_id (wb_cards d0))" and "set rows \<subseteq> {c \<in> set (wb_cards d0). is_candidate rid c}"
    and "sync_inv rid d0 done created d" and "fold (sync_card rid) rows ((created, linked), d) = ((created', linked'), d')"
  shows "sync_inv rid d0 (wc_card_id ` set rows \<union> done) created' d'"
  using assms(2-4)
proof (induction rows arbitrary: created linked d "done")
  case (Cons c rows)
  obtain n m e where s: "sync_card rid c ((created, linked), d) = ((n, m), e)" by (metis prod.collapse)
  have "sync_inv rid d0 (insert (wc_card_id c) done) n e"
    using Cons.prems(1) by (intro sync_inv_step [OF assms(1) _ _ Cons.prems(2) s]) (auto simp: is_candidate_def)
  from Cons.IH [OF _ this] Cons.prems(1,3) show ?case by (simp add: s)
qed simp

lemma sync_counts:
  "fst (fst (fold (sync_card rid) rows (n, d))) + snd (fst (fold (sync_card rid) rows (n, d))) = fst n + snd n + length rows"
proof (induction rows arbitrary: n d)
  case (Cons c rows)
  obtain m e where s: "sync_card rid c (n, d) = (m, e)" by fastforce
  then have "fst m + snd m = Suc (fst n + snd n)"
    by (auto simp: sync_card_def split: prod.splits if_splits option.splits)
  with Cons show ?case by (simp add: s)
qed simp

lemma sync_linked:
  "\<forall>c \<in> set rows. \<not> no_text (wc_finding_id c) \<Longrightarrow>
   fold (sync_card rid) rows ((created, linked), d) = ((created, linked + length rows), d)"
  by (induction rows arbitrary: linked) (auto simp: sync_card_def)

lemma add_run_event_tables [simp]:
  "wb_cards (add_run_event rid ty p d) = wb_cards d" "findings (add_run_event rid ty p d) = findings d"
  "evidence_rows (add_run_event rid ty p d) = evidence_rows d"
  "triage_decisions (add_run_event rid ty p d) = triage_decisions d"
  by (simp_all add: add_run_event_def)

text \<open>C15. Synchronising counts each candidate card of the run as created or linked. A candidate that
  named no finding names afterwards a stored finding of the run with the title, source, file, line
  and rule of the card; every other card, and everything else of a card, is as it was, so a
  candidate that came with an identifier keeps it, which the code does not look up. Findings and
  evidence grow at their end by one row of this run for each that is counted as created. Doing it
  again creates nothing and changes no card, finding or evidence.\<close>

theorem sync_links_once:
  assumes "distinct (map wc_card_id (wb_cards d))"
    and "\<forall>f \<in> set (findings d). fi_finding_id f \<noteq> []" "\<forall>n. db_uuids d n \<noteq> []"
    and "sync_whiteboard_candidate_findings rid d = ((created, linked), d')"
    and "sync_whiteboard_candidate_findings rid d' = ((created', linked'), d'')"
  shows "created + linked = length (candidate_cards rid d) \<and>
    list_all2 (linked_to rid (is_candidate rid) (findings d')) (wb_cards d) (wb_cards d') \<and> added rid created d d' \<and>
    created' = 0 \<and> wb_cards d'' = wb_cards d' \<and> findings d'' = findings d' \<and> evidence_rows d'' = evidence_rows d'"
proof -
  let ?rows = "candidate_cards rid d"
  obtain n m d1 where f: "fold (sync_card rid) ?rows ((0, 0), d) = ((n, m), d1)" by (metis prod.collapse)
  have n: "n = created" "m = linked" and same: "wb_cards d' = wb_cards d1" "findings d' = findings d1"
      "evidence_rows d' = evidence_rows d1"
    using assms(4) by (auto simp: sync_whiteboard_candidate_findings_def f split: if_splits)
  have counts: "created + linked = length ?rows" using sync_counts [of rid ?rows "(0, 0)" d] by (simp add: f n)
  have "sync_inv rid d {} 0 d" by (simp add: sync_inv_def added_def linked_to_def list_all2_same)
  then have inv: "sync_inv rid d (wc_card_id ` set ?rows) created d1"
    using sync_inv_fold [OF assms(1) _ _ f, of "{}"] by (simp add: n)
  have ids: "wc_card_id c \<in> wc_card_id ` set ?rows \<longleftrightarrow> is_candidate rid c" if "c \<in> set (wb_cards d)" for c
    using that same_card [OF assms(1) that] by (auto simp: image_iff)
  have links: "list_all2 (linked_to rid (is_candidate rid) (findings d')) (wb_cards d) (wb_cards d')"
    using inv ids by (auto simp: sync_inv_def same linked_to_def elim!: list.rel_mono_strong split: if_splits)
  have add: "added rid created d d'" using inv by (simp add: sync_inv_def added_def same)
  have nonempty: "fi_finding_id f \<noteq> []" if "f \<in> set (findings d')" for f
  proof -
    obtain fs where "findings d' = findings d @ fs" "fi_finding_id ` set fs \<subseteq> range (db_uuids d)"
      using add unfolding added_def by blast
    then have "f \<in> set (findings d) \<or> fi_finding_id f \<in> range (db_uuids d)" using that by auto
    then show ?thesis using assms(2,3) by auto
  qed
  have "\<not> no_text (wc_finding_id c)" if c: "c \<in> set (wb_cards d')" "is_candidate rid c" for c
  proof -
    obtain y where y: "linked_to rid (is_candidate rid) (findings d') y c"
      using links c(1) by (auto simp: list_all2_conv_all_nth in_set_conv_nth)
    then have "is_candidate rid y" using c(2) unlinked_same [of c y] by (simp add: linked_to_def is_candidate_def)
    then show ?thesis using y nonempty by (auto simp: linked_to_def no_text_def nonempty [symmetric] split: if_splits)
  qed
  then have linked': "\<forall>c \<in> set (candidate_cards rid d'). \<not> no_text (wc_finding_id c)" by simp
  have "fold (sync_card rid) (candidate_cards rid d') ((0, 0), d') = ((0, length (candidate_cards rid d')), d')"
    using sync_linked [OF linked'] by simp
  then have "created' = 0 \<and> wb_cards d'' = wb_cards d' \<and> findings d'' = findings d' \<and> evidence_rows d'' = evidence_rows d'"
    using assms(5) by (auto simp: sync_whiteboard_candidate_findings_def Let_def split: if_splits)
  with counts links add show ?thesis by blast
qed


definition candidate :: whiteboard_card where
  "candidate = sample_card\<lparr>wc_card_type := ''candidate_vulnerability'', wc_title := ''SQL injection'', wc_file_path := Some ''a.py'',
     wc_metadata := [(''severity'', PStr ''high'')]\<rparr>"

definition candidate_db :: db where
  "candidate_db = empty_db\<lparr>wb_cards := [candidate]\<rparr>"

theorem sync_links_once_witness:
  "fst (fst (sync_whiteboard_candidate_findings ''run-1'' candidate_db)) +
   snd (fst (sync_whiteboard_candidate_findings ''run-1'' candidate_db)) = 1 \<and>
   fst (fst (sync_whiteboard_candidate_findings ''run-1'' (snd (sync_whiteboard_candidate_findings ''run-1'' candidate_db)))) = 0"
proof -
  obtain created linked d' where s: "sync_whiteboard_candidate_findings ''run-1'' candidate_db = ((created, linked), d')"
    by (metis prod.collapse)
  obtain created' linked' d'' where s': "sync_whiteboard_candidate_findings ''run-1'' d' = ((created', linked'), d'')"
    by (metis prod.collapse)
  have pre: "distinct (map wc_card_id (wb_cards candidate_db))" "\<forall>f \<in> set (findings candidate_db). fi_finding_id f \<noteq> []"
    "\<forall>n. db_uuids candidate_db n \<noteq> []"
    by (simp_all add: candidate_db_def empty_db_def)
  have "length (candidate_cards ''run-1'' candidate_db) = 1"
    by (simp add: candidate_cards_def candidate_db_def candidate_def sample_card_def candidate_card_types_def)
  then show ?thesis using sync_links_once [OF pre s s'] by (simp only: s s' fst_conv snd_conv)
qed

section \<open>The schedule gate after a triage\<close>

lemma stamped_decision [simp]:
  "td_decision_id (stamped t r (q :: finding_triage_decision)) = td_decision_id q"
  by (simp add: stamped_def)

definition no_decision_yet :: "string \<Rightarrow> db \<Rightarrow> bool" where
  "no_decision_yet rid d = (\<forall>t \<in> set (triage_decisions d). td_audit_run_id t \<noteq> rid)"

text \<open>What the policy reads of a decision row.\<close>

definition decision_view :: "finding_triage_decision \<Rightarrow> string \<times> string option \<times> string option \<times> string" where
  "decision_view t = (td_audit_run_id t, td_card_id t, td_finding_id t, td_decision_status t)"

definition decision_for :: "string \<Rightarrow> whiteboard_card \<Rightarrow> string \<times> string option \<times> string option \<times> string" where
  "decision_for rid c = (rid, Some (wc_card_id c), wc_finding_id c, candidate_decision c)"

lemma triage_card_new:
  assumes "\<forall>t \<in> set (triage_decisions d). \<not> decision_of_card rid (wc_card_id c) t"
  shows "map decision_view (triage_decisions (triage_card rid c d)) = map decision_view (triage_decisions d) @ [decision_for rid c]"
    and "wb_cards (triage_card rid c d) =
      row_upd wc_card_id (wc_card_id c) (\<lambda>c. stamped (db_now d) c (triaged_card c)) (wb_cards d)"
    and "db_now (triage_card rid c d) = db_now d"
proof -
  have none: "find (decision_of_card rid (wc_card_id c)) (triage_decisions d) = None"
    using assms by (auto simp: find_None_iff)
  obtain did d2 where u: "fresh_uuid (d\<lparr>wb_cards := row_upd wc_card_id (wc_card_id c)
      (\<lambda>c. stamped (db_now d) c (triaged_card c)) (wb_cards d)\<rparr>) = (did, d2)" by fastforce
  then have d2: "triage_decisions d2 = triage_decisions d" "db_now d2 = db_now d" "wb_cards d2 = row_upd wc_card_id (wc_card_id c)
      (\<lambda>c. stamped (db_now d) c (triaged_card c)) (wb_cards d)"
    by (auto simp: fresh_uuid_def)
  have view: "decision_view (new_decision did rid (db_now d) c) = decision_for rid c"
    by (simp add: decision_view_def new_decision_def with_decision_def decision_for_def)
  show "map decision_view (triage_decisions (triage_card rid c d)) = map decision_view (triage_decisions d) @ [decision_for rid c]"
    "wb_cards (triage_card rid c d) = row_upd wc_card_id (wc_card_id c) (\<lambda>c. stamped (db_now d) c (triaged_card c)) (wb_cards d)"
    "db_now (triage_card rid c d) = db_now d"
    by (simp_all add: triage_card_def none u d2 view)
qed

text \<open>The cards, seen as what the policy reads of them, after the cards of \<open>rows\<close> are triaged.\<close>

definition card_view :: "whiteboard_card \<Rightarrow> string \<times> string \<times> string option" where
  "card_view c = (wc_card_id c, wc_audit_run_id c, wc_finding_id c)"

lemma card_triage_triaged [simp]: "card_triage (stamped t r (triaged_card c)) = Some (candidate_decision c)"
  by (simp add: card_triage_def triaged_card_def swarm_candidate_value_decision_def por_def)

lemma triaged_card_fields [simp]:
  "wc_card_id (triaged_card c) = wc_card_id c" "wc_audit_run_id (triaged_card c) = wc_audit_run_id c"
  "wc_finding_id (triaged_card c) = wc_finding_id c" "wc_card_type (triaged_card c) = wc_card_type c"
  by (simp_all add: triaged_card_def)

lemma triage_fold:
  assumes "distinct (map wc_card_id rows)"
    and "\<forall>c \<in> set rows. \<forall>t \<in> set (triage_decisions d). \<not> decision_of_card rid (wc_card_id c) t"
  shows "map decision_view (triage_decisions (fold (triage_card rid) rows d)) =
      map decision_view (triage_decisions d) @ map (decision_for rid) rows \<and>
    wb_cards (fold (triage_card rid) rows d) =
      map (\<lambda>c. if wc_card_id c \<in> wc_card_id ` set rows then stamped (db_now d) c (triaged_card c) else c) (wb_cards d)"
  using assms
proof (induction rows arbitrary: d)
  case (Cons c rows)
  let ?d = "triage_card rid c d"
  note step = triage_card_new [of d rid c]
  have none: "\<forall>t \<in> set (triage_decisions d). \<not> decision_of_card rid (wc_card_id c) t" using Cons.prems(2) by simp
  have by_view: "decision_of_card rid k t \<longleftrightarrow> fst (decision_view t) = rid \<and> fst (snd (decision_view t)) = Some k" for k t
    by (simp add: decision_of_card_def decision_view_def)
  have "\<not> decision_of_card rid (wc_card_id x) t" if x: "x \<in> set rows" "t \<in> set (triage_decisions ?d)" for x t
  proof -
    have "decision_view t \<in> set (map decision_view (triage_decisions d) @ [decision_for rid c])"
      using x(2) step(1) [OF none] by (metis image_eqI list.set_map)
    then consider t' where "t' \<in> set (triage_decisions d)" "decision_view t = decision_view t'" | "decision_view t = decision_for rid c"
      by auto
    then show ?thesis
    proof cases
      case 1
      then show ?thesis using Cons.prems(2) x(1) by (auto simp: by_view)
    next
      case 2
      then show ?thesis using Cons.prems(1) x(1) by (auto simp: by_view decision_for_def)
    qed
  qed
  then have IH: "map decision_view (triage_decisions (fold (triage_card rid) rows ?d)) =
      map decision_view (triage_decisions ?d) @ map (decision_for rid) rows"
    "wb_cards (fold (triage_card rid) rows ?d) =
      map (\<lambda>c. if wc_card_id c \<in> wc_card_id ` set rows then stamped (db_now ?d) c (triaged_card c) else c) (wb_cards ?d)"
    using Cons.IH [of ?d] Cons.prems(1) by auto
  let ?f = "\<lambda>x. if wc_card_id x = wc_card_id c then stamped (db_now d) x (triaged_card x) else x"
  let ?g = "\<lambda>x. if wc_card_id x \<in> wc_card_id ` set rows then stamped (db_now d) x (triaged_card x) else x"
  let ?h = "\<lambda>x. if wc_card_id x \<in> wc_card_id ` set (c # rows) then stamped (db_now d) x (triaged_card x) else x"
  have other: "wc_card_id c \<notin> wc_card_id ` set rows" using Cons.prems(1) by simp
  have "?g (?f x) = ?h x" for x
  proof (cases "wc_card_id x = wc_card_id c")
    case True
    then show ?thesis using other by simp
  next
    case False
    then show ?thesis by simp
  qed
  then have "map ?g (map ?f (wb_cards d)) = map ?h (wb_cards d)" by (simp only: map_map o_def)
  moreover have "wb_cards (fold (triage_card rid) rows ?d) = map ?g (map ?f (wb_cards d))"
    by (simp only: IH(2) step(2,3) [OF none] row_upd_def)
  ultimately have "wb_cards (fold (triage_card rid) (c # rows) d) = map ?h (wb_cards d)" by simp
  moreover have "map decision_view (triage_decisions (fold (triage_card rid) (c # rows) d)) =
      map decision_view (triage_decisions d) @ map (decision_for rid) (c # rows)"
    using IH(1) step(1) [OF none] by simp
  ultimately show ?case by blast
qed simp


lemma filter_key:
  "distinct (map k xs) \<Longrightarrow> c \<in> set xs \<Longrightarrow> filter (\<lambda>x. k x = k c) xs = [c]"
proof (induction xs)
  case (Cons x xs)
  have none: "filter (\<lambda>x. k x = k c) xs = []" if "k c \<notin> k ` set xs"
    using that by (intro filter_False ballI) (metis image_eqI)
  show ?case
  proof (cases "x = c")
    case True
    then show ?thesis using Cons.prems(1) none by simp
  next
    case False
    then have "c \<in> set xs" using Cons.prems(2) by simp
    moreover have "k x \<noteq> k c" using Cons.prems(1) \<open>c \<in> set xs\<close> by (auto simp: image_iff)
    ultimately show ?thesis using Cons by simp
  qed
qed simp

text \<open>The policy lets a request for one triaged card through, in terms of decisions.\<close>

lemma gate_one_card:
  assumes "related_cards d rid [cid] = [c]" "card_triage c = Some status" "status \<noteq> ''chain_candidate''"
    and "\<forall>t \<in> set (triage_rows d rid [c]). td_decision_status t \<noteq> ''chain_candidate''"
  shows "low_value_only_schedule_reason rid [cid] d = None \<longleftrightarrow>
    status = ''deep_dive'' \<or> (\<exists>t \<in> set (triage_rows d rid [c]). td_decision_status t = ''deep_dive'')"
  using assms
  by (auto simp: low_value_only_schedule_reason_def Let_def List.map_filter_simps list_ex_iff)

lemma candidate_decision_not_chain [simp]: "candidate_decision c \<noteq> ''chain_candidate''"
  by (simp add: candidate_decision_def Let_def)

text \<open>What a first triage makes of a card, and what it adds to the decisions.\<close>

definition triaged_row :: "string \<Rightarrow> db \<Rightarrow> whiteboard_card \<Rightarrow> whiteboard_card" where
  "triaged_row rid d x =
     (if wc_card_id x \<in> wc_card_id ` set (candidate_cards rid d) then stamped (db_now d) x (triaged_card x) else x)"

lemma triaged_row_simps [simp]:
  "wc_audit_run_id (triaged_row rid d x) = wc_audit_run_id x" "wc_card_id (triaged_row rid d x) = wc_card_id x"
  "wc_finding_id (triaged_row rid d x) = wc_finding_id x"
  by (simp_all add: triaged_row_def)

lemma first_triage:
  assumes "distinct (map wc_card_id (wb_cards d))" "no_decision_yet rid d"
    and "triage_whiteboard_swarm_candidates rid d = (out, d')"
  shows "wb_cards d' = map (triaged_row rid d) (wb_cards d)"
    and "map decision_view (triage_decisions d') = map decision_view (triage_decisions d) @ map (decision_for rid) (candidate_cards rid d)"
proof -
  have "\<forall>c \<in> set (candidate_cards rid d). \<forall>t \<in> set (triage_decisions d). \<not> decision_of_card rid (wc_card_id c) t"
    using assms(2) by (simp add: no_decision_yet_def decision_of_card_def)
  note fold = triage_fold [OF distinct_candidate_cards [OF assms(1)] this]
  have "wb_cards d' = map (\<lambda>x. if wc_card_id x \<in> wc_card_id ` set (candidate_cards rid d)
      then stamped (db_now d) x (triaged_card x) else x) (wb_cards d)"
    and views: "map decision_view (triage_decisions d') = map decision_view (triage_decisions d) @ map (decision_for rid) (candidate_cards rid d)"
    using assms(3) fold by (auto simp: triage_whiteboard_swarm_candidates_def Let_def split: if_splits)
  then show "wb_cards d' = map (triaged_row rid d) (wb_cards d)" by (simp only: triaged_row_def [abs_def])
  show "map decision_view (triage_decisions d') = map decision_view (triage_decisions d) @ map (decision_for rid) (candidate_cards rid d)"
    by (rule views)
qed

lemma first_decisions:
  assumes "no_decision_yet rid d"
    and "map decision_view ts = map decision_view (triage_decisions d) @ map (decision_for rid) (candidate_cards rid d)"
  shows "t \<in> set ts \<Longrightarrow> td_audit_run_id t = rid \<Longrightarrow> \<exists>x \<in> set (candidate_cards rid d). decision_view t = decision_for rid x"
    and "x \<in> set (candidate_cards rid d) \<Longrightarrow> \<exists>t \<in> set ts. decision_view t = decision_for rid x"
proof -
  have views: "decision_view ` set ts = decision_view ` set (triage_decisions d) \<union> decision_for rid ` set (candidate_cards rid d)"
    using arg_cong [OF assms(2), of set] by (simp only: set_map set_append)
  show "\<exists>x \<in> set (candidate_cards rid d). decision_view t = decision_for rid x" if t: "t \<in> set ts" "td_audit_run_id t = rid"
  proof -
    have "decision_view t \<in> decision_view ` set (triage_decisions d) \<union> decision_for rid ` set (candidate_cards rid d)"
      unfolding views [symmetric] using t(1) by (rule imageI)
    then show ?thesis using t(2) assms(1) by (auto simp: no_decision_yet_def decision_view_def simp del: set_candidate_cards)
  qed
  show "\<exists>t \<in> set ts. decision_view t = decision_for rid x" if "x \<in> set (candidate_cards rid d)"
  proof -
    have "decision_for rid x \<in> decision_view ` set ts" unfolding views using that by blast
    then show ?thesis by auto
  qed
qed

text \<open>The decisions the gate reads for a card.\<close>

lemma gate_reads:
  assumes "wc_card_id r = wc_card_id c" "wc_finding_id r = wc_finding_id c"
  shows "t \<in> set (triage_rows d' rid [r]) \<longleftrightarrow> t \<in> set (triage_decisions d') \<and> td_audit_run_id t = rid \<and>
    (td_card_id t = Some (wc_card_id c) \<or> \<not> no_text (wc_finding_id c) \<and> td_finding_id t = wc_finding_id c)"
  using assms by (cases "wc_finding_id c") (auto simp: triage_rows_def List.map_filter_simps no_text_def)

lemma first_statuses:
  assumes "distinct (map wc_card_id (wb_cards d))" "no_decision_yet rid d" "c \<in> set (candidate_cards rid d)"
    and "triage_whiteboard_swarm_candidates rid d = (out, d')"
  shows "(\<exists>t \<in> set (triage_rows d' rid [triaged_row rid d c]). td_decision_status t = s) \<longleftrightarrow>
    (\<exists>x \<in> set (candidate_cards rid d). candidate_decision x = s \<and>
       (x = c \<or> \<not> no_text (wc_finding_id c) \<and> wc_finding_id x = wc_finding_id c))" (is "?L \<longleftrightarrow> ?R")
proof
  note first = first_decisions [OF assms(2) first_triage(2) [OF assms(1,2,4)]]
  note reads = gate_reads [where r = "triaged_row rid d c" and c = c, OF triaged_row_simps(2,3)]
  have same: "x = c" if "x \<in> set (candidate_cards rid d)" "wc_card_id x = wc_card_id c" for x
    using same_card [OF assms(1)] that assms(3) by simp
  {
    assume ?L
    then obtain t where t: "t \<in> set (triage_rows d' rid [triaged_row rid d c])" "td_decision_status t = s" by blast
    then obtain x where "x \<in> set (candidate_cards rid d)" "decision_view t = decision_for rid x"
      using first(1) unfolding reads by blast
    then show ?R using t same [of x] unfolding reads
      by (auto simp: decision_view_def decision_for_def simp del: set_candidate_cards)
  next
    assume ?R
    then obtain x where x: "x \<in> set (candidate_cards rid d)" "candidate_decision x = s"
      "x = c \<or> \<not> no_text (wc_finding_id c) \<and> wc_finding_id x = wc_finding_id c" by blast
    obtain t where "t \<in> set (triage_decisions d')" "decision_view t = decision_for rid x" using first(2) [OF x(1)] by blast
    then have "t \<in> set (triage_rows d' rid [triaged_row rid d c])" "td_decision_status t = s"
      using x(2,3) unfolding reads by (auto simp: decision_view_def decision_for_def)
    then show ?L by blast
  }
qed

lemma triaged_related:
  assumes "distinct (map wc_card_id (wb_cards d))" "c \<in> set (candidate_cards rid d)"
    and "wb_cards d' = map (triaged_row rid d) (wb_cards d)"
  shows "related_cards d' rid [wc_card_id c] = [triaged_row rid d c]"
proof -
  have c: "c \<in> set (wb_cards d)" "is_candidate rid c" using assms(2) by auto
  have "related_cards d' rid [wc_card_id c] =
      map (triaged_row rid d) (filter (\<lambda>x. wc_audit_run_id x = rid \<and> wc_card_id x = wc_card_id c) (wb_cards d))"
    by (simp add: related_cards_def assms(3) filter_map o_def)
  also have "filter (\<lambda>x. wc_audit_run_id x = rid \<and> wc_card_id x = wc_card_id c) (wb_cards d) =
      filter (\<lambda>x. wc_audit_run_id x = rid) (filter (\<lambda>x. wc_card_id x = wc_card_id c) (wb_cards d))"
    by (simp add: conj_commute)
  also have "\<dots> = [c]" using c by (simp add: filter_key [OF assms(1)] is_candidate_def)
  finally show ?thesis by simp
qed

text \<open>C16. After the first triage of a run the schedule gate of the whiteboard lets a request for a
  candidate card through exactly if the triage rated this card, or a candidate card of the same
  finding, a deep dive.\<close>

theorem triage_opens_gate:
  assumes "distinct (map wc_card_id (wb_cards d))" "no_decision_yet rid d" "c \<in> set (candidate_cards rid d)"
    and "triage_whiteboard_swarm_candidates rid d = (out, d')"
  shows "low_value_only_schedule_reason rid [wc_card_id c] d' = None \<longleftrightarrow>
    (\<exists>x \<in> set (candidate_cards rid d). candidate_decision x = ''deep_dive'' \<and>
       (x = c \<or> \<not> no_text (wc_finding_id c) \<and> wc_finding_id x = wc_finding_id c))"
proof -
  note statuses = first_statuses [OF assms]
  have related: "related_cards d' rid [wc_card_id c] = [triaged_row rid d c]"
    by (rule triaged_related [OF assms(1,3) first_triage(1) [OF assms(1,2,4)]])
  have "triaged_row rid d c = stamped (db_now d) c (triaged_card c)"
    using assms(3) by (simp only: triaged_row_def image_eqI if_True)
  moreover have "\<forall>t \<in> set (triage_rows d' rid [triaged_row rid d c]). td_decision_status t \<noteq> ''chain_candidate''"
    using statuses [of "''chain_candidate''"] by auto
  ultimately show ?thesis
    using gate_one_card [OF related _ candidate_decision_not_chain [of c]] statuses [of "''deep_dive''"] assms(3) by auto
qed

theorem triage_opens_gate_witness:
  "low_value_only_schedule_reason ''run-1'' [''c-1''] (snd (triage_whiteboard_swarm_candidates ''run-1'' candidate_db)) = None"
proof -
  obtain out d' where t: "triage_whiteboard_swarm_candidates ''run-1'' candidate_db = (out, d')" by fastforce
  have pre: "distinct (map wc_card_id (wb_cards candidate_db))" "no_decision_yet ''run-1'' candidate_db"
    "candidate \<in> set (candidate_cards ''run-1'' candidate_db)"
    by (simp_all add: candidate_db_def empty_db_def no_decision_yet_def is_candidate_def candidate_def sample_card_def
          candidate_card_types_def)
  have "candidate_decision candidate = ''deep_dive''" by code_simp
  moreover have "wc_card_id candidate = ''c-1''" by (simp add: candidate_def sample_card_def)
  ultimately show ?thesis using triage_opens_gate [OF pre t] pre(3) t by auto
qed

section \<open>Judgement\<close>

lemma stamped_finding [simp]:
  "fi_finding_id (stamped t r (f :: finding)) = fi_finding_id f" "fi_audit_run_id (stamped t r f) = fi_audit_run_id f"
  "fi_status (stamped t r f) = fi_status f"
  by (simp_all add: stamped_def)

lemma set_status:
  "findings (set_finding_status fid status d) =
     map (\<lambda>g. if fi_finding_id g = fid then stamped (db_now d) g (g\<lparr>fi_status := status\<rparr>) else g) (findings d)"
  "db_now (set_finding_status fid status d) = db_now d"
  by (simp_all add: set_finding_status_def row_upd_def)

lemma judged_fold:
  assumes "distinct (map fi_finding_id rows)"
  shows "findings (fold (\<lambda>f. set_finding_status (fi_finding_id f) (status f)) rows d) =
    map (\<lambda>g. case row_find fi_finding_id (fi_finding_id g) rows of
            None \<Rightarrow> g | Some f \<Rightarrow> stamped (db_now d) g (g\<lparr>fi_status := status f\<rparr>)) (findings d)"
  using assms
proof (induction rows arbitrary: d)
  case (Cons f rows)
  let ?d = "set_finding_status (fi_finding_id f) (status f) d"
  have "row_find fi_finding_id (fi_finding_id f) rows = None" using Cons.prems by (simp add: row_find_None)
  then show ?case
    using Cons by (auto simp: set_status split: option.splits)
qed simp

lemma find_holds: "find P xs = Some x \<Longrightarrow> x \<in> set xs \<and> P x"
  by (induction xs) (auto split: if_splits)

lemma structured_decision_allowed:
  "structured_decision decisions fid = Some x \<Longrightarrow>
     x \<in> set decisions \<and> decided_finding x = fid \<and> decided_status x \<in> set judgement_statuses"
  unfolding structured_decision_def by (drule find_holds) auto

lemma judged_status:
  "fst (judge_finding rid attempts decisions f) \<notin> {''candidate'', ''validating''} \<and>
   (fst (judge_finding rid attempts decisions f) = ''confirmed'' \<longrightarrow>
      (\<exists>x \<in> set decisions. decided_finding x = fi_finding_id f \<and> decided_status x = ''confirmed'') \<or>
      (\<exists>a \<in> set attempts. va_audit_run_id a = rid \<and> va_finding_id a = fi_finding_id f \<and> va_status a = ''completed'') \<or>
      fi_status f = ''confirmed'')"
proof (cases "structured_decision decisions (fi_finding_id f)")
  case None
  then show ?thesis
    by (auto simp: judge_finding_def Let_def fallback_status_def attempts_of_def list_ex_iff)
next
  case (Some x)
  then show ?thesis
    using structured_decision_allowed [OF Some] by (auto simp: judge_finding_def judgement_statuses_def)
qed

text \<open>What a judgement makes of a row, and the decisions it reports.\<close>

definition judged_row :: "string \<Rightarrow> validation_attempt list \<Rightarrow> dict list \<Rightarrow> time \<Rightarrow> finding \<Rightarrow> finding" where
  "judged_row rid attempts decisions now g =
     (if fi_audit_run_id g = rid then stamped now g (g\<lparr>fi_status := fst (judge_finding rid attempts decisions g)\<rparr>) else g)"

lemma judged_row_simps [simp]:
  "fi_finding_id (judged_row rid attempts decisions now g) = fi_finding_id g"
  "fi_audit_run_id (judged_row rid attempts decisions now g) = fi_audit_run_id g"
  "fi_audit_run_id g = rid \<Longrightarrow> fi_status (judged_row rid attempts decisions now g) = fst (judge_finding rid attempts decisions g)"
  "fi_audit_run_id g \<noteq> rid \<Longrightarrow> judged_row rid attempts decisions now g = g"
  by (simp_all add: judged_row_def)

lemma decision_fields [simp]:
  "dget (snd (judge_finding rid attempts decisions f)) ''finding_id'' = PStr (fi_finding_id f)"
  "dget (snd (judge_finding rid attempts decisions f)) ''status'' = PStr (fst (judge_finding rid attempts decisions f))"
  by (simp_all add: judge_finding_def Let_def split: option.splits)

lemma run_row_find:
  assumes "distinct (map fi_finding_id fs)" "g \<in> set fs"
  shows "row_find fi_finding_id (fi_finding_id g) (sort_key created_at (filter (\<lambda>f. fi_audit_run_id f = rid) fs)) =
    (if fi_audit_run_id g = rid then Some g else None)" (is "row_find _ _ ?rows = _")
proof (cases "fi_audit_run_id g = rid")
  case True
  have "distinct (map fi_finding_id ?rows)"
    using assms(1) by (simp add: distinct_map_filter distinct_map inj_on_def)
  then have "row_find fi_finding_id (fi_finding_id g) ?rows = Some g"
    using assms(2) True by (intro row_find_distinct) auto
  with True show ?thesis by simp
next
  case False
  have "fi_finding_id g \<notin> fi_finding_id ` set ?rows"
    using assms False by (auto simp: distinct_map inj_on_def)
  then have "row_find fi_finding_id (fi_finding_id g) ?rows = None" unfolding row_find_None .
  with False show ?thesis by simp
qed

lemma judged_findings:
  assumes "distinct (map fi_finding_id (findings d))" "apply_judgement rid attempts decisions d = (out, d')"
  shows "findings d' = map (judged_row rid attempts decisions (db_now d)) (findings d)"
    and "out = map (\<lambda>f. snd (judge_finding rid attempts decisions f))
      (sort_key created_at (filter (\<lambda>f. fi_audit_run_id f = rid) (findings d)))"
proof -
  let ?rows = "sort_key created_at (filter (\<lambda>f. fi_audit_run_id f = rid) (findings d))"
  have "distinct (map fi_finding_id ?rows)"
    using assms(1) by (simp add: distinct_map_filter distinct_map inj_on_def)
  note fold = judged_fold [OF this]
  show "out = map (\<lambda>f. snd (judge_finding rid attempts decisions f)) ?rows"
    using assms(2) fold by (auto simp: apply_judgement_def Let_def)
  have "findings d' = map (\<lambda>g. case row_find fi_finding_id (fi_finding_id g) ?rows of
      None \<Rightarrow> g | Some f \<Rightarrow> stamped (db_now d) g (g\<lparr>fi_status := fst (judge_finding rid attempts decisions f)\<rparr>)) (findings d)"
    using assms(2) fold by (auto simp: apply_judgement_def Let_def)
  also have "\<dots> = map (judged_row rid attempts decisions (db_now d)) (findings d)"
    by (rule map_cong) (simp_all add: run_row_find [OF assms(1)] judged_row_def)
  finally show "findings d' = map (judged_row rid attempts decisions (db_now d)) (findings d)" .
qed

lemma one_decision_each:
  fixes attempts :: "validation_attempt list" and decisions :: "dict list"
  assumes "distinct (map fi_finding_id fs)" "g \<in> set fs" "fi_audit_run_id g = rid"
  defines "out \<equiv> map (\<lambda>f. snd (judge_finding rid attempts decisions f))
    (sort_key created_at (filter (\<lambda>f. fi_audit_run_id f = rid) fs))"
  shows "filter (\<lambda>x. dget x ''finding_id'' = PStr (fi_finding_id g)) out \<noteq> []"
    and "x \<in> set out \<Longrightarrow> dget x ''finding_id'' = PStr (fi_finding_id g) \<Longrightarrow>
      dget x ''status'' = PStr (fst (judge_finding rid attempts decisions g))"
proof -
  have "snd (judge_finding rid attempts decisions g) \<in> set out" using assms(2,3) by (auto simp: out_def)
  then show "filter (\<lambda>x. dget x ''finding_id'' = PStr (fi_finding_id g)) out \<noteq> []" by (force simp: filter_empty_conv)
  show "dget x ''status'' = PStr (fst (judge_finding rid attempts decisions g))"
    if x: "x \<in> set out" "dget x ''finding_id'' = PStr (fi_finding_id g)"
  proof -
    obtain h where h: "h \<in> set fs" "x = snd (judge_finding rid attempts decisions h)" using x(1) by (auto simp: out_def)
    then have "h = g" using x(2) assms(1,2) by (auto simp: distinct_map inj_on_def)
    with h(2) show ?thesis by simp
  qed
qed

text \<open>C13. A judgement settles every finding of its run: none stays a candidate or under validation,
  and it is confirmed only on the word of the judger, after a completed attempt to validate it, or
  if it was already. Findings of other runs are not touched, and every finding of the run has
  exactly one decision, with the status that is stored.\<close>

theorem judgement_settles:
  assumes "distinct (map fi_finding_id (findings d))" "apply_judgement rid attempts decisions d = (out, d')"
  shows "map fi_finding_id (findings d') = map fi_finding_id (findings d) \<and>
    (\<forall>f \<in> set (findings d). fi_audit_run_id f \<noteq> rid \<longrightarrow> f \<in> set (findings d')) \<and>
    (\<forall>f \<in> set (findings d'). fi_audit_run_id f = rid \<longrightarrow>
       fi_status f \<notin> {''candidate'', ''validating''} \<and>
       filter (\<lambda>x. dget x ''finding_id'' = PStr (fi_finding_id f)) out \<noteq> [] \<and>
       (\<forall>x \<in> set out. dget x ''finding_id'' = PStr (fi_finding_id f) \<longrightarrow> dget x ''status'' = PStr (fi_status f)) \<and>
       (fi_status f = ''confirmed'' \<longrightarrow>
          (\<exists>x \<in> set decisions. decided_finding x = fi_finding_id f \<and> decided_status x = ''confirmed'') \<or>
          (\<exists>a \<in> set attempts. va_audit_run_id a = rid \<and> va_finding_id a = fi_finding_id f \<and> va_status a = ''completed'') \<or>
          (\<exists>g \<in> set (findings d). fi_finding_id g = fi_finding_id f \<and> fi_status g = ''confirmed'')))"
proof -
  note rows = judged_findings [OF assms]
  have each: "fi_status f \<notin> {''candidate'', ''validating''} \<and>
       filter (\<lambda>x. dget x ''finding_id'' = PStr (fi_finding_id f)) out \<noteq> [] \<and>
       (\<forall>x \<in> set out. dget x ''finding_id'' = PStr (fi_finding_id f) \<longrightarrow> dget x ''status'' = PStr (fi_status f)) \<and>
       (fi_status f = ''confirmed'' \<longrightarrow>
          (\<exists>x \<in> set decisions. decided_finding x = fi_finding_id f \<and> decided_status x = ''confirmed'') \<or>
          (\<exists>a \<in> set attempts. va_audit_run_id a = rid \<and> va_finding_id a = fi_finding_id f \<and> va_status a = ''completed'') \<or>
          (\<exists>g \<in> set (findings d). fi_finding_id g = fi_finding_id f \<and> fi_status g = ''confirmed''))"
    if f: "f \<in> set (findings d')" "fi_audit_run_id f = rid" for f
  proof -
    obtain g where g: "g \<in> set (findings d)" "f = judged_row rid attempts decisions (db_now d) g"
      using f(1) unfolding rows(1) by auto
    then have run: "fi_audit_run_id g = rid" using f(2) by simp
    show ?thesis
      using judged_status [of rid attempts decisions g] g run
        one_decision_each [where attempts = attempts and decisions = decisions, OF assms(1) g(1) run]
      unfolding rows(2) by auto
  qed
  have "f \<in> set (findings d')" if "f \<in> set (findings d)" "fi_audit_run_id f \<noteq> rid" for f
    using that by (force simp: rows(1))
  then show ?thesis using each by (simp add: rows(1) o_def)
qed

definition demo_finding :: finding where
  "demo_finding = finding_of_card ''f-1'' 0 candidate"

theorem judgement_settles_witness:
  "list_all (\<lambda>f. fi_status f \<notin> {''candidate'', ''validating'', ''confirmed''})
     (findings (snd (apply_judgement ''run-1'' [] [] (candidate_db\<lparr>findings := [demo_finding]\<rparr>))))"
proof -
  let ?d = "candidate_db\<lparr>findings := [demo_finding]\<rparr>"
  obtain out d' where a: "apply_judgement ''run-1'' [] [] ?d = (out, d')" by fastforce
  have "distinct (map fi_finding_id (findings ?d))" by simp
  note settled = judgement_settles [OF this a]
  have run: "fi_audit_run_id demo_finding = ''run-1''" "fi_status demo_finding \<noteq> ''confirmed''"
    by (simp_all add: demo_finding_def finding_of_card_def candidate_def sample_card_def Let_def)
  have "fi_audit_run_id f = ''run-1''" if "f \<in> set (findings d')" for f
    using a that run
    by (auto simp: apply_judgement_def Let_def set_status)
  then show ?thesis using settled run(2) a by (auto simp: list_all_iff)
qed

end
