(* ===== verification/Sandbox_Compose.thy ===== *)
theory Sandbox_Compose
  imports Access_Resources Worker_Fleet
begin

text \<open>
  Starting a service in the sandbox from a compose file (\<open>services/platform/app/api/routes.py\<close>):
  the file is reduced to one service, checked and started by the runtime. \<open>yaml\<close> is
  \<open>yaml.safe_load\<close>, None for a \<open>YAMLError\<close>; keys of mappings are strings. An
  \<open>HTTPException\<close> is a \<open>ValueError\<close> (400), a \<open>PermissionError\<close> (403) or a \<open>LookupError\<close> (404); a
  \<open>ValidationError\<close> of the request model is an \<open>OtherError\<close>.
\<close>

section \<open>Requests\<close>

record compose_request =
  co_compose_yaml :: string
  co_service_name :: "string option"
  co_allow_external_network :: bool
  co_retain_runtime_on_failure :: bool
  co_mount_workspace :: bool
  co_startup_timeout_seconds :: int
  co_allow_weak_isolation :: bool

record service_request =
  sv_image :: string
  sv_command :: "string list"
  sv_env :: dict
  sv_service_name :: string
  sv_port :: int
  sv_allow_external_network :: bool
  sv_retain_runtime_on_failure :: bool
  sv_mount_workspace :: bool
  sv_healthcheck_path :: "string option"
  sv_startup_timeout_seconds :: int
  sv_allow_weak_isolation :: bool

definition compose_dump :: "compose_request \<Rightarrow> dict" where
  "compose_dump body =
     [(''compose_yaml'', PStr (co_compose_yaml body)), (''service_name'', opt_str (co_service_name body)),
      (''allow_external_network'', PBool (co_allow_external_network body)),
      (''retain_runtime_on_failure'', PBool (co_retain_runtime_on_failure body)),
      (''mount_workspace'', PBool (co_mount_workspace body)),
      (''startup_timeout_seconds'', PInt (co_startup_timeout_seconds body)),
      (''allow_weak_isolation'', PBool (co_allow_weak_isolation body))]"

definition service_dump :: "service_request \<Rightarrow> dict" where
  "service_dump r =
     [(''image'', PStr (sv_image r)), (''command'', PList (map PStr (sv_command r))), (''env'', PDict (sv_env r)),
      (''service_name'', PStr (sv_service_name r)), (''port'', PInt (sv_port r)),
      (''allow_external_network'', PBool (sv_allow_external_network r)),
      (''retain_runtime_on_failure'', PBool (sv_retain_runtime_on_failure r)),
      (''mount_workspace'', PBool (sv_mount_workspace r)), (''healthcheck_path'', opt_str (sv_healthcheck_path r)),
      (''startup_timeout_seconds'', PInt (sv_startup_timeout_seconds r)),
      (''allow_weak_isolation'', PBool (sv_allow_weak_isolation r))]"

text \<open>The pattern \<open>^[a-zA-Z0-9][a-zA-Z0-9_.-]{0,62}$\<close> and the bounds of the fields.\<close>

definition service_name_ok :: "string \<Rightarrow> bool" where
  "service_name_ok s =
     (case s of [] \<Rightarrow> False
      | c # r \<Rightarrow> is_alnum c \<and> length r \<le> 62 \<and> list_all (\<lambda>c. is_alnum c \<or> c \<in> set ''_.-'') r)"

definition service_request_ok :: "service_request \<Rightarrow> bool" where
  "service_request_ok r =
     (sv_command r \<noteq> [] \<and> service_name_ok (sv_service_name r) \<and> 1 \<le> sv_port r \<and> sv_port r \<le> 65535 \<and>
      1 \<le> sv_startup_timeout_seconds r \<and> sv_startup_timeout_seconds r \<le> 300)"

section \<open>The compose file\<close>

definition forbidden_keys :: "string list" where
  "forbidden_keys = [''cgroup_parent'', ''ipc'', ''network_mode'', ''pid'', ''privileged'']"

definition names_docker_socket :: "pyval \<Rightarrow> bool" where
  "names_docker_socket volume =
     (contains (py_str volume) ''/var/run/docker.sock'' \<or>
      contains (py_str volume) ([CHR 0x5C, CHR 0x5C, CHR ''.'', CHR 0x5C] @ ''pipe'' @ [CHR 0x5C] @ ''docker_engine''))"

definition reject_unsafe_compose_service :: "dict \<Rightarrow> unit res" where
  "reject_unsafe_compose_service service =
     (let present = filter (dmem service) forbidden_keys
      in if present \<noteq> [] then Inl (ValueError (''unsupported unsafe compose keys: '' @ join '', '' present))
         else if list_ex names_docker_socket (list_or_empty (por (dget service ''volumes'') (PList [])))
         then Inl (ValueError ''compose service must not mount the Docker socket'')
         else Inr ())"

definition compose_command :: "pyval \<Rightarrow> string list" where
  "compose_command value =
     (case value of
        PList items \<Rightarrow> filter (\<lambda>s. s \<noteq> []) (map py_str items)
      | PStr s \<Rightarrow> if str_strip s \<noteq> [] then [''sh'', ''-lc'', s] else []
      | _ \<Rightarrow> [])"

definition env_entry :: "pyval \<Rightarrow> dict \<Rightarrow> dict" where
  "env_entry item env =
     (let text = py_str item; key = takeWhile (\<lambda>c. c \<noteq> CHR ''='') text
      in if key = [] then env else dset env key (PStr (drop (length key + 1) text)))"

definition compose_environment :: "pyval \<Rightarrow> dict" where
  "compose_environment value =
     (case value of
        PDict d \<Rightarrow> map (\<lambda>(k, v). (k, PStr (py_str v))) d
      | PList items \<Rightarrow> fold env_entry items []
      | _ \<Rightarrow> [])"

definition before :: "char \<Rightarrow> string \<Rightarrow> string" where
  "before c s = takeWhile (\<lambda>x. x \<noteq> c) s"

definition after_last :: "char \<Rightarrow> string \<Rightarrow> string" where
  "after_last c s = rev (takeWhile (\<lambda>x. x \<noteq> c) (rev s))"

definition compose_port :: "dict \<Rightarrow> int res" where
  "compose_port service =
     (let own = dict_or_empty (dget service ''x-dieaudit'');
          ports = list_or_empty (por (dget service ''ports'') (PList []));
          expose = list_or_empty (por (dget service ''expose'') (PList []))
      in if truthy (dget own ''port'') then py_int (dget own ''port'')
         else if truthy (dget service ''x-dieaudit-port'') then py_int (dget service ''x-dieaudit-port'')
         else if ports \<noteq> [] then py_int (PStr (after_last (CHR '':'') (before (CHR ''/'') (py_str (hd ports)))))
         else if expose \<noteq> [] then py_int (PStr (before (CHR ''/'') (py_str (hd expose))))
         else Inr 8080)"

definition compose_healthcheck_path :: "dict \<Rightarrow> string option" where
  "compose_healthcheck_path service =
     (let own = dict_or_empty (dget service ''x-dieaudit'')
      in if truthy (dget own ''healthcheck_path'') then Some (py_str (dget own ''healthcheck_path''))
         else if truthy (dget service ''x-dieaudit-healthcheck-path'')
         then Some (py_str (dget service ''x-dieaudit-healthcheck-path'')) else None)"

text \<open>The mapping of services and the name of the only one.\<close>

definition only_service :: "(string \<Rightarrow> pyval option) \<Rightarrow> compose_request \<Rightarrow> (string \<times> dict) res" where
  "only_service yaml body =
     (case yaml (co_compose_yaml body) of
        None \<Rightarrow> Inl (ValueError ''invalid compose yaml'')
      | Some compose \<Rightarrow>
          (case dget (dict_or_empty compose) ''services'' of
             PDict services \<Rightarrow>
               (if length services \<noteq> 1 \<and> co_service_name body \<in> {None, Some []}
                then Inl (ValueError ''multi-service compose requires service_name; only the selected service is started in this version'')
                else
                  let name = (case co_service_name body of
                        None \<Rightarrow> fst (hd services) | Some n \<Rightarrow> if n = [] then fst (hd services) else n)
                  in if \<not> dmem services name then Inl (ValueError (''service not found in compose_yaml: '' @ name))
                     else if length services \<noteq> 1
                     then Inl (ValueError ''multi-service compose stacks are not yet supported; provide a single target service'')
                     else (case dget services name of
                             PDict service \<Rightarrow> Inr (name, service)
                           | _ \<Rightarrow> Inl (ValueError ''compose service must be a mapping'')))
           | _ \<Rightarrow> Inl (ValueError ''compose_yaml must contain a services mapping'')))"

definition sandbox_compose_to_service_request ::
  "(string \<Rightarrow> pyval option) \<Rightarrow> compose_request \<Rightarrow> service_request res" where
  "sandbox_compose_to_service_request yaml body =
     rbind (only_service yaml body) (\<lambda>(name, service).
     rbind (reject_unsafe_compose_service service) (\<lambda>_.
     let image = str_strip (py_str (por (dget service ''image'') (PStr [])));
         command = compose_command (dget service ''command'')
     in if image = [] then Inl (ValueError ''compose service image is required'')
        else if command = [] then Inl (ValueError ''compose service command is required'')
        else
          (case compose_port service of
             Inl e \<Rightarrow> Inl (ValueError (''invalid compose service port: '' @ exc_str e))
           | Inr port \<Rightarrow>
               let r = \<lparr>sv_image = image, sv_command = command, sv_env = compose_environment (dget service ''environment''),
                        sv_service_name = name, sv_port = port,
                        sv_allow_external_network = co_allow_external_network body,
                        sv_retain_runtime_on_failure = co_retain_runtime_on_failure body,
                        sv_mount_workspace = co_mount_workspace body,
                        sv_healthcheck_path = compose_healthcheck_path service,
                        sv_startup_timeout_seconds = co_startup_timeout_seconds body,
                        sv_allow_weak_isolation = co_allow_weak_isolation body\<rparr>
               in if service_request_ok r then Inr r else Inl (OtherError ''ValidationError''))))"

section \<open>Networks and sandboxes that are not there\<close>

definition effective_sandbox_external_network :: "bool \<Rightarrow> bool \<Rightarrow> bool res" where
  "effective_sandbox_external_network allowed requested =
     (if requested \<and> \<not> allowed
      then Inl (PermissionError (''sandbox external network is disabled by platform policy; '' @
             ''set ALLOW_SANDBOX_EXTERNAL_NETWORK=true to permit it''))
      else Inr requested)"

definition effective_agent_external_network :: "bool \<Rightarrow> dict \<Rightarrow> bool" where
  "effective_agent_external_network allowed audit_run =
     truthy (dget_or (dict_or_empty (dget audit_run ''config'')) ''allow_agent_external_network'' (PBool allowed))"

definition unavailable_tokens :: "string list" where
  "unavailable_tokens =
     [''sandbox execution is not available'', ''sandbox execution requires'', ''allow_runc_sandbox'',
      ''docker runc runtime'', ''gvisor'', ''runsc'', ''configured sandbox runtime'']"

definition is_sandbox_unavailable_error :: "string \<Rightarrow> bool" where
  "is_sandbox_unavailable_error message = list_ex (contains (str_lower message)) unavailable_tokens"

definition sandbox_unavailable_result :: "string \<Rightarrow> dict \<Rightarrow> dict" where
  "sandbox_unavailable_result message request_body =
     [(''ok'', PBool False), (''status'', PStr ''unavailable''), (''reason'', PStr message),
      (''request'', PDict request_body)]"

section \<open>The route\<close>

text \<open>
  \<open>start\<close> is \<open>runtime.start_sandbox_service\<close>, given the run, its project, the workspace, the request
  and the network that is allowed; without a runtime the request goes on to the gateway.
\<close>

type_synonym start_service = "string \<Rightarrow> pyval \<Rightarrow> pyval \<Rightarrow> service_request \<Rightarrow> bool \<Rightarrow> (db, dict) sx"

fun is_start_error :: "pyexc \<Rightarrow> bool" where
  "is_start_error (RuntimeError _) = True"
| "is_start_error (ValueError _) = True"
| "is_start_error _ = False"

definition started_or_refused :: "string \<Rightarrow> dict \<Rightarrow> service_request \<Rightarrow> dict res \<Rightarrow> (db, dict) sx" where
  "started_or_refused rid dump service outcome =
     (case outcome of
        Inr result \<Rightarrow>
          sx_do (sx_modify (record_audit_run_event rid ''sandbox_compose_started''
                   [(''compose_mode'', PStr ''single-service''), (''service_request'', PDict (service_dump service)),
                    (''result'', PDict result)]))
            (sx_ret (dmerge [(''compose_mode'', PStr ''single-service'')] result))
      | Inl e \<Rightarrow>
          if \<not> is_start_error e then sx_raise e
          else if is_sandbox_unavailable_error (exc_str e) then
            sx_do (sx_modify (record_audit_run_event rid ''sandbox_compose_unavailable''
                     (sandbox_unavailable_result (exc_str e) dump)))
              (sx_ret (sandbox_unavailable_result (exc_str e) dump))
          else
            sx_do (sx_modify (record_audit_run_event rid ''sandbox_compose_failed''
                     [(''error'', PStr (exc_str e)), (''request'', PDict dump)]))
              (sx_raise (ValueError (exc_str e))))"

definition start_sandbox_compose ::
  "(string \<Rightarrow> pyval option) \<Rightarrow> bool \<Rightarrow> start_service option \<Rightarrow> (dict \<Rightarrow> (db, dict) sx) \<Rightarrow> principal \<Rightarrow> string \<Rightarrow>
   compose_request \<Rightarrow> (db, dict) sx" where
  "start_sandbox_compose yaml network_allowed start gateway who rid body =
     sx_bind (sx_lift (effective_sandbox_external_network network_allowed (co_allow_external_network body))) (\<lambda>network.
     sx_bind (sx_gets (\<lambda>d. require_audit_run_id_access who rid d)) (\<lambda>checked.
     sx_bind (sx_lift checked) (\<lambda>audit_run.
     sx_bind (sx_lift (sandbox_compose_to_service_request yaml body)) (\<lambda>service.
       case start of
         None \<Rightarrow> gateway (dset (compose_dump body) ''allow_external_network'' (PBool network))
       | Some start_service \<Rightarrow>
           sx_bind (sx_attempt (start_service rid (dget audit_run ''project_id'')
             (dget (dict_or_empty (dget audit_run ''config'')) ''workspace_host_path'') service network))
             (started_or_refused rid (compose_dump body) service)))))"

section \<open>What a started service is\<close>

lemma dict_or_empty_field: "dget (dict_or_empty v) k = PDict d \<Longrightarrow> \<exists>c. v = PDict c \<and> dget c k = PDict d"
  by (cases v) (auto simp: dget_def)

lemma only_service_single:
  assumes "only_service yaml body = Inr (name, service)"
  shows "\<exists>compose. yaml (co_compose_yaml body) = Some (PDict compose) \<and>
    dget compose ''services'' = PDict [(name, PDict service)]"
proof -
  from assms obtain v services where
    y: "yaml (co_compose_yaml body) = Some v" and
    s: "dget (dict_or_empty v) ''services'' = PDict services"
    and one: "length services = 1" and n: "dget services name = PDict service" "dmem services name"
    by (auto simp: only_service_def Let_def split: option.splits pyval.splits if_splits)
  from one obtain k w where k: "services = [(k, w)]" by (cases services) auto
  with n have "services = [(name, PDict service)]" by (auto simp: dget_def dmem_def split: if_splits)
  with s y show ?thesis by (metis dict_or_empty_field)
qed

lemma reject_unsafe_ok:
  "reject_unsafe_compose_service service = Inr u \<longleftrightarrow>
     (\<forall>k \<in> set forbidden_keys. \<not> dmem service k) \<and>
     (\<forall>v \<in> set (list_or_empty (por (dget service ''volumes'') (PList []))). \<not> names_docker_socket v)"
  by (auto simp: reject_unsafe_compose_service_def Let_def filter_empty_conv list_ex_iff split: if_splits)

lemma service_request_of:
  assumes "sandbox_compose_to_service_request yaml body = Inr r"
  obtains name service where "only_service yaml body = Inr (name, service)"
    "reject_unsafe_compose_service service = Inr ()" "sv_service_name r = name" "sv_image r \<noteq> []"
    "compose_port service = Inr (sv_port r)" "service_request_ok r"
    "sv_allow_external_network r = co_allow_external_network body"
    "sv_command r = compose_command (dget service ''command'')"
  using assms
  by (auto simp: sandbox_compose_to_service_request_def rbind_Inr_iff Let_def split: if_splits sum.splits)

text \<open>A compose file that is accepted holds exactly one service; that service asks for none of the
  keys that weaken the isolation and names the docker socket in no volume, and the request made of it
  has an image, a command, a port between 1 and 65535, and asks for the external network exactly when
  the caller did.\<close>

lemma compose_accepted_safe:
  assumes "sandbox_compose_to_service_request yaml body = Inr r"
  shows "\<exists>compose service.
    yaml (co_compose_yaml body) = Some (PDict compose) \<and>
    dget compose ''services'' = PDict [(sv_service_name r, PDict service)] \<and>
    (\<forall>k \<in> {''cgroup_parent'', ''ipc'', ''network_mode'', ''pid'', ''privileged''}. \<not> dmem service k) \<and>
    (\<forall>v \<in> set (list_or_empty (dget service ''volumes'')). \<not> contains (py_str v) ''/var/run/docker.sock'') \<and>
    sv_image r \<noteq> [] \<and> sv_command r \<noteq> [] \<and> 1 \<le> sv_port r \<and> sv_port r \<le> 65535 \<and>
    sv_allow_external_network r = co_allow_external_network body"
proof -
  from assms obtain name service where one: "only_service yaml body = Inr (name, service)"
    and safe: "reject_unsafe_compose_service service = Inr ()" and n: "sv_service_name r = name"
    and r: "sv_image r \<noteq> []" "service_request_ok r" "sv_allow_external_network r = co_allow_external_network body"
    by (rule service_request_of)
  have vs: "set (list_or_empty (dget service ''volumes'')) \<subseteq> set (list_or_empty (por (dget service ''volumes'') (PList [])))"
    by (cases "dget service ''volumes''") (auto simp: por_def)
  from only_service_single [OF one] n r vs safe show ?thesis
    by (auto simp: reject_unsafe_ok forbidden_keys_def names_docker_socket_def service_request_ok_def)
qed

definition sample_compose :: dict where
  "sample_compose = [(''services'', PDict [(''web'', PDict
     [(''image'', PStr ''nginx''), (''command'', PList [PStr ''serve'']), (''volumes'', PList [PStr ''./a:/a'']),
      (''ports'', PList [PStr ''8080:80/tcp''])])])]"

definition sample_compose_request :: compose_request where
  "sample_compose_request =
     \<lparr>co_compose_yaml = ''y'', co_service_name = None, co_allow_external_network = True,
      co_retain_runtime_on_failure = False, co_mount_workspace = False, co_startup_timeout_seconds = 30,
      co_allow_weak_isolation = False\<rparr>"

lemma sample_accepted:
  "case sandbox_compose_to_service_request (\<lambda>_. Some (PDict sample_compose)) sample_compose_request of
     Inl _ \<Rightarrow> False | Inr r \<Rightarrow> sv_port r = 80"
  by code_simp

lemma compose_accepted_safe_witness:
  "\<exists>r service. sandbox_compose_to_service_request (\<lambda>_. Some (PDict sample_compose)) sample_compose_request = Inr r \<and>
     sv_port r = 80 \<and> \<not> dmem service ''privileged'' \<and> sv_command r \<noteq> [] \<and>
     dget sample_compose ''services'' = PDict [(sv_service_name r, PDict service)]"
proof -
  obtain r where r: "sandbox_compose_to_service_request (\<lambda>_. Some (PDict sample_compose)) sample_compose_request = Inr r"
    "sv_port r = 80"
    using sample_accepted by (auto split: sum.splits)
  from compose_accepted_safe [OF r(1)] r show ?thesis by auto
qed

end
