(* ===== verification/Docker_Client.thy ===== *)
theory Docker_Client
  imports Artifact_Paths
begin

text \<open>
  The client of the Docker daemon (\<open>services/platform/app/integrations/docker/client.py\<close>). The state
  of a call is the list of the requests sent so far. The daemon is a parameter: what it answers to a
  request, given everything it was asked before, as status code and content, or None when \<open>httpx\<close>
  raises. \<open>loads\<close> is \<open>json.loads\<close> and \<open>decode\<close> is \<open>bytes.decode("utf-8", errors="replace")\<close>; content is
  a list of bytes. A \<open>DockerApiError\<close> is a \<open>RuntimeError\<close>, what \<open>httpx\<close> raises an \<open>OtherError\<close>.

  A loop that polls until a deadline is given the number of rounds the clock leaves it.
\<close>

section \<open>Requests\<close>

record docker_request =
  dq_method :: string
  dq_path :: string
  dq_params :: dict
  dq_body :: pyval

type_synonym daemon = "docker_request list \<Rightarrow> docker_request \<Rightarrow> (int \<times> string) option"

record docker_env =
  dk_daemon :: daemon
  dk_loads :: "string \<Rightarrow> pyval option"
  dk_decode :: "string \<Rightarrow> string"

type_synonym 'a dx = "(docker_request list, 'a) sx"

definition docker_send :: "docker_env \<Rightarrow> docker_request \<Rightarrow> (int \<times> string) dx" where
  "docker_send dk r h =
     (case dk_daemon dk h r of
        None \<Rightarrow> (Inl (OtherError ''httpx.HTTPError''), h @ [r])
      | Some reply \<Rightarrow> (Inr reply, h @ [r]))"

abbreviation plain_request :: "string \<Rightarrow> string \<Rightarrow> docker_request" where
  "plain_request method path \<equiv> \<lparr>dq_method = method, dq_path = path, dq_params = [], dq_body = PNone\<rparr>"

definition http_error :: "string \<Rightarrow> int \<Rightarrow> string \<Rightarrow> pyexc" where
  "http_error what status content = RuntimeError (what @ '' failed: '' @ int_str status @ '' '' @ content)"

definition json_or_text :: "docker_env \<Rightarrow> string \<Rightarrow> pyval" where
  "json_or_text dk content =
     (if content = [] then PNone else case dk_loads dk content of Some v \<Rightarrow> v | None \<Rightarrow> PStr content)"

definition docker_call :: "docker_env \<Rightarrow> docker_request \<Rightarrow> pyval dx" where
  "docker_call dk r =
     sx_bind (docker_send dk r) (\<lambda>(status, content).
       if 400 \<le> status then sx_raise (http_error (dq_method r @ '' '' @ dq_path r) status content)
       else sx_ret (json_or_text dk content))"

text \<open>\<open>response.json()\<close>, which raises a \<open>ValueError\<close>.\<close>

definition response_json :: "docker_env \<Rightarrow> string \<Rightarrow> pyval res" where
  "response_json dk content =
     (case dk_loads dk content of Some v \<Rightarrow> Inr v | None \<Rightarrow> Inl (ValueError ''JSONDecodeError''))"

text \<open>\<open>try: ... except DockerApiError\<close>.\<close>

definition on_api_error :: "'a dx \<Rightarrow> (string \<Rightarrow> 'a dx) \<Rightarrow> 'a dx" where
  "on_api_error m h = sx_try m (\<lambda>e. case e of RuntimeError s \<Rightarrow> h s | _ \<Rightarrow> sx_raise e)"

definition docker_ping :: "docker_env \<Rightarrow> pyval dx" where
  "docker_ping dk = docker_call dk (plain_request ''GET'' ''/_ping'')"

definition docker_version :: "docker_env \<Rightarrow> pyval dx" where
  "docker_version dk = docker_call dk (plain_request ''GET'' ''/version'')"

definition docker_info :: "docker_env \<Rightarrow> pyval dx" where
  "docker_info dk = docker_call dk (plain_request ''GET'' ''/info'')"

section \<open>Images\<close>

definition quote_all :: "string \<Rightarrow> string" where
  "quote_all s = concat (map (\<lambda>c. if c = CHR ''/'' then ''%2F'' else quote_char c) s)"

definition image_exists :: "docker_env \<Rightarrow> string \<Rightarrow> bool dx" where
  "image_exists dk img =
     sx_bind (docker_send dk (plain_request ''GET'' (''/images/'' @ quote_all img @ ''/json''))) (\<lambda>(status, content).
       if status = 200 then sx_ret True
       else if status = 404 then sx_ret False
       else if 400 \<le> status then sx_raise (http_error (''inspect image '' @ img) status content)
       else sx_ret True)"

text \<open>\<open>img.rsplit(":", 1)\<close> when what follows the last colon is a tag and not part of a path.\<close>

definition tagged :: "string \<Rightarrow> (string \<times> string) option" where
  "tagged img =
     (let tag = rev (takeWhile (\<lambda>c. c \<noteq> CHR '':'') (rev img))
      in if CHR '':'' \<in> set img \<and> CHR ''/'' \<notin> set tag then Some (take (length img - length tag - 1) img, tag)
         else None)"

definition pull_params :: "string \<Rightarrow> dict" where
  "pull_params img =
     (case tagged img of
        None \<Rightarrow> [(''fromImage'', PStr img)]
      | Some (from_image, tag) \<Rightarrow> (''fromImage'', PStr from_image) # (if tag = [] then [] else [(''tag'', PStr tag)]))"

definition pull_image :: "docker_env \<Rightarrow> string \<Rightarrow> unit dx" where
  "pull_image dk img =
     sx_bind (image_exists dk img) (\<lambda>present.
       if present then sx_ret ()
       else sx_bind (docker_send dk \<lparr>dq_method = ''POST'', dq_path = ''/images/create'', dq_params = pull_params img, dq_body = PNone\<rparr>)
         (\<lambda>(status, content).
            if 400 \<le> status then sx_raise (http_error (''pull '' @ img) status (dk_decode dk content))
            else sx_ret ()))"

section \<open>Networks\<close>

definition network_exists :: "docker_env \<Rightarrow> string \<Rightarrow> pyval dx" where
  "network_exists dk name =
     sx_bind (docker_send dk (plain_request ''GET'' (''/networks/'' @ name))) (\<lambda>(status, content).
       if status = 200 then sx_lift (response_json dk content)
       else if status = 404 then sx_ret PNone
       else if 400 \<le> status then sx_raise (http_error (''inspect network '' @ name) status content)
       else sx_lift (response_json dk content))"

definition network_payload :: "string \<Rightarrow> bool \<Rightarrow> dict \<Rightarrow> dict" where
  "network_payload name internal labels =
     [(''Name'', PStr name), (''Driver'', PStr ''bridge''), (''Internal'', PBool internal), (''Labels'', PDict labels),
      (''CheckDuplicate'', PBool True)]"

definition create_network :: "docker_env \<Rightarrow> string \<Rightarrow> bool \<Rightarrow> dict \<Rightarrow> pyval dx" where
  "create_network dk name internal labels =
     sx_bind (network_exists dk name) (\<lambda>existing.
       if truthy existing then sx_ret existing
       else docker_call dk \<lparr>dq_method = ''POST'', dq_path = ''/networks/create'', dq_params = [],
                        dq_body = PDict (network_payload name internal labels)\<rparr>)"

definition connect_network :: "docker_env \<Rightarrow> string \<Rightarrow> string \<Rightarrow> string list \<Rightarrow> unit dx" where
  "connect_network dk network container aliases =
     on_api_error
       (sx_do (docker_call dk \<lparr>dq_method = ''POST'', dq_path = ''/networks/'' @ network @ ''/connect'', dq_params = [],
          dq_body = PDict [(''Container'', PStr container),
            (''EndpointConfig'', PDict [(''Aliases'', PList (map PStr aliases))])]\<rparr>) (sx_ret ()))
       (\<lambda>message. if contains message ''already exists'' then sx_ret () else sx_raise (RuntimeError message))"

definition disconnect_network :: "docker_env \<Rightarrow> string \<Rightarrow> string \<Rightarrow> unit dx" where
  "disconnect_network dk network container =
     on_api_error
       (sx_do (docker_call dk \<lparr>dq_method = ''POST'', dq_path = ''/networks/'' @ network @ ''/disconnect'', dq_params = [],
          dq_body = PDict [(''Container'', PStr container), (''Force'', PBool True)]\<rparr>) (sx_ret ()))
       (\<lambda>_. sx_ret ())"

definition remove_network :: "docker_env \<Rightarrow> string \<Rightarrow> unit dx" where
  "remove_network dk network =
     on_api_error (sx_do (docker_call dk (plain_request ''DELETE'' (''/networks/'' @ network))) (sx_ret ())) (\<lambda>_. sx_ret ())"

text \<open>\<open>json.dumps({"label": labels})\<close> for ASCII text.\<close>

definition json_char :: "char \<Rightarrow> string" where
  "json_char c =
     (if c = CHR 0x22 \<or> c = CHR 0x5C then [CHR 0x5C, c]
      else if chr_code c = 8 then [CHR 0x5C, CHR ''b'']
      else if chr_code c = 9 then [CHR 0x5C, CHR ''t'']
      else if chr_code c = 10 then [CHR 0x5C, CHR ''n'']
      else if chr_code c = 12 then [CHR 0x5C, CHR ''f'']
      else if chr_code c = 13 then [CHR 0x5C, CHR ''r'']
      else if chr_code c < 32
        then [CHR 0x5C, CHR ''u'', CHR ''0'', CHR ''0'', hex_digit (chr_code c div 16), hex_digit (chr_code c mod 16)]
      else [c])"

definition json_text :: "string \<Rightarrow> string" where
  "json_text s = [CHR 0x22] @ concat (map json_char s) @ [CHR 0x22]"

definition label_filter :: "string list \<Rightarrow> string" where
  "label_filter labels = ''{'' @ json_text ''label'' @ '': ['' @ join '', '' (map json_text labels) @ '']}''"

definition run_labels :: "string \<Rightarrow> string list" where
  "run_labels rid = [''dieaudit.audit_run_id='' @ rid, ''dieaudit.managed=true'']"

definition list_networks :: "docker_env \<Rightarrow> string list \<Rightarrow> pyval dx" where
  "list_networks dk labels =
     docker_call dk \<lparr>dq_method = ''GET'', dq_path = ''/networks'', dq_params = [(''filters'', PStr (label_filter labels))],
                 dq_body = PNone\<rparr>"

definition list_networks_by_run :: "docker_env \<Rightarrow> string \<Rightarrow> pyval dx" where
  "list_networks_by_run dk rid = list_networks dk (run_labels rid)"

definition list_managed_networks :: "docker_env \<Rightarrow> pyval dx" where
  "list_managed_networks dk = list_networks dk [''dieaudit.managed=true'']"

section \<open>Containers\<close>

definition create_container :: "docker_env \<Rightarrow> string \<Rightarrow> dict \<Rightarrow> pyval dx" where
  "create_container dk name payload =
     docker_call dk \<lparr>dq_method = ''POST'', dq_path = ''/containers/create'', dq_params = [(''name'', PStr name)],
                 dq_body = PDict payload\<rparr>"

definition start_container :: "docker_env \<Rightarrow> string \<Rightarrow> unit dx" where
  "start_container dk cid =
     sx_do (docker_call dk (plain_request ''POST'' (''/containers/'' @ cid @ ''/start''))) (sx_ret ())"

definition stop_container :: "docker_env \<Rightarrow> string \<Rightarrow> int \<Rightarrow> unit dx" where
  "stop_container dk cid timeout =
     on_api_error
       (sx_do (docker_call dk \<lparr>dq_method = ''POST'', dq_path = ''/containers/'' @ cid @ ''/stop'',
                           dq_params = [(''t'', PInt timeout)], dq_body = PNone\<rparr>) (sx_ret ()))
       (\<lambda>_. sx_ret ())"

definition inspect_container :: "docker_env \<Rightarrow> string \<Rightarrow> pyval dx" where
  "inspect_container dk cid = docker_call dk (plain_request ''GET'' (''/containers/'' @ cid @ ''/json''))"

text \<open>\<open>info.get("State", {})\<close>, on which \<open>get\<close> is called.\<close>

fun field_or :: "pyval \<Rightarrow> string \<Rightarrow> pyval \<Rightarrow> pyval res" where
  "field_or (PDict d) k v = Inr (dget_or d k v)"
| "field_or _ k v = Inl (AttributeError ''get'')"

definition state_of :: "pyval \<Rightarrow> dict res" where
  "state_of info =
     rbind (field_or info ''State'' (PDict [])) (\<lambda>state.
       case state of PDict d \<Rightarrow> Inr d | _ \<Rightarrow> Inl (AttributeError ''get''))"

definition exit_report :: "dict \<Rightarrow> dict res" where
  "exit_report state =
     rbind (py_int (por (dget state ''ExitCode'') (PInt 0))) (\<lambda>code.
       Inr [(''StatusCode'', PInt code),
            (''State'', PDict [(''Status'', dget state ''Status''), (''Error'', dget state ''Error''),
                               (''FinishedAt'', dget state ''FinishedAt'')])])"

text \<open>None when the caller's deadline passes first.\<close>

fun wait_container :: "docker_env \<Rightarrow> nat \<Rightarrow> string \<Rightarrow> dict option dx" where
  "wait_container dk 0 cid = sx_ret None"
| "wait_container dk (Suc rounds) cid =
     sx_bind (inspect_container dk cid) (\<lambda>info.
     sx_bind (sx_lift (state_of info)) (\<lambda>state.
       if truthy (dget state ''Running'') then wait_container dk rounds cid
       else sx_bind (sx_lift (exit_report state)) (\<lambda>report. sx_ret (Some report))))"

definition healthy_state :: "dict \<Rightarrow> bool res" where
  "healthy_state state =
     rbind (field_or (dget_or state ''Health'' (PDict [])) ''Status'' PNone) (\<lambda>status.
       Inr (status = PStr ''healthy'' \<or>
            \<not> truthy (dget_or state ''Health'' (PDict [])) \<and> truthy (dget state ''Running'')))"

fun wait_for_healthy :: "docker_env \<Rightarrow> nat \<Rightarrow> string \<Rightarrow> dict \<Rightarrow> pyval dx" where
  "wait_for_healthy dk 0 cid last_state =
     sx_raise (RuntimeError (''container '' @ cid @ '' not healthy before timeout: '' @ py_str (PDict last_state)))"
| "wait_for_healthy dk (Suc rounds) cid last_state =
     sx_bind (inspect_container dk cid) (\<lambda>info.
     sx_bind (sx_lift (state_of info)) (\<lambda>state.
     sx_bind (sx_lift (healthy_state state)) (\<lambda>healthy.
       if healthy then sx_ret info
       else if dget state ''Status'' \<in> {PStr ''exited'', PStr ''dead''}
       then sx_raise (RuntimeError (''container '' @ cid @ '' exited before healthy: '' @ py_str (PDict state)))
       else wait_for_healthy dk rounds cid state)))"

definition list_containers :: "docker_env \<Rightarrow> string list \<Rightarrow> pyval dx" where
  "list_containers dk labels =
     docker_call dk \<lparr>dq_method = ''GET'', dq_path = ''/containers/json'',
                 dq_params = [(''all'', PInt 1), (''filters'', PStr (label_filter labels))], dq_body = PNone\<rparr>"

definition list_containers_by_run :: "docker_env \<Rightarrow> string \<Rightarrow> pyval dx" where
  "list_containers_by_run dk rid = list_containers dk (run_labels rid)"

definition list_managed_containers :: "docker_env \<Rightarrow> pyval dx" where
  "list_managed_containers dk = list_containers dk [''dieaudit.managed=true'']"

definition remove_container :: "docker_env \<Rightarrow> string \<Rightarrow> bool \<Rightarrow> unit dx" where
  "remove_container dk cid force =
     on_api_error
       (sx_do (docker_call dk \<lparr>dq_method = ''DELETE'', dq_path = ''/containers/'' @ cid,
                           dq_params = [(''force'', PInt (if force then 1 else 0)), (''v'', PInt 1)], dq_body = PNone\<rparr>)
         (sx_ret ()))
       (\<lambda>_. sx_ret ())"

section \<open>Logs\<close>

text \<open>The big-endian size in bytes 4 to 7 of a frame's first eight bytes.\<close>

definition byte_of :: "char \<Rightarrow> nat" where
  "byte_of = of_char"

definition frame_size :: "string \<Rightarrow> nat" where
  "frame_size s = foldl (\<lambda>n c. 256 * n + byte_of c) 0 (take 4 (drop 4 s))"

definition frame_ok :: "string \<Rightarrow> bool" where
  "frame_ok s =
     (8 \<le> length s \<and> byte_of (s ! 0) \<in> {0, 1, 2} \<and> take 3 (drop 1 s) = [CHR 0x00, CHR 0x00, CHR 0x00] \<and>
      8 + frame_size s \<le> length s)"

text \<open>The frames from the start on and what is left when one does not fit.\<close>

function log_frames :: "string \<Rightarrow> string list \<times> string" where
  "log_frames s =
     (if frame_ok s
      then let (frames, rest) = log_frames (drop (8 + frame_size s) s) in (take (frame_size s) (drop 8 s) # frames, rest)
      else ([], s))"
  by pat_completeness auto
termination
  by (relation "measure length") (auto simp: frame_ok_def)

declare log_frames.simps [simp del]

definition decode_log_stream :: "docker_env \<Rightarrow> string \<Rightarrow> string" where
  "decode_log_stream dk content =
     (let (frames, rest) = log_frames content
      in if frames \<noteq> [] \<and> rest = [] then dk_decode dk (concat frames) else dk_decode dk content)"

definition docker_logs :: "docker_env \<Rightarrow> string \<Rightarrow> pyval \<Rightarrow> bool \<Rightarrow> string dx" where
  "docker_logs dk cid tail timestamps =
     sx_bind (docker_send dk \<lparr>dq_method = ''GET'', dq_path = ''/containers/'' @ cid @ ''/logs'',
        dq_params = [(''stdout'', PInt 1), (''stderr'', PInt 1), (''tail'', tail),
          (''timestamps'', PInt (if timestamps then 1 else 0))], dq_body = PNone\<rparr>)
       (\<lambda>(status, content).
          if 400 \<le> status then sx_raise (http_error (''GET /containers/'' @ cid @ ''/logs'') status content)
          else sx_ret (decode_log_stream dk content))"

section \<open>A container for one command\<close>

definition ephemeral_payload :: "string \<Rightarrow> string list \<Rightarrow> dict \<Rightarrow> string \<Rightarrow> dict" where
  "ephemeral_payload img command labels network_mode =
     [(''Image'', PStr img), (''Entrypoint'', PList []), (''Cmd'', PList (map PStr command)), (''Labels'', PDict labels),
      (''HostConfig'', PDict
         [(''NetworkMode'', PStr network_mode), (''ReadonlyRootfs'', PBool True), (''AutoRemove'', PBool False),
          (''CapDrop'', PList [PStr ''ALL'']), (''SecurityOpt'', PList [PStr ''no-new-privileges:true'']),
          (''Memory'', PInt (256 * 1024 * 1024)), (''NanoCpus'', PInt 500000000), (''PidsLimit'', PInt 128),
          (''Tmpfs'', PDict [(''/tmp'', PStr ''rw,nosuid,size=64m'')])])]"

text \<open>\<open>created["Id"]\<close>.\<close>

definition created_id :: "pyval \<Rightarrow> string res" where
  "created_id created =
     (case created of
        PDict d \<Rightarrow> rbind (dindex d ''Id'') (\<lambda>v. Inr (py_str v))
      | _ \<Rightarrow> Inl (TypeError ''object is not subscriptable''))"

text \<open>\<open>try: m finally: k\<close>: an exception of \<open>k\<close> replaces what \<open>m\<close> returned or raised.\<close>

definition sx_finally :: "('s, 'a) sx \<Rightarrow> ('s, unit) sx \<Rightarrow> ('s, 'a) sx" where
  "sx_finally m k = sx_bind (sx_attempt m) (\<lambda>outcome. sx_do k (sx_lift outcome))"

definition run_ephemeral_container ::
  "docker_env \<Rightarrow> nat \<Rightarrow> string \<Rightarrow> string \<Rightarrow> string list \<Rightarrow> dict \<Rightarrow> int \<Rightarrow> string \<Rightarrow> dict dx" where
  "run_ephemeral_container dk rounds name img command labels timeout network_mode =
     sx_bind (create_container dk name (ephemeral_payload img command labels network_mode)) (\<lambda>created.
     sx_bind (sx_lift (created_id created)) (\<lambda>cid.
     sx_finally
       (sx_do (start_container dk cid)
       (sx_bind (wait_container dk rounds cid) (\<lambda>finished.
          case finished of
            None \<Rightarrow> sx_do (stop_container dk cid 1)
                     (sx_raise (RuntimeError (''ephemeral container timed out after '' @ int_str timeout @ ''s: '' @ name)))
          | Some result \<Rightarrow>
              sx_bind (docker_logs dk cid (PStr ''all'') False) (\<lambda>text.
              sx_ret [(''container_id'', PStr cid), (''exit_code'', dget result ''StatusCode''), (''logs'', PStr text)]))))
       (remove_container dk cid True)))"

section \<open>What calls add to the requests\<close>

text \<open>
  Whatever the outcome of \<open>m\<close>, the requests it adds to the history \<open>f\<close> of its state all satisfy \<open>P\<close>: what
  is true of a history and stays true when such a request is added is an invariant of \<open>m\<close>.
\<close>

definition grown_by :: "(docker_request list \<Rightarrow> bool) \<Rightarrow> (docker_request \<Rightarrow> bool) \<Rightarrow> bool" where
  "grown_by H P = (\<forall>h r. H h \<longrightarrow> P r \<longrightarrow> H (h @ [r]))"

definition sends :: "('s \<Rightarrow> docker_request list) \<Rightarrow> (docker_request \<Rightarrow> bool) \<Rightarrow> ('s, 'a) sx \<Rightarrow> bool" where
  "sends f P m = (\<forall>H. grown_by H P \<longrightarrow> keeps (\<lambda>s. H (f s)) m)"

named_theorems sends_intros \<open>the requests of composed calls\<close>

lemma sendsI: "(\<And>H. grown_by H P \<Longrightarrow> keeps (\<lambda>s. H (f s)) m) \<Longrightarrow> sends f P m"
  by (simp add: sends_def)

lemma sendsD: "sends f P m \<Longrightarrow> grown_by H P \<Longrightarrow> keeps (\<lambda>s. H (f s)) m"
  by (simp add: sends_def)

lemma sends_mono: "sends f P m \<Longrightarrow> (\<And>r. P r \<Longrightarrow> Q r) \<Longrightarrow> sends f Q m"
  by (auto simp: sends_def grown_by_def)

lemma sends_new:
  assumes "sends f P m" "m s = (out, t)" "r \<in> set (drop (length (f s)) (f t))"
  shows "P r"
proof -
  have "grown_by (\<lambda>h. list_all P (drop (length (f s)) h)) P"
    unfolding grown_by_def by (auto simp: list_all_iff drop_Cons' split: if_splits)
  from sendsD [OF assms(1) this, unfolded keeps_def, rule_format, of s] assms(2,3) show ?thesis
    by (simp add: list_all_iff)
qed

lemma sends_ret [sends_intros]: "sends f P (sx_ret x)"
  by (intro sendsI keeps_intros)

lemma sends_raise [sends_intros]: "sends f P (sx_raise e)"
  by (intro sendsI keeps_intros)

lemma sends_lift [sends_intros]: "sends f P (sx_lift r)"
  by (intro sendsI keeps_intros)

lemma sends_gets [sends_intros]: "sends f P (sx_gets g)"
  by (intro sendsI keeps_intros)

lemma sends_modify: "(\<And>s. f (g s) = f s) \<Longrightarrow> sends f P (sx_modify g)"
  by (intro sendsI keeps_modify) simp

lemma sends_bind [sends_intros]: "sends f P m \<Longrightarrow> (\<And>x. sends f P (k x)) \<Longrightarrow> sends f P (sx_bind m k)"
  by (auto simp: sends_def intro: keeps_intros)

lemma sends_do [sends_intros]: "sends f P m \<Longrightarrow> sends f P k \<Longrightarrow> sends f P (sx_do m k)"
  by (auto simp: sends_def intro: keeps_intros)

lemma sends_try [sends_intros]: "sends f P m \<Longrightarrow> (\<And>e. sends f P (k e)) \<Longrightarrow> sends f P (sx_try m k)"
  by (auto simp: sends_def intro: keeps_intros)

lemma sends_attempt [sends_intros]: "sends f P m \<Longrightarrow> sends f P (sx_attempt m)"
  by (auto simp: sends_def intro: keeps_intros)

lemma sends_iter: "(\<And>x. x \<in> set xs \<Longrightarrow> sends f P (k x)) \<Longrightarrow> sends f P (sx_iter k xs)"
  by (induction xs) (auto intro: sends_intros)

lemma sends_if [sends_intros]: "(b \<Longrightarrow> sends f P m) \<Longrightarrow> (\<not> b \<Longrightarrow> sends f P k) \<Longrightarrow> sends f P (if b then m else k)"
  by simp

lemma sends_case_option [sends_intros]:
  "(v = None \<Longrightarrow> sends f P m) \<Longrightarrow> (\<And>x. v = Some x \<Longrightarrow> sends f P (k x)) \<Longrightarrow>
   sends f P (case v of None \<Rightarrow> m | Some x \<Rightarrow> k x)"
  by (cases v) auto

lemma sends_case_sum [sends_intros]:
  "(\<And>e. v = Inl e \<Longrightarrow> sends f P (m e)) \<Longrightarrow> (\<And>x. v = Inr x \<Longrightarrow> sends f P (k x)) \<Longrightarrow>
   sends f P (case v of Inl e \<Rightarrow> m e | Inr x \<Rightarrow> k x)"
  by (cases v) auto

lemma sends_case_prod [sends_intros]:
  "(\<And>a b. v = (a, b) \<Longrightarrow> sends f P (k a b)) \<Longrightarrow> sends f P (case v of (a, b) \<Rightarrow> k a b)"
  by (cases v) auto

lemma sends_finally [sends_intros]: "sends f P m \<Longrightarrow> sends f P k \<Longrightarrow> sends f P (sx_finally m k)"
  unfolding sx_finally_def by (intro sends_intros)

abbreviation asks :: "(docker_request \<Rightarrow> bool) \<Rightarrow> 'a dx \<Rightarrow> bool" where
  "asks \<equiv> sends (\<lambda>h. h)"

lemma asks_send [sends_intros]: "P r \<Longrightarrow> asks P (docker_send dk r)"
  by (rule sendsI) (auto simp: keeps_def grown_by_def docker_send_def split: option.splits)

lemma asks_call [sends_intros]: "P r \<Longrightarrow> asks P (docker_call dk r)"
  unfolding docker_call_def by (intro sends_intros)

lemma asks_on_api_error [sends_intros]: "asks P m \<Longrightarrow> (\<And>s. asks P (h s)) \<Longrightarrow> asks P (on_api_error m h)"
  unfolding on_api_error_def by (intro sends_intros) (auto split: pyexc.splits intro: sends_intros)

text \<open>The requests that only read.\<close>

definition reads_only :: "docker_request \<Rightarrow> bool" where
  "reads_only r = (dq_method r = ''GET'')"

lemma asks_reading:
  assumes "\<And>r. reads_only r \<Longrightarrow> P r"
  shows "asks P (docker_ping dk)" "asks P (docker_info dk)" "asks P (image_exists dk i)"
    "asks P (network_exists dk n)" "asks P (list_containers_by_run dk rid)" "asks P (list_networks_by_run dk rid)"
    "asks P (list_managed_containers dk)" "asks P (list_managed_networks dk)" "asks P (inspect_container dk c)"
    "asks P (docker_logs dk c tail stamps)"
  unfolding docker_ping_def docker_info_def image_exists_def network_exists_def list_containers_by_run_def
    list_networks_by_run_def list_managed_containers_def list_managed_networks_def list_containers_def
    list_networks_def inspect_container_def docker_logs_def
  by (intro sends_intros; (rule assms, simp add: reads_only_def)?)+

lemma asks_wait_container:
  assumes "\<And>r. reads_only r \<Longrightarrow> P r"
  shows "asks P (wait_container dk n c)"
  by (induction n) (auto intro!: sends_intros asks_reading assms)

lemma asks_wait_for_healthy:
  assumes "\<And>r. reads_only r \<Longrightarrow> P r"
  shows "asks P (wait_for_healthy dk n c s)"
  by (induction n arbitrary: s) (auto intro!: sends_intros asks_reading assms)

section \<open>What the loops end with\<close>

text \<open>A container reported healthy was running or healthy when it was last inspected.\<close>

lemma wait_for_healthy_ok:
  assumes "wait_for_healthy dk n c s h = (Inr v, h')"
  shows "\<exists>state. state_of v = Inr state \<and> healthy_state state = Inr True"
  using assms
proof (induction n arbitrary: s h)
  case (Suc n)
  then show ?case
    by (auto simp: sx_simps split: prod.splits sum.splits if_splits)
qed (simp add: sx_simps)

section \<open>Frames\<close>

definition size_bytes :: "nat \<Rightarrow> string" where
  "size_bytes n = map char_of [n div 16777216, n div 65536 mod 256, n div 256 mod 256, n mod 256]"

definition log_frame :: "nat \<times> string \<Rightarrow> string" where
  "log_frame f =
     (case f of (stream, payload) \<Rightarrow>
        [char_of stream, CHR 0x00, CHR 0x00, CHR 0x00] @ size_bytes (length payload) @ payload)"

definition frame_fits :: "nat \<times> string \<Rightarrow> bool" where
  "frame_fits f = (fst f \<le> 2 \<and> length (snd f) < 4294967296)"

lemma byte_of_char_of [simp]: "byte_of (char_of n) = n mod 256"
  by (simp add: byte_of_def)

lemma frame_size_frame:
  assumes "frame_fits (stream, payload)"
  shows "frame_size (log_frame (stream, payload) @ r) = length payload"
proof -
  let ?n = "length payload"
  have "?n div 16777216 < 256" using assms by (simp add: frame_fits_def div_less_iff_less_mult)
  then have "frame_size (log_frame (stream, payload) @ r) =
      256 * (256 * (256 * (?n div 16777216) + ?n div 65536 mod 256) + ?n div 256 mod 256) + ?n mod 256"
    by (simp add: frame_size_def log_frame_def size_bytes_def)
  also have "?n div 16777216 = ?n div 65536 div 256" and "?n div 65536 = ?n div 256 div 256"
    by (simp_all add: div_mult2_eq [symmetric])
  then have "256 * (256 * (256 * (?n div 16777216) + ?n div 65536 mod 256) + ?n div 256 mod 256) + ?n mod 256 = ?n"
    by (metis mult_div_mod_eq)
  finally show ?thesis .
qed

lemma frame_ok_frame:
  assumes "frame_fits (stream, payload)"
  shows "frame_ok (log_frame (stream, payload) @ r)"
proof -
  have "stream \<in> {0, 1, 2}" using assms by (auto simp: frame_fits_def)
  moreover have "length (log_frame (stream, payload) @ r) = 8 + length payload + length r"
    by (simp add: log_frame_def size_bytes_def)
  ultimately show ?thesis
    unfolding frame_ok_def frame_size_frame [OF assms] by (auto simp: log_frame_def)
qed

lemma log_frames_frame:
  assumes "frame_fits (stream, payload)"
  shows "log_frames (log_frame (stream, payload) @ r) = (payload # fst (log_frames r), snd (log_frames r))"
  by (subst log_frames.simps)
    (simp add: frame_ok_frame [OF assms] frame_size_frame [OF assms] case_prod_beta, simp add: log_frame_def size_bytes_def)

lemma log_frames_all:
  "(\<And>f. f \<in> set fs \<Longrightarrow> frame_fits f) \<Longrightarrow> log_frames (concat (map log_frame fs)) = (map snd fs, [])"
proof (induction fs)
  case Nil
  show ?case by (simp add: log_frames.simps [of "[]"] frame_ok_def)
next
  case (Cons f fs)
  then show ?case by (cases f) (simp add: log_frames_frame)
qed

text \<open>C26. However the daemon cuts a container's output into frames, the client gives back the output:
  what it decodes is the payloads of the frames, one after the other.\<close>

theorem framed_logs_decoded:
  assumes "fs \<noteq> []" and "\<And>f. f \<in> set fs \<Longrightarrow> frame_fits f"
  shows "decode_log_stream dk (concat (map log_frame fs)) = dk_decode dk (concat (map snd fs))"
  using assms by (simp add: decode_log_stream_def log_frames_all)

definition ascii_client :: docker_env where
  "ascii_client = \<lparr>dk_daemon = (\<lambda>_ _. None), dk_loads = (\<lambda>_. None), dk_decode = id\<rparr>"

theorem framed_logs_decoded_witness:
  "decode_log_stream ascii_client (concat (map log_frame [(1, ''out''), (2, ''err'')])) = ''outerr''"
proof -
  have fits: "frame_fits f" if "f \<in> set [(1, ''out''), (2, ''err'')]" for f :: "nat \<times> string"
    using that by (auto simp: frame_fits_def)
  have "decode_log_stream ascii_client (concat (map log_frame [(1, ''out''), (2, ''err'')])) =
      dk_decode ascii_client (concat (map snd [(1 :: nat, ''out''), (2, ''err'')]))"
    by (rule framed_logs_decoded) (simp, rule fits)
  then show ?thesis by (simp add: ascii_client_def)
qed

end
