(* ===== verification/Runtime_World.thy ===== *)
theory Runtime_World
  imports Docker_Client Worker_Fleet
begin

text \<open>
  What the runtime orchestrator (\<open>services/platform/app/runtime/orchestrator.py\<close>) works on, and its
  bookkeeping: the rows it writes about containers and networks, the logs it saves, and the requests
  its docker client sends. Every method that opens a session commits it before it returns, so each is
  one step on the world.

  Parameters: the daemon, \<open>datetime.fromisoformat\<close>, \<open>uuid5\<close>, the file system's answer to writing a file,
  and how many rounds a polling loop gets before its deadline. A container or network reported by the
  daemon is a JSON object; a reply that is no list of objects raises when it is read.
\<close>

section \<open>State\<close>

record runtime_env =
  oe_docker :: docker_env
  oe_prefix :: string
  oe_gateway :: string
  oe_service_name :: string
  oe_controller :: string
  oe_default_sandbox_runtime :: string
  oe_enable_gvisor :: bool
  oe_allow_runc :: bool
  oe_artifact_root :: string
  oe_memory :: pyval
  oe_nano_cpus :: "pyval \<Rightarrow> int option"
  oe_cpus :: pyval
  oe_pids_limit :: pyval
  oe_tmpfs :: pyval
  oe_uuid5 :: "string \<Rightarrow> string"
  oe_fromiso :: "string \<Rightarrow> time option"
  oe_write :: "string \<Rightarrow> unit res"
  oe_resolve :: "string \<Rightarrow> string"
  oe_rounds :: nat

record runtime_world =
  wo_db :: db
  wo_containers :: "container_run list"
  wo_networks :: "runtime_network list"
  wo_runtimes :: "agent_runtime list"
  wo_keys :: "api_key_record list"
  wo_attempts :: "validation_attempt list"
  wo_row_id :: int
  wo_requests :: "docker_request list"
  wo_files :: "(string \<times> string) list"
  wo_mounts :: "dict list option"

type_synonym 'a rx = "(runtime_world, 'a) sx"

abbreviation wo_now :: "runtime_world \<Rightarrow> time" where
  "wo_now w \<equiv> db_now (wo_db w)"

definition docker :: "'a dx \<Rightarrow> 'a rx" where
  "docker m w = (case m (wo_requests w) of (r, h) \<Rightarrow> (r, w\<lparr>wo_requests := h\<rparr>))"

definition new_uuid :: "string rx" where
  "new_uuid w = (case fresh_uuid (wo_db w) of (u, d) \<Rightarrow> (Inr u, w\<lparr>wo_db := d\<rparr>))"

text \<open>The objects of a reply.\<close>

definition object_of :: "pyval \<Rightarrow> dict res" where
  "object_of v = (case v of PDict d \<Rightarrow> Inr d | _ \<Rightarrow> Inl (AttributeError ''get''))"

definition objects_of :: "pyval \<Rightarrow> dict list res" where
  "objects_of v =
     (case v of PList xs \<Rightarrow> rmap object_of xs | _ \<Rightarrow> Inl (TypeError ''object is not iterable''))"

definition docker_objects :: "pyval dx \<Rightarrow> dict list rx" where
  "docker_objects m = sx_bind (docker m) (\<lambda>v. sx_lift (objects_of v))"

text \<open>\<open>d.get(k) or {}\<close>.\<close>

definition part :: "dict \<Rightarrow> string \<Rightarrow> dict" where
  "part d k = dict_or_empty (por (dget d k) (PDict []))"

abbreviation labels_of :: "dict \<Rightarrow> dict" where
  "labels_of item \<equiv> part item ''Labels''"

section \<open>Rows\<close>

definition with_container_state :: "string \<Rightarrow> int option \<Rightarrow> string option \<Rightarrow> container_run \<Rightarrow> container_run" where
  "with_container_state status exit_code log_artifact r =
     r\<lparr>cr_status := status,
       cr_exit_code := (case exit_code of None \<Rightarrow> cr_exit_code r | Some c \<Rightarrow> Some c),
       cr_log_artifact := (case log_artifact of None \<Rightarrow> cr_log_artifact r | Some p \<Rightarrow> if p = [] then cr_log_artifact r else Some p)\<rparr>"

definition mark_container_state :: "string \<Rightarrow> string \<Rightarrow> int option \<Rightarrow> string option \<Rightarrow> runtime_world \<Rightarrow> runtime_world" where
  "mark_container_state cid status exit_code log_artifact w =
     w\<lparr>wo_containers := row_upd cr_container_id cid
         (\<lambda>r. stamped (wo_now w) r (with_container_state status exit_code log_artifact r)) (wo_containers w)\<rparr>"

definition record_container ::
  "string \<Rightarrow> string \<Rightarrow> string option \<Rightarrow> string \<Rightarrow> string option \<Rightarrow> string \<Rightarrow> string \<Rightarrow> dict \<Rightarrow> string \<Rightarrow> runtime_world \<Rightarrow> runtime_world" where
  "record_container rid pid agent_run_id cid container_name img role labels status w =
     (case row_find cr_container_id cid (wo_containers w) of
        Some _ \<Rightarrow>
          w\<lparr>wo_containers := row_upd cr_container_id cid
              (\<lambda>r. stamped (wo_now w) r (r\<lparr>cr_status := status, cr_labels := labels, cr_agent_run_id := agent_run_id,
                 cr_container_name := container_name\<rparr>)) (wo_containers w)\<rparr>
      | None \<Rightarrow>
          w\<lparr>wo_row_id := wo_row_id w + 1,
            wo_containers := wo_containers w @
              [\<lparr>created_at = wo_now w, updated_at = wo_now w, cr_id = wo_row_id w, cr_audit_run_id = rid,
                cr_project_id = pid, cr_agent_run_id = agent_run_id, cr_container_id = cid,
                cr_container_name = container_name, cr_image = img, cr_role = role, cr_status = status,
                cr_exit_code = None, cr_log_artifact = None, cr_labels = labels\<rparr>]\<rparr>)"

definition record_network :: "string \<Rightarrow> string \<Rightarrow> string \<Rightarrow> runtime_world \<Rightarrow> runtime_world" where
  "record_network rid name status w =
     (case row_find rn_name name (wo_networks w) of
        Some _ \<Rightarrow>
          w\<lparr>wo_networks := row_upd rn_name name (\<lambda>r. stamped (wo_now w) r (r\<lparr>rn_status := status\<rparr>)) (wo_networks w)\<rparr>
      | None \<Rightarrow>
          w\<lparr>wo_row_id := wo_row_id w + 1,
            wo_networks := wo_networks w @
              [\<lparr>created_at = wo_now w, updated_at = wo_now w, rn_id = wo_row_id w, rn_audit_run_id = rid,
                rn_name = name, rn_status = status\<rparr>]\<rparr>)"

definition mark_network_cleaned :: "string \<Rightarrow> string \<Rightarrow> runtime_world \<Rightarrow> runtime_world" where
  "mark_network_cleaned rid name w =
     w\<lparr>wo_networks := map (\<lambda>r. if rn_audit_run_id r = rid \<and> rn_name r = name
         then stamped (wo_now w) r (r\<lparr>rn_status := ''cleaned''\<rparr>) else r) (wo_networks w)\<rparr>"

definition mark_agent_runtimes_cleaned :: "string \<Rightarrow> string \<Rightarrow> runtime_world \<Rightarrow> runtime_world" where
  "mark_agent_runtimes_cleaned rid reason w =
     w\<lparr>wo_runtimes := row_upd rt_audit_run_id rid
         (\<lambda>r. stamped (wo_now w) r (r\<lparr>rt_status := ''cleaned'', rt_cleanup_status := ''cleaned'',
            rt_cleanup_reason := Some reason\<rparr>)) (wo_runtimes w)\<rparr>"

text \<open>The active keys made for the sidecars of a run; their ids are those of the rows.\<close>

definition sidecar_key_of :: "string \<Rightarrow> api_key_record \<Rightarrow> bool" where
  "sidecar_key_of rid k =
     (ak_status k = ''active'' \<and> dget (ak_metadata k) ''kind'' = PStr ''mcp-sidecar'' \<and>
      rid \<in> py_str ` set (list_or_empty (por (dget (ak_metadata k) ''audit_run_ids'') (PList []))))"

definition deactivate_mcp_api_keys :: "string \<Rightarrow> runtime_world \<Rightarrow> string list \<times> runtime_world" where
  "deactivate_mcp_api_keys rid w =
     (map ak_key_id (filter (sidecar_key_of rid) (wo_keys w)),
      w\<lparr>wo_keys := map (\<lambda>k. if sidecar_key_of rid k
          then stamped (wo_now w) k (k\<lparr>ak_status := ''inactive'', ak_deactivated_at := Some (wo_now w)\<rparr>) else k) (wo_keys w)\<rparr>)"

section \<open>Names\<close>

text \<open>\<open>re.sub("[...]+", r, s)\<close>: each longest run of characters that satisfy \<open>p\<close> becomes one \<open>r\<close>.\<close>

lemma dropWhile_shorter [termination_simp]: "length (dropWhile p s) < Suc (length s)"
  by (simp add: le_imp_less_Suc length_dropWhile_le)

fun sub_runs :: "(char \<Rightarrow> bool) \<Rightarrow> char \<Rightarrow> string \<Rightarrow> string" where
  "sub_runs p r [] = []"
| "sub_runs p r (c # s) = (if p c then r # sub_runs p r (dropWhile p s) else c # sub_runs p r s)"

abbreviation dash :: char where
  "dash \<equiv> CHR ''-''"

definition dns_char :: "char \<Rightarrow> bool" where
  "dns_char c = (is_lower c \<or> is_digit c \<or> c = dash)"

definition strip_dashes :: "string \<Rightarrow> string" where
  "strip_dashes = strip_by (\<lambda>c. c = dash)"

definition dns_label_part :: "string \<Rightarrow> nat \<Rightarrow> string" where
  "dns_label_part value max_length =
     strip_dashes (take max_length (sub_runs (\<lambda>c. c = dash) dash
       (strip_dashes (sub_runs (\<lambda>c. \<not> dns_char c) dash (str_lower value)))))"

definition or_else :: "string \<Rightarrow> string \<Rightarrow> string" where
  "or_else a b = (if a = [] then b else a)"

text \<open>\<open>spare\<close> is the random text that stands in for an empty run part.\<close>

definition runtime_container_name :: "runtime_env \<Rightarrow> string \<Rightarrow> string \<Rightarrow> string \<Rightarrow> string \<Rightarrow> string \<Rightarrow> string" where
  "runtime_container_name en spare rid role template_name run_id =
     rev (dropWhile (\<lambda>c. c = dash) (rev (take 63
       (join ''-''
          [or_else (dns_label_part (oe_prefix en) 10) ''dieaudit'', take 8 (oe_uuid5 en rid),
           or_else (dns_label_part role 8) ''run'', or_else (dns_label_part template_name 18) ''item'',
           or_else (dns_label_part (filter (\<lambda>c. c \<noteq> dash) run_id) 12) (take 12 spare)]))))"

definition file_char :: "char \<Rightarrow> bool" where
  "file_char c = (is_alnum c \<or> c \<in> set ''_.-'')"

definition safe_artifact_name :: "string \<Rightarrow> string" where
  "safe_artifact_name value =
     or_else (take 96 (strip_dashes (sub_runs (\<lambda>c. \<not> file_char c) dash
       (strip_by (\<lambda>c. c = CHR ''/'' \<or> c = CHR 0x5C) value)))) ''container''"

definition labels_for :: "string \<Rightarrow> string \<Rightarrow> string \<Rightarrow> string \<Rightarrow> dict" where
  "labels_for rid pid role ttl =
     [(''dieaudit.managed'', PStr ''true''), (''dieaudit.audit_run_id'', PStr rid), (''dieaudit.project_id'', PStr pid),
      (''dieaudit.role'', PStr role), (''dieaudit.ttl'', PStr ttl)]"

definition utc_ttl :: "time \<Rightarrow> int \<Rightarrow> string" where
  "utc_ttl now hours = iso_utc (now + seconds (3600 * hours))"

section \<open>Logs and containers\<close>

definition container_exit_code :: "runtime_env \<Rightarrow> string \<Rightarrow> int option rx" where
  "container_exit_code en cid =
     sx_bind (sx_attempt (docker (inspect_container (oe_docker en) cid))) (\<lambda>reply.
       case reply of
         Inl _ \<Rightarrow> sx_ret None
       | Inr info \<Rightarrow>
           sx_bind (sx_lift (object_of info)) (\<lambda>d.
             let code = dget (part d ''State'') ''ExitCode''
             in if code = PNone then sx_ret None else sx_bind (sx_lift (py_int code)) (\<lambda>n. sx_ret (Some n))))"

definition log_file :: "runtime_env \<Rightarrow> string \<Rightarrow> string \<Rightarrow> string option \<Rightarrow> string" where
  "log_file en rid cid container_name =
     (let named = (case container_name of None \<Rightarrow> take 12 cid | Some n \<Rightarrow> or_else n (take 12 cid))
      in oe_artifact_root en @ ''/container-logs/'' @ rid @ ''/'' @ safe_artifact_name named @ ''-'' @ take 12 cid @ ''.log'')"

definition write_file :: "runtime_env \<Rightarrow> string \<Rightarrow> string \<Rightarrow> unit rx" where
  "write_file en path content =
     sx_do (sx_lift (oe_write en path)) (sx_modify (\<lambda>w. w\<lparr>wo_files := wo_files w @ [(path, content)]\<rparr>))"

definition capture_container_logs :: "runtime_env \<Rightarrow> string \<Rightarrow> string \<Rightarrow> string option \<Rightarrow> string rx" where
  "capture_container_logs en rid cid container_name =
     (let path = log_file en rid cid container_name
      in sx_bind (sx_attempt (docker (docker_logs (oe_docker en) cid (PStr ''all'') True))) (\<lambda>reply.
         let content = (case reply of
               Inr t \<Rightarrow> t
             | Inl e \<Rightarrow> ''Failed to read Docker logs before cleanup: '' @ exc_str e @ [CHR 0x0A])
         in sx_do (write_file en path content) (sx_ret path)))"

definition remove_and_mark :: "runtime_env \<Rightarrow> string \<Rightarrow> int option \<Rightarrow> string option \<Rightarrow> unit rx" where
  "remove_and_mark en cid exit_code log_artifact =
     sx_do (docker (remove_container (oe_docker en) cid True))
       (sx_modify (mark_container_state cid ''removed'' exit_code log_artifact))"

definition capture_and_remove_container :: "runtime_env \<Rightarrow> string \<Rightarrow> string \<Rightarrow> string option \<Rightarrow> string rx" where
  "capture_and_remove_container en rid cid container_name =
     sx_bind (container_exit_code en cid) (\<lambda>exit_code.
     sx_bind (capture_container_logs en rid cid container_name) (\<lambda>log_artifact.
     sx_do (remove_and_mark en cid exit_code (Some log_artifact)) (sx_ret log_artifact)))"

section \<open>The service's own containers\<close>

definition current_controller :: "runtime_env \<Rightarrow> string option" where
  "current_controller en =
     (if str_strip (oe_controller en) \<noteq> [] then Some (str_strip (oe_controller en))
      else if str_strip (oe_service_name en) = [] then None
      else Some (oe_prefix en @ ''-'' @ str_strip (oe_service_name en)))"

fun distinct_names :: "string set \<Rightarrow> (string \<times> string) list \<Rightarrow> (string \<times> string) list" where
  "distinct_names seen [] = []"
| "distinct_names seen ((n, a) # xs) =
     (if n \<noteq> [] \<and> n \<notin> seen then (n, a) # distinct_names (insert n seen) xs else distinct_names seen xs)"

definition runtime_controller_targets :: "runtime_env \<Rightarrow> (string \<times> string) list" where
  "runtime_controller_targets en =
     distinct_names {} ((oe_gateway en, ''agent-gateway'') #
       (case current_controller en of
          None \<Rightarrow> []
        | Some c \<Rightarrow> if c = oe_gateway en then []
                    else [(c, or_else (dns_label_part (oe_service_name en) 32) ''runtime-controller'')]))"

definition known_controller_names :: "runtime_env \<Rightarrow> string list" where
  "known_controller_names en =
     map fst (distinct_names {} (map (\<lambda>n. (n, []))
       ([oe_gateway en, oe_prefix en @ ''-workflow-worker'', oe_prefix en @ ''-sandbox-runner''] @
        (case current_controller en of None \<Rightarrow> [] | Some c \<Rightarrow> [c]))))"

definition connect_runtime_controllers :: "runtime_env \<Rightarrow> string \<Rightarrow> unit rx" where
  "connect_runtime_controllers en network =
     sx_iter (\<lambda>(container, alias). docker (connect_network (oe_docker en) network container [alias]))
       (runtime_controller_targets en)"

definition disconnect_runtime_controllers :: "runtime_env \<Rightarrow> string \<Rightarrow> unit rx" where
  "disconnect_runtime_controllers en network =
     sx_iter (\<lambda>container. docker (disconnect_network (oe_docker en) network container))
       (map fst (runtime_controller_targets en) @ known_controller_names en)"

section \<open>Names are names\<close>

text \<open>What a container is called is a DNS label: lower case letters, digits and dashes, no dash at
  either end, at most 63 characters.\<close>

definition dns_label :: "string \<Rightarrow> bool" where
  "dns_label s = (s \<noteq> [] \<and> length s \<le> 63 \<and> list_all dns_char s \<and> hd s \<noteq> dash \<and> last s \<noteq> dash)"

lemma list_all_dropWhile: "list_all p s \<Longrightarrow> list_all p (dropWhile q s)"
  by (metis dropWhile_eq_drop list_all_iff in_set_dropD)

lemma list_all_strip_by: "list_all p s \<Longrightarrow> list_all p (strip_by q s)"
  by (simp add: strip_by_def list_all_dropWhile)

lemma list_all_sub_runs: "(\<And>c. c \<in> set s \<Longrightarrow> \<not> q c \<Longrightarrow> p c) \<Longrightarrow> p r \<Longrightarrow> list_all p (sub_runs q r s)"
  by (induction q r s rule: sub_runs.induct) (auto dest: set_dropWhileD)

lemma list_all_take: "list_all p s \<Longrightarrow> list_all p (take n s)"
  by (metis list_all_iff in_set_takeD)

lemma strip_by_ends: "strip_by q s \<noteq> [] \<Longrightarrow> \<not> q (hd (strip_by q s)) \<and> \<not> q (last (strip_by q s))"
proof -
  let ?m = "dropWhile q s"
  assume ne: "strip_by q s \<noteq> []"
  then have r: "dropWhile q (rev ?m) \<noteq> []" unfolding strip_by_def by simp
  then have m: "?m \<noteq> []" by force
  have l: "last (strip_by q s) = hd (dropWhile q (rev ?m))" using r by (simp add: strip_by_def last_rev)
  have "takeWhile q (rev ?m) @ dropWhile q (rev ?m) = rev ?m" by simp
  then have "last (dropWhile q (rev ?m)) = hd ?m" using r m by (metis last_appendR last_rev)
  then have "hd (strip_by q s) = hd ?m" using r by (simp add: strip_by_def hd_rev)
  with l r m show ?thesis by (simp add: hd_dropWhile)
qed

lemma strip_by_length: "length (strip_by q s) \<le> length s"
  by (metis strip_by_def length_rev length_dropWhile_le le_trans)

lemma dns_label_part_chars: "list_all dns_char (dns_label_part s n)"
proof -
  have dash_ok: "dns_char dash" by (simp add: dns_char_def)
  have a: "list_all dns_char (sub_runs (\<lambda>c. \<not> dns_char c) dash (str_lower s))"
    by (rule list_all_sub_runs) (auto simp: dash_ok)
  have b: "list_all dns_char (strip_dashes (sub_runs (\<lambda>c. \<not> dns_char c) dash (str_lower s)))" (is "list_all _ ?t")
    unfolding strip_dashes_def by (rule list_all_strip_by [OF a])
  have "list_all dns_char (sub_runs (\<lambda>c. c = dash) dash ?t)"
    by (rule list_all_sub_runs) (use b in \<open>auto simp: dash_ok list_all_iff\<close>)
  then show ?thesis unfolding dns_label_part_def strip_dashes_def by (intro list_all_strip_by list_all_take)
qed

lemma dns_label_part_length: "length (dns_label_part s n) \<le> n"
  unfolding dns_label_part_def strip_dashes_def
  by (rule le_trans [OF strip_by_length]) simp

lemma dns_label_part_ends:
  "dns_label_part s n \<noteq> [] \<Longrightarrow> hd (dns_label_part s n) \<noteq> dash \<and> last (dns_label_part s n) \<noteq> dash"
  unfolding dns_label_part_def strip_dashes_def by (drule strip_by_ends) simp

lemma or_else_label:
  assumes "list_all dns_char b" "b \<noteq> []" "hd b \<noteq> dash" "last b \<noteq> dash" "length b \<le> n"
  shows "list_all dns_char (or_else (dns_label_part s n) b) \<and> or_else (dns_label_part s n) b \<noteq> [] \<and>
    hd (or_else (dns_label_part s n) b) \<noteq> dash \<and> last (or_else (dns_label_part s n) b) \<noteq> dash \<and>
    length (or_else (dns_label_part s n) b) \<le> n"
  using assms dns_label_part_chars [of s n] dns_label_part_ends [of s n] dns_label_part_length [of s n]
  by (simp add: or_else_def)

definition hex_text :: "string \<Rightarrow> bool" where
  "hex_text s = list_all (\<lambda>c. is_digit c \<or> c \<in> set ''abcdef'') s"

lemma hex_text_dns: "hex_text s \<Longrightarrow> list_all dns_char s \<and> dash \<notin> set s"
  by (auto simp: hex_text_def list_all_iff dns_char_def is_digit_def is_lower_def)

lemma dropWhile_rev_id: "s \<noteq> [] \<Longrightarrow> \<not> q (last s) \<Longrightarrow> rev (dropWhile q (rev s)) = s"
  by (cases s rule: rev_cases) auto

text \<open>Whatever text the names of templates and services hold, the name a container is started under
  is a DNS label: at most 63 lower case letters, digits and dashes that neither begin nor end with
  a dash. UUIDs are hexadecimal text.\<close>

lemma container_name_is_label:
  assumes u: "hex_text (oe_uuid5 en rid)" and s: "hex_text spare" "12 \<le> length spare"
  shows "dns_label (runtime_container_name en spare rid role template_name run_id)"
proof -
  let ?a = "or_else (dns_label_part (oe_prefix en) 10) ''dieaudit''"
  let ?h = "take 8 (oe_uuid5 en rid)"
  let ?b = "or_else (dns_label_part role 8) ''run''"
  let ?c = "or_else (dns_label_part template_name 18) ''item''"
  let ?d = "or_else (dns_label_part (filter (\<lambda>c. c \<noteq> dash) run_id) 12) (take 12 spare)"
  let ?s = "join ''-'' [?a, ?h, ?b, ?c, ?d]"
  have spelt: "?s = ?a @ ''-'' @ ?h @ ''-'' @ ?b @ ''-'' @ ?c @ ''-'' @ ?d" by simp
  have a: "list_all dns_char ?a" "?a \<noteq> []" "hd ?a \<noteq> dash" "length ?a \<le> 10"
    using or_else_label [of "''dieaudit''" 10 "oe_prefix en"] by (simp_all add: dns_char_def is_lower_def)
  have b: "list_all dns_char ?b" "length ?b \<le> 8"
    using or_else_label [of "''run''" 8 role] by (simp_all add: dns_char_def is_lower_def)
  have c: "list_all dns_char ?c" "length ?c \<le> 18"
    using or_else_label [of "''item''" 18 template_name] by (simp_all add: dns_char_def is_lower_def)
  have sp: "list_all dns_char (take 12 spare)" "take 12 spare \<noteq> []" "dash \<notin> set (take 12 spare)"
    using hex_text_dns [OF s(1)] s(2) by (auto intro: list_all_take dest: in_set_takeD)
  have "hd (take 12 spare) \<noteq> dash" "last (take 12 spare) \<noteq> dash"
    using sp(2,3) hd_in_set last_in_set by metis+
  with sp have d: "list_all dns_char ?d" "?d \<noteq> []" "last ?d \<noteq> dash" "length ?d \<le> 12"
    using or_else_label [of "take 12 spare" 12 "filter (\<lambda>c. c \<noteq> dash) run_id"] by simp_all
  have h: "list_all dns_char ?h" "length ?h \<le> 8" using hex_text_dns [OF u] by (simp_all add: list_all_take)
  have len: "length ?s \<le> 63" unfolding spelt using a(4) b(2) c(2) d(4) h(2) by simp
  have last_ok: "last ?s \<noteq> dash" "?s \<noteq> []" unfolding spelt using d(2,3) by simp_all
  have "runtime_container_name en spare rid role template_name run_id = ?s"
    unfolding runtime_container_name_def take_all [OF len] by (rule dropWhile_rev_id) (use last_ok in auto)
  moreover have "list_all dns_char ?s" unfolding spelt using a b c d h by (simp add: dns_char_def)
  moreover have "hd ?s \<noteq> dash" unfolding spelt using a(2,3) by simp
  ultimately show ?thesis using len last_ok by (simp add: dns_label_def)
qed

section \<open>An environment\<close>

text \<open>A daemon that runs every container at once and successfully.\<close>

definition quiet_daemon :: daemon where
  "quiet_daemon h r =
     (if dq_path r = ''/_ping'' then Some (200, ''OK'')
      else if dq_path r = ''/info'' then Some (200, ''info'')
      else if dq_path r = ''/containers/json'' then Some (200, ''containers'')
      else if dq_path r = ''/networks'' then Some (200, ''networks'')
      else if dq_path r = ''/containers/create'' then Some (201, ''made'')
      else if dq_path r = ''/networks/create'' then Some (201, ''made'')
      else if starts_with (dq_path r) ''/networks/'' then Some (404, [])
      else if dq_path r = ''/containers/gateway/json'' then Some (200, ''gateway'')
      else if dq_path r = ''/containers/c1/json'' then Some (200, ''over'')
      else Some (200, []))"

definition quiet_loads :: "string \<Rightarrow> pyval option" where
  "quiet_loads s =
     (if s = ''info'' then Some (PDict [(''DefaultRuntime'', PStr ''runc'')])
      else if s = ''made'' then Some (PDict [(''Id'', PStr ''c1'')])
      else if s = ''containers''
      then Some (PList [PDict [(''Id'', PStr ''c1''), (''Labels'', PDict [(''dieaudit.agent_run_id'', PStr ''a-1'')])]])
      else if s = ''networks'' then Some (PList [])
      else if s = ''gateway'' then Some (PDict [(''Mounts'', PList [])])
      else if s = ''over'' then Some (PDict [(''State'', PDict [(''ExitCode'', PInt 0)])])
      else None)"

definition quiet_env :: runtime_env where
  "quiet_env =
     \<lparr>oe_docker = \<lparr>dk_daemon = quiet_daemon, dk_loads = quiet_loads, dk_decode = id\<rparr>, oe_prefix = ''dieaudit'',
      oe_gateway = ''gateway'', oe_service_name = [], oe_controller = [], oe_default_sandbox_runtime = ''runc'',
      oe_enable_gvisor = False, oe_allow_runc = True, oe_artifact_root = ''/a'', oe_memory = PStr ''1024m'',
      oe_nano_cpus = (\<lambda>_. None), oe_cpus = PInt 1, oe_pids_limit = PInt 512, oe_tmpfs = PNone,
      oe_uuid5 = (\<lambda>_. ''0123456789abcdef''), oe_fromiso = (\<lambda>_. None), oe_write = (\<lambda>_. Inr ()), oe_resolve = id,
      oe_rounds = 3\<rparr>"

definition idle_world :: runtime_world where
  "idle_world =
     \<lparr>wo_db = empty_db, wo_containers = [], wo_networks = [], wo_runtimes = [], wo_keys = [], wo_attempts = [],
      wo_row_id = 1, wo_requests = [], wo_files = [], wo_mounts = None\<rparr>"

lemma container_name_is_label_witness:
  "dns_label (runtime_container_name quiet_env ''0123456789abcdef'' ''run-1'' ''poc'' ''My Template!'' ''1b2c-3d'')"
  by (rule container_name_is_label) (simp_all add: quiet_env_def hex_text_def is_digit_def)

end
