(* ===== verification/Runtime_Sandbox.thy ===== *)
theory Runtime_Sandbox
  imports Runtime_World Readiness Sandbox_Compose
begin

text \<open>
  Running untrusted code (\<open>services/platform/app/runtime/orchestrator.py\<close>): whether the host may run a
  sandbox at all, the networks, mounts, limits and payloads of the containers, and the two ways to
  start one, \<open>run_poc_container\<close> and \<open>start_sandbox_service\<close>.
\<close>

section \<open>May a sandbox run\<close>

definition requested_sandbox_runtime :: "runtime_env \<Rightarrow> string" where
  "requested_sandbox_runtime en = (if oe_enable_gvisor en then ''runsc'' else oe_default_sandbox_runtime en)"

definition sandbox_warnings :: "bool \<Rightarrow> bool \<Rightarrow> bool \<Rightarrow> string \<Rightarrow> bool \<Rightarrow> string list" where
  "sandbox_warnings configured_gvisor allow_runc gvisor_available requested requested_available =
     (if configured_gvisor \<and> \<not> gvisor_available
      then [''ENABLE_GVISOR=true but Docker runtime '' @ str_repr ''runsc'' @ '' is not installed.''] else []) @
     (if \<not> requested_available
      then [''Docker runtime '' @ [CHR 0x27] @ requested @ [CHR 0x27] @ '' is not available on this host.''] else []) @
     (if requested = ''runc'' \<and> allow_runc then [''Sandbox is using Docker runc container isolation.'']
      else if requested = ''runc'' then [''Sandbox execution is disabled with runc until ALLOW_RUNC_SANDBOX=true.'']
      else [])"

definition unreachable_report :: "runtime_env \<Rightarrow> string \<Rightarrow> dict" where
  "unreachable_report en reason =
     [(''ok'', PBool False), (''docker_available'', PBool False),
      (''default_runtime'', PStr (oe_default_sandbox_runtime en)), (''configured_gvisor'', PBool (oe_enable_gvisor en)),
      (''allow_runc_sandbox'', PBool (oe_allow_runc en)), (''requested_runtime'', PStr (requested_sandbox_runtime en)),
      (''gvisor_available'', PBool False), (''strong_isolation_available'', PBool False),
      (''sandbox_execution_available'', PBool False), (''reason'', PStr reason)]"

definition docker_default_runtime :: "runtime_env \<Rightarrow> dict \<Rightarrow> string" where
  "docker_default_runtime en info = py_str (por (dget info ''DefaultRuntime'') (PStr (oe_default_sandbox_runtime en)))"

definition requested_available :: "runtime_env \<Rightarrow> dict \<Rightarrow> bool" where
  "requested_available en info =
     (dmem (part info ''Runtimes'') (requested_sandbox_runtime en) \<or>
      requested_sandbox_runtime en = docker_default_runtime en info)"

definition strong_isolation :: "runtime_env \<Rightarrow> dict \<Rightarrow> bool" where
  "strong_isolation en info = (requested_sandbox_runtime en \<noteq> ''runc'' \<and> requested_available en info)"

definition docker_isolation :: "runtime_env \<Rightarrow> dict \<Rightarrow> bool" where
  "docker_isolation en info =
     (requested_sandbox_runtime en = ''runc'' \<and> requested_available en info \<and> oe_allow_runc en)"

definition sandbox_available :: "runtime_env \<Rightarrow> pyval \<Rightarrow> dict \<Rightarrow> bool" where
  "sandbox_available en ping info =
     (ping = PStr ''OK'' \<and> requested_available en info \<and> (strong_isolation en info \<or> docker_isolation en info))"

definition sandbox_refusal :: "runtime_env \<Rightarrow> dict \<Rightarrow> pyval" where
  "sandbox_refusal en info =
     (if oe_enable_gvisor en \<and> \<not> dmem (part info ''Runtimes'') ''runsc''
      then PStr (''gVisor is enabled but Docker runtime '' @ str_repr ''runsc'' @ '' is not installed.'')
      else if \<not> requested_available en info
      then PStr (''Configured sandbox runtime '' @ [CHR 0x27] @ requested_sandbox_runtime en @ [CHR 0x27] @
                 '' is not available in Docker.'')
      else if requested_sandbox_runtime en = ''runc'' \<and> \<not> oe_allow_runc en
      then PStr ''Sandbox execution with the Docker runc runtime requires ALLOW_RUNC_SANDBOX=true.'' else PNone)"

definition sandbox_report :: "runtime_env \<Rightarrow> pyval \<Rightarrow> dict \<Rightarrow> dict" where
  "sandbox_report en ping info =
     (let gvisor = dmem (part info ''Runtimes'') ''runsc''
      in [(''ok'', PBool (sandbox_available en ping info)), (''docker_available'', PBool (ping = PStr ''OK'')),
          (''docker_default_runtime'', PStr (docker_default_runtime en info)),
          (''docker_runtimes'', strs (sorted_names (map fst (part info ''Runtimes'')))),
          (''configured_runtime'', PStr (oe_default_sandbox_runtime en)), (''configured_gvisor'', PBool (oe_enable_gvisor en)),
          (''allow_runc_sandbox'', PBool (oe_allow_runc en)), (''requested_runtime'', PStr (requested_sandbox_runtime en)),
          (''requested_runtime_available'', PBool (requested_available en info)),
          (''strong_isolation_available'', PBool (strong_isolation en info)), (''gvisor_available'', PBool gvisor),
          (''sandbox_execution_available'', PBool (sandbox_available en ping info)),
          (''reason'', sandbox_refusal en info),
          (''warnings'', strs (sandbox_warnings (oe_enable_gvisor en) (oe_allow_runc en) gvisor
             (requested_sandbox_runtime en) (requested_available en info)))])"

definition sandbox_capabilities :: "runtime_env \<Rightarrow> dict rx" where
  "sandbox_capabilities en =
     sx_bind (sx_attempt (docker (sx_bind (docker_ping (oe_docker en)) (\<lambda>ping.
                sx_bind (docker_info (oe_docker en)) (\<lambda>info. sx_ret (ping, info)))))) (\<lambda>probe.
       case probe of
         Inl e \<Rightarrow> sx_ret (unreachable_report en (exc_str e))
       | Inr (ping, info) \<Rightarrow>
           sx_bind (sx_lift (object_of info)) (\<lambda>d. sx_ret (sandbox_report en ping d)))"

text \<open>The caller's \<open>allow_weak_isolation\<close> stands in for the platform's ALLOW_RUNC_SANDBOX.\<close>

definition weak_isolation_report :: "dict \<Rightarrow> dict" where
  "weak_isolation_report report =
     dmerge report
       [(''ok'', PBool True), (''sandbox_execution_available'', PBool True), (''policy_ok'', PBool False),
        (''docker_isolation_override'', PBool True),
        (''warnings'', PList (list_or_empty (por (dget report ''warnings'') (PList [])) @
           [PStr ''This run explicitly allowed Docker runc container isolation.'']))]"

definition report_runtime :: "runtime_env \<Rightarrow> dict \<Rightarrow> string" where
  "report_runtime en report = py_str (por (dget report ''requested_runtime'') (PStr (oe_default_sandbox_runtime en)))"

definition admitted_report :: "runtime_env \<Rightarrow> bool \<Rightarrow> dict \<Rightarrow> dict res" where
  "admitted_report en weak report =
     (if truthy (dget report ''sandbox_execution_available'') then Inr report
      else if report_runtime en report = ''runc'' \<and> weak \<and> truthy (dget report ''requested_runtime_available'')
      then Inr (weak_isolation_report report)
      else Inl (RuntimeError (py_str (por (dget report ''reason'') (PStr ''sandbox execution is not available'')))))"

definition require_sandbox_execution :: "runtime_env \<Rightarrow> bool \<Rightarrow> dict rx" where
  "require_sandbox_execution en weak =
     sx_bind (sandbox_capabilities en) (\<lambda>report. sx_lift (admitted_report en weak report))"

section \<open>Networks\<close>

definition or_missing :: "pyval \<Rightarrow> string" where
  "or_missing v = py_str (por v (PStr ''missing''))"

definition managed_by_run :: "string \<Rightarrow> string \<Rightarrow> dict \<Rightarrow> unit res" where
  "managed_by_run name rid network =
     (let labels = labels_of network
      in if dget labels ''dieaudit.managed'' \<noteq> PStr ''true''
         then Inl (RuntimeError (''sandbox network is not managed by DieAudit: '' @ name))
         else if dget labels ''dieaudit.audit_run_id'' \<noteq> PStr rid
         then Inl (RuntimeError (''sandbox network belongs to a different audit run: '' @ name))
         else if dget labels ''dieaudit.role'' \<notin> {PStr ''runtime'', PStr ''sandbox'', PStr ''poc''}
         then Inl (RuntimeError (''sandbox network has unsupported role label: '' @ or_missing (dget labels ''dieaudit.role'')))
         else Inr ())"

definition require_managed_run_network :: "runtime_env \<Rightarrow> string \<Rightarrow> string \<Rightarrow> dict rx" where
  "require_managed_run_network en name rid =
     sx_bind (docker (network_exists (oe_docker en) name)) (\<lambda>found.
       if \<not> truthy found then sx_raise (RuntimeError (''sandbox network does not exist: '' @ name))
       else sx_bind (sx_lift (object_of found)) (\<lambda>network.
            sx_do (sx_lift (managed_by_run name rid network)) (sx_ret network)))"

definition reusable_network :: "string \<Rightarrow> string \<Rightarrow> string \<Rightarrow> bool \<Rightarrow> dict \<Rightarrow> unit res" where
  "reusable_network name pid role external network =
     (let labels = labels_of network
      in if dget labels ''dieaudit.project_id'' \<noteq> PStr pid
         then Inl (RuntimeError (''sandbox network belongs to a different project: '' @ name))
         else if dget labels ''dieaudit.role'' \<noteq> PStr role
         then Inl (RuntimeError (''sandbox network has unsupported role label: '' @ or_missing (dget labels ''dieaudit.role'')))
         else if truthy (dget network ''Internal'') = external
         then Inl (RuntimeError (''sandbox network already exists with incompatible '' @
                    (if external then ''external'' else ''internal'') @ '' network policy: '' @ name))
         else Inr ())"

text \<open>The flag tells whether the network was created.\<close>

definition ensure_managed_run_network ::
  "runtime_env \<Rightarrow> string \<Rightarrow> string \<Rightarrow> string \<Rightarrow> string \<Rightarrow> bool \<Rightarrow> dict \<Rightarrow> (pyval \<times> bool) rx" where
  "ensure_managed_run_network en name rid pid role external labels =
     sx_bind (docker (network_exists (oe_docker en) name)) (\<lambda>existing.
       if truthy existing then
         sx_bind (require_managed_run_network en name rid) (\<lambda>network.
         sx_do (sx_lift (reusable_network name pid role external network))
           (sx_do (sx_modify (record_network rid name ''reused'')) (sx_ret (PDict network, False))))
       else
         sx_bind (docker (create_network (oe_docker en) name (\<not> external) labels)) (\<lambda>network.
         sx_do (sx_modify (record_network rid name ''created'')) (sx_ret (network, True))))"

definition ensure_agent_run_network :: "runtime_env \<Rightarrow> string \<Rightarrow> bool \<Rightarrow> dict \<Rightarrow> pyval rx" where
  "ensure_agent_run_network en name external labels =
     sx_bind (docker (network_exists (oe_docker en) name)) (\<lambda>existing.
       if truthy existing then
         sx_bind (sx_lift (object_of existing)) (\<lambda>network.
           if truthy (dget network ''Internal'') = (\<not> external) then sx_ret existing
           else sx_do (disconnect_runtime_controllers en name)
                (sx_do (docker (remove_network (oe_docker en) name))
                  (docker (create_network (oe_docker en) name (\<not> external) labels))))
       else docker (create_network (oe_docker en) name (\<not> external) labels))"

section \<open>Mounts\<close>

definition bind_mount :: "string \<Rightarrow> string \<Rightarrow> bool \<Rightarrow> dict" where
  "bind_mount source target read_only =
     [(''Type'', PStr ''bind''), (''Source'', PStr source), (''Target'', PStr target), (''ReadOnly'', PBool read_only)]"

definition current_gateway_mounts :: "runtime_env \<Rightarrow> dict list rx" where
  "current_gateway_mounts en =
     sx_bind (sx_gets wo_mounts) (\<lambda>cached.
       case cached of
         Some mounts \<Rightarrow> sx_ret mounts
       | None \<Rightarrow>
           sx_bind (docker (inspect_container (oe_docker en) (oe_gateway en))) (\<lambda>info.
           sx_bind (sx_lift (rbind (field_or info ''Mounts'' (PList [])) objects_of)) (\<lambda>mounts.
           sx_do (sx_modify (\<lambda>w. w\<lparr>wo_mounts := Some mounts\<rparr>)) (sx_ret mounts))))"

text \<open>\<open>posixpath.join(source, *parts)\<close> for components, and \<open>ntpath.join\<close> where neither they nor the end of the source
  hold a drive.\<close>

definition join_below :: "char \<Rightarrow> string \<Rightarrow> string list \<Rightarrow> string" where
  "join_below sep source parts =
     foldl (\<lambda>path p. if path = [] \<or> last path \<in> {CHR ''/'', sep} then path @ p else path @ [sep] @ p) source parts"

definition is_windows_path :: "string \<Rightarrow> bool" where
  "is_windows_path source = (CHR 0x5C \<in> set source \<or> (1 < length source \<and> source ! 1 = CHR '':''))"

text \<open>The parts below a bind mount; the root is a part of an absolute path.\<close>

definition parts_below :: "string \<Rightarrow> string \<Rightarrow> string list option" where
  "parts_below path destination =
     (let p = path_parts (normalize_slashes path); d = path_parts (normalize_slashes destination)
      in if is_absolute (normalize_slashes path) = is_absolute (normalize_slashes destination) \<and> take (length d) p = d
         then Some (drop (length d) p) else None)"

fun host_path_in :: "dict list \<Rightarrow> string \<Rightarrow> string option res" where
  "host_path_in [] path = Inr None"
| "host_path_in (mount # mounts) path =
     (if dget mount ''Type'' \<noteq> PStr ''bind'' then host_path_in mounts path
      else case parts_below path (py_str (dget_or mount ''Destination'' (PStr []))) of
             None \<Rightarrow> host_path_in mounts path
           | Some relative \<Rightarrow>
               rbind (dindex mount ''Source'') (\<lambda>v.
                 let source = py_str v
                 in Inr (Some (join_below (if is_windows_path source then CHR 0x5C else CHR ''/'') source relative))))"

definition host_path_for :: "runtime_env \<Rightarrow> string \<Rightarrow> string rx" where
  "host_path_for en path =
     sx_bind (current_gateway_mounts en) (\<lambda>mounts.
     sx_bind (sx_lift (host_path_in mounts path)) (\<lambda>found.
       sx_ret (case found of Some p \<Rightarrow> p | None \<Rightarrow> oe_resolve en path)))"

section \<open>Limits\<close>

text \<open>
  \<open>(\d+(?:\.\d+)?)([kmgt]?i?b?|)\<close>: the digits, the digits after a point, and a suffix. The number times
  the multiplier is rounded down; the code computes it with floating point numbers.
\<close>

definition memory_suffix :: "string \<Rightarrow> bool" where
  "memory_suffix s =
     (let r = (case s of c # r \<Rightarrow> if c \<in> set ''kmgt'' then r else s | [] \<Rightarrow> s)
      in r \<in> {[], ''i'', ''b'', ''ib''})"

definition memory_multiplier :: "string \<Rightarrow> int" where
  "memory_multiplier s =
     (if s \<in> {''k'', ''kb'', ''ki'', ''kib''} then 1024
      else if s \<in> {''m'', ''mb'', ''mi'', ''mib''} then 1024 ^ 2
      else if s \<in> {''g'', ''gb'', ''gi'', ''gib''} then 1024 ^ 3
      else if s \<in> {''t'', ''tb'', ''ti'', ''tib''} then 1024 ^ 4 else 1)"

definition decimal_bytes :: "string \<Rightarrow> int option" where
  "decimal_bytes s =
     (let whole = takeWhile is_digit s; rest = dropWhile is_digit s;
          fraction = (case rest of c # r \<Rightarrow> if c = CHR ''.'' then takeWhile is_digit r else [] | [] \<Rightarrow> []);
          suffix = (if fraction = [] then rest else dropWhile is_digit (tl rest))
      in case nat_of_str (whole @ fraction) of
           None \<Rightarrow> None
         | Some n \<Rightarrow> if whole = [] \<or> \<not> memory_suffix suffix then None
                     else Some (int n * memory_multiplier suffix div 10 ^ length fraction))"

fun parse_memory_bytes :: "pyval \<Rightarrow> int option" where
  "parse_memory_bytes PNone = None"
| "parse_memory_bytes (PInt i) = (if 0 < i then Some i else None)"
| "parse_memory_bytes (PBool b) = (if b then Some 1 else None)"
| "parse_memory_bytes v = (if v = PStr [] then None else decimal_bytes (str_lower (str_strip (py_str v))))"

definition tmpfs_entry :: "pyval \<Rightarrow> dict \<Rightarrow> dict" where
  "tmpfs_entry entry tmpfs =
     (let text = str_strip (py_str entry); target = takeWhile (\<lambda>c. c \<noteq> CHR '':'') text
      in if text = [] then tmpfs
         else dset tmpfs target (PStr (or_else (drop (length target + 1) text) ''rw,nosuid,size=64m'')))"

text \<open>None and an empty mapping both leave the limit out.\<close>

definition parse_tmpfs :: "pyval \<Rightarrow> dict" where
  "parse_tmpfs value =
     (if \<not> truthy value then []
      else case value of
             PDict d \<Rightarrow> map (\<lambda>(k, v). (k, PStr (py_str v))) (filter (\<lambda>(k, _). k \<noteq> []) d)
           | PList entries \<Rightarrow> fold tmpfs_entry entries []
           | v \<Rightarrow> tmpfs_entry v [])"

definition nano_cpus_of :: "runtime_env \<Rightarrow> dict \<Rightarrow> pyval" where
  "nano_cpus_of en resources =
     (if dget resources ''nano_cpus'' \<noteq> PNone then dget resources ''nano_cpus''
      else case oe_nano_cpus en (dget_or resources ''cpus'' (oe_cpus en)) of None \<Rightarrow> PNone | Some n \<Rightarrow> PInt n)"

definition set_limit :: "string \<Rightarrow> pyval \<Rightarrow> dict res" where
  "set_limit k v = (if truthy v then rbind (py_int v) (\<lambda>n. Inr [(k, PInt n)]) else Inr [])"

definition resource_host_config :: "runtime_env \<Rightarrow> dict \<Rightarrow> dict res" where
  "resource_host_config en resources =
     (let memory = (case parse_memory_bytes (dget_or resources ''memory'' (oe_memory en)) of
            None \<Rightarrow> [] | Some n \<Rightarrow> if n = 0 then [] else [(''Memory'', PInt n)]);
          tmpfs = parse_tmpfs (dget_or resources ''tmpfs'' (oe_tmpfs en))
      in rbind (set_limit ''NanoCpus'' (nano_cpus_of en resources)) (\<lambda>cpus.
         rbind (set_limit ''PidsLimit'' (dget_or resources ''pids_limit'' (oe_pids_limit en))) (\<lambda>pids.
         Inr (memory @ cpus @ pids @ (if tmpfs = [] then [] else [(''Tmpfs'', PDict tmpfs)])))))"

section \<open>Payloads\<close>

record container_spec =
  cs_image :: string
  cs_command :: "string list"
  cs_env :: dict
  cs_labels :: dict
  cs_network :: string
  cs_aliases :: "string list"
  cs_mounts :: "dict list"
  cs_read_only :: bool
  cs_healthcheck :: "dict option"
  cs_runtime :: "string option"
  cs_resources :: dict

definition base_host_config :: "container_spec \<Rightarrow> dict" where
  "base_host_config c =
     [(''NetworkMode'', PStr (cs_network c)), (''Mounts'', PList (map PDict (cs_mounts c))),
      (''ExtraHosts'', PList [PStr ''host.docker.internal:host-gateway'']), (''ReadonlyRootfs'', PBool (cs_read_only c)),
      (''AutoRemove'', PBool False), (''CapDrop'', PList [PStr ''ALL'']),
      (''SecurityOpt'', PList [PStr ''no-new-privileges:true''])]"

definition container_payload :: "runtime_env \<Rightarrow> container_spec \<Rightarrow> dict res" where
  "container_payload en c =
     rbind (resource_host_config en (cs_resources c)) (\<lambda>limits.
       let limited = dmerge (base_host_config c) limits;
           host_config = (case cs_runtime c of
               None \<Rightarrow> limited | Some r \<Rightarrow> if r = [] then limited else dset limited ''Runtime'' (PStr r))
       in Inr ([(''Image'', PStr (cs_image c)),
                (''Env'', PList (map (\<lambda>(k, v). PStr (k @ ''='' @ py_str v)) (cs_env c))), (''Labels'', PDict (cs_labels c)),
                (''HostConfig'', PDict host_config),
                (''NetworkingConfig'', PDict [(''EndpointsConfig'',
                   PDict [(cs_network c, PDict [(''Aliases'', PList (map PStr (cs_aliases c)))])])])] @
               (if cs_command c = [] then [] else [(''Cmd'', PList (map PStr (cs_command c)))]) @
               (case cs_healthcheck c of None \<Rightarrow> [] | Some h \<Rightarrow> if h = [] then [] else [(''Healthcheck'', PDict h)])))"

section \<open>A proof of concept\<close>

record poc_request =
  pc_image :: string
  pc_command :: "string list"
  pc_env :: dict
  pc_workspace :: "string option"
  pc_external :: bool
  pc_retain :: bool
  pc_mount_workspace :: bool
  pc_network :: "string option"
  pc_target_url :: "string option"
  pc_weak :: bool

definition sandbox_mounts :: "runtime_env \<Rightarrow> bool \<Rightarrow> string option \<Rightarrow> string \<Rightarrow> dict list rx" where
  "sandbox_mounts en mount_workspace workspace artifact_dir =
     sx_bind (case workspace of
         None \<Rightarrow> sx_ret []
       | Some path \<Rightarrow>
           if \<not> mount_workspace \<or> path = [] then sx_ret []
           else sx_bind (host_path_for en path) (\<lambda>source. sx_ret [bind_mount source ''/workspace'' True])) (\<lambda>workspaces.
     sx_do (sx_lift (oe_write en artifact_dir))
       (sx_bind (host_path_for en artifact_dir) (\<lambda>source. sx_ret (workspaces @ [bind_mount source ''/artifacts'' False]))))"

definition runtime_choice :: "string \<Rightarrow> string option" where
  "runtime_choice name = (if name \<noteq> ''runc'' then Some name else None)"

definition poc_network :: "runtime_env \<Rightarrow> string \<Rightarrow> string \<Rightarrow> string option \<Rightarrow> string" where
  "poc_network en rid poc_id given =
     (let made = oe_prefix en @ ''-run-'' @ rid @ ''-poc-'' @ take 8 poc_id
      in case given of None \<Rightarrow> made | Some n \<Rightarrow> or_else n made)"

definition poc_labels :: "runtime_env \<Rightarrow> time \<Rightarrow> string \<Rightarrow> string \<Rightarrow> string \<Rightarrow> dict \<Rightarrow> dict" where
  "poc_labels en now rid pid poc_id report =
     labels_for rid pid ''poc'' (utc_ttl now 4) @
     [(''dieaudit.poc_run_id'', PStr poc_id), (''dieaudit.sandbox_runtime'', PStr (report_runtime en report))]"

definition poc_spec :: "runtime_env \<Rightarrow> string \<Rightarrow> string \<Rightarrow> string \<Rightarrow> string \<Rightarrow> dict \<Rightarrow> dict list \<Rightarrow> dict \<Rightarrow> poc_request \<Rightarrow> container_spec" where
  "poc_spec en rid pid poc_id network labels mounts report body =
     \<lparr>cs_image = pc_image body, cs_command = pc_command body,
      cs_env = dmerge (pc_env body)
        ([(''AUDIT_RUN_ID'', PStr rid), (''PROJECT_ID'', PStr pid), (''POC_RUN_ID'', PStr poc_id),
          (''ARTIFACT_DIR'', PStr ''/artifacts'')] @
         (case pc_target_url body of None \<Rightarrow> [] | Some u \<Rightarrow> if u = [] then [] else [(''TARGET_URL'', PStr u)])),
      cs_labels = labels, cs_network = network, cs_aliases = [''poc-'' @ take 8 poc_id], cs_mounts = mounts,
      cs_read_only = True, cs_healthcheck = None, cs_runtime = runtime_choice (report_runtime en report),
      cs_resources = [(''memory'', PStr ''512m''), (''cpus'', PInt 1), (''pids_limit'', PInt 256),
        (''tmpfs'', PDict [(''/tmp'', PStr ''rw,noexec,nosuid,size=64m'')])]\<rparr>"

text \<open>The local variables that the \<open>finally\<close> clause reads.\<close>

record poc_locals =
  pl_created :: pyval
  pl_log :: "string option"
  pl_exit :: "int option"

definition in_world :: "'a rx \<Rightarrow> (runtime_world \<times> 'l, 'a) sx" where
  "in_world m = (\<lambda>(w, l). case m w of (r, v) \<Rightarrow> (r, (v, l)))"

definition assign :: "('l \<Rightarrow> 'l) \<Rightarrow> (runtime_world \<times> 'l, unit) sx" where
  "assign f = sx_modify (\<lambda>(w, l). (w, f l))"

definition poc_result ::
  "string \<Rightarrow> string \<Rightarrow> string \<Rightarrow> poc_request \<Rightarrow> string \<Rightarrow> string \<Rightarrow> string \<Rightarrow> string \<Rightarrow> int option \<Rightarrow> string \<Rightarrow> pyval \<Rightarrow> string \<Rightarrow>
   dict \<Rightarrow> dict" where
  "poc_result poc_id rid pid body cid name network status exit_code log_artifact wait_result artifact_dir report =
     [(''ok'', PBool (status = ''completed'')), (''poc_run_id'', PStr poc_id), (''audit_run_id'', PStr rid),
      (''project_id'', PStr pid),
      (''container'', PDict
         [(''id'', PStr cid), (''name'', PStr name), (''image'', PStr (pc_image body)), (''role'', PStr ''poc''),
          (''status'', PStr status), (''exit_code'', opt_int exit_code), (''log_artifact'', PStr log_artifact)]),
      (''network'', PStr network), (''network_reused'', PBool (pc_network body \<noteq> None)),
      (''target_url'', opt_str (pc_target_url body)), (''wait_result'', wait_result),
      (''artifact_dir'', PStr artifact_dir), (''sandbox'', PDict report)]"

text \<open>What \<open>asyncio.wait_for(wait_container(...))\<close> ends with: status, exit code and report.\<close>

definition wait_for_poc :: "runtime_env \<Rightarrow> string \<Rightarrow> (string \<times> int option \<times> pyval) rx" where
  "wait_for_poc en cid =
     sx_bind (docker (wait_container (oe_docker en) (oe_rounds en) cid)) (\<lambda>finished.
       case finished of
         None \<Rightarrow> sx_do (docker (stop_container (oe_docker en) cid 1)) (sx_ret (''timeout'', None, PNone))
       | Some report \<Rightarrow>
           sx_bind (sx_lift (py_int (por (dget report ''StatusCode'') (PInt 0)))) (\<lambda>code.
             sx_ret (if code = 0 then ''completed'' else ''failed'', Some code, PDict report)))"

text \<open>From \<open>_record_container\<close> on.\<close>

definition poc_running ::
  "runtime_env \<Rightarrow> string \<Rightarrow> string \<Rightarrow> string \<Rightarrow> string \<Rightarrow> string \<Rightarrow> string \<Rightarrow> dict \<Rightarrow> dict \<Rightarrow> poc_request \<Rightarrow> string \<Rightarrow>
   (runtime_world \<times> poc_locals, dict) sx" where
  "poc_running en rid pid poc_id name network artifact_dir labels report body cid =
     sx_do (in_world (sx_modify (record_container rid pid None cid (Some name) (pc_image body) ''poc'' labels ''created'')))
     (sx_do (in_world (docker (start_container (oe_docker en) cid)))
     (sx_do (in_world (sx_modify (mark_container_state cid ''running'' None None)))
     (sx_bind (in_world (wait_for_poc en cid)) (\<lambda>(status, exit_code, wait_result).
     sx_do (assign (\<lambda>l. l\<lparr>pl_exit := exit_code\<rparr>))
     (sx_bind (in_world (capture_container_logs en rid cid (Some name))) (\<lambda>log_artifact.
     sx_do (assign (\<lambda>l. l\<lparr>pl_log := Some log_artifact\<rparr>))
     (sx_do (in_world (sx_modify (mark_container_state cid status exit_code (Some log_artifact))))
       (sx_ret (poc_result poc_id rid pid body cid name network status exit_code log_artifact wait_result artifact_dir
          report)))))))))"

definition poc_body ::
  "runtime_env \<Rightarrow> string \<Rightarrow> string \<Rightarrow> string \<Rightarrow> string \<Rightarrow> string \<Rightarrow> string \<Rightarrow> dict \<Rightarrow> dict \<Rightarrow> dict \<Rightarrow> poc_request \<Rightarrow>
   (runtime_world \<times> poc_locals, dict) sx" where
  "poc_body en rid pid poc_id name network artifact_dir payload labels report body =
     sx_bind (in_world (docker (create_container (oe_docker en) name payload))) (\<lambda>created.
     sx_do (assign (\<lambda>l. l\<lparr>pl_created := created\<rparr>))
     (sx_bind (sx_lift (created_id created))
        (poc_running en rid pid poc_id name network artifact_dir labels report body)))"

text \<open>\<open>with contextlib.suppress(Exception)\<close>.\<close>

definition suppressed :: "'a rx \<Rightarrow> unit rx" where
  "suppressed m = sx_try (sx_do m (sx_ret ())) (\<lambda>_. sx_ret ())"

definition remove_poc_container :: "runtime_env \<Rightarrow> string \<Rightarrow> string \<Rightarrow> poc_locals \<Rightarrow> unit rx" where
  "remove_poc_container en rid name l =
     sx_bind (sx_lift (created_id (pl_created l))) (\<lambda>cid.
     sx_bind (case pl_log l of Some p \<Rightarrow> sx_ret p | None \<Rightarrow> capture_container_logs en rid cid (Some name)) (\<lambda>log_artifact.
       remove_and_mark en cid (pl_exit l) (Some log_artifact)))"

definition drop_network :: "runtime_env \<Rightarrow> string \<Rightarrow> string \<Rightarrow> unit rx" where
  "drop_network en rid network =
     sx_do (docker (remove_network (oe_docker en) network)) (sx_modify (mark_network_cleaned rid network))"

definition poc_finally :: "runtime_env \<Rightarrow> string \<Rightarrow> string \<Rightarrow> string \<Rightarrow> bool \<Rightarrow> bool \<Rightarrow> (runtime_world \<times> poc_locals, unit) sx" where
  "poc_finally en rid name network dedicated retain =
     sx_bind (sx_gets snd) (\<lambda>l.
     sx_do (if truthy (pl_created l) \<and> \<not> retain then in_world (suppressed (remove_poc_container en rid name l)) else sx_ret ())
       (if dedicated \<and> \<not> retain then in_world (drop_network en rid network) else sx_ret ()))"

definition with_locals :: "'l \<Rightarrow> (runtime_world \<times> 'l, 'a) sx \<Rightarrow> 'a rx" where
  "with_locals l m w = (case m (w, l) of (r, (v, _)) \<Rightarrow> (r, v))"

text \<open>The network: a new one of the run, or a managed one the caller names.\<close>

definition open_poc_network :: "runtime_env \<Rightarrow> string \<Rightarrow> string \<Rightarrow> dict \<Rightarrow> poc_request \<Rightarrow> unit rx" where
  "open_poc_network en rid network labels body =
     (if pc_network body = None
      then sx_do (docker (create_network (oe_docker en) network (\<not> pc_external body) labels))
             (sx_modify (record_network rid network ''created''))
      else sx_do (require_managed_run_network en network rid) (sx_ret ()))"

text \<open>The run part of the name is never empty, so no random text is needed.\<close>

definition run_poc_container :: "runtime_env \<Rightarrow> string \<Rightarrow> string \<Rightarrow> poc_request \<Rightarrow> dict rx" where
  "run_poc_container en rid pid body =
     sx_bind (require_sandbox_execution en (pc_weak body)) (\<lambda>report.
     sx_bind new_uuid (\<lambda>poc_id.
     sx_bind (sx_gets wo_now) (\<lambda>now.
       let network = poc_network en rid poc_id (pc_network body);
           labels = poc_labels en now rid pid poc_id report;
           artifact_dir = oe_artifact_root en @ ''/poc-runs/'' @ rid @ ''/'' @ poc_id;
           name = runtime_container_name en [] rid ''poc'' ''poc'' poc_id
       in sx_do (open_poc_network en rid network labels body)
          (sx_bind (sandbox_mounts en (pc_mount_workspace body) (pc_workspace body) artifact_dir) (\<lambda>mounts.
           sx_bind (sx_lift (container_payload en (poc_spec en rid pid poc_id network labels mounts report body))) (\<lambda>payload.
           sx_do (docker (pull_image (oe_docker en) (pc_image body)))
             (with_locals \<lparr>pl_created = PNone, pl_log = None, pl_exit = None\<rparr>
               (sx_finally (poc_body en rid pid poc_id name network artifact_dir payload labels report body)
                  (poc_finally en rid name network (pc_network body = None) (pc_retain body))))))))))"

section \<open>A service\<close>

definition service_labels :: "runtime_env \<Rightarrow> time \<Rightarrow> string \<Rightarrow> string \<Rightarrow> dict \<Rightarrow> dict" where
  "service_labels en now rid pid report =
     labels_for rid pid ''sandbox'' (utc_ttl now 8) @ [(''dieaudit.sandbox_runtime'', PStr (report_runtime en report))]"

definition service_healthcheck :: "service_request \<Rightarrow> dict option" where
  "service_healthcheck r =
     (case sv_healthcheck_path r of
        None \<Rightarrow> None
      | Some path \<Rightarrow>
          if path = [] then None
          else Some
            [(''Test'', PList [PStr ''CMD-SHELL'',
                PStr (''python - <<'' @ str_repr ''PY'' @ [CHR 0x0A] @ ''import urllib.request'' @ [CHR 0x0A] @
                  ''urllib.request.urlopen('' @ [CHR 0x27] @ ''http://127.0.0.1:'' @ int_str (sv_port r) @ path @ [CHR 0x27] @
                  '', timeout=2).read(1)'' @ [CHR 0x0A] @ ''PY'')]),
             (''Interval'', PInt 2000000000), (''Timeout'', PInt 2000000000),
             (''Retries'', PInt (max 1 (sv_startup_timeout_seconds r div 2)))])"

definition service_spec ::
  "runtime_env \<Rightarrow> string \<Rightarrow> string \<Rightarrow> string \<Rightarrow> string \<Rightarrow> dict \<Rightarrow> dict list \<Rightarrow> dict \<Rightarrow> service_request \<Rightarrow> container_spec" where
  "service_spec en rid pid sandbox_id network labels mounts report r =
     \<lparr>cs_image = sv_image r, cs_command = sv_command r,
      cs_env = dmerge (sv_env r)
        [(''AUDIT_RUN_ID'', PStr rid), (''PROJECT_ID'', PStr pid), (''SANDBOX_ID'', PStr sandbox_id),
         (''SERVICE_NAME'', PStr (sv_service_name r)), (''SERVICE_PORT'', PStr (int_str (sv_port r))),
         (''ARTIFACT_DIR'', PStr ''/artifacts'')],
      cs_labels = labels, cs_network = network,
      cs_aliases = [sv_service_name r, ''sandbox-'' @ take 8 sandbox_id], cs_mounts = mounts, cs_read_only = True,
      cs_healthcheck = service_healthcheck r, cs_runtime = runtime_choice (report_runtime en report),
      cs_resources = [(''memory'', PStr ''768m''), (''cpus'', PInt 1), (''pids_limit'', PInt 512),
        (''tmpfs'', PDict [(''/tmp'', PStr ''rw,nosuid,size=128m'')])]\<rparr>"

definition service_result ::
  "string \<Rightarrow> string \<Rightarrow> string \<Rightarrow> string \<Rightarrow> string \<Rightarrow> string \<Rightarrow> string \<Rightarrow> dict \<Rightarrow> service_request \<Rightarrow> dict" where
  "service_result sandbox_id rid pid network cid name artifact_dir report r =
     [(''ok'', PBool True), (''sandbox_id'', PStr sandbox_id), (''audit_run_id'', PStr rid), (''project_id'', PStr pid),
      (''network'', PStr network), (''service_name'', PStr (sv_service_name r)), (''port'', PInt (sv_port r)),
      (''target_url'', PStr (''http://'' @ sv_service_name r @ '':'' @ int_str (sv_port r))),
      (''artifact_dir'', PStr artifact_dir),
      (''container'', PDict [(''id'', PStr cid), (''name'', PStr name), (''image'', PStr (sv_image r)),
         (''role'', PStr ''sandbox''), (''status'', PStr ''running'')]),
      (''sandbox'', PDict report)]"

text \<open>The only local variable the handler reads is \<open>created\<close>.\<close>

definition service_body ::
  "runtime_env \<Rightarrow> string \<Rightarrow> string \<Rightarrow> string \<Rightarrow> string \<Rightarrow> string \<Rightarrow> string \<Rightarrow> dict \<Rightarrow> dict \<Rightarrow> dict \<Rightarrow> service_request \<Rightarrow>
   (runtime_world \<times> pyval, dict) sx" where
  "service_body en rid pid sandbox_id name network artifact_dir payload labels report r =
     sx_bind (in_world (docker (create_container (oe_docker en) name payload))) (\<lambda>created.
     sx_do (assign (\<lambda>_. created))
     (sx_bind (sx_lift (created_id created)) (\<lambda>cid.
      sx_do (in_world (sx_modify (record_container rid pid None cid (Some name) (sv_image r) ''sandbox'' labels ''created'')))
     (sx_do (in_world (docker (start_container (oe_docker en) cid)))
     (sx_do (in_world (sx_modify (mark_container_state cid ''starting'' None None)))
     (sx_do (in_world (docker (wait_for_healthy (oe_docker en) (oe_rounds en) cid [])))
     (sx_do (in_world (sx_modify (mark_container_state cid ''running'' None None)))
       (sx_ret (service_result sandbox_id rid pid network cid name artifact_dir report r)))))))))"

definition discard_service :: "runtime_env \<Rightarrow> string \<Rightarrow> string \<Rightarrow> bool \<Rightarrow> pyval \<Rightarrow> unit rx" where
  "discard_service en rid name retain created =
     sx_bind (sx_lift (created_id created)) (\<lambda>cid.
     sx_bind (capture_container_logs en rid cid (Some name)) (\<lambda>log_artifact.
     sx_do (sx_modify (mark_container_state cid ''failed'' None (Some log_artifact)))
       (if retain then sx_ret () else remove_and_mark en cid None (Some log_artifact))))"

definition service_failed ::
  "runtime_env \<Rightarrow> string \<Rightarrow> string \<Rightarrow> string \<Rightarrow> bool \<Rightarrow> bool \<Rightarrow> pyexc \<Rightarrow> (runtime_world \<times> pyval, dict) sx" where
  "service_failed en rid name network created_network retain e =
     sx_bind (sx_gets snd) (\<lambda>created.
     sx_do (if truthy created then in_world (suppressed (discard_service en rid name retain created)) else sx_ret ())
     (sx_do (if created_network \<and> \<not> retain then in_world (drop_network en rid network) else sx_ret ())
       (sx_raise e)))"

definition sandbox_network :: "runtime_env \<Rightarrow> string \<Rightarrow> string" where
  "sandbox_network en rid = oe_prefix en @ ''-run-'' @ rid @ ''-sandbox''"

text \<open>\<open>external\<close> is what the policy allowed of the request's own flag.\<close>

definition start_sandbox_service ::
  "runtime_env \<Rightarrow> string \<Rightarrow> string \<Rightarrow> string option \<Rightarrow> service_request \<Rightarrow> bool \<Rightarrow> dict rx" where
  "start_sandbox_service en rid pid workspace r external =
     sx_bind (require_sandbox_execution en (sv_allow_weak_isolation r)) (\<lambda>report.
     sx_bind new_uuid (\<lambda>sandbox_id.
     sx_bind (sx_gets wo_now) (\<lambda>now.
       let network = sandbox_network en rid;
           network_labels = service_labels en now rid pid report;
           labels = network_labels @ [(''dieaudit.sandbox_id'', PStr sandbox_id),
             (''dieaudit.sandbox_service'', PStr (sv_service_name r))];
           artifact_dir = oe_artifact_root en @ ''/sandbox-services/'' @ rid @ ''/'' @ sandbox_id;
           name = runtime_container_name en [] rid ''sandbox'' (sv_service_name r) sandbox_id
       in sx_bind (ensure_managed_run_network en network rid pid ''sandbox'' external network_labels) (\<lambda>(_, created_network).
          sx_bind (sandbox_mounts en (sv_mount_workspace r) workspace artifact_dir) (\<lambda>mounts.
          sx_bind (sx_lift (container_payload en (service_spec en rid pid sandbox_id network labels mounts report r))) (\<lambda>payload.
          sx_do (docker (pull_image (oe_docker en) (sv_image r)))
            (with_locals PNone
              (sx_try (service_body en rid pid sandbox_id name network artifact_dir payload labels report r)
                 (service_failed en rid name network created_network (sv_retain_runtime_on_failure r))))))))))"

end
