(* ===== verification/Runtime_Cleanup.thy ===== *)
theory Runtime_Cleanup
  imports Runtime_Sandbox
begin

text \<open>
  Taking runtimes down (\<open>services/platform/app/runtime/orchestrator.py\<close>): everything of a run, what agents
  that are done left behind, what has outlived its label, and the runtimes whose run is over or gone;
  and the two listings of what is there.
\<close>

fun sx_map :: "('a \<Rightarrow> ('s, 'b) sx) \<Rightarrow> 'a list \<Rightarrow> ('s, 'b list) sx" where
  "sx_map f [] = sx_ret []"
| "sx_map f (x # xs) = sx_bind (f x) (\<lambda>y. sx_bind (sx_map f xs) (\<lambda>ys. sx_ret (y # ys)))"

section \<open>A run\<close>

definition container_id :: "dict \<Rightarrow> string res" where
  "container_id c = rbind (dindex c ''Id'') (\<lambda>v. Inr (py_str v))"

text \<open>\<open>(container.get("Names") or [None])[0]\<close>.\<close>

definition first_name :: "dict \<Rightarrow> string option" where
  "first_name c =
     (case list_or_empty (dget c ''Names'') of
        PStr n # _ \<Rightarrow> Some n
      | _ \<Rightarrow> None)"

definition names_of :: "dict \<Rightarrow> pyval" where
  "names_of c = dget_or c ''Names'' (PList [])"

definition cleanup_container :: "runtime_env \<Rightarrow> string \<Rightarrow> dict \<Rightarrow> dict rx" where
  "cleanup_container en rid c =
     sx_bind (sx_lift (container_id c)) (\<lambda>cid.
     sx_do (capture_and_remove_container en rid cid (first_name c))
       (sx_ret [(''id'', PStr cid), (''names'', names_of c)]))"

definition run_network :: "runtime_env \<Rightarrow> string \<Rightarrow> string" where
  "run_network en rid = oe_prefix en @ ''-run-'' @ rid"

definition network_names :: "runtime_env \<Rightarrow> string \<Rightarrow> dict list \<Rightarrow> string list" where
  "network_names en rid networks =
     (if networks = [] then [run_network en rid]
      else map (\<lambda>n. py_str (dget n ''Name'')) (filter (\<lambda>n. truthy (dget n ''Name'')) networks))"

definition cleanup_network :: "runtime_env \<Rightarrow> string \<Rightarrow> string \<Rightarrow> unit rx" where
  "cleanup_network en rid network =
     sx_do (disconnect_runtime_controllers en network) (drop_network en rid network)"

definition deactivate_run_keys :: "string \<Rightarrow> string list rx" where
  "deactivate_run_keys rid w = (case deactivate_mcp_api_keys rid w of (ids, v) \<Rightarrow> (Inr ids, v))"

definition cleanup_run :: "runtime_env \<Rightarrow> string \<Rightarrow> dict rx" where
  "cleanup_run en rid =
     sx_bind (docker_objects (list_containers_by_run (oe_docker en) rid)) (\<lambda>containers.
     sx_bind (sx_map (cleanup_container en rid) containers) (\<lambda>removed.
     sx_bind (docker_objects (list_networks_by_run (oe_docker en) rid)) (\<lambda>networks.
     sx_do (sx_iter (cleanup_network en rid) (network_names en rid networks))
     (sx_bind (deactivate_run_keys rid) (\<lambda>keys.
     sx_do (sx_modify (mark_agent_runtimes_cleaned rid ''cleanup_run''))
       (sx_ret [(''audit_run_id'', PStr rid), (''removed_containers'', PList (map PDict removed)),
                (''removed_networks'', strs (network_names en rid networks)),
                (''deactivated_mcp_api_keys'', strs keys)]))))))"

section \<open>Agents that are done\<close>

definition done_statuses :: "string list" where
  "done_statuses = [''completed'', ''failed'', ''cancelled'']"

definition busy_statuses :: "string list" where
  "busy_statuses = [''created'', ''queued'', ''starting'', ''running'']"

definition agents_with :: "string list \<Rightarrow> string \<Rightarrow> db \<Rightarrow> string list" where
  "agents_with statuses rid d =
     map ag_agent_run_id (filter (\<lambda>a. ag_audit_run_id a = rid \<and> ag_status a \<in> set statuses) (agent_runs d))"

definition text_of :: "pyval \<Rightarrow> string" where
  "text_of v = py_str (por v (PStr []))"

definition container_agent :: "dict \<Rightarrow> string" where
  "container_agent c = text_of (dget (labels_of c) ''dieaudit.agent_run_id'')"

definition skip_entry :: "dict \<Rightarrow> string \<Rightarrow> dict" where
  "skip_entry c reason =
     [(''id'', PStr (text_of (dget c ''Id''))), (''names'', names_of c)] @
     (if container_agent c = [] then [] else [(''agent_run_id'', PStr (container_agent c))]) @
     [(''reason'', PStr reason)]"

text \<open>The reason to leave a container alone.\<close>

definition skip_reason :: "string list \<Rightarrow> string list \<Rightarrow> dict \<Rightarrow> string option" where
  "skip_reason finished busy c =
     (if container_agent c = [] then Some ''missing_agent_run_label''
      else if container_agent c \<in> set busy then Some ''agent_run_active''
      else if container_agent c \<notin> set finished then Some ''agent_run_not_terminal'' else None)"

definition remove_agent_container :: "runtime_env \<Rightarrow> string \<Rightarrow> dict \<Rightarrow> dict rx" where
  "remove_agent_container en rid c =
     sx_bind (capture_and_remove_container en rid (text_of (dget c ''Id'')) (first_name c)) (\<lambda>log_artifact.
       sx_ret [(''id'', PStr (text_of (dget c ''Id''))), (''names'', names_of c), (''agent_run_id'', PStr (container_agent c)),
               (''log_artifact'', PStr log_artifact)])"

definition cleanup_inactive_agent_runtime :: "runtime_env \<Rightarrow> string \<Rightarrow> dict rx" where
  "cleanup_inactive_agent_runtime en rid =
     sx_bind (sx_gets (\<lambda>w. agents_with done_statuses rid (wo_db w))) (\<lambda>finished.
     sx_bind (sx_gets (\<lambda>w. agents_with busy_statuses rid (wo_db w))) (\<lambda>busy.
       if finished = [] then
         sx_ret [(''audit_run_id'', PStr rid), (''removed_containers'', PList []), (''skipped_containers'', PList []),
                 (''terminal_agent_run_ids'', PList [])]
       else
         sx_bind (docker_objects (list_containers_by_run (oe_docker en) rid)) (\<lambda>listed.
           let containers = filter (\<lambda>c. text_of (dget c ''Id'') \<noteq> []) listed
           in sx_bind (sx_map (remove_agent_container en rid)
                  (filter (\<lambda>c. skip_reason finished busy c = None) containers)) (\<lambda>removed.
              sx_ret [(''audit_run_id'', PStr rid), (''removed_containers'', PList (map PDict removed)),
                (''skipped_containers'', PList (map PDict
                   (List.map_filter (\<lambda>c. map_option (skip_entry c) (skip_reason finished busy c)) containers))),
                (''terminal_agent_run_ids'', strs (sorted_names finished))]))))"

section \<open>Listing containers\<close>

definition slashed :: "string \<Rightarrow> string" where
  "slashed n = (if starts_with n ''/'' then n else ''/'' @ n)"

definition container_run_to_dict :: "container_run \<Rightarrow> dict option \<Rightarrow> dict" where
  "container_run_to_dict r live0 =
     (let live = (case live0 of Some [] \<Rightarrow> None | _ \<Rightarrow> live0);
          from_live = (\<lambda>k stored. case live of None \<Rightarrow> stored | Some d \<Rightarrow> dget d k);
          names = (case live of None \<Rightarrow> PNone | Some d \<Rightarrow> dget d ''Names'');
          own = (case cr_container_name r of None \<Rightarrow> PList [] | Some n \<Rightarrow> if n = [] then PList [] else PList [PStr (slashed n)])
      in [(''Id'', PStr (cr_container_id r)), (''Image'', from_live ''Image'' (PStr (cr_image r))),
          (''Names'', if truthy names then names else own), (''State'', from_live ''State'' (PStr (cr_status r))),
          (''Status'', from_live ''Status'' (PStr (cr_status r))), (''Labels'', from_live ''Labels'' (PDict (cr_labels r))),
          (''container_id'', PStr (cr_container_id r)), (''container_name'', opt_str (cr_container_name r)),
          (''agent_run_id'', opt_str (cr_agent_run_id r)), (''role'', PStr (cr_role r)), (''db_status'', PStr (cr_status r)),
          (''exit_code'', opt_int (cr_exit_code r)), (''log_artifact'', opt_str (cr_log_artifact r)),
          (''created_at'', pytime (created_at r)), (''updated_at'', pytime (updated_at r))])"

definition container_rows :: "string \<Rightarrow> runtime_world \<Rightarrow> container_run list" where
  "container_rows rid w = sort_key (\<lambda>r. - created_at r) (filter (\<lambda>r. cr_audit_run_id r = rid) (wo_containers w))"

definition merged_containers :: "container_run list \<Rightarrow> dict list \<Rightarrow> dict list" where
  "merged_containers rows live =
     map (\<lambda>r. container_run_to_dict r (List.find (\<lambda>c. dget c ''Id'' = PStr (cr_container_id r)) (rev live))) rows @
     filter (\<lambda>c. truthy (dget c ''Id'') \<and> dget c ''Id'' \<notin> PStr ` cr_container_id ` set rows) live"

definition run_containers :: "runtime_env \<Rightarrow> string \<Rightarrow> dict list rx" where
  "run_containers en rid =
     sx_bind (docker_objects (list_containers_by_run (oe_docker en) rid)) (\<lambda>live.
     sx_bind (sx_gets (container_rows rid)) (\<lambda>rows. sx_ret (merged_containers rows live)))"

section \<open>What has outlived its label\<close>

record managed_run =
  mr_audit_run_id :: string
  mr_expired :: bool
  mr_containers :: "dict list"
  mr_networks :: "dict list"

definition empty_managed_run :: "string \<Rightarrow> managed_run" where
  "empty_managed_run rid = \<lparr>mr_audit_run_id = rid, mr_expired = False, mr_containers = [], mr_networks = []\<rparr>"

definition managed_run_to_dict :: "managed_run \<Rightarrow> dict" where
  "managed_run_to_dict r =
     [(''audit_run_id'', PStr (mr_audit_run_id r)), (''expired'', PBool (mr_expired r)),
      (''containers'', PList (map PDict (mr_containers r))), (''networks'', PList (map PDict (mr_networks r)))]"

definition parse_ttl :: "runtime_env \<Rightarrow> pyval \<Rightarrow> time option" where
  "parse_ttl en value = (if truthy value then oe_fromiso en (replace_Z (py_str value)) else None)"

definition ttl_of :: "dict \<Rightarrow> pyval" where
  "ttl_of item = dget (labels_of item) ''dieaudit.ttl''"

definition item_expired :: "runtime_env \<Rightarrow> time \<Rightarrow> dict \<Rightarrow> bool" where
  "item_expired en now item = (case parse_ttl en (ttl_of item) of None \<Rightarrow> False | Some t \<Rightarrow> t \<le> now)"

definition managed_item_summary :: "runtime_env \<Rightarrow> time \<Rightarrow> dict \<Rightarrow> dict" where
  "managed_item_summary en now item =
     [(''id'', por (por (dget item ''Id'') (dget item ''ID'')) (dget item ''Name'')),
      (''name'', por (dget item ''Name'') (case list_or_empty (dget item ''Names'') of n # _ \<Rightarrow> n | [] \<Rightarrow> PNone)),
      (''role'', dget (labels_of item) ''dieaudit.role''), (''ttl'', ttl_of item),
      (''expires_at'', opt_time (parse_ttl en (ttl_of item))), (''expired'', PBool (item_expired en now item)),
      (''state'', dget item ''State''), (''status'', dget item ''Status'')]"

definition run_of_item :: "dict \<Rightarrow> string" where
  "run_of_item item = py_str (por (dget (labels_of item) ''dieaudit.audit_run_id'') (PStr ''unknown''))"

text \<open>\<open>runs.setdefault(audit_run_id, self._empty_managed_run(audit_run_id))\<close>, then the change.\<close>

fun upd_run :: "string \<Rightarrow> (managed_run \<Rightarrow> managed_run) \<Rightarrow> managed_run list \<Rightarrow> managed_run list" where
  "upd_run rid f [] = [f (empty_managed_run rid)]"
| "upd_run rid f (r # rs) = (if mr_audit_run_id r = rid then f r # rs else r # upd_run rid f rs)"

definition add_managed_container :: "runtime_env \<Rightarrow> time \<Rightarrow> dict \<Rightarrow> managed_run list \<Rightarrow> managed_run list" where
  "add_managed_container en now item =
     upd_run (run_of_item item) (\<lambda>r. r\<lparr>mr_containers := mr_containers r @ [managed_item_summary en now item],
       mr_expired := mr_expired r \<or> item_expired en now item\<rparr>)"

definition add_managed_network :: "runtime_env \<Rightarrow> time \<Rightarrow> dict \<Rightarrow> managed_run list \<Rightarrow> managed_run list" where
  "add_managed_network en now item =
     upd_run (run_of_item item) (\<lambda>r. r\<lparr>mr_networks := mr_networks r @ [managed_item_summary en now item],
       mr_expired := mr_expired r \<or> item_expired en now item\<rparr>)"

definition managed_runs :: "runtime_env \<Rightarrow> time \<Rightarrow> dict list \<Rightarrow> dict list \<Rightarrow> managed_run list" where
  "managed_runs en now containers networks =
     fold (add_managed_network en now) networks (fold (add_managed_container en now) containers [])"

definition managed_items :: "runtime_env \<Rightarrow> (dict list \<times> dict list \<times> managed_run list) rx" where
  "managed_items en =
     sx_bind (docker_objects (list_managed_containers (oe_docker en))) (\<lambda>containers.
     sx_bind (docker_objects (list_managed_networks (oe_docker en))) (\<lambda>networks.
     sx_bind (sx_gets wo_now) (\<lambda>now. sx_ret (containers, networks, managed_runs en now containers networks))))"

definition managed_summary :: "dict list \<Rightarrow> dict list \<Rightarrow> managed_run list \<Rightarrow> dict" where
  "managed_summary containers networks runs =
     [(''container_count'', PInt (int (length containers))), (''network_count'', PInt (int (length networks))),
      (''run_count'', PInt (int (length runs))),
      (''expired_run_count'', PInt (int (length (filter mr_expired runs))))]"

definition managed_runtime :: "runtime_env \<Rightarrow> dict rx" where
  "managed_runtime en =
     sx_bind (managed_items en) (\<lambda>(containers, networks, runs).
       sx_ret [(''containers'', PList (map PDict containers)), (''networks'', PList (map PDict networks)),
               (''runs'', PList (map (\<lambda>r. PDict (managed_run_to_dict r)) runs)),
               (''summary'', PDict (managed_summary containers networks runs))])"

definition expired_run_ids :: "managed_run list \<Rightarrow> string list" where
  "expired_run_ids runs =
     sorted_names (map mr_audit_run_id (filter (\<lambda>r. mr_expired r \<and> mr_audit_run_id r \<noteq> ''unknown'') runs))"

definition cleanup_expired_runtime :: "runtime_env \<Rightarrow> dict rx" where
  "cleanup_expired_runtime en =
     sx_bind (managed_items en) (\<lambda>(containers, networks, runs).
     sx_bind (sx_map (cleanup_run en) (expired_run_ids runs)) (\<lambda>results.
       sx_ret [(''expired_run_ids'', strs (expired_run_ids runs)), (''cleanup_results'', PList (map PDict results)),
               (''before'', PDict (managed_summary containers networks runs))]))"

section \<open>Runtimes whose run is over\<close>

definition runtime_expired :: "time \<Rightarrow> agent_runtime \<Rightarrow> bool" where
  "runtime_expired now r = (case rt_ttl_expires_at r of None \<Rightarrow> False | Some t \<Rightarrow> t < now)"

definition run_is_over :: "audit_run \<Rightarrow> bool" where
  "run_is_over run = (ar_status run \<in> set done_statuses \<and> \<not> ar_retain_runtime_on_failure run)"

definition cleanup_reason :: "time \<Rightarrow> db \<Rightarrow> agent_runtime \<Rightarrow> string option" where
  "cleanup_reason now d r =
     (if runtime_expired now r then Some ''expired''
      else case row_find ar_audit_run_id (rt_audit_run_id r) (audit_runs d) of
             None \<Rightarrow> Some ''orphan''
           | Some run \<Rightarrow> if run_is_over run then Some ''terminal'' else None)"

definition reconcile_runtime :: "runtime_env \<Rightarrow> agent_runtime \<times> string \<Rightarrow> dict rx" where
  "reconcile_runtime en x =
     (case x of (r, reason) \<Rightarrow>
        sx_bind (cleanup_run en (rt_audit_run_id r)) (\<lambda>result.
          sx_ret (dmerge result [(''runtime_id'', PStr (rt_runtime_id r)), (''reason'', PStr reason)])))"

definition checked_runtimes :: "runtime_world \<Rightarrow> agent_runtime list" where
  "checked_runtimes w = filter (\<lambda>r. rt_cleanup_status r \<noteq> ''cleaned'') (wo_runtimes w)"

definition due_runtimes :: "runtime_world \<Rightarrow> (agent_runtime \<times> string) list" where
  "due_runtimes w =
     List.map_filter (\<lambda>r. map_option (Pair r) (cleanup_reason (wo_now w) (wo_db w) r)) (checked_runtimes w)"

definition reconcile_run_runtimes :: "runtime_env \<Rightarrow> dict rx" where
  "reconcile_run_runtimes en =
     sx_bind (sx_gets (\<lambda>w. length (checked_runtimes w))) (\<lambda>n.
     sx_bind (sx_gets due_runtimes) (\<lambda>due.
     sx_bind (sx_map (reconcile_runtime en) due) (\<lambda>results.
       sx_ret [(''checked'', PInt (int n)), (''cleaned'', PInt (int (length results))),
               (''cleanup_results'', PList (map PDict results))])))"

end
