(* ===== verification/Runtime_Contracts.thy ===== *)
theory Runtime_Contracts
  imports Runtime_Cleanup
begin

text \<open>
  What the runtime orchestrator keeps to: which requests reach the docker daemon, and what is left
  behind when its operations end.
\<close>

section \<open>Requests of the orchestrator's calls\<close>

abbreviation calls :: "(docker_request \<Rightarrow> bool) \<Rightarrow> 'a rx \<Rightarrow> bool" where
  "calls \<equiv> sends wo_requests"

abbreviation local_calls :: "(docker_request \<Rightarrow> bool) \<Rightarrow> (runtime_world \<times> 'l, 'a) sx \<Rightarrow> bool" where
  "local_calls \<equiv> sends (\<lambda>s. wo_requests (fst s))"

lemma calls_docker [sends_intros]: "asks P m \<Longrightarrow> calls P (docker m)"
  unfolding sends_def keeps_def docker_def by (auto split: prod.splits) (metis snd_conv)

lemma calls_new_uuid [sends_intros]: "calls P new_uuid"
  unfolding sends_def keeps_def new_uuid_def by (auto simp: fresh_uuid_def)

lemma calls_modify [sends_intros]:
  "calls P (sx_modify (mark_container_state cid status code path))"
  "calls P (sx_modify (record_container rid pid agent cid' name img role labels status))"
  "calls P (sx_modify (record_network rid net status))"
  "calls P (sx_modify (mark_network_cleaned rid net))"
  "calls P (sx_modify (mark_agent_runtimes_cleaned rid reason))"
  "calls P (sx_modify (\<lambda>w. w\<lparr>wo_files := g w\<rparr>))"
  "calls P (sx_modify (\<lambda>w. w\<lparr>wo_mounts := h w\<rparr>))"
  by (rule sends_modify; simp add: mark_container_state_def record_container_def record_network_def
      mark_network_cleaned_def mark_agent_runtimes_cleaned_def split: option.splits)+

lemma calls_deactivate [sends_intros]: "calls P (deactivate_run_keys rid)"
  by (rule sendsI) (auto simp: keeps_def deactivate_run_keys_def deactivate_mcp_api_keys_def)

lemma local_calls_in_world [sends_intros]: "calls P m \<Longrightarrow> local_calls P (in_world m)"
  unfolding sends_def keeps_def in_world_def by (auto split: prod.splits) (metis snd_conv)

lemma local_calls_assign [sends_intros]: "local_calls P (assign f)"
  unfolding assign_def by (rule sends_modify) (auto split: prod.splits)

lemma calls_with_locals [sends_intros]: "local_calls P m \<Longrightarrow> calls P (with_locals l m)"
  unfolding sends_def keeps_def with_locals_def by (auto split: prod.splits) (metis fst_conv snd_conv)

lemma sends_map: "(\<And>x. x \<in> set xs \<Longrightarrow> sends f P (k x)) \<Longrightarrow> sends f P (sx_map k xs)"
  by (induction xs) (auto intro: sends_intros)

lemma calls_objects [sends_intros]: "asks P m \<Longrightarrow> calls P (docker_objects m)"
  unfolding docker_objects_def by (intro sends_intros)

section \<open>Only hardened containers are created\<close>

definition creates_container :: "docker_request \<Rightarrow> bool" where
  "creates_container r = (dq_method r = ''POST'' \<and> dq_path r = ''/containers/create'')"

text \<open>
  The mounts: the workspace for reading, and one directory of the host for the artifacts. \<open>src\<close> says
  which paths of the host that directory may have.
\<close>

definition confined_mount :: "(string \<Rightarrow> bool) \<Rightarrow> pyval \<Rightarrow> bool" where
  "confined_mount src m = (\<exists>d p. m = PDict d \<and> dget d ''Type'' = PStr ''bind'' \<and> dget d ''Source'' = PStr p \<and>
     (dget d ''Target'' = PStr ''/workspace'' \<and> dget d ''ReadOnly'' = PBool True \<or>
      dget d ''Target'' = PStr ''/artifacts'' \<and> src p))"

text \<open>
  No capability, no new privileges, a read-only root file system, exactly the given bounds on memory
  and processes, a scratch directory in memory at \<open>/tmp\<close> with the given options, only confined
  mounts, and none of the settings that would open the container again.
\<close>

definition hardened_host :: "int \<Rightarrow> int \<Rightarrow> string \<Rightarrow> (string \<Rightarrow> bool) \<Rightarrow> dict \<Rightarrow> bool" where
  "hardened_host memory pids scratch src host =
     (dget host ''CapDrop'' = PList [PStr ''ALL''] \<and> dget host ''SecurityOpt'' = PList [PStr ''no-new-privileges:true''] \<and>
      dget host ''ReadonlyRootfs'' = PBool True \<and> dget host ''Memory'' = PInt memory \<and> dget host ''PidsLimit'' = PInt pids \<and>
      dget host ''Tmpfs'' = PDict [(''/tmp'', PStr scratch)] \<and>
      (\<exists>ms. dget host ''Mounts'' = PList ms \<and> list_all (confined_mount src) ms) \<and>
      list_all (\<lambda>k. dget host k = PNone)
        [''Privileged'', ''CapAdd'', ''Binds'', ''VolumesFrom'', ''Devices'', ''PidMode'', ''IpcMode'', ''UsernsMode''])"

definition hardened :: "int \<Rightarrow> int \<Rightarrow> string \<Rightarrow> (string \<Rightarrow> bool) \<Rightarrow> docker_request \<Rightarrow> bool" where
  "hardened memory pids scratch src r = (creates_container r \<longrightarrow>
     (\<exists>payload. dq_body r = PDict payload \<and> hardened_host memory pids scratch src (part payload ''HostConfig'')))"

text \<open>Everything the client sends but the request to create a container.\<close>

lemma start_path: "''/containers/'' @ c @ ''/start'' \<noteq> ''/containers/create''" "''/containers/'' @ c @ ''/stop'' \<noteq> ''/containers/create''"
proof -
  have "CHR ''/'' \<in> set (c @ ''/start'')" "CHR ''/'' \<in> set (c @ ''/stop'')" by simp_all
  then have "c @ ''/start'' \<noteq> ''create''" "c @ ''/stop'' \<noteq> ''create''" by (auto simp del: set_append)
  then show "''/containers/'' @ c @ ''/start'' \<noteq> ''/containers/create''" "''/containers/'' @ c @ ''/stop'' \<noteq> ''/containers/create''"
    by simp_all
qed

lemma reads_no_create: "reads_only r \<Longrightarrow> \<not> creates_container r"
  by (simp add: reads_only_def creates_container_def)

text \<open>What every request but that one satisfies is a property of all the helpers.\<close>

locale quiet_requests =
  fixes P :: "docker_request \<Rightarrow> bool"
  assumes quiet: "\<not> creates_container r \<Longrightarrow> P r"
begin

lemma quiet_reading [sends_intros]:
  "asks P (docker_ping dk)" "asks P (docker_info dk)" "asks P (image_exists dk i)"
  "asks P (network_exists dk n)" "asks P (list_containers_by_run dk rid)" "asks P (list_networks_by_run dk rid)"
  "asks P (list_managed_containers dk)" "asks P (list_managed_networks dk)" "asks P (inspect_container dk c)"
  "asks P (docker_logs dk c tail stamps)" "asks P (wait_container dk k c)" "asks P (wait_for_healthy dk k c st)"
  by (intro asks_reading asks_wait_container asks_wait_for_healthy quiet reads_no_create; assumption)+

lemma quiet_writing [sends_intros]:
  "asks P (pull_image dk i)" "asks P (create_network dk n internal labels)" "asks P (connect_network dk n c al)"
  "asks P (disconnect_network dk n c)" "asks P (remove_network dk n)" "asks P (start_container dk c)"
  "asks P (stop_container dk c k)" "asks P (remove_container dk c b)"
  unfolding pull_image_def create_network_def connect_network_def disconnect_network_def remove_network_def
    start_container_def stop_container_def remove_container_def
  by (intro sends_intros; (rule quiet, simp add: creates_container_def start_path)?)+

lemma quiet_logs [sends_intros]:
  "calls P (container_exit_code en cid)" "calls P (write_file en path content)"
  "calls P (capture_container_logs en rid cid name)" "calls P (remove_and_mark en cid code saved)"
  "calls P (capture_and_remove_container en rid cid name)"
  unfolding container_exit_code_def write_file_def capture_container_logs_def remove_and_mark_def
    capture_and_remove_container_def Let_def
  by (intro sends_intros)+

lemma quiet_disconnect [sends_intros]: "calls P (disconnect_runtime_controllers en net)"
  unfolding disconnect_runtime_controllers_def by (intro sends_iter sends_intros)

lemma quiet_networks [sends_intros]:
  "calls P (require_managed_run_network en net rid)"
  "calls P (ensure_managed_run_network en net rid pid role external labels)"
  "calls P (drop_network en rid net)" "calls P (open_poc_network en rid net labels body)"
  unfolding require_managed_run_network_def ensure_managed_run_network_def drop_network_def open_poc_network_def
  by (intro sends_intros)+

lemma quiet_host_path [sends_intros]: "calls P (host_path_for en path)"
  unfolding host_path_for_def current_gateway_mounts_def by (intro sends_intros)

lemma quiet_mounts [sends_intros]: "calls P (sandbox_mounts en b ws dir)"
  unfolding sandbox_mounts_def by (intro sends_intros)

lemma quiet_admission [sends_intros]: "calls P (require_sandbox_execution en weak)"
  unfolding require_sandbox_execution_def sandbox_capabilities_def by (intro sends_intros)

lemma quiet_waiting [sends_intros]: "calls P (wait_for_poc en cid)"
  unfolding wait_for_poc_def by (intro sends_intros)

lemma quiet_suppressed [sends_intros]: "calls P m \<Longrightarrow> calls P (suppressed m)"
  unfolding suppressed_def by (intro sends_intros)

lemma quiet_poc_finally [sends_intros]: "local_calls P (poc_finally en rid name net dedicated retain)"
  unfolding poc_finally_def remove_poc_container_def by (intro sends_intros)

lemma quiet_service_failed [sends_intros]: "local_calls P (service_failed en rid name net made retain e)"
  unfolding service_failed_def discard_service_def by (intro sends_intros)

lemma poc_body_calls:
  assumes "\<And>r. creates_container r \<Longrightarrow> dq_body r = PDict payload \<Longrightarrow> P r"
  shows "local_calls P (poc_body en rid pid poc_id name net dir payload labels report body)"
  unfolding poc_body_def poc_running_def create_container_def
  by (intro sends_intros) (rule assms; simp add: creates_container_def)

lemma service_body_calls:
  assumes "\<And>r. creates_container r \<Longrightarrow> dq_body r = PDict payload \<Longrightarrow> P r"
  shows "local_calls P (service_body en rid pid sid name net dir payload labels report req)"
  unfolding service_body_def create_container_def
  by (intro sends_intros) (rule assms; simp add: creates_container_def)

end

interpretation quiet_hardened: quiet_requests "hardened memory pids scratch src" for memory pids scratch src
  by unfold_locales (simp add: hardened_def)

section \<open>The payloads\<close>

lemma set_limit_shape: "set_limit k v = Inr xs \<Longrightarrow> xs = [] \<or> (\<exists>n. xs = [(k, PInt n)])"
  by (auto simp: set_limit_def rbind_Inr_iff split: if_splits)

lemma limits_shape:
  assumes "resource_host_config en res = Inr limits"
    and "parse_memory_bytes (dget_or res ''memory'' (oe_memory en)) = Some n" "0 < n"
    and "dget_or res ''pids_limit'' (oe_pids_limit en) = PInt k" "0 < k"
    and "dget_or res ''tmpfs'' (oe_tmpfs en) = PDict [(''/tmp'', PStr scratch)]"
  obtains cpus where "limits = (''Memory'', PInt n) # cpus @ [(''PidsLimit'', PInt k), (''Tmpfs'', PDict [(''/tmp'', PStr scratch)])]"
    "cpus = [] \<or> (\<exists>v. cpus = [(''NanoCpus'', v)])"
proof -
  have "parse_tmpfs (PDict [(''/tmp'', PStr scratch)]) = [(''/tmp'', PStr scratch)]" by (simp add: parse_tmpfs_def)
  then obtain cpus where "set_limit ''NanoCpus'' (nano_cpus_of en res) = Inr cpus" and
    l: "limits = (''Memory'', PInt n) # cpus @ [(''PidsLimit'', PInt k), (''Tmpfs'', PDict [(''/tmp'', PStr scratch)])]"
    using assms by (auto simp: resource_host_config_def Let_def rbind_Inr_iff set_limit_def [of "''PidsLimit''"])
  with set_limit_shape that show ?thesis by fastforce
qed

lemma part_host [simp]:
  "part ((''Image'', a) # (''Env'', b) # (''Labels'', c) # (''HostConfig'', PDict h) # rest) ''HostConfig'' = h"
  by (cases h) (simp_all add: part_def dget_def por_def)

lemma payload_host:
  "container_payload en c = Inr payload \<Longrightarrow>
   \<exists>limits. resource_host_config en (cs_resources c) = Inr limits \<and>
     part payload ''HostConfig'' =
       (case cs_runtime c of
          None \<Rightarrow> dmerge (base_host_config c) limits
        | Some r \<Rightarrow> if r = [] then dmerge (base_host_config c) limits
                    else dset (dmerge (base_host_config c) limits) ''Runtime'' (PStr r))"
  unfolding container_payload_def rbind_Inr_iff Let_def by (elim exE conjE) (simp only: sum.inject, hypsubst, simp)

lemma hardened_payload:
  assumes p: "container_payload en c = Inr payload" and ro: "cs_read_only c"
    and ms: "list_all (confined_mount src) (map PDict (cs_mounts c))"
    and res: "parse_memory_bytes (dget_or (cs_resources c) ''memory'' (oe_memory en)) = Some n" "0 < n"
      "dget_or (cs_resources c) ''pids_limit'' (oe_pids_limit en) = PInt k" "0 < k"
      "dget_or (cs_resources c) ''tmpfs'' (oe_tmpfs en) = PDict [(''/tmp'', PStr scratch)]"
  shows "hardened_host n k scratch src (part payload ''HostConfig'')"
proof -
  from payload_host [OF p] obtain limits where l: "resource_host_config en (cs_resources c) = Inr limits"
    and host: "part payload ''HostConfig'' = (case cs_runtime c of
          None \<Rightarrow> dmerge (base_host_config c) limits
        | Some r \<Rightarrow> if r = [] then dmerge (base_host_config c) limits
                    else dset (dmerge (base_host_config c) limits) ''Runtime'' (PStr r))" by blast
  have "hardened_host n k scratch src (dmerge (base_host_config c) limits)"
    by (rule limits_shape [OF l res])
      (use ro ms in \<open>auto simp: hardened_host_def base_host_config_def dget_def\<close>)
  then show ?thesis unfolding host by (auto simp: hardened_host_def split: option.splits)
qed

section \<open>Where the artifacts lie on the host\<close>

text \<open>
  The mounts of the gateway: those it has on record, or else what the daemon answers when it is asked.
  A path of the gateway is, on the host, the source of a bind mount that covers it with the rest of
  the path below, or the path itself where none does.
\<close>

definition gateway_knows :: "runtime_env \<Rightarrow> runtime_world \<Rightarrow> dict list \<Rightarrow> bool" where
  "gateway_knows en w ms = (case wo_mounts w of
       Some known \<Rightarrow> ms = known
     | None \<Rightarrow> (\<exists>v. wo_mounts v = None \<and> fst (current_gateway_mounts en v) = Inr ms))"

definition on_host :: "runtime_env \<Rightarrow> dict list \<Rightarrow> string \<Rightarrow> string \<Rightarrow> bool" where
  "on_host en ms path p = (p = oe_resolve en path \<or>
     (\<exists>m v below. m \<in> set ms \<and> dget m ''Type'' = PStr ''bind'' \<and> dindex m ''Source'' = Inr v \<and>
        path_parts (normalize_slashes path) =
          path_parts (normalize_slashes (py_str (dget_or m ''Destination'' (PStr [])))) @ below \<and>
        p = join_below (if is_windows_path (py_str v) then CHR 0x5C else CHR ''/'') (py_str v) below))"

text \<open>The directory of one call below the artifact root, under an identifier that was drawn.\<close>

definition artifact_source :: "runtime_env \<Rightarrow> runtime_world \<Rightarrow> string \<Rightarrow> string \<Rightarrow> bool" where
  "artifact_source en w below p = (\<exists>ms i. gateway_knows en w ms \<and> i \<in> range (db_uuids (wo_db w)) \<and>
     on_host en ms (oe_artifact_root en @ below @ i) p)"

lemma on_host_more: "on_host en ms path p \<Longrightarrow> set ms \<subseteq> set ms' \<Longrightarrow> on_host en ms' path p"
  unfolding on_host_def by blast

lemma host_path_in_on_host: "host_path_in ms path = Inr (Some p) \<Longrightarrow> on_host en ms path p"
proof (induction ms path rule: host_path_in.induct)
  case (2 m ms path)
  show ?case
  proof (cases "dget m ''Type'' = PStr ''bind'' \<and> parts_below path (py_str (dget_or m ''Destination'' (PStr []))) \<noteq> None")
    case True
    then obtain below where below: "parts_below path (py_str (dget_or m ''Destination'' (PStr []))) = Some below" by blast
    then have "path_parts (normalize_slashes path) = path_parts (normalize_slashes (py_str (dget_or m ''Destination'' (PStr [])))) @ below"
      unfolding parts_below_def Let_def by (metis append_take_drop_id option.distinct(1) option.inject)
    moreover obtain v where "dindex m ''Source'' = Inr v"
        "p = join_below (if is_windows_path (py_str v) then CHR 0x5C else CHR ''/'') (py_str v) below"
      using 2(3) True below by (auto simp: rbind_Inr_iff Let_def)
    ultimately show ?thesis
      using True unfolding on_host_def
      by (intro disjI2 exI [of _ m] exI [of _ v] exI [of _ below]) simp
  next
    case False
    then have "on_host en ms path p" using 2 by (auto split: if_splits)
    then show ?thesis by (rule on_host_more) auto
  qed
qed simp

text \<open>What has become of the gateway's mounts since the call began.\<close>

definition mounts_since :: "runtime_env \<Rightarrow> runtime_world \<Rightarrow> runtime_world \<Rightarrow> bool" where
  "mounts_since en w0 w = ((wo_mounts w = wo_mounts w0 \<or> (\<exists>ms. wo_mounts w = Some ms \<and> gateway_knows en w0 ms)) \<and>
     db_uuids (wo_db w) = db_uuids (wo_db w0))"

text \<open>From a state with \<open>K\<close> the call gives a result with \<open>Q\<close>, and \<open>K\<close> holds whatever it does.\<close>

definition gives :: "('s \<Rightarrow> bool) \<Rightarrow> ('a \<Rightarrow> bool) \<Rightarrow> ('s, 'a) sx \<Rightarrow> bool" where
  "gives K Q m = (\<forall>s. K s \<longrightarrow> sx_wp m (\<lambda>x t. Q x \<and> K t) (\<lambda>_. K) s)"

lemma gives_bind: "gives K R m \<Longrightarrow> (\<And>x. R x \<Longrightarrow> gives K Q (k x)) \<Longrightarrow> gives K Q (sx_bind m k)"
  unfolding gives_def sx_wp_bind by (blast intro: sx_wp_mono)

lemma gives_ret: "Q x \<Longrightarrow> gives K Q (sx_ret x)"
  by (simp add: gives_def)

lemma gives_lift: "(\<And>x. r = Inr x \<Longrightarrow> Q x) \<Longrightarrow> gives K Q (sx_lift r)"
  by (auto simp: gives_def sx_wp_lift split: sum.split)

lemma gives_keeps: "keeps K m \<Longrightarrow> gives K (\<lambda>_. True) m"
  by (simp add: gives_def keeps_wp)

lemma since_docker [keeps_intros]: "keeps (mounts_since en w0) (docker m)"
  by (auto simp: keeps_def docker_def mounts_since_def split: prod.splits)

lemma since_network [keeps_intros]: "keeps (mounts_since en w0) (sx_modify (record_network rid name status))"
  by (rule keeps_modify) (simp add: record_network_def mounts_since_def split: option.split)

lemma since_uuid: "gives (mounts_since en w0) (\<lambda>i. i \<in> range (db_uuids (wo_db w0))) new_uuid"
  by (auto simp: gives_def sx_wp_def new_uuid_def fresh_uuid_def mounts_since_def)

lemma gives_mounts: "gives (mounts_since en w0) (gateway_knows en w0) (current_gateway_mounts en)"
proof -
  have "sx_wp (current_gateway_mounts en) (\<lambda>ms t. gateway_knows en w0 ms \<and> mounts_since en w0 t) (\<lambda>_. mounts_since en w0) w"
    if w: "mounts_since en w0 w" for w
  proof (cases "wo_mounts w")
    case (Some ms)
    then have "gateway_knows en w0 ms" using w by (auto simp: mounts_since_def gateway_knows_def split: option.split)
    then show ?thesis using Some w by (simp add: current_gateway_mounts_def)
  next
    case None
    then have none: "wo_mounts w0 = None" using w by (auto simp: mounts_since_def)
    have same: "mounts_since en w0 (w\<lparr>wo_requests := h\<rparr>)" for h using w by (simp add: mounts_since_def)
    obtain r h where ask: "inspect_container (oe_docker en) (oe_gateway en) (wo_requests w) = (r, h)" by fastforce
    show ?thesis
    proof (cases "rbind r (\<lambda>info. rbind (field_or info ''Mounts'' (PList [])) objects_of)")
      case (Inr ms)
      then have run: "current_gateway_mounts en w = (Inr ms, w\<lparr>wo_requests := h, wo_mounts := Some ms\<rparr>)"
        using ask None by (auto simp: current_gateway_mounts_def sx_bind_def sx_do_def sx_defs sx_lift_def docker_def rbind_Inr_iff)
      then have "gateway_knows en w0 ms" using none None by (auto simp: gateway_knows_def intro!: exI [of _ w])
      then show ?thesis using run w by (simp add: sx_wp_def mounts_since_def)
    next
      case (Inl e)
      then have "current_gateway_mounts en w = (Inl e, w\<lparr>wo_requests := h\<rparr>)"
        using ask None by (cases r) (auto simp: current_gateway_mounts_def sx_bind_def sx_do_def sx_defs sx_lift_def docker_def)
      then show ?thesis using same by (simp add: sx_wp_def)
    qed
  qed
  then show ?thesis by (simp add: gives_def)
qed

lemma gives_host_path: "gives (mounts_since en w0) (\<lambda>p. \<exists>ms. gateway_knows en w0 ms \<and> on_host en ms path p) (host_path_for en path)"
  unfolding host_path_for_def
  by (intro gives_bind [OF gives_mounts] gives_bind [OF gives_lift] gives_ret)
    (auto split: option.split intro: host_path_in_on_host simp: on_host_def [of en _ path "oe_resolve en path"])

lemma gives_sandbox_mounts:
  assumes "\<And>p ms. gateway_knows en w0 ms \<Longrightarrow> on_host en ms dir p \<Longrightarrow> src p"
  shows "gives (mounts_since en w0) (\<lambda>ms. list_all (confined_mount src) (map PDict ms)) (sandbox_mounts en b ws dir)"
proof -
  have "gives (mounts_since en w0) (\<lambda>ms. list_all (confined_mount src) (map PDict ms)) (case ws of None \<Rightarrow> sx_ret []
      | Some path \<Rightarrow> if \<not> b \<or> path = [] then sx_ret []
          else sx_bind (host_path_for en path) (\<lambda>source. sx_ret [bind_mount source ''/workspace'' True]))"
    by (auto split: option.split intro!: gives_ret gives_bind [OF gives_host_path]
        simp: confined_mount_def bind_mount_def dget_def)
  then show ?thesis
    unfolding sandbox_mounts_def sx_do_def
    by (rule gives_bind) (intro gives_bind [OF gives_keeps [OF keeps_lift]] gives_bind [OF gives_host_path] gives_ret,
      use assms in \<open>auto simp: confined_mount_def bind_mount_def dget_def\<close>)
qed

definition calls_from :: "(runtime_world \<Rightarrow> bool) \<Rightarrow> (docker_request \<Rightarrow> bool) \<Rightarrow> 'a rx \<Rightarrow> bool" where
  "calls_from K P m = (\<forall>H w. grown_by H P \<longrightarrow> K w \<longrightarrow> H (wo_requests w) \<longrightarrow> H (wo_requests (snd (m w))))"

lemma calls_from_calls: "calls P m \<Longrightarrow> calls_from K P m"
  by (auto simp: calls_from_def sends_def keeps_def)

lemma calls_from_bind:
  assumes "calls P m" and "gives K Q m" and "\<And>x. Q x \<Longrightarrow> calls_from K P (k x)"
  shows "calls_from K P (sx_bind m k)"
proof -
  have "H (wo_requests (snd (sx_bind m k w)))" if H: "grown_by H P" "K w" "H (wo_requests w)" for H w
  proof (cases "m w")
    case (Pair r t)
    have t: "H (wo_requests t)" using sendsD [OF assms(1) H(1)] H(3) Pair by (auto simp: keeps_def dest!: spec [of _ w])
    show ?thesis
    proof (cases r)
      case (Inr x)
      then have "Q x" "K t" using assms(2) H(2) Pair by (auto simp: gives_def sx_wp_def dest!: spec [of _ w])
      then show ?thesis using assms(3) [of x] H(1) t Pair Inr by (auto simp: calls_from_def sx_bind_def)
    qed (use t Pair in \<open>simp add: sx_bind_def\<close>)
  qed
  then show ?thesis unfolding calls_from_def by blast
qed

lemmas calls_from_step = calls_from_bind [OF _ gives_keeps, simplified]

lemma sends_bind_lift: "(\<And>x. r = Inr x \<Longrightarrow> sends f P (k x)) \<Longrightarrow> sends f P (sx_bind (sx_lift r) k)"
  by (cases r) (auto simp: sx_lift_def sx_bind_def sends_def keeps_def split: sum.splits)

lemma poc_payload_hardened:
  assumes "container_payload en (poc_spec en rid pid poc_id net labels mounts report body) = Inr payload"
    and "list_all (confined_mount src) (map PDict mounts)"
  shows "hardened_host 536870912 256 ''rw,noexec,nosuid,size=64m'' src (part payload ''HostConfig'')"
proof -
  have "parse_memory_bytes (PStr ''512m'') = Some 536870912" by code_simp
  with assms show ?thesis
    by (intro hardened_payload [of en _ payload src]) (auto simp: poc_spec_def dget_or_def)
qed

lemma service_payload_hardened:
  assumes "container_payload en (service_spec en rid pid sid net labels mounts report req) = Inr payload"
    and "list_all (confined_mount src) (map PDict mounts)"
  shows "hardened_host 805306368 512 ''rw,nosuid,size=128m'' src (part payload ''HostConfig'')"
proof -
  have "parse_memory_bytes (PStr ''768m'') = Some 805306368" by code_simp
  with assms show ?thesis
    by (intro hardened_payload [of en _ payload src]) (auto simp: service_spec_def dget_or_def)
qed

lemma since_admission: "keeps (mounts_since en w0) (require_sandbox_execution en weak)"
  unfolding require_sandbox_execution_def sandbox_capabilities_def
  by (intro keeps_intros)

lemma since_managed: "keeps (mounts_since en w0) (require_managed_run_network en net rid)"
  unfolding require_managed_run_network_def by (intro keeps_intros)

lemma since_networks:
  "keeps (mounts_since en w0) (open_poc_network en rid net labels body)"
  "keeps (mounts_since en w0) (ensure_managed_run_network en net rid pid role external labels)"
  unfolding open_poc_network_def ensure_managed_run_network_def by (auto intro!: keeps_intros since_managed)

lemma poc_calls_hardened:
  "calls_from (mounts_since en w0) (hardened 536870912 256 ''rw,noexec,nosuid,size=64m''
     (artifact_source en w0 (''/poc-runs/'' @ rid @ ''/''))) (run_poc_container en rid pid body)"
  (is "calls_from ?K ?P _")
proof -
  let ?src = "artifact_source en w0 (''/poc-runs/'' @ rid @ ''/'')"
  have start: "calls ?P (sx_bind (sx_lift (container_payload en (poc_spec en rid pid i net labels mounts report body))) (\<lambda>payload.
      sx_do (docker (pull_image (oe_docker en) (pc_image body))) (with_locals l
        (sx_finally (poc_body en rid pid i name net dir payload labels report body) (poc_finally en rid name net own keep)))))"
    if "list_all (confined_mount ?src) (map PDict mounts)" for i net labels mounts report l name dir own keep
    by (intro sends_bind_lift sends_intros quiet_hardened.poc_body_calls)
      (use poc_payload_hardened [OF _ that] in \<open>auto simp: hardened_def\<close>)
  have mounts: "calls_from ?K ?P (sx_bind (sandbox_mounts en b ws (oe_artifact_root en @ ''/poc-runs/'' @ rid @ ''/'' @ i)) k)"
    if "i \<in> range (db_uuids (wo_db w0))" "\<And>ms. list_all (confined_mount ?src) (map PDict ms) \<Longrightarrow> calls ?P (k ms)" for b ws i k
    by (rule calls_from_bind [OF quiet_hardened.quiet_mounts gives_sandbox_mounts calls_from_calls [OF that(2)]])
      (use that(1) in \<open>auto simp: artifact_source_def\<close>)
  show ?thesis
    unfolding run_poc_container_def Let_def sx_do_def [of "open_poc_network en rid net labels body" for net labels]
    by (rule calls_from_step [OF quiet_hardened.quiet_admission since_admission],
        rule calls_from_bind [OF calls_new_uuid since_uuid],
        rule calls_from_step [OF sends_gets keeps_gets],
        rule calls_from_step [OF quiet_hardened.quiet_networks(4) since_networks(1)],
        rule mounts, assumption, rule start, assumption)
qed

lemma service_calls_hardened:
  "calls_from (mounts_since en w0) (hardened 805306368 512 ''rw,nosuid,size=128m''
     (artifact_source en w0 (''/sandbox-services/'' @ rid @ ''/''))) (start_sandbox_service en rid pid ws req external)"
  (is "calls_from ?K ?P _")
proof -
  let ?src = "artifact_source en w0 (''/sandbox-services/'' @ rid @ ''/'')"
  have start: "calls ?P (sx_bind (sx_lift (container_payload en (service_spec en rid pid i net labels mounts report req))) (\<lambda>payload.
      sx_do (docker (pull_image (oe_docker en) (sv_image req))) (with_locals PNone
        (sx_try (service_body en rid pid i name net dir payload labels report req)
          (service_failed en rid name net made keep)))))"
    if "list_all (confined_mount ?src) (map PDict mounts)" for i net labels mounts report name dir made keep
    by (intro sends_bind_lift sends_intros quiet_hardened.service_body_calls)
      (use service_payload_hardened [OF _ that] in \<open>auto simp: hardened_def\<close>)
  have mounts: "calls_from ?K ?P (sx_bind (sandbox_mounts en b ws (oe_artifact_root en @ ''/sandbox-services/'' @ rid @ ''/'' @ i)) k)"
    if "i \<in> range (db_uuids (wo_db w0))" "\<And>ms. list_all (confined_mount ?src) (map PDict ms) \<Longrightarrow> calls ?P (k ms)" for b ws i k
    by (rule calls_from_bind [OF quiet_hardened.quiet_mounts gives_sandbox_mounts calls_from_calls [OF that(2)]])
      (use that(1) in \<open>auto simp: artifact_source_def\<close>)
  show ?thesis
    unfolding start_sandbox_service_def Let_def case_prod_beta
    by (rule calls_from_step [OF quiet_hardened.quiet_admission since_admission],
        rule calls_from_bind [OF calls_new_uuid since_uuid],
        rule calls_from_step [OF sends_gets keeps_gets],
        rule calls_from_step [OF quiet_hardened.quiet_networks(2) since_networks(2)],
        rule mounts, assumption, rule start, assumption)
qed

definition new_requests :: "runtime_world \<Rightarrow> 'a rx \<Rightarrow> docker_request list" where
  "new_requests w m = drop (length (wo_requests w)) (wo_requests (snd (m w)))"

lemma new_requests_from:
  assumes "calls_from K P m" and "K w"
  shows "list_all P (new_requests w m)"
proof -
  have "grown_by (\<lambda>h. list_all P (drop (length (wo_requests w)) h)) P"
    unfolding grown_by_def by (auto simp: list_all_iff drop_Cons' split: if_splits)
  then show ?thesis using assms by (auto simp: calls_from_def new_requests_def)
qed

lemma mounts_since_start: "mounts_since en w w"
  by (simp add: mounts_since_def)

text \<open>C17. Whatever the daemon answers and however the call ends, every container that a proof of concept
  or a sandbox service asks for drops all capabilities, cannot gain privileges, has a read-only root
  file system, 512 MiB and 256 processes or 768 MiB and 512 processes, and no setting that undoes
  this. What it can write to are a scratch directory at \<open>/tmp\<close>, in memory and of bounded size, and
  one directory of the host: that of its own artifacts, under the run and an identifier that was
  drawn for the call, found through the gateway's mounts. The workspace is mounted for reading.\<close>

theorem sandbox_containers_hardened:
  "list_all (hardened 536870912 256 ''rw,noexec,nosuid,size=64m'' (artifact_source en w (''/poc-runs/'' @ rid @ ''/'')))
     (new_requests w (run_poc_container en rid pid body)) \<and>
   list_all (hardened 805306368 512 ''rw,nosuid,size=128m'' (artifact_source en w (''/sandbox-services/'' @ rid @ ''/'')))
     (new_requests w (start_sandbox_service en rid pid ws req external))"
  by (rule conjI [OF new_requests_from [OF poc_calls_hardened mounts_since_start]
        new_requests_from [OF service_calls_hardened mounts_since_start]])

section \<open>A proof of concept leaves no container behind\<close>

text \<open>The containers the daemon says it created, in answer to the requests from the \<open>n\<close>-th on.\<close>

definition created_by :: "docker_env \<Rightarrow> docker_request list \<Rightarrow> docker_request \<Rightarrow> string \<Rightarrow> bool" where
  "created_by dk h r cid =
     (creates_container r \<and>
      (\<exists>status content. dk_daemon dk h r = Some (status, content) \<and> status < 400 \<and>
         created_id (json_or_text dk content) = Inr cid))"

definition created_in :: "docker_env \<Rightarrow> nat \<Rightarrow> docker_request list \<Rightarrow> string set" where
  "created_in dk n h = {cid. \<exists>i. n \<le> i \<and> i < length h \<and> created_by dk (take i h) (h ! i) cid}"

definition removal :: "string \<Rightarrow> docker_request" where
  "removal cid =
     \<lparr>dq_method = ''DELETE'', dq_path = ''/containers/'' @ cid, dq_params = [(''force'', PInt 1), (''v'', PInt 1)],
      dq_body = PNone\<rparr>"

lemma created_in_add:
  "created_in dk n (h @ [r]) = created_in dk n h \<union> (if n \<le> length h then {cid. created_by dk h r cid} else {})"
proof -
  have old: "created_by dk (take i (h @ [r])) ((h @ [r]) ! i) cid \<longleftrightarrow> created_by dk (take i h) (h ! i) cid"
    if "i < length h" for i cid
    using that by (simp add: nth_append)
  have new: "created_by dk (take (length h) (h @ [r])) ((h @ [r]) ! length h) cid \<longleftrightarrow> created_by dk h r cid" for cid
    by simp
  show ?thesis unfolding created_in_def length_append_singleton less_Suc_eq using old new by (auto; blast)
qed

lemma created_in_empty: "created_in dk (length h) h = {}"
  by (simp add: created_in_def)

interpretation creates_nothing: quiet_requests "\<lambda>r. \<not> creates_container r"
  by unfold_locales simp

definition created_within :: "docker_env \<Rightarrow> nat \<Rightarrow> string set \<Rightarrow> docker_request list \<Rightarrow> bool" where
  "created_within dk n S h = (n \<le> length h \<and> created_in dk n h \<subseteq> S)"

lemma created_within_grows: "grown_by (created_within dk n S) (\<lambda>r. \<not> creates_container r)"
  by (auto simp: grown_by_def created_within_def created_in_add created_by_def)

lemma keeps_in_world:
  "calls P m \<Longrightarrow> grown_by H P \<Longrightarrow> keeps (\<lambda>s. H (wo_requests (fst s)) \<and> L (snd s)) (in_world m)"
  unfolding sends_def keeps_def in_world_def by (auto split: prod.splits) (metis snd_conv)

lemma keeps_assign:
  "(\<And>l. L l \<Longrightarrow> L (g l)) \<Longrightarrow> keeps (\<lambda>s. H (wo_requests (fst s)) \<and> L (snd s)) (assign g)"
  unfolding assign_def by (rule keeps_modify) (auto split: prod.splits)

lemma create_container_creates:
  assumes "create_container dk name payload h = (out, h')" and "created_within dk n {} h"
  shows "created_within dk n {cid. \<exists>v. out = Inr v \<and> created_id v = Inr cid} h'"
  using assms
  by (auto simp: create_container_def docker_call_def docker_send_def sx_simps created_within_def created_in_add
      created_by_def split: option.splits if_splits)

lemma sx_bind_step: "m s = (Inr x, t) \<Longrightarrow> sx_bind m k s = k x t"
  by (simp add: sx_bind_def)

lemma do_assign: "sx_do (assign g) m (w, l) = m (w, g l)"
  by (simp add: sx_do_def sx_bind_def assign_def sx_modify_def)

lemma poc_body_created:
  assumes "created_within (oe_docker en) n {} (wo_requests w)"
    and "poc_body en rid pid poc_id name net dir payload labels report body (w, l) = (out, (w', l'))"
  shows "created_within (oe_docker en) n {cid. created_id (pl_created l') = Inr cid} (wo_requests w')"
proof -
  let ?create = "in_world (docker (create_container (oe_docker en) name payload))"
  obtain made w1 where c: "?create (w, l) = (made, (w1, l))"
    by (cases "create_container (oe_docker en) name payload (wo_requests w)") (auto simp: in_world_def docker_def)
  then have c1: "created_within (oe_docker en) n {cid. \<exists>v. made = Inr v \<and> created_id v = Inr cid} (wo_requests w1)"
    using create_container_creates [OF _ assms(1)] by (auto simp: in_world_def docker_def split: prod.splits)
  show ?thesis
  proof (cases made)
    case (Inl e)
    then have "w' = w1" "created_within (oe_docker en) n {} (wo_requests w1)"
      using assms(2) c c1 by (simp_all add: poc_body_def sx_bind_def)
    then show ?thesis by (auto simp: created_within_def)
  next
    case (Inr created)
    let ?S = "{cid. created_id created = Inr cid}"
    let ?K = "\<lambda>s. created_within (oe_docker en) n ?S (wo_requests (fst s)) \<and> pl_created (snd s) = created"
    note K_world = keeps_in_world [OF _ created_within_grows, where L = "\<lambda>l. pl_created l = created"]
    have rest: "keeps ?K (sx_bind (sx_lift (created_id created))
        (poc_running en rid pid poc_id name net dir labels report body))"
      unfolding poc_running_def
      by (intro keeps_intros K_world keeps_assign creates_nothing.quiet_logs creates_nothing.quiet_waiting
          creates_nothing.quiet_writing calls_docker calls_modify) simp_all
    have "?K (w1, l\<lparr>pl_created := created\<rparr>)" using c1 Inr by simp
    moreover have "sx_bind (sx_lift (created_id created)) (poc_running en rid pid poc_id name net dir labels report body)
        (w1, l\<lparr>pl_created := created\<rparr>) = (out, (w', l'))"
      using assms(2) unfolding poc_body_def sx_bind_step [where m = ?create and s = "(w, l)", OF c [unfolded Inr]] do_assign .
    ultimately have "?K (w', l')" using rest unfolding keeps_def by (metis snd_conv)
    then show ?thesis by simp
  qed
qed

lemma capture_ok:
  assumes "\<forall>path. oe_write en path = Inr ()"
  shows "\<exists>path v. capture_container_logs en rid cid name w = (Inr path, v)"
  using assms
  by (auto simp: capture_container_logs_def write_file_def sx_simps Let_def split: prod.splits)

definition removed_since :: "nat \<Rightarrow> string \<Rightarrow> docker_request list \<Rightarrow> bool" where
  "removed_since n cid h = (n \<le> length h \<and> removal cid \<in> set (drop n h))"

lemma removed_since_grows: "grown_by (removed_since n cid) P"
  by (auto simp: grown_by_def removed_since_def)

lemma remove_and_mark_removes:
  assumes "n \<le> length (wo_requests w)" and "remove_and_mark en cid code saved w = (out, w')"
  shows "removed_since n cid (wo_requests w')"
proof -
  obtain o' h' where r: "remove_container (oe_docker en) cid True (wo_requests w) = (o', h')" by fastforce
  then have "h' = wo_requests w @ [removal cid]"
    by (auto simp: remove_container_def on_api_error_def docker_call_def docker_send_def removal_def sx_simps
        split: prod.splits sum.splits option.splits if_splits pyexc.splits)
  moreover have "wo_requests w' = h'"
    using assms(2) r
    by (auto simp: remove_and_mark_def docker_def sx_simps mark_container_state_def split: prod.splits sum.splits)
  ultimately show ?thesis using assms(1) by (simp add: removed_since_def)
qed

lemma length_grows: "grown_by (\<lambda>h. n \<le> length h) P"
  by (simp add: grown_by_def)

lemma suppressed_snd: "snd (suppressed m w) = snd (m w)"
  by (simp add: suppressed_def sx_simps split: prod.splits sum.splits)

lemma remove_poc_container_removes:
  assumes "\<forall>path. oe_write en path = Inr ()" and "created_id (pl_created l) = Inr cid" and "n \<le> length (wo_requests w)"
  shows "removed_since n cid (wo_requests (snd (remove_poc_container en rid name l w)))"
proof (cases "pl_log l")
  case None
  obtain path v where c: "capture_container_logs en rid cid (Some name) w = (Inr path, v)"
    using capture_ok [OF assms(1)] by blast
  have "n \<le> length (wo_requests v)"
    using sendsD [OF creates_nothing.quiet_logs(3) length_grows, of n en rid cid "Some name"] assms(3) c
    by (force simp: keeps_def)
  then show ?thesis
    using remove_and_mark_removes [of n v en cid "pl_exit l" "Some path"] None assms(2) c
    by (cases "remove_and_mark en cid (pl_exit l) (Some path) v")
      (simp add: remove_poc_container_def sx_bind_def sx_lift_def)
next
  case (Some path)
  then show ?thesis
    using remove_and_mark_removes [of n w en cid "pl_exit l" "Some path"] assms(2,3)
    by (cases "remove_and_mark en cid (pl_exit l) (Some path) w")
      (simp add: remove_poc_container_def sx_bind_def sx_lift_def sx_ret_def)
qed

lemma created_id_truthy: "created_id v = Inr cid \<Longrightarrow> truthy v"
  by (auto simp: created_id_def dindex_def split: pyval.splits option.splits)

lemma poc_finally_removes:
  assumes "\<forall>path. oe_write en path = Inr ()" and "created_id (pl_created l) = Inr cid" and "n \<le> length (wo_requests w)"
    and f: "poc_finally en rid name net dedicated False (w, l) = (out, (w', l'))"
  shows "removed_since n cid (wo_requests w')"
proof -
  let ?m = "suppressed (remove_poc_container en rid name l)"
  obtain u w1 where m: "?m w = (u, w1)" by fastforce
  then have w1: "removed_since n cid (wo_requests w1)"
    using remove_poc_container_removes [OF assms(1-3), of rid name] suppressed_snd [of "remove_poc_container en rid name l" w]
    by simp
  have "wo_requests w' = wo_requests w1 \<or> (\<exists>v. drop_network en rid net w1 = (v, w'))"
    using f m created_id_truthy [OF assms(2)]
    by (auto simp: poc_finally_def sx_do_def sx_bind_def sx_gets_def sx_ret_def in_world_def
        split: prod.splits sum.splits if_splits)
  then show ?thesis
    using w1 sendsD [OF creates_nothing.quiet_networks(3) removed_since_grows, of n cid en rid net]
    by (force simp: keeps_def)
qed

abbreviation quiet_since :: "docker_env \<Rightarrow> nat \<Rightarrow> runtime_world \<Rightarrow> bool" where
  "quiet_since dk n w \<equiv> created_within dk n {} (wo_requests w)"

definition all_removed :: "docker_env \<Rightarrow> nat \<Rightarrow> runtime_world \<Rightarrow> bool" where
  "all_removed dk n w = (\<forall>cid \<in> created_in dk n (wo_requests w). removed_since n cid (wo_requests w))"

lemma wp_quiet_bind:
  assumes "calls (\<lambda>r. \<not> creates_container r) m" and "quiet_since dk n s"
    and "\<And>x t. quiet_since dk n t \<Longrightarrow> sx_wp (k x) (\<lambda>_. all_removed dk n) (\<lambda>_. all_removed dk n) t"
  shows "sx_wp (sx_bind m k) (\<lambda>_. all_removed dk n) (\<lambda>_. all_removed dk n) s"
  unfolding sx_wp_bind
  by (rule keeps_wpI [OF sendsD [OF assms(1) created_within_grows [of dk n "{}"]] assms(2)])
    (use assms(3) in \<open>auto simp: all_removed_def created_within_def\<close>)

lemma poc_end_removes:
  assumes files: "\<forall>path. oe_write en path = Inr ()" and q: "quiet_since (oe_docker en) n w"
  shows "sx_wp (with_locals l0 (sx_finally (poc_body en rid pid poc_id name net dir payload labels report body)
      (poc_finally en rid name net dedicated False))) (\<lambda>_. all_removed (oe_docker en) n) (\<lambda>_. all_removed (oe_docker en) n) w"
proof -
  obtain o1 w1 l1 where b: "poc_body en rid pid poc_id name net dir payload labels report body (w, l0) = (o1, (w1, l1))"
    by (metis prod_cases3)
  let ?S = "{cid. created_id (pl_created l1) = Inr cid}"
  obtain o2 w2 l2 where f: "poc_finally en rid name net dedicated False (w1, l1) = (o2, (w2, l2))"
    by (metis prod_cases3)
  have s1: "created_within (oe_docker en) n ?S (wo_requests w1)" by (rule poc_body_created [OF q b])
  let ?K = "\<lambda>s. created_within (oe_docker en) n ?S (wo_requests (fst s))"
  have "keeps ?K (poc_finally en rid name net dedicated False)"
    by (rule sendsD [OF creates_nothing.quiet_poc_finally created_within_grows])
  then have "?K (snd (poc_finally en rid name net dedicated False (w1, l1)))"
    unfolding keeps_def using s1 by simp
  then have "created_within (oe_docker en) n ?S (wo_requests w2)" unfolding f by simp
  moreover have "removed_since n cid (wo_requests w2)" if "cid \<in> ?S" for cid
    using poc_finally_removes [OF files _ _ f] that s1 by (simp add: created_within_def)
  ultimately have "all_removed (oe_docker en) n w2" by (auto simp: all_removed_def created_within_def)
  then show ?thesis
    using b f by (simp add: sx_wp_def with_locals_def sx_finally_def sx_bind_def sx_attempt_def sx_do_def sx_lift_def
        split: sum.splits)
qed

lemma run_poc_removes:
  assumes "\<forall>path. oe_write en path = Inr ()" and "\<not> pc_retain body" and "quiet_since (oe_docker en) n w"
  shows "sx_wp (run_poc_container en rid pid body) (\<lambda>_. all_removed (oe_docker en) n) (\<lambda>_. all_removed (oe_docker en) n) w"
  unfolding run_poc_container_def Let_def sx_do_def
  by (intro wp_quiet_bind creates_nothing.quiet_admission creates_nothing.quiet_networks creates_nothing.quiet_mounts
      calls_new_uuid sends_gets sends_lift calls_docker creates_nothing.quiet_writing assms(3))
    (use poc_end_removes [OF assms(1)] assms(2) in simp_all)

text \<open>C18. However a proof of concept ends, and whatever the daemon answers, the removal of every container
  it created has been asked for when it was not to be kept and the logs could be written.\<close>

theorem poc_container_removed:
  assumes "\<not> pc_retain body" and "\<forall>path. oe_write en path = Inr ()"
  shows "removal ` created_in (oe_docker en) (length (wo_requests w)) (wo_requests (snd (run_poc_container en rid pid body w)))
    \<subseteq> set (new_requests w (run_poc_container en rid pid body))"
proof -
  have "all_removed (oe_docker en) (length (wo_requests w)) (snd (run_poc_container en rid pid body w))"
    using run_poc_removes [OF assms(2,1), of "length (wo_requests w)" w rid pid]
    by (auto simp: created_within_def created_in_empty sx_wp_def split: sum.splits prod.splits)
  then show ?thesis by (auto simp: all_removed_def removed_since_def new_requests_def)
qed

definition small_poc :: poc_request where
  "small_poc =
     \<lparr>pc_image = ''i'', pc_command = [''x''], pc_env = [], pc_workspace = None, pc_external = False, pc_retain = False,
      pc_mount_workspace = False, pc_network = None, pc_target_url = None, pc_weak = False\<rparr>"

theorem poc_container_removed_witness:
  "removal ` created_in (oe_docker quiet_env) 0 (wo_requests (snd (run_poc_container quiet_env ''r'' ''p'' small_poc idle_world)))
    \<subseteq> set (new_requests idle_world (run_poc_container quiet_env ''r'' ''p'' small_poc))"
  using poc_container_removed [of small_poc quiet_env idle_world "''r''" "''p''"]
  by (simp add: small_poc_def quiet_env_def idle_world_def)

section \<open>Who may run a sandbox\<close>

lemma report_runtime_requested: "report_runtime en (sandbox_report en ping info) = requested_sandbox_runtime en"
  by (simp add: report_runtime_def sandbox_report_def Let_def dget_def por_def requested_sandbox_runtime_def)

lemma admitted_iff:
  "(\<exists>r. admitted_report en weak (sandbox_report en ping info) = Inr r) \<longleftrightarrow>
   requested_available en info \<and>
   (ping = PStr ''OK'' \<and> (requested_sandbox_runtime en \<noteq> ''runc'' \<or> oe_allow_runc en) \<or>
    requested_sandbox_runtime en = ''runc'' \<and> weak)"
  unfolding admitted_report_def report_runtime_requested
  by (auto simp: sandbox_report_def Let_def dget_def sandbox_available_def strong_isolation_def docker_isolation_def)

lemma unreachable_refused: "\<exists>e. admitted_report en weak (unreachable_report en reason) = Inl e"
  by (auto simp: admitted_report_def unreachable_report_def dget_def)

text \<open>C25. A sandbox may run exactly when docker offers the runtime that is configured and either this
  runtime is not runc, or the platform allows runc, or the caller's own request does; with the
  last, a daemon that answers is enough. A daemon that cannot be reached admits none.\<close>

theorem sandbox_admission:
  assumes "docker_ping (oe_docker en) (wo_requests w) = (ping, h1)"
    and "\<And>p. ping = Inr p \<Longrightarrow> docker_info (oe_docker en) h1 = (Inr (PDict info), h2)"
  shows "(\<exists>report. fst (require_sandbox_execution en weak w) = Inr report) \<longleftrightarrow>
    (\<exists>p runtime. ping = Inr p \<and> runtime = (if oe_enable_gvisor en then ''runsc'' else oe_default_sandbox_runtime en) \<and>
      (dmem (part info ''Runtimes'') runtime \<or>
       runtime = py_str (por (dget info ''DefaultRuntime'') (PStr (oe_default_sandbox_runtime en)))) \<and>
      (p = PStr ''OK'' \<and> (runtime \<noteq> ''runc'' \<or> oe_allow_runc en) \<or> runtime = ''runc'' \<and> weak))"
proof (cases ping)
  case (Inl e)
  then show ?thesis
    using assms unreachable_refused [of en weak "exc_str e"]
    by (auto simp: require_sandbox_execution_def sandbox_capabilities_def docker_def sx_simps)
next
  case (Inr p)
  then have "fst (require_sandbox_execution en weak w) = admitted_report en weak (sandbox_report en p info)"
    using assms by (simp add: require_sandbox_execution_def sandbox_capabilities_def docker_def sx_simps object_of_def)
  with Inr show ?thesis
    by (simp add: admitted_iff requested_available_def requested_sandbox_runtime_def docker_default_runtime_def)
qed


lemma quiet_probe:
  "docker_ping (oe_docker quiet_env) [] = (Inr (PStr ''OK''), [plain_request ''GET'' ''/_ping''])"
  "docker_info (oe_docker quiet_env) h = (Inr (PDict [(''DefaultRuntime'', PStr ''runc'')]), h @ [plain_request ''GET'' ''/info''])"
  by (simp_all add: docker_ping_def docker_info_def docker_call_def docker_send_def quiet_env_def quiet_daemon_def
      json_or_text_def quiet_loads_def sx_simps)

theorem sandbox_admission_witness:
  "\<exists>report. fst (require_sandbox_execution quiet_env False idle_world) = Inr report"
  by (subst sandbox_admission [of quiet_env idle_world "Inr (PStr ''OK'')" "[plain_request ''GET'' ''/_ping'']"
        "[(''DefaultRuntime'', PStr ''runc'')]" "[plain_request ''GET'' ''/_ping'', plain_request ''GET'' ''/info'']"])
    (simp_all add: quiet_probe idle_world_def, simp_all add: quiet_env_def requested_available_def
      requested_sandbox_runtime_def docker_default_runtime_def dget_def)

section \<open>Networks are not shared between runs\<close>

lemma stamped_network [simp]:
  "rn_name (stamped t old new) = rn_name new"
  "rn_status (stamped t old new) = rn_status new"
  by (simp_all add: stamped_def)

lemma recorded_network:
  "\<exists>r \<in> set (wo_networks (record_network rid name status w)). rn_name r = name \<and> rn_status r = status"
proof (cases "row_find rn_name name (wo_networks w)")
  case (Some r)
  then have "r \<in> set (wo_networks w)" "rn_name r = name" by (auto dest: row_find_Some)
  with Some show ?thesis
    by (auto simp: record_network_def row_upd_def
        intro!: bexI [of _ "stamped (wo_now w) r (r\<lparr>rn_status := status\<rparr>)"])
qed (simp add: record_network_def)

text \<open>A sandbox of a run gets a network that was there before only if it is managed, belongs to the same
  run and project, was made for the same purpose, and is cut off from the outside exactly when the
  caller may not reach it; otherwise the daemon had just said that there was none of that name. The
  network is on record.\<close>

lemma sandbox_network_own:
  assumes "ensure_managed_run_network en name rid pid role external labels w = (Inr (network, made), w')"
  shows "(if made then \<exists>v. fst (network_exists (oe_docker en) name (wo_requests w)) = Inr v \<and> \<not> truthy v
      else \<exists>d. network = PDict d \<and> dget (labels_of d) ''dieaudit.managed'' = PStr ''true'' \<and>
        dget (labels_of d) ''dieaudit.audit_run_id'' = PStr rid \<and> dget (labels_of d) ''dieaudit.project_id'' = PStr pid \<and>
        dget (labels_of d) ''dieaudit.role'' = PStr role \<and> truthy (dget d ''Internal'') = (\<not> external)) \<and>
    (\<exists>r \<in> set (wo_networks w'). rn_name r = name \<and> rn_status r = (if made then ''created'' else ''reused''))"
  using assms recorded_network
  by (auto simp: ensure_managed_run_network_def require_managed_run_network_def reusable_network_def managed_by_run_def
      Let_def docker_def sx_simps split: prod.splits sum.splits if_splits)

definition network_daemon :: daemon where
  "network_daemon h r = (if dq_path r = ''/networks/n'' then Some (200, ''n'') else None)"

definition network_loads :: "string \<Rightarrow> pyval option" where
  "network_loads c = Some (PDict
     [(''Internal'', PBool True), (''Labels'', PDict (labels_for ''r'' ''p'' ''sandbox'' ''t''))])"

definition network_env :: runtime_env where
  "network_env = quiet_env\<lparr>oe_docker := \<lparr>dk_daemon = network_daemon, dk_loads = network_loads, dk_decode = id\<rparr>\<rparr>"

lemma sandbox_network_own_witness:
  "\<exists>network w'. ensure_managed_run_network network_env ''n'' ''r'' ''p'' ''sandbox'' False [] idle_world = (Inr (network, False), w') \<and>
     (\<exists>r \<in> set (wo_networks w'). rn_name r = ''n'' \<and> rn_status r = ''reused'')"
proof -
  obtain network w' where
    "ensure_managed_run_network network_env ''n'' ''r'' ''p'' ''sandbox'' False [] idle_world = (Inr (network, False), w')"
    by (simp add: ensure_managed_run_network_def require_managed_run_network_def reusable_network_def managed_by_run_def
        Let_def docker_def network_exists_def docker_send_def response_json_def network_env_def network_daemon_def network_loads_def object_of_def
        labels_for_def part_def dget_def por_def sx_simps)
  with sandbox_network_own [OF this] show ?thesis by auto
qed

end
