(* ===== verification/Runtime_Cleanup_Contracts.thy ===== *)
theory Runtime_Cleanup_Contracts
  imports Runtime_Contracts
begin

text \<open>What is left of a run after its cleanup, and what a cleanup leaves alone.\<close>

section \<open>Calls that return\<close>

lemma sx_bind_Inr_iff: "sx_bind m f s = (Inr y, u) \<longleftrightarrow> (\<exists>x t. m s = (Inr x, t) \<and> f x t = (Inr y, u))"
  by (auto simp: sx_bind_def split: prod.splits sum.splits)

lemma sx_do_Inr_iff: "sx_do m k s = (Inr y, u) \<longleftrightarrow> (\<exists>x t. m s = (Inr x, t) \<and> k t = (Inr y, u))"
  by (simp add: sx_do_def sx_bind_Inr_iff)

lemma sx_ret_Inr_iff: "sx_ret x s = (Inr y, u) \<longleftrightarrow> y = x \<and> u = s"
  by (auto simp: sx_ret_def)

lemma sx_lift_Inr_iff: "sx_lift r s = (Inr y, u) \<longleftrightarrow> r = Inr y \<and> u = s"
  by (auto simp: sx_lift_def)

lemma sx_modify_Inr_iff: "sx_modify f s = (Inr y, u) \<longleftrightarrow> u = f s"
  by (auto simp: sx_modify_def)

lemmas returning = sx_bind_Inr_iff sx_do_Inr_iff sx_ret_Inr_iff sx_lift_Inr_iff sx_modify_Inr_iff

lemma keeps_step: "keeps P m \<Longrightarrow> m s = (r, t) \<Longrightarrow> P s \<Longrightarrow> P t"
  by (force simp: keeps_def)

lemma keeps_map: "(\<And>x. x \<in> set xs \<Longrightarrow> keeps P (f x)) \<Longrightarrow> keeps P (sx_map f xs)"
  by (induction xs) (auto intro: keeps_intros)

lemma keeps_iter: "(\<And>x. x \<in> set xs \<Longrightarrow> keeps P (f x)) \<Longrightarrow> keeps P (sx_iter f xs)"
  by (induction xs) (auto intro: keeps_intros)

text \<open>What each element's call brings about and the other calls keep holds of all at the end.\<close>

lemma sx_map_each:
  assumes "\<And>x y s t. f x s = (Inr y, t) \<Longrightarrow> I s \<Longrightarrow> I t \<and> Q x y t"
    and "\<And>x y z. keeps (Q x y) (f z)"
    and "sx_map f xs s = (Inr ys, t)" and "I s"
  shows "I t \<and> list_all2 (\<lambda>x y. Q x y t) xs ys"
  using assms(3,4)
proof (induction xs arbitrary: s ys)
  case Nil
  then show ?case by (simp add: sx_ret_def)
next
  case (Cons x xs)
  then obtain y s1 zs where f: "f x s = (Inr y, s1)" and r: "sx_map f xs s1 = (Inr zs, t)" and ys: "ys = y # zs"
    by (auto simp: returning)
  from assms(1) [OF f Cons.prems(2)] have q: "I s1" "Q x y s1" by auto
  have "Q x y t" by (rule keeps_step [OF keeps_map [OF assms(2)] r q(2)])
  with Cons.IH [OF r q(1)] ys show ?case by simp
qed

section \<open>Containers that are gone\<close>

interpretation any_request: quiet_requests "\<lambda>_. True"
  by unfold_locales simp

text \<open>The removal was asked for since the \<open>n\<close>-th request and the row says so.\<close>

definition gone :: "nat \<Rightarrow> string \<Rightarrow> runtime_world \<Rightarrow> bool" where
  "gone n cid w =
     (removed_since n cid (wo_requests w) \<and>
      (\<forall>row \<in> set (wo_containers w). cr_container_id row = cid \<longrightarrow> cr_status row = ''removed''))"

lemma stamped_container [simp]:
  "cr_status (stamped t r r') = cr_status r'" "cr_container_id (stamped t r r') = cr_container_id r'"
  by (simp_all add: stamped_def)

lemma with_container_state_simps [simp]:
  "cr_status (with_container_state status code saved r) = status"
  "cr_container_id (with_container_state status code saved r) = cr_container_id r"
  by (simp_all add: with_container_state_def)

lemma mark_removed_rows:
  "row \<in> set (wo_containers (mark_container_state cid ''removed'' code saved w)) \<Longrightarrow>
   cr_status row = ''removed'' \<or> cr_container_id row \<noteq> cid \<and> row \<in> set (wo_containers w)"
  by (auto simp: mark_container_state_def row_upd_def split: if_splits)

lemma gone_docker [keeps_intros]: "asks (\<lambda>_. True) m \<Longrightarrow> keeps (gone n cid) (docker m)"
  using sendsD [of "\<lambda>h. h" "\<lambda>_. True" m, OF _ removed_since_grows [of n cid]]
  by (auto simp: keeps_def docker_def gone_def split: prod.splits)

lemma gone_marked [keeps_intros]: "keeps (gone n cid) (sx_modify (mark_container_state c ''removed'' code saved))"
  by (rule keeps_modify)
    (auto simp: gone_def dest: mark_removed_rows, simp add: mark_container_state_def)

lemma gone_rows [keeps_intros]:
  "keeps (gone n cid) (sx_modify (\<lambda>w. w\<lparr>wo_files := files w\<rparr>))"
  "keeps (gone n cid) (sx_modify (mark_network_cleaned rid net))"
  "keeps (gone n cid) (sx_modify (mark_agent_runtimes_cleaned rid reason))"
  by (rule keeps_modify, simp add: gone_def mark_network_cleaned_def mark_agent_runtimes_cleaned_def)+

lemma gone_keys [keeps_intros]: "keeps (gone n cid) (deactivate_run_keys rid)"
  by (simp add: keeps_def deactivate_run_keys_def deactivate_mcp_api_keys_def gone_def)

lemma gone_calls [keeps_intros]:
  "keeps (gone n cid) (capture_and_remove_container en rid c name)"
  "keeps (gone n cid) (drop_network en rid net)"
  unfolding capture_and_remove_container_def container_exit_code_def capture_container_logs_def write_file_def
    remove_and_mark_def drop_network_def Let_def
  by (intro keeps_intros keeps_case_option sends_intros any_request.quiet_reading any_request.quiet_writing; simp)+

lemma gone_disconnect [keeps_intros]: "keeps (gone n cid) (disconnect_runtime_controllers en net)"
  unfolding disconnect_runtime_controllers_def
  by (intro keeps_iter keeps_intros any_request.quiet_writing)

lemma gone_cleanup [keeps_intros]:
  "keeps (gone n cid) (cleanup_container en rid c)" "keeps (gone n cid) (cleanup_network en rid net)"
  unfolding cleanup_container_def cleanup_network_def by (intro keeps_intros)+

lemma calls_length: "calls (\<lambda>_. True) m \<Longrightarrow> m w = (r, v) \<Longrightarrow> n \<le> length (wo_requests w) \<Longrightarrow> n \<le> length (wo_requests v)"
  by (rule keeps_step [OF sendsD [OF _ length_grows]])

lemma capture_and_remove_gone:
  assumes "capture_and_remove_container en rid cid name w = (Inr path, w')" and "n \<le> length (wo_requests w)"
  shows "gone n cid w'"
proof -
  obtain code w1 log_artifact w2 where c: "container_exit_code en cid w = (Inr code, w1)"
    "capture_container_logs en rid cid name w1 = (Inr log_artifact, w2)"
    and r: "remove_and_mark en cid code (Some log_artifact) w2 = (Inr (), w')"
    using assms(1) by (auto simp: capture_and_remove_container_def returning)
  have "n \<le> length (wo_requests w2)"
    using c assms(2) calls_length [OF any_request.quiet_logs(1)] calls_length [OF any_request.quiet_logs(3)] by blast
  from remove_and_mark_removes [OF this r] have "removed_since n cid (wo_requests w')" .
  moreover obtain v where "w' = mark_container_state cid ''removed'' code (Some log_artifact) v"
    using r by (auto simp: remove_and_mark_def returning)
  ultimately show ?thesis by (auto simp: gone_def dest: mark_removed_rows)
qed

lemma cleanup_container_gone:
  assumes "cleanup_container en rid c w = (Inr y, w')" and "n \<le> length (wo_requests w)"
  shows "n \<le> length (wo_requests w') \<and>
    (\<exists>cid. container_id c = Inr cid \<and> y = [(''id'', PStr cid), (''names'', names_of c)] \<and> gone n cid w')"
  using assms capture_and_remove_gone
  by (fastforce simp: cleanup_container_def returning gone_def removed_since_def)

section \<open>A run after its cleanup\<close>

lemma stamped_status [simp]:
  "ak_status (stamped t k k') = ak_status k'" "rt_status (stamped t r r') = rt_status r'"
  "rt_cleanup_status (stamped t r r') = rt_cleanup_status r'" "rt_audit_run_id (stamped t r r') = rt_audit_run_id r'"
  by (simp_all add: stamped_def)

lemma inactive_key: "ak_status k \<noteq> ''active'' \<Longrightarrow> \<not> sidecar_key_of rid k"
  by (simp add: sidecar_key_of_def)

lemma deactivated_keys:
  "deactivate_run_keys rid w = (Inr ids, v) \<Longrightarrow> \<forall>k \<in> set (wo_keys v). \<not> sidecar_key_of rid k"
  by (auto simp: deactivate_run_keys_def deactivate_mcp_api_keys_def inactive_key)

definition cleaned_runtime :: "string \<Rightarrow> agent_runtime \<Rightarrow> agent_runtime" where
  "cleaned_runtime reason r =
     r\<lparr>rt_status := ''cleaned'', rt_cleanup_status := ''cleaned'', rt_cleanup_reason := Some reason\<rparr>"

lemma cleaned_runtime_simps:
  "rt_status (cleaned_runtime reason r) = ''cleaned''" "rt_cleanup_status (cleaned_runtime reason r) = ''cleaned''"
  "rt_audit_run_id (cleaned_runtime reason r) = rt_audit_run_id r"
  by (simp_all add: cleaned_runtime_def)

lemma runtimes_cleaned:
  "\<forall>r \<in> set (wo_runtimes (mark_agent_runtimes_cleaned rid reason w)).
     rt_audit_run_id r = rid \<longrightarrow> rt_status r = ''cleaned'' \<and> rt_cleanup_status r = ''cleaned''"
proof -
  have "wo_runtimes (mark_agent_runtimes_cleaned rid reason w) = map (\<lambda>r. if rt_audit_run_id r = rid
      then stamped (wo_now w) r (cleaned_runtime reason r) else r) (wo_runtimes w)"
    by (simp add: mark_agent_runtimes_cleaned_def row_upd_def cleaned_runtime_def)
  then show ?thesis by (auto simp only: set_map stamped_status cleaned_runtime_simps split: if_splits)
qed

text \<open>What the first loop of a cleanup reports, and that the rest of it leaves the containers gone.\<close>

definition reported_gone :: "nat \<Rightarrow> dict \<Rightarrow> dict \<Rightarrow> runtime_world \<Rightarrow> bool" where
  "reported_gone n c y w = (\<exists>cid. container_id c = Inr cid \<and> y = [(''id'', PStr cid), (''names'', names_of c)] \<and> gone n cid w)"

lemma keeps_reported: "(\<And>cid. keeps (gone n cid) m) \<Longrightarrow> keeps (reported_gone n c y) m"
  by (auto simp: keeps_def reported_gone_def)

lemma cleanup_loop_gone:
  assumes "sx_map (cleanup_container en rid) listed w1 = (Inr removed, w2)" "n \<le> length (wo_requests w1)"
  shows "list_all2 (\<lambda>c y. reported_gone n c y w2) listed removed"
proof -
  have "n \<le> length (wo_requests w2) \<and> list_all2 (\<lambda>c y. reported_gone n c y w2) listed removed"
    by (rule sx_map_each [where I = "\<lambda>w. n \<le> length (wo_requests w)" and Q = "reported_gone n",
          OF cleanup_container_gone [folded reported_gone_def] _ assms])
      (assumption | rule keeps_reported gone_cleanup)+
  then show ?thesis ..
qed

lemma cleanup_rest_gone:
  assumes "docker_objects (list_networks_by_run (oe_docker en) rid) w2 = (Inr networks, w3)"
    and "sx_iter (cleanup_network en rid) (network_names en rid networks) w3 = (Inr (), w4)"
    and "deactivate_run_keys rid w4 = (Inr keys, w5)" and "reported_gone n c y w2"
  shows "reported_gone n c y (mark_agent_runtimes_cleaned rid reason w5)"
proof -
  obtain cid where cid: "container_id c = Inr cid" "y = [(''id'', PStr cid), (''names'', names_of c)]" "gone n cid w2"
    using assms(4) by (auto simp: reported_gone_def)
  have "keeps (gone n cid) (docker_objects (list_networks_by_run (oe_docker en) rid))"
    unfolding docker_objects_def by (intro keeps_intros any_request.quiet_reading)
  note g3 = keeps_step [OF this assms(1) cid(3)]
  have "keeps (gone n cid) (sx_iter (cleanup_network en rid) (network_names en rid networks))"
    by (rule keeps_iter) (rule gone_cleanup)
  from keeps_step [OF this assms(2) g3] have "gone n cid w4" .
  from keeps_step [OF gone_keys assms(3) this] have "gone n cid w5" .
  with cid show ?thesis by (auto simp: reported_gone_def gone_def mark_agent_runtimes_cleaned_def)
qed

text \<open>C19. When the cleanup of a run returns, each container the daemon listed for it is reported, was asked
  to be removed and is removed on record; no sidecar key of the run is active, and all its
  runtimes are cleaned.\<close>

theorem cleanup_run_complete:
  assumes "cleanup_run en rid w = (Inr result, w')"
    and "docker_objects (list_containers_by_run (oe_docker en) rid) w = (Inr listed, w1)"
  shows "list_all2 (\<lambda>c y. \<exists>cid. container_id c = Inr cid \<and> dget (dict_or_empty y) ''id'' = PStr cid \<and>
        removal cid \<in> set (new_requests w (cleanup_run en rid)) \<and>
        (\<forall>row \<in> set (wo_containers w'). cr_container_id row = cid \<longrightarrow> cr_status row = ''removed''))
      listed (list_or_empty (dget result ''removed_containers'')) \<and>
    (\<forall>k \<in> set (wo_keys w'). ak_status k = ''active'' \<longrightarrow> dget (ak_metadata k) ''kind'' = PStr ''mcp-sidecar'' \<longrightarrow>
       rid \<notin> py_str ` set (list_or_empty (por (dget (ak_metadata k) ''audit_run_ids'') (PList [])))) \<and>
    (\<forall>r \<in> set (wo_runtimes w'). rt_audit_run_id r = rid \<longrightarrow> rt_status r = ''cleaned'' \<and> rt_cleanup_status r = ''cleaned'')"
proof -
  let ?n = "length (wo_requests w)"
  obtain removed w2 networks w3 w4 keys w5 where
    m: "sx_map (cleanup_container en rid) listed w1 = (Inr removed, w2)" and
    o: "docker_objects (list_networks_by_run (oe_docker en) rid) w2 = (Inr networks, w3)" and
    i: "sx_iter (cleanup_network en rid) (network_names en rid networks) w3 = (Inr (), w4)" and
    k: "deactivate_run_keys rid w4 = (Inr keys, w5)" and
    w': "w' = mark_agent_runtimes_cleaned rid ''cleanup_run'' w5" and
    r: "dget result ''removed_containers'' = PList (map PDict removed)"
    using assms by (auto simp: cleanup_run_def returning dget_def)
  have "?n \<le> length (wo_requests w1)"
    using calls_length [of "docker_objects (list_containers_by_run (oe_docker en) rid)" w "Inr listed" w1 ?n] assms(2)
    by (auto intro: sends_intros any_request.quiet_reading)
  from cleanup_loop_gone [OF m this] have gone: "list_all2 (\<lambda>c y. reported_gone ?n c y w') listed removed"
    unfolding w' by (rule list_all2_mono) (rule cleanup_rest_gone [OF o i k])
  have req: "removal cid \<in> set (new_requests w (cleanup_run en rid))" if "gone ?n cid w'" for cid
    using that assms(1) by (simp add: gone_def removed_since_def new_requests_def)
  have "list_all2 (\<lambda>c y. \<exists>cid. container_id c = Inr cid \<and> dget (dict_or_empty y) ''id'' = PStr cid \<and>
        removal cid \<in> set (new_requests w (cleanup_run en rid)) \<and>
        (\<forall>row \<in> set (wo_containers w'). cr_container_id row = cid \<longrightarrow> cr_status row = ''removed''))
      listed (map PDict removed)"
    unfolding list_all2_map2 by (rule list_all2_mono [OF gone]) (auto simp: reported_gone_def dget_def req gone_def)
  moreover have "\<forall>k \<in> set (wo_keys w'). \<not> sidecar_key_of rid k"
    using deactivated_keys [OF k] unfolding w' by (simp add: mark_agent_runtimes_cleaned_def)
  ultimately show ?thesis using runtimes_cleaned [of rid _ w5] by (auto simp: r w' sidecar_key_of_def)
qed

text \<open>The helpers on a daemon that answers everything.\<close>

lemmas quiet_steps = docker_def docker_call_def docker_send_def json_or_text_def sx_simps
  quiet_env_def quiet_daemon_def quiet_loads_def starts_with_def

lemma quiet_containers:
  "\<exists>h. docker_objects (list_containers_by_run (oe_docker quiet_env) rid) w =
     (Inr [[(''Id'', PStr ''c1''), (''Labels'', PDict [(''dieaudit.agent_run_id'', PStr ''a-1'')])]], w\<lparr>wo_requests := h\<rparr>)"
  by (simp add: docker_objects_def list_containers_by_run_def list_containers_def objects_of_def object_of_def quiet_steps, blast)

lemma quiet_no_networks:
  "\<exists>h. docker_objects (list_networks_by_run (oe_docker quiet_env) rid) w = (Inr [], w\<lparr>wo_requests := h\<rparr>)"
  by (simp add: docker_objects_def list_networks_by_run_def list_networks_def objects_of_def object_of_def quiet_steps, blast)

lemma quiet_exit_code: "\<exists>h. container_exit_code quiet_env ''c1'' w = (Inr (Some 0), w\<lparr>wo_requests := h\<rparr>)"
  by (simp add: container_exit_code_def inspect_container_def object_of_def part_def dget_def por_def quiet_steps, blast)

lemma quiet_capture:
  "\<exists>h files path. capture_container_logs quiet_env rid ''c1'' name w = (Inr path, w\<lparr>wo_requests := h, wo_files := files\<rparr>)"
  by (simp add: capture_container_logs_def docker_logs_def write_file_def Let_def quiet_steps, blast)

lemma quiet_remove:
  "\<exists>h. remove_and_mark quiet_env ''c1'' code saved w =
     (Inr (), mark_container_state ''c1'' ''removed'' code saved (w\<lparr>wo_requests := h\<rparr>))"
  by (simp add: remove_and_mark_def remove_container_def on_api_error_def quiet_steps, blast)


lemma swallowed:
  "dk_daemon dk h r \<noteq> None \<Longrightarrow>
   \<exists>h'. on_api_error (sx_do (docker_call dk r) (sx_ret ())) (\<lambda>_. sx_ret ()) h = (Inr (), h')"
  by (auto simp: on_api_error_def docker_call_def docker_send_def http_error_def sx_simps)

lemma quiet_answers: "dk_daemon (oe_docker quiet_env) h r \<noteq> None"
  by (simp add: quiet_env_def quiet_daemon_def)

lemma quiet_swallowed:
  "\<exists>h. docker (on_api_error (sx_do (docker_call (oe_docker quiet_env) r) (sx_ret ())) (\<lambda>_. sx_ret ())) w =
     (Inr (), w\<lparr>wo_requests := h\<rparr>)"
  using swallowed [OF quiet_answers, of r "wo_requests w"] by (auto simp: docker_def)

lemma quiet_env_disconnect: "\<exists>h. docker (disconnect_network (oe_docker quiet_env) net c) w = (Inr (), w\<lparr>wo_requests := h\<rparr>)"
  unfolding disconnect_network_def by (rule quiet_swallowed)

lemma quiet_drop:
  "\<exists>h. drop_network quiet_env rid net w = (Inr (), mark_network_cleaned rid net (w\<lparr>wo_requests := h\<rparr>))"
proof -
  obtain h where "docker (remove_network (oe_docker quiet_env) net) w = (Inr (), w\<lparr>wo_requests := h\<rparr>)"
    unfolding remove_network_def using quiet_swallowed by blast
  then show ?thesis by (auto simp: drop_network_def sx_do_def sx_bind_def sx_modify_def)
qed

lemma quiet_env_disconnects:
  "\<exists>h. sx_iter (\<lambda>c. docker (disconnect_network (oe_docker quiet_env) net c)) cs w = (Inr (), w\<lparr>wo_requests := h\<rparr>)"
proof (induction cs arbitrary: w)
  case (Cons c cs)
  obtain h where "docker (disconnect_network (oe_docker quiet_env) net c) w = (Inr (), w\<lparr>wo_requests := h\<rparr>)"
    using quiet_env_disconnect by blast
  with Cons [of "w\<lparr>wo_requests := h\<rparr>"] show ?case by (simp add: sx_do_def sx_bind_def)
qed (simp add: sx_ret_def, metis runtime_world.surjective runtime_world.update_convs(8))

lemma quiet_cleanup:
  "\<exists>result w'. cleanup_run quiet_env rid w = (Inr result, w') \<and>
     list_or_empty (dget result ''removed_containers'') = [PDict [(''id'', PStr ''c1''), (''names'', PList [])]]"
proof -
  obtain h1 where 1: "docker_objects (list_containers_by_run (oe_docker quiet_env) rid) w =
      (Inr [[(''Id'', PStr ''c1''), (''Labels'', PDict [(''dieaudit.agent_run_id'', PStr ''a-1'')])]], w\<lparr>wo_requests := h1\<rparr>)"
    (is "_ = (Inr [?c], ?w1)") using quiet_containers by blast
  obtain h2 where 2: "container_exit_code quiet_env ''c1'' ?w1 = (Inr (Some 0), ?w1\<lparr>wo_requests := h2\<rparr>)" (is "_ = (_, ?w2)")
    using quiet_exit_code by blast
  obtain h3 files path where 3: "capture_container_logs quiet_env rid ''c1'' None ?w2 =
      (Inr path, ?w2\<lparr>wo_requests := h3, wo_files := files\<rparr>)" (is "_ = (_, ?w3)")
    using quiet_capture by blast
  obtain h4 where 4: "remove_and_mark quiet_env ''c1'' (Some 0) (Some path) ?w3 =
      (Inr (), mark_container_state ''c1'' ''removed'' (Some 0) (Some path) (?w3\<lparr>wo_requests := h4\<rparr>))" (is "_ = (_, ?w4)")
    using quiet_remove by blast
  have c: "cleanup_container quiet_env rid ?c ?w1 = (Inr [(''id'', PStr ''c1''), (''names'', PList [])], ?w4)"
    using 2 3 4 by (simp add: cleanup_container_def capture_and_remove_container_def container_id_def dindex_def
        first_name_def names_of_def dget_def dget_or_def sx_lift_def sx_bind_def sx_do_def sx_ret_def)
  obtain h5 where 5: "docker_objects (list_networks_by_run (oe_docker quiet_env) rid) ?w4 = (Inr [], ?w4\<lparr>wo_requests := h5\<rparr>)"
    (is "_ = (_, ?w5)") using quiet_no_networks by blast
  obtain h6 where 6: "disconnect_runtime_controllers quiet_env (run_network quiet_env rid) ?w5 = (Inr (), ?w5\<lparr>wo_requests := h6\<rparr>)"
    (is "_ = (_, ?w6)") unfolding disconnect_runtime_controllers_def using quiet_env_disconnects by blast
  obtain w7 where 7: "drop_network quiet_env rid (run_network quiet_env rid) ?w6 = (Inr (), w7)"
    using quiet_drop by blast
  obtain keys w8 where 8: "deactivate_run_keys rid w7 = (Inr keys, w8)"
    by (simp add: deactivate_run_keys_def deactivate_mcp_api_keys_def)
  show ?thesis
    using 1 c 5 6 7 8
    by (simp add: cleanup_run_def network_names_def cleanup_network_def sx_bind_def sx_do_def sx_ret_def sx_modify_def dget_def)
qed

definition finished_world :: runtime_world where
  "finished_world = idle_world\<lparr>
     wo_containers := [\<lparr>created_at = 0, updated_at = 0, cr_id = 0, cr_audit_run_id = ''r'', cr_project_id = ''p'',
       cr_agent_run_id = Some ''a-1'', cr_container_id = ''c1'', cr_container_name = None, cr_image = ''i'', cr_role = ''mcp'',
       cr_status = ''running'', cr_exit_code = None, cr_log_artifact = None, cr_labels = []\<rparr>],
     wo_keys := [\<lparr>created_at = 0, updated_at = 0, ak_key_id = ''k'', ak_name = ''k'', ak_key_hash = ''h'', ak_scopes = [''audit''],
       ak_status = ''active'', ak_last_used_at = None, ak_deactivated_at = None,
       ak_metadata = [(''kind'', PStr ''mcp-sidecar''), (''audit_run_ids'', PList [PStr ''r''])]\<rparr>]\<rparr>"

theorem cleanup_run_complete_witness:
  "\<exists>result w'. cleanup_run quiet_env ''r'' finished_world = (Inr result, w') \<and>
     sidecar_key_of ''r'' (hd (wo_keys finished_world)) \<and> list_all (\<lambda>k. \<not> sidecar_key_of ''r'' k) (wo_keys w') \<and>
     removal ''c1'' \<in> set (new_requests finished_world (cleanup_run quiet_env ''r'')) \<and>
     list_all (\<lambda>row. cr_status row = ''removed'') (filter (\<lambda>row. cr_container_id row = ''c1'') (wo_containers w'))"
proof -
  obtain result w' where r: "cleanup_run quiet_env ''r'' finished_world = (Inr result, w')"
    using quiet_cleanup by blast
  obtain h where l: "docker_objects (list_containers_by_run (oe_docker quiet_env) ''r'') finished_world =
      (Inr [[(''Id'', PStr ''c1''), (''Labels'', PDict [(''dieaudit.agent_run_id'', PStr ''a-1'')])]], finished_world\<lparr>wo_requests := h\<rparr>)"
    using quiet_containers by blast
  have key: "sidecar_key_of ''r'' (hd (wo_keys finished_world))"
    by (simp add: finished_world_def sidecar_key_of_def dget_def por_def)
  from cleanup_run_complete [OF r l] r key show ?thesis
    by (auto simp: list_all2_Cons1 container_id_def dindex_def list_all_iff sidecar_key_of_def)
qed

section \<open>Agents that are still at work\<close>

text \<open>The requests the cleanup of inactive agents may make.\<close>

definition spares_active :: "string list \<Rightarrow> string list \<Rightarrow> dict list \<Rightarrow> docker_request \<Rightarrow> bool" where
  "spares_active finished busy listed r =
     (reads_only r \<or>
      (\<exists>c \<in> set listed. r = removal (text_of (dget c ''Id'')) \<and> container_agent c \<noteq> [] \<and>
         container_agent c \<in> set finished \<and> container_agent c \<notin> set busy))"

lemma spares_reading: "reads_only r \<Longrightarrow> spares_active finished busy listed r"
  by (simp add: spares_active_def)

lemma remove_agent_container_spares:
  assumes "c \<in> set listed" and "skip_reason finished busy c = None"
  shows "calls (spares_active finished busy listed) (remove_agent_container en rid c)"
proof -
  have ok: "spares_active finished busy listed (removal (text_of (dget c ''Id'')))"
    using assms by (auto simp: spares_active_def skip_reason_def split: if_splits)
  have "asks (spares_active finished busy listed) (remove_container (oe_docker en) (text_of (dget c ''Id'')) True)"
    unfolding remove_container_def by (intro sends_intros) (use ok in \<open>simp add: removal_def\<close>)
  then show ?thesis
    unfolding remove_agent_container_def capture_and_remove_container_def container_exit_code_def
      capture_container_logs_def write_file_def remove_and_mark_def Let_def
    by (intro sends_intros asks_reading spares_reading)
qed

lemma inactive_cleanup_requests:
  assumes "docker_objects (list_containers_by_run (oe_docker en) rid) w = (Inr listed, w1)"
  shows "list_all (spares_active (agents_with done_statuses rid (wo_db w)) (agents_with busy_statuses rid (wo_db w)) listed)
    (new_requests w (cleanup_inactive_agent_runtime en rid))"
proof -
  let ?f = "agents_with done_statuses rid (wo_db w)" and ?b = "agents_with busy_statuses rid (wo_db w)"
  let ?P = "spares_active ?f ?b listed"
  let ?cs = "filter (\<lambda>c. skip_reason ?f ?b c = None) (filter (\<lambda>c. text_of (dget c ''Id'') \<noteq> []) listed)"
  show ?thesis
  proof (cases "?f = []")
    case True
    then show ?thesis
      by (simp add: new_requests_def cleanup_inactive_agent_runtime_def sx_bind_def sx_gets_def sx_ret_def)
  next
    case False
    have "calls ?P (sx_map (remove_agent_container en rid) ?cs)"
      by (intro sends_map remove_agent_container_spares) auto
    then have m: "grown_by H ?P \<Longrightarrow> H (wo_requests w1) \<Longrightarrow> H (wo_requests (snd (sx_map (remove_agent_container en rid) ?cs w1)))"
      for H using sendsD by (fastforce simp: keeps_def)
    have "asks ?P (list_containers_by_run (oe_docker en) rid)"
      by (intro asks_reading spares_reading)
    then have "calls ?P (docker_objects (list_containers_by_run (oe_docker en) rid))" by (intro sends_intros)
    then have l: "grown_by H ?P \<Longrightarrow> H (wo_requests w) \<Longrightarrow> H (wo_requests w1)" for H
      using sendsD assms by (fastforce simp: keeps_def)
    have "snd (cleanup_inactive_agent_runtime en rid w) = snd (sx_map (remove_agent_container en rid) ?cs w1)"
      using False assms
      by (simp add: cleanup_inactive_agent_runtime_def sx_bind_def sx_gets_def sx_ret_def Let_def split: prod.splits sum.splits)
    moreover have g: "grown_by (\<lambda>h. list_all ?P (drop (length (wo_requests w)) h)) ?P"
      unfolding grown_by_def by (auto simp: list_all_iff drop_Cons' split: if_splits)
    have "list_all ?P (drop (length (wo_requests w)) (wo_requests (snd (sx_map (remove_agent_container en rid) ?cs w1))))"
      by (rule m [OF g l [OF g]]) simp
    ultimately show ?thesis by (simp only: new_requests_def)
  qed
qed

lemma text_of_shown: "text_of v \<noteq> [] \<Longrightarrow> text_of v = py_str v"
  by (cases "truthy v") (auto simp: text_of_def)

lemma agents_with_iff:
  "i \<in> set (agents_with statuses rid d) \<longleftrightarrow>
   (\<exists>a \<in> set (agent_runs d). ag_agent_run_id a = i \<and> ag_audit_run_id a = rid \<and> ag_status a \<in> set statuses)"
  by (auto simp: agents_with_def)

text \<open>C20. The cleanup of inactive agents sends the daemon nothing but questions and the removal of
  containers that are listed for the run, whose label names an agent run of it that is completed, failed
  or cancelled, and none that is created, queued, starting or running.\<close>

theorem inactive_cleanup_spares_active:
  assumes "docker_objects (list_containers_by_run (oe_docker en) rid) w = (Inr listed, w1)"
    and "r \<in> set (new_requests w (cleanup_inactive_agent_runtime en rid))" and "\<not> reads_only r"
  shows "\<exists>c \<in> set listed. r = removal (text_of (dget c ''Id'')) \<and>
    (\<exists>a \<in> set (agent_runs (wo_db w)). ag_audit_run_id a = rid \<and>
       ag_agent_run_id a = py_str (dget (labels_of c) ''dieaudit.agent_run_id'') \<and>
       ag_status a \<in> {''completed'', ''failed'', ''cancelled''}) \<and>
    (\<forall>a \<in> set (agent_runs (wo_db w)). ag_audit_run_id a = rid \<longrightarrow>
       ag_agent_run_id a = py_str (dget (labels_of c) ''dieaudit.agent_run_id'') \<longrightarrow>
       ag_status a \<notin> {''created'', ''queued'', ''starting'', ''running''})"
proof -
  have "spares_active (agents_with done_statuses rid (wo_db w)) (agents_with busy_statuses rid (wo_db w)) listed r"
    using inactive_cleanup_requests [OF assms(1)] assms(2) by (simp add: list_all_iff)
  then obtain c where c: "c \<in> set listed" "r = removal (text_of (dget c ''Id''))" "container_agent c \<noteq> []"
    and agents: "container_agent c \<in> set (agents_with done_statuses rid (wo_db w))"
      "container_agent c \<notin> set (agents_with busy_statuses rid (wo_db w))"
    using assms(3) by (auto simp: spares_active_def)
  have "container_agent c = py_str (dget (labels_of c) ''dieaudit.agent_run_id'')"
    using c(3) unfolding container_agent_def by (rule text_of_shown)
  with c(1,2) agents show ?thesis
    unfolding agents_with_iff by (intro bexI [of _ c]) (auto simp: done_statuses_def busy_statuses_def)
qed

definition agents_world :: runtime_world where
  "agents_world = idle_world\<lparr>wo_db := empty_db\<lparr>agent_runs := [\<lparr>created_at = 0, updated_at = 0, ag_agent_run_id = ''a-1'',
       ag_audit_run_id = ''r'', ag_project_id = ''p'', ag_agent_name = ''a'', ag_template_name = ''a'', ag_protocol_kind = ''k'',
       ag_status = ''completed'', ag_input_summary = [], ag_output_summary = [], ag_artifact_path = None, ag_error = None,
       ag_runtime_id = None, ag_acp_session_id = None, ag_decision_status = None, ag_decision_reason = None\<rparr>]\<rparr>\<rparr>"

lemma quiet_removal: "\<exists>p w'. capture_and_remove_container quiet_env rid ''c1'' name w = (Inr p, w')"
proof -
  obtain h where 1: "container_exit_code quiet_env ''c1'' w = (Inr (Some 0), w\<lparr>wo_requests := h\<rparr>)" (is "_ = (_, ?w1)")
    using quiet_exit_code by blast
  obtain h' files p where 2: "capture_container_logs quiet_env rid ''c1'' name ?w1 =
      (Inr p, ?w1\<lparr>wo_requests := h', wo_files := files\<rparr>)" (is "_ = (_, ?w2)") using quiet_capture by blast
  obtain w' where "remove_and_mark quiet_env ''c1'' (Some 0) (Some p) ?w2 = (Inr (), w')" using quiet_remove by blast
  with 1 2 show ?thesis by (simp add: capture_and_remove_container_def sx_bind_def sx_do_def sx_ret_def)
qed

lemma quiet_inactive_removes:
  "removal ''c1'' \<in> set (new_requests agents_world (cleanup_inactive_agent_runtime quiet_env ''r''))"
proof -
  let ?c = "[(''Id'', PStr ''c1''), (''Labels'', PDict [(''dieaudit.agent_run_id'', PStr ''a-1'')])]"
  obtain h where listed: "docker_objects (list_containers_by_run (oe_docker quiet_env) ''r'') agents_world =
      (Inr [?c], agents_world\<lparr>wo_requests := h\<rparr>)" (is "_ = (_, ?w1)") using quiet_containers by blast
  obtain p w' where removed: "capture_and_remove_container quiet_env ''r'' ''c1'' None ?w1 = (Inr p, w')"
    using quiet_removal by blast
  have agents: "agents_with done_statuses ''r'' (wo_db agents_world) = [''a-1'']"
      "agents_with busy_statuses ''r'' (wo_db agents_world) = []"
    by (simp_all add: agents_with_def agents_world_def idle_world_def empty_db_def done_statuses_def busy_statuses_def)
  have label: "container_agent ?c = ''a-1''" "text_of (dget ?c ''Id'') = ''c1''" "text_of (PStr ''c1'') = ''c1''" "first_name ?c = None"
    by (simp_all add: container_agent_def text_of_def part_def dget_def por_def first_name_def)
  have "snd (cleanup_inactive_agent_runtime quiet_env ''r'' agents_world) = w'"
    by (simp add: cleanup_inactive_agent_runtime_def sx_bind_def sx_gets_def sx_ret_def listed agents skip_reason_def label
        remove_agent_container_def removed)
  moreover have "gone 0 ''c1'' w'" by (rule capture_and_remove_gone [OF removed]) simp
  ultimately show ?thesis by (simp add: new_requests_def gone_def removed_since_def agents_world_def idle_world_def)
qed

theorem inactive_cleanup_spares_active_witness:
  "removal ''c1'' \<in> set (new_requests agents_world (cleanup_inactive_agent_runtime quiet_env ''r'')) \<and>
   (\<exists>a \<in> set (agent_runs (wo_db agents_world)). ag_status a \<in> {''completed'', ''failed'', ''cancelled''})"
proof -
  obtain listed w1 where "docker_objects (list_containers_by_run (oe_docker quiet_env) ''r'') agents_world = (Inr listed, w1)"
    using quiet_containers by blast
  moreover have "\<not> reads_only (removal ''c1'')" by (simp add: reads_only_def removal_def)
  ultimately show ?thesis
    using inactive_cleanup_spares_active [OF _ quiet_inactive_removes] quiet_inactive_removes by blast
qed

section \<open>Runtimes after reconciliation\<close>

text \<open>What one cleanup does to the rows of the runtimes, and what nothing else does.\<close>

definition cleaned_for :: "string set \<Rightarrow> agent_runtime \<Rightarrow> string" where
  "cleaned_for rids r = (if rt_audit_run_id r \<in> rids then ''cleaned'' else rt_cleanup_status r)"

abbreviation runtimes_are :: "agent_runtime list \<Rightarrow> runtime_world \<Rightarrow> bool" where
  "runtimes_are rs w \<equiv> wo_runtimes w = rs"

lemma runtimes_docker [keeps_intros]: "keeps (runtimes_are rs) (docker m)"
  by (auto simp: keeps_def docker_def split: prod.splits)

lemma runtimes_rows [keeps_intros]:
  "keeps (runtimes_are rs) (sx_modify (\<lambda>w. w\<lparr>wo_files := files w\<rparr>))"
  "keeps (runtimes_are rs) (sx_modify (mark_network_cleaned rid net))"
  "keeps (runtimes_are rs) (sx_modify (mark_container_state cid status code saved))"
  "keeps (runtimes_are rs) (deactivate_run_keys rid)"
  by (auto simp: keeps_def sx_modify_def mark_network_cleaned_def mark_container_state_def deactivate_run_keys_def
      deactivate_mcp_api_keys_def)

lemma runtimes_calls [keeps_intros]:
  "keeps (runtimes_are rs) (cleanup_container en rid c)" "keeps (runtimes_are rs) (docker_objects m)"
  "keeps (runtimes_are rs) (sx_iter (cleanup_network en rid) nets)"
  unfolding cleanup_container_def capture_and_remove_container_def container_exit_code_def capture_container_logs_def
    write_file_def remove_and_mark_def docker_objects_def Let_def cleanup_network_def drop_network_def
    disconnect_runtime_controllers_def
  by (intro keeps_intros keeps_iter keeps_case_option; simp)+

lemma cleanup_run_runtimes:
  assumes "cleanup_run en rid w = (Inr result, w')"
  shows "map rt_cleanup_status (wo_runtimes w') = map (cleaned_for {rid}) (wo_runtimes w) \<and>
    map rt_audit_run_id (wo_runtimes w') = map rt_audit_run_id (wo_runtimes w)"
proof -
  obtain listed w1 removed w2 networks w3 w4 keys w5 where
    s: "docker_objects (list_containers_by_run (oe_docker en) rid) w = (Inr listed, w1)"
      "sx_map (cleanup_container en rid) listed w1 = (Inr removed, w2)"
      "docker_objects (list_networks_by_run (oe_docker en) rid) w2 = (Inr networks, w3)"
      "sx_iter (cleanup_network en rid) (network_names en rid networks) w3 = (Inr (), w4)"
      "deactivate_run_keys rid w4 = (Inr keys, w5)"
    and w': "w' = mark_agent_runtimes_cleaned rid ''cleanup_run'' w5"
    using assms by (auto simp: cleanup_run_def returning)
  have w1: "runtimes_are (wo_runtimes w) w1" by (rule keeps_step [OF runtimes_calls(2) s(1) refl])
  have m: "keeps (runtimes_are (wo_runtimes w)) (sx_map (cleanup_container en rid) listed)"
    by (rule keeps_map) (rule runtimes_calls)
  note w2 = keeps_step [OF m s(2) w1]
  note w3 = keeps_step [OF runtimes_calls(2) s(3) w2]
  note w4 = keeps_step [OF runtimes_calls(3) s(4) w3]
  note w5 = keeps_step [OF runtimes_rows(4) s(5) w4]
  have "wo_runtimes w' = map (\<lambda>r. if rt_audit_run_id r = rid then stamped (wo_now w5) r (cleaned_runtime ''cleanup_run'' r) else r)
      (wo_runtimes w)"
    by (simp add: w' w5 mark_agent_runtimes_cleaned_def row_upd_def cleaned_runtime_def)
  then show ?thesis by (simp add: cleaned_for_def cleaned_runtime_simps)
qed

lemma cleaned_for_map2:
  "map (cleaned_for S) rs = map2 (\<lambda>i s. if i \<in> S then ''cleaned'' else s) (map rt_audit_run_id rs) (map rt_cleanup_status rs)"
  by (induction rs) (auto simp: cleaned_for_def)

lemma reconcile_runtime_cleans:
  "reconcile_runtime en x w = (Inr y, w') \<Longrightarrow> \<exists>result. cleanup_run en (rt_audit_run_id (fst x)) w = (Inr result, w')"
  by (cases x) (auto simp: reconcile_runtime_def returning)

lemma reconcile_runtimes:
  assumes "sx_map (reconcile_runtime en) xs w = (Inr ys, w')"
  shows "map rt_cleanup_status (wo_runtimes w') = map (cleaned_for (rt_audit_run_id ` fst ` set xs)) (wo_runtimes w)"
  using assms
proof (induction xs arbitrary: w ys)
  case Nil
  then show ?case by (simp add: sx_ret_def cleaned_for_def)
next
  case (Cons x xs)
  obtain r where r: "fst x = r" by simp
  obtain y w1 zs where y: "reconcile_runtime en x w = (Inr y, w1)"
    and m: "sx_map (reconcile_runtime en) xs w1 = (Inr zs, w')"
    using Cons.prems by (auto simp: returning)
  obtain result where c: "cleanup_run en (rt_audit_run_id r) w = (Inr result, w1)"
    using reconcile_runtime_cleans [OF y] r by blast
  let ?S = "rt_audit_run_id ` fst ` set xs"
  from Cons.IH [OF m] have "map rt_cleanup_status (wo_runtimes w') = map (cleaned_for ?S) (wo_runtimes w1)" .
  also have "\<dots> = map2 (\<lambda>i s. if i \<in> ?S then ''cleaned'' else s) (map rt_audit_run_id (wo_runtimes w))
      (map (cleaned_for {rt_audit_run_id r}) (wo_runtimes w))"
    unfolding cleaned_for_map2 [of ?S] using cleanup_run_runtimes [OF c] by simp
  also have "\<dots> = map (cleaned_for (insert (rt_audit_run_id r) ?S)) (wo_runtimes w)"
    by (simp add: zip_map_map zip_same_conv_map cleaned_for_def)
  finally show ?case by (simp add: r)
qed

text \<open>Which runtimes are due, in terms of the rows.\<close>

lemma due_iff:
  "cleanup_reason now d x \<noteq> None \<longleftrightarrow>
   (\<exists>t. rt_ttl_expires_at x = Some t \<and> t < now) \<or>
   (case row_find ar_audit_run_id (rt_audit_run_id x) (audit_runs d) of
      None \<Rightarrow> True
    | Some run \<Rightarrow> ar_status run \<in> {''completed'', ''failed'', ''cancelled''} \<and> \<not> ar_retain_runtime_on_failure run)"
  by (auto simp: cleanup_reason_def runtime_expired_def run_is_over_def done_statuses_def split: option.splits)

lemma due_runs:
  "rid \<in> rt_audit_run_id ` fst ` set (due_runtimes w) \<longleftrightarrow>
   (\<exists>x \<in> set (wo_runtimes w). rt_audit_run_id x = rid \<and> rt_cleanup_status x \<noteq> ''cleaned'' \<and>
      cleanup_reason (wo_now w) (wo_db w) x \<noteq> None)"
proof -
  have "fst ` set (due_runtimes w) = {x \<in> set (wo_runtimes w). rt_cleanup_status x \<noteq> ''cleaned'' \<and>
      cleanup_reason (wo_now w) (wo_db w) x \<noteq> None}"
    unfolding due_runtimes_def checked_runtimes_def by (force simp: map_filter_def image_iff)
  then show ?thesis by auto
qed

text \<open>C21. When reconciliation returns, the runtimes that were not clean are clean exactly if their run has
  such a runtime that outlived its time, or is gone, or is completed, failed or cancelled and was not to be
  retained; every other runtime is as it was.\<close>

theorem reconcile_exact:
  assumes "reconcile_run_runtimes en w = (Inr result, w')"
  shows "map rt_cleanup_status (wo_runtimes w') =
    map (\<lambda>r. if (\<exists>x \<in> set (wo_runtimes w). rt_audit_run_id x = rt_audit_run_id r \<and> rt_cleanup_status x \<noteq> ''cleaned'' \<and>
                   ((\<exists>t. rt_ttl_expires_at x = Some t \<and> t < wo_now w) \<or>
                    (case row_find ar_audit_run_id (rt_audit_run_id x) (audit_runs (wo_db w)) of
                       None \<Rightarrow> True
                     | Some run \<Rightarrow> ar_status run \<in> {''completed'', ''failed'', ''cancelled''} \<and>
                         \<not> ar_retain_runtime_on_failure run)))
             then ''cleaned'' else rt_cleanup_status r) (wo_runtimes w)"
proof -
  obtain ys where m: "sx_map (reconcile_runtime en) (due_runtimes w) w = (Inr ys, w')"
    using assms by (auto simp: reconcile_run_runtimes_def returning sx_gets_def)
  show ?thesis unfolding reconcile_runtimes [OF m] cleaned_for_def due_runs due_iff ..
qed

definition expired_world :: runtime_world where
  "expired_world = idle_world\<lparr>wo_runtimes :=
     [\<lparr>created_at = 0, updated_at = 0, rt_runtime_id = ''t'', rt_audit_run_id = ''r'', rt_project_id = ''p'',
       rt_status = ''running'', rt_runtime_kind = ''acp'', rt_runner_container_id = None, rt_runner_container_name = None,
       rt_network_name = None, rt_mcp_containers = [], rt_container_ids = [], rt_endpoint_url = None,
       rt_ttl_expires_at = Some (- 1), rt_cleanup_status = ''pending'', rt_cleanup_reason = None, rt_metadata = []\<rparr>]\<rparr>"

lemma expired_due: "\<exists>t. due_runtimes expired_world = [(t, ''expired'')] \<and> rt_audit_run_id t = ''r''"
  by (simp add: due_runtimes_def checked_runtimes_def expired_world_def idle_world_def empty_db_def cleanup_reason_def
      runtime_expired_def map_filter_simps)

theorem reconcile_exact_witness:
  "\<exists>result w'. reconcile_run_runtimes quiet_env expired_world = (Inr result, w') \<and>
     map rt_cleanup_status (wo_runtimes expired_world) = [''pending''] \<and>
     map rt_cleanup_status (wo_runtimes w') = [''cleaned'']"
proof -
  obtain t where d: "due_runtimes expired_world = [(t, ''expired'')]" "rt_audit_run_id t = ''r''"
    using expired_due by blast
  obtain u w' where c: "cleanup_run quiet_env ''r'' expired_world = (Inr u, w')" using quiet_cleanup by blast
  then obtain result where r: "reconcile_run_runtimes quiet_env expired_world = (Inr result, w')"
    by (simp add: reconcile_run_runtimes_def sx_bind_def sx_gets_def sx_ret_def reconcile_runtime_def d)
  from reconcile_exact [OF r] r show ?thesis
    by (auto simp: expired_world_def idle_world_def empty_db_def)
qed

end
