(* ===== verification/Runtime_Agents.thy ===== *)
theory Runtime_Agents
  imports Runtime_Cleanup
begin

text \<open>
  Agents and validators (\<open>services/platform/app/runtime/orchestrator.py\<close>): the rows of agent runs and
  agent runtimes, the start of an agent up to its first row, the reuse of a runtime, transcripts, the
  attempts to validate a finding, and the logs of a container that is gone. What
  \<open>start_agent_run\<close> and \<open>ensure_agent_runtime\<close> do after the parts modelled here (containers of agents and
  MCP servers, ACP sessions) is an argument.
\<close>

section \<open>Columns that the models do not have\<close>

text \<open>What reading an attribute a row has not, and passing a keyword its class has not, raise.\<close>

definition no_attribute :: "string \<Rightarrow> string \<Rightarrow> pyexc" where
  "no_attribute cls name = AttributeError (str_repr cls @ '' object has no attribute '' @ str_repr name)"

definition invalid_keyword :: "string \<Rightarrow> string \<Rightarrow> pyexc" where
  "invalid_keyword name cls = TypeError (str_repr name @ '' is an invalid keyword argument for '' @ cls)"

section \<open>The input of an agent\<close>

definition structure_part :: "runtime_env \<Rightarrow> string \<Rightarrow> dict" where
  "structure_part en rid =
     [(''path'', PStr ''/artifacts/common/STRUCTURE.md''),
      (''artifact_path'', PStr (oe_artifact_root en @ ''/common/'' @ rid @ ''/STRUCTURE.md'')),
      (''instruction'', PStr ''Read STRUCTURE.md before analysis and use it as shared architecture context.'')]"

definition codebase_memory_part :: dict where
  "codebase_memory_part =
     [(''mcp'', PStr ''codebase-memory-mcp''), (''repo_path'', PStr ''/workspace''),
      (''cache_dir'', PStr ''/artifacts/codebase-memory''),
      (''instruction'', PStr
         (''Use codebase-memory-mcp for code graph discovery. Call index_repository for /workspace when graph context '' @
          ''is needed or missing; use get_architecture before broad planning, then search_graph, trace_path, '' @
          ''query_graph, get_code_snippet, detect_changes, and search_code for focused analysis.''))]"

definition collaboration_part :: dict where
  "collaboration_part =
     [(''whiteboard_mcp'', PStr ''whiteboard-mcp''), (''codebase_memory_mcp'', PStr ''codebase-memory-mcp''),
      (''lifecycle'', PStr ''long-running-container''),
      (''instruction'', PStr
         (''Use whiteboard-mcp for cards, subscriptions, notifications, and help requests. '' @
          ''Use codebase-memory-mcp for architecture, entrypoint, source/sink, route, call-chain, and graph queries whenever available.''))]"

text \<open>\<open>audit_run.config_json\<close> is read of a row whose class has \<open>config\<close> only.\<close>

definition shared_agent_input_payload :: "runtime_env \<Rightarrow> string \<Rightarrow> dict \<Rightarrow> dict rx" where
  "shared_agent_input_payload en rid payload =
     sx_bind (sx_gets (\<lambda>w. row_find ar_audit_run_id rid (audit_runs (wo_db w)))) (\<lambda>run.
       case run of
         Some _ \<Rightarrow> sx_raise (no_attribute ''AuditRun'' ''config_json'')
       | None \<Rightarrow> sx_ret
           (dsetdefault (dsetdefault (dsetdefault payload ''structure'' (PDict (structure_part en rid)))
             ''codebase_memory'' (PDict codebase_memory_part)) ''agent_collaboration'' (PDict collaboration_part)))"

section \<open>Rows of runs, agents and runtimes\<close>

text \<open>The constructor is given \<open>pipeline_status\<close>, which the class does not have.\<close>

definition record_audit_run :: "string \<Rightarrow> unit rx" where
  "record_audit_run rid =
     sx_bind (sx_gets (\<lambda>w. row_find ar_audit_run_id rid (audit_runs (wo_db w)))) (\<lambda>existing.
       sx_raise (case existing of
           Some _ \<Rightarrow> no_attribute ''AuditRun'' ''config_json''
         | None \<Rightarrow> invalid_keyword ''pipeline_status'' ''AuditRun''))"

definition updated_agent_run :: "string \<Rightarrow> dict \<Rightarrow> string option \<Rightarrow> string option \<Rightarrow> agent_run \<Rightarrow> agent_run" where
  "updated_agent_run status output err path r =
     r\<lparr>ag_status := status, ag_output_summary := output, ag_error := err,
       ag_artifact_path := (if path \<in> {None, Some []} then ag_artifact_path r else path)\<rparr>"

text \<open>
  \<open>input_payload\<close> and \<open>output_payload\<close> are no columns: a row that exists is updated only when both
  arguments are truthy (the fall back reads the attribute), and a new row cannot be made.
\<close>

definition record_agent_run ::
  "string \<Rightarrow> string \<Rightarrow> dict option \<Rightarrow> dict option \<Rightarrow> string option \<Rightarrow> string option \<Rightarrow> unit rx" where
  "record_agent_run aid status input_summary output_summary err path =
     sx_bind (sx_gets (\<lambda>w. row_find ag_agent_run_id aid (agent_runs (wo_db w)))) (\<lambda>existing.
       case existing of
         None \<Rightarrow> sx_raise (invalid_keyword ''input_payload'' ''AgentRun'')
       | Some _ \<Rightarrow>
           if input_summary \<in> {None, Some []} then sx_raise (no_attribute ''AgentRun'' ''input_payload'')
           else case output_summary of
             None \<Rightarrow> sx_raise (no_attribute ''AgentRun'' ''output_payload'')
           | Some output \<Rightarrow>
               if output = [] then sx_raise (no_attribute ''AgentRun'' ''output_payload'')
               else sx_modify (\<lambda>w. w\<lparr>wo_db := (wo_db w)\<lparr>agent_runs :=
                 row_upd ag_agent_run_id aid (\<lambda>r. stamped (wo_now w) r (updated_agent_run status output err path r))
                   (agent_runs (wo_db w))\<rparr>\<rparr>))"

definition record_agent_event :: "string \<Rightarrow> string \<Rightarrow> dict \<Rightarrow> unit rx" where
  "record_agent_event aid event_type payload = sx_raise (invalid_keyword ''payload_json'' ''AgentRunEvent'')"

definition record_agent_run_runtime :: "string \<Rightarrow> string \<Rightarrow> string \<Rightarrow> runtime_world \<Rightarrow> runtime_world" where
  "record_agent_run_runtime aid runtime_id session_id w =
     (if runtime_id = [] \<and> session_id = [] then w
      else w\<lparr>wo_db := (wo_db w)\<lparr>agent_runs := row_upd ag_agent_run_id aid
        (\<lambda>r. stamped (wo_now w) r
           (r\<lparr>ag_runtime_id := (if runtime_id = [] then ag_runtime_id r else Some runtime_id),
              ag_acp_session_id := (if session_id = [] then ag_acp_session_id r else Some session_id)\<rparr>))
        (agent_runs (wo_db w))\<rparr>\<rparr>)"

text \<open>The newest runtime of a run that is starting or running and not cleaned.\<close>

definition active_agent_runtime :: "string \<Rightarrow> runtime_world \<Rightarrow> agent_runtime option" where
  "active_agent_runtime rid w =
     (case sort_key (\<lambda>r. - created_at r)
        (filter (\<lambda>r. rt_audit_run_id r = rid \<and> rt_status r \<in> {''starting'', ''running''} \<and> rt_cleanup_status r \<noteq> ''cleaned'')
           (wo_runtimes w)) of
        [] \<Rightarrow> None
      | r # _ \<Rightarrow> Some r)"

text \<open>The arguments of \<open>_record_agent_runtime\<close> besides the identifiers.\<close>

record runtime_update =
  ru_status :: string
  ru_kind :: "string option"
  ru_container_id :: "string option"
  ru_container_name :: "string option"
  ru_network :: "string option"
  ru_mcp_containers :: "dict list option"
  ru_container_ids :: "string list option"
  ru_endpoint :: "string option"
  ru_ttl :: "time option"
  ru_cleanup_status :: "string option"
  ru_cleanup_reason :: "string option"
  ru_metadata :: dict

definition status_update :: "string \<Rightarrow> runtime_update" where
  "status_update status =
     \<lparr>ru_status = status, ru_kind = None, ru_container_id = None, ru_container_name = None, ru_network = None,
      ru_mcp_containers = None, ru_container_ids = None, ru_endpoint = None, ru_ttl = None, ru_cleanup_status = None,
      ru_cleanup_reason = None, ru_metadata = []\<rparr>"

text \<open>\<open>new or old\<close>, and \<open>old if new is None else new\<close>.\<close>

definition or_stored :: "string option \<Rightarrow> string option \<Rightarrow> string option" where
  "or_stored new old = (if new \<in> {None, Some []} then old else new)"

definition unless_none :: "'a option \<Rightarrow> 'a \<Rightarrow> 'a" where
  "unless_none new old = (case new of None \<Rightarrow> old | Some x \<Rightarrow> x)"

definition updated_runtime :: "runtime_update \<Rightarrow> agent_runtime \<Rightarrow> agent_runtime" where
  "updated_runtime u r =
     r\<lparr>rt_status := ru_status u,
       rt_runtime_kind := unless_none (or_stored (ru_kind u) None) (rt_runtime_kind r),
       rt_runner_container_id := or_stored (ru_container_id u) (rt_runner_container_id r),
       rt_runner_container_name := or_stored (ru_container_name u) (rt_runner_container_name r),
       rt_network_name := or_stored (ru_network u) (rt_network_name r),
       rt_mcp_containers := unless_none (ru_mcp_containers u) (rt_mcp_containers r),
       rt_container_ids := unless_none (ru_container_ids u) (rt_container_ids r),
       rt_endpoint_url := or_stored (ru_endpoint u) (rt_endpoint_url r),
       rt_ttl_expires_at := (case ru_ttl u of None \<Rightarrow> rt_ttl_expires_at r | t \<Rightarrow> t),
       rt_cleanup_status := unless_none (or_stored (ru_cleanup_status u) None) (rt_cleanup_status r),
       rt_cleanup_reason := (case ru_cleanup_reason u of None \<Rightarrow> rt_cleanup_reason r | x \<Rightarrow> x),
       rt_metadata := dmerge (rt_metadata r) (ru_metadata u)\<rparr>"

definition new_runtime :: "time \<Rightarrow> string \<Rightarrow> string \<Rightarrow> string \<Rightarrow> runtime_update \<Rightarrow> agent_runtime" where
  "new_runtime now runtime_id rid pid u =
     \<lparr>created_at = now, updated_at = now, rt_runtime_id = runtime_id, rt_audit_run_id = rid, rt_project_id = pid,
      rt_status = ru_status u, rt_runtime_kind = unless_none (or_stored (ru_kind u) None) ''kimi-acp'',
      rt_runner_container_id = ru_container_id u, rt_runner_container_name = ru_container_name u,
      rt_network_name = ru_network u, rt_mcp_containers = unless_none (ru_mcp_containers u) [],
      rt_container_ids = unless_none (ru_container_ids u) [], rt_endpoint_url = ru_endpoint u, rt_ttl_expires_at = ru_ttl u,
      rt_cleanup_status = unless_none (or_stored (ru_cleanup_status u) None) ''pending'',
      rt_cleanup_reason = ru_cleanup_reason u, rt_metadata = ru_metadata u\<rparr>"

definition record_agent_runtime :: "string \<Rightarrow> string \<Rightarrow> string \<Rightarrow> runtime_update \<Rightarrow> runtime_world \<Rightarrow> runtime_world" where
  "record_agent_runtime runtime_id rid pid u w =
     (case row_find rt_runtime_id runtime_id (wo_runtimes w) of
        Some _ \<Rightarrow> w\<lparr>wo_runtimes := row_upd rt_runtime_id runtime_id
            (\<lambda>r. stamped (wo_now w) r (updated_runtime u r)) (wo_runtimes w)\<rparr>
      | None \<Rightarrow> w\<lparr>wo_runtimes := wo_runtimes w @ [new_runtime (wo_now w) runtime_id rid pid u]\<rparr>)"

section \<open>Starting an agent\<close>

definition protocol_of :: "dict \<Rightarrow> dict res" where
  "protocol_of template = object_of (dget_or template ''protocol'' (PDict []))"

definition acp_runtime_name :: "dict \<Rightarrow> string option res" where
  "acp_runtime_name template =
     rbind (protocol_of template) (\<lambda>protocol.
       Inr (if dget protocol ''kind'' \<noteq> PStr ''agent-client-protocol'' then None
            else Some (or_else (str_strip (text_of (dget protocol ''runtime''))) ''acp'')))"

definition open_agent_network :: "runtime_env \<Rightarrow> string \<Rightarrow> string \<Rightarrow> bool \<Rightarrow> unit rx" where
  "open_agent_network en rid pid external =
     sx_bind (sx_gets wo_now) (\<lambda>now.
     sx_do (ensure_agent_run_network en (run_network en rid) external (labels_for rid pid ''runtime'' (utc_ttl now 24)))
     (sx_do (connect_runtime_controllers en (run_network en rid))
       (sx_modify (record_network rid (run_network en rid) ''created''))))"

text \<open>
  \<open>templates\<close> is the store of agent templates; \<open>proceed\<close> is the method from its \<open>try\<close> on, given the
  agent run, the template and the payload.
\<close>

definition orchestrator_start_agent_run ::
  "runtime_env \<Rightarrow> (string \<Rightarrow> dict res) \<Rightarrow> (string \<Rightarrow> dict \<Rightarrow> dict \<Rightarrow> dict rx) \<Rightarrow>
   string \<Rightarrow> string \<Rightarrow> string \<Rightarrow> bool \<Rightarrow> dict \<Rightarrow> dict rx" where
  "orchestrator_start_agent_run en templates proceed rid pid agent_name external payload =
     sx_bind new_uuid (\<lambda>aid.
     sx_bind (shared_agent_input_payload en rid payload) (\<lambda>input.
     sx_do (open_agent_network en rid pid external)
     (sx_bind (sx_lift (templates agent_name)) (\<lambda>agent.
     sx_bind (sx_lift (protocol_of agent)) (\<lambda>protocol.
     sx_do (record_agent_run aid ''starting'' (Some input) None None None)
     (sx_do (record_agent_event aid ''agent_run_started''
        [(''audit_run_id'', PStr rid), (''project_id'', PStr pid), (''agent_name'', PStr agent_name),
         (''template_name'', dget_or agent ''name'' (PStr agent_name)),
         (''protocol_kind'', dget_or protocol ''kind'' (PStr ''legacy-http''))])
       (proceed aid agent input)))))))"

text \<open>\<open>build\<close> is the method from the point on where the row of a new runtime is stored.\<close>

definition reused_metadata :: "agent_runtime \<Rightarrow> dict" where
  "reused_metadata r = dset (rt_metadata r) ''reused'' (PBool True)"

definition new_runtime_metadata :: "string \<Rightarrow> dict \<Rightarrow> string option \<Rightarrow> bool \<Rightarrow> bool \<Rightarrow> dict" where
  "new_runtime_metadata agent_name agent workspace external retain =
     [(''agent_name'', PStr agent_name), (''template_name'', dget_or agent ''name'' (PStr agent_name)),
      (''workspace_host_path'', opt_str workspace), (''allow_external_network'', PBool external),
      (''retain_runtime_on_failure'', PBool retain), (''mode'', PStr ''run-scoped-runtime-record'')]"

definition ensure_agent_runtime ::
  "runtime_env \<Rightarrow> (string \<Rightarrow> dict res) \<Rightarrow> (string \<Rightarrow> dict \<Rightarrow> dict \<Rightarrow> dict rx) \<Rightarrow>
   string \<Rightarrow> string \<Rightarrow> string \<Rightarrow> string option \<Rightarrow> bool \<Rightarrow> bool \<Rightarrow> dict \<Rightarrow> dict rx" where
  "ensure_agent_runtime en templates build rid pid agent_name workspace external retain payload =
     sx_bind (shared_agent_input_payload en rid payload) (\<lambda>input.
     sx_bind (sx_lift (templates agent_name)) (\<lambda>agent.
     sx_do (open_agent_network en rid pid external)
     (sx_bind (sx_gets (active_agent_runtime rid)) (\<lambda>existing.
       case existing of
         Some r \<Rightarrow>
           sx_do (sx_modify (record_agent_runtime (rt_runtime_id r) rid pid
              ((status_update ''running'')\<lparr>ru_network := or_stored (rt_network_name r) (Some (run_network en rid)),
                ru_metadata := reused_metadata r\<rparr>)))
             (sx_ret (agent_runtime_to_dict r))
       | None \<Rightarrow>
           sx_bind new_uuid (\<lambda>runtime_id.
           sx_bind (sx_gets wo_now) (\<lambda>now.
           sx_bind (sx_lift (acp_runtime_name agent)) (\<lambda>acp.
           sx_do (sx_modify (record_agent_runtime runtime_id rid pid
              ((status_update ''starting'')\<lparr>ru_kind := or_stored acp (Some ''acp''), ru_network := Some (run_network en rid),
                ru_ttl := Some (now + seconds (3600 * 24)),
                ru_metadata := new_runtime_metadata agent_name agent workspace external retain\<rparr>)))
             (build runtime_id agent input))))))))"

section \<open>Transcripts\<close>

record transcript_input =
  ti_seq :: int
  ti_event_type :: string
  ti_session_id :: "string option"
  ti_runtime_id :: "string option"
  ti_payload :: dict
  ti_content_text :: "string option"

definition transcript_row :: "time \<Rightarrow> int \<Rightarrow> agent_run \<Rightarrow> string option \<Rightarrow> string option \<Rightarrow> transcript_input \<Rightarrow> agent_transcript_event" where
  "transcript_row now i agent runtime_id session_id item =
     \<lparr>created_at = now, updated_at = now, te_id = i, te_agent_run_id = ag_agent_run_id agent,
      te_audit_run_id = ag_audit_run_id agent,
      te_runtime_id = or_stored (or_stored (ti_runtime_id item) runtime_id) None, te_seq = ti_seq item,
      te_event_type = take 128 (or_else (ti_event_type item) ''event''),
      te_session_id = map_option (take 128) (or_stored (or_stored (ti_session_id item) session_id) None),
      te_payload = ti_payload item, te_content_text = ti_content_text item\<rparr>"

fun transcript_rows ::
  "time \<Rightarrow> int \<Rightarrow> agent_run \<Rightarrow> string option \<Rightarrow> string option \<Rightarrow> transcript_input list \<Rightarrow> agent_transcript_event list" where
  "transcript_rows now i agent runtime_id session_id [] = []"
| "transcript_rows now i agent runtime_id session_id (x # xs) =
     transcript_row now i agent runtime_id session_id x # transcript_rows now (i + 1) agent runtime_id session_id xs"

definition inserted_report :: "string \<Rightarrow> nat \<Rightarrow> dict" where
  "inserted_report aid n = [(''agent_run_id'', PStr aid), (''inserted'', PInt (int n))]"

text \<open>The state has the table of transcripts beside the world.\<close>

definition record_agent_transcript_events ::
  "string \<Rightarrow> string option \<Rightarrow> string option \<Rightarrow> transcript_input list \<Rightarrow>
   (runtime_world \<times> agent_transcript_event list, dict) sx" where
  "record_agent_transcript_events aid runtime_id session_id events =
     (if events = [] then sx_ret (inserted_report aid 0)
      else sx_bind (sx_gets (\<lambda>s. row_find ag_agent_run_id aid (agent_runs (wo_db (fst s))))) (\<lambda>found.
        case found of
          None \<Rightarrow> sx_raise (ValueError (''agent run not found: '' @ aid))
        | Some agent \<Rightarrow>
            sx_do (sx_modify (\<lambda>(w, rows).
               (record_agent_run_runtime aid (unless_none runtime_id []) (unless_none session_id [])
                  (w\<lparr>wo_row_id := wo_row_id w + int (length events)\<rparr>),
                rows @ transcript_rows (wo_now w) (wo_row_id w) agent runtime_id session_id events)))
              (sx_ret (inserted_report aid (length events)))))"

section \<open>Attempts to validate a finding\<close>

definition mark_findings_status :: "string list \<Rightarrow> string \<Rightarrow> runtime_world \<Rightarrow> runtime_world" where
  "mark_findings_status fids status w =
     w\<lparr>wo_db := (wo_db w)\<lparr>findings := map (\<lambda>f. if fi_finding_id f \<in> set fids
         then stamped (wo_now w) f (f\<lparr>fi_status := status\<rparr>) else f) (findings (wo_db w))\<rparr>\<rparr>"

record attempt =
  at_attempt_id :: string
  at_finding_id :: string
  at_audit_run_id :: string
  at_round :: int
  at_finding :: dict

definition record_validation_attempt :: "attempt \<Rightarrow> string \<Rightarrow> dict \<Rightarrow> string option \<Rightarrow> runtime_world \<Rightarrow> runtime_world" where
  "record_validation_attempt a status result agent_run_id w =
     (case row_find va_attempt_id (at_attempt_id a) (wo_attempts w) of
        Some _ \<Rightarrow> w\<lparr>wo_attempts := row_upd va_attempt_id (at_attempt_id a)
            (\<lambda>r. stamped (wo_now w) r (r\<lparr>va_status := status, va_result := result,
               va_agent_run_id := or_stored agent_run_id (va_agent_run_id r)\<rparr>)) (wo_attempts w)\<rparr>
      | None \<Rightarrow> w\<lparr>wo_attempts := wo_attempts w @
            [\<lparr>created_at = wo_now w, updated_at = wo_now w, va_attempt_id = at_attempt_id a,
              va_finding_id = at_finding_id a, va_audit_run_id = at_audit_run_id a, va_agent_run_id = agent_run_id,
              va_round_index = at_round a, va_status = status, va_result = result\<rparr>]\<rparr>)"

definition record_validation_evidence :: "attempt \<Rightarrow> string \<Rightarrow> string \<Rightarrow> dict \<Rightarrow> unit rx" where
  "record_validation_evidence a kind summary payload =
     sx_bind new_uuid (\<lambda>eid. sx_modify (\<lambda>w. w\<lparr>wo_db := (wo_db w)\<lparr>evidence_rows := evidence_rows (wo_db w) @
       [\<lparr>created_at = wo_now w, updated_at = wo_now w, ev_evidence_id = eid, ev_finding_id = at_finding_id a,
         ev_audit_run_id = at_audit_run_id a, ev_kind = kind, ev_summary = Some summary, ev_artifact_path = None,
         ev_payload = payload\<rparr>]\<rparr>\<rparr>))"

definition safe_stage :: "string \<Rightarrow> string" where
  "safe_stage stage =
     or_else (strip_by (\<lambda>c. c = CHR ''-'')
       (map (\<lambda>c. if is_alnum c \<or> c \<in> set ''-_'' then c else CHR ''-'') (str_lower (str_strip stage)))) ''stage''"

definition finding_artifact_contract :: "string \<Rightarrow> string \<Rightarrow> string \<Rightarrow> dict" where
  "finding_artifact_contract rid fid stage =
     [(''finding_directory'', PStr (''findings/'' @ rid @ ''/'' @ fid)),
      (''finding_markdown_path'', PStr ''/finding/finding.md''), (''finding_workspace_path'', PStr ''/finding''),
      (''agent_writable_report_path'', PStr (''/artifacts/'' @ safe_stage stage @ ''-report.md'')),
      (''agent_writable_json_path'', PStr (''/artifacts/'' @ safe_stage stage @ ''-result.json'')),
      (''instruction'', PStr ''Read and update /finding/finding.md. Use /finding for all Finding-specific notes and artifacts.'')]"

text \<open>What a validator of round \<open>n\<close> is given.\<close>

definition validator_payload :: "attempt \<Rightarrow> int \<Rightarrow> dict" where
  "validator_payload a rounds =
     [(''goal'', PStr ''Validate the supplied finding and produce evidence, confidence, and next steps.''),
      (''finding'', PDict (at_finding a)), (''round'', PInt (at_round a)), (''validator_rounds'', PInt rounds),
      (''finding_artifact_contract'', PDict (finding_artifact_contract (at_audit_run_id a) (at_finding_id a)
         (''validator-round-'' @ int_str (at_round a))))]"

text \<open>The two callbacks, which read the database; the second is asked when the first says yes.\<close>

type_synonym cancel_check = "((runtime_world \<Rightarrow> bool) \<times> (runtime_world \<Rightarrow> string option) option) option"

definition validator_cancel_state :: "cancel_check \<Rightarrow> runtime_world \<Rightarrow> string option" where
  "validator_cancel_state cancel w =
     (case cancel of
        None \<Rightarrow> None
      | Some (requested, reason) \<Rightarrow>
          if \<not> requested w then None
          else Some (unless_none (or_stored (case reason of None \<Rightarrow> None | Some f \<Rightarrow> f w) None) ''cancel_requested''))"

definition record_cancelled_validator_attempt :: "attempt \<Rightarrow> string \<Rightarrow> dict rx" where
  "record_cancelled_validator_attempt a reason =
     (let result = [(''finding'', PDict (at_finding a)), (''reason'', PStr reason), (''round'', PInt (at_round a))]
      in sx_do (sx_modify (record_validation_attempt a ''cancelled'' result None))
        (sx_do (record_validation_evidence a ''validator-cancelled''
           (''Validator round '' @ int_str (at_round a) @ '' was cancelled before starting an AgentRun.'') result)
           (sx_ret [(''status'', PStr ''cancelled''), (''finding_id'', PStr (at_finding_id a)), (''round'', PInt (at_round a)),
              (''reason'', PStr reason)])))"

definition failed_validator_attempt :: "attempt \<Rightarrow> pyexc \<Rightarrow> dict rx" where
  "failed_validator_attempt a e =
     sx_do (sx_modify (record_validation_attempt a ''failed''
       [(''finding'', PDict (at_finding a)), (''error'', PStr (exc_str e))] None))
     (sx_do (record_validation_evidence a ''validator-error''
        (''Validator round '' @ int_str (at_round a) @ '' failed: '' @ exc_str e)
        [(''round'', PInt (at_round a)), (''error'', PStr (exc_str e)), (''finding'', PDict (at_finding a))])
       (sx_raise e))"

definition completed_validator_attempt :: "attempt \<Rightarrow> dict \<Rightarrow> dict rx" where
  "completed_validator_attempt a result =
     (let aid = py_str (por (por (dget result ''agent_run_id'') (dget result ''run_id'')) (PStr []))
      in sx_do (sx_modify (record_validation_attempt a ''completed''
           [(''finding'', PDict (at_finding a)), (''agent_run'', PDict result)] (if aid = [] then None else Some aid)))
        (sx_do (record_validation_evidence a ''validator-agent-run''
           (''Validator round '' @ int_str (at_round a) @ '' completed with AgentRun '' @ or_else aid ''unknown'' @ ''.'')
           [(''round'', PInt (at_round a)), (''agent_run_id'', PStr aid), (''result'', PDict result)])
           (sx_ret [(''status'', PStr ''completed''), (''finding_id'', PStr (at_finding_id a)), (''round'', PInt (at_round a)),
              (''result'', PDict result)])))"

text \<open>\<open>start\<close> is \<open>start_agent_run\<close> with everything but the payload given.\<close>

definition run_validator_attempt_inner :: "(dict \<Rightarrow> dict rx) \<Rightarrow> cancel_check \<Rightarrow> int \<Rightarrow> attempt \<Rightarrow> dict rx" where
  "run_validator_attempt_inner start cancel rounds a =
     sx_bind (sx_gets (validator_cancel_state cancel)) (\<lambda>cancelled.
       case cancelled of
         Some reason \<Rightarrow> record_cancelled_validator_attempt a reason
       | None \<Rightarrow>
           sx_do (sx_modify (record_validation_attempt a ''running'' [(''finding'', PDict (at_finding a))] None))
           (sx_bind (sx_attempt (start (validator_payload a rounds))) (\<lambda>outcome.
              case outcome of
                Inl e \<Rightarrow> failed_validator_attempt a e
              | Inr result \<Rightarrow> completed_validator_attempt a result)))"

text \<open>\<open>finding.get("finding_id") or finding.get("id") or f"inline-{uuid.uuid4()}"\<close>.\<close>

definition finding_id_of :: "dict \<Rightarrow> string rx" where
  "finding_id_of finding =
     (let known = por (dget finding ''finding_id'') (dget finding ''id'')
      in if truthy known then sx_ret (py_str known)
         else sx_bind new_uuid (\<lambda>u. sx_ret (''inline-'' @ u)))"

text \<open>The semaphore only bounds how many attempts run at a time; one attempt is the same with it.\<close>

definition run_validator_attempt ::
  "(dict \<Rightarrow> dict rx) \<Rightarrow> cancel_check \<Rightarrow> string \<Rightarrow> dict \<Rightarrow> int \<Rightarrow> int \<Rightarrow> dict rx" where
  "run_validator_attempt start cancel rid finding n rounds =
     sx_bind (finding_id_of finding) (\<lambda>fid.
     sx_bind new_uuid (\<lambda>attempt_id.
       let a = \<lparr>at_attempt_id = attempt_id, at_finding_id = fid, at_audit_run_id = rid, at_round = n, at_finding = finding\<rparr>
       in sx_do (sx_modify (record_validation_attempt a ''queued'' [(''finding'', PDict finding)] None))
         (sx_bind (sx_gets (validator_cancel_state cancel)) (\<lambda>cancelled.
            case cancelled of
              Some reason \<Rightarrow> record_cancelled_validator_attempt a reason
            | None \<Rightarrow> run_validator_attempt_inner start cancel rounds a))))"

section \<open>The logs of a container\<close>

text \<open>\<open>Path.read_text\<close> turns every end of a line into a line feed.\<close>

fun read_newlines :: "bool \<Rightarrow> string \<Rightarrow> string" where
  "read_newlines after_cr [] = []"
| "read_newlines after_cr (c # cs) =
     (if c = CHR 0x0D then CHR 0x0A # read_newlines True cs
      else if c = CHR 0x0A \<and> after_cr then read_newlines False cs
      else c # read_newlines False cs)"

definition file_text :: "string \<Rightarrow> runtime_world \<Rightarrow> string option" where
  "file_text path w = map_option (\<lambda>(_, t). read_newlines False t) (List.find (\<lambda>(p, _). p = path) (rev (wo_files w)))"

definition stored_log :: "string \<Rightarrow> string \<Rightarrow> runtime_world \<Rightarrow> string option" where
  "stored_log rid cid w =
     (case List.find (\<lambda>r. cr_audit_run_id r = rid \<and> cr_container_id r = cid) (wo_containers w) of
        None \<Rightarrow> None
      | Some r \<Rightarrow> (case or_stored (cr_log_artifact r) None of None \<Rightarrow> None | Some path \<Rightarrow> file_text path w))"

definition runtime_logs :: "runtime_env \<Rightarrow> string \<Rightarrow> string \<Rightarrow> string rx" where
  "runtime_logs en rid cid =
     sx_try (docker (docker_logs (oe_docker en) cid (PInt 1000) True)) (\<lambda>e.
     sx_bind (sx_gets (stored_log rid cid)) (\<lambda>found.
       case found of None \<Rightarrow> sx_raise e | Some t \<Rightarrow> sx_ret t))"

end
