(* ===== verification/Runtime_Agent_Contracts.thy ===== *)
theory Runtime_Agent_Contracts
  imports Runtime_Agents Runtime_Contracts
begin

text \<open>
  What the orchestrator does about agents and validators: no agent is ever started, so no attempt to
  validate a finding completes, and each attempt is on record with its evidence; the logs of a removed
  container are still served.
\<close>

section \<open>The rows a call leaves alone\<close>

text \<open>
  The tables of agent runs, attempts and evidence. Nothing the daemon is asked changes them, nor does
  the registration of a network.
\<close>

definition agent_tables :: "runtime_world \<Rightarrow> agent_run list \<times> validation_attempt list \<times> evidence list" where
  "agent_tables w = (agent_runs (wo_db w), wo_attempts w, evidence_rows (wo_db w))"

abbreviation keeps_tables :: "'a rx \<Rightarrow> bool" where
  "keeps_tables m \<equiv> (\<forall>T. keeps (\<lambda>w. agent_tables w = T) m)"

lemma tables_docker: "keeps (\<lambda>w. agent_tables w = T) (docker m)"
  by (simp add: keeps_def docker_def agent_tables_def split: prod.split)

lemma tables_uuid: "keeps (\<lambda>w. agent_tables w = T) new_uuid"
  by (simp add: keeps_def new_uuid_def fresh_uuid_def agent_tables_def)

lemma tables_network: "keeps (\<lambda>w. agent_tables w = T) (sx_modify (record_network rid net status))"
  by (rule keeps_modify) (simp add: agent_tables_def record_network_def split: option.split)

lemma tables_iter: "(\<And>x. keeps P (f x)) \<Longrightarrow> keeps P (sx_iter f xs)"
  by (induction xs) (auto intro: keeps_intros)

lemmas tables_intros = keeps_intros keeps_case_option tables_docker tables_uuid tables_network tables_iter

lemma tables_open_network: "keeps (\<lambda>w. agent_tables w = T) (open_agent_network en rid pid external)"
  unfolding open_agent_network_def ensure_agent_run_network_def connect_runtime_controllers_def
    disconnect_runtime_controllers_def
  by (intro tables_intros)

lemma tables_shared_input: "keeps (\<lambda>w. agent_tables w = T) (shared_agent_input_payload en rid payload)"
  unfolding shared_agent_input_payload_def by (intro tables_intros)

section \<open>No agent is started\<close>

lemma new_agent_run_refused: "\<exists>e. record_agent_run aid status input None err path w = (Inl e, w)"
  by (auto simp: record_agent_run_def sx_simps split: option.split)

lemma stored_run_refused:
  "rid \<in> ar_audit_run_id ` set (audit_runs (wo_db w)) \<Longrightarrow>
   shared_agent_input_payload en rid payload w = (Inl (no_attribute ''AuditRun'' ''config_json''), w)"
  by (auto simp: shared_agent_input_payload_def sx_simps row_find_None split: option.split)

lemma stored_runs_uuid: "audit_runs (wo_db (snd (new_uuid w))) = audit_runs (wo_db w)"
  by (simp add: new_uuid_def fresh_uuid_def)

lemma refused_wp: "(\<And>e. E e t) \<Longrightarrow> sx_wp (record_agent_run aid status input None err path) Q E t"
  using new_agent_run_refused [of aid status input err path t] by (auto simp: sx_wp_def)

lemma start_never_returns:
  "sx_wp (orchestrator_start_agent_run en templates proceed rid pid name external payload) (\<lambda>_ _. False)
     (\<lambda>_ w'. agent_tables w' = agent_tables w) w"
  unfolding orchestrator_start_agent_run_def sx_wp_bind sx_wp_do sx_wp_lift
  by (rule keeps_wpI [OF tables_uuid refl], rule keeps_wpI [OF tables_shared_input], assumption,
      rule keeps_wpI [OF tables_open_network], assumption)
    (auto split: sum.split intro: refused_wp)

lemma start_outcome:
  obtains e w' where "orchestrator_start_agent_run en templates proceed rid pid name external payload w = (Inl e, w')"
    "agent_tables w' = agent_tables w"
  using start_never_returns [of en templates proceed rid pid name external payload w]
  by (auto simp: sx_wp_def split: prod.splits sum.splits)

text \<open>C22. Starting an agent never returns: whatever the daemon, the templates and the rest of the method do,
  it raises, no agent run is stored, and for a run that is stored nothing at all has happened but the choice
  of an identifier.\<close>

theorem agents_never_start:
  "\<exists>e w'. orchestrator_start_agent_run en templates proceed rid pid name external payload w = (Inl e, w') \<and>
     agent_runs (wo_db w') = agent_runs (wo_db w) \<and>
     (rid \<in> ar_audit_run_id ` set (audit_runs (wo_db w)) \<longrightarrow> w' = snd (new_uuid w))"
proof -
  obtain e w' where failed: "orchestrator_start_agent_run en templates proceed rid pid name external payload w = (Inl e, w')"
    and tables: "agent_tables w' = agent_tables w"
    by (rule start_outcome)
  have "w' = snd (new_uuid w)" if stored: "rid \<in> ar_audit_run_id ` set (audit_runs (wo_db w))"
  proof -
    obtain u w1 where u: "new_uuid w = (Inr u, w1)" by (simp add: new_uuid_def fresh_uuid_def)
    with stored have "rid \<in> ar_audit_run_id ` set (audit_runs (wo_db w1))" using stored_runs_uuid [of w] by simp
    from stored_run_refused [OF this] failed show ?thesis
      by (simp add: orchestrator_start_agent_run_def sx_simps u)
  qed
  with failed tables show ?thesis by (auto simp: agent_tables_def)
qed

definition stored_run_world :: runtime_world where
  "stored_run_world = idle_world\<lparr>wo_db := empty_db\<lparr>audit_runs := [sample_run []]\<rparr>\<rparr>"

theorem agents_never_start_witness:
  "\<exists>e. orchestrator_start_agent_run quiet_env (\<lambda>_. Inr []) (\<lambda>_ _ _. sx_ret []) ''run-1'' ''p'' ''validator'' False [] stored_run_world =
     (Inl e, snd (new_uuid stored_run_world))"
  using agents_never_start [of quiet_env "\<lambda>_. Inr []" "\<lambda>_ _ _. sx_ret []" "''run-1''" "''p''" "''validator''" False "[]"
      stored_run_world]
  by (auto simp: stored_run_world_def sample_run_def)

section \<open>No attempt completes\<close>

definition attempt_stored :: "validation_attempt list \<Rightarrow> attempt \<Rightarrow> string \<Rightarrow> runtime_world \<Rightarrow> bool" where
  "attempt_stored old a status w =
     (\<exists>row. wo_attempts w = old @ [row] \<and> va_attempt_id row = at_attempt_id a \<and> va_finding_id row = at_finding_id a \<and>
        va_audit_run_id row = at_audit_run_id a \<and> va_agent_run_id row = None \<and> va_round_index row = at_round a \<and>
        va_status row = status)"

definition attempt_closed ::
  "validation_attempt list \<Rightarrow> evidence list \<Rightarrow> attempt \<Rightarrow> string \<Rightarrow> string \<Rightarrow> runtime_world \<Rightarrow> bool" where
  "attempt_closed old old_evidence a status kind w =
     (attempt_stored old a status w \<and>
      (\<exists>e. evidence_rows (wo_db w) = old_evidence @ [e] \<and> ev_kind e = kind \<and> ev_finding_id e = at_finding_id a \<and>
         ev_audit_run_id e = at_audit_run_id a))"

lemma stamped_attempt [simp]:
  "va_attempt_id (stamped t old new) = va_attempt_id new" "va_finding_id (stamped t old new) = va_finding_id new"
  "va_audit_run_id (stamped t old new) = va_audit_run_id new" "va_agent_run_id (stamped t old new) = va_agent_run_id new"
  "va_round_index (stamped t old new) = va_round_index new" "va_status (stamped t old new) = va_status new"
  by (simp_all add: stamped_def)

lemma row_upd_new: "k \<notin> key ` set rows \<Longrightarrow> row_upd key k f (rows @ [r]) = rows @ [if key r = k then f r else r]"
  by (induction rows) auto

lemma attempt_first:
  "at_attempt_id a \<notin> va_attempt_id ` set (wo_attempts w) \<Longrightarrow>
   attempt_stored (wo_attempts w) a status (record_validation_attempt a status result None w)"
  using row_find_None [of va_attempt_id "at_attempt_id a" "wo_attempts w"]
  by (simp add: attempt_stored_def record_validation_attempt_def)

lemma attempt_again:
  assumes "attempt_stored old a s w" "at_attempt_id a \<notin> va_attempt_id ` set old"
  shows "attempt_stored old a status (record_validation_attempt a status result None w)"
proof -
  obtain row where row: "wo_attempts w = old @ [row]" "va_attempt_id row = at_attempt_id a"
    using assms(1) by (auto simp: attempt_stored_def)
  have "row_find va_attempt_id (at_attempt_id a) (wo_attempts w) = Some row"
    using assms(2) row row_find_None [of va_attempt_id "at_attempt_id a" old] by (simp add: row_find_append)
  then show ?thesis using assms row
    by (auto simp: attempt_stored_def record_validation_attempt_def row_upd_new or_stored_def)
qed

lemma attempt_evidence [simp]: "evidence_rows (wo_db (record_validation_attempt a status result i w)) = evidence_rows (wo_db w)"
  by (simp add: record_validation_attempt_def split: option.split)

lemma attempt_tables: "attempt_stored old a s w \<Longrightarrow> agent_tables w' = agent_tables w \<Longrightarrow> attempt_stored old a s w'"
  by (simp add: attempt_stored_def agent_tables_def)

lemma evidence_wp:
  assumes "attempt_stored old a s w" "evidence_rows (wo_db w) = old_evidence"
    and "\<And>w'. attempt_closed old old_evidence a s kind w' \<Longrightarrow> Q () w'"
  shows "sx_wp (record_validation_evidence a kind summary payload) Q E w"
  using assms(1,2)
  by (auto simp: record_validation_evidence_def new_uuid_def fresh_uuid_def sx_wp_def sx_simps
      intro!: assms(3) simp: attempt_closed_def attempt_stored_def)

lemma cancelled_wp:
  assumes "attempt_stored old a s w" "at_attempt_id a \<notin> va_attempt_id ` set old" "evidence_rows (wo_db w) = old_evidence"
  shows "sx_wp (record_cancelled_validator_attempt a reason)
    (\<lambda>out w'. attempt_closed old old_evidence a ''cancelled'' ''validator-cancelled'' w' \<and> dget out ''status'' = PStr ''cancelled'')
    E w"
  unfolding record_cancelled_validator_attempt_def Let_def sx_wp_do sx_wp_modify
  by (rule evidence_wp [OF attempt_again [OF assms(1,2)]]) (simp_all add: assms(3) dget_def)

lemma failed_wp:
  assumes "attempt_stored old a s w" "at_attempt_id a \<notin> va_attempt_id ` set old" "evidence_rows (wo_db w) = old_evidence"
  shows "sx_wp (failed_validator_attempt a e) Q
    (\<lambda>_. attempt_closed old old_evidence a ''failed'' ''validator-error'') w"
  unfolding failed_validator_attempt_def sx_wp_do sx_wp_modify
  by (rule evidence_wp [OF attempt_again [OF assms(1,2)]]) (simp_all add: assms(3))

lemma inner_wp:
  assumes "attempt_stored old a s w" "at_attempt_id a \<notin> va_attempt_id ` set old" "evidence_rows (wo_db w) = old_evidence"
    and "\<And>payload w. \<exists>e w'. start payload w = (Inl e, w') \<and> agent_tables w' = agent_tables w"
  shows "sx_wp (run_validator_attempt_inner start cancel rounds a)
    (\<lambda>out w'. attempt_closed old old_evidence a ''cancelled'' ''validator-cancelled'' w' \<and> dget out ''status'' = PStr ''cancelled'')
    (\<lambda>_. attempt_closed old old_evidence a ''failed'' ''validator-error'') w"
proof (cases "validator_cancel_state cancel w")
  case (Some reason)
  then show ?thesis
    using cancelled_wp [OF assms(1-3)] by (simp add: run_validator_attempt_inner_def)
next
  case None
  let ?w1 = "record_validation_attempt a ''running'' [(''finding'', PDict (at_finding a))] None w"
  obtain e w' where start: "start (validator_payload a rounds) ?w1 = (Inl e, w')" and same: "agent_tables w' = agent_tables ?w1"
    using assms(4) by blast
  have "attempt_stored old a ''running'' w'" by (rule attempt_tables [OF attempt_again [OF assms(1,2)] same])
  moreover have "evidence_rows (wo_db w') = old_evidence" using same assms(3) by (simp add: agent_tables_def)
  ultimately show ?thesis
    using None failed_wp [OF _ assms(2)] by (simp add: run_validator_attempt_inner_def sx_wp_def [of "start _"] start)
qed

lemma finding_named:
  "\<exists>fid w1. finding_id_of finding w = (Inr fid, w1) \<and> agent_tables w1 = agent_tables w \<and>
     db_uuids (wo_db w1) = db_uuids (wo_db w)"
  by (simp add: finding_id_of_def Let_def sx_simps new_uuid_def fresh_uuid_def agent_tables_def)

lemma validator_wp:
  assumes "\<And>payload w. \<exists>e w'. start payload w = (Inl e, w') \<and> agent_tables w' = agent_tables w"
    and "\<And>n. db_uuids (wo_db w) n \<notin> va_attempt_id ` set (wo_attempts w)"
  shows "sx_wp (run_validator_attempt start cancel rid finding n rounds)
    (\<lambda>out w'. (\<exists>a. at_audit_run_id a = rid \<and> at_round a = n \<and> at_finding a = finding \<and>
        attempt_closed (wo_attempts w) (evidence_rows (wo_db w)) a ''cancelled'' ''validator-cancelled'' w') \<and>
      dget out ''status'' = PStr ''cancelled'')
    (\<lambda>_ w'. \<exists>a. at_audit_run_id a = rid \<and> at_round a = n \<and> at_finding a = finding \<and>
        attempt_closed (wo_attempts w) (evidence_rows (wo_db w)) a ''failed'' ''validator-error'' w') w"
proof -
  obtain fid w1 where w1: "finding_id_of finding w = (Inr fid, w1)" "agent_tables w1 = agent_tables w"
      "db_uuids (wo_db w1) = db_uuids (wo_db w)"
    using finding_named [of finding w] by (elim exE conjE) (rule that)
  obtain u w2 where w2: "new_uuid w1 = (Inr u, w2)" "agent_tables w2 = agent_tables w"
      "u \<notin> va_attempt_id ` set (wo_attempts w)"
    using w1 assms(2) by (auto simp: new_uuid_def fresh_uuid_def agent_tables_def)
  define a where "a = \<lparr>at_attempt_id = u, at_finding_id = fid, at_audit_run_id = rid, at_round = n, at_finding = finding\<rparr>"
  have a: "at_attempt_id a \<notin> va_attempt_id ` set (wo_attempts w)" "at_audit_run_id a = rid" "at_round a = n" "at_finding a = finding"
    using w2 by (simp_all add: a_def)
  have rows: "wo_attempts w2 = wo_attempts w" "evidence_rows (wo_db w2) = evidence_rows (wo_db w)"
    using w2(2) by (simp_all add: agent_tables_def)
  let ?w3 = "record_validation_attempt a ''queued'' [(''finding'', PDict finding)] None w2"
  have stored: "attempt_stored (wo_attempts w) a ''queued'' ?w3"
    using attempt_first [of a w2] a(1) rows(1) by simp
  have evidence: "evidence_rows (wo_db ?w3) = evidence_rows (wo_db w)" by (simp add: rows)
  show ?thesis
  proof (cases "validator_cancel_state cancel ?w3")
    case (Some reason)
    with cancelled_wp [OF stored a(1) evidence, of reason] show ?thesis
      unfolding run_validator_attempt_def
      by (simp add: sx_wp_def [of "finding_id_of _"] w1 sx_wp_def [of new_uuid] w2 Let_def flip: a_def)
        (rule sx_wp_mono, assumption, use a in auto)
  next
    case None
    with inner_wp [where start = start and cancel = cancel and rounds = rounds, OF stored a(1) evidence assms(1)] show ?thesis
      unfolding run_validator_attempt_def
      by (simp add: sx_wp_def [of "finding_id_of _"] w1 sx_wp_def [of new_uuid] w2 Let_def flip: a_def)
        (rule sx_wp_mono, assumption, use a in auto)
  qed
qed

text \<open>C23. As no agent starts, no attempt to validate a finding completes: with fresh identifiers a call adds
  exactly one attempt and one evidence, of the run, the round and the same finding, without an agent run;
  the attempt is cancelled, with the evidence of that, when the call returns, and failed when it raises.\<close>

theorem attempts_never_complete:
  assumes "run_validator_attempt (orchestrator_start_agent_run en templates proceed rid pid name external) cancel rid finding n rounds w = (r, w')"
    and "\<And>i. db_uuids (wo_db w) i \<notin> va_attempt_id ` set (wo_attempts w)"
  shows "\<exists>a e. wo_attempts w' = wo_attempts w @ [a] \<and> evidence_rows (wo_db w') = evidence_rows (wo_db w) @ [e] \<and>
    va_audit_run_id a = rid \<and> va_round_index a = n \<and> va_agent_run_id a = None \<and> ev_audit_run_id e = rid \<and>
    ev_finding_id e = va_finding_id a \<and>
    (case r of
       Inl _ \<Rightarrow> va_status a = ''failed'' \<and> ev_kind e = ''validator-error''
     | Inr out \<Rightarrow> va_status a = ''cancelled'' \<and> ev_kind e = ''validator-cancelled'' \<and> dget out ''status'' = PStr ''cancelled'')"
proof -
  have start: "\<exists>e v'. orchestrator_start_agent_run en templates proceed rid pid name external payload v = (Inl e, v') \<and>
      agent_tables v' = agent_tables v" for payload v
    by (rule start_outcome) blast
  have wp: "case r of
      Inl _ \<Rightarrow> \<exists>a. at_audit_run_id a = rid \<and> at_round a = n \<and> at_finding a = finding \<and>
        attempt_closed (wo_attempts w) (evidence_rows (wo_db w)) a ''failed'' ''validator-error'' w'
    | Inr out \<Rightarrow> (\<exists>a. at_audit_run_id a = rid \<and> at_round a = n \<and> at_finding a = finding \<and>
        attempt_closed (wo_attempts w) (evidence_rows (wo_db w)) a ''cancelled'' ''validator-cancelled'' w') \<and>
        dget out ''status'' = PStr ''cancelled''"
    using validator_wp [where start = "orchestrator_start_agent_run en templates proceed rid pid name external" and cancel = cancel
        and rid = rid and finding = finding and n = n and rounds = rounds, OF start assms(2)] assms(1)
    by (simp add: sx_wp_def split: sum.splits)
  show ?thesis
    using wp by (cases r) (fastforce simp: attempt_closed_def attempt_stored_def)+
qed

theorem attempts_never_complete_witness:
  "\<exists>a. wo_attempts (snd (run_validator_attempt (orchestrator_start_agent_run quiet_env (\<lambda>_. Inr []) (\<lambda>_ _ _. sx_ret []) ''run-1'' ''p'' ''validator'' False)
      None ''run-1'' [] 1 1 stored_run_world)) = [a] \<and> va_agent_run_id a = None \<and> va_status a \<in> {''failed'', ''cancelled''}"
proof -
  obtain r w' where run: "run_validator_attempt
      (orchestrator_start_agent_run quiet_env (\<lambda>_. Inr []) (\<lambda>_ _ _. sx_ret []) ''run-1'' ''p'' ''validator'' False) None ''run-1'' [] 1 1
      stored_run_world = (r, w')" by fastforce
  have none: "wo_attempts stored_run_world = []" by (simp add: stored_run_world_def idle_world_def)
  from attempts_never_complete [OF run] obtain a where "wo_attempts w' = [a]" "va_agent_run_id a = None"
      "va_status a \<in> {''failed'', ''cancelled''}"
    by (cases r) (auto simp: none)
  then show ?thesis by (simp add: run)
qed

section \<open>Logs outlive their container\<close>

text \<open>What is written to the log file of a container: its output, or why there is none.\<close>

definition captured_text :: "string res \<Rightarrow> string" where
  "captured_text reply =
     (case reply of Inr t \<Rightarrow> t | Inl e \<Rightarrow> ''Failed to read Docker logs before cleanup: '' @ exc_str e @ [CHR 0x0A])"

lemma file_text_written: "wo_files w = fs @ [(path, t)] \<Longrightarrow> file_text path w = Some (read_newlines False t)"
  by (simp add: file_text_def)

lemma find_row_upd:
  "(\<And>r. P (f r) = P r) \<Longrightarrow> (\<And>r. P r \<Longrightarrow> key r = k) \<Longrightarrow> List.find P (row_upd key k f rows) = map_option f (List.find P rows)"
  by (induction rows) auto

lemma stamped_log_row [simp]:
  "cr_audit_run_id (stamped t old new) = cr_audit_run_id new" "cr_container_id (stamped t old new) = cr_container_id new"
  "cr_log_artifact (stamped t old new) = cr_log_artifact new"
  by (simp_all add: stamped_def)

lemma container_state_simps [simp]:
  "cr_audit_run_id (with_container_state status code p r) = cr_audit_run_id r"
  "cr_container_id (with_container_state status code p r) = cr_container_id r"
  "path \<noteq> [] \<Longrightarrow> cr_log_artifact (with_container_state status code (Some path) r) = Some path"
  by (simp_all add: with_container_state_def)

lemma stored_log_marked:
  assumes "List.find (\<lambda>r. cr_audit_run_id r = rid \<and> cr_container_id r = cid) (wo_containers w) = Some row" and "path \<noteq> []"
  shows "stored_log rid cid (mark_container_state cid status code (Some path) w) = file_text path w"
proof -
  let ?f = "\<lambda>r. stamped (wo_now w) r (with_container_state status code (Some path) r)"
  have "List.find (\<lambda>r. cr_audit_run_id r = rid \<and> cr_container_id r = cid) (row_upd cr_container_id cid ?f (wo_containers w)) =
      Some (?f row)"
    using assms(1) by (subst find_row_upd) simp_all
  then show ?thesis using assms(2)
    by (simp add: stored_log_def mark_container_state_def or_stored_def file_text_def)
qed

lemma stored_log_requests [simp]: "stored_log rid cid (w\<lparr>wo_requests := h\<rparr>) = stored_log rid cid w"
  by (simp add: stored_log_def file_text_def cong: option.case_cong)

lemma log_file_named: "log_file en rid cid name \<noteq> []"
  by (simp add: log_file_def Let_def)

lemma exit_code_rows: "container_exit_code en cid w = (r, w1) \<Longrightarrow> wo_containers w1 = wo_containers w"
  by (auto simp: container_exit_code_def docker_def sx_simps Let_def split: prod.splits sum.splits if_splits)

lemma capture_logs_run:
  "docker_logs (oe_docker en) cid (PStr ''all'') True (wo_requests v) = (reply, g) \<Longrightarrow>
   capture_container_logs en rid cid name v =
     (case oe_write en (log_file en rid cid name) of
        Inl e \<Rightarrow> (Inl e, v\<lparr>wo_requests := g\<rparr>)
      | Inr _ \<Rightarrow> (Inr (log_file en rid cid name),
          v\<lparr>wo_requests := g, wo_files := wo_files v @ [(log_file en rid cid name, captured_text reply)]\<rparr>))"
  by (simp add: capture_container_logs_def write_file_def docker_def Let_def sx_simps captured_text_def split: sum.split)

lemma remove_marks:
  "remove_and_mark en cid code p u = (Inr (), w1) \<Longrightarrow>
   \<exists>f. w1 = mark_container_state cid ''removed'' code p (u\<lparr>wo_requests := f\<rparr>)"
  by (auto simp: remove_and_mark_def docker_def sx_simps split: prod.splits sum.splits)

text \<open>C24. The logs of a container outlive it: when its removal has returned and the daemon no longer gives
  its logs, they are served from the file, as the daemon gave them before the removal (or the reason why
  it did not), but for the ends of the lines.\<close>

theorem captured_logs_served:
  assumes "capture_and_remove_container en rid cid name w = (Inr path, w1)"
    and "List.find (\<lambda>r. cr_audit_run_id r = rid \<and> cr_container_id r = cid) (wo_containers w) = Some row"
    and "docker_logs (oe_docker en) cid (PInt 1000) True (wo_requests w1) = (Inl e, h)"
  shows "fst (runtime_logs en rid cid w1) =
    Inr (read_newlines False (captured_text
      (fst (docker_logs (oe_docker en) cid (PStr ''all'') True (wo_requests (snd (container_exit_code en cid w)))))))"
proof -
  obtain code v where code: "container_exit_code en cid w = (Inr code, v)"
    using assms(1) by (auto simp: capture_and_remove_container_def sx_bind_def split: prod.splits sum.splits)
  obtain reply g where logs: "docker_logs (oe_docker en) cid (PStr ''all'') True (wo_requests v) = (reply, g)" by fastforce
  let ?path = "log_file en rid cid name"
  let ?u = "v\<lparr>wo_requests := g, wo_files := wo_files v @ [(?path, captured_text reply)]\<rparr>"
  have "remove_and_mark en cid code (Some ?path) ?u = (Inr (), w1)"
    using assms(1) code capture_logs_run [OF logs, of rid name]
    by (auto simp: capture_and_remove_container_def sx_bind_def sx_do_def sx_ret_def split: prod.splits sum.splits)
  then obtain f where w1: "w1 = mark_container_state cid ''removed'' code (Some ?path) (?u\<lparr>wo_requests := f\<rparr>)"
    using remove_marks by blast
  have "wo_containers v = wo_containers w" using exit_code_rows [OF code] .
  then have "stored_log rid cid w1 = Some (read_newlines False (captured_text reply))"
    unfolding w1
    by (subst stored_log_marked [OF _ log_file_named]) (use assms(2) in \<open>auto simp: file_text_written\<close>)
  with assms(3) show ?thesis
    by (simp add: runtime_logs_def sx_simps docker_def code logs)
qed

definition gone_daemon :: daemon where
  "gone_daemon h r =
     (if drop (length (dq_path r) - 5) (dq_path r) = ''/logs'' then
        (if dget (dq_params r) ''tail'' = PInt 1000 then Some (404, ''gone'') else Some (200, [CHR ''a'', CHR 0x0D, CHR 0x0A]))
      else Some (404, ''no such container''))"

definition gone_env :: runtime_env where
  "gone_env = quiet_env\<lparr>oe_docker := \<lparr>dk_daemon = gone_daemon, dk_loads = (\<lambda>_. None), dk_decode = id\<rparr>\<rparr>"

definition one_container_world :: runtime_world where
  "one_container_world = record_container ''r'' ''p'' None ''c'' (Some ''n'') ''i'' ''poc'' [] ''running'' idle_world"

theorem captured_logs_served_witness:
  "\<exists>path w1. capture_and_remove_container gone_env ''r'' ''c'' (Some ''n'') one_container_world = (Inr path, w1) \<and>
     fst (runtime_logs gone_env ''r'' ''c'' w1) = Inr [CHR ''a'', CHR 0x0A]"
proof -
  have short: "\<not> frame_ok [CHR ''a'', CHR 0x0D, CHR 0x0A]" by (simp add: frame_ok_def)
  have logs: "docker_logs (oe_docker gone_env) ''c'' (PStr ''all'') True h =
      (Inr [CHR ''a'', CHR 0x0D, CHR 0x0A], h @ [\<lparr>dq_method = ''GET'', dq_path = ''/containers/c/logs'',
        dq_params = [(''stdout'', PInt 1), (''stderr'', PInt 1), (''tail'', PStr ''all''), (''timestamps'', PInt 1)],
        dq_body = PNone\<rparr>])" for h
    by (simp add: docker_logs_def docker_send_def gone_env_def gone_daemon_def decode_log_stream_def short
        log_frames.simps [of "[CHR ''a'', CHR 0x0D, CHR 0x0A]"] dget_def sx_simps)
  have gone: "\<exists>e h'. docker_logs (oe_docker gone_env) ''c'' (PInt 1000) True h = (Inl e, h')" for h
    by (simp add: docker_logs_def docker_send_def gone_env_def gone_daemon_def dget_def sx_simps)
  obtain code v where code: "container_exit_code gone_env ''c'' one_container_world = (Inr code, v)"
    by (simp add: container_exit_code_def docker_def inspect_container_def docker_call_def docker_send_def gone_env_def
        gone_daemon_def sx_simps)
  have marked: "\<exists>u'. remove_and_mark gone_env ''c'' code p u = (Inr (), u')" for p u
    by (simp add: remove_and_mark_def docker_def remove_container_def on_api_error_def docker_call_def docker_send_def
        http_error_def gone_env_def gone_daemon_def sx_simps)
  have written: "oe_write gone_env path = Inr ()" for path by (simp add: gone_env_def quiet_env_def)
  obtain w1 where removed: "capture_and_remove_container gone_env ''r'' ''c'' (Some ''n'') one_container_world =
      (Inr (log_file gone_env ''r'' ''c'' (Some ''n'')), w1)"
  proof -
    let ?p = "log_file gone_env ''r'' ''c'' (Some ''n'')"
    obtain u where u: "capture_container_logs gone_env ''r'' ''c'' (Some ''n'') v = (Inr ?p, u)"
      by (simp add: capture_logs_run [OF logs] written)
    obtain u' where "remove_and_mark gone_env ''c'' code (Some ?p) u = (Inr (), u')" using marked by blast
    then show thesis
      by (intro that) (simp add: capture_and_remove_container_def sx_bind_def sx_do_def sx_ret_def code u)
  qed
  obtain e h where "docker_logs (oe_docker gone_env) ''c'' (PInt 1000) True (wo_requests w1) = (Inl e, h)"
    using gone by blast
  from captured_logs_served [OF removed _ this] removed show ?thesis
    by (simp add: code logs captured_text_def one_container_world_def record_container_def idle_world_def)
qed

end
