(* ===== verification/Spec2Isabelle.thy ===== *)
theory Spec2Isabelle
  imports Executor_Platform Worker_Fleet Platform_Contracts Whiteboard_Gaps Agent_Output_Contracts Access_Contracts
    Access_Artifacts Storage_Contracts Workspace_Contracts Workflow_Contracts Web_Contracts
    Readiness_Contracts Triage_Contracts Sandbox_Compose Runtime_Cleanup_Contracts Runtime_Agent_Contracts
begin

text \<open>
  DieAudit audits code with agents. Users create projects and audit runs; a run is queued, a worker
  claims it and takes it through a pipeline of stages; the stages start agents in containers, which
  write findings and talk over a whiteboard; findings are triaged, validated, judged and reported; and
  what a run leaves behind, containers, networks, files, is cleaned up. The repository has this twice:
  as one service (\<open>src/services/platform\<close>) and split into services over a shared package
  (\<open>web-api\<close>, \<open>workflow-worker\<close>, \<open>platform-common\<close>). Both are modelled, the first in more depth.

  How the code is rendered. A Python call that returns or raises is \<open>'a res\<close>, a sum of \<open>pyexc\<close> and the
  value. A call with a state is \<open>('s, 'a) sx\<close>, whose effects stay when it raises, or \<open>('s, 'a) tx\<close>, a database
  session that is rolled back. Rows of the database are records, tables are lists of rows; JSON
  documents are \<open>pyval\<close>, with dictionaries in insertion order. Times are microseconds since the epoch.
  Names are those of the source; a definition that cuts a piece out of a longer function is named after
  what it does, and the manifest has its lines.

  \<^bold>\<open>Foundations.\<close>
  \<^item> \<open>Prelude\<close>: exceptions, the effects and their rules (\<open>sx_wp\<close>, \<open>keeps\<close>, collection \<open>keeps_intros\<close>), tables.
  \<^item> \<open>Py_Values\<close>, \<open>Py_Time\<close>: Python's operations on values and strings, and ISO times.
  \<^item> \<open>Domain_Models\<close>, \<open>Serializers\<close>: rows and their views (\<open>platform/app/domain/models.py\<close>,
    \<open>api/serializers.py\<close>).

  \<^bold>\<open>The pipeline of the platform.\<close>
  \<^item> \<open>Agent_Registry\<close> (\<open>runtime/agent_runtime_registry.py\<close>), \<open>Artifact_Paths\<close> (\<open>services/artifacts.py\<close>),
    \<open>Run_Store\<close> (the callbacks of \<open>api/routes.py\<close> on the row and the events of a run).
  \<^item> \<open>Pipeline_Config\<close>, \<open>Pipeline_Quality\<close>, \<open>Pipeline_Executor\<close> (\<open>services/pipeline_executor.py\<close>): switches,
    warnings, and \<open>execute\<close> with all its stages and handlers over a record of callbacks.
  \<^item> \<open>Executor_Invariants\<close>, \<open>Executor_Store\<close>, \<open>Executor_Platform\<close>: the locale \<open>run_store\<close> states what the executor
    relies on, and the platform's callbacks interpret it. The lemmas show that a run ends in a terminal
    status and that a cancellation is not overruled.
  \<^item> \<open>Worker_Fleet\<close> (\<open>services/pipeline_queue.py\<close>, \<open>worker_heartbeat.py\<close>, \<open>pipeline_recovery.py\<close>, \<open>worker.py\<close>): claims
    of interleaved workers, heartbeats, recovery.
  \<^item> \<open>Readiness\<close>, \<open>Readiness_Contracts\<close> (\<open>api/readiness.py\<close>): the report, and its agreement with recovery.
  \<^item> \<open>Platform_Contracts\<close>: artifact names, stored payloads, requests to cancel.

  \<^bold>\<open>Findings.\<close>
  \<^item> \<open>Agent_Output\<close>, \<open>Agent_Output_Contracts\<close> (\<open>services/agent_output.py\<close>, \<open>finding_dedupe.py\<close>): from the output
    of an agent to rows, without repetition.
  \<^item> \<open>Whiteboard_Views\<close>, \<open>Whiteboard_Service\<close>, \<open>Whiteboard_Scheduling\<close> (\<open>services/whiteboard.py\<close>): the operations.
    \<open>Whiteboard_Invariant\<close>, \<open>Whiteboard_Operations\<close>, \<open>Whiteboard_Board\<close>: the invariant of the board (keys,
    and the references the service looks up; ids it stores unchecked are not part of it), that every
    sequence of calls keeps it, that a call is one transaction whose snapshot alone can fail after it, and
    which calls rewrite the snapshot. \<open>Whiteboard_Policy\<close>, \<open>Whiteboard_Gaps\<close>: what single operations promise.
  \<^item> \<open>Finding_Triage\<close>, \<open>Triage_Contracts\<close> (\<open>api/routes.py\<close>): candidate cards become findings, their value is
    triaged, findings are judged; each once, and for good.

  \<^bold>\<open>Access, files and storage.\<close>
  \<^item> \<open>Access_Guards\<close>, \<open>Access_Middleware\<close>, \<open>Access_Resources\<close> (\<open>services/http_guards.py\<close>, \<open>auth.py\<close>, \<open>main.py\<close>,
    \<open>api/routes.py\<close>) with \<open>Access_Contracts\<close> and \<open>Access_Artifacts\<close>: who reaches a route and a file. The rows that refer to a
    file are stated there row by row (\<open>refers\<close>), apart from the code's search for them.
  \<^item> \<open>Workspace_Import\<close>, \<open>Workspace_Contracts\<close> (\<open>services/workspace.py\<close>); \<open>Storage_Cleanup\<close>, \<open>Storage_Contracts\<close>
    (\<open>services/storage_cleanup.py\<close>): what imports and cleanups do to a file system.

  \<^bold>\<open>Containers.\<close>
  \<^item> \<open>Docker_Client\<close> (\<open>integrations/docker/client.py\<close>): every call, over the list of requests sent so far. The
    rules \<open>sends_intros\<close> derive which requests a composed call can make.
  \<^item> \<open>Sandbox_Compose\<close> (\<open>api/routes.py\<close>, \<open>schemas/runtime.py\<close>): a compose file as the request for one service.
  \<^item> \<open>Runtime_World\<close>, \<open>Runtime_Sandbox\<close>, \<open>Runtime_Cleanup\<close>, \<open>Runtime_Agents\<close> (\<open>runtime/orchestrator.py\<close>): the state of the
    orchestrator (rows, requests to the daemon, files written), sandboxes and proofs of concept, cleanup and
    reconciliation, agents up to their first container, attempts of validators, logs.
  \<^item> \<open>Runtime_Contracts\<close>, \<open>Runtime_Cleanup_Contracts\<close>, \<open>Runtime_Agent_Contracts\<close>: containers are hardened, with the one
    host directory they may write pinned through the gateway's mounts (\<open>artifact_source\<close>), proofs of
    concept leave none, cleanups remove what they should and spare what is at work, no agent starts and
    no validation completes (the code names columns its models do not have), logs outlive containers.
    The locale \<open>quiet_requests\<close> collects the calls that only ask and record; it is interpreted for hardened
    requests, for requests that create nothing and for any request.

  \<^bold>\<open>The split services.\<close>
  \<^item> \<open>Flow_Models\<close>, \<open>Flow_Store\<close>, \<open>Flow_World\<close> (\<open>platform-common/dieaudit_common\<close>): shared tables, repositories, and
    the interleaved transactions of users and workers.
  \<^item> \<open>Stage_Registry\<close>, \<open>Stage_Order\<close>, \<open>Stage_Runner\<close>, \<open>Flow_Pipeline\<close> (\<open>workflow-worker/app\<close>): the graph of the stages
    and its order, the adapters, the executor and the worker. \<open>Flow_Invariants\<close>, \<open>Flow_Contracts\<close>,
    \<open>Flow_Cancel\<close>, \<open>Flow_Returns\<close>, \<open>Flow_Outcome\<close>, \<open>Flow_Worker\<close>, \<open>Workflow_Contracts\<close>: how pipelines end.
  \<^item> \<open>Web_Views\<close>, \<open>Execution_Graph\<close>, \<open>Web_Profiles\<close>, \<open>Web_Runs\<close>, \<open>Web_Session\<close> (\<open>web-api/app\<close>) with \<open>Graph_Contracts\<close> and
    \<open>Web_Contracts\<close>: views, the execution graph, model profiles, runs and sessions.

  \<^bold>\<open>What is a parameter.\<close> Code the repository does not have: the JSON and YAML readers, \<open>fromisoformat\<close>, hashes
  and name-based identifiers, archive readers and git, the docker daemon (a function of all requests so
  far, so that its answers may change), the answers of the other services, file writes, and the agents
  and tools behind the callbacks. Random identifiers are a sequence in the state; where a property needs
  them fresh it says so.

  \<^bold>\<open>Bounds.\<close> The loops that poll a container until it stops or is healthy take the number of rounds the timeout
  leaves (\<open>oe_rounds\<close> in the orchestrator); no property rests on its value, and running out of it is the
  timeout of the code, an outcome like any other. The turns of a worker are a number too; that as many as
  there are queued runs are enough is part of the property about the queue. All other recursion is
  structural or has a measure.

  \<^bold>\<open>Not modelled.\<close> Most routes of \<open>platform/app/api/routes.py\<close> and of \<open>web-api\<close>, which pass requests on; the MinIO
  client; in the orchestrator the containers of agents and MCP servers, ACP sessions, tool runs and the
  probe of tool images, which live on calls to other programs; the files of an agent's runtime package; the
  knowledge base and its vector store; the wrappers of analysers and decompilers; the MCP tools and the
  agent programs; settings, templates, migrations and entry points. Strings are ASCII, column widths
  are not enforced, floating point is a parameter where it matters, and how the ORM reloads rows after a
  commit is left out unless a text says otherwise.
\<close>

end
